(* ===== verification/Prelude.thy ===== *)
theory Prelude
  imports Main "HOL-Library.AList" "HOL-Library.Word" "HOL-Library.List_Lexorder" "HOL-Library.Char_ord"
begin

text \<open>
  Vocabulary shared by every component of the fleet model: machine integers and clock
  values, Rust's \<open>HashMap\<close> as an association list, fallible results as sums, and the
  fact collections the component proofs draw on.

  A \<open>HashMap\<close> is a list of key/value pairs. The list order stands for the iteration
  order of the Rust map, which is unspecified; every theorem quantifies over the whole list, so
  it holds for every iteration order. Keys are distinct in a well-formed map (\<open>hm_ok\<close>).
\<close>

named_theorems store_defs \<open>definitions of the store operations\<close>
named_theorems inv_intro \<open>preservation facts for store invariants\<close>

section \<open>Integers, time, results\<close>

type_synonym u32 = "32 word"
type_synonym u64 = "64 word"
type_synonym uuid = "128 word"

text \<open>
  \<open>DateTime<Utc>\<close> and chrono's signed durations are integers (nanoseconds);
  \<open>std::time::Duration\<close> and \<open>Instant\<close> are naturals (nanoseconds), for which
  \<open>duration_since\<close> saturates at zero exactly as subtraction on \<open>nat\<close> does.
\<close>

type_synonym datetime = int
type_synonym timedelta = int
type_synonym duration = nat
type_synonym instant = nat

definition secs :: "nat \<Rightarrow> duration" where
  "secs n = n * 10 ^ 9"

text \<open>A signed 64-bit increment in a release build: it wraps at the largest value.\<close>

definition i64_max :: int where
  "i64_max = 2 ^ 63 - 1"

definition i64_succ :: "int \<Rightarrow> int" where
  "i64_succ n = (if n = i64_max then - (2 ^ 63) else n + 1)"

lemma i64_succ_less: "n < i64_max \<Longrightarrow> i64_succ n = n + 1"
  by (simp add: i64_succ_def)

lemma i64_succ_neq [simp]: "i64_succ n \<noteq> n" "n \<noteq> i64_succ n"
  by (auto simp: i64_succ_def i64_max_def)

type_synonym ('e, 'a) result = "'e + 'a"

definition is_ok :: "('e, 'a) result \<Rightarrow> bool" where
  "is_ok r = (case r of Inl _ \<Rightarrow> False | Inr _ \<Rightarrow> True)"

lemma is_ok_simps [simp]: "is_ok (Inl e) = False" "is_ok (Inr a) = True"
  by (simp_all add: is_ok_def)

section \<open>Hash maps\<close>

type_synonym ('k, 'v) hmap = "('k \<times> 'v) list"

definition hm_ok :: "('k, 'v) hmap \<Rightarrow> bool" where
  "hm_ok m = distinct (map fst m)"

definition hm_get :: "('k, 'v) hmap \<Rightarrow> 'k \<Rightarrow> 'v option" where
  "hm_get m k = map_of m k"

definition hm_contains :: "('k, 'v) hmap \<Rightarrow> 'k \<Rightarrow> bool" where
  "hm_contains m k = (hm_get m k \<noteq> None)"

definition hm_insert :: "'k \<Rightarrow> 'v \<Rightarrow> ('k, 'v) hmap \<Rightarrow> ('k, 'v) hmap" where
  "hm_insert k v m = AList.update k v m"

definition hm_remove :: "'k \<Rightarrow> ('k, 'v) hmap \<Rightarrow> ('k, 'v) hmap" where
  "hm_remove k m = AList.delete k m"

text \<open>\<open>get_mut\<close> followed by an assignment through the reference.\<close>

definition hm_adjust :: "'k \<Rightarrow> ('v \<Rightarrow> 'v) \<Rightarrow> ('k, 'v) hmap \<Rightarrow> ('k, 'v) hmap" where
  "hm_adjust k f m = map (\<lambda>(k', v). (k', if k' = k then f v else v)) m"

text \<open>\<open>values()\<close>, \<open>values_mut()\<close> in a loop, and \<open>retain\<close>.\<close>

definition hm_values :: "('k, 'v) hmap \<Rightarrow> 'v list" where
  "hm_values m = map snd m"

definition hm_map_values :: "('v \<Rightarrow> 'v) \<Rightarrow> ('k, 'v) hmap \<Rightarrow> ('k, 'v) hmap" where
  "hm_map_values f m = map (\<lambda>(k, v). (k, f v)) m"

definition hm_retain :: "('k \<Rightarrow> 'v \<Rightarrow> bool) \<Rightarrow> ('k, 'v) hmap \<Rightarrow> ('k, 'v) hmap" where
  "hm_retain P m = filter (\<lambda>(k, v). P k v) m"

lemma hm_get_Nil [simp]: "hm_get [] k = None"
  by (simp add: hm_get_def)

lemma hm_ok_Nil [simp]: "hm_ok []"
  by (simp add: hm_ok_def)

lemma hm_get_insert [simp]: "hm_get (hm_insert k v m) k' = (if k' = k then Some v else hm_get m k')"
  by (simp add: hm_get_def hm_insert_def update_conv')

lemma hm_get_remove [simp]: "hm_get (hm_remove k m) k' = (if k' = k then None else hm_get m k')"
  by (simp add: hm_get_def hm_remove_def delete_conv')

lemma hm_get_adjust [simp]:
  "hm_get (hm_adjust k f m) k' = (if k' = k then map_option f (hm_get m k) else hm_get m k')"
  by (induction m) (auto simp: hm_get_def hm_adjust_def)

lemma hm_get_map_values [simp]: "hm_get (hm_map_values f m) k = map_option f (hm_get m k)"
  by (induction m) (auto simp: hm_get_def hm_map_values_def)

lemma hm_ok_insert [simp]: "hm_ok m \<Longrightarrow> hm_ok (hm_insert k v m)"
  by (simp add: hm_ok_def hm_insert_def distinct_update)

lemma hm_ok_remove [simp]: "hm_ok m \<Longrightarrow> hm_ok (hm_remove k m)"
  by (simp add: hm_ok_def hm_remove_def distinct_delete)

lemma map_fst_adjust [simp]: "map fst (hm_adjust k f m) = map fst m"
  by (induction m) (auto simp: hm_adjust_def)

lemma map_fst_map_values [simp]: "map fst (hm_map_values f m) = map fst m"
  by (induction m) (auto simp: hm_map_values_def)

lemma hm_ok_adjust [simp]: "hm_ok (hm_adjust k f m) = hm_ok m"
  by (simp add: hm_ok_def)

lemma hm_ok_map_values [simp]: "hm_ok (hm_map_values f m) = hm_ok m"
  by (simp add: hm_ok_def)

lemma hm_ok_retain [simp]: "hm_ok m \<Longrightarrow> hm_ok (hm_retain P m)"
  by (induction m) (auto simp: hm_ok_def hm_retain_def)

lemma hm_get_retain:
  "hm_ok m \<Longrightarrow> hm_get (hm_retain P m) k =
     (case hm_get m k of None \<Rightarrow> None | Some v \<Rightarrow> if P k v then Some v else None)"
  by (induction m)
    (auto simp: hm_ok_def hm_retain_def hm_get_def split: option.splits dest: map_of_SomeD
      intro!: map_of_eq_None_iff[THEN iffD2])

lemma hm_get_in: "hm_get m k = Some v \<Longrightarrow> (k, v) \<in> set m"
  by (simp add: hm_get_def map_of_SomeD)

lemma hm_in_get: "hm_ok m \<Longrightarrow> (k, v) \<in> set m \<Longrightarrow> hm_get m k = Some v"
  by (simp add: hm_get_def hm_ok_def)

lemma hm_get_values: "hm_get m k = Some v \<Longrightarrow> v \<in> set (hm_values m)"
  by (force simp: hm_values_def dest: hm_get_in)

lemma hm_values_get: "hm_ok m \<Longrightarrow> v \<in> set (hm_values m) \<Longrightarrow> \<exists>k. hm_get m k = Some v"
  by (auto simp: hm_values_def) (blast intro: hm_in_get)

lemma hm_contains_iff [simp]: "hm_contains m k = (\<exists>v. hm_get m k = Some v)"
  by (simp add: hm_contains_def)

lemma hm_get_None_keys: "hm_get m k = None \<Longrightarrow> k \<notin> fst ` set m"
  by (simp add: hm_get_def map_of_eq_None_iff)

lemma hm_insert_fresh: "hm_get m k = None \<Longrightarrow> hm_insert k v m = m @ [(k, v)]"
  by (induction m) (auto simp: hm_get_def hm_insert_def split: if_splits)

lemma hm_adjust_absent: "hm_get m k = None \<Longrightarrow> hm_adjust k f m = m"
  by (induction m) (auto simp: hm_get_def hm_adjust_def split: if_splits)

subsection \<open>Maps whose values carry their own key\<close>

text \<open>
  The store keeps every entity under its own id. \<open>keyed key m\<close> says the keys are distinct
  and each value is filed under the key it carries.
\<close>

definition keyed :: "('v \<Rightarrow> 'k) \<Rightarrow> ('k, 'v) hmap \<Rightarrow> bool" where
  "keyed key m = (hm_ok m \<and> (\<forall>(k, v) \<in> set m. key v = k))"

lemma keyed_hm_ok [dest]: "keyed key m \<Longrightarrow> hm_ok m"
  by (simp add: keyed_def)

lemma keyed_get: "keyed key m \<Longrightarrow> hm_get m k = Some v \<Longrightarrow> key v = k"
  by (auto simp: keyed_def dest: hm_get_in)

lemma keyed_values_get: "keyed key m \<Longrightarrow> v \<in> set (hm_values m) \<Longrightarrow> hm_get m (key v) = Some v"
  by (auto simp: keyed_def hm_values_def) (force intro: hm_in_get)

lemma keyed_values_iff: "keyed key m \<Longrightarrow> v \<in> set (hm_values m) \<longleftrightarrow> hm_get m (key v) = Some v"
  by (auto dest: keyed_values_get hm_get_values)

lemma keyedI:
  assumes "hm_ok m" "\<And>k v. hm_get m k = Some v \<Longrightarrow> key v = k"
  shows "keyed key m"
  using assms by (auto simp: keyed_def dest: hm_in_get)

lemma keyed_Nil [simp]: "keyed key []"
  by (simp add: keyed_def)

lemma keyed_insert [inv_intro]: "keyed key m \<Longrightarrow> key v = k \<Longrightarrow> keyed key (hm_insert k v m)"
  by (rule keyedI) (auto split: if_splits dest: keyed_get)

lemma keyed_remove [inv_intro]: "keyed key m \<Longrightarrow> keyed key (hm_remove k m)"
  by (rule keyedI) (auto split: if_splits dest: keyed_get)

lemma keyed_adjust [inv_intro]:
  "keyed key m \<Longrightarrow> (\<And>v. key (f v) = key v) \<Longrightarrow> keyed key (hm_adjust k f m)"
  by (rule keyedI) (auto split: if_splits dest: keyed_get)

lemma keyed_map_values [inv_intro]:
  "keyed key m \<Longrightarrow> (\<And>v. key (f v) = key v) \<Longrightarrow> keyed key (hm_map_values f m)"
  by (rule keyedI) (auto dest: keyed_get)

lemma keyed_retain [inv_intro]: "keyed key m \<Longrightarrow> keyed key (hm_retain P m)"
  by (auto simp: keyed_def hm_retain_def hm_ok_def distinct_map_filter)

lemma keyed_distinct_values: "keyed key m \<Longrightarrow> distinct (map key (hm_values m))"
proof -
  assume k: "keyed key m"
  then have "map key (hm_values m) = map fst m"
    by (auto simp: keyed_def hm_values_def)
  then show ?thesis using k by (simp add: keyed_def hm_ok_def)
qed

subsection \<open>Counting the values of a map\<close>

text \<open>How an insertion, a removal or an update changes the number of values with a property.\<close>

definition hm_count :: "('v \<Rightarrow> bool) \<Rightarrow> ('k, 'v) hmap \<Rightarrow> nat" where
  "hm_count P m = length (filter P (hm_values m))"

lemma hm_count_insert_fresh:
  "hm_get m k = None \<Longrightarrow> hm_count P (hm_insert k v m) = hm_count P m + (if P v then 1 else 0)"
  by (simp add: hm_count_def hm_insert_fresh hm_values_def)

lemma hm_count_adjust:
  assumes "hm_ok m" "hm_get m k = Some v"
  shows "hm_count P (hm_adjust k f m) + (if P v then 1 else 0)
       = hm_count P m + (if P (f v) then 1 else 0)"
  using assms
proof (induction m)
  case Nil
  then show ?case by simp
next
  case (Cons p m)
  obtain k' w where p: "p = (k', w)" by (cases p)
  have tl: "hm_ok m" "k' \<notin> fst ` set m"
    using Cons.prems(1) p by (auto simp: hm_ok_def)
  show ?case
  proof (cases "k' = k")
    case True
    then have "hm_get m k = None"
      using tl(2) by (simp add: hm_get_def map_of_eq_None_iff)
    then have "hm_adjust k f m = m" by (rule hm_adjust_absent)
    then show ?thesis using True Cons.prems(2) p
      by (auto simp: hm_count_def hm_values_def hm_get_def hm_adjust_def)
  next
    case False
    then have "hm_get m k = Some v" using Cons.prems(2) p by (simp add: hm_get_def)
    then show ?thesis using Cons.IH tl(1) False p
      by (auto simp: hm_count_def hm_values_def hm_adjust_def)
  qed
qed

subsection \<open>A map as the rows of a table\<close>

text \<open>A \<open>WHERE\<close> clause that fixes the key selects at most the row under that key.\<close>

lemma keyed_filter_key:
  assumes "keyed key m"
  shows "filter (\<lambda>v. key v = i \<and> Q v) (hm_values m) =
    (case hm_get m i of Some v \<Rightarrow> if Q v then [v] else [] | None \<Rightarrow> [])"
  using assms
proof (induction m)
  case (Cons p m)
  obtain k w where p: "p = (k, w)" by (cases p)
  then have tl: "keyed key m" "key w = k" "k \<notin> fst ` set m"
    using Cons.prems by (auto simp: keyed_def hm_ok_def)
  show ?case
  proof (cases "k = i")
    case True
    then have "hm_get m i = None" using tl(3) by (simp add: hm_get_def map_of_eq_None_iff)
    then show ?thesis using Cons.IH[OF tl(1)] p tl(2) True by (simp add: hm_values_def hm_get_def)
  next
    case False
    then show ?thesis using Cons.IH[OF tl(1)] p tl(2) by (simp add: hm_values_def hm_get_def)
  qed
qed (simp add: hm_values_def)

lemma keyed_update_key:
  assumes "keyed key m"
  shows "hm_map_values (\<lambda>v. if key v = i \<and> Q v then f v else v) m =
    (case hm_get m i of Some v \<Rightarrow> if Q v then hm_adjust i f m else m | None \<Rightarrow> m)"
  using assms
proof (induction m)
  case (Cons p m)
  obtain k w where p: "p = (k, w)" by (cases p)
  then have tl: "keyed key m" "key w = k" "k \<notin> fst ` set m"
    using Cons.prems by (auto simp: keyed_def hm_ok_def)
  show ?case
  proof (cases "k = i")
    case True
    then have none: "hm_get m i = None" using tl(3) by (simp add: hm_get_def map_of_eq_None_iff)
    then have "hm_adjust i f m = m" by (rule hm_adjust_absent)
    then show ?thesis using Cons.IH[OF tl(1)] p tl(2) True none
      by (simp add: hm_map_values_def hm_get_def hm_adjust_def)
  next
    case False
    then show ?thesis using Cons.IH[OF tl(1)] p tl(2)
      by (simp add: hm_map_values_def hm_get_def hm_adjust_def split: option.splits)
  qed
qed (simp add: hm_map_values_def)

lemma hm_count_insert_le: "hm_count P (hm_insert k v m) \<le> hm_count P m + (if P v then 1 else 0)"
proof (induction m)
  case (Cons p m)
  then show ?case by (cases p) (auto simp: hm_count_def hm_values_def hm_insert_def)
qed (simp add: hm_count_def hm_values_def hm_insert_def)

lemma hm_count_map_values_le:
  "(\<And>v. P (f v) \<Longrightarrow> P v) \<Longrightarrow> hm_count P (hm_map_values f m) \<le> hm_count P m"
  by (induction m) (auto simp: hm_count_def hm_values_def hm_map_values_def)

lemma hm_count_adjust_le:
  "(\<And>v. P (f v) \<Longrightarrow> P v) \<Longrightarrow> hm_count P (hm_adjust k f m) \<le> hm_count P m"
  by (induction m) (auto simp: hm_count_def hm_values_def hm_adjust_def split: if_splits)

lemma hm_count_mono: "(\<And>v. P v \<Longrightarrow> Q v) \<Longrightarrow> hm_count P m \<le> hm_count Q m"
  by (induction m) (auto simp: hm_count_def hm_values_def)

text \<open>The count without the value under one key, and what an update there makes of it.\<close>

lemma keyed_count_adjust:
  assumes "keyed key m" "\<And>v. key (f v) = key v"
  shows "hm_count P (hm_adjust i f m) \<le> hm_count (\<lambda>v. P v \<and> key v \<noteq> i) m + 1"
proof -
  have all: "hm_count P (hm_adjust i f m) = hm_count (\<lambda>v. P v \<and> key v \<noteq> i) (hm_adjust i f m)
      + hm_count (\<lambda>v. P v \<and> key v = i) (hm_adjust i f m)" for m
    by (induction m) (auto simp: hm_count_def hm_values_def hm_adjust_def)
  have k: "keyed key (hm_adjust i f m)" using assms by (rule keyed_adjust)
  have "hm_count (\<lambda>v. P v \<and> key v = i) (hm_adjust i f m) \<le> 1"
    using keyed_filter_key[OF k, of i P] by (simp add: hm_count_def conj_commute split: option.split)
  moreover have "hm_count (\<lambda>v. P v \<and> key v \<noteq> i) (hm_adjust i f m) = hm_count (\<lambda>v. P v \<and> key v \<noteq> i) m"
    using assms(1,2)
  proof (induction m)
    case (Cons p m)
    then have "keyed key m" by (auto simp: keyed_def hm_ok_def)
    then show ?case using Cons by (cases p) (auto simp: hm_count_def hm_values_def hm_adjust_def keyed_def)
  qed (simp add: hm_adjust_def)
  ultimately show ?thesis using all[of m] by linarith
qed
subsection \<open>The map contract as an interface\<close>

text \<open>
  What the components rely on when they use a map: the laws of lookup after each update.
  The client lemmas are proved from the laws alone.
\<close>

locale hash_table =
  fixes get :: "'m \<Rightarrow> 'k \<Rightarrow> 'v option"
    and ins :: "'k \<Rightarrow> 'v \<Rightarrow> 'm \<Rightarrow> 'm"
    and del :: "'k \<Rightarrow> 'm \<Rightarrow> 'm"
    and adj :: "'k \<Rightarrow> ('v \<Rightarrow> 'v) \<Rightarrow> 'm \<Rightarrow> 'm"
    and wf :: "'m \<Rightarrow> bool"
  assumes get_ins: "get (ins k v m) k' = (if k' = k then Some v else get m k')"
    and get_del: "get (del k m) k' = (if k' = k then None else get m k')"
    and get_adj: "get (adj k f m) k' = (if k' = k then map_option f (get m k) else get m k')"
    and wf_ins: "wf m \<Longrightarrow> wf (ins k v m)"
    and wf_del: "wf m \<Longrightarrow> wf (del k m)"
    and wf_adj: "wf m \<Longrightarrow> wf (adj k f m)"
begin

text \<open>An update that relates every value to its replacement relates the whole map.\<close>

lemma adj_related:
  assumes "get m k' = Some v" "\<And>v. R v v" "\<And>w. get m k = Some w \<Longrightarrow> R w (f w)"
  shows "\<exists>v'. get (adj k f m) k' = Some v' \<and> R v v'"
  using assms by (auto simp: get_adj)

lemma adj_dom: "(get (adj k f m) k' = None) = (get m k' = None)"
  by (simp add: get_adj)

lemma del_ins: "get (del k (ins k v m)) k' = get (del k m) k'"
  by (simp add: get_del get_ins)

lemma ins_all:
  assumes "\<And>k' v'. get m k' = Some v' \<Longrightarrow> Q v'" "Q v" "get (ins k v m) k' = Some v'"
  shows "Q v'"
  using assms by (auto simp: get_ins split: if_splits)

lemma adj_all:
  assumes "\<And>k' v'. get m k' = Some v' \<Longrightarrow> Q v'" "\<And>w. get m k = Some w \<Longrightarrow> Q w \<Longrightarrow> Q (f w)"
    "get (adj k f m) k' = Some v'"
  shows "Q v'"
  using assms by (auto simp: get_adj split: if_splits)

end

interpretation hm: hash_table hm_get hm_insert hm_remove hm_adjust hm_ok
  by unfold_locales simp_all

section \<open>Lists\<close>

lemma find_Some_mem: "List.find P xs = Some x \<Longrightarrow> x \<in> set xs \<and> P x"
  by (auto simp: find_Some_iff)

lemma find_None_none: "List.find P xs = None \<Longrightarrow> x \<in> set xs \<Longrightarrow> \<not> P x"
  by (auto simp: find_None_iff)

text \<open>Rust's \<open>sort_by_key\<close> with \<open>Reverse\<close>: a stable sort, newest first.\<close>

definition sort_desc :: "('a \<Rightarrow> int) \<Rightarrow> 'a list \<Rightarrow> 'a list" where
  "sort_desc f xs = sort_key (\<lambda>x. - f x) xs"

lemma set_sort_desc [simp]: "set (sort_desc f xs) = set xs"
  by (simp add: sort_desc_def)

lemma length_sort_desc [simp]: "length (sort_desc f xs) = length xs"
  by (simp add: sort_desc_def)

text \<open>\<open>let start = offset.min(len); let end = (start + limit).min(len); out[start..end]\<close>.\<close>

definition page :: "nat \<Rightarrow> nat \<Rightarrow> 'a list \<Rightarrow> 'a list" where
  "page offset limit xs =
     (let start = min offset (length xs); stop = min (start + limit) (length xs)
      in take (stop - start) (drop start xs))"

lemma page_alt: "page offset limit xs = take limit (drop offset xs)"
  by (auto simp: page_def Let_def min_def)

lemma set_page_subset: "set (page offset limit xs) \<subseteq> set xs"
  by (auto simp: page_alt dest: in_set_takeD in_set_dropD)

lemma page_all: "length xs \<le> limit \<Longrightarrow> page 0 limit xs = xs"
  by (simp add: page_alt)

end
