(* ===== verification/Core_Types.thy ===== *)
theory Core_Types
  imports Prelude
begin

text \<open>
  The domain model of \<open>crates/fleet-core\<close> that the control plane works on: identifiers
  (\<open>ids.rs\<close>), the task entity with its status machine and the outcomes of the store
  operations on it (\<open>task.rs\<close>), and the event log entries (\<open>events.rs\<close>).
\<close>

section \<open>Identifiers\<close>

text \<open>Each id is a newtype over a 128-bit UUID; ids are fresh random values (an argument here).\<close>

datatype task_id = TaskId uuid
datatype worker_id = WorkerId uuid
datatype project_id = ProjectId uuid
datatype agent_id = AgentId (agent_uuid: uuid)
datatype issue_id = IssueId uuid
datatype agent_template_id = AgentTemplateId uuid
datatype agent_template_revision_id = AgentTemplateRevisionId uuid

text \<open>\<open>AgentId\<close> derives \<open>Ord\<close> from the UUID, whose order is that of its big-endian bytes.\<close>

instantiation agent_id :: linorder
begin

definition less_eq_agent_id :: "agent_id \<Rightarrow> agent_id \<Rightarrow> bool" where
  "less_eq_agent_id a b = (agent_uuid a \<le> agent_uuid b)"

definition less_agent_id :: "agent_id \<Rightarrow> agent_id \<Rightarrow> bool" where
  "less_agent_id a b = (agent_uuid a < agent_uuid b)"

instance
  by standard (auto simp: less_eq_agent_id_def less_agent_id_def intro: agent_id.expand)

end

section \<open>Task requests and tasks\<close>

datatype task_priority = PLow | PNormal | PHigh

record task_request =
  rq_project_id :: "project_id option"
  rq_prompt :: string
  rq_cwd :: "string option"
  rq_model :: "string option"
  rq_server_hint :: "string option"
  rq_agent_id :: "agent_id option"
  rq_required_labels :: "string list"
  rq_max_turns :: "u32 option"
  rq_timeout_secs :: "u64 option"
  rq_priority :: task_priority
  rq_created_by :: string
  rq_parent_task_id :: "task_id option"
  rq_dependency_ids :: "task_id list"
  rq_skills_required :: "string list"
  rq_routing_profile :: "string option"
  rq_resolved_model :: "string option"
  rq_token_budget :: "u64 option"
  rq_idempotency_key :: "string option"

text \<open>\<open>TaskRequest::default()\<close>.\<close>

definition default_request :: task_request where
  "default_request = \<lparr> rq_project_id = None, rq_prompt = '''', rq_cwd = None, rq_model = None,
     rq_server_hint = None, rq_agent_id = None, rq_required_labels = [], rq_max_turns = None,
     rq_timeout_secs = None, rq_priority = PNormal, rq_created_by = '''',
     rq_parent_task_id = None, rq_dependency_ids = [], rq_skills_required = [],
     rq_routing_profile = None, rq_resolved_model = None, rq_token_budget = None,
     rq_idempotency_key = None \<rparr>"

record token_usage =
  tu_input_tokens :: u64
  tu_output_tokens :: u64
  tu_cache_read_tokens :: u64

definition token_usage_total :: "token_usage \<Rightarrow> u64" where
  "token_usage_total u = tu_input_tokens u + tu_output_tokens u"

text \<open>\<open>duration_secs\<close> is only stored and compared: its bit pattern is enough.\<close>

record task_result =
  tr_output :: string
  tr_exit_code :: "32 word"
  tr_duration_secs :: "64 word"
  tr_token_usage :: "token_usage option"
  tr_worker_id :: worker_id
  tr_finished_at :: datetime

datatype failure_kind = WorkerUnavailable | WorkerError | CircuitOpenFailure | CredentialMissing
  | InvalidRequestFailure | ResultLost | ExecutionVanished | SkillMissingFailure

definition failure_kind_all :: "failure_kind list" where
  "failure_kind_all = [WorkerUnavailable, WorkerError, CircuitOpenFailure, CredentialMissing,
     InvalidRequestFailure, ResultLost, ExecutionVanished, SkillMissingFailure]"

fun failure_kind_as_str :: "failure_kind \<Rightarrow> string" where
  "failure_kind_as_str WorkerUnavailable = ''worker_unavailable''"
| "failure_kind_as_str WorkerError = ''worker_error''"
| "failure_kind_as_str CircuitOpenFailure = ''circuit_open''"
| "failure_kind_as_str CredentialMissing = ''credential_missing''"
| "failure_kind_as_str InvalidRequestFailure = ''invalid_request''"
| "failure_kind_as_str ResultLost = ''result_lost''"
| "failure_kind_as_str ExecutionVanished = ''execution_vanished''"
| "failure_kind_as_str SkillMissingFailure = ''skill_missing''"

text \<open>
  Error texts built by \<open>format!\<close> are kept as structured values: one constructor per format
  string, with the values it interpolates.
\<close>

datatype text_arg = ArgStr string | ArgTask task_id | ArgWorker worker_id | ArgAgent agent_id
  | ArgTemplate agent_template_id | ArgRevision agent_template_revision_id
  | ArgTime datetime | ArgNum int | ArgText message
and message = Msg string "text_arg list"

record task_failure =
  tf_error :: message
  tf_kind :: failure_kind
  tf_worker_id :: "worker_id option"
  tf_attempts :: u32

datatype task_status =
    Pending
  | Dispatched (dispatched_worker: worker_id) (dispatched_started_at: datetime)
  | Completed task_result
  | Failed task_failure
  | Cancelled (cancel_reason: string) (cancelled_at: datetime)

datatype task_phase = PhPending | PhDispatched | PhCompleted | PhFailed | PhCancelled

fun phase :: "task_status \<Rightarrow> task_phase" where
  "phase Pending = PhPending"
| "phase (Dispatched _ _) = PhDispatched"
| "phase (Completed _) = PhCompleted"
| "phase (Failed _) = PhFailed"
| "phase (Cancelled _ _) = PhCancelled"

fun phase_as_str :: "task_phase \<Rightarrow> string" where
  "phase_as_str PhPending = ''pending''"
| "phase_as_str PhDispatched = ''dispatched''"
| "phase_as_str PhCompleted = ''completed''"
| "phase_as_str PhFailed = ''failed''"
| "phase_as_str PhCancelled = ''cancelled''"

fun phase_is_terminal :: "task_phase \<Rightarrow> bool" where
  "phase_is_terminal PhCompleted = True"
| "phase_is_terminal PhFailed = True"
| "phase_is_terminal PhCancelled = True"
| "phase_is_terminal _ = False"

definition transition_allowed :: "task_phase \<Rightarrow> task_phase \<Rightarrow> bool" where
  "transition_allowed src dst \<longleftrightarrow>
     (src, dst) \<in> {(PhPending, PhDispatched), (PhPending, PhFailed), (PhPending, PhCancelled),
       (PhDispatched, PhCompleted), (PhDispatched, PhFailed), (PhDispatched, PhCancelled)}"

fun allowed_predecessors :: "task_phase \<Rightarrow> task_phase list" where
  "allowed_predecessors PhPending = []"
| "allowed_predecessors PhDispatched = [PhPending]"
| "allowed_predecessors PhCompleted = [PhDispatched]"
| "allowed_predecessors PhFailed = [PhPending, PhDispatched]"
| "allowed_predecessors PhCancelled = [PhPending, PhDispatched]"

record skill_snapshot_entry =
  sk_name :: string
  sk_sha256 :: string
  sk_bytes :: nat

record task =
  t_id :: task_id
  t_prompt :: string
  t_cwd :: "string option"
  t_model :: "string option"
  t_server_hint :: "string option"
  t_agent_id :: "agent_id option"
  t_required_labels :: "string list"
  t_max_turns :: "u32 option"
  t_timeout_secs :: "u64 option"
  t_created_at :: datetime
  t_created_by :: string
  t_priority :: task_priority
  t_status :: task_status
  t_dispatched_at :: "datetime option"
  t_acp_session_id :: "string option"
  t_skill_snapshot :: "skill_snapshot_entry list option"
  t_thread_id :: task_id
  t_parent_task_id :: "task_id option"
  t_project_id :: "project_id option"
  t_retry_count :: u32
  t_dependency_ids :: "task_id list"
  t_checkpoint_branch :: "string option"
  t_skills_required :: "string list"
  t_routing_profile :: "string option"
  t_resolved_model :: "string option"
  t_token_budget :: "u64 option"
  t_partial_output :: "string option"
  t_idempotency_key :: "string option"
  t_idempotency_payload_hash :: "string option"
  t_dispatch_control_epoch :: "int option"

text \<open>
  \<open>Task::from_request\<close>: the fresh id, the clock and the payload hash function are arguments.
\<close>

definition from_request :: "(task_request \<Rightarrow> string) \<Rightarrow> task_id \<Rightarrow> datetime \<Rightarrow> task_request \<Rightarrow> task" where
  "from_request payload_hash new_id now req = \<lparr>
     t_id = new_id, t_prompt = rq_prompt req, t_cwd = rq_cwd req, t_model = rq_model req,
     t_server_hint = rq_server_hint req, t_agent_id = rq_agent_id req,
     t_required_labels = rq_required_labels req, t_max_turns = rq_max_turns req,
     t_timeout_secs = rq_timeout_secs req, t_created_at = now, t_created_by = rq_created_by req,
     t_priority = rq_priority req, t_status = Pending, t_dispatched_at = None,
     t_acp_session_id = None, t_skill_snapshot = None, t_thread_id = new_id,
     t_parent_task_id = rq_parent_task_id req, t_project_id = rq_project_id req,
     t_retry_count = 0, t_dependency_ids = rq_dependency_ids req, t_checkpoint_branch = None,
     t_skills_required = rq_skills_required req, t_routing_profile = rq_routing_profile req,
     t_resolved_model = rq_resolved_model req, t_token_budget = rq_token_budget req,
     t_partial_output = None, t_idempotency_key = rq_idempotency_key req,
     t_idempotency_payload_hash = map_option (\<lambda>_. payload_hash req) (rq_idempotency_key req),
     t_dispatch_control_epoch = None \<rparr>"

text \<open>\<open>if self.x.is_none() { self.x = parent.x.clone() }\<close>.\<close>

fun or_else :: "'a option \<Rightarrow> 'a option \<Rightarrow> 'a option" where
  "or_else None y = y"
| "or_else (Some x) _ = Some x"

definition inherit_from_parent :: "task \<Rightarrow> task \<Rightarrow> task" where
  "inherit_from_parent t parent = t\<lparr>
     t_parent_task_id := Some (t_id parent),
     t_thread_id := t_thread_id parent,
     t_server_hint := or_else (t_server_hint t) (t_server_hint parent),
     t_cwd := or_else (t_cwd t) (t_cwd parent),
     t_model := or_else (t_model t) (t_model parent),
     t_project_id := or_else (t_project_id t) (t_project_id parent) \<rparr>"

definition is_terminal :: "task \<Rightarrow> bool" where
  "is_terminal t = (case t_status t of Completed _ \<Rightarrow> True | Failed _ \<Rightarrow> True
     | Cancelled _ _ \<Rightarrow> True | _ \<Rightarrow> False)"

definition is_running :: "task \<Rightarrow> bool" where
  "is_running t = (case t_status t of Dispatched _ _ \<Rightarrow> True | _ \<Rightarrow> False)"

section \<open>Outcomes of store operations on tasks\<close>

datatype transition_outcome = Applied | Rejected task_phase | Fenced | StaleDispatchEpoch int

datatype transition_origin = ControlDecision | WorkerOutcome

fun outcome_applied :: "transition_outcome \<Rightarrow> bool" where
  "outcome_applied Applied = True"
| "outcome_applied _ = False"

fun outcome_fenced :: "transition_outcome \<Rightarrow> bool" where
  "outcome_fenced Fenced = True"
| "outcome_fenced _ = False"

datatype idempotent_insert = Inserted | Duplicate task | InsertConflict task_id

datatype task_delete_outcome = Deleted | NotTerminal task_phase | BlockedByDependents "task_id list"

datatype task_status_filter = FPending | FDispatched | FCompleted | FFailed | FCancelled
  | FTerminal | FActive

record task_filter =
  fi_status :: "task_status_filter option"
  fi_worker_id :: "worker_id option"
  fi_created_by :: "string option"
  fi_limit :: nat
  fi_offset :: nat

definition default_task_filter :: task_filter where
  "default_task_filter = \<lparr> fi_status = None, fi_worker_id = None, fi_created_by = None,
     fi_limit = 100, fi_offset = 0 \<rparr>"

record task_output_chunk =
  oc_task_id :: task_id
  oc_seq :: u64
  oc_chunk :: string
  oc_written_at :: datetime

record task_output =
  to_task_id :: task_id
  to_chunks :: "task_output_chunk list"
  to_next_offset :: u64

section \<open>Circuit state and the event log\<close>

datatype circuit_state = CClosed | COpen | CHalfOpen

datatype tool_invocation_kind = KRead | KEdit | KDelete | KMove | KSearch | KExecute | KThink
  | KFetch | KSwitchMode | KOther

datatype tool_invocation_status = TsPending | TsInProgress | TsCompleted | TsFailed

fun ts_is_terminal :: "tool_invocation_status \<Rightarrow> bool" where
  "ts_is_terminal TsCompleted = True"
| "ts_is_terminal TsFailed = True"
| "ts_is_terminal _ = False"

record tool_invocation =
  ti_tool_call_id :: string
  ti_name :: "string option"
  ti_kind :: tool_invocation_kind
  ti_status :: tool_invocation_status

text \<open>The events of the log; the last component is the time the constructor function reads.\<close>

datatype fleet_event =
    TaskCreated task_id "string option" string datetime
  | TaskDispatched task_id worker_id datetime
  | TaskProgress task_id worker_id u64 string datetime
  | TaskToolCall task_id worker_id tool_invocation datetime
  | TaskCompleted task_id worker_id task_result datetime
  | TaskFailed task_id task_failure datetime
  | TaskCancelled task_id string datetime
  | WorkerJoined worker_id string string datetime
  | WorkerLeft worker_id message datetime
  | WorkerCircuitChanged worker_id circuit_state circuit_state datetime
  | WorkerHeartbeatEvent worker_id u32 bool datetime

fun event_type :: "fleet_event \<Rightarrow> string" where
  "event_type (TaskCreated _ _ _ _) = ''task_created''"
| "event_type (TaskDispatched _ _ _) = ''task_dispatched''"
| "event_type (TaskProgress _ _ _ _ _) = ''task_progress''"
| "event_type (TaskCompleted _ _ _ _) = ''task_completed''"
| "event_type (TaskFailed _ _ _) = ''task_failed''"
| "event_type (TaskCancelled _ _ _) = ''task_cancelled''"
| "event_type (WorkerJoined _ _ _ _) = ''worker_joined''"
| "event_type (WorkerLeft _ _ _) = ''worker_left''"
| "event_type (TaskToolCall _ _ _ _) = ''task_tool_call''"
| "event_type (WorkerCircuitChanged _ _ _ _) = ''worker_circuit_changed''"
| "event_type (WorkerHeartbeatEvent _ _ _ _) = ''worker_heartbeat''"

fun event_time :: "fleet_event \<Rightarrow> datetime" where
  "event_time (TaskCreated _ _ _ t) = t"
| "event_time (TaskDispatched _ _ t) = t"
| "event_time (TaskProgress _ _ _ _ t) = t"
| "event_time (TaskCompleted _ _ _ t) = t"
| "event_time (TaskFailed _ _ t) = t"
| "event_time (TaskCancelled _ _ t) = t"
| "event_time (WorkerJoined _ _ _ t) = t"
| "event_time (WorkerLeft _ _ t) = t"
| "event_time (TaskToolCall _ _ _ t) = t"
| "event_time (WorkerCircuitChanged _ _ _ t) = t"
| "event_time (WorkerHeartbeatEvent _ _ _ t) = t"

fun event_task_id :: "fleet_event \<Rightarrow> task_id option" where
  "event_task_id (TaskCreated i _ _ _) = Some i"
| "event_task_id (TaskDispatched i _ _) = Some i"
| "event_task_id (TaskProgress i _ _ _ _) = Some i"
| "event_task_id (TaskCompleted i _ _ _) = Some i"
| "event_task_id (TaskFailed i _ _) = Some i"
| "event_task_id (TaskCancelled i _ _) = Some i"
| "event_task_id _ = None"

fun event_worker_id :: "fleet_event \<Rightarrow> worker_id option" where
  "event_worker_id (TaskDispatched _ w _) = Some w"
| "event_worker_id (TaskProgress _ w _ _ _) = Some w"
| "event_worker_id (TaskCompleted _ w _ _) = Some w"
| "event_worker_id (WorkerJoined w _ _ _) = Some w"
| "event_worker_id (WorkerLeft w _ _) = Some w"
| "event_worker_id (WorkerCircuitChanged w _ _ _) = Some w"
| "event_worker_id (WorkerHeartbeatEvent w _ _ _) = Some w"
| "event_worker_id (TaskFailed _ f _) = tf_worker_id f"
| "event_worker_id _ = None"

record event_entry =
  ee_seq :: u64
  ee_event :: fleet_event

section \<open>Facts about the status machine\<close>

lemma is_terminal_phase: "is_terminal t = phase_is_terminal (phase (t_status t))"
  by (cases "t_status t") (auto simp: is_terminal_def)

lemma is_running_phase: "is_running t = (phase (t_status t) = PhDispatched)"
  by (cases "t_status t") (auto simp: is_running_def)

lemma phase_eq_simps [simp]:
  "phase s = PhPending \<longleftrightarrow> s = Pending"
  "phase s = PhDispatched \<longleftrightarrow> (\<exists>w at. s = Dispatched w at)"
  "phase s = PhCompleted \<longleftrightarrow> (\<exists>r. s = Completed r)"
  "phase s = PhFailed \<longleftrightarrow> (\<exists>f. s = Failed f)"
  "phase s = PhCancelled \<longleftrightarrow> (\<exists>r at. s = Cancelled r at)"
  by (cases s; simp)+

lemma predecessors_allowed: "src \<in> set (allowed_predecessors dst) \<longleftrightarrow> transition_allowed src dst"
  by (cases src; cases dst) (simp_all add: transition_allowed_def)

lemma terminal_no_exit: "phase_is_terminal src \<Longrightarrow> \<not> transition_allowed src dst"
  by (cases src) (auto simp: transition_allowed_def)

lemma pending_no_entry: "\<not> transition_allowed src PhPending"
  by (auto simp: transition_allowed_def)

text \<open>A strict progress measure on phases: no run of allowed transitions is longer than two.\<close>

fun phase_rank :: "task_phase \<Rightarrow> nat" where
  "phase_rank PhPending = 2"
| "phase_rank PhDispatched = 1"
| "phase_rank _ = 0"

lemma transition_rank: "transition_allowed src dst \<Longrightarrow> phase_rank dst < phase_rank src"
  by (auto simp: transition_allowed_def)

lemma outcome_applied_iff [simp]: "outcome_applied o' \<longleftrightarrow> o' = Applied"
  by (cases o') auto

end
