(* ===== verification/Payload_Hash.thy ===== *)
theory Payload_Hash
  imports Core_Types
begin

text \<open>
  \<open>TaskRequest::payload_hash\<close> (\<open>crates/fleet-core/src/task.rs\<close>): the byte string
  that is hashed to decide whether two submissions under one idempotency key are the same
  request. The digest (\<open>sha2\<close>, \<open>hex\<close>) and the textual form of a UUID
  (\<open>uuid\<close>) come from other crates and are arguments. The main result is that the byte
  string determines the request: nothing two requests differ in is lost by the encoding, except
  what the code leaves out on purpose.
\<close>

section \<open>The encoding\<close>

text \<open>\<open>(n as u64).to_le_bytes()\<close>.\<close>

fun le_bytes :: "nat \<Rightarrow> nat \<Rightarrow> string" where
  "le_bytes 0 n = []"
| "le_bytes (Suc k) n = char_of (n mod 256) # le_bytes k (n div 256)"

definition le64 :: "nat \<Rightarrow> string" where
  "le64 n = le_bytes 8 n"

definition feed :: "string \<Rightarrow> string" where
  "feed bytes = le64 (length bytes) @ bytes"

text \<open>Decimal \<open>to_string()\<close> of an unsigned integer.\<close>

fun dec :: "nat \<Rightarrow> string" where
  "dec n = (if n < 10 then [char_of (48 + n)] else dec (n div 10) @ [char_of (48 + n mod 10)])"

declare dec.simps [simp del]

fun unwrap_or_default :: "string option \<Rightarrow> string" where
  "unwrap_or_default None = ''''"
| "unwrap_or_default (Some s) = s"

fun priority_str :: "task_priority \<Rightarrow> string" where
  "priority_str PLow = ''low''"
| "priority_str PNormal = ''normal''"
| "priority_str PHigh = ''high''"

definition payload_hash_version :: string where
  "payload_hash_version = ''fleet.task.payload.v2''"

text \<open>\<open>sort_unstable\<close> then \<open>dedup\<close>: the canonical list of a set of strings.\<close>

definition canon :: "string list \<Rightarrow> string list" where
  "canon xs = remdups_adj (sort xs)"

definition counted :: "string list \<Rightarrow> string list" where
  "counted xs = le64 (length xs) # xs"

fun task_uuid :: "task_id \<Rightarrow> uuid" where "task_uuid (TaskId u) = u"
fun project_uuid :: "project_id \<Rightarrow> uuid" where "project_uuid (ProjectId u) = u"

definition payload_head :: "(uuid \<Rightarrow> string) \<Rightarrow> task_request \<Rightarrow> string list" where
  "payload_head show_uuid r =
     [payload_hash_version,
      unwrap_or_default (map_option (show_uuid \<circ> project_uuid) (rq_project_id r)),
      rq_prompt r,
      unwrap_or_default (rq_cwd r),
      unwrap_or_default (rq_model r),
      unwrap_or_default (rq_server_hint r),
      unwrap_or_default (map_option (show_uuid \<circ> agent_uuid) (rq_agent_id r)),
      unwrap_or_default (map_option (dec \<circ> unat) (rq_max_turns r)),
      unwrap_or_default (map_option (dec \<circ> unat) (rq_timeout_secs r)),
      priority_str (rq_priority r),
      unwrap_or_default (map_option (show_uuid \<circ> task_uuid) (rq_parent_task_id r)),
      unwrap_or_default (rq_routing_profile r)]"

definition payload_chunks :: "(uuid \<Rightarrow> string) \<Rightarrow> task_request \<Rightarrow> string list" where
  "payload_chunks show_uuid r =
     payload_head show_uuid r
     @ counted (canon (rq_required_labels r))
     @ counted (canon (map (show_uuid \<circ> task_uuid) (rq_dependency_ids r)))
     @ counted (canon (rq_skills_required r))"

definition payload_bytes :: "(uuid \<Rightarrow> string) \<Rightarrow> task_request \<Rightarrow> string" where
  "payload_bytes show_uuid r = concat (map feed (payload_chunks show_uuid r))"

definition payload_hash :: "(string \<Rightarrow> string) \<Rightarrow> (uuid \<Rightarrow> string) \<Rightarrow> task_request \<Rightarrow> string" where
  "payload_hash sha256_hex show_uuid r = sha256_hex (payload_bytes show_uuid r)"

section \<open>The encoding is uniquely decodable\<close>

lemma length_le_bytes [simp]: "length (le_bytes k n) = k"
  by (induction k arbitrary: n) auto

lemma char_of_mod_eq: "char_of (m mod 256) = (char_of (n mod 256) :: char) \<longleftrightarrow> m mod 256 = n mod 256"
  for m n :: nat
  by (metis mod_mod_trivial of_char_of)

lemma le_bytes_inj:
  "m < 256 ^ k \<Longrightarrow> n < 256 ^ k \<Longrightarrow> le_bytes k m = le_bytes k n \<Longrightarrow> m = n"
proof (induction k arbitrary: m n)
  case 0
  then show ?case by simp
next
  case (Suc k)
  have q: "m div 256 < 256 ^ k" "n div 256 < 256 ^ k"
    using Suc.prems(1,2) by (simp_all add: less_mult_imp_div_less mult.commute)
  have "m mod 256 = n mod 256" "le_bytes k (m div 256) = le_bytes k (n div 256)"
    using Suc.prems(3) char_of_mod_eq by auto
  then have "m div 256 = n div 256" "m mod 256 = n mod 256"
    using Suc.IH q by auto
  then show ?case by (metis div_mult_mod_eq)
qed

lemma le64_inj: "m < 2 ^ 64 \<Longrightarrow> n < 2 ^ 64 \<Longrightarrow> le64 m = le64 n \<Longrightarrow> m = n"
  using le_bytes_inj[of m 8 n] by (simp add: le64_def)

lemma length_le64 [simp]: "length (le64 n) = 8"
  by (simp add: le64_def)

definition fits :: "'a list \<Rightarrow> bool" where
  "fits xs \<longleftrightarrow> length xs < 2 ^ 64"

text \<open>A chunk is recovered from any continuation: the length prefix tells where it ends.\<close>

lemma feed_prefix_free:
  assumes "fits x" "fits y" "feed x @ r = feed y @ s"
  shows "x = y \<and> r = s"
proof -
  have "le64 (length x) = le64 (length y)" "x @ r = y @ s"
    using assms(3) by (simp_all add: feed_def)
  then have "length x = length y"
    using le64_inj assms(1,2) by (simp add: fits_def)
  then show ?thesis using \<open>x @ r = y @ s\<close> by simp
qed

lemma feed_nonempty [simp]: "feed x \<noteq> []"
  using length_le64[of "length x"] by (auto simp: feed_def simp del: length_le64)

lemma chunks_inj:
  "list_all fits xs \<Longrightarrow> list_all fits ys \<Longrightarrow> concat (map feed xs) = concat (map feed ys) \<Longrightarrow> xs = ys"
proof (induction xs arbitrary: ys)
  case Nil
  then show ?case by (cases ys) auto
next
  case (Cons x xs)
  have "concat (map feed ys) \<noteq> []"
    unfolding Cons.prems(3)[symmetric] by simp
  then obtain y ys' where ys: "ys = y # ys'" by (cases ys) simp_all
  have fit: "fits x" "fits y" "list_all fits xs" "list_all fits ys'"
    using Cons.prems(1,2) ys by simp_all
  have "feed x @ concat (map feed xs) = feed y @ concat (map feed ys')"
    using Cons.prems(3) ys by simp
  from feed_prefix_free[OF fit(1,2) this]
  have "x = y" "concat (map feed xs) = concat (map feed ys')" by simp_all
  with Cons.IH[OF fit(3,4)] ys show ?case by simp
qed

lemma counted_split:
  assumes "fits xs" "fits ys" "counted xs @ r = counted ys @ s"
  shows "xs = ys \<and> r = s"
proof -
  have "le64 (length xs) = le64 (length ys)" "xs @ r = ys @ s"
    using assms(3) by (simp_all add: counted_def)
  then have "length xs = length ys"
    using le64_inj assms(1,2) by (simp add: fits_def)
  then show ?thesis using \<open>xs @ r = ys @ s\<close> by simp
qed

lemma set_canon [simp]: "set (canon xs) = set xs"
  by (simp add: canon_def)

lemma distinct_remdups_adj_sorted: "sorted xs \<Longrightarrow> distinct (remdups_adj xs)"
proof (induction xs rule: remdups_adj.induct)
  case (3 x y xs)
  have "x \<noteq> y \<Longrightarrow> x \<notin> set (y # xs)"
    using "3.prems" by auto
  then show ?case using 3 by auto
qed simp_all

lemma canon_cong:
  assumes "set xs = set ys"
  shows "canon xs = canon ys"
proof (rule sorted_distinct_set_unique)
  show "sorted (canon xs)" "sorted (canon ys)"
    by (simp_all add: canon_def sorted_remdups_adj)
  show "distinct (canon xs)" "distinct (canon ys)"
    by (simp_all add: canon_def distinct_remdups_adj_sorted)
  show "set (canon xs) = set (canon ys)" by (simp add: assms)
qed

lemma canon_eq_iff: "canon xs = canon ys \<longleftrightarrow> set xs = set ys"
  by (metis canon_cong set_canon)

section \<open>Decimal numerals and priorities are injective\<close>

lemma dec_nonempty [simp]: "dec n \<noteq> []"
  by (subst dec.simps) simp

lemma dec_digit_inj:
  assumes "m < 10" "n < 10"
  shows "(char_of (48 + m) :: char) = char_of (48 + n) \<longleftrightarrow> m = (n::nat)"
proof -
  have "(48 + m) mod 256 = 48 + m" "(48 + n) mod 256 = 48 + n" using assms by simp_all
  then show ?thesis by (metis add_left_cancel of_char_of)
qed

lemma dec_inj: "dec m = dec n \<Longrightarrow> m = n"
proof (induction m arbitrary: n rule: dec.induct)
  case (1 m)
  have small: "dec k = [char_of (48 + k)]" if "k < 10" for k
    using that by (simp add: dec.simps)
  have large: "dec k = dec (k div 10) @ [char_of (48 + k mod 10)]" if "\<not> k < 10" for k
    using that by (subst dec.simps) simp
  have one: "k < 10 \<longleftrightarrow> length (dec k) = 1" for k
    using small[of k] large[of k] by (cases "k < 10") simp_all
  have nm: "n < 10 \<longleftrightarrow> m < 10" using "1.prems" one by simp
  show ?case
  proof (cases "m < 10")
    case True
    then show ?thesis using "1.prems" small nm dec_digit_inj[of m n] by simp
  next
    case False
    then have "dec (m div 10) = dec (n div 10)"
      "(char_of (48 + m mod 10) :: char) = char_of (48 + n mod 10)"
      using "1.prems" large nm by simp_all
    then have "m div 10 = n div 10" "m mod 10 = n mod 10"
      using "1.IH"[OF False] dec_digit_inj[of "m mod 10" "n mod 10"] by simp_all
    then show ?thesis by (metis div_mult_mod_eq)
  qed
qed

lemma priority_str_inj: "priority_str p = priority_str q \<longleftrightarrow> p = q"
  by (cases p; cases q) simp_all

lemma unwrap_map_inj:
  assumes "\<And>x y. f x = f y \<Longrightarrow> x = y" "\<And>x. f x \<noteq> []"
    and "unwrap_or_default (map_option f a) = unwrap_or_default (map_option f b)"
  shows "a = b"
  using assms(2)[symmetric] assms by (cases a; cases b) auto

section \<open>What the payload distinguishes\<close>

text \<open>
  Two requests are the same submission when they agree on every field of the payload: absent
  and empty strings count as equal, label, dependency and skill lists count as sets, and the
  creator, the key and the fields the router fills are not compared.
\<close>

definition same_submission :: "task_request \<Rightarrow> task_request \<Rightarrow> bool" where
  "same_submission r s \<longleftrightarrow>
     rq_project_id r = rq_project_id s \<and> rq_prompt r = rq_prompt s \<and>
     unwrap_or_default (rq_cwd r) = unwrap_or_default (rq_cwd s) \<and>
     unwrap_or_default (rq_model r) = unwrap_or_default (rq_model s) \<and>
     unwrap_or_default (rq_server_hint r) = unwrap_or_default (rq_server_hint s) \<and>
     rq_agent_id r = rq_agent_id s \<and> rq_max_turns r = rq_max_turns s \<and>
     rq_timeout_secs r = rq_timeout_secs s \<and> rq_priority r = rq_priority s \<and>
     rq_parent_task_id r = rq_parent_task_id s \<and>
     unwrap_or_default (rq_routing_profile r) = unwrap_or_default (rq_routing_profile s) \<and>
     set (rq_required_labels r) = set (rq_required_labels s) \<and>
     set (rq_dependency_ids r) = set (rq_dependency_ids s) \<and>
     set (rq_skills_required r) = set (rq_skills_required s)"

text \<open>Every chunk and every list is shorter than \<open>2^64\<close>, as any value in memory is.\<close>

definition request_fits :: "(uuid \<Rightarrow> string) \<Rightarrow> task_request \<Rightarrow> bool" where
  "request_fits show_uuid r \<longleftrightarrow>
     list_all fits (payload_chunks show_uuid r) \<and> fits (rq_required_labels r) \<and>
     fits (rq_dependency_ids r) \<and> fits (rq_skills_required r)"

lemma length_canon: "length (canon xs) \<le> length xs"
  unfolding canon_def by (metis length_sort remdups_adj_length)

lemma fits_canon: "fits xs \<Longrightarrow> fits (canon xs)"
  using length_canon[of xs] by (simp add: fits_def)

lemma fits_map [simp]: "fits (map f xs) = fits xs"
  by (simp add: fits_def)

lemma head_length [simp]: "length (payload_head u r) = 12"
  by (simp add: payload_head_def)

lemma id_uuid_inj:
  "task_uuid a = task_uuid a' \<longleftrightarrow> a = a'"
  "project_uuid b = project_uuid b' \<longleftrightarrow> b = b'"
  "agent_uuid c = agent_uuid c' \<longleftrightarrow> c = c'"
  by (cases a; cases a'; simp) (cases b; cases b'; simp | cases c; cases c'; simp)+

lemma payload_chunks_inj:
  assumes fit: "request_fits u r" "request_fits u s"
    and eq: "payload_chunks u r = payload_chunks u s"
  shows "payload_head u r = payload_head u s"
    and "set (rq_required_labels r) = set (rq_required_labels s)"
    and "(u \<circ> task_uuid) ` set (rq_dependency_ids r) = (u \<circ> task_uuid) ` set (rq_dependency_ids s)"
    and "set (rq_skills_required r) = set (rq_skills_required s)"
proof -
  let ?l = "\<lambda>q. canon (rq_required_labels q)"
  let ?d = "\<lambda>q. canon (map (u \<circ> task_uuid) (rq_dependency_ids q))"
  let ?k = "\<lambda>q. canon (rq_skills_required q)"
  have fits: "fits (?l q)" "fits (?d q)" "fits (?k q)" if "request_fits u q" for q
    using that by (simp_all add: request_fits_def fits_canon)
  show hd: "payload_head u r = payload_head u s"
    using eq by (simp add: payload_chunks_def)
  have tl: "counted (?l r) @ counted (?d r) @ counted (?k r)
      = counted (?l s) @ counted (?d s) @ counted (?k s)"
    using eq by (simp add: payload_chunks_def)
  have l: "?l r = ?l s" "counted (?d r) @ counted (?k r) = counted (?d s) @ counted (?k s)"
    using counted_split[OF fits(1)[OF fit(1)] fits(1)[OF fit(2)] tl] by simp_all
  have d: "?d r = ?d s" "counted (?k r) = counted (?k s)"
    using counted_split[OF fits(2)[OF fit(1)] fits(2)[OF fit(2)] l(2)] by simp_all
  show "set (rq_required_labels r) = set (rq_required_labels s)"
    using l(1) by (simp add: canon_eq_iff)
  show "(u \<circ> task_uuid) ` set (rq_dependency_ids r) = (u \<circ> task_uuid) ` set (rq_dependency_ids s)"
    using d(1) unfolding canon_eq_iff set_map by simp
  show "set (rq_skills_required r) = set (rq_skills_required s)"
    using d(2) by (simp add: counted_def canon_eq_iff)
qed

lemma payload_bytes_cong: "same_submission r s \<Longrightarrow> payload_bytes u r = payload_bytes u s"
proof -
  assume s: "same_submission r s"
  have "canon (map (u \<circ> task_uuid) (rq_dependency_ids r))
      = canon (map (u \<circ> task_uuid) (rq_dependency_ids s))"
    using s by (intro canon_cong) (simp add: same_submission_def)
  moreover have "canon (rq_required_labels r) = canon (rq_required_labels s)"
    "canon (rq_skills_required r) = canon (rq_skills_required s)"
    using s by (auto simp: same_submission_def intro: canon_cong)
  ultimately show ?thesis using s
    by (simp add: payload_bytes_def payload_chunks_def payload_head_def same_submission_def)
qed

lemma payload_head_inj:
  assumes uuid: "\<And>x y. u x = u y \<Longrightarrow> x = y" "\<And>x. u x \<noteq> []"
    and eq: "payload_head u r = payload_head u s"
  shows "rq_project_id r = rq_project_id s" "rq_agent_id r = rq_agent_id s"
    "rq_parent_task_id r = rq_parent_task_id s"
    "rq_max_turns r = rq_max_turns s" "rq_timeout_secs r = rq_timeout_secs s"
proof -
  have inj: "(u \<circ> task_uuid) a = (u \<circ> task_uuid) a' \<Longrightarrow> a = a'"
    "(u \<circ> project_uuid) b = (u \<circ> project_uuid) b' \<Longrightarrow> b = b'"
    "(u \<circ> agent_uuid) c = (u \<circ> agent_uuid) c' \<Longrightarrow> c = c'"
    "(u \<circ> g) d \<noteq> []" for a a' b b' c c' and g :: "'z \<Rightarrow> uuid" and d
    using uuid(2) by (auto dest!: uuid(1) simp: id_uuid_inj)
  have dec_inj': "(dec \<circ> unat) x = (dec \<circ> unat) y \<Longrightarrow> x = y" "(dec \<circ> unat) x \<noteq> []"
    for x y :: "'a::len word"
    by (auto dest!: dec_inj simp: word_unat_eq_iff)
  note parts = eq[unfolded payload_head_def list.inject]
  show "rq_project_id r = rq_project_id s"
    by (rule unwrap_map_inj[of "u \<circ> project_uuid", OF inj(2,4)]) (use parts in blast)+
  show "rq_agent_id r = rq_agent_id s"
    by (rule unwrap_map_inj[of "u \<circ> agent_uuid", OF inj(3,4)]) (use parts in blast)+
  show "rq_parent_task_id r = rq_parent_task_id s"
    by (rule unwrap_map_inj[of "u \<circ> task_uuid", OF inj(1,4)]) (use parts in blast)+
  show "rq_max_turns r = rq_max_turns s"
    by (rule unwrap_map_inj[of "dec \<circ> unat", OF dec_inj']) (use parts in blast)+
  show "rq_timeout_secs r = rq_timeout_secs s"
    by (rule unwrap_map_inj[of "dec \<circ> unat", OF dec_inj']) (use parts in blast)+
qed

text \<open>
  C40. The payload of a submission is an unambiguous encoding: for an injective, non-empty
  rendering of UUIDs, two requests give the same bytes to the digest exactly when they are the
  same submission. With a digest that does not collide on them, an idempotency replay is
  recognised exactly for a re-sent request.
\<close>

theorem payload_bytes_determine_submission:
  assumes uuid: "\<And>x y. show_uuid x = show_uuid y \<Longrightarrow> x = y" "\<And>x. show_uuid x \<noteq> []"
    and fit: "request_fits show_uuid r" "request_fits show_uuid s"
  shows "payload_bytes show_uuid r = payload_bytes show_uuid s \<longleftrightarrow> same_submission r s"
proof
  assume "payload_bytes show_uuid r = payload_bytes show_uuid s"
  then have "payload_chunks show_uuid r = payload_chunks show_uuid s"
    using fit by (intro chunks_inj) (simp_all add: payload_bytes_def request_fits_def)
  note eq = payload_chunks_inj[OF fit this]
  note ids = payload_head_inj[OF uuid eq(1)]
  have "inj (show_uuid \<circ> task_uuid)"
    using uuid(1) by (auto simp: inj_def id_uuid_inj dest!: uuid(1))
  then have "set (rq_dependency_ids r) = set (rq_dependency_ids s)"
    using eq(3) by (simp only: inj_image_eq_iff)
  then show "same_submission r s"
    using eq(1,2,4) ids by (simp add: same_submission_def payload_head_def priority_str_inj)
next
  assume "same_submission r s"
  then show "payload_bytes show_uuid r = payload_bytes show_uuid s" by (rule payload_bytes_cong)
qed

text \<open>Two listings of one label set give one payload; an extra label gives another.\<close>

lemma payload_bytes_determine_submission_witness:
  "payload_bytes (dec \<circ> unat) (default_request\<lparr>rq_required_labels := [''gpu'', ''arm'', ''gpu'']\<rparr>)
     = payload_bytes (dec \<circ> unat) (default_request\<lparr>rq_required_labels := [''arm'', ''gpu'']\<rparr>) \<and>
   payload_bytes (dec \<circ> unat) (default_request\<lparr>rq_required_labels := [''gpu'', ''arm'', ''gpu'']\<rparr>)
     \<noteq> payload_bytes (dec \<circ> unat) (default_request\<lparr>rq_required_labels := [''gpu'']\<rparr>)"
proof -
  have fits: "request_fits (dec \<circ> unat) (default_request\<lparr>rq_required_labels := ls\<rparr>)"
    if "ls \<in> {[''gpu'', ''arm'', ''gpu''], [''arm'', ''gpu''], [''gpu'']}" for ls
    using that
    by (auto simp: request_fits_def payload_chunks_def payload_head_def counted_def canon_def fits_def
        default_request_def payload_hash_version_def)
  have uuid: "(dec \<circ> unat) x = (dec \<circ> unat) y \<Longrightarrow> x = y" "(dec \<circ> unat) x \<noteq> []" for x y :: uuid
    by (auto dest!: dec_inj simp: word_unat_eq_iff)
  note det = payload_bytes_determine_submission[OF uuid fits fits]
  have "payload_bytes (dec \<circ> unat) (default_request\<lparr>rq_required_labels := [''gpu'', ''arm'', ''gpu'']\<rparr>)
     = payload_bytes (dec \<circ> unat) (default_request\<lparr>rq_required_labels := [''arm'', ''gpu'']\<rparr>)"
    by (subst det) (auto simp: same_submission_def)
  moreover have "payload_bytes (dec \<circ> unat) (default_request\<lparr>rq_required_labels := [''gpu'', ''arm'', ''gpu'']\<rparr>)
     \<noteq> payload_bytes (dec \<circ> unat) (default_request\<lparr>rq_required_labels := [''gpu'']\<rparr>)"
    by (subst det) (auto simp: same_submission_def)
  ultimately show ?thesis ..
qed

end
