(* ===== verification/Workspace_Path.thy ===== *)
theory Workspace_Path
  imports Core_Types
begin

text \<open>
  \<open>validate_workspace_cwd\<close> (\<open>crates/fleet-core/src/task.rs\<close>): the lexical check on a
  task's working directory that every submission passes before a task row exists. Strings are
  byte strings; \<open>split('/')\<close> is \<open>split_on\<close>.
\<close>

datatype workspace_path_error = CwdMissing | NotAbsolute string | ParentTraversal string
  | InteriorNul | FilesystemRoot

text \<open>Rust's \<open>str::split(c)\<close>: the pieces between separators, one for an empty string.\<close>

fun split_on :: "char \<Rightarrow> string \<Rightarrow> string list" where
  "split_on c [] = [[]]"
| "split_on c (x # xs) =
     (if x = c then [] # split_on c xs
      else case split_on c xs of [] \<Rightarrow> [[x]] | s # ss \<Rightarrow> (x # s) # ss)"

definition starts_with :: "string \<Rightarrow> string \<Rightarrow> bool" where
  "starts_with p s = (take (length p) s = p)"

definition validate_workspace_cwd :: "string option \<Rightarrow> (workspace_path_error, string) result" where
  "validate_workspace_cwd cwd =
     (case cwd of None \<Rightarrow> Inl CwdMissing
      | Some raw \<Rightarrow>
          if raw = [] then Inl CwdMissing
          else if CHR 0x00 \<in> set raw then Inl InteriorNul
          else if \<not> starts_with ''/'' raw then Inl (NotAbsolute raw)
          else if list_ex (\<lambda>seg. seg = ''..'') (split_on (CHR ''/'') raw) then Inl (ParentTraversal raw)
          else if list_all (\<lambda>seg. seg = [] \<or> seg = ''.'') (split_on (CHR ''/'') raw)
          then Inl FilesystemRoot
          else Inr raw)"

section \<open>Splitting and joining\<close>

fun join_on :: "char \<Rightarrow> string list \<Rightarrow> string" where
  "join_on c [] = []"
| "join_on c [s] = s"
| "join_on c (s # t # ts) = s @ c # join_on c (t # ts)"

lemma split_on_nonempty [simp]: "split_on c s \<noteq> []"
  by (cases s) (auto split: list.splits)

lemma join_split: "join_on c (split_on c s) = s"
proof (induction s)
  case (Cons x xs)
  obtain p ps where ps: "split_on c xs = p # ps"
    using split_on_nonempty[of c xs] by (cases "split_on c xs") auto
  then show ?case using Cons by (cases ps) auto
qed simp

lemma split_on_no_sep: "seg \<in> set (split_on c s) \<Longrightarrow> c \<notin> set seg"
  by (induction s arbitrary: seg) (auto split: list.splits if_splits)

lemma split_on_append_sep: "split_on c (a @ c # b) = split_on c a @ split_on c b"
proof (induction a)
  case (Cons x a)
  obtain p ps where ps: "split_on c a = p # ps"
    using split_on_nonempty[of c a] by (cases "split_on c a") auto
  then show ?case using Cons by auto
qed simp

section \<open>Walking the path\<close>

text \<open>
  What the check is for: reading the path component by component, as the worker's file system
  does without following links, never climbs above the starting directory, and ends in a
  directory strictly below the root.
\<close>

fun walk :: "string list \<Rightarrow> string list \<Rightarrow> string list" where
  "walk cwd [] = cwd"
| "walk cwd (seg # segs) =
     (if seg = [] \<or> seg = ''.'' then walk cwd segs
      else if seg = ''..'' then walk (butlast cwd) segs
      else walk (cwd @ [seg]) segs)"

definition resolve :: "string \<Rightarrow> string list" where
  "resolve raw = walk [] (split_on (CHR ''/'') raw)"

lemma walk_no_parent:
  "''..'' \<notin> set segs \<Longrightarrow> walk cwd segs = cwd @ filter (\<lambda>seg. seg \<noteq> [] \<and> seg \<noteq> ''.'') segs"
  by (induction segs arbitrary: cwd) auto

text \<open>
  A working directory is accepted exactly when it is an absolute path without NUL bytes
  and without a parent segment that names something below the root, and then it is returned
  unchanged; resolving it keeps every named component in order, each free of separators, so a
  path that continues below an accepted one without parent segments stays below it.
\<close>

theorem validate_cwd_accepts:
  assumes "validate_workspace_cwd cwd = Inr p"
  shows "cwd = Some p \<and> CHR 0x00 \<notin> set p \<and> starts_with ''/'' p \<and> resolve p \<noteq> [] \<and>
    resolve p = filter (\<lambda>seg. seg \<noteq> [] \<and> seg \<noteq> ''.'') (split_on (CHR ''/'') p) \<and>
    (\<forall>seg \<in> set (resolve p). CHR ''/'' \<notin> set seg) \<and>
    (\<forall>rest. ''..'' \<notin> set (split_on (CHR ''/'') rest) \<longrightarrow>
       take (length (resolve p)) (resolve (p @ ''/'' @ rest)) = resolve p)"
proof -
  obtain raw where cwd: "cwd = Some raw" and nul: "CHR 0x00 \<notin> set raw"
    and abs: "starts_with ''/'' raw" and up: "''..'' \<notin> set (split_on (CHR ''/'') raw)"
    and root: "\<not> list_all (\<lambda>seg. seg = [] \<or> seg = ''.'') (split_on (CHR ''/'') raw)"
    and p: "p = raw"
    using assms
    by (auto simp: validate_workspace_cwd_def list_ex_iff split: option.splits if_splits)
  have res: "resolve q = filter (\<lambda>seg. seg \<noteq> [] \<and> seg \<noteq> ''.'') (split_on (CHR ''/'') q)"
    if "''..'' \<notin> set (split_on (CHR ''/'') q)" for q
    using walk_no_parent[OF that] by (simp add: resolve_def)
  have "resolve raw \<noteq> []"
    using root by (auto simp: res[OF up] filter_empty_conv list_all_iff)
  moreover have "take (length (resolve raw)) (resolve (raw @ ''/'' @ rest)) = resolve raw"
    if "''..'' \<notin> set (split_on (CHR ''/'') rest)" for rest
  proof -
    have "''..'' \<notin> set (split_on (CHR ''/'') (raw @ ''/'' @ rest))"
      using that up split_on_append_sep[of "CHR ''/''" raw rest] by simp
    then show ?thesis
      using split_on_append_sep[of "CHR ''/''" raw rest] by (simp add: res up)
  qed
  ultimately show ?thesis
    using cwd nul abs p res[OF up] split_on_no_sep[of _ "CHR ''/''" raw] by auto
qed

lemma validate_cwd_accepts_witness:
  "validate_workspace_cwd (Some ''/srv/./repo..'') = Inr ''/srv/./repo..'' \<and>
   resolve ''/srv/./repo..'' = [''srv'', ''repo..'']"
proof -
  have ok: "validate_workspace_cwd (Some ''/srv/./repo..'') = Inr ''/srv/./repo..''"
    by (simp add: validate_workspace_cwd_def starts_with_def)
  show ?thesis using ok validate_cwd_accepts[OF ok] by simp
qed

text \<open>
  Every refused working directory is refused for a reason that is true of it, checked in
  this order: missing or empty, a NUL byte, not absolute, a parent segment, the root itself.
\<close>

theorem validate_cwd_rejects:
  assumes "validate_workspace_cwd cwd = Inl e"
  shows "case e of
      CwdMissing \<Rightarrow> cwd = None \<or> cwd = Some []
    | InteriorNul \<Rightarrow> (\<exists>raw. cwd = Some raw \<and> CHR 0x00 \<in> set raw)
    | NotAbsolute raw \<Rightarrow> cwd = Some raw \<and> CHR 0x00 \<notin> set raw \<and> hd raw \<noteq> CHR ''/'' \<and> raw \<noteq> []
    | ParentTraversal raw \<Rightarrow> cwd = Some raw \<and> hd raw = CHR ''/'' \<and>
        ''..'' \<in> set (split_on (CHR ''/'') raw)
    | FilesystemRoot \<Rightarrow> (\<exists>raw. cwd = Some raw \<and> hd raw = CHR ''/'' \<and> resolve raw = [])"
proof (cases cwd)
  case None
  then show ?thesis using assms by (auto simp: validate_workspace_cwd_def)
next
  case (Some raw)
  have sw: "raw \<noteq> [] \<Longrightarrow> starts_with ''/'' raw = (hd raw = CHR ''/'')"
    by (cases raw) (auto simp: starts_with_def)
  have root: "resolve raw = []"
    if "list_all (\<lambda>seg. seg = [] \<or> seg = ''.'') (split_on (CHR ''/'') raw)"
      "''..'' \<notin> set (split_on (CHR ''/'') raw)"
    using that walk_no_parent[OF that(2), of "[]"]
    by (auto simp: resolve_def list_all_iff filter_empty_conv)
  show ?thesis
    using assms Some sw root
    by (auto simp: validate_workspace_cwd_def list_ex_iff split: if_splits)
qed

lemma validate_cwd_rejects_witness:
  "validate_workspace_cwd (Some ''/.//'') = Inl FilesystemRoot \<and> resolve ''/.//'' = []"
proof -
  have e: "validate_workspace_cwd (Some ''/.//'') = Inl FilesystemRoot"
    by (simp add: validate_workspace_cwd_def starts_with_def)
  show ?thesis using e validate_cwd_rejects[OF e] by simp
qed

end
