(* ===== verification/Server_Key.thy ===== *)
theory Server_Key
  imports Core_Types
begin

text \<open>
  Handling of the secret in a worker endpoint (\<open>crates/fleet-core/src/worker.rs\<close>):
  \<open>mask_server_key\<close> hides it before an endpoint leaves the process, \<open>split_server_key\<close>
  takes it out of the URL that is dialled. Strings are byte strings, so the byte offsets of the
  code are list positions.
\<close>

definition server_key_marker :: string where
  "server_key_marker = ''server-key=''"

text \<open>\<open>haystack.find(needle)\<close>: the offset of the first occurrence.\<close>

fun find_sub :: "string \<Rightarrow> string \<Rightarrow> nat option" where
  "find_sub pat s =
     (if take (length pat) s = pat then Some 0
      else case s of [] \<Rightarrow> None | _ # s' \<Rightarrow> map_option Suc (find_sub pat s'))"

declare find_sub.simps [simp del]

definition ends_value :: "char \<Rightarrow> bool" where
  "ends_value c = (c = CHR ''&'' \<or> c = CHR ''#'')"

text \<open>\<open>s.find(['&', '#']).unwrap_or(s.len())\<close>: how far the value extends.\<close>

definition value_len :: "string \<Rightarrow> nat" where
  "value_len s = length (takeWhile (\<lambda>c. \<not> ends_value c) s)"

definition mask_server_key :: "string \<Rightarrow> string" where
  "mask_server_key endpoint =
     (case find_sub server_key_marker endpoint of
        None \<Rightarrow> endpoint
      | Some idx \<Rightarrow>
          let start = idx + length server_key_marker;
              stop = start + value_len (drop start endpoint)
          in take start endpoint @ ''<redacted>'' @ drop stop endpoint)"

definition split_server_key :: "string \<Rightarrow> string \<times> string option" where
  "split_server_key endpoint =
     (case find_sub server_key_marker endpoint of
        None \<Rightarrow> (endpoint, None)
      | Some idx \<Rightarrow>
          if idx = 0 \<or> endpoint ! (idx - 1) \<notin> {CHR ''?'', CHR ''&''} then (endpoint, None)
          else
            let sep = endpoint ! (idx - 1);
                value_start = idx + length server_key_marker;
                value_end = value_start + value_len (drop value_start endpoint);
                secret = take (value_end - value_start) (drop value_start endpoint)
            in if secret = [] then (endpoint, None)
               else
                 let (cut_from, cut_to) =
                       (if sep = CHR ''&'' then (idx - 1, value_end)
                        else if value_end < length endpoint \<and> endpoint ! value_end = CHR ''&''
                        then (idx, value_end + 1)
                        else (idx - 1, value_end))
                 in (take cut_from endpoint @ drop cut_to endpoint, Some secret))"

section \<open>Where the marker is found\<close>

lemma find_sub_Some: "find_sub pat s = Some i \<Longrightarrow> \<exists>pre post. s = pre @ pat @ post \<and> length pre = i"
proof (induction s arbitrary: i)
  case Nil
  then show ?case
    by (subst (asm) find_sub.simps) (auto split: if_splits intro: exI[of _ "[]"])
next
  case (Cons x s)
  show ?case
  proof (cases "take (length pat) (x # s) = pat")
    case True
    then have "i = 0" using Cons.prems by (subst (asm) find_sub.simps) simp
    moreover have "x # s = [] @ pat @ drop (length pat) (x # s)"
      using append_take_drop_id[of "length pat" "x # s"] unfolding True by simp
    ultimately show ?thesis by (intro exI[of _ "[]"] exI[of _ "drop (length pat) (x # s)"]) simp
  next
    case False
    then obtain j where "find_sub pat s = Some j" "i = Suc j"
      using Cons.prems by (subst (asm) find_sub.simps) auto
    then obtain pre post where "s = pre @ pat @ post" "length pre = j" using Cons.IH by blast
    then show ?thesis using \<open>i = Suc j\<close> by (intro exI[of _ "x # pre"] exI[of _ post]) simp
  qed
qed

text \<open>Text after the marker has no influence on where the marker is found.\<close>

lemma find_sub_append: "find_sub pat (pre @ pat @ post) = find_sub pat (pre @ pat)"
proof (induction pre)
  case Nil
  show ?case by (simp add: find_sub.simps[of pat "pat @ post"] find_sub.simps[of pat pat])
next
  case (Cons x pre)
  have "take (length pat) (((x # pre) @ pat) @ post) = take (length pat) ((x # pre) @ pat)"
    by (subst take_append) simp
  then show ?case
    using Cons.IH
    by (subst find_sub.simps, subst (2) find_sub.simps) simp
qed

lemma value_len_secret:
  assumes "\<forall>c \<in> set secret. \<not> ends_value c" "rest = [] \<or> ends_value (hd rest)"
  shows "value_len (secret @ rest) = length secret"
  using assms by (cases rest) (auto simp: value_len_def takeWhile_append2 takeWhile_eq_all_conv[THEN iffD2])

lemma mask_at:
  assumes "find_sub server_key_marker (pre @ server_key_marker) = Some (length pre)"
    and "\<forall>c \<in> set secret. \<not> ends_value c" "rest = [] \<or> ends_value (hd rest)"
  shows "mask_server_key (pre @ server_key_marker @ secret @ rest)
       = pre @ server_key_marker @ ''<redacted>'' @ rest"
  using assms value_len_secret[OF assms(2,3)]
  by (simp add: mask_server_key_def find_sub_append[of server_key_marker pre "secret @ rest"] Let_def)

text \<open>
  Masking hides the key: two endpoints that differ only in the value of their (first)
  \<open>server-key\<close> parameter have the same masked form, and everything around the value is
  kept.
\<close>

theorem mask_independent_of_secret:
  assumes "find_sub server_key_marker (pre @ server_key_marker) = Some (length pre)"
    and "\<forall>c \<in> set s1 \<union> set s2. c \<noteq> CHR ''&'' \<and> c \<noteq> CHR ''#''"
    and "rest = [] \<or> hd rest = CHR ''&'' \<or> hd rest = CHR ''#''"
  shows "mask_server_key (pre @ server_key_marker @ s1 @ rest)
       = mask_server_key (pre @ server_key_marker @ s2 @ rest) \<and>
    mask_server_key (pre @ server_key_marker @ s1 @ rest)
       = pre @ server_key_marker @ ''<redacted>'' @ rest"
  using assms mask_at[OF assms(1), of s1 rest] mask_at[OF assms(1), of s2 rest]
  by (auto simp: ends_value_def)

lemma mask_independent_of_secret_witness:
  "mask_server_key ''ws://h?server-key=s3cret&x=1'' = ''ws://h?server-key=<redacted>&x=1''"
proof -
  have f: "find_sub server_key_marker (''ws://h?'' @ server_key_marker) = Some (length ''ws://h?'')"
    by (simp add: server_key_marker_def find_sub.simps)
  show ?thesis
    using mask_independent_of_secret[OF f, of "''s3cret''" "[]" "''&x=1''", THEN conjunct2]
    by (simp add: server_key_marker_def)
qed

text \<open>
  Only the first parameter is masked: a second \<open>server-key\<close> parameter of the same
  endpoint is left readable.
\<close>

theorem mask_leaves_second_key:
  "mask_server_key ''ws://h?server-key=a&server-key=b'' = ''ws://h?server-key=<redacted>&server-key=b''"
  by (simp add: mask_server_key_def server_key_marker_def find_sub.simps value_len_def ends_value_def)

text \<open>
  Splitting takes out exactly one query parameter: when a key is returned, the endpoint was
  the text around a \<open>server-key\<close> parameter introduced by \<open>?\<close> or \<open>&\<close>, the key is its
  whole non-empty value, and the dialled URL is the endpoint without the parameter and without
  one separator. When none is returned, the endpoint is unchanged.
\<close>

theorem split_server_key_spec:
  "case split_server_key e of
     (url, None) \<Rightarrow> url = e
   | (url, Some key) \<Rightarrow> (\<exists>pre sep rest.
       e = pre @ [sep] @ server_key_marker @ key @ rest \<and> sep \<in> {CHR ''?'', CHR ''&''} \<and>
       key \<noteq> [] \<and> (\<forall>c \<in> set key. c \<noteq> CHR ''&'' \<and> c \<noteq> CHR ''#'') \<and>
       (rest = [] \<or> hd rest = CHR ''&'' \<or> hd rest = CHR ''#'') \<and>
       url = (if sep = CHR ''?'' \<and> rest \<noteq> [] \<and> hd rest = CHR ''&'' then pre @ ''?'' @ tl rest
              else pre @ rest))"
proof (cases "snd (split_server_key e)")
  case None
  then have "fst (split_server_key e) = e"
    by (auto simp: split_server_key_def Let_def split: option.splits if_splits prod.splits)
  then show ?thesis using None by (simp add: case_prod_beta)
next
  case (Some key)
  then obtain idx where idx: "find_sub server_key_marker e = Some idx" "idx \<noteq> 0"
    and sep: "e ! (idx - 1) \<in> {CHR ''?'', CHR ''&''}"
    by (auto simp: split_server_key_def split: option.splits if_splits)
  obtain pre0 post where e0: "e = pre0 @ server_key_marker @ post" "length pre0 = idx"
    using find_sub_Some[OF idx(1)] by blast
  then obtain pre c where pre0: "pre0 = pre @ [c]" using idx(2) by (cases pre0 rule: rev_cases) auto
  define rest where "rest = dropWhile (\<lambda>c. \<not> ends_value c) post"
  define val where "val = takeWhile (\<lambda>c. \<not> ends_value c) post"
  have post: "post = val @ rest" by (simp add: rest_def val_def)
  have e: "e = pre @ c # server_key_marker @ val @ rest" and len: "idx = Suc (length pre)"
    using e0 pre0 post by simp_all
  have c: "e ! (idx - 1) = c" by (simp add: e len nth_append)
  have vlen: "value_len (val @ rest) = length val"
    unfolding post[symmetric] by (simp add: value_len_def val_def)
  have rest: "rest = [] \<or> ends_value (hd rest)"
    unfolding rest_def using hd_dropWhile[of "\<lambda>c. \<not> ends_value c" post] by blast
  have val: "\<forall>c \<in> set val. \<not> ends_value c" by (auto simp: val_def dest: set_takeWhileD)
  have drop: "drop (idx + length server_key_marker) e = val @ rest" by (simp add: e len)
  have "key = val"
    using Some idx sep c vlen drop
    by (auto simp: split_server_key_def Let_def split: if_splits prod.splits)
  moreover have vne: "val \<noteq> []"
    using Some idx sep c vlen drop
    by (auto simp: split_server_key_def Let_def split: if_splits prod.splits)
  moreover have "fst (split_server_key e) =
     (if c = CHR ''?'' \<and> rest \<noteq> [] \<and> hd rest = CHR ''&'' then pre @ ''?'' @ tl rest else pre @ rest)"
    using Some idx sep c vlen drop vne
    by (cases rest) (auto simp: split_server_key_def Let_def e len nth_append split: if_splits)
  ultimately have sp: "split_server_key e =
     (if c = CHR ''?'' \<and> rest \<noteq> [] \<and> hd rest = CHR ''&'' then pre @ ''?'' @ tl rest else pre @ rest,
      Some val)"
    using Some by (cases "split_server_key e") auto
  have "c \<in> {CHR ''?'', CHR ''&''}" using sep c by simp
  then show ?thesis
    unfolding sp prod.case option.case using e vne val rest
    by (intro exI[of _ pre] exI[of _ c] exI[of _ rest]) (simp add: ends_value_def)
qed

lemma split_server_key_spec_witness:
  "\<exists>pre sep rest. ''ws://h?server-key=k&x=1'' = pre @ [sep] @ server_key_marker @ ''k'' @ rest \<and>
     sep \<in> {CHR ''?'', CHR ''&''} \<and> ''k'' \<noteq> [] \<and>
     (\<forall>c \<in> set ''k''. c \<noteq> CHR ''&'' \<and> c \<noteq> CHR ''#'') \<and>
     (rest = [] \<or> hd rest = CHR ''&'' \<or> hd rest = CHR ''#'') \<and>
     ''ws://h?x=1'' = (if sep = CHR ''?'' \<and> rest \<noteq> [] \<and> hd rest = CHR ''&'' then pre @ ''?'' @ tl rest
            else pre @ rest)"
proof -
  have sp: "split_server_key ''ws://h?server-key=k&x=1'' = (''ws://h?x=1'', Some ''k'')"
    by (simp add: split_server_key_def server_key_marker_def find_sub.simps value_len_def ends_value_def)
  show ?thesis
    using split_server_key_spec[of "''ws://h?server-key=k&x=1''"] unfolding sp prod.case option.case .
qed

end
