(* ===== verification/Worker_Model.thy ===== *)
theory Worker_Model
  imports Core_Types
begin

text \<open>
  Workers as the orchestrator records them (\<open>crates/fleet-core/src/worker.rs\<close>): the entity,
  its status enums, the list filter and the heartbeat message.
\<close>

datatype worker_status = WOnline | WDegraded | WDraining | WOffline | WCircuitOpen

datatype worker_liveness_mode = Periodic | OnDemand

fun liveness_as_str :: "worker_liveness_mode \<Rightarrow> string" where
  "liveness_as_str Periodic = ''periodic''"
| "liveness_as_str OnDemand = ''on_demand''"

type_synonym labels = "(string, string) hmap"

record worker =
  w_id :: worker_id
  w_name :: string
  w_endpoint :: string
  w_labels :: labels
  w_status :: worker_status
  w_last_seen :: "datetime option"
  w_last_activity_at :: "datetime option"
  w_active_tasks :: u32
  w_max_concurrent :: u32
  w_max_agent_processes :: "u32 option"
  w_circuit_state :: circuit_state
  w_worker_version :: "string option"
  w_liveness_mode :: worker_liveness_mode
  w_registered_at :: datetime
  w_incarnation_started_at :: datetime

definition new_worker :: "worker_id \<Rightarrow> datetime \<Rightarrow> datetime \<Rightarrow> string \<Rightarrow> string \<Rightarrow> worker" where
  "new_worker new_id now now' name endpoint = \<lparr>
     w_id = new_id, w_name = name, w_endpoint = endpoint, w_labels = [], w_status = WOnline,
     w_last_seen = Some now', w_last_activity_at = None, w_active_tasks = 0,
     w_max_concurrent = 4, w_max_agent_processes = None, w_circuit_state = CClosed,
     w_worker_version = None, w_liveness_mode = Periodic, w_registered_at = now,
     w_incarnation_started_at = now \<rparr>"

definition matches_labels :: "worker \<Rightarrow> string list \<Rightarrow> bool" where
  "matches_labels w required = list_all (\<lambda>lbl. hm_contains (w_labels w) lbl) required"

record worker_filter =
  wf_status :: "worker_status option"
  wf_labels :: labels
  wf_limit :: nat
  wf_offset :: nat

definition default_worker_filter :: worker_filter where
  "default_worker_filter = \<lparr> wf_status = None, wf_labels = [], wf_limit = 100, wf_offset = 0 \<rparr>"

text \<open>The load, memory and version figures of a heartbeat are not read by the modelled code.\<close>

record worker_heartbeat =
  hb_worker_id :: worker_id
  hb_active_tasks :: u32
  hb_agent_healthy :: bool

end
