(* ===== verification/Agent_Model.thy ===== *)
theory Agent_Model
  imports Core_Types
begin

text \<open>
  Agents, their commands and observations (\<open>crates/fleet-core/src/agent.rs\<close>), the template
  status machine (\<open>agent_template.rs\<close>) and projects (\<open>project.rs\<close>).
\<close>

section \<open>Agents\<close>

datatype agent_status = AgReady | AgStopped

fun agent_status_as_str :: "agent_status \<Rightarrow> string" where
  "agent_status_as_str AgReady = ''ready''"
| "agent_status_as_str AgStopped = ''stopped''"

definition agent_status_parse :: "string \<Rightarrow> agent_status option" where
  "agent_status_parse s = (if s = ''ready'' then Some AgReady
     else if s = ''stopped'' then Some AgStopped else None)"

definition blocks_project_archive :: "agent_status \<Rightarrow> bool" where
  "blocks_project_archive s = (s = AgReady)"

datatype agent_desired_status = DRunning | DStopped

fun desired_as_str :: "agent_desired_status \<Rightarrow> string" where
  "desired_as_str DRunning = ''running''"
| "desired_as_str DStopped = ''stopped''"

definition desired_parse :: "string \<Rightarrow> agent_desired_status option" where
  "desired_parse s = (if s = ''running'' then Some DRunning
     else if s = ''stopped'' then Some DStopped else None)"

datatype agent_observed_status = ObRunning | ObFailed

fun observed_as_str :: "agent_observed_status \<Rightarrow> string" where
  "observed_as_str ObRunning = ''running''"
| "observed_as_str ObFailed = ''failed''"

definition observed_parse :: "string \<Rightarrow> agent_observed_status option" where
  "observed_parse s = (if s = ''running'' then Some ObRunning
     else if s = ''failed'' then Some ObFailed else None)"

datatype agent_observation_reason = CapReachedReason | NoFreePort | SpawnFailed

fun reason_as_str :: "agent_observation_reason \<Rightarrow> string" where
  "reason_as_str CapReachedReason = ''cap_reached''"
| "reason_as_str NoFreePort = ''no_free_port''"
| "reason_as_str SpawnFailed = ''spawn_failed''"

definition reason_parse :: "string \<Rightarrow> agent_observation_reason option" where
  "reason_parse s = (if s = ''cap_reached'' then Some CapReachedReason
     else if s = ''no_free_port'' then Some NoFreePort
     else if s = ''spawn_failed'' then Some SpawnFailed else None)"

datatype agent_observation = ObservedRun agent_id | ObservedFail agent_id agent_observation_reason

fun obs_agent_id :: "agent_observation \<Rightarrow> agent_id" where
  "obs_agent_id (ObservedRun a) = a"
| "obs_agent_id (ObservedFail a _) = a"

fun obs_status :: "agent_observation \<Rightarrow> agent_observed_status" where
  "obs_status (ObservedRun _) = ObRunning"
| "obs_status (ObservedFail _ _) = ObFailed"

fun obs_reason :: "agent_observation \<Rightarrow> agent_observation_reason option" where
  "obs_reason (ObservedRun _) = None"
| "obs_reason (ObservedFail _ r) = Some r"

record agent_command =
  cmd_agent_id :: agent_id
  cmd_desired_status :: agent_desired_status
  cmd_generation :: int

record agent_ack =
  ack_agent_id :: agent_id
  ack_generation :: int

record agent_template_pin =
  pin_template_id :: agent_template_id
  pin_revision_id :: agent_template_revision_id

record agent =
  ag_id :: agent_id
  ag_project_id :: project_id
  ag_name :: string
  ag_description :: "string option"
  ag_created_by :: "string option"
  ag_status :: agent_status
  ag_template_pin :: "agent_template_pin option"
  ag_worker_id :: "worker_id option"
  ag_assigned_at :: "datetime option"
  ag_desired_status :: agent_desired_status
  ag_command_generation :: int
  ag_last_acked_generation :: int
  ag_command_issued_at :: "datetime option"
  ag_command_control_epoch :: "int option"
  ag_observed_status :: "agent_observed_status option"
  ag_observed_at :: "datetime option"
  ag_observed_reason :: "agent_observation_reason option"
  ag_created_at :: datetime
  ag_updated_at :: datetime

definition new_agent :: "agent_id \<Rightarrow> datetime \<Rightarrow> project_id \<Rightarrow> string \<Rightarrow> agent" where
  "new_agent new_id now project name = \<lparr>
     ag_id = new_id, ag_project_id = project, ag_name = name, ag_description = None,
     ag_created_by = None, ag_status = AgReady, ag_template_pin = None, ag_worker_id = None,
     ag_assigned_at = None, ag_desired_status = DStopped, ag_command_generation = 0,
     ag_last_acked_generation = 0, ag_command_issued_at = None, ag_command_control_epoch = None,
     ag_observed_status = None, ag_observed_at = None, ag_observed_reason = None,
     ag_created_at = now, ag_updated_at = now \<rparr>"

definition with_template_pin :: "agent_template_pin \<Rightarrow> agent \<Rightarrow> agent" where
  "with_template_pin pin a = a\<lparr>ag_template_pin := Some pin\<rparr>"

definition with_placement :: "worker_id \<Rightarrow> datetime \<Rightarrow> agent \<Rightarrow> agent" where
  "with_placement w at a = a\<lparr>ag_worker_id := Some w, ag_assigned_at := Some at\<rparr>"

definition without_placement :: "agent \<Rightarrow> agent" where
  "without_placement a = a\<lparr>ag_worker_id := None, ag_assigned_at := None\<rparr>"

definition command_delivered :: "agent \<Rightarrow> bool" where
  "command_delivered a = (ag_last_acked_generation a = ag_command_generation a)"

definition start_pending :: "agent \<Rightarrow> bool" where
  "start_pending a = (ag_status a = AgReady \<and> ag_desired_status a = DRunning \<and>
     ag_observed_status a = None)"

definition command_unacked_for :: "agent \<Rightarrow> datetime \<Rightarrow> timedelta option" where
  "command_unacked_for a now =
     (if command_delivered a then None
      else case ag_command_issued_at a of None \<Rightarrow> None | Some issued \<Rightarrow> Some (max (now - issued) 0))"

record agent_filter =
  af_project_id :: "project_id option"
  af_status :: "agent_status option"
  af_worker_id :: "worker_id option"
  af_limit :: nat
  af_offset :: nat

definition default_agent_filter :: agent_filter where
  "default_agent_filter = \<lparr> af_project_id = None, af_status = None, af_worker_id = None,
     af_limit = 100, af_offset = 0 \<rparr>"

section \<open>Templates and projects\<close>

datatype agent_template_status = TDraft | TPublished | TDeprecated | TRetired | TDiscarded

fun template_status_as_str :: "agent_template_status \<Rightarrow> string" where
  "template_status_as_str TDraft = ''draft''"
| "template_status_as_str TPublished = ''published''"
| "template_status_as_str TDeprecated = ''deprecated''"
| "template_status_as_str TRetired = ''retired''"
| "template_status_as_str TDiscarded = ''discarded''"

definition template_status_parse :: "string \<Rightarrow> agent_template_status option" where
  "template_status_parse s = (if s = ''draft'' then Some TDraft
     else if s = ''published'' then Some TPublished
     else if s = ''deprecated'' then Some TDeprecated
     else if s = ''retired'' then Some TRetired
     else if s = ''discarded'' then Some TDiscarded else None)"

fun allowed_transitions :: "agent_template_status \<Rightarrow> agent_template_status list" where
  "allowed_transitions TDraft = [TPublished, TDiscarded]"
| "allowed_transitions TPublished = [TDeprecated, TRetired]"
| "allowed_transitions TDeprecated = [TPublished, TRetired]"
| "allowed_transitions TRetired = []"
| "allowed_transitions TDiscarded = []"

definition can_transition_to :: "agent_template_status \<Rightarrow> agent_template_status \<Rightarrow> bool" where
  "can_transition_to s next = (next \<in> set (allowed_transitions s))"

definition accepts_new_pins :: "agent_template_status \<Rightarrow> bool" where
  "accepts_new_pins s = (s = TPublished \<or> s = TDeprecated)"

definition accepts_new_revisions :: "agent_template_status \<Rightarrow> bool" where
  "accepts_new_revisions s = (s = TDraft \<or> s = TPublished \<or> s = TDeprecated)"

record agent_template =
  at_id :: agent_template_id
  at_project_id :: "project_id option"
  at_name :: string
  at_description :: "string option"
  at_created_by :: "string option"
  at_status :: agent_template_status
  at_created_at :: datetime
  at_updated_at :: datetime

record agent_template_body =
  tb_role_prompt :: string
  tb_tools :: "string list"
  tb_skills :: "string list"

record agent_template_revision =
  rev_id :: agent_template_revision_id
  rev_template_id :: agent_template_id
  rev_content_revision :: int
  rev_content_hash :: string
  rev_body :: agent_template_body
  rev_revoked_at :: "datetime option"
  rev_created_by :: "string option"
  rev_created_at :: datetime

definition is_revoked :: "agent_template_revision \<Rightarrow> bool" where
  "is_revoked r = (rev_revoked_at r \<noteq> None)"

datatype project_status = PrActive | PrDraining | PrArchived

fun project_status_as_str :: "project_status \<Rightarrow> string" where
  "project_status_as_str PrActive = ''active''"
| "project_status_as_str PrDraining = ''draining''"
| "project_status_as_str PrArchived = ''archived''"

definition project_status_parse :: "string \<Rightarrow> project_status option" where
  "project_status_parse s = (if s = ''active'' then Some PrActive
     else if s = ''draining'' then Some PrDraining
     else if s = ''archived'' then Some PrArchived else None)"

definition accepts_new_tasks :: "project_status \<Rightarrow> bool" where
  "accepts_new_tasks s = (s = PrActive)"

record project =
  pr_id :: project_id
  pr_name :: string
  pr_description :: "string option"
  pr_created_by :: "string option"
  pr_status :: project_status
  pr_created_at :: datetime
  pr_updated_at :: datetime

record project_filter =
  pf_status :: "project_status option"
  pf_limit :: nat
  pf_offset :: nat

definition new_project :: "project_id \<Rightarrow> datetime \<Rightarrow> string \<Rightarrow> project" where
  "new_project new_id now name = \<lparr> pr_id = new_id, pr_name = name, pr_description = None,
     pr_created_by = None, pr_status = PrActive, pr_created_at = now, pr_updated_at = now \<rparr>"

lemma without_placement_simps [simp]:
  "ag_worker_id (without_placement a) = None" "ag_id (without_placement a) = ag_id a"
  "ag_status (without_placement a) = ag_status a"
  by (simp_all add: without_placement_def)

end
