(* ===== verification/Store_State.thy ===== *)
theory Store_State
  imports Worker_Model Agent_Model
begin

text \<open>
  The state of the store (\<open>crates/fleet-store/src/mem.rs\<close>, \<open>MemStore\<close>), its errors
  (\<open>error.rs\<close>) and the value types of the store interface (\<open>lib.rs\<close>). Each table is a
  hash map. The tables of user accounts, audit, hosts, issues and SSH keys are not part of the
  modelled state; of the issue tables only the task links are, because deleting a task writes
  them. An operation takes the clock as an argument and returns its result with the new store.
\<close>

datatype store_error = Connection string | NotFound | Decode string | Conflict message
  | Migration string | Sqlx string | Json string | BootstrapTokenInvalid message
  | Unsupported string

record worker_operational_credential =
  woc_worker_id :: worker_id
  woc_credential_digest :: string
  woc_issued_at :: datetime
  woc_expires_at :: "datetime option"
  woc_revoked_at :: "datetime option"
  woc_rotation_generation :: int

record control_lease =
  cl_cluster_id :: string
  cl_active_instance_id :: string
  cl_epoch :: int
  cl_acquired_at :: datetime
  cl_expires_at :: datetime
  cl_last_renewed_at :: datetime
  cl_binary_version :: "string option"

record control_fence =
  cf_cluster_id :: string
  cf_epoch :: int

datatype slot_claim = Claimed | CapReached | SlotNoSuchAgent | SlotNoSuchWorker | SlotFenced
  | ObservedRunning

datatype command_issue = Issued | CmdNoSuchAgent | CmdFenced

record bootstrap_token =
  bt_token_digest :: string
  bt_created_at :: datetime
  bt_created_by :: "string option"
  bt_expires_at :: "datetime option"
  bt_max_uses :: u32
  bt_use_count :: u32
  bt_notes :: "string option"
  bt_last_used_by :: "string option"
  bt_last_used_at :: "datetime option"

record stored_credential =
  sc_worker_name :: string
  sc_model_id :: string
  sc_encrypted_blob :: string
  sc_base_url :: string
  sc_api_backend :: string
  sc_context_window :: u32
  sc_model_name :: "string option"
  sc_created_at :: datetime
  sc_rotated_at :: datetime

text \<open>An issue/task link; the label outlives the task.\<close>

record issue_task_link =
  il_issue_id :: issue_id
  il_task_id :: "task_id option"
  il_task_label :: string
  il_linked_by :: string
  il_linked_at :: datetime

record mem_store =
  ms_tasks :: "(task_id, task) hmap"
  ms_workers :: "(worker_id, worker) hmap"
  ms_events :: "event_entry list"
  ms_outputs :: "(task_id, string list) hmap"
  ms_bootstrap_tokens :: "(string, bootstrap_token) hmap"
  ms_operational_credentials :: "(string, worker_operational_credential) hmap"
  ms_credentials :: "(string \<times> string, stored_credential) hmap"
  ms_control_leases :: "(string, control_lease) hmap"
  ms_projects :: "(project_id, project) hmap"
  ms_agents :: "(agent_id, agent) hmap"
  ms_agent_templates :: "(agent_template_id, agent_template) hmap"
  ms_agent_template_revisions :: "(agent_template_revision_id, agent_template_revision) hmap"
  ms_issue_task_links :: "issue_task_link list"
  ms_failing :: "string list"
  ms_drop_placements :: bool

definition empty_store :: mem_store where
  "empty_store = \<lparr> ms_tasks = [], ms_workers = [], ms_events = [], ms_outputs = [],
     ms_bootstrap_tokens = [], ms_operational_credentials = [], ms_credentials = [],
     ms_control_leases = [], ms_projects = [], ms_agents = [], ms_agent_templates = [],
     ms_agent_template_revisions = [], ms_issue_task_links = [], ms_failing = [],
     ms_drop_placements = False \<rparr>"

definition is_failing :: "mem_store \<Rightarrow> string \<Rightarrow> bool" where
  "is_failing s method = (method \<in> set (ms_failing s))"

text \<open>The epoch a cluster's lease row carries, and the fence predicate over it.\<close>

definition lease_epoch :: "mem_store \<Rightarrow> string \<Rightarrow> int option" where
  "lease_epoch s cluster = map_option cl_epoch (hm_get (ms_control_leases s) cluster)"

definition control_fence_holds :: "mem_store \<Rightarrow> control_fence option \<Rightarrow> bool" where
  "control_fence_holds s fence =
     (case fence of None \<Rightarrow> True | Some f \<Rightarrow> lease_epoch s (cf_cluster_id f) = Some (cf_epoch f))"

lemma fence_None [simp]: "control_fence_holds s None"
  by (simp add: control_fence_holds_def)

lemma fence_Some [simp]:
  "control_fence_holds s (Some f) = (lease_epoch s (cf_cluster_id f) = Some (cf_epoch f))"
  by (simp add: control_fence_holds_def)

text \<open>Well-formed tables: every entity is filed once, under its own id.\<close>

definition tables_ok :: "mem_store \<Rightarrow> bool" where
  "tables_ok s \<longleftrightarrow> keyed t_id (ms_tasks s) \<and> keyed w_id (ms_workers s) \<and>
     keyed bt_token_digest (ms_bootstrap_tokens s) \<and>
     keyed woc_credential_digest (ms_operational_credentials s) \<and>
     keyed (\<lambda>c. (sc_worker_name c, sc_model_id c)) (ms_credentials s) \<and>
     keyed cl_cluster_id (ms_control_leases s) \<and> keyed pr_id (ms_projects s) \<and>
     keyed ag_id (ms_agents s) \<and> keyed at_id (ms_agent_templates s) \<and>
     keyed rev_id (ms_agent_template_revisions s) \<and> hm_ok (ms_outputs s)"

lemma tables_ok_empty [simp]: "tables_ok empty_store"
  by (simp add: tables_ok_def empty_store_def)

lemma tables_okD:
  assumes "tables_ok s"
  shows "keyed t_id (ms_tasks s)" "keyed w_id (ms_workers s)" "keyed ag_id (ms_agents s)"
    "keyed pr_id (ms_projects s)" "keyed cl_cluster_id (ms_control_leases s)"
    "keyed bt_token_digest (ms_bootstrap_tokens s)"
    "keyed woc_credential_digest (ms_operational_credentials s)"
    "keyed rev_id (ms_agent_template_revisions s)" "keyed at_id (ms_agent_templates s)"
  using assms by (simp_all add: tables_ok_def)

end
