(* ===== verification/Lease_Store.thy ===== *)
theory Lease_Store
  imports Store_State
begin

text \<open>
  The control-plane lease in the store: who may act as the orchestrator, and under which epoch.
  \<open>mem_*\<close> are the operations of \<open>MemStore\<close> (\<open>crates/fleet-store/src/mem.rs\<close>),
  \<open>pg_*\<close> the SQL statements of \<open>PgStore\<close> (\<open>postgres.rs\<close>) read as functions on the
  table's rows. chrono's conversion of a \<open>std::time::Duration\<close> is the argument \<open>conv\<close>.
\<close>

section \<open>The in-memory operations\<close>

definition conv_or :: "(duration \<Rightarrow> timedelta option) \<Rightarrow> nat \<Rightarrow> duration \<Rightarrow> timedelta" where
  "conv_or conv fallback_secs d =
     (case conv d of Some td \<Rightarrow> td | None \<Rightarrow> int (secs fallback_secs))"

definition lease_held_conflict :: "string \<Rightarrow> store_error" where
  "lease_held_conflict cluster =
     Conflict (Msg ''control plane lease for cluster '{}' is held by another instance'' [ArgStr cluster])"

definition acquire_control_lease ::
    "(duration \<Rightarrow> timedelta option) \<Rightarrow> datetime \<Rightarrow> string \<Rightarrow> string \<Rightarrow> duration \<Rightarrow> string option
     \<Rightarrow> mem_store \<Rightarrow> (store_error, control_lease) result \<times> mem_store" where
  "acquire_control_lease conv now cluster inst ttl version s =
     (let ttl' = conv_or conv 30 ttl;
          grant = (\<lambda>next_epoch.
            let lease = \<lparr> cl_cluster_id = cluster, cl_active_instance_id = inst,
                  cl_epoch = next_epoch, cl_acquired_at = now, cl_expires_at = now + ttl',
                  cl_last_renewed_at = now, cl_binary_version = version \<rparr>
            in (Inr lease,
                s\<lparr>ms_control_leases := hm_insert cluster lease (ms_control_leases s)\<rparr>))
      in case hm_get (ms_control_leases s) cluster of
           Some existing \<Rightarrow>
             if cl_expires_at existing > now then (Inl (lease_held_conflict cluster), s)
             else grant (i64_succ (cl_epoch existing))
         | None \<Rightarrow> grant 1)"

definition renew_control_lease ::
    "(duration \<Rightarrow> timedelta option) \<Rightarrow> datetime \<Rightarrow> string \<Rightarrow> string \<Rightarrow> int \<Rightarrow> duration
     \<Rightarrow> mem_store \<Rightarrow> (store_error, control_lease) result \<times> mem_store" where
  "renew_control_lease conv now cluster inst epoch ttl s =
     (let ttl' = conv_or conv 30 ttl in
      case hm_get (ms_control_leases s) cluster of
        Some l \<Rightarrow>
          if cl_active_instance_id l = inst \<and> cl_epoch l = epoch \<and> cl_expires_at l > now then
            let l' = l\<lparr>cl_expires_at := now + ttl', cl_last_renewed_at := now\<rparr>
            in (Inr l', s\<lparr>ms_control_leases := hm_insert cluster l' (ms_control_leases s)\<rparr>)
          else (Inl NotFound, s)
      | None \<Rightarrow> (Inl NotFound, s))"

definition release_control_lease ::
    "datetime \<Rightarrow> string \<Rightarrow> string \<Rightarrow> int \<Rightarrow> mem_store \<Rightarrow> (store_error, bool) result \<times> mem_store" where
  "release_control_lease now cluster inst epoch s =
     (case hm_get (ms_control_leases s) cluster of
        Some l \<Rightarrow>
          if cl_active_instance_id l = inst \<and> cl_epoch l = epoch then
            (Inr True, s\<lparr>ms_control_leases :=
               hm_insert cluster (l\<lparr>cl_expires_at := now\<rparr>) (ms_control_leases s)\<rparr>)
          else (Inr False, s)
      | None \<Rightarrow> (Inr False, s))"

definition get_control_lease :: "string \<Rightarrow> mem_store \<Rightarrow> (store_error, control_lease option) result" where
  "get_control_lease cluster s = Inr (hm_get (ms_control_leases s) cluster)"

section \<open>The SQL statements\<close>

text \<open>
  \<open>INSERT .. ON CONFLICT (cluster_id) DO UPDATE .. WHERE expires_at < NOW() RETURNING\<close>: one
  statement, which inserts, updates the conflicting row when the \<open>WHERE\<close> clause holds, or
  returns no row. \<open>BIGINT\<close> addition fails when it leaves the range.
\<close>

definition pg_acquire_control_lease ::
    "datetime \<Rightarrow> string \<Rightarrow> string \<Rightarrow> duration \<Rightarrow> string option
     \<Rightarrow> mem_store \<Rightarrow> (store_error, control_lease) result \<times> mem_store" where
  "pg_acquire_control_lease now cluster inst ttl version s =
     (let row = (\<lambda>e. \<lparr> cl_cluster_id = cluster, cl_active_instance_id = inst, cl_epoch = e,
            cl_acquired_at = now, cl_expires_at = now + int ttl, cl_last_renewed_at = now,
            cl_binary_version = version \<rparr>);
          write = (\<lambda>r. (Inr r,
            s\<lparr>ms_control_leases := hm_insert cluster r (ms_control_leases s)\<rparr>))
      in case hm_get (ms_control_leases s) cluster of
           None \<Rightarrow> write (row 1)
         | Some old \<Rightarrow>
             if cl_expires_at old < now then
               if cl_epoch old = i64_max then (Inl (Sqlx ''bigint out of range''), s)
               else write (row (cl_epoch old + 1))
             else (Inl (lease_held_conflict cluster), s))"

definition pg_renew_control_lease ::
    "datetime \<Rightarrow> string \<Rightarrow> string \<Rightarrow> int \<Rightarrow> duration
     \<Rightarrow> mem_store \<Rightarrow> (store_error, control_lease) result \<times> mem_store" where
  "pg_renew_control_lease now cluster inst epoch ttl s =
     (case hm_get (ms_control_leases s) cluster of
        Some l \<Rightarrow>
          if cl_active_instance_id l = inst \<and> cl_epoch l = epoch \<and> cl_expires_at l > now then
            let l' = l\<lparr>cl_expires_at := now + int ttl, cl_last_renewed_at := now\<rparr>
            in (Inr l', s\<lparr>ms_control_leases := hm_insert cluster l' (ms_control_leases s)\<rparr>)
          else (Inl NotFound, s)
      | None \<Rightarrow> (Inl NotFound, s))"

definition pg_release_control_lease ::
    "datetime \<Rightarrow> string \<Rightarrow> string \<Rightarrow> int \<Rightarrow> mem_store \<Rightarrow> (store_error, bool) result \<times> mem_store" where
  "pg_release_control_lease now cluster inst epoch s =
     (case hm_get (ms_control_leases s) cluster of
        Some l \<Rightarrow>
          if cl_active_instance_id l = inst \<and> cl_epoch l = epoch then
            (Inr True, s\<lparr>ms_control_leases :=
               hm_insert cluster (l\<lparr>cl_expires_at := now\<rparr>) (ms_control_leases s)\<rparr>)
          else (Inr False, s)
      | None \<Rightarrow> (Inr False, s))"

lemmas lease_op_defs = acquire_control_lease_def renew_control_lease_def release_control_lease_def
  pg_acquire_control_lease_def pg_renew_control_lease_def pg_release_control_lease_def

section \<open>How an operation moves the epoch\<close>

text \<open>
  The only change to a cluster's epoch is a step to its successor (from nothing, to 1), made by
  a successful acquisition.
\<close>

definition epoch_next :: "int option \<Rightarrow> int" where
  "epoch_next e = (case e of None \<Rightarrow> 1 | Some n \<Rightarrow> i64_succ n)"

lemma acquire_cases:
  assumes "acquire_control_lease conv now c inst ttl ver s = (r, s')"
  obtains (granted) l where "r = Inr l" "cl_epoch l = epoch_next (lease_epoch s c)"
      "cl_active_instance_id l = inst" "cl_cluster_id l = c"
      "s' = s\<lparr>ms_control_leases := hm_insert c l (ms_control_leases s)\<rparr>"
      "\<And>old. hm_get (ms_control_leases s) c = Some old \<Longrightarrow> cl_expires_at old \<le> now"
    | (refused) e where "r = Inl e" "s' = s"
  using assms
  by (cases "hm_get (ms_control_leases s) c")
    (auto simp: acquire_control_lease_def Let_def lease_epoch_def epoch_next_def split: if_splits)

lemma pg_acquire_cases:
  assumes "pg_acquire_control_lease now c inst ttl ver s = (r, s')"
  obtains (granted) l where "r = Inr l" "cl_epoch l = epoch_next (lease_epoch s c)"
      "cl_active_instance_id l = inst" "cl_cluster_id l = c"
      "s' = s\<lparr>ms_control_leases := hm_insert c l (ms_control_leases s)\<rparr>"
      "\<And>old. hm_get (ms_control_leases s) c = Some old \<Longrightarrow> cl_expires_at old < now"
    | (refused) e where "r = Inl e" "s' = s"
  using assms
  by (cases "hm_get (ms_control_leases s) c")
    (auto simp: pg_acquire_control_lease_def Let_def lease_epoch_def epoch_next_def i64_succ_def
      split: if_splits)

lemma lease_epoch_insert:
  "lease_epoch (s\<lparr>ms_control_leases := hm_insert c l (ms_control_leases s)\<rparr>) c'
     = (if c' = c then Some (cl_epoch l) else lease_epoch s c')"
  by (simp add: lease_epoch_def)

lemma renew_epoch:
  "lease_epoch (snd (renew_control_lease conv now c inst e ttl s)) c' = lease_epoch s c'"
  "lease_epoch (snd (pg_renew_control_lease now c inst e ttl s)) c' = lease_epoch s c'"
  by (auto simp: lease_op_defs Let_def lease_epoch_def split: option.splits)

lemma release_epoch:
  "lease_epoch (snd (release_control_lease now c inst e s)) c' = lease_epoch s c'"
  "lease_epoch (snd (pg_release_control_lease now c inst e s)) c' = lease_epoch s c'"
  by (auto simp: lease_op_defs lease_epoch_def split: option.splits)

lemma acquire_epoch:
  "lease_epoch (snd (acquire_control_lease conv now c inst ttl ver s)) c' \<in>
     {lease_epoch s c', Some (epoch_next (lease_epoch s c'))}"
proof (cases "acquire_control_lease conv now c inst ttl ver s")
  case (Pair r s')
  then show ?thesis by (rule acquire_cases) (auto simp: Pair lease_epoch_insert)
qed

lemma pg_acquire_epoch:
  "lease_epoch (snd (pg_acquire_control_lease now c inst ttl ver s)) c' \<in>
     {lease_epoch s c', Some (epoch_next (lease_epoch s c'))}"
proof (cases "pg_acquire_control_lease now c inst ttl ver s")
  case (Pair r s')
  then show ?thesis by (rule pg_acquire_cases) (auto simp: Pair lease_epoch_insert)
qed

section \<open>The lease contract\<close>

datatype lease_call =
    LAcquire (call_time: datetime) (call_cluster: string) (call_instance: string) duration "string option"
  | LRenew (call_time: datetime) (call_cluster: string) (call_instance: string) int duration
  | LRelease (call_time: datetime) (call_cluster: string) (call_instance: string) int

datatype lease_reply = LeaseReply "(store_error, control_lease) result"
  | BoolReply "(store_error, bool) result"

fun mem_lease_call :: "(duration \<Rightarrow> timedelta option) \<Rightarrow> lease_call \<Rightarrow> mem_store \<Rightarrow> lease_reply \<times> mem_store" where
  "mem_lease_call conv (LAcquire now c inst ttl v) s = apfst LeaseReply (acquire_control_lease conv now c inst ttl v s)"
| "mem_lease_call conv (LRenew now c inst e ttl) s = apfst LeaseReply (renew_control_lease conv now c inst e ttl s)"
| "mem_lease_call conv (LRelease now c inst e) s = apfst BoolReply (release_control_lease now c inst e s)"

fun pg_lease_call :: "lease_call \<Rightarrow> mem_store \<Rightarrow> lease_reply \<times> mem_store" where
  "pg_lease_call (LAcquire now c inst ttl v) s = apfst LeaseReply (pg_acquire_control_lease now c inst ttl v s)"
| "pg_lease_call (LRenew now c inst e ttl) s = apfst LeaseReply (pg_renew_control_lease now c inst e ttl s)"
| "pg_lease_call (LRelease now c inst e) s = apfst BoolReply (pg_release_control_lease now c inst e s)"

definition lease_row :: "mem_store \<Rightarrow> string \<Rightarrow> control_lease option" where
  "lease_row s c = hm_get (ms_control_leases s) c"

text \<open>Calls that name another holder, or another epoch, than the lease does.\<close>

fun foreign_to :: "control_lease \<Rightarrow> lease_call \<Rightarrow> bool" where
  "foreign_to l (LAcquire now c inst ttl v) = True"
| "foreign_to l (LRenew now c inst e ttl) = (inst \<noteq> cl_active_instance_id l \<or> e \<noteq> cl_epoch l)"
| "foreign_to l (LRelease now c inst e) = (inst \<noteq> cl_active_instance_id l \<or> e \<noteq> cl_epoch l)"

locale lease_service =
  fixes exec :: "lease_call \<Rightarrow> 's \<Rightarrow> lease_reply \<times> 's"
    and row :: "'s \<Rightarrow> string \<Rightarrow> control_lease option"
  assumes foreign_refused: "row s (call_cluster k) = Some l \<Longrightarrow> foreign_to l k \<Longrightarrow>
      call_time k < cl_expires_at l \<Longrightarrow> snd (exec k s) = s"
    and other_cluster: "call_cluster k \<noteq> c \<Longrightarrow> row (snd (exec k s)) c = row s c"
    and epoch_step: "map_option cl_epoch (row (snd (exec k s)) c) \<in>
      {map_option cl_epoch (row s c), Some (epoch_next (map_option cl_epoch (row s c)))}"
    and granted: "exec (LAcquire now c inst ttl v) s = (LeaseReply (Inr l), s') \<Longrightarrow>
      row s' c = Some l \<and> cl_active_instance_id l = inst \<and>
      cl_epoch l = epoch_next (map_option cl_epoch (row s c)) \<and>
      (\<forall>old. row s c = Some old \<longrightarrow> cl_expires_at old \<le> now)"
begin

abbreviation run :: "lease_call list \<Rightarrow> 's \<Rightarrow> 's" where
  "run ks s \<equiv> fold (\<lambda>k. snd \<circ> exec k) ks s"

text \<open>Until it expires, a lease cannot be touched by anyone but its holder.\<close>

lemma foreign_run_keeps_row:
  assumes "row s c = Some l"
    and "\<And>k. k \<in> set ks \<Longrightarrow> foreign_to l k \<and> call_time k < cl_expires_at l"
  shows "row (run ks s) c = Some l"
  using assms
proof (induction ks arbitrary: s)
  case (Cons k ks)
  have "row (snd (exec k s)) c = Some l"
  proof (cases "call_cluster k = c")
    case True
    then have "snd (exec k s) = s" using Cons.prems foreign_refused[of s k l] by simp
    then show ?thesis using Cons.prems(1) by simp
  next
    case False
    then show ?thesis using Cons.prems(1) other_cluster by simp
  qed
  then show ?case using Cons by simp
qed simp

text \<open>The epoch only moves forward, by at most one per call.\<close>

lemma run_epoch:
  assumes "map_option cl_epoch (row s c) = Some e" "e + int (length ks) \<le> i64_max"
  shows "\<exists>e'. map_option cl_epoch (row (run ks s) c) = Some e' \<and> e \<le> e' \<and> e' \<le> e + int (length ks)"
  using assms
proof (induction ks arbitrary: s e)
  case (Cons k ks)
  have "map_option cl_epoch (row (snd (exec k s)) c) \<in> {Some e, Some (e + 1)}"
    using epoch_step[of k s c] Cons.prems by (auto simp: epoch_next_def i64_succ_less)
  then obtain d where d: "map_option cl_epoch (row (snd (exec k s)) c) = Some (e + d)" "d \<in> {0, 1}"
    by auto
  then have "e + d + int (length ks) \<le> i64_max" using Cons.prems(2) by auto
  from Cons.IH[OF d(1) this] show ?case using d(2) by auto
qed auto

end

lemma conv_or_Some: "conv d = Some td \<Longrightarrow> conv_or conv n d = td"
  by (simp add: conv_or_def)

lemma mem_granted:
  assumes "acquire_control_lease conv now c inst ttl v s = (Inr l, s')"
  shows "lease_row s' c = Some l \<and> cl_active_instance_id l = inst \<and>
      cl_epoch l = epoch_next (lease_epoch s c) \<and>
      (\<forall>old. lease_row s c = Some old \<longrightarrow> cl_expires_at old \<le> now)"
  using assms by (cases rule: acquire_cases) (auto simp: lease_row_def)

lemma pg_granted:
  assumes "pg_acquire_control_lease now c inst ttl v s = (Inr l, s')"
  shows "lease_row s' c = Some l \<and> cl_active_instance_id l = inst \<and>
      cl_epoch l = epoch_next (lease_epoch s c) \<and>
      (\<forall>old. lease_row s c = Some old \<longrightarrow> cl_expires_at old \<le> now)"
  using assms by (cases rule: pg_acquire_cases) (force simp: lease_row_def)+

lemma lease_epoch_row: "lease_epoch s c = map_option cl_epoch (lease_row s c)"
  by (simp add: lease_epoch_def lease_row_def)

interpretation mem_lease: lease_service "mem_lease_call conv" lease_row for conv
proof (unfold_locales, goal_cases)
  case (1 s k l)
  then show ?case
    by (cases k) (auto simp: lease_row_def lease_op_defs Let_def)
next
  case (2 k c s)
  then show ?case
    by (cases k) (auto simp: lease_row_def lease_op_defs Let_def split: option.splits)
next
  case (3 k s c)
  then show ?case
    using acquire_epoch renew_epoch(1) release_epoch(1)
    by (cases k) (simp_all flip: lease_epoch_row)
next
  case (4 now c inst ttl v s l s')
  then show ?case using mem_granted[of conv now c inst ttl v s l s']
    by (cases "acquire_control_lease conv now c inst ttl v s") (simp add: lease_epoch_row)
qed

interpretation pg_lease: lease_service pg_lease_call lease_row
proof (unfold_locales, goal_cases)
  case (1 s k l)
  then show ?case
    by (cases k) (auto simp: lease_row_def lease_op_defs Let_def)
next
  case (2 k c s)
  then show ?case
    by (cases k) (auto simp: lease_row_def lease_op_defs Let_def split: option.splits)
next
  case (3 k s c)
  then show ?case
    using pg_acquire_epoch renew_epoch(2) release_epoch(2)
    by (cases k) (simp_all flip: lease_epoch_row)
next
  case (4 now c inst ttl v s l s')
  then show ?case using pg_granted[of now c inst ttl v s l s']
    by (cases "pg_acquire_control_lease now c inst ttl v s") (simp add: lease_epoch_row)
qed
section \<open>Properties of the lease\<close>

text \<open>
  C23. A granted lease is exclusive until it expires: whatever calls other instances make
  before that time (acquisitions of the same cluster, renewals or releases under another name or
  epoch, calls for other clusters), in whatever order, the holder's lease row is untouched.
\<close>

theorem lease_exclusive_until_expiry:
  assumes "acquire_control_lease conv now c inst ttl ver s = (Inr l, s')"
    and "\<And>k. k \<in> set ks \<Longrightarrow> foreign_to l k \<and> call_time k < cl_expires_at l"
  shows "lease_row (fold (\<lambda>k. snd \<circ> mem_lease_call conv k) ks s') c = Some l \<and>
    cl_active_instance_id l = inst \<and> cl_expires_at l = now + conv_or conv 30 ttl"
proof -
  have "cl_expires_at l = now + conv_or conv 30 ttl"
    using assms(1) by (auto simp: acquire_control_lease_def Let_def split: option.splits if_splits)
  then show ?thesis
    using mem_granted[OF assms(1)] mem_lease.foreign_run_keeps_row[of s' c l ks conv] assms(2)
    by simp
qed

abbreviation ns_conv :: "duration \<Rightarrow> timedelta option" where
  "ns_conv d \<equiv> Some (int d)"

lemma lease_exclusive_until_expiry_witness:
  "lease_row (fold (\<lambda>k. snd \<circ> mem_lease_call ns_conv k)
     [LAcquire 5 ''c'' ''b'' 10 None, LRelease 9 ''c'' ''b'' 1]
     (snd (acquire_control_lease ns_conv 0 ''c'' ''a'' 10 None empty_store))) ''c''
   = Some \<lparr> cl_cluster_id = ''c'', cl_active_instance_id = ''a'', cl_epoch = 1,
       cl_acquired_at = 0, cl_expires_at = 10, cl_last_renewed_at = 0, cl_binary_version = None \<rparr>"
proof -
  let ?l = "\<lparr> cl_cluster_id = ''c'', cl_active_instance_id = ''a'', cl_epoch = 1,
       cl_acquired_at = 0, cl_expires_at = 10, cl_last_renewed_at = 0, cl_binary_version = None \<rparr>"
  let ?r = "acquire_control_lease ns_conv 0 ''c'' ''a'' 10 None empty_store"
  have acq: "?r = (Inr ?l, snd ?r)"
    by (simp add: acquire_control_lease_def empty_store_def conv_or_def Let_def)
  show ?thesis
    by (rule lease_exclusive_until_expiry[OF acq, THEN conjunct1]) auto
qed

text \<open>
  The SQL lease and the in-memory lease agree: away from the instant at which the lease
  expires, and below the largest epoch, every lease call has the same reply and leaves the same
  table in both stores.
\<close>

theorem pg_lease_agrees_with_mem:
  assumes "\<And>d. conv d = Some (int d)"
    and "\<And>l. lease_row s (call_cluster k) = Some l \<Longrightarrow>
           cl_expires_at l \<noteq> call_time k \<and> cl_epoch l < i64_max"
  shows "pg_lease_call k s = mem_lease_call conv k s"
  using assms
  by (cases k)
    (force simp: lease_op_defs Let_def conv_or_def lease_row_def i64_succ_def split: option.splits)+

lemma pg_lease_agrees_with_mem_witness:
  "pg_lease_call (LAcquire 20 ''c'' ''b'' 10 None)
     (snd (acquire_control_lease ns_conv 0 ''c'' ''a'' 10 None empty_store))
   = mem_lease_call ns_conv (LAcquire 20 ''c'' ''b'' 10 None)
     (snd (acquire_control_lease ns_conv 0 ''c'' ''a'' 10 None empty_store))"
  by (rule pg_lease_agrees_with_mem)
    (auto simp: acquire_control_lease_def empty_store_def conv_or_def Let_def lease_row_def i64_max_def)

text \<open>
  At the expiry instant itself they differ: after a holder releases its lease at time
  \<open>now\<close>, an acquisition at the same \<open>now\<close> succeeds in memory, with the next epoch, and
  is refused by the SQL statement, which waits for \<open>expires_at < NOW()\<close>.
\<close>

theorem release_boundary_differs:
  assumes "lease_row s c = Some l"
  shows "let s' = snd (release_control_lease now c (cl_active_instance_id l) (cl_epoch l) s) in
    (\<exists>l'. fst (acquire_control_lease conv now c inst ttl ver s') = Inr l' \<and>
          cl_epoch l' = i64_succ (cl_epoch l)) \<and>
    pg_acquire_control_lease now c inst ttl ver s' = (Inl (lease_held_conflict c), s')"
  using assms by (simp add: lease_op_defs lease_row_def Let_def)

lemma release_boundary_differs_witness:
  "let s' = snd (release_control_lease 7 ''c'' ''a'' 1
      (snd (acquire_control_lease ns_conv 0 ''c'' ''a'' 10 None empty_store))) in
    (\<exists>l'. fst (acquire_control_lease ns_conv 7 ''c'' ''b'' 10 None s') = Inr l' \<and>
          cl_epoch l' = i64_succ 1) \<and>
    pg_acquire_control_lease 7 ''c'' ''b'' 10 None s' = (Inl (lease_held_conflict ''c''), s')"
proof -
  let ?l = "\<lparr> cl_cluster_id = ''c'', cl_active_instance_id = ''a'', cl_epoch = 1,
       cl_acquired_at = 0, cl_expires_at = 10, cl_last_renewed_at = 0, cl_binary_version = None \<rparr>"
  have "lease_row (snd (acquire_control_lease ns_conv 0 ''c'' ''a'' 10 None empty_store)) ''c'' = Some ?l"
    by (simp add: acquire_control_lease_def empty_store_def conv_or_def Let_def lease_row_def)
  from release_boundary_differs[OF this, of 7 ns_conv "''b''" 10 None] show ?thesis by simp
qed

end
