(* ===== verification/Fencing.thy ===== *)
theory Fencing
  imports Lease_Store
begin

text \<open>
  The contract of a fenced write: an operation that carries the control-plane epoch of its caller
  and does nothing when the lease has moved on. The store's fenced operations (task transitions,
  session and skill records, agent placement, desired state) are instances; a caller reasons with
  the lemmas below.
\<close>

locale fenced_write =
  fixes fop :: "control_fence option \<Rightarrow> mem_store \<Rightarrow> 'r \<times> mem_store"
    and refusal :: "'r \<Rightarrow> bool"
  assumes stale_refused: "\<not> control_fence_holds s fence \<Longrightarrow> refusal (fst (fop fence s))"
    and stale_noop: "\<not> control_fence_holds s fence \<Longrightarrow> snd (fop fence s) = s"
    and leases_kept: "ms_control_leases (snd (fop fence s)) = ms_control_leases s"
begin

lemma epoch_kept: "lease_epoch (snd (fop fence s)) c = lease_epoch s c"
  by (simp add: lease_epoch_def leases_kept)

lemma written_current: "\<not> refusal (fst (fop fence s)) \<Longrightarrow> control_fence_holds s fence"
  using stale_refused by blast

lemma changed_current: "snd (fop fence s) \<noteq> s \<Longrightarrow> control_fence_holds s fence"
  using stale_noop by blast

text \<open>Once a later epoch has been granted, no lease traffic makes the fence current again.\<close>

lemma superseded:
  assumes "lease_epoch s (cf_cluster_id f) = Some e" "cf_epoch f < e" "e + int (length ks) \<le> i64_max"
    "s' = fold (\<lambda>k. snd \<circ> mem_lease_call conv k) ks s"
  shows "refusal (fst (fop (Some f) s')) \<and> snd (fop (Some f) s') = s'"
proof -
  obtain e' where "lease_epoch s' (cf_cluster_id f) = Some e'" "e \<le> e'"
    using mem_lease.run_epoch[of s "cf_cluster_id f" e ks conv] assms by (auto simp: lease_epoch_row)
  then have "\<not> control_fence_holds s' (Some f)" using assms(2) by simp
  then show ?thesis by (simp add: stale_refused stale_noop)
qed

end

end
