(* ===== verification/Task_Store.thy ===== *)
theory Task_Store
  imports Fencing
begin

text \<open>
  Tasks in the store (\<open>crates/fleet-store/src/mem.rs\<close>): insertion with an idempotency key,
  the fenced compare-and-set of a task's status, the write-once records, deletion, listing, the
  event log and task output; and the SQL form of the compare-and-set (\<open>postgres.rs\<close>). A definition is the
  call that nothing disturbs; the calls that take several locks have their gaps in \<open>Task_Sections\<close>.
\<close>

section \<open>Insertion\<close>

definition task_exists_conflict :: "task_id \<Rightarrow> store_error" where
  "task_exists_conflict i = Conflict (Msg ''task already exists: {}'' [ArgTask i])"

definition put_task :: "task \<Rightarrow> mem_store \<Rightarrow> mem_store" where
  "put_task t s = s\<lparr>ms_tasks := hm_insert (t_id t) t (ms_tasks s)\<rparr>"

definition insert_task :: "task \<Rightarrow> mem_store \<Rightarrow> (store_error, unit) result \<times> mem_store" where
  "insert_task t s =
     (if hm_contains (ms_tasks s) (t_id t) then (Inl (task_exists_conflict (t_id t)), s)
      else (Inr (), put_task t s))"

definition insert_task_idempotent ::
    "task \<Rightarrow> mem_store \<Rightarrow> (store_error, idempotent_insert) result \<times> mem_store" where
  "insert_task_idempotent t s =
     (if hm_contains (ms_tasks s) (t_id t) then (Inl (task_exists_conflict (t_id t)), s)
      else case t_idempotency_key t of
        None \<Rightarrow> (Inr Inserted, put_task t s)
      | Some key \<Rightarrow>
          (case List.find (\<lambda>x. t_created_by x = t_created_by t \<and> t_idempotency_key x = Some key)
                  (hm_values (ms_tasks s)) of
             None \<Rightarrow> (Inr Inserted, put_task t s)
           | Some existing \<Rightarrow>
               if t_idempotency_payload_hash existing = t_idempotency_payload_hash t
               then (Inr (Duplicate existing), s)
               else (Inr (InsertConflict (t_id existing)), s)))"

definition get_task :: "task_id \<Rightarrow> mem_store \<Rightarrow> (store_error, task option) result" where
  "get_task i s = Inr (hm_get (ms_tasks s) i)"

section \<open>Status changes\<close>

definition is_dispatched_status :: "task_status \<Rightarrow> bool" where
  "is_dispatched_status st = (case st of Dispatched _ _ \<Rightarrow> True | _ \<Rightarrow> False)"

definition update_task_status ::
    "datetime \<Rightarrow> task_id \<Rightarrow> task_status \<Rightarrow> mem_store \<Rightarrow> (store_error, unit) result \<times> mem_store" where
  "update_task_status now i status s =
     (case hm_get (ms_tasks s) i of
        None \<Rightarrow> (Inl NotFound, s)
      | Some t \<Rightarrow>
          (Inr (), s\<lparr>ms_tasks := hm_adjust i
             (\<lambda>t. let t = t\<lparr>t_status := status\<rparr>
                  in if is_dispatched_status status then t\<lparr>t_dispatched_at := Some now\<rparr> else t)
             (ms_tasks s)\<rparr>))"

text \<open>The write of an applied transition, shared by both stores.\<close>

definition apply_transition :: "datetime \<Rightarrow> task_status \<Rightarrow> control_fence option \<Rightarrow> task \<Rightarrow> task" where
  "apply_transition now new fence t =
     (let t = t\<lparr>t_status := new\<rparr>
      in if is_dispatched_status new then
           let t = t\<lparr>t_dispatched_at := Some now\<rparr>
           in (case fence of Some f \<Rightarrow> t\<lparr>t_dispatch_control_epoch := Some (cf_epoch f)\<rparr> | None \<Rightarrow> t)
         else t)"

definition stale_dispatch :: "control_fence option \<Rightarrow> transition_origin \<Rightarrow> task \<Rightarrow> int option" where
  "stale_dispatch fence origin t =
     (case (fence, origin) of
        (Some f, WorkerOutcome) \<Rightarrow>
          (case t_dispatch_control_epoch t of
             Some ep \<Rightarrow> if ep \<noteq> cf_epoch f then Some ep else None
           | None \<Rightarrow> None)
      | _ \<Rightarrow> None)"

definition compare_and_set_task_status ::
    "datetime \<Rightarrow> task_id \<Rightarrow> task_phase list \<Rightarrow> task_status \<Rightarrow> transition_origin \<Rightarrow> control_fence option
     \<Rightarrow> mem_store \<Rightarrow> (store_error, transition_outcome) result \<times> mem_store" where
  "compare_and_set_task_status now i expected new origin fence s =
     (if \<not> control_fence_holds s fence then (Inr Fenced, s)
      else case hm_get (ms_tasks s) i of
        None \<Rightarrow> (Inl NotFound, s)
      | Some t \<Rightarrow>
          (case stale_dispatch fence origin t of
             Some ep \<Rightarrow> (Inr (StaleDispatchEpoch ep), s)
           | None \<Rightarrow>
               let current = phase (t_status t)
               in if current \<notin> set expected then (Inr (Rejected current), s)
                  else (Inr Applied,
                        s\<lparr>ms_tasks := hm_adjust i (apply_transition now new fence) (ms_tasks s)\<rparr>)))"

text \<open>
  The SQL form: one \<open>UPDATE\<close> whose \<open>WHERE\<close> clause is the conjunction of the row, the phase, the
  fence and (for a worker's report) the dispatch epoch; when it changes no row, three queries find
  out why. \<open>s\<close> is the database at the update, \<open>s2\<close> at the queries.
\<close>

definition pg_cas_where ::
    "task_id \<Rightarrow> task_phase list \<Rightarrow> transition_origin \<Rightarrow> control_fence option \<Rightarrow> mem_store \<Rightarrow> task \<Rightarrow> bool" where
  "pg_cas_where i expected origin fence s t =
     (t_id t = i \<and> phase_as_str (phase (t_status t)) \<in> set (map phase_as_str expected) \<and>
      (case fence of
         None \<Rightarrow> True
       | Some f \<Rightarrow>
           list_ex (\<lambda>l. cl_cluster_id l = cf_cluster_id f \<and> cl_epoch l = cf_epoch f)
             (hm_values (ms_control_leases s)) \<and>
           (origin = WorkerOutcome \<longrightarrow>
              t_dispatch_control_epoch t = None \<or> t_dispatch_control_epoch t = Some (cf_epoch f))))"

definition pg_cas_update ::
    "datetime \<Rightarrow> task_id \<Rightarrow> task_phase list \<Rightarrow> task_status \<Rightarrow> transition_origin \<Rightarrow> control_fence option
     \<Rightarrow> mem_store \<Rightarrow> nat \<times> mem_store" where
  "pg_cas_update now i expected new origin fence s =
     (length (filter (pg_cas_where i expected origin fence s) (hm_values (ms_tasks s))),
      s\<lparr>ms_tasks := hm_map_values
          (\<lambda>t. if pg_cas_where i expected origin fence s t then apply_transition now new fence t else t)
          (ms_tasks s)\<rparr>)"

definition pg_cas_classify ::
    "task_id \<Rightarrow> transition_origin \<Rightarrow> control_fence option \<Rightarrow> mem_store
     \<Rightarrow> (store_error, transition_outcome) result" where
  "pg_cas_classify i origin fence s2 =
     (let row = hm_get (ms_tasks s2) i;
          last = (case row of None \<Rightarrow> Inl NotFound | Some t \<Rightarrow> Inr (Rejected (phase (t_status t))))
      in case fence of
           None \<Rightarrow> last
         | Some f \<Rightarrow>
             if lease_epoch s2 (cf_cluster_id f) \<noteq> Some (cf_epoch f) then Inr Fenced
             else if origin = WorkerOutcome then
               (case row of
                  Some t \<Rightarrow>
                    (case t_dispatch_control_epoch t of
                       Some ep \<Rightarrow>
                         if ep \<noteq> cf_epoch f then Inr (StaleDispatchEpoch ep) else last
                     | None \<Rightarrow> last)
                | None \<Rightarrow> last)
             else last)"

definition pg_compare_and_set_task_status ::
    "datetime \<Rightarrow> task_id \<Rightarrow> task_phase list \<Rightarrow> task_status \<Rightarrow> transition_origin \<Rightarrow> control_fence option
     \<Rightarrow> mem_store \<Rightarrow> (store_error, transition_outcome) result \<times> mem_store" where
  "pg_compare_and_set_task_status now i expected new origin fence s =
     (case pg_cas_update now i expected new origin fence s of
        (rows, s') \<Rightarrow>
          if rows > 0 then (Inr Applied, s') else (pg_cas_classify i origin fence s', s'))"

section \<open>Counters and write-once records\<close>

definition increment_task_retry_count ::
    "task_id \<Rightarrow> mem_store \<Rightarrow> (store_error, u32) result \<times> mem_store" where
  "increment_task_retry_count i s =
     (case hm_get (ms_tasks s) i of
        None \<Rightarrow> (Inl NotFound, s)
      | Some t \<Rightarrow>
          (Inr (t_retry_count t + 1),
           s\<lparr>ms_tasks := hm_adjust i (\<lambda>t. t\<lparr>t_retry_count := t_retry_count t + 1\<rparr>) (ms_tasks s)\<rparr>))"

definition record_task_acp_session ::
    "task_id \<Rightarrow> string \<Rightarrow> control_fence option \<Rightarrow> mem_store \<Rightarrow> (store_error, bool) result \<times> mem_store" where
  "record_task_acp_session i session fence s =
     (if \<not> control_fence_holds s fence then (Inr False, s)
      else case hm_get (ms_tasks s) i of
        None \<Rightarrow> (Inr False, s)
      | Some t \<Rightarrow>
          if t_acp_session_id t \<noteq> None then (Inr False, s)
          else (Inr True,
                s\<lparr>ms_tasks := hm_adjust i (\<lambda>t. t\<lparr>t_acp_session_id := Some session\<rparr>) (ms_tasks s)\<rparr>))"

definition record_task_skill_snapshot ::
    "task_id \<Rightarrow> skill_snapshot_entry list \<Rightarrow> control_fence option \<Rightarrow> mem_store
     \<Rightarrow> (store_error, bool) result \<times> mem_store" where
  "record_task_skill_snapshot i snapshot fence s =
     (if \<not> control_fence_holds s fence then (Inr False, s)
      else case hm_get (ms_tasks s) i of
        None \<Rightarrow> (Inr False, s)
      | Some t \<Rightarrow>
          if t_skill_snapshot t \<noteq> None then (Inr False, s)
          else (Inr True,
                s\<lparr>ms_tasks := hm_adjust i (\<lambda>t. t\<lparr>t_skill_snapshot := Some snapshot\<rparr>) (ms_tasks s)\<rparr>))"

definition find_task_by_acp_session :: "string \<Rightarrow> mem_store \<Rightarrow> (store_error, task option) result" where
  "find_task_by_acp_session session s =
     Inr (List.find (\<lambda>t. t_acp_session_id t = Some session) (hm_values (ms_tasks s)))"

definition update_task_checkpoint ::
    "task_id \<Rightarrow> string option \<Rightarrow> mem_store \<Rightarrow> (store_error, unit) result \<times> mem_store" where
  "update_task_checkpoint i branch s =
     (case hm_get (ms_tasks s) i of
        None \<Rightarrow> (Inl NotFound, s)
      | Some t \<Rightarrow>
          (Inr (), s\<lparr>ms_tasks := hm_adjust i (\<lambda>t. t\<lparr>t_checkpoint_branch := branch\<rparr>) (ms_tasks s)\<rparr>))"

text \<open>\<open>*out.entry(worker_id).or_insert(0) += 1\<close> for every dispatched task.\<close>

definition bump :: "'k \<Rightarrow> ('k, u32) hmap \<Rightarrow> ('k, u32) hmap" where
  "bump k m = hm_insert k ((case hm_get m k of None \<Rightarrow> 0 | Some n \<Rightarrow> n) + 1) m"

fun count_dispatched :: "task list \<Rightarrow> (worker_id, u32) hmap \<Rightarrow> (worker_id, u32) hmap" where
  "count_dispatched [] out = out"
| "count_dispatched (t # ts) out =
     count_dispatched ts (case t_status t of Dispatched w _ \<Rightarrow> bump w out | _ \<Rightarrow> out)"

definition count_dispatched_tasks_by_worker ::
    "mem_store \<Rightarrow> (store_error, (worker_id, u32) hmap) result" where
  "count_dispatched_tasks_by_worker s =
     (if is_failing s ''count_dispatched_tasks_by_worker''
      then Inl (Unsupported ''count_dispatched_tasks_by_worker'')
      else Inr (count_dispatched (hm_values (ms_tasks s)) []))"

section \<open>Deletion\<close>

text \<open>The deletion proper, once the guards have passed.\<close>

definition remove_task :: "task_id \<Rightarrow> mem_store \<Rightarrow> mem_store" where
  "remove_task i s =
     (let s1 = s\<lparr>ms_tasks := hm_remove i (ms_tasks s)\<rparr>;
          s2 = s1\<lparr>ms_outputs := hm_remove i (ms_outputs s1)\<rparr>;
          s3 = s2\<lparr>ms_tasks := hm_map_values
                 (\<lambda>t. if t_parent_task_id t = Some i then t\<lparr>t_parent_task_id := None\<rparr> else t)
                 (ms_tasks s2)\<rparr>
      in s3\<lparr>ms_issue_task_links := map
              (\<lambda>l. if il_task_id l = Some i then l\<lparr>il_task_id := None\<rparr> else l)
              (ms_issue_task_links s3)\<rparr>)"

definition delete_task ::
    "task_id \<Rightarrow> mem_store \<Rightarrow> (store_error, task_delete_outcome) result \<times> mem_store" where
  "delete_task i s =
     (let dependent_ids = map t_id (filter
            (\<lambda>t. phase (t_status t) = PhPending \<and> i \<in> set (t_dependency_ids t)) (hm_values (ms_tasks s)))
      in if dependent_ids \<noteq> [] then (Inr (BlockedByDependents dependent_ids), s)
         else case hm_get (ms_tasks s) i of
           None \<Rightarrow> (Inl NotFound, s)
         | Some t \<Rightarrow>
             let current = phase (t_status t)
             in if \<not> phase_is_terminal current then (Inr (NotTerminal current), s)
                else (Inr Deleted, remove_task i s))"

section \<open>Listing\<close>

definition created_by_matches :: "task_filter \<Rightarrow> task \<Rightarrow> bool" where
  "created_by_matches fi t =
     (case fi_created_by fi of Some c \<Rightarrow> t_created_by t = c | None \<Rightarrow> True)"

definition worker_matches :: "task_filter \<Rightarrow> task \<Rightarrow> bool" where
  "worker_matches fi t =
     (case fi_worker_id fi of
        Some wid \<Rightarrow>
          (case t_status t of
             Dispatched w _ \<Rightarrow> w = wid
           | Completed r \<Rightarrow> tr_worker_id r = wid
           | Failed f \<Rightarrow> tf_worker_id f = Some wid
           | _ \<Rightarrow> False)
      | None \<Rightarrow> True)"

definition status_matches :: "task_filter \<Rightarrow> task \<Rightarrow> bool" where
  "status_matches fi t =
     (case fi_status fi of
        None \<Rightarrow> True
      | Some FPending \<Rightarrow> phase (t_status t) = PhPending
      | Some FDispatched \<Rightarrow> phase (t_status t) = PhDispatched
      | Some FCompleted \<Rightarrow> phase (t_status t) = PhCompleted
      | Some FFailed \<Rightarrow> phase (t_status t) = PhFailed
      | Some FCancelled \<Rightarrow> phase (t_status t) = PhCancelled
      | Some FTerminal \<Rightarrow> is_terminal t
      | Some FActive \<Rightarrow> \<not> is_terminal t)"

definition list_tasks :: "task_filter \<Rightarrow> mem_store \<Rightarrow> (store_error, task list) result" where
  "list_tasks fi s =
     (if is_failing s ''list_tasks'' then Inl (Unsupported ''list_tasks'')
      else Inr (page (fi_offset fi) (fi_limit fi)
        (sort_desc t_created_at
          (filter (status_matches fi) (filter (worker_matches fi)
            (filter (created_by_matches fi) (hm_values (ms_tasks s))))))))"

section \<open>Events and output\<close>

definition append_event :: "fleet_event \<Rightarrow> mem_store \<Rightarrow> (store_error, u64) result \<times> mem_store" where
  "append_event e s =
     (let seq = of_nat (length (ms_events s) + 1)
      in (Inr seq, s\<lparr>ms_events := ms_events s @ [\<lparr> ee_seq = seq, ee_event = e \<rparr>]\<rparr>))"

definition list_events :: "u64 \<Rightarrow> u32 \<Rightarrow> mem_store \<Rightarrow> (store_error, event_entry list) result" where
  "list_events after_seq limit s =
     Inr (take (unat limit) (filter (\<lambda>e. ee_seq e > after_seq) (ms_events s)))"

definition append_output ::
    "task_id \<Rightarrow> string \<Rightarrow> mem_store \<Rightarrow> (store_error, u64) result \<times> mem_store" where
  "append_output i chunk s =
     (let entry = (case hm_get (ms_outputs s) i of None \<Rightarrow> [] | Some v \<Rightarrow> v) @ [chunk]
      in (Inr (of_nat (length entry)), s\<lparr>ms_outputs := hm_insert i entry (ms_outputs s)\<rparr>))"

definition get_output ::
    "datetime \<Rightarrow> task_id \<Rightarrow> u64 \<Rightarrow> mem_store \<Rightarrow> (store_error, task_output) result" where
  "get_output now i after_seq s =
     (let chunks = (case hm_get (ms_outputs s) i of
            None \<Rightarrow> []
          | Some v \<Rightarrow> map (\<lambda>(n, chunk). \<lparr> oc_task_id = i, oc_seq = after_seq + of_nat n,
                  oc_chunk = chunk, oc_written_at = now \<rparr>)
                (enumerate 0 (drop (unat after_seq) v)))
      in Inr \<lparr> to_task_id = i, to_chunks = chunks,
               to_next_offset = after_seq + of_nat (length chunks) \<rparr>)"
end
