(* ===== verification/Task_Lifecycle.thy ===== *)
theory Task_Lifecycle
  imports Task_Store
begin

text \<open>
  What the store promises about one task over a whole history of calls: its status only moves
  along the allowed transitions, its identity and idempotency data never change, and its session
  and skill records are written once. The history is a list of the task calls the control plane
  makes; it never calls the unconditional \<open>update_task_status\<close> or \<open>insert_task\<close>. Every
  transition of the history expects all of \<open>allowed_predecessors\<close>; the dispatcher expects some of
  them (only \<open>Pending\<close>, or only \<open>Dispatched\<close>), which refuses more. The calls of a history are undisturbed;
  \<open>Task_Sections\<close> has the same results for every interleaving of the sections of such calls.
\<close>

section \<open>A history of task calls\<close>

datatype task_call =
    TcInsert task
  | TcTransition datetime task_id task_status transition_origin "control_fence option"
  | TcRetry task_id
  | TcSession task_id string "control_fence option"
  | TcSnapshot task_id "skill_snapshot_entry list" "control_fence option"
  | TcCheckpoint task_id "string option"
  | TcDelete task_id
  | TcLease lease_call

definition transition_task ::
    "datetime \<Rightarrow> task_id \<Rightarrow> task_status \<Rightarrow> transition_origin \<Rightarrow> control_fence option \<Rightarrow> mem_store
     \<Rightarrow> (store_error, transition_outcome) result \<times> mem_store" where
  "transition_task now i new origin fence s =
     compare_and_set_task_status now i (allowed_predecessors (phase new)) new origin fence s"

fun task_exec :: "(duration \<Rightarrow> timedelta option) \<Rightarrow> task_call \<Rightarrow> mem_store \<Rightarrow> mem_store" where
  "task_exec conv (TcInsert t) s = snd (insert_task_idempotent t s)"
| "task_exec conv (TcTransition now i new origin fence) s = snd (transition_task now i new origin fence s)"
| "task_exec conv (TcRetry i) s = snd (increment_task_retry_count i s)"
| "task_exec conv (TcSession i session fence) s = snd (record_task_acp_session i session fence s)"
| "task_exec conv (TcSnapshot i snapshot fence) s = snd (record_task_skill_snapshot i snapshot fence s)"
| "task_exec conv (TcCheckpoint i branch) s = snd (update_task_checkpoint i branch s)"
| "task_exec conv (TcDelete i) s = snd (delete_task i s)"
| "task_exec conv (TcLease k) s = snd (mem_lease_call conv k s)"

abbreviation task_run :: "(duration \<Rightarrow> timedelta option) \<Rightarrow> task_call list \<Rightarrow> mem_store \<Rightarrow> mem_store" where
  "task_run conv ks s \<equiv> fold (task_exec conv) ks s"

section \<open>Single operations\<close>

lemma cas_cases:
  assumes "compare_and_set_task_status now i expected new origin fence s = (r, s')"
  obtains (applied) t where "r = Inr Applied" "hm_get (ms_tasks s) i = Some t"
      "control_fence_holds s fence" "stale_dispatch fence origin t = None"
      "phase (t_status t) \<in> set expected"
      "s' = s\<lparr>ms_tasks := hm_adjust i (apply_transition now new fence) (ms_tasks s)\<rparr>"
    | (refused) "r \<noteq> Inr Applied" "s' = s"
  using assms
  by (auto simp: compare_and_set_task_status_def Let_def split: if_splits option.splits)

lemma apply_transition_sel [simp]:
  "t_id (apply_transition now new fence t) = t_id t"
  "t_status (apply_transition now new fence t) = new"
  "t_created_by (apply_transition now new fence t) = t_created_by t"
  "t_prompt (apply_transition now new fence t) = t_prompt t"
  "t_idempotency_key (apply_transition now new fence t) = t_idempotency_key t"
  "t_idempotency_payload_hash (apply_transition now new fence t) = t_idempotency_payload_hash t"
  "t_acp_session_id (apply_transition now new fence t) = t_acp_session_id t"
  "t_skill_snapshot (apply_transition now new fence t) = t_skill_snapshot t"
  "t_dependency_ids (apply_transition now new fence t) = t_dependency_ids t"
  "t_parent_task_id (apply_transition now new fence t) = t_parent_task_id t"
  by (simp_all add: apply_transition_def Let_def split: option.split)

lemma apply_transition_epoch:
  "t_dispatch_control_epoch (apply_transition now new fence t) =
     (case fence of Some f \<Rightarrow> if is_dispatched_status new then Some (cf_epoch f)
        else t_dispatch_control_epoch t | None \<Rightarrow> t_dispatch_control_epoch t)"
  by (simp add: apply_transition_def Let_def split: option.split)

lemma keyed_parents:
  "keyed t_id m \<Longrightarrow> keyed t_id (hm_map_values
     (\<lambda>t. if t_parent_task_id t = Some i then t\<lparr>t_parent_task_id := None\<rparr> else t) m)"
  by (rule keyed_map_values) simp_all

lemma remove_task_tasks:
  "hm_get (ms_tasks (remove_task i s)) j = (if j = i then None else
     map_option (\<lambda>t. if t_parent_task_id t = Some i then t\<lparr>t_parent_task_id := None\<rparr> else t)
       (hm_get (ms_tasks s) j))"
  by (simp add: remove_task_def Let_def)

lemma delete_task_unfold:
  "delete_task i s =
     (if \<exists>t \<in> set (hm_values (ms_tasks s)). t_status t = Pending \<and> i \<in> set (t_dependency_ids t)
      then (Inr (BlockedByDependents (map t_id (filter (\<lambda>t. t_status t = Pending \<and>
              i \<in> set (t_dependency_ids t)) (hm_values (ms_tasks s))))), s)
      else case hm_get (ms_tasks s) i of
        None \<Rightarrow> (Inl NotFound, s)
      | Some t \<Rightarrow> if is_terminal t then (Inr Deleted, remove_task i s)
                  else (Inr (NotTerminal (phase (t_status t))), s))"
  by (simp add: delete_task_def Let_def is_terminal_phase filter_empty_conv split: option.split)

lemma delete_task_cases:
  assumes "delete_task i s = (r, s')"
  obtains (deleted) t where "r = Inr Deleted" "hm_get (ms_tasks s) i = Some t" "is_terminal t"
      "\<forall>t \<in> set (hm_values (ms_tasks s)). t_status t = Pending \<longrightarrow> i \<notin> set (t_dependency_ids t)"
      "s' = remove_task i s"
    | (kept) "r \<noteq> Inr Deleted" "s' = s"
proof (cases "\<exists>t \<in> set (hm_values (ms_tasks s)). t_status t = Pending \<and> i \<in> set (t_dependency_ids t)")
  case True
  then have "r \<noteq> Inr Deleted" "s' = s" using assms by (auto simp: delete_task_unfold)
  then show thesis by (rule kept)
next
  case False
  show thesis
  proof (cases "\<exists>t. hm_get (ms_tasks s) i = Some t \<and> is_terminal t")
    case True
    then obtain t where t: "hm_get (ms_tasks s) i = Some t" "is_terminal t" by blast
    with assms False have "r = Inr Deleted" "s' = remove_task i s"
      by (simp_all add: delete_task_unfold)
    with t False show thesis by (intro deleted[of t]) blast+
  next
    assume "\<not> (\<exists>t. hm_get (ms_tasks s) i = Some t \<and> is_terminal t)"
    with assms False have "r \<noteq> Inr Deleted" "s' = s"
      by (auto simp: delete_task_unfold split: option.splits)
    then show thesis by (rule kept)
  qed
qed

section \<open>Evolution of one task\<close>

text \<open>
  \<open>evolves t t'\<close>: the same task later. \<open>grows\<close> is the write-once discipline: once there, a
  value stays.
\<close>

definition grows :: "'a option \<Rightarrow> 'a option \<Rightarrow> bool" where
  "grows x y = (case x of None \<Rightarrow> True | Some v \<Rightarrow> y = Some v)"

definition evolves :: "task \<Rightarrow> task \<Rightarrow> bool" where
  "evolves t t' \<longleftrightarrow>
     t_id t' = t_id t \<and> t_created_by t' = t_created_by t \<and> t_prompt t' = t_prompt t \<and>
     t_idempotency_key t' = t_idempotency_key t \<and>
     t_idempotency_payload_hash t' = t_idempotency_payload_hash t \<and>
     t_dependency_ids t' = t_dependency_ids t \<and>
     grows (t_acp_session_id t) (t_acp_session_id t') \<and>
     grows (t_skill_snapshot t) (t_skill_snapshot t') \<and>
     transition_allowed\<^sup>*\<^sup>* (phase (t_status t)) (phase (t_status t')) \<and>
     (phase (t_status t') = phase (t_status t) \<longrightarrow> t_status t' = t_status t) \<and>
     (t_status t \<noteq> Pending \<longrightarrow> t_dispatch_control_epoch t' = t_dispatch_control_epoch t \<and>
        t_dispatched_at t' = t_dispatched_at t)"

lemma grows_refl [simp]: "grows x x"
  by (simp add: grows_def split: option.split)

lemma grows_trans: "grows x y \<Longrightarrow> grows y z \<Longrightarrow> grows x z"
  by (auto simp: grows_def split: option.splits)

lemma phases_rank: "transition_allowed\<^sup>*\<^sup>* p q \<Longrightarrow> phase_rank q < phase_rank p \<or> p = q"
  by (induction rule: rtranclp_induct) (auto dest: transition_rank)

lemma pending_source: "transition_allowed\<^sup>*\<^sup>* p PhPending \<Longrightarrow> p = PhPending"
  by (erule rtranclp.cases) (auto simp: pending_no_entry)

lemma evolves_refl [simp]: "evolves t t"
  by (simp add: evolves_def)

lemma evolves_trans:
  assumes "evolves a b" "evolves b c"
  shows "evolves a c"
proof -
  have r: "transition_allowed\<^sup>*\<^sup>* (phase (t_status a)) (phase (t_status b))"
    "transition_allowed\<^sup>*\<^sup>* (phase (t_status b)) (phase (t_status c))"
    using assms by (simp_all add: evolves_def)
  have same: "phase (t_status c) = phase (t_status a) \<Longrightarrow> phase (t_status b) = phase (t_status a)"
    using phases_rank[OF r(1)] phases_rank[OF r(2)] by fastforce
  have "t_status a \<noteq> Pending \<Longrightarrow> t_status b \<noteq> Pending"
    using pending_source[of "phase (t_status a)"] r(1) by (metis phase_eq_simps(1))
  with same show ?thesis using assms r by (auto simp: evolves_def intro: grows_trans)
qed

lemma terminal_stays: "phase_is_terminal p \<Longrightarrow> transition_allowed\<^sup>*\<^sup>* p q \<Longrightarrow> q = p"
  by (erule converse_rtranclpE) (auto dest: terminal_no_exit)

lemma evolves_terminal: "evolves t t' \<Longrightarrow> is_terminal t \<Longrightarrow> t_status t' = t_status t"
  by (auto simp: evolves_def is_terminal_phase dest: terminal_stays)

lemma apply_transition_stamps:
  assumes "transition_allowed (phase (t_status t)) (phase new)" "t_status t \<noteq> Pending"
  shows "t_dispatch_control_epoch (apply_transition now new fence t) = t_dispatch_control_epoch t"
    "t_dispatched_at (apply_transition now new fence t) = t_dispatched_at t"
proof -
  have "\<not> is_dispatched_status new"
    using assms by (cases new) (auto simp: is_dispatched_status_def transition_allowed_def)
  then show "t_dispatch_control_epoch (apply_transition now new fence t) = t_dispatch_control_epoch t"
    "t_dispatched_at (apply_transition now new fence t) = t_dispatched_at t"
    by (simp_all add: apply_transition_def Let_def)
qed

lemma evolves_apply:
  "transition_allowed (phase (t_status t)) (phase new) \<Longrightarrow> evolves t (apply_transition now new fence t)"
  by (auto simp: evolves_def apply_transition_stamps dest: transition_rank)

lemma evolves_same_status:
  assumes "t_id t' = t_id t" "t_created_by t' = t_created_by t" "t_prompt t' = t_prompt t"
    "t_idempotency_key t' = t_idempotency_key t"
    "t_idempotency_payload_hash t' = t_idempotency_payload_hash t"
    "t_dependency_ids t' = t_dependency_ids t" "t_status t' = t_status t"
    "grows (t_acp_session_id t) (t_acp_session_id t')"
    "grows (t_skill_snapshot t) (t_skill_snapshot t')"
    "t_dispatch_control_epoch t' = t_dispatch_control_epoch t" "t_dispatched_at t' = t_dispatched_at t"
  shows "evolves t t'"
  using assms by (simp add: evolves_def)

text \<open>An update in place of a task that evolves it.\<close>

lemma adjust_evolves:
  assumes "hm_get (ms_tasks s) i = Some t" "\<And>w. hm_get (ms_tasks s) j = Some w \<Longrightarrow> evolves w (f w)"
  shows "\<exists>t'. hm_get (hm_adjust j f (ms_tasks s)) i = Some t' \<and> evolves t t'"
  using assms by (intro hm.adj_related) simp_all

lemma grows_fresh [simp]: "grows None y"
  by (simp add: grows_def)

lemma cas_evolves:
  assumes "hm_get (ms_tasks s) i = Some t"
  shows "\<exists>t'. hm_get (ms_tasks (snd (transition_task now j new origin fence s))) i = Some t' \<and> evolves t t'"
proof (cases "transition_task now j new origin fence s")
  case (Pair r s')
  from Pair[unfolded transition_task_def] show ?thesis
  proof (cases rule: cas_cases)
    case (applied w)
    then have "transition_allowed (phase (t_status w)) (phase new)"
      by (simp add: predecessors_allowed)
    then show ?thesis
      using assms applied(2) by (auto simp: Pair applied(6) evolves_apply intro!: adjust_evolves)
  next
    case refused
    then show ?thesis using assms Pair by simp
  qed
qed

lemma delete_evolves:
  assumes "hm_get (ms_tasks s) i = Some t"
  shows "(\<exists>t'. hm_get (ms_tasks (snd (delete_task j s))) i = Some t' \<and> evolves t t') \<or>
    hm_get (ms_tasks (snd (delete_task j s))) i = None \<and> j = i \<and> is_terminal t"
proof (cases "delete_task j s")
  case (Pair r s')
  then show ?thesis
  proof (cases rule: delete_task_cases)
    case (deleted w)
    show ?thesis
    proof (cases "j = i")
      case True
      then show ?thesis using deleted assms Pair by (simp add: remove_task_tasks)
    next
      case False
      then show ?thesis using deleted(5) assms Pair
        by (auto simp: remove_task_tasks intro: evolves_same_status)
    qed
  next
    case kept
    then show ?thesis using assms Pair by simp
  qed
qed

lemma insert_idempotent_get:
  assumes "hm_get (ms_tasks s) i = Some t"
  shows "hm_get (ms_tasks (snd (insert_task_idempotent u s))) i = Some t"
  using assms by (auto simp: insert_task_idempotent_def put_task_def split: option.split)

lemma lease_call_frame [simp]:
  "ms_tasks (snd (mem_lease_call conv k s)) = ms_tasks s"
  "ms_agents (snd (mem_lease_call conv k s)) = ms_agents s"
  "ms_workers (snd (mem_lease_call conv k s)) = ms_workers s"
  "ms_projects (snd (mem_lease_call conv k s)) = ms_projects s"
  by (cases k; auto simp: lease_op_defs Let_def split: option.split)+

lemma task_exec_evolves:
  assumes "hm_get (ms_tasks s) i = Some t"
  shows "(\<exists>t'. hm_get (ms_tasks (task_exec conv k s)) i = Some t' \<and> evolves t t') \<or>
    hm_get (ms_tasks (task_exec conv k s)) i = None \<and> k = TcDelete i \<and> is_terminal t"
proof (cases k)
  case (TcInsert u)
  then show ?thesis using insert_idempotent_get[OF assms] by auto
next
  case (TcTransition now j new origin fence)
  then show ?thesis using cas_evolves[OF assms] by simp
next
  case (TcRetry j)
  then show ?thesis using assms
    by (auto simp: increment_task_retry_count_def evolves_same_status split: option.split)
next
  case (TcSession j session fence)
  then show ?thesis using assms
    by (auto simp: record_task_acp_session_def evolves_same_status split: option.split)
next
  case (TcSnapshot j snapshot fence)
  then show ?thesis using assms
    by (auto simp: record_task_skill_snapshot_def evolves_same_status split: option.split)
next
  case (TcCheckpoint j branch)
  then show ?thesis using assms
    by (auto simp: update_task_checkpoint_def evolves_same_status split: option.split)
next
  case (TcDelete j)
  then show ?thesis using delete_evolves[OF assms] by auto
next
  case (TcLease l)
  then show ?thesis using assms by auto
qed

lemma task_exec_absent:
  assumes "hm_get (ms_tasks s) i = None" "\<And>t. k = TcInsert t \<Longrightarrow> t_id t \<noteq> i"
  shows "hm_get (ms_tasks (task_exec conv k s)) i = None"
  using assms
  by (cases k) (auto simp: insert_task_idempotent_def put_task_def transition_task_def
      compare_and_set_task_status_def increment_task_retry_count_def record_task_acp_session_def
      record_task_skill_snapshot_def update_task_checkpoint_def delete_task_unfold remove_task_tasks
      Let_def split: option.split)

lemma task_run_absent:
  assumes "hm_get (ms_tasks s) i = None" "\<forall>t. TcInsert t \<in> set ks \<longrightarrow> t_id t \<noteq> i"
  shows "hm_get (ms_tasks (task_run conv ks s)) i = None"
  using assms
proof (induction ks arbitrary: s)
  case (Cons k ks)
  have "hm_get (ms_tasks (task_exec conv k s)) i = None"
    using Cons.prems by (intro task_exec_absent) auto
  then show ?case using Cons by simp
qed simp

section \<open>Histories of calls\<close>

lemma task_run_evolves:
  assumes "hm_get (ms_tasks s) i = Some t" "TcDelete i \<notin> set ks"
  shows "\<exists>t'. hm_get (ms_tasks (task_run conv ks s)) i = Some t' \<and> evolves t t'"
  using assms
proof (induction ks arbitrary: s t)
  case (Cons k ks)
  obtain t1 where t1: "hm_get (ms_tasks (task_exec conv k s)) i = Some t1" "evolves t t1"
    using task_exec_evolves[OF Cons.prems(1), of conv k] Cons.prems(2) by auto
  then obtain t' where "hm_get (ms_tasks (task_run conv (k # ks) s)) i = Some t'" "evolves t1 t'"
    using Cons.IH[OF t1(1)] Cons.prems(2) by auto
  then show ?case using t1(2) evolves_trans by blast
qed simp

abbreviation plain_task :: "uuid \<Rightarrow> task" where
  "plain_task n \<equiv> from_request (\<lambda>_. ''hash'') (TaskId n) 0 default_request"

abbreviation keyed_task :: "uuid \<Rightarrow> string \<Rightarrow> task" where
  "keyed_task n hash \<equiv> from_request (\<lambda>_. hash) (TaskId n) 0
     (default_request\<lparr>rq_created_by := ''ann'', rq_idempotency_key := Some ''k''\<rparr>)"

text \<open>How many dispatches of a task a history applies.\<close>

fun dispatches :: "(duration \<Rightarrow> timedelta option) \<Rightarrow> task_id \<Rightarrow> task_call list \<Rightarrow> mem_store \<Rightarrow> nat" where
  "dispatches conv i [] s = 0"
| "dispatches conv i (k # ks) s =
     (case k of
        TcTransition now j (Dispatched w at) origin fence \<Rightarrow>
          if j = i \<and> fst (transition_task now j (Dispatched w at) origin fence s) = Inr Applied then 1 else 0
      | _ \<Rightarrow> 0) + dispatches conv i ks (task_exec conv k s)"

definition pending_at :: "task_id \<Rightarrow> mem_store \<Rightarrow> bool" where
  "pending_at i s = (case hm_get (ms_tasks s) i of Some t \<Rightarrow> t_status t = Pending | None \<Rightarrow> False)"

lemma pending_at_exec:
  assumes "\<not> pending_at i s" "\<forall>u. k = TcInsert u \<longrightarrow> t_id u \<noteq> i"
  shows "\<not> pending_at i (task_exec conv k s)"
proof (cases "hm_get (ms_tasks s) i")
  case None
  then have "hm_get (ms_tasks (task_exec conv k s)) i = None" using assms(2) by (blast intro: task_exec_absent)
  then show ?thesis by (simp add: pending_at_def)
next
  case (Some t)
  then have np: "t_status t \<noteq> Pending" using assms(1) by (simp add: pending_at_def)
  have "t_status t' \<noteq> Pending" if "evolves t t'" for t'
    using that np pending_source[of "phase (t_status t)"] by (metis evolves_def phase_eq_simps(1))
  then show ?thesis using task_exec_evolves[OF Some, of conv k] by (auto simp: pending_at_def)
qed

lemma dispatch_applied:
  assumes "fst (transition_task now i (Dispatched w at) origin fence s) = Inr Applied"
  shows "pending_at i s"
    "\<not> pending_at i (snd (transition_task now i (Dispatched w at) origin fence s))"
proof -
  obtain r s' where p: "transition_task now i (Dispatched w at) origin fence s = (r, s')" by fastforce
  have applied: "r = Inr Applied" using assms p by simp
  from p[unfolded transition_task_def] have "pending_at i s \<and> \<not> pending_at i s'"
  proof (cases rule: cas_cases)
    case (applied t)
    then show ?thesis by (simp add: pending_at_def)
  next
    case refused
    then show ?thesis using \<open>r = Inr Applied\<close> by simp
  qed
  then show "pending_at i s"
    "\<not> pending_at i (snd (transition_task now i (Dispatched w at) origin fence s))" by (simp_all add: p)
qed

text \<open>
  A task is dispatched at most once: in any history, of all the transitions of one task to
  \<open>Dispatched\<close>, by whichever instance, at most one is applied. (Ids are fresh.)
\<close>

theorem dispatched_at_most_once:
  assumes "\<forall>u. TcInsert u \<in> set ks \<longrightarrow> t_id u \<noteq> i"
  shows "dispatches conv i ks s \<le> (if pending_at i s then 1 else 0)"
  using assms
proof (induction ks arbitrary: s)
  case (Cons k ks)
  have ids: "\<forall>u. k = TcInsert u \<longrightarrow> t_id u \<noteq> i" "\<forall>u. TcInsert u \<in> set ks \<longrightarrow> t_id u \<noteq> i"
    using Cons.prems by auto
  note tl = Cons.IH[OF ids(2), of "task_exec conv k s"]
  show ?case
  proof (cases "\<exists>now w at origin fence. k = TcTransition now i (Dispatched w at) origin fence \<and>
      fst (transition_task now i (Dispatched w at) origin fence s) = Inr Applied")
    case True
    then obtain now w at origin fence where k: "k = TcTransition now i (Dispatched w at) origin fence"
      "fst (transition_task now i (Dispatched w at) origin fence s) = Inr Applied" by blast
    then show ?thesis using tl dispatch_applied[OF k(2)] by simp
  next
    case False
    then have "dispatches conv i (k # ks) s = dispatches conv i ks (task_exec conv k s)"
      by (auto split: task_call.split task_status.split)
    then show ?thesis using tl pending_at_exec[OF _ ids(1)] by (auto split: if_splits)
  qed
qed simp

lemma dispatched_at_most_once_witness:
  "dispatches ns_conv (TaskId 1)
      [TcTransition 5 (TaskId 1) (Dispatched (WorkerId 3) 5) ControlDecision None,
       TcTransition 6 (TaskId 1) (Dispatched (WorkerId 4) 6) ControlDecision None]
      (empty_store\<lparr>ms_tasks := [(TaskId 1, plain_task 1)]\<rparr>)
    \<le> (if pending_at (TaskId 1) (empty_store\<lparr>ms_tasks := [(TaskId 1, plain_task 1)]\<rparr>) then 1 else 0)"
  by (rule dispatched_at_most_once) simp

section \<open>Fencing\<close>

definition cas_refused :: "(store_error, transition_outcome) result \<Rightarrow> bool" where
  "cas_refused r = (r = Inr Fenced)"

definition write_refused :: "(store_error, bool) result \<Rightarrow> bool" where
  "write_refused r = (r = Inr False)"

interpretation cas_fenced: fenced_write
  "\<lambda>fence. compare_and_set_task_status now i expected new origin fence" cas_refused
  for now i expected new origin
  by unfold_locales
    (auto simp: compare_and_set_task_status_def cas_refused_def Let_def split: option.split)

interpretation session_fenced: fenced_write "\<lambda>fence. record_task_acp_session i session fence" write_refused
  for i session
  by unfold_locales (auto simp: record_task_acp_session_def write_refused_def split: option.split)

interpretation snapshot_fenced: fenced_write "\<lambda>fence. record_task_skill_snapshot i snapshot fence" write_refused
  for i snapshot
  by unfold_locales (auto simp: record_task_skill_snapshot_def write_refused_def split: option.split)

lemma insert_idempotent_leases [simp]:
  "ms_control_leases (snd (insert_task_idempotent t s)) = ms_control_leases s"
  by (simp add: insert_task_idempotent_def put_task_def split: option.split)

lemma remove_task_leases [simp]: "ms_control_leases (remove_task i s) = ms_control_leases s"
  by (simp add: remove_task_def Let_def)

lemma task_exec_leases:
  "\<forall>l. k \<noteq> TcLease l \<Longrightarrow> ms_control_leases (task_exec conv k s) = ms_control_leases s"
  by (cases k) (simp_all add: transition_task_def cas_fenced.leases_kept session_fenced.leases_kept
      snapshot_fenced.leases_kept increment_task_retry_count_def update_task_checkpoint_def
      delete_task_unfold split: option.split)

lemma stale_dispatch_outcome:
  assumes "hm_get (ms_tasks s) i = Some t" "t_dispatch_control_epoch t = Some e" "cf_epoch g \<noteq> e"
  shows "compare_and_set_task_status now i expected new WorkerOutcome (Some g) s =
    (Inr (if control_fence_holds s (Some g) then StaleDispatchEpoch e else Fenced), s)"
  using assms by (simp add: compare_and_set_task_status_def stale_dispatch_def)

text \<open>
  A report about a run that an earlier epoch dispatched is refused. Once a task has been
  dispatched under the fence \<open>f\<close>, then after any history of task and lease calls that does not
  delete it, a worker's report written under a fence \<open>g\<close> of another epoch changes nothing: the
  answer is \<open>StaleDispatchEpoch\<close> with the epoch of \<open>f\<close> if \<open>g\<close> is the current lease, and
  \<open>Fenced\<close> otherwise.
\<close>

theorem stale_report_refused:
  assumes disp: "transition_task now i (Dispatched w at) origin (Some f) s = (Inr Applied, s1)"
    and kept: "TcDelete i \<notin> set ks"
    and other: "cf_epoch g \<noteq> cf_epoch f"
  shows "compare_and_set_task_status now' i expected new WorkerOutcome (Some g) (task_run conv ks s1) =
    (Inr (if control_fence_holds (task_run conv ks s1) (Some g)
          then StaleDispatchEpoch (cf_epoch f) else Fenced), task_run conv ks s1)"
proof -
  obtain t where t: "hm_get (ms_tasks s1) i = Some t" "t_dispatch_control_epoch t = Some (cf_epoch f)"
      "t_status t = Dispatched w at"
    using disp[unfolded transition_task_def]
    by (cases rule: cas_cases)
      (auto simp: apply_transition_epoch is_dispatched_status_def)
  obtain t' where t': "hm_get (ms_tasks (task_run conv ks s1)) i = Some t'" "evolves t t'"
    using task_run_evolves[OF t(1) kept] by blast
  then have "t_dispatch_control_epoch t' = Some (cf_epoch f)"
    using t by (simp add: evolves_def)
  from stale_dispatch_outcome[OF t'(1) this other] show ?thesis .
qed

lemma stale_report_refused_witness:
  "\<exists>s1. transition_task 5 (TaskId 1) (Dispatched (WorkerId 3) 5) ControlDecision (Some \<lparr>cf_cluster_id = ''c'', cf_epoch = 1\<rparr>)
      (empty_store\<lparr>ms_tasks := [(TaskId 1, plain_task 1)],
        ms_control_leases := [(''c'', \<lparr> cl_cluster_id = ''c'', cl_active_instance_id = ''a'', cl_epoch = 1,
       cl_acquired_at = 0, cl_expires_at = 10, cl_last_renewed_at = 0, cl_binary_version = None \<rparr>)]\<rparr>) = (Inr Applied, s1) \<and>
    compare_and_set_task_status 30 (TaskId 1) [PhDispatched] (Cancelled ''x'' 30) WorkerOutcome
      (Some \<lparr>cf_cluster_id = ''c'', cf_epoch = 2\<rparr>) (task_run ns_conv [TcLease (LAcquire 20 ''c'' ''b'' 10 None)] s1) =
    (Inr (if control_fence_holds (task_run ns_conv [TcLease (LAcquire 20 ''c'' ''b'' 10 None)] s1)
            (Some \<lparr>cf_cluster_id = ''c'', cf_epoch = 2\<rparr>)
          then StaleDispatchEpoch 1 else Fenced), task_run ns_conv [TcLease (LAcquire 20 ''c'' ''b'' 10 None)] s1)"
proof -
  let ?s = "empty_store\<lparr>ms_tasks := [(TaskId 1, plain_task 1)],
        ms_control_leases := [(''c'', \<lparr> cl_cluster_id = ''c'', cl_active_instance_id = ''a'', cl_epoch = 1,
       cl_acquired_at = 0, cl_expires_at = 10, cl_last_renewed_at = 0, cl_binary_version = None \<rparr>)]\<rparr>"
  let ?f = "\<lparr>cf_cluster_id = ''c'', cf_epoch = 1\<rparr>"
  obtain s1 where "transition_task 5 (TaskId 1) (Dispatched (WorkerId 3) 5) ControlDecision (Some ?f) ?s = (Inr Applied, s1)"
    by (simp add: transition_task_def compare_and_set_task_status_def lease_epoch_def hm_get_def
        stale_dispatch_def from_request_def)
  from this stale_report_refused[OF this, of "[TcLease (LAcquire 20 ''c'' ''b'' 10 None)]"
      "\<lparr>cf_cluster_id = ''c'', cf_epoch = 2\<rparr>" 30 "[PhDispatched]" "Cancelled ''x'' 30" ns_conv]
  show ?thesis by auto
qed

end
