(* ===== verification/Task_Queries.thy ===== *)
theory Task_Queries
  imports Task_Lifecycle
begin

text \<open>
  The other promises of the task store: the SQL compare-and-set agrees with the in-memory one,
  idempotency keys are unique and a retry is recognised, deletion leaves no reference behind,
  and the counts, lists, events and outputs return what was stored.
\<close>

section \<open>The SQL transition\<close>

lemma phase_as_str_inj: "phase_as_str p = phase_as_str q \<longleftrightarrow> p = q"
  by (cases p; cases q) simp_all

lemma phase_str_mem: "phase_as_str p \<in> set (map phase_as_str ps) \<longleftrightarrow> p \<in> set ps"
  by (auto simp: phase_as_str_inj)

lemma lease_exists:
  assumes "keyed cl_cluster_id (ms_control_leases s)"
  shows "list_ex (\<lambda>l. cl_cluster_id l = c \<and> cl_epoch l = e) (hm_values (ms_control_leases s)) \<longleftrightarrow>
    lease_epoch s c = Some e"
  using assms by (auto simp: list_ex_iff lease_epoch_def keyed_values_iff dest: keyed_get hm_get_values)

lemma pg_classify:
  "pg_cas_classify i origin fence s =
    (if \<not> control_fence_holds s fence then Inr Fenced
     else case hm_get (ms_tasks s) i of
       None \<Rightarrow> Inl NotFound
     | Some t \<Rightarrow> (case stale_dispatch fence origin t of
         Some ep \<Rightarrow> Inr (StaleDispatchEpoch ep)
       | None \<Rightarrow> Inr (Rejected (phase (t_status t)))))"
  by (cases fence; cases origin; cases "hm_get (ms_tasks s) i")
    (simp_all add: pg_cas_classify_def stale_dispatch_def Let_def split: option.split)

text \<open>C26. At one moment of the database, the SQL compare-and-set and the in-memory one are the
  same function: same outcome on every branch (missing row, fenced, stale dispatch epoch, rejected
  phase, applied) and same tables after it.\<close>

theorem pg_cas_agrees_with_mem:
  assumes "tables_ok s"
  shows "pg_compare_and_set_task_status now i expected new origin fence s =
    compare_and_set_task_status now i expected new origin fence s"
proof -
  let ?Q = "\<lambda>t. phase (t_status t) \<in> set expected \<and> control_fence_holds s fence \<and>
      stale_dispatch fence origin t = None"
  have w: "pg_cas_where i expected origin fence s = (\<lambda>t. t_id t = i \<and> ?Q t)"
    unfolding pg_cas_where_def phase_str_mem
    using lease_exists[OF tables_okD(5)[OF assms]]
    by (auto simp: stale_dispatch_def fun_eq_iff split: option.splits transition_origin.splits)
  note k = tables_okD(1)[OF assms]
  show ?thesis
    unfolding pg_compare_and_set_task_status_def pg_cas_update_def w pg_classify
      compare_and_set_task_status_def keyed_filter_key[OF k] keyed_update_key[OF k]
    by (auto simp: Let_def split: option.splits)
qed

lemma pg_cas_agrees_with_mem_witness:
  "pg_compare_and_set_task_status 5 (TaskId 1) [PhPending] (Dispatched (WorkerId 3) 5) ControlDecision None
     (empty_store\<lparr>ms_tasks := [(TaskId 1, plain_task 1)]\<rparr>) =
   compare_and_set_task_status 5 (TaskId 1) [PhPending] (Dispatched (WorkerId 3) 5) ControlDecision None
     (empty_store\<lparr>ms_tasks := [(TaskId 1, plain_task 1)]\<rparr>)"
  by (rule pg_cas_agrees_with_mem)
    (simp add: tables_ok_def empty_store_def keyed_def hm_ok_def from_request_def)

section \<open>Idempotent submission\<close>

text \<open>The partial unique index of the tasks table: one task per creator and key.\<close>

definition keys_unique :: "mem_store \<Rightarrow> bool" where
  "keys_unique s \<longleftrightarrow> keyed t_id (ms_tasks s) \<and>
     (\<forall>i j t u. hm_get (ms_tasks s) i = Some t \<longrightarrow> hm_get (ms_tasks s) j = Some u \<longrightarrow>
        t_created_by t = t_created_by u \<longrightarrow> t_idempotency_key t = t_idempotency_key u \<longrightarrow>
        t_idempotency_key t \<noteq> None \<longrightarrow> i = j)"

lemma keys_unique_eq:
  assumes "keys_unique s" "hm_get (ms_tasks s) i = Some t" "hm_get (ms_tasks s) j = Some u"
    "t_created_by t = t_created_by u" "t_idempotency_key t = t_idempotency_key u"
    "t_idempotency_key t \<noteq> None"
  shows "i = j"
  using assms unfolding keys_unique_def by metis

lemma keys_uniqueI:
  assumes "keyed t_id (ms_tasks s)"
    "\<And>i j t u. hm_get (ms_tasks s) i = Some t \<Longrightarrow> hm_get (ms_tasks s) j = Some u \<Longrightarrow>
        t_created_by t = t_created_by u \<Longrightarrow> t_idempotency_key t = t_idempotency_key u \<Longrightarrow>
        t_idempotency_key t \<noteq> None \<Longrightarrow> i = j"
  shows "keys_unique s"
  unfolding keys_unique_def using assms by blast

text \<open>The three answers of the idempotent insertion.\<close>

lemma insert_idempotent_cases:
  assumes "insert_task_idempotent u s = (r, s')"
  obtains (inserted) "r = Inr Inserted" "s' = put_task u s" "hm_get (ms_tasks s) (t_id u) = None"
      "\<And>t. t_idempotency_key u \<noteq> None \<Longrightarrow> t \<in> set (hm_values (ms_tasks s)) \<Longrightarrow>
        t_created_by t = t_created_by u \<Longrightarrow> t_idempotency_key t \<noteq> t_idempotency_key u"
    | (known) t where "s' = s" "t_idempotency_key u \<noteq> None" "t \<in> set (hm_values (ms_tasks s))"
      "t_created_by t = t_created_by u" "t_idempotency_key t = t_idempotency_key u"
      "r = Inr (if t_idempotency_payload_hash t = t_idempotency_payload_hash u then Duplicate t
                else InsertConflict (t_id t))" "hm_get (ms_tasks s) (t_id u) = None"
    | (exists) "s' = s" "\<exists>t. hm_get (ms_tasks s) (t_id u) = Some t" "r = Inl (task_exists_conflict (t_id u))"
proof (cases "hm_get (ms_tasks s) (t_id u)")
  case (Some t)
  then show thesis using assms exists by (simp add: insert_task_idempotent_def)
next
  case None
  let ?f = "List.find (\<lambda>x. t_created_by x = t_created_by u \<and> t_idempotency_key x = t_idempotency_key u)
      (hm_values (ms_tasks s))"
  show thesis
  proof (cases "t_idempotency_key u = None \<or> ?f = None")
    case True
    then have "r = Inr Inserted" "s' = put_task u s"
      using assms None by (auto simp: insert_task_idempotent_def split: option.splits)
    then show thesis using None True find_None_none[of _ "hm_values (ms_tasks s)"]
      by (intro inserted) auto
  next
    case False
    then obtain t where t: "?f = Some t" "t_idempotency_key u \<noteq> None" by auto
    then have "s' = s" "r = Inr (if t_idempotency_payload_hash t = t_idempotency_payload_hash u then Duplicate t
                else InsertConflict (t_id t))"
      using assms None by (auto simp: insert_task_idempotent_def split: option.splits if_splits)
    then show thesis using find_Some_mem[OF t(1)] t(2) None by (intro known[of t]) auto
  qed
qed

lemma task_exec_keyed:
  assumes "keyed t_id (ms_tasks s)"
  shows "keyed t_id (ms_tasks (task_exec conv k s))"
proof (cases k)
  case (TcInsert u)
  then show ?thesis using assms
    by (auto simp: insert_task_idempotent_def put_task_def intro: keyed_insert split: option.split)
next
  case (TcDelete i)
  then show ?thesis using assms
    by (auto simp: delete_task_unfold remove_task_def Let_def
        intro!: keyed_map_values keyed_remove split: option.split)
qed (use assms in \<open>auto simp: transition_task_def compare_and_set_task_status_def
      increment_task_retry_count_def record_task_acp_session_def record_task_skill_snapshot_def
      update_task_checkpoint_def Let_def intro!: keyed_adjust split: option.split\<close>)

lemma keys_unique_insert:
  assumes "keys_unique s"
  shows "keys_unique (snd (insert_task_idempotent u s))"
proof -
  obtain r s' where p: "insert_task_idempotent u s = (r, s')" by fastforce
  note k = assms[unfolded keys_unique_def, THEN conjunct1]
  from p show ?thesis
  proof (cases rule: insert_idempotent_cases)
    case inserted
    have fresh: "t_idempotency_key t \<noteq> t_idempotency_key u"
      if "hm_get (ms_tasks s) i = Some t" "t_created_by t = t_created_by u" "t_idempotency_key u \<noteq> None" for i t
      using inserted(4)[OF that(3) hm_get_values[OF that(1)] that(2)] .
    show ?thesis
    proof (rule keys_uniqueI)
      show "keyed t_id (ms_tasks (snd (insert_task_idempotent u s)))"
        using task_exec_keyed[OF k, of _ "TcInsert u"] by simp
      show "i = j" if "hm_get (ms_tasks (snd (insert_task_idempotent u s))) i = Some t"
        "hm_get (ms_tasks (snd (insert_task_idempotent u s))) j = Some v"
        "t_created_by t = t_created_by v" "t_idempotency_key t = t_idempotency_key v"
        "t_idempotency_key t \<noteq> None" for i j t v
        using that fresh[of i t] fresh[of j v] keys_unique_eq[OF assms, of i t j v]
        by (simp add: p inserted(2) put_task_def split: if_splits)
    qed
  qed (use p assms in simp_all)
qed

lemma keys_unique_exec:
  assumes "keys_unique s"
  shows "keys_unique (task_exec conv k s)"
proof (cases "\<exists>u. k = TcInsert u")
  case True
  then show ?thesis using keys_unique_insert[OF assms] by auto
next
  case False
  have older: "\<exists>t. hm_get (ms_tasks s) i = Some t \<and> evolves t t'"
    if "hm_get (ms_tasks (task_exec conv k s)) i = Some t'" for i t'
    using that False task_exec_absent[of s i k conv] task_exec_evolves[of s i _ conv k]
    by (cases "hm_get (ms_tasks s) i") fastforce+
  show ?thesis
  proof (rule keys_uniqueI)
    show "keyed t_id (ms_tasks (task_exec conv k s))"
      using assms task_exec_keyed by (simp add: keys_unique_def)
    show "i = j" if h: "hm_get (ms_tasks (task_exec conv k s)) i = Some t"
      "hm_get (ms_tasks (task_exec conv k s)) j = Some v" "t_created_by t = t_created_by v"
      "t_idempotency_key t = t_idempotency_key v" "t_idempotency_key t \<noteq> None" for i j t v
    proof -
      obtain a where a: "hm_get (ms_tasks s) i = Some a" "evolves a t" using older[OF h(1)] by blast
      obtain b where b: "hm_get (ms_tasks s) j = Some b" "evolves b v" using older[OF h(2)] by blast
      have "t_created_by a = t_created_by b" "t_idempotency_key a = t_idempotency_key b"
        "t_idempotency_key a \<noteq> None" using a(2) b(2) h(3-5) by (simp_all add: evolves_def)
      then show ?thesis by (rule keys_unique_eq[OF assms a(1) b(1)])
    qed
  qed
qed

lemma keys_unique_run: "keys_unique s \<Longrightarrow> keys_unique (task_run conv ks s)"
  by (induction ks arbitrary: s) (simp_all add: keys_unique_exec)

lemma keys_unique_empty: "keys_unique empty_store"
  by (simp add: keys_unique_def empty_store_def)

text \<open>
  C39. Idempotent submission. From the empty store, over any history: no two tasks share
  a creator and a key; and once a submission with a key was inserted, then as long as the history
  does not delete that task, every later submission of the same creator under the same key (with a
  fresh id) stores nothing: it is answered with the stored task when the payload hashes agree,
  and with a conflict naming that task when they do not.
\<close>

theorem idempotent_submission:
  assumes "insert_task_idempotent t (task_run conv ks0 empty_store) = (Inr Inserted, s1)"
    and "t_idempotency_key t \<noteq> None" and "TcDelete (t_id t) \<notin> set ks"
    and "t_created_by u = t_created_by t" and "t_idempotency_key u = t_idempotency_key t"
    and "hm_get (ms_tasks (task_run conv ks s1)) (t_id u) = None"
  shows "keys_unique (task_run conv ks s1) \<and>
    (\<exists>t'. hm_get (ms_tasks (task_run conv ks s1)) (t_id t) = Some t' \<and> evolves t t' \<and>
      insert_task_idempotent u (task_run conv ks s1) =
        (Inr (if t_idempotency_payload_hash u = t_idempotency_payload_hash t then Duplicate t'
              else InsertConflict (t_id t)), task_run conv ks s1))"
proof -
  let ?s = "task_run conv ks s1"
  have "keys_unique (task_run conv ks0 empty_store)"
    by (rule keys_unique_run[OF keys_unique_empty])
  from keys_unique_insert[OF this, of t] have uniq: "keys_unique ?s"
    using assms(1) by (simp add: keys_unique_run)
  have "hm_get (ms_tasks s1) (t_id t) = Some t"
    using assms(1) by (cases rule: insert_idempotent_cases) (auto simp: put_task_def split: if_splits)
  then obtain t' where t': "hm_get (ms_tasks ?s) (t_id t) = Some t'" "evolves t t'"
    using task_run_evolves[OF _ assms(3)] by blast
  have same: "v = t'" if "v \<in> set (hm_values (ms_tasks ?s))" "t_created_by v = t_created_by u"
      "t_idempotency_key v = t_idempotency_key u" for v
  proof -
    have v: "hm_get (ms_tasks ?s) (t_id v) = Some v"
      using uniq that(1) by (auto simp: keys_unique_def dest: keyed_values_get)
    have "t_created_by v = t_created_by t'" "t_idempotency_key v = t_idempotency_key t'"
      "t_idempotency_key v \<noteq> None"
      using that(2,3) t'(2) assms(2,4,5) by (simp_all add: evolves_def)
    then have "t_id v = t_id t" by (rule keys_unique_eq[OF uniq v t'(1)])
    then show ?thesis using v t'(1) by simp
  qed
  obtain r s' where p: "insert_task_idempotent u ?s = (r, s')" by fastforce
  then have "r = Inr (if t_idempotency_payload_hash u = t_idempotency_payload_hash t then Duplicate t'
              else InsertConflict (t_id t)) \<and> s' = ?s"
  proof (cases rule: insert_idempotent_cases)
    case inserted
    then have False using hm_get_values[OF t'(1)] t'(2) assms(2,4,5) by (auto simp: evolves_def)
    then show ?thesis ..
  next
    case (known v)
    have "v = t'" using known by (intro same) auto
    then show ?thesis using known(1,6) t'(2) by (auto simp: evolves_def)
  next
    case exists
    then show ?thesis using assms(6) by simp
  qed
  then show ?thesis using uniq t' p by auto
qed

lemma idempotent_submission_witness:
  "\<exists>s1. insert_task_idempotent (keyed_task 1 ''h'') (task_run ns_conv [] empty_store) = (Inr Inserted, s1) \<and>
    keys_unique (task_run ns_conv [TcRetry (TaskId 1)] s1) \<and>
    (\<exists>t'. hm_get (ms_tasks (task_run ns_conv [TcRetry (TaskId 1)] s1)) (t_id (keyed_task 1 ''h'')) = Some t' \<and>
      evolves (keyed_task 1 ''h'') t' \<and>
      insert_task_idempotent (keyed_task 2 ''g'') (task_run ns_conv [TcRetry (TaskId 1)] s1) =
        (Inr (if t_idempotency_payload_hash (keyed_task 2 ''g'') = t_idempotency_payload_hash (keyed_task 1 ''h'')
              then Duplicate t' else InsertConflict (t_id (keyed_task 1 ''h''))),
         task_run ns_conv [TcRetry (TaskId 1)] s1))"
proof -
  have ins: "insert_task_idempotent (keyed_task 1 ''h'') (task_run ns_conv [] empty_store) =
      (Inr Inserted, put_task (keyed_task 1 ''h'') empty_store)"
    by (simp add: insert_task_idempotent_def empty_store_def hm_values_def split: option.split)
  show ?thesis
    by (rule exI, rule conjI[OF ins], rule idempotent_submission[OF ins])
      (simp_all add: from_request_def put_task_def empty_store_def increment_task_retry_count_def)
qed

section \<open>Deletion\<close>

text \<open>
  A deletion that succeeds removes a task that had ended, and nothing refers to it any
  more: its row and its output are gone, no remaining task has it as parent, no pending task
  depends on it, no issue link names it; every other task keeps its status, and every other
  output is untouched.
\<close>

theorem delete_task_leaves_no_reference:
  assumes "tables_ok s" "delete_task i s = (Inr Deleted, s')"
  shows "(\<exists>t. hm_get (ms_tasks s) i = Some t \<and> is_terminal t) \<and>
    hm_get (ms_tasks s') i = None \<and> hm_get (ms_outputs s') i = None \<and>
    (\<forall>j t. hm_get (ms_tasks s') j = Some t \<longrightarrow> t_parent_task_id t \<noteq> Some i \<and>
       (t_status t = Pending \<longrightarrow> i \<notin> set (t_dependency_ids t)) \<and>
       map_option t_status (hm_get (ms_tasks s) j) = Some (t_status t)) \<and>
    (\<forall>j. j \<noteq> i \<longrightarrow> hm_get (ms_outputs s') j = hm_get (ms_outputs s) j \<and>
       (hm_get (ms_tasks s') j = None \<longleftrightarrow> hm_get (ms_tasks s) j = None)) \<and>
    list_all (\<lambda>l. il_task_id l \<noteq> Some i) (ms_issue_task_links s')"
  using assms(2)
proof (cases rule: delete_task_cases)
  case (deleted t)
  have out: "hm_get (ms_outputs s') j = (if j = i then None else hm_get (ms_outputs s) j)" for j
    by (simp add: deleted(5) remove_task_def Let_def)
  have links: "list_all (\<lambda>l. il_task_id l \<noteq> Some i) (ms_issue_task_links s')"
    by (auto simp: deleted(5) remove_task_def Let_def list_all_iff)
  have tasks: "t_parent_task_id v \<noteq> Some i \<and> (t_status v = Pending \<longrightarrow> i \<notin> set (t_dependency_ids v)) \<and>
      map_option t_status (hm_get (ms_tasks s) j) = Some (t_status v)"
    if row: "hm_get (ms_tasks s') j = Some v" for j v
  proof -
    obtain u where u: "hm_get (ms_tasks s) j = Some u"
      using row by (cases "hm_get (ms_tasks s) j") (simp_all add: deleted(5) remove_task_tasks split: if_split_asm)
    then have "v = (if t_parent_task_id u = Some i then u\<lparr>t_parent_task_id := None\<rparr> else u)"
      using row by (cases "j = i") (simp_all add: deleted(5) remove_task_tasks)
    then show ?thesis using u deleted(4) hm_get_values[OF u] by simp
  qed
  have gone: "(hm_get (ms_tasks s') j = None) = (j = i \<or> hm_get (ms_tasks s) j = None)" for j
    by (simp add: deleted(5) remove_task_tasks)
  show ?thesis using deleted(2,3) tasks by (simp add: out links gone)
qed simp

definition ended_task :: "uuid \<Rightarrow> task" where
  "ended_task n = (plain_task n)\<lparr>t_status := Cancelled ''done'' 3\<rparr>"

lemma delete_task_leaves_no_reference_witness:
  "\<exists>s'. delete_task (TaskId 1) (empty_store\<lparr>ms_tasks := [(TaskId 1, ended_task 1),
      (TaskId 2, (plain_task 2)\<lparr>t_parent_task_id := Some (TaskId 1)\<rparr>)]\<rparr>) = (Inr Deleted, s') \<and>
    hm_get (ms_tasks s') (TaskId 1) = None \<and> hm_get (ms_outputs s') (TaskId 1) = None"
proof -
  let ?s = "empty_store\<lparr>ms_tasks := [(TaskId 1, ended_task 1),
      (TaskId 2, (plain_task 2)\<lparr>t_parent_task_id := Some (TaskId 1)\<rparr>)]\<rparr>"
  have ok: "tables_ok ?s"
    by (simp add: tables_ok_def empty_store_def keyed_def hm_ok_def ended_task_def from_request_def)
  have del: "delete_task (TaskId 1) ?s = (Inr Deleted, remove_task (TaskId 1) ?s)"
    by (simp add: delete_task_unfold hm_values_def hm_get_def ended_task_def from_request_def
        is_terminal_def default_request_def)
  show ?thesis using delete_task_leaves_no_reference[OF ok del] del by blast
qed

section \<open>Counting and listing\<close>

lemma count_dispatched_get:
  "(case hm_get (count_dispatched ts out) w of None \<Rightarrow> 0 | Some n \<Rightarrow> n) =
   (case hm_get out w of None \<Rightarrow> 0 | Some n \<Rightarrow> n) +
     of_nat (length (filter (\<lambda>t. \<exists>at. t_status t = Dispatched w at) ts))"
proof (induction ts arbitrary: out)
  case (Cons t ts)
  show ?case
    by (cases "t_status t") (auto simp: Cons.IH bump_def split: option.split)
qed simp

text \<open>
  The load count is exact: for every worker, the count is the number (as a 32-bit value)
  of stored tasks whose status is \<open>Dispatched\<close> to it; a worker without an entry has none.
\<close>

theorem count_dispatched_exact:
  "case count_dispatched_tasks_by_worker s of
     Inr m \<Rightarrow> (case hm_get m w of None \<Rightarrow> 0 | Some n \<Rightarrow> n) =
       of_nat (hm_count (\<lambda>t. \<exists>at. t_status t = Dispatched w at) (ms_tasks s))
   | Inl e \<Rightarrow> is_failing s ''count_dispatched_tasks_by_worker''"
  using count_dispatched_get[of "hm_values (ms_tasks s)" "[]" w]
  by (simp add: count_dispatched_tasks_by_worker_def hm_count_def)

definition task_matches :: "task_filter \<Rightarrow> task \<Rightarrow> bool" where
  "task_matches fi t = (created_by_matches fi t \<and> worker_matches fi t \<and> status_matches fi t)"

lemma sorted_sort_desc: "sorted (map (\<lambda>x. - f x) (sort_desc f xs))"
  by (simp add: sort_desc_def)

text \<open>
  A task listing holds stored tasks that satisfy every filter, each once, newest first, at
  most \<open>limit\<close> of them; and when all matching tasks fit into the first page, it holds all of them.
\<close>

theorem list_tasks_spec:
  assumes "tables_ok s" "list_tasks fi s = Inr out"
  shows "(\<forall>t \<in> set out. hm_get (ms_tasks s) (t_id t) = Some t \<and> task_matches fi t) \<and>
    distinct (map t_id out) \<and> sorted (map (\<lambda>t. - t_created_at t) out) \<and> length out \<le> fi_limit fi \<and>
    (fi_offset fi = 0 \<and> hm_count (task_matches fi) (ms_tasks s) \<le> fi_limit fi \<longrightarrow>
      (\<forall>i t. hm_get (ms_tasks s) i = Some t \<longrightarrow> task_matches fi t \<longrightarrow> t \<in> set out))"
proof -
  let ?all = "filter (task_matches fi) (hm_values (ms_tasks s))"
  let ?sorted = "sort_desc t_created_at ?all"
  note k = tables_okD(1)[OF assms(1)]
  have "filter (status_matches fi) (filter (worker_matches fi)
      (filter (created_by_matches fi) (hm_values (ms_tasks s)))) = ?all"
    by (auto simp: task_matches_def intro: filter_cong)
  then have out: "out = take (fi_limit fi) (drop (fi_offset fi) ?sorted)"
    using assms(2) by (simp add: list_tasks_def page_alt split: if_splits)
  have sub: "set out \<subseteq> set ?all" using set_page_subset[of "fi_offset fi" "fi_limit fi" ?sorted] out
    by (simp add: page_alt)
  have "distinct (map t_id (hm_values (ms_tasks s)))" using keyed_distinct_values[OF k] .
  then have "distinct (map t_id ?sorted)"
    by (auto simp: distinct_map sort_desc_def intro: inj_on_subset)
  then have dist: "distinct (map t_id out)"
    by (simp add: out drop_map[symmetric] take_map[symmetric])
  have srt: "sorted (map (\<lambda>t. - t_created_at t) out)"
    using sorted_sort_desc[of t_created_at ?all]
    by (simp add: out drop_map[symmetric] take_map[symmetric] sorted_wrt_take sorted_wrt_drop)
  have full: "\<forall>i t. hm_get (ms_tasks s) i = Some t \<longrightarrow> task_matches fi t \<longrightarrow> t \<in> set out"
    if "fi_offset fi = 0" "hm_count (task_matches fi) (ms_tasks s) \<le> fi_limit fi"
    using that by (auto simp: out hm_count_def dest: hm_get_values)
  show ?thesis using sub dist srt full keyed_values_get[OF k] by (auto simp: out)
qed

lemma list_tasks_spec_witness:
  "length (case list_tasks default_task_filter (empty_store\<lparr>ms_tasks := [(TaskId 1, plain_task 1)]\<rparr>) of
     Inr out \<Rightarrow> out | Inl _ \<Rightarrow> []) \<le> 100"
proof -
  let ?s = "empty_store\<lparr>ms_tasks := [(TaskId 1, plain_task 1)]\<rparr>"
  have ok: "tables_ok ?s"
    by (simp add: tables_ok_def empty_store_def keyed_def hm_ok_def from_request_def)
  show ?thesis
    using list_tasks_spec[OF ok, of default_task_filter]
    by (auto simp: default_task_filter_def split: sum.split)
qed

section \<open>The event log\<close>

lemma unat_u64: "n < 2 ^ 64 \<Longrightarrow> unat (of_nat n :: u64) = n"
  by (simp add: unat_of_nat take_bit_nat_eq_self)

abbreviation append_events :: "fleet_event list \<Rightarrow> mem_store \<Rightarrow> mem_store" where
  "append_events es s \<equiv> fold (\<lambda>e. snd \<circ> append_event e) es s"

lemma append_events_log:
  "ms_events (append_events es s) = ms_events s @
     map (\<lambda>(n, e). \<lparr> ee_seq = of_nat (n + 1), ee_event = e \<rparr>) (enumerate (length (ms_events s)) es)"
  by (induction es arbitrary: s) (auto simp: append_event_def Let_def)

lemma filter_enumerate_above:
  "filter (\<lambda>(n, e). k \<le> n) (enumerate m es) = drop (k - m) (enumerate m es)"
proof (induction es arbitrary: m)
  case (Cons e es)
  show ?case
  proof (cases "k \<le> m")
    case True
    then show ?thesis using Cons.IH[of "Suc m"] by simp
  next
    case False
    then have "k - m = Suc (k - Suc m)" by simp
    then show ?thesis using Cons.IH[of "Suc m"] False by simp
  qed
qed simp

lemma enumerate_bound: "(n, e) \<in> set (enumerate m es) \<Longrightarrow> n < m + length es"
  by (auto simp: in_set_enumerate_eq)

text \<open>
  The event log can be read page by page without losing or repeating an event: after any
  sequence of appends, asking for at most \<open>limit\<close> events after sequence number \<open>n\<close> returns exactly
  the events number \<open>n + 1\<close> onwards, in the order they were appended.
\<close>

theorem event_paging:
  assumes "length es < 2 ^ 64" "n \<le> length es"
  shows "map_sum id (map ee_event) (list_events (of_nat n) limit (append_events es empty_store)) =
    Inr (take (unat limit) (drop n es))"
proof -
  let ?ev = "\<lambda>(n, e). \<lparr> ee_seq = (of_nat (n + 1) :: u64), ee_event = e \<rparr>"
  have log: "ms_events (append_events es empty_store) = map ?ev (enumerate 0 es)"
    by (simp add: append_events_log) (simp add: empty_store_def)
  have "filter (\<lambda>e. ee_seq e > of_nat n) (map ?ev (enumerate 0 es)) =
      map ?ev (filter (\<lambda>(k, e). n \<le> k) (enumerate 0 es))"
  proof -
    have "(of_nat (k + 1) :: u64) > of_nat n \<longleftrightarrow> n \<le> k" if "(k, e) \<in> set (enumerate 0 es)" for k e
    proof -
      have "k + 1 < 2 ^ 64" "n < 2 ^ 64" using enumerate_bound[OF that] assms by auto
      then show ?thesis using unat_u64[of "Suc k"] unat_u64[of n] by (simp add: word_less_nat_alt less_Suc_eq_le)
    qed
    then show ?thesis by (auto simp: filter_map intro!: arg_cong[of _ _ "map _"] filter_cong)
  qed
  then have evs: "list_events (of_nat n) limit (append_events es empty_store) =
      Inr (take (unat limit) (drop n (map ?ev (enumerate 0 es))))"
    by (simp add: list_events_def log filter_enumerate_above drop_map)
  have "map ee_event (map ?ev (enumerate 0 es)) = es"
    by (simp add: comp_def case_prod_unfold)
  then show ?thesis
    by (simp only: evs map_sum.simps take_map[symmetric] drop_map[symmetric])
qed

lemma event_paging_witness:
  "map_sum id (map ee_event) (list_events (of_nat 1) 1 (append_events
      [TaskCancelled (TaskId 1) ''a'' 0, TaskCancelled (TaskId 2) ''b'' 1] empty_store)) =
    Inr (take (unat (1 :: u32)) (drop 1 [TaskCancelled (TaskId 1) ''a'' 0, TaskCancelled (TaskId 2) ''b'' 1]))"
  by (rule event_paging) simp_all

section \<open>Streaming output\<close>

abbreviation append_outputs :: "task_id \<Rightarrow> string list \<Rightarrow> mem_store \<Rightarrow> mem_store" where
  "append_outputs i cs s \<equiv> fold (\<lambda>c. snd \<circ> append_output i c) cs s"

definition output_of :: "mem_store \<Rightarrow> task_id \<Rightarrow> string list" where
  "output_of s i = (case hm_get (ms_outputs s) i of None \<Rightarrow> [] | Some v \<Rightarrow> v)"

lemma output_of_append: "output_of (snd (append_output i c s)) i = output_of s i @ [c]"
  by (simp add: output_of_def append_output_def Let_def)

lemma output_of_appends: "output_of (append_outputs i cs s) i = output_of s i @ cs"
  by (induction cs arbitrary: s) (simp_all add: output_of_append)

lemma get_output_alt:
  "get_output now i n s = Inr \<lparr> to_task_id = i,
     to_chunks = map (\<lambda>(k, c). \<lparr> oc_task_id = i, oc_seq = n + of_nat k, oc_chunk = c, oc_written_at = now \<rparr>)
       (enumerate 0 (drop (unat n) (output_of s i))),
     to_next_offset = n + of_nat (length (drop (unat n) (output_of s i))) \<rparr>"
  by (simp add: get_output_def output_of_def Let_def split: option.split)

definition chunks_from :: "datetime \<Rightarrow> task_id \<Rightarrow> u64 \<Rightarrow> mem_store \<Rightarrow> string list" where
  "chunks_from now i n s = (case get_output now i n s of Inr o' \<Rightarrow> map oc_chunk (to_chunks o') | Inl _ \<Rightarrow> [])"

definition next_offset :: "datetime \<Rightarrow> task_id \<Rightarrow> u64 \<Rightarrow> mem_store \<Rightarrow> u64" where
  "next_offset now i n s = (case get_output now i n s of Inr o' \<Rightarrow> to_next_offset o' | Inl _ \<Rightarrow> 0)"

lemma chunks_from_alt: "chunks_from now i n s = drop (unat n) (output_of s i)"
  by (simp add: chunks_from_def get_output_alt comp_def case_prod_unfold)

text \<open>
  A reader that polls a task's output loses nothing: it gets everything stored after its
  offset, and polling again from the offset it was handed, after more chunks were appended,
  returns exactly those chunks.
\<close>

theorem output_polling:
  assumes "unat n \<le> length (output_of s i)" "length (output_of s i) + length cs < 2 ^ 64"
  shows "chunks_from now i n s = drop (unat n) (output_of s i) \<and>
    chunks_from now' i (next_offset now i n s) (append_outputs i cs s) = cs"
proof -
  have "unat (next_offset now i n s) = length (output_of s i)"
  proof -
    have "unat n + (length (output_of s i) - unat n) < 2 ^ 64" using assms by simp
    then have "unat (n + of_nat (length (output_of s i) - unat n)) = length (output_of s i)"
      using assms by (simp add: unat_word_ariths unat_u64)
    then show ?thesis by (simp add: next_offset_def get_output_alt)
  qed
  then show ?thesis by (simp add: chunks_from_alt output_of_appends)
qed

lemma output_polling_witness:
  "chunks_from 0 (TaskId 1) 0 empty_store = drop (unat (0 :: u64)) (output_of empty_store (TaskId 1)) \<and>
    chunks_from 5 (TaskId 1) (next_offset 0 (TaskId 1) 0 empty_store)
      (append_outputs (TaskId 1) [''a'', ''b''] empty_store) = [''a'', ''b'']"
  by (rule output_polling) (simp_all add: output_of_def empty_store_def)

text \<open>
  The sequence number a chunk is listed under is not the one its append returned: appending
  the first chunk of a task returns 1, while reading the output from 0 lists it under 0.
\<close>

theorem output_seq_shifted:
  "fst (append_output i c empty_store) = Inr 1 \<and>
   map_sum id (map (\<lambda>k. (oc_seq k, oc_chunk k)) \<circ> to_chunks) (get_output now i 0 (snd (append_output i c empty_store)))
     = Inr [(0, c)]"
  by (simp add: append_output_def get_output_def empty_store_def Let_def)

end
