(* ===== verification/Agent_Store.thy ===== *)
theory Agent_Store
  imports Task_Lifecycle
begin

text \<open>
  Projects and agents in the store (\<open>crates/fleet-store/src/mem.rs\<close>): creation with a template
  pin and an initial placement, the slot claim that places an agent on a worker under the worker's
  process cap, the desired-state commands with their generations and acknowledgements, what the
  worker observed, and the archive gate of a project. A definition is the call that nothing disturbs; the
  calls that take several locks have their gaps in \<open>Agent_Sections\<close> and \<open>Project_Rules\<close>.
\<close>

section \<open>Projects\<close>

definition create_project :: "project \<Rightarrow> mem_store \<Rightarrow> (store_error, unit) result \<times> mem_store" where
  "create_project p s =
     (if list_ex (\<lambda>x. pr_name x = pr_name p) (hm_values (ms_projects s))
      then (Inl (Conflict (Msg ''project name already exists: {}'' [ArgStr (pr_name p)])), s)
      else (Inr (), s\<lparr>ms_projects := hm_insert (pr_id p) p (ms_projects s)\<rparr>))"

definition get_project :: "project_id \<Rightarrow> mem_store \<Rightarrow> (store_error, project option) result" where
  "get_project i s = Inr (hm_get (ms_projects s) i)"

definition get_project_by_name :: "string \<Rightarrow> mem_store \<Rightarrow> (store_error, project option) result" where
  "get_project_by_name name s = Inr (List.find (\<lambda>p. pr_name p = name) (hm_values (ms_projects s)))"

definition list_projects :: "project_filter \<Rightarrow> mem_store \<Rightarrow> (store_error, project list) result" where
  "list_projects fi s =
     Inr (take (max (pf_limit fi) 1) (drop (pf_offset fi)
       (sort_desc pr_created_at
         (filter (\<lambda>p. case pf_status fi of Some st \<Rightarrow> pr_status p = st | None \<Rightarrow> True)
           (hm_values (ms_projects s))))))"

definition update_project_status ::
    "datetime \<Rightarrow> project_id \<Rightarrow> project_status \<Rightarrow> control_fence option \<Rightarrow> mem_store
     \<Rightarrow> (store_error, bool) result \<times> mem_store" where
  "update_project_status now i status fence s =
     (if \<not> control_fence_holds s fence then (Inr False, s)
      else case hm_get (ms_projects s) i of
        Some _ \<Rightarrow> (Inr True, s\<lparr>ms_projects :=
          hm_adjust i (\<lambda>p. p\<lparr>pr_status := status, pr_updated_at := now\<rparr>) (ms_projects s)\<rparr>)
      | None \<Rightarrow> (Inr False, s))"

definition active_phase :: "task_phase \<Rightarrow> bool" where
  "active_phase p = (p = PhPending \<or> p = PhDispatched)"

definition project_has_active_tasks :: "project_id \<Rightarrow> mem_store \<Rightarrow> (store_error, bool) result" where
  "project_has_active_tasks i s =
     Inr (list_ex (\<lambda>t. t_project_id t = Some i \<and> active_phase (phase (t_status t))) (hm_values (ms_tasks s)))"

definition project_has_live_agents :: "project_id \<Rightarrow> mem_store \<Rightarrow> (store_error, bool) result" where
  "project_has_live_agents i s =
     Inr (list_ex (\<lambda>a. ag_project_id a = i \<and> blocks_project_archive (ag_status a)) (hm_values (ms_agents s)))"

definition archive_project_if_drained ::
    "datetime \<Rightarrow> project_id \<Rightarrow> control_fence option \<Rightarrow> mem_store
     \<Rightarrow> (store_error, bool) result \<times> mem_store" where
  "archive_project_if_drained now i fence s =
     (if \<not> control_fence_holds s fence then (Inr False, s)
      else case hm_get (ms_projects s) i of
        None \<Rightarrow> (Inr False, s)
      | Some p \<Rightarrow>
          if pr_status p \<noteq> PrDraining then (Inr False, s)
          else if list_ex (\<lambda>t. t_project_id t = Some i \<and> active_phase (phase (t_status t)))
                 (hm_values (ms_tasks s)) then (Inr False, s)
          else if list_ex (\<lambda>a. ag_project_id a = i \<and> ag_status a \<noteq> AgStopped)
                 (hm_values (ms_agents s)) then (Inr False, s)
          else (Inr True, s\<lparr>ms_projects :=
            hm_adjust i (\<lambda>p. p\<lparr>pr_status := PrArchived, pr_updated_at := now\<rparr>) (ms_projects s)\<rparr>))"

section \<open>Agents\<close>

definition agent_name_taken :: "agent \<Rightarrow> store_error" where
  "agent_name_taken a =
     Conflict (Msg ''agent name already exists in this project: {}'' [ArgStr (ag_name a)])"

text \<open>The guards on a template pin, in the order of the code.\<close>

definition pin_error :: "agent_template_pin \<Rightarrow> mem_store \<Rightarrow> store_error option" where
  "pin_error pin s =
     (case hm_get (ms_agent_template_revisions s) (pin_revision_id pin) of
        Some rv \<Rightarrow>
          if rev_template_id rv \<noteq> pin_template_id pin then
            Some (Conflict (Msg ''no such template revision for agent pin: template={} revision={}''
              [ArgTemplate (pin_template_id pin), ArgRevision (pin_revision_id pin)]))
          else if is_revoked rv then
            Some (Conflict (Msg ''template revision {} is revoked and cannot be pinned''
              [ArgRevision (pin_revision_id pin)]))
          else (case hm_get (ms_agent_templates s) (pin_template_id pin) of
            None \<Rightarrow> Some (Conflict (Msg ''no such agent template: {}'' [ArgTemplate (pin_template_id pin)]))
          | Some tpl \<Rightarrow>
              if \<not> accepts_new_pins (at_status tpl) then
                Some (Conflict (Msg ''template {} is {} and does not accept new pins''
                  [ArgTemplate (pin_template_id pin), ArgStr (template_status_as_str (at_status tpl))]))
              else None)
      | None \<Rightarrow>
          Some (Conflict (Msg ''no such template revision for agent pin: template={} revision={}''
            [ArgTemplate (pin_template_id pin), ArgRevision (pin_revision_id pin)])))"

text \<open>An agent occupies a process slot of the worker it is placed on unless it is stopped.\<close>

definition occupies :: "worker_id \<Rightarrow> agent \<Rightarrow> bool" where
  "occupies w a = (ag_worker_id a = Some w \<and> ag_status a \<noteq> AgStopped)"

definition placed_worker :: "agent \<Rightarrow> mem_store \<Rightarrow> worker_id option" where
  "placed_worker a s =
     (if ms_drop_placements s then None
      else case ag_worker_id a of
        None \<Rightarrow> None
      | Some w \<Rightarrow>
          (case hm_get (ms_workers s) w of
             None \<Rightarrow> None
           | Some wk \<Rightarrow>
               (case w_max_agent_processes wk of
                  None \<Rightarrow> Some w
                | Some cap \<Rightarrow> if hm_count (occupies w) (ms_agents s) \<ge> unat cap then None else Some w)))"

definition create_agent :: "agent \<Rightarrow> mem_store \<Rightarrow> (store_error, worker_id option) result \<times> mem_store" where
  "create_agent a s =
     (if list_ex (\<lambda>x. ag_project_id x = ag_project_id a \<and> ag_name x = ag_name a) (hm_values (ms_agents s))
      then (Inl (agent_name_taken a), s)
      else case (case ag_template_pin a of None \<Rightarrow> None | Some pin \<Rightarrow> pin_error pin s) of
        Some e \<Rightarrow> (Inl e, s)
      | None \<Rightarrow>
          let placed = placed_worker a s;
              stored = (if placed = None then without_placement a else a)
          in (Inr placed, s\<lparr>ms_agents := hm_insert (ag_id a) stored (ms_agents s)\<rparr>))"

definition get_agent :: "agent_id \<Rightarrow> mem_store \<Rightarrow> (store_error, agent option) result" where
  "get_agent i s = Inr (hm_get (ms_agents s) i)"

definition get_agent_by_name :: "project_id \<Rightarrow> string \<Rightarrow> mem_store \<Rightarrow> (store_error, agent option) result" where
  "get_agent_by_name p name s =
     Inr (List.find (\<lambda>a. ag_project_id a = p \<and> ag_name a = name) (hm_values (ms_agents s)))"

definition agent_selected :: "agent_filter \<Rightarrow> agent \<Rightarrow> bool" where
  "agent_selected fi a =
     ((case af_project_id fi of Some p \<Rightarrow> ag_project_id a = p | None \<Rightarrow> True) \<and>
      (case af_status fi of Some st \<Rightarrow> ag_status a = st | None \<Rightarrow> True) \<and>
      (case af_worker_id fi of Some w \<Rightarrow> ag_worker_id a = Some w | None \<Rightarrow> True))"

definition list_agents :: "agent_filter \<Rightarrow> mem_store \<Rightarrow> (store_error, agent list) result" where
  "list_agents fi s =
     Inr (take (max (af_limit fi) 1) (drop (af_offset fi)
       (sort_desc ag_created_at (filter (agent_selected fi) (hm_values (ms_agents s))))))"

text \<open>Stopping an agent lowers its desired state in the same write.\<close>

definition set_status ::
    "datetime \<Rightarrow> datetime \<Rightarrow> agent_status \<Rightarrow> agent \<Rightarrow> agent" where
  "set_status now now' status a =
     (let a = a\<lparr>ag_status := status\<rparr>;
          a = (if status = AgStopped \<and> ag_desired_status a \<noteq> DStopped then
                 a\<lparr>ag_desired_status := DStopped,
                   ag_command_generation := i64_succ (ag_command_generation a),
                   ag_command_issued_at := Some now\<rparr>
               else a)
      in a\<lparr>ag_updated_at := now'\<rparr>)"

definition update_agent_status ::
    "datetime \<Rightarrow> datetime \<Rightarrow> agent_id \<Rightarrow> agent_status \<Rightarrow> mem_store
     \<Rightarrow> (store_error, bool) result \<times> mem_store" where
  "update_agent_status now now' i status s =
     (case hm_get (ms_agents s) i of
        Some _ \<Rightarrow> (Inr True,
          s\<lparr>ms_agents := hm_adjust i (set_status now now' status) (ms_agents s)\<rparr>)
      | None \<Rightarrow> (Inr False, s))"

section \<open>Placement\<close>

text \<open>The write of a successful claim: a move forgets what the previous worker observed.\<close>

definition place ::
    "datetime \<Rightarrow> datetime \<Rightarrow> worker_id \<Rightarrow> control_fence option \<Rightarrow> agent \<Rightarrow> agent" where
  "place now now' w fence a =
     (let moved = (ag_worker_id a \<noteq> Some w);
          a = a\<lparr>ag_worker_id := Some w, ag_assigned_at := Some now\<rparr>;
          a = (if moved then
                 a\<lparr>ag_observed_status := None, ag_observed_at := None, ag_observed_reason := None\<rparr>
               else a)
      in a\<lparr>ag_command_generation := i64_succ (ag_command_generation a),
           ag_command_issued_at := Some now',
           ag_command_control_epoch := map_option cf_epoch fence,
           ag_updated_at := now\<rparr>)"

definition assign_agent_worker ::
    "datetime \<Rightarrow> datetime \<Rightarrow> agent_id \<Rightarrow> worker_id \<Rightarrow> control_fence option \<Rightarrow> mem_store
     \<Rightarrow> (store_error, slot_claim) result \<times> mem_store" where
  "assign_agent_worker now now' i w fence s =
     (if \<not> control_fence_holds s fence then (Inr SlotFenced, s)
      else case hm_get (ms_agents s) i of
        None \<Rightarrow> (Inr SlotNoSuchAgent, s)
      | Some a \<Rightarrow>
          (case hm_get (ms_workers s) w of
             None \<Rightarrow> (Inr SlotNoSuchWorker, s)
           | Some wk \<Rightarrow>
               if (case w_max_agent_processes wk of
                     None \<Rightarrow> False
                   | Some cap \<Rightarrow>
                       hm_count (\<lambda>x. occupies w x \<and> ag_id x \<noteq> i) (ms_agents s) \<ge> unat cap)
               then (Inr CapReached, s)
               else if ag_observed_status a = Some ObRunning \<and> ag_worker_id a \<noteq> Some w
               then (Inr ObservedRunning, s)
               else (Inr Claimed,
                     s\<lparr>ms_agents := hm_adjust i (place now now' w fence) (ms_agents s)\<rparr>)))"

fun count_occupied :: "agent list \<Rightarrow> (worker_id, u32) hmap \<Rightarrow> (worker_id, u32) hmap" where
  "count_occupied [] out = out"
| "count_occupied (a # as) out =
     count_occupied as
       (if ag_status a = AgStopped then out
        else case ag_worker_id a of Some w \<Rightarrow> bump w out | None \<Rightarrow> out)"

definition count_agents_by_worker :: "mem_store \<Rightarrow> (store_error, (worker_id, u32) hmap) result" where
  "count_agents_by_worker s = Inr (count_occupied (hm_values (ms_agents s)) [])"

section \<open>Commands\<close>

definition command ::
    "datetime \<Rightarrow> datetime \<Rightarrow> agent_desired_status \<Rightarrow> control_fence option \<Rightarrow> agent \<Rightarrow> agent" where
  "command now now' desired fence a =
     (let a = (if ag_desired_status a \<noteq> desired then
                 a\<lparr>ag_desired_status := desired,
                   ag_command_generation := i64_succ (ag_command_generation a),
                   ag_command_issued_at := Some now,
                   ag_command_control_epoch := map_option cf_epoch fence\<rparr>
               else a)
      in a\<lparr>ag_updated_at := now'\<rparr>)"

definition set_agent_desired_status ::
    "datetime \<Rightarrow> datetime \<Rightarrow> agent_id \<Rightarrow> agent_desired_status \<Rightarrow> control_fence option \<Rightarrow> mem_store
     \<Rightarrow> (store_error, command_issue) result \<times> mem_store" where
  "set_agent_desired_status now now' i desired fence s =
     (if \<not> control_fence_holds s fence then (Inr CmdFenced, s)
      else case hm_get (ms_agents s) i of
        Some _ \<Rightarrow> (Inr Issued,
          s\<lparr>ms_agents := hm_adjust i (command now now' desired fence) (ms_agents s)\<rparr>)
      | None \<Rightarrow> (Inr CmdNoSuchAgent, s))"

definition listed_for :: "worker_id \<Rightarrow> agent \<Rightarrow> bool" where
  "listed_for w a = (ag_worker_id a = Some w \<and>
     (ag_status a \<noteq> AgStopped \<or> ag_last_acked_generation a < ag_command_generation a))"

definition list_agent_commands :: "worker_id \<Rightarrow> mem_store \<Rightarrow> (store_error, agent_command list) result" where
  "list_agent_commands w s =
     Inr (map (\<lambda>a. \<lparr> cmd_agent_id = ag_id a, cmd_desired_status = ag_desired_status a,
               cmd_generation = ag_command_generation a \<rparr>)
       (sort_key ag_created_at (filter (listed_for w) (hm_values (ms_agents s)))))"

definition ack_applies :: "worker_id \<Rightarrow> agent_ack \<Rightarrow> agent \<Rightarrow> bool" where
  "ack_applies w k a = (ag_worker_id a = Some w \<and> ag_command_generation a = ack_generation k \<and>
     ag_last_acked_generation a < ack_generation k)"

definition ack_one :: "worker_id \<Rightarrow> agent_ack \<Rightarrow> agent \<Rightarrow> agent" where
  "ack_one w k a =
     (if ack_applies w k a then a\<lparr>ag_last_acked_generation := ack_generation k\<rparr> else a)"

fun ack_loop :: "worker_id \<Rightarrow> agent_ack list \<Rightarrow> u64 \<Rightarrow> (agent_id, agent) hmap \<Rightarrow> u64 \<times> (agent_id, agent) hmap" where
  "ack_loop w [] applied m = (applied, m)"
| "ack_loop w (k # ks) applied m =
     (case hm_get m (ack_agent_id k) of
        None \<Rightarrow> ack_loop w ks applied m
      | Some a \<Rightarrow>
          ack_loop w ks (if ack_applies w k a then applied + 1 else applied)
            (hm_adjust (ack_agent_id k) (ack_one w k) m))"

definition ack_agent_commands ::
    "worker_id \<Rightarrow> agent_ack list \<Rightarrow> mem_store \<Rightarrow> (store_error, u64) result \<times> mem_store" where
  "ack_agent_commands w acks s =
     (case ack_loop w acks 0 (ms_agents s) of (applied, m) \<Rightarrow> (Inr applied, s\<lparr>ms_agents := m\<rparr>))"

section \<open>Observations\<close>

text \<open>
  A worker's report replaces everything it observed before: an agent of the worker the report
  does not mention loses its observation.
\<close>

definition silent :: "worker_id \<Rightarrow> agent_observation list \<Rightarrow> agent \<Rightarrow> bool" where
  "silent w obs a = (ag_worker_id a = Some w \<and> ag_observed_status a \<noteq> None \<and>
     ag_id a \<notin> set (map obs_agent_id obs))"

definition unobserve :: "worker_id \<Rightarrow> agent_observation list \<Rightarrow> agent \<Rightarrow> agent" where
  "unobserve w obs a =
     (if silent w obs a then
        a\<lparr>ag_observed_status := None, ag_observed_at := None, ag_observed_reason := None\<rparr>
      else a)"

definition observe_one :: "datetime \<Rightarrow> worker_id \<Rightarrow> agent_observation \<Rightarrow> agent \<Rightarrow> agent" where
  "observe_one now w ob a =
     (if ag_worker_id a \<noteq> Some w then a
      else a\<lparr>ag_observed_status := Some (obs_status ob), ag_observed_at := Some now,
             ag_observed_reason := obs_reason ob\<rparr>)"

fun observe_loop ::
    "datetime \<Rightarrow> worker_id \<Rightarrow> agent_observation list \<Rightarrow> u64 \<Rightarrow> (agent_id, agent) hmap
     \<Rightarrow> u64 \<times> (agent_id, agent) hmap" where
  "observe_loop now w [] changed m = (changed, m)"
| "observe_loop now w (ob # obs) changed m =
     (case hm_get m (obs_agent_id ob) of
        None \<Rightarrow> observe_loop now w obs changed m
      | Some a \<Rightarrow>
          observe_loop now w obs (if ag_worker_id a = Some w then changed + 1 else changed)
            (hm_adjust (obs_agent_id ob) (observe_one now w ob) m))"

definition apply_agent_observations ::
    "datetime \<Rightarrow> worker_id \<Rightarrow> agent_observation list \<Rightarrow> mem_store \<Rightarrow> (store_error, u64) result \<times> mem_store" where
  "apply_agent_observations now w obs s =
     (let cleared = of_nat (hm_count (silent w obs) (ms_agents s));
          m = hm_map_values (unobserve w obs) (ms_agents s)
      in case observe_loop now w obs cleared m of
           (changed, m') \<Rightarrow> (Inr changed, s\<lparr>ms_agents := m'\<rparr>))"

end
