(* ===== verification/Worker_Store.thy ===== *)
theory Worker_Store
  imports Fencing
begin

text \<open>
  Workers in the store (\<open>crates/fleet-store/src/mem.rs\<close>): registration and heartbeats,
  bootstrap tokens and enrollment, operational and model credentials, removal. The SHA-256 digest
  of a token is the argument \<open>digest\<close>. A second clock argument is a second reading of the clock.
\<close>

section \<open>Workers\<close>

definition upsert_worker :: "worker \<Rightarrow> mem_store \<Rightarrow> (store_error, unit) result \<times> mem_store" where
  "upsert_worker w s =
     (let next_w = (case hm_get (ms_workers s) (w_id w) of
            Some prev \<Rightarrow> w\<lparr>w_registered_at := w_registered_at prev,
                           w_incarnation_started_at := w_incarnation_started_at prev\<rparr>
          | None \<Rightarrow> w)
      in (Inr (), s\<lparr>ms_workers := hm_insert (w_id w) next_w (ms_workers s)\<rparr>))"

definition bump_worker_incarnation ::
    "datetime \<Rightarrow> worker_id \<Rightarrow> mem_store \<Rightarrow> (store_error, datetime option) result \<times> mem_store" where
  "bump_worker_incarnation now i s =
     (case hm_get (ms_workers s) i of
        None \<Rightarrow> (Inr None, s)
      | Some _ \<Rightarrow> (Inr (Some now),
          s\<lparr>ms_workers := hm_adjust i (\<lambda>w. w\<lparr>w_incarnation_started_at := now\<rparr>) (ms_workers s)\<rparr>))"

definition get_worker :: "worker_id \<Rightarrow> mem_store \<Rightarrow> (store_error, worker option) result" where
  "get_worker i s = Inr (hm_get (ms_workers s) i)"

definition get_worker_by_name :: "string \<Rightarrow> mem_store \<Rightarrow> (store_error, worker option) result" where
  "get_worker_by_name name s = Inr (List.find (\<lambda>w. w_name w = name) (hm_values (ms_workers s)))"

definition worker_selected :: "worker_filter \<Rightarrow> worker \<Rightarrow> bool" where
  "worker_selected fi w =
     ((case wf_status fi of None \<Rightarrow> True | Some st \<Rightarrow> w_status w = st) \<and>
      list_all (\<lambda>(k, v). hm_get (w_labels w) k = Some v) (wf_labels fi))"

definition list_workers :: "worker_filter \<Rightarrow> mem_store \<Rightarrow> (store_error, worker list) result" where
  "list_workers fi s = Inr (page (wf_offset fi) (wf_limit fi)
     (sort_desc w_registered_at (filter (worker_selected fi) (hm_values (ms_workers s)))))"

text \<open>The foreign keys of the SQL schema, carried out by hand.\<close>

definition clear_placement :: "agent \<Rightarrow> agent" where
  "clear_placement a = a\<lparr>ag_worker_id := None, ag_assigned_at := None, ag_observed_status := None,
     ag_observed_at := None, ag_observed_reason := None\<rparr>"

definition delete_worker :: "worker_id \<Rightarrow> mem_store \<Rightarrow> (store_error, unit) result \<times> mem_store" where
  "delete_worker i s =
     (case hm_get (ms_workers s) i of
        None \<Rightarrow> (Inl NotFound, s)
      | Some w \<Rightarrow>
          (Inr (), s\<lparr>
             ms_workers := hm_remove i (ms_workers s),
             ms_operational_credentials :=
               hm_retain (\<lambda>_ c. woc_worker_id c \<noteq> i) (ms_operational_credentials s),
             ms_credentials := hm_retain (\<lambda>(name, _) _. name \<noteq> w_name w) (ms_credentials s),
             ms_agents := hm_map_values
               (\<lambda>a. if ag_worker_id a = Some i then clear_placement a else a) (ms_agents s)\<rparr>))"

definition record_worker_activity ::
    "datetime \<Rightarrow> worker_id \<Rightarrow> mem_store \<Rightarrow> (store_error, bool) result \<times> mem_store" where
  "record_worker_activity now i s =
     (case hm_get (ms_workers s) i of
        Some _ \<Rightarrow> (Inr True,
          s\<lparr>ms_workers := hm_adjust i (\<lambda>w. w\<lparr>w_last_activity_at := Some now\<rparr>) (ms_workers s)\<rparr>)
      | None \<Rightarrow> (Inr False, s))"

definition update_worker_heartbeat ::
    "datetime \<Rightarrow> worker_id \<Rightarrow> worker_heartbeat \<Rightarrow> mem_store \<Rightarrow> (store_error, unit) result \<times> mem_store" where
  "update_worker_heartbeat now i hb s =
     (case hm_get (ms_workers s) i of
        None \<Rightarrow> (Inl NotFound, s)
      | Some _ \<Rightarrow> (Inr (), s\<lparr>ms_workers := hm_adjust i
          (\<lambda>w. w\<lparr>w_active_tasks := hb_active_tasks hb, w_last_seen := Some now\<rparr>) (ms_workers s)\<rparr>))"

section \<open>Bootstrap tokens\<close>

definition public_id :: "bootstrap_token \<Rightarrow> string" where
  "public_id t = ''bt_'' @ bt_token_digest t"

definition is_usable :: "datetime \<Rightarrow> bootstrap_token \<Rightarrow> bool" where
  "is_usable now t =
     (if bt_use_count t \<ge> bt_max_uses t then False
      else case bt_expires_at t of Some e \<Rightarrow> \<not> now > e | None \<Rightarrow> True)"

text \<open>\<open>saturating_sub\<close>.\<close>

definition remaining_uses :: "bootstrap_token \<Rightarrow> u32" where
  "remaining_uses t = (if bt_use_count t \<le> bt_max_uses t then bt_max_uses t - bt_use_count t else 0)"

definition token_not_found :: store_error where
  "token_not_found = BootstrapTokenInvalid (Msg ''token not found'' [])"

definition token_refused :: "bootstrap_token \<Rightarrow> store_error" where
  "token_refused t = BootstrapTokenInvalid (Msg ''token {}''
     [ArgStr (if bt_use_count t \<ge> bt_max_uses t then ''exhausted'' else ''expired'')])"

definition use_token :: "datetime \<Rightarrow> string \<Rightarrow> bootstrap_token \<Rightarrow> bootstrap_token" where
  "use_token now who t = t\<lparr>bt_use_count := bt_use_count t + 1, bt_last_used_by := Some who,
     bt_last_used_at := Some now\<rparr>"

definition create_bootstrap_token ::
    "bootstrap_token \<Rightarrow> mem_store \<Rightarrow> (store_error, unit) result \<times> mem_store" where
  "create_bootstrap_token t s =
     (if hm_contains (ms_bootstrap_tokens s) (bt_token_digest t)
      then (Inl (Conflict (Msg ''bootstrap token already exists: {}'' [ArgStr (public_id t)])), s)
      else (Inr (), s\<lparr>ms_bootstrap_tokens := hm_insert (bt_token_digest t) t (ms_bootstrap_tokens s)\<rparr>))"

definition consume_bootstrap_token ::
    "(string \<Rightarrow> string) \<Rightarrow> datetime \<Rightarrow> datetime \<Rightarrow> string \<Rightarrow> string \<Rightarrow> mem_store
     \<Rightarrow> (store_error, unit) result \<times> mem_store" where
  "consume_bootstrap_token digest now now' token used_by s =
     (case hm_get (ms_bootstrap_tokens s) (digest token) of
        None \<Rightarrow> (Inl token_not_found, s)
      | Some t \<Rightarrow>
          if \<not> is_usable now t then (Inl (token_refused t), s)
          else (Inr (), s\<lparr>ms_bootstrap_tokens :=
                 hm_adjust (digest token) (use_token now' used_by) (ms_bootstrap_tokens s)\<rparr>))"

definition list_bootstrap_tokens :: "mem_store \<Rightarrow> (store_error, bootstrap_token list) result" where
  "list_bootstrap_tokens s = Inr (sort_desc bt_created_at (hm_values (ms_bootstrap_tokens s)))"

definition revoke_bootstrap_token ::
    "string \<Rightarrow> mem_store \<Rightarrow> (store_error, bool) result \<times> mem_store" where
  "revoke_bootstrap_token d s =
     (Inr (hm_contains (ms_bootstrap_tokens s) d),
      s\<lparr>ms_bootstrap_tokens := hm_remove d (ms_bootstrap_tokens s)\<rparr>)"

text \<open>The SQL consumption: one \<open>UPDATE .. WHERE\<close>, one reading of the clock.\<close>

definition pg_consume_bootstrap_token ::
    "(string \<Rightarrow> string) \<Rightarrow> datetime \<Rightarrow> string \<Rightarrow> string \<Rightarrow> mem_store
     \<Rightarrow> (store_error, unit) result \<times> mem_store" where
  "pg_consume_bootstrap_token digest now token used_by s =
     (let hit = (\<lambda>t. bt_token_digest t = digest token \<and>
            (bt_use_count t < bt_max_uses t \<and>
             (case bt_expires_at t of None \<Rightarrow> True | Some e \<Rightarrow> e > now)))
      in if list_ex hit (hm_values (ms_bootstrap_tokens s)) then
           (Inr (), s\<lparr>ms_bootstrap_tokens :=
              hm_map_values (\<lambda>t. if hit t then use_token now used_by t else t) (ms_bootstrap_tokens s)\<rparr>)
         else (Inl (BootstrapTokenInvalid (Msg
           (case hm_get (ms_bootstrap_tokens s) (digest token) of
              Some _ \<Rightarrow> ''token is exhausted or expired''
            | None \<Rightarrow> ''token not found'') [])), s))"

section \<open>Operational credentials\<close>

definition upsert_worker_operational_credential ::
    "worker_operational_credential \<Rightarrow> mem_store \<Rightarrow> (store_error, unit) result \<times> mem_store" where
  "upsert_worker_operational_credential c s =
     (Inr (), s\<lparr>ms_operational_credentials :=
        hm_insert (woc_credential_digest c) c (ms_operational_credentials s)\<rparr>)"

definition credential_active :: "datetime \<Rightarrow> worker_operational_credential \<Rightarrow> bool" where
  "credential_active now c =
     (woc_revoked_at c = None \<and> (case woc_expires_at c of None \<Rightarrow> True | Some e \<Rightarrow> e > now))"

definition find_active_worker_operational_credential ::
    "datetime \<Rightarrow> string \<Rightarrow> mem_store \<Rightarrow> (store_error, worker_operational_credential option) result" where
  "find_active_worker_operational_credential now d s =
     Inr (case hm_get (ms_operational_credentials s) d of
            Some c \<Rightarrow> if credential_active now c then Some c else None
          | None \<Rightarrow> None)"

text \<open>\<open>values_mut().find(..)\<close>: the first match in iteration order is changed.\<close>

fun revoke_first ::
    "datetime \<Rightarrow> worker_id \<Rightarrow> (string, worker_operational_credential) hmap
     \<Rightarrow> (bool \<times> (string, worker_operational_credential) hmap)" where
  "revoke_first now w [] = (False, [])"
| "revoke_first now w ((d, c) # m) =
     (if woc_worker_id c = w \<and> woc_revoked_at c = None
      then (True, (d, c\<lparr>woc_revoked_at := Some now\<rparr>) # m)
      else apsnd ((#) (d, c)) (revoke_first now w m))"

definition revoke_worker_operational_credential ::
    "datetime \<Rightarrow> worker_id \<Rightarrow> mem_store \<Rightarrow> (store_error, bool) result \<times> mem_store" where
  "revoke_worker_operational_credential now w s =
     (case revoke_first now w (ms_operational_credentials s) of
        (found, m) \<Rightarrow> (Inr found, s\<lparr>ms_operational_credentials := m\<rparr>))"

text \<open>\<open>rotation_generation\<close> is an \<open>i64\<close>.\<close>

definition rotate_worker_operational_credential ::
    "datetime \<Rightarrow> worker_id \<Rightarrow> string \<Rightarrow> datetime option \<Rightarrow> mem_store
     \<Rightarrow> (store_error, worker_operational_credential) result \<times> mem_store" where
  "rotate_worker_operational_credential now w new_digest expires s =
     (case List.find (\<lambda>c. woc_worker_id c = w) (hm_values (ms_operational_credentials s)) of
        None \<Rightarrow> (Inl NotFound, s)
      | Some old \<Rightarrow>
          let c = old\<lparr>woc_credential_digest := new_digest, woc_issued_at := now,
                woc_expires_at := expires, woc_revoked_at := None,
                woc_rotation_generation := i64_succ (woc_rotation_generation old)\<rparr>
          in (Inr c, s\<lparr>ms_operational_credentials := hm_insert new_digest c
                (hm_remove (woc_credential_digest old) (ms_operational_credentials s))\<rparr>))"

text \<open>
  The SQL table has the worker as primary key and a unique digest: an upsert replaces the worker's
  row. \<open>unique violation\<close> is the error the database raises for a digest another worker holds.
\<close>

definition pg_upsert_worker_operational_credential ::
    "worker_operational_credential \<Rightarrow> mem_store \<Rightarrow> (store_error, unit) result \<times> mem_store" where
  "pg_upsert_worker_operational_credential c s =
     (if \<not> hm_contains (ms_workers s) (woc_worker_id c) then (Inl (Sqlx ''foreign key violation''), s)
      else if list_ex (\<lambda>x. woc_worker_id x \<noteq> woc_worker_id c \<and>
                woc_credential_digest x = woc_credential_digest c)
              (hm_values (ms_operational_credentials s))
      then (Inl (Sqlx ''unique violation''), s)
      else (Inr (), s\<lparr>ms_operational_credentials := hm_insert (woc_credential_digest c) c
             (hm_retain (\<lambda>_ x. woc_worker_id x \<noteq> woc_worker_id c) (ms_operational_credentials s))\<rparr>))"

definition pg_revoke_worker_operational_credential ::
    "datetime \<Rightarrow> worker_id \<Rightarrow> mem_store \<Rightarrow> (store_error, bool) result \<times> mem_store" where
  "pg_revoke_worker_operational_credential now w s =
     (Inr (list_ex (\<lambda>c. woc_worker_id c = w \<and> woc_revoked_at c = None)
         (hm_values (ms_operational_credentials s))),
      s\<lparr>ms_operational_credentials := hm_map_values
         (\<lambda>c. if woc_worker_id c = w \<and> woc_revoked_at c = None then c\<lparr>woc_revoked_at := Some now\<rparr> else c)
         (ms_operational_credentials s)\<rparr>)"

section \<open>Enrollment\<close>

text \<open>All checks first, then all writes, under the three table locks.\<close>

definition enroll_worker ::
    "(string \<Rightarrow> string) \<Rightarrow> datetime \<Rightarrow> datetime \<Rightarrow> string \<Rightarrow> string \<Rightarrow> worker
     \<Rightarrow> worker_operational_credential \<Rightarrow> mem_store \<Rightarrow> (store_error, unit) result \<times> mem_store" where
  "enroll_worker digest now now' token used_by w c s =
     (case hm_get (ms_bootstrap_tokens s) (digest token) of
        None \<Rightarrow> (Inl token_not_found, s)
      | Some t \<Rightarrow>
          if \<not> is_usable now t then (Inl (token_refused t), s)
          else if list_ex (\<lambda>x. w_name x = w_name w) (hm_values (ms_workers s))
          then (Inl (Conflict (Msg ''worker name already exists: {}'' [ArgStr (w_name w)])), s)
          else if list_ex (\<lambda>x. woc_credential_digest x = woc_credential_digest c)
                 (hm_values (ms_operational_credentials s))
          then (Inl (Conflict (Msg ''credential digest already exists'' [])), s)
          else (Inr (), s\<lparr>
             ms_bootstrap_tokens := hm_adjust (digest token) (use_token now' used_by) (ms_bootstrap_tokens s),
             ms_workers := hm_insert (w_id w) w (ms_workers s),
             ms_operational_credentials :=
               hm_insert (woc_credential_digest c) c (ms_operational_credentials s)\<rparr>))"

section \<open>Model credentials of a worker\<close>

definition upsert_worker_credential ::
    "datetime \<Rightarrow> string \<Rightarrow> string \<Rightarrow> string \<Rightarrow> string \<Rightarrow> string \<Rightarrow> u32 \<Rightarrow> string option
     \<Rightarrow> mem_store \<Rightarrow> (store_error, unit) result \<times> mem_store" where
  "upsert_worker_credential now name model blob url backend window model_name s =
     (let key = (name, model);
          entry = (case hm_get (ms_credentials s) key of
            Some e \<Rightarrow> e
          | None \<Rightarrow> \<lparr> sc_worker_name = name, sc_model_id = model, sc_encrypted_blob = blob,
              sc_base_url = url, sc_api_backend = backend, sc_context_window = window,
              sc_model_name = model_name, sc_created_at = now, sc_rotated_at = now \<rparr>)
      in (Inr (), s\<lparr>ms_credentials := hm_insert key
           (entry\<lparr>sc_encrypted_blob := blob, sc_base_url := url, sc_api_backend := backend,
              sc_context_window := window, sc_model_name := model_name, sc_rotated_at := now\<rparr>)
           (ms_credentials s)\<rparr>))"

definition get_worker_credential ::
    "string \<Rightarrow> string \<Rightarrow> mem_store \<Rightarrow> (store_error, stored_credential option) result" where
  "get_worker_credential name model s = Inr (hm_get (ms_credentials s) (name, model))"

definition list_worker_credentials ::
    "string \<Rightarrow> mem_store \<Rightarrow> (store_error, stored_credential list) result" where
  "list_worker_credentials name s =
     Inr (map snd (filter (\<lambda>((w, _), _). w = name) (ms_credentials s)))"

definition delete_worker_credential ::
    "string \<Rightarrow> string \<Rightarrow> mem_store \<Rightarrow> (store_error, bool) result \<times> mem_store" where
  "delete_worker_credential name model s =
     (Inr (hm_contains (ms_credentials s) (name, model)),
      s\<lparr>ms_credentials := hm_remove (name, model) (ms_credentials s)\<rparr>)"

end
