(* ===== verification/Agent_Placement.thy ===== *)
theory Agent_Placement
  imports Agent_Store Worker_Store
begin

text \<open>
  What the agent table promises over undisturbed calls: while no worker's row changes, none carries more live agents than its
  process cap (\<open>Agent_Sections\<close> has the cap under registrations and interleaved sections), a
  command is delivered only by an acknowledgement of its own generation, a worker's report is the
  whole truth about its agents, a running agent is not moved, and a project is archived only
  when nothing of it is active.
\<close>

section \<open>A history of agent calls\<close>

text \<open>
  The control plane only ever stops an agent through \<open>update_agent_status\<close>; it never sets one
  back to ready.
\<close>

datatype agent_call =
    AcCreate agent
  | AcStop datetime datetime agent_id
  | AcAssign datetime datetime agent_id worker_id "control_fence option"
  | AcDesire datetime datetime agent_id agent_desired_status "control_fence option"
  | AcAck worker_id "agent_ack list"
  | AcObserve datetime worker_id "agent_observation list"
  | AcDeleteWorker worker_id
  | AcTask task_call

fun agent_exec :: "(duration \<Rightarrow> timedelta option) \<Rightarrow> agent_call \<Rightarrow> mem_store \<Rightarrow> mem_store" where
  "agent_exec conv (AcCreate a) s = snd (create_agent a s)"
| "agent_exec conv (AcStop now now' i) s = snd (update_agent_status now now' i AgStopped s)"
| "agent_exec conv (AcAssign now now' i w fence) s = snd (assign_agent_worker now now' i w fence s)"
| "agent_exec conv (AcDesire now now' i d fence) s = snd (set_agent_desired_status now now' i d fence s)"
| "agent_exec conv (AcAck w acks) s = snd (ack_agent_commands w acks s)"
| "agent_exec conv (AcObserve now w obs) s = snd (apply_agent_observations now w obs s)"
| "agent_exec conv (AcDeleteWorker w) s = snd (delete_worker w s)"
| "agent_exec conv (AcTask k) s = task_exec conv k s"

abbreviation agent_run :: "(duration \<Rightarrow> timedelta option) \<Rightarrow> agent_call list \<Rightarrow> mem_store \<Rightarrow> mem_store" where
  "agent_run conv ks s \<equiv> fold (agent_exec conv) ks s"

section \<open>Process caps\<close>

definition caps_respected :: "mem_store \<Rightarrow> bool" where
  "caps_respected s \<longleftrightarrow> keyed ag_id (ms_agents s) \<and>
     (\<forall>w wk cap. hm_get (ms_workers s) w = Some wk \<longrightarrow> w_max_agent_processes wk = Some cap \<longrightarrow>
        hm_count (occupies w) (ms_agents s) \<le> unat cap)"

lemma caps_respectedI:
  assumes "keyed ag_id (ms_agents s)"
    "\<And>w wk cap. hm_get (ms_workers s) w = Some wk \<Longrightarrow> w_max_agent_processes wk = Some cap \<Longrightarrow>
        hm_count (occupies w) (ms_agents s) \<le> unat cap"
  shows "caps_respected s"
  using assms by (auto simp: caps_respected_def)

lemma caps_respectedD:
  assumes "caps_respected s"
  shows "keyed ag_id (ms_agents s)"
    "hm_get (ms_workers s) w = Some wk \<Longrightarrow> w_max_agent_processes wk = Some cap \<Longrightarrow>
        hm_count (occupies w) (ms_agents s) \<le> unat cap"
  using assms by (auto simp: caps_respected_def)

text \<open>An operation that adds no occupant to any worker, and no worker.\<close>

lemma caps_respected_mono:
  assumes "caps_respected s" "keyed ag_id (ms_agents s')"
    "\<And>w. hm_get (ms_workers s') w = None \<or> hm_get (ms_workers s') w = hm_get (ms_workers s) w"
    "\<And>w. hm_count (occupies w) (ms_agents s') \<le> hm_count (occupies w) (ms_agents s)"
  shows "caps_respected s'"
proof (rule caps_respectedI[OF assms(2)])
  fix w wk cap
  assume w: "hm_get (ms_workers s') w = Some wk" "w_max_agent_processes wk = Some cap"
  then have "hm_get (ms_workers s) w = Some wk" using assms(3)[of w] by auto
  then have "hm_count (occupies w) (ms_agents s) \<le> unat cap"
    using caps_respectedD(2)[OF assms(1)] w(2) by blast
  then show "hm_count (occupies w) (ms_agents s') \<le> unat cap"
    using assms(4)[of w] by (rule order_trans[rotated])
qed

lemma agent_update_sels [simp]:
  "ag_id (set_status now now' st a) = ag_id a" "ag_worker_id (set_status now now' st a) = ag_worker_id a"
  "ag_status (set_status now now' st a) = st"
  "ag_id (place now now' w fence a) = ag_id a" "ag_worker_id (place now now' w fence a) = Some w"
  "ag_status (place now now' w fence a) = ag_status a"
  "ag_id (command now now' d fence a) = ag_id a" "ag_worker_id (command now now' d fence a) = ag_worker_id a"
  "ag_status (command now now' d fence a) = ag_status a"
  "ag_desired_status (command now now' d fence a) = d"
  "ag_id (ack_one v k a) = ag_id a" "ag_worker_id (ack_one v k a) = ag_worker_id a"
  "ag_status (ack_one v k a) = ag_status a"
  "ag_id (unobserve v obs a) = ag_id a" "ag_worker_id (unobserve v obs a) = ag_worker_id a"
  "ag_status (unobserve v obs a) = ag_status a"
  "ag_id (observe_one now v ob a) = ag_id a" "ag_worker_id (observe_one now v ob a) = ag_worker_id a"
  "ag_status (observe_one now v ob a) = ag_status a"
  "ag_id (clear_placement a) = ag_id a" "ag_worker_id (clear_placement a) = None"
  "ag_status (clear_placement a) = ag_status a"
  by (simp_all add: set_status_def place_def command_def ack_one_def unobserve_def observe_one_def
      clear_placement_def Let_def)

lemma ack_loop_keyed: "keyed ag_id m \<Longrightarrow> keyed ag_id (snd (ack_loop v acks n m))"
  by (induction v acks n m rule: ack_loop.induct) (auto simp: keyed_adjust split: option.split)

lemma ack_loop_count: "hm_count (occupies w) (snd (ack_loop v acks n m)) \<le> hm_count (occupies w) m"
proof (induction v acks n m rule: ack_loop.induct)
  case (2 v k ks n m)
  have "hm_count (occupies w) (hm_adjust (ack_agent_id k) (ack_one v k) m) \<le> hm_count (occupies w) m"
    by (rule hm_count_adjust_le) (simp add: occupies_def)
  then show ?case using 2 by (auto split: option.split intro: order_trans)
qed simp

lemma observe_loop_keyed: "keyed ag_id m \<Longrightarrow> keyed ag_id (snd (observe_loop now v obs n m))"
  by (induction now v obs n m rule: observe_loop.induct) (auto simp: keyed_adjust split: option.split)

lemma observe_loop_count:
  "hm_count (occupies w) (snd (observe_loop now v obs n m)) \<le> hm_count (occupies w) m"
proof (induction now v obs n m rule: observe_loop.induct)
  case (2 now v ob obs n m)
  have "hm_count (occupies w) (hm_adjust (obs_agent_id ob) (observe_one now v ob) m) \<le> hm_count (occupies w) m"
    by (rule hm_count_adjust_le) (simp add: occupies_def)
  then show ?case using 2 by (auto split: option.split intro: order_trans)
qed simp

lemma placed_worker_room:
  assumes "placed_worker a s = Some w"
  shows "ag_worker_id a = Some w"
    "hm_get (ms_workers s) w = Some wk \<Longrightarrow> w_max_agent_processes wk = Some cap \<Longrightarrow>
      hm_count (occupies w) (ms_agents s) < unat cap"
  using assms by (auto simp: placed_worker_def split: if_splits option.splits)

lemma caps_create:
  assumes "caps_respected s"
  shows "caps_respected (snd (create_agent a s))"
proof -
  let ?stored = "if placed_worker a s = None then without_placement a else a"
  have ins: "hm_count (occupies w) (hm_insert (ag_id a) ?stored (ms_agents s))
      \<le> hm_count (occupies w) (ms_agents s) + (if occupies w ?stored then 1 else 0)" for w
    by (rule hm_count_insert_le)
  have "caps_respected (s\<lparr>ms_agents := hm_insert (ag_id a) ?stored (ms_agents s)\<rparr>)"
  proof (rule caps_respectedI)
    show "keyed ag_id (ms_agents (s\<lparr>ms_agents := hm_insert (ag_id a) ?stored (ms_agents s)\<rparr>))"
      using caps_respectedD(1)[OF assms] by (simp add: keyed_insert)
    fix w wk cap
    assume w: "hm_get (ms_workers (s\<lparr>ms_agents := hm_insert (ag_id a) ?stored (ms_agents s)\<rparr>)) w = Some wk"
      "w_max_agent_processes wk = Some cap"
    have "occupies w ?stored \<Longrightarrow> hm_count (occupies w) (ms_agents s) < unat cap"
      using placed_worker_room[of a s] w
      by (cases "placed_worker a s") (auto simp: occupies_def)
    then show "hm_count (occupies w) (ms_agents (s\<lparr>ms_agents := hm_insert (ag_id a) ?stored (ms_agents s)\<rparr>))
        \<le> unat cap"
      using ins[of w] caps_respectedD(2)[OF assms, of w wk cap] w by (cases "occupies w ?stored") auto
  qed
  then show ?thesis using assms by (simp add: create_agent_def Let_def split: option.split)
qed

lemma assign_cases:
  assumes "assign_agent_worker now now' i w fence s = (r, s')"
  obtains (claimed) a wk where "r = Inr Claimed" "control_fence_holds s fence"
      "hm_get (ms_agents s) i = Some a" "hm_get (ms_workers s) w = Some wk"
      "\<And>cap. w_max_agent_processes wk = Some cap \<Longrightarrow>
         hm_count (\<lambda>x. occupies w x \<and> ag_id x \<noteq> i) (ms_agents s) < unat cap"
      "ag_observed_status a = Some ObRunning \<Longrightarrow> ag_worker_id a = Some w"
      "s' = s\<lparr>ms_agents := hm_adjust i (place now now' w fence) (ms_agents s)\<rparr>"
    | (refused) "r \<noteq> Inr Claimed" "s' = s"
proof (cases "\<exists>a wk. control_fence_holds s fence \<and> hm_get (ms_agents s) i = Some a \<and>
    hm_get (ms_workers s) w = Some wk \<and>
    \<not> (case w_max_agent_processes wk of None \<Rightarrow> False
       | Some cap \<Rightarrow> hm_count (\<lambda>x. occupies w x \<and> ag_id x \<noteq> i) (ms_agents s) \<ge> unat cap) \<and>
    \<not> (ag_observed_status a = Some ObRunning \<and> ag_worker_id a \<noteq> Some w)")
  case True
  then obtain a wk where h: "control_fence_holds s fence" "hm_get (ms_agents s) i = Some a"
    "hm_get (ms_workers s) w = Some wk"
    "\<not> (case w_max_agent_processes wk of None \<Rightarrow> False
       | Some cap \<Rightarrow> hm_count (\<lambda>x. occupies w x \<and> ag_id x \<noteq> i) (ms_agents s) \<ge> unat cap)"
    "\<not> (ag_observed_status a = Some ObRunning \<and> ag_worker_id a \<noteq> Some w)" by blast
  then have "assign_agent_worker now now' i w fence s =
      (Inr Claimed, s\<lparr>ms_agents := hm_adjust i (place now now' w fence) (ms_agents s)\<rparr>)"
    unfolding assign_agent_worker_def by (simp only: not_True_eq_False if_False option.case)
  then show thesis using assms h by (intro claimed[of a wk]) auto
next
  case False
  then have "r \<noteq> Inr Claimed" "s' = s"
    using assms by (auto simp: assign_agent_worker_def split: option.splits if_splits)
  then show thesis by (rule refused)
qed

lemma caps_assign:
  assumes "caps_respected s"
  shows "caps_respected (snd (assign_agent_worker now now' i w fence s))"
proof -
  obtain r s' where p: "assign_agent_worker now now' i w fence s = (r, s')" by fastforce
  note k = caps_respectedD(1)[OF assms]
  from p have "caps_respected s'"
  proof (cases rule: assign_cases)
    case (claimed a wk)
    show ?thesis
    proof (rule caps_respectedI)
      show "keyed ag_id (ms_agents s')" using k by (simp add: claimed(7) keyed_adjust)
      fix v vk cap
      assume v: "hm_get (ms_workers s') v = Some vk" "w_max_agent_processes vk = Some cap"
      show "hm_count (occupies v) (ms_agents s') \<le> unat cap"
      proof (cases "v = w")
        case True
        have "hm_count (occupies w) (hm_adjust i (place now now' w fence) (ms_agents s))
            \<le> hm_count (\<lambda>x. occupies w x \<and> ag_id x \<noteq> i) (ms_agents s) + 1"
          using k by (rule keyed_count_adjust) simp
        then show ?thesis using claimed(4,5) v True by (fastforce simp: claimed(7))
      next
        case False
        have "hm_count (occupies v) (hm_adjust i (place now now' w fence) (ms_agents s))
            \<le> hm_count (occupies v) (ms_agents s)"
          using False by (intro hm_count_adjust_le) (simp add: occupies_def)
        then show ?thesis using caps_respectedD(2)[OF assms, of v vk cap] v by (simp add: claimed(7))
      qed
    qed
  qed (use assms in simp)
  then show ?thesis by (simp add: p)
qed

lemma task_exec_agents [simp]: "ms_agents (task_exec conv k s) = ms_agents s"
  "ms_workers (task_exec conv k s) = ms_workers s"
  by (cases k; auto simp: insert_task_idempotent_def put_task_def transition_task_def
      compare_and_set_task_status_def increment_task_retry_count_def record_task_acp_session_def
      record_task_skill_snapshot_def update_task_checkpoint_def delete_task_unfold remove_task_def
      Let_def split: option.split)+

lemma agent_exec_workers:
  "(\<forall>w. k \<noteq> AcDeleteWorker w) \<Longrightarrow> ms_workers (agent_exec conv k s) = ms_workers s"
proof (cases k)
  case (AcCreate a)
  then show ?thesis by (simp add: create_agent_def Let_def split: option.split)
next
  case (AcAssign now now' i w fence)
  then show ?thesis by (simp add: assign_agent_worker_def split: option.split)
qed (simp_all add: update_agent_status_def set_agent_desired_status_def ack_agent_commands_def
    apply_agent_observations_def Let_def case_prod_beta split: option.split)

lemma agent_exec_caps:
  assumes "caps_respected s"
  shows "caps_respected (agent_exec conv k s)"
proof (cases k)
  case (AcCreate a)
  then show ?thesis using caps_create[OF assms] by simp
next
  case (AcStop now now' i)
  have "hm_count (occupies w) (hm_adjust i (set_status now now' AgStopped) (ms_agents s))
      \<le> hm_count (occupies w) (ms_agents s)" for w
    by (rule hm_count_adjust_le) (simp add: occupies_def)
  then have "caps_respected (s\<lparr>ms_agents := hm_adjust i (set_status now now' AgStopped) (ms_agents s)\<rparr>)"
    using caps_respectedD(1)[OF assms] by (intro caps_respected_mono[OF assms]) (simp_all add: keyed_adjust)
  then show ?thesis using assms by (simp add: AcStop update_agent_status_def split: option.split)
next
  case (AcAssign now now' i w fence)
  then show ?thesis using caps_assign[OF assms] by simp
next
  case (AcDesire now now' i d fence)
  have "hm_count (occupies w) (hm_adjust i (command now now' d fence) (ms_agents s))
      \<le> hm_count (occupies w) (ms_agents s)" for w
    by (rule hm_count_adjust_le) (simp add: occupies_def)
  then have "caps_respected (s\<lparr>ms_agents := hm_adjust i (command now now' d fence) (ms_agents s)\<rparr>)"
    using caps_respectedD(1)[OF assms] by (intro caps_respected_mono[OF assms]) (simp_all add: keyed_adjust)
  then show ?thesis using assms by (simp add: AcDesire set_agent_desired_status_def split: option.split)
next
  case (AcAck w acks)
  show ?thesis
    by (rule caps_respected_mono[OF assms])
      (simp_all add: AcAck ack_agent_commands_def case_prod_beta ack_loop_keyed[OF caps_respectedD(1)[OF assms]]
        ack_loop_count)
next
  case (AcObserve now w obs)
  let ?m = "hm_map_values (unobserve w obs) (ms_agents s)"
  have k: "keyed ag_id ?m" using caps_respectedD(1)[OF assms] by (rule keyed_map_values) simp
  have "hm_count (occupies v) ?m \<le> hm_count (occupies v) (ms_agents s)" for v
    by (rule hm_count_map_values_le) (simp add: occupies_def)
  then have "hm_count (occupies v) (snd (observe_loop now w obs n ?m)) \<le> hm_count (occupies v) (ms_agents s)" for v n
    using observe_loop_count order_trans by blast
  then show ?thesis
    by (intro caps_respected_mono[OF assms])
      (simp_all add: AcObserve apply_agent_observations_def case_prod_beta Let_def observe_loop_keyed[OF k])
next
  case (AcDeleteWorker w)
  have "hm_count (occupies v) (hm_map_values (\<lambda>a. if ag_worker_id a = Some w then clear_placement a else a) (ms_agents s))
      \<le> hm_count (occupies v) (ms_agents s)" for v
    by (rule hm_count_map_values_le) (auto simp: occupies_def split: if_splits)
  moreover have "keyed ag_id (hm_map_values (\<lambda>a. if ag_worker_id a = Some w then clear_placement a else a) (ms_agents s))"
    using caps_respectedD(1)[OF assms] by (rule keyed_map_values) simp
  ultimately have "hm_get (ms_workers s) w = Some v \<Longrightarrow> caps_respected (snd (delete_worker w s))" for v
    by (intro caps_respected_mono[OF assms]) (simp_all add: delete_worker_def)
  then show ?thesis using assms
    by (cases "hm_get (ms_workers s) w") (simp_all add: AcDeleteWorker delete_worker_def)
next
  case (AcTask k)
  then show ?thesis using assms by (simp add: caps_respected_def)
qed

lemma caps_run: "caps_respected s \<Longrightarrow> caps_respected (agent_run conv ks s)"
  by (induction ks arbitrary: s) (simp_all add: agent_exec_caps)

abbreviation plain_agent :: "uuid \<Rightarrow> string \<Rightarrow> agent" where
  "plain_agent n name \<equiv> new_agent (AgentId n) 0 (ProjectId 1) name"

abbreviation capped_worker :: "uuid \<Rightarrow> u32 \<Rightarrow> worker" where
  "capped_worker n cap \<equiv> (new_worker (WorkerId n) 0 0 ''w'' ''ws://h'')\<lparr>w_max_agent_processes := Some cap\<rparr>"

section \<open>Acknowledgements\<close>

lemma ack_loop_get:
  "hm_get (snd (ack_loop w acks n m)) i =
     map_option (fold (\<lambda>k a. if ack_agent_id k = i then ack_one w k a else a) acks) (hm_get m i)"
proof (induction w acks n m rule: ack_loop.induct)
  case (2 w k ks n m)
  show ?case
  proof (cases "hm_get m (ack_agent_id k)")
    case None
    then show ?thesis using 2(1) by (cases "hm_get m i") auto
  next
    case (Some a)
    then show ?thesis using 2(2) by (cases "hm_get m i") auto
  qed
qed (simp add: option.map_ident)

lemma ack_fold:
  "fold (\<lambda>k a. if ack_agent_id k = i then ack_one w k a else a) acks a =
     (if ag_worker_id a = Some w \<and> ag_last_acked_generation a < ag_command_generation a \<and>
         (\<exists>k \<in> set acks. ack_agent_id k = i \<and> ack_generation k = ag_command_generation a)
      then a\<lparr>ag_last_acked_generation := ag_command_generation a\<rparr> else a)"
proof (induction acks arbitrary: a)
  case (Cons k acks)
  let ?on = "ag_worker_id a = Some w \<and> ag_last_acked_generation a < ag_command_generation a"
  show ?case
  proof (cases "ack_agent_id k = i \<and> ack_applies w k a")
    case True
    then have on: ?on "ack_generation k = ag_command_generation a" by (auto simp: ack_applies_def)
    have "(if ack_agent_id k = i then ack_one w k a else a) = a\<lparr>ag_last_acked_generation := ag_command_generation a\<rparr>"
      using True on(2) by (simp add: ack_one_def)
    then show ?thesis using True on by (simp add: Cons.IH)
  next
    case False
    then have head: "(if ack_agent_id k = i then ack_one w k a else a) = a" by (simp add: ack_one_def)
    have "\<not> (?on \<and> ack_agent_id k = i \<and> ack_generation k = ag_command_generation a)"
      using False unfolding ack_applies_def by metis
    then show ?thesis by (simp add: Cons.IH head)
  qed
qed simp

text \<open>
  An acknowledgement counts exactly when it names the command in force: after a worker's
  batch of acknowledgements, an agent is marked delivered if it is placed on that worker, was
  undelivered, and the batch names its current generation; acknowledgements of older or later
  generations, or from a worker it is not placed on, change nothing of it.
\<close>

theorem ack_exact:
  "hm_get (ms_agents (snd (ack_agent_commands w acks s))) i =
     map_option (\<lambda>a. if ag_worker_id a = Some w \<and> ag_last_acked_generation a < ag_command_generation a \<and>
         (\<exists>k \<in> set acks. ack_agent_id k = i \<and> ack_generation k = ag_command_generation a)
      then a\<lparr>ag_last_acked_generation := ag_command_generation a\<rparr> else a) (hm_get (ms_agents s) i)"
  by (simp add: ack_agent_commands_def case_prod_beta ack_loop_get ack_fold cong: option.map_cong)

section \<open>Observations\<close>

lemma observe_loop_get:
  "hm_get (snd (observe_loop now w obs n m)) i =
     map_option (fold (\<lambda>ob a. if obs_agent_id ob = i then observe_one now w ob a else a) obs) (hm_get m i)"
proof (induction now w obs n m rule: observe_loop.induct)
  case (2 now w ob obs n m)
  show ?case
  proof (cases "hm_get m (obs_agent_id ob)")
    case None
    then show ?thesis using 2(1) by (cases "hm_get m i") auto
  next
    case (Some a)
    then show ?thesis using 2(2) by (cases "hm_get m i") auto
  qed
qed (simp add: option.map_ident)

definition last_about :: "agent_id \<Rightarrow> agent_observation list \<Rightarrow> agent_observation option" where
  "last_about i obs = List.find (\<lambda>ob. obs_agent_id ob = i) (rev obs)"

definition with_observation :: "datetime \<Rightarrow> agent_observation option \<Rightarrow> agent \<Rightarrow> agent" where
  "with_observation now ob a =
     (case ob of
        Some ob \<Rightarrow> a\<lparr>ag_observed_status := Some (obs_status ob), ag_observed_at := Some now,
                     ag_observed_reason := obs_reason ob\<rparr>
      | None \<Rightarrow> if ag_observed_status a = None then a
          else a\<lparr>ag_observed_status := None, ag_observed_at := None, ag_observed_reason := None\<rparr>)"

lemma observe_fold:
  "fold (\<lambda>ob a. if obs_agent_id ob = i then observe_one now w ob a else a) obs a =
     (if ag_worker_id a \<noteq> Some w then a
      else case last_about i obs of None \<Rightarrow> a | Some ob \<Rightarrow> with_observation now (Some ob) a)"
proof (induction obs rule: rev_induct)
  case Nil
  then show ?case by (simp add: last_about_def)
next
  case (snoc ob obs)
  then show ?case
    by (auto simp: last_about_def observe_one_def with_observation_def split: option.split)
qed

lemma last_about_None: "last_about i obs = None \<longleftrightarrow> i \<notin> set (map obs_agent_id obs)"
  by (auto simp: last_about_def find_None_iff)

lemma observed_get:
  assumes "keyed ag_id (ms_agents s)"
  shows "hm_get (ms_agents (snd (apply_agent_observations now w obs s))) i =
     map_option (\<lambda>a. if ag_worker_id a = Some w then with_observation now (last_about i obs) a else a)
       (hm_get (ms_agents s) i)"
proof (cases "hm_get (ms_agents s) i")
  case None
  then show ?thesis
    by (simp add: apply_agent_observations_def Let_def case_prod_beta observe_loop_get)
next
  case (Some a)
  have id: "ag_id a = i" by (rule keyed_get[OF assms Some])
  have get: "hm_get (ms_agents (snd (apply_agent_observations now w obs s))) i =
      Some (if ag_worker_id a \<noteq> Some w then unobserve w obs a
            else case last_about i obs of None \<Rightarrow> unobserve w obs a
              | Some ob \<Rightarrow> with_observation now (Some ob) (unobserve w obs a))"
    using Some by (simp add: apply_agent_observations_def Let_def case_prod_beta observe_loop_get observe_fold)
  then show ?thesis
  proof (cases "last_about i obs")
    case None
    then have "i \<notin> set (map obs_agent_id obs)" by (simp add: last_about_None)
    then have "unobserve w obs a = (if ag_worker_id a = Some w then with_observation now None a else a)"
      by (simp add: unobserve_def silent_def with_observation_def id)
    then show ?thesis using get Some None by simp
  next
    case (Some ob)
    then have "i \<in> set (map obs_agent_id obs)" using last_about_None by (metis option.distinct(1))
    then have "unobserve w obs a = a" using id by (simp add: unobserve_def silent_def)
    then show ?thesis using get Some \<open>hm_get (ms_agents s) i = Some a\<close> by simp
  qed
qed

text \<open>
  A worker's report is the whole truth about its agents: after the report, an agent placed
  on the worker carries what the last observation about it said, and no observation at all when
  the report does not mention it; agents placed elsewhere are untouched, whatever the report says
  of them.
\<close>

theorem observations_replace:
  assumes "keyed ag_id (ms_agents s)"
  shows "hm_get (ms_agents (snd (apply_agent_observations now w obs s))) i =
     map_option (\<lambda>a. if ag_worker_id a = Some w then with_observation now (last_about i obs) a else a)
       (hm_get (ms_agents s) i)"
  using assms by (rule observed_get)

lemma observations_replace_witness:
  "hm_get (ms_agents (snd (apply_agent_observations 9 (WorkerId 1) [ObservedRun (AgentId 1)]
      (empty_store\<lparr>ms_agents := [(AgentId 1, with_placement (WorkerId 1) 0 (plain_agent 1 ''a''))]\<rparr>)))) (AgentId 1)
   = Some (with_observation 9 (Some (ObservedRun (AgentId 1))) (with_placement (WorkerId 1) 0 (plain_agent 1 ''a'')))"
proof -
  let ?s = "empty_store\<lparr>ms_agents := [(AgentId 1, with_placement (WorkerId 1) 0 (plain_agent 1 ''a''))]\<rparr>"
  have "keyed ag_id (ms_agents ?s)"
    by (simp add: keyed_def hm_ok_def with_placement_def new_agent_def)
  from observations_replace[OF this, of 9 "WorkerId 1" "[ObservedRun (AgentId 1)]" "AgentId 1"]
  show ?thesis by (simp add: hm_get_def with_placement_def last_about_def)
qed

section \<open>Command generations\<close>

text \<open>
  \<open>commanded a a'\<close>: the same agent later. A change of what the worker should do (the desired
  state, or the worker itself) takes a new generation; only the removal of the worker unplaces an
  agent without one.
\<close>

definition commanded :: "agent \<Rightarrow> agent \<Rightarrow> bool" where
  "commanded a a' \<longleftrightarrow>
     ag_id a' = ag_id a \<and> ag_project_id a' = ag_project_id a \<and> ag_name a' = ag_name a \<and>
     ag_template_pin a' = ag_template_pin a \<and>
     ag_command_generation a \<le> ag_command_generation a' \<and>
     ag_last_acked_generation a \<le> ag_last_acked_generation a' \<and>
     ag_last_acked_generation a' \<le> ag_command_generation a' \<and>
     (ag_command_generation a' = ag_command_generation a \<longrightarrow>
        ag_desired_status a' = ag_desired_status a \<and>
        (ag_worker_id a' = ag_worker_id a \<or> ag_worker_id a' = None))"

lemma commanded_trans:
  assumes "commanded a b" "commanded b c" shows "commanded a c"
  using assms by (auto simp: commanded_def)

lemma commanded_steps:
  assumes "ag_last_acked_generation a \<le> ag_command_generation a" "ag_command_generation a < i64_max"
  shows "commanded a (set_status now now' AgStopped a)" "commanded a (place now now' w fence a)"
    "commanded a (command now now' d fence a)" "commanded a (clear_placement a)" "commanded a a"
    "commanded a (with_observation now ob a)"
    "commanded a (a\<lparr>ag_last_acked_generation := ag_command_generation a\<rparr>)"
    "ag_command_generation (set_status now now' AgStopped a) \<le> ag_command_generation a + 1"
    "ag_command_generation (place now now' w fence a) \<le> ag_command_generation a + 1"
    "ag_command_generation (command now now' d fence a) \<le> ag_command_generation a + 1"
    "ag_command_generation (clear_placement a) = ag_command_generation a"
    "ag_command_generation (with_observation now ob a) = ag_command_generation a"
  using assms
  by (auto simp: commanded_def set_status_def place_def command_def clear_placement_def
      with_observation_def Let_def i64_succ_less split: option.split)

lemma agent_exec_commanded:
  assumes "hm_get (ms_agents s) i = Some a" "keyed ag_id (ms_agents s)"
    "ag_last_acked_generation a \<le> ag_command_generation a" "ag_command_generation a < i64_max"
    "\<forall>x. k = AcCreate x \<longrightarrow> ag_id x \<noteq> i"
  shows "\<exists>a'. hm_get (ms_agents (agent_exec conv k s)) i = Some a' \<and> commanded a a' \<and>
    ag_command_generation a' \<le> ag_command_generation a + 1"
proof -
  note st = commanded_steps[OF assms(3,4)]
  show ?thesis
  proof (cases k)
    case (AcCreate x)
    then show ?thesis using assms(1,5) st(5)
      by (auto simp: create_agent_def Let_def split: option.split)
  next
    case (AcStop now now' j)
    then show ?thesis using assms(1) st(1,5,8) by (auto simp: update_agent_status_def split: option.split)
  next
    case (AcAssign now now' j w fence)
    obtain r s' where p: "assign_agent_worker now now' j w fence s = (r, s')" by fastforce
    from p have "\<exists>a'. hm_get (ms_agents s') i = Some a' \<and> commanded a a' \<and>
        ag_command_generation a' \<le> ag_command_generation a + 1"
    proof (cases rule: assign_cases)
      case (claimed b wk)
      then show ?thesis using assms(1) st(2,5,9) by auto
    next
      case refused
      then show ?thesis using assms(1) st(5) by auto
    qed
    then show ?thesis by (simp add: AcAssign p)
  next
    case (AcDesire now now' j d fence)
    then show ?thesis using assms(1) st(3,5,10) by (auto simp: set_agent_desired_status_def split: option.split)
  next
    case (AcAck w acks)
    then show ?thesis using assms(1) st(5,7) by (simp add: ack_exact)
  next
    case (AcObserve now w obs)
    then show ?thesis using assms(1) st(5,6,12) by (simp add: observed_get[OF assms(2)])
  next
    case (AcDeleteWorker w)
    then show ?thesis using assms(1) st(4,5,11) by (auto simp: delete_worker_def split: option.split)
  next
    case (AcTask c)
    then show ?thesis using assms(1) st(5) by simp
  qed
qed

lemma agent_exec_keyed:
  assumes "keyed ag_id (ms_agents s)"
  shows "keyed ag_id (ms_agents (agent_exec conv k s))"
proof (cases k)
  case (AcCreate x)
  then show ?thesis using assms
    by (auto simp: create_agent_def Let_def split: option.split intro!: keyed_insert)
next
  case (AcAssign now now' j w fence)
  obtain r s' where p: "assign_agent_worker now now' j w fence s = (r, s')" by fastforce
  from p have "keyed ag_id (ms_agents s')"
    by (cases rule: assign_cases) (use assms in \<open>simp_all add: keyed_adjust\<close>)
  then show ?thesis by (simp add: AcAssign p)
next
  case (AcAck w acks)
  then show ?thesis using assms by (simp add: ack_agent_commands_def case_prod_beta ack_loop_keyed)
next
  case (AcObserve now w obs)
  have "keyed ag_id (hm_map_values (unobserve w obs) (ms_agents s))"
    using assms by (rule keyed_map_values) simp
  then show ?thesis
    by (simp add: AcObserve apply_agent_observations_def case_prod_beta Let_def observe_loop_keyed)
qed (use assms in \<open>auto simp: update_agent_status_def set_agent_desired_status_def delete_worker_def
      keyed_adjust keyed_map_values split: option.split\<close>)

text \<open>
  C38. Commands and their acknowledgements stay in order: over any history of agent calls, an
  agent's command generation and its acknowledged generation never go back, the acknowledged one
  never passes the current one, and as long as the generation is the same the agent is asked for
  the same state on the same worker (or its worker was removed), so an acknowledged generation
  always means the command that was acknowledged. The bound keeps the 64-bit counter from wrapping.
\<close>

theorem command_generations_ordered:
  assumes "hm_get (ms_agents s) i = Some a" "keyed ag_id (ms_agents s)"
    "ag_last_acked_generation a \<le> ag_command_generation a"
    "ag_command_generation a + int (length ks) \<le> i64_max"
    "\<forall>x. AcCreate x \<in> set ks \<longrightarrow> ag_id x \<noteq> i"
  shows "\<exists>a'. hm_get (ms_agents (agent_run conv ks s)) i = Some a' \<and>
    ag_command_generation a \<le> ag_command_generation a' \<and>
    ag_last_acked_generation a \<le> ag_last_acked_generation a' \<and>
    ag_last_acked_generation a' \<le> ag_command_generation a' \<and>
    (ag_command_generation a' = ag_command_generation a \<longrightarrow>
       ag_desired_status a' = ag_desired_status a \<and>
       (ag_worker_id a' = ag_worker_id a \<or> ag_worker_id a' = None))"
proof -
  have "\<exists>a'. hm_get (ms_agents (agent_run conv ks s)) i = Some a' \<and> commanded a a'"
    using assms
  proof (induction ks arbitrary: s a)
    case Nil
    then show ?case by (auto simp: commanded_def)
  next
    case (Cons k ks)
    have bound: "ag_command_generation a < i64_max" using Cons.prems(4) by simp
    have fresh: "\<forall>x. k = AcCreate x \<longrightarrow> ag_id x \<noteq> i" "\<forall>x. AcCreate x \<in> set ks \<longrightarrow> ag_id x \<noteq> i"
      using Cons.prems(5) by auto
    obtain b where b: "hm_get (ms_agents (agent_exec conv k s)) i = Some b" "commanded a b"
      "ag_command_generation b \<le> ag_command_generation a + 1"
      using agent_exec_commanded[OF Cons.prems(1-3) bound fresh(1)] by blast
    have ok: "ag_last_acked_generation b \<le> ag_command_generation b" using b(2) by (simp add: commanded_def)
    have "ag_command_generation b + int (length ks) \<le> i64_max" using b(3) Cons.prems(4) by simp
    from Cons.IH[OF b(1) agent_exec_keyed[OF Cons.prems(2)] ok this fresh(2)]
    show ?case using commanded_trans[OF b(2)] by auto
  qed
  then show ?thesis by (auto simp: commanded_def)
qed

lemma command_generations_ordered_witness:
  "\<exists>a'. hm_get (ms_agents (agent_run ns_conv
      [AcAssign 5 5 (AgentId 1) (WorkerId 1) None, AcDesire 6 6 (AgentId 1) DRunning None,
       AcAck (WorkerId 1) [\<lparr> ack_agent_id = AgentId 1, ack_generation = 1 \<rparr>]]
      (empty_store\<lparr>ms_workers := [(WorkerId 1, capped_worker 1 1)],
         ms_agents := [(AgentId 1, plain_agent 1 ''a'')]\<rparr>))) (AgentId 1) = Some a' \<and>
    ag_last_acked_generation a' \<le> ag_command_generation a'"
proof -
  let ?s = "empty_store\<lparr>ms_workers := [(WorkerId 1, capped_worker 1 1)],
         ms_agents := [(AgentId 1, plain_agent 1 ''a'')]\<rparr>"
  have a: "hm_get (ms_agents ?s) (AgentId 1) = Some (plain_agent 1 ''a'')" by (simp add: hm_get_def)
  have k: "keyed ag_id (ms_agents ?s)" by (simp add: keyed_def hm_ok_def new_agent_def)
  show ?thesis
    using command_generations_ordered[OF a k, of "[AcAssign 5 5 (AgentId 1) (WorkerId 1) None,
        AcDesire 6 6 (AgentId 1) DRunning None,
        AcAck (WorkerId 1) [\<lparr> ack_agent_id = AgentId 1, ack_generation = 1 \<rparr>]]" ns_conv]
    by (auto simp: new_agent_def i64_max_def simp del: agent_exec.simps)
qed

text \<open>
  A running agent is not moved: when a slot claim moves an agent that was placed on another
  worker, the agent was not observed running there, the observation of the old worker is
  forgotten, and the new worker gets a fresh, undelivered command.
\<close>

theorem running_agent_not_moved:
  assumes "assign_agent_worker now now' i w fence s = (Inr Claimed, s')"
    "hm_get (ms_agents s) i = Some a" "ag_worker_id a \<noteq> Some w"
    "ag_last_acked_generation a \<le> ag_command_generation a" "ag_command_generation a < i64_max"
  shows "ag_observed_status a \<noteq> Some ObRunning \<and>
    (\<exists>a'. hm_get (ms_agents s') i = Some a' \<and> ag_worker_id a' = Some w \<and>
       ag_observed_status a' = None \<and> \<not> command_delivered a' \<and>
       ag_desired_status a' = ag_desired_status a \<and>
       ag_command_control_epoch a' = map_option cf_epoch fence)"
  using assms(1)
proof (cases rule: assign_cases)
  case (claimed b wk)
  then show ?thesis using assms(2-5)
    by (auto simp: place_def Let_def command_delivered_def i64_succ_less)
qed simp

lemma running_agent_not_moved_witness:
  "\<exists>s'. assign_agent_worker 5 5 (AgentId 1) (WorkerId 1) None
      (empty_store\<lparr>ms_workers := [(WorkerId 1, capped_worker 1 1)],
         ms_agents := [(AgentId 1, plain_agent 1 ''a'')]\<rparr>) = (Inr Claimed, s') \<and>
    ag_observed_status (plain_agent 1 ''a'') \<noteq> Some ObRunning"
proof -
  let ?s = "empty_store\<lparr>ms_workers := [(WorkerId 1, capped_worker 1 1)],
         ms_agents := [(AgentId 1, plain_agent 1 ''a'')]\<rparr>"
  have a: "hm_get (ms_agents ?s) (AgentId 1) = Some (plain_agent 1 ''a'')" by (simp add: hm_get_def)
  obtain s' where s': "assign_agent_worker 5 5 (AgentId 1) (WorkerId 1) None ?s = (Inr Claimed, s')"
    by (simp add: assign_agent_worker_def hm_get_def hm_count_def hm_values_def occupies_def new_agent_def)
  from running_agent_not_moved[OF this a] this show ?thesis by (simp add: new_agent_def i64_max_def)
qed

section \<open>The archive gate\<close>

lemma blocks_iff: "blocks_project_archive st \<longleftrightarrow> st \<noteq> AgStopped"
  by (cases st) (simp_all add: blocks_project_archive_def)

text \<open>
  A project is archived only when it has drained: when the archive succeeds, the caller's
  fence was current, the project was draining, none of its tasks was pending or dispatched and all
  its agents were stopped; only its own row changes. When it does not succeed, nothing changes.
\<close>

theorem archive_only_when_drained:
  assumes "archive_project_if_drained now i fence s = (r, s')"
  shows "if r = Inr True
    then control_fence_holds s fence \<and>
      map_option pr_status (hm_get (ms_projects s) i) = Some PrDraining \<and>
      map_option pr_status (hm_get (ms_projects s') i) = Some PrArchived \<and>
      project_has_active_tasks i s = Inr False \<and> project_has_live_agents i s = Inr False \<and>
      ms_tasks s' = ms_tasks s \<and> ms_agents s' = ms_agents s \<and>
      (\<forall>j. j \<noteq> i \<longrightarrow> hm_get (ms_projects s') j = hm_get (ms_projects s) j)
    else s' = s"
  using assms
  by (auto simp: archive_project_if_drained_def project_has_active_tasks_def
      project_has_live_agents_def blocks_iff split: if_splits option.splits)

lemma archive_only_when_drained_witness:
  "\<exists>s'. archive_project_if_drained 3 (ProjectId 1) None
      (empty_store\<lparr>ms_projects := [(ProjectId 1, (new_project (ProjectId 1) 0 ''p'')\<lparr>pr_status := PrDraining\<rparr>)]\<rparr>)
      = (Inr True, s') \<and> map_option pr_status (hm_get (ms_projects s') (ProjectId 1)) = Some PrArchived"
proof -
  let ?s = "empty_store\<lparr>ms_projects := [(ProjectId 1, (new_project (ProjectId 1) 0 ''p'')\<lparr>pr_status := PrDraining\<rparr>)]\<rparr>"
  obtain s' where s': "archive_project_if_drained 3 (ProjectId 1) None ?s = (Inr True, s')"
    by (simp add: archive_project_if_drained_def hm_get_def hm_values_def empty_store_def)
  from archive_only_when_drained[OF this] this show ?thesis by auto
qed

section \<open>Fencing\<close>

definition slot_refused :: "(store_error, slot_claim) result \<Rightarrow> bool" where
  "slot_refused r = (r = Inr SlotFenced)"

definition issue_refused :: "(store_error, command_issue) result \<Rightarrow> bool" where
  "issue_refused r = (r = Inr CmdFenced)"

interpretation assign_fenced: fenced_write "\<lambda>fence. assign_agent_worker now now' i w fence" slot_refused
  for now now' i w
proof
  fix fence s
  obtain r s' where p: "assign_agent_worker now now' i w fence s = (r, s')" by fastforce
  from p have "ms_control_leases s' = ms_control_leases s"
    by (cases rule: assign_cases) simp_all
  then show "ms_control_leases (snd (assign_agent_worker now now' i w fence s)) = ms_control_leases s"
    by (simp add: p)
qed (simp_all add: assign_agent_worker_def slot_refused_def)

interpretation command_fenced: fenced_write "\<lambda>fence. set_agent_desired_status now now' i d fence" issue_refused
  for now now' i d
  by unfold_locales (auto simp: set_agent_desired_status_def issue_refused_def split: option.split)

interpretation project_fenced: fenced_write "\<lambda>fence. update_project_status now i status fence" write_refused
  for now i status
  by unfold_locales (auto simp: update_project_status_def write_refused_def split: option.split)

interpretation archive_fenced: fenced_write "\<lambda>fence. archive_project_if_drained now i fence" write_refused
  for now i
  by unfold_locales (auto simp: archive_project_if_drained_def write_refused_def split: option.split)

end
