(* ===== verification/Worker_Enrollment.thy ===== *)
theory Worker_Enrollment
  imports Worker_Store
begin

text \<open>
  What the worker tables promise: a bootstrap token admits at most as many workers as it was
  issued for, an enrollment happens entirely or not at all, a removed worker leaves no credential
  and no placement behind, and a worker's incarnation only moves when its restart is recorded.
\<close>

section \<open>A history of worker calls\<close>

datatype worker_call =
    WcUpsert worker
  | WcBump datetime worker_id
  | WcActivity datetime worker_id
  | WcHeartbeat datetime worker_id worker_heartbeat
  | WcDelete worker_id
  | WcCreateToken bootstrap_token
  | WcConsume datetime datetime string string
  | WcRevokeToken string
  | WcEnroll datetime datetime string string worker worker_operational_credential
  | WcRotate datetime worker_id string "datetime option"
  | WcRevokeCredential datetime worker_id

fun worker_exec :: "(string \<Rightarrow> string) \<Rightarrow> worker_call \<Rightarrow> mem_store \<Rightarrow> bool \<times> mem_store" where
  "worker_exec dg (WcUpsert w) s = apfst is_ok (upsert_worker w s)"
| "worker_exec dg (WcBump now i) s = apfst is_ok (bump_worker_incarnation now i s)"
| "worker_exec dg (WcActivity now i) s = apfst is_ok (record_worker_activity now i s)"
| "worker_exec dg (WcHeartbeat now i hb) s = apfst is_ok (update_worker_heartbeat now i hb s)"
| "worker_exec dg (WcDelete i) s = apfst is_ok (delete_worker i s)"
| "worker_exec dg (WcCreateToken t) s = apfst is_ok (create_bootstrap_token t s)"
| "worker_exec dg (WcConsume now now' tok who) s = apfst is_ok (consume_bootstrap_token dg now now' tok who s)"
| "worker_exec dg (WcRevokeToken d) s = apfst is_ok (revoke_bootstrap_token d s)"
| "worker_exec dg (WcEnroll now now' tok who w c) s = apfst is_ok (enroll_worker dg now now' tok who w c s)"
| "worker_exec dg (WcRotate now i d e) s = apfst is_ok (rotate_worker_operational_credential now i d e s)"
| "worker_exec dg (WcRevokeCredential now i) s = apfst is_ok (revoke_worker_operational_credential now i s)"

abbreviation worker_run :: "(string \<Rightarrow> string) \<Rightarrow> worker_call list \<Rightarrow> mem_store \<Rightarrow> mem_store" where
  "worker_run dg ks s \<equiv> fold (\<lambda>k. snd \<circ> worker_exec dg k) ks s"

section \<open>Tokens\<close>

lemma is_usable_remaining: "is_usable now t \<Longrightarrow> 0 < unat (remaining_uses t)"
  by (auto simp: is_usable_def remaining_uses_def unat_gt_0 split: if_splits)

lemma remaining_use_token:
  "is_usable now t \<Longrightarrow> Suc (unat (remaining_uses (use_token now' who t))) = unat (remaining_uses t)"
proof -
  assume "is_usable now t"
  then have lt: "bt_use_count t < bt_max_uses t" by (auto simp: is_usable_def split: if_splits)
  then have le: "bt_use_count t + 1 \<le> bt_max_uses t" by (simp add: inc_le)
  have "unat (bt_use_count t + 1) = unat (bt_use_count t) + 1"
    using lt by unat_arith
  then show ?thesis
    using lt le by (simp add: remaining_uses_def use_token_def unat_sub word_less_nat_alt order_less_imp_le)
qed


definition remaining :: "string \<Rightarrow> mem_store \<Rightarrow> nat" where
  "remaining d s = (case hm_get (ms_bootstrap_tokens s) d of Some t \<Rightarrow> unat (remaining_uses t) | None \<Rightarrow> 0)"

fun presents :: "(string \<Rightarrow> string) \<Rightarrow> string \<Rightarrow> worker_call \<Rightarrow> bool" where
  "presents dg d (WcConsume now now' tok who) = (dg tok = d)"
| "presents dg d (WcEnroll now now' tok who w c) = (dg tok = d)"
| "presents dg d _ = False"

text \<open>How many workers a history admits with the token of digest \<open>d\<close>.\<close>

fun admissions :: "(string \<Rightarrow> string) \<Rightarrow> string \<Rightarrow> worker_call list \<Rightarrow> mem_store \<Rightarrow> nat" where
  "admissions dg d [] s = 0"
| "admissions dg d (k # ks) s =
     (if presents dg d k \<and> fst (worker_exec dg k s) then 1 else 0)
     + admissions dg d ks (snd (worker_exec dg k s))"

lemma remaining_consume:
  assumes "consume_bootstrap_token dg now now' tok who s = (r, s')"
  shows "(if dg tok = d \<and> is_ok r then 1 else 0) + remaining d s' \<le> remaining d s"
  using assms remaining_use_token
  by (force simp: consume_bootstrap_token_def remaining_def split: option.splits if_splits)

lemma remaining_enroll:
  assumes "enroll_worker dg now now' tok who w c s = (r, s')"
  shows "(if dg tok = d \<and> is_ok r then 1 else 0) + remaining d s' \<le> remaining d s"
  using assms remaining_use_token
  by (force simp: enroll_worker_def remaining_def split: option.splits if_splits)

lemma remaining_exec:
  assumes "\<forall>t. k = WcCreateToken t \<longrightarrow> bt_token_digest t \<noteq> d"
  shows "(if presents dg d k \<and> fst (worker_exec dg k s) then 1 else 0) + remaining d (snd (worker_exec dg k s))
     \<le> remaining d s"
proof (cases k)
  case (WcConsume now now' tok who)
  then show ?thesis
    using remaining_consume[of dg now now' tok who s _ _ d]
    by (cases "consume_bootstrap_token dg now now' tok who s") simp
next
  case (WcEnroll now now' tok who w c)
  then show ?thesis
    using remaining_enroll[of dg now now' tok who w c s _ _ d]
    by (cases "enroll_worker dg now now' tok who w c s") simp
qed (use assms in \<open>auto simp: remaining_def upsert_worker_def bump_worker_incarnation_def
      record_worker_activity_def update_worker_heartbeat_def delete_worker_def
      create_bootstrap_token_def revoke_bootstrap_token_def rotate_worker_operational_credential_def
      revoke_worker_operational_credential_def Let_def split: option.splits prod.splits\<close>)

text \<open>
  C25. A bootstrap token admits at most as many workers as it has uses left: over any history
  of registrations, enrollments, consumptions and revocations (in which no new token is created
  under the same digest), the admissions with a token never exceed its remaining uses, and none
  happen with an unknown token.
\<close>

theorem token_admissions_bounded:
  assumes "\<forall>t. WcCreateToken t \<in> set ks \<longrightarrow> bt_token_digest t \<noteq> d"
  shows "admissions dg d ks s + remaining d (worker_run dg ks s) \<le> remaining d s"
  using assms
proof (induction ks arbitrary: s)
  case (Cons k ks)
  have "(if presents dg d k \<and> fst (worker_exec dg k s) then 1 else 0)
      + remaining d (snd (worker_exec dg k s)) \<le> remaining d s"
    using Cons.prems by (intro remaining_exec) auto
  then show ?case using Cons.IH[of "snd (worker_exec dg k s)"] Cons.prems by simp
qed simp

abbreviation single_use_token :: bootstrap_token where
  "single_use_token \<equiv> \<lparr> bt_token_digest = ''d'', bt_created_at = 0, bt_created_by = None,
     bt_expires_at = None, bt_max_uses = 1, bt_use_count = 0, bt_notes = None,
     bt_last_used_by = None, bt_last_used_at = None \<rparr>"

lemma token_admissions_bounded_witness:
  "admissions (\<lambda>_. ''d'') ''d'' [WcConsume 1 1 ''t'' ''a'', WcConsume 2 2 ''t'' ''b'']
      (empty_store\<lparr>ms_bootstrap_tokens := [(''d'', single_use_token)]\<rparr>) \<le> 1"
proof -
  let ?s = "empty_store\<lparr>ms_bootstrap_tokens := [(''d'', single_use_token)]\<rparr>"
  have "remaining ''d'' ?s = 1" by (simp add: remaining_def hm_get_def remaining_uses_def)
  then show ?thesis
    using token_admissions_bounded[of "[WcConsume 1 1 ''t'' ''a'', WcConsume 2 2 ''t'' ''b'']"
        "''d''" "\<lambda>_. ''d''" ?s] by simp
qed

section \<open>Enrollment\<close>

text \<open>
  Enrollment is all or nothing. When it succeeds, the token was usable and has one use
  less, no worker had the name before, the worker and its credential are stored and every other
  worker is as before; when it fails, the store is unchanged.
\<close>

theorem enrollment_all_or_nothing:
  assumes "enroll_worker dg now now' tok who w c s = (r, s')"
  shows "case r of
      Inl e \<Rightarrow> s' = s
    | Inr _ \<Rightarrow> (\<exists>t. hm_get (ms_bootstrap_tokens s) (dg tok) = Some t \<and> is_usable now t \<and>
          hm_get (ms_bootstrap_tokens s') (dg tok) = Some (use_token now' who t)) \<and>
        remaining (dg tok) s = Suc (remaining (dg tok) s') \<and>
        \<not> list_ex (\<lambda>x. w_name x = w_name w) (hm_values (ms_workers s)) \<and>
        hm_get (ms_workers s') (w_id w) = Some w \<and>
        (\<forall>i. i \<noteq> w_id w \<longrightarrow> hm_get (ms_workers s') i = hm_get (ms_workers s) i) \<and>
        hm_get (ms_operational_credentials s') (woc_credential_digest c) = Some c"
  using assms remaining_use_token[of now]
  by (auto simp: enroll_worker_def remaining_def split: option.splits if_splits)

abbreviation plain_worker :: "uuid \<Rightarrow> string \<Rightarrow> worker" where
  "plain_worker n name \<equiv> new_worker (WorkerId n) 0 0 name ''ws://h''"

abbreviation plain_credential :: "uuid \<Rightarrow> string \<Rightarrow> worker_operational_credential" where
  "plain_credential n d \<equiv> \<lparr> woc_worker_id = WorkerId n, woc_credential_digest = d, woc_issued_at = 0,
     woc_expires_at = None, woc_revoked_at = None, woc_rotation_generation = 1 \<rparr>"

lemma enrollment_all_or_nothing_witness:
  "\<exists>s'. enroll_worker (\<lambda>_. ''d'') 1 1 ''t'' ''a'' (plain_worker 1 ''w'') (plain_credential 1 ''c'')
      (empty_store\<lparr>ms_bootstrap_tokens := [(''d'', single_use_token)]\<rparr>) = (Inr (), s') \<and>
    hm_get (ms_workers s') (WorkerId 1) = Some (plain_worker 1 ''w'')"
proof -
  let ?s = "empty_store\<lparr>ms_bootstrap_tokens := [(''d'', single_use_token)]\<rparr>"
  obtain s' where e: "enroll_worker (\<lambda>_. ''d'') 1 1 ''t'' ''a'' (plain_worker 1 ''w'')
      (plain_credential 1 ''c'') ?s = (Inr (), s')"
    by (simp add: enroll_worker_def hm_get_def is_usable_def empty_store_def hm_values_def)
  from enrollment_all_or_nothing[OF this] e show ?thesis by (simp add: new_worker_def)
qed

section \<open>Removal\<close>

text \<open>
  Removing a worker leaves nothing of it: its row is gone, no operational credential
  is left for it, no model credential under its name, and no agent is placed on it; the agents
  that were keep everything but their placement and observation, and the other agents, workers
  and credentials are untouched.
\<close>

theorem delete_worker_leaves_nothing:
  assumes "tables_ok s" "delete_worker i s = (Inr (), s')" "hm_get (ms_workers s) i = Some w"
  shows "hm_get (ms_workers s') i = None \<and>
    (\<forall>j. j \<noteq> i \<longrightarrow> hm_get (ms_workers s') j = hm_get (ms_workers s) j) \<and>
    (\<forall>d c. hm_get (ms_operational_credentials s') d = Some c \<longleftrightarrow>
       hm_get (ms_operational_credentials s) d = Some c \<and> woc_worker_id c \<noteq> i) \<and>
    (\<forall>m. hm_get (ms_credentials s') (w_name w, m) = None) \<and>
    (\<forall>n m. n \<noteq> w_name w \<longrightarrow> hm_get (ms_credentials s') (n, m) = hm_get (ms_credentials s) (n, m)) \<and>
    (\<forall>j a. hm_get (ms_agents s) j = Some a \<longrightarrow> hm_get (ms_agents s') j =
       Some (if ag_worker_id a = Some i then clear_placement a else a)) \<and>
    (\<forall>j a. hm_get (ms_agents s') j = Some a \<longrightarrow> ag_worker_id a \<noteq> Some i)"
proof -
  have ok: "hm_ok (ms_operational_credentials s)" "hm_ok (ms_credentials s)"
    using assms(1) by (auto simp: tables_ok_def)
  have s': "s' = s\<lparr>ms_workers := hm_remove i (ms_workers s),
      ms_operational_credentials := hm_retain (\<lambda>_ c. woc_worker_id c \<noteq> i) (ms_operational_credentials s),
      ms_credentials := hm_retain (\<lambda>(name, _) _. name \<noteq> w_name w) (ms_credentials s),
      ms_agents := hm_map_values (\<lambda>a. if ag_worker_id a = Some i then clear_placement a else a) (ms_agents s)\<rparr>"
    using assms(2,3) by (simp add: delete_worker_def)
  have creds: "hm_get (ms_operational_credentials s') d = Some c \<longleftrightarrow>
       hm_get (ms_operational_credentials s) d = Some c \<and> woc_worker_id c \<noteq> i" for d c
    by (auto simp: s' hm_get_retain[OF ok(1)] split: option.split)
  have models: "hm_get (ms_credentials s') (n, m) =
      (if n = w_name w then None else hm_get (ms_credentials s) (n, m))" for n m
    by (auto simp: s' hm_get_retain[OF ok(2)] split: option.split)
  have agents: "hm_get (ms_agents s') j =
      map_option (\<lambda>a. if ag_worker_id a = Some i then clear_placement a else a) (hm_get (ms_agents s) j)" for j
    by (simp add: s')
  have unplaced: "ag_worker_id a \<noteq> Some i" if row: "hm_get (ms_agents s') j = Some a" for j a
  proof -
    obtain b where "a = (if ag_worker_id b = Some i then clear_placement b else b)"
      using row by (auto simp: agents)
    then show ?thesis by (simp add: clear_placement_def)
  qed
  have rows: "hm_get (ms_workers s') j = (if j = i then None else hm_get (ms_workers s) j)" for j
    by (simp add: s')
  show ?thesis
  proof (intro conjI allI impI)
    fix j a assume "hm_get (ms_agents s') j = Some a"
    then show "ag_worker_id a \<noteq> Some i" by (rule unplaced)
  qed (simp_all add: rows creds models agents)
qed

lemma delete_worker_leaves_nothing_witness:
  "\<exists>s'. delete_worker (WorkerId 1) (empty_store\<lparr>ms_workers := [(WorkerId 1, plain_worker 1 ''w'')],
      ms_operational_credentials := [(''c'', plain_credential 1 ''c'')]\<rparr>) = (Inr (), s') \<and>
    hm_get (ms_workers s') (WorkerId 1) = None"
proof -
  let ?s = "empty_store\<lparr>ms_workers := [(WorkerId 1, plain_worker 1 ''w'')],
      ms_operational_credentials := [(''c'', plain_credential 1 ''c'')]\<rparr>"
  have ok: "tables_ok ?s"
    by (simp add: tables_ok_def empty_store_def keyed_def hm_ok_def new_worker_def)
  have w: "hm_get (ms_workers ?s) (WorkerId 1) = Some (plain_worker 1 ''w'')" by (simp add: hm_get_def)
  obtain s' where e: "delete_worker (WorkerId 1) ?s = (Inr (), s')" using w by (simp add: delete_worker_def)
  from delete_worker_leaves_nothing[OF ok this w] e show ?thesis by blast
qed

section \<open>Incarnations\<close>

text \<open>Everything a history keeps of a registered worker unless its restart is recorded.\<close>

definition same_registration :: "worker \<Rightarrow> worker \<Rightarrow> bool" where
  "same_registration w w' \<longleftrightarrow> w_id w' = w_id w \<and> w_registered_at w' = w_registered_at w \<and>
     w_incarnation_started_at w' = w_incarnation_started_at w"

text \<open>The calls that neither record a restart of worker \<open>i\<close> nor remove or re-create it.\<close>

fun keeps_registration :: "worker_id \<Rightarrow> worker_call \<Rightarrow> bool" where
  "keeps_registration i (WcBump now j) = (j \<noteq> i)"
| "keeps_registration i (WcDelete j) = (j \<noteq> i)"
| "keeps_registration i (WcEnroll now now' tok who w c) = (w_id w \<noteq> i)"
| "keeps_registration i _ = True"

lemma worker_exec_registration:
  assumes "hm_get (ms_workers s) i = Some w" "w_id w = i" "keeps_registration i k"
  shows "\<exists>w'. hm_get (ms_workers (snd (worker_exec dg k s))) i = Some w' \<and> same_registration w w'"
  using assms
  by (cases k)
    (auto simp: same_registration_def upsert_worker_def bump_worker_incarnation_def
      record_worker_activity_def update_worker_heartbeat_def delete_worker_def
      create_bootstrap_token_def revoke_bootstrap_token_def rotate_worker_operational_credential_def
      revoke_worker_operational_credential_def consume_bootstrap_token_def enroll_worker_def Let_def
      split: option.splits prod.splits)

text \<open>
  The incarnation of a worker changes only when its restart is recorded: over any history
  of re-registrations, heartbeats, activity records and credential changes that neither bumps nor
  removes the worker, its registration time and incarnation start stay what they were, whatever
  values the registrations carried.
\<close>

theorem incarnation_only_bumped:
  assumes "hm_get (ms_workers s) i = Some w" "w_id w = i" "list_all (keeps_registration i) ks"
  shows "\<exists>w'. hm_get (ms_workers (worker_run dg ks s)) i = Some w' \<and>
    w_registered_at w' = w_registered_at w \<and> w_incarnation_started_at w' = w_incarnation_started_at w"
  using assms
proof (induction ks arbitrary: s w)
  case (Cons k ks)
  obtain w1 where w1: "hm_get (ms_workers (snd (worker_exec dg k s))) i = Some w1" "same_registration w w1"
    using worker_exec_registration[OF Cons.prems(1,2), of k dg] Cons.prems(3) by auto
  have "w_id w1 = i" "list_all (keeps_registration i) ks"
    using w1(2) Cons.prems by (simp_all add: same_registration_def)
  from Cons.IH[OF w1(1) this] show ?case using w1(2) by (simp add: same_registration_def)
qed simp

lemma incarnation_only_bumped_witness:
  "\<exists>w'. hm_get (ms_workers (worker_run (\<lambda>_. ''d'') [WcUpsert (new_worker (WorkerId 1) 9 9 ''w'' ''x'')]
        (empty_store\<lparr>ms_workers := [(WorkerId 1, plain_worker 1 ''w'')]\<rparr>))) (WorkerId 1) = Some w' \<and>
    w_registered_at w' = w_registered_at (plain_worker 1 ''w'') \<and>
    w_incarnation_started_at w' = w_incarnation_started_at (plain_worker 1 ''w'')"
  by (rule incarnation_only_bumped) (simp_all add: hm_get_def new_worker_def)

section \<open>The SQL statements\<close>

text \<open>
  Consuming a token: away from the instant at which it expires, the in-memory and the SQL
  consumption accept the same tokens and leave the same store; at that very instant the in-memory
  store accepts a token the database refuses.
\<close>

theorem consume_agrees_but_at_expiry:
  assumes "tables_ok s" "hm_get (ms_bootstrap_tokens s) (dg tok) = Some t"
  shows "(if bt_expires_at t = Some now \<and> bt_use_count t < bt_max_uses t then
      is_ok (fst (consume_bootstrap_token dg now now tok who s)) \<and>
      \<not> is_ok (fst (pg_consume_bootstrap_token dg now tok who s))
    else
      is_ok (fst (pg_consume_bootstrap_token dg now tok who s)) =
        is_ok (fst (consume_bootstrap_token dg now now tok who s)) \<and>
      snd (pg_consume_bootstrap_token dg now tok who s) =
        snd (consume_bootstrap_token dg now now tok who s))"
proof -
  note k = tables_okD(6)[OF assms(1)]
  let ?Q = "\<lambda>t. bt_use_count t < bt_max_uses t \<and>
      (case bt_expires_at t of None \<Rightarrow> True | Some e \<Rightarrow> e > now)"
  have hit: "list_ex (\<lambda>t. bt_token_digest t = dg tok \<and> ?Q t) (hm_values (ms_bootstrap_tokens s)) = ?Q t"
    using keyed_values_iff[OF k] assms(2) keyed_get[OF k assms(2)] hm_get_values[OF assms(2)]
    by (auto simp: list_ex_iff)
  show ?thesis
    unfolding pg_consume_bootstrap_token_def Let_def hit keyed_update_key[OF k]
    using assms(2)
    by (auto simp: consume_bootstrap_token_def is_usable_def split: option.splits)
qed

lemma consume_agrees_but_at_expiry_witness:
  "is_ok (fst (consume_bootstrap_token (\<lambda>_. ''d'') 5 5 ''t'' ''a''
      (empty_store\<lparr>ms_bootstrap_tokens := [(''d'', single_use_token\<lparr>bt_expires_at := Some 5\<rparr>)]\<rparr>))) \<and>
   \<not> is_ok (fst (pg_consume_bootstrap_token (\<lambda>_. ''d'') 5 ''t'' ''a''
      (empty_store\<lparr>ms_bootstrap_tokens := [(''d'', single_use_token\<lparr>bt_expires_at := Some 5\<rparr>)]\<rparr>)))"
proof -
  let ?s = "empty_store\<lparr>ms_bootstrap_tokens := [(''d'', single_use_token\<lparr>bt_expires_at := Some 5\<rparr>)]\<rparr>"
  have ok: "tables_ok ?s" by (simp add: tables_ok_def empty_store_def keyed_def hm_ok_def)
  have t: "hm_get (ms_bootstrap_tokens ?s) ((\<lambda>_. ''d'') ''t'') =
      Some (single_use_token\<lparr>bt_expires_at := Some 5\<rparr>)" by (simp add: hm_get_def)
  show ?thesis
    using consume_agrees_but_at_expiry[where dg = "\<lambda>_. ''d''" and tok = "''t''" and now = 5 and who = "''a''",
        OF ok t] by simp
qed

lemma revoke_first_changes_one:
  "\<exists>k. \<forall>d. d \<noteq> k \<longrightarrow> hm_get (snd (revoke_first now w m)) d = hm_get m d"
proof (induction m)
  case (Cons p m)
  obtain d c where p: "p = (d, c)" by (cases p)
  show ?case
  proof (cases "woc_worker_id c = w \<and> woc_revoked_at c = None")
    case True
    then show ?thesis by (intro exI[of _ d]) (simp add: p hm_get_def)
  next
    case False
    obtain k where "\<forall>e. e \<noteq> k \<longrightarrow> hm_get (snd (revoke_first now w m)) e = hm_get m e"
      using Cons.IH by blast
    then show ?thesis using False by (intro exI[of _ k]) (auto simp: p hm_get_def)
  qed
qed simp

definition has_active :: "datetime \<Rightarrow> worker_id \<Rightarrow> mem_store \<Rightarrow> bool" where
  "has_active now w s = list_ex (\<lambda>c. woc_worker_id c = w \<and> credential_active now c)
     (hm_values (ms_operational_credentials s))"

lemma pg_revoke_no_active: "\<not> has_active now w (snd (pg_revoke_worker_operational_credential now' w s))"
proof -
  let ?f = "\<lambda>c. if woc_worker_id c = w \<and> woc_revoked_at c = None
     then c\<lparr>woc_revoked_at := Some now'\<rparr> else c"
  have f: "\<not> (woc_worker_id (?f c) = w \<and> credential_active now (?f c))" for c
    by (simp add: credential_active_def)
  have "hm_values (hm_map_values ?f m) = map ?f (hm_values m)" for m :: "(string, worker_operational_credential) hmap"
    by (simp add: hm_values_def hm_map_values_def case_prod_beta)
  then have rows: "hm_values (ms_operational_credentials (snd (pg_revoke_worker_operational_credential now' w s)))
      = map ?f (hm_values (ms_operational_credentials s))"
    by (simp add: pg_revoke_worker_operational_credential_def)
  show ?thesis unfolding has_active_def rows list_ex_iff set_map bex_simps using f by blast
qed

text \<open>
  Re-issuing a credential: the SQL table holds one credential per worker and a revocation
  leaves none of them active. The in-memory table files credentials by digest, so a second
  issue keeps the first, and a revocation changes only one of the two: a credential that still
  authenticates the worker remains.
\<close>

theorem revoked_worker_stays_authenticated:
  fixes s :: mem_store
  assumes "woc_worker_id c1 = w" "woc_worker_id c2 = w"
    "woc_credential_digest c1 \<noteq> woc_credential_digest c2"
    "credential_active now c1" "credential_active now c2"
  defines "s1 \<equiv> snd (upsert_worker_operational_credential c2 (snd (upsert_worker_operational_credential c1 s)))"
    and "p1 \<equiv> snd (pg_upsert_worker_operational_credential c2 (snd (pg_upsert_worker_operational_credential c1 s)))"
  shows "has_active now w (snd (revoke_worker_operational_credential now' w s1)) \<and>
    \<not> has_active now w (snd (pg_revoke_worker_operational_credential now' w p1))"
proof -
  let ?m = "ms_operational_credentials s1"
  have m: "ms_operational_credentials (snd (revoke_worker_operational_credential now' w s1)) =
      snd (revoke_first now' w ?m)"
    by (simp add: revoke_worker_operational_credential_def case_prod_beta)
  have get: "hm_get ?m (woc_credential_digest c1) = Some c1" "hm_get ?m (woc_credential_digest c2) = Some c2"
    using assms(3) by (simp_all add: s1_def upsert_worker_operational_credential_def)
  obtain k where k: "\<And>d. d \<noteq> k \<Longrightarrow> hm_get (snd (revoke_first now' w ?m)) d = hm_get ?m d"
    using revoke_first_changes_one by metis
  obtain c where "c \<in> {c1, c2}" "hm_get (snd (revoke_first now' w ?m)) (woc_credential_digest c) = Some c"
    using k[of "woc_credential_digest c1"] k[of "woc_credential_digest c2"] get assms(3)
    by (cases "woc_credential_digest c1 = k") auto
  then have "c \<in> {c1, c2}" "c \<in> set (hm_values (snd (revoke_first now' w ?m)))"
    by (auto dest: hm_get_values)
  then have "has_active now w (snd (revoke_worker_operational_credential now' w s1))"
    using assms(1,2,4,5) by (auto simp: has_active_def m list_ex_iff)
  then show ?thesis by (simp add: pg_revoke_no_active)
qed

lemma revoked_worker_stays_authenticated_witness:
  "has_active 5 (WorkerId 1) (snd (revoke_worker_operational_credential 6 (WorkerId 1)
      (snd (upsert_worker_operational_credential (plain_credential 1 ''b'')
        (snd (upsert_worker_operational_credential (plain_credential 1 ''a'') empty_store))))))"
  by (rule revoked_worker_stays_authenticated[where ?c1.0 = "plain_credential 1 ''a''"
        and ?c2.0 = "plain_credential 1 ''b''" and w = "WorkerId 1" and now = 5 and now' = 6
        and s = empty_store, THEN conjunct1])
    (simp_all add: credential_active_def)

end
