(* ===== verification/Store_History.thy ===== *)
theory Store_History
  imports Agent_Placement Worker_Enrollment Task_Queries
begin

text \<open>
  Histories of the whole store: any interleaving of the calls that orchestrator instances, workers
  and operators make on tasks, agents, workers, projects and the lease. The result is about the
  instance that has lost its lease.
\<close>

datatype store_call =
    ScAgent agent_call
  | ScWorker worker_call
  | ScProject datetime project_id project_status "control_fence option"
  | ScArchive datetime project_id "control_fence option"

fun store_exec ::
    "(duration \<Rightarrow> timedelta option) \<Rightarrow> (string \<Rightarrow> string) \<Rightarrow> store_call \<Rightarrow> mem_store \<Rightarrow> mem_store" where
  "store_exec conv dg (ScAgent k) s = agent_exec conv k s"
| "store_exec conv dg (ScWorker k) s = snd (worker_exec dg k s)"
| "store_exec conv dg (ScProject now i st fence) s = snd (update_project_status now i st fence s)"
| "store_exec conv dg (ScArchive now i fence) s = snd (archive_project_if_drained now i fence s)"

abbreviation store_run ::
    "(duration \<Rightarrow> timedelta option) \<Rightarrow> (string \<Rightarrow> string) \<Rightarrow> store_call list \<Rightarrow> mem_store \<Rightarrow> mem_store" where
  "store_run conv dg ks s \<equiv> fold (store_exec conv dg) ks s"

section \<open>The epoch over a history\<close>

lemma worker_exec_leases: "ms_control_leases (snd (worker_exec dg k s)) = ms_control_leases s"
  by (cases k)
    (auto simp: upsert_worker_def bump_worker_incarnation_def record_worker_activity_def
      update_worker_heartbeat_def delete_worker_def create_bootstrap_token_def
      revoke_bootstrap_token_def rotate_worker_operational_credential_def
      revoke_worker_operational_credential_def consume_bootstrap_token_def enroll_worker_def Let_def
      split: option.splits prod.splits)

lemma agent_exec_leases:
  "\<forall>c. k \<noteq> AcTask c \<Longrightarrow> ms_control_leases (agent_exec conv k s) = ms_control_leases s"
proof (cases k)
  case (AcCreate a)
  then show ?thesis by (simp add: create_agent_def Let_def split: option.split)
qed (simp_all add: assign_fenced.leases_kept command_fenced.leases_kept update_agent_status_def
    ack_agent_commands_def apply_agent_observations_def delete_worker_def Let_def case_prod_beta
    split: option.split)

lemma lease_call_epoch:
  "lease_epoch (snd (mem_lease_call conv k s)) c \<in> {lease_epoch s c, Some (epoch_next (lease_epoch s c))}"
  using mem_lease.epoch_step[of conv k s c] by (simp flip: lease_epoch_row)

lemma store_exec_epoch:
  "lease_epoch (store_exec conv dg k s) c \<in> {lease_epoch s c, Some (epoch_next (lease_epoch s c))}"
proof (cases k)
  case (ScAgent a)
  show ?thesis
  proof (cases "\<exists>t l. a = AcTask t \<and> t = TcLease l")
    case True
    then obtain l where "a = AcTask (TcLease l)" by blast
    then show ?thesis using lease_call_epoch[of conv l s c] by (simp add: ScAgent)
  next
    case False
    then have "ms_control_leases (agent_exec conv a s) = ms_control_leases s"
      by (cases a) (simp_all add: agent_exec_leases task_exec_leases del: agent_exec.simps(1-7))
    then show ?thesis by (simp add: ScAgent lease_epoch_def del: agent_exec.simps)
  qed
qed (simp_all add: lease_epoch_def worker_exec_leases project_fenced.leases_kept archive_fenced.leases_kept)

lemma store_run_epoch:
  assumes "lease_epoch s c = Some e" "e + int (length ks) \<le> i64_max"
  shows "\<exists>e'. lease_epoch (store_run conv dg ks s) c = Some e' \<and> e \<le> e'"
  using assms
proof (induction ks arbitrary: s e)
  case (Cons k ks)
  have "e < i64_max" using Cons.prems(2) by simp
  then obtain d where d: "lease_epoch (store_exec conv dg k s) c = Some d" "e \<le> d" "d \<le> e + 1"
    using store_exec_epoch[of conv dg k s c] Cons.prems(1) by (auto simp: epoch_next_def i64_succ_less)
  have "d + int (length ks) \<le> i64_max" using d(3) Cons.prems(2) by simp
  from Cons.IH[OF d(1) this] show ?case using d(2) by auto
qed simp

section \<open>An instance that lost its lease\<close>

text \<open>
  C1. Fencing: once another instance has been granted the lease under a later epoch, nothing the
  earlier holder writes under its fence has any effect, at any later point of any history:
  task transitions are answered \<open>Fenced\<close>, session and skill records, project transitions and
  archives \<open>false\<close>, slot claims and commands \<open>Fenced\<close>, and the store stays as it is. The bound
  keeps the 64-bit epoch from wrapping.
\<close>

theorem superseded_epoch_is_powerless:
  assumes granted: "acquire_control_lease conv now0 (cf_cluster_id f) inst ttl ver s0 = (Inr l, s1)"
    and older: "cf_epoch f < cl_epoch l"
    and bound: "cl_epoch l + int (length ks) \<le> i64_max"
    and s: "s = store_run conv dg ks s1"
  shows "compare_and_set_task_status now i expected new origin (Some f) s = (Inr Fenced, s) \<and>
    record_task_acp_session i session (Some f) s = (Inr False, s) \<and>
    record_task_skill_snapshot i snapshot (Some f) s = (Inr False, s) \<and>
    assign_agent_worker now now' a w (Some f) s = (Inr SlotFenced, s) \<and>
    set_agent_desired_status now now' a d (Some f) s = (Inr CmdFenced, s) \<and>
    update_project_status now p st (Some f) s = (Inr False, s) \<and>
    archive_project_if_drained now p (Some f) s = (Inr False, s)"
proof -
  have "lease_epoch s1 (cf_cluster_id f) = Some (cl_epoch l)"
    using mem_granted[OF granted] by (simp add: lease_epoch_row)
  then obtain e where "lease_epoch s (cf_cluster_id f) = Some e" "cl_epoch l \<le> e"
    using store_run_epoch bound s by blast
  then have stale: "\<not> control_fence_holds s (Some f)" using older by simp
  note refused = cas_fenced.stale_refused[OF stale] session_fenced.stale_refused[OF stale]
    snapshot_fenced.stale_refused[OF stale] assign_fenced.stale_refused[OF stale]
    command_fenced.stale_refused[OF stale] project_fenced.stale_refused[OF stale]
    archive_fenced.stale_refused[OF stale]
  note noop = cas_fenced.stale_noop[OF stale] session_fenced.stale_noop[OF stale]
    snapshot_fenced.stale_noop[OF stale] assign_fenced.stale_noop[OF stale]
    command_fenced.stale_noop[OF stale] project_fenced.stale_noop[OF stale]
    archive_fenced.stale_noop[OF stale]
  show ?thesis
    using refused noop
    by (simp add: prod_eq_iff cas_refused_def write_refused_def slot_refused_def issue_refused_def)
qed

lemma superseded_epoch_is_powerless_witness:
  "let s1 = snd (acquire_control_lease ns_conv 0 ''c'' ''a'' 10 None empty_store);
       s2 = snd (acquire_control_lease ns_conv 20 ''c'' ''b'' 10 None s1)
   in compare_and_set_task_status 30 (TaskId 1) [PhPending] (Dispatched (WorkerId 1) 30) ControlDecision
        (Some \<lparr>cf_cluster_id = ''c'', cf_epoch = 1\<rparr>) (store_run ns_conv (\<lambda>_. ''d'')
          [ScWorker (WcRevokeToken ''d''), ScAgent (AcTask (TcInsert (plain_task 1)))] s2)
      = (Inr Fenced, store_run ns_conv (\<lambda>_. ''d'')
          [ScWorker (WcRevokeToken ''d''), ScAgent (AcTask (TcInsert (plain_task 1)))] s2)"
proof -
  let ?f = "\<lparr>cf_cluster_id = ''c'', cf_epoch = 1\<rparr>"
  let ?s1 = "snd (acquire_control_lease ns_conv 0 ''c'' ''a'' 10 None empty_store)"
  let ?l = "\<lparr> cl_cluster_id = ''c'', cl_active_instance_id = ''b'', cl_epoch = 2,
       cl_acquired_at = 20, cl_expires_at = 30, cl_last_renewed_at = 20, cl_binary_version = None \<rparr>"
  have g: "acquire_control_lease ns_conv 20 (cf_cluster_id ?f) ''b'' 10 None ?s1 =
      (Inr ?l, snd (acquire_control_lease ns_conv 20 ''c'' ''b'' 10 None ?s1))"
    by (simp add: acquire_control_lease_def empty_store_def conv_or_def Let_def i64_succ_def i64_max_def)
  have b: "cl_epoch ?l + int (length [ScWorker (WcRevokeToken ''d''), ScAgent (AcTask (TcInsert (plain_task 1)))])
      \<le> i64_max" by (simp add: i64_max_def)
  show ?thesis unfolding Let_def
    by (rule superseded_epoch_is_powerless[OF g _ b refl, THEN conjunct1]) simp
qed

end
