(* ===== verification/Task_Sections.thy ===== *)
theory Task_Sections
  imports Task_Lifecycle
begin

text \<open>
  The task calls of the in-memory store at the granularity of their locks. A call that takes several locks in turn
  is several atomic sections, between which other callers act: the fence is read under the lock of the leases before the task
  table is locked (\<open>mem.rs\<close> documents this), and a deletion looks for dependents, removes the row, its output, the
  references of its children and its issue links under five locks. \<open>.._amid others\<close> is a call with \<open>others n\<close> in its \<open>n\<close>-th
  gap; the definitions of \<open>Task_Store\<close> are the calls that nothing disturbs.
\<close>

section \<open>Calls with gaps\<close>

text \<open>The part of the compare-and-set under the lock of the tasks.\<close>

definition cas_locked ::
    "datetime \<Rightarrow> task_id \<Rightarrow> task_phase list \<Rightarrow> task_status \<Rightarrow> transition_origin \<Rightarrow> control_fence option
     \<Rightarrow> mem_store \<Rightarrow> (store_error, transition_outcome) result \<times> mem_store" where
  "cas_locked now i expected new origin fence s =
     (case hm_get (ms_tasks s) i of
        None \<Rightarrow> (Inl NotFound, s)
      | Some t \<Rightarrow>
          (case stale_dispatch fence origin t of
             Some ep \<Rightarrow> (Inr (StaleDispatchEpoch ep), s)
           | None \<Rightarrow>
               let current = phase (t_status t)
               in if current \<notin> set expected then (Inr (Rejected current), s)
                  else (Inr Applied,
                        s\<lparr>ms_tasks := hm_adjust i (apply_transition now new fence) (ms_tasks s)\<rparr>)))"

definition compare_and_set_task_status_amid ::
    "(mem_store \<Rightarrow> mem_store) \<Rightarrow> datetime \<Rightarrow> task_id \<Rightarrow> task_phase list \<Rightarrow> task_status \<Rightarrow> transition_origin \<Rightarrow> control_fence option
     \<Rightarrow> mem_store \<Rightarrow> (store_error, transition_outcome) result \<times> mem_store" where
  "compare_and_set_task_status_amid others now i expected new origin fence s =
     (if \<not> control_fence_holds s fence then (Inr Fenced, s)
      else cas_locked now i expected new origin fence (others s))"

definition session_locked :: "task_id \<Rightarrow> string \<Rightarrow> mem_store \<Rightarrow> (store_error, bool) result \<times> mem_store" where
  "session_locked i session s = record_task_acp_session i session None s"

definition snapshot_locked :: "task_id \<Rightarrow> skill_snapshot_entry list \<Rightarrow> mem_store \<Rightarrow> (store_error, bool) result \<times> mem_store" where
  "snapshot_locked i snapshot s = record_task_skill_snapshot i snapshot None s"

definition record_task_acp_session_amid ::
    "(mem_store \<Rightarrow> mem_store) \<Rightarrow> task_id \<Rightarrow> string \<Rightarrow> control_fence option \<Rightarrow> mem_store
     \<Rightarrow> (store_error, bool) result \<times> mem_store" where
  "record_task_acp_session_amid others i session fence s =
     (if \<not> control_fence_holds s fence then (Inr False, s) else session_locked i session (others s))"

definition record_task_skill_snapshot_amid ::
    "(mem_store \<Rightarrow> mem_store) \<Rightarrow> task_id \<Rightarrow> skill_snapshot_entry list \<Rightarrow> control_fence option \<Rightarrow> mem_store
     \<Rightarrow> (store_error, bool) result \<times> mem_store" where
  "record_task_skill_snapshot_amid others i snapshot fence s =
     (if \<not> control_fence_holds s fence then (Inr False, s) else snapshot_locked i snapshot (others s))"

text \<open>The sections of a deletion.\<close>

definition pending_dependents :: "task_id \<Rightarrow> mem_store \<Rightarrow> task_id list" where
  "pending_dependents i s = map t_id (filter
     (\<lambda>t. phase (t_status t) = PhPending \<and> i \<in> set (t_dependency_ids t)) (hm_values (ms_tasks s)))"

definition remove_row :: "task_id \<Rightarrow> mem_store \<Rightarrow> (store_error, task_delete_outcome) result \<times> mem_store" where
  "remove_row i s =
     (case hm_get (ms_tasks s) i of
        None \<Rightarrow> (Inl NotFound, s)
      | Some t \<Rightarrow>
          let current = phase (t_status t)
          in if \<not> phase_is_terminal current then (Inr (NotTerminal current), s)
             else (Inr Deleted, s\<lparr>ms_tasks := hm_remove i (ms_tasks s)\<rparr>))"

definition drop_output :: "task_id \<Rightarrow> mem_store \<Rightarrow> mem_store" where
  "drop_output i s = s\<lparr>ms_outputs := hm_remove i (ms_outputs s)\<rparr>"

definition forget_parent :: "task_id \<Rightarrow> mem_store \<Rightarrow> mem_store" where
  "forget_parent i s = s\<lparr>ms_tasks := hm_map_values
     (\<lambda>t. if t_parent_task_id t = Some i then t\<lparr>t_parent_task_id := None\<rparr> else t) (ms_tasks s)\<rparr>"

definition unlink_issues :: "task_id \<Rightarrow> mem_store \<Rightarrow> mem_store" where
  "unlink_issues i s = s\<lparr>ms_issue_task_links := map
     (\<lambda>l. if il_task_id l = Some i then l\<lparr>il_task_id := None\<rparr> else l) (ms_issue_task_links s)\<rparr>"

definition delete_task_amid ::
    "(nat \<Rightarrow> mem_store \<Rightarrow> mem_store) \<Rightarrow> task_id \<Rightarrow> mem_store \<Rightarrow> (store_error, task_delete_outcome) result \<times> mem_store" where
  "delete_task_amid others i s =
     (let dependent_ids = pending_dependents i s
      in if dependent_ids \<noteq> [] then (Inr (BlockedByDependents dependent_ids), s)
         else case remove_row i (others 0 s) of
           (Inr Deleted, s) \<Rightarrow>
             (Inr Deleted, unlink_issues i (others 3 (forget_parent i (others 2 (drop_output i (others 1 s))))))
         | r \<Rightarrow> r)"

text \<open>Undisturbed, these are the calls of \<open>Task_Store\<close>.\<close>

lemma amid_alone:
  "compare_and_set_task_status_amid (\<lambda>s. s) = compare_and_set_task_status"
  "record_task_acp_session_amid (\<lambda>s. s) = record_task_acp_session"
  "record_task_skill_snapshot_amid (\<lambda>s. s) = record_task_skill_snapshot"
  "delete_task_amid (\<lambda>_ s. s) = delete_task"
proof -
  show "compare_and_set_task_status_amid (\<lambda>s. s) = compare_and_set_task_status"
    by (auto simp: compare_and_set_task_status_amid_def compare_and_set_task_status_def cas_locked_def fun_eq_iff)
  show "record_task_acp_session_amid (\<lambda>s. s) = record_task_acp_session"
    by (auto simp: record_task_acp_session_amid_def session_locked_def record_task_acp_session_def fun_eq_iff)
  show "record_task_skill_snapshot_amid (\<lambda>s. s) = record_task_skill_snapshot"
    by (auto simp: record_task_skill_snapshot_amid_def snapshot_locked_def record_task_skill_snapshot_def fun_eq_iff)
  have "remove_task i s = unlink_issues i (forget_parent i (drop_output i (s\<lparr>ms_tasks := hm_remove i (ms_tasks s)\<rparr>)))" for i s
    by (simp add: remove_task_def unlink_issues_def forget_parent_def drop_output_def Let_def)
  then show "delete_task_amid (\<lambda>_ s. s) = delete_task"
    by (auto simp: delete_task_amid_def delete_task_def remove_row_def pending_dependents_def Let_def fun_eq_iff
        split: option.split)
qed

section \<open>Histories of sections\<close>

text \<open>
  Any interleaving of calls is a list of sections. A write whose fence had been found current carries the fence
  along: whether it is still current when the table is locked is open.
\<close>

datatype task_section =
    SxInsert task
  | SxTransition datetime task_id "task_phase list" task_status transition_origin "control_fence option"
  | SxRetry task_id
  | SxSession task_id string
  | SxSnapshot task_id "skill_snapshot_entry list"
  | SxCheckpoint task_id "string option"
  | SxRemove task_id
  | SxDropOutput task_id
  | SxForgetParent task_id
  | SxUnlink task_id
  | SxLease lease_call

fun section_exec :: "(duration \<Rightarrow> timedelta option) \<Rightarrow> task_section \<Rightarrow> mem_store \<Rightarrow> mem_store" where
  "section_exec conv (SxInsert t) s = snd (insert_task_idempotent t s)"
| "section_exec conv (SxTransition now i expected new origin fence) s = snd (cas_locked now i expected new origin fence s)"
| "section_exec conv (SxRetry i) s = snd (increment_task_retry_count i s)"
| "section_exec conv (SxSession i session) s = snd (session_locked i session s)"
| "section_exec conv (SxSnapshot i snapshot) s = snd (snapshot_locked i snapshot s)"
| "section_exec conv (SxCheckpoint i branch) s = snd (update_task_checkpoint i branch s)"
| "section_exec conv (SxRemove i) s = snd (remove_row i s)"
| "section_exec conv (SxDropOutput i) s = drop_output i s"
| "section_exec conv (SxForgetParent i) s = forget_parent i s"
| "section_exec conv (SxUnlink i) s = unlink_issues i s"
| "section_exec conv (SxLease k) s = snd (mem_lease_call conv k s)"

abbreviation section_run :: "(duration \<Rightarrow> timedelta option) \<Rightarrow> task_section list \<Rightarrow> mem_store \<Rightarrow> mem_store" where
  "section_run conv xs s \<equiv> fold (section_exec conv) xs s"

text \<open>The sections of an undisturbed call.\<close>

fun sections_of :: "task_call \<Rightarrow> mem_store \<Rightarrow> task_section list" where
  "sections_of (TcInsert t) s = [SxInsert t]"
| "sections_of (TcTransition now i new origin fence) s =
     (if control_fence_holds s fence then [SxTransition now i (allowed_predecessors (phase new)) new origin fence] else [])"
| "sections_of (TcRetry i) s = [SxRetry i]"
| "sections_of (TcSession i session fence) s = (if control_fence_holds s fence then [SxSession i session] else [])"
| "sections_of (TcSnapshot i snapshot fence) s = (if control_fence_holds s fence then [SxSnapshot i snapshot] else [])"
| "sections_of (TcCheckpoint i branch) s = [SxCheckpoint i branch]"
| "sections_of (TcDelete i) s =
     (if pending_dependents i s \<noteq> [] \<or> fst (remove_row i s) \<noteq> Inr Deleted then []
      else [SxRemove i, SxDropOutput i, SxForgetParent i, SxUnlink i])"
| "sections_of (TcLease k) s = [SxLease k]"

lemma remove_row_kept: "fst (remove_row i s) \<noteq> Inr Deleted \<Longrightarrow> snd (remove_row i s) = s"
  by (auto simp: remove_row_def Let_def split: option.splits)

lemma delete_sections:
  "snd (delete_task i s) = section_run conv (sections_of (TcDelete i) s) s"
proof (cases "pending_dependents i s = []")
  case True
  show ?thesis
  proof (cases "remove_row i s")
    case (Pair r s')
    then show ?thesis using True remove_row_kept[of i s]
      by (cases "r = Inr Deleted")
        (auto simp: amid_alone(4)[symmetric] delete_task_amid_def split: sum.splits task_delete_outcome.splits)
  qed
qed (simp add: amid_alone(4)[symmetric] delete_task_amid_def)

lemma call_sections: "task_exec conv k s = section_run conv (sections_of k s) s"
proof (cases k)
  case (TcTransition now i new origin fence)
  then show ?thesis by (simp add: transition_task_def amid_alone(1)[symmetric] compare_and_set_task_status_amid_def)
next
  case (TcSession i session fence)
  then show ?thesis by (simp add: amid_alone(2)[symmetric] record_task_acp_session_amid_def)
next
  case (TcSnapshot i snapshot fence)
  then show ?thesis by (simp add: amid_alone(3)[symmetric] record_task_skill_snapshot_amid_def)
next
  case (TcDelete i)
  then show ?thesis by (simp only: task_exec.simps delete_sections)
qed simp_all

section \<open>The lifecycle of a task\<close>

text \<open>Callers expect allowed predecessors only: all of them, or fewer.\<close>

fun expects_allowed :: "task_section \<Rightarrow> bool" where
  "expects_allowed (SxTransition now i expected new origin fence) = (set expected \<subseteq> set (allowed_predecessors (phase new)))"
| "expects_allowed _ = True"

text \<open>The step from \<open>a\<close> to \<open>b\<close> by the section \<open>x\<close>: the status moves only by a transition section, along an edge of the machine.\<close>

definition moved_by :: "task_section \<Rightarrow> task_id \<Rightarrow> task \<Rightarrow> task \<Rightarrow> bool" where
  "moved_by x i a b \<longleftrightarrow> (\<exists>now expected origin fence. x = SxTransition now i expected (t_status b) origin fence) \<and>
     (phase (t_status a), phase (t_status b)) \<in> {(PhPending, PhDispatched), (PhPending, PhFailed), (PhPending, PhCancelled),
       (PhDispatched, PhCompleted), (PhDispatched, PhFailed), (PhDispatched, PhCancelled)}"

lemma cas_locked_get:
  assumes "hm_get (ms_tasks s) i = Some t" "set expected \<subseteq> set (allowed_predecessors (phase new))"
  shows "\<exists>t'. hm_get (ms_tasks (snd (cas_locked now j expected new origin fence s))) i = Some t' \<and> evolves t t' \<and>
    (t_status t' \<noteq> t_status t \<longrightarrow> moved_by (SxTransition now j expected new origin fence) i t t')"
proof (cases "fst (cas_locked now j expected new origin fence s) = Inr Applied")
  case True
  then obtain w where w: "hm_get (ms_tasks s) j = Some w" "phase (t_status w) \<in> set expected"
    "snd (cas_locked now j expected new origin fence s) =
       s\<lparr>ms_tasks := hm_adjust j (apply_transition now new fence) (ms_tasks s)\<rparr>"
    by (auto simp: cas_locked_def Let_def split: option.splits if_splits)
  have "transition_allowed (phase (t_status w)) (phase new)" using w(2) assms(2) predecessors_allowed by blast
  then show ?thesis using assms(1) w(1) unfolding w(3)
    by (cases "i = j") (auto simp: evolves_apply moved_by_def transition_allowed_def hm_get_adjust)
next
  case False
  then have "snd (cas_locked now j expected new origin fence s) = s"
    by (auto simp: cas_locked_def Let_def split: option.splits if_splits)
  then show ?thesis using assms(1) by simp
qed

lemma section_evolves:
  assumes "hm_get (ms_tasks s) i = Some t" "expects_allowed x"
  shows "(\<exists>t'. hm_get (ms_tasks (section_exec conv x s)) i = Some t' \<and> evolves t t' \<and>
      (t_status t' \<noteq> t_status t \<longrightarrow> moved_by x i t t')) \<or>
    hm_get (ms_tasks (section_exec conv x s)) i = None \<and> x = SxRemove i \<and> is_terminal t"
proof (cases x)
  case (SxInsert u)
  then show ?thesis using insert_idempotent_get[OF assms(1)] by auto
next
  case (SxTransition now j expected new origin fence)
  then show ?thesis using cas_locked_get[OF assms(1), of expected new now j origin fence] assms(2) by auto
next
  case (SxRetry j)
  then show ?thesis using assms
    by (auto simp: increment_task_retry_count_def evolves_same_status hm_get_adjust split: option.split)
next
  case (SxSession j session)
  then show ?thesis using assms
    by (auto simp: session_locked_def record_task_acp_session_def evolves_same_status hm_get_adjust split: option.split)
next
  case (SxSnapshot j snapshot)
  then show ?thesis using assms
    by (auto simp: snapshot_locked_def record_task_skill_snapshot_def evolves_same_status hm_get_adjust split: option.split)
next
  case (SxCheckpoint j branch)
  then show ?thesis using assms
    by (auto simp: update_task_checkpoint_def evolves_same_status hm_get_adjust split: option.split)
next
  case (SxRemove j)
  then show ?thesis using assms
    by (cases "j = i") (auto simp: remove_row_def Let_def is_terminal_phase split: option.split)
next
  case (SxDropOutput j)
  then show ?thesis using assms by (auto simp: drop_output_def)
next
  case (SxForgetParent j)
  then show ?thesis using assms by (auto simp: forget_parent_def intro: evolves_same_status)
next
  case (SxUnlink j)
  then show ?thesis using assms by (auto simp: unlink_issues_def)
next
  case (SxLease l)
  then show ?thesis using assms by auto
qed

lemma section_absent:
  assumes "hm_get (ms_tasks s) i = None" "\<And>t. x = SxInsert t \<Longrightarrow> t_id t \<noteq> i"
  shows "hm_get (ms_tasks (section_exec conv x s)) i = None"
  using assms
  by (cases x) (auto simp: insert_task_idempotent_def put_task_def cas_locked_def increment_task_retry_count_def
      session_locked_def record_task_acp_session_def snapshot_locked_def record_task_skill_snapshot_def
      update_task_checkpoint_def remove_row_def drop_output_def forget_parent_def unlink_issues_def Let_def hm_get_adjust
      split: option.split)

lemma cas_locked_expected:
  assumes "hm_get (ms_tasks s) i = Some a"
    "hm_get (ms_tasks (section_exec conv (SxTransition now i expected new origin fence) s)) i = Some b" "t_status b \<noteq> t_status a"
  shows "phase (t_status a) \<in> set expected"
  using assms by (auto simp: cas_locked_def Let_def split: option.splits if_splits)

lemma sections_evolve:
  assumes "\<forall>x \<in> set xs. expects_allowed x" "hm_get (ms_tasks s) i = Some t" "\<forall>u. SxInsert u \<in> set xs \<longrightarrow> t_id u \<noteq> i"
  shows "case hm_get (ms_tasks (section_run conv xs s)) i of
      Some t' \<Rightarrow> evolves t t' \<and> (is_terminal t \<longrightarrow> t_status t' = t_status t)
    | None \<Rightarrow> \<exists>ys zs a. xs = ys @ SxRemove i # zs \<and>
        hm_get (ms_tasks (section_run conv ys s)) i = Some a \<and> evolves t a \<and> is_terminal a"
  using assms
proof (induction xs rule: rev_induct)
  case (snoc x xs)
  let ?s = "section_run conv xs s"
  have ids: "\<forall>u. SxInsert u \<in> set xs \<longrightarrow> t_id u \<noteq> i" "\<And>u. x = SxInsert u \<Longrightarrow> t_id u \<noteq> i" using snoc.prems(3) by auto
  have ok: "\<forall>x \<in> set xs. expects_allowed x" "expects_allowed x" using snoc.prems(1) by auto
  show ?case
  proof (cases "hm_get (ms_tasks ?s) i")
    case None
    then obtain ys zs a where "xs = ys @ SxRemove i # zs"
      "hm_get (ms_tasks (section_run conv ys s)) i = Some a" "evolves t a" "is_terminal a"
      using snoc.IH[OF ok(1) snoc.prems(2) ids(1)] by auto
    then have "\<exists>ys zs a. xs @ [x] = ys @ SxRemove i # zs \<and>
        hm_get (ms_tasks (section_run conv ys s)) i = Some a \<and> evolves t a \<and> is_terminal a"
      by (intro exI[of _ ys] exI[of _ "zs @ [x]"] exI[of _ a]) simp
    then show ?thesis using section_absent[OF None ids(2)] by simp
  next
    case (Some a)
    then have ev: "evolves t a" using snoc.IH[OF ok(1) snoc.prems(2) ids(1)] by simp
    from section_evolves[OF Some ok(2), of conv] show ?thesis
    proof
      assume "\<exists>t'. hm_get (ms_tasks (section_exec conv x ?s)) i = Some t' \<and> evolves a t' \<and> (t_status t' \<noteq> t_status a \<longrightarrow> moved_by x i a t')"
      then obtain t' where t': "hm_get (ms_tasks (section_exec conv x ?s)) i = Some t'" "evolves a t'" by blast
      have "evolves t t'" using ev t'(2) by (rule evolves_trans)
      then show ?thesis using t'(1) by (simp add: evolves_terminal)
    next
      assume del: "hm_get (ms_tasks (section_exec conv x ?s)) i = None \<and> x = SxRemove i \<and> is_terminal a"
      then have none: "hm_get (ms_tasks (section_run conv (xs @ [x]) s)) i = None" using conjunct1[OF del] by simp
      have "\<exists>ys zs a. xs @ [x] = ys @ SxRemove i # zs \<and>
          hm_get (ms_tasks (section_run conv ys s)) i = Some a \<and> evolves t a \<and> is_terminal a"
        using Some ev del by (intro exI[of _ xs] exI[of _ "[]"] exI[of _ a]) simp
      then show ?thesis unfolding none option.case .
    qed
  qed
qed simp

text \<open>
  C13. Over any interleaving of the lock sections of task calls, by however many callers: whenever the status of a task
  changes, a transition whose expected phases include the old one wrote the new one, along one of the six edges
  of the status machine; a terminal status is final; identity, prompt, dependencies and idempotency data are
  immutable, the session id and the skill snapshot are written once. A task that is gone was removed by a deletion when it
  had reached a terminal status. (Ids are fresh: no second task is inserted under the id.)
\<close>

theorem task_lifecycle:
  assumes "\<forall>x \<in> set xs. expects_allowed x" "hm_get (ms_tasks s) i = Some t" "\<forall>u. SxInsert u \<in> set xs \<longrightarrow> t_id u \<noteq> i"
  shows "(case hm_get (ms_tasks (section_run conv xs s)) i of
      Some t' \<Rightarrow> evolves t t' \<and> (is_terminal t \<longrightarrow> t_status t' = t_status t)
    | None \<Rightarrow> \<exists>ys zs a. xs = ys @ SxRemove i # zs \<and>
        hm_get (ms_tasks (section_run conv ys s)) i = Some a \<and> evolves t a \<and> is_terminal a) \<and>
   (\<forall>ys x zs a b. xs = ys @ x # zs \<and> hm_get (ms_tasks (section_run conv ys s)) i = Some a \<and>
      hm_get (ms_tasks (section_run conv (ys @ [x]) s)) i = Some b \<and> t_status b \<noteq> t_status a \<longrightarrow>
      (\<exists>now expected origin fence. x = SxTransition now i expected (t_status b) origin fence \<and> phase (t_status a) \<in> set expected) \<and>
      (phase (t_status a), phase (t_status b)) \<in> {(PhPending, PhDispatched), (PhPending, PhFailed), (PhPending, PhCancelled),
        (PhDispatched, PhCompleted), (PhDispatched, PhFailed), (PhDispatched, PhCancelled)})"
proof (intro conjI allI impI)
  show "case hm_get (ms_tasks (section_run conv xs s)) i of
      Some t' \<Rightarrow> evolves t t' \<and> (is_terminal t \<longrightarrow> t_status t' = t_status t)
    | None \<Rightarrow> \<exists>ys zs a. xs = ys @ SxRemove i # zs \<and>
        hm_get (ms_tasks (section_run conv ys s)) i = Some a \<and> evolves t a \<and> is_terminal a"
    using assms by (rule sections_evolve)
next
  fix ys x zs a b
  assume h: "xs = ys @ x # zs \<and> hm_get (ms_tasks (section_run conv ys s)) i = Some a \<and>
      hm_get (ms_tasks (section_run conv (ys @ [x]) s)) i = Some b \<and> t_status b \<noteq> t_status a"
  then have ok: "expects_allowed x" using assms(1) by simp
  from h have a: "hm_get (ms_tasks (section_run conv ys s)) i = Some a"
    and b: "hm_get (ms_tasks (section_exec conv x (section_run conv ys s))) i = Some b" and ne: "t_status b \<noteq> t_status a"
    by simp_all
  have m: "moved_by x i a b" using section_evolves[OF a ok, of conv] b ne by auto
  then obtain now expected origin fence where x: "x = SxTransition now i expected (t_status b) origin fence"
    by (auto simp: moved_by_def)
  then have "phase (t_status a) \<in> set expected" using a b ne by (auto intro: cas_locked_expected)
  then show "\<exists>now expected origin fence. x = SxTransition now i expected (t_status b) origin fence \<and> phase (t_status a) \<in> set expected"
    using x by blast
  show "(phase (t_status a), phase (t_status b)) \<in> {(PhPending, PhDispatched), (PhPending, PhFailed), (PhPending, PhCancelled),
        (PhDispatched, PhCompleted), (PhDispatched, PhFailed), (PhDispatched, PhCancelled)}"
    using m by (simp only: moved_by_def)
qed

text \<open>A dispatch between the sections of a deletion that had already looked for dependents.\<close>

lemma task_lifecycle_witness:
  "\<exists>a b. hm_get (ms_tasks (section_run ns_conv [SxRemove (TaskId 1)] (empty_store\<lparr>ms_tasks := [(TaskId 1, plain_task 1)]\<rparr>))) (TaskId 1) = Some a \<and>
    hm_get (ms_tasks (section_run ns_conv [SxRemove (TaskId 1), SxTransition 5 (TaskId 1) [PhPending] (Dispatched (WorkerId 3) 5) ControlDecision None]
      (empty_store\<lparr>ms_tasks := [(TaskId 1, plain_task 1)]\<rparr>))) (TaskId 1) = Some b \<and>
    evolves (plain_task 1) b \<and> (phase (t_status a), phase (t_status b)) = (PhPending, PhDispatched)"
proof -
  let ?s = "empty_store\<lparr>ms_tasks := [(TaskId 1, plain_task 1)]\<rparr>"
  let ?x = "SxTransition 5 (TaskId 1) [PhPending] (Dispatched (WorkerId 3) 5) ControlDecision None"
  have a: "hm_get (ms_tasks (section_run ns_conv [SxRemove (TaskId 1)] ?s)) (TaskId 1) = Some (plain_task 1)"
    by (simp add: remove_row_def hm_get_def from_request_def Let_def)
  then obtain b where b: "hm_get (ms_tasks (section_run ns_conv ([SxRemove (TaskId 1)] @ [?x]) ?s)) (TaskId 1) = Some b"
      "t_status b = Dispatched (WorkerId 3) 5"
    by (auto simp: cas_locked_def stale_dispatch_def from_request_def Let_def hm_get_adjust)
  have "\<forall>x \<in> set [SxRemove (TaskId 1), ?x]. expects_allowed x" by simp
  moreover have "hm_get (ms_tasks ?s) (TaskId 1) = Some (plain_task 1)" by (simp add: hm_get_def)
  ultimately have "evolves (plain_task 1) b"
    using task_lifecycle[of "[SxRemove (TaskId 1), ?x]" ?s "TaskId 1" "plain_task 1" ns_conv] b(1) by simp
  then show ?thesis using a b by (intro exI[of _ "plain_task 1"] exI[of _ b]) (simp add: from_request_def Let_def)
qed

end
