(* ===== verification/Task_Refinement.thy ===== *)
theory Task_Refinement
  imports Task_Sections
begin

text \<open>
  What the task table promises, without its rows: a board of jobs, each with a phase, the epoch it was
  started under, the key it was submitted under and the jobs it waits for, beside the epochs of the
  control-plane leases. The in-memory store refines it functionally: what a call answers and what it makes of the
  board is determined by the board.
\<close>

section \<open>The board\<close>

record job =
  jb_phase :: task_phase
  jb_run :: "int option"
  jb_key :: "(string \<times> string) option"
  jb_needs :: "task_id set"

type_synonym jobs = "task_id \<rightharpoonup> job"

record board =
  bd_job :: jobs
  bd_epoch :: "string \<rightharpoonup> int"

definition board_fence :: "board \<Rightarrow> control_fence option \<Rightarrow> bool" where
  "board_fence b fence \<longleftrightarrow> (\<forall>f. fence = Some f \<longrightarrow> bd_epoch b (cf_cluster_id f) = Some (cf_epoch f))"

text \<open>A worker's report counts for the run its job was started as.\<close>

definition own_run :: "control_fence option \<Rightarrow> transition_origin \<Rightarrow> job \<Rightarrow> bool" where
  "own_run fence origin j \<longleftrightarrow>
     (\<forall>f e. fence = Some f \<and> origin = WorkerOutcome \<and> jb_run j = Some e \<longrightarrow> e = cf_epoch f)"

definition advanced :: "task_phase \<Rightarrow> control_fence option \<Rightarrow> job \<Rightarrow> job" where
  "advanced p fence j = j\<lparr>jb_phase := p,
     jb_run := (if p = PhDispatched then case fence of Some f \<Rightarrow> Some (cf_epoch f) | None \<Rightarrow> jb_run j else jb_run j)\<rparr>"

definition key_used :: "jobs \<Rightarrow> job \<Rightarrow> bool" where
  "key_used m j \<longleftrightarrow> (\<exists>i' j' k. m i' = Some j' \<and> jb_key j' = Some k \<and> jb_key j = Some k)"

definition awaited :: "jobs \<Rightarrow> task_id \<Rightarrow> bool" where
  "awaited m i \<longleftrightarrow> (\<exists>i' j. m i' = Some j \<and> jb_phase j = PhPending \<and> i \<in> jb_needs j)"

definition job_of :: "task \<Rightarrow> job" where
  "job_of t = \<lparr> jb_phase = phase (t_status t), jb_run = t_dispatch_control_epoch t,
     jb_key = map_option (\<lambda>k. (t_created_by t, k)) (t_idempotency_key t), jb_needs = set (t_dependency_ids t) \<rparr>"

definition board_of :: "mem_store \<Rightarrow> board" where
  "board_of s = \<lparr> bd_job = (\<lambda>i. map_option job_of (hm_get (ms_tasks s) i)), bd_epoch = lease_epoch s \<rparr>"

section \<open>The specification\<close>

text \<open>
  A job is submitted once per id and key; it moves from an expected phase and for its own run, and a start
  stamps the run; it is removed when it has ended; nothing else touches the board.
\<close>

fun board_section :: "task_section \<Rightarrow> jobs \<Rightarrow> jobs" where
  "board_section (SxInsert t) m = (if m (t_id t) \<noteq> None \<or> key_used m (job_of t) then m else m(t_id t \<mapsto> job_of t))"
| "board_section (SxTransition now i expected new origin fence) m =
     (case m i of
        None \<Rightarrow> m
      | Some j \<Rightarrow> if own_run fence origin j \<and> jb_phase j \<in> set expected then m(i \<mapsto> advanced (phase new) fence j) else m)"
| "board_section (SxRemove i) m =
     (case m i of None \<Rightarrow> m | Some j \<Rightarrow> if phase_is_terminal (jb_phase j) then m(i := None) else m)"
| "board_section _ m = m"

text \<open>A transition that nothing disturbs: its answer, and the board after it.\<close>

definition transition_reply ::
    "board \<Rightarrow> task_id \<Rightarrow> task_phase \<Rightarrow> transition_origin \<Rightarrow> control_fence option \<Rightarrow> (store_error, transition_outcome) result" where
  "transition_reply b i p origin fence =
     (if \<not> board_fence b fence then Inr Fenced
      else case bd_job b i of
        None \<Rightarrow> Inl NotFound
      | Some j \<Rightarrow>
          if \<not> own_run fence origin j then Inr (StaleDispatchEpoch (the (jb_run j)))
          else if \<not> transition_allowed (jb_phase j) p then Inr (Rejected (jb_phase j)) else Inr Applied)"

fun board_call :: "task_call \<Rightarrow> board \<Rightarrow> jobs" where
  "board_call (TcInsert t) b = board_section (SxInsert t) (bd_job b)"
| "board_call (TcTransition now i new origin fence) b =
     (if transition_reply b i (phase new) origin fence = Inr Applied
      then (bd_job b)(i \<mapsto> advanced (phase new) fence (the (bd_job b i))) else bd_job b)"
| "board_call (TcDelete i) b =
     (if awaited (bd_job b) i then bd_job b else board_section (SxRemove i) (bd_job b))"
| "board_call _ b = bd_job b"

section \<open>Lemmas\<close>

lemma board_fence_iff [simp]: "board_fence (board_of s) fence = control_fence_holds s fence"
  by (cases fence) (simp_all add: board_fence_def board_of_def)

lemma jobs_of: "bd_job (board_of s) i = map_option job_of (hm_get (ms_tasks s) i)"
  by (simp add: board_of_def)

lemma job_of_sel [simp]:
  "jb_phase (job_of t) = phase (t_status t)" "jb_run (job_of t) = t_dispatch_control_epoch t"
  "jb_key (job_of t) = map_option (\<lambda>k. (t_created_by t, k)) (t_idempotency_key t)" "jb_needs (job_of t) = set (t_dependency_ids t)"
  by (simp_all add: job_of_def)

lemma own_run_iff: "own_run fence origin (job_of t) \<longleftrightarrow> stale_dispatch fence origin t = None"
  by (cases fence; cases origin) (auto simp: own_run_def stale_dispatch_def job_of_def split: option.splits)

lemma stale_run: "stale_dispatch fence origin t = Some e \<Longrightarrow> jb_run (job_of t) = Some e"
  by (auto simp: stale_dispatch_def job_of_def split: option.splits transition_origin.splits if_splits)

lemma job_of_apply: "job_of (apply_transition now new fence t) = advanced (phase new) fence (job_of t)"
  by (cases new) (auto simp: advanced_def job_of_def apply_transition_epoch is_dispatched_status_def split: option.split)

lemma section_keyed: "keyed t_id (ms_tasks s) \<Longrightarrow> keyed t_id (ms_tasks (section_exec conv x s))"
  by (cases x) (auto simp: insert_task_idempotent_def put_task_def cas_locked_def increment_task_retry_count_def
      session_locked_def record_task_acp_session_def snapshot_locked_def record_task_skill_snapshot_def
      update_task_checkpoint_def remove_row_def drop_output_def forget_parent_def unlink_issues_def Let_def
      keyed_insert keyed_adjust keyed_remove keyed_parents split: option.split)

lemma adjusted_jobs:
  "(\<And>t. job_of (f t) = job_of t) \<Longrightarrow> bd_job (board_of (s\<lparr>ms_tasks := hm_adjust i f (ms_tasks s)\<rparr>)) = bd_job (board_of s)"
  by (auto simp: board_of_def fun_eq_iff option.map_comp comp_def hm_get_adjust)

lemma key_used_iff:
  assumes "keyed t_id (ms_tasks s)"
  shows "key_used (bd_job (board_of s)) (job_of t) \<longleftrightarrow> (\<exists>k. t_idempotency_key t = Some k \<and>
    (\<exists>x \<in> set (hm_values (ms_tasks s)). t_created_by x = t_created_by t \<and> t_idempotency_key x = Some k))"
proof
  assume "key_used (bd_job (board_of s)) (job_of t)"
  then obtain i x k where "hm_get (ms_tasks s) i = Some x" "jb_key (job_of x) = Some k" "jb_key (job_of t) = Some k"
    by (auto simp: key_used_def jobs_of simp del: job_of_sel)
  then show "\<exists>k. t_idempotency_key t = Some k \<and>
    (\<exists>x \<in> set (hm_values (ms_tasks s)). t_created_by x = t_created_by t \<and> t_idempotency_key x = Some k)"
    using hm_get_values[of "ms_tasks s" i x] by auto
next
  assume "\<exists>k. t_idempotency_key t = Some k \<and>
    (\<exists>x \<in> set (hm_values (ms_tasks s)). t_created_by x = t_created_by t \<and> t_idempotency_key x = Some k)"
  then obtain k x where k: "t_idempotency_key t = Some k" "x \<in> set (hm_values (ms_tasks s))" "t_created_by x = t_created_by t"
    "t_idempotency_key x = Some k" by blast
  then have "bd_job (board_of s) (t_id x) = Some (job_of x)" using keyed_values_get[OF assms, of x] by (simp add: jobs_of)
  moreover have "jb_key (job_of x) = Some (t_created_by t, k)" "jb_key (job_of t) = Some (t_created_by t, k)" using k by simp_all
  ultimately show "key_used (bd_job (board_of s)) (job_of t)" unfolding key_used_def by blast
qed

lemma awaited_iff:
  assumes "keyed t_id (ms_tasks s)"
  shows "awaited (bd_job (board_of s)) i \<longleftrightarrow> pending_dependents i s \<noteq> []"
proof
  assume "awaited (bd_job (board_of s)) i"
  then obtain j x where "hm_get (ms_tasks s) j = Some x" "phase (t_status x) = PhPending" "i \<in> set (t_dependency_ids x)"
    by (auto simp: awaited_def jobs_of)
  then show "pending_dependents i s \<noteq> []"
    using hm_get_values[of "ms_tasks s" j x] by (auto simp: pending_dependents_def filter_empty_conv)
next
  assume "pending_dependents i s \<noteq> []"
  then obtain x where x: "x \<in> set (hm_values (ms_tasks s))" "phase (t_status x) = PhPending" "i \<in> set (t_dependency_ids x)"
    by (auto simp: pending_dependents_def filter_empty_conv)
  then have "bd_job (board_of s) (t_id x) = Some (job_of x)" using keyed_values_get[OF assms, of x] by (simp add: jobs_of)
  moreover have "jb_phase (job_of x) = PhPending" "i \<in> jb_needs (job_of x)" using x by simp_all
  ultimately show "awaited (bd_job (board_of s)) i" unfolding awaited_def by blast
qed

lemma found_member: "List.find P xs = Some x \<Longrightarrow> x \<in> set xs \<and> P x"
  by (auto simp: find_Some_iff)

lemma insert_jobs:
  assumes "keyed t_id (ms_tasks s)"
  shows "bd_job (board_of (snd (insert_task_idempotent t s))) = board_section (SxInsert t) (bd_job (board_of s))"
proof -
  have put: "bd_job (board_of (put_task t s)) = (bd_job (board_of s))(t_id t \<mapsto> job_of t)"
    by (auto simp: board_of_def put_task_def fun_eq_iff)
  show ?thesis
  proof (cases "hm_contains (ms_tasks s) (t_id t) \<or> key_used (bd_job (board_of s)) (job_of t)")
    case True
    then have "snd (insert_task_idempotent t s) = s"
      unfolding key_used_iff[OF assms]
      by (auto simp: insert_task_idempotent_def find_None_iff split: option.split)
    then show ?thesis using True by (auto simp: hm_contains_def jobs_of)
  next
    case False
    then have "snd (insert_task_idempotent t s) = put_task t s"
      unfolding key_used_iff[OF assms]
      by (auto simp: insert_task_idempotent_def find_None_iff dest!: found_member split: option.split)
    then show ?thesis using False put by (auto simp: hm_contains_def jobs_of)
  qed
qed

lemma transition_jobs:
  "bd_job (board_of (snd (cas_locked now i expected new origin fence s))) =
     board_section (SxTransition now i expected new origin fence) (bd_job (board_of s))"
proof (cases "hm_get (ms_tasks s) i")
  case None
  then show ?thesis by (simp add: cas_locked_def jobs_of)
next
  case (Some t)
  have "bd_job (board_of (s\<lparr>ms_tasks := hm_adjust i (apply_transition now new fence) (ms_tasks s)\<rparr>)) =
      (bd_job (board_of s))(i \<mapsto> advanced (phase new) fence (job_of t))"
    using Some by (auto simp: board_of_def fun_eq_iff hm_get_adjust job_of_apply)
  then show ?thesis using Some by (simp add: cas_locked_def jobs_of own_run_iff Let_def split: option.split)
qed

lemma remove_jobs: "bd_job (board_of (snd (remove_row i s))) = board_section (SxRemove i) (bd_job (board_of s))"
  by (auto simp: remove_row_def jobs_of board_of_def fun_eq_iff Let_def split: option.split)

text \<open>The remaining sections write fields the board does not show.\<close>

lemma other_jobs:
  "bd_job (board_of (snd (increment_task_retry_count i s))) = bd_job (board_of s)"
  "bd_job (board_of (snd (session_locked i session s))) = bd_job (board_of s)"
  "bd_job (board_of (snd (snapshot_locked i snapshot s))) = bd_job (board_of s)"
  "bd_job (board_of (snd (update_task_checkpoint i branch s))) = bd_job (board_of s)"
  "bd_job (board_of (drop_output i s)) = bd_job (board_of s)"
  "bd_job (board_of (forget_parent i s)) = bd_job (board_of s)"
  "bd_job (board_of (unlink_issues i s)) = bd_job (board_of s)"
  "bd_job (board_of (snd (mem_lease_call conv k s))) = bd_job (board_of s)"
proof -
  have same: "job_of (if c then t\<lparr>t_parent_task_id := None\<rparr> else t) = job_of t" for c t by (simp add: job_of_def)
  show "bd_job (board_of (snd (increment_task_retry_count i s))) = bd_job (board_of s)"
    "bd_job (board_of (snd (session_locked i session s))) = bd_job (board_of s)"
    "bd_job (board_of (snd (snapshot_locked i snapshot s))) = bd_job (board_of s)"
    "bd_job (board_of (snd (update_task_checkpoint i branch s))) = bd_job (board_of s)"
    by (simp_all add: increment_task_retry_count_def session_locked_def record_task_acp_session_def snapshot_locked_def
        record_task_skill_snapshot_def update_task_checkpoint_def adjusted_jobs job_of_def split: option.split)
  show "bd_job (board_of (drop_output i s)) = bd_job (board_of s)"
    "bd_job (board_of (forget_parent i s)) = bd_job (board_of s)"
    "bd_job (board_of (unlink_issues i s)) = bd_job (board_of s)"
    "bd_job (board_of (snd (mem_lease_call conv k s))) = bd_job (board_of s)"
    by (simp_all add: board_of_def drop_output_def forget_parent_def unlink_issues_def option.map_comp comp_def same)
qed

lemma section_jobs:
  "keyed t_id (ms_tasks s) \<Longrightarrow> bd_job (board_of (section_exec conv x s)) = board_section x (bd_job (board_of s))"
  by (cases x) (simp_all only: section_exec.simps board_section.simps(4-) other_jobs insert_jobs transition_jobs remove_jobs)

lemma run_jobs:
  "keyed t_id (ms_tasks s) \<Longrightarrow> bd_job (board_of (section_run conv xs s)) = fold board_section xs (bd_job (board_of s))"
  by (induction xs arbitrary: s) (simp_all add: section_jobs section_keyed)

lemma transition_replies:
  "fst (transition_task now i new origin fence s) = transition_reply (board_of s) i (phase new) origin fence"
proof (cases "hm_get (ms_tasks s) i")
  case (Some t)
  then show ?thesis
    by (auto simp: transition_task_def compare_and_set_task_status_def transition_reply_def jobs_of own_run_iff
        predecessors_allowed[symmetric] Let_def dest: stale_run split: option.split)
qed (simp add: transition_task_def compare_and_set_task_status_def transition_reply_def jobs_of)

lemma call_jobs:
  assumes "keyed t_id (ms_tasks s)"
  shows "bd_job (board_of (task_exec conv k s)) = board_call k (board_of s)"
proof (cases k)
  case (TcInsert t)
  then show ?thesis using insert_jobs[OF assms] by simp
next
  case (TcTransition now i new origin fence)
  have "board_call k (board_of s) = (if control_fence_holds s fence
      then board_section (SxTransition now i (allowed_predecessors (phase new)) new origin fence) (bd_job (board_of s))
      else bd_job (board_of s))"
    by (auto simp: TcTransition transition_reply_def predecessors_allowed split: option.split)
  then show ?thesis
    using transition_jobs[of now i "allowed_predecessors (phase new)" new origin fence s]
    by (simp add: TcTransition call_sections del: task_exec.simps board_section.simps)
next
  case (TcDelete i)
  have kept: "fst (remove_row i s) \<noteq> Inr Deleted \<Longrightarrow> board_section (SxRemove i) (bd_job (board_of s)) = bd_job (board_of s)"
    using remove_jobs[of i s] remove_row_kept[of i s] by simp
  show ?thesis
    using kept remove_jobs[of i s]
    by (auto simp: TcDelete call_sections awaited_iff[OF assms] other_jobs simp del: task_exec.simps board_section.simps)
next
  case (TcSession i session fence)
  then show ?thesis by (auto simp: call_sections other_jobs simp del: task_exec.simps)
next
  case (TcSnapshot i snapshot fence)
  then show ?thesis by (auto simp: call_sections other_jobs simp del: task_exec.simps)
qed (simp_all add: other_jobs)

text \<open>No two jobs under one key: the specification itself keeps it.\<close>

definition one_per_key :: "jobs \<Rightarrow> bool" where
  "one_per_key m \<longleftrightarrow> (\<forall>i i' j j' k. m i = Some j \<and> m i' = Some j' \<and> jb_key j = Some k \<and> jb_key j' = Some k \<longrightarrow> i = i')"

lemma one_per_keyI:
  assumes "\<And>i i' j j' k. m i = Some j \<Longrightarrow> m i' = Some j' \<Longrightarrow> jb_key j = Some k \<Longrightarrow> jb_key j' = Some k \<Longrightarrow> i = i'"
  shows "one_per_key m"
  unfolding one_per_key_def using assms by blast

lemma one_per_keyD:
  "one_per_key m \<Longrightarrow> m i = Some j \<Longrightarrow> m i' = Some j' \<Longrightarrow> jb_key j = Some k \<Longrightarrow> jb_key j' = Some k \<Longrightarrow> i = i'"
  unfolding one_per_key_def by blast

lemma section_keys:
  assumes "one_per_key m"
  shows "one_per_key (board_section x m)"
proof (cases x)
  case (SxInsert t)
  show ?thesis
  proof (cases "m (t_id t) \<noteq> None \<or> key_used m (job_of t)")
    case False
    then have free: "\<And>i j k. m i = Some j \<Longrightarrow> jb_key j = Some k \<Longrightarrow> jb_key (job_of t) \<noteq> Some k"
      unfolding key_used_def by blast
    show ?thesis
    proof (rule one_per_keyI)
      fix i i' j j' k
      assume h: "board_section x m i = Some j" "board_section x m i' = Some j'" "jb_key j = Some k" "jb_key j' = Some k"
      then have "i = t_id t \<and> j = job_of t \<or> m i = Some j" "i' = t_id t \<and> j' = job_of t \<or> m i' = Some j'"
        using False SxInsert by (auto split: if_splits)
      then show "i = i'" using h(3,4) free one_per_keyD[OF assms] by metis
    qed
  qed (use SxInsert assms in auto)
next
  case (SxTransition now i0 expected new origin fence)
  show ?thesis
  proof (rule one_per_keyI)
    fix i i' j j' k
    assume h: "board_section x m i = Some j" "board_section x m i' = Some j'" "jb_key j = Some k" "jb_key j' = Some k"
    have "\<exists>y. m i = Some y \<and> jb_key y = Some k" "\<exists>y. m i' = Some y \<and> jb_key y = Some k"
      using h SxTransition by (auto simp: advanced_def split: option.splits if_splits)
    then show "i = i'" using one_per_keyD[OF assms] by blast
  qed
next
  case (SxRemove i0)
  show ?thesis
  proof (rule one_per_keyI)
    fix i i' j j' k
    assume h: "board_section x m i = Some j" "board_section x m i' = Some j'" "jb_key j = Some k" "jb_key j' = Some k"
    have "m i = Some j" "m i' = Some j'" using h(1,2) SxRemove by (auto split: option.splits if_splits)
    then show "i = i'" using h(3,4) one_per_keyD[OF assms] by blast
  qed
qed (use assms in simp_all)

lemma run_keys: "one_per_key m \<Longrightarrow> one_per_key (fold board_section xs m)"
  by (induction xs arbitrary: m) (simp_all add: section_keys)

section \<open>Refinement\<close>

text \<open>
  C12. The in-memory task store refines the board, functionally. Whatever lock sections of whatever calls follow
  each other, the jobs the store holds are exactly what the specification makes of the jobs it held; a call that nothing
  disturbs takes its fence, the origin of its report and the edges of the status machine into account: its
  answer and the jobs after it are the specification's. No two stored tasks come to share a submission key.
\<close>

theorem task_store_refines_board:
  assumes "keyed t_id (ms_tasks s)"
  shows "bd_job (board_of (section_run conv xs s)) = fold board_section xs (bd_job (board_of s)) \<and>
    bd_job (board_of (task_exec conv k s)) = board_call k (board_of s) \<and>
    fst (transition_task now i new origin fence s) = transition_reply (board_of s) i (phase new) origin fence \<and>
    (one_per_key (bd_job (board_of s)) \<longrightarrow> one_per_key (bd_job (board_of (section_run conv xs s))))"
  using run_jobs[OF assms] call_jobs[OF assms] transition_replies run_keys by simp

lemma task_store_refines_board_witness:
  "bd_job (board_of (section_run ns_conv
      [SxInsert (plain_task 1), SxTransition 5 (TaskId 1) [PhPending] (Dispatched (WorkerId 1) 5) ControlDecision None, SxRemove (TaskId 1)] empty_store))
      (TaskId 1)
     = Some \<lparr> jb_phase = PhDispatched, jb_run = None, jb_key = None, jb_needs = {} \<rparr>"
proof -
  let ?xs = "[SxInsert (plain_task 1), SxTransition 5 (TaskId 1) [PhPending] (Dispatched (WorkerId 1) 5) ControlDecision None, SxRemove (TaskId 1)]"
  have "keyed t_id (ms_tasks empty_store)" by (simp add: keyed_def hm_ok_def empty_store_def)
  moreover have "fold board_section ?xs (bd_job (board_of empty_store)) (TaskId 1)
      = Some \<lparr> jb_phase = PhDispatched, jb_run = None, jb_key = None, jb_needs = {} \<rparr>"
    by (simp add: board_of_def empty_store_def hm_get_def from_request_def default_request_def job_of_def key_used_def own_run_def
        advanced_def Let_def)
  ultimately show ?thesis using task_store_refines_board[of empty_store ns_conv ?xs] by simp
qed

end
