(* ===== verification/Router.thy ===== *)
theory Router
  imports Core_Types
begin

text \<open>
  The heuristic task router (\<open>crates/fleet-scheduler/src/router.rs\<close>): which profile, model and
  token budget a task gets when it is submitted. Strings are UTF-8 bytes. Case folding and
  trimming are those of the ASCII characters (the Korean keywords have no case).
\<close>

section \<open>Text\<close>

definition utf8 :: "nat list \<Rightarrow> string" where
  "utf8 = map char_of"

definition lower_char :: "char \<Rightarrow> char" where
  "lower_char c = (let n = (of_char c :: nat) in if 65 \<le> n \<and> n \<le> 90 then char_of (n + 32) else c)"

definition to_lowercase :: "string \<Rightarrow> string" where
  "to_lowercase = map lower_char"

definition is_space :: "char \<Rightarrow> bool" where
  "is_space c = (let n = (of_char c :: nat) in n = 32 \<or> (9 \<le> n \<and> n \<le> 13))"

definition trim :: "string \<Rightarrow> string" where
  "trim s = rev (dropWhile is_space (rev (dropWhile is_space s)))"

fun contains_str :: "string \<Rightarrow> string \<Rightarrow> bool" where
  "contains_str [] kw = (kw = [])"
| "contains_str (c # cs) kw = (take (length kw) (c # cs) = kw \<or> contains_str cs kw)"

text \<open>\<open>chars().count()\<close>: the bytes that start a character.\<close>

definition char_count :: "string \<Rightarrow> nat" where
  "char_count s = length (filter (\<lambda>c. let n = (of_char c :: nat) in \<not> (128 \<le> n \<and> n < 192)) s)"

section \<open>Profiles\<close>

datatype routing_profile = Economy | Balanced | Complex | Reasoning

fun profile_as_str :: "routing_profile \<Rightarrow> string" where
  "profile_as_str Economy = ''economy''"
| "profile_as_str Balanced = ''balanced''"
| "profile_as_str Complex = ''complex''"
| "profile_as_str Reasoning = ''reasoning''"

definition profile_from_str_loose :: "string \<Rightarrow> routing_profile option" where
  "profile_from_str_loose s =
     (let p = to_lowercase (trim s)
      in if p \<in> {''economy'', ''fast'', ''cheap'', ''eco''} then Some Economy
         else if p \<in> {''balanced'', ''default'', ''standard''} then Some Balanced
         else if p \<in> {''complex'', ''heavy'', ''refactor''} then Some Complex
         else if p \<in> {''reasoning'', ''math'', ''deep'', ''think''} then Some Reasoning
         else None)"

fun default_model :: "routing_profile \<Rightarrow> string" where
  "default_model Economy = ''grok-code-fast''"
| "default_model Balanced = ''gemini-2.5-flash''"
| "default_model Complex = ''grok-4''"
| "default_model Reasoning = ''deepseek-r1''"

fun default_token_budget :: "routing_profile \<Rightarrow> u64" where
  "default_token_budget Economy = 40000"
| "default_token_budget Balanced = 100000"
| "default_token_budget Complex = 250000"
| "default_token_budget Reasoning = 500000"

fun default_vendor :: "routing_profile \<Rightarrow> string" where
  "default_vendor Economy = ''grok''"
| "default_vendor Balanced = ''agy''"
| "default_vendor Complex = ''grok''"
| "default_vendor Reasoning = ''gemini''"

fun profile_debug :: "routing_profile \<Rightarrow> string" where
  "profile_debug Economy = ''Economy''"
| "profile_debug Balanced = ''Balanced''"
| "profile_debug Complex = ''Complex''"
| "profile_debug Reasoning = ''Reasoning''"

record routing_decision =
  rd_profile :: routing_profile
  rd_resolved_model :: string
  rd_token_budget :: u64
  rd_preferred_vendor :: string
  rd_reasoning :: message

section \<open>Scores\<close>

text \<open>The scores are \<open>i32\<close>, compared as signed numbers.\<close>

type_synonym score = "32 word"

definition economy_keywords :: "string list" where
  "economy_keywords = [
  ''typo'', ''formatting'', ''indent'', ''rename variable'', ''fix spelling'', ''add comment'',
   ''license header'', ''cargo fmt'', ''clippy'', ''simple edit'',
   utf8 [236, 152, 164, 237, 131, 128],
   utf8 [235, 147, 164, 236, 151, 172, 236, 147, 176, 234, 184, 176],
   utf8 [235, 179, 128, 236, 136, 152, 235, 170, 133, 32, 235, 179, 128, 234, 178, 189],
   utf8 [236, 163, 188, 236, 132, 157, 32, 236, 182, 148, 234, 176, 128],
   utf8 [235, 166, 176, 237, 138, 184]]"

definition balanced_keywords :: "string list" where
  "balanced_keywords = [
  ''implement'', ''add endpoint'', ''fix bug'', ''unit test'', ''api'', ''crud'', ''handler'',
   ''endpoint'', utf8 [234, 181, 172, 237, 152, 132],
   utf8 [235, 178, 132, 234, 183, 184, 32, 236, 136, 152, 236, 160, 149],
   utf8 [236, 151, 148, 235, 147, 156, 237, 143, 172, 236, 157, 184, 237, 138, 184],
   utf8 [237, 133, 140, 236, 138, 164, 237, 138, 184, 32, 236, 158, 145, 236, 132, 177]]"

definition complex_keywords :: "string list" where
  "complex_keywords = [
  ''refactor'', ''architecture'', ''redesign'', ''migrate'', ''scale'', ''database schema'',
   ''multi-threading'', ''async stream'', ''performance optimization'',
   utf8 [235, 166, 172, 237, 140, 169, 237, 134, 160, 235, 167, 129],
   utf8 [236, 149, 132, 237, 130, 164, 237, 133, 141, 236, 178, 152],
   utf8 [236, 132, 164, 234, 179, 132],
   utf8 [235, 167, 136, 236, 157, 180, 234, 183, 184, 235, 160, 136, 236, 157, 180, 236, 133, 152],
   utf8 [236, 132, 177, 235, 138, 165, 32, 236, 181, 156, 236, 160, 129, 237, 153, 148],
   utf8 [236, 138, 164, 237, 130, 164, 235, 167, 136, 32, 235, 179, 128, 234, 178, 189]]"

definition reasoning_keywords :: "string list" where
  "reasoning_keywords = [
  ''proof'', ''prove'', ''formal verification'', ''invariant'', ''deadlock analysis'',
   ''concurrency proof'', ''sat solver'', ''theorem'', ''deep trace'', ''algorithm analysis'',
   utf8 [236, 136, 152, 237, 149, 153, 236, 160, 129, 32, 236, 166, 157, 235, 170, 133],
   utf8 [235, 182, 136, 235, 179, 128, 236, 139, 157],
   utf8 [234, 181, 144, 236, 176, 169, 236, 131, 129, 237, 131, 156, 32, 235, 182, 132, 236, 132, 157],
   utf8 [235, 143, 153, 236, 139, 156, 236, 132, 177, 32, 234, 178, 128, 236, 166, 157],
   utf8 [236, 160, 149, 237, 152, 149, 32, 234, 178, 128, 236, 166, 157]]"

fun score_keywords :: "string \<Rightarrow> score \<Rightarrow> string list \<Rightarrow> score \<Rightarrow> score" where
  "score_keywords text weight [] acc = acc"
| "score_keywords text weight (kw # kws) acc =
     score_keywords text weight kws (if contains_str text kw then acc + weight else acc)"

definition analyze_prompt :: "string \<Rightarrow> score \<times> score \<times> score \<times> score" where
  "analyze_prompt prompt =
     (let text = to_lowercase prompt;
          economy = score_keywords text 3 economy_keywords 0;
          balanced = score_keywords text 2 balanced_keywords 1;
          complex = score_keywords text 3 complex_keywords 0;
          reasoning = score_keywords text 4 reasoning_keywords 0;
          len = char_count prompt
      in if len < 80 then (economy + 2, balanced, complex, reasoning)
         else if len > 1500 then (economy, balanced, complex + 3, reasoning)
         else (economy, balanced, complex, reasoning))"

fun analyze_skills_from :: "string list \<Rightarrow> score \<times> score \<times> score \<times> score \<Rightarrow> score \<times> score \<times> score \<times> score" where
  "analyze_skills_from [] acc = acc"
| "analyze_skills_from (s # ss) (e, b, c, r) =
     (let k = to_lowercase s
      in analyze_skills_from ss
        (if k = ''doc-writer'' then (e + 2, b, c, r)
         else if k = ''code-reviewer'' then (e, b + 2, c, r)
         else if k = ''rust-expert'' then (e, b, c + 3, r)
         else if k = ''security-audit'' then (e, b, c + 3, r)
         else if k = ''data-analyst'' then (e, b + 2, c, r)
         else if k = ''markdown-visual-expert'' then (e, b + 2, c, r)
         else (e, b + 1, c, r)))"

definition analyze_skills :: "string list \<Rightarrow> score \<times> score \<times> score \<times> score" where
  "analyze_skills skills = analyze_skills_from skills (0, 0, 0, 0)"

section \<open>The decision\<close>

definition decision :: "task \<Rightarrow> routing_profile \<Rightarrow> string \<Rightarrow> message \<Rightarrow> routing_decision" where
  "decision t p model why = \<lparr> rd_profile = p, rd_resolved_model = model,
     rd_token_budget = (case t_token_budget t of Some b \<Rightarrow> b | None \<Rightarrow> default_token_budget p),
     rd_preferred_vendor = default_vendor p, rd_reasoning = why \<rparr>"

definition profile_of_model :: "string \<Rightarrow> routing_profile" where
  "profile_of_model model =
     (let m = to_lowercase model
      in if contains_str m ''fast'' \<or> contains_str m ''mini'' \<or> contains_str m ''small'' then Economy
         else if contains_str m ''r1'' \<or> contains_str m ''reason'' \<or> contains_str m ''o1''
           \<or> contains_str m ''o3'' then Reasoning
         else if contains_str m ''grok-4'' \<or> contains_str m ''opus'' \<or> contains_str m ''sonnet''
         then Complex
         else Balanced)"

definition text_profile :: "string \<Rightarrow> string list \<Rightarrow> routing_profile \<times> message" where
  "text_profile prompt skills =
     (case (analyze_prompt prompt, analyze_skills skills) of
        ((e_p, b_p, c_p, r_p), (e_s, b_s, c_s, r_s)) \<Rightarrow>
          let e = e_p + e_s; b = b_p + b_s; c = c_p + c_s; r = r_p + r_s
          in if 4 <=s r \<and> c <s r
             then (Reasoning, Msg ''High formal reasoning score ({}) from mathematical/invariant keywords'' [ArgNum (sint r)])
             else if 4 <=s c \<and> b <=s c
             then (Complex, Msg ''High architecture/refactor complexity score ({})'' [ArgNum (sint c)])
             else if b <s e \<and> 3 <=s e
             then (Economy, Msg ''High lightweight/formatting score ({})'' [ArgNum (sint e)])
             else (Balanced, Msg ''Standard general task score (balanced={})'' [ArgNum (sint b)]))"

definition resolve_by_text :: "task \<Rightarrow> routing_decision" where
  "resolve_by_text t =
     (case text_profile (t_prompt t) (t_skills_required t) of
        (p, why) \<Rightarrow> decision t p (default_model p) why)"

definition resolve_by_model :: "task \<Rightarrow> routing_decision" where
  "resolve_by_model t =
     (case t_model t of
        Some model \<Rightarrow>
          let p = profile_of_model model
          in decision t p model
               (Msg (''Inferred profile {:?} from explicit model '{}'' @ [CHR 0x27]) [ArgStr (profile_debug p), ArgStr model])
      | None \<Rightarrow> resolve_by_text t)"

definition resolve_routing :: "task \<Rightarrow> routing_decision" where
  "resolve_routing t =
     (case t_routing_profile t of
        Some str \<Rightarrow>
          (case profile_from_str_loose str of
             Some p \<Rightarrow>
               decision t p (case t_model t of Some m \<Rightarrow> m | None \<Rightarrow> default_model p)
                 (Msg ''Explicit user profile '{}' requested'' [ArgStr str])
           | None \<Rightarrow> resolve_by_model t)
      | None \<Rightarrow> resolve_by_model t)"

text \<open>What \<open>submit\<close> stores with the task: the decision, where the request left it open.\<close>

definition apply_routing :: "task \<Rightarrow> task" where
  "apply_routing t0 =
     (let d = resolve_routing t0;
          t1 = (if t_routing_profile t0 = None
                then t0\<lparr>t_routing_profile := Some (profile_as_str (rd_profile d))\<rparr> else t0);
          t2 = (if t_resolved_model t1 = None
                then t1\<lparr>t_resolved_model := Some (rd_resolved_model d)\<rparr> else t1)
      in if t_token_budget t2 = None
         then t2\<lparr>t_token_budget := Some (rd_token_budget d)\<rparr> else t2)"

section \<open>Routing is stable\<close>

lemma profile_parse_print [simp]: "profile_from_str_loose (profile_as_str p) = Some p"
  by (cases p) (simp_all add: profile_from_str_loose_def trim_def is_space_def to_lowercase_def
      lower_char_def Let_def)

lemma resolve_by_model_ex:
  "\<exists>p why. resolve_by_model t = decision t p (case t_model t of Some m \<Rightarrow> m | None \<Rightarrow> default_model p) why"
  by (cases "t_model t") (auto simp: resolve_by_model_def resolve_by_text_def Let_def split: prod.split)

lemma resolve_cases:
  obtains p model why where "resolve_routing t = decision t p model why"
    "model = (case t_model t of Some m \<Rightarrow> m | None \<Rightarrow> default_model p)"
proof (cases "Option.bind (t_routing_profile t) profile_from_str_loose")
  case None
  then have "resolve_routing t = resolve_by_model t"
    by (cases "t_routing_profile t") (simp_all add: resolve_routing_def)
  then show thesis using resolve_by_model_ex[of t] that by metis
next
  case (Some p)
  then obtain str where "t_routing_profile t = Some str" "profile_from_str_loose str = Some p"
    by (cases "t_routing_profile t") simp_all
  then show thesis by (intro that) (simp_all add: resolve_routing_def)
qed

lemma decision_simps [simp]:
  "rd_profile (decision t p m w) = p" "rd_resolved_model (decision t p m w) = m"
  "rd_preferred_vendor (decision t p m w) = default_vendor p"
  "rd_token_budget (decision t p m w) =
     (case t_token_budget t of Some b \<Rightarrow> b | None \<Rightarrow> default_token_budget p)"
  by (simp_all add: decision_def)

text \<open>The stored model and budget do not change which branch is taken.\<close>

lemma resolve_routing_frame:
  "rd_profile (resolve_routing (t\<lparr>t_resolved_model := rm, t_token_budget := tb\<rparr>)) =
   rd_profile (resolve_routing t)"
  by (auto simp: resolve_routing_def resolve_by_model_def resolve_by_text_def Let_def
      split: option.splits prod.splits)

lemma apply_routing_alt:
  "apply_routing t = (let d = resolve_routing t in t\<lparr>
     t_routing_profile := (case t_routing_profile t of None \<Rightarrow> Some (profile_as_str (rd_profile d)) | x \<Rightarrow> x),
     t_resolved_model := (case t_resolved_model t of None \<Rightarrow> Some (rd_resolved_model d) | x \<Rightarrow> x),
     t_token_budget := (case t_token_budget t of None \<Rightarrow> Some (rd_token_budget d) | x \<Rightarrow> x)\<rparr>)"
  by (cases t) (simp add: apply_routing_def Let_def split: option.split)

text \<open>
  Routing honours the request and is stable: the decision keeps a requested model and token
  budget, otherwise takes the profile's; and routing the stored task again (as a retry or another
  instance would) gives the same profile, model, budget and vendor.
\<close>

theorem routing_stable:
  "let d = resolve_routing t; d' = resolve_routing (apply_routing t)
   in rd_resolved_model d = (case t_model t of Some m \<Rightarrow> m | None \<Rightarrow> default_model (rd_profile d)) \<and>
      rd_token_budget d = (case t_token_budget t of Some b \<Rightarrow> b | None \<Rightarrow> default_token_budget (rd_profile d)) \<and>
      rd_profile d' = rd_profile d \<and> rd_resolved_model d' = rd_resolved_model d \<and>
      rd_token_budget d' = rd_token_budget d \<and> rd_preferred_vendor d' = rd_preferred_vendor d"
proof -
  obtain p model why where d: "resolve_routing t = decision t p model why"
      "model = (case t_model t of Some m \<Rightarrow> m | None \<Rightarrow> default_model p)"
    by (rule resolve_cases)
  obtain p' model' why' where d': "resolve_routing (apply_routing t) = decision (apply_routing t) p' model' why'"
      "model' = (case t_model (apply_routing t) of Some m \<Rightarrow> m | None \<Rightarrow> default_model p')"
    by (rule resolve_cases)
  have "rd_profile (resolve_routing (apply_routing t)) = rd_profile (resolve_routing t)"
  proof (cases "t_routing_profile t")
    case None
    then have "t_routing_profile (apply_routing t) = Some (profile_as_str (rd_profile (resolve_routing t)))"
      by (simp add: apply_routing_alt Let_def)
    then show ?thesis unfolding resolve_routing_def[of "apply_routing t"] by simp
  next
    case (Some str)
    then have "apply_routing t = t\<lparr>t_resolved_model := t_resolved_model (apply_routing t),
        t_token_budget := t_token_budget (apply_routing t)\<rparr>"
      by (cases t) (simp add: apply_routing_alt Let_def)
    then show ?thesis by (metis resolve_routing_frame)
  qed
  then have "p' = p" using d(1) d'(1) by simp
  moreover have "t_model (apply_routing t) = t_model t"
    "t_token_budget (apply_routing t) = (case t_token_budget t of None \<Rightarrow> Some (rd_token_budget (resolve_routing t)) | x \<Rightarrow> x)"
    by (simp_all add: apply_routing_alt Let_def)
  ultimately show ?thesis using d d' by (simp add: Let_def split: option.splits)
qed

end
