(* ===== verification/Template_Store.thy ===== *)
theory Template_Store
  imports Agent_Placement Router Payload_Hash
begin

text \<open>
  Agent templates: the content of a revision and its hash (\<open>crates/fleet-core/src/agent_template.rs\<close>)
  and the template tables of the store (\<open>crates/fleet-store/src/mem.rs\<close>). \<open>sha\<close> stands for SHA-256
  with hexadecimal output, \<open>show_id\<close> for the text of an agent id. A definition is the call that nothing
  disturbs; a new revision has its gap in \<open>Agent_Sections\<close>.
\<close>

section \<open>Content and hashes\<close>

abbreviation line_feed :: string where
  "line_feed \<equiv> [CHR 0x0A]"

definition hash_field :: "string \<Rightarrow> string \<Rightarrow> string" where
  "hash_field name v = name @ '':'' @ dec (length v) @ '':'' @ v @ line_feed"

definition hash_list :: "string \<Rightarrow> string list \<Rightarrow> string" where
  "hash_list name items =
     name @ '':'' @ dec (length items) @ line_feed @ concat (map (hash_field ''item'') items)"

definition norm_list :: "string list \<Rightarrow> string list" where
  "norm_list v = canon (filter (\<lambda>x. x \<noteq> []) (map trim v))"

definition normalized :: "agent_template_body \<Rightarrow> agent_template_body" where
  "normalized b = b\<lparr>tb_tools := norm_list (tb_tools b), tb_skills := norm_list (tb_skills b)\<rparr>"

definition content_bytes :: "agent_template_body \<Rightarrow> string" where
  "content_bytes b =
     (let n = normalized b
      in ''agent_template/v1'' @ line_feed @ hash_field ''role_prompt'' (tb_role_prompt n) @
         hash_list ''tools'' (tb_tools n) @ hash_list ''skills'' (tb_skills n))"

definition content_hash :: "(string \<Rightarrow> string) \<Rightarrow> agent_template_body \<Rightarrow> string" where
  "content_hash sha b = sha (content_bytes b)"

definition builtin_default :: agent_template_body where
  "builtin_default = \<lparr> tb_role_prompt = ''You are a general-purpose software engineering agent. Read before you write, and state what you could not verify.'',
     tb_tools = [''fs.read'', ''shell.run''], tb_skills = [] \<rparr>"

definition new_template :: "agent_template_id \<Rightarrow> datetime \<Rightarrow> project_id option \<Rightarrow> string \<Rightarrow> agent_template" where
  "new_template new_id now project name = \<lparr> at_id = new_id, at_project_id = project, at_name = name,
     at_description = None, at_created_by = None, at_status = TDraft, at_created_at = now, at_updated_at = now \<rparr>"

definition dependents_bytes :: "(agent_id \<Rightarrow> string) \<Rightarrow> agent_id list \<Rightarrow> string" where
  "dependents_bytes show_id ids =
     ''agent_template_dependents/v1'' @ line_feed @ hash_list ''agents'' (sort (map show_id ids))"

definition dependent_set_hash :: "(string \<Rightarrow> string) \<Rightarrow> (agent_id \<Rightarrow> string) \<Rightarrow> agent_id list \<Rightarrow> string" where
  "dependent_set_hash sha show_id ids = sha (dependents_bytes show_id ids)"

section \<open>The template tables\<close>

record agent_template_filter =
  tf_project_scope :: "project_id option option"
  tf_status :: "agent_template_status option"
  tf_limit :: nat
  tf_offset :: nat

definition create_agent_template :: "agent_template \<Rightarrow> mem_store \<Rightarrow> (store_error, unit) result \<times> mem_store" where
  "create_agent_template t s =
     (if list_ex (\<lambda>x. at_project_id x = at_project_id t \<and> at_name x = at_name t) (hm_values (ms_agent_templates s))
      then (Inl (Conflict (Msg ''agent template name already exists in this scope: {}'' [ArgStr (at_name t)])), s)
      else (Inr (), s\<lparr>ms_agent_templates := hm_insert (at_id t) t (ms_agent_templates s)\<rparr>))"

definition get_agent_template :: "agent_template_id \<Rightarrow> mem_store \<Rightarrow> (store_error, agent_template option) result" where
  "get_agent_template i s = Inr (hm_get (ms_agent_templates s) i)"

definition list_agent_templates :: "agent_template_filter \<Rightarrow> mem_store \<Rightarrow> (store_error, agent_template list) result" where
  "list_agent_templates fi s =
     Inr (take (max (tf_limit fi) 1) (drop (tf_offset fi) (sort_desc at_created_at
       (filter (\<lambda>t. (case tf_project_scope fi of Some scope \<Rightarrow> at_project_id t = scope | None \<Rightarrow> True) \<and>
                    (case tf_status fi of Some st \<Rightarrow> at_status t = st | None \<Rightarrow> True))
         (hm_values (ms_agent_templates s))))))"

definition update_agent_template_status ::
    "datetime \<Rightarrow> agent_template_id \<Rightarrow> agent_template_status \<Rightarrow> mem_store \<Rightarrow> (store_error, bool) result \<times> mem_store" where
  "update_agent_template_status now i status s =
     (case hm_get (ms_agent_templates s) i of
        Some _ \<Rightarrow> (Inr True, s\<lparr>ms_agent_templates :=
          hm_adjust i (\<lambda>t. t\<lparr>at_status := status, at_updated_at := now\<rparr>) (ms_agent_templates s)\<rparr>)
      | None \<Rightarrow> (Inr False, s))"

definition dependents :: "agent_template_id \<Rightarrow> mem_store \<Rightarrow> agent_id list" where
  "dependents i s = sort (map ag_id
     (filter (\<lambda>a. map_option pin_template_id (ag_template_pin a) = Some i) (hm_values (ms_agents s))))"

definition agent_template_dependents :: "agent_template_id \<Rightarrow> mem_store \<Rightarrow> (store_error, agent_id list) result" where
  "agent_template_dependents i s = Inr (dependents i s)"

definition retire_agent_template ::
    "(string \<Rightarrow> string) \<Rightarrow> (agent_id \<Rightarrow> string) \<Rightarrow> datetime \<Rightarrow> agent_template_id \<Rightarrow> string \<Rightarrow> mem_store
     \<Rightarrow> (store_error, bool) result \<times> mem_store" where
  "retire_agent_template sha show_id now i expected s =
     (if \<not> hm_contains (ms_agent_templates s) i then (Inr False, s)
      else let ids = dependents i s
           in if dependent_set_hash sha show_id ids \<noteq> expected
              then (Inl (Conflict (Msg ''agent template dependents changed since it was shown: {} agent(s) now depend on {}''
                     [ArgNum (int (length ids)), ArgTemplate i])), s)
              else (Inr True, s\<lparr>ms_agent_templates :=
                hm_adjust i (\<lambda>t. t\<lparr>at_status := TRetired, at_updated_at := now\<rparr>) (ms_agent_templates s)\<rparr>))"

text \<open>A signed 32-bit increment in a release build: it wraps at the largest value.\<close>

definition i32_max :: int where
  "i32_max = 2 ^ 31 - 1"

definition i32_succ :: "int \<Rightarrow> int" where
  "i32_succ n = (if n = i32_max then - (2 ^ 31) else n + 1)"

definition revisions_of :: "agent_template_id \<Rightarrow> mem_store \<Rightarrow> agent_template_revision list" where
  "revisions_of i s = filter (\<lambda>r. rev_template_id r = i) (hm_values (ms_agent_template_revisions s))"

definition next_revision :: "agent_template_id \<Rightarrow> mem_store \<Rightarrow> int" where
  "next_revision i s =
     i32_succ (case map rev_content_revision (revisions_of i s) of [] \<Rightarrow> 0 | n # ns \<Rightarrow> fold max ns n)"

definition create_agent_template_revision ::
    "(string \<Rightarrow> string) \<Rightarrow> agent_template_revision_id \<Rightarrow> datetime \<Rightarrow> agent_template_id \<Rightarrow> agent_template_body
     \<Rightarrow> string option \<Rightarrow> mem_store \<Rightarrow> (store_error, agent_template_revision) result \<times> mem_store" where
  "create_agent_template_revision sha new_id now i body created_by s =
     (case hm_get (ms_agent_templates s) i of
        None \<Rightarrow> (Inl (Conflict (Msg ''no such agent template: {template_id}'' [ArgTemplate i])), s)
      | Some t \<Rightarrow>
          if \<not> accepts_new_revisions (at_status t)
          then (Inl (Conflict (Msg ''agent template {template_id} is {} and accepts no new revisions''
                 [ArgTemplate i, ArgStr (template_status_as_str (at_status t))])), s)
          else
            let n = normalized body;
                r = \<lparr> rev_id = new_id, rev_template_id = i, rev_content_revision = next_revision i s,
                      rev_content_hash = content_hash sha n, rev_body = n, rev_revoked_at = None,
                      rev_created_by = created_by, rev_created_at = now \<rparr>
            in (Inr r, s\<lparr>ms_agent_template_revisions := hm_insert new_id r (ms_agent_template_revisions s)\<rparr>))"

definition list_agent_template_revisions ::
    "agent_template_id \<Rightarrow> mem_store \<Rightarrow> (store_error, agent_template_revision list) result" where
  "list_agent_template_revisions i s = Inr (sort_desc rev_content_revision (revisions_of i s))"

definition revoke_agent_template_revision ::
    "datetime \<Rightarrow> agent_template_revision_id \<Rightarrow> mem_store \<Rightarrow> (store_error, bool) result \<times> mem_store" where
  "revoke_agent_template_revision now i s =
     (case hm_get (ms_agent_template_revisions s) i of
        Some r \<Rightarrow>
          if rev_revoked_at r = None
          then (Inr True, s\<lparr>ms_agent_template_revisions :=
                  hm_adjust i (\<lambda>r. r\<lparr>rev_revoked_at := Some now\<rparr>) (ms_agent_template_revisions s)\<rparr>)
          else (Inr False, s)
      | None \<Rightarrow> (Inr False, s))"

section \<open>The hashed bytes determine the content\<close>

lemma digit_char:
  assumes "m < (10 :: nat)"
  shows "(char_of (48 + m) :: char) \<noteq> CHR '':''" "(char_of (48 + m) :: char) \<noteq> CHR 0x0A"
proof -
  have code: "(of_char (char_of (48 + m) :: char) :: nat) = 48 + m" using assms by (simp add: of_char_of)
  show "(char_of (48 + m) :: char) \<noteq> CHR '':''"
  proof
    assume "(char_of (48 + m) :: char) = CHR '':''"
    with code have "(of_char (CHR '':'') :: nat) = 48 + m" by metis
    then show False using assms by simp
  qed
  show "(char_of (48 + m) :: char) \<noteq> CHR 0x0A"
  proof
    assume "(char_of (48 + m) :: char) = CHR 0x0A"
    with code have "(of_char (CHR 0x0A) :: nat) = 48 + m" by metis
    then show False using assms by simp
  qed
qed

lemma dec_digits: "CHR '':'' \<notin> set (dec n) \<and> CHR 0x0A \<notin> set (dec n)"
proof (induction n rule: dec.induct)
  case (1 n)
  have "CHR '':'' \<noteq> (char_of (48 + n mod 10) :: char)" "CHR 0x0A \<noteq> (char_of (48 + n mod 10) :: char)"
    using digit_char[of "n mod 10"] by (metis mod_less_divisor zero_less_numeral)+
  then show ?case using 1 not_sym[OF digit_char(1)[of n]] not_sym[OF digit_char(2)[of n]]
    by (subst (1 2) dec.simps) simp
qed

lemma split_at_sep:
  assumes "xs @ c # r = ys @ c # q" "c \<notin> set xs" "c \<notin> set ys"
  shows "xs = ys \<and> r = q"
  using assms
proof (induction xs arbitrary: ys)
  case Nil
  then show ?case by (cases ys) auto
next
  case (Cons x xs)
  then show ?case by (cases ys) auto
qed

lemma hash_field_inj:
  assumes "hash_field name v @ r = hash_field name w @ q"
  shows "v = w \<and> r = q"
proof -
  have "dec (length v) @ CHR '':'' # (v @ line_feed @ r) = dec (length w) @ CHR '':'' # (w @ line_feed @ q)"
    using assms by (simp add: hash_field_def)
  from split_at_sep[OF this] dec_digits have "dec (length v) = dec (length w)" "v @ line_feed @ r = w @ line_feed @ q"
    by blast+
  then show ?thesis using dec_inj by fastforce
qed

lemma fields_inj:
  assumes "concat (map (hash_field name) xs) @ r = concat (map (hash_field name) ys) @ q" "length xs = length ys"
  shows "xs = ys \<and> r = q"
  using assms(2,1)
proof (induction xs ys rule: list_induct2)
  case (Cons x xs y ys)
  have "hash_field name x @ (concat (map (hash_field name) xs) @ r) =
      hash_field name y @ (concat (map (hash_field name) ys) @ q)"
    using Cons.prems by simp
  from hash_field_inj[OF this] Cons.IH show ?case by blast
qed simp

lemma hash_list_inj:
  assumes "hash_list name xs @ r = hash_list name ys @ q"
  shows "xs = ys \<and> r = q"
proof -
  have "dec (length xs) @ CHR 0x0A # (concat (map (hash_field ''item'') xs) @ r) =
      dec (length ys) @ CHR 0x0A # (concat (map (hash_field ''item'') ys) @ q)"
    using assms by (simp add: hash_list_def)
  from split_at_sep[OF this] dec_digits have "dec (length xs) = dec (length ys)"
      "concat (map (hash_field ''item'') xs) @ r = concat (map (hash_field ''item'') ys) @ q" by blast+
  then show ?thesis using fields_inj dec_inj by blast
qed

text \<open>
  The bytes hashed for a revision determine its content: two bodies give the same bytes exactly
  when they have the same prompt and the same sets of (trimmed, non-empty) tool and skill names.
\<close>

theorem content_bytes_determine:
  "content_bytes a = content_bytes b \<longleftrightarrow>
     tb_role_prompt a = tb_role_prompt b \<and>
     {trim x |x. x \<in> set (tb_tools a)} - {[]} = {trim x |x. x \<in> set (tb_tools b)} - {[]} \<and>
     {trim x |x. x \<in> set (tb_skills a)} - {[]} = {trim x |x. x \<in> set (tb_skills b)} - {[]}"
proof -
  have norm: "norm_list v = norm_list w \<longleftrightarrow> {trim x |x. x \<in> set v} - {[]} = {trim x |x. x \<in> set w} - {[]}" for v w
  proof -
    have "set (filter (\<lambda>x. x \<noteq> []) (map trim u)) = {trim x |x. x \<in> set u} - {[]}" for u by auto
    then show ?thesis by (simp add: norm_list_def canon_eq_iff)
  qed
  have "content_bytes a = content_bytes b \<longleftrightarrow> tb_role_prompt a = tb_role_prompt b \<and>
      norm_list (tb_tools a) = norm_list (tb_tools b) \<and> norm_list (tb_skills a) = norm_list (tb_skills b)"
  proof
    assume "content_bytes a = content_bytes b"
    then have "hash_field ''role_prompt'' (tb_role_prompt a) @ hash_list ''tools'' (norm_list (tb_tools a)) @
        hash_list ''skills'' (norm_list (tb_skills a)) =
      hash_field ''role_prompt'' (tb_role_prompt b) @ hash_list ''tools'' (norm_list (tb_tools b)) @
        hash_list ''skills'' (norm_list (tb_skills b))"
      by (simp add: content_bytes_def normalized_def Let_def)
    from hash_field_inj[OF this] have p: "tb_role_prompt a = tb_role_prompt b"
        "hash_list ''tools'' (norm_list (tb_tools a)) @ hash_list ''skills'' (norm_list (tb_skills a)) =
         hash_list ''tools'' (norm_list (tb_tools b)) @ hash_list ''skills'' (norm_list (tb_skills b))" by blast+
    from hash_list_inj[OF p(2)] have "norm_list (tb_tools a) = norm_list (tb_tools b)"
        "hash_list ''skills'' (norm_list (tb_skills a)) @ [] = hash_list ''skills'' (norm_list (tb_skills b)) @ []" by simp_all
    then show "tb_role_prompt a = tb_role_prompt b \<and>
      norm_list (tb_tools a) = norm_list (tb_tools b) \<and> norm_list (tb_skills a) = norm_list (tb_skills b)"
      using p(1) hash_list_inj by blast
  qed (simp add: content_bytes_def normalized_def Let_def)
  then show ?thesis by (simp add: norm)
qed

end
