(* ===== verification/Agent_Sections.thy ===== *)
theory Agent_Sections
  imports Agent_Placement Template_Store
begin

text \<open>
  The agent and template calls of the in-memory store at the granularity of their locks. Placing an agent reads the
  process cap of the worker under the lock of the workers and counts the live agents under the lock of the agents; a new template
  revision reads the template's status before the revisions are locked. \<open>.._amid others\<close> is a call with \<open>others\<close> in its gaps.
\<close>

section \<open>Calls with gaps\<close>

text \<open>What is read of a worker: whether it is there, and its cap.\<close>

definition read_cap :: "worker_id \<Rightarrow> mem_store \<Rightarrow> u32 option option" where
  "read_cap w s = map_option w_max_agent_processes (hm_get (ms_workers s) w)"

definition placed_under :: "u32 option option \<Rightarrow> agent \<Rightarrow> mem_store \<Rightarrow> worker_id option" where
  "placed_under worker_cap a s =
     (if ms_drop_placements s then None
      else case ag_worker_id a of
        None \<Rightarrow> None
      | Some w \<Rightarrow>
          (case worker_cap of
             None \<Rightarrow> None
           | Some None \<Rightarrow> Some w
           | Some (Some cap) \<Rightarrow> if hm_count (occupies w) (ms_agents s) \<ge> unat cap then None else Some w))"

definition create_locked :: "u32 option option \<Rightarrow> agent \<Rightarrow> mem_store \<Rightarrow> (store_error, worker_id option) result \<times> mem_store" where
  "create_locked worker_cap a s =
     (if list_ex (\<lambda>x. ag_project_id x = ag_project_id a \<and> ag_name x = ag_name a) (hm_values (ms_agents s))
      then (Inl (agent_name_taken a), s)
      else case (case ag_template_pin a of None \<Rightarrow> None | Some pin \<Rightarrow> pin_error pin s) of
        Some e \<Rightarrow> (Inl e, s)
      | None \<Rightarrow>
          let placed = placed_under worker_cap a s;
              stored = (if placed = None then without_placement a else a)
          in (Inr placed, s\<lparr>ms_agents := hm_insert (ag_id a) stored (ms_agents s)\<rparr>))"

definition create_agent_amid ::
    "(mem_store \<Rightarrow> mem_store) \<Rightarrow> agent \<Rightarrow> mem_store \<Rightarrow> (store_error, worker_id option) result \<times> mem_store" where
  "create_agent_amid others a s = create_locked (Option.bind (ag_worker_id a) (\<lambda>w. read_cap w s)) a (others s)"

definition assign_locked ::
    "u32 option option \<Rightarrow> datetime \<Rightarrow> datetime \<Rightarrow> agent_id \<Rightarrow> worker_id \<Rightarrow> control_fence option \<Rightarrow> mem_store
     \<Rightarrow> (store_error, slot_claim) result \<times> mem_store" where
  "assign_locked worker_cap now now' i w fence s =
     (case hm_get (ms_agents s) i of
        None \<Rightarrow> (Inr SlotNoSuchAgent, s)
      | Some a \<Rightarrow>
          (case worker_cap of
             None \<Rightarrow> (Inr SlotNoSuchWorker, s)
           | Some cap \<Rightarrow>
               if (case cap of
                     None \<Rightarrow> False
                   | Some cap \<Rightarrow> hm_count (\<lambda>x. occupies w x \<and> ag_id x \<noteq> i) (ms_agents s) \<ge> unat cap)
               then (Inr CapReached, s)
               else if ag_observed_status a = Some ObRunning \<and> ag_worker_id a \<noteq> Some w
               then (Inr ObservedRunning, s)
               else (Inr Claimed,
                     s\<lparr>ms_agents := hm_adjust i (place now now' w fence) (ms_agents s)\<rparr>)))"

definition assign_agent_worker_amid ::
    "(nat \<Rightarrow> mem_store \<Rightarrow> mem_store) \<Rightarrow> datetime \<Rightarrow> datetime \<Rightarrow> agent_id \<Rightarrow> worker_id \<Rightarrow> control_fence option \<Rightarrow> mem_store
     \<Rightarrow> (store_error, slot_claim) result \<times> mem_store" where
  "assign_agent_worker_amid others now now' i w fence s =
     (if \<not> control_fence_holds s fence then (Inr SlotFenced, s)
      else let s = others 0 s in assign_locked (read_cap w s) now now' i w fence (others 1 s))"

definition create_agent_template_revision_amid ::
    "(mem_store \<Rightarrow> mem_store) \<Rightarrow> (string \<Rightarrow> string) \<Rightarrow> agent_template_revision_id \<Rightarrow> datetime \<Rightarrow> agent_template_id \<Rightarrow> agent_template_body
     \<Rightarrow> string option \<Rightarrow> mem_store \<Rightarrow> (store_error, agent_template_revision) result \<times> mem_store" where
  "create_agent_template_revision_amid others sha new_id now i body created_by s =
     (case hm_get (ms_agent_templates s) i of
        None \<Rightarrow> (Inl (Conflict (Msg ''no such agent template: {template_id}'' [ArgTemplate i])), s)
      | Some t \<Rightarrow>
          if \<not> accepts_new_revisions (at_status t)
          then (Inl (Conflict (Msg ''agent template {template_id} is {} and accepts no new revisions''
                 [ArgTemplate i, ArgStr (template_status_as_str (at_status t))])), s)
          else
            let s = others s; n = normalized body;
                r = \<lparr> rev_id = new_id, rev_template_id = i, rev_content_revision = next_revision i s,
                      rev_content_hash = content_hash sha n, rev_body = n, rev_revoked_at = None,
                      rev_created_by = created_by, rev_created_at = now \<rparr>
            in (Inr r, s\<lparr>ms_agent_template_revisions := hm_insert new_id r (ms_agent_template_revisions s)\<rparr>))"

lemma placed_under_alone: "placed_under (Option.bind (ag_worker_id a) (\<lambda>w. read_cap w s)) a s = placed_worker a s"
  by (auto simp: placed_under_def placed_worker_def read_cap_def split: option.split)

lemma agent_amid_alone:
  "create_agent_amid (\<lambda>s. s) = create_agent"
  "assign_agent_worker_amid (\<lambda>_ s. s) = assign_agent_worker"
  "create_agent_template_revision_amid (\<lambda>s. s) = create_agent_template_revision"
proof -
  show "create_agent_amid (\<lambda>s. s) = create_agent"
  proof (intro ext)
    show "create_agent_amid (\<lambda>s. s) a s = create_agent a s" for a s
      unfolding create_agent_amid_def create_locked_def create_agent_def placed_under_alone by (rule refl)
  qed
  show "assign_agent_worker_amid (\<lambda>_ s. s) = assign_agent_worker"
    by (auto simp: assign_agent_worker_amid_def assign_locked_def assign_agent_worker_def read_cap_def fun_eq_iff split: option.split)
  show "create_agent_template_revision_amid (\<lambda>s. s) = create_agent_template_revision"
  proof (intro ext)
    show "create_agent_template_revision_amid (\<lambda>s. s) sha new_id now i body created_by s =
        create_agent_template_revision sha new_id now i body created_by s" for sha new_id now i body created_by s
      unfolding create_agent_template_revision_amid_def create_agent_template_revision_def Let_def by (rule refl)
  qed
qed

section \<open>Histories of sections\<close>

text \<open>
  Any interleaving of calls by threads that remember what they have read of a worker. Worker rows are written over by
  registrations, heartbeats and scans; \<open>AxCall\<close> stands for the calls that place no agent.
\<close>

type_synonym reads = "nat \<Rightarrow> (worker_id \<times> u32 option option) option"

datatype agent_section =
    AxRead nat worker_id
  | AxCreate nat agent
  | AxAssign nat datetime datetime agent_id worker_id "control_fence option"
  | AxWorker worker
  | AxCall agent_call

definition remembered :: "reads \<Rightarrow> nat \<Rightarrow> worker_id \<Rightarrow> u32 option option" where
  "remembered rd n w = (case rd n of Some (v, cap) \<Rightarrow> if v = w then cap else None | None \<Rightarrow> None)"

fun places_nothing :: "agent_call \<Rightarrow> bool" where
  "places_nothing (AcCreate a) = False"
| "places_nothing (AcAssign now now' i w fence) = False"
| "places_nothing _ = True"

fun agent_section_exec :: "(duration \<Rightarrow> timedelta option) \<Rightarrow> agent_section \<Rightarrow> mem_store \<times> reads \<Rightarrow> mem_store \<times> reads" where
  "agent_section_exec conv (AxRead n w) (s, rd) = (s, rd(n := Some (w, read_cap w s)))"
| "agent_section_exec conv (AxCreate n a) (s, rd) =
     (snd (create_locked (Option.bind (ag_worker_id a) (remembered rd n)) a s), rd)"
| "agent_section_exec conv (AxAssign n now now' i w fence) (s, rd) =
     (snd (assign_locked (remembered rd n w) now now' i w fence s), rd)"
| "agent_section_exec conv (AxWorker w) (s, rd) = (snd (upsert_worker w s), rd)"
| "agent_section_exec conv (AxCall k) (s, rd) = (if places_nothing k then agent_exec conv k s else s, rd)"

abbreviation agent_section_run ::
    "(duration \<Rightarrow> timedelta option) \<Rightarrow> agent_section list \<Rightarrow> mem_store \<times> reads \<Rightarrow> mem_store \<times> reads" where
  "agent_section_run conv xs \<equiv> fold (agent_section_exec conv) xs"

section \<open>Process caps\<close>

definition cap_within :: "nat \<Rightarrow> u32 option option \<Rightarrow> bool" where
  "cap_within c cap \<longleftrightarrow> (\<forall>x. cap = Some x \<longrightarrow> (\<exists>k. x = Some k \<and> unat k \<le> c))"

lemma cap_within_None [simp]: "cap_within c None"
  by (simp add: cap_within_def)

lemma create_locked_keeps:
  assumes "keyed ag_id (ms_agents s)" "hm_count (occupies w) (ms_agents s) \<le> c"
    "ag_worker_id a = Some w \<Longrightarrow> cap_within c cap"
  shows "keyed ag_id (ms_agents (snd (create_locked cap a s)))"
    "hm_count (occupies w) (ms_agents (snd (create_locked cap a s))) \<le> c"
proof -
  show "keyed ag_id (ms_agents (snd (create_locked cap a s)))"
    using assms(1) by (simp add: create_locked_def Let_def keyed_insert split: option.split)
  let ?stored = "if placed_under cap a s = None then without_placement a else a"
  have "hm_count (occupies w) (hm_insert (ag_id a) ?stored (ms_agents s)) \<le> c"
  proof (cases "occupies w ?stored")
    case True
    then have "placed_under cap a s \<noteq> None" "ag_worker_id a = Some w" by (auto simp: occupies_def split: if_splits)
    then have "hm_count (occupies w) (ms_agents s) < c" using assms(3)
      by (auto simp: placed_under_def cap_within_def split: if_splits option.splits)
    then show ?thesis using order_trans[OF hm_count_insert_le[of "occupies w" "ag_id a" ?stored "ms_agents s"], of c] True
      by (metis Suc_eq_plus1 Suc_leI)
  next
    case False
    then show ?thesis using order_trans[OF hm_count_insert_le[of "occupies w" "ag_id a" ?stored "ms_agents s"], of c] assms(2)
      by (metis add.right_neutral)
  qed
  moreover have "ms_agents (snd (create_locked cap a s)) \<in> {ms_agents s, hm_insert (ag_id a) ?stored (ms_agents s)}"
    unfolding create_locked_def Let_def by (cases "case ag_template_pin a of None \<Rightarrow> None | Some pin \<Rightarrow> pin_error pin s") simp_all
  ultimately show "hm_count (occupies w) (ms_agents (snd (create_locked cap a s))) \<le> c"
    using assms(2) by auto
qed

lemma assign_locked_keeps:
  assumes "keyed ag_id (ms_agents s)" "hm_count (occupies w) (ms_agents s) \<le> c" "v = w \<Longrightarrow> cap_within c cap"
  shows "keyed ag_id (ms_agents (snd (assign_locked cap now now' i v fence s)))"
    "hm_count (occupies w) (ms_agents (snd (assign_locked cap now now' i v fence s))) \<le> c"
proof -
  show "keyed ag_id (ms_agents (snd (assign_locked cap now now' i v fence s)))"
    using assms(1) by (simp add: assign_locked_def keyed_adjust split: option.split)
  show "hm_count (occupies w) (ms_agents (snd (assign_locked cap now now' i v fence s))) \<le> c"
  proof (cases "snd (assign_locked cap now now' i v fence s) = s")
    case False
    then obtain x where x: "cap = Some x"
      "\<And>k. x = Some k \<Longrightarrow> hm_count (\<lambda>y. occupies v y \<and> ag_id y \<noteq> i) (ms_agents s) < unat k"
      "snd (assign_locked cap now now' i v fence s) = s\<lparr>ms_agents := hm_adjust i (place now now' v fence) (ms_agents s)\<rparr>"
      by (auto simp: assign_locked_def split: option.splits if_splits)
    show ?thesis
    proof (cases "v = w")
      case True
      then obtain k where "x = Some k" "unat k \<le> c" using assms(3) x(1) by (auto simp: cap_within_def)
      then have "hm_count (\<lambda>y. occupies w y \<and> ag_id y \<noteq> i) (ms_agents s) < c" using x(2) True by fastforce
      moreover have "hm_count (occupies w) (hm_adjust i (place now now' v fence) (ms_agents s))
          \<le> hm_count (\<lambda>y. occupies w y \<and> ag_id y \<noteq> i) (ms_agents s) + 1"
        using assms(1) by (rule keyed_count_adjust) simp
      ultimately show ?thesis by (simp add: x(3))
    next
      case False
      have "hm_count (occupies w) (hm_adjust i (place now now' v fence) (ms_agents s)) \<le> hm_count (occupies w) (ms_agents s)"
        using False by (intro hm_count_adjust_le) (simp add: occupies_def)
      then show ?thesis using assms(2) by (simp add: x(3))
    qed
  qed (use assms(2) in simp)
qed

lemma no_placement_keeps:
  assumes "places_nothing k"
  shows "hm_count (occupies w) (ms_agents (agent_exec conv k s)) \<le> hm_count (occupies w) (ms_agents s)"
proof (cases k)
  case (AcAck v acks)
  then show ?thesis by (simp add: ack_agent_commands_def case_prod_beta ack_loop_count)
next
  case (AcObserve now v obs)
  have "hm_count (occupies w) (hm_map_values (unobserve v obs) (ms_agents s)) \<le> hm_count (occupies w) (ms_agents s)"
    by (rule hm_count_map_values_le) (simp add: occupies_def)
  then have "hm_count (occupies w) (snd (observe_loop now v obs n (hm_map_values (unobserve v obs) (ms_agents s))))
      \<le> hm_count (occupies w) (ms_agents s)" for n using observe_loop_count order_trans by blast
  then show ?thesis by (simp add: AcObserve apply_agent_observations_def case_prod_beta Let_def)
next
  case (AcDeleteWorker v)
  have "hm_count (occupies w) (hm_map_values (\<lambda>a. if ag_worker_id a = Some v then clear_placement a else a) (ms_agents s))
      \<le> hm_count (occupies w) (ms_agents s)"
    by (rule hm_count_map_values_le) (auto simp: occupies_def split: if_splits)
  then show ?thesis by (simp add: AcDeleteWorker delete_worker_def split: option.split)
next
  case (AcStop now now' i)
  have "hm_count (occupies w) (hm_adjust i (set_status now now' AgStopped) (ms_agents s)) \<le> hm_count (occupies w) (ms_agents s)"
    by (rule hm_count_adjust_le) (simp add: occupies_def)
  then show ?thesis by (simp add: AcStop update_agent_status_def split: option.split)
next
  case (AcDesire now now' i d fence)
  have "hm_count (occupies w) (hm_adjust i (command now now' d fence) (ms_agents s)) \<le> hm_count (occupies w) (ms_agents s)"
    by (rule hm_count_adjust_le) (simp add: occupies_def)
  then show ?thesis by (simp add: AcDesire set_agent_desired_status_def split: option.split)
qed (use assms in simp_all)

text \<open>No row and no memory of worker \<open>w\<close> names more than \<open>c\<close> processes.\<close>

definition capped :: "nat \<Rightarrow> worker_id \<Rightarrow> mem_store \<times> reads \<Rightarrow> bool" where
  "capped c w = (\<lambda>(s, rd). keyed ag_id (ms_agents s) \<and> hm_count (occupies w) (ms_agents s) \<le> c \<and>
     cap_within c (read_cap w s) \<and> (\<forall>n. cap_within c (remembered rd n w)))"

lemma read_cap_upsert: "read_cap w (snd (upsert_worker v s)) =
    (if w_id v = w then Some (w_max_agent_processes v) else read_cap w s)"
  by (simp add: read_cap_def upsert_worker_def Let_def hm_get_insert split: option.split)

lemma read_cap_call: "places_nothing k \<Longrightarrow> read_cap w (agent_exec conv k s) \<in> {None, read_cap w s}"
  using agent_exec_workers[of k conv s]
  by (cases "\<exists>v. k = AcDeleteWorker v") (auto simp: read_cap_def delete_worker_def hm_get_remove split: option.split)

lemma capped_step:
  assumes "capped c w st" "\<And>v. x = AxWorker v \<Longrightarrow> w_id v = w \<Longrightarrow> cap_within c (Some (w_max_agent_processes v))"
  shows "capped c w (agent_section_exec conv x st)"
proof -
  obtain s rd where st: "st = (s, rd)" by (cases st)
  have i: "keyed ag_id (ms_agents s)" "hm_count (occupies w) (ms_agents s) \<le> c" "cap_within c (read_cap w s)"
    "\<And>n. cap_within c (remembered rd n w)" using assms(1) by (simp_all add: capped_def st)
  show ?thesis
  proof (cases x)
    case (AxRead n v)
    then show ?thesis using i by (auto simp: capped_def st remembered_def)
  next
    case (AxCreate n a)
    let ?cap = "Option.bind (ag_worker_id a) (remembered rd n)"
    have "ag_worker_id a = Some w \<Longrightarrow> cap_within c ?cap" using i(4) by simp
    note create_locked_keeps[OF i(1,2) this]
    moreover have "ms_workers (snd (create_locked ?cap a s)) = ms_workers s"
      unfolding create_locked_def Let_def
      by (cases "case ag_template_pin a of None \<Rightarrow> None | Some pin \<Rightarrow> pin_error pin s") simp_all
    ultimately show ?thesis using i(3,4) by (simp add: capped_def st AxCreate read_cap_def)
  next
    case (AxAssign n now now' j v fence)
    have "v = w \<Longrightarrow> cap_within c (remembered rd n v)" using i(4) by simp
    note assign_locked_keeps[OF i(1,2) this]
    moreover have "ms_workers (snd (assign_locked (remembered rd n v) now now' j v fence s)) = ms_workers s"
      by (simp add: assign_locked_def split: option.split)
    ultimately show ?thesis using i(3,4) by (simp add: capped_def st AxAssign read_cap_def)
  next
    case (AxWorker v)
    have "ms_agents (snd (upsert_worker v s)) = ms_agents s" by (simp add: upsert_worker_def Let_def)
    then show ?thesis using i assms(2)[OF AxWorker] by (auto simp: capped_def st AxWorker read_cap_upsert)
  next
    case (AxCall k)
    show ?thesis
    proof (cases "places_nothing k")
      case True
      then show ?thesis using i agent_exec_keyed[OF i(1), of conv k] no_placement_keeps[OF True, of w conv s]
          read_cap_call[OF True, of w conv s] by (auto simp: capped_def st AxCall)
    qed (use assms(1) in \<open>simp add: AxCall st\<close>)
  qed
qed

lemma capped_run:
  assumes "capped c w st" "\<forall>v. AxWorker v \<in> set xs \<longrightarrow> w_id v = w \<longrightarrow> cap_within c (Some (w_max_agent_processes v))"
  shows "capped c w (agent_section_run conv xs st)"
  using assms
proof (induction xs arbitrary: st)
  case (Cons x xs)
  have "capped c w (agent_section_exec conv x st)" using Cons.prems by (intro capped_step) simp_all
  then show ?case using Cons.IH Cons.prems(2) by simp
qed simp

text \<open>
  C22. A worker never carries more live agents than the largest cap it has had: if it starts with at most \<open>c\<close> live
  agents, and its row at the start and every row a registration or heartbeat writes for it cap it at \<open>c\<close> or less, then after any
  interleaving of threads creating and placing agents, re-registering and deleting workers, stopping, commanding, acknowledging and
  observing agents it carries at most \<open>c\<close>, although a thread decides on a cap it read before the agents were locked and that may be out of date.
\<close>

theorem process_caps_hold:
  assumes "keyed ag_id (ms_agents s)"
    "hm_count (\<lambda>a. ag_worker_id a = Some w \<and> ag_status a \<noteq> AgStopped) (ms_agents s) \<le> c"
    "\<forall>v. (hm_get (ms_workers s) w = Some v \<or> AxWorker v \<in> set xs \<and> w_id v = w) \<longrightarrow>
       (\<exists>cap. w_max_agent_processes v = Some cap \<and> unat cap \<le> c)"
  shows "hm_count (\<lambda>a. ag_worker_id a = Some w \<and> ag_status a \<noteq> AgStopped)
    (ms_agents (fst (agent_section_run conv xs (s, Map.empty)))) \<le> c"
proof -
  have "capped c w (s, Map.empty)" using assms
    by (auto simp: capped_def occupies_def[abs_def] read_cap_def cap_within_def remembered_def)
  then have "capped c w (agent_section_run conv xs (s, Map.empty))"
    by (rule capped_run) (use assms(3) in \<open>simp add: cap_within_def\<close>)
  then show ?thesis by (auto simp: capped_def occupies_def[abs_def])
qed

lemma process_caps_hold_witness:
  "hm_count (\<lambda>a. ag_worker_id a = Some (WorkerId 1) \<and> ag_status a \<noteq> AgStopped)
     (ms_agents (fst (agent_section_run ns_conv
       [AxRead 0 (WorkerId 1), AxWorker (capped_worker 1 1), AxCreate 0 (with_placement (WorkerId 1) 0 (plain_agent 1 ''a'')),
        AxRead 1 (WorkerId 1), AxAssign 0 5 5 (AgentId 1) (WorkerId 1) None]
       (empty_store\<lparr>ms_workers := [(WorkerId 1, capped_worker 1 2)]\<rparr>, Map.empty)))) \<le> 2"
proof (rule process_caps_hold)
  show "keyed ag_id (ms_agents (empty_store\<lparr>ms_workers := [(WorkerId 1, capped_worker 1 2)]\<rparr>))"
    by (simp add: empty_store_def)
  show "hm_count (\<lambda>a. ag_worker_id a = Some (WorkerId 1) \<and> ag_status a \<noteq> AgStopped)
      (ms_agents (empty_store\<lparr>ms_workers := [(WorkerId 1, capped_worker 1 2)]\<rparr>)) \<le> 2"
    by (simp add: empty_store_def hm_count_def hm_values_def)
qed (auto simp: hm_get_def)

end
