(* ===== verification/Access_Model.thy ===== *)
theory Access_Model
  imports Core_Types Workspace_Path
begin

text \<open>
  Users, roles, permissions, sessions and audit events (\<open>crates/fleet-core/src/auth.rs\<close>,
  \<open>audit.rs\<close>). Strings are UTF-8 bytes; passwords are known only through their Argon2 hash, tokens only
  through their SHA-256 hash.
\<close>

section \<open>Permissions and roles\<close>

datatype permission_kind =
    PDashboardView | PTaskList | PTaskCreate | PTaskCancel | PTaskRead | PTaskOutput |
    PTaskDelete | PWorkerList | PWorkerRegister | PWorkerDelete | PWorkerCredentialManage |
    PWorkerLlmCredentialRead | PWorkerLlmCredentialExport | PWorkerLlmCredentialManage |
    PTokenIssue | PTokenList | PTokenRevoke | PAdminTokenManage | PAdminTokenList | PUserCreate |
    PUserDelete | PUserRead | PUserRoleAssign | PUserRoleRevoke | PRoleCreate | PRoleDelete |
    PAuditRead | PHostProvision | PProjectRead | PProjectCreate | PProjectDelete | PAgentRead |
    PAgentManage | PAgentTemplateRead | PAgentTemplateCreate | PAgentTemplateUpdate |
    PAgentTemplateLifecycle | PAgentTemplateRevisionRevoke | PAgentTemplateManageGlobal |
    PIssueRead | PIssueCreate | PIssueComment | PIssueUpdate | PIssueAssign |
    PIssueApproveAgentWork | PIssueClose | PIssueReopen | PIssueLink | PEventsList | PMetricsView

primrec permission_as_str :: "permission_kind \<Rightarrow> string" where
  "permission_as_str PDashboardView = ''dashboard:view''"
| "permission_as_str PTaskList = ''task:list''"
| "permission_as_str PTaskCreate = ''task:create''"
| "permission_as_str PTaskCancel = ''task:cancel''"
| "permission_as_str PTaskRead = ''task:read''"
| "permission_as_str PTaskOutput = ''task:output''"
| "permission_as_str PTaskDelete = ''task:delete''"
| "permission_as_str PWorkerList = ''worker:list''"
| "permission_as_str PWorkerRegister = ''worker:register''"
| "permission_as_str PWorkerDelete = ''worker:delete''"
| "permission_as_str PWorkerCredentialManage = ''worker:credential:manage''"
| "permission_as_str PWorkerLlmCredentialRead = ''worker:llm_credential:read''"
| "permission_as_str PWorkerLlmCredentialExport = ''worker:llm_credential:export''"
| "permission_as_str PWorkerLlmCredentialManage = ''worker:llm_credential:manage''"
| "permission_as_str PTokenIssue = ''token:issue''"
| "permission_as_str PTokenList = ''token:list''"
| "permission_as_str PTokenRevoke = ''token:revoke''"
| "permission_as_str PAdminTokenManage = ''admin_token:manage''"
| "permission_as_str PAdminTokenList = ''admin_token:list''"
| "permission_as_str PUserCreate = ''user:create''"
| "permission_as_str PUserDelete = ''user:delete''"
| "permission_as_str PUserRead = ''user:read''"
| "permission_as_str PUserRoleAssign = ''user:role:assign''"
| "permission_as_str PUserRoleRevoke = ''user:role:revoke''"
| "permission_as_str PRoleCreate = ''role:create''"
| "permission_as_str PRoleDelete = ''role:delete''"
| "permission_as_str PAuditRead = ''audit:read''"
| "permission_as_str PHostProvision = ''host:provision''"
| "permission_as_str PProjectRead = ''project:read''"
| "permission_as_str PProjectCreate = ''project:create''"
| "permission_as_str PProjectDelete = ''project:delete''"
| "permission_as_str PAgentRead = ''agent:read''"
| "permission_as_str PAgentManage = ''agent:manage''"
| "permission_as_str PAgentTemplateRead = ''agent_template:read''"
| "permission_as_str PAgentTemplateCreate = ''agent_template:create''"
| "permission_as_str PAgentTemplateUpdate = ''agent_template:update''"
| "permission_as_str PAgentTemplateLifecycle = ''agent_template:lifecycle''"
| "permission_as_str PAgentTemplateRevisionRevoke = ''agent_template:revision_revoke''"
| "permission_as_str PAgentTemplateManageGlobal = ''agent_template:manage_global''"
| "permission_as_str PIssueRead = ''issue:read''"
| "permission_as_str PIssueCreate = ''issue:create''"
| "permission_as_str PIssueComment = ''issue:comment''"
| "permission_as_str PIssueUpdate = ''issue:update''"
| "permission_as_str PIssueAssign = ''issue:assign''"
| "permission_as_str PIssueApproveAgentWork = ''issue:approve_agent_work''"
| "permission_as_str PIssueClose = ''issue:close''"
| "permission_as_str PIssueReopen = ''issue:reopen''"
| "permission_as_str PIssueLink = ''issue:link''"
| "permission_as_str PEventsList = ''events:list''"
| "permission_as_str PMetricsView = ''metrics:view''"

definition all_permissions :: "permission_kind list" where
  "all_permissions =
    [PDashboardView, PTaskList, PTaskCreate, PTaskCancel, PTaskRead, PTaskOutput, PTaskDelete,
     PWorkerList, PWorkerRegister, PWorkerDelete, PWorkerCredentialManage,
     PWorkerLlmCredentialRead, PWorkerLlmCredentialExport, PWorkerLlmCredentialManage, PTokenIssue,
     PTokenList, PTokenRevoke, PAdminTokenManage, PAdminTokenList, PUserCreate, PUserDelete,
     PUserRead, PUserRoleAssign, PUserRoleRevoke, PRoleCreate, PRoleDelete, PAuditRead,
     PHostProvision, PProjectRead, PProjectCreate, PProjectDelete, PAgentRead, PAgentManage,
     PAgentTemplateRead, PAgentTemplateCreate, PAgentTemplateUpdate, PAgentTemplateLifecycle,
     PAgentTemplateRevisionRevoke, PAgentTemplateManageGlobal, PIssueRead, PIssueCreate,
     PIssueComment, PIssueUpdate, PIssueAssign, PIssueApproveAgentWork, PIssueClose, PIssueReopen,
     PIssueLink, PEventsList, PMetricsView]"

definition permission_from_name :: "string \<Rightarrow> permission_kind option" where
  "permission_from_name name = List.find (\<lambda>p. permission_as_str p = name) all_permissions"

datatype builtin_role = RoleAdmin | RoleOperator | RoleViewer

primrec role_name :: "builtin_role \<Rightarrow> string" where
  "role_name RoleAdmin = ''admin''"
| "role_name RoleOperator = ''operator''"
| "role_name RoleViewer = ''viewer''"

primrec role_description :: "builtin_role \<Rightarrow> string" where
  "role_description RoleAdmin = ''Full access to all features including user management''"
| "role_description RoleOperator = ''Manage tasks and workers, view dashboard''"
| "role_description RoleViewer = ''Read-only access to dashboard''"

primrec role_grants :: "builtin_role \<Rightarrow> permission_kind list" where
  "role_grants RoleAdmin = all_permissions"
| "role_grants RoleOperator =
    [PDashboardView, PTaskList, PTaskCreate, PTaskCancel, PTaskRead, PTaskOutput, PWorkerList,
     PProjectRead, PAgentRead, PAgentTemplateRead, PAgentTemplateUpdate, PEventsList, PMetricsView]"
| "role_grants RoleViewer =
    [PDashboardView, PTaskList, PTaskRead, PWorkerList, PProjectRead, PAgentRead,
     PAgentTemplateRead, PEventsList]"

definition all_roles :: "builtin_role list" where
  "all_roles = [RoleAdmin, RoleOperator, RoleViewer]"

datatype bootstrap_purpose = WorkerJoin | AdminBootstrap

primrec purpose_as_str :: "bootstrap_purpose \<Rightarrow> string" where
  "purpose_as_str WorkerJoin = ''worker_join''"
| "purpose_as_str AdminBootstrap = ''admin_bootstrap''"

definition purpose_parse :: "string \<Rightarrow> bootstrap_purpose option" where
  "purpose_parse s = (if s = ''worker_join'' then Some WorkerJoin
     else if s = ''admin_bootstrap'' then Some AdminBootstrap else None)"

section \<open>Users\<close>

datatype user_id = UserId uuid
datatype role_id = RoleId uuid
datatype permission_id = PermissionId uuid
datatype session_id = SessionId uuid

record user =
  us_id :: user_id
  us_username :: string
  us_email :: "string option"
  us_email_verified :: bool
  us_password_hash :: string
  us_enabled :: bool
  us_created_at :: datetime
  us_last_login_at :: "datetime option"

datatype auth_error = InvalidUsername | InvalidEmail | WeakPassword | HashFailed string | HashParseFailed string
  | InvalidSession | UserNotFound | UserDisabled

definition code :: "char \<Rightarrow> nat" where
  "code c = of_char c"

definition ascii_alpha :: "char \<Rightarrow> bool" where
  "ascii_alpha c = (code c \<in> {65..90} \<or> code c \<in> {97..122})"

definition ascii_alnum :: "char \<Rightarrow> bool" where
  "ascii_alnum c = (ascii_alpha c \<or> code c \<in> {48..57})"

definition validate_username :: "string \<Rightarrow> (auth_error, unit) result" where
  "validate_username name =
     (if name = [] \<or> length name > 64 then Inl InvalidUsername
      else case name of
        [] \<Rightarrow> Inl InvalidUsername
      | c # cs \<Rightarrow>
          if \<not> ascii_alpha c then Inl InvalidUsername
          else if \<not> list_all (\<lambda>c. ascii_alnum c \<or> c = CHR ''_'' \<or> c = CHR ''-'') cs then Inl InvalidUsername
          else if length name < 3 then Inl InvalidUsername
          else Inr ())"

definition validate_email :: "string \<Rightarrow> (auth_error, unit) result" where
  "validate_email addr =
     (if addr = [] \<or> length addr > 254 then Inl InvalidEmail
      else if CHR ''@'' \<notin> set addr then Inl InvalidEmail
      else let local = takeWhile (\<lambda>c. c \<noteq> CHR ''@'') addr;
               domain = tl (dropWhile (\<lambda>c. c \<noteq> CHR ''@'') addr)
           in if local = [] \<or> length local > 64 then Inl InvalidEmail
              else if domain = [] \<or> CHR ''.'' \<notin> set domain then Inl InvalidEmail
              else if \<not> list_all (\<lambda>c. ascii_alnum c \<or> c = CHR ''.'' \<or> c = CHR ''-'' \<or> c = CHR ''_'' \<or> c = CHR ''+'') local
              then Inl InvalidEmail
              else Inr ())"

record role =
  ro_id :: role_id
  ro_name :: string
  ro_description :: "string option"
  ro_builtin :: bool
  ro_created_at :: datetime

record permission =
  pm_id :: permission_id
  pm_name :: string
  pm_description :: "string option"

section \<open>Sessions, tokens, login attempts\<close>

record session =
  se_id :: session_id
  se_user_id :: user_id
  se_token_hash :: string
  se_created_at :: datetime
  se_expires_at :: datetime
  se_ip_address :: "string option"
  se_user_agent :: "string option"

definition session_expired :: "datetime \<Rightarrow> session \<Rightarrow> bool" where
  "session_expired now s = (se_expires_at s \<le> now)"

record verification_token =
  vt_id :: uuid
  vt_user_id :: user_id
  vt_token_hash :: string
  vt_created_at :: datetime
  vt_expires_at :: datetime
  vt_consumed_at :: "datetime option"

definition token_expired :: "datetime \<Rightarrow> verification_token \<Rightarrow> bool" where
  "token_expired now t = (vt_expires_at t \<le> now)"

definition token_consumed :: "verification_token \<Rightarrow> bool" where
  "token_consumed t = (vt_consumed_at t \<noteq> None)"

record login_attempt =
  la_identifier :: string
  la_ip_address :: "string option"
  la_success :: bool
  la_failure_reason :: "string option"
  la_attempted_at :: datetime

record admin_api_token =
  aa_principal_id :: string
  aa_token_digest :: string
  aa_capabilities :: "permission_kind list"
  aa_created_at :: datetime
  aa_rotated_at :: "datetime option"
  aa_revoked_at :: "datetime option"
  aa_rotation_generation :: int

section \<open>Audit events\<close>

text \<open>The random id and the JSON detail of an event are left out: nothing reads them.\<close>

datatype audit_outcome = AuditSuccess | AuditFailure

primrec outcome_as_str :: "audit_outcome \<Rightarrow> string" where
  "outcome_as_str AuditSuccess = ''success''"
| "outcome_as_str AuditFailure = ''failure''"

definition outcome_parse :: "string \<Rightarrow> audit_outcome option" where
  "outcome_parse s = (if s = ''success'' then Some AuditSuccess else if s = ''failure'' then Some AuditFailure else None)"

record audit_event =
  ae_actor_user_id :: "user_id option"
  ae_actor_label :: string
  ae_action :: string
  ae_target_type :: "string option"
  ae_target_id :: "string option"
  ae_outcome :: audit_outcome
  ae_ip_address :: "string option"
  ae_project_id :: "project_id option"
  ae_control_epoch :: "int option"
  ae_created_at :: datetime

definition new_event :: "datetime \<Rightarrow> string \<Rightarrow> string \<Rightarrow> audit_outcome \<Rightarrow> audit_event" where
  "new_event now label action out = \<lparr> ae_actor_user_id = None, ae_actor_label = label, ae_action = action,
     ae_target_type = None, ae_target_id = None, ae_outcome = out, ae_ip_address = None, ae_project_id = None,
     ae_control_epoch = None, ae_created_at = now \<rparr>"

record audit_filter =
  af_actor_user_id :: "user_id option"
  af_action :: "string option"
  af_project :: "project_id option"
  af_max :: nat
  af_skip :: nat

section \<open>Names of permissions\<close>

lemma all_permissions_complete: "p \<in> set all_permissions"
  by (cases p) (simp_all add: all_permissions_def)

lemma distinct_permission_names: "distinct (map permission_as_str all_permissions)"
  by (simp add: all_permissions_def)

lemma find_by_name: "distinct (map f xs) \<Longrightarrow> x \<in> set xs \<Longrightarrow> List.find (\<lambda>y. f y = f x) xs = Some x"
  by (induction xs) auto

lemma permission_from_name_iff: "permission_from_name n = Some p \<longleftrightarrow> n = permission_as_str p"
proof
  assume "permission_from_name n = Some p"
  then show "n = permission_as_str p" by (auto simp: permission_from_name_def find_Some_iff)
next
  assume "n = permission_as_str p"
  then show "permission_from_name n = Some p"
    unfolding permission_from_name_def
    using find_by_name[OF distinct_permission_names all_permissions_complete] by simp
qed

lemma permission_as_str_inj: "permission_as_str p = permission_as_str q \<longleftrightarrow> p = q"
  by (metis permission_from_name_iff option.inject)

text \<open>
  An accepted address has a non-empty local part of at most 64 plain characters before its first
  at-sign, a dotted domain after it and at most 254 bytes; an accepted user name is 3 to 64 letters,
  digits, underscores and hyphens starting with a letter.
\<close>

theorem identity_syntax:
  "(validate_email a = Inr () \<longleftrightarrow> (\<exists>l d. a = l @ CHR ''@'' # d \<and> l \<noteq> [] \<and> length l \<le> 64 \<and> CHR ''.'' \<in> set d \<and>
      length a \<le> 254 \<and> (\<forall>c \<in> set l. ascii_alnum c \<or> c \<in> set ''.-_+''))) \<and>
   (validate_username n = Inr () \<longleftrightarrow> 3 \<le> length n \<and> length n \<le> 64 \<and> ascii_alpha (hd n) \<and>
      (\<forall>c \<in> set n. ascii_alnum c \<or> c \<in> set ''_-''))"
proof
  have at: "\<not> ascii_alnum (CHR ''@'')" by (simp add: ascii_alnum_def ascii_alpha_def code_def)
  show "validate_email a = Inr () \<longleftrightarrow> (\<exists>l d. a = l @ CHR ''@'' # d \<and> l \<noteq> [] \<and> length l \<le> 64 \<and> CHR ''.'' \<in> set d \<and>
      length a \<le> 254 \<and> (\<forall>c \<in> set l. ascii_alnum c \<or> c \<in> set ''.-_+''))" (is "?L \<longleftrightarrow> (\<exists>l d. ?R l d)")
  proof
    assume ?L
    let ?l = "takeWhile (\<lambda>c. c \<noteq> CHR ''@'') a" and ?d = "tl (dropWhile (\<lambda>c. c \<noteq> CHR ''@'') a)"
    have mem: "CHR ''@'' \<in> set a" using \<open>?L\<close> by (auto simp: validate_email_def split: if_splits)
    then have "dropWhile (\<lambda>c. c \<noteq> CHR ''@'') a \<noteq> []" by (simp add: dropWhile_eq_Nil_conv)
    then have "dropWhile (\<lambda>c. c \<noteq> CHR ''@'') a = CHR ''@'' # ?d"
      using hd_dropWhile[of "\<lambda>c. c \<noteq> CHR ''@''" a] by (metis list.collapse)
    then have "a = ?l @ CHR ''@'' # ?d" by (metis takeWhile_dropWhile_id)
    then have "?R ?l ?d" using \<open>?L\<close> by (auto simp: validate_email_def Let_def list_all_iff split: if_splits)
    then show "\<exists>l d. ?R l d" by blast
  next
    assume "\<exists>l d. ?R l d"
    then obtain l d where r: "?R l d" by blast
    then have "CHR ''@'' \<notin> set l" using at by auto
    then have "takeWhile (\<lambda>c. c \<noteq> CHR ''@'') a = l" "dropWhile (\<lambda>c. c \<noteq> CHR ''@'') a = CHR ''@'' # d"
      using r by (auto simp: takeWhile_append dropWhile_append)
    then show ?L using r by (auto simp: validate_email_def Let_def list_all_iff)
  qed
  show "validate_username n = Inr () \<longleftrightarrow> 3 \<le> length n \<and> length n \<le> 64 \<and> ascii_alpha (hd n) \<and>
      (\<forall>c \<in> set n. ascii_alnum c \<or> c \<in> set ''_-'')"
    by (cases n) (auto simp: validate_username_def list_all_iff ascii_alnum_def)
qed

end
