(* ===== verification/Breaker.thy ===== *)
theory Breaker
  imports Complex_Main Core_Types
begin

text \<open>
  The circuit breaker of a worker and its registry (\<open>crates/fleet-scheduler/src/breaker.rs\<close>),
  with the configuration of \<open>fleet-core/src/config.rs\<close>. \<open>Instant\<close>s are naturals. The error
  rate is an \<open>f64\<close> quotient; \<open>f64_quotient\<close> rounds it to 53 significant bits, ties to even, and
  the threshold is a (finite) \<open>f64\<close>, a rational.
\<close>

section \<open>Floating-point quotients\<close>

text \<open>The least power of two that lifts \<open>a\<close> to at least \<open>b\<close>.\<close>

function lift_exp :: "nat \<Rightarrow> nat \<Rightarrow> nat" where
  "lift_exp a b = (if a = 0 \<or> b \<le> a then 0 else Suc (lift_exp (2 * a) b))"
  by auto
termination
  by (relation "measure (\<lambda>(a, b). b - a)") auto

declare lift_exp.simps [simp del]

definition round_half_even :: "nat \<Rightarrow> nat \<Rightarrow> nat" where
  "round_half_even n d =
     (let q = n div d; r = n mod d
      in if 2 * r < d \<or> (2 * r = d \<and> even q) then q else q + 1)"

text \<open>\<open>a as f64 / b as f64\<close> for \<open>a \<le> b\<close> below 2^53 and \<open>b > 0\<close>: a quotient in the unit interval.\<close>

definition f64_quotient :: "nat \<Rightarrow> nat \<Rightarrow> rat" where
  "f64_quotient a b =
     (if a = 0 then 0
      else let e = 52 + lift_exp a b
           in of_nat (round_half_even (a * 2 ^ e) b) / 2 ^ e)"

text \<open>\<open>a as f64 / b as f64 >= t\<close>; dividing by zero gives infinity, or NaN, which compares false.\<close>

definition rate_reaches :: "nat \<Rightarrow> nat \<Rightarrow> rat \<Rightarrow> bool" where
  "rate_reaches a b t = (if b = 0 then 0 < a else f64_quotient a b \<ge> t)"

section \<open>The breaker\<close>

record circuit_breaker_config =
  cb_enabled :: bool
  cb_window_duration_secs :: u64
  cb_min_samples :: u32
  cb_error_rate_threshold :: rat
  cb_open_duration_secs :: u64
  cb_half_open_max_probes :: u32
  cb_failure_codes :: "16 word list"

definition default_breaker_config :: circuit_breaker_config where
  "default_breaker_config = \<lparr> cb_enabled = True, cb_window_duration_secs = 60, cb_min_samples = 10,
     cb_error_rate_threshold = 1 / 2, cb_open_duration_secs = 10, cb_half_open_max_probes = 1,
     cb_failure_codes = [429, 500, 502, 503, 504] \<rparr>"

datatype breaker_state = BClosed | BOpen | BHalfOpen

fun circuit_of :: "breaker_state \<Rightarrow> circuit_state" where
  "circuit_of BClosed = CClosed"
| "circuit_of BOpen = COpen"
| "circuit_of BHalfOpen = CHalfOpen"

datatype outcome = Success | Failure

record breaker_inner =
  bi_state :: breaker_state
  bi_samples :: "(bool \<times> instant) list"
  bi_opened_at :: "instant option"
  bi_half_open_probes :: "instant list"

definition new_inner :: breaker_inner where
  "new_inner = \<lparr> bi_state = BClosed, bi_samples = [], bi_opened_at = None, bi_half_open_probes = [] \<rparr>"

definition new_with_state :: "instant \<Rightarrow> circuit_state \<Rightarrow> breaker_inner" where
  "new_with_state now st =
     (let b = new_inner\<lparr>bi_state := (case st of CClosed \<Rightarrow> BClosed | COpen \<Rightarrow> BOpen | CHalfOpen \<Rightarrow> BHalfOpen)\<rparr>
      in if st = COpen then b\<lparr>bi_opened_at := Some now\<rparr> else b)"

text \<open>\<open>BreakerOpen { remaining }\<close>.\<close>

datatype breaker_open = BreakerOpen (remaining_wait: duration)

text \<open>\<open>now\<close> is the reading at entry, \<open>now'\<close> the one behind \<open>t.elapsed()\<close>.\<close>

definition check ::
    "circuit_breaker_config \<Rightarrow> instant \<Rightarrow> instant \<Rightarrow> breaker_inner
     \<Rightarrow> (breaker_open, unit) result \<times> breaker_inner" where
  "check cfg now now' b =
     (case bi_state b of
        BClosed \<Rightarrow> (Inr (), b)
      | BOpen \<Rightarrow>
          let elapsed = (case bi_opened_at b of Some t \<Rightarrow> now' - t | None \<Rightarrow> 0);
              cool_down = secs (unat (cb_open_duration_secs cfg))
          in if elapsed \<ge> cool_down
             then (Inr (), b\<lparr>bi_state := BHalfOpen, bi_half_open_probes := [now]\<rparr>)
             else (Inl (BreakerOpen (cool_down - elapsed)), b)
      | BHalfOpen \<Rightarrow>
          let stale_after = secs (unat (max (cb_open_duration_secs cfg) 1));
              probes = filter (\<lambda>issued_at. now - issued_at < stale_after) (bi_half_open_probes b);
              max_probes = unat (max (cb_half_open_max_probes cfg) 1)
          in if length probes < max_probes
             then (Inr (), b\<lparr>bi_half_open_probes := probes @ [now]\<rparr>)
             else (Inl (BreakerOpen 0), b\<lparr>bi_half_open_probes := probes\<rparr>))"

definition record_outcome ::
    "circuit_breaker_config \<Rightarrow> instant \<Rightarrow> outcome \<Rightarrow> breaker_inner \<Rightarrow> breaker_state \<times> breaker_inner" where
  "record_outcome cfg now out b =
     (let window = secs (unat (cb_window_duration_secs cfg));
          is_failure = (out = Failure);
          b' = (case bi_state b of
             BClosed \<Rightarrow>
               let samples = dropWhile (\<lambda>(_, t). now - t > window) (bi_samples b @ [(is_failure, now)]);
                   b1 = b\<lparr>bi_samples := samples\<rparr>;
                   total = (of_nat (length samples) :: u32)
               in if total \<ge> cb_min_samples cfg then
                    let failures = length (filter fst samples)
                    in if rate_reaches failures (unat total) (cb_error_rate_threshold cfg)
                       then b1\<lparr>bi_state := BOpen, bi_opened_at := Some now, bi_half_open_probes := []\<rparr>
                       else b1
                  else b1
           | BHalfOpen \<Rightarrow>
               if is_failure
               then b\<lparr>bi_state := BOpen, bi_opened_at := Some now, bi_half_open_probes := []\<rparr>
               else b\<lparr>bi_state := BClosed, bi_samples := [], bi_opened_at := None, bi_half_open_probes := []\<rparr>
           | BOpen \<Rightarrow> b)
      in (bi_state b', b'))"

definition reset :: "breaker_inner \<Rightarrow> breaker_inner" where
  "reset b = b\<lparr>bi_state := BClosed, bi_samples := [], bi_opened_at := None, bi_half_open_probes := []\<rparr>"

definition force_open :: "instant \<Rightarrow> breaker_inner \<Rightarrow> breaker_inner" where
  "force_open now b = b\<lparr>bi_state := BOpen, bi_opened_at := Some now, bi_half_open_probes := []\<rparr>"

section \<open>The registry\<close>

text \<open>One shared breaker per worker; \<open>get\<close> creates it on first use in the given state.\<close>

type_synonym registry = "(worker_id, breaker_inner) hmap"

definition reg_get :: "instant \<Rightarrow> worker_id \<Rightarrow> circuit_state \<Rightarrow> registry \<Rightarrow> breaker_inner \<times> registry" where
  "reg_get now w initial r =
     (case hm_get r w of
        Some b \<Rightarrow> (b, r)
      | None \<Rightarrow> let b = new_with_state now initial in (b, hm_insert w b r))"

definition state_of :: "worker_id \<Rightarrow> registry \<Rightarrow> breaker_state" where
  "state_of w r = (case hm_get r w of Some b \<Rightarrow> bi_state b | None \<Rightarrow> BClosed)"

definition reg_reset :: "worker_id \<Rightarrow> registry \<Rightarrow> registry" where
  "reg_reset w r = hm_adjust w reset r"

text \<open>A call on the shared breaker \<open>get\<close> returned.\<close>

definition reg_check ::
    "circuit_breaker_config \<Rightarrow> instant \<Rightarrow> instant \<Rightarrow> worker_id \<Rightarrow> circuit_state \<Rightarrow> registry
     \<Rightarrow> (breaker_open, unit) result \<times> registry" where
  "reg_check cfg now now' w initial r =
     (case reg_get now w initial r of
        (b, r) \<Rightarrow> (case check cfg now now' b of (res, b') \<Rightarrow> (res, hm_insert w b' r)))"

definition reg_record ::
    "circuit_breaker_config \<Rightarrow> instant \<Rightarrow> worker_id \<Rightarrow> circuit_state \<Rightarrow> outcome \<Rightarrow> registry \<Rightarrow> breaker_state \<times> registry" where
  "reg_record cfg now w initial out r =
     (case reg_get now w initial r of
        (b, r) \<Rightarrow> (case record_outcome cfg now out b of (st, b') \<Rightarrow> (st, hm_insert w b' r)))"

section \<open>The rounded quotient at one half\<close>

lemma lift_exp_reaches: "0 < a \<Longrightarrow> b \<le> a * 2 ^ lift_exp a b"
proof (induction a b rule: lift_exp.induct)
  case (1 a b)
  then show ?case by (subst lift_exp.simps) (auto simp: algebra_simps)
qed

lemma lift_exp_two: "0 < a \<Longrightarrow> 2 * a < b \<Longrightarrow> 2 \<le> lift_exp a b"
  by (subst lift_exp.simps, subst lift_exp.simps) auto

lemma round_half_even_bounds: "n div d \<le> round_half_even n d" "round_half_even n d \<le> n div d + 1"
  by (auto simp: round_half_even_def Let_def)

text \<open>Rounding does not move a quotient of small integers across one half.\<close>

lemma f64_quotient_half:
  assumes "0 < b" "b < 2 ^ 32"
  shows "f64_quotient a b \<ge> 1 / 2 \<longleftrightarrow> b \<le> 2 * a"
proof (cases "a = 0")
  case True
  then show ?thesis using assms(1) by (simp add: f64_quotient_def)
next
  case False
  define k where "k = lift_exp a b"
  define m where "m = round_half_even (a * 2 ^ (52 + k)) b"
  have "f64_quotient a b \<ge> 1 / 2 \<longleftrightarrow> (2 :: rat) ^ (51 + k) \<le> of_nat m"
    using False by (simp add: f64_quotient_def Let_def k_def m_def field_simps power_add)
  also have "\<dots> \<longleftrightarrow> 2 ^ (51 + k) \<le> m"
    by (metis of_nat_le_iff of_nat_numeral of_nat_power)
  also have "\<dots> \<longleftrightarrow> b \<le> 2 * a"
  proof
    assume "b \<le> 2 * a"
    then have "b * 2 ^ (51 + k) \<le> (2 * a) * 2 ^ (51 + k)" by (rule mult_right_mono) simp
    then have "2 ^ (51 + k) * b \<le> a * 2 ^ (52 + k)" by (simp add: algebra_simps power_add)
    then have "2 ^ (51 + k) \<le> a * 2 ^ (52 + k) div b"
      using assms(1) by (simp add: less_eq_div_iff_mult_less_eq)
    then show "2 ^ (51 + k) \<le> m" using round_half_even_bounds(1) order_trans unfolding m_def by blast
  next
    assume le: "2 ^ (51 + k) \<le> m"
    show "b \<le> 2 * a"
    proof (rule ccontr)
      assume "\<not> b \<le> 2 * a"
      then have lt: "2 * a + 1 \<le> b" by simp
      have "2 \<le> k" using lift_exp_two[of a b] False lt by (simp add: k_def)
      then obtain j where j: "k = j + 2" by (metis add.commute le_Suc_ex)
      have "2 * b < (2 :: nat) ^ (51 + k)"
      proof -
        have "2 * b < (2 :: nat) ^ 33" using assms(2) by simp
        also have "(2 :: nat) ^ 33 \<le> 2 ^ (51 + k)" by (rule power_increasing) simp_all
        finally show ?thesis .
      qed
      moreover have "(2 * a + 1) * 2 ^ (51 + k) \<le> b * 2 ^ (51 + k)" using lt by (rule mult_right_mono) simp
      ultimately have "a * 2 ^ (52 + k) + 2 * b < b * 2 ^ (51 + k)" by (simp add: algebra_simps power_add)
      then have "a * 2 ^ (52 + k) < b * (2 ^ (51 + k) - 2)" by (simp add: diff_mult_distrib2)
      then have "a * 2 ^ (52 + k) div b < 2 ^ (51 + k) - 2"
        using assms(1) by (simp add: div_less_iff_less_mult mult.commute)
      then have "m < 2 ^ (51 + k)" using round_half_even_bounds(2)[of "a * 2 ^ (52 + k)" b]
        unfolding m_def by linarith
      then show False using le by simp
    qed
  qed
  finally show ?thesis .
qed

section \<open>A history of breaker calls\<close>

datatype breaker_call = BkCheck instant instant | BkRecord instant outcome

fun breaker_exec :: "circuit_breaker_config \<Rightarrow> breaker_call \<Rightarrow> breaker_inner \<Rightarrow> bool \<times> breaker_inner" where
  "breaker_exec cfg (BkCheck now now') b = apfst is_ok (check cfg now now' b)"
| "breaker_exec cfg (BkRecord now out) b = (False, snd (record_outcome cfg now out b))"

fun admitted :: "circuit_breaker_config \<Rightarrow> breaker_call list \<Rightarrow> breaker_inner \<Rightarrow> nat" where
  "admitted cfg [] b = 0"
| "admitted cfg (k # ks) b =
     (if fst (breaker_exec cfg k b) then 1 else 0) + admitted cfg ks (snd (breaker_exec cfg k b))"

abbreviation breaker_run :: "circuit_breaker_config \<Rightarrow> breaker_call list \<Rightarrow> breaker_inner \<Rightarrow> breaker_inner" where
  "breaker_run cfg ks b \<equiv> fold (\<lambda>k. snd \<circ> breaker_exec cfg k) ks b"

text \<open>The calls made before the cool-down of a circuit opened at \<open>t\<close> is over.\<close>

fun cooling :: "circuit_breaker_config \<Rightarrow> instant \<Rightarrow> breaker_call \<Rightarrow> bool" where
  "cooling cfg t (BkCheck now now') = (now' - t < secs (unat (cb_open_duration_secs cfg)))"
| "cooling cfg t (BkRecord now out) = True"

lemma cooling_exec:
  assumes "bi_state b = BOpen" "bi_opened_at b = Some t" "cooling cfg t k"
  shows "breaker_exec cfg k b = (False, b)"
  using assms by (cases k) (simp_all add: check_def record_outcome_def Let_def)

text \<open>
  An open circuit stays shut for its cool-down: whatever is asked of it and whatever
  outcomes of earlier requests still arrive, no request is admitted and its state does not change
  until the open duration has passed; the first check after that is admitted as the only probe of
  a half-open circuit.
\<close>

theorem open_circuit_waits:
  assumes "bi_state b = BOpen" "bi_opened_at b = Some t" "list_all (cooling cfg t) ks"
    "now' - t \<ge> secs (unat (cb_open_duration_secs cfg))"
  shows "admitted cfg ks b = 0 \<and> breaker_run cfg ks b = b \<and>
    check cfg now now' (breaker_run cfg ks b) =
      (Inr (), b\<lparr>bi_state := BHalfOpen, bi_half_open_probes := [now]\<rparr>)"
proof -
  have "admitted cfg ks b = 0 \<and> breaker_run cfg ks b = b" using assms(3)
    by (induction ks) (simp_all add: cooling_exec[OF assms(1,2)])
  then show ?thesis using assms(1,2,4) by (simp add: check_def)
qed

lemma open_circuit_waits_witness:
  "admitted default_breaker_config [BkRecord 1 Success, BkCheck 2 2] (new_with_state 0 COpen) = 0"
  by (rule open_circuit_waits[where t = 0 and now' = "10 ^ 10" and now = 0, THEN conjunct1])
    (simp_all add: new_with_state_def new_inner_def default_breaker_config_def secs_def Let_def)

text \<open>Checks at times within one staleness window starting at \<open>T\<close>.\<close>

definition stale_after :: "circuit_breaker_config \<Rightarrow> duration" where
  "stale_after cfg = secs (unat (max (cb_open_duration_secs cfg) 1))"

definition max_probes :: "circuit_breaker_config \<Rightarrow> nat" where
  "max_probes cfg = unat (max (cb_half_open_max_probes cfg) 1)"

fun check_within :: "circuit_breaker_config \<Rightarrow> instant \<Rightarrow> breaker_call \<Rightarrow> bool" where
  "check_within cfg T (BkCheck now now') = (T \<le> now \<and> now < T + stale_after cfg)"
| "check_within cfg T (BkRecord now out) = False"

definition recent_probes :: "instant \<Rightarrow> breaker_inner \<Rightarrow> nat" where
  "recent_probes T b = (if bi_state b = BHalfOpen then length (filter (\<lambda>t. T \<le> t) (bi_half_open_probes b)) else 0)"

lemma max_probes_pos: "1 \<le> max_probes cfg"
proof -
  have "(1 :: u32) \<le> max (cb_half_open_max_probes cfg) 1" by simp
  then have "unat (1 :: u32) \<le> max_probes cfg" unfolding max_probes_def by (simp only: word_le_nat_alt)
  then show ?thesis by simp
qed

lemma filter_keeps_recent:
  fixes T now d :: nat
  assumes "T \<le> now" "now < T + d"
  shows "length (filter (\<lambda>t. T \<le> t) (filter (\<lambda>t. now - t < d) ps)) = length (filter (\<lambda>t. T \<le> t) ps)"
proof -
  have "now - a < d" if "T \<le> a" for a using assms that by arith
  then show ?thesis by (induction ps) auto
qed

lemma check_within_exec:
  assumes "check_within cfg T k" "bi_state b \<noteq> BClosed" "recent_probes T b \<le> max_probes cfg"
  shows "(if fst (breaker_exec cfg k b) then 1 else 0) + recent_probes T b = recent_probes T (snd (breaker_exec cfg k b))"
    "recent_probes T (snd (breaker_exec cfg k b)) \<le> max_probes cfg"
    "bi_state (snd (breaker_exec cfg k b)) \<noteq> BClosed"
proof -
  obtain now now' where k: "k = BkCheck now now'" "T \<le> now" "now < T + stale_after cfg"
    using assms(1) by (cases k) auto
  let ?ps = "filter (\<lambda>t. now - t < stale_after cfg) (bi_half_open_probes b)"
  have le: "length (filter (\<lambda>t. T \<le> t) ?ps) \<le> length ?ps" by (rule length_filter_le)
  note keep = filter_keeps_recent[OF k(2,3), of "bi_half_open_probes b"]
  show "(if fst (breaker_exec cfg k b) then 1 else 0) + recent_probes T b = recent_probes T (snd (breaker_exec cfg k b))"
    "recent_probes T (snd (breaker_exec cfg k b)) \<le> max_probes cfg"
    "bi_state (snd (breaker_exec cfg k b)) \<noteq> BClosed"
    using assms(2,3) k(1,2) keep le max_probes_pos[of cfg]
    by (cases "bi_state b"; auto simp: check_def recent_probes_def stale_after_def[symmetric]
        max_probes_def[symmetric] Let_def split: if_splits)+
qed

text \<open>
  A circuit that is recovering lets only its probes through: starting open, or half-open with
  no probe in the window yet, any sequence of checks within one staleness window admits at most
  \<open>half_open_max_probes\<close> requests (at least one is configured).
\<close>

theorem half_open_probe_bound:
  assumes "bi_state b \<noteq> BClosed" "recent_probes T b = 0" "list_all (check_within cfg T) ks"
  shows "admitted cfg ks b \<le> unat (max (cb_half_open_max_probes cfg) 1)"
proof -
  have "admitted cfg ks b + recent_probes T b \<le> max_probes cfg"
    if "bi_state b \<noteq> BClosed" "recent_probes T b \<le> max_probes cfg" "list_all (check_within cfg T) ks" for b ks
    using that
  proof (induction ks arbitrary: b)
    case (Cons k ks)
    have "check_within cfg T k" using Cons.prems(3) by simp
    note e = check_within_exec[OF this Cons.prems(1,2)]
    show ?case using Cons.IH[OF e(3,2)] e(1) Cons.prems(3) by simp
  qed simp
  from this[OF assms(1) _ assms(3)] assms(2) show ?thesis by (simp add: max_probes_def)
qed

lemma half_open_probe_bound_witness:
  "admitted default_breaker_config [BkCheck (10 ^ 10) (10 ^ 10), BkCheck (10 ^ 10 + 1) (10 ^ 10 + 1)]
      (new_with_state 0 COpen) \<le> unat (max (cb_half_open_max_probes default_breaker_config) 1)"
  by (rule half_open_probe_bound[where T = "10 ^ 10"])
    (simp_all add: new_with_state_def new_inner_def recent_probes_def default_breaker_config_def
      stale_after_def secs_def Let_def)

text \<open>
  When a closed circuit opens: with the threshold at one half, recording an outcome opens the
  circuit exactly when the outcomes still in the window number at least \<open>min_samples\<close> and at
  least half of them are failures; otherwise it stays closed and keeps just those outcomes.
  (Fewer than 2^32 outcomes, recorded in time order.)
\<close>

theorem closed_circuit_opens_iff:
  assumes "bi_state b = BClosed" "cb_error_rate_threshold cfg = 1 / 2"
    "sorted (map snd (bi_samples b @ [(out = Failure, now)]))" "length (bi_samples b) + 1 < 2 ^ 32"
  shows "let kept = filter (\<lambda>(_, t). now - t \<le> secs (unat (cb_window_duration_secs cfg)))
           (bi_samples b @ [(out = Failure, now)])
     in fst (record_outcome cfg now out b) =
       (if unat (cb_min_samples cfg) \<le> length kept \<and> length kept \<le> 2 * length (filter fst kept)
        then BOpen else BClosed) \<and>
       bi_samples (snd (record_outcome cfg now out b)) = kept"
proof -
  let ?w = "secs (unat (cb_window_duration_secs cfg))"
  let ?all = "bi_samples b @ [(out = Failure, now)]"
  define kept where "kept = filter (\<lambda>(_, t). now - t \<le> ?w) ?all"
  have drop: "dropWhile (\<lambda>(_, t). now - t > ?w) xs = filter (\<lambda>(_, t). now - t \<le> ?w) xs"
    if "sorted (map snd xs)" for xs :: "(bool \<times> instant) list"
    using that
  proof (induction xs)
    case (Cons x xs)
    show ?case
    proof (cases "now - snd x > ?w")
      case True
      then show ?thesis using Cons by (cases x) auto
    next
      case False
      then have "\<forall>y \<in> set xs. now - snd y \<le> ?w" using Cons.prems by fastforce
      then have "filter (\<lambda>(_, t). now - t \<le> ?w) xs = xs" by (simp add: filter_id_conv case_prod_beta)
      then show ?thesis using False by (cases x) auto
    qed
  qed simp
  have len: "length kept < 2 ^ 32"
    using assms(4) length_filter_le[of _ ?all] unfolding kept_def by (metis (no_types, lifting) length_append_singleton Suc_eq_plus1 le_less_trans)
  have un: "unat (of_nat (length kept) :: u32) = length kept"
    using len by (simp add: unat_of_nat take_bit_nat_eq_self)
  have last: "(out = Failure, now) \<in> set kept" by (simp add: kept_def)
  then have pos: "0 < length kept" by (cases kept) auto
  have ge: "(of_nat (length kept) :: u32) \<ge> cb_min_samples cfg \<longleftrightarrow> unat (cb_min_samples cfg) \<le> length kept"
    by (simp add: word_le_nat_alt un)
  have rate: "rate_reaches (length (filter fst kept)) (length kept) (1 / 2) \<longleftrightarrow>
      length kept \<le> 2 * length (filter fst kept)"
    using pos f64_quotient_half[OF pos len] by (simp add: rate_reaches_def)
  have "record_outcome cfg now out b =
      (let b1 = b\<lparr>bi_samples := kept\<rparr>;
           b' = (if unat (cb_min_samples cfg) \<le> length kept \<and> length kept \<le> 2 * length (filter fst kept)
                 then b1\<lparr>bi_state := BOpen, bi_opened_at := Some now, bi_half_open_probes := []\<rparr> else b1)
       in (bi_state b', b'))"
    using drop[OF assms(3)] unfolding kept_def[symmetric]
    by (simp add: record_outcome_def assms(1,2) Let_def ge un rate)
  then show ?thesis unfolding Let_def kept_def[symmetric] using assms(1) by simp
qed

lemma closed_circuit_opens_iff_witness:
  "fst (record_outcome (default_breaker_config\<lparr>cb_min_samples := 2\<rparr>) 5 Failure
      (new_inner\<lparr>bi_samples := [(False, 1)]\<rparr>)) = BOpen"
  using closed_circuit_opens_iff[of "new_inner\<lparr>bi_samples := [(False, 1)]\<rparr>"
      "default_breaker_config\<lparr>cb_min_samples := 2\<rparr>" Failure 5]
  by (simp add: new_inner_def default_breaker_config_def Let_def secs_def)

end
