(* ===== verification/Selector.thy ===== *)
theory Selector
  imports Task_Queries Agent_Store Worker_Store Breaker "HOL-Library.Product_Lexorder"
begin

text \<open>
  The worker selector (\<open>crates/fleet-scheduler/src/selector.rs\<close>): which worker a task is sent
  to. The round trip to an on-demand worker is the argument \<open>probe\<close> (the transport answers or
  does not); a successful probe is recorded in the store, so the selector passes the store on.
\<close>

datatype selection_error =
    NoMatchingLabels
  | AllOffline
  | HintedNotFound string
  | HintedUnavailable string
  | NoWorkerForModel string
  | NoWorkerForCredential string
  | AllUnprobed
  | AllAtCapacity
  | HintedAtCapacity string
  | AgentNotFound agent_id
  | AgentUnplaced string
  | AgentNotRunning string
  | AgentNotObserved string
  | AgentWorkerUnavailable string
  | AgentWorkerAtCapacity string

text \<open>The texts of \<open>#[error(..)]\<close>.\<close>

fun selection_error_text :: "selection_error \<Rightarrow> message" where
  "selection_error_text NoMatchingLabels = Msg ''no online worker matches the required labels'' []"
| "selection_error_text AllOffline = Msg ''no worker is currently online'' []"
| "selection_error_text (HintedNotFound h) = Msg ''hinted worker '{0}' not found'' [ArgStr h]"
| "selection_error_text (HintedUnavailable h) =
     Msg ''hinted worker '{0}' is offline or circuit-open (not falling back, per user intent)'' [ArgStr h]"
| "selection_error_text (NoWorkerForModel m) = Msg (''no online worker is labeled for model '{0}'' @ [CHR 0x27]) [ArgStr m]"
| "selection_error_text (NoWorkerForCredential m) =
     Msg (''no online worker holds a credential for model '{0}'' @ [CHR 0x27]) [ArgStr m]"
| "selection_error_text AllUnprobed =
     Msg ''no dispatchable worker: all candidates are on-demand and unprobed'' []"
| "selection_error_text AllAtCapacity = Msg ''all candidate workers are at their concurrency limit'' []"
| "selection_error_text (HintedAtCapacity h) =
     Msg ''hinted worker '{0}' is at its concurrency limit (not falling back, per user intent)'' [ArgStr h]"
| "selection_error_text (AgentNotFound a) = Msg ''task's agent '{0}' no longer exists'' [ArgAgent a]"
| "selection_error_text (AgentUnplaced n) =
     Msg ''task's agent '{0}' is not placed on any worker yet'' [ArgStr n]"
| "selection_error_text (AgentNotRunning n) = Msg ''task's agent '{0}' is not running'' [ArgStr n]"
| "selection_error_text (AgentNotObserved n) =
     Msg ''task's agent '{0}' has been told to start but has not reported yet'' [ArgStr n]"
| "selection_error_text (AgentWorkerUnavailable n) =
     Msg ''the worker hosting agent '{0}' is not dispatchable (not falling back, per user intent)'' [ArgStr n]"
| "selection_error_text (AgentWorkerAtCapacity n) =
     Msg ''the worker hosting agent '{0}' is at its concurrency limit (not falling back, per user intent)'' [ArgStr n]"

section \<open>Checks on one worker or agent\<close>

definition responds :: "(worker_id \<Rightarrow> bool) \<Rightarrow> datetime \<Rightarrow> worker \<Rightarrow> mem_store \<Rightarrow> bool \<times> mem_store" where
  "responds probe now w s =
     (if w_liveness_mode w \<noteq> OnDemand then (True, s)
      else if probe (w_id w) then (True, snd (record_worker_activity now (w_id w) s))
      else (False, s))"

definition agent_dispatchable :: "agent \<Rightarrow> selection_error option" where
  "agent_dispatchable a =
     (if ag_desired_status a = DStopped \<or> ag_observed_status a = Some ObFailed
      then Some (AgentNotRunning (ag_name a))
      else if start_pending a then Some (AgentNotObserved (ag_name a))
      else None)"

definition labels_match :: "task \<Rightarrow> worker \<Rightarrow> bool" where
  "labels_match t w = list_all (\<lambda>lbl. hm_contains (w_labels w) lbl) (t_required_labels t)"

definition model_match :: "string \<Rightarrow> worker \<Rightarrow> bool" where
  "model_match m w = (hm_get (w_labels w) ''model'' = Some m)"

definition holds_credential :: "mem_store \<Rightarrow> string \<Rightarrow> worker \<Rightarrow> bool" where
  "holds_credential s m w =
     (case get_worker_credential (w_name w) m s of Inr (Some _) \<Rightarrow> True | Inr None \<Rightarrow> False | Inl _ \<Rightarrow> False)"

definition load_of :: "(worker_id, u32) hmap \<Rightarrow> worker \<Rightarrow> u32" where
  "load_of load w = (case hm_get load (w_id w) of Some n \<Rightarrow> n | None \<Rightarrow> 0)"

definition has_room :: "(worker_id, u32) hmap \<Rightarrow> worker \<Rightarrow> bool" where
  "has_room load w = (load_of load w < w_max_concurrent w)"

section \<open>Narrowing down\<close>

definition online_filter :: worker_filter where
  "online_filter = default_worker_filter\<lparr>wf_status := Some WOnline\<rparr>"

text \<open>Steps 1 to 3: online, labels, model label, credential, circuit.\<close>

definition candidates :: "registry \<Rightarrow> task \<Rightarrow> mem_store \<Rightarrow> (selection_error, worker list) result" where
  "candidates reg t s =
     (case list_workers online_filter s of
        Inl _ \<Rightarrow> Inl AllOffline
      | Inr online \<Rightarrow>
          if online = [] then Inl AllOffline
          else let labelled = filter (labels_match t) online
          in if labelled = [] then Inl NoMatchingLabels
          else case t_model t of
            None \<Rightarrow> Inr (filter (\<lambda>w. state_of (w_id w) reg \<noteq> BOpen) labelled)
          | Some m \<Rightarrow>
              let modelled = filter (model_match m) labelled
              in if modelled = [] then Inl (NoWorkerForModel m)
              else let with_credential = filter (holds_credential s m) modelled
              in if with_credential = [] then Inl (NoWorkerForCredential m)
              else Inr (filter (\<lambda>w. state_of (w_id w) reg \<noteq> BOpen) with_credential))"

text \<open>Step 8: down the list, the first worker that answers.\<close>

fun first_responding ::
    "(worker_id \<Rightarrow> bool) \<Rightarrow> datetime \<Rightarrow> worker list \<Rightarrow> mem_store \<Rightarrow> (selection_error, worker_id) result \<times> mem_store" where
  "first_responding probe now [] s = (Inl AllUnprobed, s)"
| "first_responding probe now (w # ws) s =
     (case responds probe now w s of
        (True, s) \<Rightarrow> (Inr (w_id w), s)
      | (False, s) \<Rightarrow> first_responding probe now ws s)"

text \<open>Step 4: the task names an agent; only the worker it is placed on will do.\<close>

definition select_for_agent ::
    "(worker_id \<Rightarrow> bool) \<Rightarrow> datetime \<Rightarrow> agent_id \<Rightarrow> worker list \<Rightarrow> worker_id list \<Rightarrow> mem_store
     \<Rightarrow> (selection_error, worker_id) result \<times> mem_store" where
  "select_for_agent probe now i cands at_capacity_ids s =
     (case get_agent i s of
        Inl _ \<Rightarrow> (Inl AllOffline, s)
      | Inr None \<Rightarrow> (Inl (AgentNotFound i), s)
      | Inr (Some a) \<Rightarrow>
          (case agent_dispatchable a of
             Some e \<Rightarrow> (Inl e, s)
           | None \<Rightarrow>
               (case ag_worker_id a of
                  None \<Rightarrow> (Inl (AgentUnplaced (ag_name a)), s)
                | Some wid \<Rightarrow>
                    (case List.find (\<lambda>w. w_id w = wid) cands of
                       Some w \<Rightarrow>
                         (case responds probe now w s of
                            (False, s) \<Rightarrow> (Inl (AgentWorkerUnavailable (ag_name a)), s)
                          | (True, s) \<Rightarrow> (Inr (w_id w), s))
                     | None \<Rightarrow>
                         if wid \<in> set at_capacity_ids then (Inl (AgentWorkerAtCapacity (ag_name a)), s)
                         else (Inl (AgentWorkerUnavailable (ag_name a)), s)))))"

text \<open>Step 4.2: the task names a worker.\<close>

definition select_for_hint ::
    "(worker_id \<Rightarrow> bool) \<Rightarrow> datetime \<Rightarrow> string \<Rightarrow> worker list \<Rightarrow> string list \<Rightarrow> mem_store
     \<Rightarrow> (selection_error, worker_id) result \<times> mem_store" where
  "select_for_hint probe now hint cands at_capacity s =
     (case List.find (\<lambda>w. w_name w = hint) cands of
        Some w \<Rightarrow>
          (case responds probe now w s of
             (False, s) \<Rightarrow> (Inl (HintedUnavailable hint), s)
           | (True, s) \<Rightarrow> (Inr (w_id w), s))
      | None \<Rightarrow>
          if hint \<in> set at_capacity then (Inl (HintedAtCapacity hint), s)
          else (case get_worker_by_name hint s of
                  Inr (Some _) \<Rightarrow> (Inl (HintedUnavailable hint), s)
                | Inr None \<Rightarrow> (Inl (HintedNotFound hint), s)
                | Inl _ \<Rightarrow> (Inl (HintedNotFound hint), s)))"

definition select ::
    "(worker_id \<Rightarrow> bool) \<Rightarrow> datetime \<Rightarrow> registry \<Rightarrow> task \<Rightarrow> mem_store
     \<Rightarrow> (selection_error, worker_id) result \<times> mem_store" where
  "select probe now reg t s =
     (case candidates reg t s of
        Inl e \<Rightarrow> (Inl e, s)
      | Inr cands0 \<Rightarrow>
          (case count_dispatched_tasks_by_worker s of
             Inl _ \<Rightarrow> (Inl AllOffline, s)
           | Inr load \<Rightarrow>
               let cands = filter (has_room load) cands0;
                   full = filter (\<lambda>w. \<not> has_room load w) cands0
               in case t_agent_id t of
                    Some i \<Rightarrow> select_for_agent probe now i cands (map w_id full) s
                  | None \<Rightarrow>
                      (case t_server_hint t of
                         Some hint \<Rightarrow> select_for_hint probe now hint cands (map w_name full) s
                       | None \<Rightarrow>
                           if cands = [] \<and> full \<noteq> [] then (Inl AllAtCapacity, s)
                           else if cands = [] then (Inl AllOffline, s)
                           else first_responding probe now
                                  (sort_key (\<lambda>w. (load_of load w, w_name w)) cands) s)))"

section \<open>What a selection guarantees\<close>

definition dispatched_to :: "worker_id \<Rightarrow> mem_store \<Rightarrow> nat" where
  "dispatched_to w s = hm_count (\<lambda>t. \<exists>since. t_status t = Dispatched w since) (ms_tasks s)"

definition eligible :: "registry \<Rightarrow> task \<Rightarrow> mem_store \<Rightarrow> worker \<Rightarrow> bool" where
  "eligible reg t s w \<longleftrightarrow>
     hm_get (ms_workers s) (w_id w) = Some w \<and> w_status w = WOnline \<and>
     list_all (\<lambda>lbl. hm_contains (w_labels w) lbl) (t_required_labels t) \<and>
     (case t_model t of None \<Rightarrow> True
      | Some m \<Rightarrow> hm_get (w_labels w) ''model'' = Some m \<and> hm_contains (ms_credentials s) (w_name w, m)) \<and>
     state_of (w_id w) reg \<noteq> BOpen \<and>
     (of_nat (dispatched_to (w_id w) s) :: u32) < w_max_concurrent w"

lemma holds_credential_iff: "holds_credential s m w = hm_contains (ms_credentials s) (w_name w, m)"
  by (auto simp: holds_credential_def get_worker_credential_def split: option.split)

lemma load_exact:
  assumes "count_dispatched_tasks_by_worker s = Inr load"
  shows "load_of load w = of_nat (dispatched_to (w_id w) s)"
  using count_dispatched_get[of "hm_values (ms_tasks s)" "[]" "w_id w"] assms
  by (auto simp: load_of_def dispatched_to_def hm_count_def count_dispatched_tasks_by_worker_def
      split: if_splits option.splits)

lemma list_workers_sound:
  assumes "tables_ok s" "list_workers fi s = Inr ws" "w \<in> set ws"
  shows "hm_get (ms_workers s) (w_id w) = Some w" "worker_selected fi w"
proof -
  have "w \<in> set (filter (worker_selected fi) (hm_values (ms_workers s)))"
    using assms(2,3) set_page_subset by (fastforce simp: list_workers_def)
  then show "hm_get (ms_workers s) (w_id w) = Some w" "worker_selected fi w"
    using keyed_values_get[OF tables_okD(2)[OF assms(1)]] by auto
qed

lemma candidates_sound:
  assumes "tables_ok s" "candidates reg t s = Inr cands" "w \<in> set cands"
    "count_dispatched_tasks_by_worker s = Inr load" "has_room load w"
  shows "eligible reg t s w"
proof -
  obtain ws where ws: "list_workers online_filter s = Inr ws"
    by (simp add: list_workers_def)
  have "w \<in> set ws" "labels_match t w" "state_of (w_id w) reg \<noteq> BOpen"
    "case t_model t of None \<Rightarrow> True | Some m \<Rightarrow> model_match m w \<and> holds_credential s m w"
    using assms(2,3) ws by (auto simp: candidates_def Let_def split: if_splits option.splits)
  then show ?thesis
    using list_workers_sound[OF assms(1) ws, of w] assms(5) load_exact[OF assms(4), of w]
    by (auto simp: eligible_def online_filter_def worker_selected_def default_worker_filter_def
        labels_match_def model_match_def holds_credential_iff has_room_def split: option.splits)
qed

lemma online_workers:
  assumes "tables_ok s" "hm_count (\<lambda>w. w_status w = WOnline) (ms_workers s) \<le> 100"
    "list_workers online_filter s = Inr ws"
  shows "w \<in> set ws \<longleftrightarrow> hm_get (ms_workers s) (w_id w) = Some w \<and> w_status w = WOnline"
proof -
  let ?on = "filter (worker_selected online_filter) (hm_values (ms_workers s))"
  have sel: "worker_selected online_filter = (\<lambda>w. w_status w = WOnline)"
    by (auto simp: worker_selected_def online_filter_def default_worker_filter_def)
  have "length (sort_desc w_registered_at ?on) \<le> 100"
    using assms(2) by (simp add: sel hm_count_def sort_desc_def)
  then have "ws = sort_desc w_registered_at ?on" using assms(3)
    by (simp add: list_workers_def page_all online_filter_def default_worker_filter_def)
  then show ?thesis
    using keyed_values_get[OF tables_okD(2)[OF assms(1)]] by (auto simp: sel sort_desc_def intro: hm_get_values)
qed

lemma candidates_complete:
  assumes "tables_ok s" "hm_count (\<lambda>w. w_status w = WOnline) (ms_workers s) \<le> 100"
    "candidates reg t s = Inr cands" "count_dispatched_tasks_by_worker s = Inr load" "eligible reg t s w"
  shows "w \<in> set (filter (has_room load) cands)"
proof -
  obtain ws where ws: "list_workers online_filter s = Inr ws" by (simp add: list_workers_def)
  have "w \<in> set ws" using online_workers[OF assms(1,2) ws] assms(5) by (simp add: eligible_def)
  then show ?thesis using assms(3,5) load_exact[OF assms(4), of w] ws
    by (auto simp: candidates_def Let_def eligible_def labels_match_def model_match_def holds_credential_iff
        has_room_def split: if_splits option.splits)
qed

lemma responds_cases:
  assumes "responds probe now w s = (r, s')"
  shows "r = (w_liveness_mode w = OnDemand \<longrightarrow> probe (w_id w))"
    "ms_tasks s' = ms_tasks s" "ms_agents s' = ms_agents s" "ms_control_leases s' = ms_control_leases s"
  using assms
  by (auto simp: responds_def record_worker_activity_def split: if_splits option.splits)

definition answers :: "(worker_id \<Rightarrow> bool) \<Rightarrow> worker \<Rightarrow> bool" where
  "answers probe w = (w_liveness_mode w = OnDemand \<longrightarrow> probe (w_id w))"

lemma first_responding_spec:
  assumes "first_responding probe now ws s = (r, s')"
  shows "(case r of
      Inr i \<Rightarrow> (\<exists>pre w post. ws = pre @ w # post \<and> w_id w = i \<and> answers probe w \<and>
                (\<forall>v \<in> set pre. \<not> answers probe v))
    | Inl e \<Rightarrow> e = AllUnprobed \<and> (\<forall>v \<in> set ws. \<not> answers probe v)) \<and> ms_tasks s' = ms_tasks s"
  using assms
proof (induction ws arbitrary: s)
  case (Cons w ws)
  obtain b s1 where r: "responds probe now w s = (b, s1)" by fastforce
  note rc = responds_cases[OF r]
  show ?case
  proof (cases b)
    case True
    then have "r = Inr (w_id w)" "s' = s1" using Cons.prems r by auto
    moreover have "answers probe w" using rc(1) True by (simp add: answers_def)
    then have "\<exists>pre v post. w # ws = pre @ v # post \<and> w_id v = w_id w \<and> answers probe v \<and>
        (\<forall>u \<in> set pre. \<not> answers probe u)"
      by (intro exI[of _ "[]"] exI[of _ w] exI[of _ ws]) simp
    ultimately show ?thesis using rc(2) by simp
  next
    case False
    then have "first_responding probe now ws s1 = (r, s')" using Cons.prems r by simp
    note IH = Cons.IH[OF this]
    have na: "\<not> answers probe w" using rc(1) False by (simp add: answers_def)
    show ?thesis
    proof (cases r)
      case (Inl e)
      then show ?thesis using IH na rc(2) by simp
    next
      case (Inr i)
      then obtain pre v post where v: "ws = pre @ v # post" "w_id v = i" "answers probe v"
          "\<forall>u \<in> set pre. \<not> answers probe u" using IH by auto
      then have "\<exists>pre v post. w # ws = pre @ v # post \<and> w_id v = i \<and> answers probe v \<and>
          (\<forall>u \<in> set pre. \<not> answers probe u)"
        using na by (intro exI[of _ "w # pre"] exI[of _ v] exI[of _ post]) simp
      then show ?thesis using Inr IH rc(2) by simp
    qed
  qed
qed auto

lemma select_for_agent_spec:
  assumes "select_for_agent probe now i cands caps s = (Inr wid, s')"
  shows "\<exists>a w. hm_get (ms_agents s) i = Some a \<and> ag_worker_id a = Some wid \<and> agent_dispatchable a = None \<and>
     w \<in> set cands \<and> w_id w = wid \<and> answers probe w \<and> ms_tasks s' = ms_tasks s"
proof -
  obtain a v w where a: "get_agent i s = Inr (Some a)" "agent_dispatchable a = None" "ag_worker_id a = Some v"
    and f: "List.find (\<lambda>w. w_id w = v) cands = Some w"
    and r: "responds probe now w s = (True, s')" and wid: "wid = w_id w"
    using assms
    by (auto simp: select_for_agent_def split: sum.splits option.splits prod.splits bool.splits if_splits)
  have "w \<in> set cands" "w_id w = v" using f by (auto simp: find_Some_iff)
  then show ?thesis using a wid responds_cases[OF r]
    by (auto simp: get_agent_def answers_def split: if_splits)
qed

lemma select_for_hint_spec:
  assumes "select_for_hint probe now h cands caps s = (Inr wid, s')"
  shows "\<exists>w. w \<in> set cands \<and> w_id w = wid \<and> w_name w = h \<and> answers probe w \<and> ms_tasks s' = ms_tasks s"
proof -
  obtain w where f: "List.find (\<lambda>w. w_name w = h) cands = Some w"
    and r: "responds probe now w s = (True, s')" and wid: "wid = w_id w"
    using assms
    by (auto simp: select_for_hint_def split: sum.splits option.splits prod.splits bool.splits if_splits)
  have "w \<in> set cands" "w_name w = h" using f by (auto simp: find_Some_iff)
  then show ?thesis using wid responds_cases[OF r] by (auto simp: answers_def)
qed

text \<open>The selected worker is one of the candidates with room, and answered.\<close>

lemma select_from:
  assumes "select probe now reg t s = (Inr wid, s')"
  shows "\<exists>c0 load w. candidates reg t s = Inr c0 \<and> count_dispatched_tasks_by_worker s = Inr load \<and>
     w \<in> set (filter (has_room load) c0) \<and> w_id w = wid \<and> answers probe w \<and> ms_tasks s' = ms_tasks s \<and>
     (case t_agent_id t of
        Some i \<Rightarrow> \<exists>a. hm_get (ms_agents s) i = Some a \<and> ag_worker_id a = Some wid \<and> agent_dispatchable a = None
      | None \<Rightarrow> (case t_server_hint t of Some h \<Rightarrow> w_name w = h | None \<Rightarrow> True))"
proof -
  obtain c0 load where c: "candidates reg t s = Inr c0" "count_dispatched_tasks_by_worker s = Inr load"
    using assms by (auto simp: select_def split: sum.splits)
  show ?thesis
  proof (cases "t_agent_id t")
    case (Some i)
    then obtain caps where "select_for_agent probe now i (filter (has_room load) c0) caps s = (Inr wid, s')"
      using assms c by (auto simp: select_def Let_def)
    from select_for_agent_spec[OF this] c Some show ?thesis by auto
  next
    case None
    show ?thesis
    proof (cases "t_server_hint t")
      case (Some h)
      then obtain caps where "select_for_hint probe now h (filter (has_room load) c0) caps s = (Inr wid, s')"
        using assms c None by (auto simp: select_def Let_def)
      from select_for_hint_spec[OF this] c None Some show ?thesis by auto
    next
      case hint: None
      then have "first_responding probe now
          (sort_key (\<lambda>w. (load_of load w, w_name w)) (filter (has_room load) c0)) s = (Inr wid, s')"
        using assms c None by (auto simp: select_def Let_def split: if_splits)
      from first_responding_spec[OF this] obtain pre w post where
        w: "sort_key (\<lambda>w. (load_of load w, w_name w)) (filter (has_room load) c0) = pre @ w # post"
        "w_id w = wid" "answers probe w" "ms_tasks s' = ms_tasks s" by auto
      have "w \<in> set (filter (has_room load) c0)" using arg_cong[OF w(1), of set] by simp
      then show ?thesis using w c None hint by auto
    qed
  qed
qed

lemma candidates_not_open: "candidates reg t s = Inr c0 \<Longrightarrow> w \<in> set c0 \<Longrightarrow> state_of (w_id w) reg \<noteq> BOpen"
  by (auto simp: candidates_def Let_def split: sum.splits option.splits if_splits)

lemma selected_eligible:
  assumes "tables_ok s" "select probe now reg t s = (Inr wid, s')"
  obtains w where "w_id w = wid" "eligible reg t s w" "w_liveness_mode w = OnDemand \<longrightarrow> probe wid"
proof -
  from select_from[OF assms(2)] obtain c0 load w where c: "candidates reg t s = Inr c0"
      "count_dispatched_tasks_by_worker s = Inr load" "w \<in> set (filter (has_room load) c0)"
      "w_id w = wid" "answers probe w" by blast
  then have "eligible reg t s w" using candidates_sound[OF assms(1) c(1) _ c(2)] by simp
  then show thesis using c that by (auto simp: answers_def)
qed

text \<open>
  C24. A selected worker is a registered one that may run the task: it is online, carries every
  required label (and the model's label and credential when the task names a model), its circuit is
  not open, it is below its concurrency limit, and, if it is reached on demand, it has just
  answered. A task with an agent goes to the agent's own worker, and only if the agent is not
  stopped, failed or still starting; a task with a hint goes to the worker of that name. Selecting
  changes no task.
\<close>

theorem selection_sound:
  assumes "tables_ok s" "select probe now reg t s = (Inr wid, s')"
  shows "\<exists>w. w_id w = wid \<and> eligible reg t s w \<and> (w_liveness_mode w = OnDemand \<longrightarrow> probe wid) \<and>
     (case t_agent_id t of
        Some i \<Rightarrow> \<exists>a. hm_get (ms_agents s) i = Some a \<and> ag_worker_id a = Some wid \<and>
                   ag_desired_status a \<noteq> DStopped \<and> ag_observed_status a \<noteq> Some ObFailed \<and>
                   \<not> start_pending a
      | None \<Rightarrow> (case t_server_hint t of Some h \<Rightarrow> w_name w = h | None \<Rightarrow> True)) \<and>
     ms_tasks s' = ms_tasks s"
proof -
  from select_from[OF assms(2)] obtain c0 load w where c: "candidates reg t s = Inr c0"
      "count_dispatched_tasks_by_worker s = Inr load" "w \<in> set (filter (has_room load) c0)"
    and w: "w_id w = wid" "answers probe w" "ms_tasks s' = ms_tasks s"
      "case t_agent_id t of
        Some i \<Rightarrow> \<exists>a. hm_get (ms_agents s) i = Some a \<and> ag_worker_id a = Some wid \<and> agent_dispatchable a = None
      | None \<Rightarrow> (case t_server_hint t of Some h \<Rightarrow> w_name w = h | None \<Rightarrow> True)" by blast
  have "eligible reg t s w" using candidates_sound[OF assms(1) c(1) _ c(2)] c(3) by simp
  then show ?thesis using w
    by (intro exI[of _ w]) (auto simp: answers_def agent_dispatchable_def split: option.splits if_splits)
qed

lemma one_worker_selected:
  "\<exists>s'. select (\<lambda>_. False) 9 [] (plain_task 1)
       (empty_store\<lparr>ms_workers := [(WorkerId 1, new_worker (WorkerId 1) 0 0 ''w'' ''ws://h'')]\<rparr>)
     = (Inr (WorkerId 1), s')"
  by (simp add: select_def candidates_def list_workers_def hm_values_def online_filter_def
      default_worker_filter_def worker_selected_def new_worker_def page_def sort_desc_def labels_match_def
      state_of_def count_dispatched_tasks_by_worker_def has_room_def load_of_def responds_def
      hm_get_def empty_store_def from_request_def default_request_def is_failing_def Let_def)

lemma selection_sound_witness:
  "\<exists>s'. select (\<lambda>_. False) 9 [] (plain_task 1)
       (empty_store\<lparr>ms_workers := [(WorkerId 1, new_worker (WorkerId 1) 0 0 ''w'' ''ws://h'')]\<rparr>)
     = (Inr (WorkerId 1), s') \<and> ms_tasks s' = []"
proof -
  let ?s = "empty_store\<lparr>ms_workers := [(WorkerId 1, new_worker (WorkerId 1) 0 0 ''w'' ''ws://h'')]\<rparr>"
  have ok: "tables_ok ?s" by (simp add: tables_ok_def empty_store_def keyed_def hm_ok_def new_worker_def)
  obtain s' where s': "select (\<lambda>_. False) 9 [] (plain_task 1) ?s = (Inr (WorkerId 1), s')"
    using one_worker_selected by blast
  from selection_sound[OF ok this] s' show ?thesis by (auto simp: empty_store_def)
qed

text \<open>
  Load balancing: a task without agent or hint goes to a least loaded worker that answers. With
  at most 100 workers online (the page \<open>list_workers\<close> reads), every eligible worker that comes before
  the selected one in the order by (running tasks, name) is reached on demand and did not answer.
\<close>

theorem least_loaded:
  assumes "tables_ok s" "select probe now reg t s = (Inr wid, s')" "t_agent_id t = None" "t_server_hint t = None"
    "hm_count (\<lambda>w. w_status w = WOnline) (ms_workers s) \<le> 100"
  shows "\<exists>w. w_id w = wid \<and> eligible reg t s w \<and>
     (\<forall>v. eligible reg t s v \<and>
        ((of_nat (dispatched_to (w_id v) s) :: u32), w_name v) < (of_nat (dispatched_to wid s), w_name w) \<longrightarrow>
        w_liveness_mode v = OnDemand \<and> \<not> probe (w_id v))"
proof -
  obtain c0 load where c: "candidates reg t s = Inr c0"
      "count_dispatched_tasks_by_worker s = Inr load"
    using assms(2) by (auto simp: select_def split: sum.splits)
  let ?key = "\<lambda>w. (load_of load w, w_name w)"
  have "first_responding probe now (sort_key ?key (filter (has_room load) c0)) s = (Inr wid, s')"
    using assms(2,3,4) c by (auto simp: select_def Let_def split: if_splits)
  from first_responding_spec[OF this] obtain pre w post where
    w: "sort_key ?key (filter (has_room load) c0) = pre @ w # post"
      "w_id w = wid" "\<forall>v \<in> set pre. \<not> answers probe v" by auto
  have mem: "set (filter (has_room load) c0) = insert w (set pre \<union> set post)"
    using arg_cong[OF w(1), of set] by (simp only: set_sort) auto
  have el: "eligible reg t s w" 
    using mem candidates_sound[OF assms(1) c(1) _ c(2)] by auto
  have le: "?key w \<le> ?key v" if "v \<in> set post" for v
    using sorted_sort_key[of ?key "filter (has_room load) c0"] that
    unfolding w(1) by (auto simp: sorted_append)
  have "w_liveness_mode v = OnDemand \<and> \<not> probe (w_id v)"
    if v: "eligible reg t s v" "((of_nat (dispatched_to (w_id v) s) :: u32), w_name v) < (of_nat (dispatched_to wid s), w_name w)" for v
  proof -
    have lt: "?key v < ?key w" using v(2) w(2) load_exact[OF c(2)] by simp
    have "v \<in> insert w (set pre \<union> set post)"
      using candidates_complete[OF assms(1,5) c v(1)] by (simp only: mem)
    moreover have "v \<noteq> w" using lt by auto
    moreover have "v \<notin> set post" using le[of v] lt by (meson leD)
    ultimately have "v \<in> set pre" by blast
    then show ?thesis using w(3) by (auto simp: answers_def)
  qed
  then show ?thesis using w(2) el by blast
qed

lemma least_loaded_witness:
  "\<exists>w. w_id w = WorkerId 1 \<and> eligible [] (plain_task 1)
       (empty_store\<lparr>ms_workers := [(WorkerId 1, new_worker (WorkerId 1) 0 0 ''w'' ''ws://h'')]\<rparr>) w"
proof -
  let ?s = "empty_store\<lparr>ms_workers := [(WorkerId 1, new_worker (WorkerId 1) 0 0 ''w'' ''ws://h'')]\<rparr>"
  have ok: "tables_ok ?s" "hm_count (\<lambda>w. w_status w = WOnline) (ms_workers ?s) \<le> 100"
    by (simp_all add: tables_ok_def empty_store_def keyed_def hm_ok_def new_worker_def hm_count_def hm_values_def)
  obtain s' where s': "select (\<lambda>_. False) 9 [] (plain_task 1) ?s = (Inr (WorkerId 1), s')"
    using one_worker_selected by blast
  have "t_agent_id (plain_task 1) = None" "t_server_hint (plain_task 1) = None"
    by (simp_all add: from_request_def default_request_def Let_def)
  from least_loaded[OF ok(1) s' this ok(2)] show ?thesis by blast
qed

end
