(* ===== verification/Lease_Manager.thy ===== *)
theory Lease_Manager
  imports Store_History
begin

text \<open>
  The lease manager of an instance (\<open>crates/fleet-scheduler/src/lease.rs\<close>) and what the rest of
  the instance sees of it (\<open>LeaseObserver\<close>, and \<open>FleetState\<close> in \<open>state.rs\<close>). The background task
  is a step relation; several instances run theirs against one store.
\<close>

section \<open>Status, configuration, manager\<close>

datatype lease_status = LsStopped | LsActive int | LsFenced

fun ls_is_active :: "lease_status \<Rightarrow> bool" where
  "ls_is_active (LsActive _) = True"
| "ls_is_active _ = False"

fun ls_epoch :: "lease_status \<Rightarrow> int option" where
  "ls_epoch (LsActive e) = Some e"
| "ls_epoch _ = None"

record lease_manager_config =
  lc_ttl :: duration
  lc_renew_interval :: duration
  lc_poll_interval :: duration
  lc_shutdown_grace :: duration

definition default_lease_config :: lease_manager_config where
  "default_lease_config = \<lparr> lc_ttl = secs 15, lc_renew_interval = secs 5, lc_poll_interval = secs 3,
     lc_shutdown_grace = secs 5 \<rparr>"

record lease_manager =
  lm_cluster_id :: string
  lm_instance_id :: string
  lm_binary_version :: string
  lm_config :: lease_manager_config
  lm_status :: lease_status

definition new_manager :: "string \<Rightarrow> string \<Rightarrow> string \<Rightarrow> lease_manager_config \<Rightarrow> lease_manager" where
  "new_manager cluster inst version config = \<lparr> lm_cluster_id = cluster, lm_instance_id = inst,
     lm_binary_version = version, lm_config = config, lm_status = LsStopped \<rparr>"

text \<open>What the observers of a manager see.\<close>

record lease_observer =
  lo_cluster_id :: string
  lo_instance_id :: string
  lo_status :: lease_status

definition observer :: "lease_manager \<Rightarrow> lease_observer" where
  "observer m = \<lparr> lo_cluster_id = lm_cluster_id m, lo_instance_id = lm_instance_id m,
     lo_status = lm_status m \<rparr>"

definition allows_control :: "lease_observer \<Rightarrow> bool" where
  "allows_control ob = ls_is_active (lo_status ob)"

definition lease_fence :: "lease_observer \<Rightarrow> control_fence option" where
  "lease_fence ob = map_option (\<lambda>epoch. \<lparr> cf_cluster_id = lo_cluster_id ob, cf_epoch = epoch \<rparr>) (ls_epoch (lo_status ob))"

text \<open>\<open>FleetState\<close>: without a lease every control action is allowed, and unfenced.\<close>

definition lease_allows_control :: "lease_observer option \<Rightarrow> bool" where
  "lease_allows_control lease = (case lease of Some ob \<Rightarrow> allows_control ob | None \<Rightarrow> True)"

definition control_fence_of :: "lease_observer option \<Rightarrow> control_fence option" where
  "control_fence_of lease = Option.bind lease lease_fence"

definition lease_status_label :: "lease_observer option \<Rightarrow> string" where
  "lease_status_label lease =
     (case map_option lo_status lease of
        None \<Rightarrow> ''no_lease_configured''
      | Some (LsActive _) \<Rightarrow> ''active''
      | Some LsFenced \<Rightarrow> ''fenced''
      | Some LsStopped \<Rightarrow> ''stopped'')"

section \<open>Operations\<close>

definition try_acquire ::
    "(duration \<Rightarrow> timedelta option) \<Rightarrow> datetime \<Rightarrow> lease_manager \<Rightarrow> mem_store
     \<Rightarrow> (store_error, control_lease) result \<times> lease_manager \<times> mem_store" where
  "try_acquire conv now m s =
     (case acquire_control_lease conv now (lm_cluster_id m) (lm_instance_id m) (lc_ttl (lm_config m))
             (Some (lm_binary_version m)) s of
        (Inr lease, s) \<Rightarrow> (Inr lease, m\<lparr>lm_status := LsActive (cl_epoch lease)\<rparr>, s)
      | (Inl e, s) \<Rightarrow> (Inl e, m\<lparr>lm_status := LsStopped\<rparr>, s))"

definition try_renew ::
    "(duration \<Rightarrow> timedelta option) \<Rightarrow> datetime \<Rightarrow> int \<Rightarrow> lease_manager \<Rightarrow> mem_store
     \<Rightarrow> (store_error, control_lease) result \<times> lease_manager \<times> mem_store" where
  "try_renew conv now epoch m s =
     (case renew_control_lease conv now (lm_cluster_id m) (lm_instance_id m) epoch (lc_ttl (lm_config m)) s of
        (Inr lease, s) \<Rightarrow> (Inr lease, m\<lparr>lm_status := LsActive (cl_epoch lease)\<rparr>, s)
      | (Inl e, s) \<Rightarrow> (Inl e, m\<lparr>lm_status := LsFenced\<rparr>, s))"

definition release ::
    "datetime \<Rightarrow> lease_manager \<Rightarrow> mem_store \<Rightarrow> (store_error, bool) result \<times> lease_manager \<times> mem_store" where
  "release now m s =
     (case ls_epoch (lm_status m) of
        None \<Rightarrow> (Inr False, m\<lparr>lm_status := LsStopped\<rparr>, s)
      | Some epoch \<Rightarrow>
          (case release_control_lease now (lm_cluster_id m) (lm_instance_id m) epoch s of
             (r, s) \<Rightarrow> (r, m\<lparr>lm_status := LsStopped\<rparr>, s)))"

section \<open>The background task\<close>

text \<open>
  Where \<open>run\<close> stands: about to acquire, in \<open>renew_loop\<close>, in the pause before the next attempt,
  about to release, ended. \<open>shutdown\<close> is the cancellation token. When the token is set and a timer
  fires as well, either branch of the \<open>select!\<close> may be taken. A task that is aborted, or whose
  process dies, ends where it stands.
\<close>

datatype lm_phase = LmAcquire | LmRenew int | LmPause | LmRelease | LmEnded

inductive process_step ::
    "(duration \<Rightarrow> timedelta option) \<Rightarrow> bool \<Rightarrow> lm_phase \<times> lease_manager \<Rightarrow> mem_store
     \<Rightarrow> lm_phase \<times> lease_manager \<Rightarrow> mem_store \<Rightarrow> bool"
  for conv shutdown where
  acquired: "\<not> shutdown \<Longrightarrow> try_acquire conv now m s = (Inr l, m', s') \<Longrightarrow>
    process_step conv shutdown (LmAcquire, m) s (LmRenew (cl_epoch l), m') s'"
| refused: "\<not> shutdown \<Longrightarrow> try_acquire conv now m s = (Inl e, m', s') \<Longrightarrow>
    process_step conv shutdown (LmAcquire, m) s (LmPause, m') s'"
| renewed: "try_renew conv now epoch m s = (Inr l, m', s') \<Longrightarrow>
    process_step conv shutdown (LmRenew epoch, m) s (LmRenew epoch, m') s'"
| lost: "try_renew conv now epoch m s = (Inl e, m', s') \<Longrightarrow>
    process_step conv shutdown (LmRenew epoch, m) s (LmPause, m') s'"
| paused: "process_step conv shutdown (LmPause, m) s (LmAcquire, m) s"
| stopping: "shutdown \<Longrightarrow> p \<noteq> LmRelease \<Longrightarrow> p \<noteq> LmEnded \<Longrightarrow>
    process_step conv shutdown (p, m) s (LmRelease, m) s"
| released: "release now m s = (r, m', s') \<Longrightarrow>
    process_step conv shutdown (LmRelease, m) s (LmEnded, m') s'"
| aborted: "process_step conv shutdown (p, m) s (LmEnded, m) s"

inductive_cases process_stepE: "process_step conv shutdown pm s pm' s'"

text \<open>
  Instances side by side on one store: a step is a step of one of them, or an operation of
  anybody that leaves the lease rows alone. The number counts the steps.
\<close>

inductive cluster_reach ::
    "(duration \<Rightarrow> timedelta option) \<Rightarrow> (lm_phase \<times> lease_manager) list \<Rightarrow> mem_store
     \<Rightarrow> nat \<Rightarrow> (lm_phase \<times> lease_manager) list \<Rightarrow> mem_store \<Rightarrow> bool"
  for conv ps0 s0 where
  start: "cluster_reach conv ps0 s0 0 ps0 s0"
| instance_step: "cluster_reach conv ps0 s0 n ps s \<Longrightarrow> i < length ps \<Longrightarrow>
    process_step conv shutdown (ps ! i) s pm s' \<Longrightarrow>
    cluster_reach conv ps0 s0 (Suc n) (ps[i := pm]) s'"
| other_step: "cluster_reach conv ps0 s0 n ps s \<Longrightarrow> ms_control_leases s' = ms_control_leases s \<Longrightarrow>
    cluster_reach conv ps0 s0 (Suc n) ps s'"

section \<open>At most one instance is in charge\<close>

text \<open>How a lease row may move: its epoch and holder stay, or the epoch grows.\<close>

definition lease_moves :: "mem_store \<Rightarrow> mem_store \<Rightarrow> bool" where
  "lease_moves s s' \<longleftrightarrow> (\<forall>c l. hm_get (ms_control_leases s) c = Some l \<longrightarrow>
     (\<exists>l'. hm_get (ms_control_leases s') c = Some l' \<and>
        (cl_epoch l' = cl_epoch l \<and> cl_active_instance_id l' = cl_active_instance_id l \<or>
         cl_epoch l < cl_epoch l')))"

definition epochs_below :: "int \<Rightarrow> mem_store \<Rightarrow> bool" where
  "epochs_below b s \<longleftrightarrow> (\<forall>c l. hm_get (ms_control_leases s) c = Some l \<longrightarrow> cl_epoch l \<le> b)"

text \<open>A manager that believes itself active was granted that epoch.\<close>

definition granted_once :: "mem_store \<Rightarrow> lease_manager \<Rightarrow> bool" where
  "granted_once s m \<longleftrightarrow> (\<forall>e. lm_status m = LsActive e \<longrightarrow>
     (\<exists>l. hm_get (ms_control_leases s) (lm_cluster_id m) = Some l \<and> e \<le> cl_epoch l \<and>
        (cl_epoch l = e \<longrightarrow> cl_active_instance_id l = lm_instance_id m)))"

text \<open>What one step of one instance keeps.\<close>

definition step_ok :: "int \<Rightarrow> lease_manager \<Rightarrow> mem_store \<Rightarrow> lease_manager \<Rightarrow> mem_store \<Rightarrow> bool" where
  "step_ok b m s m' s' \<longleftrightarrow> lease_moves s s' \<and> epochs_below (b + 1) s' \<and> granted_once s' m' \<and>
     lm_instance_id m' = lm_instance_id m \<and> lm_cluster_id m' = lm_cluster_id m"

lemma epochs_below_Suc: "epochs_below b s \<Longrightarrow> epochs_below (b + 1) s"
  by (force simp: epochs_below_def)

lemma granted_once_moves:
  assumes "granted_once s m" "lease_moves s s'"
  shows "granted_once s' m"
  unfolding granted_once_def
proof (intro allI impI)
  fix e assume "lm_status m = LsActive e"
  then obtain l where l: "hm_get (ms_control_leases s) (lm_cluster_id m) = Some l" "e \<le> cl_epoch l"
      "cl_epoch l = e \<longrightarrow> cl_active_instance_id l = lm_instance_id m"
    using assms(1) by (auto simp: granted_once_def)
  then obtain l' where "hm_get (ms_control_leases s') (lm_cluster_id m) = Some l'"
      "cl_epoch l' = cl_epoch l \<and> cl_active_instance_id l' = cl_active_instance_id l \<or> cl_epoch l < cl_epoch l'"
    using assms(2) unfolding lease_moves_def by blast
  then show "\<exists>l. hm_get (ms_control_leases s') (lm_cluster_id m) = Some l \<and> e \<le> cl_epoch l \<and>
      (cl_epoch l = e \<longrightarrow> cl_active_instance_id l = lm_instance_id m)"
    using l by auto
qed

lemma lease_moves_frame: "ms_control_leases s' = ms_control_leases s \<Longrightarrow> lease_moves s s'"
  by (auto simp: lease_moves_def)

lemma moves_insert:
  assumes "epochs_below b s" "b < i64_max" "0 \<le> b"
    "s' = s\<lparr>ms_control_leases := hm_insert c l' (ms_control_leases s)\<rparr>"
    "cl_epoch l' = epoch_next (lease_epoch s c) \<or>
     (\<exists>l. hm_get (ms_control_leases s) c = Some l \<and> cl_epoch l' = cl_epoch l \<and>
        cl_active_instance_id l' = cl_active_instance_id l)"
  shows "lease_moves s s' \<and> epochs_below (b + 1) s'"
proof -
  have old: "cl_epoch l < i64_max \<and> cl_epoch l \<le> b" if "hm_get (ms_control_leases s) d = Some l" for d l
    using assms(1,2) that by (force simp: epochs_below_def)
  have new: "cl_epoch l' \<le> b + 1"
    using assms(3,5) old[of c]
    by (cases "hm_get (ms_control_leases s) c") (auto simp: lease_epoch_def epoch_next_def i64_succ_less)
  have "lease_moves s s'"
    using assms(4,5) old by (auto simp: lease_moves_def lease_epoch_def epoch_next_def i64_succ_less)
  moreover have "epochs_below (b + 1) s'"
    using assms(1,4) new by (force simp: epochs_below_def)
  ultimately show ?thesis ..
qed

lemma acquire_step:
  assumes "try_acquire conv now m s = (r, m', s')" "epochs_below b s" "b < i64_max" "0 \<le> b"
  shows "step_ok b m s m' s'"
proof -
  obtain ra sa where a: "acquire_control_lease conv now (lm_cluster_id m) (lm_instance_id m)
      (lc_ttl (lm_config m)) (Some (lm_binary_version m)) s = (ra, sa)" by fastforce
  from a show ?thesis
  proof (cases rule: acquire_cases)
    case (granted l)
    then have "s' = sa" "m' = m\<lparr>lm_status := LsActive (cl_epoch l)\<rparr>"
      using assms(1) a by (auto simp: try_acquire_def)
    then show ?thesis using granted moves_insert[OF assms(2-4) granted(5)] by (auto simp: granted_once_def step_ok_def)
  next
    case (refused e)
    then show ?thesis using assms(1) epochs_below_Suc[OF assms(2)] a
      by (auto simp: try_acquire_def granted_once_def lease_moves_frame step_ok_def)
  qed
qed

lemma renew_step:
  assumes "try_renew conv now epoch m s = (r, m', s')" "epochs_below b s" "b < i64_max" "0 \<le> b"
  shows "step_ok b m s m' s'"
proof -
  note below = epochs_below_Suc[OF assms(2)]
  show ?thesis
  proof (cases r)
    case (Inl e)
    then show ?thesis using assms(1) below
      by (auto simp: try_renew_def renew_control_lease_def granted_once_def lease_moves_frame Let_def step_ok_def
          split: sum.splits prod.splits option.splits if_splits)
  next
    case (Inr l')
    then obtain l where l: "hm_get (ms_control_leases s) (lm_cluster_id m) = Some l"
        "cl_active_instance_id l = lm_instance_id m" "cl_epoch l' = cl_epoch l"
        "cl_active_instance_id l' = cl_active_instance_id l"
        "s' = s\<lparr>ms_control_leases := hm_insert (lm_cluster_id m) l' (ms_control_leases s)\<rparr>"
        "m' = m\<lparr>lm_status := LsActive (cl_epoch l')\<rparr>"
      using assms(1)
      by (auto simp: try_renew_def renew_control_lease_def Let_def
          split: sum.splits prod.splits option.splits if_splits)
    then show ?thesis using moves_insert[OF assms(2-4) l(5)] by (auto simp: granted_once_def step_ok_def)
  qed
qed

lemma release_row:
  "snd (release_control_lease now c inst e s) = s \<or>
   (\<exists>l. hm_get (ms_control_leases s) c = Some l \<and> snd (release_control_lease now c inst e s) =
      s\<lparr>ms_control_leases := hm_insert c (l\<lparr>cl_expires_at := now\<rparr>) (ms_control_leases s)\<rparr>)"
  by (auto simp: release_control_lease_def split: option.split)

lemma release_step:
  assumes "release now m s = (r, m', s')" "epochs_below b s" "b < i64_max" "0 \<le> b"
  shows "step_ok b m s m' s'"
proof -
  note below = epochs_below_Suc[OF assms(2)]
  have m': "m' = m\<lparr>lm_status := LsStopped\<rparr>"
    using assms(1) by (auto simp: release_def split: option.splits prod.splits)
  consider "s' = s" | l where "hm_get (ms_control_leases s) (lm_cluster_id m) = Some l"
      "s' = s\<lparr>ms_control_leases := hm_insert (lm_cluster_id m) (l\<lparr>cl_expires_at := now\<rparr>) (ms_control_leases s)\<rparr>"
  proof (cases "ls_epoch (lm_status m)")
    case None
    then show thesis using assms(1) that(1) by (simp add: release_def)
  next
    case (Some e)
    then have "snd (release_control_lease now (lm_cluster_id m) (lm_instance_id m) e s) = s'"
      using assms(1) by (simp add: release_def split: prod.splits)
    then show thesis
      using release_row[of now "lm_cluster_id m" "lm_instance_id m" e s] that by metis
  qed
  then show ?thesis
  proof cases
    case 1
    then show ?thesis using below m' by (simp add: lease_moves_frame granted_once_def step_ok_def)
  next
    case 2
    have "lease_moves s s' \<and> epochs_below (b + 1) s'"
      by (rule moves_insert[OF assms(2-4) 2(2)]) (simp add: 2(1))
    then show ?thesis using m' by (simp add: granted_once_def step_ok_def)
  qed
qed

lemma process_step_ok:
  assumes "process_step conv shutdown (p, m) s (p', m') s'" "epochs_below b s" "b < i64_max" "0 \<le> b"
    "granted_once s m"
  shows "step_ok b m s m' s'"
proof -
  note below = epochs_below_Suc[OF assms(2)]
  have stay: "step_ok b m s m s" using below assms(5) by (simp add: step_ok_def lease_moves_frame)
  from assms(1) show ?thesis
  proof (cases rule: process_step.cases)
    case (acquired now l)
    then show ?thesis using acquire_step[OF _ assms(2-4)] by blast
  next
    case (refused now e)
    then show ?thesis using acquire_step[OF _ assms(2-4)] by blast
  next
    case (renewed now epoch l)
    then show ?thesis using renew_step[OF _ assms(2-4)] by blast
  next
    case (lost now epoch e)
    then show ?thesis using renew_step[OF _ assms(2-4)] by blast
  next
    case (released now r)
    then show ?thesis using release_step[OF _ assms(2-4)] by blast
  qed (use stay in simp_all)
qed

lemma cluster_ok:
  assumes "cluster_reach conv ps0 s0 n ps s" "epochs_below b s0" "0 \<le> b" "b + int n \<le> i64_max"
    "\<forall>pm \<in> set ps0. granted_once s0 (snd pm)"
  shows "epochs_below (b + int n) s \<and> (\<forall>pm \<in> set ps. granted_once s (snd pm))"
  using assms
proof (induction rule: cluster_reach.induct)
  case (instance_step n ps s i shutdown pm s')
  then have IH: "epochs_below (b + int n) s" "\<forall>pm \<in> set ps. granted_once s (snd pm)" by auto
  obtain p m p' m' where pm: "ps ! i = (p, m)" "pm = (p', m')" by fastforce
  have "granted_once s m" using IH(2) instance_step.hyps(2) pm(1) by (metis nth_mem snd_conv)
  then have ok: "step_ok (b + int n) m s m' s'"
    using process_step_ok[of conv shutdown p m s p' m' s' "b + int n"] instance_step.hyps(3) pm IH(1)
      instance_step.prems(2,3) by simp
  have "granted_once s' (snd q)" if "q \<in> set (ps[i := pm])" for q
    using that ok IH(2) pm(2) set_update_subset_insert[of ps i pm] granted_once_moves[of s _ s']
    by (auto simp: step_ok_def)
  then show ?case using ok by (simp add: step_ok_def algebra_simps)
next
  case (other_step n ps s s')
  then have "epochs_below (b + int n) s" "\<forall>pm \<in> set ps. granted_once s (snd pm)" by auto
  then show ?case
    using other_step.hyps(2) epochs_below_Suc[of "b + int n" s] granted_once_moves[OF _ lease_moves_frame]
    by (auto simp: epochs_below_def algebra_simps)
qed simp_all

text \<open>
  C3. One instance in charge: however the background tasks of any number of instances interleave
  with each other (acquiring, renewing, losing, releasing, being shut down or killed) and with
  everything else that happens to the store, two instances whose fences the store accepts at the
  same moment are the same instance. The bound keeps the 64-bit epoch from wrapping.
\<close>

theorem single_authority:
  assumes "cluster_reach conv ps0 s0 n ps s"
    and "\<forall>pm \<in> set ps0. lm_status (snd pm) = LsStopped"
    and "epochs_below b s0" "0 \<le> b" "b + int n \<le> i64_max"
    and "(p, m) \<in> set ps" "lease_fence (observer m) = Some f" "control_fence_holds s (Some f)"
    and "(p', m') \<in> set ps" "lease_fence (observer m') = Some f'" "control_fence_holds s (Some f')"
    and "cf_cluster_id f = cf_cluster_id f'"
  shows "lm_instance_id m = lm_instance_id m'"
proof -
  have "\<forall>pm \<in> set ps0. granted_once s0 (snd pm)" using assms(2) by (simp add: granted_once_def)
  from cluster_ok[OF assms(1,3-5) this] have g: "granted_once s m" "granted_once s m'"
    using assms(6,9) by force+
  have "\<exists>l. hm_get (ms_control_leases s) (cf_cluster_id g) = Some l \<and> cl_active_instance_id l = lm_instance_id k"
    if "granted_once s k" "lease_fence (observer k) = Some g" "control_fence_holds s (Some g)" for g k
    using that
    by (cases "lm_status k") (auto simp: granted_once_def lease_fence_def observer_def
        control_fence_holds_def lease_epoch_def)
  from this[OF g(1) assms(7,8)] this[OF g(2) assms(10,11)] assms(12) show ?thesis by auto
qed

lemma single_authority_witness:
  "\<exists>ps s. cluster_reach ns_conv [(LmAcquire, new_manager ''c'' ''a'' ''v'' default_lease_config)] empty_store 1 ps s \<and>
     (\<forall>p m p' m'. (p, m) \<in> set ps \<and> (p', m') \<in> set ps \<and> lm_status m = LsActive 1 \<and> lm_status m' = LsActive 1 \<and>
        lm_cluster_id m = ''c'' \<and> lm_cluster_id m' = ''c'' \<longrightarrow> lm_instance_id m = lm_instance_id m')"
proof -
  let ?m = "new_manager ''c'' ''a'' ''v'' default_lease_config"
  obtain l m' s' where a: "try_acquire ns_conv 0 ?m empty_store = (Inr l, m', s')"
    "hm_get (ms_control_leases s') ''c'' = Some l" "cl_epoch l = 1"
    by (auto simp: try_acquire_def acquire_control_lease_def empty_store_def Let_def new_manager_def)
  have "cluster_reach ns_conv [(LmAcquire, ?m)] empty_store (Suc 0) ([(LmAcquire, ?m)][0 := (LmRenew (cl_epoch l), m')]) s'"
    by (rule instance_step[OF start, of 0 _ _ False]) (auto intro: acquired[OF _ a(1)])
  then have r: "cluster_reach ns_conv [(LmAcquire, ?m)] empty_store 1 [(LmRenew 1, m')] s'" using a(3) by simp
  have h: "control_fence_holds s' (Some \<lparr>cf_cluster_id = ''c'', cf_epoch = 1\<rparr>)"
    using a(2,3) by (simp add: control_fence_holds_def lease_epoch_def)
  show ?thesis
  proof (intro exI conjI allI impI, rule r)
    fix p k p' k'
    assume k: "(p, k) \<in> set [(LmRenew 1, m')] \<and> (p', k') \<in> set [(LmRenew 1, m')] \<and> lm_status k = LsActive 1 \<and>
      lm_status k' = LsActive 1 \<and> lm_cluster_id k = ''c'' \<and> lm_cluster_id k' = ''c''"
    show "lm_instance_id k = lm_instance_id k'"
      by (rule single_authority[OF r _ _ _ _ _ _ h _ _ h, where b = 0])
        (use k in \<open>auto simp: new_manager_def epochs_below_def empty_store_def hm_get_def i64_max_def
           lease_fence_def observer_def\<close>)
  qed
qed

text \<open>
  Graceful handover: when the instance in charge shuts down, its release is accepted, it stops
  fencing anything as its own, and from that instant on any other instance acquires the lease at
  its first attempt, under the next epoch.
\<close>

theorem graceful_handover:
  assumes "lm_status m = LsActive e" "hm_get (ms_control_leases s) (lm_cluster_id m) = Some l"
    "cl_epoch l = e" "cl_active_instance_id l = lm_instance_id m" "release now m s = (r, m1, s1)"
    "now \<le> now'" "lm_cluster_id m2 = lm_cluster_id m"
  shows "r = Inr True \<and> lease_fence (observer m1) = None \<and> \<not> allows_control (observer m1) \<and>
    (\<exists>l2 m2' s2. try_acquire conv now' m2 s1 = (Inr l2, m2', s2) \<and> cl_epoch l2 = i64_succ e \<and>
       lm_status m2' = LsActive (i64_succ e) \<and> cl_active_instance_id l2 = lm_instance_id m2)"
proof -
  have r: "r = Inr True" "m1 = m\<lparr>lm_status := LsStopped\<rparr>"
    "s1 = s\<lparr>ms_control_leases := hm_insert (lm_cluster_id m) (l\<lparr>cl_expires_at := now\<rparr>) (ms_control_leases s)\<rparr>"
    using assms(1-5) by (auto simp: release_def release_control_lease_def)
  then show ?thesis using assms(3,6,7)
    by (auto simp: lease_fence_def observer_def allows_control_def try_acquire_def
        acquire_control_lease_def Let_def)
qed

lemma graceful_handover_witness:
  "\<exists>l m1 s1 m2 s2. release 7 ((new_manager ''c'' ''a'' ''v'' default_lease_config)\<lparr>lm_status := LsActive 1\<rparr>)
       (snd (acquire_control_lease ns_conv 0 ''c'' ''a'' 10 None empty_store)) = (Inr True, m1, s1) \<and>
     try_acquire ns_conv 7 (new_manager ''c'' ''b'' ''v'' default_lease_config) s1 = (Inr l, m2, s2) \<and> cl_epoch l = 2"
proof -
  let ?m = "(new_manager ''c'' ''a'' ''v'' default_lease_config)\<lparr>lm_status := LsActive 1\<rparr>"
  let ?s = "snd (acquire_control_lease ns_conv 0 ''c'' ''a'' 10 None empty_store)"
  obtain l where l: "hm_get (ms_control_leases ?s) ''c'' = Some l" "cl_epoch l = 1" "cl_active_instance_id l = ''a''"
    by (simp add: acquire_control_lease_def empty_store_def Let_def)
  obtain r m1 s1 where r: "release 7 ?m ?s = (r, m1, s1)" by (cases "release 7 ?m ?s")
  have "lm_cluster_id ?m = ''c''" "lm_instance_id ?m = ''a''" by (simp_all add: new_manager_def)
  with graceful_handover[OF _ _ l(2) _ r, of 7 "new_manager ''c'' ''b'' ''v'' default_lease_config" ns_conv] l r
  show ?thesis by (auto simp: new_manager_def i64_succ_def i64_max_def)
qed

end
