(* ===== verification/Skill_Loader.thy ===== *)
theory Skill_Loader
  imports Server_Key Router
begin

text \<open>
  Loading the skills a task requires into its prompt (\<open>crates/fleet-scheduler/src/skill_loader.rs\<close>).
  Reading a file of the skills directory is the argument \<open>read\<close>; SHA-256 of the body is \<open>sha\<close>.
\<close>

datatype io_error = IoNotFound | IoOther string

definition newline :: string where
  "newline = [CHR 0x0A]"

definition trim_start :: "string \<Rightarrow> string" where
  "trim_start = dropWhile is_space"

definition strip_frontmatter :: "string \<Rightarrow> string" where
  "strip_frontmatter content =
     (if take 3 content = ''---'' then
        let rest = drop 3 content
        in case find_sub (newline @ ''---'') rest of
             Some stop \<Rightarrow> trim_start (drop (stop + 4) rest)
           | None \<Rightarrow> content
      else content)"

definition load_skill :: "(string \<Rightarrow> (io_error, string) result) \<Rightarrow> string \<Rightarrow> string option" where
  "load_skill read name =
     (if contains_str name ''/'' \<or> contains_str name [CHR 0x5C] \<or> contains_str name ''..'' then None
      else case read (name @ ''.md'') of
        Inr content \<Rightarrow> Some (strip_frontmatter content)
      | Inl IoNotFound \<Rightarrow>
          (case read (name @ ''.txt'') of
             Inr content \<Rightarrow> Some (strip_frontmatter content)
           | Inl _ \<Rightarrow> None)
      | Inl (IoOther _) \<Rightarrow> None)"

record skill_injection =
  si_prompt :: string
  si_missing :: "string list"
  si_loaded :: "skill_snapshot_entry list"

definition is_complete :: "skill_injection \<Rightarrow> bool" where
  "is_complete i = (si_missing i = [])"

definition skill_block :: "string \<Rightarrow> string \<Rightarrow> string" where
  "skill_block skill body =
     ''<SKILL: '' @ skill @ ''>'' @ newline @ body @ newline @ ''</SKILL>''"

fun join_with :: "string \<Rightarrow> string list \<Rightarrow> string" where
  "join_with sep [] = []"
| "join_with sep [x] = x"
| "join_with sep (x # y # ys) = x @ sep @ join_with sep (y # ys)"

fun load_all ::
    "(string \<Rightarrow> string) \<Rightarrow> (string \<Rightarrow> (io_error, string) result) \<Rightarrow> string list
     \<Rightarrow> string list \<times> string list \<times> skill_snapshot_entry list
     \<Rightarrow> string list \<times> string list \<times> skill_snapshot_entry list" where
  "load_all sha read [] acc = acc"
| "load_all sha read (skill # skills) (blocks, missing, loaded) =
     load_all sha read skills
       (case load_skill read skill of
          Some body \<Rightarrow> (blocks @ [skill_block skill body], missing,
            loaded @ [\<lparr> sk_name = skill, sk_sha256 = sha body, sk_bytes = length body \<rparr>])
        | None \<Rightarrow> (blocks, missing @ [skill], loaded))"

definition inject_skills ::
    "(string \<Rightarrow> string) \<Rightarrow> (string \<Rightarrow> (io_error, string) result) \<Rightarrow> string \<Rightarrow> string list \<Rightarrow> skill_injection" where
  "inject_skills sha read prompt skills =
     (if skills = [] then \<lparr> si_prompt = prompt, si_missing = [], si_loaded = [] \<rparr>
      else case load_all sha read skills ([], [], []) of
        (blocks, missing, loaded) \<Rightarrow>
          \<lparr> si_prompt =
              (if blocks = [] then prompt
               else join_with (newline @ newline) blocks @ newline @ newline @ ''<TASK>'' @ newline
                 @ prompt @ newline @ ''</TASK>''),
            si_missing = missing, si_loaded = loaded \<rparr>)"

section \<open>What the snapshot says\<close>

definition safe_name :: "string \<Rightarrow> bool" where
  "safe_name name \<longleftrightarrow> \<not> contains_str name ''/'' \<and> \<not> contains_str name [CHR 0x5C] \<and> \<not> contains_str name ''..''"

definition entry_of :: "(string \<Rightarrow> string) \<Rightarrow> string \<times> string \<Rightarrow> skill_snapshot_entry" where
  "entry_of sha sb = \<lparr> sk_name = fst sb, sk_sha256 = sha (snd sb), sk_bytes = length (snd sb) \<rparr>"

lemma load_all_spec:
  "load_all sha read skills (b, m, l) =
     (b @ map (\<lambda>s. skill_block s (the (load_skill read s))) (filter (\<lambda>s. load_skill read s \<noteq> None) skills),
      m @ filter (\<lambda>s. load_skill read s = None) skills,
      l @ map (\<lambda>s. entry_of sha (s, the (load_skill read s))) (filter (\<lambda>s. load_skill read s \<noteq> None) skills))"
  by (induction skills arbitrary: b m l) (auto simp: entry_of_def split: option.split)

lemma load_skill_safe: "load_skill read name \<noteq> None \<Longrightarrow> safe_name name"
  by (auto simp: load_skill_def safe_name_def split: if_splits)

lemma load_skill_cong:
  assumes "\<And>n. safe_name n \<Longrightarrow> read1 (n @ ''.md'') = read2 (n @ ''.md'') \<and> read1 (n @ ''.txt'') = read2 (n @ ''.txt'')"
  shows "load_skill read1 name = load_skill read2 name"
proof (cases "safe_name name")
  case True
  show ?thesis unfolding load_skill_def
    by (simp only: conjunct1[OF assms[OF True]] conjunct2[OF assms[OF True]])
next
  case False
  then have "load_skill r name = None" for r by (auto simp: load_skill_def safe_name_def)
  then show ?thesis by simp
qed

text \<open>
  Skill injection is honest and confined: what is missing is exactly the required skills that
  do not load, in order, and it is complete when all load; the snapshot names exactly the loaded
  ones, with the digest and length of the text that went into the prompt; with nothing loaded the
  prompt is unchanged; and no file is read for a name with a path separator or \<open>..\<close>: readers that
  agree on the other names give the same injection.
\<close>

theorem injection_exact:
  assumes "\<And>n. safe_name n \<Longrightarrow> read1 (n @ ''.md'') = read2 (n @ ''.md'') \<and> read1 (n @ ''.txt'') = read2 (n @ ''.txt'')"
  shows "inject_skills sha read1 prompt skills = inject_skills sha read2 prompt skills \<and>
    si_missing (inject_skills sha read1 prompt skills) = filter (\<lambda>s. load_skill read1 s = None) skills \<and>
    (is_complete (inject_skills sha read1 prompt skills) \<longleftrightarrow> list_all (\<lambda>s. load_skill read1 s \<noteq> None) skills) \<and>
    si_loaded (inject_skills sha read1 prompt skills) =
      map (\<lambda>s. entry_of sha (s, the (load_skill read1 s))) (filter (\<lambda>s. load_skill read1 s \<noteq> None) skills) \<and>
    (list_all (\<lambda>s. load_skill read1 s = None) skills \<longrightarrow>
       si_prompt (inject_skills sha read1 prompt skills) = prompt)"
proof -
  have "load_skill read1 = load_skill read2" using load_skill_cong[OF assms] by auto
  then show ?thesis
    by (auto simp: inject_skills_def load_all_spec is_complete_def list_all_iff filter_empty_conv)
qed

lemma injection_exact_witness:
  "si_loaded (inject_skills (\<lambda>b. ''h'') (\<lambda>f. if f = ''a.md'' then Inr ''do'' else Inl IoNotFound) ''p'' [''a'', ''../x''])
     = [\<lparr> sk_name = ''a'', sk_sha256 = ''h'', sk_bytes = 2 \<rparr>]"
proof -
  let ?r = "\<lambda>f. if f = ''a.md'' then Inr ''do'' else Inl IoNotFound"
  have l: "load_skill ?r ''a'' = Some ''do''" "load_skill ?r ''../x'' = None"
    by (simp_all add: load_skill_def strip_frontmatter_def)
  show ?thesis using injection_exact[of ?r ?r "\<lambda>b. ''h''" "''p''" "[''a'', ''../x'']"]
    by (simp add: l entry_of_def)
qed

end
