(* ===== verification/Dispatch_State.thy ===== *)
theory Dispatch_State
  imports Selector Lease_Manager Router Skill_Loader Workspace_Path
begin

text \<open>
  What the dispatcher works on: the transport's messages (\<open>crates/fleet-transport/src/lib.rs\<close>,
  \<open>error.rs\<close>), the audit record, the store methods with a default implementation
  (\<open>crates/fleet-store/src/lib.rs\<close>), the dispatcher's errors and its state
  (\<open>crates/fleet-scheduler/src/dispatcher.rs\<close>).
\<close>

section \<open>The transport\<close>

record dispatch_request =
  dr_task_id :: task_id
  dr_worker_id :: worker_id
  dr_prompt :: string
  dr_cwd :: "string option"
  dr_model :: "string option"
  dr_max_turns :: "u32 option"
  dr_timeout_secs :: "u64 option"
  dr_checkpoint_branch :: "string option"
  dr_skills_required :: "string list"

record cancel_request =
  cq_task_id :: task_id
  cq_known_session :: "string option"
  cq_worker_id :: "worker_id option"

datatype cancel_delivery = Sent | NoSession | Unreachable

datatype failure_observation = Reported | NotDelivered | LostResult

datatype worker_event =
    EvOutput task_id u64 string
  | EvToolCall task_id worker_id tool_invocation
  | EvSessionOpened task_id string
  | EvCompleted task_id task_result
  | EvFailed task_id string failure_observation

datatype session_inventory = SessionsReported "string list" | Undeclared | SessionsRefused string

fun inventory_label :: "session_inventory \<Rightarrow> string" where
  "inventory_label (SessionsReported _) = ''reported''"
| "inventory_label Undeclared = ''undeclared''"
| "inventory_label (SessionsRefused _) = ''refused''"

fun is_authoritative :: "session_inventory \<Rightarrow> bool" where
  "is_authoritative (SessionsReported _) = True"
| "is_authoritative _ = False"

datatype transport_error = WorkerNotRegistered string | ConnectionError string | TimeoutError duration
  | WorkerSideError string | AlreadyRegistered string | WorkerAtCapacity string | AuthError string
  | InvalidRequest string

fun transport_error_text :: "transport_error \<Rightarrow> message" where
  "transport_error_text (WorkerNotRegistered w) = Msg ''worker {0} is not registered'' [ArgStr w]"
| "transport_error_text (ConnectionError e) = Msg ''worker connection error: {0}'' [ArgStr e]"
| "transport_error_text (TimeoutError d) = Msg ''worker timeout after {0:?}'' [ArgNum (int d)]"
| "transport_error_text (WorkerSideError e) = Msg ''worker error: {0}'' [ArgStr e]"
| "transport_error_text (AlreadyRegistered w) = Msg ''worker {0} already registered'' [ArgStr w]"
| "transport_error_text (WorkerAtCapacity w) =
     Msg ''worker {0} is at capacity (max_concurrent_tasks reached)'' [ArgStr w]"
| "transport_error_text (AuthError e) = Msg ''authentication failed: {0}'' [ArgStr e]"
| "transport_error_text (InvalidRequest e) =
     Msg ''dispatch request is invalid and was not sent to the worker: {0}'' [ArgStr e]"

section \<open>Texts of store errors and path errors\<close>

fun store_error_text :: "store_error \<Rightarrow> message" where
  "store_error_text (Connection e) = Msg ''database connection error: {0}'' [ArgStr e]"
| "store_error_text NotFound = Msg ''not found'' []"
| "store_error_text (Decode e) = Msg ''decode error: {0}'' [ArgStr e]"
| "store_error_text (Conflict m) = Msg ''conflict: {0}'' [ArgText m]"
| "store_error_text (Migration e) = Msg ''migration error: {0}'' [ArgStr e]"
| "store_error_text (Sqlx e) = Msg ''sqlx error: {0}'' [ArgStr e]"
| "store_error_text (Json e) = Msg ''json error: {0}'' [ArgStr e]"
| "store_error_text (BootstrapTokenInvalid m) = Msg ''bootstrap token invalid or exhausted: {0}'' [ArgText m]"
| "store_error_text (Unsupported op) = Msg ''operation not supported by this store backend: {0}'' [ArgStr op]"

fun path_error_text :: "workspace_path_error \<Rightarrow> message" where
  "path_error_text CwdMissing =
     Msg ''cwd is required: the orchestrator cannot invent a working directory for the worker (ACP session/new requires an absolute cwd)'' []"
| "path_error_text (NotAbsolute p) = Msg (''cwd must be an absolute path starting with '/', got {0:?}'') [ArgStr p]"
| "path_error_text (ParentTraversal p) = Msg ''cwd must not contain '..' path segments, got {0:?}'' [ArgStr p]"
| "path_error_text InteriorNul = Msg ''cwd must not contain NUL bytes'' []"
| "path_error_text FilesystemRoot =
     Msg ''cwd must not be the filesystem root '/': opening an agent session at the root exposes the entire worker filesystem'' []"

section \<open>Store methods with a default implementation\<close>

text \<open>\<open>MemStore\<close> inherits these two; it never writes the circuit state of a worker row.\<close>

definition update_worker_circuit_state ::
    "worker_id \<Rightarrow> circuit_state \<Rightarrow> mem_store \<Rightarrow> (store_error, unit) result \<times> mem_store" where
  "update_worker_circuit_state w st s = (Inr (), s)"

definition pg_update_worker_circuit_state ::
    "worker_id \<Rightarrow> circuit_state \<Rightarrow> mem_store \<Rightarrow> (store_error, unit) result \<times> mem_store" where
  "pg_update_worker_circuit_state w st s =
     (if hm_contains (ms_workers s) w
      then (Inr (), s\<lparr>ms_workers := hm_adjust w (\<lambda>x. x\<lparr>w_circuit_state := st\<rparr>) (ms_workers s)\<rparr>)
      else (Inl NotFound, s))"

definition list_thread_tasks :: "task_id \<Rightarrow> mem_store \<Rightarrow> (store_error, task list) result" where
  "list_thread_tasks thread s =
     (case list_tasks (default_task_filter\<lparr>fi_limit := 10000\<rparr>) s of
        Inl e \<Rightarrow> Inl e
      | Inr ts \<Rightarrow> Inr (sort_key t_created_at (filter (\<lambda>t. t_thread_id t = thread) ts)))"

definition get_agent_template_revision ::
    "agent_template_revision_id \<Rightarrow> mem_store \<Rightarrow> (store_error, agent_template_revision option) result" where
  "get_agent_template_revision i s = Inr (hm_get (ms_agent_template_revisions s) i)"

section \<open>Errors\<close>

datatype dispatch_error =
    DeStore message
  | DeNoWorker message
  | DeCircuitOpen worker_id
  | DeRecoveryUnavailable worker_id
  | DeSkillMissing task_id "string list"
  | DeTransport message
  | DeNotPending task_id string
  | DeIdempotencyConflict string task_id
  | DeControlPlaneFenced
  | DeInvalidRequest message

fun dispatch_error_text :: "dispatch_error \<Rightarrow> message" where
  "dispatch_error_text (DeStore m) = Msg ''store error: {0}'' [ArgText m]"
| "dispatch_error_text (DeNoWorker m) = Msg ''no worker available: {0}'' [ArgText m]"
| "dispatch_error_text (DeCircuitOpen w) = Msg ''circuit breaker open for worker {0}'' [ArgWorker w]"
| "dispatch_error_text (DeRecoveryUnavailable w) =
     Msg ''worker {0} has not been recovered yet - its session inventory could not be read'' [ArgWorker w]"
| "dispatch_error_text (DeSkillMissing t missing) =
     Msg ''task {task_id} requires skill(s) that could not be loaded: {}'' [ArgTask t, ArgStr (join_with '', '' missing)]"
| "dispatch_error_text (DeTransport m) = Msg ''transport error: {0}'' [ArgText m]"
| "dispatch_error_text (DeNotPending t cur) =
     Msg ''task {task_id} is no longer pending (now '{current}') - dispatch aborted'' [ArgTask t, ArgStr cur]"
| "dispatch_error_text (DeIdempotencyConflict key t) =
     Msg ''idempotency key '{key}' already used with a different payload (task {existing_task_id})''
       [ArgStr key, ArgTask t]"
| "dispatch_error_text DeControlPlaneFenced =
     Msg ''this instance does not currently hold the control plane lease'' []"
| "dispatch_error_text (DeInvalidRequest m) = Msg ''invalid task request: {0}'' [ArgText m]"

fun dispatch_error_of :: "transport_error \<Rightarrow> dispatch_error" where
  "dispatch_error_of (InvalidRequest m) = DeInvalidRequest (Msg ''{0}'' [ArgStr m])"
| "dispatch_error_of e = DeTransport (transport_error_text e)"

datatype cancel_error =
    CeStore message
  | CeNotFound task_id
  | CeAlreadyTerminal task_id string
  | CeControlPlaneFenced

section \<open>State and environment\<close>

text \<open>An audit entry: who (the instance), what, about what, under which epoch.\<close>

record audit_entry =
  au_instance :: "string option"
  au_action :: string
  au_target :: text_arg
  au_epoch :: "int option"

text \<open>
  One instance. \<open>fl_store\<close> is the shared store, with \<open>fl_audit\<close> its audit table; \<open>fl_sent\<close> and
  \<open>fl_cancels\<close> record the requests handed to the transport, oldest first. \<open>fl_recovered\<close> is the
  ledger of workers recovered in a lease generation, \<open>fl_allowlists\<close> the tool allow-list cache,
  \<open>fl_running\<close> the process-wide gauge.
\<close>

record fleet =
  fl_store :: mem_store
  fl_audit :: "audit_entry list"
  fl_sent :: "dispatch_request list"
  fl_cancels :: "cancel_request list"
  fl_breakers :: registry
  fl_recovered :: "int option \<times> worker_id set"
  fl_allowlists :: "(agent_template_revision_id, string list) hmap"
  fl_running :: "64 word"

text \<open>
  What an operation reads from outside, at the named points of its course: the lease manager's
  status (another task of the process changes it), the clocks, the transport's answers, the skill
  files. \<open>AtReap t\<close> is the visit to task \<open>t\<close> in a recovery.
\<close>

datatype point = AtEntry | AtSelect | AtCheck | AtRecovery | AtReap task_id | AtAudit | AtClaim | AtSnapshot
  | AtRecord | AtFailure

record env =
  en_lease :: "point \<Rightarrow> lease_observer option"
  en_now :: "point \<Rightarrow> datetime"
  en_instant :: "point \<Rightarrow> instant"
  en_probe :: "worker_id \<Rightarrow> bool"
  en_sessions :: "worker_id \<Rightarrow> (transport_error, session_inventory) result"
  en_dispatch :: "dispatch_request \<Rightarrow> (transport_error, unit) result"
  en_cancel :: "cancel_request \<Rightarrow> (transport_error, cancel_delivery) result"
  en_sha :: "string \<Rightarrow> string"
  en_read :: "string \<Rightarrow> (io_error, string) result"
  en_breaker_config :: circuit_breaker_config
  en_max_dispatch_retries :: u32

definition allows :: "env \<Rightarrow> point \<Rightarrow> bool" where
  "allows en p = lease_allows_control (en_lease en p)"

definition fence_at :: "env \<Rightarrow> point \<Rightarrow> control_fence option" where
  "fence_at en p = control_fence_of (en_lease en p)"

section \<open>Audit\<close>

definition record_audit :: "audit_entry \<Rightarrow> fleet \<Rightarrow> fleet" where
  "record_audit e f =
     (if is_failing (fl_store f) ''record_audit_event'' then f else f\<lparr>fl_audit := fl_audit f @ [e]\<rparr>)"

definition audit_control :: "lease_observer option \<Rightarrow> string \<Rightarrow> text_arg \<Rightarrow> fleet \<Rightarrow> fleet" where
  "audit_control lease action target f =
     (case lease of
        None \<Rightarrow> f
      | Some ob \<Rightarrow> record_audit \<lparr> au_instance = Some (lo_instance_id ob), au_action = action,
          au_target = target, au_epoch = ls_epoch (lo_status ob) \<rparr> f)"

definition audit_decision :: "lease_observer option \<Rightarrow> string \<Rightarrow> text_arg \<Rightarrow> fleet \<Rightarrow> fleet" where
  "audit_decision lease action target f =
     record_audit \<lparr> au_instance = map_option lo_instance_id lease, au_action = action,
       au_target = target, au_epoch = Option.bind lease (\<lambda>ob. ls_epoch (lo_status ob)) \<rparr> f"

definition with_store :: "(mem_store \<Rightarrow> 'r \<times> mem_store) \<Rightarrow> fleet \<Rightarrow> 'r \<times> fleet" where
  "with_store op f = (case op (fl_store f) of (r, s) \<Rightarrow> (r, f\<lparr>fl_store := s\<rparr>))"

definition log_event :: "fleet_event \<Rightarrow> fleet \<Rightarrow> fleet" where
  "log_event e f = snd (with_store (append_event e) f)"

end
