(* ===== verification/Mcp_Base.thy ===== *)
theory Mcp_Base
  imports Access_Model Dispatch_State
begin

text \<open>
  The MCP server's frame (\<open>crates/fleet-mcp/src/server.rs\<close>, \<open>schema.rs\<close>): requests, errors, the tools
  and the capabilities they need. A JSON value is seen through the accessors the code uses on it: the
  record \<open>tool_args\<close> gives, for a field name, what \<open>args.get(..).and_then(..)\<close> returns.
\<close>

datatype rpc_error = ParseError | InvalidRequestRpc message | MethodNotFound string | InvalidParams message | InternalRpc message

fun rpc_code :: "rpc_error \<Rightarrow> int" where
  "rpc_code ParseError = - 32700"
| "rpc_code (InvalidRequestRpc _) = - 32600"
| "rpc_code (MethodNotFound _) = - 32601"
| "rpc_code (InvalidParams _) = - 32602"
| "rpc_code (InternalRpc _) = - 32603"

abbreviation plain_text :: "string \<Rightarrow> message" where
  "plain_text s \<equiv> Msg s []"

record tool_args =
  ta_is_object :: bool
  ta_has :: "string \<Rightarrow> bool"
  ta_str :: "string \<Rightarrow> string option"
  ta_bool :: "string \<Rightarrow> bool option"
  ta_u64 :: "string \<Rightarrow> u64 option"
  ta_array :: "string \<Rightarrow> string option list option"
  ta_strings :: "string \<Rightarrow> (string \<times> string option) list option"

text \<open>What a tool answers: a logical failure or a JSON value.\<close>

datatype 'v tool_reply = ToolError message | ToolJson 'v

record tool_ctx =
  tc_capabilities :: "permission_kind list"
  tc_created_by :: string

definition ctx_has :: "tool_ctx \<Rightarrow> permission_kind \<Rightarrow> bool" where
  "ctx_has c k = (k \<in> set (tc_capabilities c))"

definition need_str :: "tool_args \<Rightarrow> string \<Rightarrow> (rpc_error, string) result" where
  "need_str a k = (case ta_str a k of Some v \<Rightarrow> Inr v | None \<Rightarrow> Inl (InvalidParams (plain_text (''missing required field: '' @ k))))"

definition need_object :: "tool_args \<Rightarrow> (rpc_error, unit) result" where
  "need_object a = (if ta_is_object a then Inr () else Inl (InvalidParams (plain_text ''arguments must be a JSON object'')))"

text \<open>A required field that must parse.\<close>

definition need_id :: "(string \<Rightarrow> 'i option) \<Rightarrow> tool_args \<Rightarrow> string \<Rightarrow> (rpc_error, 'i) result" where
  "need_id parse a k =
     (case need_str a k of
        Inl e \<Rightarrow> Inl e
      | Inr raw \<Rightarrow> (case parse raw of Some i \<Rightarrow> Inr i | None \<Rightarrow> Inl (InvalidParams (plain_text (k @ '' must be a UUID'')))))"

text \<open>An optional field that must parse when it is a string.\<close>

definition opt_id :: "(string \<Rightarrow> 'i option) \<Rightarrow> tool_args \<Rightarrow> string \<Rightarrow> (rpc_error, 'i option) result" where
  "opt_id parse a k =
     (case ta_str a k of
        None \<Rightarrow> Inr None
      | Some raw \<Rightarrow> (case parse raw of Some i \<Rightarrow> Inr (Some i) | None \<Rightarrow> Inl (InvalidParams (plain_text (k @ '' must be a UUID'')))))"

definition store_failed :: "store_error \<Rightarrow> rpc_error" where
  "store_failed e = InternalRpc (Msg ''store error: {e}'' [ArgText (store_error_text e)])"

section \<open>Tools\<close>

datatype tool = TDispatchTask | TGetTaskStatus | TListWorkers | TListTasks | TCancelTask | TWaitForTask
  | TStreamTaskOutput | TCollectResults | TListHosts | TResetWorkerBreaker | TListBootstrapTokens
  | TRevokeBootstrapToken | TCreateProject | TListProjects | TDeleteProject | TCreateAgent | TListAgents
  | TStopAgent | TStartAgent | TPlaceAgent | TListIssues | TCreateIssue | TTransitionIssue | TCommentIssue

fun tool_name :: "tool \<Rightarrow> string" where
  "tool_name TDispatchTask = ''fleet_dispatch_task''"
| "tool_name TGetTaskStatus = ''fleet_get_task_status''"
| "tool_name TListWorkers = ''fleet_list_workers''"
| "tool_name TListTasks = ''fleet_list_tasks''"
| "tool_name TCancelTask = ''fleet_cancel_task''"
| "tool_name TWaitForTask = ''fleet_wait_for_task''"
| "tool_name TStreamTaskOutput = ''fleet_stream_task_output''"
| "tool_name TCollectResults = ''fleet_collect_results''"
| "tool_name TListHosts = ''fleet_list_hosts''"
| "tool_name TResetWorkerBreaker = ''fleet_reset_worker_breaker''"
| "tool_name TListBootstrapTokens = ''fleet_list_bootstrap_tokens''"
| "tool_name TRevokeBootstrapToken = ''fleet_revoke_bootstrap_token''"
| "tool_name TCreateProject = ''fleet_create_project''"
| "tool_name TListProjects = ''fleet_list_projects''"
| "tool_name TDeleteProject = ''fleet_delete_project''"
| "tool_name TCreateAgent = ''fleet_create_agent''"
| "tool_name TListAgents = ''fleet_list_agents''"
| "tool_name TStopAgent = ''fleet_stop_agent''"
| "tool_name TStartAgent = ''fleet_start_agent''"
| "tool_name TPlaceAgent = ''fleet_place_agent''"
| "tool_name TListIssues = ''fleet_list_issues''"
| "tool_name TCreateIssue = ''fleet_create_issue''"
| "tool_name TTransitionIssue = ''fleet_transition_issue''"
| "tool_name TCommentIssue = ''fleet_comment_issue''"

definition all_tools :: "tool list" where
  "all_tools = [TDispatchTask, TGetTaskStatus, TListWorkers, TListTasks, TCancelTask, TWaitForTask,
     TStreamTaskOutput, TCollectResults, TListHosts, TResetWorkerBreaker, TListBootstrapTokens,
     TRevokeBootstrapToken, TCreateProject, TListProjects, TDeleteProject, TCreateAgent, TListAgents,
     TStopAgent, TStartAgent, TPlaceAgent, TListIssues, TCreateIssue, TTransitionIssue, TCommentIssue]"

definition tool_of :: "string \<Rightarrow> tool option" where
  "tool_of n = List.find (\<lambda>t. tool_name t = n) all_tools"

fun required_permission :: "tool \<Rightarrow> permission_kind option" where
  "required_permission TDispatchTask = Some PTaskCreate"
| "required_permission TGetTaskStatus = Some PTaskRead"
| "required_permission TListTasks = Some PTaskRead"
| "required_permission TWaitForTask = Some PTaskRead"
| "required_permission TCollectResults = Some PTaskRead"
| "required_permission TStreamTaskOutput = Some PTaskOutput"
| "required_permission TCancelTask = Some PTaskCancel"
| "required_permission TListWorkers = Some PWorkerList"
| "required_permission TListHosts = Some PWorkerList"
| "required_permission TResetWorkerBreaker = Some PWorkerDelete"
| "required_permission TListBootstrapTokens = Some PTokenList"
| "required_permission TRevokeBootstrapToken = Some PTokenRevoke"
| "required_permission TCreateProject = Some PProjectCreate"
| "required_permission TListProjects = Some PProjectRead"
| "required_permission TDeleteProject = Some PProjectDelete"
| "required_permission TCreateAgent = Some PAgentManage"
| "required_permission TStartAgent = Some PAgentManage"
| "required_permission TStopAgent = Some PAgentManage"
| "required_permission TPlaceAgent = Some PAgentManage"
| "required_permission TListAgents = Some PAgentRead"
| "required_permission TListIssues = Some PIssueRead"
| "required_permission TCreateIssue = Some PIssueCreate"
| "required_permission TCommentIssue = Some PIssueComment"
| "required_permission TTransitionIssue = None"

lemma tools_complete: "t \<in> set all_tools"
  by (cases t) (simp_all add: all_tools_def)

lemma distinct_tool_names: "distinct (map tool_name all_tools)"
  by (simp add: all_tools_def)

lemma tool_of_iff: "tool_of n = Some t \<longleftrightarrow> tool_name t = n"
proof -
  have inj: "t = u" if "tool_name t = tool_name u" for t u
    using distinct_tool_names that tools_complete by (auto simp: distinct_map dest: inj_onD)
  show ?thesis
  proof
    assume "tool_of n = Some t"
    then show "tool_name t = n" by (auto simp: tool_of_def find_Some_iff)
  next
    assume n: "tool_name t = n"
    then obtain u where u: "tool_of n = Some u" unfolding tool_of_def
      using tools_complete by (cases "List.find (\<lambda>t. tool_name t = n) all_tools") (auto simp: find_None_iff)
    then have "tool_name u = n" by (auto simp: tool_of_def find_Some_iff)
    then show "tool_of n = Some t" using inj[of t u] u n by simp
  qed
qed

end
