(* ===== verification/Issue_Model.thy ===== *)
theory Issue_Model
  imports Access_Model
begin

text \<open>
  Issues (\<open>crates/fleet-core/src/issue.rs\<close>): the entity, its status machine, comments and filters.
\<close>

datatype issue_status = IsOpen | IsTriaged | IsReadyForAgent | IsResolved | IsClosed

fun issue_status_as_str :: "issue_status \<Rightarrow> string" where
  "issue_status_as_str IsOpen = ''open''"
| "issue_status_as_str IsTriaged = ''triaged''"
| "issue_status_as_str IsReadyForAgent = ''ready_for_agent''"
| "issue_status_as_str IsResolved = ''resolved''"
| "issue_status_as_str IsClosed = ''closed''"

definition issue_status_parse :: "string \<Rightarrow> issue_status option" where
  "issue_status_parse s =
     (if s = ''open'' then Some IsOpen else if s = ''triaged'' then Some IsTriaged
      else if s = ''ready_for_agent'' then Some IsReadyForAgent else if s = ''resolved'' then Some IsResolved
      else if s = ''closed'' then Some IsClosed else None)"

definition all_issue_statuses :: "issue_status list" where
  "all_issue_statuses = [IsOpen, IsTriaged, IsReadyForAgent, IsResolved, IsClosed]"

definition issue_is_open :: "issue_status \<Rightarrow> bool" where
  "issue_is_open x = (x \<noteq> IsClosed)"

fun required_capability_for_transition :: "issue_status \<Rightarrow> permission_kind" where
  "required_capability_for_transition IsReadyForAgent = PIssueApproveAgentWork"
| "required_capability_for_transition IsResolved = PIssueClose"
| "required_capability_for_transition IsClosed = PIssueClose"
| "required_capability_for_transition IsOpen = PIssueReopen"
| "required_capability_for_transition IsTriaged = PIssueUpdate"

datatype close_reason = CrFixed | CrWontFix | CrDuplicate | CrObsolete

fun close_reason_as_str :: "close_reason \<Rightarrow> string" where
  "close_reason_as_str CrFixed = ''fixed''"
| "close_reason_as_str CrWontFix = ''wont_fix''"
| "close_reason_as_str CrDuplicate = ''duplicate''"
| "close_reason_as_str CrObsolete = ''obsolete''"

definition close_reason_parse :: "string \<Rightarrow> close_reason option" where
  "close_reason_parse s =
     (if s = ''fixed'' then Some CrFixed else if s = ''wont_fix'' then Some CrWontFix
      else if s = ''duplicate'' then Some CrDuplicate else if s = ''obsolete'' then Some CrObsolete else None)"

definition all_close_reasons :: "close_reason list" where
  "all_close_reasons = [CrFixed, CrWontFix, CrDuplicate, CrObsolete]"

datatype issue_severity = SvCritical | SvHigh | SvMedium | SvLow

fun issue_severity_as_str :: "issue_severity \<Rightarrow> string" where
  "issue_severity_as_str SvCritical = ''critical''"
| "issue_severity_as_str SvHigh = ''high''"
| "issue_severity_as_str SvMedium = ''medium''"
| "issue_severity_as_str SvLow = ''low''"

definition issue_severity_parse :: "string \<Rightarrow> issue_severity option" where
  "issue_severity_parse s =
     (if s = ''critical'' then Some SvCritical else if s = ''high'' then Some SvHigh
      else if s = ''medium'' then Some SvMedium else if s = ''low'' then Some SvLow else None)"

definition all_severities :: "issue_severity list" where
  "all_severities = [SvCritical, SvHigh, SvMedium, SvLow]"

datatype issue_transition_error =
    NotAllowed string string
  | CloseReasonRequired
  | CloseReasonNotApplicable

fun issue_transition_error_text :: "issue_transition_error \<Rightarrow> string" where
  "issue_transition_error_text (NotAllowed a b) = ''issue transition '' @ a @ '' -> '' @ b @ '' is not allowed''"
| "issue_transition_error_text CloseReasonRequired = ''closing an issue requires a close_reason''"
| "issue_transition_error_text CloseReasonNotApplicable = ''close_reason is only valid when closing an issue''"

record issue =
  is_id :: issue_id
  is_project_id :: project_id
  is_title :: string
  is_body :: string
  is_status :: issue_status
  is_close_reason :: "close_reason option"
  is_severity :: issue_severity
  is_labels :: "string list"
  is_assignee :: "string option"
  is_created_by :: string
  is_created_at :: datetime
  is_updated_at :: datetime

definition new_issue :: "datetime \<Rightarrow> issue_id \<Rightarrow> project_id \<Rightarrow> string \<Rightarrow> string \<Rightarrow> issue" where
  "new_issue now i p title created_by = \<lparr> is_id = i, is_project_id = p, is_title = title, is_body = [],
     is_status = IsOpen, is_close_reason = None, is_severity = SvMedium, is_labels = [], is_assignee = None,
     is_created_by = created_by, is_created_at = now, is_updated_at = now \<rparr>"

definition issue_transition_allowed :: "issue_status \<Rightarrow> issue_status \<Rightarrow> bool" where
  "issue_transition_allowed a b = ((a, b) \<in> set [(IsOpen, IsTriaged), (IsTriaged, IsReadyForAgent),
     (IsReadyForAgent, IsTriaged), (IsOpen, IsResolved), (IsTriaged, IsResolved), (IsReadyForAgent, IsResolved),
     (IsOpen, IsClosed), (IsTriaged, IsClosed), (IsResolved, IsClosed), (IsResolved, IsOpen), (IsClosed, IsOpen)])"

definition transition_to ::
    "datetime \<Rightarrow> issue_status \<Rightarrow> close_reason option \<Rightarrow> issue \<Rightarrow> (issue_transition_error, issue) result" where
  "transition_to now b reason i =
     (if \<not> issue_transition_allowed (is_status i) b
      then Inl (NotAllowed (issue_status_as_str (is_status i)) (issue_status_as_str b))
      else if b = IsClosed \<and> reason = None then Inl CloseReasonRequired
      else if b \<noteq> IsClosed \<and> reason \<noteq> None then Inl CloseReasonNotApplicable
      else Inr (i\<lparr>is_status := b, is_close_reason := reason, is_updated_at := now\<rparr>))"

record issue_comment =
  ic_id :: uuid
  ic_issue_id :: issue_id
  ic_author :: string
  ic_body :: string
  ic_created_at :: datetime

definition new_comment :: "datetime \<Rightarrow> uuid \<Rightarrow> issue_id \<Rightarrow> string \<Rightarrow> string \<Rightarrow> issue_comment" where
  "new_comment now c i author body =
     \<lparr> ic_id = c, ic_issue_id = i, ic_author = author, ic_body = body, ic_created_at = now \<rparr>"

record issue_filter =
  if_project_id :: "project_id option"
  if_status :: "issue_status option"
  if_open_only :: bool
  if_max :: nat
  if_skip :: nat

section \<open>The status machine\<close>

lemma issue_status_round_trip: "issue_status_parse s = Some x \<longleftrightarrow> issue_status_as_str x = s"
  by (cases x) (auto simp: issue_status_parse_def)

lemma close_reason_round_trip: "close_reason_parse s = Some x \<longleftrightarrow> close_reason_as_str x = s"
  by (cases x) (auto simp: close_reason_parse_def)

lemma issue_severity_round_trip: "issue_severity_parse s = Some x \<longleftrightarrow> issue_severity_as_str x = s"
  by (cases x) (auto simp: issue_severity_parse_def)

text \<open>An issue carries a reason exactly when it is closed.\<close>

definition issue_ok :: "issue \<Rightarrow> bool" where
  "issue_ok i \<longleftrightarrow> (is_close_reason i \<noteq> None \<longleftrightarrow> is_status i = IsClosed)"

lemma new_issue_ok [simp]: "issue_ok (new_issue now i p title by')"
  by (simp add: issue_ok_def new_issue_def)

lemma transition_to_iff:
  "transition_to now b reason i = Inr j \<longleftrightarrow>
     issue_transition_allowed (is_status i) b \<and> (reason \<noteq> None \<longleftrightarrow> b = IsClosed) \<and>
     j = i\<lparr>is_status := b, is_close_reason := reason, is_updated_at := now\<rparr>"
  by (auto simp: transition_to_def)

text \<open>Work on an issue is approved only from triage; a closed issue leads nowhere but to reopening.\<close>

lemma into_ready: "issue_transition_allowed a IsReadyForAgent \<longleftrightarrow> a = IsTriaged"
  by (cases a) (simp_all add: issue_transition_allowed_def)

lemma out_of_closed: "issue_transition_allowed IsClosed b \<longleftrightarrow> b = IsOpen"
  by (cases b) (simp_all add: issue_transition_allowed_def)

lemma every_issue_can_close: "issue_transition_allowed a IsClosed \<or> a = IsClosed \<or>
    issue_transition_allowed a IsTriaged \<and> issue_transition_allowed IsTriaged IsClosed"
  by (cases a) (simp_all add: issue_transition_allowed_def)

end
