(* ===== verification/Access_Store.thy ===== *)
theory Access_Store
  imports Access_Model Store_State
begin

text \<open>
  Users, roles, sessions, tokens, login attempts, audit events and API tokens in the store
  (\<open>crates/fleet-store/src/mem.rs\<close>). \<open>access\<close> holds these tables of \<open>MemStore\<close>; no operation of the
  others touches them. \<open>xs_failing\<close> and \<open>xs_last_cutoff\<close> are the store's test switches.
\<close>

record access =
  xs_admin_api_tokens :: "(string, admin_api_token) hmap"
  xs_users :: "(user_id, user) hmap"
  xs_roles :: "(role_id, role) hmap"
  xs_permissions :: "(permission_id, permission) hmap"
  xs_user_roles :: "(user_id, role_id list) hmap"
  xs_role_permissions :: "(role_id, permission_id list) hmap"
  xs_direct_user_permissions :: "(user_id, permission list) hmap"
  xs_sessions :: "(string, session) hmap"
  xs_email_verification_tokens :: "(uuid, verification_token) hmap"
  xs_password_reset_tokens :: "(uuid, verification_token) hmap"
  xs_login_attempts :: "login_attempt list"
  xs_audit_events :: "audit_event list"
  xs_failing :: "string list"
  xs_last_cutoff :: "datetime option"

definition empty_access :: access where
  "empty_access = \<lparr> xs_admin_api_tokens = [], xs_users = [], xs_roles = [], xs_permissions = [], xs_user_roles = [],
     xs_role_permissions = [], xs_direct_user_permissions = [], xs_sessions = [], xs_email_verification_tokens = [],
     xs_password_reset_tokens = [], xs_login_attempts = [], xs_audit_events = [], xs_failing = [],
     xs_last_cutoff = None \<rparr>"

definition is_failing_access :: "access \<Rightarrow> string \<Rightarrow> bool" where
  "is_failing_access s method = (method \<in> set (xs_failing s))"

section \<open>API tokens\<close>

definition create_admin_token :: "admin_api_token \<Rightarrow> access \<Rightarrow> (store_error, unit) result \<times> access" where
  "create_admin_token t s =
     (if hm_contains (xs_admin_api_tokens s) (aa_principal_id t)
      then (Inl (Conflict (Msg ''admin token principal already exists: {}'' [ArgStr (aa_principal_id t)])), s)
      else if list_ex (\<lambda>u. aa_token_digest u = aa_token_digest t) (hm_values (xs_admin_api_tokens s))
      then (Inl (Conflict (Msg ''admin token digest already exists'' [])), s)
      else (Inr (), s\<lparr>xs_admin_api_tokens := hm_insert (aa_principal_id t) t (xs_admin_api_tokens s)\<rparr>))"

definition find_active_admin_token_by_digest :: "string \<Rightarrow> access \<Rightarrow> (store_error, admin_api_token option) result" where
  "find_active_admin_token_by_digest digest s =
     Inr (List.find (\<lambda>t. aa_token_digest t = digest \<and> aa_revoked_at t = None) (hm_values (xs_admin_api_tokens s)))"

definition list_admin_tokens :: "access \<Rightarrow> (store_error, admin_api_token list) result" where
  "list_admin_tokens s = Inr (sort_desc aa_created_at (hm_values (xs_admin_api_tokens s)))"

definition rotated_token :: "datetime \<Rightarrow> string \<Rightarrow> admin_api_token \<Rightarrow> admin_api_token" where
  "rotated_token now digest t = t\<lparr>aa_token_digest := digest, aa_rotated_at := Some now, aa_revoked_at := None,
     aa_rotation_generation := i64_succ (aa_rotation_generation t)\<rparr>"

definition rotate_admin_token ::
    "datetime \<Rightarrow> string \<Rightarrow> string \<Rightarrow> access \<Rightarrow> (store_error, admin_api_token) result \<times> access" where
  "rotate_admin_token now i digest s =
     (case hm_get (xs_admin_api_tokens s) i of
        None \<Rightarrow> (Inl NotFound, s)
      | Some t \<Rightarrow> (Inr (rotated_token now digest t),
                   s\<lparr>xs_admin_api_tokens := hm_adjust i (rotated_token now digest) (xs_admin_api_tokens s)\<rparr>))"

definition revoke_admin_token :: "datetime \<Rightarrow> string \<Rightarrow> access \<Rightarrow> (store_error, bool) result \<times> access" where
  "revoke_admin_token now i s =
     (case hm_get (xs_admin_api_tokens s) i of
        Some t \<Rightarrow>
          if aa_revoked_at t = None
          then (Inr True, s\<lparr>xs_admin_api_tokens :=
                  hm_adjust i (\<lambda>t. t\<lparr>aa_revoked_at := Some now\<rparr>) (xs_admin_api_tokens s)\<rparr>)
          else (Inr False, s)
      | None \<Rightarrow> (Inr False, s))"

section \<open>Users\<close>

definition create_user :: "user \<Rightarrow> access \<Rightarrow> (store_error, unit) result \<times> access" where
  "create_user u s =
     (if list_ex (\<lambda>v. us_username v = us_username u) (hm_values (xs_users s))
      then (Inl (Conflict (Msg ''username already exists: {}'' [ArgStr (us_username u)])), s)
      else (Inr (), s\<lparr>xs_users := hm_insert (us_id u) u (xs_users s)\<rparr>))"

definition get_user_by_id :: "user_id \<Rightarrow> access \<Rightarrow> (store_error, user option) result" where
  "get_user_by_id i s = Inr (hm_get (xs_users s) i)"

definition get_user_by_username :: "string \<Rightarrow> access \<Rightarrow> (store_error, user option) result" where
  "get_user_by_username n s = Inr (List.find (\<lambda>u. us_username u = n) (hm_values (xs_users s)))"

definition get_user_by_email :: "string \<Rightarrow> access \<Rightarrow> (store_error, user option) result" where
  "get_user_by_email e s = Inr (List.find (\<lambda>u. us_email u = Some e) (hm_values (xs_users s)))"

definition list_users :: "access \<Rightarrow> (store_error, user list) result" where
  "list_users s = Inr (sort_key us_created_at (hm_values (xs_users s)))"

definition count_users :: "access \<Rightarrow> (store_error, nat) result" where
  "count_users s = Inr (length (xs_users s))"

definition update_user :: "user_id \<Rightarrow> (user \<Rightarrow> user) \<Rightarrow> access \<Rightarrow> (store_error, unit) result \<times> access" where
  "update_user i f s =
     (if hm_contains (xs_users s) i then (Inr (), s\<lparr>xs_users := hm_adjust i f (xs_users s)\<rparr>)
      else (Inl NotFound, s))"

definition update_user_password :: "user_id \<Rightarrow> string \<Rightarrow> access \<Rightarrow> (store_error, unit) result \<times> access" where
  "update_user_password i hash = update_user i (\<lambda>u. u\<lparr>us_password_hash := hash\<rparr>)"

definition update_user_last_login :: "user_id \<Rightarrow> datetime \<Rightarrow> access \<Rightarrow> (store_error, unit) result \<times> access" where
  "update_user_last_login i now = update_user i (\<lambda>u. u\<lparr>us_last_login_at := Some now\<rparr>)"

definition set_user_enabled :: "user_id \<Rightarrow> bool \<Rightarrow> access \<Rightarrow> (store_error, unit) result \<times> access" where
  "set_user_enabled i enabled = update_user i (\<lambda>u. u\<lparr>us_enabled := enabled\<rparr>)"

definition set_user_email_verified :: "user_id \<Rightarrow> bool \<Rightarrow> access \<Rightarrow> (store_error, unit) result \<times> access" where
  "set_user_email_verified i verified = update_user i (\<lambda>u. u\<lparr>us_email_verified := verified\<rparr>)"

definition delete_user :: "user_id \<Rightarrow> access \<Rightarrow> (store_error, unit) result \<times> access" where
  "delete_user i s = (Inr (), s\<lparr>xs_users := hm_remove i (xs_users s),
     xs_user_roles := hm_remove i (xs_user_roles s),
     xs_direct_user_permissions := hm_remove i (xs_direct_user_permissions s),
     xs_sessions := hm_retain (\<lambda>_ x. se_user_id x \<noteq> i) (xs_sessions s)\<rparr>)"

section \<open>Roles and permissions\<close>

definition create_role :: "role \<Rightarrow> access \<Rightarrow> (store_error, unit) result \<times> access" where
  "create_role r s =
     (if list_ex (\<lambda>x. ro_name x = ro_name r) (hm_values (xs_roles s))
      then (Inl (Conflict (Msg ''role already exists: {}'' [ArgStr (ro_name r)])), s)
      else (Inr (), s\<lparr>xs_roles := hm_insert (ro_id r) r (xs_roles s)\<rparr>))"

definition get_role_by_name :: "string \<Rightarrow> access \<Rightarrow> (store_error, role option) result" where
  "get_role_by_name n s = Inr (List.find (\<lambda>r. ro_name r = n) (hm_values (xs_roles s)))"

definition list_roles :: "access \<Rightarrow> (store_error, role list) result" where
  "list_roles s = Inr (hm_values (xs_roles s))"

definition create_permission :: "permission \<Rightarrow> access \<Rightarrow> (store_error, unit) result \<times> access" where
  "create_permission p s =
     (if list_ex (\<lambda>x. pm_name x = pm_name p) (hm_values (xs_permissions s)) then (Inr (), s)
      else (Inr (), s\<lparr>xs_permissions := hm_insert (pm_id p) p (xs_permissions s)\<rparr>))"

definition get_permission_by_name :: "string \<Rightarrow> access \<Rightarrow> (store_error, permission option) result" where
  "get_permission_by_name n s = Inr (List.find (\<lambda>p. pm_name p = n) (hm_values (xs_permissions s)))"

definition list_permissions :: "access \<Rightarrow> (store_error, permission list) result" where
  "list_permissions s = Inr (hm_values (xs_permissions s))"

text \<open>\<open>entry(k).or_default()\<close> followed by \<open>push\<close> unless the element is there.\<close>

definition push_unique :: "'k \<Rightarrow> 'a \<Rightarrow> ('k, 'a list) hmap \<Rightarrow> ('k, 'a list) hmap" where
  "push_unique k x m =
     (let xs = (case hm_get m k of None \<Rightarrow> [] | Some xs \<Rightarrow> xs)
      in hm_insert k (if x \<in> set xs then xs else xs @ [x]) m)"

definition list_of :: "('k, 'a list) hmap \<Rightarrow> 'k \<Rightarrow> 'a list" where
  "list_of m k = (case hm_get m k of None \<Rightarrow> [] | Some xs \<Rightarrow> xs)"

definition assign_user_role :: "user_id \<Rightarrow> role_id \<Rightarrow> access \<Rightarrow> (store_error, unit) result \<times> access" where
  "assign_user_role u r s = (Inr (), s\<lparr>xs_user_roles := push_unique u r (xs_user_roles s)\<rparr>)"

definition revoke_user_role :: "user_id \<Rightarrow> role_id \<Rightarrow> access \<Rightarrow> (store_error, unit) result \<times> access" where
  "revoke_user_role u r s =
     (Inr (), s\<lparr>xs_user_roles := hm_adjust u (filter (\<lambda>x. x \<noteq> r)) (xs_user_roles s)\<rparr>)"

definition list_user_roles :: "user_id \<Rightarrow> access \<Rightarrow> (store_error, role list) result" where
  "list_user_roles u s = Inr (List.map_filter (hm_get (xs_roles s)) (list_of (xs_user_roles s) u))"

definition grant_role_permission :: "role_id \<Rightarrow> permission_id \<Rightarrow> access \<Rightarrow> (store_error, unit) result \<times> access" where
  "grant_role_permission r p s = (Inr (), s\<lparr>xs_role_permissions := push_unique r p (xs_role_permissions s)\<rparr>)"

text \<open>The two loops of \<open>list_user_permissions\<close>: permissions not seen before are appended.\<close>

fun add_unseen :: "permission list \<Rightarrow> permission list \<Rightarrow> permission list" where
  "add_unseen [] out = out"
| "add_unseen (p # ps) out = add_unseen ps (if pm_id p \<in> pm_id ` set out then out else out @ [p])"

definition permissions_of_role :: "access \<Rightarrow> role_id \<Rightarrow> permission list" where
  "permissions_of_role s r = List.map_filter (hm_get (xs_permissions s)) (list_of (xs_role_permissions s) r)"

definition list_user_permissions :: "user_id \<Rightarrow> access \<Rightarrow> (store_error, permission list) result" where
  "list_user_permissions u s =
     Inr (fold (\<lambda>r out. add_unseen (permissions_of_role s r) out) (list_of (xs_user_roles s) u)
            (add_unseen (list_of (xs_direct_user_permissions s) u) []))"

section \<open>Sessions\<close>

definition create_session :: "session \<Rightarrow> access \<Rightarrow> (store_error, unit) result \<times> access" where
  "create_session x s = (Inr (), s\<lparr>xs_sessions := hm_insert (se_token_hash x) x (xs_sessions s)\<rparr>)"

definition get_session_by_token_hash :: "string \<Rightarrow> access \<Rightarrow> (store_error, session option) result" where
  "get_session_by_token_hash h s = Inr (hm_get (xs_sessions s) h)"

definition delete_session :: "session_id \<Rightarrow> access \<Rightarrow> (store_error, unit) result \<times> access" where
  "delete_session i s = (Inr (), s\<lparr>xs_sessions := hm_retain (\<lambda>_ x. se_id x \<noteq> i) (xs_sessions s)\<rparr>)"

text \<open>The first session of that id; ids are random and unique.\<close>

fun adjust_first :: "('v \<Rightarrow> bool) \<Rightarrow> ('v \<Rightarrow> 'v) \<Rightarrow> ('k, 'v) hmap \<Rightarrow> ('k, 'v) hmap" where
  "adjust_first P f [] = []"
| "adjust_first P f ((k, v) # m) = (if P v then (k, f v) # m else (k, v) # adjust_first P f m)"

definition update_session_expiry :: "session_id \<Rightarrow> datetime \<Rightarrow> access \<Rightarrow> (store_error, unit) result \<times> access" where
  "update_session_expiry i expiry s =
     (Inr (), s\<lparr>xs_sessions := adjust_first (\<lambda>x. se_id x = i) (\<lambda>x. x\<lparr>se_expires_at := expiry\<rparr>) (xs_sessions s)\<rparr>)"

definition delete_expired_sessions :: "datetime \<Rightarrow> access \<Rightarrow> (store_error, nat) result \<times> access" where
  "delete_expired_sessions now s =
     (if is_failing_access s ''delete_expired_sessions'' then (Inl (Unsupported ''delete_expired_sessions''), s)
      else let kept = hm_retain (\<lambda>_ x. se_expires_at x > now) (xs_sessions s)
           in (Inr (length (xs_sessions s) - length kept), s\<lparr>xs_sessions := kept\<rparr>))"

definition delete_user_sessions :: "user_id \<Rightarrow> access \<Rightarrow> (store_error, nat) result \<times> access" where
  "delete_user_sessions u s =
     (let kept = hm_retain (\<lambda>_ x. se_user_id x \<noteq> u) (xs_sessions s)
      in (Inr (length (xs_sessions s) - length kept), s\<lparr>xs_sessions := kept\<rparr>))"

section \<open>Mailed tokens\<close>

definition create_email_verification_token :: "verification_token \<Rightarrow> access \<Rightarrow> (store_error, unit) result \<times> access" where
  "create_email_verification_token t s =
     (Inr (), s\<lparr>xs_email_verification_tokens := hm_insert (vt_id t) t (xs_email_verification_tokens s)\<rparr>)"

definition get_email_verification_token :: "string \<Rightarrow> access \<Rightarrow> (store_error, verification_token option) result" where
  "get_email_verification_token h s =
     Inr (List.find (\<lambda>t. vt_token_hash t = h) (hm_values (xs_email_verification_tokens s)))"

definition consume_email_verification_token :: "uuid \<Rightarrow> datetime \<Rightarrow> access \<Rightarrow> (store_error, unit) result \<times> access" where
  "consume_email_verification_token i now s =
     (Inr (), s\<lparr>xs_email_verification_tokens :=
        hm_adjust i (\<lambda>t. t\<lparr>vt_consumed_at := Some now\<rparr>) (xs_email_verification_tokens s)\<rparr>)"

definition create_password_reset_token :: "verification_token \<Rightarrow> access \<Rightarrow> (store_error, unit) result \<times> access" where
  "create_password_reset_token t s =
     (Inr (), s\<lparr>xs_password_reset_tokens := hm_insert (vt_id t) t (xs_password_reset_tokens s)\<rparr>)"

definition get_password_reset_token :: "string \<Rightarrow> access \<Rightarrow> (store_error, verification_token option) result" where
  "get_password_reset_token h s =
     Inr (List.find (\<lambda>t. vt_token_hash t = h) (hm_values (xs_password_reset_tokens s)))"

definition consume_password_reset_token :: "uuid \<Rightarrow> datetime \<Rightarrow> access \<Rightarrow> (store_error, unit) result \<times> access" where
  "consume_password_reset_token i now s =
     (Inr (), s\<lparr>xs_password_reset_tokens :=
        hm_adjust i (\<lambda>t. t\<lparr>vt_consumed_at := Some now\<rparr>) (xs_password_reset_tokens s)\<rparr>)"

section \<open>Login attempts\<close>

definition record_login_attempt :: "login_attempt \<Rightarrow> access \<Rightarrow> (store_error, unit) result \<times> access" where
  "record_login_attempt a s = (Inr (), s\<lparr>xs_login_attempts := xs_login_attempts s @ [a]\<rparr>)"

definition count_recent_failed_attempts ::
    "datetime \<Rightarrow> string \<Rightarrow> string option \<Rightarrow> timedelta \<Rightarrow> access \<Rightarrow> (store_error, nat) result" where
  "count_recent_failed_attempts now ident ip window s =
     Inr (length (filter (\<lambda>a. la_identifier a = ident \<and> \<not> la_success a \<and> la_attempted_at a \<ge> now - window \<and>
       (case ip of Some i \<Rightarrow> la_ip_address a = Some i | None \<Rightarrow> True)) (xs_login_attempts s)))"

definition count_recent_ip_failures :: "datetime \<Rightarrow> string \<Rightarrow> timedelta \<Rightarrow> access \<Rightarrow> (store_error, nat) result" where
  "count_recent_ip_failures now ip window s =
     Inr (length (filter (\<lambda>a. la_ip_address a = Some ip \<and> \<not> la_success a \<and> la_attempted_at a \<ge> now - window)
       (xs_login_attempts s)))"

definition clear_login_attempts :: "string \<Rightarrow> string option \<Rightarrow> access \<Rightarrow> (store_error, nat) result \<times> access" where
  "clear_login_attempts ident ip s =
     (let kept = filter (\<lambda>a. \<not> (la_identifier a = ident \<and>
            (case ip of Some i \<Rightarrow> la_ip_address a = Some i | None \<Rightarrow> True))) (xs_login_attempts s)
      in (Inr (length (xs_login_attempts s) - length kept), s\<lparr>xs_login_attempts := kept\<rparr>))"

definition delete_old_login_attempts :: "datetime \<Rightarrow> access \<Rightarrow> (store_error, nat) result \<times> access" where
  "delete_old_login_attempts before s =
     (let s = s\<lparr>xs_last_cutoff := Some before\<rparr>
      in if is_failing_access s ''delete_old_login_attempts'' then (Inl (Unsupported ''delete_old_login_attempts''), s)
         else let kept = filter (\<lambda>a. la_attempted_at a \<ge> before) (xs_login_attempts s)
              in (Inr (length (xs_login_attempts s) - length kept), s\<lparr>xs_login_attempts := kept\<rparr>))"

section \<open>Audit\<close>

definition record_audit_event :: "audit_event \<Rightarrow> access \<Rightarrow> (store_error, unit) result \<times> access" where
  "record_audit_event e s =
     (if is_failing_access s ''record_audit_event'' then (Inl (Unsupported ''record_audit_event''), s)
      else (Inr (), s\<lparr>xs_audit_events := xs_audit_events s @ [e]\<rparr>))"

definition list_audit_events :: "audit_filter \<Rightarrow> access \<Rightarrow> (store_error, audit_event list) result" where
  "list_audit_events fi s =
     Inr (page (af_skip fi) (af_max fi) (sort_desc ae_created_at
       (filter (\<lambda>e. (case af_actor_user_id fi of Some u \<Rightarrow> ae_actor_user_id e = Some u | None \<Rightarrow> True) \<and>
                    (case af_action fi of Some a \<Rightarrow> ae_action e = a | None \<Rightarrow> True) \<and>
                    (case af_project fi of Some p \<Rightarrow> ae_project_id e = Some p | None \<Rightarrow> True))
         (xs_audit_events s))))"

text \<open>\<open>cleanup.rs\<close>: the periodic sweep of expired sessions and old login attempts.\<close>

record cleanup_summary =
  cs_expired_sessions :: nat
  cs_old_login_attempts :: nat

definition login_attempt_retention :: timedelta where
  "login_attempt_retention = int (secs (7 * 24 * 3600))"

definition cleanup_sweep :: "timedelta \<Rightarrow> datetime \<Rightarrow> datetime \<Rightarrow> access \<Rightarrow> cleanup_summary \<times> access" where
  "cleanup_sweep retention now now' s =
     (case delete_expired_sessions now s of (r, s) \<Rightarrow>
        (case delete_old_login_attempts (now' - retention) s of (q, s) \<Rightarrow>
           (\<lparr> cs_expired_sessions = (case r of Inr n \<Rightarrow> n | Inl _ \<Rightarrow> 0),
              cs_old_login_attempts = (case q of Inr n \<Rightarrow> n | Inl _ \<Rightarrow> 0) \<rparr>, s)))"

end
