(* ===== verification/Access_Rbac.thy ===== *)
theory Access_Rbac
  imports Access_Store Worker_Enrollment
begin

text \<open>
  Seeding of roles and permissions and the first administrator (\<open>crates/fleet-store/src/rbac.rs\<close>).
  Fresh ids and tokens are arguments; \<open>sha\<close> is SHA-256 in hexadecimal.
\<close>

section \<open>Seeding\<close>

primrec permission_description :: "permission_kind \<Rightarrow> string" where
  "permission_description PDashboardView =
     ''View the dashboard''"
| "permission_description PTaskList =
     ''List tasks''"
| "permission_description PTaskCreate =
     ''Dispatch new tasks''"
| "permission_description PTaskCancel =
     ''Cancel running tasks''"
| "permission_description PTaskRead =
     ''Read task details''"
| "permission_description PTaskOutput =
     ''Read task output streams''"
| "permission_description PTaskDelete =
     ''Permanently delete terminal tasks''"
| "permission_description PWorkerList =
     ''List registered workers''"
| "permission_description PWorkerRegister =
     ''Register new workers''"
| "permission_description PWorkerDelete =
     ''Delete/deregister workers''"
| "permission_description PWorkerCredentialManage =
     ''Rotate or revoke worker operational credentials''"
| "permission_description PWorkerLlmCredentialRead =
     ''List worker LLM credential metadata (no API key)''"
| "permission_description PWorkerLlmCredentialExport =
     ''Export worker LLM provider API keys in plaintext''"
| "permission_description PWorkerLlmCredentialManage =
     ''Store or delete worker LLM credentials''"
| "permission_description PTokenIssue =
     ''Issue bootstrap tokens''"
| "permission_description PTokenList =
     ''List bootstrap tokens''"
| "permission_description PTokenRevoke =
     ''Revoke bootstrap tokens''"
| "permission_description PAdminTokenManage =
     ''Create, rotate, or revoke admin API bearer tokens''"
| "permission_description PAdminTokenList =
     ''List admin API bearer token metadata (no digest)''"
| "permission_description PUserCreate =
     ''Create new users''"
| "permission_description PUserDelete =
     ''Delete users''"
| "permission_description PUserRead =
     ''List/read users''"
| "permission_description PUserRoleAssign =
     ''Assign roles to users''"
| "permission_description PUserRoleRevoke =
     ''Revoke roles from users''"
| "permission_description PRoleCreate =
     ''Create custom roles''"
| "permission_description PRoleDelete =
     ''Delete roles''"
| "permission_description PAuditRead =
     ''Read audit log''"
| "permission_description PHostProvision =
     ''Provision hosts and manage SSH keys''"
| "permission_description PProjectRead =
     ''List/read projects''"
| "permission_description PProjectCreate =
     ''Create projects''"
| "permission_description PProjectDelete =
     ''Archive projects (request draining, not permanent delete)''"
| "permission_description PAgentRead =
     ''List/read agents within a project''"
| "permission_description PAgentManage =
     ''Create and reclaim agents''"
| "permission_description PAgentTemplateRead =
     ''List/read agent templates and their revisions''"
| "permission_description PAgentTemplateCreate =
     ''Create agent template identities''"
| "permission_description PAgentTemplateUpdate =
     ''Edit template metadata and publish revisions (tool/skill changes also need agent:manage)''"
| "permission_description PAgentTemplateLifecycle =
     ''Publish, deprecate, retire, or discard agent templates''"
| "permission_description PAgentTemplateRevisionRevoke =
     ''Revoke a template revision so it can no longer be pinned''"
| "permission_description PAgentTemplateManageGlobal =
     ''Create or modify templates that are not scoped to a project''"
| "permission_description PIssueRead =
     ''List/read issues within a project''"
| "permission_description PIssueCreate =
     ''Open new issues''"
| "permission_description PIssueComment =
     ''Append comments to issues''"
| "permission_description PIssueUpdate =
     ''Edit issue title, body, labels, and severity''"
| "permission_description PIssueAssign =
     ''Change an issue's assignee''"
| "permission_description PIssueApproveAgentWork =
     ''Approve an issue for agent pickup (Triaged -> ReadyForAgent)''"
| "permission_description PIssueClose =
     ''Close issues with a reason''"
| "permission_description PIssueReopen =
     ''Reopen closed or resolved issues''"
| "permission_description PIssueLink =
     ''Link and unlink tasks to issues''"
| "permission_description PEventsList =
     ''List events''"
| "permission_description PMetricsView =
     ''View metrics''"

fun seed_permission_list ::
    "(permission_kind \<Rightarrow> permission_id) \<Rightarrow> permission_kind list \<Rightarrow> access \<Rightarrow> (store_error, unit) result \<times> access" where
  "seed_permission_list ids [] s = (Inr (), s)"
| "seed_permission_list ids (k # ks) s =
     (case get_permission_by_name (permission_as_str k) s of
        Inl e \<Rightarrow> (Inl e, s)
      | Inr (Some _) \<Rightarrow> seed_permission_list ids ks s
      | Inr None \<Rightarrow>
          (case create_permission \<lparr> pm_id = ids k, pm_name = permission_as_str k,
                  pm_description = Some (permission_description k) \<rparr> s of
             (Inl e, s) \<Rightarrow> (Inl e, s)
           | (Inr _, s) \<Rightarrow> seed_permission_list ids ks s))"

definition seed_permissions :: "(permission_kind \<Rightarrow> permission_id) \<Rightarrow> access \<Rightarrow> (store_error, unit) result \<times> access" where
  "seed_permissions ids s = seed_permission_list ids all_permissions s"

definition ensure_role ::
    "(builtin_role \<Rightarrow> role_id) \<Rightarrow> datetime \<Rightarrow> builtin_role \<Rightarrow> access \<Rightarrow> (store_error, role) result \<times> access" where
  "ensure_role rids now b s =
     (case get_role_by_name (role_name b) s of
        Inl e \<Rightarrow> (Inl e, s)
      | Inr (Some r) \<Rightarrow> (Inr r, s)
      | Inr None \<Rightarrow>
          (case create_role \<lparr> ro_id = rids b, ro_name = role_name b, ro_description = Some (role_description b),
                  ro_builtin = True, ro_created_at = now \<rparr> s of
             (Inl e, s) \<Rightarrow> (Inl e, s)
           | (Inr _, s) \<Rightarrow>
               (case get_role_by_name (role_name b) s of
                  Inl e \<Rightarrow> (Inl e, s)
                | Inr (Some r) \<Rightarrow> (Inr r, s)
                | Inr None \<Rightarrow> (Inl (Conflict (Msg ''builtin role {} not found after insert'' [ArgStr (role_name b)])), s))))"

fun grant_list :: "role_id \<Rightarrow> permission_kind list \<Rightarrow> access \<Rightarrow> (store_error, unit) result \<times> access" where
  "grant_list r [] s = (Inr (), s)"
| "grant_list r (k # ks) s =
     (case get_permission_by_name (permission_as_str k) s of
        Inl e \<Rightarrow> (Inl e, s)
      | Inr None \<Rightarrow> (Inl (Decode (''permission '' @ permission_as_str k @ '' not seeded before role mapping'')), s)
      | Inr (Some p) \<Rightarrow>
          (case grant_role_permission r (pm_id p) s of
             (Inl e, s) \<Rightarrow> (Inl e, s)
           | (Inr _, s) \<Rightarrow> grant_list r ks s))"

fun seed_role_list ::
    "(builtin_role \<Rightarrow> role_id) \<Rightarrow> datetime \<Rightarrow> builtin_role list \<Rightarrow> access \<Rightarrow> (store_error, unit) result \<times> access" where
  "seed_role_list rids now [] s = (Inr (), s)"
| "seed_role_list rids now (b # bs) s =
     (case ensure_role rids now b s of
        (Inl e, s) \<Rightarrow> (Inl e, s)
      | (Inr r, s) \<Rightarrow>
          (case grant_list (ro_id r) (role_grants b) s of
             (Inl e, s) \<Rightarrow> (Inl e, s)
           | (Inr _, s) \<Rightarrow> seed_role_list rids now bs s))"

definition seed_builtin_roles ::
    "(builtin_role \<Rightarrow> role_id) \<Rightarrow> datetime \<Rightarrow> access \<Rightarrow> (store_error, unit) result \<times> access" where
  "seed_builtin_roles rids now s = seed_role_list rids now all_roles s"

section \<open>The first administrator\<close>

record desk =
  dk_store :: mem_store
  dk_access :: access

text \<open>A bootstrap token made from a fresh random value; its prefix tells it from worker tokens.\<close>

definition boot_token :: "string \<Rightarrow> string" where
  "boot_token random = ''fleet_boot_'' @ random"

definition admin_bootstrap_token ::
    "(string \<Rightarrow> string) \<Rightarrow> datetime \<Rightarrow> string \<Rightarrow> datetime option \<Rightarrow> string \<Rightarrow> string \<Rightarrow> bootstrap_token" where
  "admin_bootstrap_token sha now by_whom expires notes random = \<lparr> bt_token_digest = sha (boot_token random),
     bt_created_at = now, bt_created_by = Some by_whom, bt_expires_at = expires, bt_max_uses = 1, bt_use_count = 0,
     bt_notes = Some notes, bt_last_used_by = None, bt_last_used_at = None \<rparr>"

definition hours :: "nat \<Rightarrow> timedelta" where
  "hours n = int (secs (3600 * n))"

definition issue_admin_bootstrap_if_needed ::
    "(string \<Rightarrow> string) \<Rightarrow> datetime \<Rightarrow> string \<Rightarrow> mem_store \<Rightarrow> (store_error, string option) result \<times> mem_store" where
  "issue_admin_bootstrap_if_needed sha now random s =
     (case list_bootstrap_tokens s of
        Inl e \<Rightarrow> (Inl e, s)
      | Inr existing \<Rightarrow>
          if list_ex (is_usable now) existing then (Inr None, s)
          else case create_bootstrap_token (admin_bootstrap_token sha now ''system'' (Some (now + hours 24))
                  ''Auto-issued admin bootstrap token. Use at /bootstrap.'' random) s of
            (Inl e, s) \<Rightarrow> (Inl e, s)
          | (Inr _, s) \<Rightarrow> (Inr (Some (boot_token random)), s))"

definition issue_admin_bootstrap_token ::
    "(string \<Rightarrow> string) \<Rightarrow> datetime \<Rightarrow> string \<Rightarrow> int \<Rightarrow> mem_store \<Rightarrow> (store_error, string) result \<times> mem_store" where
  "issue_admin_bootstrap_token sha now random expires_in_hours s =
     (let expires = (if expires_in_hours > 0 then Some (now + expires_in_hours * hours 1) else None)
      in case create_bootstrap_token (admin_bootstrap_token sha now ''cli'' expires
              ''Manually issued admin bootstrap token (fleet users bootstrap-token).'' random) s of
           (Inl e, s) \<Rightarrow> (Inl e, s)
         | (Inr _, s) \<Rightarrow> (Inr (boot_token random), s))"

definition seed_rbac_and_maybe_issue_bootstrap ::
    "(string \<Rightarrow> string) \<Rightarrow> (permission_kind \<Rightarrow> permission_id) \<Rightarrow> (builtin_role \<Rightarrow> role_id) \<Rightarrow> datetime \<Rightarrow> string \<Rightarrow> desk
     \<Rightarrow> (store_error, string option) result \<times> desk" where
  "seed_rbac_and_maybe_issue_bootstrap sha ids rids now random d =
     (case seed_permissions ids (dk_access d) of
        (Inl e, a) \<Rightarrow> (Inl e, d\<lparr>dk_access := a\<rparr>)
      | (Inr _, a) \<Rightarrow>
          (case seed_builtin_roles rids now a of
             (Inl e, a) \<Rightarrow> (Inl e, d\<lparr>dk_access := a\<rparr>)
           | (Inr _, a) \<Rightarrow>
               (case count_users a of
                  Inl e \<Rightarrow> (Inl e, d\<lparr>dk_access := a\<rparr>)
                | Inr n \<Rightarrow>
                    if n > 0 then (Inr None, d\<lparr>dk_access := a\<rparr>)
                    else case issue_admin_bootstrap_if_needed sha now random (dk_store d) of
                      (r, s) \<Rightarrow> (r, d\<lparr>dk_access := a, dk_store := s\<rparr>))))"

datatype bootstrap_admin_error =
    BaInvalidToken store_error | BaCreateUser store_error | BaAdminRoleMissing | BaStore store_error

definition first_session :: "(string \<Rightarrow> string) \<Rightarrow> datetime \<Rightarrow> session_id \<Rightarrow> string \<Rightarrow> user_id \<Rightarrow> session" where
  "first_session sha now new_id random u = \<lparr> se_id = new_id, se_user_id = u, se_token_hash = sha random,
     se_created_at = now, se_expires_at = now + hours 8, se_ip_address = None, se_user_agent = None \<rparr>"

definition consume_bootstrap_and_create_admin ::
    "(string \<Rightarrow> string) \<Rightarrow> datetime \<Rightarrow> session_id \<Rightarrow> string \<Rightarrow> string \<Rightarrow> user \<Rightarrow> string \<Rightarrow> desk
     \<Rightarrow> (bootstrap_admin_error, user \<times> string \<times> session_id) result \<times> desk" where
  "consume_bootstrap_and_create_admin sha now new_id random otp u password_hash d =
     (case consume_bootstrap_token sha now now otp (us_username u) (dk_store d) of
        (Inl e, s) \<Rightarrow> (Inl (BaInvalidToken e), d\<lparr>dk_store := s\<rparr>)
      | (Inr _, s) \<Rightarrow>
          let d = d\<lparr>dk_store := s\<rparr>; u = u\<lparr>us_password_hash := password_hash\<rparr>
          in case create_user u (dk_access d) of
               (Inl e, a) \<Rightarrow> (Inl (BaCreateUser e), d\<lparr>dk_access := a\<rparr>)
             | (Inr _, a) \<Rightarrow>
                 (case get_role_by_name (role_name RoleAdmin) a of
                    Inl e \<Rightarrow> (Inl (BaStore e), d\<lparr>dk_access := a\<rparr>)
                  | Inr None \<Rightarrow> (Inl BaAdminRoleMissing, d\<lparr>dk_access := a\<rparr>)
                  | Inr (Some r) \<Rightarrow>
                      (case assign_user_role (us_id u) (ro_id r) a of
                         (Inl e, a) \<Rightarrow> (Inl (BaStore e), d\<lparr>dk_access := a\<rparr>)
                       | (Inr _, a) \<Rightarrow>
                           (case create_session (first_session sha now new_id random (us_id u)) a of
                              (Inl e, a) \<Rightarrow> (Inl (BaStore e), d\<lparr>dk_access := a\<rparr>)
                            | (Inr _, a) \<Rightarrow>
                                (Inr (u, random, new_id), d\<lparr>dk_access := snd (update_user_last_login (us_id u) now a)\<rparr>)))))"

definition contains_text :: "string \<Rightarrow> string \<Rightarrow> bool" where
  "contains_text p s = list_ex (\<lambda>n. take (length p) (drop n s) = p) [0 ..< length s + 1]"

definition classify_bootstrap_token :: "bootstrap_token \<Rightarrow> bootstrap_purpose" where
  "classify_bootstrap_token t =
     (case bt_notes t of Some n \<Rightarrow> if contains_text ''admin bootstrap'' n then AdminBootstrap else WorkerJoin
      | None \<Rightarrow> WorkerJoin)"

end
