(* ===== verification/Project_Rules.thy ===== *)
theory Project_Rules
  imports Agent_Placement
begin

text \<open>
  The rules about projects that the surfaces share (\<open>crates/fleet-store/src/project_rules.rs\<close>):
  admission of tasks and agents, and advancing a project to its archive. The archive makes several
  store calls; \<open>others n\<close> is what other callers do to the store right before the \<open>n\<close>-th of them, and
  \<open>now n\<close> the clock at it. The write of the archive is the store's: one statement in SQL, four locked sections in memory.
\<close>

section \<open>Admission\<close>

datatype project_admission_error =
    PaNotFound project_id
  | PaNotAccepting string string string
  | PaStore store_error

fun task_project_matches_issue_project :: "project_id option \<Rightarrow> project_id \<Rightarrow> bool" where
  "task_project_matches_issue_project (Some p) q = (p = q)"
| "task_project_matches_issue_project None q = True"

definition ensure_project_active ::
    "project_id \<Rightarrow> string \<Rightarrow> mem_store \<Rightarrow> (project_admission_error, project) result" where
  "ensure_project_active i what s =
     (case get_project i s of
        Inl e \<Rightarrow> Inl (PaStore e)
      | Inr None \<Rightarrow> Inl (PaNotFound i)
      | Inr (Some p) \<Rightarrow>
          if \<not> accepts_new_tasks (pr_status p)
          then Inl (PaNotAccepting (pr_name p) (project_status_as_str (pr_status p)) what)
          else Inr p)"

definition ensure_project_accepts_new_tasks :: "project_id \<Rightarrow> mem_store \<Rightarrow> (project_admission_error, project) result" where
  "ensure_project_accepts_new_tasks i s = ensure_project_active i ''tasks'' s"

definition ensure_project_accepts_new_agents :: "project_id \<Rightarrow> mem_store \<Rightarrow> (project_admission_error, project) result" where
  "ensure_project_accepts_new_agents i s = ensure_project_active i ''agents'' s"

section \<open>The archive\<close>

record archive_blockers =
  ab_active_tasks :: bool
  ab_live_agents :: bool

definition blockers_any :: "archive_blockers \<Rightarrow> bool" where
  "blockers_any b = (ab_active_tasks b \<or> ab_live_agents b)"

definition blocker_labels :: "archive_blockers \<Rightarrow> string list" where
  "blocker_labels b =
     (if ab_active_tasks b then [''tasks''] else []) @ (if ab_live_agents b then [''agents''] else [])"

datatype archive_progress = StillDraining archive_blockers | ArchivedNow | ArchiveFenced

text \<open>
  What a call hands back: the progress, the caller's project record, the transitions announced to the
  caller, and the store.
\<close>

type_synonym archive_reply =
  "(store_error, archive_progress) result \<times> project \<times> project_status list \<times> mem_store"

definition diagnose_archive ::
    "(nat \<Rightarrow> mem_store \<Rightarrow> mem_store) \<Rightarrow> project \<Rightarrow> project_status list \<Rightarrow> mem_store \<Rightarrow> archive_reply" where
  "diagnose_archive others p told s =
     (let u = others 2 s
      in case project_has_active_tasks (pr_id p) u of
        Inl e \<Rightarrow> (Inl e, p, told, u)
      | Inr tasks \<Rightarrow>
          let v = others 3 u
          in case project_has_live_agents (pr_id p) v of
            Inl e \<Rightarrow> (Inl e, p, told, v)
          | Inr agents \<Rightarrow>
              let b = \<lparr> ab_active_tasks = tasks, ab_live_agents = agents \<rparr>
              in if blockers_any b then (Inr (StillDraining b), p, told, v)
                 else let w = others 4 v
                      in case get_project (pr_id p) w of
                           Inl e \<Rightarrow> (Inl e, p, told, w)
                         | Inr (Some q) \<Rightarrow>
                             if pr_status q = PrArchived then (Inr ArchivedNow, p\<lparr>pr_status := PrArchived\<rparr>, told, w)
                             else (Inr ArchiveFenced, p, told, w)
                         | Inr None \<Rightarrow> (Inr ArchiveFenced, p, told, w))"

text \<open>
  The archive of the in-memory store (\<open>mem.rs\<close>): the fence, the phase, the tasks and the agents are each looked at
  under a lock of their own, and the project is written under another; \<open>others\<close> acts in between.
\<close>

definition archive_project_if_drained_amid ::
    "(nat \<Rightarrow> mem_store \<Rightarrow> mem_store) \<Rightarrow> datetime \<Rightarrow> project_id \<Rightarrow> control_fence option \<Rightarrow> mem_store
     \<Rightarrow> (store_error, bool) result \<times> mem_store" where
  "archive_project_if_drained_amid others now i fence s =
     (if \<not> control_fence_holds s fence then (Inr False, s)
      else let s = others 0 s in
      if map_option pr_status (hm_get (ms_projects s) i) \<noteq> Some PrDraining then (Inr False, s)
      else let s = others 1 s in
      if list_ex (\<lambda>t. t_project_id t = Some i \<and> active_phase (phase (t_status t))) (hm_values (ms_tasks s)) then (Inr False, s)
      else let s = others 2 s in
      if list_ex (\<lambda>a. ag_project_id a = i \<and> ag_status a \<noteq> AgStopped) (hm_values (ms_agents s)) then (Inr False, s)
      else let s = others 3 s in
      if map_option pr_status (hm_get (ms_projects s) i) \<noteq> Some PrDraining then (Inr False, s)
      else (Inr True, s\<lparr>ms_projects :=
        hm_adjust i (\<lambda>p. p\<lparr>pr_status := PrArchived, pr_updated_at := now\<rparr>) (ms_projects s)\<rparr>))"

text \<open>The archive of the SQL store (\<open>postgres.rs\<close>): one \<open>UPDATE\<close> whose condition holds all four.\<close>

definition pg_archive_where :: "project_id \<Rightarrow> control_fence option \<Rightarrow> mem_store \<Rightarrow> project \<Rightarrow> bool" where
  "pg_archive_where i fence s p =
     (pr_id p = i \<and> project_status_as_str (pr_status p) = ''draining'' \<and>
      \<not> list_ex (\<lambda>t. t_project_id t = Some i \<and> phase_as_str (phase (t_status t)) \<in> {''pending'', ''dispatched''}) (hm_values (ms_tasks s)) \<and>
      \<not> list_ex (\<lambda>a. ag_project_id a = i \<and> agent_status_as_str (ag_status a) \<noteq> ''stopped'') (hm_values (ms_agents s)) \<and>
      (case fence of
         None \<Rightarrow> True
       | Some f \<Rightarrow> list_ex (\<lambda>l. cl_cluster_id l = cf_cluster_id f \<and> cl_epoch l = cf_epoch f) (hm_values (ms_control_leases s))))"

definition pg_archive_project_if_drained ::
    "datetime \<Rightarrow> project_id \<Rightarrow> control_fence option \<Rightarrow> mem_store \<Rightarrow> (store_error, bool) result \<times> mem_store" where
  "pg_archive_project_if_drained now i fence s =
     (Inr (hm_count (pg_archive_where i fence s) (ms_projects s) > 0),
      s\<lparr>ms_projects := hm_map_values
          (\<lambda>p. if pg_archive_where i fence s p then p\<lparr>pr_status := PrArchived, pr_updated_at := now\<rparr> else p)
          (ms_projects s)\<rparr>)"

type_synonym archive_write =
  "datetime \<Rightarrow> project_id \<Rightarrow> control_fence option \<Rightarrow> mem_store \<Rightarrow> (store_error, bool) result \<times> mem_store"

definition archive_draining ::
    "archive_write \<Rightarrow> (nat \<Rightarrow> datetime) \<Rightarrow> (nat \<Rightarrow> mem_store \<Rightarrow> mem_store) \<Rightarrow> control_fence option \<Rightarrow> project
     \<Rightarrow> project_status list \<Rightarrow> mem_store \<Rightarrow> archive_reply" where
  "archive_draining archive now others fence p told s =
     (if pr_status p = PrDraining
      then case archive (now 1) (pr_id p) fence (others 1 s) of
             (Inl e, s) \<Rightarrow> (Inl e, p, told, s)
           | (Inr True, s) \<Rightarrow> (Inr ArchivedNow, p\<lparr>pr_status := PrArchived\<rparr>, told @ [PrArchived], s)
           | (Inr False, s) \<Rightarrow> diagnose_archive others p told s
      else (Inr ArchivedNow, p, told, s))"

text \<open>\<open>archive\<close> is the store's \<open>archive_project_if_drained\<close>.\<close>

definition advance_project_archive ::
    "archive_write \<Rightarrow> (nat \<Rightarrow> datetime) \<Rightarrow> (nat \<Rightarrow> mem_store \<Rightarrow> mem_store) \<Rightarrow> control_fence option \<Rightarrow> project \<Rightarrow> mem_store
     \<Rightarrow> archive_reply" where
  "advance_project_archive archive now others fence p s =
     (if pr_status p = PrActive
      then case update_project_status (now 0) (pr_id p) PrDraining fence (others 0 s) of
             (Inl e, s) \<Rightarrow> (Inl e, p, [], s)
           | (Inr False, s) \<Rightarrow> (Inr ArchiveFenced, p, [], s)
           | (Inr True, s) \<Rightarrow>
               archive_draining archive now others fence (p\<lparr>pr_status := PrDraining\<rparr>) [PrDraining] s
      else archive_draining archive now others fence p [] s)"

section \<open>Properties\<close>

text \<open>What holds a project back, and when it may be archived under a fence.\<close>

definition active_tasks :: "project_id \<Rightarrow> mem_store \<Rightarrow> bool" where
  "active_tasks i s \<longleftrightarrow>
     (\<exists>t \<in> set (hm_values (ms_tasks s)). t_project_id t = Some i \<and> \<not> phase_is_terminal (phase (t_status t)))"

definition live_agents :: "project_id \<Rightarrow> mem_store \<Rightarrow> bool" where
  "live_agents i s \<longleftrightarrow> (\<exists>a \<in> set (hm_values (ms_agents s)). ag_project_id a = i \<and> ag_status a \<noteq> AgStopped)"

definition drained :: "project_id \<Rightarrow> control_fence option \<Rightarrow> mem_store \<Rightarrow> bool" where
  "drained i fence s \<longleftrightarrow> control_fence_holds s fence \<and>
     map_option pr_status (hm_get (ms_projects s) i) = Some PrDraining \<and>
     \<not> active_tasks i s \<and> \<not> live_agents i s"

lemma active_iff: "active_phase p \<longleftrightarrow> \<not> phase_is_terminal p"
  by (cases p) (simp_all add: active_phase_def)

lemma archive_iff_drained:
  "archive_project_if_drained now i fence s =
     (if drained i fence s
      then (Inr True, s\<lparr>ms_projects :=
        hm_adjust i (\<lambda>p. p\<lparr>pr_status := PrArchived, pr_updated_at := now\<rparr>) (ms_projects s)\<rparr>)
      else (Inr False, s))"
  by (auto simp: archive_project_if_drained_def drained_def active_tasks_def live_agents_def list_ex_iff active_iff
      split: option.split)

lemma has_active_eq: "project_has_active_tasks i s = Inr (active_tasks i s)"
  by (simp add: project_has_active_tasks_def active_tasks_def list_ex_iff active_iff)

lemma has_live_eq: "project_has_live_agents i s = Inr (live_agents i s)"
  by (simp add: project_has_live_agents_def live_agents_def list_ex_iff blocks_iff)

lemmas archive_calls = archive_iff_drained has_active_eq has_live_eq get_project_def

lemma diagnose_cases:
  assumes "diagnose_archive others p told s = (r, p', told', s')"
  obtains (blocked) b u where "r = Inr (StillDraining b)" "blockers_any b" "s' = others 3 u"
      "b = \<lparr> ab_active_tasks = active_tasks (pr_id p) u, ab_live_agents = live_agents (pr_id p) s' \<rparr>"
      "p' = p" "told' = told"
    | (archived) "r = Inr ArchivedNow" "map_option pr_status (hm_get (ms_projects s') (pr_id p)) = Some PrArchived"
      "p' = p\<lparr>pr_status := PrArchived\<rparr>" "told' = told"
    | (fenced) "r = Inr ArchiveFenced" "p' = p" "told' = told"
      "map_option pr_status (hm_get (ms_projects s') (pr_id p)) \<noteq> Some PrArchived"
proof -
  let ?i = "pr_id p"
  define u where "u = others 2 s"
  define b where "b = \<lparr> ab_active_tasks = active_tasks ?i u, ab_live_agents = live_agents ?i (others 3 u) \<rparr>"
  show thesis
  proof (cases "blockers_any b")
    case True
    then show thesis using assms
      by (intro blocked[of b u]) (auto simp: diagnose_archive_def archive_calls Let_def u_def b_def)
  next
    case False
    define w where "w = others 4 (others 3 u)"
    show thesis
    proof (cases "map_option pr_status (hm_get (ms_projects w) ?i) = Some PrArchived")
      case True
      then show thesis using assms False
        by (intro archived) (auto simp: diagnose_archive_def archive_calls Let_def u_def b_def w_def)
    next
      case other: False
      then show thesis using assms False
        by (intro fenced) (auto simp: diagnose_archive_def archive_calls Let_def u_def b_def w_def split: option.splits)
    qed
  qed
qed

lemma draining_cases:
  assumes "archive_draining archive now others fence p told s = (r, p', told', s')"
  obtains (already) "pr_status p \<noteq> PrDraining" "r = Inr ArchivedNow" "p' = p" "told' = told" "s' = s"
    | (failed) e where "pr_status p = PrDraining" "r = Inl e" "p' = p" "told' = told"
    | (written) u where "pr_status p = PrDraining" "r = Inr ArchivedNow"
      "p' = p\<lparr>pr_status := PrArchived\<rparr>" "told' = told @ [PrArchived]"
      "archive (now 1) (pr_id p) fence u = (Inr True, s')"
    | (diagnosed) u where "pr_status p = PrDraining" "diagnose_archive others p told u = (r, p', told', s')"
  using assms by (auto simp: archive_draining_def split: if_splits prod.splits sum.splits bool.splits)

lemma advance_cases:
  assumes "advance_project_archive archive now others fence p s = (r, p', told, s')"
  obtains (refused) "pr_status p = PrActive" "r = Inr ArchiveFenced" "p' = p" "told = []" "s' = others 0 s"
    | (entered) u where "pr_status p = PrActive"
      "archive_draining archive now others fence (p\<lparr>pr_status := PrDraining\<rparr>) [PrDraining] u = (r, p', told, s')"
    | (went_on) "pr_status p \<noteq> PrActive" "archive_draining archive now others fence p [] s = (r, p', told, s')"
  using assms by (auto simp: advance_project_archive_def update_project_status_def split: if_splits option.splits)

lemma archive_answers:
  assumes "advance_project_archive archive now others fence p s = (r, p', told, s')"
  shows "(PrArchived \<in> set told \<longrightarrow> (\<exists>u. archive (now 1) (pr_id p) fence u = (Inr True, s'))) \<and>
    (\<forall>b. r = Inr (StillDraining b) \<longrightarrow> blockers_any b \<and> pr_status p' = PrDraining \<and>
       (\<exists>u. s' = others 3 u \<and> ab_active_tasks b = active_tasks (pr_id p) u \<and>
            ab_live_agents b = live_agents (pr_id p) s')) \<and>
    (r = Inr ArchivedNow \<longleftrightarrow> pr_status p' = PrArchived) \<and>
    (r = Inr ArchivedNow \<longrightarrow> pr_status p = PrArchived \<or> PrArchived \<in> set told \<or>
       map_option pr_status (hm_get (ms_projects s') (pr_id p)) = Some PrArchived)"
  using assms
proof (cases rule: advance_cases)
  case refused
  then show ?thesis by simp
next
  case (entered u)
  from entered(2) show ?thesis
  proof (cases rule: draining_cases)
    case (diagnosed v)
    from diagnosed(2) show ?thesis by (cases rule: diagnose_cases) auto
  qed auto
next
  case went_on
  from went_on(2) show ?thesis
  proof (cases rule: draining_cases)
    case already
    then show ?thesis using went_on(1) by (cases "pr_status p") auto
  next
    case (diagnosed v)
    from diagnosed(2) show ?thesis using diagnosed(1) by (cases rule: diagnose_cases) auto
  qed auto
qed

lemma pg_archive_where_iff:
  "pg_archive_where i fence s p \<longleftrightarrow> pr_id p = i \<and> pr_status p = PrDraining \<and> \<not> active_tasks i s \<and> \<not> live_agents i s \<and>
     (\<forall>f. fence = Some f \<longrightarrow> (\<exists>l \<in> set (hm_values (ms_control_leases s)). cl_cluster_id l = cf_cluster_id f \<and> cl_epoch l = cf_epoch f))"
proof -
  have "phase_as_str ph \<in> {''pending'', ''dispatched''} \<longleftrightarrow> \<not> phase_is_terminal ph" for ph by (cases ph) simp_all
  moreover have "agent_status_as_str st = ''stopped'' \<longleftrightarrow> st = AgStopped" for st by (cases st) simp_all
  moreover have "project_status_as_str st = ''draining'' \<longleftrightarrow> st = PrDraining" for st by (cases st) simp_all
  ultimately show ?thesis
    by (auto simp: pg_archive_where_def active_tasks_def live_agents_def list_ex_iff split: option.split)
qed

lemma pg_archive_applied:
  assumes "pg_archive_project_if_drained now i fence s = (Inr True, s')"
  obtains "\<exists>q \<in> set (hm_values (ms_projects s)). pr_id q = i \<and> pr_status q = PrDraining"
    "\<not> active_tasks i s" "\<not> live_agents i s"
    "\<And>f. fence = Some f \<Longrightarrow> \<exists>l \<in> set (hm_values (ms_control_leases s)). cl_cluster_id l = cf_cluster_id f \<and> cl_epoch l = cf_epoch f"
    "ms_tasks s' = ms_tasks s" "ms_agents s' = ms_agents s"
proof -
  from assms have "filter (pg_archive_where i fence s) (hm_values (ms_projects s)) \<noteq> []"
    by (simp add: pg_archive_project_if_drained_def hm_count_def)
  then obtain q where "q \<in> set (hm_values (ms_projects s))" "pg_archive_where i fence s q"
    by (auto simp: filter_empty_conv)
  with assms show thesis by (intro that) (auto simp: pg_archive_where_iff pg_archive_project_if_drained_def)
qed

text \<open>
  C36. Whatever other callers do between the statements of an archive request on the SQL store (a statement is one step):
  the archive is announced only if the request wrote it itself, in a state where the fence's epoch was the lease's, the project was
  draining and neither an unfinished task nor an unstopped agent of it existed, and none of them exists after it; "draining" is
  answered only with a blocker that was seen to exist; "archived" is answered only for an archived project, and the caller's record agrees with the answer.
\<close>

theorem archive_never_over_live_work:
  assumes "advance_project_archive pg_archive_project_if_drained now others fence p s = (r, p', told, s')"
  shows "(PrArchived \<in> set told \<longrightarrow>
       (\<exists>u. pg_archive_project_if_drained (now 1) (pr_id p) fence u = (Inr True, s') \<and>
          (\<exists>q \<in> set (hm_values (ms_projects u)). pr_id q = pr_id p \<and> pr_status q = PrDraining) \<and>
          (\<forall>f. fence = Some f \<longrightarrow> (\<exists>l \<in> set (hm_values (ms_control_leases u)). cl_cluster_id l = cf_cluster_id f \<and> cl_epoch l = cf_epoch f))) \<and>
       \<not> active_tasks (pr_id p) s' \<and> \<not> live_agents (pr_id p) s') \<and>
    (\<forall>b. r = Inr (StillDraining b) \<longrightarrow> blockers_any b \<and> pr_status p' = PrDraining \<and>
       (\<exists>u. s' = others 3 u \<and> ab_active_tasks b = active_tasks (pr_id p) u \<and>
            ab_live_agents b = live_agents (pr_id p) s')) \<and>
    (r = Inr ArchivedNow \<longleftrightarrow> pr_status p' = PrArchived) \<and>
    (r = Inr ArchivedNow \<longrightarrow> pr_status p = PrArchived \<or> PrArchived \<in> set told \<or>
       map_option pr_status (hm_get (ms_projects s') (pr_id p)) = Some PrArchived)"
proof -
  note answers = archive_answers[OF assms]
  have "(\<exists>u. pg_archive_project_if_drained (now 1) (pr_id p) fence u = (Inr True, s') \<and>
          (\<exists>q \<in> set (hm_values (ms_projects u)). pr_id q = pr_id p \<and> pr_status q = PrDraining) \<and>
          (\<forall>f. fence = Some f \<longrightarrow> (\<exists>l \<in> set (hm_values (ms_control_leases u)). cl_cluster_id l = cf_cluster_id f \<and> cl_epoch l = cf_epoch f))) \<and>
       \<not> active_tasks (pr_id p) s' \<and> \<not> live_agents (pr_id p) s'" if announced: "PrArchived \<in> set told"
  proof -
    obtain u where u: "pg_archive_project_if_drained (now 1) (pr_id p) fence u = (Inr True, s')"
      using answers announced by blast
    from u show ?thesis by (rule pg_archive_applied) (use u in \<open>auto simp: active_tasks_def live_agents_def\<close>)
  qed
  then show ?thesis using answers by blast
qed

abbreviation draining_project :: project where
  "draining_project \<equiv> (new_project (ProjectId 1) 0 ''p'')\<lparr>pr_status := PrDraining\<rparr>"

abbreviation draining_store :: mem_store where
  "draining_store \<equiv> empty_store\<lparr>ms_projects := [(ProjectId 1, draining_project)]\<rparr>"

lemma archive_never_over_live_work_witness:
  "\<exists>p' s'. advance_project_archive pg_archive_project_if_drained (\<lambda>_. 3) (\<lambda>_ s. s) None draining_project draining_store
     = (Inr ArchivedNow, p', [PrArchived], s') \<and> \<not> active_tasks (ProjectId 1) s' \<and> \<not> live_agents (ProjectId 1) s'"
proof -
  obtain p' s' where run: "advance_project_archive pg_archive_project_if_drained (\<lambda>_. 3) (\<lambda>_ s. s) None draining_project draining_store
     = (Inr ArchivedNow, p', [PrArchived], s')"
    by (simp add: advance_project_archive_def archive_draining_def pg_archive_project_if_drained_def pg_archive_where_iff active_tasks_def
        live_agents_def hm_values_def hm_count_def empty_store_def new_project_def)
  from archive_never_over_live_work[OF run] run show ?thesis by (auto simp: new_project_def)
qed

text \<open>
  The in-memory store has a window: a call without interference is \<open>archive_project_if_drained\<close>, but a task stored after
  the tasks were looked at is archived over.
\<close>

lemma archive_amid_alone: "archive_project_if_drained_amid (\<lambda>_ s. s) = archive_project_if_drained"
  by (intro ext) (auto simp: archive_project_if_drained_amid_def archive_project_if_drained_def Let_def split: option.split)

lemma mem_archive_over_live_work:
  "let others = (\<lambda>n s. if n = 2 then s\<lparr>ms_tasks := [(TaskId 1, (plain_task 1)\<lparr>t_project_id := Some (ProjectId 1)\<rparr>)]\<rparr> else s)
   in \<exists>s'. archive_project_if_drained_amid others 3 (ProjectId 1) None draining_store = (Inr True, s') \<and> active_tasks (ProjectId 1) s'"
  by (simp add: archive_project_if_drained_amid_def hm_get_def hm_values_def empty_store_def active_tasks_def from_request_def Let_def)

text \<open>
  Without interference, and with the caller's record up to date, the answer is decided by the
  project's status, its blockers and the fence: an archived project stays archived, an active one is
  refused without the lease and drained with it, and a draining one is archived exactly when nothing
  blocks it and the fence holds. While something blocks a draining project the lease is not consulted.
\<close>

theorem archive_decision:
  assumes "hm_get (ms_projects s) (pr_id p) = Some p"
  shows "fst (advance_project_archive archive_project_if_drained now (\<lambda>_ s. s) fence p s) =
    (let b = \<lparr> ab_active_tasks = active_tasks (pr_id p) s, ab_live_agents = live_agents (pr_id p) s \<rparr>
     in Inr (case pr_status p of
          PrArchived \<Rightarrow> ArchivedNow
        | PrActive \<Rightarrow> if \<not> control_fence_holds s fence then ArchiveFenced
                      else if blockers_any b then StillDraining b else ArchivedNow
        | PrDraining \<Rightarrow> if blockers_any b then StillDraining b
                        else if control_fence_holds s fence then ArchivedNow else ArchiveFenced))"
proof -
  have keep: "active_tasks i (s\<lparr>ms_projects := m\<rparr>) = active_tasks i s"
    "live_agents i (s\<lparr>ms_projects := m\<rparr>) = live_agents i s"
    "control_fence_holds (s\<lparr>ms_projects := m\<rparr>) fence = control_fence_holds s fence" for i m
    by (simp_all add: active_tasks_def live_agents_def control_fence_holds_def lease_epoch_def split: option.split)
  show ?thesis
    using assms
    by (cases "pr_status p")
      (auto simp: advance_project_archive_def archive_draining_def diagnose_archive_def archive_calls
        update_project_status_def drained_def keep blockers_any_def Let_def)
qed

lemma archive_decision_witness:
  "fst (advance_project_archive archive_project_if_drained (\<lambda>_. 3) (\<lambda>_ s. s) (Some \<lparr> cf_cluster_id = ''c'', cf_epoch = 1 \<rparr>) draining_project
     (draining_store\<lparr>ms_tasks := [(TaskId 1, (plain_task 1)\<lparr>t_project_id := Some (ProjectId 1)\<rparr>)]\<rparr>))
   = Inr (StillDraining \<lparr> ab_active_tasks = True, ab_live_agents = False \<rparr>)"
  by (subst archive_decision)
    (simp_all add: hm_get_def hm_values_def empty_store_def new_project_def blockers_any_def active_tasks_def
      live_agents_def from_request_def Let_def)

text \<open>
  A task that ends between the refused write and the diagnosis: the caller holds the lease and is told
  it does not.
\<close>

lemma drained_in_between_reported_fenced:
  "let busy = draining_store\<lparr>ms_tasks := [(TaskId 1, (plain_task 1)\<lparr>t_project_id := Some (ProjectId 1)\<rparr>)]\<rparr>;
       others = (\<lambda>n s. if n = 2 then s\<lparr>ms_tasks := []\<rparr> else s)
   in fst (advance_project_archive archive_project_if_drained (\<lambda>_. 3) others None draining_project busy) = Inr ArchiveFenced"
  by (simp add: advance_project_archive_def archive_draining_def diagnose_archive_def archive_calls drained_def
      blockers_any_def active_tasks_def live_agents_def from_request_def hm_get_def hm_values_def empty_store_def
      new_project_def Let_def)

section \<open>Admission\<close>

text \<open>
  A project admits tasks and agents exactly when it exists and is active; a refusal says which it
  was.
\<close>

theorem admission_iff_active:
  "(ensure_project_active i what s = Inr p \<longleftrightarrow> hm_get (ms_projects s) i = Some p \<and> pr_status p = PrActive) \<and>
   (hm_get (ms_projects s) i = None \<longleftrightarrow> ensure_project_active i what s = Inl (PaNotFound i)) \<and>
   (\<forall>q. hm_get (ms_projects s) i = Some q \<longrightarrow> pr_status q \<noteq> PrActive \<longrightarrow>
     ensure_project_active i what s = Inl (PaNotAccepting (pr_name q) (project_status_as_str (pr_status q)) what))"
  by (cases "hm_get (ms_projects s) i"; cases "pr_status (the (hm_get (ms_projects s) i))")
    (auto simp: ensure_project_active_def get_project_def accepts_new_tasks_def)

end
