(* ===== verification/Issue_Store.thy ===== *)
theory Issue_Store
  imports Issue_Model Access_Rbac Project_Rules
begin

text \<open>
  The issue tables (\<open>crates/fleet-store/src/mem.rs\<close>). A \<open>tracker\<close> is the store with the tables the
  issue surfaces use: tasks, projects and links in \<open>tk_store\<close>, audit in \<open>tk_access\<close>, issues and comments.
\<close>

record tracker =
  tk_store :: mem_store
  tk_access :: access
  tk_issues :: "(issue_id, issue) hmap"
  tk_comments :: "issue_comment list"

definition create_issue :: "issue \<Rightarrow> tracker \<Rightarrow> (store_error, unit) result \<times> tracker" where
  "create_issue i s = (Inr (), s\<lparr>tk_issues := hm_insert (is_id i) i (tk_issues s)\<rparr>)"

definition get_issue :: "issue_id \<Rightarrow> tracker \<Rightarrow> (store_error, issue option) result" where
  "get_issue i s = Inr (hm_get (tk_issues s) i)"

definition list_issues :: "issue_filter \<Rightarrow> tracker \<Rightarrow> (store_error, issue list) result" where
  "list_issues f s =
     Inr (take (max (if_max f) 1) (drop (if_skip f) (sort_desc is_created_at
       (filter (\<lambda>i. (case if_project_id f of Some p \<Rightarrow> is_project_id i = p | None \<Rightarrow> True) \<and>
                    (case if_status f of Some x \<Rightarrow> is_status i = x | None \<Rightarrow> True) \<and>
                    (\<not> if_open_only f \<or> issue_is_open (is_status i)))
         (hm_values (tk_issues s))))))"

definition update_issue_fields :: "datetime \<Rightarrow> issue \<Rightarrow> tracker \<Rightarrow> (store_error, bool) result \<times> tracker" where
  "update_issue_fields now i s =
     (if hm_contains (tk_issues s) (is_id i)
      then (Inr True, s\<lparr>tk_issues := hm_adjust (is_id i)
              (\<lambda>x. x\<lparr>is_title := is_title i, is_body := is_body i, is_severity := is_severity i,
                 is_labels := is_labels i, is_assignee := is_assignee i, is_updated_at := now\<rparr>) (tk_issues s)\<rparr>)
      else (Inr False, s))"

definition transition_issue ::
    "datetime \<Rightarrow> issue_id \<Rightarrow> issue_status \<Rightarrow> close_reason option \<Rightarrow> tracker \<Rightarrow> (store_error, bool) result \<times> tracker" where
  "transition_issue now i b reason s =
     (if hm_contains (tk_issues s) i
      then (Inr True, s\<lparr>tk_issues := hm_adjust i
              (\<lambda>x. x\<lparr>is_status := b, is_close_reason := reason, is_updated_at := now\<rparr>) (tk_issues s)\<rparr>)
      else (Inr False, s))"

definition add_issue_comment :: "issue_comment \<Rightarrow> tracker \<Rightarrow> (store_error, unit) result \<times> tracker" where
  "add_issue_comment c s = (Inr (), s\<lparr>tk_comments := tk_comments s @ [c]\<rparr>)"

definition list_issue_comments :: "issue_id \<Rightarrow> tracker \<Rightarrow> (store_error, issue_comment list) result" where
  "list_issue_comments i s = Inr (sort_key ic_created_at (filter (\<lambda>c. ic_issue_id c = i) (tk_comments s)))"

definition link_issue_task :: "issue_task_link \<Rightarrow> tracker \<Rightarrow> (store_error, bool) result \<times> tracker" where
  "link_issue_task l s =
     (if list_ex (\<lambda>x. il_issue_id x = il_issue_id l \<and> il_task_id x \<noteq> None \<and> il_task_id x = il_task_id l)
           (ms_issue_task_links (tk_store s))
      then (Inr False, s)
      else (Inr True, s\<lparr>tk_store := (tk_store s)\<lparr>ms_issue_task_links := ms_issue_task_links (tk_store s) @ [l]\<rparr>\<rparr>))"

definition unlink_issue_task :: "issue_id \<Rightarrow> task_id \<Rightarrow> tracker \<Rightarrow> (store_error, bool) result \<times> tracker" where
  "unlink_issue_task i t s =
     (let before = length (ms_issue_task_links (tk_store s));
          kept = filter (\<lambda>l. \<not> (il_issue_id l = i \<and> il_task_id l = Some t)) (ms_issue_task_links (tk_store s))
      in (Inr (length kept \<noteq> before), s\<lparr>tk_store := (tk_store s)\<lparr>ms_issue_task_links := kept\<rparr>\<rparr>))"

definition list_issue_task_links :: "issue_id \<Rightarrow> tracker \<Rightarrow> (store_error, issue_task_link list) result" where
  "list_issue_task_links i s =
     Inr (sort_key il_linked_at (filter (\<lambda>l. il_issue_id l = i) (ms_issue_task_links (tk_store s))))"

definition issue_has_active_tasks :: "issue_id \<Rightarrow> tracker \<Rightarrow> (store_error, bool) result" where
  "issue_has_active_tasks i s =
     Inr (list_ex (\<lambda>t. active_phase (phase (t_status t)))
       (List.map_filter (\<lambda>t. hm_get (ms_tasks (tk_store s)) t)
         (List.map_filter il_task_id (filter (\<lambda>l. il_issue_id l = i) (ms_issue_task_links (tk_store s))))))"

end
