(* ===== verification/Dashboard_Auth.thy ===== *)
theory Dashboard_Auth
  imports Access_Rbac
begin

text \<open>
  The dashboard's authentication (\<open>crates/fleet-dashboard/src/auth.rs\<close> and the login, logout,
  password and user handlers of \<open>handlers.rs\<close>). \<open>sha\<close> is SHA-256 in hexadecimal, \<open>verify\<close> and
  \<open>hashed\<close> are Argon2, \<open>weak\<close> is the password estimator, \<open>clk n\<close> is the \<open>n\<close>-th reading of the clock in
  a request; fresh ids and tokens are arguments. A response is a page and the cookies it sets, in order.
\<close>

section \<open>Constants\<close>

abbreviation seconds :: "nat \<Rightarrow> timedelta" where
  "seconds n \<equiv> int (secs n)"

definition session_duration :: timedelta where
  "session_duration = seconds (8 * 3600)"

definition session_rotate_after :: timedelta where
  "session_rotate_after = seconds (30 * 60)"

definition session_rotation_grace :: timedelta where
  "session_rotation_grace = seconds 30"

definition max_failed_attempts :: nat where "max_failed_attempts = 5"
definition max_ip_failed_attempts :: nat where "max_ip_failed_attempts = 20"
definition failed_attempt_window :: timedelta where "failed_attempt_window = seconds 60"
definition max_email_send_attempts :: nat where "max_email_send_attempts = 3"
definition max_ip_email_send_attempts :: nat where "max_ip_email_send_attempts = 10"
definition email_send_window :: timedelta where "email_send_window = seconds 3600"

section \<open>Pages and cookies\<close>

datatype api_error = Forbidden string | BadRequest string | ApiConflict string | Internal string
  | ApiNotFound string | ApiStore string

datatype page = LoginRedirect | AccountDisabled | InternalErrorPage | LoginFailed string
  | BootstrapFailed nat string | InfoPage string string | VerificationResult bool string | CsrfInvalid
  | Home | ToLogin | ApiFailed api_error | ApiOk nat

datatype set_cookie = SetSession string | ClearSession | SetCsrf string

definition csrf_valid :: "string option \<Rightarrow> string \<Rightarrow> bool" where
  "csrf_valid cookie submitted =
     (case cookie of
        Some c \<Rightarrow> c \<noteq> [] \<and> submitted \<noteq> [] \<and> c = submitted
      | None \<Rightarrow> False)"

definition audit :: "audit_event \<Rightarrow> access \<Rightarrow> access" where
  "audit e s = snd (record_audit_event e s)"

section \<open>Sessions\<close>

record principal =
  pc_user :: user
  pc_permissions :: "permission_kind list"
  pc_session_id :: session_id
  pc_client_ip :: "string option"

definition has_permission :: "principal \<Rightarrow> permission_kind \<Rightarrow> bool" where
  "has_permission p k = (k \<in> set (pc_permissions p))"

definition authenticate ::
    "(string \<Rightarrow> string) \<Rightarrow> datetime \<Rightarrow> string option \<Rightarrow> string option \<Rightarrow> access
     \<Rightarrow> (page, principal \<times> session) result \<times> access" where
  "authenticate sha now token ip s =
     (case token of
        None \<Rightarrow> (Inl LoginRedirect, s)
      | Some t \<Rightarrow>
          (case get_session_by_token_hash (sha t) s of
             Inl _ \<Rightarrow> (Inl InternalErrorPage, s)
           | Inr None \<Rightarrow> (Inl LoginRedirect, s)
           | Inr (Some x) \<Rightarrow>
               if session_expired now x then (Inl LoginRedirect, snd (delete_session (se_id x) s))
               else (case get_user_by_id (se_user_id x) s of
                  Inl _ \<Rightarrow> (Inl InternalErrorPage, s)
                | Inr None \<Rightarrow> (Inl LoginRedirect, s)
                | Inr (Some u) \<Rightarrow>
                    if \<not> us_enabled u then (Inl AccountDisabled, s)
                    else (case list_user_permissions (us_id u) s of
                       Inl _ \<Rightarrow> (Inl InternalErrorPage, s)
                     | Inr ps \<Rightarrow>
                         (Inr (\<lparr> pc_user = u, pc_permissions = List.map_filter (\<lambda>p. permission_from_name (pm_name p)) ps,
                                pc_session_id = se_id x, pc_client_ip = ip \<rparr>, x), s)))))"

definition should_rotate :: "datetime \<Rightarrow> datetime \<Rightarrow> datetime \<Rightarrow> bool" where
  "should_rotate created expires now =
     (if now - created < session_rotate_after then False else expires > now + session_rotation_grace)"

definition rotated_session :: "(string \<Rightarrow> string) \<Rightarrow> datetime \<Rightarrow> session_id \<Rightarrow> string \<Rightarrow> session \<Rightarrow> session" where
  "rotated_session sha now new_id raw x = \<lparr> se_id = new_id, se_user_id = se_user_id x, se_token_hash = sha raw,
     se_created_at = now, se_expires_at = se_expires_at x, se_ip_address = se_ip_address x,
     se_user_agent = se_user_agent x \<rparr>"

definition maybe_rotate_session ::
    "(string \<Rightarrow> string) \<Rightarrow> datetime \<Rightarrow> session_id \<Rightarrow> string \<Rightarrow> session \<Rightarrow> access \<Rightarrow> string option \<times> access" where
  "maybe_rotate_session sha now new_id raw x s =
     (let grace_deadline = now + session_rotation_grace
      in if \<not> should_rotate (se_created_at x) (se_expires_at x) now then (None, s)
         else case create_session (rotated_session sha now new_id raw x) s of
           (Inl _, s) \<Rightarrow> (None, s)
         | (Inr _, s) \<Rightarrow> (Some raw, snd (update_session_expiry (se_id x) grace_deadline s)))"

text \<open>
  The middleware: the handler runs after the rotation; its cookies come first, then the CSRF cookie,
  then the rotated session's.
\<close>

record web_request =
  wr_session :: "string option"
  wr_csrf :: "string option"
  wr_ip :: "string option"

definition require_session ::
    "(string \<Rightarrow> string) \<Rightarrow> (nat \<Rightarrow> datetime) \<Rightarrow> session_id \<Rightarrow> string \<Rightarrow> string \<Rightarrow> web_request
     \<Rightarrow> (principal \<Rightarrow> access \<Rightarrow> page \<times> set_cookie list \<times> access) \<Rightarrow> access \<Rightarrow> page \<times> set_cookie list \<times> access" where
  "require_session sha clk new_id raw new_csrf rq handler s =
     (case authenticate sha (clk 0) (wr_session rq) (wr_ip rq) s of
        (Inl pg, s) \<Rightarrow> (pg, [], s)
      | (Inr (p, x), s) \<Rightarrow>
          let csrf = (case wr_csrf rq of Some c \<Rightarrow> c | None \<Rightarrow> new_csrf)
          in case maybe_rotate_session sha (clk 1) new_id raw x s of
            (rotation, s) \<Rightarrow>
              (case handler p s of
                 (pg, cookies, s) \<Rightarrow>
                   (pg, cookies @ [SetCsrf csrf] @ (case rotation of Some t \<Rightarrow> [SetSession t] | None \<Rightarrow> []), s)))"

definition require_permission ::
    "datetime \<Rightarrow> principal \<Rightarrow> permission_kind \<Rightarrow> access \<Rightarrow> bool \<times> access" where
  "require_permission now p k s =
     (if has_permission p k then (True, s)
      else (False, audit ((new_event now (us_username (pc_user p)) ''dashboard.permission_denied'' AuditFailure)
               \<lparr>ae_actor_user_id := Some (us_id (pc_user p)), ae_ip_address := pc_client_ip p\<rparr>) s))"

text \<open>\<open>POST /logout\<close>, a handler under the middleware; the header repeats the CSRF cookie.\<close>

definition logout :: "datetime \<Rightarrow> string option \<Rightarrow> string \<Rightarrow> principal \<Rightarrow> access \<Rightarrow> page \<times> set_cookie list \<times> access" where
  "logout now cookie_csrf header_csrf p s =
     (if \<not> csrf_valid cookie_csrf header_csrf then (CsrfInvalid, [], s)
      else let s = snd (delete_session (pc_session_id p) s)
           in (ToLogin, [ClearSession], audit ((new_event now (us_username (pc_user p)) ''auth.logout'' AuditSuccess)
                 \<lparr>ae_actor_user_id := Some (us_id (pc_user p)), ae_ip_address := pc_client_ip p\<rparr>) s))"

section \<open>Rate limits\<close>

definition check_rate_limit_custom ::
    "datetime \<Rightarrow> datetime \<Rightarrow> string \<Rightarrow> string option \<Rightarrow> nat \<Rightarrow> nat \<Rightarrow> timedelta \<Rightarrow> access \<Rightarrow> (unit, bool) result" where
  "check_rate_limit_custom now now' ident ip max_id max_ip window s =
     (case count_recent_failed_attempts now ident None window s of
        Inl _ \<Rightarrow> Inl ()
      | Inr id_count \<Rightarrow>
          if id_count \<ge> max_id then Inr False
          else case ip of
            None \<Rightarrow> Inr True
          | Some i \<Rightarrow>
              (case count_recent_ip_failures now' i window s of
                 Inl _ \<Rightarrow> Inl ()
               | Inr ip_count \<Rightarrow> Inr (\<not> ip_count \<ge> max_ip)))"

definition check_rate_limit ::
    "datetime \<Rightarrow> datetime \<Rightarrow> string \<Rightarrow> string option \<Rightarrow> access \<Rightarrow> (unit, bool) result" where
  "check_rate_limit now now' ident ip s =
     check_rate_limit_custom now now' ident ip max_failed_attempts max_ip_failed_attempts failed_attempt_window s"

definition record_login_failure :: "datetime \<Rightarrow> string \<Rightarrow> string option \<Rightarrow> string \<Rightarrow> access \<Rightarrow> access" where
  "record_login_failure now ident ip reason s =
     snd (record_login_attempt \<lparr> la_identifier = ident, la_ip_address = ip, la_success = False,
       la_failure_reason = Some reason, la_attempted_at = now \<rparr> s)"

definition record_rate_limited_request :: "datetime \<Rightarrow> string \<Rightarrow> string option \<Rightarrow> string \<Rightarrow> access \<Rightarrow> access" where
  "record_rate_limited_request now ident ip reason s = record_login_failure now ident ip reason s"

definition record_login_success :: "datetime \<Rightarrow> datetime \<Rightarrow> string \<Rightarrow> string option \<Rightarrow> access \<Rightarrow> access" where
  "record_login_success now now' ident ip s =
     (case record_login_attempt \<lparr> la_identifier = ident, la_ip_address = ip, la_success = True,
              la_failure_reason = None, la_attempted_at = now \<rparr> s of
        (Inl _, s) \<Rightarrow> s
      | (Inr _, s) \<Rightarrow>
          (case clear_login_attempts ident None s of
             (Inl _, s) \<Rightarrow> s
           | (Inr _, s) \<Rightarrow> snd (delete_old_login_attempts (now' - seconds (7 * 24 * 3600)) s)))"

section \<open>Login\<close>

record login_form =
  lf_email :: string
  lf_password :: string
  lf_csrf_token :: string

text \<open>
  The handler in the two parts it awaits between: the rate limit, which only reads, and everything after the user was
  found, where a wrong password is recorded. \<open>others 0\<close> acts between the limit and the look for the user, \<open>others 1\<close> while the
  password is verified; \<open>login\<close> is the undisturbed request.
\<close>

definition login_limit ::
    "(nat \<Rightarrow> datetime) \<Rightarrow> string option \<Rightarrow> string \<Rightarrow> login_form \<Rightarrow> access \<Rightarrow> (page \<times> access) option" where
  "login_limit clk cookie_csrf ip form s =
     (if \<not> csrf_valid cookie_csrf (lf_csrf_token form)
      then Some (LoginFailed ''Security token expired. Please reload the page.'', s)
      else case check_rate_limit (clk 0) (clk 1) (lf_email form) (Some ip) s of
        Inl _ \<Rightarrow> Some (InternalErrorPage, s)
      | Inr False \<Rightarrow>
          Some (LoginFailed ''Too many attempts. Try again in 60s.'',
            audit ((new_event (clk 2) (lf_email form) ''auth.login'' AuditFailure)\<lparr>ae_ip_address := Some ip\<rparr>) s)
      | Inr True \<Rightarrow> None)"

definition login_answer ::
    "(string \<Rightarrow> string) \<Rightarrow> (string \<Rightarrow> string \<Rightarrow> (auth_error, bool) result) \<Rightarrow> (nat \<Rightarrow> datetime) \<Rightarrow> session_id
     \<Rightarrow> string \<Rightarrow> string \<Rightarrow> string \<Rightarrow> string option \<Rightarrow> login_form \<Rightarrow> user option \<Rightarrow> access
     \<Rightarrow> page \<times> set_cookie list \<times> access" where
  "login_answer sha verify clk new_id raw new_csrf ip agent form found s =
     (let valid = (case found of
            Some u \<Rightarrow> us_enabled u \<and> verify (lf_password form) (us_password_hash u) = Inr True
          | None \<Rightarrow> False)
      in if \<not> valid then
           (LoginFailed ''Invalid email or password'', [],
            audit ((new_event (clk 3) (lf_email form) ''auth.login'' AuditFailure)\<lparr>ae_ip_address := Some ip\<rparr>)
              (record_login_failure (clk 2) (lf_email form) (Some ip) ''invalid_credentials'' s))
         else
           let u = the found
           in if \<not> us_email_verified u then
                (LoginFailed ''Email not verified. Please check your inbox for the verification link.'', [],
                 audit ((new_event (clk 3) (us_username u) ''auth.login'' AuditFailure)
                     \<lparr>ae_actor_user_id := Some (us_id u), ae_ip_address := Some ip\<rparr>)
                   (record_login_failure (clk 2) (lf_email form) (Some ip) ''email_not_verified'' s))
              else
                let x = \<lparr> se_id = new_id, se_user_id = us_id u, se_token_hash = sha raw, se_created_at = clk 2,
                          se_expires_at = clk 3 + session_duration, se_ip_address = Some ip,
                          se_user_agent = agent \<rparr>
                in case create_session x s of
                     (Inl _, s) \<Rightarrow> (InternalErrorPage, [], s)
                   | (Inr _, s) \<Rightarrow>
                       (Home, [SetSession raw, SetCsrf new_csrf],
                        audit ((new_event (clk 7) (us_username u) ''auth.login'' AuditSuccess)
                            \<lparr>ae_actor_user_id := Some (us_id u), ae_ip_address := Some ip\<rparr>)
                          (record_login_success (clk 5) (clk 6) (lf_email form) (Some ip)
                            (snd (update_user_last_login (us_id u) (clk 4) s)))))"

definition login_amid ::
    "(nat \<Rightarrow> access \<Rightarrow> access) \<Rightarrow> (string \<Rightarrow> string) \<Rightarrow> (string \<Rightarrow> string \<Rightarrow> (auth_error, bool) result) \<Rightarrow> (nat \<Rightarrow> datetime) \<Rightarrow> session_id
     \<Rightarrow> string \<Rightarrow> string \<Rightarrow> string option \<Rightarrow> string \<Rightarrow> string option \<Rightarrow> login_form \<Rightarrow> access
     \<Rightarrow> page \<times> set_cookie list \<times> access" where
  "login_amid others sha verify clk new_id raw new_csrf cookie_csrf ip agent form s =
     (case login_limit clk cookie_csrf ip form s of
        Some (pg, s) \<Rightarrow> (pg, [], s)
      | None \<Rightarrow>
          (case get_user_by_email (lf_email form) (others 0 s) of
             Inl _ \<Rightarrow> (InternalErrorPage, [], others 0 s)
           | Inr found \<Rightarrow> login_answer sha verify clk new_id raw new_csrf ip agent form found (others 1 (others 0 s))))"

definition login ::
    "(string \<Rightarrow> string) \<Rightarrow> (string \<Rightarrow> string \<Rightarrow> (auth_error, bool) result) \<Rightarrow> (nat \<Rightarrow> datetime) \<Rightarrow> session_id
     \<Rightarrow> string \<Rightarrow> string \<Rightarrow> string option \<Rightarrow> string \<Rightarrow> string option \<Rightarrow> login_form \<Rightarrow> access
     \<Rightarrow> page \<times> set_cookie list \<times> access" where
  "login = login_amid (\<lambda>_ s. s)"

lemmas login_defs = login_def login_amid_def login_limit_def login_answer_def

end
