(* ===== verification/Issue_Dashboard.thy ===== *)
theory Issue_Dashboard
  imports Issue_Store Dashboard_Auth Router
begin

text \<open>
  The issue handlers of the dashboard (\<open>crates/fleet-dashboard/src/handlers.rs\<close>). A handler makes several
  store calls; \<open>others n\<close> is what other requests do to the tables right before its \<open>n\<close>-th one. Ids are
  parsed and printed by the functions of \<open>issue_env\<close>.
\<close>

record issue_env =
  ie_parse_issue :: "string \<Rightarrow> issue_id option"
  ie_show_issue :: "issue_id \<Rightarrow> string"
  ie_parse_project :: "string \<Rightarrow> project_id option"
  ie_show_project :: "project_id \<Rightarrow> string"
  ie_parse_task :: "string \<Rightarrow> task_id option"
  ie_show_task :: "task_id \<Rightarrow> string"
  ie_error_text :: "store_error \<Rightarrow> string"

text \<open>The request as the issue handlers see it: the principal, the CSRF cookie and the CSRF header.\<close>

record issue_caller =
  cl_principal :: principal
  cl_csrf_cookie :: "string option"
  cl_csrf_header :: string

definition tracker_audit :: "audit_event \<Rightarrow> tracker \<Rightarrow> tracker" where
  "tracker_audit e s = s\<lparr>tk_access := audit e (tk_access s)\<rparr>"

definition verify_csrf_header :: "issue_caller \<Rightarrow> (api_error, unit) result" where
  "verify_csrf_header c =
     (if \<not> csrf_valid (cl_csrf_cookie c) (cl_csrf_header c) then Inl (Forbidden ''CSRF token invalid'') else Inr ())"

text \<open>\<open>require_permission(..).await?\<close>.\<close>

definition demand :: "datetime \<Rightarrow> issue_caller \<Rightarrow> permission_kind \<Rightarrow> tracker \<Rightarrow> (api_error, unit) result \<times> tracker" where
  "demand now c k s =
     (case require_permission now (cl_principal c) k (tk_access s) of
        (True, a) \<Rightarrow> (Inr (), s\<lparr>tk_access := a\<rparr>)
      | (False, a) \<Rightarrow> (Inl (Forbidden ''Permission denied''), s\<lparr>tk_access := a\<rparr>))"

definition parse_issue_id :: "issue_env \<Rightarrow> string \<Rightarrow> (api_error, issue_id) result" where
  "parse_issue_id en raw = (case ie_parse_issue en raw of Some i \<Rightarrow> Inr i | None \<Rightarrow> Inl (BadRequest ''invalid issue id''))"

definition parse_severity :: "string \<Rightarrow> (api_error, issue_severity) result" where
  "parse_severity raw =
     (case issue_severity_parse raw of Some v \<Rightarrow> Inr v | None \<Rightarrow> Inl (BadRequest (''unknown severity: '' @ raw)))"

text \<open>\<open>as_deref().filter(|s| !s.is_empty())\<close>.\<close>

definition nonempty :: "string option \<Rightarrow> string option" where
  "nonempty v = (case v of Some x \<Rightarrow> if x = [] then None else Some x | None \<Rightarrow> None)"

record issue_summary =
  su_issue :: issue
  su_status :: string
  su_close_reason :: "string option"
  su_severity :: string
  su_has_active_tasks :: bool

definition issue_summary_of :: "issue \<Rightarrow> bool \<Rightarrow> issue_summary" where
  "issue_summary_of i active = \<lparr> su_issue = i, su_status = issue_status_as_str (is_status i),
     su_close_reason = map_option close_reason_as_str (is_close_reason i),
     su_severity = issue_severity_as_str (is_severity i), su_has_active_tasks = active \<rparr>"

definition issue_summary_for :: "issue_env \<Rightarrow> issue \<Rightarrow> tracker \<Rightarrow> (api_error, issue_summary) result" where
  "issue_summary_for en i s =
     (case issue_has_active_tasks (is_id i) s of
        Inl e \<Rightarrow> Inl (ApiStore (ie_error_text en e))
      | Inr active \<Rightarrow> Inr (issue_summary_of i active))"

definition load_issue :: "issue_env \<Rightarrow> issue_id \<Rightarrow> tracker \<Rightarrow> (api_error, issue) result" where
  "load_issue en i s =
     (case get_issue i s of
        Inl e \<Rightarrow> Inl (ApiStore (ie_error_text en e))
      | Inr None \<Rightarrow> Inl (ApiNotFound (''issue '' @ ie_show_issue en i))
      | Inr (Some x) \<Rightarrow> Inr x)"

definition parse_load :: "issue_env \<Rightarrow> string \<Rightarrow> tracker \<Rightarrow> (api_error, issue) result" where
  "parse_load en raw s = (case parse_issue_id en raw of Inl e \<Rightarrow> Inl e | Inr i \<Rightarrow> load_issue en i s)"

text \<open>An audit event of an issue handler.\<close>

definition issue_event :: "issue_env \<Rightarrow> datetime \<Rightarrow> issue_caller \<Rightarrow> string \<Rightarrow> project_id option \<Rightarrow> issue_id \<Rightarrow> audit_event" where
  "issue_event en now c action p i = (new_event now (us_username (pc_user (cl_principal c))) action AuditSuccess)
     \<lparr>ae_actor_user_id := Some (us_id (pc_user (cl_principal c))), ae_ip_address := pc_client_ip (cl_principal c),
      ae_project_id := p, ae_target_type := Some ''issue'', ae_target_id := Some (ie_show_issue en i)\<rparr>"

section \<open>Reading\<close>

fun summaries :: "issue_env \<Rightarrow> tracker \<Rightarrow> issue list \<Rightarrow> (api_error, issue_summary list) result" where
  "summaries en s [] = Inr []"
| "summaries en s (i # is) =
     (case issue_summary_for en i s of
        Inl e \<Rightarrow> Inl e
      | Inr v \<Rightarrow> (case summaries en s is of Inl e \<Rightarrow> Inl e | Inr vs \<Rightarrow> Inr (v # vs)))"

record list_issues_query =
  lq_project_id :: "string option"
  lq_status :: "string option"
  lq_open_only :: "bool option"

definition list_issues_api ::
    "issue_env \<Rightarrow> datetime \<Rightarrow> issue_caller \<Rightarrow> list_issues_query \<Rightarrow> tracker \<Rightarrow> (api_error, issue_summary list) result \<times> tracker" where
  "list_issues_api en now c q s =
     (case demand now c PIssueRead s of
        (Inl e, s) \<Rightarrow> (Inl e, s)
      | (Inr _, s) \<Rightarrow>
          (case (case nonempty (lq_project_id q) of
                   Some raw \<Rightarrow> (case ie_parse_project en raw of Some p \<Rightarrow> Inr (Some p) | None \<Rightarrow> Inl (BadRequest ''invalid project id''))
                 | None \<Rightarrow> Inr None) of
             Inl e \<Rightarrow> (Inl e, s)
           | Inr p \<Rightarrow>
               (case (case nonempty (lq_status q) of
                        Some raw \<Rightarrow> (case issue_status_parse raw of Some x \<Rightarrow> Inr (Some x)
                                      | None \<Rightarrow> Inl (BadRequest (''unknown issue status: '' @ raw)))
                      | None \<Rightarrow> Inr None) of
                  Inl e \<Rightarrow> (Inl e, s)
                | Inr x \<Rightarrow>
                    (case list_issues \<lparr> if_project_id = p, if_status = x, if_open_only = (lq_open_only q = Some True),
                                       if_max = 1000, if_skip = 0 \<rparr> s of
                       Inl e \<Rightarrow> (Inl (ApiStore (ie_error_text en e)), s)
                     | Inr is \<Rightarrow> (summaries en s is, s)))))"

definition get_issue_api ::
    "issue_env \<Rightarrow> datetime \<Rightarrow> issue_caller \<Rightarrow> string \<Rightarrow> tracker \<Rightarrow> (api_error, issue_summary) result \<times> tracker" where
  "get_issue_api en now c raw s =
     (case demand now c PIssueRead s of
        (Inl e, s) \<Rightarrow> (Inl e, s)
      | (Inr _, s) \<Rightarrow>
          (case parse_load en raw s of Inl e \<Rightarrow> (Inl e, s) | Inr i \<Rightarrow> (issue_summary_for en i s, s)))"

definition list_issue_comments_api ::
    "issue_env \<Rightarrow> datetime \<Rightarrow> issue_caller \<Rightarrow> string \<Rightarrow> tracker \<Rightarrow> (api_error, issue_comment list) result \<times> tracker" where
  "list_issue_comments_api en now c raw s =
     (case demand now c PIssueRead s of
        (Inl e, s) \<Rightarrow> (Inl e, s)
      | (Inr _, s) \<Rightarrow>
          (case parse_issue_id en raw of
             Inl e \<Rightarrow> (Inl e, s)
           | Inr i \<Rightarrow> (case list_issue_comments i s of
                Inl e \<Rightarrow> (Inl (ApiStore (ie_error_text en e)), s) | Inr cs \<Rightarrow> (Inr cs, s))))"

definition list_issue_links_api ::
    "issue_env \<Rightarrow> datetime \<Rightarrow> issue_caller \<Rightarrow> string \<Rightarrow> tracker \<Rightarrow> (api_error, issue_task_link list) result \<times> tracker" where
  "list_issue_links_api en now c raw s =
     (case demand now c PIssueRead s of
        (Inl e, s) \<Rightarrow> (Inl e, s)
      | (Inr _, s) \<Rightarrow>
          (case parse_issue_id en raw of
             Inl e \<Rightarrow> (Inl e, s)
           | Inr i \<Rightarrow> (case list_issue_task_links i s of
                Inl e \<Rightarrow> (Inl (ApiStore (ie_error_text en e)), s) | Inr ls \<Rightarrow> (Inr ls, s))))"

section \<open>Creating and editing\<close>

record create_issue_request =
  cr_project_id :: string
  cr_title :: string
  cr_body :: "string option"
  cr_severity :: "string option"
  cr_labels :: "string list option"

text \<open>The optional fields of the request applied to the new issue.\<close>

definition drafted :: "create_issue_request \<Rightarrow> issue \<Rightarrow> (api_error, issue) result" where
  "drafted rq i =
     (let i = (case cr_body rq of Some b \<Rightarrow> i\<lparr>is_body := b\<rparr> | None \<Rightarrow> i)
      in case (case nonempty (cr_severity rq) of
                 Some raw \<Rightarrow> (case parse_severity raw of Inl e \<Rightarrow> Inl e | Inr v \<Rightarrow> Inr (i\<lparr>is_severity := v\<rparr>))
               | None \<Rightarrow> Inr i) of
           Inl e \<Rightarrow> Inl e
         | Inr i \<Rightarrow> Inr (case cr_labels rq of Some ls \<Rightarrow> i\<lparr>is_labels := ls\<rparr> | None \<Rightarrow> i))"

definition create_issue_api ::
    "issue_env \<Rightarrow> (nat \<Rightarrow> datetime) \<Rightarrow> (nat \<Rightarrow> tracker \<Rightarrow> tracker) \<Rightarrow> issue_id \<Rightarrow> issue_caller \<Rightarrow> create_issue_request \<Rightarrow> tracker
     \<Rightarrow> (api_error, issue_summary) result \<times> tracker" where
  "create_issue_api en clk others new_id c rq s =
     (case demand (clk 0) c PIssueCreate s of
        (Inl e, s) \<Rightarrow> (Inl e, s)
      | (Inr _, s) \<Rightarrow>
     (case verify_csrf_header c of Inl e \<Rightarrow> (Inl e, s) | Inr _ \<Rightarrow>
     (if trim (cr_title rq) = [] then (Inl (BadRequest ''title must not be empty''), s)
      else case ie_parse_project en (cr_project_id rq) of
        None \<Rightarrow> (Inl (BadRequest ''invalid project id''), s)
      | Some p \<Rightarrow>
          let s = others 0 s
          in case get_project p (tk_store s) of
            Inl e \<Rightarrow> (Inl (ApiStore (ie_error_text en e)), s)
          | Inr None \<Rightarrow> (Inl (BadRequest (''no such project: '' @ ie_show_project en p)), s)
          | Inr (Some _) \<Rightarrow>
              (case drafted rq (new_issue (clk 1) new_id p (trim (cr_title rq)) (us_username (pc_user (cl_principal c)))) of
                   Inl e \<Rightarrow> (Inl e, s)
                 | Inr i \<Rightarrow>
                     (case create_issue i (others 1 s) of
                          (Inl e, s) \<Rightarrow> (Inl (ApiStore (ie_error_text en e)), s)
                        | (Inr _, s) \<Rightarrow>
                            let s = tracker_audit (issue_event en (clk 2) c ''issue.create'' (Some p) new_id) s;
                                s = others 2 s
                            in (issue_summary_for en i s, s))))))"

record update_issue_request =
  ur_title :: "string option"
  ur_body :: "string option"
  ur_severity :: "string option"
  ur_labels :: "string list option"
  ur_assignee :: "string option option"

text \<open>The fields of the request applied to the loaded issue.\<close>

definition edited :: "update_issue_request \<Rightarrow> issue \<Rightarrow> (api_error, issue) result" where
  "edited rq i =
     (case (case ur_title rq of
              Some t \<Rightarrow> if trim t = [] then Inl (BadRequest ''title must not be empty'') else Inr (i\<lparr>is_title := trim t\<rparr>)
            | None \<Rightarrow> Inr i) of
        Inl e \<Rightarrow> Inl e
      | Inr i \<Rightarrow>
          let i = (case ur_body rq of Some b \<Rightarrow> i\<lparr>is_body := b\<rparr> | None \<Rightarrow> i)
          in case (case nonempty (ur_severity rq) of
                     Some raw \<Rightarrow> (case parse_severity raw of Inl e \<Rightarrow> Inl e | Inr v \<Rightarrow> Inr (i\<lparr>is_severity := v\<rparr>))
                   | None \<Rightarrow> Inr i) of
               Inl e \<Rightarrow> Inl e
             | Inr i \<Rightarrow>
                 let i = (case ur_labels rq of Some ls \<Rightarrow> i\<lparr>is_labels := ls\<rparr> | None \<Rightarrow> i)
                 in Inr (case ur_assignee rq of
                           Some a \<Rightarrow> i\<lparr>is_assignee := (case a of Some n \<Rightarrow> if trim n = [] then None else Some n | None \<Rightarrow> None)\<rparr>
                         | None \<Rightarrow> i))"

definition update_issue_api ::
    "issue_env \<Rightarrow> (nat \<Rightarrow> datetime) \<Rightarrow> (nat \<Rightarrow> tracker \<Rightarrow> tracker) \<Rightarrow> issue_caller \<Rightarrow> string \<Rightarrow> update_issue_request \<Rightarrow> tracker
     \<Rightarrow> (api_error, issue_summary) result \<times> tracker" where
  "update_issue_api en clk others c raw rq s =
     (case demand (clk 0) c PIssueUpdate s of
        (Inl e, s) \<Rightarrow> (Inl e, s)
      | (Inr _, s) \<Rightarrow>
     (case verify_csrf_header c of Inl e \<Rightarrow> (Inl e, s) | Inr _ \<Rightarrow>
     (case (if ur_assignee rq \<noteq> None then demand (clk 1) c PIssueAssign s else (Inr (), s)) of
        (Inl e, s) \<Rightarrow> (Inl e, s)
      | (Inr _, s) \<Rightarrow>
          let s = others 0 s
          in case parse_load en raw s of
               Inl e \<Rightarrow> (Inl e, s)
             | Inr i \<Rightarrow>
                 (case edited rq i of
                    Inl e \<Rightarrow> (Inl e, s)
                  | Inr i \<Rightarrow>
                      (case update_issue_fields (clk 2) i (others 1 s) of
                         (Inl e, s) \<Rightarrow> (Inl (ApiStore (ie_error_text en e)), s)
                       | (Inr _, s) \<Rightarrow>
                           let s = tracker_audit (issue_event en (clk 3) c ''issue.update'' (Some (is_project_id i)) (is_id i)) s;
                               s = others 2 s
                           in case load_issue en (is_id i) s of
                                Inl e \<Rightarrow> (Inl e, s)
                              | Inr i \<Rightarrow> (issue_summary_for en i s, s))))))"

section \<open>Transitions\<close>

record transition_issue_request =
  tr_status :: string
  tr_close_reason :: "string option"

definition parse_reason :: "string option \<Rightarrow> (api_error, close_reason option) result" where
  "parse_reason v =
     (case nonempty v of
        Some raw \<Rightarrow> (case close_reason_parse raw of Some r \<Rightarrow> Inr (Some r)
                      | None \<Rightarrow> Inl (BadRequest (''unknown close_reason: '' @ raw)))
      | None \<Rightarrow> Inr None)"

definition transition_issue_api ::
    "issue_env \<Rightarrow> (nat \<Rightarrow> datetime) \<Rightarrow> (nat \<Rightarrow> tracker \<Rightarrow> tracker) \<Rightarrow> issue_caller \<Rightarrow> string \<Rightarrow> transition_issue_request \<Rightarrow> tracker
     \<Rightarrow> (api_error, issue_summary) result \<times> tracker" where
  "transition_issue_api en clk others c raw rq s =
     (case verify_csrf_header c of Inl e \<Rightarrow> (Inl e, s) | Inr _ \<Rightarrow>
     (case issue_status_parse (tr_status rq) of
        None \<Rightarrow> (Inl (BadRequest (''unknown issue status: '' @ tr_status rq)), s)
      | Some b \<Rightarrow>
     (case demand (clk 0) c (required_capability_for_transition b) s of
        (Inl e, s) \<Rightarrow> (Inl e, s)
      | (Inr _, s) \<Rightarrow>
     (case parse_reason (tr_close_reason rq) of
        Inl e \<Rightarrow> (Inl e, s)
      | Inr reason \<Rightarrow>
          let s = others 0 s
          in case parse_load en raw s of
               Inl e \<Rightarrow> (Inl e, s)
             | Inr i \<Rightarrow>
                 (case transition_to (clk 1) b reason i of
                    Inl e \<Rightarrow> (Inl (ApiConflict (issue_transition_error_text e)), s)
                  | Inr i \<Rightarrow>
                      (case transition_issue (clk 2) (is_id i) (is_status i) (is_close_reason i) (others 1 s) of
                         (Inl e, s) \<Rightarrow> (Inl (ApiStore (ie_error_text en e)), s)
                       | (Inr _, s) \<Rightarrow>
                           let s = tracker_audit (issue_event en (clk 3) c ''issue.transition'' (Some (is_project_id i)) (is_id i)) s;
                               s = others 2 s
                           in case load_issue en (is_id i) s of
                                Inl e \<Rightarrow> (Inl e, s)
                              | Inr i \<Rightarrow> (issue_summary_for en i s, s)))))))"

section \<open>Comments and links\<close>

definition add_issue_comment_api ::
    "issue_env \<Rightarrow> (nat \<Rightarrow> datetime) \<Rightarrow> (nat \<Rightarrow> tracker \<Rightarrow> tracker) \<Rightarrow> uuid \<Rightarrow> issue_caller \<Rightarrow> string \<Rightarrow> string \<Rightarrow> tracker
     \<Rightarrow> (api_error, issue_comment) result \<times> tracker" where
  "add_issue_comment_api en clk others new_id c raw body s =
     (case demand (clk 0) c PIssueComment s of
        (Inl e, s) \<Rightarrow> (Inl e, s)
      | (Inr _, s) \<Rightarrow>
     (case verify_csrf_header c of Inl e \<Rightarrow> (Inl e, s) | Inr _ \<Rightarrow>
     (if trim body = [] then (Inl (BadRequest ''comment body must not be empty''), s)
      else
        let s = others 0 s
        in case parse_load en raw s of
             Inl e \<Rightarrow> (Inl e, s)
           | Inr i \<Rightarrow>
               let m = new_comment (clk 1) new_id (is_id i) (us_username (pc_user (cl_principal c))) (trim body)
               in case add_issue_comment m (others 1 s) of
                    (Inl e, s) \<Rightarrow> (Inl (ApiStore (ie_error_text en e)), s)
                  | (Inr _, s) \<Rightarrow>
                      (Inr m, tracker_audit (issue_event en (clk 2) c ''issue.comment'' (Some (is_project_id i)) (is_id i)) s))))"

definition link_issue_task_api ::
    "issue_env \<Rightarrow> (nat \<Rightarrow> datetime) \<Rightarrow> (nat \<Rightarrow> tracker \<Rightarrow> tracker) \<Rightarrow> issue_caller \<Rightarrow> string \<Rightarrow> string \<Rightarrow> tracker
     \<Rightarrow> (api_error, bool) result \<times> tracker" where
  "link_issue_task_api en clk others c raw task s =
     (case demand (clk 0) c PIssueLink s of
        (Inl e, s) \<Rightarrow> (Inl e, s)
      | (Inr _, s) \<Rightarrow>
     (case verify_csrf_header c of Inl e \<Rightarrow> (Inl e, s) | Inr _ \<Rightarrow>
       (let s = others 0 s
        in case parse_load en raw s of
             Inl e \<Rightarrow> (Inl e, s)
           | Inr i \<Rightarrow>
               (case ie_parse_task en task of
                  None \<Rightarrow> (Inl (BadRequest ''invalid task id''), s)
                | Some t \<Rightarrow>
                    let s = others 1 s
                    in case get_task t (tk_store s) of
                         Inl e \<Rightarrow> (Inl (ApiStore (ie_error_text en e)), s)
                       | Inr None \<Rightarrow> (Inl (BadRequest (''no such task: '' @ ie_show_task en t)), s)
                       | Inr (Some x) \<Rightarrow>
                           if \<not> task_project_matches_issue_project (t_project_id x) (is_project_id i)
                           then (Inl (BadRequest (''no such task: '' @ ie_show_task en t)), s)
                           else
                             let l = \<lparr> il_issue_id = is_id i, il_task_id = Some t, il_task_label = take 80 (t_prompt x),
                                       il_linked_by = us_username (pc_user (cl_principal c)), il_linked_at = clk 1 \<rparr>
                             in case link_issue_task l (others 2 s) of
                                  (Inl e, s) \<Rightarrow> (Inl (ApiStore (ie_error_text en e)), s)
                                | (Inr created, s) \<Rightarrow>
                                    (Inr created,
                                     if created then tracker_audit (issue_event en (clk 2) c ''issue.link'' (Some (is_project_id i)) (is_id i)) s
                                     else s)))))"

definition unlink_issue_task_api ::
    "issue_env \<Rightarrow> (nat \<Rightarrow> datetime) \<Rightarrow> (nat \<Rightarrow> tracker \<Rightarrow> tracker) \<Rightarrow> issue_caller \<Rightarrow> string \<Rightarrow> string \<Rightarrow> tracker
     \<Rightarrow> (api_error, bool) result \<times> tracker" where
  "unlink_issue_task_api en clk others c raw task s =
     (case demand (clk 0) c PIssueLink s of
        (Inl e, s) \<Rightarrow> (Inl e, s)
      | (Inr _, s) \<Rightarrow>
     (case verify_csrf_header c of Inl e \<Rightarrow> (Inl e, s) | Inr _ \<Rightarrow>
     (case parse_issue_id en raw of
        Inl e \<Rightarrow> (Inl e, s)
      | Inr i \<Rightarrow>
          (case ie_parse_task en task of
             None \<Rightarrow> (Inl (BadRequest ''invalid task id''), s)
           | Some t \<Rightarrow>
               (case unlink_issue_task i t (others 0 s) of
                  (Inl e, s) \<Rightarrow> (Inl (ApiStore (ie_error_text en e)), s)
                | (Inr False, s) \<Rightarrow> (Inr False, s)
                | (Inr True, s) \<Rightarrow>
                    let s = others 1 s;
                        p = (case load_issue en i s of Inr x \<Rightarrow> Some (is_project_id x) | Inl _ \<Rightarrow> None)
                    in (Inr True, tracker_audit (issue_event en (clk 1) c ''issue.unlink'' p i) s))))))"

end
