(* ===== verification/Mcp_Issues.thy ===== *)
theory Mcp_Issues
  imports Mcp_Base Issue_Dashboard
begin

text \<open>
  The issue tools of the MCP server (\<open>crates/fleet-mcp/src/handlers.rs\<close>). As in the dashboard, \<open>others n\<close>
  is what other callers do right before the \<open>n\<close>-th store call.
\<close>

definition mcp_issue_event :: "issue_env \<Rightarrow> datetime \<Rightarrow> tool_ctx \<Rightarrow> string \<Rightarrow> issue \<Rightarrow> audit_event" where
  "mcp_issue_event en now c action i = (new_event now (tc_created_by c) action AuditSuccess)
     \<lparr>ae_project_id := Some (is_project_id i), ae_target_type := Some ''issue'', ae_target_id := Some (ie_show_issue en (is_id i))\<rparr>"

definition issue_json :: "issue \<Rightarrow> bool \<Rightarrow> issue_summary" where
  "issue_json i active = \<lparr> su_issue = i, su_status = issue_status_as_str (is_status i),
     su_close_reason = map_option close_reason_as_str (is_close_reason i),
     su_severity = issue_severity_as_str (is_severity i), su_has_active_tasks = active \<rparr>"

fun issue_rows :: "tracker \<Rightarrow> issue list \<Rightarrow> (rpc_error, issue_summary list) result" where
  "issue_rows s [] = Inr []"
| "issue_rows s (i # is) =
     (case issue_has_active_tasks (is_id i) s of
        Inl e \<Rightarrow> Inl (store_failed e)
      | Inr active \<Rightarrow> (case issue_rows s is of Inl e \<Rightarrow> Inl e | Inr vs \<Rightarrow> Inr (issue_json i active # vs)))"

definition handle_list_issues :: "issue_env \<Rightarrow> tool_args \<Rightarrow> tracker \<Rightarrow> (rpc_error, issue_summary list tool_reply) result" where
  "handle_list_issues en a s =
     (case opt_id (ie_parse_project en) a ''project_id'' of
        Inl e \<Rightarrow> Inl e
      | Inr p \<Rightarrow>
          (case (case ta_str a ''status'' of
                   None \<Rightarrow> Inr None
                 | Some raw \<Rightarrow> (case issue_status_parse raw of Some x \<Rightarrow> Inr (Some x)
                               | None \<Rightarrow> Inl (InvalidParams (plain_text (''unknown status: '' @ raw))))) of
             Inl e \<Rightarrow> Inl e
           | Inr x \<Rightarrow>
               (case list_issues \<lparr> if_project_id = p, if_status = x, if_open_only = (ta_bool a ''open_only'' = Some True),
                                  if_max = 1000, if_skip = 0 \<rparr> s of
                  Inl e \<Rightarrow> Inl (store_failed e)
                | Inr is \<Rightarrow> (case issue_rows s is of Inl e \<Rightarrow> Inl e | Inr vs \<Rightarrow> Inr (ToolJson vs)))))"

text \<open>The optional fields of the call applied to the new issue.\<close>

definition mcp_drafted :: "tool_args \<Rightarrow> issue \<Rightarrow> (rpc_error, issue) result" where
  "mcp_drafted a i =
     (let i = (case ta_str a ''body'' of Some b \<Rightarrow> i\<lparr>is_body := b\<rparr> | None \<Rightarrow> i)
      in case (case ta_str a ''severity'' of
                 Some raw \<Rightarrow> (case issue_severity_parse raw of Some v \<Rightarrow> Inr (i\<lparr>is_severity := v\<rparr>)
                              | None \<Rightarrow> Inl (InvalidParams (plain_text (''unknown severity: '' @ raw))))
               | None \<Rightarrow> Inr i) of
           Inl e \<Rightarrow> Inl e
         | Inr i \<Rightarrow> Inr (case ta_array a ''labels'' of Some ls \<Rightarrow> i\<lparr>is_labels := List.map_filter (\<lambda>x. x) ls\<rparr> | None \<Rightarrow> i))"

definition handle_create_issue ::
    "issue_env \<Rightarrow> (nat \<Rightarrow> datetime) \<Rightarrow> (nat \<Rightarrow> tracker \<Rightarrow> tracker) \<Rightarrow> issue_id \<Rightarrow> tool_ctx \<Rightarrow> tool_args \<Rightarrow> tracker
     \<Rightarrow> (rpc_error, issue_summary tool_reply) result \<times> tracker" where
  "handle_create_issue en clk others new_id c a s =
     (case need_object a of Inl e \<Rightarrow> (Inl e, s) | Inr _ \<Rightarrow>
     (case need_str a ''title'' of
        Inl e \<Rightarrow> (Inl e, s)
      | Inr title \<Rightarrow>
     (if trim title = [] then (Inl (InvalidParams (plain_text ''title must not be empty'')), s)
      else case need_id (ie_parse_project en) a ''project_id'' of
        Inl e \<Rightarrow> (Inl e, s)
      | Inr p \<Rightarrow>
          let s = others 0 s
          in case get_project p (tk_store s) of
            Inl e \<Rightarrow> (Inl (store_failed e), s)
          | Inr None \<Rightarrow> (Inl (InvalidParams (plain_text (''no such project: '' @ ie_show_project en p))), s)
          | Inr (Some _) \<Rightarrow>
              (case mcp_drafted a (new_issue (clk 0) new_id p (trim title) (tc_created_by c)) of
                   Inl e \<Rightarrow> (Inl e, s)
                 | Inr i \<Rightarrow>
                     (case create_issue i (others 1 s) of
                          (Inl e, s) \<Rightarrow> (Inl (store_failed e), s)
                        | (Inr _, s) \<Rightarrow>
                            (Inr (ToolJson (issue_json i False)),
                             tracker_audit (mcp_issue_event en (clk 1) c ''issue.create'' i) s))))))"

definition handle_transition_issue ::
    "issue_env \<Rightarrow> (nat \<Rightarrow> datetime) \<Rightarrow> (nat \<Rightarrow> tracker \<Rightarrow> tracker) \<Rightarrow> tool_ctx \<Rightarrow> tool_args \<Rightarrow> tracker
     \<Rightarrow> (rpc_error, issue_summary tool_reply) result \<times> tracker" where
  "handle_transition_issue en clk others c a s =
     (case need_object a of Inl e \<Rightarrow> (Inl e, s) | Inr _ \<Rightarrow>
     (case need_str a ''status'' of
        Inl e \<Rightarrow> (Inl e, s)
      | Inr raw \<Rightarrow>
     (case issue_status_parse raw of
        None \<Rightarrow> (Inl (InvalidParams (plain_text ''unknown status'')), s)
      | Some b \<Rightarrow>
     (if \<not> ctx_has c (required_capability_for_transition b)
      then (Inl (InvalidRequestRpc (Msg ''transition to '{}' requires the '{}' capability''
              [ArgStr (issue_status_as_str b), ArgStr (permission_as_str (required_capability_for_transition b))])), s)
      else case (case ta_str a ''close_reason'' of
                   Some raw \<Rightarrow> (case close_reason_parse raw of Some r \<Rightarrow> Inr (Some r)
                                | None \<Rightarrow> Inl (InvalidParams (plain_text (''unknown close_reason: '' @ raw))))
                 | None \<Rightarrow> Inr None) of
        Inl e \<Rightarrow> (Inl e, s)
      | Inr reason \<Rightarrow>
          (case need_id (ie_parse_issue en) a ''issue_id'' of
             Inl e \<Rightarrow> (Inl e, s)
           | Inr i \<Rightarrow>
               let s = others 0 s
               in case get_issue i s of
                 Inl e \<Rightarrow> (Inl (store_failed e), s)
               | Inr None \<Rightarrow> (Inr (ToolError (plain_text ''issue not found'')), s)
               | Inr (Some x) \<Rightarrow>
                   (case transition_to (clk 0) b reason x of
                      Inl e \<Rightarrow> (Inr (ToolError (plain_text (issue_transition_error_text e))), s)
                    | Inr x \<Rightarrow>
                        (case transition_issue (clk 1) (is_id x) (is_status x) (is_close_reason x) (others 1 s) of
                           (Inl e, s) \<Rightarrow> (Inl (store_failed e), s)
                         | (Inr _, s) \<Rightarrow>
                             let s = tracker_audit (mcp_issue_event en (clk 2) c ''issue.transition'' x) s;
                                 s = others 2 s
                             in case issue_has_active_tasks (is_id x) s of
                                  Inl e \<Rightarrow> (Inl (store_failed e), s)
                                | Inr active \<Rightarrow> (Inr (ToolJson (issue_json x active)), s))))))))"

definition handle_comment_issue ::
    "issue_env \<Rightarrow> (nat \<Rightarrow> datetime) \<Rightarrow> (nat \<Rightarrow> tracker \<Rightarrow> tracker) \<Rightarrow> uuid \<Rightarrow> tool_ctx \<Rightarrow> tool_args \<Rightarrow> tracker
     \<Rightarrow> (rpc_error, issue_comment tool_reply) result \<times> tracker" where
  "handle_comment_issue en clk others new_id c a s =
     (case need_object a of Inl e \<Rightarrow> (Inl e, s) | Inr _ \<Rightarrow>
     (case need_str a ''body'' of
        Inl e \<Rightarrow> (Inl e, s)
      | Inr body \<Rightarrow>
     (if trim body = [] then (Inl (InvalidParams (plain_text ''body must not be empty'')), s)
      else case need_id (ie_parse_issue en) a ''issue_id'' of
        Inl e \<Rightarrow> (Inl e, s)
      | Inr i \<Rightarrow>
          let s = others 0 s
          in case get_issue i s of
            Inl e \<Rightarrow> (Inl (store_failed e), s)
          | Inr None \<Rightarrow> (Inr (ToolError (plain_text ''issue not found'')), s)
          | Inr (Some x) \<Rightarrow>
              let m = new_comment (clk 0) new_id i (tc_created_by c) (trim body)
              in case add_issue_comment m (others 1 s) of
                   (Inl e, s) \<Rightarrow> (Inl (store_failed e), s)
                 | (Inr _, s) \<Rightarrow>
                     (Inr (ToolJson m), tracker_audit (mcp_issue_event en (clk 1) c ''issue.comment'' x) s))))"

end
