(* ===== verification/Dashboard_Accounts.thy ===== *)
theory Dashboard_Accounts
  imports Dashboard_Auth Router
begin

text \<open>
  The account pages of the dashboard (\<open>crates/fleet-dashboard/src/handlers.rs\<close>): password reset, e-mail
  verification, user administration and the first administrator. A handler returns its page, the mails
  handed to the mail service (whose failures are only logged) and the tables. \<open>show_user\<close> prints a
  user id; \<open>weak password inputs\<close> is the estimator's verdict below the required score.
\<close>

datatype mail = VerificationMail string string | ResetMail string string

section \<open>Password reset\<close>

definition validate_password :: "(string \<Rightarrow> string list \<Rightarrow> bool) \<Rightarrow> string \<Rightarrow> string list \<Rightarrow> (auth_error, unit) result" where
  "validate_password weak password inputs =
     (if length password < 8 \<or> length password > 128 then Inl WeakPassword
      else if weak password inputs then Inl WeakPassword else Inr ())"

definition mailed_token ::
    "(string \<Rightarrow> string) \<Rightarrow> uuid \<Rightarrow> string \<Rightarrow> user_id \<Rightarrow> datetime \<Rightarrow> datetime \<Rightarrow> verification_token" where
  "mailed_token sha i raw u created expires = \<lparr> vt_id = i, vt_user_id = u, vt_token_hash = sha raw,
     vt_created_at = created, vt_expires_at = expires, vt_consumed_at = None \<rparr>"

record email_form =
  ef_email :: string
  ef_csrf_token :: string

definition forgot_password ::
    "(string \<Rightarrow> string) \<Rightarrow> (user_id \<Rightarrow> string) \<Rightarrow> (nat \<Rightarrow> datetime) \<Rightarrow> uuid \<Rightarrow> string \<Rightarrow> string option \<Rightarrow> string
     \<Rightarrow> email_form \<Rightarrow> access \<Rightarrow> page \<times> mail list \<times> access" where
  "forgot_password sha show_user clk i raw cookie_csrf ip form s =
     (if \<not> csrf_valid cookie_csrf (ef_csrf_token form)
      then (InfoPage ''error'' ''Security token expired. Please reload the page.'', [], s)
      else
        let ident = ''forgot:'' @ ef_email form;
            allowed = (case check_rate_limit_custom (clk 0) (clk 1) ident (Some ip) max_email_send_attempts
                          max_ip_email_send_attempts email_send_window s of Inr b \<Rightarrow> b | Inl _ \<Rightarrow> False)
        in if \<not> allowed then (InfoPage ''error'' ''Too many requests. Please try again later.'', [], s)
           else
             let s = record_rate_limited_request (clk 2) ident (Some ip) ''forgot_password'' s;
                 answer = InfoPage ''success''
                   ''If the email exists in our system, a reset link has been sent. Please check your inbox.''
             in case get_user_by_email (ef_email form) s of
                  Inr (Some u) \<Rightarrow>
                    let t = mailed_token sha i raw (us_id u) (clk 3) (clk 4 + hours 1);
                        s = (case create_password_reset_token t s of
                               (Inl _, s) \<Rightarrow> s
                             | (Inr _, s) \<Rightarrow>
                                 audit ((new_event (clk 5) (us_username u) ''auth.password_reset_requested'' AuditSuccess)
                                   \<lparr>ae_actor_user_id := Some (us_id u), ae_target_type := Some ''user'',
                                    ae_target_id := Some (show_user (us_id u)), ae_ip_address := Some ip\<rparr>) s)
                    in (answer, [ResetMail (ef_email form) raw], s)
                | _ \<Rightarrow> (answer, [], s))"

record reset_form =
  rf_token :: string
  rf_password :: string
  rf_password_confirm :: string
  rf_csrf_token :: string

text \<open>
  The token is read, the password hashed and written, and only then the token consumed; \<open>others\<close> acts after the rate limit (0),
  after the token was read (1) and after the password was written (2). \<open>reset_password\<close> is the undisturbed request.
\<close>

definition reset_password_amid ::
    "(nat \<Rightarrow> access \<Rightarrow> access) \<Rightarrow> (string \<Rightarrow> string) \<Rightarrow> (user_id \<Rightarrow> string) \<Rightarrow> (string \<Rightarrow> string list \<Rightarrow> bool) \<Rightarrow> (string \<Rightarrow> (auth_error, string) result)
     \<Rightarrow> (nat \<Rightarrow> datetime) \<Rightarrow> string option \<Rightarrow> string \<Rightarrow> reset_form \<Rightarrow> access \<Rightarrow> page \<times> access" where
  "reset_password_amid others sha show_user weak hashed clk cookie_csrf ip form s =
     (if \<not> csrf_valid cookie_csrf (rf_csrf_token form)
      then (InfoPage ''error'' ''Security token expired. Please reload the page.'', s)
      else
        let ident = ''reset:'' @ ip;
            allowed = (case check_rate_limit (clk 0) (clk 1) ident (Some ip) s of Inr b \<Rightarrow> b | Inl _ \<Rightarrow> False)
        in if \<not> allowed then (InfoPage ''error'' ''Too many requests. Please try again later.'', s)
           else if rf_password form \<noteq> rf_password_confirm form
           then (InfoPage ''error'' ''Passwords do not match.'', s)
           else if validate_password weak (rf_password form) [] \<noteq> Inr ()
           then (InfoPage ''error'' ''Password is too weak. Use at least 8 characters with a mix of letters, numbers, and symbols.'', s)
           else case get_password_reset_token (sha (rf_token form)) (others 0 s) of
             Inl _ \<Rightarrow> (InfoPage ''error'' ''Server error. Please try again later.'', others 0 s)
           | Inr None \<Rightarrow>
               (InfoPage ''error'' ''Invalid or unknown reset token.'',
                record_login_failure (clk 2) ident (Some ip) ''reset_token_invalid'' (others 0 s))
           | Inr (Some t) \<Rightarrow>
               if token_consumed t then
                 (InfoPage ''error'' ''This reset link has already been used.'',
                  record_login_failure (clk 2) ident (Some ip) ''reset_token_consumed'' (others 0 s))
               else if token_expired (clk 2) t then
                 (InfoPage ''error'' ''This reset link has expired. Please request a new one.'',
                  record_login_failure (clk 3) ident (Some ip) ''reset_token_expired'' (others 0 s))
               else case hashed (rf_password form) of
                 Inl _ \<Rightarrow> (InfoPage ''error'' ''Server error. Please try again later.'', others 0 s)
               | Inr h \<Rightarrow>
                   (case update_user_password (vt_user_id t) h (others 1 (others 0 s)) of
                      (Inl _, s) \<Rightarrow> (InfoPage ''error'' ''Server error. Please try again later.'', s)
                    | (Inr _, s) \<Rightarrow>
                        let s = snd (consume_password_reset_token (vt_id t) (clk 3) (others 2 s));
                            s = snd (delete_user_sessions (vt_user_id t) s);
                            s = record_login_success (clk 4) (clk 5) ident (Some ip) s
                        in (InfoPage ''success'' ''Your password has been reset. You can now sign in with your new password.'',
                            audit ((new_event (clk 6) (show_user (vt_user_id t)) ''auth.password_reset'' AuditSuccess)
                              \<lparr>ae_actor_user_id := Some (vt_user_id t), ae_target_type := Some ''user'',
                               ae_target_id := Some (show_user (vt_user_id t)), ae_ip_address := Some ip\<rparr>) s)))"

definition reset_password ::
    "(string \<Rightarrow> string) \<Rightarrow> (user_id \<Rightarrow> string) \<Rightarrow> (string \<Rightarrow> string list \<Rightarrow> bool) \<Rightarrow> (string \<Rightarrow> (auth_error, string) result)
     \<Rightarrow> (nat \<Rightarrow> datetime) \<Rightarrow> string option \<Rightarrow> string \<Rightarrow> reset_form \<Rightarrow> access \<Rightarrow> page \<times> access" where
  "reset_password = reset_password_amid (\<lambda>_ s. s)"

lemmas reset_password_defs = reset_password_def reset_password_amid_def

section \<open>E-mail verification\<close>

definition verify_email_page ::
    "(string \<Rightarrow> string) \<Rightarrow> (user_id \<Rightarrow> string) \<Rightarrow> (nat \<Rightarrow> datetime) \<Rightarrow> string option \<Rightarrow> access \<Rightarrow> page \<times> access" where
  "verify_email_page sha show_user clk token s =
     (let token = (case token of Some t \<Rightarrow> t | None \<Rightarrow> [])
      in if token = [] then (VerificationResult False ''Missing verification token.'', s)
         else case get_email_verification_token (sha token) s of
           Inl _ \<Rightarrow> (VerificationResult False ''Server error. Please try again later.'', s)
         | Inr None \<Rightarrow> (VerificationResult False ''Invalid or unknown verification token.'', s)
         | Inr (Some t) \<Rightarrow>
             if token_expired (clk 0) t
             then (VerificationResult False ''Verification token has expired. Please request a new one.'', s)
             else if token_consumed t
             then (VerificationResult False ''This verification link has already been used.'', s)
             else case consume_email_verification_token (vt_id t) (clk 1) s of
               (Inl _, s) \<Rightarrow> (VerificationResult False ''Server error. Please try again later.'', s)
             | (Inr _, s) \<Rightarrow>
                 (case set_user_email_verified (vt_user_id t) True s of
                    (Inl _, s) \<Rightarrow> (VerificationResult False ''Server error. Please try again later.'', s)
                  | (Inr _, s) \<Rightarrow>
                      (VerificationResult True ''Your email has been verified. You can now sign in.'',
                       audit ((new_event (clk 2) (show_user (vt_user_id t)) ''auth.email_verified'' AuditSuccess)
                         \<lparr>ae_actor_user_id := Some (vt_user_id t), ae_target_type := Some ''user'',
                          ae_target_id := Some (show_user (vt_user_id t))\<rparr>) s)))"

definition resend_verification_form ::
    "(string \<Rightarrow> string) \<Rightarrow> (user_id \<Rightarrow> string) \<Rightarrow> (nat \<Rightarrow> datetime) \<Rightarrow> uuid \<Rightarrow> string \<Rightarrow> string option \<Rightarrow> string
     \<Rightarrow> email_form \<Rightarrow> access \<Rightarrow> page \<times> mail list \<times> access" where
  "resend_verification_form sha show_user clk i raw cookie_csrf ip form s =
     (if \<not> csrf_valid cookie_csrf (ef_csrf_token form)
      then (InfoPage ''error'' ''Security token expired. Please reload the page.'', [], s)
      else
        let ident = ''resend:'' @ ef_email form;
            allowed = (case check_rate_limit_custom (clk 0) (clk 1) ident (Some ip) max_email_send_attempts
                          max_ip_email_send_attempts email_send_window s of Inr b \<Rightarrow> b | Inl _ \<Rightarrow> False)
        in if \<not> allowed then (InfoPage ''error'' ''Too many requests. Please try again later.'', [], s)
           else
             let s = record_rate_limited_request (clk 2) ident (Some ip) ''resend_verification'' s;
                 answer = InfoPage ''success''
                   ''If the email exists and is unverified, a verification link has been sent.''
             in case get_user_by_email (ef_email form) s of
                  Inr (Some u) \<Rightarrow>
                    if us_email_verified u then (answer, [], s)
                    else
                      let t = mailed_token sha i raw (us_id u) (clk 3) (clk 4 + hours 24);
                          s = (case create_email_verification_token t s of
                                 (Inl _, s) \<Rightarrow> s
                               | (Inr _, s) \<Rightarrow>
                                   audit ((new_event (clk 5) (us_username u) ''auth.verification_resent'' AuditSuccess)
                                     \<lparr>ae_actor_user_id := Some (us_id u), ae_target_type := Some ''user'',
                                      ae_target_id := Some (show_user (us_id u)), ae_ip_address := Some ip\<rparr>) s)
                      in (answer, [VerificationMail (ef_email form) raw], s)
                | _ \<Rightarrow> (answer, [], s))"

definition resend_verification_api ::
    "(string \<Rightarrow> string) \<Rightarrow> (user_id \<Rightarrow> string) \<Rightarrow> (nat \<Rightarrow> datetime) \<Rightarrow> uuid \<Rightarrow> string \<Rightarrow> string \<Rightarrow> access
     \<Rightarrow> page \<times> mail list \<times> access" where
  "resend_verification_api sha show_user clk i raw email s =
     (case get_user_by_email email s of
        Inl _ \<Rightarrow> (ApiFailed (Internal ''DB error''), [], s)
      | Inr None \<Rightarrow> (ApiFailed (ApiNotFound ''User not found''), [], s)
      | Inr (Some u) \<Rightarrow>
          if us_email_verified u then (ApiFailed (ApiConflict ''Email already verified''), [], s)
          else
            let t = mailed_token sha i raw (us_id u) (clk 0) (clk 1 + hours 24)
            in case create_email_verification_token t s of
                 (Inl _, s) \<Rightarrow> (ApiFailed (Internal ''DB error''), [], s)
               | (Inr _, s) \<Rightarrow>
                   (ApiOk 200, [VerificationMail email raw],
                    audit ((new_event (clk 2) (us_username u) ''auth.verification_resent'' AuditSuccess)
                      \<lparr>ae_actor_user_id := Some (us_id u), ae_target_type := Some ''user'',
                       ae_target_id := Some (show_user (us_id u))\<rparr>) s))"

section \<open>User administration\<close>

text \<open>\<open>email.split('@').next()\<close>.\<close>

definition local_part :: "string \<Rightarrow> string" where
  "local_part e = takeWhile (\<lambda>c. c \<noteq> CHR ''@'') e"

record create_user_form =
  cu_username :: "string option"
  cu_email :: string
  cu_password :: string
  cu_csrf_token :: string

definition create_user_api ::
    "(string \<Rightarrow> string) \<Rightarrow> (user_id \<Rightarrow> string) \<Rightarrow> (string \<Rightarrow> string list \<Rightarrow> bool) \<Rightarrow> (string \<Rightarrow> (auth_error, string) result)
     \<Rightarrow> (nat \<Rightarrow> datetime) \<Rightarrow> user_id \<Rightarrow> uuid \<Rightarrow> string \<Rightarrow> principal \<Rightarrow> string option \<Rightarrow> create_user_form \<Rightarrow> access
     \<Rightarrow> page \<times> mail list \<times> access" where
  "create_user_api sha show_user weak hashed clk new_id i raw p cookie_csrf form s =
     (case require_permission (clk 0) p PUserCreate s of
        (False, s) \<Rightarrow> (ApiFailed (Forbidden ''Permission denied''), [], s)
      | (True, s) \<Rightarrow>
          if \<not> csrf_valid cookie_csrf (cu_csrf_token form)
          then (ApiFailed (Forbidden ''CSRF token invalid''), [], s)
          else if validate_email (cu_email form) \<noteq> Inr ()
          then (ApiFailed (BadRequest ''invalid email format''), [], s)
          else if validate_password weak (cu_password form) [cu_email form] \<noteq> Inr ()
          then (ApiFailed (BadRequest ''Password too weak''), [], s)
          else case hashed (cu_password form) of
            Inl _ \<Rightarrow> (ApiFailed (Internal ''Hash failed''), [], s)
          | Inr h \<Rightarrow>
              let username = (case cu_username form of
                     Some n \<Rightarrow> if n = [] then local_part (cu_email form) else n
                   | None \<Rightarrow> local_part (cu_email form));
                  u = \<lparr> us_id = new_id, us_username = username, us_email = Some (cu_email form), us_email_verified = False,
                        us_password_hash = h, us_enabled = True, us_created_at = clk 1, us_last_login_at = None \<rparr>
              in case create_user u s of
                   (Inl e, s) \<Rightarrow> (ApiFailed (ApiConflict ''Username already exists''), [], s)
                 | (Inr _, s) \<Rightarrow>
                     let s = (case get_role_by_name ''viewer'' s of
                                Inr (Some r) \<Rightarrow> snd (assign_user_role new_id (ro_id r) s)
                              | _ \<Rightarrow> s);
                         t = mailed_token sha i raw new_id (clk 2) (clk 3 + hours 24);
                         s = snd (create_email_verification_token t s)
                     in (ApiOk 201, [VerificationMail (cu_email form) raw],
                         audit ((new_event (clk 4) (us_username (pc_user p)) ''user.create'' AuditSuccess)
                           \<lparr>ae_actor_user_id := Some (us_id (pc_user p)), ae_target_type := Some ''user'',
                            ae_target_id := Some (show_user new_id), ae_ip_address := pc_client_ip p\<rparr>) s))"

definition toggle_user_api ::
    "(user_id \<Rightarrow> string) \<Rightarrow> (string \<Rightarrow> user_id option) \<Rightarrow> (nat \<Rightarrow> datetime) \<Rightarrow> principal \<Rightarrow> string option \<Rightarrow> string \<Rightarrow> string
     \<Rightarrow> access \<Rightarrow> page \<times> access" where
  "toggle_user_api show_user parse clk p cookie_csrf csrf raw_id s =
     (case require_permission (clk 0) p PUserCreate s of
        (False, s) \<Rightarrow> (ApiFailed (Forbidden ''Permission denied''), s)
      | (True, s) \<Rightarrow>
          if \<not> csrf_valid cookie_csrf csrf then (ApiFailed (Forbidden ''CSRF token invalid''), s)
          else case parse raw_id of
            None \<Rightarrow> (ApiFailed (BadRequest ''Invalid user ID''), s)
          | Some i \<Rightarrow>
              (case get_user_by_id i s of
                 Inl _ \<Rightarrow> (ApiFailed (Internal ''DB error''), s)
               | Inr None \<Rightarrow> (ApiFailed (ApiNotFound ''User not found''), s)
               | Inr (Some u) \<Rightarrow>
                   let new_enabled = (\<not> us_enabled u)
                   in case set_user_enabled i new_enabled s of
                        (Inl _, s) \<Rightarrow> (ApiFailed (Internal ''DB error''), s)
                      | (Inr _, s) \<Rightarrow>
                          let s = (if new_enabled then s else snd (delete_user_sessions i s))
                          in (ApiOk 200,
                              audit ((new_event (clk 1) (us_username (pc_user p)) ''user.toggle'' AuditSuccess)
                                \<lparr>ae_actor_user_id := Some (us_id (pc_user p)), ae_target_type := Some ''user'',
                                 ae_target_id := Some (show_user i), ae_ip_address := pc_client_ip p\<rparr>) s)))"

definition delete_user_api ::
    "(user_id \<Rightarrow> string) \<Rightarrow> (string \<Rightarrow> user_id option) \<Rightarrow> (nat \<Rightarrow> datetime) \<Rightarrow> principal \<Rightarrow> string option \<Rightarrow> string \<Rightarrow> string
     \<Rightarrow> access \<Rightarrow> page \<times> access" where
  "delete_user_api show_user parse clk p cookie_csrf csrf raw_id s =
     (case require_permission (clk 0) p PUserDelete s of
        (False, s) \<Rightarrow> (ApiFailed (Forbidden ''Permission denied''), s)
      | (True, s) \<Rightarrow>
          if \<not> csrf_valid cookie_csrf csrf then (ApiFailed (Forbidden ''CSRF token invalid''), s)
          else case parse raw_id of
            None \<Rightarrow> (ApiFailed (BadRequest ''Invalid user ID''), s)
          | Some i \<Rightarrow>
              if i = us_id (pc_user p) then (ApiFailed (BadRequest ''Cannot delete yourself''), s)
              else case get_user_by_id i s of
                 Inl _ \<Rightarrow> (ApiFailed (Internal ''DB error''), s)
               | Inr None \<Rightarrow> (ApiFailed (ApiNotFound ''User not found''), s)
               | Inr (Some u) \<Rightarrow>
                   (case delete_user i s of
                      (Inl _, s) \<Rightarrow> (ApiFailed (Internal ''DB error''), s)
                    | (Inr _, s) \<Rightarrow>
                        (ApiOk 200,
                         audit ((new_event (clk 1) (us_username (pc_user p)) ''user.delete'' AuditSuccess)
                           \<lparr>ae_actor_user_id := Some (us_id (pc_user p)), ae_target_type := Some ''user'',
                            ae_target_id := Some (show_user i), ae_ip_address := pc_client_ip p\<rparr>) s)))"

section \<open>The first administrator\<close>

record bootstrap_form =
  bf_otp_full :: string
  bf_email :: string
  bf_password :: string
  bf_csrf_token :: string

fun bootstrap_error_page :: "bootstrap_admin_error \<Rightarrow> page" where
  "bootstrap_error_page (BaInvalidToken _) = BootstrapFailed 401 ''Invalid or expired bootstrap token.''"
| "bootstrap_error_page (BaCreateUser _) = BootstrapFailed 409 ''Unable to create account. Please try again.''"
| "bootstrap_error_page BaAdminRoleMissing = BootstrapFailed 500 ''Setup incomplete. Contact your administrator.''"
| "bootstrap_error_page (BaStore _) = BootstrapFailed 500 ''A system error occurred. Please try again.''"

definition on_access :: "(access \<Rightarrow> access) \<Rightarrow> desk \<Rightarrow> desk" where
  "on_access f d = d\<lparr>dk_access := f (dk_access d)\<rparr>"

definition bootstrap ::
    "(string \<Rightarrow> string) \<Rightarrow> (string \<Rightarrow> string list \<Rightarrow> bool) \<Rightarrow> (string \<Rightarrow> (auth_error, string) result) \<Rightarrow> (nat \<Rightarrow> datetime)
     \<Rightarrow> user_id \<Rightarrow> session_id \<Rightarrow> string \<Rightarrow> string option \<Rightarrow> string \<Rightarrow> bootstrap_form \<Rightarrow> desk
     \<Rightarrow> page \<times> set_cookie list \<times> desk" where
  "bootstrap sha weak hashed clk new_id sid raw cookie_csrf ip form d =
     (if \<not> csrf_valid cookie_csrf (bf_csrf_token form)
      then (BootstrapFailed 403 ''Security token expired. Please reload the page.'', [], d)
      else case count_users (dk_access d) of
        Inl _ \<Rightarrow> (InternalErrorPage, [], d)
      | Inr count \<Rightarrow>
          if count > 0 then (BootstrapFailed 409 ''System already activated.'', [], d)
          else
            let ident = ''bootstrap:'' @ ip
            in case check_rate_limit (clk 0) (clk 1) ident (Some ip) (dk_access d) of
              Inl _ \<Rightarrow> (InternalErrorPage, [], d)
            | Inr False \<Rightarrow> (BootstrapFailed 429 ''Too many bootstrap attempts. Wait 60s and try again.'', [], d)
            | Inr True \<Rightarrow>
                let otp = trim (bf_otp_full form)
                in if \<not> starts_with ''fleet_boot_'' otp \<or> length otp < 20
                   then (BootstrapFailed 400 ''Invalid token format. Copy the full token from the CLI output.'', [],
                         on_access (record_login_failure (clk 2) ident (Some ip) ''bootstrap_bad_format'') d)
                   else case list_bootstrap_tokens (dk_store d) of
                     Inl _ \<Rightarrow> (InternalErrorPage, [], d)
                   | Inr tokens \<Rightarrow>
                       if \<not> list_ex (\<lambda>t. is_usable (clk 2) t \<and> bt_token_digest t = sha otp) tokens
                       then (BootstrapFailed 401 ''Invalid or expired bootstrap token. Check the CLI output.'', [],
                             on_access (record_login_failure (clk 3) ident (Some ip) ''bootstrap_invalid_token'') d)
                       else if validate_email (bf_email form) \<noteq> Inr ()
                       then (BootstrapFailed 400 ''invalid email format'', [], d)
                       else if validate_password weak (bf_password form) [bf_email form] \<noteq> Inr ()
                       then (BootstrapFailed 400 ''Password is too weak. Use at least 8 characters with a mix of letters, numbers, and symbols.'', [], d)
                       else case hashed (bf_password form) of
                         Inl _ \<Rightarrow> (InternalErrorPage, [], d)
                       | Inr h \<Rightarrow>
                           let u = \<lparr> us_id = new_id, us_username = local_part (bf_email form), us_email = Some (bf_email form),
                                 us_email_verified = True, us_password_hash = h, us_enabled = True, us_created_at = clk 3,
                                 us_last_login_at = None \<rparr>
                           in case consume_bootstrap_and_create_admin sha (clk 4) sid raw otp u h d of
                                (Inl e, d) \<Rightarrow> (bootstrap_error_page e, [], d)
                              | (Inr (v, token, _), d) \<Rightarrow>
                                  (Home, [SetSession token],
                                   on_access (\<lambda>s. audit ((new_event (clk 7) (bf_email form) ''auth.bootstrap'' AuditSuccess)
                                       \<lparr>ae_ip_address := Some ip\<rparr>)
                                     (record_login_success (clk 5) (clk 6) (bf_email form) (Some ip) s)) d))"

end
