(* ===== verification/Access_Claims.thy ===== *)
theory Access_Claims
  imports Access_Rbac
begin

text \<open>
  What the access tables guarantee: which permissions a user holds, what seeding establishes, and that
  the first administrator is created with one use of a token.
\<close>

section \<open>Well-formed access tables\<close>

definition access_ok :: "access \<Rightarrow> bool" where
  "access_ok s \<longleftrightarrow> keyed us_id (xs_users s) \<and> keyed ro_id (xs_roles s) \<and> keyed pm_id (xs_permissions s) \<and>
     keyed se_token_hash (xs_sessions s) \<and> keyed aa_principal_id (xs_admin_api_tokens s) \<and>
     keyed vt_id (xs_password_reset_tokens s) \<and> keyed vt_id (xs_email_verification_tokens s) \<and>
     distinct (map us_username (hm_values (xs_users s))) \<and> distinct (map ro_name (hm_values (xs_roles s))) \<and>
     distinct (map pm_name (hm_values (xs_permissions s))) \<and>
     (\<forall>u. \<forall>p \<in> set (list_of (xs_direct_user_permissions s) u). hm_get (xs_permissions s) (pm_id p) = Some p)"

lemma access_ok_empty [simp]: "access_ok empty_access"
  by (simp add: access_ok_def empty_access_def list_of_def hm_values_def)

section \<open>Effective permissions\<close>

text \<open>What a user may do: the permissions of its roles and those granted directly.\<close>

definition granted :: "access \<Rightarrow> user_id \<Rightarrow> permission set" where
  "granted s u = set (list_of (xs_direct_user_permissions s) u) \<union>
     (\<Union>r \<in> set (list_of (xs_user_roles s) u). set (permissions_of_role s r))"

lemma set_map_filter: "set (List.map_filter f xs) = {y. \<exists>x \<in> set xs. f x = Some y}"
  by (induction xs) (auto simp: List.map_filter_simps split: option.splits)

lemma set_add_unseen:
  assumes "\<forall>p \<in> set ps \<union> set out. f (pm_id p) = Some p"
  shows "set (add_unseen ps out) = set ps \<union> set out"
  using assms
proof (induction ps arbitrary: out)
  case (Cons p ps)
  show ?case
  proof (cases "pm_id p \<in> pm_id ` set out")
    case True
    then obtain q where "q \<in> set out" "pm_id q = pm_id p" by auto
    then have "p \<in> set out" using Cons.prems by (metis Un_iff list.set_intros(1) option.inject)
    then show ?thesis using True Cons by auto
  next
    case False
    then show ?thesis using Cons by auto
  qed
qed simp

lemma set_add_roles:
  assumes "\<forall>p \<in> set out. hm_get (xs_permissions s) (pm_id p) = Some p" "keyed pm_id (xs_permissions s)"
  shows "set (fold (\<lambda>r out. add_unseen (permissions_of_role s r) out) rs out) =
    set out \<union> (\<Union>r \<in> set rs. set (permissions_of_role s r))"
  using assms(1)
proof (induction rs arbitrary: out)
  case (Cons r rs)
  have stored: "hm_get (xs_permissions s) (pm_id p) = Some p" if "p \<in> set (permissions_of_role s r)" for p
    using that keyed_get[OF assms(2)] by (auto simp: permissions_of_role_def set_map_filter)
  have "set (add_unseen (permissions_of_role s r) out) = set (permissions_of_role s r) \<union> set out"
    by (rule set_add_unseen[where f = "hm_get (xs_permissions s)"]) (use stored Cons.prems in auto)
  then show ?case using Cons.IH[of "add_unseen (permissions_of_role s r) out"] Cons.prems stored by auto
qed simp

lemma list_user_permissions_granted:
  assumes "access_ok s" "list_user_permissions u s = Inr ps"
  shows "set ps = granted s u"
proof -
  let ?d = "list_of (xs_direct_user_permissions s) u"
  have d: "\<forall>p \<in> set ?d. hm_get (xs_permissions s) (pm_id p) = Some p" and k: "keyed pm_id (xs_permissions s)"
    using assms(1) by (auto simp: access_ok_def)
  have "set (add_unseen ?d []) = set ?d"
    by (subst set_add_unseen[where f = "hm_get (xs_permissions s)"]) (use d in auto)
  then show ?thesis using assms(2) set_add_roles[OF _ k, of "add_unseen ?d []"] d
    by (auto simp: list_user_permissions_def granted_def)
qed

section \<open>Seeding\<close>

abbreviation perm_named :: "access \<Rightarrow> string \<Rightarrow> permission option" where
  "perm_named s n \<equiv> List.find (\<lambda>p. pm_name p = n) (hm_values (xs_permissions s))"

abbreviation role_named :: "access \<Rightarrow> string \<Rightarrow> role option" where
  "role_named s n \<equiv> List.find (\<lambda>r. ro_name r = n) (hm_values (xs_roles s))"

lemma find_append: "List.find P (xs @ ys) = (case List.find P xs of None \<Rightarrow> List.find P ys | Some x \<Rightarrow> Some x)"
  by (induction xs) auto

lemma find_None_iff: "List.find P xs = None \<longleftrightarrow> (\<forall>x \<in> set xs. \<not> P x)"
  by (induction xs) auto

lemma values_insert_fresh: "hm_get m k = None \<Longrightarrow> hm_values (hm_insert k v m) = hm_values m @ [v]"
  by (simp add: hm_values_def hm_insert_fresh)

lemma seed_permission_list_spec:
  assumes "seed_permission_list ids ks s = (r, s')" "inj ids" "distinct ks"
    "\<forall>k \<in> set ks. hm_get (xs_permissions s) (ids k) = None"
  shows "r = Inr () \<and> (\<exists>m. s' = s\<lparr>xs_permissions := m\<rparr>) \<and>
    (\<forall>k \<in> set ks. perm_named s' (permission_as_str k) \<noteq> None) \<and>
    (\<forall>n p. perm_named s n = Some p \<longrightarrow> perm_named s' n = Some p) \<and>
    (access_ok s \<longrightarrow> access_ok s')"
  using assms(1,3,4)
proof (induction ks arbitrary: s)
  case Nil
  then show ?case by (auto intro!: exI[of _ "xs_permissions s"])
next
  case (Cons k ks)
  show ?case
  proof (cases "perm_named s (permission_as_str k)")
    case (Some p)
    have "seed_permission_list ids ks s = (r, s')" using Cons.prems(1) Some by (simp add: get_permission_by_name_def)
    from Cons.IH[OF this] Cons.prems(2,3) Some show ?thesis by auto
  next
    case None
    define q where "q = \<lparr> pm_id = ids k, pm_name = permission_as_str k, pm_description = Some (permission_description k) \<rparr>"
    define t where "t = s\<lparr>xs_permissions := hm_insert (ids k) q (xs_permissions s)\<rparr>"
    have fresh: "hm_get (xs_permissions s) (ids k) = None" using Cons.prems(3) by simp
    have absent: "\<not> list_ex (\<lambda>x. pm_name x = permission_as_str k) (hm_values (xs_permissions s))"
      using None by (simp add: find_None_iff list_ex_iff)
    have "create_permission q s = (Inr (), t)"
      using absent by (simp add: create_permission_def q_def t_def)
    then have run: "seed_permission_list ids ks t = (r, s')" using Cons.prems(1) None
      by (simp add: get_permission_by_name_def q_def)
    have pre: "\<forall>j \<in> set ks. hm_get (xs_permissions t) (ids j) = None"
      using Cons.prems(2,3) assms(2) by (auto simp: t_def inj_def)
    have vals: "hm_values (xs_permissions t) = hm_values (xs_permissions s) @ [q]"
      by (simp add: t_def values_insert_fresh[OF fresh])
    have q: "perm_named t (permission_as_str k) = Some q"
      using None by (simp add: vals find_append q_def)
    have keep: "perm_named t n = Some p" if "perm_named s n = Some p" for n p
      using that by (simp add: vals find_append)
    have ok: "access_ok t" if "access_ok s"
    proof -
      have nq: "pm_name q \<notin> pm_name ` set (hm_values (xs_permissions s))"
        using None by (auto simp: q_def find_None_iff)
      have "distinct (map pm_name (hm_values (xs_permissions t)))"
        using that nq by (simp add: vals access_ok_def)
      moreover have "keyed pm_id (xs_permissions t)"
        using that by (simp add: t_def access_ok_def) (rule keyed_insert, auto simp: q_def)
      moreover have "hm_get (xs_permissions t) (pm_id p) = Some p"
        if "p \<in> set (list_of (xs_direct_user_permissions s) u)" for u p
      proof -
        have "hm_get (xs_permissions s) (pm_id p) = Some p" using that \<open>access_ok s\<close> by (simp add: access_ok_def)
        moreover from this have "pm_id p \<noteq> ids k" using fresh by auto
        ultimately show ?thesis by (simp add: t_def)
      qed
      ultimately show ?thesis using that by (simp add: access_ok_def t_def)
    qed
    from Cons.IH[OF run _ pre] Cons.prems(2) have IH: "r = Inr ()" "\<exists>m. s' = t\<lparr>xs_permissions := m\<rparr>"
      "\<forall>k \<in> set ks. perm_named s' (permission_as_str k) \<noteq> None"
      "\<forall>n p. perm_named t n = Some p \<longrightarrow> perm_named s' n = Some p" "access_ok t \<longrightarrow> access_ok s'" by auto
    have "\<exists>m. s' = s\<lparr>xs_permissions := m\<rparr>" using IH(2) by (auto simp: t_def)
    moreover have "perm_named s' (permission_as_str k) = Some q" using IH(4) q by blast
    ultimately show ?thesis using IH keep ok by auto
  qed
qed

lemma push_unique_alt:
  "push_unique k x m = hm_insert k (if x \<in> set (list_of m k) then list_of m k else list_of m k @ [x]) m"
  by (simp only: push_unique_def list_of_def Let_def)

lemma list_of_insert: "list_of (hm_insert k v m) k' = (if k' = k then v else list_of m k')"
  by (simp add: list_of_def)

lemma list_of_push [simp]:
  "set (list_of (push_unique k x m) k') = (if k' = k then insert x (set (list_of m k)) else set (list_of m k'))"
  unfolding push_unique_alt list_of_insert by auto

lemma grant_list_spec:
  assumes "grant_list r ks s = (q, s')" "\<forall>k \<in> set ks. perm_named s (permission_as_str k) \<noteq> None"
  shows "q = Inr () \<and> (\<exists>m. s' = s\<lparr>xs_role_permissions := m\<rparr> \<and>
    (\<forall>r'. set (list_of m r') = set (list_of (xs_role_permissions s) r') \<union>
       (if r' = r then {pm_id p |p. \<exists>k \<in> set ks. perm_named s (permission_as_str k) = Some p} else {})))"
  using assms
proof (induction ks arbitrary: s)
  case Nil
  then show ?case by (auto intro!: exI[of _ "xs_role_permissions s"])
next
  case (Cons k ks)
  obtain p where p: "perm_named s (permission_as_str k) = Some p" using Cons.prems(2) by auto
  let ?t = "s\<lparr>xs_role_permissions := push_unique r (pm_id p) (xs_role_permissions s)\<rparr>"
  have run: "grant_list r ks ?t = (q, s')"
    using Cons.prems(1) p by (simp add: get_permission_by_name_def grant_role_permission_def)
  from Cons.IH[OF run] Cons.prems(2) obtain m where "q = Inr ()" "s' = ?t\<lparr>xs_role_permissions := m\<rparr>"
    "\<forall>r'. set (list_of m r') = set (list_of (xs_role_permissions ?t) r') \<union>
       (if r' = r then {pm_id p |p. \<exists>k \<in> set ks. perm_named s (permission_as_str k) = Some p} else {})" by auto
  then show ?case using p by (intro conjI exI[of _ m]) auto
qed

lemma ensure_role_spec:
  assumes "ensure_role rids now b s = (q, s')" "hm_get (xs_roles s) (rids b) = None"
  shows "\<exists>r m. q = Inr r \<and> s' = s\<lparr>xs_roles := m\<rparr> \<and> role_named s' (role_name b) = Some r \<and>
    (\<forall>n x. role_named s n = Some x \<longrightarrow> role_named s' n = Some x) \<and> (access_ok s \<longrightarrow> access_ok s') \<and>
    (\<forall>i. i \<noteq> rids b \<longrightarrow> hm_get m i = hm_get (xs_roles s) i)"
proof (cases "role_named s (role_name b)")
  case (Some r)
  then have "q = Inr r" "s' = s" using assms(1) by (simp_all add: ensure_role_def get_role_by_name_def)
  then show ?thesis using Some by (intro exI[of _ r] exI[of _ "xs_roles s"]) simp
next
  case None
  define x where "x = \<lparr> ro_id = rids b, ro_name = role_name b, ro_description = Some (role_description b),
    ro_builtin = True, ro_created_at = now \<rparr>"
  define t where "t = s\<lparr>xs_roles := hm_insert (rids b) x (xs_roles s)\<rparr>"
  have absent: "\<not> list_ex (\<lambda>y. ro_name y = role_name b) (hm_values (xs_roles s))"
    using None by (simp add: find_None_iff list_ex_iff)
  have vals: "hm_values (xs_roles t) = hm_values (xs_roles s) @ [x]"
    by (simp add: t_def values_insert_fresh[OF assms(2)])
  have named: "role_named t (role_name b) = Some x" using None by (simp add: vals find_append x_def)
  have "create_role x s = (Inr (), t)" using absent by (simp add: create_role_def x_def t_def)
  then have run: "q = Inr x" "s' = t" using assms(1) None named
    by (simp_all add: ensure_role_def get_role_by_name_def x_def)
  have "access_ok t" if ok: "access_ok s"
  proof -
    have "ro_name x \<notin> ro_name ` set (hm_values (xs_roles s))" using None by (auto simp: x_def find_None_iff)
    then have "distinct (map ro_name (hm_values (xs_roles t)))" using ok by (simp add: vals access_ok_def)
    moreover have "keyed ro_id (xs_roles t)"
      using ok by (simp add: t_def access_ok_def) (rule keyed_insert, auto simp: x_def)
    ultimately show ?thesis using ok by (simp add: access_ok_def t_def)
  qed
  then show ?thesis using run named vals
    by (intro exI[of _ x] exI[of _ "xs_roles t"]) (auto simp: t_def find_append)
qed

text \<open>What a seeded role must show.\<close>

definition role_seeded :: "access \<Rightarrow> builtin_role \<Rightarrow> bool" where
  "role_seeded s b \<longleftrightarrow> (\<exists>r. role_named s (role_name b) = Some r \<and>
     (\<forall>k \<in> set (role_grants b). \<exists>p \<in> set (permissions_of_role s (ro_id r)). pm_name p = permission_as_str k))"

lemma role_seeded_mono:
  assumes "role_seeded s b" "\<forall>n x. role_named s n = Some x \<longrightarrow> role_named s' n = Some x"
    "\<forall>r. set (list_of (xs_role_permissions s) r) \<subseteq> set (list_of (xs_role_permissions s') r)"
    "xs_permissions s' = xs_permissions s"
  shows "role_seeded s' b"
proof -
  obtain r where r: "role_named s (role_name b) = Some r"
      "\<forall>k \<in> set (role_grants b). \<exists>p \<in> set (permissions_of_role s (ro_id r)). pm_name p = permission_as_str k"
    using assms(1) by (auto simp: role_seeded_def)
  have "set (permissions_of_role s (ro_id r)) \<subseteq> set (permissions_of_role s' (ro_id r))"
    using assms(3,4) by (auto simp: permissions_of_role_def set_map_filter)
  then show ?thesis using r assms(2) unfolding role_seeded_def by blast
qed

lemma seed_role_list_spec:
  assumes "seed_role_list rids now bs s = (q, s')" "inj rids" "distinct bs"
    "\<forall>b \<in> set bs. hm_get (xs_roles s) (rids b) = None" "keyed pm_id (xs_permissions s)"
    "\<forall>k. perm_named s (permission_as_str k) \<noteq> None"
  shows "q = Inr () \<and> (\<exists>m n. s' = s\<lparr>xs_roles := m, xs_role_permissions := n\<rparr>) \<and>
    (\<forall>b \<in> set bs. role_seeded s' b) \<and> (\<forall>n x. role_named s n = Some x \<longrightarrow> role_named s' n = Some x) \<and>
    (\<forall>r. set (list_of (xs_role_permissions s) r) \<subseteq> set (list_of (xs_role_permissions s') r)) \<and>
    (access_ok s \<longrightarrow> access_ok s')"
  using assms(1,3-)
proof (induction bs arbitrary: s)
  case Nil
  then show ?case by (auto intro!: exI[of _ "xs_roles s"] exI[of _ "xs_role_permissions s"])
next
  case (Cons b bs)
  obtain q1 t where e: "ensure_role rids now b s = (q1, t)" by fastforce
  from ensure_role_spec[OF e] Cons.prems(3) obtain r m where
    r: "q1 = Inr r" "t = s\<lparr>xs_roles := m\<rparr>" "role_named t (role_name b) = Some r"
      "\<forall>n x. role_named s n = Some x \<longrightarrow> role_named t n = Some x" "access_ok s \<longrightarrow> access_ok t"
      "\<forall>i. i \<noteq> rids b \<longrightarrow> hm_get m i = hm_get (xs_roles s) i" by auto
  obtain q2 v where g: "grant_list (ro_id r) (role_grants b) t = (q2, v)" by fastforce
  have perms: "perm_named t (permission_as_str k) = perm_named s (permission_as_str k)" for k by (simp add: r(2))
  from grant_list_spec[OF g] Cons.prems(5) obtain n where
    v: "q2 = Inr ()" "v = t\<lparr>xs_role_permissions := n\<rparr>"
      "\<forall>r'. set (list_of n r') = set (list_of (xs_role_permissions t) r') \<union>
       (if r' = ro_id r then {pm_id p |p. \<exists>k \<in> set (role_grants b). perm_named t (permission_as_str k) = Some p} else {})"
    by (auto simp: perms)
  have run: "seed_role_list rids now bs v = (q, s')" using Cons.prems(1) e r(1) g v(1) by simp
  have fresh: "\<forall>c \<in> set bs. hm_get (xs_roles v) (rids c) = None"
  proof
    fix c assume c: "c \<in> set bs"
    then have "rids c \<noteq> rids b" using Cons.prems(2) assms(2) by (auto dest: injD)
    then show "hm_get (xs_roles v) (rids c) = None" using c r(2,6) v(2) Cons.prems(3) by simp
  qed
  have seeded: "role_seeded v b"
    unfolding role_seeded_def
  proof (intro exI[of _ r] conjI ballI)
    show "role_named v (role_name b) = Some r" using r(3) v(2) by simp
    fix k assume k: "k \<in> set (role_grants b)"
    obtain p where p: "perm_named t (permission_as_str k) = Some p" using Cons.prems(5) perms by auto
    then have mem: "p \<in> set (hm_values (xs_permissions s))" "pm_name p = permission_as_str k"
      by (auto simp: r(2) find_Some_iff)
    then have "hm_get (xs_permissions v) (pm_id p) = Some p"
      using keyed_values_get[OF Cons.prems(4)] v(2) r(2) by simp
    moreover have "pm_id p \<in> set (list_of n (ro_id r))" using v(3) k p by auto
    ultimately show "\<exists>p \<in> set (permissions_of_role v (ro_id r)). pm_name p = permission_as_str k"
      using mem(2) v(2) by (auto simp: permissions_of_role_def set_map_filter)
  qed
  have "keyed pm_id (xs_permissions v)" "\<forall>k. perm_named v (permission_as_str k) \<noteq> None"
    using Cons.prems(4,5) v(2) r(2) by simp_all
  from Cons.IH[OF run _ fresh this] Cons.prems(2) have IH: "q = Inr ()"
    "\<exists>m n. s' = v\<lparr>xs_roles := m, xs_role_permissions := n\<rparr>" "\<forall>b \<in> set bs. role_seeded s' b"
    "\<forall>n x. role_named v n = Some x \<longrightarrow> role_named s' n = Some x"
    "\<forall>r. set (list_of (xs_role_permissions v) r) \<subseteq> set (list_of (xs_role_permissions s') r)"
    "access_ok v \<longrightarrow> access_ok s'" by auto
  have grown: "\<forall>r. set (list_of (xs_role_permissions s) r) \<subseteq> set (list_of (xs_role_permissions v) r)"
    using v(2,3) r(2) by auto
  have "access_ok v" if "access_ok s" using r(5) that v(2) by (simp add: access_ok_def)
  moreover have "role_seeded s' b"
    by (rule role_seeded_mono[OF seeded IH(4) IH(5)]) (use IH(2) in auto)
  moreover have "\<forall>n x. role_named s n = Some x \<longrightarrow> role_named s' n = Some x" using r(4) IH(4) v(2) by simp
  moreover have "\<forall>r. set (list_of (xs_role_permissions s) r) \<subseteq> set (list_of (xs_role_permissions s') r)"
    using grown IH(5) by blast
  moreover have "\<exists>m n. s' = s\<lparr>xs_roles := m, xs_role_permissions := n\<rparr>" using IH(2) v(2) r(2) by auto
  ultimately show ?case using IH(1,3,6) by auto
qed

text \<open>
  Seeding never fails and establishes the roles: afterwards every builtin role exists and grants
  every permission it lists (the administrator all of them); it only adds, and touches nothing but
  roles, permissions and their grants. (Fresh ids are new and distinct.)
\<close>

theorem seeding_establishes_roles:
  assumes "access_ok s" "inj ids" "inj rids" "\<forall>k. hm_get (xs_permissions s) (ids k) = None"
    "\<forall>b. hm_get (xs_roles s) (rids b) = None"
    "seed_permissions ids s = (q, s1)" "seed_builtin_roles rids now s1 = (q', s2)"
  shows "q = Inr () \<and> q' = Inr () \<and> access_ok s2 \<and> (\<forall>b. role_seeded s2 b) \<and>
    (\<forall>r. set (list_of (xs_role_permissions s) r) \<subseteq> set (list_of (xs_role_permissions s2) r)) \<and>
    (\<exists>m n o'. s2 = s\<lparr>xs_permissions := m, xs_roles := n, xs_role_permissions := o'\<rparr>)"
proof -
  have "distinct all_permissions" using distinct_permission_names by (simp add: distinct_map)
  from seed_permission_list_spec[OF assms(6)[unfolded seed_permissions_def] assms(2) this] assms(4)
  obtain m where s1: "q = Inr ()" "s1 = s\<lparr>xs_permissions := m\<rparr>" "access_ok s1"
      "\<forall>k. perm_named s1 (permission_as_str k) \<noteq> None"
    using assms(1) all_permissions_complete by auto
  have "keyed pm_id (xs_permissions s1)" using s1(3) by (simp add: access_ok_def)
  moreover have "distinct all_roles" "\<And>b. b \<in> set all_roles"
    by (simp_all add: all_roles_def) (metis builtin_role.exhaust)
  moreover have "\<forall>b \<in> set all_roles. hm_get (xs_roles s1) (rids b) = None" using assms(5) s1(2) by simp
  ultimately have "q' = Inr () \<and> (\<exists>m n. s2 = s1\<lparr>xs_roles := m, xs_role_permissions := n\<rparr>) \<and>
    (\<forall>b. role_seeded s2 b) \<and>
    (\<forall>r. set (list_of (xs_role_permissions s1) r) \<subseteq> set (list_of (xs_role_permissions s2) r)) \<and> access_ok s2"
    using seed_role_list_spec[OF assms(7)[unfolded seed_builtin_roles_def] assms(3)] s1(3,4) by simp
  then show ?thesis using s1 by auto
qed

text \<open>Ids numbered in the order of the list.\<close>

definition numbered :: "permission_kind \<Rightarrow> permission_id" where
  "numbered k = PermissionId (of_nat (length (takeWhile (\<lambda>p. p \<noteq> k) all_permissions)))"

fun numbered_role :: "builtin_role \<Rightarrow> role_id" where
  "numbered_role RoleAdmin = RoleId 0"
| "numbered_role RoleOperator = RoleId 1"
| "numbered_role RoleViewer = RoleId 2"

lemma takeWhile_shorter: "\<exists>x \<in> set xs. \<not> P x \<Longrightarrow> length (takeWhile P xs) < length xs"
  by (induction xs) auto

lemma inj_numbered: "inj numbered"
proof (rule injI)
  fix j k assume eq: "numbered j = numbered k"
  let ?n = "\<lambda>k. length (takeWhile (\<lambda>p. p \<noteq> k) all_permissions)"
  have at: "all_permissions ! ?n k = k" for k
  proof -
    have "\<exists>p \<in> set all_permissions. \<not> p \<noteq> k" using all_permissions_complete by blast
    then have "?n k < length all_permissions" by (rule takeWhile_shorter)
    from nth_length_takeWhile[OF this] show ?thesis by simp
  qed
  have "?n k < 2 ^ 128" for k
  proof -
    have "?n k \<le> length all_permissions" by (rule length_takeWhile_le)
    also have "length all_permissions < 2 ^ 128" by (simp add: all_permissions_def)
    finally show ?thesis .
  qed
  then have "unat (of_nat (?n k) :: uuid) = ?n k" for k by (simp add: unat_of_nat)
  moreover have "(of_nat (?n j) :: uuid) = of_nat (?n k)" using eq by (simp add: numbered_def)
  ultimately have "?n j = ?n k" by metis
  then show "j = k" using at by metis
qed

lemma inj_numbered_role: "inj numbered_role"
  by (auto simp: inj_def) (case_tac x; case_tac y; simp)

lemma seeding_establishes_roles_witness:
  "role_seeded (snd (seed_builtin_roles numbered_role 0 (snd (seed_permissions numbered empty_access)))) RoleAdmin"
proof -
  obtain q s1 where a: "seed_permissions numbered empty_access = (q, s1)" by fastforce
  obtain q' s2 where b: "seed_builtin_roles numbered_role 0 s1 = (q', s2)" by fastforce
  have "\<forall>k. hm_get (xs_permissions empty_access) (numbered k) = None" "\<forall>b. hm_get (xs_roles empty_access) (numbered_role b) = None"
    by (simp_all add: empty_access_def)
  from seeding_establishes_roles[OF access_ok_empty inj_numbered inj_numbered_role this a b] a b show ?thesis by simp
qed

section \<open>The first administrator\<close>

text \<open>
  The first administrator: success uses one use of a usable token, stores the user with the
  administrator's role and a session of eight hours; a refused token changes nothing. A user name that
  is taken, or a missing role, is reported after the token has been used, and in the latter case the
  user stays behind without a role.
\<close>

theorem first_admin_outcomes:
  assumes "consume_bootstrap_and_create_admin sha now sid random otp u hash d = (r, d')"
  shows "case r of
      Inr (v, tok, i) \<Rightarrow> v = u\<lparr>us_password_hash := hash\<rparr> \<and> tok = random \<and> i = sid \<and>
        consume_bootstrap_token sha now now otp (us_username u) (dk_store d) = (Inr (), dk_store d') \<and>
        hm_get (xs_users (dk_access d')) (us_id u) = Some (v\<lparr>us_last_login_at := Some now\<rparr>) \<and>
        (\<exists>a. role_named (dk_access d) ''admin'' = Some a \<and>
          ro_id a \<in> set (list_of (xs_user_roles (dk_access d')) (us_id u))) \<and>
        hm_get (xs_sessions (dk_access d')) (sha random) = Some (first_session sha now sid random (us_id u))
    | Inl (BaInvalidToken e) \<Rightarrow> d' = d
    | Inl (BaCreateUser e) \<Rightarrow> dk_access d' = dk_access d \<and>
        consume_bootstrap_token sha now now otp (us_username u) (dk_store d) = (Inr (), dk_store d')
    | Inl BaAdminRoleMissing \<Rightarrow> role_named (dk_access d) ''admin'' = None \<and>
        consume_bootstrap_token sha now now otp (us_username u) (dk_store d) = (Inr (), dk_store d') \<and>
        hm_get (xs_users (dk_access d')) (us_id u) = Some (u\<lparr>us_password_hash := hash\<rparr>) \<and>
        xs_user_roles (dk_access d') = xs_user_roles (dk_access d)
    | Inl (BaStore e) \<Rightarrow> False"
proof -
  obtain c st where c: "consume_bootstrap_token sha now now otp (us_username u) (dk_store d) = (c, st)" by fastforce
  show ?thesis
  proof (cases c)
    case (Inl e)
    then have "st = dk_store d" using c by (auto simp: consume_bootstrap_token_def split: option.splits if_splits)
    then show ?thesis using assms c Inl by (auto simp: consume_bootstrap_and_create_admin_def)
  next
    case (Inr n)
    let ?u = "u\<lparr>us_password_hash := hash\<rparr>"
    show ?thesis
    proof (cases "list_ex (\<lambda>v. us_username v = us_username u) (hm_values (xs_users (dk_access d)))")
      case True
      then show ?thesis using assms c Inr
        by (auto simp: consume_bootstrap_and_create_admin_def create_user_def Let_def)
    next
      case False
      show ?thesis
      proof (cases "role_named (dk_access d) ''admin''")
        case None
        then show ?thesis using assms c Inr False
          by (auto simp: consume_bootstrap_and_create_admin_def create_user_def get_role_by_name_def Let_def)
      next
        case (Some a)
        then show ?thesis using assms c Inr False
          by (auto simp: consume_bootstrap_and_create_admin_def create_user_def get_role_by_name_def Let_def
              assign_user_role_def create_session_def update_user_last_login_def update_user_def
              first_session_def)
      qed
    qed
  qed
qed

abbreviation first_user :: user where
  "first_user \<equiv> \<lparr> us_id = UserId 1, us_username = ''root'', us_email = Some ''root@h.io'', us_email_verified = True,
     us_password_hash = [], us_enabled = True, us_created_at = 0, us_last_login_at = None \<rparr>"

abbreviation first_desk :: desk where
  "first_desk \<equiv> \<lparr> dk_store = empty_store\<lparr>ms_bootstrap_tokens :=
       [(''fleet_boot_r'', admin_bootstrap_token (\<lambda>t. t) 0 ''cli'' None [] ''r'')]\<rparr>,
     dk_access = empty_access\<lparr>xs_roles := [(RoleId 0, \<lparr> ro_id = RoleId 0, ro_name = ''admin'', ro_description = None,
       ro_builtin = True, ro_created_at = 0 \<rparr>)]\<rparr> \<rparr>"

lemma first_admin_outcomes_witness:
  "\<exists>d'. consume_bootstrap_and_create_admin (\<lambda>t. t) 5 (SessionId 1) ''tok'' ''fleet_boot_r'' first_user ''h'' first_desk
       = (Inr (first_user\<lparr>us_password_hash := ''h''\<rparr>, ''tok'', SessionId 1), d') \<and>
     RoleId 0 \<in> set (list_of (xs_user_roles (dk_access d')) (UserId 1))"
proof -
  obtain d' where run: "consume_bootstrap_and_create_admin (\<lambda>t. t) 5 (SessionId 1) ''tok'' ''fleet_boot_r'' first_user ''h''
      first_desk = (Inr (first_user\<lparr>us_password_hash := ''h''\<rparr>, ''tok'', SessionId 1), d')"
    by (simp add: consume_bootstrap_and_create_admin_def consume_bootstrap_token_def is_usable_def create_user_def
        get_role_by_name_def assign_user_role_def create_session_def admin_bootstrap_token_def boot_token_def
        hm_values_def hm_get_def empty_store_def empty_access_def Let_def)
  from first_admin_outcomes[OF run] run show ?thesis by (simp add: hm_values_def)
qed

end
