(* ===== verification/Dashboard_Claims.thy ===== *)
theory Dashboard_Claims
  imports Dashboard_Accounts Access_Claims
begin

text \<open>
  What the dashboard's authentication guarantees: who passes the session gate and with which
  permissions, that a session is never prolonged, what a logout leaves, how many passwords an attacker
  can try with racing requests, and what a password reset does, undisturbed and in a race.
\<close>

section \<open>The session gate\<close>

lemma authenticate_cases:
  assumes "authenticate sha now token ip s = (r, s')"
  obtains (admitted) t x u ps where "token = Some t" "hm_get (xs_sessions s) (sha t) = Some x" "se_expires_at x > now"
      "hm_get (xs_users s) (se_user_id x) = Some u" "us_enabled u" "list_user_permissions (us_id u) s = Inr ps" "s' = s"
      "r = Inr (\<lparr> pc_user = u, pc_permissions = List.map_filter (\<lambda>p. permission_from_name (pm_name p)) ps,
                  pc_session_id = se_id x, pc_client_ip = ip \<rparr>, x)"
    | (expired) t x where "r = Inl LoginRedirect" "token = Some t" "hm_get (xs_sessions s) (sha t) = Some x"
      "\<not> se_expires_at x > now" "s' = snd (delete_session (se_id x) s)"
    | (turned_away) pg where "r = Inl pg" "s' = s"
      "\<forall>t x u. token = Some t \<and> hm_get (xs_sessions s) (sha t) = Some x \<and>
         hm_get (xs_users s) (se_user_id x) = Some u \<longrightarrow> \<not> us_enabled u"
proof -
  obtain ps where ps: "\<And>u. list_user_permissions u s = Inr (ps u)" by (simp add: list_user_permissions_def)
  show thesis
  proof (cases token)
    case None
    then show thesis using assms by (intro turned_away) (auto simp: authenticate_def)
  next
    case (Some t)
    show thesis
    proof (cases "hm_get (xs_sessions s) (sha t)")
      case None
      then show thesis using assms Some by (intro turned_away) (auto simp: authenticate_def get_session_by_token_hash_def)
    next
      case x: (Some x)
      show thesis
      proof (cases "se_expires_at x > now")
        case False
        then show thesis using assms Some x
          by (intro expired) (auto simp: authenticate_def get_session_by_token_hash_def session_expired_def)
      next
        case live: True
        show thesis
        proof (cases "hm_get (xs_users s) (se_user_id x)")
          case None
          then show thesis using assms Some x live
            by (intro turned_away)
              (auto simp: authenticate_def get_session_by_token_hash_def session_expired_def get_user_by_id_def)
        next
          case u: (Some u)
          show thesis
          proof (cases "us_enabled u")
            case True
            then show thesis using assms Some x live u ps
              by (intro admitted)
                (auto simp: authenticate_def get_session_by_token_hash_def session_expired_def get_user_by_id_def)
          next
            case False
            then show thesis using assms Some x live u
              by (intro turned_away)
                (auto simp: authenticate_def get_session_by_token_hash_def session_expired_def get_user_by_id_def)
          qed
        qed
      qed
    qed
  qed
qed

text \<open>The permissions a user holds, as the code reads them.\<close>

definition may :: "access \<Rightarrow> user_id \<Rightarrow> permission_kind \<Rightarrow> bool" where
  "may s u k \<longleftrightarrow> (\<exists>p \<in> granted s u. pm_name p = permission_as_str k)"

definition session_of :: "access \<Rightarrow> (string \<Rightarrow> string) \<Rightarrow> datetime \<Rightarrow> string \<Rightarrow> session \<Rightarrow> user \<Rightarrow> bool" where
  "session_of s sha now t x u \<longleftrightarrow> hm_get (xs_sessions s) (sha t) = Some x \<and> se_expires_at x > now \<and>
     hm_get (xs_users s) (se_user_id x) = Some u \<and> us_enabled u"

text \<open>
  C30. The session gate admits a request exactly when its token is that of a stored, unexpired session
  of an existing, enabled user, and the principal it hands on holds exactly the permissions granted to
  that user directly or through a role.
\<close>

theorem session_gate:
  assumes "access_ok s"
  shows "((\<exists>p x s'. authenticate sha now token ip s = (Inr (p, x), s')) \<longleftrightarrow>
      (\<exists>t x u. token = Some t \<and> session_of s sha now t x u)) \<and>
    (\<forall>p x s'. authenticate sha now token ip s = (Inr (p, x), s') \<longrightarrow> s' = s \<and> pc_session_id p = se_id x \<and>
       us_id (pc_user p) = se_user_id x \<and> (\<forall>k. has_permission p k \<longleftrightarrow> may s (se_user_id x) k))"
proof -
  have perms: "(\<forall>k. has_permission p k \<longleftrightarrow> may s (us_id u) k)"
    if "list_user_permissions (us_id u) s = Inr ps"
      "pc_permissions p = List.map_filter (\<lambda>p. permission_from_name (pm_name p)) ps" for p u ps
    using list_user_permissions_granted[OF assms that(1)] that(2)
    by (auto simp: has_permission_def may_def set_map_filter permission_from_name_iff)
  have keyed: "keyed us_id (xs_users s)" using assms by (simp add: access_ok_def)
  obtain r s' where a: "authenticate sha now token ip s = (r, s')" by fastforce
  from a show ?thesis
  proof (cases rule: authenticate_cases)
    case (admitted t x u ps)
    have "us_id u = se_user_id x" using keyed_get[OF keyed admitted(4)] .
    then show ?thesis using a admitted perms[OF admitted(6)] by (auto simp: session_of_def)
  next
    case (expired t x)
    then show ?thesis using a by (auto simp: session_of_def)
  next
    case (turned_away pg)
    then show ?thesis using a by (auto simp: session_of_def)
  qed
qed

section \<open>Sessions are never prolonged\<close>

abbreviation live_sessions :: "access \<Rightarrow> session set" where
  "live_sessions s \<equiv> set (hm_values (xs_sessions s))"

definition covered :: "access \<Rightarrow> access \<Rightarrow> bool" where
  "covered s s' \<longleftrightarrow> (\<forall>y \<in> live_sessions s'. \<exists>x \<in> live_sessions s. se_user_id y = se_user_id x \<and> se_expires_at y \<le> se_expires_at x)"

definition session_ids :: "access \<Rightarrow> session_id set" where
  "session_ids s = se_id ` live_sessions s"

definition ids_distinct :: "access \<Rightarrow> bool" where
  "ids_distinct s = distinct (map se_id (hm_values (xs_sessions s)))"

lemma covered_refl: "covered s s"
  by (auto simp: covered_def)

lemma covered_trans: "covered s t \<Longrightarrow> covered t u \<Longrightarrow> covered s u"
  unfolding covered_def by (metis order_trans)

lemma covered_same: "xs_sessions s' = xs_sessions s \<Longrightarrow> covered s s'"
  by (auto simp: covered_def)

lemma covered_subset: "live_sessions s' \<subseteq> live_sessions s \<Longrightarrow> covered s s'"
  by (auto simp: covered_def)

lemma hm_values_Nil [simp]: "hm_values [] = []"
  by (simp add: hm_values_def)

lemma hm_values_Cons [simp]: "hm_values (kv # m) = snd kv # hm_values m"
  by (simp add: hm_values_def)

lemma values_insert_subset: "set (hm_values (hm_insert k v m)) \<subseteq> insert v (set (hm_values m))"
  unfolding hm_insert_def by (induction m) auto

lemma values_retain_subset: "set (hm_values (hm_retain P m)) \<subseteq> set (hm_values m)"
  unfolding hm_retain_def by (induction m) auto

lemma distinct_insert_values:
  "distinct (map f (hm_values m)) \<Longrightarrow> f v \<notin> f ` set (hm_values m) \<Longrightarrow> distinct (map f (hm_values (hm_insert k v m)))"
proof (induction m)
  case (Cons kv m)
  obtain k' v' where kv: "kv = (k', v')" by fastforce
  show ?case
  proof (cases "k' = k")
    case True
    then show ?thesis using Cons.prems by (simp add: kv hm_insert_def)
  next
    case False
    have "f v' \<notin> f ` set (hm_values (hm_insert k v m))"
      using Cons.prems values_insert_subset[of k v m] by (auto simp: kv)
    moreover have "distinct (map f (hm_values (hm_insert k v m)))"
      using Cons by (simp add: kv)
    ultimately show ?thesis using False by (simp add: kv hm_insert_def)
  qed
qed (simp add: hm_insert_def)

lemma distinct_retain_values: "distinct (map f (hm_values m)) \<Longrightarrow> distinct (map f (hm_values (hm_retain P m)))"
proof (induction m)
  case (Cons kv m)
  then have "distinct (map f (hm_values (hm_retain P m)))" by simp
  moreover have "f (snd kv) \<notin> f ` set (hm_values (hm_retain P m))"
    using Cons.prems values_retain_subset[of P m] by auto
  ultimately show ?case by (cases kv) (simp add: hm_retain_def)
qed (simp add: hm_retain_def)

lemma adjust_first_values:
  "v \<in> set (hm_values (adjust_first P f m)) \<Longrightarrow> v \<in> set (hm_values m) \<or> (\<exists>w \<in> set (hm_values m). P w \<and> v = f w)"
  by (induction P f m rule: adjust_first.induct) (auto split: if_splits)

lemma adjust_first_map: "(\<And>v. g (f v) = g v) \<Longrightarrow> map g (hm_values (adjust_first P f m)) = map g (hm_values m)"
  by (induction P f m rule: adjust_first.induct) auto

lemma rotated_session_sel [simp]:
  "se_id (rotated_session sha now i raw x) = i" "se_user_id (rotated_session sha now i raw x) = se_user_id x"
  "se_token_hash (rotated_session sha now i raw x) = sha raw"
  "se_expires_at (rotated_session sha now i raw x) = se_expires_at x"
  "se_created_at (rotated_session sha now i raw x) = now"
  by (simp_all add: rotated_session_def)

lemma rotate_covered:
  assumes "maybe_rotate_session sha now new_id raw x s = (rot, s')" "x \<in> live_sessions s" "ids_distinct s"
    "new_id \<notin> session_ids s"
  shows "covered s s'" "ids_distinct s'" "session_ids s' \<subseteq> insert new_id (session_ids s)"
proof -
  define y where "y = rotated_session sha now new_id raw x"
  define t where "t = s\<lparr>xs_sessions := hm_insert (sha raw) y (xs_sessions s)\<rparr>"
  have y: "se_id y = new_id" "se_user_id y = se_user_id x" "se_expires_at y = se_expires_at x"
    by (simp_all add: y_def rotated_session_def)
  have "covered s s' \<and> ids_distinct s' \<and> session_ids s' \<subseteq> insert new_id (session_ids s)"
  proof (cases "should_rotate (se_created_at x) (se_expires_at x) now")
    case False
    then show ?thesis using assms by (auto simp: maybe_rotate_session_def covered_refl)
  next
    case True
    have s': "s' = snd (update_session_expiry (se_id x) (now + session_rotation_grace) t)"
      using assms(1) True by (simp add: maybe_rotate_session_def create_session_def t_def y_def rotated_session_def)
    have less: "now + session_rotation_grace < se_expires_at x"
      using True by (simp add: should_rotate_def split: if_splits)
    have sub: "live_sessions t \<subseteq> insert y (live_sessions s)"
      using values_insert_subset[of "sha raw" y "xs_sessions s"] by (simp add: t_def)
    have ids: "ids_distinct t"
      using assms(3,4) y(1) distinct_insert_values[of se_id "xs_sessions s" y "sha raw"]
      by (simp add: ids_distinct_def session_ids_def t_def)
    have same: "w = x" if "w \<in> live_sessions t" "se_id w = se_id x" for w
    proof -
      have "w \<in> live_sessions s" using that sub y(1) assms(2,4) by (auto simp: session_ids_def)
      then show ?thesis using that(2) assms(2,3) by (auto simp: ids_distinct_def distinct_map dest: inj_onD)
    qed
    have "covered s s'"
      unfolding covered_def
    proof
      fix v assume "v \<in> live_sessions s'"
      then have "v \<in> live_sessions t \<or>
          (\<exists>w \<in> live_sessions t. se_id w = se_id x \<and> v = w\<lparr>se_expires_at := now + session_rotation_grace\<rparr>)"
        using adjust_first_values by (fastforce simp: s' update_session_expiry_def)
      then show "\<exists>w \<in> live_sessions s. se_user_id v = se_user_id w \<and> se_expires_at v \<le> se_expires_at w"
      proof
        assume "v \<in> live_sessions t"
        then have "v = y \<or> v \<in> live_sessions s" using sub by auto
        then show ?thesis using y(2,3) assms(2) by (metis order_refl)
      next
        assume "\<exists>w \<in> live_sessions t. se_id w = se_id x \<and> v = w\<lparr>se_expires_at := now + session_rotation_grace\<rparr>"
        then have "v = x\<lparr>se_expires_at := now + session_rotation_grace\<rparr>" using same by blast
        then show ?thesis using less assms(2) by (intro bexI[of _ x]) auto
      qed
    qed
    moreover have same_ids: "map se_id (hm_values (xs_sessions s')) = map se_id (hm_values (xs_sessions t))"
      unfolding s' update_session_expiry_def by (simp add: adjust_first_map)
    moreover have "session_ids s' = session_ids t" using arg_cong[OF same_ids, of set] by (simp add: session_ids_def)
    moreover have "session_ids t \<subseteq> insert new_id (session_ids s)" using sub y(1) by (auto simp: session_ids_def)
    ultimately show ?thesis using ids by (simp add: ids_distinct_def)
  qed
  then show "covered s s'" "ids_distinct s'" "session_ids s' \<subseteq> insert new_id (session_ids s)" by auto
qed

lemma shrinking:
  assumes "xs_sessions s' = hm_retain P (xs_sessions s)"
  shows "covered s s'" "ids_distinct s \<Longrightarrow> ids_distinct s'" "session_ids s' \<subseteq> session_ids s"
  using assms values_retain_subset[of P "xs_sessions s"] distinct_retain_values[of se_id "xs_sessions s" P]
  by (auto simp: ids_distinct_def session_ids_def intro!: covered_subset)

text \<open>
  A history of requests between two logins: pages and account actions behind the session gate, password
  resets, and the periodic clean-up.
\<close>

record dash_env =
  de_sha :: "string \<Rightarrow> string"
  de_show_user :: "user_id \<Rightarrow> string"
  de_parse_user :: "string \<Rightarrow> user_id option"
  de_weak :: "string \<Rightarrow> string list \<Rightarrow> bool"
  de_hashed :: "string \<Rightarrow> (auth_error, string) result"

datatype web_action = Visit | Logout datetime string
  | CreateUser "nat \<Rightarrow> datetime" user_id uuid string create_user_form
  | Toggle "nat \<Rightarrow> datetime" string string
  | Remove "nat \<Rightarrow> datetime" string string

fun act :: "dash_env \<Rightarrow> string option \<Rightarrow> web_action \<Rightarrow> principal \<Rightarrow> access \<Rightarrow> page \<times> set_cookie list \<times> access" where
  "act en csrf Visit p s = (Home, [], s)"
| "act en csrf (Logout now header) p s = logout now csrf header p s"
| "act en csrf (CreateUser clk u i raw form) p s =
     (case create_user_api (de_sha en) (de_show_user en) (de_weak en) (de_hashed en) clk u i raw p csrf form s of
        (pg, _, s) \<Rightarrow> (pg, [], s))"
| "act en csrf (Toggle clk token target) p s =
     (case toggle_user_api (de_show_user en) (de_parse_user en) clk p csrf token target s of (pg, s) \<Rightarrow> (pg, [], s))"
| "act en csrf (Remove clk token target) p s =
     (case delete_user_api (de_show_user en) (de_parse_user en) clk p csrf token target s of (pg, s) \<Rightarrow> (pg, [], s))"

datatype dash_call =
    Web "nat \<Rightarrow> datetime" session_id string string web_request web_action
  | Reset "nat \<Rightarrow> datetime" "string option" string reset_form
  | Cleanup timedelta datetime datetime

fun dash_exec :: "dash_env \<Rightarrow> dash_call \<Rightarrow> access \<Rightarrow> access" where
  "dash_exec en (Web clk i raw csrf rq a) s =
     snd (snd (require_session (de_sha en) clk i raw csrf rq (act en (wr_csrf rq) a) s))"
| "dash_exec en (Reset clk csrf ip form) s =
     snd (reset_password (de_sha en) (de_show_user en) (de_weak en) (de_hashed en) clk csrf ip form s)"
| "dash_exec en (Cleanup retention now now') s = snd (cleanup_sweep retention now now' s)"

abbreviation dash_run :: "dash_env \<Rightarrow> dash_call list \<Rightarrow> access \<Rightarrow> access" where
  "dash_run en ks s \<equiv> fold (dash_exec en) ks s"

fun fresh_ids :: "dash_call \<Rightarrow> session_id list" where
  "fresh_ids (Web _ i _ _ _ _) = [i]"
| "fresh_ids _ = []"

text \<open>An operation that at most removes sessions.\<close>

definition shrinks :: "access \<Rightarrow> access \<Rightarrow> bool" where
  "shrinks s s' \<longleftrightarrow> (\<exists>P. xs_sessions s' = hm_retain P (xs_sessions s))"

lemma retain_all: "hm_retain (\<lambda>_ _. True) m = m"
  by (simp add: hm_retain_def)

lemma shrinks_same: "xs_sessions s' = xs_sessions s \<Longrightarrow> shrinks s s'"
  unfolding shrinks_def by (rule exI[of _ "\<lambda>_ _. True"]) (simp add: retain_all)

lemma shrinks_retain: "xs_sessions s' = hm_retain P (xs_sessions s) \<Longrightarrow> shrinks s s'"
  by (auto simp: shrinks_def)

lemma audit_sessions [simp]: "xs_sessions (audit e s) = xs_sessions s"
  by (simp add: audit_def record_audit_event_def)

lemma failure_sessions [simp]: "xs_sessions (record_login_failure now i ip why s) = xs_sessions s"
  by (simp add: record_login_failure_def record_login_attempt_def)

lemma success_sessions [simp]: "xs_sessions (record_login_success now now' i ip s) = xs_sessions s"
  by (simp add: record_login_success_def record_login_attempt_def clear_login_attempts_def
      delete_old_login_attempts_def Let_def)

lemma require_permission_sessions: "xs_sessions (snd (require_permission now p k s)) = xs_sessions s"
  by (simp add: require_permission_def)

lemma act_shrinks: "shrinks s (snd (snd (act en csrf a p s)))"
proof (cases a)
  case Visit
  then show ?thesis by (simp add: shrinks_same)
next
  case (Logout now header)
  then show ?thesis
    by (auto simp: logout_def delete_session_def Let_def intro: shrinks_same shrinks_retain)
next
  case (CreateUser clk u i raw form)
  have "xs_sessions (snd (snd (create_user_api (de_sha en) (de_show_user en) (de_weak en) (de_hashed en) clk u i raw p csrf form s)))
      = xs_sessions s"
    by (auto simp: create_user_api_def require_permission_def create_user_def get_role_by_name_def
        assign_user_role_def create_email_verification_token_def Let_def split: prod.splits sum.splits option.splits)
  then show ?thesis using CreateUser by (simp add: shrinks_same case_prod_beta)
next
  case (Toggle clk token target)
  have "shrinks s (snd (toggle_user_api (de_show_user en) (de_parse_user en) clk p csrf token target s))"
    by (auto simp: toggle_user_api_def require_permission_def get_user_by_id_def set_user_enabled_def update_user_def
        delete_user_sessions_def Let_def intro: shrinks_same shrinks_retain split: option.splits)
  then show ?thesis using Toggle by (simp add: case_prod_beta)
next
  case (Remove clk token target)
  have "shrinks s (snd (delete_user_api (de_show_user en) (de_parse_user en) clk p csrf token target s))"
    by (auto simp: delete_user_api_def require_permission_def get_user_by_id_def delete_user_def Let_def
        intro: shrinks_same shrinks_retain split: option.splits)
  then show ?thesis using Remove by (simp add: case_prod_beta)
qed

lemma shrinks_covered:
  assumes "shrinks s s'"
  shows "covered s s'" "ids_distinct s \<Longrightarrow> ids_distinct s'" "session_ids s' \<subseteq> session_ids s"
proof -
  obtain P where P: "xs_sessions s' = hm_retain P (xs_sessions s)" using assms by (auto simp: shrinks_def)
  show "covered s s'" "ids_distinct s \<Longrightarrow> ids_distinct s'" "session_ids s' \<subseteq> session_ids s"
    using shrinking[OF P] by auto
qed

lemma reset_shrinks: "shrinks s (snd (reset_password sha show_user weak hashed clk csrf ip form s))"
  by (auto simp: reset_password_defs update_user_password_def update_user_def consume_password_reset_token_def
      delete_user_sessions_def get_password_reset_token_def Let_def
      intro: shrinks_same shrinks_retain split: option.splits sum.splits)

lemma cleanup_shrinks: "shrinks s (snd (cleanup_sweep retention now now' s))"
  by (auto simp: cleanup_sweep_def delete_expired_sessions_def delete_old_login_attempts_def Let_def
      intro: shrinks_same shrinks_retain)

lemma require_session_cases:
  assumes "require_session sha clk i raw new_csrf rq handler s = (pg, cookies, s')"
  obtains (away) "authenticate sha (clk 0) (wr_session rq) (wr_ip rq) s = (Inl pg, s')" "cookies = []"
    | (through) p x rot t own where
      "authenticate sha (clk 0) (wr_session rq) (wr_ip rq) s = (Inr (p, x), s)"
      "maybe_rotate_session sha (clk 1) i raw x s = (rot, t)" "handler p t = (pg, own, s')"
      "cookies = own @ [SetCsrf (case wr_csrf rq of Some c \<Rightarrow> c | None \<Rightarrow> new_csrf)] @
         (case rot of Some t \<Rightarrow> [SetSession t] | None \<Rightarrow> [])"
proof -
  obtain r u where a: "authenticate sha (clk 0) (wr_session rq) (wr_ip rq) s = (r, u)" by fastforce
  show thesis
  proof (cases r)
    case (Inl e)
    then show thesis using a assms by (intro away) (auto simp: require_session_def)
  next
    case (Inr px)
    obtain p x where px: "px = (p, x)" by fastforce
    have "u = s" using a Inr px by (cases rule: authenticate_cases) auto
    moreover obtain rot t where "maybe_rotate_session sha (clk 1) i raw x s = (rot, t)" by fastforce
    moreover obtain pg' own v where "handler p t = (pg', own, v)" by (metis prod_cases3)
    ultimately show thesis using a assms Inr px by (intro through) (auto simp: require_session_def Let_def)
  qed
qed

lemma dash_exec_covered:
  assumes "ids_distinct s" "set (fresh_ids k) \<inter> session_ids s = {}"
  shows "covered s (dash_exec en k s) \<and> ids_distinct (dash_exec en k s) \<and>
    session_ids (dash_exec en k s) \<subseteq> set (fresh_ids k) \<union> session_ids s"
proof (cases k)
  case (Web clk i raw csrf rq a)
  obtain pg cookies s' where run: "require_session (de_sha en) clk i raw csrf rq (act en (wr_csrf rq) a) s = (pg, cookies, s')"
    by (metis prod_cases3)
  from run have "covered s s' \<and> ids_distinct s' \<and> session_ids s' \<subseteq> insert i (session_ids s)"
  proof (cases rule: require_session_cases)
    case away
    from away(1) have "shrinks s s'"
    proof (cases rule: authenticate_cases)
      case (expired t x)
      then show ?thesis by (auto simp: delete_session_def intro: shrinks_retain)
    qed (auto intro: shrinks_same)
    then show ?thesis using shrinks_covered assms(1) by blast
  next
    case (through p x rot t own)
    from through(1) have "x \<in> live_sessions s"
      by (cases rule: authenticate_cases) (auto intro: hm_get_values)
    from rotate_covered[OF through(2) this assms(1)] assms(2) Web
    have rot: "covered s t" "ids_distinct t" "session_ids t \<subseteq> insert i (session_ids s)" by auto
    have "shrinks t s'" using act_shrinks[of t en "wr_csrf rq" a p] through(3) by simp
    from shrinks_covered[OF this] show ?thesis using rot covered_trans by blast
  qed
  then show ?thesis using Web run by simp
next
  case (Reset clk csrf ip form)
  then show ?thesis using shrinks_covered[OF reset_shrinks] assms(1) by fastforce
next
  case (Cleanup retention now now')
  then show ?thesis using shrinks_covered[OF cleanup_shrinks] assms(1) by fastforce
qed

text \<open>
  C34. No request prolongs a login: after any history of requests, rotations, account actions, password
  resets and clean-ups between two logins, every stored session belongs to a user who had a session at
  the start, and expires no later than that one did.
\<close>

theorem rotation_never_extends:
  assumes "ids_distinct s" "distinct (concat (map fresh_ids ks))" "set (concat (map fresh_ids ks)) \<inter> session_ids s = {}"
  shows "covered s (dash_run en ks s)"
  using assms
proof (induction ks arbitrary: s)
  case Nil
  then show ?case by (simp add: covered_refl)
next
  case (Cons k ks)
  let ?s' = "dash_exec en k s"
  have step: "covered s ?s'" "ids_distinct ?s'" "session_ids ?s' \<subseteq> set (fresh_ids k) \<union> session_ids s"
    using dash_exec_covered[of s k en] Cons.prems by auto
  have "set (concat (map fresh_ids ks)) \<inter> session_ids ?s' = {}" using Cons.prems(2,3) step(3) by auto
  then have "covered ?s' (dash_run en ks ?s')" using Cons.IH step(2) Cons.prems(2) by auto
  then show ?case using step(1) covered_trans by simp
qed

section \<open>Logging out\<close>

lemma adjust_first_keys: "map fst (adjust_first P f m) = map fst m"
  by (induction P f m rule: adjust_first.induct) auto

lemma hm_ok_adjust_first: "hm_ok m \<Longrightarrow> hm_ok (adjust_first P f m)"
  by (simp add: hm_ok_def adjust_first_keys)

lemma adjust_first_get:
  "hm_get (adjust_first P f m) k = Some w \<Longrightarrow> \<exists>w'. hm_get m k = Some w' \<and> (w = w' \<or> w = f w')"
  by (induction P f m rule: adjust_first.induct) (auto simp: hm_get_def split: if_splits)

lemma adjust_first_other:
  assumes "hm_get m k = Some w" "\<not> P w" "hm_ok m"
  shows "hm_get (adjust_first P f m) k = Some w"
  using assms by (induction P f m rule: adjust_first.induct) (auto simp: hm_get_def hm_ok_def dest: map_of_SomeD split: if_splits)


text \<open>
  A logout ends the session it is called with. When that session is due for rotation, though, the
  same request has first opened a new one, and its token is the last cookie of the response: the user
  is still logged in, until the old session would have expired.
\<close>

theorem logout_outcome:
  assumes "keyed se_token_hash (xs_sessions s)" "ids_distinct s" "i \<notin> session_ids s" "hm_get (xs_sessions s) (sha raw) = None"
    "session_of s sha (clk 0) t x u" "wr_session rq = Some t" "csrf_valid (wr_csrf rq) header"
    "require_session sha clk i raw new_csrf rq (logout (clk 2) (wr_csrf rq) header) s = (pg, cookies, s')"
  shows "pg = ToLogin \<and> hm_get (xs_sessions s') (sha t) = None \<and>
    (if should_rotate (se_created_at x) (se_expires_at x) (clk 1)
     then last cookies = SetSession raw \<and> session_of s' sha (clk 1) raw (rotated_session sha (clk 1) i raw x) u
     else \<forall>c. SetSession c \<notin> set cookies)"
proof -
  have x: "hm_get (xs_sessions s) (sha t) = Some x" "hm_get (xs_users s) (se_user_id x) = Some u" "us_enabled u"
    using assms(5) by (simp_all add: session_of_def)
  have xm: "x \<in> live_sessions s" using x(1) by (rule hm_get_values)
  have idx: "i \<noteq> se_id x" using assms(3) xm by (auto simp: session_ids_def)
  from assms(8) show ?thesis
  proof (cases rule: require_session_cases)
    case away
    from away(1) show ?thesis
      using assms(5,6) by (cases rule: authenticate_cases) (auto simp: session_of_def)
  next
    case (through p y rot v own)
    have y: "y = x \<and> pc_session_id p = se_id x"
      using through(1) assms(5,6) by (cases rule: authenticate_cases) (auto simp: session_of_def)
    have out: "pg = ToLogin" "own = [ClearSession]"
      "xs_sessions s' = hm_retain (\<lambda>_ z. se_id z \<noteq> se_id x) (xs_sessions v)" "xs_users s' = xs_users v"
      using through(3) y assms(7)
      by (auto simp: logout_def delete_session_def Let_def audit_def record_audit_event_def split: if_splits)
    show ?thesis
    proof (cases "should_rotate (se_created_at x) (se_expires_at x) (clk 1)")
      case False
      then have v: "v = s" "rot = None" using through(2) y by (simp_all add: maybe_rotate_session_def)
      have "hm_get (xs_sessions s') (sha t) = None"
        using out(3) v(1) x(1) assms(1) by (simp add: hm_get_retain keyed_hm_ok)
      moreover have "\<forall>c. SetSession c \<notin> set cookies" using through(4) out(2) v(2) by simp
      ultimately show ?thesis using out(1) False by simp
    next
      case True
      let ?z = "rotated_session sha (clk 1) i raw x"
      let ?m = "hm_insert (sha raw) ?z (xs_sessions s)"
      have v: "rot = Some raw" "xs_users v = xs_users s"
        "xs_sessions v = adjust_first (\<lambda>w. se_id w = se_id x) (\<lambda>w. w\<lparr>se_expires_at := clk 1 + session_rotation_grace\<rparr>) ?m"
        using through(2) True y
        by (auto simp: maybe_rotate_session_def create_session_def update_session_expiry_def)
      have ne: "sha raw \<noteq> sha t" using assms(4) x(1) by auto
      have okv: "hm_ok (xs_sessions v)" using v(3) assms(1) by (simp add: hm_ok_adjust_first keyed_hm_ok)
      have gone: "hm_get (xs_sessions s') (sha t) = None"
      proof -
        have same: "se_id w = se_id x" if "hm_get (xs_sessions v) (sha t) = Some w" for w
        proof -
          from that[unfolded v(3)] obtain w' where w': "hm_get ?m (sha t) = Some w'"
              "w = w' \<or> w = w'\<lparr>se_expires_at := clk 1 + session_rotation_grace\<rparr>"
            using adjust_first_get by fast
          have "w' = x" using w'(1) ne x(1) by simp
          then show ?thesis using w'(2) by auto
        qed
        show ?thesis
        proof (cases "hm_get (xs_sessions v) (sha t)")
          case (Some w)
          from same[OF this] show ?thesis unfolding out(3) hm_get_retain[OF okv] Some by simp
        qed (simp add: out(3) hm_get_retain[OF okv])
      qed
      have "hm_get (xs_sessions v) (sha raw) = Some ?z"
        unfolding v(3) by (rule adjust_first_other) (use idx assms(1) in \<open>auto simp: rotated_session_def keyed_hm_ok\<close>)
      then have "hm_get (xs_sessions s') (sha raw) = Some ?z"
        using out(3) okv idx by (simp add: hm_get_retain rotated_session_def)
      moreover have "se_expires_at x > clk 1"
        using True by (simp add: should_rotate_def session_rotation_grace_def secs_def split: if_splits)
      ultimately have "session_of s' sha (clk 1) raw ?z u"
        using x(2,3) out(4) v(2) by (simp add: session_of_def rotated_session_def)
      moreover have "last cookies = SetSession raw" using through(4) v(1) by simp
      ultimately show ?thesis using True out(1) gone by simp
    qed
  qed
qed

section \<open>Guessing passwords\<close>

record login_try =
  lt_clk :: "nat \<Rightarrow> datetime"
  lt_id :: session_id
  lt_raw :: string
  lt_new_csrf :: string
  lt_cookie_csrf :: "string option"
  lt_ip :: string
  lt_agent :: "string option"
  lt_form :: login_form

text \<open>An answer that tells the client whether the password was right.\<close>

definition answers_guess :: "page \<Rightarrow> bool" where
  "answers_guess pg \<longleftrightarrow> pg = LoginFailed ''Invalid email or password'' \<or>
     pg = LoginFailed ''Email not verified. Please check your inbox for the verification link.''"

definition failures_since :: "datetime \<Rightarrow> string \<Rightarrow> access \<Rightarrow> nat" where
  "failures_since T e s =
     length (filter (\<lambda>a. la_identifier a = e \<and> \<not> la_success a \<and> la_attempted_at a \<ge> T) (xs_login_attempts s))"

lemma audit_attempts [simp]: "xs_login_attempts (audit ev s) = xs_login_attempts s"
  by (simp add: audit_def record_audit_event_def)

lemma failures_since_audit [simp]: "failures_since T e (audit ev s) = failures_since T e s"
  by (simp add: failures_since_def)

lemma failures_since_failure:
  "failures_since T e (record_login_failure now i ip why s) =
     failures_since T e s + (if i = e \<and> now \<ge> T then 1 else 0)"
  by (simp add: failures_since_def record_login_failure_def record_login_attempt_def)

lemma failures_since_success:
  assumes "now' - seconds (7 * 24 * 3600) \<le> T" "i \<noteq> e"
  shows "failures_since T e (record_login_success now now' i ip s) = failures_since T e s"
proof -
  have same: "(la_identifier a = e \<and> \<not> la_success a \<and> T \<le> la_attempted_at a) \<and> now' - seconds (7 * 24 * 3600) \<le> la_attempted_at a
      \<and> la_identifier a \<noteq> i \<longleftrightarrow> la_identifier a = e \<and> \<not> la_success a \<and> T \<le> la_attempted_at a" for a
    using assms by auto
  show ?thesis
    using assms(2) same
    by (auto simp: failures_since_def record_login_success_def record_login_attempt_def clear_login_attempts_def
        delete_old_login_attempts_def Let_def conj_ac intro!: arg_cong[where f = length] filter_cong)
qed

lemma limit_reached:
  assumes "check_rate_limit now now' e ip s = Inr True" "now - failed_attempt_window \<le> T"
  shows "failures_since T e s < max_failed_attempts"
proof -
  let ?P = "\<lambda>a. la_identifier a = e \<and> \<not> la_success a \<and> la_attempted_at a \<ge> now - failed_attempt_window"
  have "length (filter ?P (xs_login_attempts s)) < max_failed_attempts"
    using assms(1)
    by (auto simp: check_rate_limit_def check_rate_limit_custom_def count_recent_failed_attempts_def split: if_splits)
  moreover have "failures_since T e s \<le> length (filter ?P (xs_login_attempts s))"
  proof -
    have "filter (\<lambda>a. la_identifier a = e \<and> \<not> la_success a \<and> la_attempted_at a \<ge> T) (xs_login_attempts s) =
      filter (\<lambda>a. la_attempted_at a \<ge> T) (filter ?P (xs_login_attempts s))"
      using assms(2) by (simp only: filter_filter) (intro filter_cong refl, auto)
    then show ?thesis unfolding failures_since_def by (simp only: length_filter_le)
  qed
  ultimately show ?thesis by simp
qed

text \<open>The outcomes of a login.\<close>

lemma login_cases:
  assumes "login sha verify clk i raw csrf cookie ip agent form s = (pg, cookies, s')"
  obtains (unchanged) "\<not> answers_guess pg" "pg \<noteq> Home" "cookies = []" "xs_login_attempts s' = xs_login_attempts s"
      "xs_sessions s' = xs_sessions s" "xs_users s' = xs_users s"
    | (guess) why ev where "answers_guess pg" "cookies = []" "check_rate_limit (clk 0) (clk 1) (lf_email form) (Some ip) s = Inr True"
      "s' = audit ev (record_login_failure (clk 2) (lf_email form) (Some ip) why s)"
    | (entry) u t ev where "pg = Home" "cookies = [SetSession raw, SetCsrf csrf]" "get_user_by_email (lf_email form) s = Inr (Some u)"
      "us_enabled u" "us_email_verified u" "verify (lf_password form) (us_password_hash u) = Inr True"
      "xs_login_attempts t = xs_login_attempts s"
      "s' = audit ev (record_login_success (clk 5) (clk 6) (lf_email form) (Some ip) t)"
      "check_rate_limit (clk 0) (clk 1) (lf_email form) (Some ip) s = Inr True"
proof -
  note d = login_defs create_session_def
  show thesis
  proof (cases "csrf_valid cookie (lf_csrf_token form)")
    case False
    then show thesis using assms by (intro unchanged) (auto simp: d answers_guess_def)
  next
    case True
    obtain c where c: "check_rate_limit (clk 0) (clk 1) (lf_email form) (Some ip) s = c" by simp
    obtain found where g: "get_user_by_email (lf_email form) s = Inr found"
      by (simp add: get_user_by_email_def)
    show thesis
    proof (cases "c = Inr True")
      case False
      then have "(\<exists>e. c = Inl e) \<or> c = Inr False" by (cases c) auto
      then show thesis using assms True c
        by (intro unchanged) (auto simp: d answers_guess_def audit_def record_audit_event_def split: sum.splits)
    next
      case ok: True
      define valid where "valid = (case found of
                      Some u \<Rightarrow> us_enabled u \<and> verify (lf_password form) (us_password_hash u) = Inr True
                    | None \<Rightarrow> False)"
      show thesis
      proof (cases valid)
        case False
        then show thesis using assms True c g ok
          by (intro guess) (auto simp: d answers_guess_def valid_def)
      next
        case v: True
        then obtain u where u: "found = Some u" "us_enabled u" "verify (lf_password form) (us_password_hash u) = Inr True"
          by (auto simp: valid_def split: option.splits)
        show thesis
        proof (cases "us_email_verified u")
          case False
          then show thesis using assms True c g ok u
            by (intro guess) (auto simp: d answers_guess_def)
        next
          case ver: True
          show thesis using assms True c g ok u ver
            by (intro entry[of u "snd (update_user_last_login (us_id u) (clk 4)
                (snd (create_session \<lparr> se_id = i, se_user_id = us_id u, se_token_hash = sha raw, se_created_at = clk 2,
                   se_expires_at = clk 3 + session_duration, se_ip_address = Some ip, se_user_agent = agent \<rparr> s)))"])
              (auto simp: d Let_def update_user_last_login_def update_user_def)
        qed
      qed
    qed
  qed
qed

text \<open>
  Concurrent logins: a step is the rate limit of a request in a free slot, the answer to the request in a slot (with whatever user
  was found for it), or anything else that leaves the login attempts alone. The state is the store, the requests in flight and the answers given.
\<close>

datatype login_step =
    LxLimit nat login_try
  | LxAnswer nat "user option"
  | LxOther "access \<Rightarrow> access"

type_synonym login_state = "access \<times> (nat \<Rightarrow> login_try option) \<times> (login_try \<times> page) list"

fun login_step_exec ::
    "(string \<Rightarrow> string) \<Rightarrow> (string \<Rightarrow> string \<Rightarrow> (auth_error, bool) result) \<Rightarrow> login_step \<Rightarrow> login_state \<Rightarrow> login_state" where
  "login_step_exec sha verify (LxLimit n r) (s, fl, out) =
     (if fl n \<noteq> None then (s, fl, out)
      else case login_limit (lt_clk r) (lt_cookie_csrf r) (lt_ip r) (lt_form r) s of
        Some (pg, s) \<Rightarrow> (s, fl, out @ [(r, pg)])
      | None \<Rightarrow> (s, fl(n := Some r), out))"
| "login_step_exec sha verify (LxAnswer n found) (s, fl, out) =
     (case fl n of
        None \<Rightarrow> (s, fl, out)
      | Some r \<Rightarrow>
          (case login_answer sha verify (lt_clk r) (lt_id r) (lt_raw r) (lt_new_csrf r) (lt_ip r) (lt_agent r) (lt_form r) found s of
             (pg, _, s) \<Rightarrow> (s, fl(n := None), out @ [(r, pg)])))"
| "login_step_exec sha verify (LxOther g) (s, fl, out) = ((g s)\<lparr>xs_login_attempts := xs_login_attempts s\<rparr>, fl, out)"

abbreviation login_run ::
    "(string \<Rightarrow> string) \<Rightarrow> (string \<Rightarrow> string \<Rightarrow> (auth_error, bool) result) \<Rightarrow> login_step list \<Rightarrow> access \<Rightarrow> login_state" where
  "login_run sha verify xs s \<equiv> fold (login_step_exec sha verify) xs (s, Map.empty, [])"

lemma login_limit_stops:
  assumes "login_limit clk cookie ip form s = Some (pg, s')"
  shows "\<not> answers_guess pg" "pg \<noteq> Home" "failures_since T e s' = failures_since T e s"
  using assms by (auto simp: login_limit_def answers_guess_def split: if_splits sum.splits bool.splits)

lemma login_limit_passes:
  assumes "login_limit clk cookie ip form s = None"
  shows "check_rate_limit (clk 0) (clk 1) (lf_email form) (Some ip) s = Inr True"
  using assms by (auto simp: login_limit_def split: if_splits sum.splits bool.splits)

lemma login_answer_cases:
  assumes "login_answer sha verify clk i raw csrf ip agent form found s = (pg, cookies, s')"
  obtains (guess) why ev where "answers_guess pg" "s' = audit ev (record_login_failure (clk 2) (lf_email form) (Some ip) why s)"
    | (entry) t ev where "pg = Home" "xs_login_attempts t = xs_login_attempts s"
      "s' = audit ev (record_login_success (clk 5) (clk 6) (lf_email form) (Some ip) t)"
proof (cases "case found of Some u \<Rightarrow> us_enabled u \<and> verify (lf_password form) (us_password_hash u) = Inr True | None \<Rightarrow> False")
  case False
  then show thesis using assms by (intro guess) (auto simp: login_answer_def answers_guess_def)
next
  case True
  then obtain u where u: "found = Some u" "us_enabled u" "verify (lf_password form) (us_password_hash u) = Inr True"
    by (auto split: option.splits)
  show thesis
  proof (cases "us_email_verified u")
    case False
    then show thesis using assms u by (intro guess) (auto simp: login_answer_def answers_guess_def)
  next
    case ver: True
    show thesis using assms u ver
      by (intro entry[of "snd (update_user_last_login (us_id u) (clk 4)
          (snd (create_session \<lparr> se_id = i, se_user_id = us_id u, se_token_hash = sha raw, se_created_at = clk 2,
             se_expires_at = clk 3 + session_duration, se_ip_address = Some ip, se_user_agent = agent \<rparr> s)))"])
        (auto simp: login_answer_def create_session_def Let_def update_user_last_login_def update_user_def)
  qed
qed

definition in_flight :: "string \<Rightarrow> (nat \<Rightarrow> login_try option) \<Rightarrow> nat set" where
  "in_flight e fl = {n. \<exists>r. fl n = Some r \<and> lf_email (lt_form r) = e}"

definition guesses_answered :: "string \<Rightarrow> (login_try \<times> page) list \<Rightarrow> nat" where
  "guesses_answered e out = length (filter (\<lambda>(r, pg). lf_email (lt_form r) = e \<and> answers_guess pg) out)"

text \<open>Recorded failures and requests in flight, together.\<close>

definition guess_account :: "datetime \<Rightarrow> string \<Rightarrow> nat \<Rightarrow> nat \<Rightarrow> (login_try \<Rightarrow> bool) \<Rightarrow> login_state \<Rightarrow> bool" where
  "guess_account T e k F ok = (\<lambda>(s, fl, out).
     failures_since T e s = F + guesses_answered e out \<and>
     failures_since T e s + card (in_flight e fl) \<le> max F (max_failed_attempts + k - 1) \<and>
     in_flight e fl \<subseteq> {..<k} \<and> (\<forall>n r. fl n = Some r \<longrightarrow> ok r))"

lemma in_flight_upd [simp]:
  "in_flight e (fl(n := None)) = in_flight e fl - {n}"
  "in_flight e (fl(n := Some r)) = (if lf_email (lt_form r) = e then insert n (in_flight e fl) else in_flight e fl - {n})"
  by (auto simp: in_flight_def)

lemma guesses_answered_snoc [simp]:
  "guesses_answered e (out @ [(r, pg)]) = guesses_answered e out + (if lf_email (lt_form r) = e \<and> answers_guess pg then 1 else 0)"
  by (simp add: guesses_answered_def)

lemma guess_account_step:
  assumes "guess_account T e k F ok st" "login_step_exec sha verify x st = (s', fl', out')"
    "\<forall>(r, pg) \<in> set out'. lf_email (lt_form r) = e \<longrightarrow> pg \<noteq> Home" "\<And>n r. x = LxLimit n r \<Longrightarrow> n < k \<and> ok r"
    "\<And>r. ok r \<Longrightarrow> T \<le> lt_clk r 2 \<and> lt_clk r 0 \<le> T + failed_attempt_window \<and> lt_clk r 6 \<le> T + seconds (7 * 24 * 3600)"
  shows "guess_account T e k F ok (s', fl', out')"
proof -
  obtain s fl out where st: "st = (s, fl, out)" by (cases st)
  have a: "failures_since T e s = F + guesses_answered e out"
    "failures_since T e s + card (in_flight e fl) \<le> max F (max_failed_attempts + k - 1)"
    "in_flight e fl \<subseteq> {..<k}" "\<And>n r. fl n = Some r \<Longrightarrow> ok r" using assms(1) by (auto simp: guess_account_def st)
  have fin: "finite (in_flight e fl)" using a(3) finite_subset by blast
  show ?thesis
  proof (cases x)
    case (LxLimit n r)
    show ?thesis
    proof (cases "fl n")
      case None
      show ?thesis
      proof (cases "login_limit (lt_clk r) (lt_cookie_csrf r) (lt_ip r) (lt_form r) s")
        case (Some p)
        obtain pg s2 where p: "p = (pg, s2)" by (cases p)
        have l: "\<not> answers_guess pg" "failures_since T e s2 = failures_since T e s"
          using login_limit_stops(1)[OF Some[unfolded p]] login_limit_stops(3)[OF Some[unfolded p], of T e] by simp_all
        have "s' = s2" "fl' = fl" "out' = out @ [(r, pg)]" using assms(2) by (simp_all add: LxLimit st None Some p)
        then show ?thesis using a l by (simp add: guess_account_def)
      next
        case passes: None
        have e: "s' = s" "fl' = fl(n := Some r)" "out' = out" using assms(2) by (simp_all add: LxLimit st None passes)
        have x: "n < k" "ok r" using assms(4)[OF LxLimit] by simp_all
        have n: "n \<notin> in_flight e fl" by (simp add: in_flight_def None)
        have sub: "in_flight e fl' \<subseteq> {..<k}" using a(3) x(1) by (auto simp: e)
        then have c: "card (in_flight e fl') \<le> k" using card_mono[of "{..<k}" "in_flight e fl'"] by simp
        have "failures_since T e s + card (in_flight e fl') \<le> max F (max_failed_attempts + k - 1)"
        proof (cases "lf_email (lt_form r) = e")
          case True
          have "lt_clk r 0 - failed_attempt_window \<le> T" using assms(5)[OF x(2)] by simp
          from limit_reached[OF login_limit_passes[OF passes] this] have "failures_since T e s < max_failed_attempts"
            by (simp add: True)
          then show ?thesis using c by simp
        next
          case False
          then show ?thesis using a(2) n by (simp add: e)
        qed
        then show ?thesis using a sub x(2) by (auto simp: guess_account_def e split: if_splits)
      qed
    qed (use assms(1,2) in \<open>simp add: LxLimit st\<close>)
  next
    case (LxAnswer n found)
    show ?thesis
    proof (cases "fl n")
      case (Some r)
      obtain pg cookies s2 where ans: "login_answer sha verify (lt_clk r) (lt_id r) (lt_raw r) (lt_new_csrf r) (lt_ip r) (lt_agent r)
          (lt_form r) found s = (pg, cookies, s2)" by (metis prod_cases3)
      have e: "s' = s2" "fl' = fl(n := None)" "out' = out @ [(r, pg)]" using assms(2) by (simp_all add: LxAnswer st Some ans)
      have clocks: "T \<le> lt_clk r 2" "lt_clk r 6 \<le> T + seconds (7 * 24 * 3600)" using assms(5)[OF a(4)[OF Some]] by simp_all
      have sub: "in_flight e fl' \<subseteq> {..<k}" "\<And>m q. fl' m = Some q \<Longrightarrow> ok q" using a(3,4) by (auto simp: e split: if_splits)
      have mem: "n \<in> in_flight e fl \<longleftrightarrow> lf_email (lt_form r) = e" by (simp add: in_flight_def Some)
      from ans show ?thesis
      proof (cases rule: login_answer_cases)
        case (guess why ev)
        have f: "failures_since T e s' = failures_since T e s + (if lf_email (lt_form r) = e then 1 else 0)"
          using guess(2) clocks(1) by (simp add: failures_since_failure e)
        have "card (in_flight e fl') + (if lf_email (lt_form r) = e then 1 else 0) = card (in_flight e fl)"
          using mem card_gt_0_iff[of "in_flight e fl"] fin by (cases "lf_email (lt_form r) = e") (auto simp: e)
        then show ?thesis using a f sub guess(1) by (simp add: guess_account_def e(3))
      next
        case (entry t ev)
        have ne: "lf_email (lt_form r) \<noteq> e" using entry(1) assms(3) by (auto simp: e)
        have "failures_since T e s' = failures_since T e t"
          using entry(3) failures_since_success[OF _ ne] clocks(2) by (simp add: e)
        then have f: "failures_since T e s' = failures_since T e s" using entry(2) by (simp add: failures_since_def)
        have "in_flight e fl' = in_flight e fl" using ne mem by (simp add: e)
        then show ?thesis using a f sub ne by (simp add: guess_account_def e(3))
      qed
    qed (use assms(1,2) in \<open>simp add: LxAnswer st\<close>)
  next
    case (LxOther g)
    then show ?thesis using assms(1,2) by (auto simp: guess_account_def st failures_since_def)
  qed
qed

lemma login_answers_grow: "\<exists>more. snd (snd (login_step_exec sha verify x st)) = snd (snd st) @ more"
  by (cases st; cases x) (auto split: option.split prod.split)

lemma guess_account_run:
  assumes "\<And>n r. LxLimit n r \<in> set xs \<Longrightarrow> n < k \<and> ok r"
    "\<And>r. ok r \<Longrightarrow> T \<le> lt_clk r 2 \<and> lt_clk r 0 \<le> T + failed_attempt_window \<and> lt_clk r 6 \<le> T + seconds (7 * 24 * 3600)"
    "\<forall>(r, pg) \<in> set (snd (snd (login_run sha verify xs s))). lf_email (lt_form r) = e \<longrightarrow> pg \<noteq> Home"
  shows "guess_account T e k (failures_since T e s) ok (login_run sha verify xs s)"
  using assms(1,3)
proof (induction xs rule: rev_induct)
  case Nil
  then show ?case by (simp add: guess_account_def guesses_answered_def in_flight_def)
next
  case (snoc x xs)
  let ?st = "login_run sha verify xs s"
  obtain s' fl' out' where run: "login_step_exec sha verify x ?st = (s', fl', out')" by (metis prod_cases3)
  obtain more where "snd (snd (login_step_exec sha verify x ?st)) = snd (snd ?st) @ more" using login_answers_grow by blast
  then have "\<forall>(r, pg) \<in> set (snd (snd ?st)). lf_email (lt_form r) = e \<longrightarrow> pg \<noteq> Home" using snoc.prems(2) by auto
  moreover have "n < k \<and> ok r" if "LxLimit n r \<in> set xs" for n r
    by (rule snoc.prems(1)) (simp add: that)
  ultimately have "guess_account T e k (failures_since T e s) ok ?st" using snoc.IH by blast
  moreover have "\<forall>(r, pg) \<in> set out'. lf_email (lt_form r) = e \<longrightarrow> pg \<noteq> Home" using snoc.prems(2) by (simp add: run)
  ultimately have "guess_account T e k (failures_since T e s) ok (s', fl', out')"
    using snoc.prems(1) by (intro guess_account_step[OF _ run _ _ assms(2)]) auto
  then show ?case by (simp add: run)
qed

text \<open>
  C35. Guessing is bounded, and by how much it is when requests race: if at most \<open>k\<close> login requests are served at a time, then of those
  made within a minute at most \<open>4 + k\<close> learn whether the password they tried for an account is right (five if they come one by one), less
  the failures already recorded, as long as none of them logs the account in; from however many addresses they come, however
  their checks and answers interleave, and whatever logins of others succeed in between. The check of the limit and the record of the failure are separate, so each further request in flight adds a guess.
\<close>

theorem password_guesses_bounded:
  assumes "\<forall>n r. LxLimit n r \<in> set xs \<longrightarrow> n < k \<and> T \<le> lt_clk r 2 \<and> lt_clk r 0 \<le> T + failed_attempt_window \<and>
      lt_clk r 6 \<le> T + seconds (7 * 24 * 3600)"
    "fold (login_step_exec sha verify) xs (s, Map.empty, []) = (s', fl, out)"
    "\<forall>(r, pg) \<in> set out. lf_email (lt_form r) = e \<longrightarrow> pg \<noteq> Home"
  shows "length (filter (\<lambda>(r, pg). lf_email (lt_form r) = e \<and> answers_guess pg) out)
    \<le> max_failed_attempts + k - 1 - failures_since T e s"
proof -
  have "guess_account T e k (failures_since T e s)
      (\<lambda>r. T \<le> lt_clk r 2 \<and> lt_clk r 0 \<le> T + failed_attempt_window \<and> lt_clk r 6 \<le> T + seconds (7 * 24 * 3600))
      (login_run sha verify xs s)"
    using assms by (intro guess_account_run) auto
  then show ?thesis using assms(2) by (auto simp: guess_account_def guesses_answered_def)
qed

lemma unknown_never_enters:
  assumes "fold (login_step_exec sha verify) xs (s, fl, out) = (s', fl', out')" "\<forall>n u. LxAnswer n (Some u) \<notin> set xs"
    "\<forall>(r, pg) \<in> set out. pg \<noteq> Home"
  shows "\<forall>(r, pg) \<in> set out'. pg \<noteq> Home"
  using assms
proof (induction xs arbitrary: s fl out)
  case (Cons x xs)
  obtain s2 fl2 out2 where step: "login_step_exec sha verify x (s, fl, out) = (s2, fl2, out2)" by (metis prod_cases3)
  have "\<forall>(r, pg) \<in> set out2. pg \<noteq> Home"
  proof (cases x)
    case (LxLimit n r)
    then show ?thesis using step Cons.prems(3) login_limit_stops(2)[of "lt_clk r" "lt_cookie_csrf r" "lt_ip r" "lt_form r" s]
      by (auto split: if_splits option.splits prod.splits)
  next
    case (LxAnswer n found)
    then have "found = None" using Cons.prems(2) by (cases found) auto
    then show ?thesis using step Cons.prems(3) LxAnswer by (auto simp: login_answer_def split: option.splits)
  qed (use step Cons.prems(3) in auto)
  then show ?case using Cons.IH[of s2 fl2 out2] Cons.prems(1,2) step by simp
qed simp

text \<open>Two requests pass the limit side by side when four failures are on record: the five allowed become six.\<close>

abbreviation guesser :: "nat \<Rightarrow> login_try" where
  "guesser n \<equiv> \<lparr> lt_clk = (\<lambda>_. int n), lt_id = SessionId (of_nat n), lt_raw = [], lt_new_csrf = [], lt_cookie_csrf = Some ''c'',
     lt_ip = replicate n (CHR ''1''), lt_agent = None,
     lt_form = \<lparr> lf_email = ''a@b.c'', lf_password = replicate n (CHR ''x''), lf_csrf_token = ''c'' \<rparr> \<rparr>"

abbreviation guessing :: "login_step list" where
  "guessing \<equiv> [LxLimit 0 (guesser 0), LxAnswer 0 None, LxLimit 0 (guesser 1), LxAnswer 0 None, LxLimit 0 (guesser 2), LxAnswer 0 None,
     LxLimit 0 (guesser 3), LxAnswer 0 None, LxLimit 0 (guesser 4), LxLimit 1 (guesser 5), LxAnswer 1 None, LxAnswer 0 None]"

lemma password_guesses_bounded_witness:
  "length (filter (\<lambda>(r, pg). lf_email (lt_form r) = ''a@b.c'' \<and> answers_guess pg)
     (snd (snd (login_run (\<lambda>t. t) (\<lambda>p h. Inr (p = h)) guessing empty_access)))) \<le> 6"
proof -
  obtain s' fl out where run: "login_run (\<lambda>t. t) (\<lambda>p h. Inr (p = h)) guessing empty_access = (s', fl, out)" by (metis prod_cases3)
  have "\<forall>(r, pg) \<in> set out. pg \<noteq> Home" by (rule unknown_never_enters[OF run]) simp_all
  then have home: "\<forall>(r, pg) \<in> set out. lf_email (lt_form r) = ''a@b.c'' \<longrightarrow> pg \<noteq> Home" by auto
  have "\<forall>n r. LxLimit n r \<in> set guessing \<longrightarrow> n < 2 \<and> 0 \<le> lt_clk r 2 \<and> lt_clk r 0 \<le> 0 + failed_attempt_window \<and>
      lt_clk r 6 \<le> 0 + seconds (7 * 24 * 3600)"
    by (auto simp: failed_attempt_window_def secs_def)
  from password_guesses_bounded[OF this run home] show ?thesis unfolding run by (simp add: max_failed_attempts_def)
qed

lemma racing_guesses_pass_the_limit:
  "length (filter (\<lambda>(r, pg). lf_email (lt_form r) = ''a@b.c'' \<and> answers_guess pg)
     (snd (snd (login_run (\<lambda>t. t) (\<lambda>p h. Inr (p = h)) guessing empty_access)))) = max_failed_attempts + 1"
  by (simp add: login_answer_def login_limit_def csrf_valid_def check_rate_limit_def check_rate_limit_custom_def
    count_recent_failed_attempts_def count_recent_ip_failures_def record_login_failure_def record_login_attempt_def
    empty_access_def max_failed_attempts_def max_ip_failed_attempts_def failed_attempt_window_def secs_def answers_guess_def)

text \<open>
  Failures count against an address whatever page they came from: ten failed logins from an address
  within the hour also close the password reset and the resending of verification mails to it.
\<close>

lemma failed_logins_close_password_reset:
  assumes "length (filter (\<lambda>a. la_ip_address a = Some ip \<and> \<not> la_success a \<and> la_attempted_at a \<ge> clk 1 - email_send_window)
      (xs_login_attempts s)) \<ge> max_ip_email_send_attempts"
    "csrf_valid cookie_csrf (ef_csrf_token form)"
  shows "forgot_password sha show_user clk i raw cookie_csrf ip form s =
      (InfoPage ''error'' ''Too many requests. Please try again later.'', [], s)"
    "resend_verification_form sha show_user clk i raw cookie_csrf ip form s =
      (InfoPage ''error'' ''Too many requests. Please try again later.'', [], s)"
  using assms
  by (simp_all add: forgot_password_def resend_verification_form_def check_rate_limit_custom_def
      count_recent_failed_attempts_def count_recent_ip_failures_def Let_def split: if_splits)

section \<open>Resetting a password\<close>

lemma find_values: "List.find P (hm_values m) = Some v \<Longrightarrow> \<exists>k. (k, v) \<in> set m \<and> P v"
  by (induction m) (auto split: if_splits)

lemma find_adjusted:
  assumes "List.find P (hm_values m) = Some v" "\<And>w. P (f w) = P w" "keyed g m"
  shows "List.find P (hm_values (hm_adjust (g v) f m)) = Some (f v)"
  using assms(1,3)
proof (induction m)
  case (Cons kv m)
  obtain k w where kv: "kv = (k, w)" by fastforce
  have k: "k = g w" "keyed g m" using Cons.prems(2) by (auto simp: keyed_def kv hm_ok_def)
  show ?case
  proof (cases "P w")
    case True
    then have "w = v" using Cons.prems(1) by (simp add: kv)
    then show ?thesis using True k(1) by (simp add: kv hm_adjust_def assms(2))
  next
    case False
    have found: "List.find P (hm_values m) = Some v" using False Cons.prems(1) by (simp add: kv)
    have "\<not> P (if k = g v then f w else w)" using False by (simp add: assms(2))
    moreover have "hm_adjust (g v) f (kv # m) = (k, if k = g v then f w else w) # hm_adjust (g v) f m"
      by (simp add: kv hm_adjust_def)
    ultimately show ?thesis using Cons.IH[OF found k(2)] by simp
  qed
qed simp

lemma success_rest [simp]:
  "xs_users (record_login_success now now' i ip s) = xs_users s"
  "xs_password_reset_tokens (record_login_success now now' i ip s) = xs_password_reset_tokens s"
  by (simp_all add: record_login_success_def record_login_attempt_def clear_login_attempts_def
      delete_old_login_attempts_def Let_def)

lemma audit_rest [simp]:
  "xs_users (audit e s) = xs_users s" "xs_password_reset_tokens (audit e s) = xs_password_reset_tokens s"
  by (simp_all add: audit_def record_audit_event_def)

lemma failure_rest [simp]:
  "xs_users (record_login_failure now i ip why s) = xs_users s"
  "xs_password_reset_tokens (record_login_failure now i ip why s) = xs_password_reset_tokens s"
  by (simp_all add: record_login_failure_def record_login_attempt_def)

lemma reset_password_cases:
  assumes "reset_password sha show_user weak hashed clk cookie ip form s = (pg, s')"
  obtains (refused) why where "pg = InfoPage ''error'' why" "xs_users s' = xs_users s" "xs_sessions s' = xs_sessions s"
      "xs_password_reset_tokens s' = xs_password_reset_tokens s"
    | (changed) t h u why where "pg = InfoPage ''success'' why"
      "List.find (\<lambda>t. vt_token_hash t = sha (rf_token form)) (hm_values (xs_password_reset_tokens s)) = Some t"
      "\<not> token_consumed t" "\<not> token_expired (clk 2) t" "hashed (rf_password form) = Inr h"
      "csrf_valid cookie (rf_csrf_token form)" "validate_password weak (rf_password form) [] = Inr ()"
      "rf_password_confirm form = rf_password form"
      "hm_get (xs_users s) (vt_user_id t) = Some u"
      "xs_users s' = hm_adjust (vt_user_id t) (\<lambda>u. u\<lparr>us_password_hash := h\<rparr>) (xs_users s)"
      "xs_password_reset_tokens s' = hm_adjust (vt_id t) (\<lambda>t. t\<lparr>vt_consumed_at := Some (clk 3)\<rparr>) (xs_password_reset_tokens s)"
      "xs_sessions s' = hm_retain (\<lambda>_ x. se_user_id x \<noteq> vt_user_id t) (xs_sessions s)"
proof -
  note d = reset_password_defs get_password_reset_token_def Let_def
  define allowed where "allowed = (case check_rate_limit (clk 0) (clk 1) (''reset:'' @ ip) (Some ip) s of Inr b \<Rightarrow> b | Inl _ \<Rightarrow> False)"
  show thesis
  proof (cases "csrf_valid cookie (rf_csrf_token form) \<and> allowed \<and> rf_password form = rf_password_confirm form \<and>
      validate_password weak (rf_password form) [] = Inr ()")
    case False
    then show thesis using assms refused by (auto simp: d allowed_def split: if_splits)
  next
    case ok: True
    then have b: "csrf_valid cookie (rf_csrf_token form)" "allowed" "rf_password form = rf_password_confirm form"
      "validate_password weak (rf_password form) [] = Inr ()" by auto
    show thesis
    proof (cases "List.find (\<lambda>t. vt_token_hash t = sha (rf_token form)) (hm_values (xs_password_reset_tokens s))")
      case None
      then show thesis using assms b refused by (auto simp: d allowed_def)
    next
      case t: (Some t)
      show thesis
      proof (cases "token_consumed t \<or> token_expired (clk 2) t")
        case True
        then show thesis using assms b t refused by (auto simp: d allowed_def split: if_splits)
      next
        case fresh: False
        show thesis
        proof (cases "hashed (rf_password form)")
          case (Inl e)
          then show thesis using assms b t fresh refused by (auto simp: d allowed_def)
        next
          case h: (Inr h)
          show thesis
          proof (cases "hm_get (xs_users s) (vt_user_id t)")
            case None
            then show thesis using assms b t fresh h refused
              by (auto simp: d allowed_def update_user_password_def update_user_def hm_contains_iff)
          next
            case (Some u)
            then show thesis using assms b t fresh h
              by (intro changed[of _ t h u])
                (auto simp: d allowed_def update_user_password_def update_user_def hm_contains_iff
                  consume_password_reset_token_def delete_user_sessions_def)
          qed
        qed
      qed
    qed
  qed
qed

text \<open>
  An undisturbed password reset succeeds only with a reset token on record that is neither used nor expired and
  a password accepted twice; then exactly the token's user has the new password, every session of that
  user is gone, every other user and session is as before, and the next request with the same token is refused.
  Any other answer changes no user, no session and no token.
\<close>

theorem reset_once:
  assumes "access_ok s" "reset_password sha show_user weak hashed clk cookie ip form s = (pg, s')"
  shows "if \<exists>m. pg = InfoPage ''success'' m then
      (\<exists>t h. t \<in> set (hm_values (xs_password_reset_tokens s)) \<and> vt_token_hash t = sha (rf_token form) \<and>
         vt_consumed_at t = None \<and> clk 2 < vt_expires_at t \<and> rf_password_confirm form = rf_password form \<and>
         validate_password weak (rf_password form) [] = Inr () \<and> hashed (rf_password form) = Inr h \<and>
         (\<forall>i. hm_get (xs_users s') i = (if i = vt_user_id t then map_option (\<lambda>u. u\<lparr>us_password_hash := h\<rparr>) (hm_get (xs_users s) i)
            else hm_get (xs_users s) i)) \<and>
         (\<forall>k. hm_get (xs_sessions s') k = (case hm_get (xs_sessions s) k of
            Some x \<Rightarrow> if se_user_id x = vt_user_id t then None else Some x | None \<Rightarrow> None))) \<and>
      (\<forall>weak' hashed' clk' cookie' ip' form' m. rf_token form' = rf_token form \<longrightarrow>
         fst (reset_password sha show_user weak' hashed' clk' cookie' ip' form' s') \<noteq> InfoPage ''success'' m)
    else xs_users s' = xs_users s \<and> xs_sessions s' = xs_sessions s \<and> xs_password_reset_tokens s' = xs_password_reset_tokens s"
  using assms(2)
proof (cases rule: reset_password_cases)
  case (refused why)
  then show ?thesis by simp
next
  case (changed t h u why)
  have k: "keyed us_id (xs_users s)" "keyed se_token_hash (xs_sessions s)" "keyed vt_id (xs_password_reset_tokens s)"
    using assms(1) by (simp_all add: access_ok_def)
  have t: "t \<in> set (hm_values (xs_password_reset_tokens s))" "vt_token_hash t = sha (rf_token form)"
    using changed(2) by (auto simp: find_Some_iff)
  have users: "hm_get (xs_users s') i = (if i = vt_user_id t then map_option (\<lambda>u. u\<lparr>us_password_hash := h\<rparr>) (hm_get (xs_users s) i)
      else hm_get (xs_users s) i)" for i
    using changed(10) by (simp add: hm_get_adjust)
  have sessions: "hm_get (xs_sessions s') j = (case hm_get (xs_sessions s) j of
      Some x \<Rightarrow> if se_user_id x = vt_user_id t then None else Some x | None \<Rightarrow> None)" for j
    using changed(12) k(2) by (auto simp: hm_get_retain keyed_hm_ok split: option.splits)
  have used: "List.find (\<lambda>t. vt_token_hash t = sha (rf_token form)) (hm_values (xs_password_reset_tokens s'))
      = Some (t\<lparr>vt_consumed_at := Some (clk 3)\<rparr>)"
    unfolding changed(11) by (rule find_adjusted[OF changed(2) _ k(3)]) simp
  have "fst (reset_password sha show_user weak' hashed' clk' cookie' ip' form' s') \<noteq> InfoPage ''success'' m"
    if "rf_token form' = rf_token form" for weak' hashed' clk' cookie' ip' form' m
  proof -
    obtain pg' s'' where run: "reset_password sha show_user weak' hashed' clk' cookie' ip' form' s' = (pg', s'')" by fastforce
    from run show ?thesis
    proof (cases rule: reset_password_cases)
      case (changed t' h' u' why')
      then show ?thesis using used that by (auto simp: token_consumed_def)
    qed (simp add: run)
  qed
  then show ?thesis using changed t users sessions
    by (auto simp: token_consumed_def token_expired_def intro!: exI[of _ t])
qed

text \<open>
  Two requests that race both succeed with one token: whatever a second request does between the first one's look at the token and its
  write, the first one, which would have succeeded alone, answers success as well.
\<close>

lemma reset_token_race:
  assumes "reset_password sha show_user weak hashed clk cookie ip form s = (InfoPage ''success'' m, s')"
  shows "fst (reset_password_amid
      (\<lambda>n t. if n = 1 then snd (reset_password sha show_user weak hashed clk' cookie' ip' form' t) else t)
      sha show_user weak hashed clk cookie ip form s) = InfoPage ''success'' m"
proof -
  let ?t = "snd (reset_password sha show_user weak hashed clk' cookie' ip' form' s)"
  obtain pg2 s2 where run: "reset_password sha show_user weak hashed clk' cookie' ip' form' s = (pg2, s2)" by fastforce
  then have users: "hm_contains (xs_users s2) i = hm_contains (xs_users s) i" for i
    by (cases rule: reset_password_cases) (simp_all add: hm_contains_iff hm_get_adjust)
  have alone: "reset_password_amid (\<lambda>_ s. s) sha show_user weak hashed clk cookie ip form s = (InfoPage ''success'' m, s')"
    using assms by (simp add: reset_password_def)
  show ?thesis using alone users unfolding reset_password_amid_def
    by (auto simp: run Let_def update_user_password_def update_user_def split: if_splits sum.splits option.splits prod.splits)
qed

text \<open>A reset leaves the user's other reset tokens usable.\<close>

lemma other_reset_tokens_survive:
  assumes "reset_password sha show_user weak hashed clk cookie ip form s = (pg, s')"
    "hm_get (xs_password_reset_tokens s) i = Some t" "vt_token_hash t \<noteq> sha (rf_token form)" "access_ok s"
  shows "hm_get (xs_password_reset_tokens s') i = Some t"
  using assms(1)
proof (cases rule: reset_password_cases)
  case (refused why)
  then show ?thesis using assms(2) by simp
next
  case (changed t' h u why)
  have k: "keyed vt_id (xs_password_reset_tokens s)" using assms(4) by (simp add: access_ok_def)
  have "t' \<in> set (hm_values (xs_password_reset_tokens s))" "vt_token_hash t' = sha (rf_token form)"
    using changed(2) by (auto simp: find_Some_iff)
  then have "vt_id t' \<noteq> i" using assms(2,3) keyed_values_get[OF k] by force
  then show ?thesis using changed(11) assms(2) by (simp add: hm_get_adjust)
qed

abbreviation web_user :: user where
  "web_user \<equiv> \<lparr> us_id = UserId 1, us_username = ''ann'', us_email = Some ''a@b.c'', us_email_verified = True,
     us_password_hash = ''old'', us_enabled = True, us_created_at = 0, us_last_login_at = None \<rparr>"

abbreviation web_session :: session where
  "web_session \<equiv> \<lparr> se_id = SessionId 1, se_user_id = UserId 1, se_token_hash = ''t'', se_created_at = 0,
     se_expires_at = seconds (8 * 3600), se_ip_address = None, se_user_agent = None \<rparr>"

definition web_store :: access where
  "web_store = empty_access\<lparr>xs_users := [(UserId 1, web_user)], xs_sessions := [(''t'', web_session)],
     xs_password_reset_tokens := [(7, mailed_token (\<lambda>t. t) 7 ''r'' (UserId 1) 0 (seconds 3600))]\<rparr>"

lemma web_store_sel [simp]:
  "xs_users web_store = [(UserId 1, web_user)]" "xs_sessions web_store = [(''t'', web_session)]"
  "xs_password_reset_tokens web_store = [(7, mailed_token (\<lambda>t. t) 7 ''r'' (UserId 1) 0 (seconds 3600))]"
  "xs_login_attempts web_store = []"
  by (simp_all add: web_store_def empty_access_def)

lemma access_ok_web_store: "access_ok web_store"
  by (simp add: access_ok_def web_store_def empty_access_def keyed_def hm_ok_def list_of_def mailed_token_def hm_get_def)

lemma reset_once_witness:
  "\<exists>s'. reset_password (\<lambda>t. t) (\<lambda>_. ''1'') (\<lambda>_ _. False) Inr (\<lambda>_. 5) (Some ''c'') ''1.1.1.1''
       \<lparr> rf_token = ''r'', rf_password = ''secret-9'', rf_password_confirm = ''secret-9'', rf_csrf_token = ''c'' \<rparr> web_store
       = (InfoPage ''success'' ''Your password has been reset. You can now sign in with your new password.'', s') \<and>
     hm_get (xs_sessions s') ''t'' = None"
proof -
  let ?form = "\<lparr> rf_token = ''r'', rf_password = ''secret-9'', rf_password_confirm = ''secret-9'', rf_csrf_token = ''c'' \<rparr>"
  obtain pg s' where run: "reset_password (\<lambda>t. t) (\<lambda>_. ''1'') (\<lambda>_ _. False) Inr (\<lambda>_. 5) (Some ''c'') ''1.1.1.1'' ?form web_store = (pg, s')"
    by fastforce
  have "pg = InfoPage ''success'' ''Your password has been reset. You can now sign in with your new password.''"
    using run by (simp add: reset_password_defs check_rate_limit_def check_rate_limit_custom_def count_recent_failed_attempts_def
        count_recent_ip_failures_def max_failed_attempts_def max_ip_failed_attempts_def csrf_valid_def validate_password_def
        get_password_reset_token_def mailed_token_def token_consumed_def token_expired_def secs_def
        update_user_password_def update_user_def hm_get_def case_prod_beta)
  then show ?thesis using reset_once[OF access_ok_web_store run] run
    by (auto simp: mailed_token_def hm_get_def)
qed

lemma session_gate_witness:
  "\<exists>p s'. authenticate (\<lambda>t. t) 5 (Some ''t'') None web_store = (Inr (p, web_session), s') \<and> \<not> has_permission p PUserCreate"
proof -
  have "session_of web_store (\<lambda>t. t) 5 ''t'' web_session web_user"
    by (simp add: session_of_def hm_get_def secs_def)
  then obtain p x s' where run: "authenticate (\<lambda>t. t) 5 (Some ''t'') None web_store = (Inr (p, x), s')"
    using session_gate[OF access_ok_web_store, of "\<lambda>t. t" 5 "Some ''t''" None] by blast
  then have "\<not> may web_store (se_user_id x) PUserCreate \<Longrightarrow> \<not> has_permission p PUserCreate"
    using session_gate[OF access_ok_web_store, of "\<lambda>t. t" 5 "Some ''t''" None] by blast
  moreover have "\<not> may web_store (se_user_id x) PUserCreate"
    by (simp add: may_def granted_def web_store_def empty_access_def list_of_def)
  moreover have "x = web_session"
    using run by (cases rule: authenticate_cases) (simp_all add: hm_get_def)
  ultimately show ?thesis using run by blast
qed

lemma rotation_never_extends_witness:
  "covered web_store (dash_run \<lparr> de_sha = (\<lambda>t. t), de_show_user = (\<lambda>_. []), de_parse_user = (\<lambda>_. None), de_weak = (\<lambda>_ _. False),
       de_hashed = Inr \<rparr>
     [Web (\<lambda>_. seconds 3600) (SessionId 2) ''u'' ''c'' \<lparr> wr_session = Some ''t'', wr_csrf = None, wr_ip = None \<rparr> Visit] web_store)"
  by (rule rotation_never_extends) (simp_all add: ids_distinct_def session_ids_def)

lemma logout_outcome_witness:
  "\<exists>s'. require_session (\<lambda>t. t) (\<lambda>_. seconds 3600) (SessionId 2) ''u'' ''d'' \<lparr> wr_session = Some ''t'', wr_csrf = Some ''c'', wr_ip = None \<rparr>
       (logout (seconds 3600) (Some ''c'') ''c'') web_store = (ToLogin, [ClearSession, SetCsrf ''c'', SetSession ''u''], s') \<and>
     session_of s' (\<lambda>t. t) (seconds 3600) ''u'' (rotated_session (\<lambda>t. t) (seconds 3600) (SessionId 2) ''u'' web_session) web_user"
proof -
  let ?rq = "\<lparr> wr_session = Some ''t'', wr_csrf = Some ''c'', wr_ip = None \<rparr>"
  obtain pg cookies s' where run: "require_session (\<lambda>t. t) (\<lambda>_. seconds 3600) (SessionId 2) ''u'' ''d'' ?rq
      (logout (seconds 3600) (Some ''c'') ''c'') web_store = (pg, cookies, s')" by (metis prod_cases3)
  have due: "should_rotate 0 (seconds (8 * 3600)) (seconds 3600)"
    by (simp add: should_rotate_def session_rotate_after_def session_rotation_grace_def secs_def)
  have "pg = ToLogin \<and> cookies = [ClearSession, SetCsrf ''c'', SetSession ''u'']"
  proof -
    have "se_user_id web_session = UserId 1" by simp
    have a: "\<exists>p. authenticate (\<lambda>t. t) (seconds 3600) (Some ''t'') None web_store = (Inr (p, web_session), web_store)"
      using list_user_permissions_def
      by (simp add: authenticate_def get_session_by_token_hash_def session_expired_def get_user_by_id_def hm_get_def secs_def
          list_user_permissions_def)
    then show ?thesis using run due
      by (auto simp: require_session_def maybe_rotate_session_def create_session_def logout_def csrf_valid_def)
  qed
  moreover have "keyed se_token_hash (xs_sessions web_store)" using access_ok_web_store by (simp add: access_ok_def)
  from logout_outcome[OF this, of "SessionId 2" "\<lambda>t. t" "''u''" "\<lambda>_. seconds 3600" "''t''" web_session web_user ?rq "''c''" "''d''" pg cookies s'] run
  have "session_of s' (\<lambda>t. t) (seconds 3600) ''u'' (rotated_session (\<lambda>t. t) (seconds 3600) (SessionId 2) ''u'' web_session) web_user"
    using due by (simp add: ids_distinct_def session_ids_def session_of_def hm_get_def secs_def csrf_valid_def)
  ultimately show ?thesis using run by blast
qed

end
