(* ===== verification/Issue_Claims.thy ===== *)
theory Issue_Claims
  imports Mcp_Issues Dashboard_Claims
begin

text \<open>
  What the issue surfaces guarantee together: issues stay well-formed under any interleaving, and status
  changes follow the status machine and need the capability of the target.
\<close>

section \<open>Calls\<close>

text \<open>A call of either surface: its clock, what others do during it, and its arguments.\<close>

datatype issue_call =
    DashCreate issue_id issue_caller create_issue_request
  | DashUpdate issue_caller string update_issue_request
  | DashTransition issue_caller string transition_issue_request
  | DashComment uuid issue_caller string string
  | DashLink issue_caller string string
  | DashUnlink issue_caller string string
  | McpCreate issue_id tool_ctx tool_args
  | McpTransition tool_ctx tool_args
  | McpComment uuid tool_ctx tool_args

fun issue_exec :: "issue_env \<Rightarrow> (nat \<Rightarrow> datetime) \<Rightarrow> (nat \<Rightarrow> tracker \<Rightarrow> tracker) \<Rightarrow> issue_call \<Rightarrow> tracker \<Rightarrow> tracker" where
  "issue_exec en clk others (DashCreate i c rq) s = snd (create_issue_api en clk others i c rq s)"
| "issue_exec en clk others (DashUpdate c raw rq) s = snd (update_issue_api en clk others c raw rq s)"
| "issue_exec en clk others (DashTransition c raw rq) s = snd (transition_issue_api en clk others c raw rq s)"
| "issue_exec en clk others (DashComment i c raw body) s = snd (add_issue_comment_api en clk others i c raw body s)"
| "issue_exec en clk others (DashLink c raw t) s = snd (link_issue_task_api en clk others c raw t s)"
| "issue_exec en clk others (DashUnlink c raw t) s = snd (unlink_issue_task_api en clk others c raw t s)"
| "issue_exec en clk others (McpCreate i c a) s = snd (handle_create_issue en clk others i c a s)"
| "issue_exec en clk others (McpTransition c a) s = snd (handle_transition_issue en clk others c a s)"
| "issue_exec en clk others (McpComment i c a) s = snd (handle_comment_issue en clk others i c a s)"

text \<open>The capabilities a call comes with.\<close>

fun caller_may :: "issue_call \<Rightarrow> permission_kind \<Rightarrow> bool" where
  "caller_may (DashCreate i c rq) k = has_permission (cl_principal c) k"
| "caller_may (DashUpdate c raw rq) k = has_permission (cl_principal c) k"
| "caller_may (DashTransition c raw rq) k = has_permission (cl_principal c) k"
| "caller_may (DashComment i c raw body) k = has_permission (cl_principal c) k"
| "caller_may (DashLink c raw t) k = has_permission (cl_principal c) k"
| "caller_may (DashUnlink c raw t) k = has_permission (cl_principal c) k"
| "caller_may (McpCreate i c a) k = ctx_has c k"
| "caller_may (McpTransition c a) k = ctx_has c k"
| "caller_may (McpComment i c a) k = ctx_has c k"

section \<open>Well-formed issue tables\<close>

definition linked_pairs :: "tracker \<Rightarrow> (issue_id \<times> task_id) list" where
  "linked_pairs s = List.map_filter (\<lambda>l. map_option (\<lambda>t. (il_issue_id l, t)) (il_task_id l)) (ms_issue_task_links (tk_store s))"

definition issues_ok :: "tracker \<Rightarrow> bool" where
  "issues_ok s \<longleftrightarrow> keyed is_id (tk_issues s) \<and> (\<forall>i \<in> set (hm_values (tk_issues s)). issue_ok i) \<and> distinct (linked_pairs s)"

lemma audit_keeps [simp]: "issues_ok (tracker_audit e s) = issues_ok s"
  by (simp add: issues_ok_def tracker_audit_def linked_pairs_def)

lemma demand_keeps: "demand now c k s = (r, s') \<Longrightarrow> issues_ok s' = issues_ok s"
  by (auto simp: issues_ok_def demand_def linked_pairs_def require_permission_def split: if_splits)

lemma create_keeps:
  assumes "create_issue i s = (r, s')" "issues_ok s" "issue_ok i"
  shows "issues_ok s'"
proof -
  have "issue_ok v" if "v \<in> set (hm_values (hm_insert (is_id i) i (tk_issues s)))" for v
    using that values_insert_subset[of "is_id i" i "tk_issues s"] assms(2,3) by (auto simp: issues_ok_def)
  then show ?thesis using assms by (auto simp: create_issue_def issues_ok_def linked_pairs_def intro: keyed_insert)
qed

lemma adjust_values: "v \<in> set (hm_values (hm_adjust k f m)) \<Longrightarrow> v \<in> set (hm_values m) \<or> (\<exists>w \<in> set (hm_values m). v = f w)"
  unfolding hm_values_def hm_adjust_def by (force split: if_splits)

lemma update_keeps:
  assumes "update_issue_fields now i s = (r, s')" "issues_ok s"
  shows "issues_ok s'"
proof -
  let ?f = "\<lambda>x. x\<lparr>is_title := is_title i, is_body := is_body i, is_severity := is_severity i,
                 is_labels := is_labels i, is_assignee := is_assignee i, is_updated_at := now\<rparr>"
  have "issue_ok v" if "v \<in> set (hm_values (hm_adjust (is_id i) ?f (tk_issues s)))" for v
    using adjust_values[OF that] assms(2) by (auto simp: issues_ok_def issue_ok_def)
  moreover have "keyed is_id (hm_adjust (is_id i) ?f (tk_issues s))"
    using assms(2) by (intro keyed_adjust) (auto simp: issues_ok_def)
  ultimately show ?thesis using assms by (auto simp: update_issue_fields_def issues_ok_def linked_pairs_def split: if_splits)
qed

lemma transition_keeps:
  assumes "transition_issue now i b reason s = (r, s')" "issues_ok s" "reason \<noteq> None \<longleftrightarrow> b = IsClosed"
  shows "issues_ok s'"
proof -
  let ?f = "\<lambda>x. x\<lparr>is_status := b, is_close_reason := reason, is_updated_at := now\<rparr>"
  have "issue_ok v" if "v \<in> set (hm_values (hm_adjust i ?f (tk_issues s)))" for v
    using adjust_values[OF that] assms(2,3) by (auto simp: issues_ok_def issue_ok_def)
  moreover have "keyed is_id (hm_adjust i ?f (tk_issues s))"
    using assms(2) by (intro keyed_adjust) (auto simp: issues_ok_def)
  ultimately show ?thesis using assms by (auto simp: transition_issue_def issues_ok_def linked_pairs_def split: if_splits)
qed

lemma comment_keeps: "add_issue_comment m s = (r, s') \<Longrightarrow> issues_ok s \<Longrightarrow> issues_ok s'"
  by (auto simp: add_issue_comment_def issues_ok_def linked_pairs_def)

lemma map_filter_append: "List.map_filter f (xs @ ys) = List.map_filter f xs @ List.map_filter f ys"
  by (induction xs) (auto simp: List.map_filter_simps split: option.splits)

lemma link_keeps:
  assumes "link_issue_task l s = (r, s')" "issues_ok s"
  shows "issues_ok s'"
proof (cases "il_task_id l")
  case None
  then have "linked_pairs s' = linked_pairs s" "tk_issues s' = tk_issues s"
    using assms(1) by (auto simp: link_issue_task_def linked_pairs_def map_filter_append List.map_filter_simps split: if_splits)
  then show ?thesis using assms(2) by (simp add: issues_ok_def)
next
  case (Some t)
  show ?thesis
  proof (cases "list_ex (\<lambda>x. il_issue_id x = il_issue_id l \<and> il_task_id x \<noteq> None \<and> il_task_id x = il_task_id l)
      (ms_issue_task_links (tk_store s))")
    case True
    then show ?thesis using assms by (simp add: link_issue_task_def)
  next
    case False
    then have "linked_pairs s' = linked_pairs s @ [(il_issue_id l, t)]" "tk_issues s' = tk_issues s"
      using assms(1) Some by (auto simp: link_issue_task_def linked_pairs_def map_filter_append List.map_filter_simps)
    moreover have "(il_issue_id l, t) \<notin> set (linked_pairs s)"
      using False Some by (auto simp: linked_pairs_def set_map_filter list_ex_iff)
    ultimately show ?thesis using assms(2) by (simp add: issues_ok_def)
  qed
qed

lemma distinct_map_filter_filter:
  "distinct (List.map_filter f xs) \<Longrightarrow> distinct (List.map_filter f (filter P xs))"
proof (induction xs)
  case (Cons x xs)
  have "set (List.map_filter f (filter P xs)) \<subseteq> set (List.map_filter f xs)" by (auto simp: set_map_filter)
  then show ?case using Cons by (auto simp: List.map_filter_simps split: option.splits)
qed simp

lemma unlink_keeps: "unlink_issue_task i t s = (r, s') \<Longrightarrow> issues_ok s \<Longrightarrow> issues_ok s'"
  by (auto simp: unlink_issue_task_def issues_ok_def linked_pairs_def Let_def distinct_map_filter_filter)

lemma transition_to_valid: "transition_to now b reason i = Inr j \<Longrightarrow> is_close_reason j \<noteq> None \<longleftrightarrow> is_status j = IsClosed"
  by (auto simp: transition_to_iff)

lemmas keeps = demand_keeps create_keeps update_keeps comment_keeps link_keeps unlink_keeps

section \<open>Every call keeps the tables well-formed\<close>

definition steady :: "(nat \<Rightarrow> tracker \<Rightarrow> tracker) \<Rightarrow> bool" where
  "steady others \<longleftrightarrow> (\<forall>n s. issues_ok s \<longrightarrow> issues_ok (others n s))"

lemma steadyD: "steady others \<Longrightarrow> issues_ok s \<Longrightarrow> issues_ok (others n s)"
  by (simp add: steady_def)

lemma transition_keeps':
  "transition_issue now (is_id j) (is_status j) (is_close_reason j) s = (r, s') \<Longrightarrow> transition_to now' b reason i = Inr j \<Longrightarrow>
   issues_ok s \<Longrightarrow> issues_ok s'"
  using transition_keeps transition_to_valid by metis

lemma transition_api_keeps: "steady others \<Longrightarrow> issues_ok s \<Longrightarrow> issues_ok (snd (transition_issue_api en clk others c raw rq s))"
  unfolding transition_issue_api_def Let_def
  by (auto split: sum.split option.split prod.split bool.split intro: steadyD)
    (metis audit_keeps demand_keeps steadyD transition_keeps')+

lemma mcp_transition_keeps: "steady others \<Longrightarrow> issues_ok s \<Longrightarrow> issues_ok (snd (handle_transition_issue en clk others c a s))"
  unfolding handle_transition_issue_def Let_def
  by (auto split: sum.split option.split prod.split bool.split intro: steadyD)
    (metis audit_keeps demand_keeps steadyD transition_keeps')+

lemma link_api_keeps: "steady others \<Longrightarrow> issues_ok s \<Longrightarrow> issues_ok (snd (link_issue_task_api en clk others c raw t s))"
  unfolding link_issue_task_api_def Let_def
  by (auto split: sum.split option.split prod.split bool.split intro: steadyD)
    (metis audit_keeps demand_keeps steadyD link_keeps)+

lemma unlink_api_keeps: "steady others \<Longrightarrow> issues_ok s \<Longrightarrow> issues_ok (snd (unlink_issue_task_api en clk others c raw t s))"
  unfolding unlink_issue_task_api_def Let_def
  by (auto split: sum.split option.split prod.split bool.split intro: steadyD)
    (metis audit_keeps demand_keeps steadyD unlink_keeps)+

lemma comment_api_keeps: "steady others \<Longrightarrow> issues_ok s \<Longrightarrow> issues_ok (snd (add_issue_comment_api en clk others i c raw body s))"
  unfolding add_issue_comment_api_def Let_def
  by (auto split: sum.split option.split prod.split bool.split intro: steadyD)
    (metis audit_keeps demand_keeps steadyD comment_keeps)+

lemma mcp_comment_keeps: "steady others \<Longrightarrow> issues_ok s \<Longrightarrow> issues_ok (snd (handle_comment_issue en clk others i c a s))"
  unfolding handle_comment_issue_def Let_def
  by (auto split: sum.split option.split prod.split bool.split intro: steadyD)
    (metis audit_keeps demand_keeps steadyD comment_keeps)+

lemma update_api_keeps:
  assumes "steady others" "issues_ok s"
  shows "issues_ok (snd (update_issue_api en clk others c raw rq s))"
proof -
  note d = update_issue_api_def Let_def
  obtain r1 s1 where d1: "demand (clk 0) c PIssueUpdate s = (r1, s1)" by fastforce
  then have ok1: "issues_ok s1" using assms(2) demand_keeps by blast
  obtain r2 s2 where d2: "(if ur_assignee rq \<noteq> None then demand (clk 1) c PIssueAssign s1 else (Inr (), s1)) = (r2, s2)" by fastforce
  then have ok2: "issues_ok s2" using ok1 demand_keeps by (metis prod.inject)
  then have okt: "issues_ok (others 0 s2)" using assms(1) steadyD by blast
  show ?thesis
  proof (cases "r1 = Inr () \<and> verify_csrf_header c = Inr () \<and> r2 = Inr ()")
    case False
    then show ?thesis using d1 d2 ok1 ok2 by (cases r1; cases "verify_csrf_header c"; cases r2) (simp_all add: d)
  next
    case go: True
    then have run: "update_issue_api en clk others c raw rq s = (case parse_load en raw (others 0 s2) of
        Inl e \<Rightarrow> (Inl e, others 0 s2)
      | Inr i \<Rightarrow> (case edited rq i of
            Inl e \<Rightarrow> (Inl e, others 0 s2)
          | Inr i \<Rightarrow> (case update_issue_fields (clk 2) i (others 1 (others 0 s2)) of
                (Inl e, s) \<Rightarrow> (Inl (ApiStore (ie_error_text en e)), s)
              | (Inr _, s) \<Rightarrow>
                  (case load_issue en (is_id i) (others 2 (tracker_audit (issue_event en (clk 3) c ''issue.update''
                      (Some (is_project_id i)) (is_id i)) s)) of
                     Inl e \<Rightarrow> (Inl e, others 2 (tracker_audit (issue_event en (clk 3) c ''issue.update''
                      (Some (is_project_id i)) (is_id i)) s))
                   | Inr j \<Rightarrow> (issue_summary_for en j (others 2 (tracker_audit (issue_event en (clk 3) c ''issue.update''
                      (Some (is_project_id i)) (is_id i)) s)), others 2 (tracker_audit (issue_event en (clk 3) c ''issue.update''
                      (Some (is_project_id i)) (is_id i)) s))))))"
      using d1 d2 unfolding update_issue_api_def Let_def by simp
    show ?thesis
    proof (cases "\<exists>x i. parse_load en raw (others 0 s2) = Inr x \<and> edited rq x = Inr i")
      case False
      then show ?thesis unfolding run using okt by (auto split: sum.split)
    next
      case True
      then obtain x i where x: "parse_load en raw (others 0 s2) = Inr x" "edited rq x = Inr i" by blast
      obtain r3 s3 where u: "update_issue_fields (clk 2) i (others 1 (others 0 s2)) = (r3, s3)" by fastforce
      then have "issues_ok s3" using okt assms(1) steadyD update_keeps by blast
      then show ?thesis unfolding run using x u assms(1) by (auto split: sum.split intro: steadyD)
    qed
  qed
qed

text \<open>The issue a creating call writes.\<close>

definition fresh_open :: "issue_id \<Rightarrow> issue \<Rightarrow> bool" where
  "fresh_open i x \<longleftrightarrow> issue_ok x \<and> is_status x = IsOpen \<and> is_id x = i"

lemma fresh_open_new: "fresh_open i (new_issue now i p t u)"
  by (simp add: fresh_open_def) (simp add: new_issue_def)

lemma fresh_open_fields:
  "fresh_open i x \<Longrightarrow> fresh_open i (x\<lparr>is_body := b\<rparr>)" "fresh_open i x \<Longrightarrow> fresh_open i (x\<lparr>is_labels := ls\<rparr>)"
  "fresh_open i x \<Longrightarrow> fresh_open i (x\<lparr>is_severity := v\<rparr>)"
  by (simp_all add: fresh_open_def issue_ok_def)

lemma drafted_fresh: "drafted rq x = Inr y \<Longrightarrow> fresh_open i x \<Longrightarrow> fresh_open i y"
  by (auto simp: drafted_def Let_def fresh_open_fields split: option.splits sum.splits)

lemma mcp_drafted_fresh: "mcp_drafted a x = Inr y \<Longrightarrow> fresh_open i x \<Longrightarrow> fresh_open i y"
  by (auto simp: mcp_drafted_def Let_def fresh_open_fields split: option.splits sum.splits)

lemma create_api_cases:
  assumes "create_issue_api en clk others new_id c rq s = (r, s')"
  obtains (refused) a where "s' = s\<lparr>tk_access := a\<rparr>"
    | (late) "s' = others 0 s"
    | (written) x e where "fresh_open new_id x"
        "s' = others 2 (tracker_audit e (snd (create_issue x (others 1 (others 0 s)))))"
proof -
  note d = create_issue_api_def Let_def demand_def
  obtain b a where p: "require_permission (clk 0) (cl_principal c) PIssueCreate (tk_access s) = (b, a)" by fastforce
  have same: "a = tk_access s" if b using p that by (auto simp: require_permission_def split: if_splits)
  show thesis
  proof (cases "b \<and> verify_csrf_header c = Inr () \<and> trim (cr_title rq) \<noteq> [] \<and> ie_parse_project en (cr_project_id rq) \<noteq> None")
    case False
    then show thesis using assms p refused
      by (cases b; cases "verify_csrf_header c") (auto simp: d split: if_splits option.splits)
  next
    case True
    then obtain pid where pid: "ie_parse_project en (cr_project_id rq) = Some pid" by blast
    show thesis
    proof (cases "hm_get (ms_projects (tk_store (others 0 s))) pid")
      case None
      then show thesis using assms p True pid same late by (auto simp: d get_project_def)
    next
      case (Some proj)
      let ?n = "new_issue (clk 1) new_id pid (trim (cr_title rq)) (us_username (pc_user (cl_principal c)))"
      show thesis
      proof (cases "drafted rq ?n")
        case (Inl e)
        then show thesis using assms p True pid same late Some by (auto simp: d get_project_def)
      next
        case (Inr x)
        then have "fresh_open new_id x" using drafted_fresh fresh_open_new by blast
        then show thesis using assms p True pid same Some Inr
          by (intro written[of x]) (auto simp: d get_project_def create_issue_def)
      qed
    qed
  qed
qed

lemma mcp_create_cases:
  assumes "handle_create_issue en clk others new_id c a s = (r, s')"
  obtains (refused) "s' = s"
    | (late) "s' = others 0 s"
    | (written) x e where "fresh_open new_id x"
        "s' = tracker_audit e (snd (create_issue x (others 1 (others 0 s))))"
proof -
  note d = handle_create_issue_def Let_def
  show thesis
  proof (cases "\<exists>title pid. need_object a = Inr () \<and> need_str a ''title'' = Inr title \<and> trim title \<noteq> [] \<and>
      need_id (ie_parse_project en) a ''project_id'' = Inr pid")
    case False
    then show thesis using assms refused by (auto simp: d split: sum.splits if_splits)
  next
    case True
    then obtain title pid where t: "need_object a = Inr ()" "need_str a ''title'' = Inr title" "trim title \<noteq> []"
      "need_id (ie_parse_project en) a ''project_id'' = Inr pid" by blast
    show thesis
    proof (cases "hm_get (ms_projects (tk_store (others 0 s))) pid")
      case None
      then show thesis using assms t late by (auto simp: d get_project_def)
    next
      case (Some proj)
      let ?n = "new_issue (clk 0) new_id pid (trim title) (tc_created_by c)"
      show thesis
      proof (cases "mcp_drafted a ?n")
        case (Inl e)
        then show thesis using assms t late Some by (auto simp: d get_project_def)
      next
        case (Inr x)
        then have "fresh_open new_id x" using mcp_drafted_fresh fresh_open_new by blast
        then show thesis using assms t Some Inr
          by (intro written[of x]) (auto simp: d get_project_def create_issue_def)
      qed
    qed
  qed
qed

lemma access_keeps [simp]: "issues_ok (s\<lparr>tk_access := a\<rparr>) = issues_ok s"
  by (simp add: issues_ok_def linked_pairs_def)

lemma create_snd_keeps: "issues_ok s \<Longrightarrow> fresh_open i x \<Longrightarrow> issues_ok (snd (create_issue x s))"
  using create_keeps by (metis fresh_open_def prod.collapse)

lemma create_api_keeps:
  assumes "steady others" "issues_ok s"
  shows "issues_ok (snd (create_issue_api en clk others i c rq s))"
proof -
  obtain r s' where run: "create_issue_api en clk others i c rq s = (r, s')" by fastforce
  from run have "issues_ok s'" using assms
    by (cases rule: create_api_cases) (auto intro!: steadyD[of others] intro: create_snd_keeps)
  then show ?thesis using run by simp
qed

lemma mcp_create_keeps:
  assumes "steady others" "issues_ok s"
  shows "issues_ok (snd (handle_create_issue en clk others i c a s))"
proof -
  obtain r s' where run: "handle_create_issue en clk others i c a s = (r, s')" by fastforce
  from run have "issues_ok s'" using assms
    by (cases rule: mcp_create_cases) (auto intro!: steadyD[of others] intro: create_snd_keeps)
  then show ?thesis using run by simp
qed

text \<open>
  C33. Whatever other requests do in between, as long as they keep it too, every issue call of the
  dashboard and of the MCP server keeps the issue tables well-formed: each issue is stored under its own
  id, carries a closing reason exactly when it is closed, and no task is linked to an issue twice.
\<close>

theorem issues_stay_ok:
  assumes "issues_ok s" "\<forall>n s. issues_ok s \<longrightarrow> issues_ok (others n s)"
  shows "issues_ok (issue_exec en clk others k s)"
proof -
  have st: "steady others" using assms(2) by (simp add: steady_def)
  show ?thesis
    by (cases k)
      (simp_all add: assms(1) st create_api_keeps update_api_keeps transition_api_keeps comment_api_keeps link_api_keeps
        unlink_api_keeps mcp_create_keeps mcp_transition_keeps mcp_comment_keeps)
qed


section \<open>Status changes are authorised\<close>

abbreviation calm :: "nat \<Rightarrow> tracker \<Rightarrow> tracker" where
  "calm \<equiv> \<lambda>_ s. s"

lemma demand_granted: "demand now c k s = (Inr u, s') \<Longrightarrow> has_permission (cl_principal c) k \<and> s' = s"
  by (auto simp: demand_def require_permission_def split: if_splits)

lemma demand_issues: "demand now c k s = (r, s') \<Longrightarrow> tk_issues s' = tk_issues s"
  by (auto simp: demand_def split: prod.splits bool.splits)

lemma parse_load_get: "parse_load en raw s = Inr x \<Longrightarrow> \<exists>i. hm_get (tk_issues s) i = Some x"
  by (auto simp: parse_load_def load_issue_def get_issue_def split: sum.splits option.splits)

text \<open>The write of a transition: which issue, from where to where.\<close>

definition transition_write :: "issue_status \<Rightarrow> tracker \<Rightarrow> tracker \<Rightarrow> bool" where
  "transition_write b s s' \<longleftrightarrow> (\<exists>now now' reason i x j. hm_get (tk_issues s) i = Some x \<and> transition_to now b reason x = Inr j \<and>
     tk_issues s' = tk_issues (snd (transition_issue now' (is_id j) (is_status j) (is_close_reason j) s)))"

lemma transition_writeI:
  "hm_get (tk_issues s) i = Some x \<Longrightarrow> transition_to now b reason x = Inr j \<Longrightarrow>
   transition_issue now' (is_id j) (is_status j) (is_close_reason j) s = (r, t) \<Longrightarrow> tk_issues s' = tk_issues t \<Longrightarrow>
   transition_write b s s'"
  unfolding transition_write_def by (metis snd_conv)

lemma audit_issues [simp]: "tk_issues (tracker_audit e s) = tk_issues s"
  by (simp add: tracker_audit_def)

lemma transition_api_effect:
  assumes "transition_issue_api en clk calm c raw rq s = (r, s')"
  shows "tk_issues s' = tk_issues s \<or>
    (\<exists>b. has_permission (cl_principal c) (required_capability_for_transition b) \<and> transition_write b s s')"
proof -
  note d = transition_issue_api_def Let_def
  show ?thesis
  proof (cases "\<exists>b reason. verify_csrf_header c = Inr () \<and> issue_status_parse (tr_status rq) = Some b \<and>
      parse_reason (tr_close_reason rq) = Inr reason \<and> fst (demand (clk 0) c (required_capability_for_transition b) s) = Inr ()")
    case False
    then have "tk_issues s' = tk_issues s"
      using assms by (auto simp: d dest: demand_issues split: sum.splits option.splits prod.splits)
    then show ?thesis by simp
  next
    case True
    then obtain b reason s1 where b: "verify_csrf_header c = Inr ()" "issue_status_parse (tr_status rq) = Some b"
      "parse_reason (tr_close_reason rq) = Inr reason" "demand (clk 0) c (required_capability_for_transition b) s = (Inr (), s1)"
      by (metis prod.collapse)
    have p: "has_permission (cl_principal c) (required_capability_for_transition b)" "s1 = s"
      using demand_granted[OF b(4)] by auto
    show ?thesis
    proof (cases "\<exists>x j. parse_load en raw s = Inr x \<and> transition_to (clk 1) b reason x = Inr j")
      case False
      then have "tk_issues s' = tk_issues s" using assms b p by (auto simp: d split: sum.splits)
      then show ?thesis by simp
    next
      case True
      then obtain x j where x: "parse_load en raw s = Inr x" "transition_to (clk 1) b reason x = Inr j" by blast
      obtain i where i: "hm_get (tk_issues s) i = Some x" using parse_load_get[OF x(1)] by blast
      obtain q t where t: "transition_issue (clk 2) (is_id j) (is_status j) (is_close_reason j) s = (q, t)" by fastforce
      have "tk_issues s' = tk_issues t" using assms b p x t by (auto simp: d split: sum.splits)
      then show ?thesis using p transition_writeI[OF i x(2) t] by blast
    qed
  qed
qed

lemma mcp_transition_effect:
  assumes "handle_transition_issue en clk calm c a s = (r, s')"
  shows "tk_issues s' = tk_issues s \<or>
    (\<exists>b. ctx_has c (required_capability_for_transition b) \<and> transition_write b s s')"
proof -
  note d = handle_transition_issue_def Let_def
  define parsed where "parsed = (case ta_str a ''close_reason'' of
                   Some raw \<Rightarrow> (case close_reason_parse raw of Some r \<Rightarrow> Inr (Some r)
                                | None \<Rightarrow> Inl (InvalidParams (plain_text (''unknown close_reason: '' @ raw))))
                 | None \<Rightarrow> Inr None)"
  show ?thesis
  proof (cases "\<exists>raw b reason i x j. need_object a = Inr () \<and> need_str a ''status'' = Inr raw \<and> issue_status_parse raw = Some b \<and>
      ctx_has c (required_capability_for_transition b) \<and> parsed = Inr reason \<and> need_id (ie_parse_issue en) a ''issue_id'' = Inr i \<and>
      hm_get (tk_issues s) i = Some x \<and> transition_to (clk 0) b reason x = Inr j")
    case False
    then have "tk_issues s' = tk_issues s"
      using assms unfolding d parsed_def[symmetric]
      by (auto simp: get_issue_def split: sum.splits option.splits if_splits)
    then show ?thesis by simp
  next
    case True
    then obtain raw b reason i x j where x: "need_object a = Inr ()" "need_str a ''status'' = Inr raw" "issue_status_parse raw = Some b"
      "ctx_has c (required_capability_for_transition b)" "parsed = Inr reason" "need_id (ie_parse_issue en) a ''issue_id'' = Inr i"
      "hm_get (tk_issues s) i = Some x" "transition_to (clk 0) b reason x = Inr j" by blast
    obtain q t where t: "transition_issue (clk 1) (is_id j) (is_status j) (is_close_reason j) s = (q, t)" by fastforce
    have "tk_issues s' = tk_issues t"
      using assms x t unfolding d parsed_def[symmetric] by (auto simp: get_issue_def split: sum.splits)
    then show ?thesis using x(4) transition_writeI[OF x(7) x(8) t] by blast
  qed
qed

text \<open>What one call may do to an issue.\<close>

definition step_fine :: "(permission_kind \<Rightarrow> bool) \<Rightarrow> tracker \<Rightarrow> tracker \<Rightarrow> bool" where
  "step_fine may_do s s' \<longleftrightarrow>
     (\<forall>i x. hm_get (tk_issues s) i = Some x \<longrightarrow> (\<exists>y. hm_get (tk_issues s') i = Some y \<and> (is_status y = is_status x \<or>
        issue_transition_allowed (is_status x) (is_status y) \<and> may_do (required_capability_for_transition (is_status y))))) \<and>
     (\<forall>i y. hm_get (tk_issues s) i = None \<longrightarrow> hm_get (tk_issues s') i = Some y \<longrightarrow> is_status y = IsOpen)"

lemma step_fine_same: "tk_issues s' = tk_issues s \<Longrightarrow> step_fine may_do s s'"
  by (simp add: step_fine_def)

lemma step_fine_transition:
  assumes "transition_write b s s'" "may_do (required_capability_for_transition b)" "keyed is_id (tk_issues s)"
  shows "step_fine may_do s s'"
proof -
  obtain now now' reason i x j where w: "hm_get (tk_issues s) i = Some x" "transition_to now b reason x = Inr j"
     "tk_issues s' = tk_issues (snd (transition_issue now' (is_id j) (is_status j) (is_close_reason j) s))"
    using assms(1) unfolding transition_write_def by blast
  have j: "issue_transition_allowed (is_status x) b" "is_status j = b" "is_id j = i"
    using w(2) keyed_get[OF assms(3) w(1)] by (auto simp: transition_to_iff)
  then have "tk_issues s' = hm_adjust i (\<lambda>x. x\<lparr>is_status := b, is_close_reason := is_close_reason j, is_updated_at := now'\<rparr>) (tk_issues s)"
    using w(1,3) by (simp add: transition_issue_def)
  then show ?thesis using j(1) assms(2) w(1) by (auto simp: step_fine_def)
qed

lemma step_fine_update:
  assumes "update_issue_fields now i s = (r, t)" "tk_issues s' = tk_issues t"
  shows "step_fine may_do s s'"
  using assms by (auto simp: update_issue_fields_def step_fine_def split: if_splits)

lemma step_fine_create:
  assumes "fresh_open i x" "hm_get (tk_issues s) i = None" "tk_issues s' = tk_issues (snd (create_issue x s))"
  shows "step_fine may_do s s'"
  using assms by (auto simp: create_issue_def step_fine_def fresh_open_def split: if_splits)

lemma update_api_effect:
  assumes "update_issue_api en clk calm c raw rq s = (r, s')"
  shows "tk_issues s' = tk_issues s \<or> (\<exists>now i q t. update_issue_fields now i s = (q, t) \<and> tk_issues s' = tk_issues t)"
proof -
  obtain r1 s1 where d1: "demand (clk 0) c PIssueUpdate s = (r1, s1)" by fastforce
  obtain r2 s2 where d2: "(if ur_assignee rq \<noteq> None then demand (clk 1) c PIssueAssign s1 else (Inr (), s1)) = (r2, s2)" by fastforce
  have same: "tk_issues s1 = tk_issues s" "tk_issues s2 = tk_issues s"
    using d1 d2 demand_issues by (metis, metis prod.inject)
  note d = update_issue_api_def Let_def
  show ?thesis
  proof (cases "r1 = Inr () \<and> verify_csrf_header c = Inr () \<and> r2 = Inr ()")
    case False
    then have "tk_issues s' = tk_issues s" using assms d1 d2 same
      by (cases r1; cases "verify_csrf_header c"; cases r2) (auto simp: d)
    then show ?thesis by simp
  next
    case go: True
    have eq: "s2 = s" using go d1 d2 demand_granted by (metis prod.inject)
    show ?thesis
    proof (cases "\<exists>x i. parse_load en raw s = Inr x \<and> edited rq x = Inr i")
      case False
      then have "tk_issues s' = tk_issues s" using assms go d1 d2 eq unfolding d by (auto split: sum.splits)
      then show ?thesis by simp
    next
      case True
      then obtain x i where x: "parse_load en raw s = Inr x" "edited rq x = Inr i" by blast
      obtain q t where u: "update_issue_fields (clk 2) i s = (q, t)" by fastforce
      have "tk_issues s' = tk_issues t" using assms go d1 d2 eq x u unfolding d by (auto split: sum.splits)
      then show ?thesis using u by blast
    qed
  qed
qed

lemma write_issues:
  "link_issue_task l s = (q, t) \<Longrightarrow> tk_issues t = tk_issues s"
  "unlink_issue_task i j s = (q, t) \<Longrightarrow> tk_issues t = tk_issues s"
  "add_issue_comment m s = (q', t) \<Longrightarrow> tk_issues t = tk_issues s"
  by (auto simp: link_issue_task_def unlink_issue_task_def add_issue_comment_def Let_def split: if_splits)

lemma link_api_issues: "tk_issues (snd (link_issue_task_api en clk calm c raw t s)) = tk_issues s"
  unfolding link_issue_task_api_def Let_def
  by (auto split: sum.split option.split prod.split bool.split) (metis demand_issues write_issues(1))+

lemma unlink_api_issues: "tk_issues (snd (unlink_issue_task_api en clk calm c raw t s)) = tk_issues s"
  unfolding unlink_issue_task_api_def Let_def
  by (auto split: sum.split option.split prod.split bool.split) (metis demand_issues write_issues(2))+

lemma comment_api_issues: "tk_issues (snd (add_issue_comment_api en clk calm i c raw body s)) = tk_issues s"
  unfolding add_issue_comment_api_def Let_def
  by (auto split: sum.split option.split prod.split bool.split) (metis demand_issues write_issues(3))+

lemma mcp_comment_issues: "tk_issues (snd (handle_comment_issue en clk calm i c a s)) = tk_issues s"
  unfolding handle_comment_issue_def Let_def
  by (auto split: sum.split option.split prod.split bool.split) (metis write_issues(3))+

fun new_id_of :: "issue_call \<Rightarrow> issue_id option" where
  "new_id_of (DashCreate i c rq) = Some i"
| "new_id_of (McpCreate i c a) = Some i"
| "new_id_of _ = None"

text \<open>
  C32. An undisturbed call of either surface never removes an issue, creates issues open only, and changes
  the status of an issue only along an edge of the status machine and only for a caller who holds the
  capability the target status demands; in particular only the capability to approve agent work makes
  an issue ready for agents, and only out of triage.
\<close>

theorem status_changes_authorised:
  assumes "issues_ok s" "\<forall>i. new_id_of k = Some i \<longrightarrow> hm_get (tk_issues s) i = None"
  shows "(\<forall>i x. hm_get (tk_issues s) i = Some x \<longrightarrow> (\<exists>y. hm_get (tk_issues (issue_exec en clk calm k s)) i = Some y \<and>
      (is_status y = is_status x \<or> issue_transition_allowed (is_status x) (is_status y) \<and>
         caller_may k (required_capability_for_transition (is_status y))))) \<and>
    (\<forall>i y. hm_get (tk_issues s) i = None \<longrightarrow> hm_get (tk_issues (issue_exec en clk calm k s)) i = Some y \<longrightarrow> is_status y = IsOpen)"
proof -
  have key: "keyed is_id (tk_issues s)" using assms(1) by (simp add: issues_ok_def)
  have "step_fine (caller_may k) s (issue_exec en clk calm k s)"
  proof (cases k)
    case (DashCreate i c rq)
    obtain r s' where run: "create_issue_api en clk calm i c rq s = (r, s')" by fastforce
    from run have "step_fine (caller_may k) s s'"
    proof (cases rule: create_api_cases)
      case (written x e)
      then show ?thesis using assms(2) DashCreate by (intro step_fine_create[of i x]) auto
    qed (auto intro: step_fine_same)
    then show ?thesis using DashCreate run by simp
  next
    case (McpCreate i c a)
    obtain r s' where run: "handle_create_issue en clk calm i c a s = (r, s')" by fastforce
    from run have "step_fine (caller_may k) s s'"
    proof (cases rule: mcp_create_cases)
      case (written x e)
      then show ?thesis using assms(2) McpCreate by (intro step_fine_create[of i x]) auto
    qed (auto intro: step_fine_same)
    then show ?thesis using McpCreate run by simp
  next
    case (DashUpdate c raw rq)
    obtain r s' where run: "update_issue_api en clk calm c raw rq s = (r, s')" by fastforce
    then show ?thesis using update_api_effect[OF run] DashUpdate step_fine_same step_fine_update by auto
  next
    case (DashTransition c raw rq)
    obtain r s' where run: "transition_issue_api en clk calm c raw rq s = (r, s')" by fastforce
    then show ?thesis using transition_api_effect[OF run] DashTransition step_fine_same step_fine_transition[OF _ _ key] by auto
  next
    case (McpTransition c a)
    obtain r s' where run: "handle_transition_issue en clk calm c a s = (r, s')" by fastforce
    then show ?thesis using mcp_transition_effect[OF run] McpTransition step_fine_same step_fine_transition[OF _ _ key] by auto
  qed (auto intro!: step_fine_same simp: link_api_issues unlink_api_issues comment_api_issues mcp_comment_issues)
  then show ?thesis by (simp add: step_fine_def)
qed

section \<open>Instances\<close>

definition plain_env :: issue_env where
  "plain_env = \<lparr> ie_parse_issue = (\<lambda>r. if r = ''1'' then Some (IssueId 1) else None), ie_show_issue = (\<lambda>_. ''1''),
     ie_parse_project = (\<lambda>r. if r = ''7'' then Some (ProjectId 7) else None), ie_show_project = (\<lambda>_. ''7''),
     ie_parse_task = (\<lambda>_. None), ie_show_task = (\<lambda>_. []), ie_error_text = (\<lambda>_. []) \<rparr>"

abbreviation triaged_issue :: issue where
  "triaged_issue \<equiv> (new_issue 0 (IssueId 1) (ProjectId 7) ''t'' ''u'')\<lparr>is_status := IsTriaged\<rparr>"

definition one_issue :: tracker where
  "one_issue = \<lparr> tk_store = empty_store, tk_access = empty_access, tk_issues = [(IssueId 1, triaged_issue)], tk_comments = [] \<rparr>"

definition approve_args :: tool_args where
  "approve_args = \<lparr> ta_is_object = True, ta_has = (\<lambda>_. True),
     ta_str = [''status'' \<mapsto> ''ready_for_agent'', ''issue_id'' \<mapsto> ''1''], ta_bool = (\<lambda>_. None), ta_u64 = (\<lambda>_. None),
     ta_array = (\<lambda>_. None), ta_strings = (\<lambda>_. None) \<rparr>"

abbreviation approver :: tool_ctx where
  "approver \<equiv> \<lparr> tc_capabilities = [PIssueApproveAgentWork], tc_created_by = ''mcp'' \<rparr>"

lemma issues_ok_one: "issues_ok one_issue"
  by (simp add: issues_ok_def one_issue_def keyed_def hm_ok_def new_issue_def issue_ok_def linked_pairs_def empty_store_def
      List.map_filter_simps)

lemma approved: "hm_get (tk_issues (issue_exec plain_env (\<lambda>_. 5) calm (McpTransition approver approve_args) one_issue)) (IssueId 1)
    = Some (triaged_issue\<lparr>is_status := IsReadyForAgent, is_updated_at := 5\<rparr>)"
  by (simp add: handle_transition_issue_def need_object_def need_str_def need_id_def ctx_has_def approve_args_def issue_status_parse_def
      plain_env_def one_issue_def get_issue_def hm_get_def transition_to_def issue_transition_allowed_def new_issue_def
      transition_issue_def issue_has_active_tasks_def hm_adjust_def Let_def)

lemma issues_stay_ok_witness:
  "issues_ok (issue_exec plain_env (\<lambda>_. 5) (\<lambda>n s. snd (add_issue_comment (new_comment 0 1 (IssueId 1) [] ''hi'') s))
     (McpTransition approver approve_args) one_issue)"
  by (rule issues_stay_ok[OF issues_ok_one]) (metis comment_keeps prod.collapse)

lemma status_changes_authorised_witness:
  "issue_transition_allowed IsTriaged IsReadyForAgent \<and> caller_may (McpTransition approver approve_args) PIssueApproveAgentWork"
proof -
  have "\<forall>i. new_id_of (McpTransition approver approve_args) = Some i \<longrightarrow> hm_get (tk_issues one_issue) i = None" by simp
  from status_changes_authorised[OF issues_ok_one this, of plain_env "\<lambda>_. 5"]
  have "\<exists>y. hm_get (tk_issues (issue_exec plain_env (\<lambda>_. 5) calm (McpTransition approver approve_args) one_issue)) (IssueId 1) = Some y \<and>
      (is_status y = IsTriaged \<or> issue_transition_allowed IsTriaged (is_status y) \<and>
         caller_may (McpTransition approver approve_args) (required_capability_for_transition (is_status y)))"
    by (force simp: one_issue_def hm_get_def)
  then show ?thesis unfolding approved by simp
qed

text \<open>
  The check and the write are two store calls, and the write does not look at the stored status: a
  transition checked against an open issue goes through although the issue was closed in between, an
  edge the status machine does not have.
\<close>

lemma stale_transition_reopens:
  assumes "csrf_valid (cl_csrf_cookie c) (cl_csrf_header c)" "has_permission (cl_principal c) PIssueUpdate"
    "ie_parse_issue en raw = Some i" "rq = \<lparr> tr_status = ''triaged'', tr_close_reason = None \<rparr>"
    "hm_get (tk_issues (others 0 s)) i = Some x" "is_status x = IsOpen" "is_id x = i"
    "hm_get (tk_issues (others 1 (others 0 s))) i = Some y" "is_status y = IsClosed" "others 2 = (\<lambda>s. s)"
  shows "hm_get (tk_issues (snd (transition_issue_api en clk others c raw rq s))) i =
      Some (y\<lparr>is_status := IsTriaged, is_close_reason := None, is_updated_at := clk 2\<rparr>) \<and>
    \<not> issue_transition_allowed IsClosed IsTriaged"
  using assms
  by (auto simp: transition_issue_api_def verify_csrf_header_def issue_status_parse_def demand_def require_permission_def
      parse_reason_def nonempty_def parse_load_def parse_issue_id_def load_issue_def get_issue_def transition_to_def
      issue_transition_allowed_def transition_issue_def issue_summary_for_def issue_has_active_tasks_def Let_def)

end
