(* ===== verification/Dispatcher.thy ===== *)
theory Dispatcher
  imports Dispatch_State
begin

text \<open>
  The dispatcher (\<open>crates/fleet-scheduler/src/dispatcher.rs\<close>): submission, dispatch, worker events,
  cancellation. \<open>en\<close> is what the operation reads from outside, \<open>f\<close> the instance it runs on.
  Logging is left out.
\<close>

section \<open>Breaker bookkeeping\<close>

definition get_worker_circuit_state :: "worker_id \<Rightarrow> mem_store \<Rightarrow> circuit_state" where
  "get_worker_circuit_state w s =
     (case get_worker w s of Inr (Some wk) \<Rightarrow> w_circuit_state wk | Inr None \<Rightarrow> CClosed | Inl _ \<Rightarrow> CClosed)"

definition persist_breaker_transition ::
    "datetime \<Rightarrow> worker_id \<Rightarrow> breaker_state \<Rightarrow> breaker_state \<Rightarrow> fleet \<Rightarrow> fleet" where
  "persist_breaker_transition now w old_state new_state f =
     (if old_state = new_state then f
      else log_event (WorkerCircuitChanged w (circuit_of old_state) (circuit_of new_state) now)
        (snd (with_store (update_worker_circuit_state w (circuit_of new_state)) f)))"

text \<open>\<open>cb.record(outcome)\<close> on the worker's shared breaker, then the persisted transition.\<close>

definition record_and_persist :: "env \<Rightarrow> point \<Rightarrow> worker_id \<Rightarrow> outcome \<Rightarrow> fleet \<Rightarrow> fleet" where
  "record_and_persist en p w out f =
     (let initial = get_worker_circuit_state w (fl_store f);
          old_state = bi_state (fst (reg_get (en_instant en p) w initial (fl_breakers f)))
      in case reg_record (en_breaker_config en) (en_instant en p) w initial out (fl_breakers f) of
        (new_state, breakers) \<Rightarrow>
          persist_breaker_transition (en_now en p) w old_state new_state (f\<lparr>fl_breakers := breakers\<rparr>))"

section \<open>Recording a failure\<close>

definition mark_failed ::
    "env \<Rightarrow> point \<Rightarrow> task_id \<Rightarrow> task_phase list \<Rightarrow> task_failure \<Rightarrow> transition_origin \<Rightarrow> fleet \<Rightarrow> bool \<times> fleet" where
  "mark_failed en p i expected failure origin f =
     (case with_store (compare_and_set_task_status (en_now en p) i expected (Failed failure) origin (fence_at en p)) f of
        (Inr Applied, f) \<Rightarrow> (True, log_event (TaskFailed i failure (en_now en p)) f)
      | (_, f) \<Rightarrow> (False, f))"

definition fail_pending :: "env \<Rightarrow> bool \<Rightarrow> task_id \<Rightarrow> task_failure \<Rightarrow> fleet \<Rightarrow> fleet" where
  "fail_pending en mark_unavailable_as_failed i failure f =
     (if mark_unavailable_as_failed then snd (mark_failed en AtFailure i [PhPending] failure ControlDecision f)
      else f)"

section \<open>Recovering a worker before new work\<close>

definition vanished_session_failure :: "worker_id \<Rightarrow> string \<Rightarrow> task_failure" where
  "vanished_session_failure w session = \<lparr>
     tf_error = Msg ''worker {} no longer holds ACP session {} for this task - the execution ended without reporting a result''
       [ArgWorker w, ArgStr session],
     tf_kind = ExecutionVanished, tf_worker_id = Some w, tf_attempts = 0 \<rparr>"

fun reap_loop :: "env \<Rightarrow> worker_id \<Rightarrow> string list \<Rightarrow> task list \<Rightarrow> fleet \<Rightarrow> fleet" where
  "reap_loop en w live [] f = f"
| "reap_loop en w live (t # ts) f =
     reap_loop en w live ts
       (case t_acp_session_id t of
          None \<Rightarrow> f
        | Some session \<Rightarrow>
            if session \<in> set live then f
            else snd (mark_failed en (AtReap (t_id t)) (t_id t) [PhDispatched]
                   (vanished_session_failure w session) ControlDecision f))"

definition reap_vanished_on_worker :: "env \<Rightarrow> worker_id \<Rightarrow> string list \<Rightarrow> fleet \<Rightarrow> fleet" where
  "reap_vanished_on_worker en w live f =
     (case list_tasks (default_task_filter\<lparr>fi_status := Some FDispatched, fi_worker_id := Some w,
             fi_limit := 1000\<rparr>) (fl_store f) of
        Inl _ \<Rightarrow> f
      | Inr dispatched \<Rightarrow> reap_loop en w live dispatched f)"

definition ensure_worker_recovered ::
    "env \<Rightarrow> worker_id \<Rightarrow> fleet \<Rightarrow> (dispatch_error, bool) result \<times> fleet" where
  "ensure_worker_recovered en w f =
     (let generation = Option.bind (en_lease en AtRecovery) (\<lambda>ob. ls_epoch (lo_status ob));
          f = (if fst (fl_recovered f) \<noteq> generation then f\<lparr>fl_recovered := (generation, {})\<rparr> else f)
      in if w \<in> snd (fl_recovered f) then (Inr False, f)
         else case en_sessions en w of
           Inl _ \<Rightarrow> (Inl (DeRecoveryUnavailable w), f)
         | Inr inventory \<Rightarrow>
             let f = (case inventory of SessionsReported live \<Rightarrow> reap_vanished_on_worker en w live f | _ \<Rightarrow> f);
                 f = audit_decision (en_lease en AtAudit) ''control.worker_recovered'' (ArgWorker w) f
             in (Inr True, f\<lparr>fl_recovered := (fst (fl_recovered f), insert w (snd (fl_recovered f)))\<rparr>))"

section \<open>Dispatch: choosing the worker\<close>

definition pick_worker ::
    "env \<Rightarrow> task \<Rightarrow> bool \<Rightarrow> fleet \<Rightarrow> (dispatch_error, worker_id) result \<times> fleet" where
  "pick_worker en t mark f =
     (if \<not> allows en AtEntry
      then (Inl DeControlPlaneFenced,
            audit_control (en_lease en AtAudit) ''control.dispatch_refused'' (ArgTask (t_id t)) f)
      else case select (en_probe en) (en_now en AtSelect) (fl_breakers f) t (fl_store f) of
        (Inl e, s) \<Rightarrow>
          (Inl (DeNoWorker (selection_error_text e)),
           fail_pending en mark (t_id t)
             \<lparr> tf_error = selection_error_text e,
               tf_kind = (case e of NoWorkerForCredential _ \<Rightarrow> CredentialMissing | _ \<Rightarrow> WorkerUnavailable),
               tf_worker_id = None, tf_attempts = 0 \<rparr> (f\<lparr>fl_store := s\<rparr>))
      | (Inr w, s) \<Rightarrow>
          let f = f\<lparr>fl_store := s\<rparr>;
              initial = get_worker_circuit_state w (fl_store f);
              old_state = bi_state (fst (reg_get (en_instant en AtCheck) w initial (fl_breakers f)))
          in case reg_check (en_breaker_config en) (en_instant en AtCheck) (en_instant en AtCheck) w initial (fl_breakers f) of
            (check_res, breakers) \<Rightarrow>
              let f = f\<lparr>fl_breakers := breakers\<rparr>;
                  f = persist_breaker_transition (en_now en AtCheck) w old_state (state_of w breakers) f
              in case check_res of
                Inl (BreakerOpen waiting) \<Rightarrow>
                  (Inl (DeCircuitOpen w),
                   fail_pending en mark (t_id t)
                     \<lparr> tf_error = Msg ''circuit open: circuit breaker is not accepting requests (remaining: {:?})''
                         [ArgNum (int waiting)],
                       tf_kind = CircuitOpenFailure, tf_worker_id = Some w, tf_attempts = 0 \<rparr> f)
              | Inr _ \<Rightarrow>
                  (case ensure_worker_recovered en w f of
                     (Inl e, f) \<Rightarrow>
                       (Inl e, fail_pending en mark (t_id t)
                          \<lparr> tf_error = dispatch_error_text e, tf_kind = WorkerUnavailable,
                            tf_worker_id = Some w, tf_attempts = 0 \<rparr>
                          (record_and_persist en AtRecord w Failure f))
                   | (Inr _, f) \<Rightarrow> (Inr w, f)))"

section \<open>Dispatch: claiming the task and sending it\<close>

definition thread_context :: "task \<Rightarrow> task list \<Rightarrow> string" where
  "thread_context t history =
     concat (map (\<lambda>a.
       if t_id a = t_id t \<or> t_created_at a \<ge> t_created_at t then []
       else case t_status a of
         Completed result \<Rightarrow> ''Q: '' @ t_prompt a @ newline @ ''A: '' @ tr_output result @ newline @ newline
       | _ \<Rightarrow> []) history)"

definition build_threaded_prompt :: "task \<Rightarrow> mem_store \<Rightarrow> string" where
  "build_threaded_prompt t s =
     (let history = (case list_thread_tasks (t_thread_id t) s of Inr ts \<Rightarrow> ts | Inl _ \<Rightarrow> []);
          context_text = thread_context t history
      in if context_text = [] then t_prompt t else context_text @ ''Q: '' @ t_prompt t)"

definition harness_of :: "env \<Rightarrow> task \<Rightarrow> mem_store \<Rightarrow> skill_injection" where
  "harness_of en t s = inject_skills (en_sha en) (en_read en)
     (if t_parent_task_id t \<noteq> None then build_threaded_prompt t s else t_prompt t) (t_skills_required t)"

definition request_of :: "task \<Rightarrow> worker_id \<Rightarrow> string \<Rightarrow> dispatch_request" where
  "request_of t w prompt = \<lparr> dr_task_id = t_id t, dr_worker_id = w, dr_prompt = prompt, dr_cwd = t_cwd t,
     dr_model = t_model t, dr_max_turns = t_max_turns t, dr_timeout_secs = t_timeout_secs t,
     dr_checkpoint_branch = t_checkpoint_branch t, dr_skills_required = t_skills_required t \<rparr>"

definition send_request ::
    "env \<Rightarrow> task \<Rightarrow> dispatch_request \<Rightarrow> fleet \<Rightarrow> (dispatch_error, unit) result \<times> fleet" where
  "send_request en t req f =
     (let f = f\<lparr>fl_running := fl_running f + 1, fl_sent := fl_sent f @ [req]\<rparr>;
          w = dr_worker_id req
      in case en_dispatch en req of
        Inr _ \<Rightarrow> (Inr (), f)
      | Inl e \<Rightarrow>
          let invalid = (case e of InvalidRequest _ \<Rightarrow> True | _ \<Rightarrow> False);
              f = (if invalid then f else record_and_persist en AtRecord w Failure f);
              f = snd (mark_failed en AtFailure (t_id t) [PhDispatched]
                    \<lparr> tf_error = transport_error_text e,
                      tf_kind = (if invalid then InvalidRequestFailure else WorkerError),
                      tf_worker_id = Some w, tf_attempts = 1 \<rparr> ControlDecision f)
          in (Inl (dispatch_error_of e), f\<lparr>fl_running := fl_running f - 1\<rparr>))"

definition claim_and_send ::
    "env \<Rightarrow> task \<Rightarrow> worker_id \<Rightarrow> bool \<Rightarrow> fleet \<Rightarrow> (dispatch_error, unit) result \<times> fleet" where
  "claim_and_send en t w mark f =
     (let harness = harness_of en t (fl_store f)
      in if \<not> is_complete harness
         then (Inl (DeSkillMissing (t_id t) (si_missing harness)),
               fail_pending en mark (t_id t)
                 \<lparr> tf_error = Msg ''required skill(s) not available on the orchestrator: {}''
                     [ArgStr (join_with '', '' (si_missing harness))],
                   tf_kind = SkillMissingFailure, tf_worker_id = Some w, tf_attempts = 0 \<rparr> f)
         else case with_store (compare_and_set_task_status (en_now en AtClaim) (t_id t) [PhPending]
             (Dispatched w (en_now en AtClaim)) ControlDecision (fence_at en AtClaim)) f of
           (Inl e, f) \<Rightarrow> (Inl (DeStore (store_error_text e)), f)
         | (Inr Fenced, f) \<Rightarrow>
             (Inl DeControlPlaneFenced,
              audit_control (en_lease en AtAudit) ''control.write_fenced'' (ArgTask (t_id t)) f)
         | (Inr (StaleDispatchEpoch ep), f) \<Rightarrow>
             (Inl (DeStore (Msg ''dispatch CAS reported a stale dispatch epoch ({dispatched_under}) for a ControlDecision transition - this indicates a bug in the store''
                [ArgNum ep])), f)
         | (Inr (Rejected current), f) \<Rightarrow> (Inl (DeNotPending (t_id t) (phase_as_str current)), f)
         | (Inr Applied, f) \<Rightarrow>
             let f = log_event (TaskDispatched (t_id t) w (en_now en AtClaim)) f;
                 f = snd (with_store (record_task_skill_snapshot (t_id t) (si_loaded harness) (fence_at en AtSnapshot)) f)
             in send_request en t (request_of t w (si_prompt harness)) f)"

definition dispatch_existing ::
    "env \<Rightarrow> task \<Rightarrow> bool \<Rightarrow> fleet \<Rightarrow> (dispatch_error, unit) result \<times> fleet" where
  "dispatch_existing en t mark f =
     (case pick_worker en t mark f of
        (Inl e, f) \<Rightarrow> (Inl e, f)
      | (Inr w, f) \<Rightarrow> claim_and_send en t w mark f)"

section \<open>Dependencies\<close>

fun completed :: "task_status \<Rightarrow> bool" where
  "completed (Completed _) = True"
| "completed _ = False"

fun dependencies_completed :: "task_id list \<Rightarrow> mem_store \<Rightarrow> bool" where
  "dependencies_completed [] s = True"
| "dependencies_completed (d # ds) s =
     (case get_task d s of
        Inr (Some t) \<Rightarrow> if completed (t_status t) then dependencies_completed ds s else False
      | Inr None \<Rightarrow> False
      | Inl _ \<Rightarrow> False)"

text \<open>
  \<open>dispatch_ready_tasks\<close>: the pending tasks as listed at the start, each checked against the store
  as it is when its turn comes. \<open>ens\<close> gives each task's dispatch its own readings.
\<close>

fun dispatch_each :: "(task_id \<Rightarrow> env) \<Rightarrow> task list \<Rightarrow> fleet \<Rightarrow> fleet" where
  "dispatch_each ens [] f = f"
| "dispatch_each ens (t # ts) f =
     dispatch_each ens ts
       (if dependencies_completed (t_dependency_ids t) (fl_store f)
        then snd (dispatch_existing (ens (t_id t)) t False f) else f)"

definition dispatch_ready_tasks :: "(task_id \<Rightarrow> env) \<Rightarrow> fleet \<Rightarrow> fleet" where
  "dispatch_ready_tasks ens f =
     (case list_tasks (default_task_filter\<lparr>fi_status := Some FPending, fi_limit := 1000\<rparr>) (fl_store f) of
        Inl _ \<Rightarrow> f
      | Inr ts \<Rightarrow> dispatch_each ens ts f)"

section \<open>Submission\<close>

definition submit :: "env \<Rightarrow> task \<Rightarrow> fleet \<Rightarrow> (dispatch_error, task_id) result \<times> fleet" where
  "submit en t f =
     (case validate_workspace_cwd (t_cwd t) of
        Inl e \<Rightarrow> (Inl (DeInvalidRequest (Msg ''cwd: {e}'' [ArgText (path_error_text e)])), f)
      | Inr _ \<Rightarrow>
          let t = apply_routing t
          in case with_store (insert_task_idempotent t) f of
            (Inl e, f) \<Rightarrow> (Inl (DeStore (store_error_text e)), f)
          | (Inr (Duplicate existing), f) \<Rightarrow> (Inr (t_id existing), f)
          | (Inr (InsertConflict existing_id), f) \<Rightarrow>
              (Inl (DeIdempotencyConflict (case t_idempotency_key t of Some k \<Rightarrow> k | None \<Rightarrow> []) existing_id), f)
          | (Inr Inserted, f) \<Rightarrow>
              let f = log_event (TaskCreated (t_id t) (t_server_hint t) (t_created_by t) (en_now en AtEntry)) f
              in if \<not> dependencies_completed (t_dependency_ids t) (fl_store f) then (Inr (t_id t), f)
                 else let retries_enabled = (en_max_dispatch_retries en > 0)
                   in case dispatch_existing en t (\<not> retries_enabled) f of
                     (Inr _, f) \<Rightarrow> (Inr (t_id t), f)
                   | (Inl e, f) \<Rightarrow>
                       if retries_enabled \<and> (case e of DeNoWorker _ \<Rightarrow> True | DeCircuitOpen _ \<Rightarrow> True | _ \<Rightarrow> False)
                       then (Inr (t_id t), snd (with_store (increment_task_retry_count (t_id t)) f))
                       else (Inl e, f))"

section \<open>Worker events\<close>

definition current_worker_of :: "task_id \<Rightarrow> mem_store \<Rightarrow> worker_id option" where
  "current_worker_of i s =
     (case get_task i s of
        Inr (Some t) \<Rightarrow> (case t_status t of Dispatched w _ \<Rightarrow> Some w | _ \<Rightarrow> None)
      | Inr None \<Rightarrow> None
      | Inl _ \<Rightarrow> None)"

text \<open>The allow-list of a template revision, through the cache.\<close>

definition allowed_tools :: "agent_template_revision_id \<Rightarrow> fleet \<Rightarrow> string list option \<times> fleet" where
  "allowed_tools rid f =
     (case hm_get (fl_allowlists f) rid of
        Some tools \<Rightarrow> (Some tools, f)
      | None \<Rightarrow>
          (case get_agent_template_revision rid (fl_store f) of
             Inr (Some revision) \<Rightarrow>
               let tools = tb_tools (rev_body revision)
               in (Some tools, f\<lparr>fl_allowlists := hm_insert rid tools (fl_allowlists f)\<rparr>)
           | Inr None \<Rightarrow> (None, f)
           | Inl _ \<Rightarrow> (None, f)))"

definition check_tool_against_allowlist ::
    "env \<Rightarrow> task_id \<Rightarrow> worker_id \<Rightarrow> tool_invocation \<Rightarrow> fleet \<Rightarrow> fleet" where
  "check_tool_against_allowlist en i w tool f =
     (case ti_name tool of
        None \<Rightarrow> f
      | Some name \<Rightarrow>
          (case get_task i (fl_store f) of
             Inl _ \<Rightarrow> f
           | Inr None \<Rightarrow> f
           | Inr (Some t) \<Rightarrow>
               (case t_agent_id t of
                  None \<Rightarrow> f
                | Some a \<Rightarrow>
                    (case get_agent a (fl_store f) of
                       Inl _ \<Rightarrow> f
                     | Inr None \<Rightarrow> f
                     | Inr (Some ag) \<Rightarrow>
                         (case ag_template_pin ag of
                            None \<Rightarrow> f
                          | Some pin \<Rightarrow>
                              (case allowed_tools (pin_revision_id pin) f of
                                 (None, f) \<Rightarrow> f
                               | (Some tools, f) \<Rightarrow>
                                   if tools = [] \<or> name \<in> set tools then f
                                   else audit_decision (en_lease en AtAudit)
                                          ''agent.tool_outside_allowlist'' (ArgTask i) f))))))"

text \<open>The outcome of a run: \<open>ens\<close> serves the dispatches a completion sets off.\<close>

definition handle_completed ::
    "env \<Rightarrow> (task_id \<Rightarrow> env) \<Rightarrow> task_id \<Rightarrow> task_result \<Rightarrow> fleet \<Rightarrow> fleet" where
  "handle_completed en ens i result f =
     (let w = tr_worker_id result;
          f = record_and_persist en AtRecord w Success f;
          f = (case with_store (compare_and_set_task_status (en_now en AtClaim) i [PhDispatched]
                      (Completed result) WorkerOutcome (fence_at en AtClaim)) f of
                 (Inr Applied, f) \<Rightarrow> log_event (TaskCompleted i w result (en_now en AtClaim)) f
               | (_, f) \<Rightarrow> f)
      in dispatch_ready_tasks ens (f\<lparr>fl_running := fl_running f - 1\<rparr>))"

fun kind_of_observation :: "failure_observation \<Rightarrow> failure_kind" where
  "kind_of_observation Reported = WorkerError"
| "kind_of_observation NotDelivered = WorkerUnavailable"
| "kind_of_observation LostResult = ResultLost"

definition handle_failed :: "env \<Rightarrow> task_id \<Rightarrow> string \<Rightarrow> failure_observation \<Rightarrow> fleet \<Rightarrow> fleet" where
  "handle_failed en i error obs f =
     (let w = current_worker_of i (fl_store f);
          f = (case w of Some wid \<Rightarrow> record_and_persist en AtRecord wid Failure f | None \<Rightarrow> f);
          f = snd (mark_failed en AtFailure i [PhDispatched]
                \<lparr> tf_error = Msg ''{0}'' [ArgStr error], tf_kind = kind_of_observation obs,
                  tf_worker_id = w, tf_attempts = 1 \<rparr> WorkerOutcome f)
      in f\<lparr>fl_running := fl_running f - 1\<rparr>)"

fun outcome_task :: "worker_event \<Rightarrow> task_id option" where
  "outcome_task (EvCompleted i _) = Some i"
| "outcome_task (EvFailed i _ _) = Some i"
| "outcome_task _ = None"

definition handle_worker_event :: "env \<Rightarrow> (task_id \<Rightarrow> env) \<Rightarrow> worker_event \<Rightarrow> fleet \<Rightarrow> fleet" where
  "handle_worker_event en ens ev f =
     (if outcome_task ev \<noteq> None \<and> \<not> allows en AtEntry
      then audit_control (en_lease en AtAudit) ''control.outcome_abandoned''
             (ArgTask (the (outcome_task ev))) f
      else case ev of
        EvCompleted i result \<Rightarrow> handle_completed en ens i result f
      | EvFailed i error obs \<Rightarrow> handle_failed en i error obs f
      | EvSessionOpened i session \<Rightarrow>
          snd (with_store (record_task_acp_session i session (fence_at en AtClaim)) f)
      | EvOutput i seq chunk \<Rightarrow> snd (with_store (append_output i chunk) f)
      | EvToolCall i w tool \<Rightarrow>
          check_tool_against_allowlist en i w tool
            (log_event (TaskToolCall i w tool (en_now en AtEntry)) f))"

section \<open>Cancellation\<close>

definition deliver_cancel :: "env \<Rightarrow> task \<Rightarrow> fleet \<Rightarrow> fleet" where
  "deliver_cancel en t f =
     (case t_status t of
        Dispatched w _ \<Rightarrow>
          let req = \<lparr> cq_task_id = t_id t, cq_known_session = t_acp_session_id t, cq_worker_id = Some w \<rparr>;
              f = f\<lparr>fl_cancels := fl_cancels f @ [req]\<rparr>
          in (case en_cancel en req of
                Inr Unreachable \<Rightarrow>
                  audit_decision (en_lease en AtAudit) ''control.cancel_undelivered'' (ArgTask (t_id t)) f
              | _ \<Rightarrow> f)
      | _ \<Rightarrow> f)"

definition cancel_write :: "env \<Rightarrow> task_id \<Rightarrow> string \<Rightarrow> fleet \<Rightarrow> (cancel_error, unit) result \<times> fleet" where
  "cancel_write en i reason f =
     (case with_store (compare_and_set_task_status (en_now en AtClaim) i [PhPending, PhDispatched]
             (Cancelled reason (en_now en AtClaim)) ControlDecision (fence_at en AtClaim)) f of
        (Inl e, f) \<Rightarrow> (Inl (CeStore (store_error_text e)), f)
      | (Inr Fenced, f) \<Rightarrow> (Inl CeControlPlaneFenced, f)
      | (Inr (StaleDispatchEpoch ep), f) \<Rightarrow>
          (Inl (CeStore (Msg ''cancel CAS reported a stale dispatch epoch ({dispatched_under}) for a ControlDecision transition - this indicates a bug in the store''
             [ArgNum ep])), f)
      | (Inr (Rejected current), f) \<Rightarrow> (Inl (CeAlreadyTerminal i (phase_as_str current)), f)
      | (Inr Applied, f) \<Rightarrow>
          let f = log_event (TaskCancelled i reason (en_now en AtClaim)) f
          in (Inr (), f\<lparr>fl_running := fl_running f - 1\<rparr>))"

text \<open>\<open>others\<close> is what everyone else does between the request to the worker and the write; \<open>cancel\<close> is the undisturbed call.\<close>

definition cancel_amid :: "(fleet \<Rightarrow> fleet) \<Rightarrow> env \<Rightarrow> task_id \<Rightarrow> string \<Rightarrow> fleet \<Rightarrow> (cancel_error, unit) result \<times> fleet" where
  "cancel_amid others en i reason f =
     (if \<not> allows en AtEntry then (Inl CeControlPlaneFenced, f)
      else case get_task i (fl_store f) of
        Inl e \<Rightarrow> (Inl (CeStore (store_error_text e)), f)
      | Inr None \<Rightarrow> (Inl (CeNotFound i), f)
      | Inr (Some t) \<Rightarrow>
          if is_terminal t then (Inl (CeAlreadyTerminal i (phase_as_str (phase (t_status t)))), f)
          else cancel_write en i reason (others (deliver_cancel en t f)))"

definition cancel :: "env \<Rightarrow> task_id \<Rightarrow> string \<Rightarrow> fleet \<Rightarrow> (cancel_error, unit) result \<times> fleet" where
  "cancel = cancel_amid (\<lambda>f. f)"

lemmas cancel_defs = cancel_def cancel_amid_def cancel_write_def

end
