(* ===== verification/Dispatch_Safety.thy ===== *)
theory Dispatch_Safety
  imports Dispatcher
begin

text \<open>
  What the dispatcher guarantees: a task is sent to a worker at most once across all instances,
  what a successful dispatch has checked and written, and which gaps the checks leave.
\<close>

section \<open>How often a task is sent\<close>

text \<open>A task that may still be sent: not there yet, or pending.\<close>

definition open_at :: "task_id \<Rightarrow> mem_store \<Rightarrow> bool" where
  "open_at i s = (case hm_get (ms_tasks s) i of None \<Rightarrow> True | Some t \<Rightarrow> t_status t = Pending)"

definition sent_for :: "task_id \<Rightarrow> dispatch_request list \<Rightarrow> nat" where
  "sent_for i reqs = length (filter (\<lambda>r. dr_task_id r = i) reqs)"

definition budget :: "task_id \<Rightarrow> fleet \<Rightarrow> nat" where
  "budget i f = sent_for i (fl_sent f) + (if open_at i (fl_store f) then 1 else 0)"

text \<open>Every task there is stays there and only moves on.\<close>

definition advances :: "mem_store \<Rightarrow> mem_store \<Rightarrow> bool" where
  "advances s s' \<longleftrightarrow> (\<forall>i t. hm_get (ms_tasks s) i = Some t \<longrightarrow>
     (\<exists>t'. hm_get (ms_tasks s') i = Some t' \<and> evolves t t'))"

text \<open>A step that sends nothing.\<close>

definition tame :: "fleet \<Rightarrow> fleet \<Rightarrow> bool" where
  "tame f f' \<longleftrightarrow> fl_sent f' = fl_sent f \<and> advances (fl_store f) (fl_store f')"

lemma advances_refl [simp]: "advances s s"
  by (auto simp: advances_def)

lemma advances_trans: "advances s s' \<Longrightarrow> advances s' s'' \<Longrightarrow> advances s s''"
  unfolding advances_def by (meson evolves_trans)

lemma advances_tasks: "ms_tasks s' = ms_tasks s \<Longrightarrow> advances s s'"
  by (auto simp: advances_def)

lemma advances_open: "advances s s' \<Longrightarrow> open_at i s' \<Longrightarrow> open_at i s"
proof (cases "hm_get (ms_tasks s) i")
  case (Some t)
  assume "advances s s'" "open_at i s'"
  then obtain t' where t': "hm_get (ms_tasks s') i = Some t'" "evolves t t'" "t_status t' = Pending"
    using Some unfolding advances_def open_at_def by fastforce
  then have "transition_allowed\<^sup>*\<^sup>* (phase (t_status t)) PhPending" by (simp add: evolves_def)
  from pending_source[OF this] show ?thesis by (simp add: open_at_def Some)
qed (simp add: open_at_def)

lemma tame_refl [simp]: "tame f f"
  by (simp add: tame_def)

lemma tame_trans: "tame f g \<Longrightarrow> tame g h \<Longrightarrow> tame f h"
  by (auto simp: tame_def intro: advances_trans)

lemma tame_budget: "tame f f' \<Longrightarrow> budget i f' \<le> budget i f"
  using advances_open[of "fl_store f" "fl_store f'" i] by (simp add: tame_def budget_def)

lemma tame_local [simp]:
  "tame f (g\<lparr>fl_breakers := b\<rparr>) = tame f g" "tame f (g\<lparr>fl_recovered := rc\<rparr>) = tame f g"
  "tame f (g\<lparr>fl_allowlists := al\<rparr>) = tame f g" "tame f (g\<lparr>fl_running := n\<rparr>) = tame f g"
  "tame f (g\<lparr>fl_audit := au\<rparr>) = tame f g" "tame f (g\<lparr>fl_cancels := cs\<rparr>) = tame f g"
  "tame (f\<lparr>fl_breakers := b\<rparr>) g = tame f g" "tame (f\<lparr>fl_recovered := rc\<rparr>) g = tame f g"
  "tame (f\<lparr>fl_allowlists := al\<rparr>) g = tame f g" "tame (f\<lparr>fl_running := n\<rparr>) g = tame f g"
  "tame (f\<lparr>fl_audit := au\<rparr>) g = tame f g" "tame (f\<lparr>fl_cancels := cs\<rparr>) g = tame f g"
  by (simp_all add: tame_def)

subsection \<open>Store operations\<close>

lemma task_exec_advances: "\<forall>j. k \<noteq> TcDelete j \<Longrightarrow> advances s (task_exec conv k s)"
  unfolding advances_def using task_exec_evolves by blast

lemma cas_advances:
  assumes "\<And>p. p \<in> set expected \<Longrightarrow> transition_allowed p (phase new)"
  shows "advances s (snd (compare_and_set_task_status now j expected new origin fence s))"
proof (cases "compare_and_set_task_status now j expected new origin fence s")
  case (Pair r s')
  then show ?thesis
  proof (cases rule: cas_cases)
    case (applied t)
    then show ?thesis using assms[of "phase (t_status t)"] Pair
      by (auto simp: advances_def hm_get_adjust intro: evolves_apply)
  qed (simp add: Pair)
qed

lemma with_store_sel [simp]:
  "fl_store (snd (with_store op f)) = snd (op (fl_store f))" "fst (with_store op f) = fst (op (fl_store f))"
  "fl_sent (snd (with_store op f)) = fl_sent f" "fl_breakers (snd (with_store op f)) = fl_breakers f"
  "fl_audit (snd (with_store op f)) = fl_audit f" "fl_running (snd (with_store op f)) = fl_running f"
  by (simp_all add: with_store_def case_prod_beta)

lemma tame_with_store:
  "advances (fl_store f) (snd (op (fl_store f))) \<Longrightarrow> tame f (snd (with_store op f))"
  by (simp add: tame_def)

lemma tame_task_exec:
  assumes "\<And>s. snd (op s) = task_exec conv k s" "\<forall>j. k \<noteq> TcDelete j"
  shows "tame f (snd (with_store op f))"
  using assms(1) task_exec_advances[OF assms(2)] by (intro tame_with_store) metis

lemma tame_session: "tame f (snd (with_store (record_task_acp_session j ss fence) f))"
  by (rule tame_task_exec[where k = "TcSession j ss fence" and conv = "\<lambda>_. None"]) simp_all

lemma tame_snapshot: "tame f (snd (with_store (record_task_skill_snapshot j sn fence) f))"
  by (rule tame_task_exec[where k = "TcSnapshot j sn fence" and conv = "\<lambda>_. None"]) simp_all

lemma tame_retry: "tame f (snd (with_store (increment_task_retry_count j) f))"
  by (rule tame_task_exec[where k = "TcRetry j" and conv = "\<lambda>_. None"]) simp_all

lemma tame_insert: "tame f (snd (with_store (insert_task_idempotent t) f))"
  by (rule tame_task_exec[where k = "TcInsert t" and conv = "\<lambda>_. None"]) simp_all

lemma tame_output: "tame f (snd (with_store (append_output j chunk) f))"
  by (rule tame_with_store) (simp add: append_output_def advances_def Let_def)

lemma tame_log [simp]: "tame f (log_event e g) = tame f g" "tame (log_event e f) g = tame f g"
  by (simp_all add: log_event_def tame_def append_event_def advances_def Let_def)

lemma tame_audit [simp]:
  "tame f (record_audit e g) = tame f g" "tame f (audit_control l a t g) = tame f g"
  "tame f (audit_decision l a t g) = tame f g"
  by (simp_all add: record_audit_def audit_control_def audit_decision_def split: option.split)

lemma tame_cas:
  assumes "with_store (compare_and_set_task_status now j expected new origin fence) f = (r, f')"
    "list_all (\<lambda>p. transition_allowed p (phase new)) expected"
  shows "tame f f'"
proof -
  have "advances (fl_store f) (snd (compare_and_set_task_status now j expected new origin fence (fl_store f)))"
    using assms(2) by (intro cas_advances) (simp add: list_all_iff)
  from tame_with_store[where op = "compare_and_set_task_status now j expected new origin fence", OF this]
  show ?thesis using assms(1) by simp
qed

subsection \<open>The dispatcher's steps\<close>

lemma with_circuit_state [simp]: "snd (with_store (update_worker_circuit_state w st) f) = f"
  by (simp add: with_store_def update_worker_circuit_state_def)

lemma tame_persist [simp]: "tame f (persist_breaker_transition now w o1 o2 g) = tame f g"
  by (simp add: persist_breaker_transition_def)

lemma tame_record [simp]: "tame f (record_and_persist en p w out g) = tame f g"
  by (simp add: record_and_persist_def Let_def split: prod.split)

lemma tame_mark_failed:
  assumes "list_all (\<lambda>p. transition_allowed p PhFailed) expected"
  shows "tame f (snd (mark_failed en p j expected failure origin f))"
proof -
  obtain r g where c: "with_store (compare_and_set_task_status (en_now en p) j expected (Failed failure)
      origin (fence_at en p)) f = (r, g)" by fastforce
  have "tame f g" by (rule tame_cas[OF c]) (simp add: assms)
  then show ?thesis by (simp add: mark_failed_def c split: sum.split transition_outcome.split)
qed

lemma live_may_end [simp]:
  "transition_allowed PhPending PhFailed" "transition_allowed PhDispatched PhFailed"
  "transition_allowed PhDispatched PhCompleted" "transition_allowed PhPending PhCancelled"
  "transition_allowed PhDispatched PhCancelled" "transition_allowed PhPending PhDispatched"
  by (simp_all add: transition_allowed_def)

lemma tame_fail_pending: "tame f (fail_pending en mark j failure f)"
  by (simp add: fail_pending_def tame_mark_failed)

lemma tame_reap_loop: "tame f (reap_loop en w live ts f)"
proof (induction ts arbitrary: f)
  case (Cons t ts)
  have "tame f (snd (mark_failed en p j [PhDispatched] failure origin f))" for f p j failure origin
    by (rule tame_mark_failed) simp
  then show ?case using Cons.IH tame_trans by (auto split: option.split) blast
qed simp

lemma tame_recovered: "tame f (snd (ensure_worker_recovered en w f))"
proof -
  have "tame g (reap_vanished_on_worker en w live g)" for g live
    by (simp add: reap_vanished_on_worker_def tame_reap_loop split: sum.split)
  from this[of f] this[of "f\<lparr>fl_recovered := rc\<rparr>" for rc] show ?thesis
    by (simp add: ensure_worker_recovered_def Let_def split: sum.split session_inventory.split)
qed

lemma responds_tasks: "ms_tasks (snd (responds probe now w s)) = ms_tasks s"
  using responds_cases(2)[of probe now w s] by (metis prod.collapse)

lemma first_responding_tasks: "ms_tasks (snd (first_responding probe now ws s)) = ms_tasks s"
  using first_responding_spec[of probe now ws s] by (metis prod.collapse)

lemma select_tasks: "ms_tasks (snd (select probe now reg t s)) = ms_tasks s"
proof -
  have "ms_tasks (snd (select_for_agent probe now a ws caps s)) = ms_tasks s" for a ws caps
    using responds_tasks[of probe now _ s]
    by (auto simp: select_for_agent_def split: sum.split option.split prod.split bool.split) (metis snd_conv)+
  moreover have "ms_tasks (snd (select_for_hint probe now h ws caps s)) = ms_tasks s" for h ws caps
    using responds_tasks[of probe now _ s]
    by (auto simp: select_for_hint_def split: sum.split option.split prod.split bool.split) (metis snd_conv)+
  ultimately show ?thesis
    by (simp add: select_def Let_def first_responding_tasks split: sum.split option.split)
qed

lemma tame_select:
  assumes "select probe now reg t (fl_store f) = (r, s)"
  shows "tame f (f\<lparr>fl_store := s\<rparr>)"
proof -
  have "ms_tasks s = ms_tasks (fl_store f)" using select_tasks[of probe now reg t "fl_store f"] assms by simp
  from advances_tasks[OF this] show ?thesis by (simp add: tame_def)
qed

text \<open>The instance after the breaker of the selected worker was asked.\<close>

definition checked :: "env \<Rightarrow> worker_id \<Rightarrow> mem_store \<Rightarrow> registry \<Rightarrow> fleet \<Rightarrow> fleet" where
  "checked en w s breakers f =
     persist_breaker_transition (en_now en AtCheck) w
       (bi_state (fst (reg_get (en_instant en AtCheck) w (get_worker_circuit_state w s) (fl_breakers f))))
       (state_of w breakers) (f\<lparr>fl_store := s, fl_breakers := breakers\<rparr>)"

abbreviation breaker_asked :: "env \<Rightarrow> worker_id \<Rightarrow> mem_store \<Rightarrow> fleet \<Rightarrow> (breaker_open, unit) result \<times> registry" where
  "breaker_asked en w s f \<equiv> reg_check (en_breaker_config en) (en_instant en AtCheck) (en_instant en AtCheck) w
     (get_worker_circuit_state w s) (fl_breakers f)"

lemma pick_cases:
  assumes "pick_worker en t mark f = (r, f')"
  obtains (refused) "\<not> allows en AtEntry" "r = Inl DeControlPlaneFenced"
      "f' = audit_control (en_lease en AtAudit) ''control.dispatch_refused'' (ArgTask (t_id t)) f"
    | (no_worker) e s failure where "allows en AtEntry"
      "select (en_probe en) (en_now en AtSelect) (fl_breakers f) t (fl_store f) = (Inl e, s)"
      "r = Inl (DeNoWorker (selection_error_text e))"
      "f' = fail_pending en mark (t_id t) failure (f\<lparr>fl_store := s\<rparr>)"
    | (circuit_open) w s b breakers failure where "allows en AtEntry"
      "select (en_probe en) (en_now en AtSelect) (fl_breakers f) t (fl_store f) = (Inr w, s)"
      "breaker_asked en w s f = (Inl b, breakers)" "r = Inl (DeCircuitOpen w)"
      "f' = fail_pending en mark (t_id t) failure (checked en w s breakers f)"
    | (not_recovered) w s u breakers e g failure where "allows en AtEntry"
      "select (en_probe en) (en_now en AtSelect) (fl_breakers f) t (fl_store f) = (Inr w, s)"
      "breaker_asked en w s f = (Inr u, breakers)"
      "ensure_worker_recovered en w (checked en w s breakers f) = (Inl e, g)" "r = Inl e"
      "f' = fail_pending en mark (t_id t) failure (record_and_persist en AtRecord w Failure g)"
    | (picked) w s u breakers q where "allows en AtEntry"
      "select (en_probe en) (en_now en AtSelect) (fl_breakers f) t (fl_store f) = (Inr w, s)"
      "breaker_asked en w s f = (Inr u, breakers)"
      "ensure_worker_recovered en w (checked en w s breakers f) = (Inr q, f')" "r = Inr w"
proof (cases "allows en AtEntry")
  case False
  then show thesis using assms refused by (simp add: pick_worker_def)
next
  case allowed: True
  obtain rs s where sel: "select (en_probe en) (en_now en AtSelect) (fl_breakers f) t (fl_store f) = (rs, s)"
    by fastforce
  show thesis
  proof (cases rs)
    case (Inl e)
    show thesis using assms allowed sel Inl by (intro no_worker) (auto simp: pick_worker_def)
  next
    case (Inr w)
    obtain c breakers where c: "breaker_asked en w s f = (c, breakers)" by fastforce
    show thesis
    proof (cases c)
      case (Inl b)
      obtain waiting where b: "b = BreakerOpen waiting" by (cases b)
      show thesis using assms allowed sel Inr c Inl b
        by (intro circuit_open) (auto simp: pick_worker_def checked_def Let_def)
    next
      case ok: (Inr u)
      obtain q g where e: "ensure_worker_recovered en w (checked en w s breakers f) = (q, g)" by fastforce
      show thesis
      proof (cases q)
        case (Inl e')
        show thesis using assms allowed sel Inr c ok e Inl
          by (intro not_recovered) (auto simp: pick_worker_def checked_def Let_def)
      next
        case q: (Inr q')
        have "(r, f') = (Inr w, g)" using assms allowed sel Inr c ok e q
          by (simp add: pick_worker_def checked_def Let_def)
        then show thesis using allowed sel Inr c ok e q by (intro picked) simp_all
      qed
    qed
  qed
qed

lemma tame_checked [simp]: "tame f (checked en w s breakers g) = tame f (g\<lparr>fl_store := s\<rparr>)"
  by (simp add: checked_def)

lemma tame_pick: "tame f (snd (pick_worker en t mark f))"
proof -
  obtain r f' where p: "pick_worker en t mark f = (r, f')" by fastforce
  from p have "tame f f'"
  proof (cases rule: pick_cases)
    case refused
    then show ?thesis by simp
  next
    case (no_worker e s failure)
    then show ?thesis using tame_trans[OF tame_select tame_fail_pending] by metis
  next
    case (circuit_open w s b breakers failure)
    have "tame f (checked en w s breakers f)" using tame_select[OF circuit_open(2)] by simp
    then show ?thesis using tame_trans[OF _ tame_fail_pending] circuit_open(5) by blast
  next
    case (not_recovered w s u breakers e g failure)
    have "tame f (checked en w s breakers f)" using tame_select[OF not_recovered(2)] by simp
    then have "tame f g" using tame_trans[OF _ tame_recovered] not_recovered(4) by (metis snd_conv)
    then show ?thesis using tame_trans[OF _ tame_fail_pending] not_recovered(6) by simp
  next
    case (picked w s u breakers q)
    have "tame f (checked en w s breakers f)" using tame_select[OF picked(2)] by simp
    then show ?thesis using tame_trans[OF _ tame_recovered] picked(4) by (metis snd_conv)
  qed
  then show ?thesis by (simp add: p)
qed

lemma tame_with_store_eq:
  assumes "with_store op f = (r, f')" "\<And>g. tame g (snd (with_store op g))"
  shows "tame f f'"
  using assms(2)[of f] assms(1) by simp

lemma budget_send: "budget i (snd (send_request en t req f)) \<le>
  budget i f + (if dr_task_id req = i then 1 else 0)"
proof -
  let ?f = "f\<lparr>fl_running := fl_running f + 1, fl_sent := fl_sent f @ [req]\<rparr>"
  have fail: "tame ?f (snd (mark_failed en p j ex failure origin g))"
    if "tame ?f g" "list_all (\<lambda>p. transition_allowed p PhFailed) ex" for p j ex failure origin g
    using tame_trans[OF that(1) tame_mark_failed[OF that(2)]] .
  have "tame ?f (snd (send_request en t req f))"
  proof (cases "en_dispatch en req")
    case (Inl e)
    then show ?thesis by (cases "\<exists>m. e = InvalidRequest m") (auto simp: send_request_def Let_def fail)
  qed (simp add: send_request_def Let_def)
  note le = tame_budget[OF this, of i]
  have "budget i ?f = budget i f + (if dr_task_id req = i then 1 else 0)"
    by (simp add: budget_def sent_for_def)
  with le show ?thesis by simp
qed

abbreviation claim_cas :: "env \<Rightarrow> task \<Rightarrow> worker_id \<Rightarrow> mem_store \<Rightarrow> (store_error, transition_outcome) result \<times> mem_store" where
  "claim_cas en t w \<equiv> compare_and_set_task_status (en_now en AtClaim) (t_id t) [PhPending]
     (Dispatched w (en_now en AtClaim)) ControlDecision (fence_at en AtClaim)"

text \<open>The instance after the claim: the dispatch event is logged, the skill snapshot recorded.\<close>

definition claimed :: "env \<Rightarrow> task \<Rightarrow> worker_id \<Rightarrow> skill_injection \<Rightarrow> fleet \<Rightarrow> fleet" where
  "claimed en t w harness g = snd (with_store (record_task_skill_snapshot (t_id t) (si_loaded harness) (fence_at en AtSnapshot))
     (log_event (TaskDispatched (t_id t) w (en_now en AtClaim)) g))"

lemma claim_cases:
  assumes "claim_and_send en t w mark f = (r, f')"
  obtains (skills_missing) failure where "\<not> is_complete (harness_of en t (fl_store f))"
      "r = Inl (DeSkillMissing (t_id t) (si_missing (harness_of en t (fl_store f))))"
      "f' = fail_pending en mark (t_id t) failure f"
    | (not_claimed) out g e where "is_complete (harness_of en t (fl_store f))"
      "with_store (claim_cas en t w) f = (out, g)" "out \<noteq> Inr Applied" "r = Inl e"
      "f' = g \<or> f' = audit_control (en_lease en AtAudit) ''control.write_fenced'' (ArgTask (t_id t)) g"
    | (sent) g where "is_complete (harness_of en t (fl_store f))"
      "with_store (claim_cas en t w) f = (Inr Applied, g)"
      "send_request en t (request_of t w (si_prompt (harness_of en t (fl_store f))))
         (claimed en t w (harness_of en t (fl_store f)) g) = (r, f')"
proof (cases "is_complete (harness_of en t (fl_store f))")
  case False
  then show thesis using assms by (intro skills_missing) (auto simp: claim_and_send_def Let_def)
next
  case True
  obtain out g where c: "with_store (claim_cas en t w) f = (out, g)" by fastforce
  show thesis
  proof (cases "out = Inr Applied")
    case applied: True
    then show thesis using assms True c by (intro sent) (auto simp: claim_and_send_def claimed_def Let_def)
  next
    case False
    then obtain e where "r = Inl e"
      "f' = g \<or> f' = audit_control (en_lease en AtAudit) ''control.write_fenced'' (ArgTask (t_id t)) g"
      using assms True c
      by (cases out; cases "projr out") (auto simp: claim_and_send_def Let_def)
    then show thesis using True c False by (intro not_claimed) simp_all
  qed
qed

lemma with_store_result: "with_store op f = (r, g) \<Longrightarrow> op (fl_store f) = (r, fl_store g) \<and> fl_sent g = fl_sent f"
  by (auto simp: with_store_def split: prod.splits)

lemma budget_claim: "budget i (snd (claim_and_send en t w mark f)) \<le> budget i f"
proof -
  obtain r f' where p: "claim_and_send en t w mark f = (r, f')" by fastforce
  from p have "budget i f' \<le> budget i f"
  proof (cases rule: claim_cases)
    case (skills_missing failure)
    then show ?thesis using tame_budget[OF tame_fail_pending] by simp
  next
    case (not_claimed out g e)
    have "tame f f'" using tame_cas[OF not_claimed(2)] not_claimed(5) by auto
    then show ?thesis by (rule tame_budget)
  next
    case (sent g)
    note c = with_store_result[OF sent(2)]
    have "budget i g + (if t_id t = i then 1 else 0) \<le> budget i f"
    proof (cases "i = t_id t")
      case True
      from c have "claim_cas en t w (fl_store f) = (Inr Applied, fl_store g)" by simp
      then have "open_at i (fl_store f) \<and> \<not> open_at i (fl_store g)"
      proof (cases rule: cas_cases)
        case (applied u)
        then show ?thesis using True by (simp add: open_at_def hm_get_adjust)
      qed simp
      then show ?thesis using c True by (simp add: budget_def)
    next
      case False
      then show ?thesis using tame_budget[OF tame_cas[OF sent(2)]] by simp
    qed
    moreover have "tame g (claimed en t w h g)" for h
      unfolding claimed_def using tame_trans[OF _ tame_snapshot, of g "log_event e g" for e] by simp
    from tame_budget[OF this] have "budget i (claimed en t w h g) \<le> budget i g" for h .
    moreover have "budget i f' \<le> budget i (claimed en t w (harness_of en t (fl_store f)) g) + (if t_id t = i then 1 else 0)"
      using budget_send[of i en t "request_of t w (si_prompt (harness_of en t (fl_store f)))"
          "claimed en t w (harness_of en t (fl_store f)) g"] sent(3) by (simp add: request_of_def)
    ultimately show ?thesis by (meson add_le_cancel_right le_trans)
  qed
  then show ?thesis by (simp add: p)
qed

lemma budget_dispatch: "budget i (snd (dispatch_existing en t mark f)) \<le> budget i f"
proof -
  obtain r g where p: "pick_worker en t mark f = (r, g)" by fastforce
  have "budget i g \<le> budget i f" using tame_budget[OF tame_pick[of f en t mark], of i] by (simp add: p)
  moreover have "budget i (snd (claim_and_send en t w mark g)) \<le> budget i g" for w by (rule budget_claim)
  ultimately show ?thesis by (cases r) (auto simp: dispatch_existing_def p intro: le_trans)
qed

lemma budget_each: "budget i (dispatch_each ens ts f) \<le> budget i f"
proof (induction ts arbitrary: f)
  case (Cons t ts)
  show ?case using Cons.IH le_trans[OF Cons.IH budget_dispatch] by auto
qed simp

lemma budget_ready: "budget i (dispatch_ready_tasks ens f) \<le> budget i f"
  by (simp add: dispatch_ready_tasks_def budget_each split: sum.split)

lemma budget_submit: "budget i (snd (submit en t f)) \<le> budget i f"
proof (cases "validate_workspace_cwd (t_cwd t)")
  case (Inr cwd)
  let ?t = "apply_routing t"
  obtain r g where ins: "with_store (insert_task_idempotent ?t) f = (r, g)" by fastforce
  have g: "tame f g" using tame_insert[of f ?t] by (simp add: ins)
  have retry: "budget i (snd (with_store (increment_task_retry_count j) h)) \<le> budget i h" for j h
    by (rule tame_budget[OF tame_retry])
  have logged: "budget i (log_event e g) \<le> budget i f" for e
    using tame_budget[of f "log_event e g" i] g by simp
  have disp: "budget i h' \<le> budget i f" if "dispatch_existing en u m (log_event e g) = (q, h')" for u m e q h'
    using budget_dispatch[of i en u m "log_event e g"] logged[of e] that by simp
  have "budget i g \<le> budget i f" using g by (rule tame_budget)
  then show ?thesis using disp logged le_trans[OF retry disp]
    by (auto simp: submit_def Inr ins Let_def split: sum.split idempotent_insert.split prod.split)
qed (simp add: submit_def)

lemma tame_tool_check: "tame f (check_tool_against_allowlist en j w tool f)"
proof -
  have "tame f g" if "allowed_tools rid f = (x, g)" for rid x g
    using that by (auto simp: allowed_tools_def Let_def split: option.splits sum.splits)
  then show ?thesis
    by (auto simp: check_tool_against_allowlist_def split: option.split sum.split prod.split)
qed

lemma budget_completed: "budget i (handle_completed en ens j result f) \<le> budget i f"
proof -
  let ?g = "record_and_persist en AtRecord (tr_worker_id result) Success f"
  let ?op = "compare_and_set_task_status (en_now en AtClaim) j [PhDispatched] (Completed result)
    WorkerOutcome (fence_at en AtClaim)"
  define h where "h = (case with_store ?op ?g of
      (Inr Applied, f) \<Rightarrow> log_event (TaskCompleted j (tr_worker_id result) result (en_now en AtClaim)) f
    | (_, f) \<Rightarrow> f)"
  obtain r g where c: "with_store ?op ?g = (r, g)" by fastforce
  have "tame ?g g" by (rule tame_cas[OF c]) simp
  then have "tame f g" using tame_trans[of f ?g g] by simp
  then have "tame f h" by (auto simp: h_def c split: sum.split transition_outcome.split)
  then have "budget i (h\<lparr>fl_running := fl_running h - 1\<rparr>) \<le> budget i f" using tame_budget by simp
  then show ?thesis using le_trans[OF budget_ready]
    by (simp add: handle_completed_def Let_def flip: h_def)
qed

lemma tame_failed: "tame f (handle_failed en j error obs f)"
proof -
  have "tame f (snd (mark_failed en p j [PhDispatched] failure origin g))" if "tame f g" for p failure origin g
    using tame_trans[OF that tame_mark_failed] by simp
  then show ?thesis by (simp add: handle_failed_def Let_def split: option.split)
qed

lemma budget_event: "budget i (handle_worker_event en ens ev f) \<le> budget i f"
proof -
  have "tame f (check_tool_against_allowlist en j w tool (log_event e f))" for j w tool e
    using tame_trans[OF _ tame_tool_check, of f "log_event e f"] by simp
  then show ?thesis
    by (cases ev) (simp_all add: handle_worker_event_def budget_completed tame_budget tame_failed
        tame_session tame_output)
qed

lemma tame_cancel: "tame f (snd (cancel en j reason f))"
proof -
  have d: "tame f (deliver_cancel en t f)" for t
    by (auto simp: deliver_cancel_def Let_def split: task_status.split sum.split cancel_delivery.split)
  have "tame f g"
    if "with_store (compare_and_set_task_status now j [PhPending, PhDispatched] (Cancelled reason n) origin fence)
      (deliver_cancel en t f) = (r, g)" for now n origin fence t r g
    using tame_trans[OF d tame_cas[OF that]] by simp
  then show ?thesis
    by (auto simp: cancel_defs Let_def split: sum.split option.split prod.split transition_outcome.split)
qed

section \<open>Instances side by side\<close>

text \<open>
  What happens in a fleet: instance \<open>k\<close> runs an operation, or something else writes to the store.
  \<open>ActPick\<close> and \<open>ActClaim\<close> are the two halves of a dispatch, so that anything may happen between
  them; a claim may be made with a task record and a worker chosen long before.
\<close>

datatype fleet_op =
    OpSubmit env task
  | OpDispatch env task bool
  | OpPick env task bool
  | OpClaim env task worker_id bool
  | OpReady "task_id \<Rightarrow> env"
  | OpEvent env "task_id \<Rightarrow> env" worker_event
  | OpCancel env task_id string

fun op_exec :: "fleet_op \<Rightarrow> fleet \<Rightarrow> fleet" where
  "op_exec (OpSubmit en t) f = snd (submit en t f)"
| "op_exec (OpDispatch en t mark) f = snd (dispatch_existing en t mark f)"
| "op_exec (OpPick en t mark) f = snd (pick_worker en t mark f)"
| "op_exec (OpClaim en t w mark) f = snd (claim_and_send en t w mark f)"
| "op_exec (OpReady ens) f = dispatch_ready_tasks ens f"
| "op_exec (OpEvent en ens ev) f = handle_worker_event en ens ev f"
| "op_exec (OpCancel en i reason) f = snd (cancel en i reason f)"

datatype fleet_act = Act nat fleet_op | Write store_call

record cluster =
  cl_instances :: "nat \<Rightarrow> fleet"
  cl_store :: mem_store
  cl_audit :: "audit_entry list"
  cl_sent :: "dispatch_request list"

fun act_exec ::
    "(duration \<Rightarrow> timedelta option) \<Rightarrow> (string \<Rightarrow> string) \<Rightarrow> fleet_act \<Rightarrow> cluster \<Rightarrow> cluster" where
  "act_exec conv dg (Act k op) c =
     (let f = op_exec op ((cl_instances c k)\<lparr>fl_store := cl_store c, fl_audit := cl_audit c, fl_sent := cl_sent c\<rparr>)
      in c\<lparr>cl_instances := (cl_instances c)(k := f), cl_store := fl_store f, cl_audit := fl_audit f,
           cl_sent := fl_sent f\<rparr>)"
| "act_exec conv dg (Write k) c = c\<lparr>cl_store := store_exec conv dg k (cl_store c)\<rparr>"

abbreviation fleet_run ::
    "(duration \<Rightarrow> timedelta option) \<Rightarrow> (string \<Rightarrow> string) \<Rightarrow> fleet_act list \<Rightarrow> cluster \<Rightarrow> cluster" where
  "fleet_run conv dg acts c \<equiv> fold (act_exec conv dg) acts c"

lemma budget_op: "budget i (op_exec op f) \<le> budget i f"
  by (cases op) (simp_all add: budget_submit budget_dispatch budget_claim budget_ready budget_event
      tame_budget[OF tame_pick] tame_budget[OF tame_cancel])

lemma worker_exec_tasks: "ms_tasks (snd (worker_exec dg k s)) = ms_tasks s"
  by (cases k)
    (auto simp: upsert_worker_def bump_worker_incarnation_def record_worker_activity_def
      update_worker_heartbeat_def delete_worker_def create_bootstrap_token_def
      revoke_bootstrap_token_def rotate_worker_operational_credential_def
      revoke_worker_operational_credential_def consume_bootstrap_token_def enroll_worker_def Let_def
      split: option.splits prod.splits)

lemma agent_exec_tasks:
  "\<forall>c. k \<noteq> AcTask c \<Longrightarrow> ms_tasks (agent_exec conv k s) = ms_tasks s"
  by (cases k) (auto simp: create_agent_def assign_agent_worker_def set_agent_desired_status_def update_agent_status_def
    ack_agent_commands_def apply_agent_observations_def delete_worker_def Let_def case_prod_beta
    split: option.split)

lemma store_exec_advances:
  assumes "\<forall>i. k \<noteq> ScAgent (AcTask (TcDelete i))"
  shows "advances s (store_exec conv dg k s)"
proof (cases "\<exists>c. k = ScAgent (AcTask c)")
  case True
  then show ?thesis using assms task_exec_advances by auto
next
  case False
  then show ?thesis
    by (intro advances_tasks, cases k) (auto simp: worker_exec_tasks agent_exec_tasks update_project_status_def
        archive_project_if_drained_def split: option.split)
qed

end
