(* ===== verification/Dispatch_Claims.thy ===== *)
theory Dispatch_Claims
  imports Dispatch_Safety
begin

text \<open>
  The guarantees of the dispatcher over the steps of \<open>Dispatch_Safety\<close>: sending at most once, what a
  successful dispatch has established, dependencies, submission, and the gaps.
\<close>

section \<open>A task is sent at most once\<close>

lemma task_exec_open:
  assumes "open_at i (task_exec conv k s)" "k \<noteq> TcDelete i"
  shows "open_at i s"
proof (cases "hm_get (ms_tasks s) i")
  case (Some t)
  from task_exec_evolves[OF this, of conv k] assms(2) obtain t' where
    t': "hm_get (ms_tasks (task_exec conv k s)) i = Some t'" "evolves t t'" by auto
  then have "t_status t' = Pending" using assms(1) by (simp add: open_at_def)
  then have "transition_allowed\<^sup>*\<^sup>* (phase (t_status t)) PhPending" using t'(2) by (simp add: evolves_def)
  from pending_source[OF this] show ?thesis by (simp add: open_at_def Some)
qed (simp add: open_at_def)

lemma store_exec_open:
  assumes "open_at i (store_exec conv dg k s)" "k \<noteq> ScAgent (AcTask (TcDelete i))"
  shows "open_at i s"
proof (cases "\<exists>c. k = ScAgent (AcTask c)")
  case True
  then obtain c where "k = ScAgent (AcTask c)" by blast
  then show ?thesis using task_exec_open[of i conv c s] assms by simp
next
  case False
  then have "advances s (store_exec conv dg k s)" by (intro store_exec_advances) blast
  then show ?thesis using assms(1) by (rule advances_open)
qed

definition cluster_budget :: "task_id \<Rightarrow> cluster \<Rightarrow> nat" where
  "cluster_budget i c = sent_for i (cl_sent c) + (if open_at i (cl_store c) then 1 else 0)"

lemma act_budget:
  assumes "a \<noteq> Write (ScAgent (AcTask (TcDelete i)))"
  shows "cluster_budget i (act_exec conv dg a c) \<le> cluster_budget i c"
proof (cases a)
  case (Act k op)
  show ?thesis
    using budget_op[of i op "(cl_instances c k)\<lparr>fl_store := cl_store c, fl_audit := cl_audit c, fl_sent := cl_sent c\<rparr>"]
    by (simp add: Act Let_def cluster_budget_def budget_def)
next
  case (Write k)
  then show ?thesis using assms store_exec_open[of i conv dg k "cl_store c"] by (auto simp: cluster_budget_def)
qed

text \<open>
  C2. No double dispatch: whatever any number of instances do, with stale task records, after losing
  the lease, interleaved at the worst points with each other and with all other writers of the store,
  the transport is handed at most one request for a task (that is not deleted in between and had not
  been sent before).
\<close>

theorem sent_at_most_once:
  assumes "Write (ScAgent (AcTask (TcDelete i))) \<notin> set acts" "sent_for i (cl_sent c) = 0"
  shows "sent_for i (cl_sent (fleet_run conv dg acts c)) \<le> 1"
proof -
  have "cluster_budget i (fleet_run conv dg acts c) \<le> cluster_budget i c"
    using assms(1)
  proof (induction acts arbitrary: c)
    case (Cons a acts)
    then have "cluster_budget i (fleet_run conv dg acts (act_exec conv dg a c)) \<le> cluster_budget i (act_exec conv dg a c)"
      "cluster_budget i (act_exec conv dg a c) \<le> cluster_budget i c"
      by (auto intro: act_budget)
    then show ?case by simp
  qed simp
  then show ?thesis using assms(2) by (simp add: cluster_budget_def split: if_splits)
qed

abbreviation calm_env :: env where
  "calm_env \<equiv> \<lparr> en_lease = \<lambda>_. None, en_now = \<lambda>_. 9, en_instant = \<lambda>_. 9, en_probe = \<lambda>_. True,
     en_sessions = \<lambda>_. Inr Undeclared, en_dispatch = \<lambda>_. Inr (), en_cancel = \<lambda>_. Inr Sent,
     en_sha = (\<lambda>b. b), en_read = \<lambda>_. Inl IoNotFound, en_breaker_config = default_breaker_config,
     en_max_dispatch_retries = 0 \<rparr>"

abbreviation idle_fleet :: "mem_store \<Rightarrow> fleet" where
  "idle_fleet s \<equiv> \<lparr> fl_store = s, fl_audit = [], fl_sent = [], fl_cancels = [], fl_breakers = [],
     fl_recovered = (None, {}), fl_allowlists = [], fl_running = 0 \<rparr>"

abbreviation one_task_store :: mem_store where
  "one_task_store \<equiv> empty_store\<lparr>ms_tasks := [(TaskId 1, plain_task 1)],
     ms_workers := [(WorkerId 1, new_worker (WorkerId 1) 0 0 ''w'' ''ws://h'')]\<rparr>"

abbreviation two_instances :: cluster where
  "two_instances \<equiv> \<lparr> cl_instances = (\<lambda>_. idle_fleet empty_store), cl_store = one_task_store,
     cl_audit = [], cl_sent = [] \<rparr>"

lemma claim_sends_once:
  "sent_for (TaskId 1) (fl_sent (snd (claim_and_send calm_env (plain_task 1) (WorkerId 1) False (idle_fleet one_task_store)))) = 1"
  by (simp add: claim_and_send_def harness_of_def inject_skills_def is_complete_def from_request_def default_request_def
      with_store_def compare_and_set_task_status_def fence_at_def control_fence_of_def Let_def stale_dispatch_def
      hm_get_def log_event_def append_event_def send_request_def record_task_skill_snapshot_def sent_for_def
      request_of_def empty_store_def case_prod_beta)

lemma sent_at_most_once_witness:
  "sent_for (TaskId 1) (cl_sent (fleet_run ns_conv (\<lambda>t. t)
      [Act 0 (OpClaim calm_env (plain_task 1) (WorkerId 1) False),
       Act 1 (OpClaim calm_env (plain_task 1) (WorkerId 1) False)] two_instances)) \<le> 1 \<and>
   sent_for (TaskId 1) (fl_sent (snd (claim_and_send calm_env (plain_task 1) (WorkerId 1) False
      (idle_fleet one_task_store)))) = 1"
  by (intro conjI sent_at_most_once claim_sends_once) (simp_all add: sent_for_def)

section \<open>What a dispatch has established\<close>

lemma pick_picked:
  assumes "pick_worker en t mark f = (Inr w, g)"
  obtains s breakers q where "allows en AtEntry"
    "select (en_probe en) (en_now en AtSelect) (fl_breakers f) t (fl_store f) = (Inr w, s)"
    "ensure_worker_recovered en w (checked en w s breakers f) = (Inr q, g)"
  using assms by (cases rule: pick_cases) auto

lemma pick_tame: "pick_worker en t mark f = (r, g) \<Longrightarrow> tame f g"
  using tame_pick[of f en t mark] by simp

text \<open>What a write of the snapshot and the event log leave alone.\<close>

lemma claimed_task:
  assumes "hm_get (ms_tasks (fl_store g)) i = Some t"
  shows "\<exists>t'. hm_get (ms_tasks (fl_store (claimed en u w h g))) i = Some t' \<and> t_status t' = t_status t \<and>
     t_dispatch_control_epoch t' = t_dispatch_control_epoch t"
  using assms
  by (auto simp: claimed_def log_event_def append_event_def record_task_skill_snapshot_def hm_get_adjust Let_def
      split: option.split)

text \<open>
  C4. What a successful dispatch has established: the instance held the lease when it began; the
  worker was eligible for the task, and answered if it is reached on demand; every required skill was
  loaded; exactly one request went out, for this task to this worker, with the prompt built from the
  skills; the task went from pending to dispatched on that worker, and if the instance still held a
  lease epoch when it claimed, that epoch was the current one and is stamped on the task.
\<close>

theorem dispatch_sound:
  assumes "tables_ok (fl_store f)" "dispatch_existing en t mark f = (Inr (), f')"
  shows "allows en AtEntry \<and>
    (\<exists>wk g t'. eligible (fl_breakers f) t (fl_store f) wk \<and>
       (w_liveness_mode wk = OnDemand \<longrightarrow> en_probe en (w_id wk)) \<and>
       is_complete (harness_of en t g) \<and> pending_at (t_id t) g \<and>
       fl_sent f' = fl_sent f @ [request_of t (w_id wk) (si_prompt (harness_of en t g))] \<and>
       hm_get (ms_tasks (fl_store f')) (t_id t) = Some t' \<and>
       t_status t' = Dispatched (w_id wk) (en_now en AtClaim) \<and>
       (\<forall>fe. fence_at en AtClaim = Some fe \<longrightarrow>
          control_fence_holds g (Some fe) \<and> t_dispatch_control_epoch t' = Some (cf_epoch fe)))"
proof -
  obtain w g where p: "pick_worker en t mark f = (Inr w, g)" "claim_and_send en t w mark g = (Inr (), f')"
    using assms(2) by (auto simp: dispatch_existing_def split: prod.splits sum.splits)
  from p(1) obtain s where a: "allows en AtEntry"
      "select (en_probe en) (en_now en AtSelect) (fl_breakers f) t (fl_store f) = (Inr w, s)"
    by (rule pick_picked)
  obtain wk where wk: "w_id wk = w" "eligible (fl_breakers f) t (fl_store f) wk"
      "w_liveness_mode wk = OnDemand \<longrightarrow> en_probe en w"
    by (rule selected_eligible[OF assms(1) a(2)])
  have sent: "fl_sent g = fl_sent f" using pick_tame[OF p(1)] by (simp add: tame_def)
  let ?h = "harness_of en t (fl_store g)"
  from p(2) show ?thesis
  proof (cases rule: claim_cases)
    case (sent h)
    note c = with_store_result[OF sent(2)]
    have "claim_cas en t w (fl_store g) = (Inr Applied, fl_store h)" using c by simp
    then obtain u where u: "hm_get (ms_tasks (fl_store g)) (t_id t) = Some u" "t_status u = Pending"
        "control_fence_holds (fl_store g) (fence_at en AtClaim)"
        "hm_get (ms_tasks (fl_store h)) (t_id t) =
           Some (apply_transition (en_now en AtClaim) (Dispatched w (en_now en AtClaim)) (fence_at en AtClaim) u)"
      by (cases rule: cas_cases) (auto simp: hm_get_adjust)
    from claimed_task[OF u(4), of en t w ?h] obtain t' where t':
        "hm_get (ms_tasks (fl_store (claimed en t w ?h h))) (t_id t) = Some t'"
        "t_status t' = Dispatched w (en_now en AtClaim)"
        "t_dispatch_control_epoch t' = t_dispatch_control_epoch
           (apply_transition (en_now en AtClaim) (Dispatched w (en_now en AtClaim)) (fence_at en AtClaim) u)" by auto
    have f': "fl_sent f' = fl_sent f @ [request_of t w (si_prompt ?h)]"
        "fl_store f' = fl_store (claimed en t w ?h h)"
      using sent(3) c \<open>fl_sent g = fl_sent f\<close>
      by (auto simp: send_request_def Let_def claimed_def log_event_def split: sum.splits)
    have "\<forall>fe. fence_at en AtClaim = Some fe \<longrightarrow>
        control_fence_holds (fl_store g) (Some fe) \<and> t_dispatch_control_epoch t' = Some (cf_epoch fe)"
      using u(3) t'(3) by (auto simp: apply_transition_epoch is_dispatched_status_def)
    moreover have "pending_at (t_id t) (fl_store g)" using u(1,2) by (simp add: pending_at_def)
    ultimately show ?thesis
      using a(1) wk sent(1) f' t'(1,2) by (intro conjI exI[of _ wk] exI[of _ "fl_store g"] exI[of _ t']) simp_all
  qed simp_all
qed

lemma calm_select:
  "select (\<lambda>_. True) 9 [] (plain_task 1) one_task_store = (Inr (WorkerId 1), one_task_store)"
  by (simp add: select_def candidates_def list_workers_def hm_values_def online_filter_def
    default_worker_filter_def worker_selected_def new_worker_def page_def sort_desc_def labels_match_def
    state_of_def count_dispatched_tasks_by_worker_def has_room_def load_of_def responds_def
    hm_get_def empty_store_def from_request_def default_request_def is_failing_def Let_def)

lemma calm_circuit: "get_worker_circuit_state (WorkerId 1) one_task_store = CClosed"
  by (simp add: get_worker_circuit_state_def get_worker_def new_worker_def hm_get_def)

lemma calm_check:
  "\<exists>b. reg_check default_breaker_config 9 9 (WorkerId 1) CClosed [] = (Inr (), b) \<and> state_of (WorkerId 1) b = BClosed"
  by (simp add: reg_check_def reg_get_def new_with_state_def new_inner_def check_def state_of_def Let_def)

lemma calm_pick:
  "\<exists>g. pick_worker calm_env (plain_task 1) False (idle_fleet one_task_store) = (Inr (WorkerId 1), g) \<and>
     fl_store g = one_task_store"
proof -
  obtain b where b: "reg_check default_breaker_config 9 9 (WorkerId 1) CClosed [] = (Inr (), b)"
      "state_of (WorkerId 1) b = BClosed" using calm_check by blast
  have old: "bi_state (fst (reg_get 9 (WorkerId 1) CClosed [])) = BClosed"
    by (simp add: reg_get_def new_with_state_def new_inner_def Let_def)
  show ?thesis
    by (simp add: pick_worker_def allows_def lease_allows_control_def calm_select calm_circuit b old Let_def
      persist_breaker_transition_def ensure_worker_recovered_def audit_decision_def record_audit_def)
qed

lemma calm_dispatch:
  "\<exists>f'. dispatch_existing calm_env (plain_task 1) False (idle_fleet one_task_store) = (Inr (), f')"
proof -
  obtain g where "pick_worker calm_env (plain_task 1) False (idle_fleet one_task_store) = (Inr (WorkerId 1), g)"
      "fl_store g = one_task_store"
    using calm_pick by blast
  then show ?thesis
    by (simp add: dispatch_existing_def claim_and_send_def harness_of_def inject_skills_def is_complete_def
      from_request_def default_request_def with_store_def compare_and_set_task_status_def fence_at_def
      control_fence_of_def Let_def stale_dispatch_def hm_get_def log_event_def append_event_def send_request_def
      record_task_skill_snapshot_def empty_store_def case_prod_beta)
qed

lemma dispatch_sound_witness:
  "\<exists>f'. dispatch_existing calm_env (plain_task 1) False (idle_fleet one_task_store) = (Inr (), f') \<and>
     length (fl_sent f') = 1"
proof -
  obtain f' where f': "dispatch_existing calm_env (plain_task 1) False (idle_fleet one_task_store) = (Inr (), f')"
    using calm_dispatch by blast
  have ok: "tables_ok (fl_store (idle_fleet one_task_store))"
    by (simp add: tables_ok_def empty_store_def keyed_def hm_ok_def new_worker_def from_request_def Let_def)
  from dispatch_sound[OF ok f'] f' show ?thesis by auto
qed

end
