(* ===== verification/Dispatch_Steps.thy ===== *)
theory Dispatch_Steps
  imports Dispatch_Claims
begin

text \<open>
  A relation between instances that every elementary update of the dispatcher keeps is kept by every
  operation of it: the locale proves this once, its interpretations give the lifecycle of tasks and
  the fate of an open circuit. Then what a submission, the release of dependent tasks and waiting for
  a task guarantee.
\<close>

section \<open>Relations kept by every operation\<close>

locale fleet_steps =
  fixes R :: "fleet \<Rightarrow> fleet \<Rightarrow> bool"
  assumes R_refl: "R f f"
    and R_trans: "R f g \<Longrightarrow> R g h \<Longrightarrow> R f h"
    and R_store: "advances (fl_store f) s \<Longrightarrow> R f (f\<lparr>fl_store := s\<rparr>)"
    and R_local: "R f (f\<lparr>fl_audit := au\<rparr>)" "R f (f\<lparr>fl_sent := rs\<rparr>)" "R f (f\<lparr>fl_cancels := cs\<rparr>)"
      "R f (f\<lparr>fl_recovered := rc\<rparr>)" "R f (f\<lparr>fl_allowlists := al\<rparr>)" "R f (f\<lparr>fl_running := n\<rparr>)"
    and R_checked: "state_of w (fl_breakers f) \<noteq> BOpen \<Longrightarrow>
      reg_check cfg now now' w initial (fl_breakers f) = (c, b) \<Longrightarrow> R f (f\<lparr>fl_breakers := b\<rparr>)"
    and R_recorded: "reg_record cfg now w initial out (fl_breakers f) = (st, b) \<Longrightarrow> R f (f\<lparr>fl_breakers := b\<rparr>)"
begin

lemma R_with_store: "advances (fl_store f) (snd (op (fl_store f))) \<Longrightarrow> R f (snd (with_store op f))"
  using R_store by (simp add: with_store_def case_prod_beta)

lemma R_with_task_exec:
  assumes "\<And>s. snd (op s) = task_exec (\<lambda>_. None) k s" "\<forall>j. k \<noteq> TcDelete j"
  shows "R f (snd (with_store op f))"
  using assms(1) task_exec_advances[OF assms(2)] by (intro R_with_store) metis

lemma R_inserted: "R f (snd (with_store (insert_task_idempotent t) f))"
  by (rule R_with_task_exec[where k = "TcInsert t"]) simp_all

lemma R_snapshot: "R f (snd (with_store (record_task_skill_snapshot j sn fence) f))"
  by (rule R_with_task_exec[where k = "TcSnapshot j sn fence"]) simp_all

lemma R_session: "R f (snd (with_store (record_task_acp_session j ss fence) f))"
  by (rule R_with_task_exec[where k = "TcSession j ss fence"]) simp_all

lemma R_retry: "R f (snd (with_store (increment_task_retry_count j) f))"
  by (rule R_with_task_exec[where k = "TcRetry j"]) simp_all

lemma R_output: "R f (snd (with_store (append_output j chunk) f))"
  by (rule R_with_store) (simp add: append_output_def advances_def Let_def)

lemma R_log: "R f (log_event e f)"
  unfolding log_event_def by (rule R_with_store) (simp add: append_event_def advances_def Let_def)

lemma R_audit: "R f (audit_control l a t f)" "R f (audit_decision l a t f)"
  by (simp_all add: audit_control_def audit_decision_def record_audit_def R_local R_refl split: option.split)

lemma R_cas:
  assumes "with_store (compare_and_set_task_status now j expected new origin fence) f = (r, g)"
    "list_all (\<lambda>p. transition_allowed p (phase new)) expected"
  shows "R f g"
proof -
  let ?op = "compare_and_set_task_status now j expected new origin fence"
  have "advances (fl_store f) (snd (?op (fl_store f)))"
    using assms(2) by (intro cas_advances) (simp add: list_all_iff)
  from R_with_store[where op = ?op, OF this] show ?thesis using assms(1) by simp
qed

lemma R_persist: "R f (persist_breaker_transition now w o1 o2 f)"
  by (simp add: persist_breaker_transition_def R_refl R_log)

lemma R_record: "R f (record_and_persist en p w out f)"
proof -
  obtain st b where r: "reg_record (en_breaker_config en) (en_instant en p) w
      (get_worker_circuit_state w (fl_store f)) out (fl_breakers f) = (st, b)" by fastforce
  show ?thesis
    using R_trans[OF R_recorded[OF r] R_persist] by (simp add: record_and_persist_def Let_def r)
qed

lemma R_mark_failed:
  assumes "list_all (\<lambda>p. transition_allowed p PhFailed) expected"
  shows "R f (snd (mark_failed en p j expected failure origin f))"
proof -
  obtain r g where c: "with_store (compare_and_set_task_status (en_now en p) j expected (Failed failure)
      origin (fence_at en p)) f = (r, g)" by fastforce
  have "R f g" by (rule R_cas[OF c]) (simp add: assms)
  then show ?thesis
    using R_trans[OF _ R_log] by (simp add: mark_failed_def c split: sum.split transition_outcome.split)
qed

lemma R_fail_pending: "R f (fail_pending en mark j failure f)"
  by (simp add: fail_pending_def R_mark_failed R_refl)

lemma R_reap_loop: "R f (reap_loop en w live ts f)"
proof (induction ts arbitrary: f)
  case (Cons t ts)
  have "R f (snd (mark_failed en p j [PhDispatched] failure origin f))" for f p j failure origin
    by (rule R_mark_failed) simp
  then show ?case using Cons.IH R_trans by (auto split: option.split) blast
qed (simp add: R_refl)

lemma R_recovered: "R f (snd (ensure_worker_recovered en w f))"
proof -
  define f0 where "f0 = (if fst (fl_recovered f) \<noteq> Option.bind (en_lease en AtRecovery) (\<lambda>ob. ls_epoch (lo_status ob))
    then f\<lparr>fl_recovered := (Option.bind (en_lease en AtRecovery) (\<lambda>ob. ls_epoch (lo_status ob)), {})\<rparr> else f)"
  have f0: "R f f0" by (simp add: f0_def R_refl R_local)
  have reap: "R g (reap_vanished_on_worker en w live g)" for g live
    by (simp add: reap_vanished_on_worker_def R_reap_loop R_refl split: sum.split)
  have fin: "R f0 ((audit_decision l a t g)\<lparr>fl_recovered := rc\<rparr>)" if "R f0 g" for g l a t rc
    using R_trans[OF R_trans[OF that R_audit(2)] R_local(4)] .
  have "R f0 (snd (ensure_worker_recovered en w f))"
    unfolding ensure_worker_recovered_def Let_def f0_def[symmetric]
    by (simp add: R_refl fin reap split: sum.split session_inventory.split)
  with f0 show ?thesis by (rule R_trans)
qed

lemma R_select:
  assumes "select probe now reg t (fl_store f) = (r, s)"
  shows "R f (f\<lparr>fl_store := s\<rparr>)"
  using tame_select[OF assms] R_store by (simp add: tame_def)

lemma R_asked:
  assumes "select (en_probe en) (en_now en AtSelect) (fl_breakers f) t (fl_store f) = (Inr w, s)"
    "breaker_asked en w s f = (c, b)"
  shows "R f (checked en w s b f)"
proof -
  from select_from[OF assms(1)] obtain c0 wk where "candidates (fl_breakers f) t (fl_store f) = Inr c0"
      "wk \<in> set c0" "w_id wk = w" by auto
  then have "state_of w (fl_breakers f) \<noteq> BOpen" using candidates_not_open by blast
  then have "R (f\<lparr>fl_store := s\<rparr>) ((f\<lparr>fl_store := s\<rparr>)\<lparr>fl_breakers := b\<rparr>)"
    using assms(2) by (intro R_checked[where f = "f\<lparr>fl_store := s\<rparr>"]) simp_all
  then show ?thesis
    unfolding checked_def using R_trans[OF R_select[OF assms(1)]] R_trans[OF _ R_persist] by blast
qed

lemma R_pick: "R f (snd (pick_worker en t mark f))"
proof -
  obtain r f' where p: "pick_worker en t mark f = (r, f')" by fastforce
  from p have "R f f'"
  proof (cases rule: pick_cases)
    case (not_recovered w s u breakers e g failure)
    have "R f g" using R_trans[OF R_asked[OF not_recovered(2,3)] R_recovered] not_recovered(4) by (metis snd_conv)
    then show ?thesis using R_trans[OF R_trans[OF _ R_record] R_fail_pending] not_recovered(6) by simp
  next
    case (picked w s u breakers q)
    show ?thesis using R_trans[OF R_asked[OF picked(2,3)] R_recovered] picked(4) by (metis snd_conv)
  qed (auto intro: R_audit R_trans[OF R_select R_fail_pending] R_trans[OF R_asked R_fail_pending])
  then show ?thesis by (simp add: p)
qed

lemma R_send: "R f (snd (send_request en t req f))"
proof -
  define g where "g = f\<lparr>fl_running := fl_running f + 1, fl_sent := fl_sent f @ [req]\<rparr>"
  have g: "R f g" unfolding g_def using R_trans[OF R_local(6) R_local(2)] by simp
  have fail: "R g ((snd (mark_failed en p j [PhDispatched] failure origin h))\<lparr>fl_running := n\<rparr>)"
    if "R g h" for h p j failure origin n
    using R_trans[OF R_trans[OF that R_mark_failed] R_local(6)] by simp
  have "R g (snd (send_request en t req f))"
    unfolding send_request_def Let_def g_def[symmetric]
    by (simp add: R_refl fail R_record split: sum.split)
  with g show ?thesis by (rule R_trans)
qed

lemma R_claim: "R f (snd (claim_and_send en t w mark f))"
proof -
  obtain r f' where p: "claim_and_send en t w mark f = (r, f')" by fastforce
  from p have "R f f'"
  proof (cases rule: claim_cases)
    case (skills_missing failure)
    then show ?thesis by (simp add: R_fail_pending)
  next
    case (not_claimed out g e)
    have "R f g" by (rule R_cas[OF not_claimed(2)]) simp
    then show ?thesis using not_claimed(5) R_trans[OF _ R_audit(1)] by auto
  next
    case (sent g)
    have "R f g" by (rule R_cas[OF sent(2)]) simp
    then have "R f (claimed en t w h g)" for h
      unfolding claimed_def using R_trans[OF R_trans[OF _ R_log] R_snapshot] by blast
    then show ?thesis using R_trans[OF _ R_send] sent(3) by (metis snd_conv)
  qed
  then show ?thesis by (simp add: p)
qed

lemma R_dispatch: "R f (snd (dispatch_existing en t mark f))"
proof -
  obtain r g where p: "pick_worker en t mark f = (r, g)" by fastforce
  have "R f g" using R_pick[of f en t mark] by (simp add: p)
  then show ?thesis using R_trans[OF _ R_claim] by (cases r) (simp_all add: dispatch_existing_def p)
qed

lemma R_each: "R f (dispatch_each ens ts f)"
proof (induction ts arbitrary: f)
  case (Cons t ts)
  show ?case using Cons.IH R_trans[OF R_dispatch Cons.IH] by simp
qed (simp add: R_refl)

lemma R_ready: "R f (dispatch_ready_tasks ens f)"
  by (simp add: dispatch_ready_tasks_def R_each R_refl split: sum.split)

lemma R_submit: "R f (snd (submit en t f))"
proof (cases "validate_workspace_cwd (t_cwd t)")
  case (Inr cwd)
  let ?t = "apply_routing t"
  obtain r g where ins: "with_store (insert_task_idempotent ?t) f = (r, g)" by fastforce
  have g: "R f g" using R_inserted[of f ?t] by (simp add: ins)
  then have logged: "R f (log_event e g)" for e using R_trans[OF _ R_log] by blast
  have disp: "R f h" if "dispatch_existing en u m (log_event e g) = (q, h)" for u m e q h
    using R_trans[OF logged R_dispatch[of "log_event e g" en u m]] that by simp
  have retry: "R f (snd (with_store (increment_task_retry_count j) h))" if "R f h" for j h
    using R_trans[OF that R_retry] .
  show ?thesis
    using disp logged g retry[OF disp]
    by (auto simp: submit_def Inr ins Let_def split: sum.split idempotent_insert.split prod.split)
qed (simp add: submit_def R_refl)

lemma R_tool_check: "R f (check_tool_against_allowlist en j w tool f)"
proof -
  have al: "R f g" if "allowed_tools rid f = (x, g)" for rid x g
    using that by (auto simp: allowed_tools_def Let_def R_refl R_local split: option.splits sum.splits)
  then have "R f (audit_decision l a t g)" if "allowed_tools rid f = (x, g)" for rid x g l a t
    using that R_trans[OF _ R_audit(2)] by blast
  with al show ?thesis
    by (auto simp: check_tool_against_allowlist_def R_refl split: option.split sum.split prod.split)
qed

lemma R_completed: "R f (handle_completed en ens j result f)"
proof -
  let ?g = "record_and_persist en AtRecord (tr_worker_id result) Success f"
  let ?op = "compare_and_set_task_status (en_now en AtClaim) j [PhDispatched] (Completed result)
    WorkerOutcome (fence_at en AtClaim)"
  define h where "h = (case with_store ?op ?g of
      (Inr Applied, f) \<Rightarrow> log_event (TaskCompleted j (tr_worker_id result) result (en_now en AtClaim)) f
    | (_, f) \<Rightarrow> f)"
  obtain r g where c: "with_store ?op ?g = (r, g)" by fastforce
  have "R ?g g" by (rule R_cas[OF c]) simp
  then have "R f g" using R_trans[OF R_record] by blast
  then have "R f h"
    using R_trans[OF _ R_log] by (simp add: h_def c split: sum.split transition_outcome.split)
  then show ?thesis
    using R_trans[OF R_trans[OF _ R_local(6)] R_ready] by (simp add: handle_completed_def Let_def flip: h_def)
qed

lemma R_failed: "R f (handle_failed en j error obs f)"
proof -
  have "R f ((snd (mark_failed en p j [PhDispatched] failure origin g))\<lparr>fl_running := n\<rparr>)" if "R f g"
    for p failure origin g n
    using R_trans[OF R_trans[OF that R_mark_failed] R_local(6)] by simp
  then show ?thesis by (simp add: handle_failed_def Let_def R_refl R_record split: option.split)
qed

lemma R_event: "R f (handle_worker_event en ens ev f)"
  by (cases ev) (simp_all add: handle_worker_event_def R_audit R_completed R_failed R_session R_output
      R_trans[OF R_log R_tool_check])

lemma R_cancel: "R f (snd (cancel en j reason f))"
proof -
  have d: "R f (deliver_cancel en t f)" for t
  proof -
    have "R f (audit_decision l a x (f\<lparr>fl_cancels := cs\<rparr>))" for l a x cs
      using R_trans[OF R_local(3) R_audit(2)] .
    then show ?thesis
      by (simp add: deliver_cancel_def Let_def R_refl R_local split: task_status.split sum.split cancel_delivery.split)
  qed
  have g: "R f g"
    if "with_store (compare_and_set_task_status now j [PhPending, PhDispatched] (Cancelled reason n) origin fence)
      (deliver_cancel en t f) = (r, g)" for now n origin fence t r g
    using R_trans[OF d R_cas[OF that]] by simp
  then have "R f ((log_event e g)\<lparr>fl_running := m\<rparr>)"
    if "with_store (compare_and_set_task_status now j [PhPending, PhDispatched] (Cancelled reason n) origin fence)
      (deliver_cancel en t f) = (r, g)" for now n origin fence t r g e m
    using that R_trans[OF R_trans[OF _ R_log] R_local(6)] by blast
  with g show ?thesis
    by (auto simp: cancel_defs Let_def R_refl split: sum.split option.split prod.split transition_outcome.split)
qed

lemma R_op: "R f (op_exec op f)"
  by (cases op) (simp_all add: R_submit R_dispatch R_pick R_claim R_ready R_event R_cancel)

lemma R_ops: "R f (fold op_exec ops f)"
proof (induction ops arbitrary: f)
  case (Cons op ops)
  show ?case using R_trans[OF R_op Cons.IH] by simp
qed (simp add: R_refl)

end

text \<open>The lifecycle of tasks is such a relation.\<close>

interpretation lifecycle: fleet_steps "\<lambda>f f'. advances (fl_store f) (fl_store f')"
  by unfold_locales (auto intro: advances_trans)

section \<open>An open circuit\<close>

text \<open>Only \<open>check\<close> leaves the open state, and it is never asked about an open circuit.\<close>

definition keeps_open :: "worker_id \<Rightarrow> fleet \<Rightarrow> fleet \<Rightarrow> bool" where
  "keeps_open w f f' \<longleftrightarrow>
     (state_of w (fl_breakers f) = BOpen \<longrightarrow> state_of w (fl_breakers f') = BOpen)"

lemma reg_get_state: "state_of w' (snd (reg_get now w initial r)) = BOpen" if "state_of w' r = BOpen"
  using that by (auto simp: reg_get_def state_of_def hm_get_insert Let_def split: option.splits)

lemma reg_record_keeps_open:
  assumes "reg_record cfg now w' initial out r = (st, b)" "state_of w r = BOpen"
  shows "state_of w b = BOpen"
proof (cases "w' = w")
  case True
  with assms(2) obtain b0 where "hm_get r w = Some b0" "bi_state b0 = BOpen"
    by (auto simp: state_of_def split: option.splits)
  then show ?thesis
    using assms(1) True by (auto simp: reg_record_def reg_get_def record_outcome_def state_of_def hm_get_insert Let_def)
next
  case False
  then show ?thesis
    using assms by (auto simp: reg_record_def reg_get_def state_of_def hm_get_insert Let_def split: option.splits prod.splits)
qed

lemma reg_check_keeps_open:
  assumes "reg_check cfg now now' w' initial r = (c, b)" "state_of w' r \<noteq> BOpen" "state_of w r = BOpen"
  shows "state_of w b = BOpen"
proof -
  have "w' \<noteq> w" using assms(2,3) by auto
  then show ?thesis
    using assms by (auto simp: reg_check_def reg_get_def state_of_def hm_get_insert Let_def split: option.splits prod.splits)
qed

interpretation circuit: fleet_steps "keeps_open w" for w
  by unfold_locales (auto simp: keeps_open_def dest: reg_check_keeps_open reg_record_keeps_open)

text \<open>
  C7. An open circuit never recovers by itself: the selector drops a worker whose circuit is open
  before the breaker is asked, so the half-open transition of \<open>check\<close> is never reached. Whatever the
  dispatcher does from then on, however long the cool-down has been over, the circuit stays open and
  the worker is not picked (only a reset or another instance's event ends this).
\<close>

theorem open_circuit_never_recovers:
  assumes "state_of w (fl_breakers f) = BOpen"
  shows "state_of w (fl_breakers (fold op_exec ops f)) = BOpen \<and>
    fst (pick_worker en t mark (fold op_exec ops f)) \<noteq> Inr w"
proof
  let ?g = "fold op_exec ops f"
  show op: "state_of w (fl_breakers ?g) = BOpen"
    using circuit.R_ops[of w f ops] assms by (simp add: keeps_open_def)
  show "fst (pick_worker en t mark ?g) \<noteq> Inr w"
  proof
    assume "fst (pick_worker en t mark ?g) = Inr w"
    then obtain h where "pick_worker en t mark ?g = (Inr w, h)" by (metis prod.collapse)
    then obtain s where "select (en_probe en) (en_now en AtSelect) (fl_breakers ?g) t (fl_store ?g) = (Inr w, s)"
      by (rule pick_picked)
    from select_from[OF this] obtain c0 wk where "candidates (fl_breakers ?g) t (fl_store ?g) = Inr c0"
        "wk \<in> set c0" "w_id wk = w" by auto
    with candidates_not_open op show False by blast
  qed
qed

lemma open_circuit_never_recovers_witness:
  "let f = (idle_fleet one_task_store)\<lparr>fl_breakers := [(WorkerId 1, force_open 0 new_inner)]\<rparr>
   in fst (pick_worker (calm_env\<lparr>en_instant := \<lambda>_. 10 ^ 30\<rparr>) (plain_task 1) False (fold op_exec [] f)) \<noteq> Inr (WorkerId 1) \<and>
      fst (check default_breaker_config (10 ^ 30) (10 ^ 30) (force_open 0 new_inner)) = Inr ()"
proof -
  let ?f = "(idle_fleet one_task_store)\<lparr>fl_breakers := [(WorkerId 1, force_open 0 new_inner)]\<rparr>"
  have "state_of (WorkerId 1) (fl_breakers ?f) = BOpen"
    by (simp add: state_of_def hm_get_def force_open_def)
  from open_circuit_never_recovers[OF this, of "[]" "calm_env\<lparr>en_instant := \<lambda>_. 10 ^ 30\<rparr>" "plain_task 1" False]
  have "fst (pick_worker (calm_env\<lparr>en_instant := \<lambda>_. 10 ^ 30\<rparr>) (plain_task 1) False (fold op_exec [] ?f)) \<noteq> Inr (WorkerId 1)"
    by (rule conjunct2)
  moreover have "fst (check default_breaker_config (10 ^ 30) (10 ^ 30) (force_open 0 new_inner)) = Inr ()"
    by (simp add: check_def force_open_def default_breaker_config_def secs_def)
  ultimately show ?thesis unfolding Let_def by (rule conjI)
qed

end
