(* ===== verification/Dispatch_Flow.thy ===== *)
theory Dispatch_Flow
  imports Dispatch_Steps
begin

text \<open>
  How work flows through the dispatcher: a dependent task starts only after what it depends on, a
  submission is stored or reported once, a cancellation succeeds or reports what overtook it, a write without a fence is
  not checked, and waiting for a task returns.
\<close>

section \<open>Dependencies\<close>

definition completed_in :: "mem_store \<Rightarrow> task_id \<Rightarrow> bool" where
  "completed_in s d = (case hm_get (ms_tasks s) d of Some t \<Rightarrow> completed (t_status t) | None \<Rightarrow> False)"

lemma completed_phase: "completed st \<longleftrightarrow> phase st = PhCompleted"
  by (cases st) simp_all

lemma dependencies_iff: "dependencies_completed ds s \<longleftrightarrow> (\<forall>d \<in> set ds. completed_in s d)"
  by (induction ds) (auto simp: get_task_def completed_in_def split: option.split)

lemma advances_completed: "advances s s' \<Longrightarrow> completed_in s d \<Longrightarrow> completed_in s' d"
proof (cases "hm_get (ms_tasks s) d")
  case (Some t)
  assume "advances s s'" "completed_in s d"
  then obtain t' where "hm_get (ms_tasks s') d = Some t'" "evolves t t'" "is_terminal t"
    using Some by (fastforce simp: advances_def completed_in_def is_terminal_phase completed_phase)
  then show ?thesis using Some \<open>completed_in s d\<close> evolves_terminal[of t t'] by (simp add: completed_in_def)
qed (simp add: completed_in_def)

lemma send_sent: "fl_sent (snd (send_request en t req f)) = fl_sent f @ [req]"
proof -
  let ?f = "f\<lparr>fl_running := fl_running f + 1, fl_sent := fl_sent f @ [req]\<rparr>"
  have fail: "fl_sent (snd (mark_failed en p j [PhDispatched] failure origin g)) = fl_sent f @ [req]"
    if "tame ?f g" for p j failure origin g
    using that tame_mark_failed[of "[PhDispatched]" g en p j failure origin] by (simp add: tame_def)
  show ?thesis
    by (cases "en_dispatch en req") (simp_all add: send_request_def Let_def fail)
qed

lemma claim_sends:
  assumes "claim_and_send en t w mark f = (r, f')"
  obtains (quiet) "fl_sent f' = fl_sent f" | (sent) req where "fl_sent f' = fl_sent f @ [req]" "dr_task_id req = t_id t"
      "dr_worker_id req = w" "pending_at (t_id t) (fl_store f)"
  using assms
proof (cases rule: claim_cases)
  case (skills_missing failure)
  then show ?thesis using quiet tame_fail_pending[of f en mark "t_id t" failure] by (simp add: tame_def)
next
  case (not_claimed out g e)
  have "tame f f'" using tame_cas[OF not_claimed(2)] not_claimed(5) by auto
  then show ?thesis using quiet by (simp add: tame_def)
next
  case (sent g)
  note c = with_store_result[OF sent(2)]
  have "claim_cas en t w (fl_store f) = (Inr Applied, fl_store g)" using c by simp
  then have "pending_at (t_id t) (fl_store f)"
    by (cases rule: cas_cases) (simp_all add: pending_at_def)
  moreover have "fl_sent (claimed en t w h g) = fl_sent f" for h
    using c by (simp add: claimed_def log_event_def)
  ultimately show ?thesis
    using that(2) send_sent[of en t _ "claimed en t w _ g"] sent(3) by (simp add: request_of_def) (metis
        dispatch_request.select_convs(1,2) snd_conv)
qed

lemma pending_back: "tame f g \<Longrightarrow> pending_at i (fl_store g) \<Longrightarrow> hm_get (ms_tasks (fl_store f)) i \<noteq> None \<Longrightarrow>
  pending_at i (fl_store f)"
  using advances_open[of "fl_store f" "fl_store g" i]
  by (auto simp: tame_def open_at_def pending_at_def split: option.splits)

lemma dispatch_sends:
  assumes "dispatch_existing en t mark f = (r, f')"
  obtains (quiet) "fl_sent f' = fl_sent f" | (sent) req where "fl_sent f' = fl_sent f @ [req]" "dr_task_id req = t_id t"
proof -
  obtain q g where p: "pick_worker en t mark f = (q, g)" by fastforce
  have g: "fl_sent g = fl_sent f" using pick_tame[OF p] by (simp add: tame_def)
  show thesis
  proof (cases q)
    case (Inl e)
    then show ?thesis using quiet assms p g by (simp add: dispatch_existing_def)
  next
    case (Inr w)
    then have "claim_and_send en t w mark g = (r, f')" using assms p by (simp add: dispatch_existing_def)
    then show ?thesis using g by (cases rule: claim_sends) (auto intro: that)
  qed
qed

lemma each_sends:
  assumes "\<forall>t \<in> set ts. hm_get (ms_tasks (fl_store f0)) (t_id t) = Some t" "advances (fl_store f0) (fl_store f)"
  shows "\<exists>reqs. fl_sent (dispatch_each ens ts f) = fl_sent f @ reqs \<and>
    (\<forall>r \<in> set reqs. \<exists>t \<in> set ts. dr_task_id r = t_id t \<and>
       (\<forall>d \<in> set (t_dependency_ids t). completed_in (fl_store (dispatch_each ens ts f)) d))"
  using assms
proof (induction ts arbitrary: f)
  case (Cons t ts)
  let ?go = "dependencies_completed (t_dependency_ids t) (fl_store f)"
  define g where "g = (if ?go then snd (dispatch_existing (ens (t_id t)) t False f) else f)"
  have adv: "advances (fl_store f) (fl_store g)" using lifecycle.R_dispatch by (simp add: g_def)
  have after: "advances (fl_store g) (fl_store (dispatch_each ens ts g))" by (rule lifecycle.R_each)
  have e: "dispatch_each ens (t # ts) f = dispatch_each ens ts g" by (simp add: g_def)
  obtain reqs where reqs: "fl_sent (dispatch_each ens ts g) = fl_sent g @ reqs"
      "\<forall>r \<in> set reqs. \<exists>t \<in> set ts. dr_task_id r = t_id t \<and>
         (\<forall>d \<in> set (t_dependency_ids t). completed_in (fl_store (dispatch_each ens ts g)) d)"
    using Cons.IH[of g] Cons.prems advances_trans[OF Cons.prems(2) adv] by auto
  show ?case
  proof (cases "fl_sent g = fl_sent f")
    case True
    then show ?thesis using reqs unfolding e by auto
  next
    case False
    then have go: ?go by (simp add: g_def split: if_splits)
    obtain r0 where "dispatch_existing (ens (t_id t)) t False f = (r0, g)"
      using go by (metis g_def prod.collapse)
    then obtain req where req: "fl_sent g = fl_sent f @ [req]" "dr_task_id req = t_id t"
      using False by (cases rule: dispatch_sends) auto
    have "\<forall>d \<in> set (t_dependency_ids t). completed_in (fl_store (dispatch_each ens ts g)) d"
      using go advances_completed[OF advances_trans[OF adv after]] by (simp add: dependencies_iff)
    then show ?thesis using reqs req unfolding e by (intro exI[of _ "req # reqs"]) auto
  qed
qed simp

text \<open>
  A dependent task is released only when everything it depends on has completed: every request
  that the release of ready tasks hands to the transport is for a task that was pending when the
  tasks were listed and whose dependencies are all stored and completed, then and afterwards.
\<close>

theorem ready_respects_dependencies:
  assumes "tables_ok (fl_store f)" "r \<in> set (drop (length (fl_sent f)) (fl_sent (dispatch_ready_tasks ens f)))"
  shows "\<exists>t. hm_get (ms_tasks (fl_store f)) (dr_task_id r) = Some t \<and> t_status t = Pending \<and>
    (\<forall>d \<in> set (t_dependency_ids t). completed_in (fl_store (dispatch_ready_tasks ens f)) d)"
proof -
  let ?fi = "default_task_filter\<lparr>fi_status := Some FPending, fi_limit := 1000\<rparr>"
  obtain ts where ts: "list_tasks ?fi (fl_store f) = Inr ts" "dispatch_ready_tasks ens f = dispatch_each ens ts f"
    using assms(2) by (cases "list_tasks ?fi (fl_store f)") (auto simp: dispatch_ready_tasks_def)
  have listed: "\<forall>t \<in> set ts. hm_get (ms_tasks (fl_store f)) (t_id t) = Some t \<and> task_matches ?fi t"
    using list_tasks_spec[OF assms(1) ts(1)] by blast
  then obtain reqs where reqs: "fl_sent (dispatch_each ens ts f) = fl_sent f @ reqs"
      "\<forall>r \<in> set reqs. \<exists>t \<in> set ts. dr_task_id r = t_id t \<and>
         (\<forall>d \<in> set (t_dependency_ids t). completed_in (fl_store (dispatch_each ens ts f)) d)"
    using each_sends[of ts f f ens] by auto
  then have "r \<in> set reqs" using assms(2) by (simp add: ts(2))
  with reqs(2) obtain t where t: "t \<in> set ts" "dr_task_id r = t_id t"
      "\<forall>d \<in> set (t_dependency_ids t). completed_in (fl_store (dispatch_each ens ts f)) d" by blast
  then have "t_status t = Pending"
    using listed by (auto simp: task_matches_def status_matches_def default_task_filter_def split: task_status.splits)
  then show ?thesis using t listed by (auto simp: ts(2))
qed

abbreviation finished_task :: task where
  "finished_task \<equiv> (plain_task 1)\<lparr>t_status := Completed \<lparr> tr_output = ''ok'', tr_exit_code = 0, tr_duration_secs = 0,
     tr_token_usage = None, tr_worker_id = WorkerId 1, tr_finished_at = 8 \<rparr>\<rparr>"

abbreviation dependent_task :: task where
  "dependent_task \<equiv> (plain_task 2)\<lparr>t_dependency_ids := [TaskId 1]\<rparr>"

abbreviation chain_store :: mem_store where
  "chain_store \<equiv> empty_store\<lparr>ms_tasks := [(TaskId 1, finished_task), (TaskId 2, dependent_task)],
     ms_workers := [(WorkerId 1, new_worker (WorkerId 1) 0 0 ''w'' ''ws://h'')]\<rparr>"

lemma chain_select:
  "select (\<lambda>_. True) 9 [] dependent_task chain_store = (Inr (WorkerId 1), chain_store)"
  by (simp add: select_def candidates_def list_workers_def hm_values_def online_filter_def
    default_worker_filter_def worker_selected_def new_worker_def page_def sort_desc_def labels_match_def
    state_of_def count_dispatched_tasks_by_worker_def has_room_def load_of_def responds_def
    hm_get_def empty_store_def from_request_def default_request_def is_failing_def Let_def)

lemma chain_pick:
  "\<exists>g. pick_worker calm_env dependent_task False (idle_fleet chain_store) = (Inr (WorkerId 1), g) \<and>
     fl_store g = chain_store \<and> fl_sent g = []"
proof -
  obtain b where b: "reg_check default_breaker_config 9 9 (WorkerId 1) CClosed [] = (Inr (), b)"
      "state_of (WorkerId 1) b = BClosed" using calm_check by blast
  have old: "bi_state (fst (reg_get 9 (WorkerId 1) CClosed [])) = BClosed"
    by (simp add: reg_get_def new_with_state_def new_inner_def Let_def)
  have c: "get_worker_circuit_state (WorkerId 1) chain_store = CClosed"
    by (simp add: get_worker_circuit_state_def get_worker_def new_worker_def hm_get_def)
  show ?thesis
    by (simp add: pick_worker_def allows_def lease_allows_control_def chain_select c b old Let_def
      persist_breaker_transition_def ensure_worker_recovered_def audit_decision_def record_audit_def)
qed

lemma chain_sends:
  "length (fl_sent (dispatch_ready_tasks (\<lambda>_. calm_env) (idle_fleet chain_store))) = 1"
proof -
  obtain g where g: "pick_worker calm_env dependent_task False (idle_fleet chain_store) = (Inr (WorkerId 1), g)"
      "fl_store g = chain_store" "fl_sent g = []"
    using chain_pick by blast
  have "length (fl_sent (snd (claim_and_send calm_env dependent_task (WorkerId 1) False g))) = 1"
    using g(2,3)
    by (simp add: claim_and_send_def harness_of_def inject_skills_def is_complete_def from_request_def
      default_request_def with_store_def compare_and_set_task_status_def fence_at_def control_fence_of_def Let_def
      stale_dispatch_def hm_get_def log_event_def append_event_def send_request_def
      record_task_skill_snapshot_def empty_store_def case_prod_beta)
  moreover have "list_tasks (default_task_filter\<lparr>fi_status := Some FPending, fi_limit := 1000\<rparr>) chain_store
      = Inr [dependent_task]"
    by (simp add: list_tasks_def default_task_filter_def hm_values_def status_matches_def worker_matches_def
      created_by_matches_def from_request_def page_def sort_desc_def empty_store_def is_failing_def)
  moreover have "dependencies_completed [TaskId 1] chain_store"
    by (simp add: get_task_def hm_get_def)
  ultimately show ?thesis by (simp add: dispatch_ready_tasks_def dispatch_existing_def g(1))
qed

lemma ready_respects_dependencies_witness:
  "\<exists>(r :: dispatch_request) t. hm_get (ms_tasks chain_store) (dr_task_id r) = Some t \<and>
     (\<forall>d \<in> set (t_dependency_ids t). completed_in (fl_store (dispatch_ready_tasks (\<lambda>_. calm_env) (idle_fleet chain_store))) d)"
proof -
  let ?f = "idle_fleet chain_store"
  obtain r where r: "r \<in> set (drop (length (fl_sent ?f)) (fl_sent (dispatch_ready_tasks (\<lambda>_. calm_env) ?f)))"
    using chain_sends by (cases "fl_sent (dispatch_ready_tasks (\<lambda>_. calm_env) ?f)") auto
  have "tables_ok (fl_store ?f)"
    by (simp add: tables_ok_def empty_store_def keyed_def hm_ok_def new_worker_def from_request_def Let_def)
  from ready_respects_dependencies[OF this r] obtain t where t:
      "hm_get (ms_tasks (fl_store ?f)) (dr_task_id r) = Some t"
      "\<forall>d \<in> set (t_dependency_ids t). completed_in (fl_store (dispatch_ready_tasks (\<lambda>_. calm_env) ?f)) d"
    by blast
  show ?thesis
  proof (intro exI conjI)
    show "hm_get (ms_tasks chain_store) (dr_task_id r) = Some t" using t(1) by simp
  qed (rule t(2))
qed

section \<open>Submission\<close>

lemma apply_routing_sel [simp]:
  "t_id (apply_routing t) = t_id t" "t_created_by (apply_routing t) = t_created_by t"
  "t_idempotency_key (apply_routing t) = t_idempotency_key t"
  "t_idempotency_payload_hash (apply_routing t) = t_idempotency_payload_hash t"
  "t_dependency_ids (apply_routing t) = t_dependency_ids t" "t_cwd (apply_routing t) = t_cwd t"
  "t_status (apply_routing t) = t_status t"
  by (simp_all add: apply_routing_alt Let_def)

text \<open>The same submission: same creator, same key, same payload.\<close>

definition repeats_submission :: "task \<Rightarrow> task \<Rightarrow> bool" where
  "repeats_submission t u \<longleftrightarrow> t_idempotency_key t \<noteq> None \<and> t_idempotency_key u = t_idempotency_key t \<and>
     t_created_by u = t_created_by t \<and> t_idempotency_payload_hash u = t_idempotency_payload_hash t"

lemma submit_inserted:
  assumes "submit en t f = (r, f')" "validate_workspace_cwd (t_cwd t) = Inr cwd"
    "insert_task_idempotent (apply_routing t) (fl_store f) = (Inr Inserted, s)"
  defines "g \<equiv> log_event (TaskCreated (t_id t) (t_server_hint (apply_routing t)) (t_created_by t) (en_now en AtEntry)) (f\<lparr>fl_store := s\<rparr>)"
  shows "(r = Inr (t_id t) \<or> (\<exists>e. r = Inl e)) \<and> advances (fl_store g) (fl_store f') \<and>
    (fl_sent f' = fl_sent f \<or> (\<exists>req. fl_sent f' = fl_sent f @ [req] \<and> dr_task_id req = t_id t \<and>
       (\<forall>d \<in> set (t_dependency_ids t). completed_in (fl_store f') d)))"
proof -
  have ws: "with_store (insert_task_idempotent (apply_routing t)) f = (Inr Inserted, f\<lparr>fl_store := s\<rparr>)"
    by (simp add: with_store_def assms(3))
  have gs: "fl_sent g = fl_sent f" by (simp add: g_def log_event_def)
  show ?thesis
  proof (cases "dependencies_completed (t_dependency_ids t) (fl_store g)")
    case False
    then show ?thesis using assms(1,2) gs by (simp add: submit_def ws Let_def g_def)
  next
    case True
    obtain q h where d: "dispatch_existing en (apply_routing t) (\<not> en_max_dispatch_retries en > 0) g = (q, h)"
      by fastforce
    have h: "advances (fl_store g) (fl_store h)"
      using lifecycle.R_dispatch[of g en "apply_routing t" "\<not> en_max_dispatch_retries en > 0"] by (simp add: d)
    have f': "f' = h \<or> f' = snd (with_store (increment_task_retry_count (t_id t)) h)"
      and r: "r = Inr (t_id t) \<or> (\<exists>e. r = Inl e)"
      using assms(1,2) True d
      by (auto simp: submit_def ws Let_def g_def[symmetric] split: sum.splits if_splits)
    have "tame h f'" using f' tame_retry[of h "t_id t"] by auto
    then have h': "fl_sent f' = fl_sent h" "advances (fl_store h) (fl_store f')" by (simp_all add: tame_def)
    have adv: "advances (fl_store g) (fl_store f')" using advances_trans[OF h h'(2)] .
    have "fl_sent h = fl_sent g \<or> (\<exists>req. fl_sent h = fl_sent g @ [req] \<and> dr_task_id req = t_id t)"
      by (cases rule: dispatch_sends[OF d]) auto
    moreover have "\<forall>d \<in> set (t_dependency_ids t). completed_in (fl_store f') d"
      using True advances_completed[OF adv] by (simp add: dependencies_iff)
    ultimately show ?thesis using r adv h'(1) gs by auto
  qed
qed

text \<open>
  C8. A submission is never lost and never doubled: a submission whose working directory is refused
  changes nothing; an accepted one answers with the id of a stored task, which is its own or, for a
  repeated idempotency key, the one stored for the same creator, key and payload; as soon as any task
  of that creator is stored under its key, a submission stores nothing and sends nothing, and answers with the id
  of the earlier task if the payload is the same and with an error if no stored payload is; and at most one request
  goes out, for the submitted task, which was new, and only after everything it depends on has completed.
\<close>

theorem submission:
  assumes "tables_ok (fl_store f)" "submit en t f = (r, f')"
  shows "(\<forall>e. validate_workspace_cwd (t_cwd t) = Inl e \<longrightarrow>
      f' = f \<and> r = Inl (DeInvalidRequest (Msg ''cwd: {e}'' [ArgText (path_error_text e)]))) \<and>
    (\<forall>i. r = Inr i \<longrightarrow> (\<exists>u. hm_get (ms_tasks (fl_store f')) i = Some u \<and> (i = t_id t \<or> repeats_submission t u))) \<and>
    ((\<exists>j u. hm_get (ms_tasks (fl_store f)) j = Some u \<and> t_idempotency_key t \<noteq> None \<and>
         t_idempotency_key u = t_idempotency_key t \<and> t_created_by u = t_created_by t) \<longrightarrow>
      f' = f \<and> (\<forall>i. r = Inr i \<longrightarrow> (\<exists>u. hm_get (ms_tasks (fl_store f)) i = Some u \<and> repeats_submission t u))) \<and>
    (fl_sent f' = fl_sent f \<or>
      hm_get (ms_tasks (fl_store f)) (t_id t) = None \<and>
      (\<exists>req. fl_sent f' = fl_sent f @ [req] \<and> dr_task_id req = t_id t \<and>
         (\<forall>d \<in> set (t_dependency_ids t). completed_in (fl_store f') d)))"
proof (cases "validate_workspace_cwd (t_cwd t)")
  case (Inl e)
  then show ?thesis using assms(2) by (auto simp: submit_def)
next
  case (Inr cwd)
  obtain q s where ins: "insert_task_idempotent (apply_routing t) (fl_store f) = (q, s)" by fastforce
  have ws: "with_store (insert_task_idempotent (apply_routing t)) f = (q, f\<lparr>fl_store := s\<rparr>)"
    by (simp add: with_store_def ins)
  from ins show ?thesis
  proof (cases rule: insert_idempotent_cases)
    case exists
    then show ?thesis using assms(2) Inr by (auto simp: submit_def ws)
  next
    case inserted
    then have "insert_task_idempotent (apply_routing t) (fl_store f) = (Inr Inserted, s)" using ins by simp
    note sub = submit_inserted[OF assms(2) Inr this]
    have "hm_get (ms_tasks s) (t_id t) = Some (apply_routing t)" using inserted(2) by (simp add: put_task_def)
    then have "\<exists>u. hm_get (ms_tasks (fl_store f')) (t_id t) = Some u"
      using sub by (fastforce simp: advances_def log_event_def append_event_def Let_def)
    moreover have "\<not> (\<exists>j u. hm_get (ms_tasks (fl_store f)) j = Some u \<and> t_idempotency_key t \<noteq> None \<and>
         t_idempotency_key u = t_idempotency_key t \<and> t_created_by u = t_created_by t)"
      using inserted(4) hm_get_values by fastforce
    ultimately show ?thesis using sub inserted(3) Inr by auto
  next
    case (known u)
    have "hm_get (ms_tasks (fl_store f)) (t_id u) = Some u"
      using keyed_values_get[OF tables_okD(1)[OF assms(1)] known(3)] .
    then show ?thesis using assms(2) Inr known(1,2,4,5,6)
      by (auto simp: submit_def ws repeats_submission_def split: if_splits)
  qed
qed

abbreviation repeated_task :: "string \<Rightarrow> task" where
  "repeated_task p \<equiv> (plain_task 1)\<lparr>t_idempotency_key := Some ''k'', t_cwd := Some ''/w'', t_idempotency_payload_hash := Some p\<rparr>"

lemma submission_witness:
  "let f = idle_fleet (one_task_store\<lparr>ms_tasks := [(TaskId 1, repeated_task ''p'')]\<rparr>)
   in \<exists>f'. submit calm_env ((repeated_task ''p'')\<lparr>t_id := TaskId 2\<rparr>) f = (Inr (TaskId 1), f') \<and>
      (\<exists>u. hm_get (ms_tasks (fl_store f')) (TaskId 1) = Some u \<and> repeats_submission ((repeated_task ''p'')\<lparr>t_id := TaskId 2\<rparr>) u)"
proof -
  let ?f = "idle_fleet (one_task_store\<lparr>ms_tasks := [(TaskId 1, repeated_task ''p'')]\<rparr>)"
  let ?t = "(repeated_task ''p'')\<lparr>t_id := TaskId 2\<rparr>"
  have ok: "tables_ok (fl_store ?f)"
    by (simp add: tables_ok_def empty_store_def keyed_def hm_ok_def new_worker_def from_request_def Let_def)
  have "insert_task_idempotent (apply_routing ?t) (fl_store ?f) = (Inr (Duplicate (repeated_task ''p'')), fl_store ?f)"
    by (simp add: insert_task_idempotent_def hm_get_def hm_values_def apply_routing_alt Let_def)
  moreover have "validate_workspace_cwd (t_cwd ?t) = Inr ''/w''"
    by (simp add: validate_workspace_cwd_def starts_with_def)
  ultimately have sub: "submit calm_env ?t ?f = (Inr (TaskId 1), ?f)"
    by (simp add: submit_def with_store_def from_request_def)
  from submission[OF ok sub] obtain u where "hm_get (ms_tasks (fl_store ?f)) (TaskId 1) = Some u"
      "TaskId 1 = t_id ?t \<or> repeats_submission ?t u" by blast
  then show ?thesis unfolding Let_def using sub by (intro exI[of _ ?f]) simp
qed

section \<open>Cancellation\<close>

text \<open>The cancel request for a task that runs on a worker.\<close>

definition cancel_requests :: "task \<Rightarrow> cancel_request list" where
  "cancel_requests t = (case t_status t of
      Dispatched w _ \<Rightarrow> [\<lparr> cq_task_id = t_id t, cq_known_session = t_acp_session_id t, cq_worker_id = Some w \<rparr>]
    | _ \<Rightarrow> [])"

lemma deliver_cancel_effect:
  "fl_store (deliver_cancel en t f) = fl_store f \<and> fl_cancels (deliver_cancel en t f) = fl_cancels f @ cancel_requests t \<and>
   fl_running (deliver_cancel en t f) = fl_running f"
  by (auto simp: deliver_cancel_def cancel_requests_def audit_decision_def record_audit_def Let_def
      split: task_status.split sum.split cancel_delivery.split)

lemma control_cas_applies:
  assumes "control_fence_holds s fence" "hm_get (ms_tasks s) i = Some t" "phase (t_status t) \<in> set expected"
  shows "compare_and_set_task_status now i expected new ControlDecision fence s =
    (Inr Applied, s\<lparr>ms_tasks := hm_adjust i (apply_transition now new fence) (ms_tasks s)\<rparr>)"
proof -
  have "stale_dispatch fence ControlDecision t = None" by (simp add: stale_dispatch_def split: option.split)
  then show ?thesis using assms by (simp add: compare_and_set_task_status_def)
qed

lemma control_cas_refuses:
  assumes "control_fence_holds s fence" "hm_get (ms_tasks s) i = Some t" "phase (t_status t) \<notin> set expected"
  shows "compare_and_set_task_status now i expected new ControlDecision fence s = (Inr (Rejected (phase (t_status t))), s)"
proof -
  have "stale_dispatch fence ControlDecision t = None" by (simp add: stale_dispatch_def split: option.split)
  then show ?thesis using assms by (simp add: compare_and_set_task_status_def)
qed

lemma cancel_write_result:
  "cancel_write en i reason h =
    (case hm_get (ms_tasks (fl_store h)) i of
       None \<Rightarrow> (if control_fence_holds (fl_store h) (fence_at en AtClaim)
                then (Inl (CeStore (store_error_text NotFound)), h) else (Inl CeControlPlaneFenced, h))
     | Some u \<Rightarrow>
         if \<not> control_fence_holds (fl_store h) (fence_at en AtClaim) then (Inl CeControlPlaneFenced, h)
         else if is_terminal u then (Inl (CeAlreadyTerminal i (phase_as_str (phase (t_status u)))), h)
         else (Inr (), let g = log_event (TaskCancelled i reason (en_now en AtClaim)) (h\<lparr>fl_store :=
             (fl_store h)\<lparr>ms_tasks := hm_adjust i (apply_transition (en_now en AtClaim)
               (Cancelled reason (en_now en AtClaim)) (fence_at en AtClaim)) (ms_tasks (fl_store h))\<rparr>\<rparr>)
           in g\<lparr>fl_running := fl_running g - 1\<rparr>))"
proof (cases "control_fence_holds (fl_store h) (fence_at en AtClaim)")
  case False
  then show ?thesis
    by (simp add: cancel_write_def with_store_def compare_and_set_task_status_def split: option.split)
next
  case fence: True
  show ?thesis
  proof (cases "hm_get (ms_tasks (fl_store h)) i")
    case None
    then show ?thesis using fence by (simp add: cancel_write_def with_store_def compare_and_set_task_status_def)
  next
    case (Some u)
    show ?thesis
    proof (cases "is_terminal u")
      case True
      then have "phase (t_status u) \<notin> set [PhPending, PhDispatched]"
        by (cases "t_status u") (simp_all add: is_terminal_phase)
      from control_cas_refuses[OF fence Some this] show ?thesis using fence Some True
        by (simp add: cancel_write_def with_store_def)
    next
      case False
      then have "phase (t_status u) \<in> set [PhPending, PhDispatched]"
        by (cases "t_status u") (simp_all add: is_terminal_phase)
      from control_cas_applies[OF fence Some this] show ?thesis using fence Some False
        by (simp add: cancel_write_def with_store_def Let_def)
    qed
  qed
qed

text \<open>
  C17. When a cancellation succeeds, whatever anyone else does between the look at the task and the write. Without
  the lease, or for a task that is not stored or has ended, nothing happens. Otherwise a running task's worker is asked
  to stop first: everyone else already sees the request (\<open>g\<close>) when the write is decided on the fleet they leave (\<open>others g\<close>).
  Then the cancellation succeeds exactly when the fence holds and the task is still stored and has not ended there, and the
  task is cancelled with the given reason and nothing else changes among the tasks; a task that has ended in the meantime
  is reported with the phase it ended in and keeps it, although its worker was asked. The running gauge is decremented
  even if the task was only pending and had never been counted: from zero it wraps to \<open>2 ^ 64 - 1\<close>.
\<close>

theorem cancel_spec:
  assumes "cancel_amid others en i reason f = (r, f')"
  shows "case hm_get (ms_tasks (fl_store f)) i of
      None \<Rightarrow> f' = f \<and> r = Inl (if allows en AtEntry then CeNotFound i else CeControlPlaneFenced)
    | Some t \<Rightarrow>
        if \<not> allows en AtEntry then f' = f \<and> r = Inl CeControlPlaneFenced
        else if is_terminal t then f' = f \<and> r = Inl (CeAlreadyTerminal i (phase_as_str (phase (t_status t))))
        else \<exists>g. fl_store g = fl_store f \<and> fl_cancels g = fl_cancels f @ cancel_requests t \<and>
          fl_cancels f' = fl_cancels (others g) \<and>
          (r = Inr () \<longleftrightarrow> control_fence_holds (fl_store (others g)) (fence_at en AtClaim) \<and>
             (\<exists>u. hm_get (ms_tasks (fl_store (others g))) i = Some u \<and> \<not> is_terminal u)) \<and>
          (if r = Inr ()
           then fl_running f' = fl_running (others g) - 1 \<and>
             (\<exists>u. hm_get (ms_tasks (fl_store f')) i = Some u \<and> t_status u = Cancelled reason (en_now en AtClaim)) \<and>
             (\<forall>j. j \<noteq> i \<longrightarrow> hm_get (ms_tasks (fl_store f')) j = hm_get (ms_tasks (fl_store (others g))) j)
           else f' = others g \<and>
             (\<forall>u. hm_get (ms_tasks (fl_store (others g))) i = Some u \<longrightarrow>
               r = Inl (if control_fence_holds (fl_store (others g)) (fence_at en AtClaim)
                        then CeAlreadyTerminal i (phase_as_str (phase (t_status u))) else CeControlPlaneFenced)))"
proof (cases "hm_get (ms_tasks (fl_store f)) i")
  case None
  then show ?thesis using assms by (simp add: cancel_amid_def get_task_def split: if_splits)
next
  case (Some t)
  show ?thesis
  proof (cases "allows en AtEntry \<and> \<not> is_terminal t")
    case False
    then show ?thesis using assms Some by (auto simp: cancel_amid_def get_task_def split: if_splits)
  next
    case True
    let ?g = "deliver_cancel en t f"
    let ?h = "others ?g"
    have w: "cancel_write en i reason ?h = (r, f')" using assms Some True by (simp add: cancel_amid_def get_task_def)
    note g = deliver_cancel_effect[of en t f]
    let ?after = "\<lambda>h. fl_cancels f' = fl_cancels h \<and>
          (r = Inr () \<longleftrightarrow> control_fence_holds (fl_store h) (fence_at en AtClaim) \<and>
             (\<exists>u. hm_get (ms_tasks (fl_store h)) i = Some u \<and> \<not> is_terminal u)) \<and>
          (if r = Inr ()
           then fl_running f' = fl_running h - 1 \<and>
             (\<exists>u. hm_get (ms_tasks (fl_store f')) i = Some u \<and> t_status u = Cancelled reason (en_now en AtClaim)) \<and>
             (\<forall>j. j \<noteq> i \<longrightarrow> hm_get (ms_tasks (fl_store f')) j = hm_get (ms_tasks (fl_store h)) j)
           else f' = h \<and>
             (\<forall>u. hm_get (ms_tasks (fl_store h)) i = Some u \<longrightarrow>
               r = Inl (if control_fence_holds (fl_store h) (fence_at en AtClaim)
                        then CeAlreadyTerminal i (phase_as_str (phase (t_status u))) else CeControlPlaneFenced)))"
    have "?after ?h"
      using w unfolding cancel_write_result
      by (auto simp: log_event_def with_store_def append_event_def Let_def hm_get_adjust split: option.splits if_splits)
    then have "\<exists>g. fl_store g = fl_store f \<and> fl_cancels g = fl_cancels f @ cancel_requests t \<and> ?after (others g)"
      using g by (intro exI[of _ ?g] conjI) simp_all
    then show ?thesis using True by (simp only: Some option.case simp_thms if_False)
  qed
qed

text \<open>The worker reports the end of the task while it is asked to stop.\<close>

lemma cancel_spec_witness:
  "\<exists>f'. cancel_amid (\<lambda>f. f\<lparr>fl_store := chain_store\<rparr>) calm_env (TaskId 1) ''r'' (idle_fleet one_task_store) = (Inl (CeAlreadyTerminal (TaskId 1) (phase_as_str PhCompleted)), f') \<and>
     fl_store f' = chain_store"
proof -
  let ?f = "idle_fleet one_task_store"
  obtain r f' where c: "cancel_amid (\<lambda>f. f\<lparr>fl_store := chain_store\<rparr>) calm_env (TaskId 1) ''r'' ?f = (r, f')" by fastforce
  have live: "\<exists>t. hm_get (ms_tasks (fl_store ?f)) (TaskId 1) = Some t \<and> \<not> is_terminal t" "allows calm_env AtEntry"
    by (simp_all add: allows_def lease_allows_control_def hm_get_def is_terminal_def from_request_def Let_def)
  have chain: "hm_get (ms_tasks chain_store) (TaskId 1) = Some finished_task" "is_terminal finished_task"
    by (simp_all add: hm_get_def is_terminal_def)
  have fence: "control_fence_holds chain_store (fence_at calm_env AtClaim)"
    by (simp add: fence_at_def control_fence_of_def control_fence_holds_def)
  show ?thesis using cancel_spec[OF c] live chain fence c by (auto split: if_splits)
qed

section \<open>Waiting for a task\<close>

datatype wait_error = WeStore message | WeNotFound task_id | WeTimeout task_id duration

text \<open>
  \<open>wait_for_task\<close> polls the store every 50 ms: \<open>stores n\<close> and \<open>clock n\<close> are the store and the clock
  at poll \<open>n\<close>. Not returning is the value \<open>None\<close>.
\<close>

partial_function (option) wait_from ::
    "(nat \<Rightarrow> mem_store) \<Rightarrow> (nat \<Rightarrow> instant) \<Rightarrow> task_id \<Rightarrow> duration \<Rightarrow> instant \<Rightarrow> nat
     \<Rightarrow> (wait_error, task) result option" where
  "wait_from stores clock i timeout deadline n =
     (case get_task i (stores n) of
        Inl e \<Rightarrow> Some (Inl (WeStore (store_error_text e)))
      | Inr None \<Rightarrow> Some (Inl (WeNotFound i))
      | Inr (Some t) \<Rightarrow>
          if is_terminal t then Some (Inr t)
          else if clock n \<ge> deadline then Some (Inl (WeTimeout i timeout))
          else wait_from stores clock i timeout deadline (Suc n))"

definition wait_for_task ::
    "(nat \<Rightarrow> mem_store) \<Rightarrow> (nat \<Rightarrow> instant) \<Rightarrow> instant \<Rightarrow> task_id \<Rightarrow> duration \<Rightarrow> (wait_error, task) result option" where
  "wait_for_task stores clock start i timeout = wait_from stores clock i timeout (start + timeout) 0"

definition poll_pause :: duration where
  "poll_pause = 50 * 10 ^ 6"

text \<open>Task \<open>i\<close> is stored and has not ended.\<close>

definition live_in :: "task_id \<Rightarrow> mem_store \<Rightarrow> bool" where
  "live_in i s = (case hm_get (ms_tasks s) i of Some t \<Rightarrow> \<not> is_terminal t | None \<Rightarrow> False)"

lemma wait_from_stops:
  assumes "\<not> live_in i (stores n) \<or> deadline \<le> clock n"
  shows "wait_from stores clock i timeout deadline n = Some (case hm_get (ms_tasks (stores n)) i of
      None \<Rightarrow> Inl (WeNotFound i)
    | Some t \<Rightarrow> if is_terminal t then Inr t else Inl (WeTimeout i timeout))"
  using assms by (subst wait_from.simps) (auto simp: live_in_def get_task_def split: option.splits)

lemma wait_from_goes_on:
  assumes "\<forall>m. k \<le> m \<and> m < n \<longrightarrow> live_in i (stores m) \<and> clock m < deadline" "k \<le> n"
  shows "wait_from stores clock i timeout deadline k = wait_from stores clock i timeout deadline n"
  using assms
proof (induction "n - k" arbitrary: k)
  case (Suc d)
  then have "live_in i (stores k)" "\<not> deadline \<le> clock k" by (auto simp: not_le)
  then have "wait_from stores clock i timeout deadline k = wait_from stores clock i timeout deadline (Suc k)"
    by (subst wait_from.simps) (auto simp: live_in_def get_task_def split: option.splits)
  then show ?case using Suc.hyps(1)[of "Suc k"] Suc.hyps(2) Suc.prems by simp
qed simp

text \<open>
  C18. Waiting returns: if the clock advances by at least the pause between polls, the wait ends after at most
  \<open>timeout / 50 ms\<close> pauses, rounded up, with one poll before the first pause and one after each, at the first poll where the task is gone, has ended, or the deadline
  is reached. It answers with the ended task, with not-found, or with a timeout; a timeout is given
  only at or after the deadline, for a task that was live at every poll.
\<close>

theorem wait_returns:
  assumes "start \<le> clock 0" "\<forall>n. clock n + poll_pause \<le> clock (Suc n)"
  shows "\<exists>n \<le> (timeout + poll_pause - 1) div poll_pause.
    (\<forall>m < n. live_in i (stores m) \<and> clock m < start + timeout) \<and>
    (\<not> live_in i (stores n) \<or> start + timeout \<le> clock n) \<and>
    wait_for_task stores clock start i timeout = Some (case hm_get (ms_tasks (stores n)) i of
        None \<Rightarrow> Inl (WeNotFound i)
      | Some t \<Rightarrow> if is_terminal t then Inr t else Inl (WeTimeout i timeout))"
proof -
  let ?stop = "\<lambda>n. \<not> live_in i (stores n) \<or> start + timeout \<le> clock n"
  let ?N = "(timeout + poll_pause - 1) div poll_pause"
  have pos: "0 < poll_pause" by (simp add: poll_pause_def)
  have "start + n * poll_pause \<le> clock n" for n
  proof (induction n)
    case (Suc n)
    then show ?case using assms(2)[rule_format, of n] by simp
  qed (simp add: assms(1))
  from this[of ?N] have "start + timeout \<le> clock ?N"
    using dividend_less_div_times[OF pos, of "timeout + poll_pause - 1"] pos by (simp add: algebra_simps)
  then have stop: "?stop ?N" by simp
  define n where "n = (LEAST n. ?stop n)"
  have n: "?stop n" "n \<le> ?N" "\<forall>m < n. \<not> ?stop m"
    unfolding n_def using LeastI[of ?stop, OF stop] Least_le[of ?stop, OF stop] not_less_Least by blast+
  have "wait_for_task stores clock start i timeout = wait_from stores clock i timeout (start + timeout) n"
    unfolding wait_for_task_def using n(3) by (intro wait_from_goes_on) (auto simp: not_le)
  then show ?thesis using n wait_from_stops[of i stores n "start + timeout" clock timeout]
    by (intro exI[of _ n]) (auto simp: not_le)
qed

lemma wait_returns_witness:
  "wait_for_task (\<lambda>n. if n < 3 then one_task_store else chain_store) (\<lambda>n. n * poll_pause) 0 (TaskId 1) (secs 1)
     = Some (Inr finished_task)"
proof -
  let ?st = "\<lambda>n::nat. if n < 3 then one_task_store else chain_store"
  have live: "live_in (TaskId 1) (?st n) \<longleftrightarrow> n < 3" for n
    by (simp add: live_in_def hm_get_def is_terminal_def from_request_def Let_def)
  obtain n where n: "n \<le> (secs 1 + poll_pause - 1) div poll_pause"
      "\<forall>m < n. live_in (TaskId 1) (?st m) \<and> m * poll_pause < 0 + secs 1"
      "\<not> live_in (TaskId 1) (?st n) \<or> 0 + secs 1 \<le> n * poll_pause"
      "wait_for_task ?st (\<lambda>n. n * poll_pause) 0 (TaskId 1) (secs 1) = Some (case hm_get (ms_tasks (?st n)) (TaskId 1) of
        None \<Rightarrow> Inl (WeNotFound (TaskId 1))
      | Some t \<Rightarrow> if is_terminal t then Inr t else Inl (WeTimeout (TaskId 1) (secs 1)))"
    using wait_returns[of 0 "\<lambda>n. n * poll_pause" "secs 1" "TaskId 1" ?st] by auto
  have "\<not> n < 3" using n(3) live[of n] by (auto simp: secs_def poll_pause_def)
  then show ?thesis unfolding n(4) by (simp add: hm_get_def is_terminal_def)
qed

section \<open>A lease lost between the check and the write\<close>

lemma claim_applies:
  assumes "is_complete (harness_of en t (fl_store g))" "pending_at (t_id t) (fl_store g)"
    "control_fence_holds (fl_store g) (fence_at en AtClaim)"
  obtains h where "with_store (claim_cas en t w) g = (Inr Applied, h)"
    "claim_and_send en t w mark g = send_request en t (request_of t w (si_prompt (harness_of en t (fl_store g))))
       (claimed en t w (harness_of en t (fl_store g)) h)"
    "fl_sent h = fl_sent g"
proof -
  from assms(2) obtain u where u: "hm_get (ms_tasks (fl_store g)) (t_id t) = Some u" "t_status u = Pending"
    by (auto simp: pending_at_def split: option.splits)
  then have "phase (t_status u) \<in> set [PhPending]" by simp
  note cas = control_cas_applies[OF assms(3) u(1) this]
  obtain q h where h: "with_store (claim_cas en t w) g = (q, h)" by fastforce
  then have "q = Inr Applied" by (auto simp: with_store_def cas split: prod.splits)
  then show thesis using h with_store_result[OF h] assms(1)
    by (intro that[of h]) (simp_all add: claim_and_send_def claimed_def Let_def)
qed

text \<open>
  C5. The fence stops an instance that still believes in a superseded epoch, but not one that has
  already noticed the loss of its lease: the lease is checked when the dispatch begins, and the fence
  of the claim is read again later. If the instance is active under an epoch when it claims the task, the claim is
  refused and nothing is sent unless that is the current epoch. If its status has by then become anything else (fenced, stopped),
  there is no fence at all: the claim goes through unconditionally and the task is sent, whoever holds the lease by then.
\<close>

theorem lost_lease_dispatches_unfenced:
  assumes "pick_worker en t mark f = (Inr w, g)" "is_complete (harness_of en t (fl_store g))"
    "pending_at (t_id t) (fl_store g)" "en_lease en AtClaim = Some ob"
  shows "(\<forall>e. lo_status ob = LsActive e \<and> lease_epoch (fl_store g) (lo_cluster_id ob) \<noteq> Some e \<longrightarrow>
      fst (dispatch_existing en t mark f) = Inl DeControlPlaneFenced \<and>
      fl_sent (snd (dispatch_existing en t mark f)) = fl_sent f) \<and>
    ((\<forall>e. lo_status ob = LsActive e \<longrightarrow> lease_epoch (fl_store g) (lo_cluster_id ob) = Some e) \<longrightarrow>
      fl_sent (snd (dispatch_existing en t mark f)) =
        fl_sent f @ [request_of t w (si_prompt (harness_of en t (fl_store g)))])"
proof (intro conjI allI impI)
  have g: "fl_sent g = fl_sent f" using pick_tame[OF assms(1)] by (simp add: tame_def)
  have d: "dispatch_existing en t mark f = claim_and_send en t w mark g"
    by (simp add: dispatch_existing_def assms(1))
  have fe: "fence_at en AtClaim = map_option (\<lambda>e. \<lparr> cf_cluster_id = lo_cluster_id ob, cf_epoch = e \<rparr>) (ls_epoch (lo_status ob))"
    by (simp add: fence_at_def control_fence_of_def lease_fence_def assms(4))
  { fix e assume "lo_status ob = LsActive e \<and> lease_epoch (fl_store g) (lo_cluster_id ob) \<noteq> Some e"
    then have "\<not> control_fence_holds (fl_store g) (fence_at en AtClaim)" by (simp add: fe control_fence_holds_def)
    then have "claim_and_send en t w mark g =
        (Inl DeControlPlaneFenced, audit_control (en_lease en AtAudit) ''control.write_fenced'' (ArgTask (t_id t)) g)"
      using assms(2) by (simp add: claim_and_send_def with_store_def compare_and_set_task_status_def Let_def)
    then have "fst (dispatch_existing en t mark f) = Inl DeControlPlaneFenced \<and>
        fl_sent (snd (dispatch_existing en t mark f)) = fl_sent f"
      by (simp add: d g audit_control_def record_audit_def split: option.split) }
  then show "fst (dispatch_existing en t mark f) = Inl DeControlPlaneFenced"
      "fl_sent (snd (dispatch_existing en t mark f)) = fl_sent f"
    if "lo_status ob = LsActive e \<and> lease_epoch (fl_store g) (lo_cluster_id ob) \<noteq> Some e" for e
    using that by blast+
  assume "\<forall>e. lo_status ob = LsActive e \<longrightarrow> lease_epoch (fl_store g) (lo_cluster_id ob) = Some e"
  then have "control_fence_holds (fl_store g) (fence_at en AtClaim)"
    by (cases "lo_status ob") (simp_all add: fe control_fence_holds_def)
  from claim_applies[OF assms(2,3) this] obtain h where h: "with_store (claim_cas en t w) g = (Inr Applied, h)"
      "claim_and_send en t w mark g = send_request en t (request_of t w (si_prompt (harness_of en t (fl_store g))))
         (claimed en t w (harness_of en t (fl_store g)) h)" "fl_sent h = fl_sent g" by blast
  show "fl_sent (snd (dispatch_existing en t mark f)) =
      fl_sent f @ [request_of t w (si_prompt (harness_of en t (fl_store g)))]"
    by (simp add: d h(2) send_sent claimed_def log_event_def h(3) g)
qed

text \<open>
  Instance \<open>a\<close> held epoch 1 when the dispatch began and had been fenced when it claimed the task;
  by then \<open>b\<close> holds the lease under epoch 2.
\<close>

abbreviation losing_env :: env where
  "losing_env \<equiv> calm_env\<lparr>en_lease := \<lambda>p. Some \<lparr> lo_cluster_id = ''c'', lo_instance_id = ''a'',
     lo_status = (if p = AtEntry then LsActive 1 else LsFenced) \<rparr>\<rparr>"

abbreviation taken_store :: mem_store where
  "taken_store \<equiv> empty_store\<lparr>ms_tasks := [(TaskId 1, plain_task 1)],
     ms_workers := [(WorkerId 1, new_worker (WorkerId 1) 0 0 ''w'' ''ws://h'')],
     ms_control_leases := [(''c'', \<lparr> cl_cluster_id = ''c'', cl_active_instance_id = ''b'', cl_epoch = 2,
       cl_acquired_at = 0, cl_expires_at = 100, cl_last_renewed_at = 0, cl_binary_version = None \<rparr>)]\<rparr>"

lemma taken_select: "select (\<lambda>_. True) 9 [] (plain_task 1) taken_store = (Inr (WorkerId 1), taken_store)"
  by (simp add: select_def candidates_def list_workers_def hm_values_def online_filter_def
    default_worker_filter_def worker_selected_def new_worker_def page_def sort_desc_def labels_match_def
    state_of_def count_dispatched_tasks_by_worker_def has_room_def load_of_def responds_def
    hm_get_def empty_store_def from_request_def default_request_def is_failing_def Let_def)

lemma taken_pick:
  "\<exists>g. pick_worker losing_env (plain_task 1) False (idle_fleet taken_store) = (Inr (WorkerId 1), g) \<and>
     fl_store g = taken_store"
proof -
  obtain b where b: "reg_check default_breaker_config 9 9 (WorkerId 1) CClosed [] = (Inr (), b)"
      "state_of (WorkerId 1) b = BClosed" using calm_check by blast
  have old: "bi_state (fst (reg_get 9 (WorkerId 1) CClosed [])) = BClosed"
    by (simp add: reg_get_def new_with_state_def new_inner_def Let_def)
  have c: "get_worker_circuit_state (WorkerId 1) taken_store = CClosed"
    by (simp add: get_worker_circuit_state_def get_worker_def new_worker_def hm_get_def)
  show ?thesis
    by (simp add: pick_worker_def allows_def lease_allows_control_def allows_control_def taken_select c b old Let_def
      persist_breaker_transition_def ensure_worker_recovered_def audit_decision_def record_audit_def)
qed

lemma lost_lease_dispatches_unfenced_witness:
  "length (fl_sent (snd (dispatch_existing losing_env (plain_task 1) False (idle_fleet taken_store)))) = 1 \<and>
   lease_epoch taken_store ''c'' = Some 2"
proof -
  obtain g where g: "pick_worker losing_env (plain_task 1) False (idle_fleet taken_store) = (Inr (WorkerId 1), g)"
      "fl_store g = taken_store"
    using taken_pick by blast
  have "is_complete (harness_of losing_env (plain_task 1) (fl_store g))" "pending_at (t_id (plain_task 1)) (fl_store g)"
    by (simp_all add: g(2) harness_of_def inject_skills_def is_complete_def from_request_def default_request_def
        pending_at_def hm_get_def Let_def)
  from lost_lease_dispatches_unfenced[OF g(1) this, of "\<lparr> lo_cluster_id = ''c'', lo_instance_id = ''a'', lo_status = LsFenced \<rparr>"]
  have "fl_sent (snd (dispatch_existing losing_env (plain_task 1) False (idle_fleet taken_store))) =
      fl_sent (idle_fleet taken_store) @ [request_of (plain_task 1) (WorkerId 1)
        (si_prompt (harness_of losing_env (plain_task 1) (fl_store g)))]"
    by simp
  then have "length (fl_sent (snd (dispatch_existing losing_env (plain_task 1) False (idle_fleet taken_store)))) = 1"
    by simp
  moreover have "lease_epoch taken_store ''c'' = Some 2" by (simp add: lease_epoch_def hm_get_def)
  ultimately show ?thesis by (rule conjI)
qed

end
