(* ===== verification/Reconcile.thy ===== *)
theory Reconcile
  imports Dispatch_Flow
begin

text \<open>
  The reconciliation sweep (\<open>crates/fleet-scheduler/src/reconcile.rs\<close>): stale pending tasks are
  dispatched again or dead-lettered, dispatched tasks whose execution is gone are failed, sessions
  whose task has ended are cancelled, unacknowledged agent commands are reported. The loop that runs a
  sweep every interval and the log lines are left out.
\<close>

section \<open>Configuration, summary, state\<close>

definition max_pending_scan :: nat where
  "max_pending_scan = 1000"

record reconcile_config =
  rc_interval :: duration
  rc_stale_after :: duration
  rc_dispatched_worker_check_after :: duration
  rc_offline_worker_grace :: duration
  rc_max_dispatch_retries :: u32
  rc_session_list_timeout :: duration
  rc_command_ack_timeout :: duration
  rc_reap_orphan_sessions :: bool

definition default_reconcile_config :: reconcile_config where
  "default_reconcile_config = \<lparr> rc_interval = secs 30, rc_stale_after = secs 60,
     rc_dispatched_worker_check_after = secs 30, rc_offline_worker_grace = secs 300,
     rc_max_dispatch_retries = 20, rc_session_list_timeout = secs 5, rc_command_ack_timeout = secs 300,
     rc_reap_orphan_sessions = True \<rparr>"

record reconcile_summary =
  rs_stale_found :: u64
  rs_redispatched :: u64
  rs_orphaned_found :: u64
  rs_orphaned_failed :: u64
  rs_restarted_worker_found :: u64
  rs_restarted_worker_failed :: u64
  rs_offline_worker_found :: u64
  rs_offline_worker_failed :: u64
  rs_dead_lettered :: u64
  rs_vanished_session_found :: u64
  rs_vanished_session_failed :: u64
  rs_orphan_sessions_cancelled :: u64
  rs_unclaimed_sessions_found :: u64
  rs_unacked_commands_found :: u64

definition empty_summary :: reconcile_summary where
  "empty_summary = \<lparr> rs_stale_found = 0, rs_redispatched = 0, rs_orphaned_found = 0, rs_orphaned_failed = 0,
     rs_restarted_worker_found = 0, rs_restarted_worker_failed = 0, rs_offline_worker_found = 0,
     rs_offline_worker_failed = 0, rs_dead_lettered = 0, rs_vanished_session_found = 0,
     rs_vanished_session_failed = 0, rs_orphan_sessions_cancelled = 0, rs_unclaimed_sessions_found = 0,
     rs_unacked_commands_found = 0 \<rparr>"

text \<open>
  The reconciler: the instance it works on and the commands it has reported. A sweep reads its three
  clocks, \<open>sw_env\<close> serves the sweep itself and \<open>sw_tasks\<close> the dispatch of each task.
\<close>

record reconciler =
  re_fleet :: fleet
  re_unacked_reported :: "(agent_id \<times> int) set"

record sweep =
  sw_env :: env
  sw_tasks :: "task_id \<Rightarrow> env"
  sw_pending_now :: datetime
  sw_dispatched_now :: datetime
  sw_agents_now :: datetime

section \<open>Stale pending tasks\<close>

definition redispatch_one ::
    "sweep \<Rightarrow> reconcile_config \<Rightarrow> timedelta \<Rightarrow> task \<Rightarrow> reconcile_summary \<times> fleet \<Rightarrow> reconcile_summary \<times> fleet" where
  "redispatch_one sw cfg stale_td t = (\<lambda>(sm, f).
     let en = sw_tasks sw (t_id t);
         age = sw_pending_now sw - t_created_at t
     in if age < stale_td then (sm, f)
        else if \<not> dependencies_completed (t_dependency_ids t) (fl_store f) then (sm, f)
        else
          let sm = sm\<lparr>rs_stale_found := rs_stale_found sm + 1\<rparr>
          in if rc_max_dispatch_retries cfg > 0 \<and> t_retry_count t \<ge> rc_max_dispatch_retries cfg
             then
               case select (en_probe en) (en_now en AtSelect) (fl_breakers f) t (fl_store f) of
                 (sel, s) \<Rightarrow>
                   let f = f\<lparr>fl_store := s\<rparr>;
                       failure = \<lparr> tf_error = Msg ''dispatch retries exhausted ({retry_count} attempts)''
                             [ArgNum (uint (t_retry_count t))],
                           tf_kind = (case sel of Inl (NoWorkerForCredential _) \<Rightarrow> CredentialMissing
                             | _ \<Rightarrow> WorkerUnavailable),
                           tf_worker_id = None, tf_attempts = t_retry_count t \<rparr>
                   in (case mark_failed en AtFailure (t_id t) [PhPending] failure ControlDecision f of
                         (ok, f) \<Rightarrow> (if ok then sm\<lparr>rs_dead_lettered := rs_dead_lettered sm + 1\<rparr> else sm, f))
             else
               case dispatch_existing en t False f of
                 (Inr _, f) \<Rightarrow> (sm\<lparr>rs_redispatched := rs_redispatched sm + 1\<rparr>, f)
               | (Inl e, f) \<Rightarrow>
                   (sm, if (case e of DeNoWorker _ \<Rightarrow> True | DeCircuitOpen _ \<Rightarrow> True | _ \<Rightarrow> False) \<and>
                           rc_max_dispatch_retries cfg > 0
                        then snd (with_store (increment_task_retry_count (t_id t)) f) else f))"

section \<open>Dispatched tasks whose execution is gone\<close>

text \<open>\<open>mark_failed\<close> on a dispatched task, with the counter to raise when it takes effect.\<close>

definition fail_dispatched ::
    "env \<Rightarrow> task \<Rightarrow> task_failure \<Rightarrow> (reconcile_summary \<Rightarrow> reconcile_summary) \<Rightarrow> reconcile_summary \<times> fleet
     \<Rightarrow> reconcile_summary \<times> fleet" where
  "fail_dispatched en t failure counted = (\<lambda>(sm, f).
     case mark_failed en (AtReap (t_id t)) (t_id t) [PhDispatched] failure ControlDecision f of
       (ok, f) \<Rightarrow> (if ok then counted sm else sm, f))"

definition lost_failure :: "worker_id \<Rightarrow> message \<Rightarrow> task_failure" where
  "lost_failure w e = \<lparr> tf_error = e, tf_kind = WorkerUnavailable, tf_worker_id = Some w, tf_attempts = 0 \<rparr>"

text \<open>The inventory of a worker, asked once per sweep.\<close>

definition inventory_of ::
    "env \<Rightarrow> worker_id \<Rightarrow> (worker_id, session_inventory) hmap \<Rightarrow> session_inventory \<times> (worker_id, session_inventory) hmap" where
  "inventory_of en w invs =
     (case hm_get invs w of
        Some cached \<Rightarrow> (cached, invs)
      | None \<Rightarrow>
          let fetched = (case en_sessions en w of Inr i \<Rightarrow> i | Inl _ \<Rightarrow> Undeclared)
          in (fetched, hm_insert w fetched invs))"

definition reap_one ::
    "env \<Rightarrow> datetime \<Rightarrow> timedelta \<Rightarrow> timedelta \<Rightarrow> task
     \<Rightarrow> (worker_id, session_inventory) hmap \<times> reconcile_summary \<times> fleet
     \<Rightarrow> (worker_id, session_inventory) hmap \<times> reconcile_summary \<times> fleet" where
  "reap_one en now check_after offline_grace t = (\<lambda>(invs, sm, f).
     case t_status t of
       Dispatched w started_at \<Rightarrow>
         let dispatched_at = (case t_dispatched_at t of Some d \<Rightarrow> d | None \<Rightarrow> started_at)
         in if now - started_at < check_after then (invs, sm, f)
            else (case get_worker w (fl_store f) of
              Inl _ \<Rightarrow> (invs, sm, f)
            | Inr None \<Rightarrow>
                (invs, fail_dispatched en t
                   (lost_failure w (Msg ''assigned worker {worker_id} no longer registered (row deleted or rejoined under a new name)'' [ArgWorker w]))
                   (\<lambda>sm. sm\<lparr>rs_orphaned_failed := rs_orphaned_failed sm + 1\<rparr>)
                   (sm\<lparr>rs_orphaned_found := rs_orphaned_found sm + 1\<rparr>, f))
            | Inr (Some wk) \<Rightarrow>
                if dispatched_at < w_incarnation_started_at wk then
                  (invs, fail_dispatched en t
                     (lost_failure w (Msg ''assigned worker {worker_id} restarted at {restarted_at} after this task was dispatched at {dispatched_at} - the process running it is gone''
                        [ArgWorker w, ArgTime (w_incarnation_started_at wk), ArgTime dispatched_at]))
                     (\<lambda>sm. sm\<lparr>rs_restarted_worker_failed := rs_restarted_worker_failed sm + 1\<rparr>)
                     (sm\<lparr>rs_restarted_worker_found := rs_restarted_worker_found sm + 1\<rparr>, f))
                else if w_status wk = WOffline then
                  let past_grace = (case w_last_seen wk of Some ls \<Rightarrow> now - ls \<ge> offline_grace | None \<Rightarrow> True)
                  in if \<not> past_grace then (invs, sm, f)
                     else
                       let desc = (case w_last_seen wk of
                             Some ls \<Rightarrow> Msg ''{}s'' [ArgNum ((now - ls) div 10 ^ 9)]
                           | None \<Rightarrow> Msg ''never (no heartbeat ever received)'' [])
                       in (invs, fail_dispatched en t
                            (lost_failure w (Msg ''assigned worker {worker_id} has been offline for {offline_for_desc} (no heartbeat) - assuming the task is lost''
                               [ArgWorker w, ArgText desc]))
                            (\<lambda>sm. sm\<lparr>rs_offline_worker_failed := rs_offline_worker_failed sm + 1\<rparr>)
                            (sm\<lparr>rs_offline_worker_found := rs_offline_worker_found sm + 1\<rparr>, f))
                else (case t_acp_session_id t of
                    None \<Rightarrow> (invs, sm, f)
                  | Some session \<Rightarrow>
                      (case inventory_of en w invs of
                         (SessionsReported live, invs) \<Rightarrow>
                           if session \<in> set live then (invs, sm, f)
                           else (invs, fail_dispatched en t (vanished_session_failure w session)
                             (\<lambda>sm. sm\<lparr>rs_vanished_session_failed := rs_vanished_session_failed sm + 1\<rparr>)
                             (sm\<lparr>rs_vanished_session_found := rs_vanished_session_found sm + 1\<rparr>, f))
                       | (_, invs) \<Rightarrow> (invs, sm, f))))
     | _ \<Rightarrow> (invs, sm, f))"

definition reap_stale_dispatched ::
    "(duration \<Rightarrow> timedelta option) \<Rightarrow> sweep \<Rightarrow> reconcile_config \<Rightarrow> reconcile_summary \<times> fleet
     \<Rightarrow> (worker_id, session_inventory) hmap \<times> reconcile_summary \<times> fleet" where
  "reap_stale_dispatched conv sw cfg = (\<lambda>(sm, f).
     case list_tasks (default_task_filter\<lparr>fi_status := Some FDispatched, fi_limit := max_pending_scan\<rparr>) (fl_store f) of
       Inl _ \<Rightarrow> ([], sm, f)
     | Inr dispatched \<Rightarrow>
         fold (reap_one (sw_env sw) (sw_dispatched_now sw)
             (conv_or conv 30 (rc_dispatched_worker_check_after cfg)) (conv_or conv 300 (rc_offline_worker_grace cfg)))
           dispatched ([], sm, f))"

section \<open>Sessions without a live task\<close>

definition reap_session ::
    "env \<Rightarrow> worker_id \<Rightarrow> string \<Rightarrow> reconcile_summary \<times> fleet \<Rightarrow> reconcile_summary \<times> fleet" where
  "reap_session en w session = (\<lambda>(sm, f).
     case find_task_by_acp_session session (fl_store f) of
       Inl _ \<Rightarrow> (sm, f)
     | Inr None \<Rightarrow>
         (sm\<lparr>rs_unclaimed_sessions_found := rs_unclaimed_sessions_found sm + 1\<rparr>,
          audit_decision (en_lease en AtAudit) ''control.unclaimed_session'' (ArgWorker w) f)
     | Inr (Some t) \<Rightarrow>
         if \<not> is_terminal t then (sm, f)
         else
           let req = \<lparr> cq_task_id = t_id t, cq_known_session = Some session, cq_worker_id = Some w \<rparr>;
               f = f\<lparr>fl_cancels := fl_cancels f @ [req]\<rparr>
           in (case en_cancel en req of
                 Inr Sent \<Rightarrow>
                   (sm\<lparr>rs_orphan_sessions_cancelled := rs_orphan_sessions_cancelled sm + 1\<rparr>,
                    audit_decision (en_lease en AtAudit) ''control.orphan_session_cancelled'' (ArgTask (t_id t)) f)
               | _ \<Rightarrow> (sm, f)))"

definition reap_worker_sessions ::
    "env \<Rightarrow> worker \<Rightarrow> (worker_id, session_inventory) hmap \<times> reconcile_summary \<times> fleet
     \<Rightarrow> (worker_id, session_inventory) hmap \<times> reconcile_summary \<times> fleet" where
  "reap_worker_sessions en wk = (\<lambda>(invs, sm, f).
     let w = w_id wk;
         inventory = (case hm_get invs w of Some cached \<Rightarrow> Inr cached | None \<Rightarrow> en_sessions en w);
         invs = hm_remove w invs
     in (invs, case inventory of
           Inr (SessionsReported sessions) \<Rightarrow> fold (reap_session en w) sessions (sm, f)
         | _ \<Rightarrow> (sm, f)))"

definition reap_orphan_sessions ::
    "sweep \<Rightarrow> reconcile_config \<Rightarrow> (worker_id, session_inventory) hmap \<times> reconcile_summary \<times> fleet
     \<Rightarrow> reconcile_summary \<times> fleet" where
  "reap_orphan_sessions sw cfg = (\<lambda>(invs, sm, f).
     if \<not> rc_reap_orphan_sessions cfg then (sm, f)
     else case list_workers (default_worker_filter\<lparr>wf_limit := max_pending_scan\<rparr>) (fl_store f) of
       Inl _ \<Rightarrow> (sm, f)
     | Inr workers \<Rightarrow> snd (fold (reap_worker_sessions (sw_env sw)) workers (invs, sm, f)))"

section \<open>Unacknowledged commands\<close>

definition report_one ::
    "env \<Rightarrow> datetime \<Rightarrow> timedelta \<Rightarrow> agent \<Rightarrow> (agent_id \<times> int) set \<times> reconcile_summary \<times> fleet
     \<Rightarrow> (agent_id \<times> int) set \<times> reconcile_summary \<times> fleet" where
  "report_one en now threshold a = (\<lambda>(reported, sm, f).
     case ag_worker_id a of
       None \<Rightarrow> (reported, sm, f)
     | Some w \<Rightarrow>
         (case command_unacked_for a now of
            None \<Rightarrow> (reported, sm, f)
          | Some unacked_for \<Rightarrow>
              if unacked_for < threshold then (reported, sm, f)
              else if (ag_id a, ag_command_generation a) \<in> reported then (reported, sm, f)
              else (insert (ag_id a, ag_command_generation a) reported,
                    sm\<lparr>rs_unacked_commands_found := rs_unacked_commands_found sm + 1\<rparr>,
                    audit_decision (en_lease en AtAudit) ''agent.command_unacked'' (ArgAgent (ag_id a)) f)))"

definition report_unacked_commands ::
    "(duration \<Rightarrow> timedelta option) \<Rightarrow> sweep \<Rightarrow> reconcile_config \<Rightarrow> (agent_id \<times> int) set \<times> reconcile_summary \<times> fleet
     \<Rightarrow> (agent_id \<times> int) set \<times> reconcile_summary \<times> fleet" where
  "report_unacked_commands conv sw cfg = (\<lambda>(reported, sm, f).
     case list_agents \<lparr> af_project_id = None, af_status = None, af_worker_id = None,
            af_limit = max_pending_scan, af_offset = 0 \<rparr> (fl_store f) of
       Inl _ \<Rightarrow> (reported, sm, f)
     | Inr agents \<Rightarrow>
         fold (report_one (sw_env sw) (sw_agents_now sw) (conv_or conv 300 (rc_command_ack_timeout cfg)))
           agents (reported, sm, f))"

section \<open>The sweep\<close>

definition redispatch_stale ::
    "(duration \<Rightarrow> timedelta option) \<Rightarrow> sweep \<Rightarrow> reconcile_config \<Rightarrow> task list \<Rightarrow> reconcile_summary \<times> fleet \<Rightarrow> reconcile_summary \<times> fleet" where
  "redispatch_stale conv sw cfg = fold (redispatch_one sw cfg (conv_or conv 60 (rc_stale_after cfg)))"

definition reconcile_once ::
    "(duration \<Rightarrow> timedelta option) \<Rightarrow> sweep \<Rightarrow> reconcile_config \<Rightarrow> reconciler \<Rightarrow> reconcile_summary \<times> reconciler" where
  "reconcile_once conv sw cfg rc =
     (let f = re_fleet rc
      in if \<not> allows (sw_env sw) AtEntry then (empty_summary, rc)
         else case list_tasks (default_task_filter\<lparr>fi_status := Some FPending, fi_limit := max_pending_scan\<rparr>) (fl_store f) of
           Inl _ \<Rightarrow> (empty_summary, rc)
         | Inr pending \<Rightarrow>
             (case report_unacked_commands conv sw cfg (re_unacked_reported rc,
                 reap_orphan_sessions sw cfg
                   (reap_stale_dispatched conv sw cfg (redispatch_stale conv sw cfg pending (empty_summary, f)))) of
                (reported, sm, f) \<Rightarrow> (sm, rc\<lparr>re_fleet := f, re_unacked_reported := reported\<rparr>)))"

end
