(* ===== verification/Host_Store.thy ===== *)
theory Host_Store
  imports Reconcile
begin

text \<open>
  The host inventory: \<open>crates/fleet-core/src/host.rs\<close> and its tables in
  \<open>crates/fleet-store/src/mem.rs\<close>. An \<open>f32\<close> is its bit pattern, an event's payload value its JSON text.
\<close>

datatype host_status = HsProvisioned | HsOnline | HsOffline | HsFailed

fun host_status_as_str :: "host_status \<Rightarrow> string" where
  "host_status_as_str HsProvisioned = ''provisioned''"
| "host_status_as_str HsOnline = ''online''"
| "host_status_as_str HsOffline = ''offline''"
| "host_status_as_str HsFailed = ''failed''"

definition host_status_parse :: "string \<Rightarrow> host_status option" where
  "host_status_parse s =
     (if s = ''provisioned'' then Some HsProvisioned else if s = ''online'' then Some HsOnline
      else if s = ''offline'' then Some HsOffline else if s = ''failed'' then Some HsFailed else None)"

lemma host_status_round_trip: "host_status_parse s = Some x \<longleftrightarrow> host_status_as_str x = s"
  by (cases x) (auto simp: host_status_parse_def)

record os_info =
  os_type :: string
  os_distro :: string
  os_kernel :: string
  os_arch :: string
  os_hostname :: string

record host_metrics =
  hx_load_avg :: "u32 list"
  hx_mem_available_mb :: "u64 option"
  hx_disk_free_mb :: "u64 option"
  hx_cpu_usage :: "u32 option"
  hx_ram_usage :: "u32 option"

record host =
  ho_id :: uuid
  ho_hostname :: string
  ho_worker_id :: "worker_id option"
  ho_status :: host_status
  ho_ssh_host :: "string option"
  ho_ssh_port :: "32 word"
  ho_ssh_user :: "string option"
  ho_grok_version :: "string option"
  ho_fleet_worker_version :: "string option"
  ho_os_info :: "os_info option"
  ho_metrics :: host_metrics
  ho_last_heartbeat_at :: "datetime option"
  ho_provisioned_at :: "datetime option"
  ho_created_at :: datetime
  ho_updated_at :: datetime

datatype event_severity = EvInfo | EvWarn | EvError

fun event_severity_as_str :: "event_severity \<Rightarrow> string" where
  "event_severity_as_str EvInfo = ''info''"
| "event_severity_as_str EvWarn = ''warn''"
| "event_severity_as_str EvError = ''error''"

record host_event =
  he_id :: uuid
  he_host_id :: uuid
  he_event_type :: string
  he_severity :: event_severity
  he_message :: "message option"
  he_payload :: "(string, string) hmap"
  he_created_at :: datetime

record ssh_key =
  sk_id :: uuid
  sk_name :: string
  sk_encrypted_blob :: string
  sk_fingerprint :: string
  sk_key_type :: string
  sk_created_at :: datetime
  sk_updated_at :: datetime

text \<open>The inventory tables beside the store the sweep works on.\<close>

record yard =
  yd_store :: mem_store
  yd_hosts :: "host list"
  yd_host_events :: "host_event list"
  yd_ssh_keys :: "(string, ssh_key) hmap"

fun put_host :: "host \<Rightarrow> host list \<Rightarrow> host list" where
  "put_host h [] = [h]"
| "put_host h (x # xs) = (if ho_hostname x = ho_hostname h then h # xs else x # put_host h xs)"

definition upsert_host :: "host \<Rightarrow> yard \<Rightarrow> (store_error, unit) result \<times> yard" where
  "upsert_host h s = (Inr (), s\<lparr>yd_hosts := put_host h (yd_hosts s)\<rparr>)"

definition get_host_by_hostname :: "string \<Rightarrow> yard \<Rightarrow> (store_error, host option) result" where
  "get_host_by_hostname n s = Inr (List.find (\<lambda>h. ho_hostname h = n) (yd_hosts s))"

definition get_host_by_worker :: "worker_id \<Rightarrow> yard \<Rightarrow> (store_error, host option) result" where
  "get_host_by_worker w s = Inr (List.find (\<lambda>h. ho_worker_id h = Some w) (yd_hosts s))"

definition list_hosts :: "yard \<Rightarrow> (store_error, host list) result" where
  "list_hosts s = Inr (sort_key ho_created_at (yd_hosts s))"

definition append_host_event :: "host_event \<Rightarrow> yard \<Rightarrow> (store_error, unit) result \<times> yard" where
  "append_host_event e s = (Inr (), s\<lparr>yd_host_events := yd_host_events s @ [e]\<rparr>)"

definition list_host_events :: "uuid \<Rightarrow> u32 \<Rightarrow> yard \<Rightarrow> (store_error, host_event list) result" where
  "list_host_events i limit s =
     Inr (take (unat limit) (sort_desc he_created_at (filter (\<lambda>e. he_host_id e = i) (yd_host_events s))))"

definition create_ssh_key :: "ssh_key \<Rightarrow> yard \<Rightarrow> (store_error, unit) result \<times> yard" where
  "create_ssh_key k s =
     (if hm_contains (yd_ssh_keys s) (sk_name k)
      then (Inl (Conflict (Msg ''ssh key already exists: {}'' [ArgStr (sk_name k)])), s)
      else (Inr (), s\<lparr>yd_ssh_keys := hm_insert (sk_name k) k (yd_ssh_keys s)\<rparr>))"

definition get_ssh_key :: "string \<Rightarrow> yard \<Rightarrow> (store_error, ssh_key option) result" where
  "get_ssh_key n s = Inr (hm_get (yd_ssh_keys s) n)"

definition list_ssh_keys :: "yard \<Rightarrow> (store_error, ssh_key list) result" where
  "list_ssh_keys s = Inr (sort_key sk_created_at (hm_values (yd_ssh_keys s)))"

definition delete_ssh_key :: "string \<Rightarrow> yard \<Rightarrow> (store_error, bool) result \<times> yard" where
  "delete_ssh_key n s =
     (Inr (hm_contains (yd_ssh_keys s) n), s\<lparr>yd_ssh_keys := hm_remove n (yd_ssh_keys s)\<rparr>)"

section \<open>Host names are unique\<close>

lemma put_host_names: "set (map ho_hostname (put_host h hs)) = insert (ho_hostname h) (set (map ho_hostname hs))"
  by (induction hs) auto

lemma put_host_distinct: "distinct (map ho_hostname hs) \<Longrightarrow> distinct (map ho_hostname (put_host h hs))"
proof (induction hs)
  case (Cons x hs)
  have "ho_hostname x \<notin> ho_hostname ` set (put_host h hs)" if "ho_hostname x \<noteq> ho_hostname h"
    using put_host_names[of h hs] Cons.prems that by (auto simp: image_def)
  then show ?case using Cons by auto
qed simp

lemma find_put_host:
  "List.find (\<lambda>x. ho_hostname x = n) (put_host h hs) =
     (if n = ho_hostname h then Some h else List.find (\<lambda>x. ho_hostname x = n) hs)"
  by (induction hs) auto

lemma upsert_host_keeps_names:
  "distinct (map ho_hostname (yd_hosts s)) \<Longrightarrow> distinct (map ho_hostname (yd_hosts (snd (upsert_host h s))))"
  by (simp add: upsert_host_def put_host_distinct)

lemma hostname_lookup_after_upsert:
  "get_host_by_hostname n (snd (upsert_host h s)) =
     (if n = ho_hostname h then Inr (Some h) else get_host_by_hostname n s)"
  by (simp add: get_host_by_hostname_def upsert_host_def find_put_host)

end
