(* ===== verification/Fleet_Health.thy ===== *)
theory Fleet_Health
  imports Host_Store
begin

text \<open>
  The health checker (\<open>crates/fleet-scheduler/src/health.rs\<close>), which marks silent workers offline, and
  the synchronisation of circuit breakers between instances (\<open>sync.rs\<close>).
\<close>

section \<open>The health scan\<close>

record health_config =
  hc_check_interval :: duration
  hc_missed_heartbeat_threshold :: u32

definition default_health_config :: health_config where
  "default_health_config = \<lparr> hc_check_interval = secs 15, hc_missed_heartbeat_threshold = 3 \<rparr>"

text \<open>The product of a \<open>Duration\<close> and a \<open>u32\<close>; beyond \<open>2 ^ 64\<close> seconds the code panics: \<open>None\<close>.\<close>

definition grace_duration :: "health_config \<Rightarrow> duration option" where
  "grace_duration cfg =
     (let grace = hc_check_interval cfg * unat (hc_missed_heartbeat_threshold cfg)
      in if grace < secs (2 ^ 64) then Some grace else None)"

datatype scan_error = ScanStore message | ScanPanicked

text \<open>
  What a scan reads from outside: the clock after the lists were read and at the events of a worker, the
  ids of new events, and what other callers do right before a worker is written back.
\<close>

record scan_env =
  sv_now :: datetime
  sv_clk :: "worker_id \<Rightarrow> datetime"
  sv_ids :: "worker_id \<Rightarrow> uuid"
  sv_others :: "worker_id \<Rightarrow> yard \<Rightarrow> yard"

definition with_yard_store :: "(mem_store \<Rightarrow> 'r \<times> mem_store) \<Rightarrow> yard \<Rightarrow> 'r \<times> yard" where
  "with_yard_store op s = (case op (yd_store s) of (r, t) \<Rightarrow> (r, s\<lparr>yd_store := t\<rparr>))"

definition mark_host_offline :: "scan_env \<Rightarrow> duration \<Rightarrow> worker \<Rightarrow> yard \<Rightarrow> yard" where
  "mark_host_offline sv allowed w s =
     (case get_host_by_worker (w_id w) s of
        Inr (Some h) \<Rightarrow>
          snd (append_host_event \<lparr> he_id = sv_ids sv (w_id w), he_host_id = ho_id h, he_event_type = ''heartbeat_miss'',
              he_severity = EvWarn,
              he_message = Some (Msg ''worker {} offline - heartbeat missed for {:?}''
                [ArgStr (w_name w), ArgNum (int allowed)]),
              he_payload = [], he_created_at = sv_clk sv (w_id w) \<rparr>
            (snd (upsert_host (h\<lparr>ho_status := HsOffline\<rparr>) s)))
      | _ \<Rightarrow> s)"

definition scan_worker :: "scan_env \<Rightarrow> duration \<Rightarrow> timedelta \<Rightarrow> worker \<Rightarrow> nat \<times> yard \<Rightarrow> nat \<times> yard" where
  "scan_worker sv allowed grace w = (\<lambda>(expired, s).
     if w_liveness_mode w = OnDemand then (expired, s)
     else case w_last_seen w of
       None \<Rightarrow> (expired, s)
     | Some seen \<Rightarrow>
         if sv_now sv - seen > grace
         then case with_yard_store (upsert_worker (w\<lparr>w_status := WOffline\<rparr>)) (sv_others sv (w_id w) s) of
                (Inl _, s) \<Rightarrow> (expired, s)
              | (Inr _, s) \<Rightarrow>
                  let s = mark_host_offline sv allowed w s;
                      s = snd (with_yard_store (append_event (WorkerLeft (w_id w)
                        (Msg ''heartbeat missed for more than {:?} (last_seen={})''
                          [ArgNum (int allowed), ArgTime seen]) (sv_clk sv (w_id w)))) s)
                  in (Suc expired, s)
         else (expired, s))"

definition scan_once ::
    "(duration \<Rightarrow> timedelta option) \<Rightarrow> scan_env \<Rightarrow> health_config \<Rightarrow> yard \<Rightarrow> (scan_error, nat) result \<times> yard" where
  "scan_once conv sv cfg s =
     (case list_workers (default_worker_filter\<lparr>wf_status := Some WOnline\<rparr>) (yd_store s) of
        Inl e \<Rightarrow> (Inl (ScanStore (store_error_text e)), s)
      | Inr online \<Rightarrow>
     (case list_workers (default_worker_filter\<lparr>wf_status := Some WDegraded\<rparr>) (yd_store s) of
        Inl e \<Rightarrow> (Inl (ScanStore (store_error_text e)), s)
      | Inr degraded \<Rightarrow>
     (case list_workers (default_worker_filter\<lparr>wf_status := Some WDraining\<rparr>) (yd_store s) of
        Inl e \<Rightarrow> (Inl (ScanStore (store_error_text e)), s)
      | Inr draining \<Rightarrow>
          (case grace_duration cfg of
             None \<Rightarrow> (Inl ScanPanicked, s)
           | Some allowed \<Rightarrow>
               (case fold (scan_worker sv allowed (conv_or conv 60 allowed)) (online @ degraded @ draining) (0, s) of
                  (expired, s) \<Rightarrow> (Inr expired, s))))))"

section \<open>Synchronising circuit breakers\<close>

definition apply_one_to :: "instant \<Rightarrow> fleet_event \<Rightarrow> registry \<Rightarrow> bool \<times> registry" where
  "apply_one_to now e r =
     (case e of
        WorkerCircuitChanged w old to t \<Rightarrow>
          (case reg_get now w to r of (_, r) \<Rightarrow>
             (True, case to of
                COpen \<Rightarrow> hm_adjust w (force_open now) r
              | CClosed \<Rightarrow> hm_adjust w reset r
              | CHalfOpen \<Rightarrow> r))
      | WorkerLeft w why t \<Rightarrow> (True, reg_reset w r)
      | _ \<Rightarrow> (False, r))"

definition apply_events :: "(nat \<Rightarrow> instant) \<Rightarrow> event_entry list \<Rightarrow> registry \<Rightarrow> registry" where
  "apply_events clock es r =
     snd (fold (\<lambda>entry (n, r). (Suc n, snd (apply_one_to (clock n) (ee_event entry) r))) es (0, r))"

section \<open>The scan is exact\<close>

text \<open>A worker the scan should expire.\<close>

definition gone_quiet :: "datetime \<Rightarrow> timedelta \<Rightarrow> worker \<Rightarrow> bool" where
  "gone_quiet now grace w \<longleftrightarrow> w_liveness_mode w \<noteq> OnDemand \<and> (\<exists>seen. w_last_seen w = Some seen \<and> now - seen > grace)"

definition watched :: "worker \<Rightarrow> bool" where
  "watched w \<longleftrightarrow> w_status w = WOnline \<or> w_status w = WDegraded \<or> w_status w = WDraining"

lemma mark_host_offline_store [simp]: "yd_store (mark_host_offline sv allowed w s) = yd_store s"
  by (simp add: mark_host_offline_def get_host_by_worker_def append_host_event_def upsert_host_def split: option.split)

lemma append_event_workers: "ms_workers (snd (append_event e s)) = ms_workers s"
  by (simp add: append_event_def Let_def)

lemma scan_worker_step:
  assumes "scan_worker sv allowed grace w (n, s) = (n', s')"
  shows "if gone_quiet (sv_now sv) grace w
    then n' = Suc n \<and> ms_workers (yd_store s') =
      ms_workers (snd (upsert_worker (w\<lparr>w_status := WOffline\<rparr>) (yd_store (sv_others sv (w_id w) s))))
    else n' = n \<and> s' = s"
proof (cases "gone_quiet (sv_now sv) grace w")
  case True
  then obtain seen where "w_liveness_mode w \<noteq> OnDemand" "w_last_seen w = Some seen" "sv_now sv - seen > grace"
    by (auto simp: gone_quiet_def)
  then show ?thesis using assms True
    by (auto simp: scan_worker_def with_yard_store_def upsert_worker_def append_event_workers Let_def case_prod_beta)
next
  case False
  then show ?thesis using assms by (auto simp: scan_worker_def gone_quiet_def split: if_splits option.splits)
qed

lemma scan_fold:
  assumes "fold (scan_worker sv allowed grace) ws (n, s) = (n', s')" "distinct (map w_id ws)"
    "\<forall>w \<in> set ws. hm_get (ms_workers (yd_store s)) (w_id w) = Some w" "sv_others sv = (\<lambda>_ s. s)"
  shows "n' = n + length (filter (gone_quiet (sv_now sv) grace) ws) \<and>
    (\<forall>i. hm_get (ms_workers (yd_store s')) i =
       (if i \<in> w_id ` set (filter (gone_quiet (sv_now sv) grace) ws)
        then map_option (\<lambda>w. w\<lparr>w_status := WOffline\<rparr>) (hm_get (ms_workers (yd_store s)) i)
        else hm_get (ms_workers (yd_store s)) i))"
  using assms(1-3)
proof (induction ws arbitrary: n s)
  case (Cons w ws)
  obtain m t where st: "scan_worker sv allowed grace w (n, s) = (m, t)" by fastforce
  have w: "hm_get (ms_workers (yd_store s)) (w_id w) = Some w" using Cons.prems(3) by simp
  have t: "hm_get (ms_workers (yd_store t)) i = (if i = w_id w \<and> gone_quiet (sv_now sv) grace w
      then Some (w\<lparr>w_status := WOffline\<rparr>) else hm_get (ms_workers (yd_store s)) i)" for i
    using scan_worker_step[OF st] w assms(4) by (auto simp: upsert_worker_def split: if_splits)
  have others: "\<forall>v \<in> set ws. hm_get (ms_workers (yd_store t)) (w_id v) = Some v"
  proof
    fix v assume v: "v \<in> set ws"
    then have "w_id v \<noteq> w_id w" using Cons.prems(2) by (metis distinct.simps(2) image_eqI image_set list.simps(9))
    then show "hm_get (ms_workers (yd_store t)) (w_id v) = Some v" using t Cons.prems(3) v by simp
  qed
  have run: "fold (scan_worker sv allowed grace) ws (m, t) = (n', s')" using Cons.prems(1) st by simp
  have m: "m = n + (if gone_quiet (sv_now sv) grace w then 1 else 0)" using scan_worker_step[OF st] by (simp split: if_splits)
  have IH: "n' = m + length (filter (gone_quiet (sv_now sv) grace) ws)"
    "\<And>i. hm_get (ms_workers (yd_store s')) i =
       (if i \<in> w_id ` set (filter (gone_quiet (sv_now sv) grace) ws)
        then map_option (\<lambda>w. w\<lparr>w_status := WOffline\<rparr>) (hm_get (ms_workers (yd_store t)) i)
        else hm_get (ms_workers (yd_store t)) i)"
    using Cons.IH[OF run _ others] Cons.prems(2) by auto
  have notin: "w_id w \<notin> w_id ` set (filter (gone_quiet (sv_now sv) grace) ws)" using Cons.prems(2) by auto
  show ?case using IH(1) IH(2) m t w notin by auto
qed simp

lemma filter_bounds:
  "wf_limit (default_worker_filter\<lparr>wf_status := x\<rparr>) = 100" "wf_offset (default_worker_filter\<lparr>wf_status := x\<rparr>) = 0"
  by (simp_all add: default_worker_filter_def)

lemma watched_workers:
  assumes "keyed w_id (ms_workers s)" "hm_count (\<lambda>w. w_status w = st) (ms_workers s) \<le> 100"
    "list_workers (default_worker_filter\<lparr>wf_status := Some st\<rparr>) s = Inr ws"
  shows "set ws = {w. hm_get (ms_workers s) (w_id w) = Some w \<and> w_status w = st} \<and> distinct (map w_id ws)"
proof -
  let ?on = "filter (\<lambda>w. w_status w = st) (hm_values (ms_workers s))"
  note k = assms(1)
  have sel: "worker_selected (default_worker_filter\<lparr>wf_status := Some st\<rparr>) = (\<lambda>w. w_status w = st)"
    by (auto simp: worker_selected_def default_worker_filter_def)
  have "length (sort_desc w_registered_at ?on) \<le> 100"
    using assms(2) by (simp add: hm_count_def sort_desc_def)
  then have ws: "ws = sort_desc w_registered_at ?on" using assms(3)
    by (simp add: list_workers_def sel page_all filter_bounds)
  have "distinct (map w_id (hm_values (ms_workers s)))" using k by (simp add: keyed_distinct_values)
  then have "distinct (map w_id ?on)" by (simp add: distinct_map_filter)
  then have "distinct (map w_id ws)" unfolding ws sort_desc_def
    by (metis distinct_map distinct_sort set_sort)
  then show ?thesis using keyed_values_get[OF k] hm_get_values by (fastforce simp: ws)
qed

lemma scan_rows:
  assumes "keyed w_id (ms_workers (yd_store s))" "\<forall>st. hm_count (\<lambda>w. w_status w = st) (ms_workers (yd_store s)) \<le> 100"
    "sv_others sv = (\<lambda>_ s. s)" "scan_once conv sv cfg s = (r, s')" "grace_duration cfg = Some allowed"
  shows "(\<forall>i. hm_get (ms_workers (yd_store s')) i = (case hm_get (ms_workers (yd_store s)) i of
      None \<Rightarrow> None
    | Some w \<Rightarrow> Some (if watched w \<and> gone_quiet (sv_now sv) (conv_or conv 60 allowed) w
                     then w\<lparr>w_status := WOffline\<rparr> else w))) \<and>
    r = Inr (hm_count (\<lambda>w. watched w \<and> gone_quiet (sv_now sv) (conv_or conv 60 allowed) w) (ms_workers (yd_store s)))"
proof -
  let ?m = "ms_workers (yd_store s)"
  let ?g = "conv_or conv 60 allowed"
  obtain a b c where ls: "list_workers (default_worker_filter\<lparr>wf_status := Some WOnline\<rparr>) (yd_store s) = Inr a"
      "list_workers (default_worker_filter\<lparr>wf_status := Some WDegraded\<rparr>) (yd_store s) = Inr b"
      "list_workers (default_worker_filter\<lparr>wf_status := Some WDraining\<rparr>) (yd_store s) = Inr c"
    by (simp add: list_workers_def)
  note on = watched_workers[OF assms(1) spec[OF assms(2)]]
  let ?ws = "a @ b @ c"
  have mem: "set ?ws = {w. hm_get ?m (w_id w) = Some w \<and> watched w}"
    using on[OF ls(1)] on[OF ls(2)] on[OF ls(3)] by (auto simp: watched_def)
  have inj: "inj_on w_id (set ?ws)"
  proof (rule inj_onI)
    fix v w assume "v \<in> set ?ws" "w \<in> set ?ws" "w_id v = w_id w"
    then show "v = w" unfolding mem by (metis (mono_tags, lifting) mem_Collect_eq option.inject)
  qed
  have d: "distinct ?ws" using on[OF ls(1)] on[OF ls(2)] on[OF ls(3)] by (auto simp: distinct_map)
  then have dist: "distinct (map w_id ?ws)" unfolding distinct_map using inj by blast
  obtain n where run: "fold (scan_worker sv allowed ?g) ?ws (0, s) = (n, s')" "r = Inr n"
    using assms(4) ls by (auto simp: scan_once_def assms(5) split: prod.splits)
  have stored: "\<forall>w \<in> set ?ws. hm_get ?m (w_id w) = Some w" using mem by blast
  from scan_fold[OF run(1) dist stored assms(3)] have n: "n = length (filter (gone_quiet (sv_now sv) ?g) ?ws)"
    and get: "\<And>i. hm_get (ms_workers (yd_store s')) i =
       (if i \<in> w_id ` set (filter (gone_quiet (sv_now sv) ?g) ?ws) then map_option (\<lambda>w. w\<lparr>w_status := WOffline\<rparr>) (hm_get ?m i)
        else hm_get ?m i)" by auto
  note k = assms(1)
  have "hm_get (ms_workers (yd_store s')) i = (case hm_get ?m i of None \<Rightarrow> None
      | Some w \<Rightarrow> Some (if watched w \<and> gone_quiet (sv_now sv) ?g w then w\<lparr>w_status := WOffline\<rparr> else w))" for i
  proof (cases "hm_get ?m i")
    case (Some w)
    have i: "w_id w = i" using keyed_get[OF k Some] .
    have "i \<in> w_id ` set (filter (gone_quiet (sv_now sv) ?g) ?ws) \<longleftrightarrow> watched w \<and> gone_quiet (sv_now sv) ?g w"
    proof
      assume "i \<in> w_id ` set (filter (gone_quiet (sv_now sv) ?g) ?ws)"
      then obtain v where v: "v \<in> set ?ws" "gone_quiet (sv_now sv) ?g v" "w_id v = i" by auto
      then have "hm_get ?m i = Some v \<and> watched v" using mem by blast
      then show "watched w \<and> gone_quiet (sv_now sv) ?g w" using v(2) Some by simp
    next
      assume a: "watched w \<and> gone_quiet (sv_now sv) ?g w"
      then have "w \<in> set ?ws" using mem Some i by blast
      then show "i \<in> w_id ` set (filter (gone_quiet (sv_now sv) ?g) ?ws)" using a i by auto
    qed
    then show ?thesis using get[of i] Some by simp
  qed (simp add: get)
  moreover have "n = hm_count (\<lambda>w. watched w \<and> gone_quiet (sv_now sv) ?g w) ?m"
  proof -
    let ?vs = "hm_values ?m"
    have dv: "distinct ?vs" using k by (metis keyed_distinct_values distinct_map)
    have "set (filter (gone_quiet (sv_now sv) ?g) ?ws) = set (filter (\<lambda>w. watched w \<and> gone_quiet (sv_now sv) ?g w) ?vs)"
      using mem keyed_values_iff[OF k] by auto
    then have "length (filter (gone_quiet (sv_now sv) ?g) ?ws) = length (filter (\<lambda>w. watched w \<and> gone_quiet (sv_now sv) ?g w) ?vs)"
      using distinct_filter[OF d] distinct_filter[OF dv] by (metis distinct_card)
    then show ?thesis unfolding n hm_count_def .
  qed
  ultimately show ?thesis using run(2) by simp
qed

lemma scan_fold_keyed:
  assumes "fold (scan_worker sv allowed grace) ws (n, s) = (n', s')" "keyed w_id (ms_workers (yd_store s))"
    "sv_others sv = (\<lambda>_ s. s)"
  shows "keyed w_id (ms_workers (yd_store s'))"
  using assms(1,2)
proof (induction ws arbitrary: n s)
  case (Cons w ws)
  obtain m t where st: "scan_worker sv allowed grace w (n, s) = (m, t)" by fastforce
  have "keyed w_id (ms_workers (yd_store t))" using scan_worker_step[OF st] Cons.prems(2) assms(3)
    by (auto simp: upsert_worker_def Let_def intro!: keyed_insert split: if_splits option.splits)
  then show ?case using Cons.IH[of m t] Cons.prems(1) st by simp
qed simp

lemma scan_keyed:
  assumes "scan_once conv sv cfg s = (r, s')" "keyed w_id (ms_workers (yd_store s))" "sv_others sv = (\<lambda>_ s. s)"
  shows "keyed w_id (ms_workers (yd_store s'))"
proof -
  have "s' = s \<or> (\<exists>ws n allowed. fold (scan_worker sv allowed (conv_or conv 60 allowed)) ws (0, s) = (n, s'))"
    using assms(1) by (auto simp: scan_once_def list_workers_def simp del: fold_append split: prod.splits option.splits)
  then show ?thesis using scan_fold_keyed assms(2,3) by blast
qed

text \<open>
  C20. Undisturbed, a scan of a fleet of at most a hundred workers per status expires exactly the watched
  workers that report periodically and have been silent longer than the grace period: it sets them, and
  nothing else of the worker table, to offline and counts them. Workers that are only probed on demand,
  and workers that were never heard of, are left alone. If the grace period does not fit a \<open>Duration\<close>, the scan panics and nothing is written.
\<close>

theorem scan_exact:
  assumes "tables_ok (yd_store s)" "\<forall>st. hm_count (\<lambda>w. w_status w = st) (ms_workers (yd_store s)) \<le> 100"
    "sv_others sv = (\<lambda>_ s. s)" "scan_once conv sv cfg s = (r, s')"
  shows "case grace_duration cfg of
      None \<Rightarrow> r = Inl ScanPanicked \<and> s' = s
    | Some allowed \<Rightarrow>
        (\<forall>i. hm_get (ms_workers (yd_store s')) i = (case hm_get (ms_workers (yd_store s)) i of
            None \<Rightarrow> None
          | Some w \<Rightarrow> Some (if watched w \<and> gone_quiet (sv_now sv) (conv_or conv 60 allowed) w
                           then w\<lparr>w_status := WOffline\<rparr> else w))) \<and>
        r = Inr (hm_count (\<lambda>w. watched w \<and> gone_quiet (sv_now sv) (conv_or conv 60 allowed) w) (ms_workers (yd_store s)))"
proof (cases "grace_duration cfg")
  case None
  then show ?thesis using assms(4) by (auto simp: scan_once_def list_workers_def)
next
  case (Some allowed)
  then show ?thesis using scan_rows[OF tables_okD(2)[OF assms(1)] assms(2-4) Some] by simp
qed

abbreviation quiet_worker :: worker where
  "quiet_worker \<equiv> new_worker (WorkerId 1) 0 0 ''w'' ''ws://w''"

definition quiet_yard :: yard where
  "quiet_yard = \<lparr> yd_store = empty_store\<lparr>ms_workers := [(WorkerId 1, quiet_worker)]\<rparr>, yd_hosts = [], yd_host_events = [],
     yd_ssh_keys = [] \<rparr>"

abbreviation quiet_scan :: scan_env where
  "quiet_scan \<equiv> \<lparr> sv_now = int (secs 46), sv_clk = (\<lambda>_. int (secs 46)), sv_ids = (\<lambda>_. 1), sv_others = (\<lambda>_ s. s) \<rparr>"

lemma scan_exact_witness:
  "\<exists>s'. scan_once (\<lambda>d. Some (int d)) quiet_scan default_health_config quiet_yard = (Inr 1, s') \<and>
     hm_get (ms_workers (yd_store s')) (WorkerId 1) = Some (quiet_worker\<lparr>w_status := WOffline\<rparr>)"
proof -
  obtain r s' where run: "scan_once (\<lambda>d. Some (int d)) quiet_scan default_health_config quiet_yard = (r, s')" by fastforce
  have ok: "tables_ok (yd_store quiet_yard)" "\<forall>st. hm_count (\<lambda>w. w_status w = st) (ms_workers (yd_store quiet_yard)) \<le> 100"
    by (simp_all add: quiet_yard_def tables_ok_def empty_store_def keyed_def hm_ok_def new_worker_def hm_count_def hm_values_def)
  have g: "grace_duration default_health_config = Some (secs 45)"
    by (simp add: grace_duration_def default_health_config_def secs_def)
  have s: "watched quiet_worker" "gone_quiet (int (secs 46)) (conv_or (\<lambda>d. Some (int d)) 60 (secs 45)) quiet_worker"
    by (simp_all add: watched_def gone_quiet_def new_worker_def conv_or_def secs_def)
  from scan_exact[OF ok _ run] s g show ?thesis using run
    by (simp add: quiet_yard_def hm_count_def hm_values_def hm_get_def)
qed

text \<open>
  The scan writes back the row it listed: a heartbeat that arrives between the list and the write is
  lost, together with everything else the worker reported since.
\<close>

lemma scan_overwrites_heartbeat:
  assumes "scan_worker sv allowed grace w (n, s) = (n', s')" "gone_quiet (sv_now sv) grace w"
    "hm_get (ms_workers (yd_store (sv_others sv (w_id w) s))) (w_id w) = Some fresh"
  shows "hm_get (ms_workers (yd_store s')) (w_id w) =
    Some (w\<lparr>w_status := WOffline, w_registered_at := w_registered_at fresh,
            w_incarnation_started_at := w_incarnation_started_at fresh\<rparr>)"
  using scan_worker_step[OF assms(1)] assms(2,3) by (simp add: upsert_worker_def)

section \<open>Synchronised instances agree\<close>

fun about :: "worker_id \<Rightarrow> fleet_event \<Rightarrow> bool" where
  "about w (WorkerCircuitChanged v old to t) = (v = w)"
| "about w (WorkerLeft v why t) = (v = w)"
| "about w _ = False"

text \<open>An event that opens or closes the circuit of a worker.\<close>

fun decides :: "worker_id \<Rightarrow> fleet_event \<Rightarrow> bool" where
  "decides w (WorkerCircuitChanged v old to t) = (v = w \<and> to \<noteq> CHalfOpen)"
| "decides w _ = False"

definition agree_on :: "worker_id \<Rightarrow> registry \<Rightarrow> registry \<Rightarrow> bool" where
  "agree_on w r r' \<longleftrightarrow> (\<exists>b b'. hm_get r w = Some b \<and> hm_get r' w = Some b' \<and> bi_state b = bi_state b')"

lemma agree_on_state: "agree_on w r r' \<Longrightarrow> state_of w r = state_of w r'"
  by (auto simp: agree_on_def state_of_def)

lemma apply_keeps_agreement:
  assumes "agree_on w r r'"
  shows "agree_on w (snd (apply_one_to now e r)) (snd (apply_one_to now' e r'))"
proof -
  obtain b b' where b: "hm_get r w = Some b" "hm_get r' w = Some b'" "bi_state b = bi_state b'"
    using assms by (auto simp: agree_on_def)
  show ?thesis
  proof (cases e)
    case (WorkerCircuitChanged v old to t)
    have "hm_get (snd (reg_get now v to r)) w = Some b" "hm_get (snd (reg_get now' v to r')) w = Some b'"
      using b by (auto simp: reg_get_def Let_def split: option.split)
    then show ?thesis using b(3) WorkerCircuitChanged
      by (cases to) (auto simp: apply_one_to_def agree_on_def force_open_def reset_def case_prod_beta)
  qed (use b in \<open>auto simp: apply_one_to_def agree_on_def reg_reset_def reset_def\<close>)
qed

lemma decision_brings_agreement:
  assumes "decides w e"
  shows "agree_on w (snd (apply_one_to now e r)) (snd (apply_one_to now' e r'))"
proof -
  obtain old to t where e: "e = WorkerCircuitChanged w old to t" "to \<noteq> CHalfOpen" using assms by (cases e) auto
  have there: "\<exists>b. hm_get (snd (reg_get now w to r)) w = Some b" for now r
    by (simp add: reg_get_def Let_def split: option.split)
  show ?thesis using there[of now r] there[of now' r'] e
    by (cases to) (auto simp: apply_one_to_def agree_on_def force_open_def reset_def case_prod_beta)
qed

lemma apply_events_Nil [simp]: "apply_events clock [] r = r"
  by (simp add: apply_events_def)

lemma apply_events_shift:
  "fold (\<lambda>entry (n, r). (Suc n, snd (apply_one_to (clock n) (ee_event entry) r))) es (k, r) =
   (k + length es, apply_events (\<lambda>n. clock (k + n)) es r)"
proof (induction es arbitrary: k r clock)
  case (Cons e es)
  have step: "fold (\<lambda>entry (n, r). (Suc n, snd (apply_one_to (clock n) (ee_event entry) r))) es
      (Suc k, snd (apply_one_to (clock k) (ee_event e) r)) =
    (Suc k + length es, apply_events (\<lambda>n. clock (Suc k + n)) es (snd (apply_one_to (clock k) (ee_event e) r)))"
    by (rule Cons)
  have again: "apply_events (\<lambda>n. clock (k + n)) (e # es) r =
      apply_events (\<lambda>n. clock (Suc k + n)) es (snd (apply_one_to (clock k) (ee_event e) r))"
    using Cons[of "\<lambda>n. clock (k + n)" "Suc 0" "snd (apply_one_to (clock k) (ee_event e) r)"]
    by (simp add: apply_events_def)
  show ?case using step again by simp
qed simp

lemma apply_events_Cons:
  "apply_events clock (e # es) r = apply_events (\<lambda>n. clock (Suc n)) es (snd (apply_one_to (clock 0) (ee_event e) r))"
  using apply_events_shift[of clock es "Suc 0" "snd (apply_one_to (clock 0) (ee_event e) r)"]
  by (simp add: apply_events_def)

lemma apply_events_agree: "agree_on w r r' \<Longrightarrow> agree_on w (apply_events clock es r) (apply_events clock' es r')"
proof (induction es arbitrary: r r' clock clock')
  case (Cons e es)
  then show ?case unfolding apply_events_Cons using apply_keeps_agreement by blast
qed simp

text \<open>
  Instances converge: two instances that apply the same events, starting from any state of their
  breakers and at any times, agree on a worker's circuit from the first event on that opens or closes it.
\<close>

theorem sync_converges:
  assumes "\<exists>entry \<in> set es. decides w (ee_event entry)"
  shows "state_of w (apply_events clock es r) = state_of w (apply_events clock' es r')"
proof -
  have "agree_on w (apply_events clock es r) (apply_events clock' es r')"
    using assms
  proof (induction es arbitrary: r r' clock clock')
    case (Cons e es)
    show ?case
    proof (cases "decides w (ee_event e)")
      case True
      then show ?thesis unfolding apply_events_Cons by (intro apply_events_agree decision_brings_agreement)
    next
      case False
      then show ?thesis unfolding apply_events_Cons using Cons by auto
    qed
  qed simp
  then show ?thesis by (rule agree_on_state)
qed

lemma sync_converges_witness:
  "state_of (WorkerId 1) (apply_events (\<lambda>n. n) [\<lparr> ee_seq = 1, ee_event = WorkerCircuitChanged (WorkerId 1) CClosed COpen 0 \<rparr>,
       \<lparr> ee_seq = 2, ee_event = WorkerCircuitChanged (WorkerId 1) COpen CHalfOpen 0 \<rparr>] []) =
   state_of (WorkerId 1) (apply_events (\<lambda>n. 7 + n) [\<lparr> ee_seq = 1, ee_event = WorkerCircuitChanged (WorkerId 1) CClosed COpen 0 \<rparr>,
       \<lparr> ee_seq = 2, ee_event = WorkerCircuitChanged (WorkerId 1) COpen CHalfOpen 0 \<rparr>] [(WorkerId 1, new_with_state 3 CHalfOpen)])"
  by (rule sync_converges) simp

text \<open>
  An event that only announces the half-open state is not enough: an instance that has used the worker
  keeps its closed circuit, one that has not starts half-open.
\<close>

lemma half_open_event_diverges:
  "state_of w (snd (apply_one_to now (WorkerCircuitChanged w COpen CHalfOpen t) [(w, new_with_state 0 CClosed)])) = BClosed"
  "state_of w (snd (apply_one_to now (WorkerCircuitChanged w COpen CHalfOpen t) [])) = BHalfOpen"
  by (simp_all add: apply_one_to_def reg_get_def new_with_state_def new_inner_def state_of_def hm_get_def hm_insert_def Let_def)

end
