(* ===== verification/Placement.thy ===== *)
theory Placement
  imports Dispatch_State Agent_Placement
begin

text \<open>
  The initial placement of an agent (\<open>crates/fleet-scheduler/src/placement.rs\<close>): which worker a new
  agent is put on.
\<close>

datatype placement_error = AllOffline | AllUnprobed | AllCircuitOpen | AllAtCapacity | PlStore store_error

fun placement_error_text :: "placement_error \<Rightarrow> message" where
  "placement_error_text AllOffline = Msg ''no worker is currently online'' []"
| "placement_error_text AllUnprobed = Msg ''no placeable worker: all candidates are on-demand and unprobed'' []"
| "placement_error_text AllCircuitOpen = Msg ''no placeable worker: every online worker has an open circuit'' []"
| "placement_error_text AllAtCapacity = Msg ''no placeable worker: every online worker is at its agent-process cap'' []"
| "placement_error_text (PlStore e) = Msg ''store error: {0}'' [ArgText (store_error_text e)]"

definition below_cap :: "(worker_id, u32) hmap \<Rightarrow> worker \<Rightarrow> bool" where
  "below_cap load w = (case w_max_agent_processes w of Some cap \<Rightarrow> load_of load w < cap | None \<Rightarrow> True)"

definition choose_worker :: "mem_store \<Rightarrow> (placement_error, worker_id) result" where
  "choose_worker s =
     (case list_workers online_filter s of
        Inl e \<Rightarrow> Inl (PlStore e)
      | Inr online \<Rightarrow>
          if online = [] then Inl AllOffline
          else let probed = filter (\<lambda>w. w_liveness_mode w \<noteq> OnDemand) online
          in if probed = [] then Inl AllUnprobed
          else let closed = filter (\<lambda>w. w_circuit_state w \<noteq> COpen) probed
          in if closed = [] then Inl AllCircuitOpen
          else case count_agents_by_worker s of
            Inl e \<Rightarrow> Inl (PlStore e)
          | Inr load \<Rightarrow>
              let free = filter (below_cap load) closed
              in if free = [] then Inl AllAtCapacity
                 else Inr (w_id (hd (sort_key (\<lambda>w. (load_of load w, w_registered_at w)) free))))"

definition place_on_create :: "datetime \<Rightarrow> mem_store \<Rightarrow> (worker_id \<times> datetime) option" where
  "place_on_create now s = (case choose_worker s of Inr w \<Rightarrow> Some (w, now) | Inl _ \<Rightarrow> None)"

section \<open>Properties\<close>

text \<open>A worker a new agent may be put on.\<close>

definition placeable :: "mem_store \<Rightarrow> worker \<Rightarrow> bool" where
  "placeable s w \<longleftrightarrow> hm_get (ms_workers s) (w_id w) = Some w \<and> w_status w = WOnline \<and>
     w_liveness_mode w = Periodic \<and> w_circuit_state w \<noteq> COpen \<and>
     (case w_max_agent_processes w of None \<Rightarrow> True
      | Some cap \<Rightarrow> (of_nat (hm_count (occupies (w_id w)) (ms_agents s)) :: u32) < cap)"

lemma count_occupied_get:
  "(case hm_get (count_occupied as out) w of None \<Rightarrow> 0 | Some n \<Rightarrow> n) =
   (case hm_get out w of None \<Rightarrow> 0 | Some n \<Rightarrow> n) + of_nat (length (filter (occupies w) as))"
proof (induction as arbitrary: out)
  case (Cons a as)
  show ?case
    by (cases "ag_status a"; cases "ag_worker_id a") (auto simp: Cons.IH bump_def occupies_def split: option.split)
qed simp

lemma agent_load_exact:
  assumes "count_agents_by_worker s = Inr load"
  shows "load_of load w = of_nat (hm_count (occupies (w_id w)) (ms_agents s))"
  using count_occupied_get[of "hm_values (ms_agents s)" "[]" "w_id w"] assms
  by (auto simp: load_of_def hm_count_def count_agents_by_worker_def split: if_splits option.splits)

lemma below_u32: "n < 2 ^ 32 \<Longrightarrow> (of_nat n :: u32) < c \<longleftrightarrow> n < unat c"
  by (simp add: word_less_nat_alt unat_of_nat)

lemma choose_cases:
  assumes "choose_worker s = r"
  obtains online load free where "list_workers online_filter s = Inr online" "count_agents_by_worker s = Inr load"
    "free = filter (\<lambda>w. w_liveness_mode w \<noteq> OnDemand \<and> w_circuit_state w \<noteq> COpen \<and> below_cap load w) online"
    "if free = [] then \<exists>e. r = Inl e \<and> (\<forall>se. e \<noteq> PlStore se)
     else r = Inr (w_id (hd (sort_key (\<lambda>w. (load_of load w, w_registered_at w)) free)))"
proof -
  obtain online where o: "list_workers online_filter s = Inr online" by (simp add: list_workers_def)
  obtain load where l: "count_agents_by_worker s = Inr load" by (simp add: count_agents_by_worker_def)
  let ?probed = "filter (\<lambda>w. w_liveness_mode w \<noteq> OnDemand) online"
  let ?closed = "filter (\<lambda>w. w_circuit_state w \<noteq> COpen) ?probed"
  have f: "filter (below_cap load) ?closed =
      filter (\<lambda>w. w_liveness_mode w \<noteq> OnDemand \<and> w_circuit_state w \<noteq> COpen \<and> below_cap load w) online"
    by (simp only: filter_filter) (metis (no_types, lifting))
  show thesis
  proof (rule that[OF o l refl])
    show "if filter (\<lambda>w. w_liveness_mode w \<noteq> OnDemand \<and> w_circuit_state w \<noteq> COpen \<and> below_cap load w) online = []
      then \<exists>e. r = Inl e \<and> (\<forall>se. e \<noteq> PlStore se)
      else r = Inr (w_id (hd (sort_key (\<lambda>w. (load_of load w, w_registered_at w))
        (filter (\<lambda>w. w_liveness_mode w \<noteq> OnDemand \<and> w_circuit_state w \<noteq> COpen \<and> below_cap load w) online))))"
      unfolding f[symmetric] using assms o l
      by (cases "online = []"; cases "?probed = []"; cases "?closed = []") (auto simp: choose_worker_def Let_def)
  qed
qed

lemma free_iff_placeable:
  assumes "tables_ok s" "hm_count (\<lambda>w. w_status w = WOnline) (ms_workers s) \<le> 100"
    "list_workers online_filter s = Inr online" "count_agents_by_worker s = Inr load"
  shows "w \<in> set (filter (\<lambda>w. w_liveness_mode w \<noteq> OnDemand \<and> w_circuit_state w \<noteq> COpen \<and> below_cap load w) online)
     \<longleftrightarrow> placeable s w"
proof -
  have "w \<in> set online \<longleftrightarrow> hm_get (ms_workers s) (w_id w) = Some w \<and> w_status w = WOnline"
    using online_workers[OF assms(1-3)] by simp
  then show ?thesis using agent_load_exact[OF assms(4), of w]
    by (cases "w_liveness_mode w") (auto simp: placeable_def below_cap_def split: option.splits)
qed

text \<open>
  A new agent is put on a placeable worker that carries the fewest agents, and of those the one
  registered first; no worker is chosen exactly when none is placeable. (At most 100 workers online: the
  page that is read.)
\<close>

theorem placement_least_loaded:
  assumes "tables_ok s" "hm_count (\<lambda>w. w_status w = WOnline) (ms_workers s) \<le> 100"
  shows "case choose_worker s of
      Inr i \<Rightarrow> \<exists>w. w_id w = i \<and> placeable s w \<and> (\<forall>v. placeable s v \<longrightarrow>
        ((of_nat (hm_count (occupies i) (ms_agents s)) :: u32), w_registered_at w)
          \<le> (of_nat (hm_count (occupies (w_id v)) (ms_agents s)), w_registered_at v))
    | Inl e \<Rightarrow> (\<nexists>w. placeable s w) \<and> (\<forall>se. e \<noteq> PlStore se)"
proof (rule choose_cases[OF refl])
  fix online load free
  assume o: "list_workers online_filter s = Inr online" and l: "count_agents_by_worker s = Inr load"
    and f: "free = filter (\<lambda>w. w_liveness_mode w \<noteq> OnDemand \<and> w_circuit_state w \<noteq> COpen \<and> below_cap load w) online"
    and r: "if free = [] then \<exists>e. choose_worker s = Inl e \<and> (\<forall>se. e \<noteq> PlStore se)
      else choose_worker s = Inr (w_id (hd (sort_key (\<lambda>w. (load_of load w, w_registered_at w)) free)))"
  have free: "w \<in> set free \<longleftrightarrow> placeable s w" for w
    unfolding f by (rule free_iff_placeable[OF assms o l])
  show ?thesis
  proof (cases "free = []")
    case True
    then have "\<nexists>w. placeable s w" using free by auto
    then show ?thesis using r True by auto
  next
    case False
    let ?key = "\<lambda>w. (load_of load w, w_registered_at w)"
    let ?w = "hd (sort_key ?key free)"
    have ne: "sort_key ?key free \<noteq> []" using False by (metis set_empty set_sort)
    have "?key ?w \<le> ?key v" if "v \<in> set free" for v
    proof -
      obtain ys where ys: "sort_key ?key free = ?w # ys" using ne by (cases "sort_key ?key free") auto
      have "v \<in> set (?w # ys)" using that ys by (metis set_sort)
      moreover have "sorted (map ?key (?w # ys))" using sorted_sort_key[of ?key free] ys by simp
      ultimately show ?thesis by auto
    qed
    moreover have "?w \<in> set free" using ne by (metis list.set_sel(1) set_sort)
    ultimately show ?thesis using r False free agent_load_exact[OF l] by auto
  qed
qed

abbreviation placing_store :: mem_store where
  "placing_store \<equiv> empty_store\<lparr>ms_workers := [(WorkerId 1, (new_worker (WorkerId 1) 0 0 ''w'' ''ws://h'')
     \<lparr>w_max_agent_processes := Some 1\<rparr>)]\<rparr>"

lemma placing_store_ok:
  "tables_ok placing_store" "hm_count (\<lambda>w. w_status w = WOnline) (ms_workers placing_store) \<le> 100"
  by (simp_all add: tables_ok_def empty_store_def keyed_def hm_ok_def new_worker_def hm_count_def hm_values_def)

lemma placing_store_placeable:
  "placeable placing_store ((new_worker (WorkerId 1) 0 0 ''w'' ''ws://h'')\<lparr>w_max_agent_processes := Some 1\<rparr>)"
  by (simp add: placeable_def new_worker_def hm_get_def hm_count_def hm_values_def empty_store_def)

lemma placement_least_loaded_witness: "choose_worker placing_store = Inr (WorkerId 1)"
proof (cases "choose_worker placing_store")
  case (Inl e)
  then show ?thesis using placement_least_loaded[OF placing_store_ok] placing_store_placeable by auto
next
  case (Inr i)
  then obtain w where "w_id w = i" "placeable placing_store w" using placement_least_loaded[OF placing_store_ok] by auto
  then have "i = WorkerId 1" by (auto simp: placeable_def hm_get_def split: if_splits)
  then show ?thesis using Inr by simp
qed

text \<open>
  Placement and creation agree: an agent created on the worker just chosen is stored with that
  placement, the worker's cap included (below 2^32 agents per worker).
\<close>

theorem chosen_placement_is_kept:
  assumes "tables_ok s" "place_on_create now s = Some (w, at_time)" "\<not> ms_drop_placements s"
    "hm_count (occupies w) (ms_agents s) < 2 ^ 32"
    "create_agent (with_placement w at_time a) s = (Inr placed, s')"
  shows "placed = Some w \<and> hm_get (ms_agents s') (ag_id a) = Some (with_placement w at_time a)"
proof -
  have w: "choose_worker s = Inr w" using assms(2) by (auto simp: place_on_create_def split: sum.splits)
  have "\<exists>wk. hm_get (ms_workers s) w = Some wk \<and> (case w_max_agent_processes wk of None \<Rightarrow> True
      | Some cap \<Rightarrow> (of_nat (hm_count (occupies w) (ms_agents s)) :: u32) < cap)"
  proof (rule choose_cases[OF w])
    fix online load free
    assume o: "list_workers online_filter s = Inr online" and l: "count_agents_by_worker s = Inr load"
      and f: "free = filter (\<lambda>w. w_liveness_mode w \<noteq> OnDemand \<and> w_circuit_state w \<noteq> COpen \<and> below_cap load w) online"
      and r: "if free = [] then \<exists>e. Inr w = Inl e \<and> (\<forall>se. e \<noteq> PlStore se)
        else Inr w = Inr (w_id (hd (sort_key (\<lambda>w. (load_of load w, w_registered_at w)) free)))"
    let ?w = "hd (sort_key (\<lambda>w. (load_of load w, w_registered_at w)) free)"
    have "free \<noteq> []" "w = w_id ?w" using r by (auto split: if_splits)
    then have "?w \<in> set free" by (metis hd_in_set set_empty set_sort)
    then have "?w \<in> set online" "below_cap load ?w" unfolding f by auto
    then show ?thesis
      using list_workers_sound(1)[OF assms(1) o] agent_load_exact[OF l, of ?w] \<open>w = w_id ?w\<close>
      by (intro exI[of _ ?w]) (auto simp: below_cap_def split: option.splits)
  qed
  then obtain wk where wk: "hm_get (ms_workers s) w = Some wk"
      "case w_max_agent_processes wk of None \<Rightarrow> True
       | Some cap \<Rightarrow> (of_nat (hm_count (occupies w) (ms_agents s)) :: u32) < cap" by blast
  have "placed_worker (with_placement w at_time a) s = Some w"
    using wk assms(3,4)
    by (auto simp: placed_worker_def with_placement_def below_u32 split: option.splits)
  then show ?thesis using assms(5)
    by (auto simp: create_agent_def Let_def with_placement_def split: if_splits option.splits)
qed

lemma chosen_placement_is_kept_witness:
  "\<exists>s'. create_agent (with_placement (WorkerId 1) 7 (plain_agent 1 ''a'')) placing_store = (Inr (Some (WorkerId 1)), s')
     \<and> hm_get (ms_agents s') (ag_id (plain_agent 1 ''a'')) = Some (with_placement (WorkerId 1) 7 (plain_agent 1 ''a''))"
proof -
  have "choose_worker placing_store = Inr (WorkerId 1)"
    by (simp add: choose_worker_def list_workers_def worker_selected_def online_filter_def default_worker_filter_def
        page_def sort_desc_def new_worker_def count_agents_by_worker_def below_cap_def load_of_def hm_get_def hm_values_def
        empty_store_def Let_def)
  then have pl: "place_on_create 7 placing_store = Some (WorkerId 1, 7)" by (simp add: place_on_create_def)
  have d: "\<not> ms_drop_placements placing_store" "hm_count (occupies (WorkerId 1)) (ms_agents placing_store) < 2 ^ 32"
    by (simp_all add: empty_store_def hm_count_def hm_values_def)
  obtain placed s' where c: "create_agent (with_placement (WorkerId 1) 7 (plain_agent 1 ''a'')) placing_store = (Inr placed, s')"
    by (simp add: create_agent_def hm_values_def empty_store_def with_placement_def new_agent_def Let_def)
  from chosen_placement_is_kept[OF placing_store_ok(1) pl d c] c show ?thesis by auto
qed

end
