(* ===== verification/Mcp_Tasks.thy ===== *)
theory Mcp_Tasks
  imports Mcp_Issues Fleet_Health Project_Rules Placement Dispatch_Flow Server_Key
begin

text \<open>
  The task, worker, host and token tools of the MCP server (\<open>crates/fleet-mcp/src/handlers.rs\<close>) and the
  pin rules of a submission (\<open>crates/fleet-store/src/task_pins.rs\<close>). A \<open>plant\<close> is everything the tools
  act on: a dispatcher with its store, the access tables (audit), issues and hosts. The dispatcher's own
  audit entries and those of the tools are kept apart (\<open>fl_audit\<close>, \<open>pl_access\<close>); the code has one table.
\<close>

record plant =
  pl_fleet :: fleet
  pl_access :: access
  pl_issues :: "(issue_id, issue) hmap"
  pl_comments :: "issue_comment list"
  pl_hosts :: "host list"
  pl_host_events :: "host_event list"
  pl_ssh_keys :: "(string, ssh_key) hmap"

abbreviation pl_store :: "plant \<Rightarrow> mem_store" where
  "pl_store p \<equiv> fl_store (pl_fleet p)"

definition on_fleet :: "(fleet \<Rightarrow> 'r \<times> fleet) \<Rightarrow> plant \<Rightarrow> 'r \<times> plant" where
  "on_fleet op p = (case op (pl_fleet p) of (r, f) \<Rightarrow> (r, p\<lparr>pl_fleet := f\<rparr>))"

definition on_store :: "(mem_store \<Rightarrow> 'r \<times> mem_store) \<Rightarrow> plant \<Rightarrow> 'r \<times> plant" where
  "on_store op = on_fleet (with_store op)"

definition tracker_of :: "plant \<Rightarrow> tracker" where
  "tracker_of p = \<lparr> tk_store = pl_store p, tk_access = pl_access p, tk_issues = pl_issues p, tk_comments = pl_comments p \<rparr>"

definition with_tracker :: "plant \<Rightarrow> tracker \<Rightarrow> plant" where
  "with_tracker p t = p\<lparr>pl_fleet := (pl_fleet p)\<lparr>fl_store := tk_store t\<rparr>, pl_access := tk_access t,
     pl_issues := tk_issues t, pl_comments := tk_comments t\<rparr>"

definition on_tracker :: "(tracker \<Rightarrow> 'r \<times> tracker) \<Rightarrow> plant \<Rightarrow> 'r \<times> plant" where
  "on_tracker op p = (case op (tracker_of p) of (r, t) \<Rightarrow> (r, with_tracker p t))"

definition yard_of :: "plant \<Rightarrow> yard" where
  "yard_of p = \<lparr> yd_store = pl_store p, yd_hosts = pl_hosts p, yd_host_events = pl_host_events p, yd_ssh_keys = pl_ssh_keys p \<rparr>"

definition plant_audit :: "audit_event \<Rightarrow> plant \<Rightarrow> plant" where
  "plant_audit e p = p\<lparr>pl_access := audit e (pl_access p)\<rparr>"

definition tool_event :: "datetime \<Rightarrow> tool_ctx \<Rightarrow> string \<Rightarrow> project_id option \<Rightarrow> string \<Rightarrow> string \<Rightarrow> audit_event" where
  "tool_event now c action pid kind target = (new_event now (tc_created_by c) action AuditSuccess)
     \<lparr>ae_project_id := pid, ae_target_type := Some kind, ae_target_id := Some target\<rparr>"

text \<open>Ids as text, the clock, and what the dispatcher reads from outside.\<close>

record mcp_env =
  me_ids :: issue_env
  me_parse_agent :: "string \<Rightarrow> agent_id option"
  me_show_agent :: "agent_id \<Rightarrow> string"
  me_parse_worker :: "string \<Rightarrow> worker_id option"
  me_show_worker :: "worker_id \<Rightarrow> string"
  me_now :: datetime
  me_payload_hash :: "task_request \<Rightarrow> string"
  me_dispatch :: env

section \<open>Pins\<close>

datatype task_pin_error = PinAgentNotFound agent_id | ConflictingPins | ProjectMismatch project_id project_id
  | PinProject project_admission_error | PinStore store_error

definition apply_agent_pin :: "task_request \<Rightarrow> mem_store \<Rightarrow> (task_pin_error, task_request) result" where
  "apply_agent_pin req s =
     (case rq_agent_id req of
        None \<Rightarrow> Inr req
      | Some i \<Rightarrow>
          if rq_server_hint req \<noteq> None then Inl ConflictingPins
          else case get_agent i s of
            Inl e \<Rightarrow> Inl (PinStore e)
          | Inr None \<Rightarrow> Inl (PinAgentNotFound i)
          | Inr (Some a) \<Rightarrow>
              (case rq_project_id req of
                 None \<Rightarrow> (case ensure_project_accepts_new_tasks (ag_project_id a) s of
                     Inl e \<Rightarrow> Inl (PinProject e)
                   | Inr _ \<Rightarrow> Inr (req\<lparr>rq_project_id := Some (ag_project_id a)\<rparr>))
               | Some p \<Rightarrow> if p \<noteq> ag_project_id a then Inl (ProjectMismatch p (ag_project_id a)) else Inr req))"

fun admission_failed :: "issue_env \<Rightarrow> string \<Rightarrow> project_admission_error \<Rightarrow> rpc_error" where
  "admission_failed en what (PaNotFound p) = InvalidParams (plain_text (''no such project: '' @ ie_show_project en p))"
| "admission_failed en what (PaNotAccepting n st kind) =
     InvalidParams (Msg ''project '{name}' is {status} and does not accept new {what}'' [ArgStr n, ArgStr st, ArgStr kind])"
| "admission_failed en what (PaStore e) = InternalRpc (Msg (what @ ''{inner}'') [ArgText (store_error_text e)])"

fun pin_failed :: "mcp_env \<Rightarrow> task_pin_error \<Rightarrow> rpc_error" where
  "pin_failed en (PinStore e) = InternalRpc (Msg ''failed to look up agent: {inner}'' [ArgText (store_error_text e)])"
| "pin_failed en (PinProject e) = admission_failed (me_ids en) ''failed to look up project: '' e"
| "pin_failed en (PinAgentNotFound i) = InvalidParams (Msg ''no such agent: {0}'' [ArgAgent i])"
| "pin_failed en ConflictingPins =
     InvalidParams (plain_text ''agent_id and server_hint cannot be given together - agent_id already implies a worker'')"
| "pin_failed en (ProjectMismatch p q) = InvalidParams (Msg ''task project {task_project} does not match agent project {agent_project}''
     [ArgStr (ie_show_project (me_ids en) p), ArgStr (ie_show_project (me_ids en) q)])"

section \<open>Texts of the dispatcher's errors\<close>

fun cancel_error_text :: "cancel_error \<Rightarrow> message" where
  "cancel_error_text (CeStore m) = Msg ''store error: {0}'' [ArgText m]"
| "cancel_error_text (CeNotFound i) = Msg ''task not found: {0}'' [ArgTask i]"
| "cancel_error_text (CeAlreadyTerminal i ph) =
     Msg ''task {task_id} already in terminal state '{phase}' - cannot cancel'' [ArgTask i, ArgStr ph]"
| "cancel_error_text CeControlPlaneFenced = Msg ''this instance does not currently hold the control plane lease'' []"

fun wait_error_text :: "wait_error \<Rightarrow> message" where
  "wait_error_text (WeStore m) = Msg ''store error: {0}'' [ArgText m]"
| "wait_error_text (WeNotFound i) = Msg ''task not found: {0}'' [ArgTask i]"
| "wait_error_text (WeTimeout i timeout) =
     Msg ''timed out waiting for task {task_id} after {timeout:?}'' [ArgTask i, ArgNum (int timeout)]"

section \<open>Submitting\<close>

text \<open>\<open>as_array\<close> with the elements that are strings.\<close>

definition strings_of :: "string option list option \<Rightarrow> string list" where
  "strings_of v = (case v of Some xs \<Rightarrow> List.map_filter (\<lambda>x. x) xs | None \<Rightarrow> [])"

text \<open>An id field that must be a string when the field is there at all.\<close>

definition present_id :: "(string \<Rightarrow> 'i option) \<Rightarrow> tool_args \<Rightarrow> string \<Rightarrow> (rpc_error, 'i option) result" where
  "present_id parse a k =
     (if \<not> ta_has a k then Inr None
      else case ta_str a k of
        None \<Rightarrow> Inl (InvalidParams (plain_text (k @ '' must be a UUID string'')))
      | Some raw \<Rightarrow> (case parse raw of Some i \<Rightarrow> Inr (Some i) | None \<Rightarrow> Inl (InvalidParams (plain_text (k @ '' must be a UUID'')))))"

definition admitted_project :: "mcp_env \<Rightarrow> tool_args \<Rightarrow> mem_store \<Rightarrow> (rpc_error, project_id option) result" where
  "admitted_project en a s =
     (case present_id (ie_parse_project (me_ids en)) a ''project_id'' of
        Inl e \<Rightarrow> Inl e
      | Inr None \<Rightarrow> Inr None
      | Inr (Some p) \<Rightarrow>
          (case ensure_project_accepts_new_tasks p s of
             Inl e \<Rightarrow> Inl (admission_failed (me_ids en) ''failed to look up project: '' e)
           | Inr _ \<Rightarrow> Inr (Some p)))"

text \<open>The request a call asks for; \<open>ucast\<close> is \<open>n as u32\<close>.\<close>

definition tool_request :: "mcp_env \<Rightarrow> tool_ctx \<Rightarrow> tool_args \<Rightarrow> mem_store \<Rightarrow> (rpc_error, task_request) result" where
  "tool_request en c a s =
     (case need_object a of Inl e \<Rightarrow> Inl e | Inr _ \<Rightarrow>
     (case need_str a ''prompt'' of
        Inl e \<Rightarrow> Inl e
      | Inr prompt \<Rightarrow>
     (if trim prompt = [] then Inl (InvalidParams (plain_text ''prompt must not be empty''))
      else case validate_workspace_cwd (ta_str a ''cwd'') of
        Inl e \<Rightarrow> Inl (InvalidParams (Msg ''cwd: {e}'' [ArgText (path_error_text e)]))
      | Inr _ \<Rightarrow>
     (case admitted_project en a s of
        Inl e \<Rightarrow> Inl e
      | Inr project \<Rightarrow>
     (case present_id (me_parse_agent en) a ''agent_id'' of
        Inl e \<Rightarrow> Inl e
      | Inr agent \<Rightarrow>
          let req = default_request\<lparr>rq_prompt := prompt, rq_cwd := ta_str a ''cwd'', rq_model := ta_str a ''model'',
                rq_server_hint := ta_str a ''server_hint'', rq_required_labels := strings_of (ta_array a ''required_labels''),
                rq_max_turns := map_option ucast (ta_u64 a ''max_turns''), rq_timeout_secs := ta_u64 a ''timeout_secs'',
                rq_project_id := project, rq_agent_id := agent\<rparr>
          in (case apply_agent_pin req s of
                Inl e \<Rightarrow> Inl (pin_failed en e)
              | Inr req \<Rightarrow> Inr (req\<lparr>rq_skills_required := strings_of (ta_array a ''skills_required''),
                  rq_idempotency_key := nonempty (map_option trim (ta_str a ''idempotency_key'')),
                  rq_created_by := tc_created_by c\<rparr>)))))))"

definition phase_str :: "task_status \<Rightarrow> string" where
  "phase_str x = phase_as_str (phase x)"

record submitted =
  sb_task_id :: task_id
  sb_status :: string
  sb_deduplicated :: bool

definition handle_dispatch_task ::
    "mcp_env \<Rightarrow> task_id \<Rightarrow> tool_ctx \<Rightarrow> tool_args \<Rightarrow> plant \<Rightarrow> (rpc_error, submitted tool_reply) result \<times> plant" where
  "handle_dispatch_task en new_id c a p =
     (case tool_request en c a (pl_store p) of
        Inl e \<Rightarrow> (Inl e, p)
      | Inr req \<Rightarrow>
          (case on_fleet (submit (me_dispatch en) (from_request (me_payload_hash en) new_id (me_now en) req)) p of
             (Inl e, p) \<Rightarrow> (Inr (ToolError (Msg ''dispatch failed: {e} (task_id={task_id})''
                 [ArgText (dispatch_error_text e), ArgTask new_id])), p)
           | (Inr i, p) \<Rightarrow>
               let status = (case get_task i (pl_store p) of Inr (Some t) \<Rightarrow> phase_str (t_status t) | _ \<Rightarrow> ''dispatched'');
                   dedup = (i \<noteq> new_id);
                   p = (if dedup then p
                        else plant_audit (tool_event (me_now en) c ''task.submit'' (rq_project_id req) ''task''
                               (ie_show_task (me_ids en) i)) p)
               in (Inr (ToolJson \<lparr> sb_task_id = i, sb_status = status, sb_deduplicated = dedup \<rparr>), p)))"

section \<open>Following a task\<close>

text \<open>What a summary shows of a task; with \<open>include_output\<close> off only the length of a result's output.\<close>

record task_summary =
  ts_task :: task
  ts_phase :: string
  ts_output :: "string option"
  ts_output_bytes :: "nat option"

definition task_summary_with_options :: "task \<Rightarrow> bool \<Rightarrow> task_summary" where
  "task_summary_with_options t include_output = \<lparr> ts_task = t\<lparr>t_status := (case t_status t of
       Completed r \<Rightarrow> Completed (r\<lparr>tr_output := []\<rparr>) | x \<Rightarrow> x)\<rparr>,
     ts_phase = phase_str (t_status t),
     ts_output = (case t_status t of Completed r \<Rightarrow> if include_output then Some (tr_output r) else None | _ \<Rightarrow> None),
     ts_output_bytes = (case t_status t of Completed r \<Rightarrow> if include_output then None else Some (length (tr_output r)) | _ \<Rightarrow> None) \<rparr>"

definition task_arg :: "mcp_env \<Rightarrow> tool_args \<Rightarrow> (rpc_error, task_id) result" where
  "task_arg en a =
     (case need_object a of Inl e \<Rightarrow> Inl e | Inr _ \<Rightarrow>
     (case need_str a ''task_id'' of
        Inl e \<Rightarrow> Inl e
      | Inr raw \<Rightarrow> (case ie_parse_task (me_ids en) raw of Some i \<Rightarrow> Inr i | None \<Rightarrow> Inl (InvalidParams (plain_text ''invalid task_id'')))))"

definition task_missing :: "task_id \<Rightarrow> message" where
  "task_missing i = Msg ''task not found: {task_id}'' [ArgTask i]"

definition handle_get_task_status :: "mcp_env \<Rightarrow> tool_args \<Rightarrow> plant \<Rightarrow> (rpc_error, task_summary tool_reply) result" where
  "handle_get_task_status en a p =
     (case task_arg en a of
        Inl e \<Rightarrow> Inl e
      | Inr i \<Rightarrow>
          (case get_task i (pl_store p) of
             Inl e \<Rightarrow> Inl (store_failed e)
           | Inr None \<Rightarrow> Inr (ToolError (task_missing i))
           | Inr (Some t) \<Rightarrow> Inr (ToolJson (task_summary_with_options t True))))"

definition handle_cancel_task :: "mcp_env \<Rightarrow> tool_ctx \<Rightarrow> tool_args \<Rightarrow> plant \<Rightarrow> (rpc_error, task_id tool_reply) result \<times> plant" where
  "handle_cancel_task en c a p =
     (case task_arg en a of
        Inl e \<Rightarrow> (Inl e, p)
      | Inr i \<Rightarrow>
          let reason = (case ta_str a ''reason'' of Some r \<Rightarrow> r | None \<Rightarrow> ''cancelled by user'')
          in (case on_fleet (cancel (me_dispatch en) i reason) p of
                (Inl e, p) \<Rightarrow> (Inr (ToolError (Msg ''cancel failed: {e}'' [ArgText (cancel_error_text e)])), p)
              | (Inr _, p) \<Rightarrow>
                  let pid = (case get_task i (pl_store p) of Inr (Some t) \<Rightarrow> t_project_id t | _ \<Rightarrow> None)
                  in (Inr (ToolJson i), plant_audit (tool_event (me_now en) c ''task.cancel'' pid ''task'' (ie_show_task (me_ids en) i)) p)))"

definition clamp :: "u64 \<Rightarrow> u64 \<Rightarrow> u64 \<Rightarrow> u64" where
  "clamp lo hi v = (if v < lo then lo else if v > hi then hi else v)"

text \<open>\<open>stores\<close> and \<open>clock\<close> are what the waiting loop reads at its polls.\<close>

definition handle_wait_for_task ::
    "mcp_env \<Rightarrow> (nat \<Rightarrow> mem_store) \<Rightarrow> (nat \<Rightarrow> instant) \<Rightarrow> instant \<Rightarrow> tool_args
     \<Rightarrow> (rpc_error, task_summary tool_reply) result option" where
  "handle_wait_for_task en stores clock start a =
     (case task_arg en a of
        Inl e \<Rightarrow> Some (Inl e)
      | Inr i \<Rightarrow>
          let timeout = secs (unat (clamp 1 3600 (case ta_u64 a ''timeout_secs'' of Some n \<Rightarrow> n | None \<Rightarrow> 300)))
          in (case wait_for_task stores clock start i timeout of
                None \<Rightarrow> None
              | Some (Inr t) \<Rightarrow> Some (Inr (ToolJson (task_summary_with_options t True)))
              | Some (Inl e) \<Rightarrow> Some (Inr (ToolError (Msg ''wait failed: {e}'' [ArgText (wait_error_text e)])))))"

section \<open>A small instance for examples\<close>

definition plain_mcp_env :: mcp_env where
  "plain_mcp_env = \<lparr> me_ids = \<lparr> ie_parse_issue = (\<lambda>_. None), ie_show_issue = (\<lambda>_. []),
       ie_parse_project = (\<lambda>r. if r = ''7'' then Some (ProjectId 7) else None), ie_show_project = (\<lambda>_. ''7''),
       ie_parse_task = (\<lambda>r. if r = ''1'' then Some (TaskId 1) else None), ie_show_task = (\<lambda>_. ''1''), ie_error_text = (\<lambda>_. []) \<rparr>,
     me_parse_agent = (\<lambda>r. if r = ''5'' then Some (AgentId 5) else None), me_show_agent = (\<lambda>_. ''5''),
     me_parse_worker = (\<lambda>r. if r = ''1'' then Some (WorkerId 1) else None), me_show_worker = (\<lambda>_. ''1''),
     me_now = 0, me_payload_hash = (\<lambda>_. []), me_dispatch = calm_env \<rparr>"

definition args_of :: "(string \<times> string) list \<Rightarrow> (string \<times> u64) list \<Rightarrow> tool_args" where
  "args_of texts numbers = \<lparr> ta_is_object = True, ta_has = (\<lambda>k. map_of texts k \<noteq> None \<or> map_of numbers k \<noteq> None),
     ta_str = map_of texts, ta_bool = (\<lambda>_. None), ta_u64 = map_of numbers, ta_array = (\<lambda>_. None), ta_strings = (\<lambda>_. None) \<rparr>"

end
