(* ===== verification/Mcp_Fleet.thy ===== *)
theory Mcp_Fleet
  imports Mcp_Tasks
begin

text \<open>
  The tools that follow a task's output, list workers, tasks, hosts and tokens, reset a breaker and
  revoke a token (\<open>crates/fleet-mcp/src/handlers.rs\<close> 449-1102). The two tools that read the store several
  times take the sequence of stores they read: other callers act in between.
\<close>

section \<open>Task output\<close>

record stream_state =
  ss_buffer :: string
  ss_chunks_seen :: u64
  ss_offset :: u64

record stream_reply =
  sr_task_id :: task_id
  sr_phase :: string
  sr_output :: string
  sr_chunks_seen :: u64
  sr_next_offset :: u64
  sr_polls_used :: nat
  sr_stopped_reason :: string

definition push_chunks :: "task_output \<Rightarrow> stream_state \<Rightarrow> stream_state" where
  "push_chunks out st = \<lparr> ss_buffer = ss_buffer st @ concat (map oc_chunk (to_chunks out)),
     ss_chunks_seen = ss_chunks_seen st + of_nat (length (to_chunks out)), ss_offset = to_next_offset out \<rparr>"

text \<open>
  The polls \<open>k, .., k + left - 1\<close>: poll \<open>k\<close> reads the output in \<open>stores (2 k - 1)\<close> and the task in
  \<open>stores (2 k)\<close>. The result is the state, the number of polls and whether a terminal task was seen.
\<close>

fun stream_polls ::
    "datetime \<Rightarrow> (nat \<Rightarrow> mem_store) \<Rightarrow> task_id \<Rightarrow> nat \<Rightarrow> nat \<Rightarrow> stream_state
     \<Rightarrow> (rpc_error, stream_state \<times> nat \<times> bool) result" where
  "stream_polls now stores i k 0 st = Inr (st, k - 1, False)"
| "stream_polls now stores i k (Suc left) st =
     (case get_output now i (ss_offset st) (stores (2 * k - 1)) of
        Inl e \<Rightarrow> Inl (store_failed e)
      | Inr out \<Rightarrow>
          let st = push_chunks out st
          in (case get_task i (stores (2 * k)) of
                Inl e \<Rightarrow> Inl (store_failed e)
              | Inr t \<Rightarrow>
                  if (case t of Some t \<Rightarrow> is_terminal t | None \<Rightarrow> False) then Inr (st, k, True)
                  else stream_polls now stores i (Suc k) left st))"

definition stream_from ::
    "datetime \<Rightarrow> (nat \<Rightarrow> mem_store) \<Rightarrow> task_id \<Rightarrow> u64 \<Rightarrow> nat \<Rightarrow> task \<Rightarrow> (rpc_error, stream_state \<times> nat \<times> bool) result" where
  "stream_from now stores i offset max_polls initial =
     (let st = \<lparr> ss_buffer = [], ss_chunks_seen = 0, ss_offset = offset \<rparr>
      in if is_terminal initial then
           (case get_output now i offset (stores 1) of
              Inl e \<Rightarrow> Inl (store_failed e)
            | Inr out \<Rightarrow> Inr (push_chunks out st, 1, True))
         else stream_polls now stores i 1 max_polls st)"

definition u64_arg :: "tool_args \<Rightarrow> string \<Rightarrow> u64 \<Rightarrow> u64" where
  "u64_arg a k d = (case ta_u64 a k of Some n \<Rightarrow> n | None \<Rightarrow> d)"

definition handle_stream_task_output ::
    "mcp_env \<Rightarrow> (nat \<Rightarrow> mem_store) \<Rightarrow> tool_args \<Rightarrow> (rpc_error, stream_reply tool_reply) result" where
  "handle_stream_task_output en stores a =
     (case task_arg en a of
        Inl e \<Rightarrow> Inl e
      | Inr i \<Rightarrow>
          let offset = u64_arg a ''from_offset'' 0;
              max_polls = unat (clamp 1 600 (u64_arg a ''max_polls'' 60))
          in (case get_task i (stores 0) of
                Inl e \<Rightarrow> Inl (store_failed e)
              | Inr None \<Rightarrow> Inr (ToolError (task_missing i))
              | Inr (Some initial) \<Rightarrow>
                  (case stream_from (me_now en) stores i offset max_polls initial of
                     Inl e \<Rightarrow> Inl e
                   | Inr (st, polls, ended) \<Rightarrow>
                       (case get_task i (stores (2 * polls + 1)) of
                          Inl e \<Rightarrow> Inl (store_failed e)
                        | Inr final \<Rightarrow> Inr (ToolJson \<lparr> sr_task_id = i,
                            sr_phase = (case final of Some t \<Rightarrow> phase_str (t_status t) | None \<Rightarrow> ''unknown''),
                            sr_output = ss_buffer st, sr_chunks_seen = ss_chunks_seen st, sr_next_offset = ss_offset st,
                            sr_polls_used = polls,
                            sr_stopped_reason = (if ended then ''terminal'' else ''max_polls_reached'') \<rparr>)))))"

section \<open>Collecting results\<close>

datatype collected = Found task_summary | TaskNotFound task_id | LookupFailed task_id message

record collection =
  cn_results :: "collected list"
  cn_count :: nat
  cn_terminal :: nat
  cn_not_found :: nat

fun collect_ids :: "(string \<Rightarrow> task_id option) \<Rightarrow> nat \<Rightarrow> string option list \<Rightarrow> (rpc_error, task_id list) result" where
  "collect_ids parse n [] = Inr []"
| "collect_ids parse n (None # vs) = Inl (InvalidParams (Msg ''task_ids[{i}] must be a string'' [ArgNum (int n)]))"
| "collect_ids parse n (Some s # vs) =
     (case parse s of
        None \<Rightarrow> Inl (InvalidParams (Msg ''task_ids[{i}] invalid uuid'' [ArgNum (int n)]))
      | Some i \<Rightarrow> (case collect_ids parse (Suc n) vs of Inl e \<Rightarrow> Inl e | Inr is \<Rightarrow> Inr (i # is)))"

definition collect_one :: "bool \<Rightarrow> task_id \<Rightarrow> mem_store \<Rightarrow> collected" where
  "collect_one include_output i s =
     (case get_task i s of
        Inr (Some t) \<Rightarrow> Found (task_summary_with_options t include_output)
      | Inr None \<Rightarrow> TaskNotFound i
      | Inl e \<Rightarrow> LookupFailed i (Msg ''store error: {e}'' [ArgText (store_error_text e)]))"

text \<open>Whether an entry counts as terminal.\<close>

fun collected_terminal :: "collected \<Rightarrow> bool" where
  "collected_terminal (Found x) = is_terminal (ts_task x)"
| "collected_terminal _ = False"

fun collected_missing :: "collected \<Rightarrow> bool" where
  "collected_missing (TaskNotFound _) = True"
| "collected_missing _ = False"

text \<open>The lookups run side by side: \<open>stores n\<close> is what the \<open>n\<close>-th finds.\<close>

definition handle_collect_results ::
    "mcp_env \<Rightarrow> (nat \<Rightarrow> mem_store) \<Rightarrow> tool_args \<Rightarrow> (rpc_error, collection tool_reply) result" where
  "handle_collect_results en stores a =
     (case need_object a of Inl e \<Rightarrow> Inl e | Inr _ \<Rightarrow>
     (case ta_array a ''task_ids'' of
        None \<Rightarrow> Inl (InvalidParams (plain_text ''missing required field: task_ids (array)''))
      | Some vs \<Rightarrow>
          if vs = [] then Inl (InvalidParams (plain_text ''task_ids must not be empty''))
          else if length vs > 200 then Inl (InvalidParams (plain_text ''task_ids length exceeds maximum of 200''))
          else let include_output = (case ta_bool a ''include_output'' of Some b \<Rightarrow> b | None \<Rightarrow> True)
          in (case collect_ids (ie_parse_task (me_ids en)) 0 vs of
                Inl e \<Rightarrow> Inl e
              | Inr ids \<Rightarrow>
                  let entries = map (\<lambda>(n, i). collect_one include_output i (stores n)) (enumerate 0 ids)
                  in Inr (ToolJson \<lparr> cn_results = entries, cn_count = length entries,
                       cn_terminal = length (filter collected_terminal entries),
                       cn_not_found = length (filter collected_missing entries) \<rparr>))))"

section \<open>Workers\<close>

fun worker_status_debug :: "worker_status \<Rightarrow> string" where
  "worker_status_debug WOnline = ''online''"
| "worker_status_debug WDegraded = ''degraded''"
| "worker_status_debug WDraining = ''draining''"
| "worker_status_debug WOffline = ''offline''"
| "worker_status_debug WCircuitOpen = ''circuitopen''"

fun circuit_state_debug :: "circuit_state \<Rightarrow> string" where
  "circuit_state_debug CClosed = ''closed''"
| "circuit_state_debug COpen = ''open''"
| "circuit_state_debug CHalfOpen = ''halfopen''"

record worker_summary =
  ws_worker :: worker
  ws_endpoint :: string
  ws_status :: string
  ws_circuit_state :: string

definition parse_worker_status :: "string \<Rightarrow> (rpc_error, worker_status) result" where
  "parse_worker_status s =
     (if s = ''online'' then Inr WOnline else if s = ''degraded'' then Inr WDegraded
      else if s = ''offline'' then Inr WOffline else if s = ''circuit_open'' then Inr WCircuitOpen
      else Inl (InvalidParams (Msg ''invalid status '{other}': expected one of online, degraded, offline, circuit_open'' [ArgStr s])))"

text \<open>The row shown, without its own endpoint.\<close>

definition worker_summary_of :: "worker \<Rightarrow> worker_summary" where
  "worker_summary_of w = \<lparr> ws_worker = w\<lparr>w_endpoint := []\<rparr>, ws_endpoint = mask_server_key (w_endpoint w),
     ws_status = worker_status_debug (w_status w), ws_circuit_state = circuit_state_debug (w_circuit_state w) \<rparr>"

fun label_args :: "(string \<times> string option) list \<Rightarrow> labels \<Rightarrow> (rpc_error, labels) result" where
  "label_args [] m = Inr m"
| "label_args ((k, None) # kvs) m = Inl (InvalidParams (Msg ''label '{k}' value must be a string'' [ArgStr k]))"
| "label_args ((k, Some v) # kvs) m = label_args kvs (hm_insert k v m)"

text \<open>\<open>limit\<close> of the filter, when the call gives one.\<close>

definition usize_arg :: "tool_args \<Rightarrow> string \<Rightarrow> nat \<Rightarrow> nat" where
  "usize_arg a k d = (case ta_u64 a k of Some n \<Rightarrow> unat n | None \<Rightarrow> d)"

definition worker_filter_of :: "tool_args \<Rightarrow> (rpc_error, worker_filter) result" where
  "worker_filter_of a =
     (let fi = default_worker_filter
      in if \<not> ta_is_object a then Inr fi
         else case (case ta_str a ''status'' of
                None \<Rightarrow> Inr fi
              | Some s \<Rightarrow> (case parse_worker_status s of Inl e \<Rightarrow> Inl e | Inr x \<Rightarrow> Inr (fi\<lparr>wf_status := Some x\<rparr>))) of
           Inl e \<Rightarrow> Inl e
         | Inr fi \<Rightarrow>
             (case (case ta_strings a ''labels'' of None \<Rightarrow> Inr (wf_labels fi) | Some kvs \<Rightarrow> label_args kvs (wf_labels fi)) of
                Inl e \<Rightarrow> Inl e
              | Inr m \<Rightarrow> Inr (fi\<lparr>wf_labels := m, wf_limit := usize_arg a ''limit'' (wf_limit fi)\<rparr>)))"

definition handle_list_workers :: "tool_args \<Rightarrow> plant \<Rightarrow> (rpc_error, worker_summary list tool_reply) result" where
  "handle_list_workers a p =
     (case worker_filter_of a of
        Inl e \<Rightarrow> Inl e
      | Inr fi \<Rightarrow>
          (case list_workers fi (pl_store p) of
             Inl e \<Rightarrow> Inl (store_failed e)
           | Inr ws \<Rightarrow> Inr (ToolJson (map worker_summary_of ws))))"

section \<open>Tasks and hosts\<close>

definition parse_task_status_filter :: "string \<Rightarrow> (rpc_error, task_status_filter) result" where
  "parse_task_status_filter s =
     (if s = ''pending'' then Inr FPending else if s = ''dispatched'' then Inr FDispatched
      else if s = ''completed'' then Inr FCompleted else if s = ''failed'' then Inr FFailed
      else if s = ''cancelled'' then Inr FCancelled else if s = ''terminal'' then Inr FTerminal
      else if s = ''active'' then Inr FActive
      else Inl (InvalidParams (Msg ''invalid status '{other}': expected one of pending, dispatched, completed, failed, cancelled, terminal, active'' [ArgStr s])))"

definition handle_list_tasks :: "tool_args \<Rightarrow> plant \<Rightarrow> (rpc_error, task_summary list tool_reply) result" where
  "handle_list_tasks a p =
     (case (if \<not> ta_is_object a then Inr default_task_filter
            else case (case ta_str a ''status'' of
                   None \<Rightarrow> Inr default_task_filter
                 | Some s \<Rightarrow> (case parse_task_status_filter s of Inl e \<Rightarrow> Inl e | Inr x \<Rightarrow> Inr (default_task_filter\<lparr>fi_status := Some x\<rparr>))) of
              Inl e \<Rightarrow> Inl e
            | Inr fi \<Rightarrow> Inr (fi\<lparr>fi_limit := usize_arg a ''limit'' (fi_limit fi), fi_offset := usize_arg a ''offset'' (fi_offset fi)\<rparr>)) of
        Inl e \<Rightarrow> Inl e
      | Inr fi \<Rightarrow>
          (case list_tasks fi (pl_store p) of
             Inl e \<Rightarrow> Inl (store_failed e)
           | Inr ts \<Rightarrow> Inr (ToolJson (map (\<lambda>t. task_summary_with_options t False) ts))))"

definition parse_host_status :: "string \<Rightarrow> (rpc_error, host_status) result" where
  "parse_host_status s =
     (case host_status_parse s of
        Some x \<Rightarrow> Inr x
      | None \<Rightarrow> Inl (InvalidParams (Msg ''invalid status '{s}': expected one of provisioned, online, offline, failed'' [ArgStr s])))"

text \<open>The reply shows the host rows; some of their fields are left out of the JSON.\<close>

definition handle_list_hosts :: "tool_args \<Rightarrow> plant \<Rightarrow> (rpc_error, host list tool_reply) result" where
  "handle_list_hosts a p =
     (case (case if ta_is_object a then ta_str a ''status'' else None of
              None \<Rightarrow> Inr None
            | Some s \<Rightarrow> (case parse_host_status s of Inl e \<Rightarrow> Inl e | Inr x \<Rightarrow> Inr (Some x))) of
        Inl e \<Rightarrow> Inl e
      | Inr status \<Rightarrow>
          (case list_hosts (yard_of p) of
             Inl e \<Rightarrow> Inl (store_failed e)
           | Inr hs \<Rightarrow> Inr (ToolJson (case status of None \<Rightarrow> hs | Some x \<Rightarrow> filter (\<lambda>h. ho_status h = x) hs))))"

section \<open>Resetting a breaker\<close>

record breaker_reset =
  br_worker_id :: worker_id
  br_previous_state :: breaker_state

definition worker_arg :: "mcp_env \<Rightarrow> tool_args \<Rightarrow> mem_store \<Rightarrow> (rpc_error, worker_id tool_reply) result" where
  "worker_arg en a s =
     (case (ta_str a ''worker_id'', ta_str a ''worker_name'') of
        (Some _, Some _) \<Rightarrow> Inl (InvalidParams (plain_text ''provide exactly one of worker_id or worker_name, not both''))
      | (Some raw, None) \<Rightarrow>
          (case me_parse_worker en raw of Some w \<Rightarrow> Inr (ToolJson w) | None \<Rightarrow> Inl (InvalidParams (plain_text ''invalid worker_id'')))
      | (None, Some name) \<Rightarrow>
          (case get_worker_by_name name s of
             Inl e \<Rightarrow> Inl (store_failed e)
           | Inr (Some w) \<Rightarrow> Inr (ToolJson (w_id w))
           | Inr None \<Rightarrow> Inr (ToolError (Msg ''worker not found: {name}'' [ArgStr name])))
      | (None, None) \<Rightarrow> Inl (InvalidParams (plain_text ''one of worker_id or worker_name is required'')))"

text \<open>The breaker is closed, the closing is written to the row and to the event log, and audited.\<close>

definition handle_reset_worker_breaker ::
    "mcp_env \<Rightarrow> tool_ctx \<Rightarrow> tool_args \<Rightarrow> plant \<Rightarrow> (rpc_error, breaker_reset tool_reply) result \<times> plant" where
  "handle_reset_worker_breaker en c a p =
     (case need_object a of Inl e \<Rightarrow> (Inl e, p) | Inr _ \<Rightarrow>
     (case worker_arg en a (pl_store p) of
        Inl e \<Rightarrow> (Inl e, p)
      | Inr (ToolError m) \<Rightarrow> (Inr (ToolError m), p)
      | Inr (ToolJson w) \<Rightarrow>
          let before = state_of w (fl_breakers (pl_fleet p));
              p = p\<lparr>pl_fleet := (pl_fleet p)\<lparr>fl_breakers := reg_reset w (fl_breakers (pl_fleet p))\<rparr>\<rparr>;
              p = snd (on_store (update_worker_circuit_state w CClosed) p);
              p = snd (on_store (append_event (WorkerCircuitChanged w (circuit_of before) CClosed (me_now en))) p);
              p = plant_audit (tool_event (me_now en) c ''worker.breaker_reset'' None ''worker'' (me_show_worker en w)) p
          in (Inr (ToolJson \<lparr> br_worker_id = w, br_previous_state = before \<rparr>), p)))"

section \<open>Bootstrap tokens\<close>

definition is_hex_digit :: "char \<Rightarrow> bool" where
  "is_hex_digit c \<longleftrightarrow> c \<in> set ''0123456789abcdefABCDEF''"

definition ascii_lower :: "char \<Rightarrow> char" where
  "ascii_lower c = (if of_char c \<in> {65 .. (90 :: nat)} then char_of (of_char c + (32 :: nat)) else c)"

definition digest_from_public_id :: "string \<Rightarrow> string option" where
  "digest_from_public_id s =
     (if take 3 s = ''bt_'' then
        let digest = drop 3 s
        in if length digest = 64 \<and> list_all is_hex_digit digest then Some (map ascii_lower digest) else None
      else None)"

record token_summary =
  tm_token_id :: string
  tm_created_at :: datetime
  tm_expires_at :: "datetime option"
  tm_max_uses :: u32
  tm_use_count :: u32
  tm_usable :: bool
  tm_notes :: "string option"
  tm_last_used_by :: "string option"
  tm_last_used_at :: "datetime option"

definition token_summary_of :: "datetime \<Rightarrow> bootstrap_token \<Rightarrow> token_summary" where
  "token_summary_of now t = \<lparr> tm_token_id = public_id t, tm_created_at = bt_created_at t, tm_expires_at = bt_expires_at t,
     tm_max_uses = bt_max_uses t, tm_use_count = bt_use_count t, tm_usable = is_usable now t, tm_notes = bt_notes t,
     tm_last_used_by = bt_last_used_by t, tm_last_used_at = bt_last_used_at t \<rparr>"

definition handle_list_bootstrap_tokens :: "mcp_env \<Rightarrow> plant \<Rightarrow> (rpc_error, token_summary list tool_reply) result" where
  "handle_list_bootstrap_tokens en p =
     (case list_bootstrap_tokens (pl_store p) of
        Inl e \<Rightarrow> Inl (store_failed e)
      | Inr ts \<Rightarrow> Inr (ToolJson (map (token_summary_of (me_now en)) ts)))"

definition handle_revoke_bootstrap_token ::
    "mcp_env \<Rightarrow> tool_ctx \<Rightarrow> tool_args \<Rightarrow> plant \<Rightarrow> (rpc_error, string tool_reply) result \<times> plant" where
  "handle_revoke_bootstrap_token en c a p =
     (case need_object a of Inl e \<Rightarrow> (Inl e, p) | Inr _ \<Rightarrow>
     (case need_str a ''token_id'' of
        Inl e \<Rightarrow> (Inl e, p)
      | Inr raw \<Rightarrow>
          (case digest_from_public_id raw of
             None \<Rightarrow> (Inr (ToolError (plain_text ''bootstrap token not found'')), p)
           | Some d \<Rightarrow>
               (case on_store (revoke_bootstrap_token d) p of
                  (Inl e, p) \<Rightarrow> (Inl (store_failed e), p)
                | (Inr True, p) \<Rightarrow> (Inr (ToolJson raw),
                    plant_audit (tool_event (me_now en) c ''token.bootstrap.revoke'' None ''bootstrap_token'' raw) p)
                | (Inr False, p) \<Rightarrow> (Inr (ToolError (plain_text ''bootstrap token not found'')), p)))))"

section \<open>The output tool returns a contiguous slice of the log\<close>

definition output_log :: "task_id \<Rightarrow> mem_store \<Rightarrow> string list" where
  "output_log i s = (case hm_get (ms_outputs s) i of None \<Rightarrow> [] | Some v \<Rightarrow> v)"

lemma chunks_of_enumerate:
  "map oc_chunk (map (\<lambda>(n, chunk). \<lparr> oc_task_id = i, oc_seq = f n, oc_chunk = chunk, oc_written_at = now \<rparr>) (enumerate 0 xs)) = xs"
  by (rule nth_equalityI) (auto simp: nth_enumerate_eq)

lemma get_output_chunks:
  assumes "get_output now i off s = Inr out"
  shows "map oc_chunk (to_chunks out) = drop (unat off) (output_log i s)"
    "to_next_offset out = off + of_nat (length (to_chunks out))"
  using assms by (auto simp: get_output_def output_log_def Let_def chunks_of_enumerate simp del: map_map split: option.splits)

text \<open>What the buffer holds once the log was \<open>xs\<close>, reading from offset \<open>n\<close>.\<close>

definition streamed :: "u64 \<Rightarrow> string list \<Rightarrow> stream_state \<Rightarrow> bool" where
  "streamed off xs st \<longleftrightarrow> ss_buffer st = concat (drop (unat off) xs) \<and>
     unat (ss_offset st) = max (unat off) (length xs) \<and> unat (ss_chunks_seen st) = length xs - unat off"

lemma push_chunks_streamed:
  assumes "streamed off xs st" "get_output now i (ss_offset st) s = Inr out" "output_log i s = xs @ ys"
    "length (xs @ ys) < 2 ^ 64"
  shows "streamed off (xs @ ys) (push_chunks out st)"
proof -
  note g = get_output_chunks[OF assms(2)]
  let ?n = "unat (ss_offset st)"
  have n: "?n = max (unat off) (length xs)" and seen: "unat (ss_chunks_seen st) = length xs - unat off"
    using assms(1) by (simp_all add: streamed_def)
  have len: "length (to_chunks out) = length (xs @ ys) - ?n"
    using arg_cong[OF g(1), of length] assms(3) by simp
  have buf: "concat (map oc_chunk (to_chunks out)) = concat (drop (max (unat off) (length xs)) (xs @ ys))"
    using g(1) assms(3) n by simp
  have "drop (unat off) xs @ drop (max (unat off) (length xs)) (xs @ ys) = drop (unat off) (xs @ ys)"
    by (cases "unat off \<le> length xs") (simp_all add: max_def)
  then have 1: "ss_buffer (push_chunks out st) = concat (drop (unat off) (xs @ ys))"
    using assms(1) buf by (metis concat_append push_chunks_def stream_state.select_convs(1) streamed_def)
  have lt: "length (to_chunks out) < 2 ^ 64" using len assms(4) by simp
  have sum: "?n + length (to_chunks out) = max (unat off) (length (xs @ ys))" using len n by simp
  have "max (unat off) (length (xs @ ys)) < 2 ^ 64" using assms(4) unsigned_less[of off] by simp
  then have 2: "unat (ss_offset (push_chunks out st)) = max (unat off) (length (xs @ ys))"
    using g(2) lt sum by (simp add: push_chunks_def unat_word_ariths take_bit_nat_eq_self unat_of_nat)
  have "length xs - unat off + length (to_chunks out) = length (xs @ ys) - unat off" using len n by simp
  then have 3: "unat (ss_chunks_seen (push_chunks out st)) = length (xs @ ys) - unat off"
    using lt seen assms(4) by (simp add: push_chunks_def unat_word_ariths take_bit_nat_eq_self unat_of_nat)
  show ?thesis using 1 2 3 by (simp add: streamed_def)
qed

text \<open>Output is only ever appended, and the log stays below 2^64 chunks.\<close>

definition output_grows :: "task_id \<Rightarrow> (nat \<Rightarrow> mem_store) \<Rightarrow> bool" where
  "output_grows i stores \<longleftrightarrow> (\<forall>n. length (output_log i (stores n)) < 2 ^ 64 \<and>
     (\<exists>more. output_log i (stores (Suc n)) = output_log i (stores n) @ more))"

lemma output_grows_le:
  assumes "output_grows i stores" "m \<le> n"
  shows "\<exists>more. output_log i (stores n) = output_log i (stores m) @ more"
  using assms(2)
proof (induction n rule: dec_induct)
  case (step n)
  then show ?case using assms(1) unfolding output_grows_def by (metis append_assoc)
qed simp

text \<open>Whether the task has ended in a store.\<close>

definition ended_in :: "task_id \<Rightarrow> mem_store \<Rightarrow> bool" where
  "ended_in i s \<longleftrightarrow> (case hm_get (ms_tasks s) i of Some t \<Rightarrow> is_terminal t | None \<Rightarrow> False)"

lemma stream_polls_correct:
  assumes "output_grows i stores" "stream_polls now stores i k left st = Inr (st', polls, ended)" "0 < k"
    "streamed off xs st" "\<exists>more. output_log i (stores (2 * k - 1)) = xs @ more" "0 < left"
  shows "streamed off (output_log i (stores (2 * polls - 1))) st' \<and> k \<le> polls \<and> polls < k + left \<and>
    (ended \<longrightarrow> ended_in i (stores (2 * polls))) \<and> (\<not> ended \<longrightarrow> polls = k + left - 1)"
  using assms(2-6)
proof (induction left arbitrary: k st xs)
  case (Suc left)
  let ?L = "output_log i (stores (2 * k - 1))"
  obtain out where out: "get_output now i (ss_offset st) (stores (2 * k - 1)) = Inr out"
    by (simp add: get_output_def Let_def)
  obtain ys where ys: "?L = xs @ ys" using Suc.prems(4) by blast
  have sh: "length ?L < 2 ^ 64" using assms(1) by (simp add: output_grows_def)
  have st: "streamed off ?L (push_chunks out st)"
    using push_chunks_streamed[OF Suc.prems(3) out ys] sh ys by simp
  have run: "(if ended_in i (stores (2 * k)) then Inr (push_chunks out st, k, True)
      else stream_polls now stores i (Suc k) left (push_chunks out st)) = Inr (st', polls, ended)"
    using Suc.prems(1) unfolding stream_polls.simps out sum.case Let_def get_task_def ended_in_def by simp
  show ?case
  proof (cases "ended_in i (stores (2 * k))")
    case True
    then show ?thesis using run st by auto
  next
    case False
    then have go: "stream_polls now stores i (Suc k) left (push_chunks out st) = Inr (st', polls, ended)" using run by simp
    show ?thesis
    proof (cases left)
      case 0
      then show ?thesis using go st by auto
    next
      case (Suc l)
      have "\<exists>more. output_log i (stores (2 * Suc k - 1)) = ?L @ more"
        using output_grows_le[OF assms(1), of "2 * k - 1" "2 * Suc k - 1"] by simp
      then show ?thesis using Suc.IH[OF go _ st] Suc by fastforce
    qed
  qed
qed simp

text \<open>
  C19. Following a task's output: whatever other callers append meanwhile, the text the tool returns is
  exactly the log from \<open>from_offset\<close> up to the end it had at the last poll, nothing twice and nothing
  left out, the count and the next offset agree with it, so that a call from there continues without a gap;
  the tool polls at least once and at most \<open>max_polls\<close> times, clamped to 600, and says ``terminal'' only
  when it saw the task ended.
\<close>

theorem stream_exact:
  assumes "output_grows i stores" "task_arg en a = Inr i"
    "handle_stream_task_output en stores a = Inr (ToolJson r)"
  shows "let seen = output_log i (stores (2 * sr_polls_used r - 1)); start = unat (u64_arg a ''from_offset'' 0)
    in sr_output r = concat (drop start seen) \<and>
       unat (sr_next_offset r) = max start (length seen) \<and> unat (sr_chunks_seen r) = length seen - start \<and>
       1 \<le> sr_polls_used r \<and> sr_polls_used r \<le> unat (clamp 1 600 (u64_arg a ''max_polls'' 60)) \<and>
       (sr_stopped_reason r = ''terminal'' \<longrightarrow> (\<exists>n. ended_in i (stores n)))"
proof -
  let ?off = "u64_arg a ''from_offset'' 0" and ?max = "unat (clamp 1 600 (u64_arg a ''max_polls'' 60))"
  obtain t0 where t0: "hm_get (ms_tasks (stores 0)) i = Some t0"
    using assms(2,3) by (auto simp: handle_stream_task_output_def get_task_def Let_def split: option.splits)
  obtain st polls ended where run: "stream_from (me_now en) stores i ?off ?max t0 = Inr (st, polls, ended)"
    and r: "sr_output r = ss_buffer st" "sr_next_offset r = ss_offset st" "sr_chunks_seen r = ss_chunks_seen st"
      "sr_polls_used r = polls" "sr_stopped_reason r = (if ended then ''terminal'' else ''max_polls_reached'')"
    using assms(2,3) t0
    by (auto simp: handle_stream_task_output_def get_task_def Let_def split: sum.splits prod.splits option.splits)
  let ?st0 = "\<lparr> ss_buffer = [], ss_chunks_seen = 0, ss_offset = ?off \<rparr>"
  have st0: "streamed ?off [] ?st0" by (simp add: streamed_def)
  have pos: "1 \<le> ?max" by (auto simp: clamp_def word_le_nat_alt word_less_nat_alt)
  have "streamed ?off (output_log i (stores (2 * polls - 1))) st \<and> 1 \<le> polls \<and> polls \<le> ?max \<and>
    (ended \<longrightarrow> (\<exists>n. ended_in i (stores n)))"
  proof (cases "is_terminal t0")
    case True
    obtain out where out: "get_output (me_now en) i ?off (stores 1) = Inr out" by (simp add: get_output_def Let_def)
    have "streamed ?off (output_log i (stores 1)) (push_chunks out ?st0)"
      using push_chunks_streamed[OF st0, of "me_now en" i "stores 1" out "output_log i (stores 1)"] out assms(1)
      by (simp add: output_grows_def)
    moreover have "ended_in i (stores 0)" using t0 True by (simp add: ended_in_def)
    ultimately show ?thesis using run True out pos by (auto simp: stream_from_def)
  next
    case False
    then have "stream_polls (me_now en) stores i 1 ?max ?st0 = Inr (st, polls, ended)"
      using run by (simp add: stream_from_def)
    from stream_polls_correct[OF assms(1) this _ st0] pos show ?thesis by auto
  qed
  then show ?thesis using r by (auto simp: streamed_def Let_def)
qed

abbreviation growing_stores :: "nat \<Rightarrow> mem_store" where
  "growing_stores n \<equiv> empty_store\<lparr>ms_tasks := [(TaskId 1, plain_task 1)],
     ms_outputs := [(TaskId 1, if n < 3 then [''a''] else [''a'', ''b''])]\<rparr>"

theorem stream_exact_witness:
  "\<exists>r. handle_stream_task_output plain_mcp_env growing_stores (args_of [(''task_id'', ''1'')] [(''max_polls'', 2)])
      = Inr (ToolJson r) \<and> sr_output r = ''ab'' \<and> unat (sr_next_offset r) = 2"
proof -
  let ?a = "args_of [(''task_id'', ''1'')] [(''max_polls'', 2)]"
  have grows: "output_grows (TaskId 1) growing_stores"
    by (auto simp: output_grows_def output_log_def hm_get_def)
  have arg: "task_arg plain_mcp_env ?a = Inr (TaskId 1)"
    by (simp add: task_arg_def need_object_def need_str_def args_of_def plain_mcp_env_def)
  have nums: "u64_arg ?a ''from_offset'' 0 = 0" "u64_arg ?a ''max_polls'' 60 = 2" by (simp_all add: u64_arg_def args_of_def)
  have max2: "unat (clamp 1 600 2) = Suc (Suc 0)" by (simp add: clamp_def)
  have live: "get_task (TaskId 1) (growing_stores n) = Inr (Some (plain_task 1))" for n by (simp add: get_task_def hm_get_def)
  have poll: "get_output 0 (TaskId 1) x s \<noteq> Inl e" for x s e by (simp add: get_output_def Let_def)
  have "is_terminal (plain_task 1) = False" by (simp add: is_terminal_def from_request_def Let_def)
  then have run: "\<exists>st. stream_from 0 growing_stores (TaskId 1) 0 (Suc (Suc 0)) (plain_task 1) = Inr (st, 2, False)"
    unfolding stream_from_def Let_def stream_polls.simps live using poll
    by (auto simp: Let_def split: sum.splits)
  have now: "me_now plain_mcp_env = 0" by (simp add: plain_mcp_env_def)
  obtain r where r: "handle_stream_task_output plain_mcp_env growing_stores ?a = Inr (ToolJson r)" "sr_polls_used r = 2"
    using run unfolding handle_stream_task_output_def arg sum.case Let_def nums max2 live option.case now by auto
  show ?thesis using stream_exact[OF grows arg r(1)] r
    by (simp add: output_log_def hm_get_def nums Let_def)
qed

end
