(* ===== verification/Mcp_Agents.thy ===== *)
theory Mcp_Agents
  imports Mcp_Tasks
begin

text \<open>
  The project and agent tools of the MCP server (\<open>crates/fleet-mcp/src/handlers.rs\<close> 1107-1746).
  \<open>others n\<close> is what other callers do to the store right before the tool's \<open>n\<close>-th store call, \<open>clk n\<close> the
  \<open>n\<close>-th reading of the clock. The fence is the one the lease status at the call's entry gives.
\<close>

definition put_store :: "mem_store \<Rightarrow> plant \<Rightarrow> plant" where
  "put_store s p = p\<lparr>pl_fleet := (pl_fleet p)\<lparr>fl_store := s\<rparr>\<rparr>"

lemma pl_store_put [simp]: "pl_store (put_store s p) = s"
  by (simp add: put_store_def)

lemma pl_store_audit [simp]: "pl_store (plant_audit e p) = pl_store p"
  by (simp add: plant_audit_def)

abbreviation tool_fence :: "mcp_env \<Rightarrow> control_fence option" where
  "tool_fence en \<equiv> fence_at (me_dispatch en) AtEntry"

text \<open>A conflict is the caller's mistake, any other store error the server's.\<close>

fun create_failed :: "store_error \<Rightarrow> rpc_error" where
  "create_failed (Conflict m) = InvalidParams m"
| "create_failed e = store_failed e"

text \<open>A required name: trimmed and not empty.\<close>

definition name_arg :: "tool_args \<Rightarrow> (rpc_error, string) result" where
  "name_arg a =
     (case need_str a ''name'' of
        Inl e \<Rightarrow> Inl e
      | Inr raw \<Rightarrow> if trim raw = [] then Inl (InvalidParams (plain_text ''name must not be empty'')) else Inr (trim raw))"

definition description_arg :: "tool_args \<Rightarrow> string option" where
  "description_arg a = nonempty (map_option trim (ta_str a ''description''))"

section \<open>Projects\<close>

definition handle_create_project ::
    "mcp_env \<Rightarrow> project_id \<Rightarrow> tool_ctx \<Rightarrow> tool_args \<Rightarrow> plant \<Rightarrow> (rpc_error, project tool_reply) result \<times> plant" where
  "handle_create_project en new_id c a p =
     (case need_object a of Inl e \<Rightarrow> (Inl e, p) | Inr _ \<Rightarrow>
     (case name_arg a of
        Inl e \<Rightarrow> (Inl e, p)
      | Inr name \<Rightarrow>
          let x = (new_project new_id (me_now en) name)\<lparr>pr_description := description_arg a\<rparr>
          in (case create_project x (pl_store p) of
                (Inl e, s) \<Rightarrow> (Inl (create_failed e), put_store s p)
              | (Inr _, s) \<Rightarrow> (Inr (ToolJson x),
                  plant_audit (tool_event (me_now en) c ''project.create'' (Some new_id) ''project''
                    (ie_show_project (me_ids en) new_id)) (put_store s p)))))"

definition usize_of :: "tool_args \<Rightarrow> string \<Rightarrow> nat \<Rightarrow> nat" where
  "usize_of a k d = (case ta_u64 a k of Some n \<Rightarrow> unat n | None \<Rightarrow> d)"

definition handle_list_projects :: "tool_args \<Rightarrow> plant \<Rightarrow> (rpc_error, project list tool_reply) result" where
  "handle_list_projects a p =
     (case list_projects \<lparr> pf_status = None, pf_limit = usize_of a ''limit'' 100, pf_offset = usize_of a ''offset'' 0 \<rparr> (pl_store p) of
        Inl e \<Rightarrow> Inl (store_failed e)
      | Inr ps \<Rightarrow> Inr (ToolJson ps))"

record archived_project =
  ap_project :: project
  ap_blocked_by :: "string list option"

fun archive_action :: "project_status \<Rightarrow> string option" where
  "archive_action PrDraining = Some ''project.archive_requested''"
| "archive_action PrArchived = Some ''project.archived''"
| "archive_action PrActive = None"

definition archive_audits :: "mcp_env \<Rightarrow> tool_ctx \<Rightarrow> project_id \<Rightarrow> project_status list \<Rightarrow> plant \<Rightarrow> plant" where
  "archive_audits en c i told p =
     fold (\<lambda>act. plant_audit (tool_event (me_now en) c act (Some i) ''project'' (ie_show_project (me_ids en) i)))
       (List.map_filter archive_action told) p"

text \<open>The transitions are audited before the progress is looked at; a store error leaves them out.\<close>

definition handle_delete_project ::
    "mcp_env \<Rightarrow> (nat \<Rightarrow> datetime) \<Rightarrow> (nat \<Rightarrow> mem_store \<Rightarrow> mem_store) \<Rightarrow> tool_ctx \<Rightarrow> tool_args \<Rightarrow> plant
     \<Rightarrow> (rpc_error, archived_project tool_reply) result \<times> plant" where
  "handle_delete_project en clk others c a p =
     (case need_object a of Inl e \<Rightarrow> (Inl e, p) | Inr _ \<Rightarrow>
     (case need_id (ie_parse_project (me_ids en)) a ''project_id'' of
        Inl e \<Rightarrow> (Inl e, p)
      | Inr i \<Rightarrow>
          let s = others 0 (pl_store p)
          in (case get_project i s of
                Inl e \<Rightarrow> (Inl (store_failed e), put_store s p)
              | Inr None \<Rightarrow> (Inr (ToolError (plain_text ''project not found'')), put_store s p)
              | Inr (Some x) \<Rightarrow>
                  (case advance_project_archive (archive_project_if_drained_amid (\<lambda>n. others (n + 6))) clk (\<lambda>n. others (Suc n)) (tool_fence en) x s of
                     (Inl e, x, told, s) \<Rightarrow> (Inl (store_failed e), put_store s p)
                   | (Inr progress, x, told, s) \<Rightarrow>
                       let p = archive_audits en c (pr_id x) told (put_store s p)
                       in (case progress of
                             ArchiveFenced \<Rightarrow> (Inl (InternalRpc (plain_text ''control-plane lease lost: this instance no longer owns archive'')), p)
                           | StillDraining b \<Rightarrow> (Inr (ToolJson \<lparr> ap_project = x, ap_blocked_by = Some (blocker_labels b) \<rparr>), p)
                           | ArchivedNow \<Rightarrow> (Inr (ToolJson \<lparr> ap_project = x, ap_blocked_by = None \<rparr>), p))))))"

section \<open>Agents\<close>

text \<open>The row shown with the three derived fields.\<close>

record agent_json =
  aj_agent :: agent
  aj_command_delivered :: bool
  aj_start_pending :: bool

definition agent_json_of :: "agent \<Rightarrow> agent_json" where
  "agent_json_of a = \<lparr> aj_agent = a, aj_command_delivered = command_delivered a, aj_start_pending = start_pending a \<rparr>"

definition agent_event :: "mcp_env \<Rightarrow> tool_ctx \<Rightarrow> string \<Rightarrow> agent \<Rightarrow> audit_event" where
  "agent_event en c action a = tool_event (me_now en) c action (Some (ag_project_id a)) ''agent'' (me_show_agent en (ag_id a))"

fun agent_admission_failed :: "mcp_env \<Rightarrow> project_admission_error \<Rightarrow> rpc_error" where
  "agent_admission_failed en (PaStore e) = store_failed e"
| "agent_admission_failed en e = admission_failed (me_ids en) [] e"

text \<open>Three store calls and the placement's own two.\<close>

definition handle_create_agent ::
    "mcp_env \<Rightarrow> (nat \<Rightarrow> mem_store \<Rightarrow> mem_store) \<Rightarrow> agent_id \<Rightarrow> tool_ctx \<Rightarrow> tool_args \<Rightarrow> plant
     \<Rightarrow> (rpc_error, agent_json tool_reply) result \<times> plant" where
  "handle_create_agent en others new_id c a p =
     (case need_object a of Inl e \<Rightarrow> (Inl e, p) | Inr _ \<Rightarrow>
     (case need_id (ie_parse_project (me_ids en)) a ''project_id'' of
        Inl e \<Rightarrow> (Inl e, p)
      | Inr i \<Rightarrow>
     (case name_arg a of
        Inl e \<Rightarrow> (Inl e, p)
      | Inr name \<Rightarrow>
          let s = others 0 (pl_store p)
          in (case ensure_project_accepts_new_agents i s of
                Inl e \<Rightarrow> (Inl (agent_admission_failed en e), put_store s p)
              | Inr _ \<Rightarrow>
                  let x = (new_agent new_id (me_now en) i name)\<lparr>ag_description := description_arg a\<rparr>;
                      s = others 1 s;
                      x = (case place_on_create (me_now en) s of Some (w, t) \<Rightarrow> with_placement w t x | None \<Rightarrow> x)
                  in (case create_agent x (others 2 s) of
                        (Inl e, s) \<Rightarrow> (Inl (create_failed e), put_store s p)
                      | (Inr placed, s) \<Rightarrow>
                          let x = (if placed \<noteq> ag_worker_id x then without_placement x else x)
                          in (Inr (ToolJson (agent_json_of x)), plant_audit (agent_event en c ''agent.create'' x) (put_store s p)))))))"

definition no_such_agent :: "agent_id \<Rightarrow> rpc_error" where
  "no_such_agent i = InvalidParams (Msg ''no such agent: {agent_id}'' [ArgAgent i])"

fun claim_refused :: "agent_id \<Rightarrow> worker_id \<Rightarrow> slot_claim \<Rightarrow> rpc_error option" where
  "claim_refused i w Claimed = None"
| "claim_refused i w CapReached = Some (InvalidParams (Msg ''worker {worker_id} is at its agent process cap'' [ArgWorker w]))"
| "claim_refused i w SlotNoSuchAgent = Some (no_such_agent i)"
| "claim_refused i w SlotNoSuchWorker = Some (InvalidParams (Msg ''no such worker for agent placement: {worker_id}'' [ArgWorker w]))"
| "claim_refused i w ObservedRunning = Some (InvalidParams
     (Msg ''agent {agent_id} is reported running on its current worker; stop it before moving it to another worker'' [ArgAgent i]))"
| "claim_refused i w SlotFenced = Some (InternalRpc (plain_text ''this instance is no longer the control-plane leader''))"

text \<open>The worker asked for, or the one the placement rule chooses.\<close>

definition place_target :: "mcp_env \<Rightarrow> tool_args \<Rightarrow> mem_store \<Rightarrow> (rpc_error, worker_id) result" where
  "place_target en a s =
     (case ta_str a ''worker_id'' of
        Some raw \<Rightarrow> (case me_parse_worker en raw of Some w \<Rightarrow> Inr w | None \<Rightarrow> Inl (InvalidParams (plain_text ''worker_id must be a UUID'')))
      | None \<Rightarrow> (case choose_worker s of Inr w \<Rightarrow> Inr w | Inl e \<Rightarrow> Inl (InvalidParams (placement_error_text e))))"

definition handle_place_agent ::
    "mcp_env \<Rightarrow> (nat \<Rightarrow> datetime) \<Rightarrow> (nat \<Rightarrow> mem_store \<Rightarrow> mem_store) \<Rightarrow> tool_ctx \<Rightarrow> tool_args \<Rightarrow> plant
     \<Rightarrow> (rpc_error, agent_json tool_reply) result \<times> plant" where
  "handle_place_agent en clk others c a p =
     (case need_object a of Inl e \<Rightarrow> (Inl e, p) | Inr _ \<Rightarrow>
     (case need_id (me_parse_agent en) a ''agent_id'' of
        Inl e \<Rightarrow> (Inl e, p)
      | Inr i \<Rightarrow>
          let s = others 0 (pl_store p)
          in (case get_agent i s of
                Inl e \<Rightarrow> (Inl (store_failed e), put_store s p)
              | Inr None \<Rightarrow> (Inl (no_such_agent i), put_store s p)
              | Inr (Some _) \<Rightarrow>
                  let s = others 1 s
                  in (case place_target en a s of
                        Inl e \<Rightarrow> (Inl e, put_store s p)
                      | Inr w \<Rightarrow>
                          (case assign_agent_worker (clk 0) (clk 1) i w (tool_fence en) (others 2 s) of
                             (Inl e, s) \<Rightarrow> (Inl (store_failed e), put_store s p)
                           | (Inr claim, s) \<Rightarrow>
                               (case claim_refused i w claim of
                                  Some e \<Rightarrow> (Inl e, put_store s p)
                                | None \<Rightarrow>
                                    let s = others 3 s
                                    in (case get_agent i s of
                                          Inl e \<Rightarrow> (Inl (store_failed e), put_store s p)
                                        | Inr None \<Rightarrow> (Inl (InternalRpc (plain_text ''agent vanished during placement'')), put_store s p)
                                        | Inr (Some x) \<Rightarrow> (Inr (ToolJson (agent_json_of x)),
                                            plant_audit (agent_event en c ''agent.assign'' x) (put_store s p)))))))))"

definition handle_list_agents :: "mcp_env \<Rightarrow> tool_args \<Rightarrow> plant \<Rightarrow> (rpc_error, agent_json list tool_reply) result" where
  "handle_list_agents en a p =
     (case opt_id (ie_parse_project (me_ids en)) a ''project_id'' of
        Inl e \<Rightarrow> Inl e
      | Inr pid \<Rightarrow>
          (case opt_id (me_parse_worker en) a ''worker_id'' of
             Inl e \<Rightarrow> Inl e
           | Inr w \<Rightarrow>
               (case list_agents (agent_filter.make pid None w (usize_of a ''limit'' 100) (usize_of a ''offset'' 0)) (pl_store p) of
                  Inl e \<Rightarrow> Inl (store_failed e)
                | Inr as \<Rightarrow> Inr (ToolJson (map agent_json_of as)))))"

definition handle_start_agent ::
    "mcp_env \<Rightarrow> (nat \<Rightarrow> datetime) \<Rightarrow> (nat \<Rightarrow> mem_store \<Rightarrow> mem_store) \<Rightarrow> tool_ctx \<Rightarrow> tool_args \<Rightarrow> plant
     \<Rightarrow> (rpc_error, agent_json tool_reply) result \<times> plant" where
  "handle_start_agent en clk others c a p =
     (case need_object a of Inl e \<Rightarrow> (Inl e, p) | Inr _ \<Rightarrow>
     (case need_id (me_parse_agent en) a ''agent_id'' of
        Inl e \<Rightarrow> (Inl e, p)
      | Inr i \<Rightarrow>
          let s = others 0 (pl_store p)
          in (case get_agent i s of
                Inl e \<Rightarrow> (Inl (store_failed e), put_store s p)
              | Inr None \<Rightarrow> (Inr (ToolError (plain_text ''agent not found'')), put_store s p)
              | Inr (Some x) \<Rightarrow>
                  if ag_status x = AgStopped
                  then (Inr (ToolError (Msg ''agent {agent_id} is stopped and cannot be started'' [ArgAgent i])), put_store s p)
                  else if ag_desired_status x = DRunning then (Inr (ToolJson (agent_json_of x)), put_store s p)
                  else (case set_agent_desired_status (clk 0) (clk 1) i DRunning (tool_fence en) (others 1 s) of
                      (Inl e, s) \<Rightarrow> (Inl (store_failed e), put_store s p)
                    | (Inr CmdNoSuchAgent, s) \<Rightarrow> (Inl (no_such_agent i), put_store s p)
                    | (Inr CmdFenced, s) \<Rightarrow>
                        (Inl (InternalRpc (plain_text ''this instance is no longer the control-plane leader'')), put_store s p)
                    | (Inr Issued, s) \<Rightarrow>
                        let s = others 2 s
                        in (case get_agent i s of
                              Inl e \<Rightarrow> (Inl (store_failed e), put_store s p)
                            | Inr None \<Rightarrow> (Inl (InternalRpc (plain_text ''agent disappeared during start'')), put_store s p)
                            | Inr (Some x) \<Rightarrow> (Inr (ToolJson (agent_json_of x)),
                                plant_audit (agent_event en c ''agent.start'' x) (put_store s p)))))))"

definition handle_stop_agent ::
    "mcp_env \<Rightarrow> (nat \<Rightarrow> datetime) \<Rightarrow> (nat \<Rightarrow> mem_store \<Rightarrow> mem_store) \<Rightarrow> tool_ctx \<Rightarrow> tool_args \<Rightarrow> plant
     \<Rightarrow> (rpc_error, agent_json tool_reply) result \<times> plant" where
  "handle_stop_agent en clk others c a p =
     (case need_object a of Inl e \<Rightarrow> (Inl e, p) | Inr _ \<Rightarrow>
     (case need_id (me_parse_agent en) a ''agent_id'' of
        Inl e \<Rightarrow> (Inl e, p)
      | Inr i \<Rightarrow>
          let s = others 0 (pl_store p)
          in (case get_agent i s of
                Inl e \<Rightarrow> (Inl (store_failed e), put_store s p)
              | Inr None \<Rightarrow> (Inr (ToolError (plain_text ''agent not found'')), put_store s p)
              | Inr (Some x) \<Rightarrow>
                  if ag_status x = AgStopped then (Inr (ToolJson (agent_json_of x)), put_store s p)
                  else (case update_agent_status (clk 0) (clk 1) (ag_id x) AgStopped (others 1 s) of
                      (Inl e, s) \<Rightarrow> (Inl (store_failed e), put_store s p)
                    | (Inr _, s) \<Rightarrow>
                        let s = others 2 s
                        in (case get_agent (ag_id x) s of
                              Inl e \<Rightarrow> (Inl (store_failed e), put_store s p)
                            | Inr None \<Rightarrow> (Inl (InternalRpc (plain_text ''agent disappeared during stop'')), put_store s p)
                            | Inr (Some x) \<Rightarrow> (Inr (ToolJson (agent_json_of x)),
                                plant_audit (agent_event en c ''agent.stop'' x) (put_store s p)))))))"

section \<open>Starting checks first and writes later\<close>

text \<open>
  A stopped agent is terminal and the tool refuses to start one. The write of the desired state does not look
  at the status again: an agent stopped between the tool's read and its write ends up stopped and wanted
  running, and its worker is told to run it.
\<close>

lemma start_wants_stopped:
  fixes x :: agent
  assumes "hm_get (ms_agents s) i = Some x" "ag_id x = i" "ag_status x = AgReady" "ag_desired_status x = DStopped"
    "ag_worker_id x = Some w" "need_object a = Inr ()" "need_id (me_parse_agent en) a ''agent_id'' = Inr i"
    "pl_store p = s" "control_fence_holds s (tool_fence en)"
    "ag_last_acked_generation x < i64_succ (ag_command_generation x)"
  defines "others \<equiv> (\<lambda>n. if n = 1 then \<lambda>s. snd (update_agent_status 0 0 i AgStopped s) else id)"
  shows "\<exists>p' y k. handle_start_agent en clk others c a p = (Inr (ToolJson (agent_json_of y)), p') \<and>
    hm_get (ms_agents (pl_store p')) i = Some y \<and> ag_status y = AgStopped \<and> ag_desired_status y = DRunning \<and>
    list_agent_commands w (pl_store p') = Inr k \<and> \<lparr> cmd_agent_id = i, cmd_desired_status = DRunning, cmd_generation = ag_command_generation y \<rparr> \<in> set k"
proof -
  let ?s1 = "snd (update_agent_status 0 0 i AgStopped s)"
  let ?y = "command (clk 0) (clk 1) DRunning (tool_fence en) (set_status 0 0 AgStopped x)"
  let ?s2 = "?s1\<lparr>ms_agents := hm_adjust i (command (clk 0) (clk 1) DRunning (tool_fence en)) (ms_agents ?s1)\<rparr>"
  have fence: "control_fence_holds ?s1 f = control_fence_holds s f" for f
    by (simp add: update_agent_status_def control_fence_holds_def lease_epoch_def split: option.splits)
  have s1: "hm_get (ms_agents ?s1) i = Some (set_status 0 0 AgStopped x)"
    using assms(1) by (simp add: update_agent_status_def)
  have s2: "hm_get (ms_agents ?s2) i = Some ?y" using s1 by simp
  have w: "set_agent_desired_status (clk 0) (clk 1) i DRunning (tool_fence en) ?s1 = (Inr Issued, ?s2)"
    using s1 fence assms(9) by (simp add: set_agent_desired_status_def)
  have y: "ag_status ?y = AgStopped" "ag_desired_status ?y = DRunning" "ag_worker_id ?y = Some w" "ag_id ?y = i"
    using assms(2,5) by (simp_all add: command_def set_status_def Let_def)
  have run: "handle_start_agent en clk others c a p = (Inr (ToolJson (agent_json_of ?y)),
      plant_audit (agent_event en c ''agent.start'' ?y) (put_store ?s2 p))"
    using assms(1-8) w s1 by (simp add: handle_start_agent_def get_agent_def others_def)
  have listed: "listed_for w ?y" using assms(3,4,5,10) by (simp add: listed_for_def command_def set_status_def Let_def)
  have "?y \<in> set (hm_values (ms_agents ?s2))" using s2 by (rule hm_get_values)
  then have "\<lparr> cmd_agent_id = i, cmd_desired_status = DRunning, cmd_generation = ag_command_generation ?y \<rparr> \<in>
      set (map (\<lambda>a. \<lparr> cmd_agent_id = ag_id a, cmd_desired_status = ag_desired_status a, cmd_generation = ag_command_generation a \<rparr>)
        (sort_key ag_created_at (filter (listed_for w) (hm_values (ms_agents ?s2)))))"
    using listed y by (auto intro!: image_eqI[of _ _ ?y])
  then show ?thesis using run s2 y by (auto simp: list_agent_commands_def)
qed

end
