(* ===== verification/Mcp_Server.thy ===== *)
theory Mcp_Server
  imports Mcp_Fleet Mcp_Agents Workspace_Path
begin

text \<open>
  The MCP server: what a launcher may do, and how a request line becomes a tool call
  (\<open>crates/fleet-mcp/src/server.rs\<close>, \<open>dispatch_tool\<close> of \<open>handlers.rs\<close>). The environment variables are
  arguments. A \<open>world\<close> gathers what the tools read from outside. A call that waits for ever is \<open>None\<close>.
\<close>

section \<open>Authorization of the launcher\<close>

datatype launcher_error = CapabilitiesRequired | UnknownCapability string | NoCapability

record mcp_authorization =
  mu_capabilities :: "permission_kind list"
  mu_principal :: "string option"

fun add_capabilities :: "string list \<Rightarrow> permission_kind list \<Rightarrow> (launcher_error, permission_kind list) result" where
  "add_capabilities [] caps = Inr caps"
| "add_capabilities (v # vs) caps =
     (case List.find (\<lambda>k. permission_as_str k = v) all_permissions of
        None \<Rightarrow> Inl (UnknownCapability v)
      | Some k \<Rightarrow> add_capabilities vs (if k \<in> set caps then caps else caps @ [k]))"

definition principal_from_environment :: "string option \<Rightarrow> string option" where
  "principal_from_environment raw =
     (case raw of None \<Rightarrow> None | Some s \<Rightarrow> if trim s = [] then None else Some (''mcp:'' @ trim s))"

text \<open>\<open>FLEET_MCP_CAPABILITIES\<close> and \<open>FLEET_MCP_PRINCIPAL\<close>.\<close>

definition from_environment :: "string option \<Rightarrow> string option \<Rightarrow> (launcher_error, mcp_authorization) result" where
  "from_environment raw who =
     (case raw of
        None \<Rightarrow> Inl CapabilitiesRequired
      | Some s \<Rightarrow>
          (case add_capabilities (filter (\<lambda>v. v \<noteq> []) (map trim (split_on CHR '','' s))) [] of
             Inl e \<Rightarrow> Inl e
           | Inr caps \<Rightarrow>
               if caps = [] then Inl NoCapability
               else Inr \<lparr> mu_capabilities = caps, mu_principal = principal_from_environment who \<rparr>))"

definition created_by_of :: "mcp_authorization \<Rightarrow> string" where
  "created_by_of au = (case mu_principal au of Some p \<Rightarrow> p | None \<Rightarrow> ''mcp'')"

definition permits_tool :: "mcp_authorization \<Rightarrow> tool \<Rightarrow> bool" where
  "permits_tool au t =
     (if t = TTransitionIssue then
        list_ex (\<lambda>x. required_capability_for_transition x \<in> set (mu_capabilities au)) all_issue_statuses
      else case required_permission t of Some k \<Rightarrow> k \<in> set (mu_capabilities au) | None \<Rightarrow> False)"

text \<open>\<open>new_with_authorization\<close>: the context of every call.\<close>

definition server_ctx :: "mcp_authorization \<Rightarrow> tool_ctx" where
  "server_ctx au = \<lparr> tc_capabilities = mu_capabilities au, tc_created_by = created_by_of au \<rparr>"

section \<open>Running a tool\<close>

record world =
  wd_env :: mcp_env
  wd_clk :: "nat \<Rightarrow> datetime"
  wd_others :: "nat \<Rightarrow> mem_store \<Rightarrow> mem_store"
  wd_issue_others :: "nat \<Rightarrow> tracker \<Rightarrow> tracker"
  wd_stores :: "nat \<Rightarrow> mem_store"
  wd_polls :: "nat \<Rightarrow> instant"
  wd_start :: instant
  wd_fresh :: uuid

datatype tool_value = VSubmitted submitted | VTask task_summary | VTasks "task_summary list" | VCancelled task_id
  | VStream stream_reply | VCollection collection | VWorkers "worker_summary list" | VHosts "host list"
  | VReset breaker_reset | VTokens "token_summary list" | VRevoked string | VProject project | VProjects "project list"
  | VArchived archived_project | VAgent agent_json | VAgents "agent_json list" | VIssue issue_summary
  | VIssues "issue_summary list" | VComment issue_comment

abbreviation valued :: "('v \<Rightarrow> tool_value) \<Rightarrow> (rpc_error, 'v tool_reply) result \<Rightarrow> (rpc_error, tool_value tool_reply) result" where
  "valued f \<equiv> map_sum id (map_tool_reply f)"

text \<open>A tool that reads and a tool that writes.\<close>

abbreviation reading :: "plant \<Rightarrow> 'r \<Rightarrow> ('r \<times> plant) option" where
  "reading p r \<equiv> Some (r, p)"

abbreviation writing :: "('r \<Rightarrow> 's) \<Rightarrow> 'r \<times> plant \<Rightarrow> ('s \<times> plant) option" where
  "writing f rp \<equiv> Some (apfst f rp)"

fun run_tool :: "world \<Rightarrow> tool_ctx \<Rightarrow> tool \<Rightarrow> tool_args \<Rightarrow> plant \<Rightarrow> ((rpc_error, tool_value tool_reply) result \<times> plant) option" where
  "run_tool w c TDispatchTask a p = writing (valued VSubmitted) (handle_dispatch_task (wd_env w) (TaskId (wd_fresh w)) c a p)"
| "run_tool w c TGetTaskStatus a p = reading p (valued VTask (handle_get_task_status (wd_env w) a p))"
| "run_tool w c TListWorkers a p = reading p (valued VWorkers (handle_list_workers a p))"
| "run_tool w c TListTasks a p = reading p (valued VTasks (handle_list_tasks a p))"
| "run_tool w c TCancelTask a p = writing (valued VCancelled) (handle_cancel_task (wd_env w) c a p)"
| "run_tool w c TWaitForTask a p =
     map_option (\<lambda>r. (valued VTask r, p)) (handle_wait_for_task (wd_env w) (wd_stores w) (wd_polls w) (wd_start w) a)"
| "run_tool w c TStreamTaskOutput a p = reading p (valued VStream (handle_stream_task_output (wd_env w) (wd_stores w) a))"
| "run_tool w c TCollectResults a p = reading p (valued VCollection (handle_collect_results (wd_env w) (wd_stores w) a))"
| "run_tool w c TListHosts a p = reading p (valued VHosts (handle_list_hosts a p))"
| "run_tool w c TResetWorkerBreaker a p = writing (valued VReset) (handle_reset_worker_breaker (wd_env w) c a p)"
| "run_tool w c TListBootstrapTokens a p = reading p (valued VTokens (handle_list_bootstrap_tokens (wd_env w) p))"
| "run_tool w c TRevokeBootstrapToken a p = writing (valued VRevoked) (handle_revoke_bootstrap_token (wd_env w) c a p)"
| "run_tool w c TCreateProject a p = writing (valued VProject) (handle_create_project (wd_env w) (ProjectId (wd_fresh w)) c a p)"
| "run_tool w c TListProjects a p = reading p (valued VProjects (handle_list_projects a p))"
| "run_tool w c TDeleteProject a p = writing (valued VArchived) (handle_delete_project (wd_env w) (wd_clk w) (wd_others w) c a p)"
| "run_tool w c TCreateAgent a p = writing (valued VAgent) (handle_create_agent (wd_env w) (wd_others w) (AgentId (wd_fresh w)) c a p)"
| "run_tool w c TStartAgent a p = writing (valued VAgent) (handle_start_agent (wd_env w) (wd_clk w) (wd_others w) c a p)"
| "run_tool w c TPlaceAgent a p = writing (valued VAgent) (handle_place_agent (wd_env w) (wd_clk w) (wd_others w) c a p)"
| "run_tool w c TListAgents a p = reading p (valued VAgents (handle_list_agents (wd_env w) a p))"
| "run_tool w c TStopAgent a p = writing (valued VAgent) (handle_stop_agent (wd_env w) (wd_clk w) (wd_others w) c a p)"
| "run_tool w c TListIssues a p = reading p (valued VIssues (handle_list_issues (me_ids (wd_env w)) a (tracker_of p)))"
| "run_tool w c TCreateIssue a p = writing (valued VIssue)
     (on_tracker (handle_create_issue (me_ids (wd_env w)) (wd_clk w) (wd_issue_others w) (IssueId (wd_fresh w)) c a) p)"
| "run_tool w c TTransitionIssue a p = writing (valued VIssue)
     (on_tracker (handle_transition_issue (me_ids (wd_env w)) (wd_clk w) (wd_issue_others w) c a) p)"
| "run_tool w c TCommentIssue a p = writing (valued VComment)
     (on_tracker (handle_comment_issue (me_ids (wd_env w)) (wd_clk w) (wd_issue_others w) (wd_fresh w) c a) p)"

definition dispatch_tool ::
    "world \<Rightarrow> tool_ctx \<Rightarrow> string \<Rightarrow> tool_args \<Rightarrow> plant \<Rightarrow> ((rpc_error, tool_value tool_reply) result \<times> plant) option" where
  "dispatch_tool w c name a p =
     (case tool_of name of Some t \<Rightarrow> run_tool w c t a p | None \<Rightarrow> Some (Inl (MethodNotFound name), p))"

section \<open>Requests\<close>

text \<open>\<open>params\<close> as the calls read it; absent arguments are those of \<open>null\<close>.\<close>

record call_params =
  cp_is_object :: bool
  cp_name :: "string option"
  cp_arguments :: tool_args

record rpc_request =
  jr_version :: string
  jr_id :: "string option"
  jr_method :: string
  jr_params :: call_params

definition expects_response :: "rpc_request \<Rightarrow> bool" where
  "expects_response rq = (jr_id rq \<noteq> None)"

datatype rpc_value = RvInitialize | RvNull | RvTools "tool list" | RvTool "tool_value tool_reply"

datatype rpc_response = Response "string option" "(rpc_error, rpc_value) result"

definition not_permitted :: rpc_error where
  "not_permitted = InvalidRequestRpc (plain_text ''tool is not permitted for this MCP launcher'')"

definition handle_tools_call ::
    "world \<Rightarrow> mcp_authorization \<Rightarrow> call_params \<Rightarrow> plant \<Rightarrow> ((rpc_error, rpc_value) result \<times> plant) option" where
  "handle_tools_call w au ps p =
     (if \<not> cp_is_object ps then Some (Inl (InvalidParams (plain_text ''tools/call params must be an object'')), p)
      else case cp_name ps of
        None \<Rightarrow> Some (Inl (InvalidParams (plain_text ''missing field: name'')), p)
      | Some name \<Rightarrow>
          if (case tool_of name of Some t \<Rightarrow> \<not> permits_tool au t | None \<Rightarrow> False) then Some (Inl not_permitted, p)
          else map_option (apfst (map_sum id RvTool)) (dispatch_tool w (server_ctx au) name (cp_arguments ps) p))"

definition dispatch_method ::
    "world \<Rightarrow> mcp_authorization \<Rightarrow> rpc_request \<Rightarrow> plant \<Rightarrow> ((rpc_error, rpc_value) result \<times> plant) option" where
  "dispatch_method w au rq p =
     (if jr_method rq = ''initialize'' then Some (Inr RvInitialize, p)
      else if jr_method rq = ''initialized'' \<or> jr_method rq = ''notifications/initialized'' then Some (Inr RvNull, p)
      else if jr_method rq = ''tools/list'' then Some (Inr (RvTools (filter (permits_tool au) all_tools)), p)
      else if jr_method rq = ''tools/call'' then handle_tools_call w au (jr_params rq) p
      else if jr_method rq = ''ping'' then Some (Inr RvNull, p)
      else Some (Inl (MethodNotFound (jr_method rq)), p))"

definition handle_request ::
    "world \<Rightarrow> mcp_authorization \<Rightarrow> rpc_request \<Rightarrow> plant \<Rightarrow> (rpc_response option \<times> plant) option" where
  "handle_request w au rq p =
     (if jr_version rq \<noteq> ''2.0'' then
        Some (if expects_response rq then Some (Response (jr_id rq) (Inl (InvalidRequestRpc
            (Msg ''unsupported jsonrpc version: '{}' (expected '2.0')'' [ArgStr (jr_version rq)])))) else None, p)
      else case dispatch_method w au rq p of
        None \<Rightarrow> None
      | Some (r, p) \<Rightarrow> Some (if expects_response rq then Some (Response (jr_id rq) r) else None, p))"

section \<open>The gate\<close>

text \<open>The tools that change something.\<close>

fun writes :: "tool \<Rightarrow> bool" where
  "writes TDispatchTask = True"
| "writes TCancelTask = True"
| "writes TResetWorkerBreaker = True"
| "writes TRevokeBootstrapToken = True"
| "writes TCreateProject = True"
| "writes TDeleteProject = True"
| "writes TCreateAgent = True"
| "writes TStopAgent = True"
| "writes TStartAgent = True"
| "writes TPlaceAgent = True"
| "writes TCreateIssue = True"
| "writes TTransitionIssue = True"
| "writes TCommentIssue = True"
| "writes _ = False"

lemma tool_of_name [simp]: "tool_of (tool_name t) = Some t"
  by (simp add: tool_of_iff)

lemma readers_keep: "run_tool w c t a p = Some (r, p') \<Longrightarrow> \<not> writes t \<Longrightarrow> p' = p"
  by (cases t) auto

lemma tools_call_step:
  assumes "handle_tools_call w au ps p = Some (r, p')" "p' \<noteq> p"
  obtains t where "cp_name ps = Some (tool_name t)" "writes t" "permits_tool au t"
    "\<exists>reply. run_tool w (server_ctx au) t (cp_arguments ps) p = Some (reply, p')"
proof -
  from assms obtain name where name: "cp_name ps = Some name" "cp_is_object ps"
    by (auto simp: handle_tools_call_def split: if_splits option.splits)
  with assms obtain t where t: "tool_of name = Some t" "permits_tool au t"
    by (auto simp: handle_tools_call_def dispatch_tool_def split: if_splits option.splits)
  then obtain reply where run: "run_tool w (server_ctx au) t (cp_arguments ps) p = Some (reply, p')"
    using assms(1) name by (auto simp: handle_tools_call_def dispatch_tool_def)
  have "tool_name t = name" using t(1) by (simp add: tool_of_iff)
  then show thesis using that[of t] readers_keep[OF run] assms(2) name(1) t(2) run by blast
qed

text \<open>The capability behind each tool that writes.\<close>

lemma permits_needs:
  "permits_tool au t \<Longrightarrow> t \<noteq> TTransitionIssue \<Longrightarrow> \<exists>k. required_permission t = Some k \<and> k \<in> set (mu_capabilities au)"
  by (simp add: permits_tool_def split: option.splits)

text \<open>
  C31. The only request that changes anything is a \<open>tools/call\<close> of protocol version 2.0 naming a tool that
  writes and whose capability the launcher was given (for a transition, the capability of some status);
  a call of a known tool without its capability is answered with error -32600 and changes nothing, and
  \<open>tools/list\<close> shows exactly the tools that are not refused in this way.
\<close>

theorem mcp_gate:
  assumes "handle_request w au rq p = Some (resp, p')"
  shows "(p' \<noteq> p \<longrightarrow> (\<exists>t. jr_version rq = ''2.0'' \<and> jr_method rq = ''tools/call'' \<and>
        cp_name (jr_params rq) = Some (tool_name t) \<and> writes t \<and> permits_tool au t)) \<and>
    (\<forall>t i. jr_version rq = ''2.0'' \<and> jr_id rq = Some i \<and> jr_method rq = ''tools/call'' \<and> cp_is_object (jr_params rq) \<and>
        cp_name (jr_params rq) = Some (tool_name t) \<and> \<not> permits_tool au t \<longrightarrow>
        p' = p \<and> resp = Some (Response (Some i) (Inl not_permitted)) \<and> rpc_code not_permitted = - 32600) \<and>
    (\<forall>i. jr_version rq = ''2.0'' \<and> jr_id rq = Some i \<and> jr_method rq = ''tools/list'' \<longrightarrow>
        (\<exists>ts. resp = Some (Response (Some i) (Inr (RvTools ts))) \<and> set ts = {t. permits_tool au t}))"
proof (intro conjI allI impI)
  assume new: "p' \<noteq> p"
  have v: "jr_version rq = ''2.0''" using assms new by (auto simp: handle_request_def split: if_splits)
  with assms obtain r where d: "dispatch_method w au rq p = Some (r, p')"
    by (auto simp: handle_request_def split: option.splits)
  have m: "jr_method rq = ''tools/call''" using d new by (auto simp: dispatch_method_def split: if_splits)
  then have "handle_tools_call w au (jr_params rq) p = Some (r, p')" using d by (simp add: dispatch_method_def)
  then show "\<exists>t. jr_version rq = ''2.0'' \<and> jr_method rq = ''tools/call'' \<and>
      cp_name (jr_params rq) = Some (tool_name t) \<and> writes t \<and> permits_tool au t"
    using tools_call_step new v m by metis
next
  fix t i
  assume "jr_version rq = ''2.0'' \<and> jr_id rq = Some i \<and> jr_method rq = ''tools/call'' \<and> cp_is_object (jr_params rq) \<and>
    cp_name (jr_params rq) = Some (tool_name t) \<and> \<not> permits_tool au t"
  then show "p' = p" "resp = Some (Response (Some i) (Inl not_permitted))" "rpc_code not_permitted = - 32600"
    using assms by (auto simp: handle_request_def dispatch_method_def handle_tools_call_def expects_response_def not_permitted_def)
next
  fix i
  assume "jr_version rq = ''2.0'' \<and> jr_id rq = Some i \<and> jr_method rq = ''tools/list''"
  then have "resp = Some (Response (Some i) (Inr (RvTools (filter (permits_tool au) all_tools))))"
    using assms by (auto simp: handle_request_def dispatch_method_def expects_response_def)
  then show "\<exists>ts. resp = Some (Response (Some i) (Inr (RvTools ts))) \<and> set ts = {t. permits_tool au t}"
    using tools_complete by auto
qed

abbreviation plain_world :: world where
  "plain_world \<equiv> \<lparr> wd_env = plain_mcp_env, wd_clk = \<lambda>_. 0, wd_others = \<lambda>_ s. s, wd_issue_others = \<lambda>_ s. s,
     wd_stores = \<lambda>_. empty_store, wd_polls = \<lambda>_. 0, wd_start = 0, wd_fresh = 7 \<rparr>"

abbreviation plain_plant :: "access \<Rightarrow> plant" where
  "plain_plant x \<equiv> \<lparr> pl_fleet = idle_fleet empty_store, pl_access = x, pl_issues = [], pl_comments = [], pl_hosts = [],
     pl_host_events = [], pl_ssh_keys = [] \<rparr>"

abbreviation project_request :: rpc_request where
  "project_request \<equiv> \<lparr> jr_version = ''2.0'', jr_id = Some ''1'', jr_method = ''tools/call'',
     jr_params = \<lparr> cp_is_object = True, cp_name = Some ''fleet_create_project'', cp_arguments = args_of [(''name'', ''x'')] [] \<rparr> \<rparr>"

theorem mcp_gate_witness:
  "\<exists>resp p'. handle_request plain_world \<lparr> mu_capabilities = [PProjectCreate], mu_principal = None \<rparr> project_request (plain_plant empty_access)
       = Some (resp, p') \<and> p' \<noteq> plain_plant empty_access \<and>
     handle_request plain_world \<lparr> mu_capabilities = [PProjectRead], mu_principal = None \<rparr> project_request (plain_plant empty_access)
       = Some (Some (Response (Some ''1'') (Inl not_permitted)), plain_plant empty_access) \<and>
     (\<exists>t. ''fleet_create_project'' = tool_name t \<and> writes t)"
proof -
  let ?may = "\<lparr> mu_capabilities = [PProjectCreate], mu_principal = None \<rparr>"
    and ?not = "\<lparr> mu_capabilities = [PProjectRead], mu_principal = None \<rparr>"
  have trim_x: "trim ''x'' = ''x''" by code_simp
  have t: "tool_of ''fleet_create_project'' = Some TCreateProject" by (simp add: tool_of_iff)
  obtain reply p' where run: "run_tool plain_world (server_ctx ?may) TCreateProject (args_of [(''name'', ''x'')] []) (plain_plant empty_access) = Some (reply, p')"
    "ms_projects (pl_store p') \<noteq> []"
    by (simp add: handle_create_project_def need_object_def name_arg_def need_str_def args_of_def trim_x
      create_project_def empty_store_def hm_values_def hm_insert_def Let_def)
  obtain resp where r: "handle_request plain_world ?may project_request (plain_plant empty_access) = Some (resp, p')"
    using run(1) by (simp add: handle_request_def dispatch_method_def handle_tools_call_def t permits_tool_def dispatch_tool_def
      del: run_tool.simps)
  have new: "p' \<noteq> plain_plant empty_access" using run(2) by (auto simp: empty_store_def)
  obtain resp' p'' where r': "handle_request plain_world ?not project_request (plain_plant empty_access) = Some (resp', p'')"
    by (simp add: handle_request_def dispatch_method_def handle_tools_call_def t permits_tool_def)
  have "\<not> permits_tool ?not TCreateProject" by (simp add: permits_tool_def)
  then have "p'' = plain_plant empty_access \<and> resp' = Some (Response (Some ''1'') (Inl not_permitted))"
    using mcp_gate[OF r'] by (auto dest!: spec[of _ TCreateProject])
  moreover have "\<exists>t. ''fleet_create_project'' = tool_name t \<and> writes t" using mcp_gate[OF r] new by auto
  ultimately show ?thesis using r r' new by blast
qed

end
