(* ===== verification/Base64_Url.thy ===== *)
theory Base64_Url
  imports Prelude
begin

text \<open>
  The unpadded base64url encoder that turns random bytes into tokens (\<open>base64url\<close> of
  \<open>crates/fleet-api/src/handlers.rs\<close>) and what makes it a good one: it loses nothing.
\<close>

unbundle bit_operations_syntax

definition base64_alphabet :: string where
  "base64_alphabet = ''ABCDEFGHIJKLMNOPQRSTUVWXYZabcdefghijklmnopqrstuvwxyz0123456789-_''"

definition sextet :: "nat \<Rightarrow> u32 \<Rightarrow> char" where
  "sextet k n = base64_alphabet ! unat (drop_bit k n AND 0x3F)"

fun base64url :: "8 word list \<Rightarrow> string" where
  "base64url [] = []"
| "base64url [a] = (let n = push_bit 16 (ucast a) in [sextet 18 n, sextet 12 n])"
| "base64url [a, b] =
     (let n = push_bit 16 (ucast a) OR push_bit 8 (ucast b) in [sextet 18 n, sextet 12 n, sextet 6 n])"
| "base64url (a # b # c # bytes) =
     (let n = push_bit 16 (ucast a) OR push_bit 8 (ucast b) OR ucast c
      in [sextet 18 n, sextet 12 n, sextet 6 n, sextet 0 n] @ base64url bytes)"

lemma base64url_vectors:
  "base64url (map (of_nat \<circ> of_char) ''foobar'') = ''Zm9vYmFy''"
  "base64url (map (of_nat \<circ> of_char) ''fooba'') = ''Zm9vYmE''"
  "base64url (map (of_nat \<circ> of_char) ''foob'') = ''Zm9vYg''"
  by code_simp+

lemma base64url_length: "length (base64url bytes) = (length bytes * 4 + 2) div 3"
  by (induction bytes rule: base64url.induct) (simp_all add: Let_def)

lemma base64_alphabet_distinct: "distinct base64_alphabet"
  by code_simp

lemma base64_alphabet_length: "length base64_alphabet = 64"
  by code_simp

lemma sextet_bits:
  assumes "sextet k n = sextet k m" "k \<le> j" "j < k + 6"
  shows "bit n j = bit m j"
proof -
  have lt: "unat (drop_bit k x AND 0x3F) < length base64_alphabet" for x :: u32
  proof -
    have "drop_bit k x AND 0x3F \<le> 0x3F" by (rule word_and_le1)
    then have "unat (drop_bit k x AND 0x3F) \<le> 63" by (simp add: word_le_nat_alt)
    then show ?thesis by (simp add: base64_alphabet_length)
  qed
  have "unat (drop_bit k n AND 0x3F) = unat (drop_bit k m AND 0x3F)"
    using assms(1) lt nth_eq_iff_index_eq[OF base64_alphabet_distinct] by (auto simp: sextet_def)
  then have eq: "drop_bit k n AND 0x3F = drop_bit k m AND 0x3F" unfolding word_unat_eq_iff .
  have mask: "(0x3F :: u32) = mask 6" by (simp add: mask_eq_exp_minus_1)
  have "bit (drop_bit k x AND 0x3F) (j - k) = bit x j" for x :: u32
    using assms(2,3) unfolding mask by (auto simp: bit_simps dest: bit_imp_le_length)
  then show ?thesis using eq by metis
qed

lemma base64_block:
  fixes a b c a' b' c' :: "8 word"
  defines "n \<equiv> push_bit 16 (ucast a) OR push_bit 8 (ucast b) OR ucast c :: u32"
    and "m \<equiv> push_bit 16 (ucast a') OR push_bit 8 (ucast b') OR ucast c' :: u32"
  shows "sextet 18 n = sextet 18 m \<Longrightarrow> sextet 12 n = sextet 12 m \<Longrightarrow> a = a'"
    "sextet 12 n = sextet 12 m \<Longrightarrow> sextet 6 n = sextet 6 m \<Longrightarrow> b = b'"
    "sextet 6 n = sextet 6 m \<Longrightarrow> sextet 0 n = sextet 0 m \<Longrightarrow> c = c'"
proof -
  have top: "bit n (16 + j) = bit a j" "bit m (16 + j) = bit a' j"
    "bit n (8 + j) = bit b j" "bit m (8 + j) = bit b' j" "bit n j = bit c j" "bit m j = bit c' j" if "j < 8" for j
    using that by (auto simp: n_def m_def bit_simps dest: bit_imp_le_length)
  show "a = a'" if s: "sextet 18 n = sextet 18 m" "sextet 12 n = sextet 12 m"
  proof (rule bit_word_eqI)
    fix j assume "j < LENGTH(8)"
    then show "bit a j = bit a' j"
      using top(1,2)[of j] sextet_bits[OF s(1), of "16 + j"] sextet_bits[OF s(2), of "16 + j"] by (cases "j < 2") auto
  qed
  show "b = b'" if s: "sextet 12 n = sextet 12 m" "sextet 6 n = sextet 6 m"
  proof (rule bit_word_eqI)
    fix j assume "j < LENGTH(8)"
    then show "bit b j = bit b' j"
      using top(3,4)[of j] sextet_bits[OF s(1), of "8 + j"] sextet_bits[OF s(2), of "8 + j"] by (cases "j < 4") auto
  qed
  show "c = c'" if s: "sextet 6 n = sextet 6 m" "sextet 0 n = sextet 0 m"
  proof (rule bit_word_eqI)
    fix j assume "j < LENGTH(8)"
    then show "bit c j = bit c' j"
      using top(5,6)[of j] sextet_bits[OF s(1), of j] sextet_bits[OF s(2), of j] by (cases "j < 6") auto
  qed
qed

lemma base64_tail_blocks:
  "base64url [a] = [sextet 18 (push_bit 16 (ucast a) OR push_bit 8 (ucast (0 :: 8 word)) OR ucast (0 :: 8 word)),
     sextet 12 (push_bit 16 (ucast a) OR push_bit 8 (ucast (0 :: 8 word)) OR ucast (0 :: 8 word))]"
  "base64url [a, b] = [sextet 18 (push_bit 16 (ucast a) OR push_bit 8 (ucast b) OR ucast (0 :: 8 word)),
     sextet 12 (push_bit 16 (ucast a) OR push_bit 8 (ucast b) OR ucast (0 :: 8 word)),
     sextet 6 (push_bit 16 (ucast a) OR push_bit 8 (ucast b) OR ucast (0 :: 8 word))]"
  by (simp_all add: Let_def)

lemma base64url_lengths:
  assumes "base64url xs = base64url ys"
  shows "length xs = length ys"
proof -
  have "(length xs * 4 + 2) div 3 = (length ys * 4 + 2) div 3" using assms base64url_length by metis
  then show ?thesis by linarith
qed

lemma base64url_injective: "base64url xs = base64url ys \<Longrightarrow> xs = ys"
proof (induction xs arbitrary: ys rule: base64url.induct)
  case 1
  then show ?case using base64url_lengths[OF 1] by simp
next
  case (2 a)
  obtain a' where ys: "ys = [a']" using base64url_lengths[OF 2] by (auto simp: Suc_length_conv)
  show ?case using 2 base64_block(1) unfolding ys base64_tail_blocks by blast
next
  case (3 a b)
  obtain a' b' where ys: "ys = [a', b']" using base64url_lengths[OF 3] by (auto simp: Suc_length_conv length_Suc_conv)
  show ?case using 3 base64_block(1,2) unfolding ys base64_tail_blocks by blast
next
  case (4 a b c bytes)
  obtain a' b' c' rest where ys: "ys = a' # b' # c' # rest"
    using base64url_lengths[OF 4(2)] by (metis length_Cons Suc_length_conv)
  show ?case using 4 base64_block[of a b c a' b' c'] unfolding ys by (auto simp: Let_def)
qed

end
