(* ===== verification/Api_Base.thy ===== *)
theory Api_Base
  imports Mcp_Fleet
begin

text \<open>
  The frame of the HTTP API (\<open>crates/fleet-api/src/app.rs\<close>, \<open>error.rs\<close>): configuration, the state its
  handlers share, errors, the paths of the routes and the capability each needs. The store is the
  \<open>yard\<close>, the tables of users, tokens and audit events are \<open>access\<close>; calls of a configured transport are
  logged. A handler makes several store calls: what other callers do before the \<open>n\<close>-th is \<open>av_others en n\<close>,
  the \<open>n\<close>-th reading of the clock is \<open>av_clk en n\<close>.
\<close>

section \<open>Errors\<close>

text \<open>\<open>HPanicked\<close>: the handler's task panicked.\<close>

datatype http_error = HBadRequest message | HUnauthorized message | HForbidden message | HNotFound message
  | HConflict message | HStore message | HInternal message | HPanicked

fun http_status :: "http_error \<Rightarrow> nat" where
  "http_status (HBadRequest _) = 400"
| "http_status (HUnauthorized _) = 401"
| "http_status (HForbidden _) = 403"
| "http_status (HNotFound _) = 404"
| "http_status (HConflict _) = 409"
| "http_status (HStore _) = 500"
| "http_status (HInternal _) = 500"
| "http_status HPanicked = 500"

fun http_code :: "http_error \<Rightarrow> string" where
  "http_code (HBadRequest _) = ''bad_request''"
| "http_code (HUnauthorized _) = ''unauthorized''"
| "http_code (HForbidden _) = ''forbidden''"
| "http_code (HNotFound _) = ''not_found''"
| "http_code (HConflict _) = ''conflict''"
| "http_code (HStore _) = ''store_error''"
| "http_code (HInternal _) = ''internal_error''"
| "http_code HPanicked = []"

fun http_error_of :: "store_error \<Rightarrow> http_error" where
  "http_error_of NotFound = HNotFound (plain_text ''entity not found'')"
| "http_error_of (Conflict m) = HConflict m"
| "http_error_of e = HStore (store_error_text e)"

section \<open>State and configuration\<close>

datatype link_call = LinkRegister worker_id string u32 | LinkUnregister worker_id

record gateway =
  gw_yard :: yard
  gw_access :: access
  gw_links :: "link_call list"

record api_token_credential =
  tk_principal_id :: string
  tk_token :: string
  tk_capabilities :: "permission_kind list"

text \<open>The master key is known by what it encrypts and decrypts; each call may fail.\<close>

record master_cipher =
  mc_encrypt :: "string \<Rightarrow> (message, string) result"
  mc_decrypt :: "string \<Rightarrow> (message, string) result"

record api_config =
  ap_transport :: bool
  ap_heartbeat_interval_secs :: u32
  ap_allow_no_auth :: bool
  ap_valid_tokens :: "api_token_credential list option"
  ap_cf_audience :: "string option"
  ap_cf_principal_capabilities :: "(string, permission_kind list) hmap option"
  ap_master_key :: "master_cipher option"
  ap_cors_allowed_origins :: "string list"
  ap_public_base_url :: "string option"

definition new_api_config :: api_config where
  "new_api_config = \<lparr> ap_transport = False, ap_heartbeat_interval_secs = 15, ap_allow_no_auth = True,
     ap_valid_tokens = None, ap_cf_audience = None, ap_cf_principal_capabilities = None, ap_master_key = None,
     ap_cors_allowed_origins = [], ap_public_base_url = None \<rparr>"

definition with_tokens :: "api_token_credential list \<Rightarrow> api_config \<Rightarrow> api_config" where
  "with_tokens ts c = c\<lparr>ap_valid_tokens := Some ts, ap_allow_no_auth := False\<rparr>"

definition with_cf_audience :: "string \<Rightarrow> api_config \<Rightarrow> api_config" where
  "with_cf_audience aud c = c\<lparr>ap_cf_audience := Some aud, ap_allow_no_auth := False\<rparr>"

text \<open>Later entries of the same address replace earlier ones.\<close>

definition with_cf_principal_capabilities :: "(string \<times> permission_kind list) list \<Rightarrow> api_config \<Rightarrow> api_config" where
  "with_cf_principal_capabilities kvs c =
     c\<lparr>ap_cf_principal_capabilities := Some (fold (\<lambda>(addr, caps). hm_insert (map ascii_lower (trim addr)) caps) kvs [])\<rparr>"

record api_env =
  av_parse_uuid :: "string \<Rightarrow> uuid option"
  av_show_uuid :: "uuid \<Rightarrow> string"
  av_digest :: "string \<Rightarrow> string"
  av_sha :: "string \<Rightarrow> string"
  av_clk :: "nat \<Rightarrow> datetime"
  av_add_secs :: "datetime \<Rightarrow> int \<Rightarrow> datetime option"
  av_random :: "nat \<Rightarrow> (message, 8 word list) result"
  av_fresh :: "nat \<Rightarrow> uuid"
  av_others :: "nat \<Rightarrow> gateway \<Rightarrow> gateway"

definition show_worker :: "api_env \<Rightarrow> worker_id \<Rightarrow> string" where
  "show_worker en w = (case w of WorkerId u \<Rightarrow> av_show_uuid en u)"

section \<open>Store calls of a handler\<close>

definition store_call :: "api_env \<Rightarrow> nat \<Rightarrow> (mem_store \<Rightarrow> 'r \<times> mem_store) \<Rightarrow> gateway \<Rightarrow> 'r \<times> gateway" where
  "store_call en n op g =
     (let g = av_others en n g
      in case op (yd_store (gw_yard g)) of (r, t) \<Rightarrow> (r, g\<lparr>gw_yard := (gw_yard g)\<lparr>yd_store := t\<rparr>\<rparr>))"

definition yard_call :: "api_env \<Rightarrow> nat \<Rightarrow> (yard \<Rightarrow> 'r \<times> yard) \<Rightarrow> gateway \<Rightarrow> 'r \<times> gateway" where
  "yard_call en n op g = (let g = av_others en n g in case op (gw_yard g) of (r, y) \<Rightarrow> (r, g\<lparr>gw_yard := y\<rparr>))"

definition access_call :: "api_env \<Rightarrow> nat \<Rightarrow> (access \<Rightarrow> 'r \<times> access) \<Rightarrow> gateway \<Rightarrow> 'r \<times> gateway" where
  "access_call en n op g = (let g = av_others en n g in case op (gw_access g) of (r, x) \<Rightarrow> (r, g\<lparr>gw_access := x\<rparr>))"

text \<open>A call that only reads.\<close>

definition asking :: "('s \<Rightarrow> 'r) \<Rightarrow> 's \<Rightarrow> 'r \<times> 's" where
  "asking q s = (q s, s)"

definition link :: "api_config \<Rightarrow> link_call \<Rightarrow> gateway \<Rightarrow> gateway" where
  "link cfg c g = (if ap_transport cfg then g\<lparr>gw_links := gw_links g @ [c]\<rparr> else g)"

section \<open>Who is asking\<close>

datatype authentication_method = ScopedBearer | DevelopmentNoAuth | WorkerOperational | CloudflareAccess

record authorization_context =
  ac_principal_id :: string
  ac_method :: authentication_method
  ac_capabilities :: "permission_kind list"
  ac_worker_id :: "worker_id option"

definition audit_actor_label :: "authorization_context option \<Rightarrow> string" where
  "audit_actor_label ctx = (case ctx of Some c \<Rightarrow> ac_principal_id c | None \<Rightarrow> ''unattributed'')"

definition api_event :: "datetime \<Rightarrow> authorization_context option \<Rightarrow> string \<Rightarrow> string \<Rightarrow> string \<Rightarrow> audit_event" where
  "api_event now ctx action target_type target_id =
     (new_event now (audit_actor_label ctx) action AuditSuccess)\<lparr>ae_target_type := Some target_type, ae_target_id := Some target_id\<rparr>"

definition record_mutation_audit ::
    "api_env \<Rightarrow> nat \<Rightarrow> nat \<Rightarrow> authorization_context option \<Rightarrow> string \<Rightarrow> string \<Rightarrow> string \<Rightarrow> gateway \<Rightarrow> gateway" where
  "record_mutation_audit en n k ctx action target_type target_id g =
     snd (access_call en n (record_audit_event (api_event (av_clk en k) ctx action target_type target_id)) g)"

definition record_credential_audit ::
    "api_env \<Rightarrow> nat \<Rightarrow> nat \<Rightarrow> authorization_context option \<Rightarrow> string \<Rightarrow> string \<Rightarrow> string \<Rightarrow> gateway
     \<Rightarrow> (store_error, unit) result \<times> gateway" where
  "record_credential_audit en n k ctx action worker_name model_id g =
     access_call en n (record_audit_event
       (api_event (av_clk en k) ctx action ''worker_llm_credential'' (worker_name @ ''/'' @ model_id))) g"

definition enforce_worker_self_binding :: "authorization_context option \<Rightarrow> worker_id \<Rightarrow> (http_error, unit) result" where
  "enforce_worker_self_binding ctx target =
     (case Option.bind ctx ac_worker_id of
        Some w \<Rightarrow> if w \<noteq> target
          then Inl (HForbidden (Msg ''worker {ctx_worker_id} is not authorized to act on worker {target}'' [ArgWorker w, ArgWorker target]))
          else Inr ()
      | None \<Rightarrow> Inr ())"

section \<open>Paths and capabilities\<close>

datatype http_method = HGet | HPost | HPut | HDelete | HMethod string

definition ends_with :: "string \<Rightarrow> string \<Rightarrow> bool" where
  "ends_with s pat = (length pat \<le> length s \<and> drop (length s - length pat) s = pat)"

definition strip_prefix :: "string \<Rightarrow> string \<Rightarrow> string option" where
  "strip_prefix pat s = (if take (length pat) s = pat then Some (drop (length pat) s) else None)"

definition normalized_v1_path :: "string \<Rightarrow> string" where
  "normalized_v1_path p =
     (case strip_prefix ''/v1'' p of
        Some r \<Rightarrow> if take 1 r = ''/'' then r else p
      | None \<Rightarrow> p)"

datatype llm_route = LlmCollection | LlmItem | LlmExport

definition llm_credential_route :: "string \<Rightarrow> llm_route option" where
  "llm_credential_route p =
     (case strip_prefix ''/workers/'' p of
        None \<Rightarrow> None
      | Some r \<Rightarrow>
          if CHR ''/'' \<notin> set r then None
          else let name = takeWhile (\<lambda>c. c \<noteq> CHR ''/'') r; tail = tl (dropWhile (\<lambda>c. c \<noteq> CHR ''/'') r)
          in if name = [] then None
             else case strip_prefix ''credentials'' tail of
               None \<Rightarrow> None
             | Some tail \<Rightarrow>
                 let item = rev (dropWhile (\<lambda>c. c = CHR ''/'') (rev tail))
                 in if item = [] then Some LlmCollection
                    else if take 1 item = ''/'' \<and> ends_with item ''/export'' then Some LlmExport
                    else Some LlmItem)"

definition is_worker_by_id_route :: "string \<Rightarrow> bool" where
  "is_worker_by_id_route p =
     (case strip_prefix ''/workers/'' p of
        Some r \<Rightarrow> r \<noteq> [] \<and> CHR ''/'' \<notin> set r
      | None \<Rightarrow> False)"

text \<open>The first rule that matches decides.\<close>

definition required_capability :: "http_method \<Rightarrow> string \<Rightarrow> permission_kind option" where
  "required_capability m p =
     (if m = HGet \<and> p = ''/workers'' then Some PWorkerList
      else if m = HPost \<and> (p = ''/workers/register'' \<or> p = ''/workers/heartbeat'') then Some PWorkerRegister
      else if m = HPost \<and> ends_with p ''/credential/rotate'' then Some PWorkerCredentialManage
      else if m = HDelete \<and> starts_with ''/workers/'' p \<and> ends_with p ''/credential'' then Some PWorkerCredentialManage
      else if m = HGet \<and> llm_credential_route p = Some LlmExport then Some PWorkerLlmCredentialExport
      else if m = HGet \<and> llm_credential_route p \<noteq> None then Some PWorkerLlmCredentialRead
      else if (m = HPut \<or> m = HDelete) \<and> llm_credential_route p \<noteq> None then Some PWorkerLlmCredentialManage
      else if m = HGet \<and> is_worker_by_id_route p then Some PWorkerList
      else if m = HDelete \<and> starts_with ''/workers/'' p then Some PWorkerDelete
      else if m = HPost \<and> p = ''/bootstrap-tokens'' then Some PTokenIssue
      else if m = HGet \<and> p = ''/bootstrap-tokens'' then Some PTokenList
      else if m = HDelete \<and> starts_with ''/bootstrap-tokens/'' p then Some PTokenRevoke
      else if m = HGet \<and> p = ''/admin/tokens'' then Some PAdminTokenList
      else if m = HPost \<and> p = ''/admin/tokens'' then Some PAdminTokenManage
      else if m = HPost \<and> starts_with ''/admin/tokens/'' p \<and> ends_with p ''/rotate'' then Some PAdminTokenManage
      else if m = HDelete \<and> starts_with ''/admin/tokens/'' p then Some PAdminTokenManage
      else if m = HPost \<and> p = ''/hosts/register'' then Some PHostProvision
      else None)"

text \<open>The refusal is a bare status code.\<close>

definition authorize_http_endpoint :: "http_method \<Rightarrow> string \<Rightarrow> authorization_context option \<Rightarrow> (nat, unit) result" where
  "authorize_http_endpoint m raw ctx =
     (let p = normalized_v1_path raw
      in if p = ''/health'' then Inr ()
         else if m = HPost \<and> p = ''/workers/join'' then Inr ()
         else case required_capability m p of
           None \<Rightarrow> Inl 403
         | Some k \<Rightarrow>
             if (case ctx of Some c \<Rightarrow> k \<in> set (ac_capabilities c) | None \<Rightarrow> False) then Inr () else Inl 403)"

definition record_capability_denial :: "api_env \<Rightarrow> nat \<Rightarrow> nat \<Rightarrow> authorization_context option \<Rightarrow> gateway \<Rightarrow> gateway" where
  "record_capability_denial en n k ctx g =
     snd (access_call en n (record_audit_event
       (new_event (av_clk en k) (audit_actor_label ctx) ''http.capability_denied'' AuditFailure)) g)"

end
