(* ===== verification/Credential_Crypto.thy ===== *)
theory Credential_Crypto
  imports Template_Store
begin

text \<open>
  Encrypted model credentials (\<open>crates/fleet-credentials/src\<close>). AES-256-GCM (\<open>seal\<close>, \<open>unseal\<close>), the
  base64 codec and the random nonce are arguments; a key is its bytes. The section for a worker's
  configuration file is rendered with quoted strings.
\<close>

type_synonym bytes = "8 word list"

section \<open>Errors\<close>

datatype credentials_error = Encryption string | Decryption message | Serde string | EncodingFailed string

fun credentials_error_text :: "credentials_error \<Rightarrow> message" where
  "credentials_error_text (Encryption e) = Msg ''encryption failed: {0}'' [ArgStr e]"
| "credentials_error_text (Decryption m) = Msg ''decryption failed: {0}'' [ArgText m]"
| "credentials_error_text (Serde e) = Msg ''serialization error: {0}'' [ArgStr e]"
| "credentials_error_text (EncodingFailed e) = Msg ''encoding error: {0}'' [ArgStr e]"

datatype master_key_error =
  KeyMissing | KeyFileRead string string | KeyInvalidLength nat | KeyDecode message | KeyIo string

section \<open>The master key\<close>

definition key_len :: nat where "key_len = 32"

definition nonce_len :: nat where "nonce_len = 12"

definition hex_value :: "char \<Rightarrow> 8 word option" where
  "hex_value c = (let n = (of_char c :: nat) in
     if 48 \<le> n \<and> n \<le> 57 then Some (of_nat (n - 48))
     else if 97 \<le> n \<and> n \<le> 102 then Some (of_nat (n - 87))
     else if 65 \<le> n \<and> n \<le> 70 then Some (of_nat (n - 55)) else None)"

fun hex_decode :: "string \<Rightarrow> bytes option" where
  "hex_decode [] = Some []"
| "hex_decode [c] = None"
| "hex_decode (c # d # s) =
     (case (hex_value c, hex_value d, hex_decode s) of
        (Some x, Some y, Some bs) \<Rightarrow> Some ((x * 16 + y) # bs)
      | _ \<Rightarrow> None)"

definition hex_digit_char :: "8 word \<Rightarrow> char" where
  "hex_digit_char x = ''0123456789abcdef'' ! unat x"

definition hex_encode :: "bytes \<Rightarrow> string" where
  "hex_encode bs = concat (map (\<lambda>b. [hex_digit_char (b div 16), hex_digit_char (b mod 16)]) bs)"

definition master_key_parse :: "(string \<Rightarrow> (string, bytes) result) \<Rightarrow> string \<Rightarrow> (message, bytes) result" where
  "master_key_parse b64 s =
     (if length s = key_len * 2 \<and> list_all (\<lambda>c. hex_value c \<noteq> None) s then
        (case hex_decode s of Some bs \<Rightarrow> Inr bs | None \<Rightarrow> Inl (Msg ''hex decode: {e}'' []))
      else case b64 s of
        Inr bs \<Rightarrow>
          if length bs = key_len then Inr bs
          else Inl (Msg ''base64url decoded to {} bytes, expected {}'' [ArgNum (int (length bs)), ArgNum (int key_len)])
      | Inl e \<Rightarrow> Inl (Msg ''base64url decode: {e}'' [ArgStr e]))"

text \<open>What reading the key file gives.\<close>

datatype file_read = FileText string | FileAbsent | FileError string

definition load_with_paths ::
    "(string \<Rightarrow> (string, bytes) result) \<Rightarrow> string option \<Rightarrow> string \<Rightarrow> file_read \<Rightarrow> (master_key_error, bytes) result" where
  "load_with_paths b64 env_value file_path file =
     (let from_file = (case file of
            FileText raw \<Rightarrow>
              if trim raw = [] then Inl KeyMissing
              else (case master_key_parse b64 (trim raw) of Inr k \<Rightarrow> Inr k | Inl e \<Rightarrow> Inl (KeyDecode e))
          | FileAbsent \<Rightarrow> Inl KeyMissing
          | FileError e \<Rightarrow> Inl (KeyFileRead file_path e))
      in case env_value of
        Some raw \<Rightarrow>
          if trim raw \<noteq> []
          then (case master_key_parse b64 (trim raw) of Inr k \<Rightarrow> Inr k | Inl e \<Rightarrow> Inl (KeyDecode e))
          else from_file
      | None \<Rightarrow> from_file)"

definition encrypt ::
    "(bytes \<Rightarrow> bytes \<Rightarrow> bytes \<Rightarrow> (string, bytes) result) \<Rightarrow> (bytes \<Rightarrow> string) \<Rightarrow> bytes \<Rightarrow> bytes \<Rightarrow> bytes
     \<Rightarrow> (credentials_error, string) result" where
  "encrypt seal enc key nonce plaintext =
     (case seal key nonce plaintext of
        Inl e \<Rightarrow> Inl (Encryption e)
      | Inr ciphertext \<Rightarrow> Inr (enc (nonce @ ciphertext)))"

definition decrypt ::
    "(bytes \<Rightarrow> bytes \<Rightarrow> bytes \<Rightarrow> (string, bytes) result) \<Rightarrow> (string \<Rightarrow> (string, bytes) result) \<Rightarrow> bytes \<Rightarrow> string
     \<Rightarrow> (credentials_error, bytes) result" where
  "decrypt unseal b64 key blob =
     (case b64 blob of
        Inl e \<Rightarrow> Inl (EncodingFailed e)
      | Inr combined \<Rightarrow>
          if length combined < nonce_len
          then Inl (Decryption (Msg ''blob too short ({} bytes, need at least {NONCE_LEN})'' [ArgNum (int (length combined))]))
          else (case unseal key (take nonce_len combined) (drop nonce_len combined) of
             Inl e \<Rightarrow> Inl (Decryption (Msg e []))
           | Inr plaintext \<Rightarrow> Inr plaintext))"

section \<open>The configuration section of a worker\<close>

record worker_credentials =
  wc_worker_name :: string
  wc_model_id :: string
  wc_base_url :: string
  wc_api_key :: string
  wc_api_backend :: string
  wc_context_window :: u32
  wc_model :: "string option"
  wc_rotated_at :: "datetime option"

definition escape_with :: "char \<Rightarrow> string \<Rightarrow> string" where
  "escape_with c s = concat (map (\<lambda>d. if d = c then [CHR 0x5C, c] else [d]) s)"

definition toml_escape :: "string \<Rightarrow> string" where
  "toml_escape s = CHR 0x22 # escape_with (CHR 0x22) (escape_with (CHR 0x5C) s) @ [CHR 0x22]"

definition render_grok_config_section :: "worker_credentials \<Rightarrow> string" where
  "render_grok_config_section c =
     ''[model.'' @ wc_model_id c @ '']'' @ line_feed
     @ ''base_url = '' @ toml_escape (wc_base_url c) @ line_feed
     @ ''api_key = '' @ toml_escape (wc_api_key c) @ line_feed
     @ (case wc_model c of Some m \<Rightarrow> ''model = '' @ toml_escape m @ line_feed | None \<Rightarrow> [])
     @ ''api_backend = '' @ toml_escape (wc_api_backend c) @ line_feed
     @ ''context_window = '' @ dec (unat (wc_context_window c)) @ line_feed"

section \<open>What was encrypted can be decrypted\<close>

lemma decrypt_encrypt:
  assumes "length nonce = nonce_len" "encrypt seal enc key nonce p = Inr blob"
    "\<And>c. seal key nonce p = Inr c \<Longrightarrow> unseal key nonce c = Inr p" "\<And>bs. b64 (enc bs) = Inr bs"
  shows "decrypt unseal b64 key blob = Inr p"
proof -
  obtain c where "seal key nonce p = Inr c" "blob = enc (nonce @ c)"
    using assms(2) by (auto simp: encrypt_def split: sum.splits)
  then show ?thesis using assms by (auto simp: decrypt_def)
qed

section \<open>A quoted string ends where it should\<close>

text \<open>Reading a quoted TOML string: the text up to the first unescaped quote, and what follows it.\<close>

fun read_quoted :: "string \<Rightarrow> (string \<times> string) option" where
  "read_quoted [] = None"
| "read_quoted (c # s) =
     (if c = CHR 0x22 then Some ([], s)
      else if c = CHR 0x5C then
        (case s of d # s' \<Rightarrow> map_option (apfst ((#) d)) (read_quoted s') | [] \<Rightarrow> None)
      else map_option (apfst ((#) c)) (read_quoted s))"

lemma escape_twice:
  "escape_with (CHR 0x22) (escape_with (CHR 0x5C) s) =
     concat (map (\<lambda>d. if d = CHR 0x22 \<or> d = CHR 0x5C then [CHR 0x5C, d] else [d]) s)"
  by (induction s) (auto simp: escape_with_def)

lemma read_escaped: "read_quoted (tl (toml_escape s) @ rest) = Some (s, rest)"
  unfolding toml_escape_def list.sel append.assoc append_Cons append_Nil escape_twice
  by (induction s) auto

section \<open>A key survives being written in hexadecimal\<close>

lemma hex_value_digit: "n < 16 \<Longrightarrow> hex_value (''0123456789abcdef'' ! n) = Some (of_nat n)"
proof -
  assume "n < 16"
  then have "n \<in> {0 ..< 16}" by simp
  moreover have "\<forall>n \<in> {0 ..< 16}. hex_value (''0123456789abcdef'' ! n) = Some (of_nat n)"
    by (simp add: hex_value_def atLeastLessThan_nat_numeral Let_def)
  ultimately show ?thesis by blast
qed

lemma hex_value_hex_digit:
  "hex_value (hex_digit_char (b div 16)) = Some (b div 16)" "hex_value (hex_digit_char (b mod 16)) = Some (b mod 16)"
proof -
  have digit: "hex_value (hex_digit_char x) = Some x" if "unat x < 16" for x
    using hex_value_digit[OF that] by (simp add: hex_digit_char_def)
  have "unat b < 256" using unsigned_less[of b] by simp
  then have "unat b div 16 < 16" by simp
  then show "hex_value (hex_digit_char (b div 16)) = Some (b div 16)" using digit[of "b div 16"] by (simp add: unat_div)
  show "hex_value (hex_digit_char (b mod 16)) = Some (b mod 16)" using digit[of "b mod 16"] by (simp add: unat_mod)
qed

lemma hex_decode_encode: "hex_decode (hex_encode bs) = Some bs"
proof (induction bs)
  case (Cons b bs)
  have "b div 16 * 16 + b mod 16 = b" by (simp add: div_mult_mod_eq)
  then show ?case using Cons by (simp add: hex_encode_def hex_value_hex_digit)
qed (simp add: hex_encode_def)

lemma hex_encode_digits: "\<forall>c \<in> set (hex_encode bs). hex_value c \<noteq> None" "length (hex_encode bs) = 2 * length bs"
  by (induction bs) (auto simp: hex_encode_def hex_value_hex_digit)

lemma parse_of_hex:
  assumes "length bs = key_len"
  shows "master_key_parse b64 (hex_encode bs) = Inr bs"
  using assms hex_encode_digits[of bs] by (simp add: master_key_parse_def hex_decode_encode list_all_iff)

end
