(* ===== verification/Api_Workers.thy ===== *)
theory Api_Workers
  imports Api_Base Base64_Url Credential_Crypto
begin

text \<open>
  The handlers a worker talks to (\<open>crates/fleet-api/src/handlers.rs\<close>): registration, joining with a
  bootstrap token, heartbeats, removal, its operational credential, and the inventory of hosts.
\<close>

section \<open>Requests and responses\<close>

record register_request =
  rr_name :: string
  rr_agent_endpoint :: string
  rr_labels :: labels
  rr_max_concurrent_tasks :: u32
  rr_max_agent_processes :: "u32 option"
  rr_worker_version :: "string option"
  rr_existing_worker_id :: "string option"
  rr_liveness_mode :: worker_liveness_mode

record register_response =
  rp_worker_id :: worker_id
  rp_heartbeat_interval_secs :: u32
  rp_config_revision :: u32
  rp_status :: string

record new_worker_params =
  np_worker_id :: worker_id
  np_name :: string
  np_endpoint :: string
  np_labels :: labels
  np_max_concurrent :: u32
  np_max_agent_processes :: "u32 option"
  np_worker_version :: "string option"
  np_liveness_mode :: worker_liveness_mode

definition validate_worker_name :: "string \<Rightarrow> (http_error, unit) result" where
  "validate_worker_name name =
     (if \<not> list_all (\<lambda>c. ascii_alnum c \<or> c = CHR ''-'' \<or> c = CHR ''_'' \<or> c = CHR ''.'') name
      then Inl (HBadRequest (plain_text ''name must be alphanumeric, '-', '_', or '.' only'')) else Inr ())"

definition build_worker :: "datetime \<Rightarrow> new_worker_params \<Rightarrow> worker option \<Rightarrow> worker" where
  "build_worker now p existing = \<lparr>
     w_id = np_worker_id p, w_name = np_name p, w_endpoint = np_endpoint p, w_labels = np_labels p,
     w_status = WOnline, w_last_seen = Some now, w_last_activity_at = Option.bind existing w_last_activity_at,
     w_active_tasks = 0, w_max_concurrent = np_max_concurrent p, w_max_agent_processes = np_max_agent_processes p,
     w_circuit_state = CClosed, w_worker_version = np_worker_version p, w_liveness_mode = np_liveness_mode p,
     w_registered_at = (case existing of Some w \<Rightarrow> w_registered_at w | None \<Rightarrow> now),
     w_incarnation_started_at = (case existing of Some w \<Rightarrow> w_incarnation_started_at w | None \<Rightarrow> now) \<rparr>"

definition upsert_and_register ::
    "api_env \<Rightarrow> api_config \<Rightarrow> nat \<Rightarrow> worker \<Rightarrow> gateway \<Rightarrow> (http_error, worker_id) result \<times> gateway" where
  "upsert_and_register en cfg n w g =
     (case store_call en n (upsert_worker w) g of
        (Inl e, g) \<Rightarrow> (Inl (http_error_of e), g)
      | (Inr _, g) \<Rightarrow> (Inr (w_id w), link cfg (LinkRegister (w_id w) (w_endpoint w) (w_max_concurrent w)) g))"

section \<open>Registration\<close>

text \<open>The worker with the id of the request, when it gives one.\<close>

definition worker_by_id :: "api_env \<Rightarrow> string option \<Rightarrow> gateway \<Rightarrow> (http_error, worker option) result \<times> gateway" where
  "worker_by_id en given g =
     (case given of
        None \<Rightarrow> (Inr None, g)
      | Some raw \<Rightarrow>
          (case av_parse_uuid en raw of
             None \<Rightarrow> (Inl (HBadRequest (Msg ''invalid existing_worker_id: {e}'' [])), g)
           | Some u \<Rightarrow>
               (case store_call en 1 (asking (get_worker (WorkerId u))) g of
                  (Inl e, g) \<Rightarrow> (Inl (http_error_of e), g)
                | (Inr w, g) \<Rightarrow> (Inr w, g))))"

text \<open>The registration of a row; only a known worker starts a new incarnation.\<close>

definition register_as ::
    "api_env \<Rightarrow> api_config \<Rightarrow> authorization_context option \<Rightarrow> worker \<Rightarrow> bool \<Rightarrow> gateway
     \<Rightarrow> (http_error, register_response) result \<times> gateway" where
  "register_as en cfg ctx worker is_new g =
     (case (if is_new then (Inr None, g) else store_call en 2 (bump_worker_incarnation (av_clk en 1) (w_id worker)) g) of
        (Inl e, g) \<Rightarrow> (Inl (http_error_of e), g)
      | (Inr _, g) \<Rightarrow>
     (case upsert_and_register en cfg 3 worker g of
        (Inl e, g) \<Rightarrow> (Inl e, g)
      | (Inr worker_id, g) \<Rightarrow>
          let event = (if is_new then WorkerJoined worker_id (w_name worker) (mask_server_key (w_endpoint worker)) (av_clk en 3)
                else WorkerHeartbeatEvent worker_id 0 True (av_clk en 2));
              g = snd (store_call en 4 (append_event event) g);
              g = record_mutation_audit en 5 4 ctx ''worker.register'' ''worker'' (show_worker en worker_id) g
          in (Inr \<lparr> rp_worker_id = worker_id, rp_heartbeat_interval_secs = ap_heartbeat_interval_secs cfg,
                rp_config_revision = 1, rp_status = ''online'' \<rparr>, g)))"

definition registered_row ::
    "datetime \<Rightarrow> register_request \<Rightarrow> string \<Rightarrow> worker_id \<Rightarrow> worker option \<Rightarrow> worker" where
  "registered_row now rq name worker_id existing =
     build_worker now \<lparr> np_worker_id = worker_id, np_name = name,
       np_endpoint = rr_agent_endpoint rq, np_labels = rr_labels rq,
       np_max_concurrent = rr_max_concurrent_tasks rq, np_max_agent_processes = rr_max_agent_processes rq,
       np_worker_version = rr_worker_version rq, np_liveness_mode = rr_liveness_mode rq \<rparr> existing"

definition register_worker ::
    "api_env \<Rightarrow> api_config \<Rightarrow> authorization_context option \<Rightarrow> register_request \<Rightarrow> gateway
     \<Rightarrow> (http_error, register_response) result \<times> gateway" where
  "register_worker en cfg ctx rq g =
     (if trim (rr_name rq) = [] then (Inl (HBadRequest (plain_text ''name must not be empty'')), g)
      else if trim (rr_agent_endpoint rq) = [] then (Inl (HBadRequest (plain_text ''agent_endpoint must not be empty'')), g)
      else let name = trim (rr_name rq) in
     (case validate_worker_name name of
        Inl e \<Rightarrow> (Inl e, g)
      | Inr _ \<Rightarrow>
     (case store_call en 0 (asking (get_worker_by_name name)) g of
        (Inl e, g) \<Rightarrow> (Inl (http_error_of e), g)
      | (Inr by_name, g) \<Rightarrow>
     (case worker_by_id en (rr_existing_worker_id rq) g of
        (Inl e, g) \<Rightarrow> (Inl e, g)
      | (Inr by_id, g) \<Rightarrow>
          if (case (by_name, by_id) of (Some a, Some b) \<Rightarrow> w_id a \<noteq> w_id b | _ \<Rightarrow> False)
          then (Inl (HConflict (Msg ''name '{name}' maps to worker {} but existing_worker_id points to {}''
                 (ArgStr name # map (ArgWorker \<circ> w_id) (List.map_filter id [by_name, by_id])))), g)
          else let worker_id = (case or_else by_id by_name of Some w \<Rightarrow> w_id w | None \<Rightarrow> WorkerId (av_fresh en 0)) in
     (case enforce_worker_self_binding ctx worker_id of
        Inl e \<Rightarrow> (Inl e, g)
      | Inr _ \<Rightarrow> register_as en cfg ctx (registered_row (av_clk en 0) rq name worker_id (or_else by_name by_id))
          (by_name = None \<and> by_id = None) g)))))"

section \<open>Heartbeats\<close>

definition max_agent_events_per_beat :: nat where
  "max_agent_events_per_beat = 32"

datatype agent_orphan_reason = Unplaced | StaleIncarnation

record agent_orphan =
  ao_agent_id :: agent_id
  ao_reason :: agent_orphan_reason

record agent_fenced =
  af_agent_id :: agent_id
  af_unreachable_secs :: u64

record heartbeat_request =
  hq_worker_id :: string
  hq_active_tasks :: u32
  hq_load_avg :: "u32 list"
  hq_mem_available_mb :: u64
  hq_disk_free_mb :: u64
  hq_cpu_usage :: "u32 option"
  hq_ram_usage :: "u32 option"
  hq_agent_healthy :: bool
  hq_grok_version :: "string option"
  hq_fleet_worker_version :: "string option"
  hq_os_info :: "os_info option"
  hq_agent_acks :: "agent_ack list"
  hq_agent_observations :: "agent_observation list option"
  hq_agent_orphans :: "agent_orphan list"
  hq_agent_fenced :: "agent_fenced list"

record heartbeat_response =
  hp_ok :: bool
  hp_desired_state :: string
  hp_agents :: "agent_command list option"
  hp_server_time :: datetime

text \<open>An \<open>f32\<close> above 90, on its bit pattern: positive, above 0x42B40000, and not a NaN.\<close>

definition above_90 :: "u32 option \<Rightarrow> bool" where
  "above_90 x = (case x of Some b \<Rightarrow> 0x42B40000 < b \<and> b \<le> 0x7F800000 | None \<Rightarrow> False)"

definition heartbeat_of :: "worker_id \<Rightarrow> heartbeat_request \<Rightarrow> worker_heartbeat" where
  "heartbeat_of w rq = \<lparr> hb_worker_id = w, hb_active_tasks = hq_active_tasks rq, hb_agent_healthy = hq_agent_healthy rq \<rparr>"

definition host_of_heartbeat :: "api_env \<Rightarrow> worker \<Rightarrow> worker_id \<Rightarrow> heartbeat_request \<Rightarrow> host" where
  "host_of_heartbeat en w i rq = \<lparr>
     ho_id = av_fresh en 0,
     ho_hostname = (case hq_os_info rq of Some oi \<Rightarrow> if os_hostname oi = [] then w_name w else os_hostname oi | None \<Rightarrow> w_name w),
     ho_worker_id = Some i, ho_status = HsOnline, ho_ssh_host = None, ho_ssh_port = 22, ho_ssh_user = None,
     ho_grok_version = hq_grok_version rq, ho_fleet_worker_version = hq_fleet_worker_version rq,
     ho_os_info = hq_os_info rq,
     ho_metrics = \<lparr> hx_load_avg = hq_load_avg rq, hx_mem_available_mb = Some (hq_mem_available_mb rq),
       hx_disk_free_mb = Some (hq_disk_free_mb rq), hx_cpu_usage = hq_cpu_usage rq, hx_ram_usage = hq_ram_usage rq \<rparr>,
     ho_last_heartbeat_at = Some (av_clk en 2), ho_provisioned_at = None, ho_created_at = av_clk en 3, ho_updated_at = av_clk en 4 \<rparr>"

text \<open>One audit event per reported agent, for at most the first 32; the \<open>k\<close>-th is store call \<open>n + k\<close>.\<close>

definition agent_events :: "api_env \<Rightarrow> nat \<Rightarrow> worker_id \<Rightarrow> string \<Rightarrow> agent_id list \<Rightarrow> gateway \<Rightarrow> gateway" where
  "agent_events en n w action agents g =
     fold (\<lambda>(k, a) g. snd (access_call en (n + k) (record_audit_event
         ((new_event (av_clk en (n + k)) (''worker:'' @ show_worker en w) action AuditSuccess)
            \<lparr>ae_target_type := Some ''agent'', ae_target_id := Some (av_show_uuid en (agent_uuid a))\<rparr>)) g))
       (enumerate 0 (take max_agent_events_per_beat agents)) g"

text \<open>The row read at the start is written back with another status.\<close>

definition set_status_of :: "api_env \<Rightarrow> nat \<Rightarrow> worker \<Rightarrow> worker_status \<Rightarrow> gateway \<Rightarrow> (store_error, unit) result \<times> gateway" where
  "set_status_of en n w st g = store_call en n (upsert_worker (w\<lparr>w_status := st\<rparr>)) g"

text \<open>What the worker reports of its agents: acknowledgements, observations, orphans, fenced agents.\<close>

definition beat_reports :: "api_env \<Rightarrow> worker_id \<Rightarrow> heartbeat_request \<Rightarrow> gateway \<Rightarrow> gateway" where
  "beat_reports en i rq g =
     (let g = (if hq_agent_acks rq = [] then g else snd (store_call en 6 (ack_agent_commands i (hq_agent_acks rq)) g));
          g = (case hq_agent_observations rq of None \<Rightarrow> g
               | Some obs \<Rightarrow> snd (store_call en 7 (apply_agent_observations (av_clk en 5) i obs) g));
          g = agent_events en 10 i ''agent.orphan_terminated'' (map ao_agent_id (hq_agent_orphans rq)) g
      in agent_events en 50 i ''agent.self_fenced'' (map af_agent_id (hq_agent_fenced rq)) g)"

text \<open>The event and the inventory row of a heartbeat.\<close>

definition beat_inventory :: "api_env \<Rightarrow> worker_id \<Rightarrow> worker \<Rightarrow> heartbeat_request \<Rightarrow> gateway \<Rightarrow> gateway" where
  "beat_inventory en i w rq g =
     (let g = snd (store_call en 3 (append_event (WorkerHeartbeatEvent i (hq_active_tasks rq) (hq_agent_healthy rq) (av_clk en 1))) g)
      in snd (yard_call en 4 (upsert_host (host_of_heartbeat en w i rq)) g))"

definition beat_status :: "heartbeat_request \<Rightarrow> worker_status" where
  "beat_status rq = (if hq_agent_healthy rq then WOnline else WDegraded)"

definition beat_overloaded :: "heartbeat_request \<Rightarrow> bool" where
  "beat_overloaded rq = (above_90 (hq_cpu_usage rq) \<or> above_90 (hq_ram_usage rq))"

text \<open>The heartbeat of a worker whose row \<open>w\<close> was found.\<close>

definition beat_known ::
    "api_env \<Rightarrow> worker_id \<Rightarrow> worker \<Rightarrow> heartbeat_request \<Rightarrow> gateway \<Rightarrow> (http_error, heartbeat_response) result \<times> gateway" where
  "beat_known en i w rq g =
     (case store_call en 1 (update_worker_heartbeat (av_clk en 0) i (heartbeat_of i rq)) g of
        (Inl e, g) \<Rightarrow> (Inl (http_error_of e), g)
      | (Inr _, g) \<Rightarrow>
     (case (if w_status w \<noteq> WDraining \<and> w_status w \<noteq> beat_status rq then set_status_of en 2 w (beat_status rq) g
            else (Inr (), g)) of
        (Inl e, g) \<Rightarrow> (Inl (http_error_of e), g)
      | (Inr _, g) \<Rightarrow>
          let g = beat_inventory en i w rq g;
              drain = (beat_overloaded rq \<or> w_status w = WDraining) in
     (case (if drain \<and> w_status w \<noteq> WDraining then set_status_of en 5 w WDraining g else (Inr (), g)) of
        (Inl e, g) \<Rightarrow> (Inl (http_error_of e), g)
      | (Inr _, g) \<Rightarrow>
          (case store_call en 100 (asking (list_agent_commands i)) (beat_reports en i rq g) of
             (cmds, g) \<Rightarrow> (Inr \<lparr> hp_ok = True, hp_desired_state = (if drain then ''drain'' else ''running''),
                hp_agents = (case cmds of Inr cs \<Rightarrow> Some cs | Inl _ \<Rightarrow> None), hp_server_time = av_clk en 6 \<rparr>, g)))))"

definition heartbeat ::
    "api_env \<Rightarrow> authorization_context option \<Rightarrow> heartbeat_request \<Rightarrow> gateway
     \<Rightarrow> (http_error, heartbeat_response) result \<times> gateway" where
  "heartbeat en ctx rq g =
     (case av_parse_uuid en (hq_worker_id rq) of
        None \<Rightarrow> (Inl (HBadRequest (Msg ''invalid worker_id: {e}'' [])), g)
      | Some u \<Rightarrow>
          let i = WorkerId u in
     (case enforce_worker_self_binding ctx i of
        Inl e \<Rightarrow> (Inl e, g)
      | Inr _ \<Rightarrow>
     (case store_call en 0 (asking (get_worker i)) g of
        (Inl e, g) \<Rightarrow> (Inl (http_error_of e), g)
      | (Inr None, g) \<Rightarrow> (Inl (HNotFound (Msg ''worker {worker_id}'' [ArgWorker i])), g)
      | (Inr (Some w), g) \<Rightarrow> beat_known en i w rq g)))"

section \<open>Hosts\<close>

record host_register_request =
  hrq_hostname :: string
  hrq_ssh_host :: string
  hrq_ssh_port :: "32 word"
  hrq_ssh_user :: string
  hrq_succeeded :: bool
  hrq_message :: "string option"

definition no_metrics :: host_metrics where
  "no_metrics = \<lparr> hx_load_avg = [], hx_mem_available_mb = None, hx_disk_free_mb = None, hx_cpu_usage = None, hx_ram_usage = None \<rparr>"

definition register_host ::
    "api_env \<Rightarrow> authorization_context option \<Rightarrow> host_register_request \<Rightarrow> gateway \<Rightarrow> (http_error, uuid) result \<times> gateway" where
  "register_host en ctx rq g =
     (let i = av_fresh en 0; now = av_clk en 0;
          host = \<lparr> ho_id = i, ho_hostname = hrq_hostname rq, ho_worker_id = None,
            ho_status = (if hrq_succeeded rq then HsProvisioned else HsFailed),
            ho_ssh_host = Some (hrq_ssh_host rq), ho_ssh_port = hrq_ssh_port rq, ho_ssh_user = Some (hrq_ssh_user rq),
            ho_grok_version = None, ho_fleet_worker_version = None, ho_os_info = None, ho_metrics = no_metrics,
            ho_last_heartbeat_at = None, ho_provisioned_at = (if hrq_succeeded rq then Some now else None),
            ho_created_at = now, ho_updated_at = now \<rparr>
      in (case yard_call en 0 (upsert_host host) g of
            (Inl e, g) \<Rightarrow> (Inl (http_error_of e), g)
          | (Inr _, g) \<Rightarrow>
              let event = \<lparr> he_id = av_fresh en 1, he_host_id = i,
                    he_event_type = (if hrq_succeeded rq then ''provision_ok'' else ''provision_fail''),
                    he_severity = (if hrq_succeeded rq then EvInfo else EvError),
                    he_message = map_option plain_text (hrq_message rq), he_payload = [], he_created_at = now \<rparr>;
                  g = snd (yard_call en 1 (append_host_event event) g);
                  g = record_mutation_audit en 2 1 ctx ''host.register'' ''host'' (av_show_uuid en i) g
              in (Inr i, g)))"

section \<open>Listing, reading and removing workers\<close>

fun worker_status_str :: "worker_status \<Rightarrow> string" where
  "worker_status_str WOnline = ''online''"
| "worker_status_str WDegraded = ''degraded''"
| "worker_status_str WDraining = ''draining''"
| "worker_status_str WOffline = ''offline''"
| "worker_status_str WCircuitOpen = ''circuit_open''"

text \<open>The row shown, without its own endpoint.\<close>

record api_worker_summary =
  aw_worker :: worker
  aw_endpoint :: string
  aw_status :: string
  aw_circuit_state :: string
  aw_liveness_mode :: string

definition worker_to_summary :: "worker \<Rightarrow> api_worker_summary" where
  "worker_to_summary w = \<lparr> aw_worker = w\<lparr>w_endpoint := []\<rparr>, aw_endpoint = mask_server_key (w_endpoint w),
     aw_status = worker_status_str (w_status w), aw_circuit_state = circuit_state_debug (w_circuit_state w),
     aw_liveness_mode = liveness_as_str (w_liveness_mode w) \<rparr>"

definition parse_status :: "string \<Rightarrow> (http_error, worker_status) result" where
  "parse_status s =
     (if s = ''online'' then Inr WOnline else if s = ''degraded'' then Inr WDegraded
      else if s = ''offline'' then Inr WOffline else if s = ''circuit_open'' then Inr WCircuitOpen
      else Inl (HBadRequest (Msg ''invalid status '{other}': expected online, degraded, offline, or circuit_open'' [ArgStr s])))"

record list_workers_query =
  lq_status :: "string option"
  lq_limit :: "nat option"
  lq_offset :: "nat option"
  lq_label_filters :: "(string, string) hmap"

text \<open>The parameters \<open>label_<key>\<close>.\<close>

fun label_filters :: "(string, string) hmap \<Rightarrow> labels \<Rightarrow> labels" where
  "label_filters [] m = m"
| "label_filters ((k, v) # kvs) m =
     label_filters kvs (case strip_prefix ''label_'' k of
        Some key \<Rightarrow> if key \<noteq> [] then hm_insert key v m else m
      | None \<Rightarrow> m)"

definition list_workers_api ::
    "api_env \<Rightarrow> list_workers_query \<Rightarrow> gateway \<Rightarrow> (http_error, api_worker_summary list) result \<times> gateway" where
  "list_workers_api en q g =
     (case (case lq_status q of None \<Rightarrow> Inr None
            | Some s \<Rightarrow> (case parse_status s of Inl e \<Rightarrow> Inl e | Inr x \<Rightarrow> Inr (Some x))) of
        Inl e \<Rightarrow> (Inl e, g)
      | Inr status \<Rightarrow>
          let fi = default_worker_filter;
              fi = fi\<lparr>wf_status := status,
                wf_limit := (case lq_limit q of Some n \<Rightarrow> n | None \<Rightarrow> wf_limit fi),
                wf_offset := (case lq_offset q of Some n \<Rightarrow> n | None \<Rightarrow> wf_offset fi),
                wf_labels := label_filters (lq_label_filters q) []\<rparr>
          in (case store_call en 0 (asking (list_workers fi)) g of
                (Inl e, g) \<Rightarrow> (Inl (http_error_of e), g)
              | (Inr ws, g) \<Rightarrow> (Inr (map worker_to_summary ws), g)))"

definition get_worker_api :: "api_env \<Rightarrow> string \<Rightarrow> gateway \<Rightarrow> (http_error, api_worker_summary) result \<times> gateway" where
  "get_worker_api en raw g =
     (case av_parse_uuid en raw of
        None \<Rightarrow> (Inl (HBadRequest (Msg ''invalid worker_id: {e}'' [])), g)
      | Some u \<Rightarrow>
          (case store_call en 0 (asking (get_worker (WorkerId u))) g of
             (Inl e, g) \<Rightarrow> (Inl (http_error_of e), g)
           | (Inr None, g) \<Rightarrow> (Inl (HNotFound (Msg ''worker {id_str}'' [ArgStr raw])), g)
           | (Inr (Some w), g) \<Rightarrow> (Inr (worker_to_summary w), g)))"

text \<open>Answers the reason.\<close>

definition deregister_worker ::
    "api_env \<Rightarrow> api_config \<Rightarrow> authorization_context option \<Rightarrow> string \<Rightarrow> string option \<Rightarrow> gateway
     \<Rightarrow> (http_error, string) result \<times> gateway" where
  "deregister_worker en cfg ctx raw given g =
     (case av_parse_uuid en raw of
        None \<Rightarrow> (Inl (HBadRequest (Msg ''invalid worker_id: {e}'' [])), g)
      | Some u \<Rightarrow>
          let i = WorkerId u in
     (case enforce_worker_self_binding ctx i of
        Inl e \<Rightarrow> (Inl e, g)
      | Inr _ \<Rightarrow>
          let reason = (case given of Some r \<Rightarrow> r | None \<Rightarrow> ''deregistered by admin'') in
     (case store_call en 0 (asking (get_worker i)) g of
        (Inl e, g) \<Rightarrow> (Inl (http_error_of e), g)
      | (Inr None, g) \<Rightarrow> (Inl (HNotFound (Msg ''worker {id_str}'' [ArgStr raw])), g)
      | (Inr (Some w), g) \<Rightarrow>
          let g = snd (store_call en 1 (append_event (WorkerLeft i (plain_text reason) (av_clk en 0))) g);
              g = link cfg (LinkUnregister i) g in
     (case store_call en 2 (delete_worker i) g of
        (Inl e, g) \<Rightarrow> (Inl (http_error_of e), g)
      | (Inr _, g) \<Rightarrow> (Inr reason, record_mutation_audit en 3 1 ctx ''worker.deregister'' ''worker'' (show_worker en i) g)))))"

section \<open>The operational credential of a worker\<close>

record rotated_credential =
  rk_worker_id :: worker_id
  rk_operational_token :: string
  rk_credential :: worker_operational_credential

text \<open>\<open>now + Duration::seconds(s as i64)\<close>, which panics when out of range.\<close>

definition expiry_after :: "api_env \<Rightarrow> datetime \<Rightarrow> u64 option \<Rightarrow> datetime option option" where
  "expiry_after en now s =
     (case s of
        None \<Rightarrow> Some None
      | Some n \<Rightarrow> (case av_add_secs en now (sint n) of None \<Rightarrow> None | Some t \<Rightarrow> Some (Some t)))"

definition random_token :: "api_env \<Rightarrow> string \<Rightarrow> (http_error, string) result" where
  "random_token en pre =
     (case av_random en 32 of
        Inl e \<Rightarrow> Inl (HInternal (Msg ''CSPRNG failure: {error}'' [ArgText e]))
      | Inr bs \<Rightarrow> Inr (pre @ base64url bs))"

definition rotate_worker_credential ::
    "api_env \<Rightarrow> string \<Rightarrow> u64 option \<Rightarrow> gateway \<Rightarrow> (http_error, rotated_credential) result \<times> gateway" where
  "rotate_worker_credential en raw expires_in g =
     (case av_parse_uuid en raw of
        None \<Rightarrow> (Inl (HBadRequest (Msg ''invalid worker_id: {e}'' [])), g)
      | Some u \<Rightarrow>
          let i = WorkerId u in
     (case store_call en 0 (asking (get_worker i)) g of
        (Inl e, g) \<Rightarrow> (Inl (http_error_of e), g)
      | (Inr None, g) \<Rightarrow> (Inl (HNotFound (Msg ''worker {id_str}'' [ArgStr raw])), g)
      | (Inr (Some _), g) \<Rightarrow>
     (case expiry_after en (av_clk en 0) expires_in of
        None \<Rightarrow> (Inl HPanicked, g)
      | Some expires \<Rightarrow>
     (case random_token en ''fwo_'' of
        Inl e \<Rightarrow> (Inl e, g)
      | Inr token \<Rightarrow>
     (case store_call en 1 (rotate_worker_operational_credential (av_clk en 1) i (av_digest en token) expires) g of
        (Inl NotFound, g) \<Rightarrow> (Inl (HNotFound (Msg ''no operational credential for worker {id_str}'' [ArgStr raw])), g)
      | (Inl e, g) \<Rightarrow> (Inl (http_error_of e), g)
      | (Inr c, g) \<Rightarrow> (Inr \<lparr> rk_worker_id = i, rk_operational_token = token, rk_credential = c \<rparr>, g))))))"

definition revoke_worker_credential :: "api_env \<Rightarrow> string \<Rightarrow> gateway \<Rightarrow> (http_error, unit) result \<times> gateway" where
  "revoke_worker_credential en raw g =
     (case av_parse_uuid en raw of
        None \<Rightarrow> (Inl (HBadRequest (Msg ''invalid worker_id: {e}'' [])), g)
      | Some u \<Rightarrow>
          (case store_call en 0 (revoke_worker_operational_credential (av_clk en 0) (WorkerId u)) g of
             (Inl e, g) \<Rightarrow> (Inl (http_error_of e), g)
           | (Inr revoked, g) \<Rightarrow>
               if \<not> revoked then (Inl (HNotFound (Msg ''no active operational credential for worker {id_str}'' [ArgStr raw])), g)
               else (Inr (), g)))"

section \<open>Joining\<close>

record join_request =
  jr_token :: string
  jr_name :: string
  jr_agent_endpoint :: string
  jr_labels :: labels
  jr_max_concurrent_tasks :: u32
  jr_worker_version :: "string option"
  jr_liveness_mode :: worker_liveness_mode

record join_response =
  jp_worker_id :: worker_id
  jp_heartbeat_interval_secs :: u32
  jp_config_revision :: u32
  jp_status :: string
  jp_worker_config_toml :: string

record worker_config_toml_params =
  tp_name :: string
  tp_agent_endpoint :: string
  tp_labels :: labels
  tp_operational_token :: string
  tp_worker_id :: string
  tp_heartbeat_interval_secs :: u32
  tp_max_concurrent_tasks :: u32
  tp_liveness_mode :: worker_liveness_mode
  tp_orchestrator_url :: "string option"

abbreviation double_quote :: string where
  "double_quote \<equiv> [CHR 0x22]"

definition toml_line :: "string \<Rightarrow> string \<Rightarrow> string" where
  "toml_line key v = key @ '' = '' @ double_quote @ v @ double_quote @ line_feed"

definition toml_banner :: string where
  "toml_banner =
     ''# worker.toml '' @ [CHR 0xE2, CHR 0x80, CHR 0x94] @ '' generated by fleet orchestrator (Phase 8.3 join)''
     @ [CHR 0x0A, CHR 0x0A]"

definition toml_on_demand :: string where
  "toml_on_demand =
     ''liveness_mode = '' @ [CHR 0x22] @ ''on_demand'' @ [CHR 0x22] @ '' # Task dispatch''
     @ [CHR 0xEB, CHR 0x8A, CHR 0x94] @ '' dispatch ''
     @ [CHR 0xEC, CHR 0xA7, CHR 0x81, CHR 0xEC, CHR 0xA0, CHR 0x84] @ '' ACP probe''
     @ [CHR 0xEB, CHR 0xA1, CHR 0x9C] @ '' ''
     @ [CHR 0xED, CHR 0x99, CHR 0x95, CHR 0xEC, CHR 0x9D, CHR 0xB8, CHR 0xED, CHR 0x95, CHR 0x9C, CHR 0xEB, CHR 0x8B, CHR 0xA4]
     @ ''(#70 '' @ [CHR 0xEA, CHR 0xB2, CHR 0x8C, CHR 0xEC, CHR 0x9D, CHR 0xB4, CHR 0xED, CHR 0x8A, CHR 0xB8]
     @ '' 5). Agent ''
     @ [CHR 0xEB, CHR 0xB0, CHR 0xB0, CHR 0xEC, CHR 0xB9, CHR 0x98, CHR 0xEB, CHR 0x8A, CHR 0x94] @ '' ''
     @ [CHR 0xEC, CHR 0x95, CHR 0x84, CHR 0xEC, CHR 0xA7, CHR 0x81] @ '' '' @ [CHR 0xEC, CHR 0x9D, CHR 0xB4]
     @ '' '' @ [CHR 0xEB, CHR 0xAA, CHR 0xA8, CHR 0xEB, CHR 0x93, CHR 0x9C, CHR 0xEB, CHR 0xA5, CHR 0xBC]
     @ '' ''
     @ [CHR 0xEC, CHR 0xA0, CHR 0x9C, CHR 0xEC, CHR 0x99, CHR 0xB8, CHR 0xED, CHR 0x95, CHR 0x9C, CHR 0xEB, CHR 0x8B, CHR 0xA4]
     @ ''(#61)'' @ [CHR 0x0A]"

text \<open>The value of \<open>server-key=\<close> in the endpoint.\<close>

definition grok_secret_of :: "string \<Rightarrow> string" where
  "grok_secret_of endpoint =
     (case find_sub server_key_marker endpoint of
        None \<Rightarrow> ''<replace-with-grok-secret>''
      | Some idx \<Rightarrow> takeWhile (\<lambda>c. \<not> ends_value c) (drop (idx + length server_key_marker) endpoint))"

definition render_worker_config_toml :: "worker_config_toml_params \<Rightarrow> string" where
  "render_worker_config_toml p =
     toml_banner @ ''[worker]'' @ line_feed
     @ toml_line ''name'' (tp_name p)
     @ toml_line ''orchestrator_url'' (case tp_orchestrator_url p of
         Some url \<Rightarrow> if trim url \<noteq> [] then url else ''<set-to-your-orchestrator-url>''
       | None \<Rightarrow> ''<set-to-your-orchestrator-url>'')
     @ ''heartbeat_interval_secs = '' @ dec (unat (tp_heartbeat_interval_secs p)) @ line_feed
     @ toml_line ''operational_token'' (tp_operational_token p)
     @ toml_line ''existing_worker_id'' (tp_worker_id p)
     @ (if tp_liveness_mode p = OnDemand then toml_on_demand else [])
     @ (if tp_labels p = [] then []
        else ''labels = { '' @ join_with '', ''
          (map (\<lambda>(k, v). k @ '' = '' @ double_quote @ v @ double_quote) (sort_key fst (tp_labels p))) @ '' }'' @ line_feed)
     @ line_feed @ ''[grok]'' @ line_feed
     @ toml_line ''bin'' ''/usr/local/bin/grok''
     @ toml_line ''bind_addr'' ''0.0.0.0:2419''
     @ toml_line ''secret'' (grok_secret_of (tp_agent_endpoint p))
     @ ''max_concurrent_tasks = '' @ dec (unat (tp_max_concurrent_tasks p)) @ line_feed
     @ ''restart_delay_secs = 5'' @ line_feed"

definition join_worker ::
    "api_env \<Rightarrow> api_config \<Rightarrow> join_request \<Rightarrow> gateway \<Rightarrow> (http_error, join_response) result \<times> gateway" where
  "join_worker en cfg rq g =
     (if trim (jr_token rq) = [] then (Inl (HBadRequest (plain_text ''token must not be empty'')), g)
      else let name = trim (jr_name rq) in
      if name = [] then (Inl (HBadRequest (plain_text ''name must not be empty'')), g)
      else
     (case validate_worker_name name of
        Inl e \<Rightarrow> (Inl e, g)
      | Inr _ \<Rightarrow>
          if trim (jr_agent_endpoint rq) = [] then (Inl (HBadRequest (plain_text ''agent_endpoint must not be empty'')), g)
          else
     (case store_call en 0 (asking (get_worker_by_name name)) g of
        (Inl e, g) \<Rightarrow> (Inl (http_error_of e), g)
      | (Inr (Some _), g) \<Rightarrow>
          (Inl (HConflict (Msg (''worker name '{name}' already exists '' @ [CHR 0xE2, CHR 0x80, CHR 0x94]
             @ '' use POST /v1/workers/register to re-register'') [ArgStr name])), g)
      | (Inr None, g) \<Rightarrow>
          let i = WorkerId (av_fresh en 0);
              worker = build_worker (av_clk en 0) \<lparr> np_worker_id = i, np_name = name, np_endpoint = jr_agent_endpoint rq,
                np_labels = jr_labels rq, np_max_concurrent = jr_max_concurrent_tasks rq, np_max_agent_processes = None,
                np_worker_version = jr_worker_version rq, np_liveness_mode = jr_liveness_mode rq \<rparr> None in
     (case random_token en ''fwo_'' of
        Inl e \<Rightarrow> (Inl e, g)
      | Inr token \<Rightarrow>
          let c = \<lparr> woc_worker_id = i, woc_credential_digest = av_digest en token, woc_issued_at = av_clk en 1,
                woc_expires_at = None, woc_revoked_at = None, woc_rotation_generation = 1 \<rparr> in
     (case store_call en 1 (enroll_worker (av_digest en) (av_clk en 2) (av_clk en 3) (jr_token rq) name worker c) g of
        (Inl (BootstrapTokenInvalid m), g) \<Rightarrow> (Inl (HUnauthorized (Msg ''bootstrap token rejected: {msg}'' [ArgText m])), g)
      | (Inl e, g) \<Rightarrow> (Inl (http_error_of e), g)
      | (Inr _, g) \<Rightarrow>
          let g = link cfg (LinkRegister i (w_endpoint worker) (w_max_concurrent worker)) g;
              g = snd (store_call en 2 (append_event (WorkerJoined i (w_name worker) (mask_server_key (w_endpoint worker)) (av_clk en 4))) g)
          in (Inr \<lparr> jp_worker_id = i, jp_heartbeat_interval_secs = ap_heartbeat_interval_secs cfg, jp_config_revision = 1,
                jp_status = ''online'', jp_worker_config_toml = render_worker_config_toml \<lparr> tp_name = name,
                  tp_agent_endpoint = jr_agent_endpoint rq, tp_labels = jr_labels rq, tp_operational_token = token,
                  tp_worker_id = show_worker en i, tp_heartbeat_interval_secs = ap_heartbeat_interval_secs cfg,
                  tp_max_concurrent_tasks = jr_max_concurrent_tasks rq, tp_liveness_mode = jr_liveness_mode rq,
                  tp_orchestrator_url = ap_public_base_url cfg \<rparr> \<rparr>, g))))))"

end
