(* ===== verification/Api_Tokens.thy ===== *)
theory Api_Tokens
  imports Api_Workers
begin

text \<open>
  Bootstrap tokens, admin tokens and model credentials (\<open>crates/fleet-api/src/handlers.rs\<close>, and the first
  admin token of \<open>app.rs\<close>). Issuing a token is undone when it cannot be audited; a credential is not
  exported when that cannot be.
\<close>

section \<open>Bootstrap tokens\<close>

record create_bootstrap_token_request =
  cbr_prefix :: string
  cbr_bytes :: nat
  cbr_max_uses :: u32
  cbr_expires_in_secs :: "u64 option"
  cbr_notes :: "string option"
  cbr_created_by :: "string option"

record created_bootstrap_token =
  cbp_token :: string
  cbp_row :: bootstrap_token

definition create_bootstrap_token_api ::
    "api_env \<Rightarrow> authorization_context option \<Rightarrow> create_bootstrap_token_request \<Rightarrow> gateway
     \<Rightarrow> (http_error, created_bootstrap_token) result \<times> gateway" where
  "create_bootstrap_token_api en ctx rq g =
     (if \<not> (8 \<le> cbr_bytes rq \<and> cbr_bytes rq \<le> 256)
      then (Inl (HBadRequest (Msg ''bytes must be between 8 and 256 (got {})'' [ArgNum (int (cbr_bytes rq))])), g)
      else if cbr_max_uses rq = 0 then (Inl (HBadRequest (plain_text ''max_uses must be >= 1'')), g)
      else if list_ex (\<lambda>c. \<not> ascii_alnum c \<and> c \<noteq> CHR ''_'' \<and> c \<noteq> CHR ''-'') (cbr_prefix rq)
      then (Inl (HBadRequest (plain_text ''prefix must be alphanumeric, '_', or '-' only'')), g)
      else
     (case av_random en (cbr_bytes rq) of
        Inl e \<Rightarrow> (Inl (HInternal (Msg ''CSPRNG failure: {e}'' [ArgText e])), g)
      | Inr raw \<Rightarrow>
          let encoded = base64url raw;
              token = (if cbr_prefix rq = [] then encoded else cbr_prefix rq @ ''_'' @ encoded);
              now = av_clk en 0 in
     (case expiry_after en now (cbr_expires_in_secs rq) of
        None \<Rightarrow> (Inl HPanicked, g)
      | Some expires \<Rightarrow>
          let bt = \<lparr> bt_token_digest = av_digest en token, bt_created_at = now, bt_created_by = cbr_created_by rq,
                bt_expires_at = expires, bt_max_uses = cbr_max_uses rq, bt_use_count = 0, bt_notes = cbr_notes rq,
                bt_last_used_by = None, bt_last_used_at = None \<rparr> in
     (case store_call en 0 (create_bootstrap_token bt) g of
        (Inl e, g) \<Rightarrow> (Inl (http_error_of e), g)
      | (Inr _, g) \<Rightarrow>
     (case access_call en 1 (record_audit_event
             (api_event (av_clk en 1) ctx ''token.bootstrap.issue'' ''bootstrap_token'' (public_id bt))) g of
        (Inl _, g) \<Rightarrow>
          (Inl (HInternal (plain_text ''audit recording failed; issued bootstrap token was revoked'')),
           snd (store_call en 2 (revoke_bootstrap_token (bt_token_digest bt)) g))
      | (Inr _, g) \<Rightarrow> (Inr \<lparr> cbp_token = token, cbp_row = bt \<rparr>, g))))))"

text \<open>A row without its digest; the public id is the digest's.\<close>

record bootstrap_token_summary =
  bts_token_id :: string
  bts_created_at :: datetime
  bts_expires_at :: "datetime option"
  bts_max_uses :: u32
  bts_use_count :: u32
  bts_remaining_uses :: u32
  bts_notes :: "string option"
  bts_last_used_by :: "string option"
  bts_last_used_at :: "datetime option"

definition bootstrap_token_summary_of :: "bootstrap_token \<Rightarrow> bootstrap_token_summary" where
  "bootstrap_token_summary_of t = \<lparr> bts_token_id = public_id t, bts_created_at = bt_created_at t,
     bts_expires_at = bt_expires_at t, bts_max_uses = bt_max_uses t, bts_use_count = bt_use_count t,
     bts_remaining_uses = remaining_uses t, bts_notes = bt_notes t, bts_last_used_by = bt_last_used_by t,
     bts_last_used_at = bt_last_used_at t \<rparr>"

definition list_bootstrap_tokens_api :: "api_env \<Rightarrow> gateway \<Rightarrow> (http_error, bootstrap_token_summary list) result \<times> gateway" where
  "list_bootstrap_tokens_api en g =
     (case store_call en 0 (asking list_bootstrap_tokens) g of
        (Inl e, g) \<Rightarrow> (Inl (http_error_of e), g)
      | (Inr ts, g) \<Rightarrow> (Inr (map bootstrap_token_summary_of ts), g))"

definition revoke_bootstrap_token_api ::
    "api_env \<Rightarrow> authorization_context option \<Rightarrow> string \<Rightarrow> gateway \<Rightarrow> (http_error, unit) result \<times> gateway" where
  "revoke_bootstrap_token_api en ctx token_id g =
     (case digest_from_public_id token_id of
        None \<Rightarrow> (Inl (HNotFound (plain_text ''bootstrap token not found'')), g)
      | Some d \<Rightarrow>
          (case store_call en 0 (revoke_bootstrap_token d) g of
             (Inl e, g) \<Rightarrow> (Inl (http_error_of e), g)
           | (Inr revoked, g) \<Rightarrow>
               if \<not> revoked then (Inl (HNotFound (plain_text ''bootstrap token not found'')), g)
               else (Inr (), record_mutation_audit en 1 0 ctx ''token.bootstrap.revoke'' ''bootstrap_token'' token_id g)))"

section \<open>Admin tokens\<close>

record issued_admin_token =
  ia_token :: string
  ia_row :: admin_api_token

definition create_admin_token_api ::
    "api_env \<Rightarrow> authorization_context option \<Rightarrow> string \<Rightarrow> permission_kind list \<Rightarrow> gateway
     \<Rightarrow> (http_error, issued_admin_token) result \<times> gateway" where
  "create_admin_token_api en ctx raw_principal caps g =
     (let who = trim raw_principal in
      if who = [] then (Inl (HBadRequest (plain_text ''principal_id must not be empty'')), g)
      else if caps = [] then (Inl (HBadRequest (plain_text ''capabilities must not be empty'')), g)
      else
     (case random_token en ''fat_'' of
        Inl e \<Rightarrow> (Inl e, g)
      | Inr token \<Rightarrow>
          let t = \<lparr> aa_principal_id = who, aa_token_digest = av_digest en token, aa_capabilities = caps,
                aa_created_at = av_clk en 0, aa_rotated_at = None, aa_revoked_at = None, aa_rotation_generation = 1 \<rparr> in
     (case access_call en 0 (create_admin_token t) g of
        (Inl e, g) \<Rightarrow> (Inl (http_error_of e), g)
      | (Inr _, g) \<Rightarrow>
     (case access_call en 1 (record_audit_event (api_event (av_clk en 1) ctx ''admin_token.create'' ''admin_token'' who)) g of
        (Inl _, g) \<Rightarrow>
          (Inl (HInternal (plain_text ''audit recording failed; issued admin token was revoked'')),
           snd (access_call en 2 (revoke_admin_token (av_clk en 2) who) g))
      | (Inr _, g) \<Rightarrow> (Inr \<lparr> ia_token = token, ia_row = t \<rparr>, g)))))"

record rotated_admin_token =
  ra_token :: string
  ra_row :: admin_api_token
  ra_rotated_at :: datetime

definition rotate_admin_token_api ::
    "api_env \<Rightarrow> authorization_context option \<Rightarrow> string \<Rightarrow> gateway \<Rightarrow> (http_error, rotated_admin_token) result \<times> gateway" where
  "rotate_admin_token_api en ctx who g =
     (case random_token en ''fat_'' of
        Inl e \<Rightarrow> (Inl e, g)
      | Inr token \<Rightarrow>
     (case access_call en 0 (rotate_admin_token (av_clk en 0) who (av_digest en token)) g of
        (Inl NotFound, g) \<Rightarrow> (Inl (HNotFound (Msg ''no admin token for principal {principal_id}'' [ArgStr who])), g)
      | (Inl e, g) \<Rightarrow> (Inl (http_error_of e), g)
      | (Inr t, g) \<Rightarrow>
     (case access_call en 1 (record_audit_event (api_event (av_clk en 1) ctx ''admin_token.rotate'' ''admin_token'' who)) g of
        (Inl _, g) \<Rightarrow>
          (Inl (HInternal (plain_text ''audit recording failed; rotated admin token was revoked'')),
           snd (access_call en 2 (revoke_admin_token (av_clk en 2) who) g))
      | (Inr _, g) \<Rightarrow> (Inr \<lparr> ra_token = token, ra_row = t,
          ra_rotated_at = (case aa_rotated_at t of Some r \<Rightarrow> r | None \<Rightarrow> aa_created_at t) \<rparr>, g))))"

definition revoke_admin_token_api ::
    "api_env \<Rightarrow> authorization_context option \<Rightarrow> string \<Rightarrow> gateway \<Rightarrow> (http_error, unit) result \<times> gateway" where
  "revoke_admin_token_api en ctx who g =
     (case access_call en 0 (revoke_admin_token (av_clk en 0) who) g of
        (Inl e, g) \<Rightarrow> (Inl (http_error_of e), g)
      | (Inr revoked, g) \<Rightarrow>
          if \<not> revoked then (Inl (HNotFound (Msg ''no active admin token for principal {principal_id}'' [ArgStr who])), g)
          else (Inr (), record_mutation_audit en 1 1 ctx ''admin_token.revoke'' ''admin_token'' who g))"

text \<open>A row without its digest.\<close>

record admin_token_summary =
  ats_principal_id :: string
  ats_capabilities :: "permission_kind list"
  ats_created_at :: datetime
  ats_rotated_at :: "datetime option"
  ats_revoked :: bool
  ats_rotation_generation :: int

definition admin_token_summary_of :: "admin_api_token \<Rightarrow> admin_token_summary" where
  "admin_token_summary_of t = \<lparr> ats_principal_id = aa_principal_id t, ats_capabilities = aa_capabilities t,
     ats_created_at = aa_created_at t, ats_rotated_at = aa_rotated_at t, ats_revoked = (aa_revoked_at t \<noteq> None),
     ats_rotation_generation = aa_rotation_generation t \<rparr>"

definition list_admin_tokens_api :: "api_env \<Rightarrow> gateway \<Rightarrow> (http_error, admin_token_summary list) result \<times> gateway" where
  "list_admin_tokens_api en g =
     (case access_call en 0 (asking list_admin_tokens) g of
        (Inl e, g) \<Rightarrow> (Inl (http_error_of e), g)
      | (Inr ts, g) \<Rightarrow> (Inr (map admin_token_summary_of ts), g))"

text \<open>The first admin token, issued at start-up when there is none.\<close>

definition issue_admin_bootstrap_token_if_needed ::
    "api_env \<Rightarrow> gateway \<Rightarrow> (store_error, string option) result \<times> gateway" where
  "issue_admin_bootstrap_token_if_needed en g =
     (case access_call en 0 (asking list_admin_tokens) g of
        (Inl e, g) \<Rightarrow> (Inl e, g)
      | (Inr existing, g) \<Rightarrow>
          if existing \<noteq> [] then (Inr None, g)
          else
     (case av_random en 32 of
        Inl e \<Rightarrow> (Inl (Decode ''CSPRNG failure: {e}''), g)
      | Inr raw \<Rightarrow>
          let token = ''fat_'' @ base64url raw in
     (case access_call en 1 (create_admin_token \<lparr> aa_principal_id = ''bootstrap'', aa_token_digest = av_digest en token,
             aa_capabilities = all_permissions, aa_created_at = av_clk en 0, aa_rotated_at = None, aa_revoked_at = None,
             aa_rotation_generation = 1 \<rparr>) g of
        (Inr _, g) \<Rightarrow> (Inr (Some token), g)
      | (Inl (Conflict _), g) \<Rightarrow> (Inr None, g)
      | (Inl e, g) \<Rightarrow> (Inl e, g))))"

section \<open>Model credentials\<close>

record put_credential_request =
  pr_model_id :: string
  pr_base_url :: string
  pr_api_key :: string
  pr_api_backend :: string
  pr_context_window :: u32
  pr_model_name :: "string option"

definition no_master_key :: http_error where
  "no_master_key = HInternal (plain_text ''master key not configured on this orchestrator'')"

definition credential_missing :: "string \<Rightarrow> string \<Rightarrow> http_error" where
  "credential_missing name model = HNotFound (Msg (''credential not found for worker '{name}' model '{model_id}'' @ [CHR 0x27]) [ArgStr name, ArgStr model])"

text \<open>The worker of a name, or the answer that there is none.\<close>

definition named_worker :: "api_env \<Rightarrow> string \<Rightarrow> gateway \<Rightarrow> (http_error, worker) result \<times> gateway" where
  "named_worker en name g =
     (case store_call en 0 (asking (get_worker_by_name name)) g of
        (Inl e, g) \<Rightarrow> (Inl (http_error_of e), g)
      | (Inr None, g) \<Rightarrow> (Inl (HNotFound (Msg ''worker '{name}' not found'' [ArgStr name])), g)
      | (Inr (Some w), g) \<Rightarrow> (Inr w, g))"

definition put_worker_credential ::
    "api_env \<Rightarrow> api_config \<Rightarrow> authorization_context option \<Rightarrow> string \<Rightarrow> put_credential_request \<Rightarrow> gateway
     \<Rightarrow> (http_error, datetime) result \<times> gateway" where
  "put_worker_credential en cfg ctx name rq g =
     (case named_worker en name g of
        (Inl e, g) \<Rightarrow> (Inl e, g)
      | (Inr w, g) \<Rightarrow>
     (case ap_master_key cfg of
        None \<Rightarrow> (Inl no_master_key, g)
      | Some mk \<Rightarrow>
          if pr_api_key rq = [] then (Inl (HBadRequest (plain_text ''api_key must not be empty'')), g)
          else if pr_base_url rq = [] then (Inl (HBadRequest (plain_text ''base_url must not be empty'')), g)
          else if pr_model_id rq = [] then (Inl (HBadRequest (plain_text ''model_id must not be empty'')), g)
          else
     (case mc_encrypt mk (pr_api_key rq) of
        Inl e \<Rightarrow> (Inl (HInternal (Msg ''encryption failed: {e}'' [ArgText e])), g)
      | Inr blob \<Rightarrow>
     (case store_call en 1 (upsert_worker_credential (av_clk en 0) (w_name w) (pr_model_id rq) blob (pr_base_url rq)
             (pr_api_backend rq) (pr_context_window rq) (pr_model_name rq)) g of
        (Inl e, g) \<Rightarrow> (Inl (http_error_of e), g)
      | (Inr _, g) \<Rightarrow>
     (case store_call en 2 (asking (get_worker_credential (w_name w) (pr_model_id rq))) g of
        (Inl e, g) \<Rightarrow> (Inl (http_error_of e), g)
      | (Inr None, g) \<Rightarrow> (Inl (HInternal (plain_text ''credential upsert succeeded but row not found'')), g)
      | (Inr (Some c), g) \<Rightarrow>
          (Inr (sc_rotated_at c),
           snd (record_credential_audit en 3 1 ctx ''worker.llm_credential.put'' (w_name w) (pr_model_id rq) g)))))))"

text \<open>A row without its encrypted key.\<close>

definition credential_summary_of :: "stored_credential \<Rightarrow> stored_credential" where
  "credential_summary_of c = c\<lparr>sc_encrypted_blob := []\<rparr>"

definition list_worker_credentials_api ::
    "api_env \<Rightarrow> string \<Rightarrow> gateway \<Rightarrow> (http_error, stored_credential list) result \<times> gateway" where
  "list_worker_credentials_api en name g =
     (case named_worker en name g of
        (Inl e, g) \<Rightarrow> (Inl e, g)
      | (Inr w, g) \<Rightarrow>
          (case store_call en 1 (asking (list_worker_credentials (w_name w))) g of
             (Inl e, g) \<Rightarrow> (Inl (http_error_of e), g)
           | (Inr cs, g) \<Rightarrow> (Inr (map credential_summary_of cs), g)))"

text \<open>\<open>String::from_utf8\<close>.\<close>

definition continuation :: "char \<Rightarrow> bool" where
  "continuation c = (code c \<in> {128..191})"

fun utf8_valid :: "string \<Rightarrow> bool" where
  "utf8_valid [] = True"
| "utf8_valid (a # s) =
     (if code a < 128 then utf8_valid s
      else case s of
        [] \<Rightarrow> False
      | b # s2 \<Rightarrow>
          if code a \<in> {194..223} then continuation b \<and> utf8_valid s2
          else (case s2 of
             [] \<Rightarrow> False
           | c # s3 \<Rightarrow>
               if code a \<in> {224..239} then
                 (if code a = 224 then code b \<in> {160..191} else if code a = 237 then code b \<in> {128..159} else continuation b)
                 \<and> continuation c \<and> utf8_valid s3
               else (case s3 of
                  [] \<Rightarrow> False
                | d # s4 \<Rightarrow>
                    if code a \<in> {240..244} then
                      (if code a = 240 then code b \<in> {144..191} else if code a = 244 then code b \<in> {128..143} else continuation b)
                      \<and> continuation c \<and> continuation d \<and> utf8_valid s4
                    else False)))"

record exported_credential =
  ec_api_key :: string
  ec_row :: stored_credential
  ec_grok_config_section :: string

definition credentials_of :: "stored_credential \<Rightarrow> string \<Rightarrow> worker_credentials" where
  "credentials_of c key = \<lparr> wc_worker_name = sc_worker_name c, wc_model_id = sc_model_id c, wc_base_url = sc_base_url c,
     wc_api_key = key, wc_api_backend = sc_api_backend c, wc_context_window = sc_context_window c,
     wc_model = sc_model_name c, wc_rotated_at = Some (sc_rotated_at c) \<rparr>"

definition export_worker_credential ::
    "api_env \<Rightarrow> api_config \<Rightarrow> authorization_context option \<Rightarrow> string \<Rightarrow> string \<Rightarrow> gateway
     \<Rightarrow> (http_error, exported_credential) result \<times> gateway" where
  "export_worker_credential en cfg ctx name model g =
     (case named_worker en name g of
        (Inl e, g) \<Rightarrow> (Inl e, g)
      | (Inr w, g) \<Rightarrow>
     (case ap_master_key cfg of
        None \<Rightarrow> (Inl no_master_key, g)
      | Some mk \<Rightarrow>
     (case store_call en 1 (asking (get_worker_credential (w_name w) model)) g of
        (Inl e, g) \<Rightarrow> (Inl (http_error_of e), g)
      | (Inr None, g) \<Rightarrow> (Inl (credential_missing name model), g)
      | (Inr (Some c), g) \<Rightarrow>
     (case mc_decrypt mk (sc_encrypted_blob c) of
        Inl e \<Rightarrow> (Inl (HInternal (Msg ''decryption failed: {e}'' [ArgText e])), g)
      | Inr key \<Rightarrow>
          if \<not> utf8_valid key then (Inl (HInternal (Msg ''decrypted bytes are not UTF-8: {e}'' [])), g)
          else
     (case record_credential_audit en 2 0 ctx ''worker.llm_credential.export'' (sc_worker_name c) (sc_model_id c) g of
        (Inl _, g) \<Rightarrow> (Inl (HInternal (plain_text ''audit log unavailable; credential export refused'')), g)
      | (Inr _, g) \<Rightarrow> (Inr \<lparr> ec_api_key = key, ec_row = credential_summary_of c,
          ec_grok_config_section = render_grok_config_section (credentials_of c key) \<rparr>, g))))))"

definition delete_worker_credential_api ::
    "api_env \<Rightarrow> authorization_context option \<Rightarrow> string \<Rightarrow> string \<Rightarrow> gateway \<Rightarrow> (http_error, unit) result \<times> gateway" where
  "delete_worker_credential_api en ctx name model g =
     (case store_call en 0 (delete_worker_credential name model) g of
        (Inl e, g) \<Rightarrow> (Inl (http_error_of e), g)
      | (Inr deleted, g) \<Rightarrow>
          if \<not> deleted then (Inl (credential_missing name model), g)
          else (Inr (), snd (record_credential_audit en 1 0 ctx ''worker.llm_credential.delete'' name model g)))"

end
