(* ===== verification/Api_Gate.thy ===== *)
theory Api_Gate
  imports Api_Base
begin

text \<open>
  Authentication of HTTP requests: the bearer and worker credentials of \<open>crates/fleet-api/src/app.rs\<close> and the
  Cloudflare Access tokens of \<open>cloudflare.rs\<close>. SHA-256, JSON Web Token decoding and verification, and the
  network are arguments; the cache of key sets is the state of the latter.
\<close>

section \<open>Static tokens\<close>

text \<open>The last match counts.\<close>

definition token_matches :: "(string \<Rightarrow> string) \<Rightarrow> api_token_credential list \<Rightarrow> string \<Rightarrow> api_token_credential option" where
  "token_matches sha tokens presented =
     fold (\<lambda>c found. if sha presented = sha (tk_token c) then Some c else found) tokens None"

record verified_user =
  vu_email :: string
  vu_audience :: string
  vu_expires_at :: u64

definition cf_access_principal_id :: "verified_user \<Rightarrow> string" where
  "cf_access_principal_id u = (if trim (vu_email u) = [] then ''cf-access:aud:'' @ vu_audience u else vu_email u)"

definition cf_access_capabilities :: "api_config \<Rightarrow> string \<Rightarrow> permission_kind list" where
  "cf_access_capabilities cfg addr =
     (case ap_cf_principal_capabilities cfg of
        None \<Rightarrow> []
      | Some m \<Rightarrow> (case hm_get m (map ascii_lower (trim addr)) of Some caps \<Rightarrow> caps | None \<Rightarrow> []))"

section \<open>The middleware\<close>

record http_request =
  hr_method :: http_method
  hr_path :: string
  hr_authorization :: "string option"
  hr_user :: "verified_user option"

text \<open>An answer: a bare status code, or what the handler returned.\<close>

datatype 'a http_reply = Bare nat | Handled "(http_error, 'a) result"

type_synonym 'a handler = "authorization_context option \<Rightarrow> gateway \<Rightarrow> 'a http_reply \<times> gateway"

text \<open>The end of every branch of the middleware: check the capability, record a denial, or run the handler.\<close>

definition authorized :: "api_env \<Rightarrow> http_request \<Rightarrow> authorization_context \<Rightarrow> 'a handler \<Rightarrow> gateway \<Rightarrow> 'a http_reply \<times> gateway" where
  "authorized en rq c handler g =
     (case authorize_http_endpoint (hr_method rq) (hr_path rq) (Some c) of
        Inl status \<Rightarrow> (Bare status, record_capability_denial en 2 1 (Some c) g)
      | Inr _ \<Rightarrow> handler (Some c) g)"

definition bearer_token :: "http_request \<Rightarrow> string option" where
  "bearer_token rq =
     (case hr_authorization rq of
        None \<Rightarrow> None
      | Some h \<Rightarrow> (case strip_prefix ''Bearer '' h of Some t \<Rightarrow> Some t | None \<Rightarrow> strip_prefix ''bearer '' h))"

definition worker_context :: "api_env \<Rightarrow> worker_operational_credential \<Rightarrow> authorization_context" where
  "worker_context en c = \<lparr> ac_principal_id = ''worker:'' @ show_worker en (woc_worker_id c), ac_method = WorkerOperational,
     ac_capabilities = [PWorkerRegister, PWorkerDelete], ac_worker_id = Some (woc_worker_id c) \<rparr>"

text \<open>A stored worker credential or admin token the bearer token belongs to; an error of the store counts as none.\<close>

definition stored_context :: "api_env \<Rightarrow> string \<Rightarrow> gateway \<Rightarrow> authorization_context option \<times> gateway" where
  "stored_context en token g =
     (case store_call en 0 (asking (find_active_worker_operational_credential (av_clk en 0) (av_digest en token))) g of
        (Inr (Some c), g) \<Rightarrow> (Some (worker_context en c), g)
      | (_, g) \<Rightarrow>
          (case access_call en 1 (asking (find_active_admin_token_by_digest (av_digest en token))) g of
             (Inr (Some t), g) \<Rightarrow>
               if aa_token_digest t = av_digest en token
               then (Some \<lparr> ac_principal_id = aa_principal_id t, ac_method = ScopedBearer,
                       ac_capabilities = aa_capabilities t, ac_worker_id = None \<rparr>, g)
               else (None, g)
           | (_, g) \<Rightarrow> (None, g)))"

definition configured_context :: "api_env \<Rightarrow> api_config \<Rightarrow> http_request \<Rightarrow> authorization_context option" where
  "configured_context en cfg rq =
     (case ap_valid_tokens cfg of
        None \<Rightarrow>
          if (case ap_cf_audience cfg of Some aud \<Rightarrow> trim aud \<noteq> [] | None \<Rightarrow> False) then
            (case hr_user rq of
               None \<Rightarrow> None
             | Some u \<Rightarrow> Some \<lparr> ac_principal_id = cf_access_principal_id u, ac_method = CloudflareAccess,
                 ac_capabilities = cf_access_capabilities cfg (vu_email u), ac_worker_id = None \<rparr>)
          else None
      | Some tokens \<Rightarrow>
          (case bearer_token rq of
             None \<Rightarrow> None
           | Some token \<Rightarrow>
               (case token_matches (av_sha en) tokens token of
                  None \<Rightarrow> None
                | Some c \<Rightarrow> Some \<lparr> ac_principal_id = tk_principal_id c, ac_method = ScopedBearer,
                    ac_capabilities = tk_capabilities c, ac_worker_id = None \<rparr>)))"

definition development_context :: authorization_context where
  "development_context = \<lparr> ac_principal_id = ''development'', ac_method = DevelopmentNoAuth,
     ac_capabilities = all_permissions, ac_worker_id = None \<rparr>"

text \<open>Routes that need no credential.\<close>

definition open_route :: "http_method \<Rightarrow> string \<Rightarrow> bool" where
  "open_route m raw = (normalized_v1_path raw = ''/health'' \<or> (m = HPost \<and> normalized_v1_path raw = ''/workers/join''))"

definition auth_middleware :: "api_env \<Rightarrow> api_config \<Rightarrow> http_request \<Rightarrow> 'a handler \<Rightarrow> gateway \<Rightarrow> 'a http_reply \<times> gateway" where
  "auth_middleware en cfg rq handler g =
     (if ap_allow_no_auth cfg then authorized en rq development_context handler g
      else if open_route (hr_method rq) (hr_path rq) then handler None g
      else case (case bearer_token rq of None \<Rightarrow> (None, g) | Some token \<Rightarrow> stored_context en token g) of
        (Some c, g) \<Rightarrow> authorized en rq c handler g
      | (None, g) \<Rightarrow>
          (case configured_context en cfg rq of
             None \<Rightarrow> (Bare 401, g)
           | Some c \<Rightarrow> authorized en rq c handler g))"

section \<open>Admin tokens at start-up\<close>

fun import_tokens :: "api_env \<Rightarrow> nat \<Rightarrow> string list \<Rightarrow> api_token_credential list \<Rightarrow> gateway \<Rightarrow> (store_error, unit) result \<times> gateway" where
  "import_tokens en n known [] g = (Inr (), g)"
| "import_tokens en n known (t # ts) g =
     (if tk_principal_id t \<in> set known then import_tokens en (Suc n) known ts g
      else case access_call en n (create_admin_token \<lparr> aa_principal_id = tk_principal_id t,
              aa_token_digest = av_digest en (tk_token t), aa_capabilities = tk_capabilities t, aa_created_at = av_clk en n,
              aa_rotated_at = None, aa_revoked_at = None, aa_rotation_generation = 1 \<rparr>) g of
        (Inr _, g) \<Rightarrow> import_tokens en (Suc n) known ts g
      | (Inl (Conflict _), g) \<Rightarrow> import_tokens en (Suc n) known ts g
      | (Inl e, g) \<Rightarrow> (Inl e, g))"

definition sync_env_admin_tokens_to_store ::
    "api_env \<Rightarrow> api_token_credential list \<Rightarrow> gateway \<Rightarrow> (store_error, unit) result \<times> gateway" where
  "sync_env_admin_tokens_to_store en tokens g =
     (case access_call en 0 (asking list_admin_tokens) g of
        (Inl e, g) \<Rightarrow> (Inl e, g)
      | (Inr existing, g) \<Rightarrow> import_tokens en 1 (map aa_principal_id existing) tokens g)"

section \<open>Cross-origin rules\<close>

definition looks_like_origin :: "string \<Rightarrow> bool" where
  "looks_like_origin s \<longleftrightarrow> (starts_with ''https://'' s \<or> starts_with ''http://'' s) \<and> \<not> ends_with s ''/'' \<and>
     length (filter (\<lambda>c. c = CHR ''/'') s) = 2"

text \<open>The origins of the allow list; \<open>header_ok\<close> says which strings are header values.\<close>

definition cors_origins :: "(string \<Rightarrow> bool) \<Rightarrow> string list \<Rightarrow> string list" where
  "cors_origins header_ok origins =
     filter (\<lambda>s. s \<noteq> [] \<and> s \<noteq> ''*'' \<and> looks_like_origin s \<and> header_ok s) (map trim origins)"

section \<open>Cloudflare Access\<close>

record cf_claims =
  cc_exp :: u64
  cc_aud :: string
  cc_iss :: "string option"
  cc_email :: "string option"

type_synonym jwk_set = "(string \<times> string) list"
type_synonym jwks_cache = "(string, jwk_set \<times> instant) hmap"

text \<open>
  \<open>cv_kid\<close> reads a token's header, \<open>cv_payload\<close> decodes the claims of its middle part unverified, \<open>cv_fetch\<close>
  gets a key set from a URL, \<open>cv_verify\<close> checks a token's signature, expiry and audience.
\<close>

record cf_env =
  cv_kid :: "string \<Rightarrow> string option option"
  cv_payload :: "string \<Rightarrow> cf_claims option"
  cv_fetch :: "string \<Rightarrow> jwk_set option"
  cv_verify :: "string \<Rightarrow> string option \<Rightarrow> string \<Rightarrow> cf_claims option"
  cv_clk :: "nat \<Rightarrow> instant"
  cv_others :: "jwks_cache \<Rightarrow> jwks_cache"

definition parse_jwt_unsafe :: "cf_env \<Rightarrow> string \<Rightarrow> cf_claims option" where
  "parse_jwt_unsafe cv jwt =
     (let parts = split_on (CHR ''.'') jwt
      in if length parts \<noteq> 3 then None else cv_payload cv (parts ! 1))"

definition jwks_find :: "jwk_set \<Rightarrow> string \<Rightarrow> string option" where
  "jwks_find ks kid = map_option snd (List.find (\<lambda>(k, _). k = kid) ks)"

definition fetch_jwk_set :: "cf_env \<Rightarrow> string \<Rightarrow> jwk_set option" where
  "fetch_jwk_set cv iss =
     (if \<not> starts_with ''https://'' iss \<or> \<not> ends_with iss ''.cloudflareaccess.com'' then None
      else cv_fetch cv (iss @ ''/cdn-cgi/access/certs''))"

definition cached_jwk :: "instant \<Rightarrow> string \<Rightarrow> string \<Rightarrow> jwks_cache \<Rightarrow> string option" where
  "cached_jwk now iss kid cache =
     (case hm_get cache iss of
        Some (jwks, last_updated) \<Rightarrow> if now - last_updated < secs 3600 then jwks_find jwks kid else None
      | None \<Rightarrow> None)"

definition get_jwk :: "cf_env \<Rightarrow> string \<Rightarrow> string \<Rightarrow> jwks_cache \<Rightarrow> string option \<times> jwks_cache" where
  "get_jwk cv iss kid cache =
     (case cached_jwk (cv_clk cv 0) iss kid cache of
        Some k \<Rightarrow> (Some k, cache)
      | None \<Rightarrow>
          let cache = cv_others cv cache
          in (case cached_jwk (cv_clk cv 1) iss kid cache of
                Some k \<Rightarrow> (Some k, cache)
              | None \<Rightarrow>
                  (case fetch_jwk_set cv iss of
                     None \<Rightarrow> (None, cache)
                   | Some jwks \<Rightarrow>
                       (case jwks_find jwks kid of
                          None \<Rightarrow> (None, cache)
                        | Some k \<Rightarrow> (Some k, hm_insert iss (jwks, cv_clk cv 2) cache)))))"

text \<open>The middleware: the user it attaches to the request, if any, or a status.\<close>

definition cloudflare_access_middleware ::
    "cf_env \<Rightarrow> api_config \<Rightarrow> http_request \<Rightarrow> string option \<Rightarrow> jwks_cache \<Rightarrow> (nat, verified_user option) result \<times> jwks_cache" where
  "cloudflare_access_middleware cv cfg rq assertion cache =
     (if ap_allow_no_auth cfg then (Inr None, cache)
      else if hr_path rq = ''/v1/health'' \<or> hr_path rq = ''/health'' then (Inr None, cache)
      else case assertion of
        None \<Rightarrow> (Inl 401, cache)
      | Some jwt \<Rightarrow>
     (case cv_kid cv jwt of
        None \<Rightarrow> (Inl 401, cache)
      | Some None \<Rightarrow> (Inl 401, cache)
      | Some (Some kid) \<Rightarrow>
     (case parse_jwt_unsafe cv jwt of
        None \<Rightarrow> (Inl 401, cache)
      | Some claims \<Rightarrow>
     (case cc_iss claims of
        None \<Rightarrow> (Inl 401, cache)
      | Some iss \<Rightarrow>
     (case get_jwk cv iss kid cache of
        (None, cache) \<Rightarrow> (Inl 401, cache)
      | (Some k, cache) \<Rightarrow>
     (case cv_verify cv k (ap_cf_audience cfg) jwt of
        None \<Rightarrow> (Inl 401, cache)
      | Some c \<Rightarrow> (Inr (Some \<lparr> vu_email = (case cc_email c of Some e \<Rightarrow> e | None \<Rightarrow> []),
           vu_audience = cc_aud c, vu_expires_at = cc_exp c \<rparr>), cache)))))))"

text \<open>Both layers; the outer one is there when an audience is configured.\<close>

definition guarded ::
    "cf_env \<Rightarrow> api_env \<Rightarrow> api_config \<Rightarrow> http_request \<Rightarrow> string option \<Rightarrow> 'a handler \<Rightarrow> gateway \<times> jwks_cache
     \<Rightarrow> 'a http_reply \<times> gateway \<times> jwks_cache" where
  "guarded cv en cfg rq assertion handler = (\<lambda>(g, cache).
     if ap_cf_audience cfg = None then
       (case auth_middleware en cfg (rq\<lparr>hr_user := None\<rparr>) handler g of (r, g) \<Rightarrow> (r, g, cache))
     else case cloudflare_access_middleware cv cfg rq assertion cache of
       (Inl status, cache) \<Rightarrow> (Bare status, g, cache)
     | (Inr user, cache) \<Rightarrow>
         (case auth_middleware en cfg (rq\<lparr>hr_user := user\<rparr>) handler g of (r, g) \<Rightarrow> (r, g, cache)))"

end
