(* ===== verification/Api_Routes.thy ===== *)
theory Api_Routes
  imports Api_Tokens Api_Gate
begin

text \<open>
  The routing table of the HTTP API (\<open>build_app\<close> in \<open>crates/fleet-api/src/app.rs\<close>) and a whole request: both
  authentication layers, the route, the handler. A path is below \<open>/v1\<close>. A segment is decoded by \<open>decode\<close>; what
  the JSON decoder makes of a body is a field of \<open>request_body\<close>.
\<close>

section \<open>Routes\<close>

datatype endpoint = EpHealth | EpRegisterHost | EpRegisterWorker | EpJoin | EpHeartbeat | EpListWorkers
  | EpGetWorker string | EpDeregister string | EpRotateCredential string | EpRevokeCredential string
  | EpPutLlm string | EpListLlm string | EpExportLlm string string | EpDeleteLlm string string
  | EpCreateBootstrap | EpListBootstrap | EpRevokeBootstrap string
  | EpCreateAdmin | EpListAdmin | EpRotateAdmin string | EpRevokeAdmin string

text \<open>
  The methods of the path with these segments, none when the path is unknown. A fixed segment takes
  precedence over a parameter, and a parameter is not empty.
\<close>

definition worker_routes :: "string list \<Rightarrow> (http_method \<times> endpoint) list" where
  "worker_routes segs =
     (case segs of
        [] \<Rightarrow> [(HGet, EpListWorkers)]
      | [x] \<Rightarrow>
          if x = ''register'' then [(HPost, EpRegisterWorker)]
          else if x = ''join'' then [(HPost, EpJoin)]
          else if x = ''heartbeat'' then [(HPost, EpHeartbeat)]
          else if x = [] then []
          else [(HGet, EpGetWorker x), (HDelete, EpDeregister x)]
      | [x, y] \<Rightarrow>
          if x = [] then []
          else if y = ''credential'' then [(HDelete, EpRevokeCredential x)]
          else if y = ''credentials'' then [(HPut, EpPutLlm x), (HGet, EpListLlm x)]
          else []
      | [x, y, z] \<Rightarrow>
          if x = [] then []
          else if y = ''credential'' \<and> z = ''rotate'' then [(HPost, EpRotateCredential x)]
          else if y = ''credentials'' \<and> z \<noteq> [] then [(HDelete, EpDeleteLlm x z)]
          else []
      | [x, y, z, e] \<Rightarrow>
          if x \<noteq> [] \<and> y = ''credentials'' \<and> z \<noteq> [] \<and> e = ''export'' then [(HGet, EpExportLlm x z)] else []
      | _ \<Rightarrow> [])"

definition token_routes :: "string list \<Rightarrow> (http_method \<times> endpoint) list" where
  "token_routes segs =
     (case segs of
        [] \<Rightarrow> [(HPost, EpCreateBootstrap), (HGet, EpListBootstrap)]
      | [x] \<Rightarrow> if x = [] then [] else [(HDelete, EpRevokeBootstrap x)]
      | _ \<Rightarrow> [])"

definition admin_token_routes :: "string list \<Rightarrow> (http_method \<times> endpoint) list" where
  "admin_token_routes segs =
     (case segs of
        [] \<Rightarrow> [(HPost, EpCreateAdmin), (HGet, EpListAdmin)]
      | [x] \<Rightarrow> if x = [] then [] else [(HDelete, EpRevokeAdmin x)]
      | [x, y] \<Rightarrow> if x \<noteq> [] \<and> y = ''rotate'' then [(HPost, EpRotateAdmin x)] else []
      | _ \<Rightarrow> [])"

definition v1_routes :: "string list \<Rightarrow> (http_method \<times> endpoint) list" where
  "v1_routes segs =
     (case segs of
        r # a # rest \<Rightarrow>
          if r \<noteq> [] then []
          else if a = ''health'' \<and> rest = [] then [(HGet, EpHealth)]
          else if a = ''hosts'' \<and> rest = [''register''] then [(HPost, EpRegisterHost)]
          else if a = ''workers'' then worker_routes rest
          else if a = ''bootstrap-tokens'' then token_routes rest
          else if a = ''admin'' then (case rest of b # rest \<Rightarrow> if b = ''tokens'' then admin_token_routes rest else [] | [] \<Rightarrow> [])
          else []
      | _ \<Rightarrow> [])"

text \<open>A \<open>HEAD\<close> request is answered by the route for \<open>GET\<close>.\<close>

definition route :: "http_method \<Rightarrow> string \<Rightarrow> (nat, endpoint) result" where
  "route m p =
     (let table = v1_routes (split_on (CHR ''/'') p); m = (if m = HMethod ''HEAD'' then HGet else m)
      in if table = [] then Inl 404
         else case map_of table m of Some e \<Rightarrow> Inr e | None \<Rightarrow> Inl 405)"

section \<open>A request\<close>

record request_body =
  bd_rejected :: nat
  bd_host :: "host_register_request option"
  bd_register :: "register_request option"
  bd_join :: "join_request option"
  bd_heartbeat :: "heartbeat_request option"
  bd_query :: "list_workers_query option"
  bd_reason :: "string option"
  bd_expires_in :: "u64 option"
  bd_credential :: "put_credential_request option"
  bd_bootstrap :: "create_bootstrap_token_request option"
  bd_admin :: "(string \<times> permission_kind list) option"

datatype api_answer = AnsHealth | AnsHost uuid | AnsRegistered register_response | AnsJoined join_response
  | AnsBeat heartbeat_response | AnsWorkers "api_worker_summary list" | AnsWorker api_worker_summary
  | AnsDeregistered string | AnsRotated rotated_credential | AnsDone | AnsStored datetime
  | AnsCredentials "stored_credential list" | AnsExported exported_credential
  | AnsBootstrap created_bootstrap_token | AnsBootstraps "bootstrap_token_summary list"
  | AnsAdmin issued_admin_token | AnsAdminRotated rotated_admin_token | AnsAdmins "admin_token_summary list"

definition answer :: "('a \<Rightarrow> api_answer) \<Rightarrow> (http_error, 'a) result \<times> gateway \<Rightarrow> api_answer http_reply \<times> gateway" where
  "answer f = (\<lambda>(r, g). (Handled (case r of Inl e \<Rightarrow> Inl e | Inr a \<Rightarrow> Inr (f a)), g))"

text \<open>A handler that takes a decoded body, or a decoded path parameter.\<close>

definition with_body :: "request_body \<Rightarrow> 'b option \<Rightarrow> ('b \<Rightarrow> api_answer http_reply \<times> gateway) \<Rightarrow> gateway \<Rightarrow> api_answer http_reply \<times> gateway" where
  "with_body body x h g = (case x of None \<Rightarrow> (Bare (bd_rejected body), g) | Some b \<Rightarrow> h b)"

definition with_param :: "(string \<Rightarrow> string option) \<Rightarrow> string \<Rightarrow> (string \<Rightarrow> api_answer http_reply \<times> gateway) \<Rightarrow> gateway \<Rightarrow> api_answer http_reply \<times> gateway" where
  "with_param decode seg h g = (case decode seg of None \<Rightarrow> (Bare 400, g) | Some s \<Rightarrow> h s)"

primrec run_endpoint ::
    "endpoint \<Rightarrow> (string \<Rightarrow> string option) \<Rightarrow> api_env \<Rightarrow> api_config \<Rightarrow> request_body \<Rightarrow> api_answer handler" where
  "run_endpoint EpHealth decode en cfg body = (\<lambda>ctx g. (Handled (Inr AnsHealth), g))"
| "run_endpoint EpRegisterHost decode en cfg body = (\<lambda>ctx g.
     with_body body (bd_host body) (\<lambda>b. answer AnsHost (register_host en ctx b g)) g)"
| "run_endpoint EpRegisterWorker decode en cfg body = (\<lambda>ctx g.
     with_body body (bd_register body) (\<lambda>b. answer AnsRegistered (register_worker en cfg ctx b g)) g)"
| "run_endpoint EpJoin decode en cfg body = (\<lambda>ctx g.
     with_body body (bd_join body) (\<lambda>b. answer AnsJoined (join_worker en cfg b g)) g)"
| "run_endpoint EpHeartbeat decode en cfg body = (\<lambda>ctx g.
     with_body body (bd_heartbeat body) (\<lambda>b. answer AnsBeat (heartbeat en ctx b g)) g)"
| "run_endpoint EpListWorkers decode en cfg body = (\<lambda>ctx g.
     with_body body (bd_query body) (\<lambda>b. answer AnsWorkers (list_workers_api en b g)) g)"
| "run_endpoint (EpGetWorker x) decode en cfg body = (\<lambda>ctx g.
     with_param decode x (\<lambda>i. answer AnsWorker (get_worker_api en i g)) g)"
| "run_endpoint (EpDeregister x) decode en cfg body = (\<lambda>ctx g.
     with_param decode x (\<lambda>i. answer AnsDeregistered (deregister_worker en cfg ctx i (bd_reason body) g)) g)"
| "run_endpoint (EpRotateCredential x) decode en cfg body = (\<lambda>ctx g.
     with_param decode x (\<lambda>i. answer AnsRotated (rotate_worker_credential en i (bd_expires_in body) g)) g)"
| "run_endpoint (EpRevokeCredential x) decode en cfg body = (\<lambda>ctx g.
     with_param decode x (\<lambda>i. answer (\<lambda>_. AnsDone) (revoke_worker_credential en i g)) g)"
| "run_endpoint (EpPutLlm x) decode en cfg body = (\<lambda>ctx g.
     with_param decode x (\<lambda>n. with_body body (bd_credential body) (\<lambda>b. answer AnsStored (put_worker_credential en cfg ctx n b g)) g) g)"
| "run_endpoint (EpListLlm x) decode en cfg body = (\<lambda>ctx g.
     with_param decode x (\<lambda>n. answer AnsCredentials (list_worker_credentials_api en n g)) g)"
| "run_endpoint (EpExportLlm x y) decode en cfg body = (\<lambda>ctx g.
     with_param decode x (\<lambda>n. with_param decode y (\<lambda>m. answer AnsExported (export_worker_credential en cfg ctx n m g)) g) g)"
| "run_endpoint (EpDeleteLlm x y) decode en cfg body = (\<lambda>ctx g.
     with_param decode x (\<lambda>n. with_param decode y (\<lambda>m. answer (\<lambda>_. AnsDone) (delete_worker_credential_api en ctx n m g)) g) g)"
| "run_endpoint EpCreateBootstrap decode en cfg body = (\<lambda>ctx g.
     with_body body (bd_bootstrap body) (\<lambda>b. answer AnsBootstrap (create_bootstrap_token_api en ctx b g)) g)"
| "run_endpoint EpListBootstrap decode en cfg body = (\<lambda>ctx g. answer AnsBootstraps (list_bootstrap_tokens_api en g))"
| "run_endpoint (EpRevokeBootstrap x) decode en cfg body = (\<lambda>ctx g.
     with_param decode x (\<lambda>t. answer (\<lambda>_. AnsDone) (revoke_bootstrap_token_api en ctx t g)) g)"
| "run_endpoint EpCreateAdmin decode en cfg body = (\<lambda>ctx g.
     with_body body (bd_admin body) (\<lambda>(who, caps). answer AnsAdmin (create_admin_token_api en ctx who caps g)) g)"
| "run_endpoint EpListAdmin decode en cfg body = (\<lambda>ctx g. answer AnsAdmins (list_admin_tokens_api en g))"
| "run_endpoint (EpRotateAdmin x) decode en cfg body = (\<lambda>ctx g.
     with_param decode x (\<lambda>p. answer AnsAdminRotated (rotate_admin_token_api en ctx p g)) g)"
| "run_endpoint (EpRevokeAdmin x) decode en cfg body = (\<lambda>ctx g.
     with_param decode x (\<lambda>p. answer (\<lambda>_. AnsDone) (revoke_admin_token_api en ctx p g)) g)"

definition routed :: "(string \<Rightarrow> string option) \<Rightarrow> api_env \<Rightarrow> api_config \<Rightarrow> http_request \<Rightarrow> request_body \<Rightarrow> api_answer handler" where
  "routed decode en cfg rq body ctx g =
     (case route (hr_method rq) (hr_path rq) of
        Inl status \<Rightarrow> (Bare status, g)
      | Inr e \<Rightarrow> run_endpoint e decode en cfg body ctx g)"

text \<open>A path without a route gets the outer router's 404, in front of both layers; a wrong method is answered behind them.\<close>

definition serve ::
    "(string \<Rightarrow> string option) \<Rightarrow> cf_env \<Rightarrow> api_env \<Rightarrow> api_config \<Rightarrow> http_request \<Rightarrow> string option \<Rightarrow> request_body
     \<Rightarrow> gateway \<times> jwks_cache \<Rightarrow> api_answer http_reply \<times> gateway \<times> jwks_cache" where
  "serve decode cv en cfg rq assertion body gc =
     (if route (hr_method rq) (hr_path rq) = Inl 404 then (Bare 404, gc)
      else guarded cv en cfg rq assertion (routed decode en cfg rq body) gc)"

end
