(* ===== verification/Api_Claims.thy ===== *)
theory Api_Claims
  imports Api_Routes
begin

text \<open>
  What the HTTP API guarantees and where it does not: the capability of every route, the gate in front of
  the handlers, what a worker's own credential can reach, tokens and their audit, and the heartbeat of
  a worker that comes back.
\<close>

section \<open>The path of every route\<close>

primrec path_of :: "endpoint \<Rightarrow> string" where
  "path_of EpHealth = ''/health''"
| "path_of EpRegisterHost = ''/hosts/register''"
| "path_of EpRegisterWorker = ''/workers/register''"
| "path_of EpJoin = ''/workers/join''"
| "path_of EpHeartbeat = ''/workers/heartbeat''"
| "path_of EpListWorkers = ''/workers''"
| "path_of (EpGetWorker x) = ''/workers/'' @ x"
| "path_of (EpDeregister x) = ''/workers/'' @ x"
| "path_of (EpRotateCredential x) = ''/workers/'' @ x @ ''/credential/rotate''"
| "path_of (EpRevokeCredential x) = ''/workers/'' @ x @ ''/credential''"
| "path_of (EpPutLlm x) = ''/workers/'' @ x @ ''/credentials''"
| "path_of (EpListLlm x) = ''/workers/'' @ x @ ''/credentials''"
| "path_of (EpExportLlm x y) = ''/workers/'' @ x @ ''/credentials/'' @ y @ ''/export''"
| "path_of (EpDeleteLlm x y) = ''/workers/'' @ x @ ''/credentials/'' @ y"
| "path_of EpCreateBootstrap = ''/bootstrap-tokens''"
| "path_of EpListBootstrap = ''/bootstrap-tokens''"
| "path_of (EpRevokeBootstrap x) = ''/bootstrap-tokens/'' @ x"
| "path_of EpCreateAdmin = ''/admin/tokens''"
| "path_of EpListAdmin = ''/admin/tokens''"
| "path_of (EpRotateAdmin x) = ''/admin/tokens/'' @ x @ ''/rotate''"
| "path_of (EpRevokeAdmin x) = ''/admin/tokens/'' @ x"

primrec method_of :: "endpoint \<Rightarrow> http_method" where
  "method_of EpHealth = HGet" | "method_of EpRegisterHost = HPost" | "method_of EpRegisterWorker = HPost"
| "method_of EpJoin = HPost" | "method_of EpHeartbeat = HPost" | "method_of EpListWorkers = HGet"
| "method_of (EpGetWorker x) = HGet" | "method_of (EpDeregister x) = HDelete"
| "method_of (EpRotateCredential x) = HPost" | "method_of (EpRevokeCredential x) = HDelete"
| "method_of (EpPutLlm x) = HPut" | "method_of (EpListLlm x) = HGet" | "method_of (EpExportLlm x y) = HGet"
| "method_of (EpDeleteLlm x y) = HDelete" | "method_of EpCreateBootstrap = HPost" | "method_of EpListBootstrap = HGet"
| "method_of (EpRevokeBootstrap x) = HDelete" | "method_of EpCreateAdmin = HPost" | "method_of EpListAdmin = HGet"
| "method_of (EpRotateAdmin x) = HPost" | "method_of (EpRevokeAdmin x) = HDelete"

primrec params_of :: "endpoint \<Rightarrow> string list" where
  "params_of EpHealth = []" | "params_of EpRegisterHost = []" | "params_of EpRegisterWorker = []"
| "params_of EpJoin = []" | "params_of EpHeartbeat = []" | "params_of EpListWorkers = []"
| "params_of (EpGetWorker x) = [x]" | "params_of (EpDeregister x) = [x]"
| "params_of (EpRotateCredential x) = [x]" | "params_of (EpRevokeCredential x) = [x]"
| "params_of (EpPutLlm x) = [x]" | "params_of (EpListLlm x) = [x]" | "params_of (EpExportLlm x y) = [x, y]"
| "params_of (EpDeleteLlm x y) = [x, y]" | "params_of EpCreateBootstrap = []" | "params_of EpListBootstrap = []"
| "params_of (EpRevokeBootstrap x) = [x]" | "params_of EpCreateAdmin = []" | "params_of EpListAdmin = []"
| "params_of (EpRotateAdmin x) = [x]" | "params_of (EpRevokeAdmin x) = [x]"

text \<open>The capability each route is documented to need.\<close>

primrec endpoint_capability :: "endpoint \<Rightarrow> permission_kind option" where
  "endpoint_capability EpHealth = None" | "endpoint_capability EpRegisterHost = Some PHostProvision"
| "endpoint_capability EpRegisterWorker = Some PWorkerRegister"
| "endpoint_capability EpJoin = None" | "endpoint_capability EpHeartbeat = Some PWorkerRegister"
| "endpoint_capability EpListWorkers = Some PWorkerList"
| "endpoint_capability (EpGetWorker x) = Some PWorkerList" | "endpoint_capability (EpDeregister x) = Some PWorkerDelete"
| "endpoint_capability (EpRotateCredential x) = Some PWorkerCredentialManage"
| "endpoint_capability (EpRevokeCredential x) = Some PWorkerCredentialManage"
| "endpoint_capability (EpPutLlm x) = Some PWorkerLlmCredentialManage"
| "endpoint_capability (EpListLlm x) = Some PWorkerLlmCredentialRead"
| "endpoint_capability (EpExportLlm x y) = Some PWorkerLlmCredentialExport"
| "endpoint_capability (EpDeleteLlm x y) = Some PWorkerLlmCredentialManage"
| "endpoint_capability EpCreateBootstrap = Some PTokenIssue" | "endpoint_capability EpListBootstrap = Some PTokenList"
| "endpoint_capability (EpRevokeBootstrap x) = Some PTokenRevoke"
| "endpoint_capability EpCreateAdmin = Some PAdminTokenManage" | "endpoint_capability EpListAdmin = Some PAdminTokenList"
| "endpoint_capability (EpRotateAdmin x) = Some PAdminTokenManage"
| "endpoint_capability (EpRevokeAdmin x) = Some PAdminTokenManage"

lemma split_path:
  "split_on (CHR ''/'') p = segs \<Longrightarrow> p = join_on (CHR ''/'') segs"
  using join_split[of "CHR ''/''" p] by simp

lemma worker_paths:
  assumes "(m, e) \<in> set (worker_routes segs)"
  shows "join_on (CHR ''/'') ([] # ''workers'' # segs) = path_of e \<and> m = method_of e \<and> set (params_of e) \<subseteq> set segs - {[]}"
proof (cases segs)
  case Nil
  then show ?thesis using assms by (simp add: worker_routes_def)
next
  case (Cons x xs)
  note x = Cons
  show ?thesis
  proof (cases xs)
    case Nil
    then show ?thesis using assms by (auto simp: worker_routes_def x split: if_splits)
  next
    case (Cons y ys)
    note y = Cons
    show ?thesis
    proof (cases ys)
      case Nil
      then show ?thesis using assms by (auto simp: worker_routes_def x y split: if_splits)
    next
      case (Cons z zs)
      note z = Cons
      show ?thesis
      proof (cases zs)
        case Nil
        then show ?thesis using assms by (auto simp: worker_routes_def x y z split: if_splits)
      next
        case (Cons w ws)
        then show ?thesis using assms by (cases ws) (auto simp: worker_routes_def x y z split: if_splits)
      qed
    qed
  qed
qed

lemma token_paths:
  assumes "(m, e) \<in> set (token_routes segs)"
  shows "join_on (CHR ''/'') ([] # ''bootstrap-tokens'' # segs) = path_of e \<and> m = method_of e \<and> set (params_of e) \<subseteq> set segs - {[]}"
proof (cases segs)
  case Nil
  then show ?thesis using assms by (auto simp: token_routes_def)
next
  case (Cons x xs)
  then show ?thesis using assms by (cases xs) (auto simp: token_routes_def split: if_splits)
qed

lemma admin_token_paths:
  assumes "(m, e) \<in> set (admin_token_routes segs)"
  shows "join_on (CHR ''/'') ([] # ''admin'' # ''tokens'' # segs) = path_of e \<and> m = method_of e \<and> set (params_of e) \<subseteq> set segs - {[]}"
proof (cases segs)
  case Nil
  then show ?thesis using assms by (auto simp: admin_token_routes_def)
next
  case (Cons x xs)
  note x = Cons
  show ?thesis
  proof (cases xs)
    case Nil
    then show ?thesis using assms by (auto simp: admin_token_routes_def x split: if_splits)
  next
    case (Cons y ys)
    then show ?thesis using assms by (cases ys) (auto simp: admin_token_routes_def x split: if_splits)
  qed
qed

lemma table_paths:
  assumes "(m, e) \<in> set (v1_routes segs)"
  shows "join_on (CHR ''/'') segs = path_of e \<and> m = method_of e \<and> set (params_of e) \<subseteq> set segs - {[]}"
proof -
  obtain r a xs where segs: "segs = r # a # xs" "r = []"
    using assms unfolding v1_routes_def by (cases segs rule: remdups_adj.cases) (simp_all split: if_split_asm)
  note step = assms[unfolded segs v1_routes_def list.case]
  show ?thesis
  proof (cases "a = ''health'' \<and> xs = []")
    case True
    then show ?thesis using step by (simp add: segs)
  next
    case health: False
    show ?thesis
    proof (cases "a = ''hosts'' \<and> xs = [''register'']")
      case True
      then show ?thesis using step by (simp add: segs)
    next
      case hosts: False
      consider "a = ''workers''" | "a = ''bootstrap-tokens''" | ys where "a = ''admin''" "xs = ''tokens'' # ys"
      proof (cases "a = ''workers'' \<or> a = ''bootstrap-tokens''")
        case False
        then have a: "a = ''admin''" using step health hosts by (cases "a = ''admin''") auto
        then have rest: "(m, e) \<in> set (case xs of b # rest \<Rightarrow> if b = ''tokens'' then admin_token_routes rest else [] | [] \<Rightarrow> [])"
          using step by simp
        then obtain b ys where xs: "xs = b # ys" by (cases xs) auto
        then have "b = ''tokens''" using rest by (cases "b = ''tokens''") auto
        then show thesis using that(3) a xs by simp
      qed (use that in blast)
      then show ?thesis
      proof cases
        case 1
        then show ?thesis using worker_paths[of m e xs] step by (auto simp: segs)
      next
        case 2
        then show ?thesis using token_paths[of m e xs] step by (auto simp: segs)
      next
        case 3
        then show ?thesis using admin_token_paths[of m e ys] step by (auto simp: segs)
      qed
    qed
  qed
qed

lemma route_path:
  assumes "route m p = Inr e"
  shows "p = path_of e" "m = method_of e \<or> (method_of e = HGet \<and> m = HMethod ''HEAD'')"
    "\<forall>x \<in> set (params_of e). x \<noteq> [] \<and> CHR ''/'' \<notin> set x"
proof -
  let ?segs = "split_on (CHR ''/'') p" and ?m = "if m = HMethod ''HEAD'' then HGet else m"
  have "map_of (v1_routes ?segs) ?m = Some e"
    using assms by (auto simp: route_def Let_def split: if_splits option.splits)
  then have e: "(?m, e) \<in> set (v1_routes ?segs)" by (rule map_of_SomeD)
  note t = table_paths[OF e]
  show "p = path_of e" using t split_path[of p] by simp
  show "m = method_of e \<or> (method_of e = HGet \<and> m = HMethod ''HEAD'')" using t by (auto split: if_splits)
  show "\<forall>x \<in> set (params_of e). x \<noteq> [] \<and> CHR ''/'' \<notin> set x" using t split_on_no_sep by blast
qed

section \<open>The capability of every route\<close>

lemma ends_with_iff: "ends_with s pat \<longleftrightarrow> (\<exists>a. s = a @ pat)"
proof
  assume "ends_with s pat"
  then have "s = take (length s - length pat) s @ pat" by (metis append_take_drop_id ends_with_def)
  then show "\<exists>a. s = a @ pat" by blast
qed (auto simp: ends_with_def)

lemma ends_with_segment:
  assumes "CHR ''/'' \<notin> set x" "CHR ''/'' \<notin> set w"
  shows "ends_with (u @ CHR ''/'' # x) (CHR ''/'' # w) \<longleftrightarrow> x = w"
proof
  assume "ends_with (u @ CHR ''/'' # x) (CHR ''/'' # w)"
  then obtain a where "u @ CHR ''/'' # x = a @ CHR ''/'' # w" by (auto simp: ends_with_iff)
  then have "takeWhile (\<lambda>c. c \<noteq> CHR ''/'') (rev (u @ CHR ''/'' # x)) = takeWhile (\<lambda>c. c \<noteq> CHR ''/'') (rev (a @ CHR ''/'' # w))"
    by simp
  moreover have "takeWhile (\<lambda>c. c \<noteq> CHR ''/'') (rev (b @ CHR ''/'' # v)) = rev v" if "CHR ''/'' \<notin> set v" for b v
    using that by (simp add: takeWhile_append)
  ultimately show "x = w" using assms by (metis rev_rev_ident)
qed (auto simp: ends_with_iff)

lemma ends_with_two_segments:
  assumes "CHR ''/'' \<notin> set x" "CHR ''/'' \<notin> set y" "CHR ''/'' \<notin> set v" "CHR ''/'' \<notin> set w"
  shows "ends_with (u @ CHR ''/'' # x @ CHR ''/'' # y) (CHR ''/'' # v @ CHR ''/'' # w) \<longleftrightarrow> x = v \<and> y = w"
proof
  assume e: "ends_with (u @ CHR ''/'' # x @ CHR ''/'' # y) (CHR ''/'' # v @ CHR ''/'' # w)"
  then have "ends_with ((u @ CHR ''/'' # x) @ CHR ''/'' # y) (CHR ''/'' # w)" by (auto simp: ends_with_iff)
  then have y: "y = w" using ends_with_segment assms(2,4) by metis
  then have "ends_with (u @ CHR ''/'' # x) (CHR ''/'' # v)" using e by (auto simp: ends_with_iff)
  then show "x = v \<and> y = w" using y ends_with_segment assms(1,3) by metis
qed (auto simp: ends_with_iff)

lemma strip_own_prefix [simp]: "strip_prefix pat (pat @ r) = Some r"
  by (simp add: strip_prefix_def)

lemma llm_route_none: "CHR ''/'' \<notin> set x \<Longrightarrow> llm_credential_route (''/workers/'' @ x) = None"
  by (simp add: llm_credential_route_def del: append_Cons)

lemma llm_route_segment:
  assumes "CHR ''/'' \<notin> set x" "x \<noteq> []"
  shows "llm_credential_route (''/workers/'' @ x @ ''/'' @ tail) =
    (case strip_prefix ''credentials'' tail of None \<Rightarrow> None
     | Some tail \<Rightarrow> let item = rev (dropWhile (\<lambda>c. c = CHR ''/'') (rev tail))
         in if item = [] then Some LlmCollection
            else if take 1 item = ''/'' \<and> ends_with item ''/export'' then Some LlmExport else Some LlmItem)"
proof -
  have "takeWhile (\<lambda>c. c \<noteq> CHR ''/'') (x @ CHR ''/'' # tail) = x" "dropWhile (\<lambda>c. c \<noteq> CHR ''/'') (x @ CHR ''/'' # tail) = CHR ''/'' # tail"
    using assms by (simp_all add: takeWhile_append dropWhile_append)
  then show ?thesis unfolding llm_credential_route_def strip_own_prefix option.case using assms(2)
    by (simp add: Let_def)
qed

lemma rev_no_slash: "CHR ''/'' \<notin> set y \<Longrightarrow> y \<noteq> [] \<Longrightarrow> rev (dropWhile (\<lambda>c. c = CHR ''/'') (rev (z @ y))) = z @ y"
  by (cases y rule: rev_cases) auto

lemma llm_routes:
  assumes "CHR ''/'' \<notin> set x" "x \<noteq> []"
  shows "llm_credential_route (''/workers/'' @ x @ ''/credentials'') = Some LlmCollection"
    "CHR ''/'' \<notin> set y \<Longrightarrow> y \<noteq> [] \<Longrightarrow> llm_credential_route (''/workers/'' @ x @ ''/credentials/'' @ y) \<noteq> None"
    "llm_credential_route (''/workers/'' @ x @ ''/credentials/'' @ y @ ''/export'') = Some LlmExport"
proof -
  show "llm_credential_route (''/workers/'' @ x @ ''/credentials'') = Some LlmCollection"
    using llm_route_segment[OF assms, of "''credentials''"] by (simp add: strip_prefix_def)
  have item: "strip_prefix ''credentials'' (''credentials/'' @ z) = Some (''/'' @ z)" for z
    by (simp add: strip_prefix_def)
  show "llm_credential_route (''/workers/'' @ x @ ''/credentials/'' @ y) \<noteq> None" if y: "CHR ''/'' \<notin> set y" "y \<noteq> []"
    using llm_route_segment[OF assms, of "''credentials/'' @ y"] rev_no_slash[OF y, of "''/''"]
    unfolding item option.case by (auto simp: Let_def)
  have full: "rev (dropWhile (\<lambda>c. c = CHR ''/'') (rev (''/'' @ y @ ''/export''))) = ''/'' @ y @ ''/export''"
    by simp
  have "ends_with (''/'' @ y @ ''/export'') ''/export''" unfolding ends_with_iff by (rule exI[of _ "''/'' @ y"]) simp
  then show "llm_credential_route (''/workers/'' @ x @ ''/credentials/'' @ y @ ''/export'') = Some LlmExport"
    using llm_route_segment[OF assms, of "''credentials/'' @ y @ ''/export''"] unfolding item option.case full by (simp add: Let_def)
qed

text \<open>The three paths whose last segments look like those of a worker's own credential.\<close>

definition misrouted :: "endpoint \<Rightarrow> bool" where
  "misrouted e \<longleftrightarrow> (\<exists>x. e = EpDeleteLlm x ''credential'') \<or> e = EpRotateAdmin ''credential'' \<or> e = EpDeregister ''credential''"

lemma worker_segment_ends:
  assumes "CHR ''/'' \<notin> set x"
  shows "ends_with (''/workers/'' @ x) ''/credential'' \<longleftrightarrow> x = ''credential''"
  using ends_with_segment[OF assms, of "''credential''" "''/workers''"] by simp

lemma capability_of_route:
  assumes "\<forall>x \<in> set (params_of e). x \<noteq> [] \<and> CHR ''/'' \<notin> set x" "e \<noteq> EpHealth" "e \<noteq> EpJoin"
  shows "required_capability (method_of e) (path_of e) =
    (if misrouted e then Some PWorkerCredentialManage else endpoint_capability e)"
proof (cases e)
  case (EpGetWorker x)
  then show ?thesis using assms llm_route_none[of x]
    by (simp add: required_capability_def misrouted_def is_worker_by_id_route_def strip_prefix_def)
next
  case (EpDeregister x)
  then show ?thesis using assms llm_route_none[of x] worker_segment_ends[of x]
    by (simp add: required_capability_def misrouted_def starts_with_def)
next
  case (EpRotateCredential x)
  have "ends_with (''/workers/'' @ x @ ''/credential/rotate'') ''/credential/rotate''"
    unfolding ends_with_iff by (rule exI[of _ "''/workers/'' @ x"]) simp
  then show ?thesis using EpRotateCredential by (simp add: required_capability_def misrouted_def)
next
  case (EpRevokeCredential x)
  have "ends_with (''/workers/'' @ x @ ''/credential'') ''/credential''"
    unfolding ends_with_iff by (rule exI[of _ "''/workers/'' @ x"]) simp
  then show ?thesis using EpRevokeCredential by (simp add: required_capability_def misrouted_def starts_with_def)
next
  case (EpPutLlm x)
  then show ?thesis using assms llm_routes(1)[of x] by (simp add: required_capability_def misrouted_def)
next
  case (EpListLlm x)
  then show ?thesis using assms llm_routes(1)[of x] by (simp add: required_capability_def misrouted_def)
next
  case (EpExportLlm x y)
  then show ?thesis using assms llm_routes(3)[of x y] by (simp add: required_capability_def misrouted_def)
next
  case (EpDeleteLlm x y)
  have "ends_with (''/workers/'' @ x @ ''/credentials/'' @ y) ''/credential'' \<longleftrightarrow> y = ''credential''"
    using ends_with_segment[of y "''credential''" "''/workers/'' @ x @ ''/credentials''"] assms EpDeleteLlm by simp
  then show ?thesis using EpDeleteLlm assms llm_routes(2)[of x y]
    by (simp add: required_capability_def misrouted_def starts_with_def)
next
  case (EpRotateAdmin x)
  have 1: "ends_with (''/admin/tokens/'' @ x @ ''/rotate'') ''/credential/rotate'' \<longleftrightarrow> x = ''credential''"
    using ends_with_two_segments[of x "''rotate''" "''credential''" "''rotate''" "''/admin/tokens''"] assms EpRotateAdmin by simp
  have "ends_with (''/admin/tokens/'' @ x @ ''/rotate'') ''/rotate''"
    unfolding ends_with_iff by (rule exI[of _ "''/admin/tokens/'' @ x"]) simp
  then show ?thesis using EpRotateAdmin 1 by (simp add: required_capability_def misrouted_def starts_with_def)
next
  case (EpRevokeAdmin x)
  then show ?thesis by (simp add: required_capability_def misrouted_def starts_with_def llm_credential_route_def strip_prefix_def)
next
  case (EpRevokeBootstrap x)
  then show ?thesis by (simp add: required_capability_def misrouted_def starts_with_def llm_credential_route_def strip_prefix_def)
qed (use assms in \<open>simp_all add: required_capability_def misrouted_def starts_with_def ends_with_def llm_credential_route_def
    is_worker_by_id_route_def strip_prefix_def\<close>)

lemma path_normal: "normalized_v1_path (path_of e) = path_of e"
  by (cases e) (simp_all add: normalized_v1_path_def strip_prefix_def)

lemma open_routes: "open_route (method_of e) (path_of e) \<longleftrightarrow> e = EpHealth \<or> e = EpJoin"
  unfolding open_route_def path_normal by (cases e) simp_all

lemma head_needs: "required_capability (HMethod x) p = None"
  by (simp add: required_capability_def)

text \<open>
  Every route of the API is either one of the two open ones, the health check and joining with a
  bootstrap token, or is in the capability matrix with the capability it is documented to need; a \<open>HEAD\<close>
  request for a guarded route is never allowed. Three paths are misrouted to the capability that manages worker
  credentials, because their last segments read like a worker's own credential: deleting the model credential
  of a model named \<open>credential\<close>, removing a worker of that (impossible) id, and, outside the worker
  routes altogether, rotating the API token of a principal named \<open>credential\<close>.
\<close>

theorem every_route_guarded:
  assumes "route m p = Inr e"
  shows "(m \<noteq> HMethod ''HEAD'' \<longrightarrow> (open_route m p \<longleftrightarrow> e = EpHealth \<or> e = EpJoin)) \<and>
    (\<not> open_route m p \<longrightarrow> required_capability m (normalized_v1_path p) =
       (if m = HMethod ''HEAD'' then None else if misrouted e then Some PWorkerCredentialManage else endpoint_capability e))"
proof (cases "m = HMethod ''HEAD''")
  case True
  then show ?thesis by (simp add: head_needs)
next
  case False
  then have m: "m = method_of e" and p: "p = path_of e" using route_path[OF assms] by auto
  show ?thesis using False capability_of_route[OF route_path(3)[OF assms]] open_routes[of e]
    by (auto simp: m p path_normal)
qed

theorem every_route_guarded_witness:
  "route HPost ''/admin/tokens/credential/rotate'' = Inr (EpRotateAdmin ''credential'') \<and>
    required_capability HPost (normalized_v1_path ''/admin/tokens/credential/rotate'') = Some PWorkerCredentialManage"
proof -
  have r: "route HPost ''/admin/tokens/credential/rotate'' = Inr (EpRotateAdmin ''credential'')" by code_simp
  have "\<not> open_route HPost ''/admin/tokens/credential/rotate''" by code_simp
  then show ?thesis using every_route_guarded[OF r] r by (simp add: misrouted_def)
qed

section \<open>The gate\<close>

text \<open>The credentials a request may show, and what they make of the one who asks.\<close>

definition entitled :: "cf_env \<Rightarrow> api_env \<Rightarrow> api_config \<Rightarrow> http_request \<Rightarrow> string option \<Rightarrow> gateway \<times> jwks_cache \<Rightarrow> authorization_context \<Rightarrow> bool" where
  "entitled cv en cfg rq assertion gc c \<longleftrightarrow>
     (ap_allow_no_auth cfg \<and> c = development_context) \<or>
     (\<exists>t k. bearer_token rq = Some t \<and>
        hm_get (ms_operational_credentials (yd_store (gw_yard (fst gc)))) (av_digest en t) = Some k \<and>
        credential_active (av_clk en 0) k \<and> c = worker_context en k) \<or>
     (\<exists>t a. bearer_token rq = Some t \<and> a \<in> set (hm_values (xs_admin_api_tokens (gw_access (fst gc)))) \<and>
        aa_token_digest a = av_digest en t \<and> aa_revoked_at a = None \<and> ac_principal_id c = aa_principal_id a \<and>
        ac_capabilities c = aa_capabilities a \<and> ac_worker_id c = None) \<or>
     (\<exists>t k ks. bearer_token rq = Some t \<and> ap_valid_tokens cfg = Some ks \<and> k \<in> set ks \<and>
        av_sha en (tk_token k) = av_sha en t \<and> ac_principal_id c = tk_principal_id k \<and>
        ac_capabilities c = tk_capabilities k \<and> ac_worker_id c = None) \<or>
     (\<exists>u. fst (cloudflare_access_middleware cv cfg rq assertion (snd gc)) = Inr (Some u) \<and>
        ac_capabilities c = cf_access_capabilities cfg (vu_email u) \<and> ac_worker_id c = None)"

definition only_audited :: "gateway \<Rightarrow> gateway \<Rightarrow> bool" where
  "only_audited g g' \<longleftrightarrow> (\<exists>es. length es \<le> 1 \<and> g' = g\<lparr>gw_access := (gw_access g)\<lparr>xs_audit_events := xs_audit_events (gw_access g) @ es\<rparr>\<rparr>)"

lemma only_audited_refl: "only_audited g g"
  unfolding only_audited_def by (rule exI[of _ "[]"]) simp

lemma denial_only_audits:
  assumes "av_others en = (\<lambda>_ g. g)"
  shows "only_audited g (record_capability_denial en n k ctx g)"
proof (cases "is_failing_access (gw_access g) ''record_audit_event''")
  case True
  then have "record_capability_denial en n k ctx g = g"
    by (simp add: record_capability_denial_def access_call_def record_audit_event_def assms)
  then show ?thesis using only_audited_refl by simp
next
  case False
  then show ?thesis unfolding only_audited_def
    by (intro exI[of _ "[new_event (av_clk en k) (audit_actor_label ctx) ''http.capability_denied'' AuditFailure]"])
      (simp add: record_capability_denial_def access_call_def record_audit_event_def assms)
qed

lemma token_matches_sound:
  "token_matches sha ks t = Some k \<Longrightarrow> k \<in> set ks \<and> sha (tk_token k) = sha t"
proof -
  have "fold (\<lambda>c found. if sha t = sha (tk_token c) then Some c else found) ks x = Some k \<Longrightarrow>
      x = Some k \<or> (k \<in> set ks \<and> sha (tk_token k) = sha t)" for x
    by (induction ks arbitrary: x) (fastforce split: if_splits)+
  then show "token_matches sha ks t = Some k \<Longrightarrow> k \<in> set ks \<and> sha (tk_token k) = sha t"
    unfolding token_matches_def by blast
qed

definition context_source :: "api_env \<Rightarrow> api_config \<Rightarrow> http_request \<Rightarrow> gateway \<Rightarrow> authorization_context \<Rightarrow> bool" where
  "context_source en cfg rq g c \<longleftrightarrow> (ap_allow_no_auth cfg \<and> c = development_context) \<or>
     (\<exists>t. bearer_token rq = Some t \<and> fst (stored_context en t g) = Some c) \<or> configured_context en cfg rq = Some c"

lemma stored_context_same: "av_others en = (\<lambda>_ g. g) \<Longrightarrow> snd (stored_context en t g) = g"
  by (auto simp: stored_context_def store_call_def access_call_def asking_def split: sum.splits option.splits)

lemma authorized_cases:
  assumes "authorized en rq c h g = (r, g')" "av_others en = (\<lambda>_ g. g)"
  shows "(r = Bare 403 \<and> only_audited g g') \<or>
    (authorize_http_endpoint (hr_method rq) (hr_path rq) (Some c) = Inr () \<and> h (Some c) g = (r, g'))"
proof (cases "authorize_http_endpoint (hr_method rq) (hr_path rq) (Some c)")
  case (Inl status)
  then have "status = 403" by (auto simp: authorize_http_endpoint_def Let_def split: if_splits option.splits)
  then show ?thesis using assms Inl denial_only_audits[OF assms(2)] by (auto simp: authorized_def)
next
  case (Inr u)
  then show ?thesis using assms by (auto simp: authorized_def)
qed

lemma middleware_cases:
  assumes "auth_middleware en cfg rq h g = (r, g')" "av_others en = (\<lambda>_ g. g)"
  shows "(r \<in> {Bare 401, Bare 403} \<and> only_audited g g') \<or>
    (open_route (hr_method rq) (hr_path rq) \<and> h None g = (r, g')) \<or>
    (\<exists>c. context_source en cfg rq g c \<and> authorize_http_endpoint (hr_method rq) (hr_path rq) (Some c) = Inr () \<and>
       h (Some c) g = (r, g'))"
proof (cases "ap_allow_no_auth cfg")
  case True
  then show ?thesis using assms authorized_cases[of en rq development_context h g r g']
    by (auto simp: auth_middleware_def context_source_def)
next
  case False
  show ?thesis
  proof (cases "open_route (hr_method rq) (hr_path rq)")
    case True
    then show ?thesis using assms False by (simp add: auth_middleware_def)
  next
    case shut: False
    obtain found g1 where f: "(case bearer_token rq of None \<Rightarrow> (None, g) | Some token \<Rightarrow> stored_context en token g) = (found, g1)"
      by fastforce
    have g1: "g1 = g" using f stored_context_same[OF assms(2)] by (auto split: option.splits dest: arg_cong[of _ _ snd])
    have run: "(case found of Some c \<Rightarrow> authorized en rq c h g
        | None \<Rightarrow> (case configured_context en cfg rq of None \<Rightarrow> (Bare 401, g) | Some c \<Rightarrow> authorized en rq c h g)) = (r, g')"
      using assms(1) False shut f g1 by (auto simp: auth_middleware_def split: option.splits)
    show ?thesis
    proof (cases found)
      case (Some c)
      then have "context_source en cfg rq g c" using f by (auto simp: context_source_def split: option.splits)
      then show ?thesis using run Some authorized_cases[OF _ assms(2)] by fastforce
    next
      case None
      show ?thesis
      proof (cases "configured_context en cfg rq")
        case (Some c)
        then have "context_source en cfg rq g c" by (simp add: context_source_def)
        then show ?thesis using run None Some authorized_cases[OF _ assms(2)] by fastforce
      qed (use run None only_audited_refl in auto)
    qed
  qed
qed

lemma stored_context_found:
  assumes "fst (stored_context en t g) = Some c" "av_others en = (\<lambda>_ g. g)"
  shows "(\<exists>k. hm_get (ms_operational_credentials (yd_store (gw_yard g))) (av_digest en t) = Some k \<and>
      credential_active (av_clk en 0) k \<and> c = worker_context en k) \<or>
    (\<exists>a. a \<in> set (hm_values (xs_admin_api_tokens (gw_access g))) \<and> aa_token_digest a = av_digest en t \<and> aa_revoked_at a = None \<and>
      ac_principal_id c = aa_principal_id a \<and> ac_capabilities c = aa_capabilities a \<and> ac_worker_id c = None)"
proof (cases "find_active_worker_operational_credential (av_clk en 0) (av_digest en t) (yd_store (gw_yard g))")
  case (Inr found)
  show ?thesis
  proof (cases found)
    case (Some k)
    then show ?thesis using assms Inr
      by (auto simp: stored_context_def store_call_def asking_def find_active_worker_operational_credential_def
          split: option.splits if_splits)
  next
    case None
    then obtain a where "find_active_admin_token_by_digest (av_digest en t) (gw_access g) = Inr (Some a)"
        "c = \<lparr> ac_principal_id = aa_principal_id a, ac_method = ScopedBearer, ac_capabilities = aa_capabilities a, ac_worker_id = None \<rparr>"
      using assms Inr
      by (auto simp: stored_context_def store_call_def access_call_def asking_def split: sum.splits option.splits if_splits)
    then show ?thesis by (auto simp: find_active_admin_token_by_digest_def find_Some_iff in_set_conv_nth)
  qed
qed (simp add: find_active_worker_operational_credential_def)

lemma source_entitled:
  assumes "context_source en cfg (rq\<lparr>hr_user := u\<rparr>) g c" "av_others en = (\<lambda>_ g. g)"
    "u = None \<or> (\<exists>v. u = Some v \<and> fst (cloudflare_access_middleware cv cfg rq assertion cache) = Inr u)"
  shows "entitled cv en cfg rq assertion (g, cache) c"
proof -
  have bearer: "bearer_token (rq\<lparr>hr_user := u\<rparr>) = bearer_token rq" by (simp add: bearer_token_def)
  consider "ap_allow_no_auth cfg \<and> c = development_context"
    | t where "bearer_token rq = Some t" "fst (stored_context en t g) = Some c"
    | "configured_context en cfg (rq\<lparr>hr_user := u\<rparr>) = Some c"
    using assms(1) unfolding context_source_def bearer by blast
  then show ?thesis
  proof cases
    case (2 t)
    then show ?thesis using stored_context_found[OF 2(2) assms(2)] unfolding entitled_def by fastforce
  next
    case 3
    then show ?thesis using assms(3) unfolding entitled_def configured_context_def bearer
      by (auto split: option.splits if_splits dest: token_matches_sound)
  qed (simp add: entitled_def)
qed

lemma open_route_endpoint:
  assumes "route m p = Inr e" "open_route m p"
  shows "e = EpHealth \<or> e = EpJoin"
proof -
  have p: "p = path_of e" and m: "m = method_of e \<or> (method_of e = HGet \<and> m = HMethod ''HEAD'')"
    using route_path[OF assms(1)] by auto
  show ?thesis
  proof (cases "m = method_of e")
    case True
    then show ?thesis using assms(2) open_routes p by simp
  next
    case False
    then have "path_of e = ''/health''" using assms(2) m by (auto simp: open_route_def p path_normal)
    then show ?thesis by (cases e) simp_all
  qed
qed

lemma authorized_endpoint:
  assumes "route m p = Inr e" "authorize_http_endpoint m p (Some c) = Inr ()"
  shows "e = EpHealth \<or> e = EpJoin \<or>
    (\<exists>k \<in> set (ac_capabilities c). if misrouted e then k = PWorkerCredentialManage else endpoint_capability e = Some k)"
proof (cases "open_route m p")
  case True
  then show ?thesis using open_route_endpoint[OF assms(1)] by blast
next
  case shut: False
  have p: "p = path_of e" using route_path[OF assms(1)] by auto
  obtain k where k: "required_capability m p = Some k" "k \<in> set (ac_capabilities c)"
    using assms(2) shut by (auto simp: authorize_http_endpoint_def open_route_def Let_def p path_normal split: option.splits if_splits)
  then have m: "m = method_of e" using route_path(2)[OF assms(1)] by (auto simp: head_needs)
  show ?thesis
  proof (cases "e = EpHealth \<or> e = EpJoin")
    case False
    then have "Some k = (if misrouted e then Some PWorkerCredentialManage else endpoint_capability e)"
      using capability_of_route[OF route_path(3)[OF assms(1)]] k(1) by (simp add: m p)
    then show ?thesis using k(2) by (cases "misrouted e") (auto intro!: bexI[of _ k])
  qed auto
qed

lemma guarded_cases:
  assumes "guarded cv en cfg rq assertion h (g, cache) = (r, g', cache')" "av_others en = (\<lambda>_ g. g)"
  shows "((\<exists>status. r = Bare status) \<and> only_audited g g') \<or>
    (open_route (hr_method rq) (hr_path rq) \<and> h None g = (r, g')) \<or>
    (\<exists>c. entitled cv en cfg rq assertion (g, cache) c \<and>
       authorize_http_endpoint (hr_method rq) (hr_path rq) (Some c) = Inr () \<and> h (Some c) g = (r, g'))"
proof -
  have inner: ?thesis if a: "auth_middleware en cfg (rq\<lparr>hr_user := u\<rparr>) h g = (r, g')"
      and u: "u = None \<or> (\<exists>v. u = Some v \<and> fst (cloudflare_access_middleware cv cfg rq assertion cache) = Inr u)" for u
    using middleware_cases[OF a assms(2)] source_entitled[OF _ assms(2) u] by auto
  show ?thesis
  proof (cases "ap_cf_audience cfg = None")
    case True
    then have "auth_middleware en cfg (rq\<lparr>hr_user := None\<rparr>) h g = (r, g')"
      using assms(1) by (auto simp: guarded_def split: prod.splits)
    then show ?thesis using inner by blast
  next
    case False
    obtain x c2 where cf: "cloudflare_access_middleware cv cfg rq assertion cache = (x, c2)" by fastforce
    show ?thesis
    proof (cases x)
      case (Inl status)
      then show ?thesis using assms(1) False cf only_audited_refl by (auto simp: guarded_def)
    next
      case (Inr u)
      then have "auth_middleware en cfg (rq\<lparr>hr_user := u\<rparr>) h g = (r, g')"
        using assms(1) False cf by (auto simp: guarded_def split: prod.splits)
      then show ?thesis using inner[of u] cf Inr by (cases u) auto
    qed
  qed
qed

text \<open>
  C14. The gate. A request either is answered with a bare status and leaves no trace but at most one audit
  event, or runs exactly one endpoint, the one its route names: one of the two open ones, or one whose capability is
  held by a credential the request has shown - an unrevoked admin token, an active worker credential (which
  is worth registration and removal only), a configured token, an identity the Cloudflare layer has verified -
  or by everybody when authentication is switched off.
\<close>

theorem api_gate:
  assumes "serve decode cv en cfg rq assertion body (g, cache) = (r, g', cache')" "av_others en = (\<lambda>_ g. g)"
  shows "((\<exists>status. r = Bare status) \<and> only_audited g g') \<or>
    (\<exists>e ctx. route (hr_method rq) (hr_path rq) = Inr e \<and> run_endpoint e decode en cfg body ctx g = (r, g') \<and>
      (e = EpHealth \<or> e = EpJoin \<or>
       (\<exists>c k. ctx = Some c \<and> entitled cv en cfg rq assertion (g, cache) c \<and> k \<in> set (ac_capabilities c) \<and>
          (if misrouted e then k = PWorkerCredentialManage else endpoint_capability e = Some k))))"
proof (cases "route (hr_method rq) (hr_path rq) = Inl 404")
  case True
  then show ?thesis using assms(1) only_audited_refl by (auto simp: serve_def)
next
  case False
  then have "guarded cv en cfg rq assertion (routed decode en cfg rq body) (g, cache) = (r, g', cache')"
    using assms(1) by (simp add: serve_def)
  note cases = guarded_cases[OF this assms(2)]
  show ?thesis
  proof (cases "route (hr_method rq) (hr_path rq)")
    case (Inl status)
    then show ?thesis using cases only_audited_refl by (auto simp: routed_def)
  next
    case (Inr e)
    then have run: "routed decode en cfg rq body ctx g = run_endpoint e decode en cfg body ctx g" for ctx
      by (simp add: routed_def)
    show ?thesis using cases Inr open_route_endpoint[OF Inr] authorized_endpoint[OF Inr] unfolding run by fast
  qed
qed

section \<open>A small fleet\<close>

text \<open>One offline worker with a credential, one admin token that may list the workers, nobody else about.\<close>

definition sample_env :: api_env where
  "sample_env = \<lparr> av_parse_uuid = (\<lambda>_. Some 7), av_show_uuid = (\<lambda>_. ''seven''), av_digest = (\<lambda>s. s), av_sha = (\<lambda>s. s),
     av_clk = (\<lambda>_. 0), av_add_secs = (\<lambda>t n. Some t), av_random = (\<lambda>_. Inr [0, 1]), av_fresh = (\<lambda>_. 9),
     av_others = (\<lambda>_ g. g) \<rparr>"

definition sample_cf :: cf_env where
  "sample_cf = \<lparr> cv_kid = (\<lambda>_. Some (Some ''kid'')), cv_payload = (\<lambda>_. None), cv_fetch = (\<lambda>_. None),
     cv_verify = (\<lambda>_ _ _. None), cv_clk = (\<lambda>_. 0), cv_others = (\<lambda>c. c) \<rparr>"

definition sample_config :: api_config where
  "sample_config = with_tokens [] new_api_config"

definition sample_worker :: worker where
  "sample_worker = (new_worker (WorkerId 7) 0 0 ''w'' ''ws://w'')\<lparr>w_status := WOffline\<rparr>"

definition sample_admin :: admin_api_token where
  "sample_admin = \<lparr> aa_principal_id = ''ops'', aa_token_digest = ''fat'', aa_capabilities = [PWorkerList], aa_created_at = 0,
     aa_rotated_at = None, aa_revoked_at = None, aa_rotation_generation = 1 \<rparr>"

definition sample_gateway :: gateway where
  "sample_gateway = \<lparr> gw_yard = \<lparr> yd_store = empty_store\<lparr>ms_workers := [(WorkerId 7, sample_worker)],
         ms_operational_credentials := [(''wk'', \<lparr> woc_worker_id = WorkerId 7, woc_credential_digest = ''wk'', woc_issued_at = 0,
           woc_expires_at = None, woc_revoked_at = None, woc_rotation_generation = 1 \<rparr>)]\<rparr>,
       yd_hosts = [], yd_host_events = [], yd_ssh_keys = [] \<rparr>,
     gw_access = empty_access\<lparr>xs_admin_api_tokens := [(''ops'', sample_admin)]\<rparr>, gw_links = [] \<rparr>"

definition sample_body :: request_body where
  "sample_body = \<lparr> bd_rejected = 400, bd_host = None, bd_register = None, bd_join = None, bd_heartbeat = None, bd_query = None,
     bd_reason = None, bd_expires_in = None, bd_credential = None, bd_bootstrap = None, bd_admin = None \<rparr>"

definition sample_request :: "http_method \<Rightarrow> string \<Rightarrow> string \<Rightarrow> http_request" where
  "sample_request m p token = \<lparr> hr_method = m, hr_path = p, hr_authorization = Some (''Bearer '' @ token), hr_user = None \<rparr>"

abbreviation sample_serve :: "http_request \<Rightarrow> api_answer http_reply \<times> gateway \<times> jwks_cache" where
  "sample_serve rq \<equiv> serve Some sample_cf sample_env sample_config rq None sample_body (sample_gateway, [])"

lemma sample_undisturbed: "av_others sample_env = (\<lambda>_ g. g)"
  by (simp add: sample_env_def)

lemma api_gate_witness:
  "\<exists>c. entitled sample_cf sample_env sample_config (sample_request HGet ''/workers/7'' ''fat'') None (sample_gateway, []) c \<and>
     PWorkerList \<in> set (ac_capabilities c)"
proof -
  let ?rq = "sample_request HGet ''/workers/7'' ''fat''"
  obtain r g' c' where run: "sample_serve ?rq = (r, g', c')" using prod_cases3 by blast
  have "case fst (sample_serve ?rq) of Bare _ \<Rightarrow> False | Handled _ \<Rightarrow> True" by code_simp
  then have r: "r \<noteq> Bare status" for status using run by auto
  have e: "route (hr_method ?rq) (hr_path ?rq) = Inr (EpGetWorker ''7'')" by code_simp
  show ?thesis using api_gate[OF run sample_undisturbed] r e by (auto simp: misrouted_def)
qed

end
