(* ===== verification/Api_Confinement.thy ===== *)
theory Api_Confinement
  imports Api_Claims
begin

text \<open>
  What a request made with a worker's own credential can reach: its own row, its own agents and its own
  credential, and no token. And what it can reach that it should not: the inventory row of another host.
\<close>

section \<open>Leaving everything of the others alone\<close>

definition rows_ok :: "mem_store \<Rightarrow> bool" where
  "rows_ok s \<longleftrightarrow> keyed w_id (ms_workers s) \<and> keyed woc_credential_digest (ms_operational_credentials s)"

text \<open>From \<open>s\<close> to \<open>t\<close>, nothing that belongs to a worker other than \<open>i\<close> has changed, and no token.\<close>

definition own_change :: "worker_id \<Rightarrow> mem_store \<Rightarrow> mem_store \<Rightarrow> bool" where
  "own_change i s t \<longleftrightarrow> (rows_ok s \<longrightarrow> rows_ok t \<and>
     (\<forall>v. v \<noteq> i \<longrightarrow> hm_get (ms_workers t) v = hm_get (ms_workers s) v) \<and>
     (\<forall>a x. hm_get (ms_agents s) a = Some x \<and> ag_worker_id x \<noteq> Some i \<longrightarrow> hm_get (ms_agents t) a = Some x) \<and>
     (\<forall>d c. hm_get (ms_operational_credentials s) d = Some c \<and> woc_worker_id c \<noteq> i \<longrightarrow>
        hm_get (ms_operational_credentials t) d = Some c) \<and>
     ms_bootstrap_tokens t = ms_bootstrap_tokens s)"

definition confined :: "worker_id \<Rightarrow> gateway \<Rightarrow> gateway \<Rightarrow> bool" where
  "confined i g h \<longleftrightarrow> own_change i (yd_store (gw_yard g)) (yd_store (gw_yard h)) \<and>
     xs_admin_api_tokens (gw_access h) = xs_admin_api_tokens (gw_access g)"

lemma own_change_refl: "own_change i s s"
  by (simp add: own_change_def)

lemma own_change_trans: "own_change i s t \<Longrightarrow> own_change i t u \<Longrightarrow> own_change i s u"
  unfolding own_change_def by (metis (no_types, lifting))

lemma confined_refl [simp]: "confined i g g"
  by (simp add: confined_def own_change_refl)

lemma confined_trans [trans]: "confined i g h \<Longrightarrow> confined i h k \<Longrightarrow> confined i g k"
  unfolding confined_def using own_change_trans by (metis (no_types, lifting))

lemma own_change_frame:
  assumes "ms_workers t = ms_workers s" "ms_agents t = ms_agents s"
    "ms_operational_credentials t = ms_operational_credentials s" "ms_bootstrap_tokens t = ms_bootstrap_tokens s"
  shows "own_change i s t"
  using assms by (simp add: own_change_def rows_ok_def)

section \<open>The store operations a worker's request performs\<close>

lemma own_append_event: "own_change i s (snd (append_event e s))"
  by (rule own_change_frame) (simp_all add: append_event_def Let_def)

lemma own_bump: "own_change i s (snd (bump_worker_incarnation now i s))"
  by (auto simp: bump_worker_incarnation_def own_change_def rows_ok_def intro: inv_intro split: option.splits)

lemma own_beat: "own_change i s (snd (update_worker_heartbeat now i hb s))"
  by (auto simp: update_worker_heartbeat_def own_change_def rows_ok_def intro: inv_intro split: option.splits)

lemma own_upsert:
  assumes "w_id w = i"
  shows "own_change i s (snd (upsert_worker w s))"
  using assms by (auto simp: upsert_worker_def own_change_def rows_ok_def Let_def intro!: keyed_insert split: option.splits)

lemma own_ack: "own_change i s (snd (ack_agent_commands i acks s))"
  by (auto simp: ack_agent_commands_def case_prod_beta own_change_def rows_ok_def ack_loop_get ack_fold)

lemma own_observe: "own_change i s (snd (apply_agent_observations now i obs s))"
  by (auto simp: apply_agent_observations_def case_prod_beta own_change_def rows_ok_def observe_loop_get observe_fold
      unobserve_def silent_def Let_def)

lemma own_delete: "own_change i s (snd (delete_worker i s))"
proof (cases "hm_get (ms_workers s) i")
  case (Some w)
  then show ?thesis
    by (auto simp: delete_worker_def own_change_def rows_ok_def hm_get_retain keyed_hm_ok intro!: keyed_remove keyed_retain
        split: option.splits)
qed (simp add: delete_worker_def own_change_refl)

section \<open>Calls\<close>

lemma confined_store_call:
  assumes "\<And>g. confined i g (av_others en n g)" "\<And>s. own_change i s (snd (op s))" "store_call en n op g = (r, h)"
  shows "confined i g h"
proof -
  have "confined i (av_others en n g) h"
    using assms(2)[of "yd_store (gw_yard (av_others en n g))"] assms(3)
    by (auto simp: store_call_def Let_def confined_def split: prod.splits)
  then show ?thesis using assms(1) confined_trans by blast
qed

lemma confined_read:
  assumes "\<And>g. confined i g (av_others en n g)" "store_call en n (asking q) g = (r, h)"
  shows "confined i g h"
  using confined_store_call[OF assms(1) _ assms(2)] by (simp add: asking_def own_change_refl)

lemma confined_yard_call:
  assumes "\<And>g. confined i g (av_others en n g)" "\<And>y. yd_store (snd (op y)) = yd_store y" "yard_call en n op g = (r, h)"
  shows "confined i g h"
proof -
  have "confined i (av_others en n g) h"
    using assms(2)[of "gw_yard (av_others en n g)"] assms(3)
    by (auto simp: yard_call_def Let_def confined_def own_change_refl split: prod.splits)
  then show ?thesis using assms(1) confined_trans by blast
qed

lemma confined_access_call:
  assumes "\<And>g. confined i g (av_others en n g)" "\<And>x. xs_admin_api_tokens (snd (op x)) = xs_admin_api_tokens x"
    "access_call en n op g = (r, h)"
  shows "confined i g h"
proof -
  have "confined i (av_others en n g) h"
    using assms(2)[of "gw_access (av_others en n g)"] assms(3)
    by (auto simp: access_call_def Let_def confined_def own_change_refl split: prod.splits)
  then show ?thesis using assms(1) confined_trans by blast
qed

lemma audit_keeps_tokens: "xs_admin_api_tokens (snd (record_audit_event e x)) = xs_admin_api_tokens x"
  by (simp add: record_audit_event_def)

lemma upsert_host_keeps_store: "yd_store (snd (upsert_host h y)) = yd_store y"
  by (simp add: upsert_host_def)

lemma confined_link [simp]: "confined i g (link cfg c g)"
  by (simp add: link_def confined_def own_change_refl)

section \<open>The three handlers\<close>

text \<open>Others act between the calls, but not on what belongs to them either.\<close>

definition considerate :: "worker_id \<Rightarrow> api_env \<Rightarrow> bool" where
  "considerate i en \<longleftrightarrow> (\<forall>n g. confined i g (av_others en n g))"

definition fleet_ok :: "gateway \<Rightarrow> bool" where
  "fleet_ok g \<longleftrightarrow> rows_ok (yd_store (gw_yard g))"

lemma confined_ok: "confined i g h \<Longrightarrow> fleet_ok g \<Longrightarrow> fleet_ok h"
  by (simp add: confined_def own_change_def fleet_ok_def)

lemma bound_target:
  assumes "Option.bind ctx ac_worker_id = Some i"
  shows "enforce_worker_self_binding ctx t = (if t = i then Inr () else
    Inl (HForbidden (Msg ''worker {ctx_worker_id} is not authorized to act on worker {target}'' [ArgWorker i, ArgWorker t])))"
  using assms by (simp add: enforce_worker_self_binding_def)

lemma confined_audit:
  assumes "considerate i en"
  shows "confined i g (record_mutation_audit en n k ctx action tt ti g)"
  using confined_access_call[of i en n "record_audit_event (api_event (av_clk en k) ctx action tt ti)" g] assms
  by (cases "access_call en n (record_audit_event (api_event (av_clk en k) ctx action tt ti)) g")
    (auto simp: record_mutation_audit_def considerate_def audit_keeps_tokens)

lemma confined_event:
  assumes "considerate i en"
  shows "confined i g (snd (store_call en n (append_event e) g))"
  using confined_store_call[of i en n "append_event e" g] assms own_append_event
  by (cases "store_call en n (append_event e) g") (auto simp: considerate_def)

lemma confined_agent_events:
  assumes "considerate i en"
  shows "confined i g (agent_events en n w action agents g)"
proof -
  have "confined i g (fold (\<lambda>(k, a) g. snd (access_call en (n + k) (record_audit_event
         ((new_event (av_clk en (n + k)) (''worker:'' @ show_worker en w) action AuditSuccess)
            \<lparr>ae_target_type := Some ''agent'', ae_target_id := Some (av_show_uuid en (agent_uuid a))\<rparr>)) g)) kas g)" for kas
  proof (induction kas arbitrary: g)
    case (Cons ka kas)
    obtain k a where ka: "ka = (k, a)" by fastforce
    let ?op = "record_audit_event ((new_event (av_clk en (n + k)) (''worker:'' @ show_worker en w) action AuditSuccess)
            \<lparr>ae_target_type := Some ''agent'', ae_target_id := Some (av_show_uuid en (agent_uuid a))\<rparr>)"
    have "confined i g (snd (access_call en (n + k) ?op g))"
      using confined_access_call[of i en "n + k" ?op g] assms audit_keeps_tokens
      by (cases "access_call en (n + k) ?op g") (auto simp: considerate_def)
    then show ?case using Cons.IH confined_trans by (auto simp: ka)
  qed simp
  then show ?thesis unfolding agent_events_def .
qed

lemma confined_set_status:
  assumes "considerate i en" "w_id w = i" "set_status_of en n w st g = (r, h)"
  shows "confined i g h"
  using assms confined_store_call[of i en n "upsert_worker (w\<lparr>w_status := st\<rparr>)" g r h] own_upsert[of "w\<lparr>w_status := st\<rparr>" i]
  by (auto simp: set_status_of_def considerate_def)

lemma read_own_row:
  assumes "store_call en n (asking (get_worker i)) g = (Inr (Some w), h)" "considerate i en" "fleet_ok g"
  shows "w_id w = i"
proof -
  let ?s = "yd_store (gw_yard (av_others en n g))"
  have "fleet_ok (av_others en n g)" using assms(2,3) confined_ok unfolding considerate_def by blast
  moreover have "hm_get (ms_workers ?s) i = Some w"
    using assms(1) by (auto simp: store_call_def asking_def get_worker_def Let_def)
  ultimately show ?thesis by (auto simp: fleet_ok_def rows_ok_def dest: keyed_get)
qed

lemma beat_reports_confined:
  assumes "considerate i en"
  shows "confined i g (beat_reports en i rq g)"
proof -
  note others = assms(1)[unfolded considerate_def, rule_format]
  have call: "confined i g (snd (store_call en n op g))" if "\<And>s. own_change i s (snd (op s))"
    for n g and op :: "mem_store \<Rightarrow> (store_error, u64) result \<times> mem_store"
    by (rule confined_store_call[OF others that surjective_pairing])
  define g6 where "g6 = (if hq_agent_acks rq = [] then g else snd (store_call en 6 (ack_agent_commands i (hq_agent_acks rq)) g))"
  define g7 where "g7 = (case hq_agent_observations rq of None \<Rightarrow> g6
      | Some obs \<Rightarrow> snd (store_call en 7 (apply_agent_observations (av_clk en 5) i obs) g6))"
  have "confined i g g6" unfolding g6_def by (simp add: call[OF own_ack])
  also have "confined i g6 g7" unfolding g7_def by (simp add: call[OF own_observe] split: option.split)
  also have "confined i g7 (beat_reports en i rq g)"
    unfolding beat_reports_def Let_def g6_def[symmetric] g7_def[symmetric]
    using confined_agent_events[OF assms] confined_trans by blast
  finally show ?thesis .
qed

lemma beat_inventory_confined:
  assumes "considerate i en"
  shows "confined i g (beat_inventory en i w rq g)"
proof -
  note others = assms(1)[unfolded considerate_def, rule_format]
  have "confined i h (snd (yard_call en 4 (upsert_host x) h))" for h x
    by (rule confined_yard_call[OF others upsert_host_keeps_store surjective_pairing])
  then show ?thesis unfolding beat_inventory_def Let_def using confined_event[OF assms] confined_trans by blast
qed

lemma beat_known_confined:
  assumes "considerate i en" "w_id w = i"
  shows "confined i g (snd (beat_known en i w rq g))"
proof -
  note others = assms(1)[unfolded considerate_def, rule_format]
  obtain r1 g1 where c1: "store_call en 1 (update_worker_heartbeat (av_clk en 0) i (heartbeat_of i rq)) g = (r1, g1)" by fastforce
  have k1: "confined i g g1" by (rule confined_store_call[OF others own_beat c1])
  obtain r2 g2 where c2: "(if w_status w \<noteq> WDraining \<and> w_status w \<noteq> beat_status rq then set_status_of en 2 w (beat_status rq) g1
      else (Inr (), g1)) = (r2, g2)" by fastforce
  have k2: "confined i g1 g2" using c2 confined_set_status[OF assms] by (auto split: if_splits)
  let ?drain = "beat_overloaded rq \<or> w_status w = WDraining" and ?g4 = "beat_inventory en i w rq g2"
  obtain r5 g5 where c5: "(if ?drain \<and> w_status w \<noteq> WDraining then set_status_of en 5 w WDraining ?g4 else (Inr (), ?g4)) = (r5, g5)"
    by fastforce
  have k5: "confined i ?g4 g5" using c5 confined_set_status[OF assms] by (auto split: if_splits)
  obtain cmds g10 where c10: "store_call en 100 (asking (list_agent_commands i)) (beat_reports en i rq g5) = (cmds, g10)" by fastforce
  have k10: "confined i (beat_reports en i rq g5) g10" by (rule confined_read[OF others c10])
  have s2: "confined i g g2" using k1 k2 confined_trans by blast
  have s5: "confined i g g5" using s2 k5 beat_inventory_confined[OF assms(1)] confined_trans by blast
  have s10: "confined i g g10" using s5 k10 beat_reports_confined[OF assms(1)] confined_trans by blast
  have "snd (beat_known en i w rq g) \<in> {g1, g2, g5, g10}"
    unfolding beat_known_def c1 prod.case by (cases r1; cases r2; cases r5) (simp_all add: c2 Let_def c5 c10)
  then show ?thesis using k1 s2 s5 s10 by blast
qed

lemma heartbeat_confined:
  assumes "considerate i en" "Option.bind ctx ac_worker_id = Some i" "fleet_ok g"
  shows "confined i g (snd (heartbeat en ctx rq g))"
proof (cases "av_parse_uuid en (hq_worker_id rq)")
  case (Some u)
  note others = assms(1)[unfolded considerate_def, rule_format]
  show ?thesis
  proof (cases "WorkerId u = i")
    case own: True
    obtain r g0 where c0: "store_call en 0 (asking (get_worker i)) g = (r, g0)" by fastforce
    have k0: "confined i g g0" by (rule confined_read[OF others c0])
    note head = heartbeat_def Some own bound_target[OF assms(2)] c0
    show ?thesis
    proof (cases "\<exists>w. r = Inr (Some w)")
      case True
      then obtain w where w: "r = Inr (Some w)" by blast
      then have "w_id w = i" using read_own_row[OF _ assms(1,3)] c0 by simp
      then show ?thesis using beat_known_confined[OF assms(1)] k0 confined_trans[OF k0] by (simp add: head w)
    next
      case False
      then show ?thesis using k0 by (cases r) (auto simp: head split: option.splits)
    qed
  qed (simp add: heartbeat_def Some bound_target[OF assms(2)])
qed (simp add: heartbeat_def)

lemma register_as_confined:
  assumes "considerate i en" "w_id w = i"
  shows "confined i g (snd (register_as en cfg ctx w is_new g))"
proof -
  note others = assms(1)[unfolded considerate_def, rule_format]
  obtain r1 g1 where c1: "(if is_new then (Inr None, g) else store_call en 2 (bump_worker_incarnation (av_clk en 1) (w_id w)) g) = (r1, g1)"
    by fastforce
  have k1: "confined i g g1" using c1 confined_store_call[OF others own_bump] assms(2) by (auto split: if_splits)
  obtain r2 g2 where c2: "store_call en 3 (upsert_worker w) g1 = (r2, g2)" by fastforce
  have k2: "confined i g g2" using confined_trans[OF k1 confined_store_call[OF others own_upsert[OF assms(2)] c2]] .
  have "confined i g2 (record_mutation_audit en 5 4 ctx a t x (snd (store_call en 4 (append_event e) (link cfg c g2))))" for a t x e c
    using confined_link confined_event[OF assms(1)] confined_audit[OF assms(1)] confined_trans by meson
  then have "confined i g (record_mutation_audit en 5 4 ctx a t x (snd (store_call en 4 (append_event e) (link cfg c g2))))" for a t x e c
    using confined_trans[OF k2] by blast
  then show ?thesis using k1 k2 unfolding register_as_def c1 prod.case
    by (cases r1; cases r2) (simp_all add: upsert_and_register_def c2 Let_def)
qed

lemma worker_by_id_confined:
  assumes "considerate i en" "worker_by_id en given g = (r, h)"
  shows "confined i g h"
proof -
  note others = assms(1)[unfolded considerate_def, rule_format]
  show ?thesis using assms(2) confined_read[OF others]
    by (auto simp: worker_by_id_def split: option.splits prod.splits sum.splits)
qed

lemma register_confined:
  assumes "considerate i en" "Option.bind ctx ac_worker_id = Some i"
  shows "confined i g (snd (register_worker en cfg ctx rq g))"
proof -
  note others = assms(1)[unfolded considerate_def, rule_format]
  let ?name = "trim (rr_name rq)"
  obtain r0 g0 where c0: "store_call en 0 (asking (get_worker_by_name ?name)) g = (r0, g0)" by fastforce
  have k0: "confined i g g0" by (rule confined_read[OF others c0])
  obtain r1 g1 where c1: "worker_by_id en (rr_existing_worker_id rq) g0 = (r1, g1)" by fastforce
  have k1: "confined i g g1" using confined_trans[OF k0 worker_by_id_confined[OF assms(1) c1]] .
  have row: "w_id (registered_row now rq n x e) = x" for now n x e by (simp add: registered_row_def build_worker_def)
  have "snd (register_worker en cfg ctx rq g) \<in> {g, g0, g1} \<or>
      (\<exists>w b. w_id w = i \<and> snd (register_worker en cfg ctx rq g) = snd (register_as en cfg ctx w b g1))"
    unfolding register_worker_def Let_def c0 bound_target[OF assms(2)]
    by (cases r0; cases r1) (auto simp: c1 split: sum.splits, (metis row)+)
  then show ?thesis using k0 k1 register_as_confined[OF assms(1)] confined_trans[OF k1] by auto
qed

lemma deregister_confined:
  assumes "considerate i en" "Option.bind ctx ac_worker_id = Some i"
  shows "confined i g (snd (deregister_worker en cfg ctx raw given g))"
proof (cases "av_parse_uuid en raw")
  case (Some u)
  note others = assms(1)[unfolded considerate_def, rule_format]
  show ?thesis
  proof (cases "WorkerId u = i")
    case own: True
    obtain r0 g0 where c0: "store_call en 0 (asking (get_worker i)) g = (r0, g0)" by fastforce
    have k0: "confined i g g0" by (rule confined_read[OF others c0])
    define reason where "reason = (case given of Some r \<Rightarrow> r | None \<Rightarrow> ''deregistered by admin'')"
    define g1 where "g1 = link cfg (LinkUnregister i) (snd (store_call en 1 (append_event (WorkerLeft i (plain_text reason) (av_clk en 0))) g0))"
    have k1: "confined i g g1" unfolding g1_def using confined_trans[OF k0] confined_event[OF assms(1)] confined_link confined_trans by meson
    obtain r2 g2 where c2: "store_call en 2 (delete_worker i) g1 = (r2, g2)" by fastforce
    have k2: "confined i g g2" using confined_trans[OF k1 confined_store_call[OF others own_delete c2]] .
    have "snd (deregister_worker en cfg ctx raw given g) \<in>
        {g0, g2, record_mutation_audit en 3 1 ctx ''worker.deregister'' ''worker'' (show_worker en i) g2}"
    proof (cases "\<exists>w. r0 = Inr (Some w)")
      case True
      then obtain w where r0: "r0 = Inr (Some w)" by blast
      show ?thesis
        unfolding deregister_worker_def Some option.case Let_def own bound_target[OF assms(2)] c0 r0 reason_def[symmetric]
        by (cases r2) (simp_all add: c2[unfolded g1_def] del: One_nat_def)
    next
      case False
      then show ?thesis unfolding deregister_worker_def Some option.case Let_def own bound_target[OF assms(2)] c0
        by (cases r0) (auto split: option.splits)
    qed
    then show ?thesis using k0 k2 confined_trans[OF k2 confined_audit[OF assms(1)]] by auto
  qed (simp add: deregister_worker_def Some bound_target[OF assms(2)])
qed (simp add: deregister_worker_def)

section \<open>A whole request\<close>

lemma stored_context_confined:
  assumes "considerate i en" "stored_context en t g = (oc, h)"
  shows "confined i g h"
proof -
  note others = assms(1)[unfolded considerate_def, rule_format]
  obtain r0 g0 where c0: "store_call en 0 (asking (find_active_worker_operational_credential (av_clk en 0) (av_digest en t))) g = (r0, g0)"
    by fastforce
  have k0: "confined i g g0" by (rule confined_read[OF others c0])
  obtain r1 g1 where c1: "access_call en 1 (asking (find_active_admin_token_by_digest (av_digest en t))) g0 = (r1, g1)" by fastforce
  have "confined i g0 g1" by (rule confined_access_call[OF others _ c1]) (simp add: asking_def)
  then have k1: "confined i g g1" using k0 confined_trans by blast
  have "h \<in> {g0, g1}" using assms(2) unfolding stored_context_def c0
    by (auto simp: c1 simp del: One_nat_def split: sum.splits option.splits if_splits)
  then show ?thesis using k0 k1 by blast
qed

lemma worker_context_caps:
  assumes "stored_context en t g = (Some c, h)" "ac_worker_id c = Some i"
  shows "ac_capabilities c = [PWorkerRegister, PWorkerDelete]"
proof -
  obtain r0 g0 where c0: "store_call en 0 (asking (find_active_worker_operational_credential (av_clk en 0) (av_digest en t))) g = (r0, g0)"
    by fastforce
  obtain r1 g1 where c1: "access_call en 1 (asking (find_active_admin_token_by_digest (av_digest en t))) g0 = (r1, g1)" by fastforce
  show ?thesis using assms unfolding stored_context_def c0
    by (auto simp: c1 worker_context_def simp del: One_nat_def split: sum.splits option.splits if_splits)
qed

lemma endpoint_confined:
  assumes "considerate i en" "fleet_ok g" "Option.bind ctx ac_worker_id = Some i"
    "e = EpRegisterWorker \<or> e = EpHeartbeat \<or> (\<exists>x. e = EpDeregister x) \<or> e = EpHealth"
  shows "confined i g (snd (run_endpoint e decode en cfg body ctx g))"
  using assms register_confined[OF assms(1,3)] heartbeat_confined[OF assms(1,3,2)] deregister_confined[OF assms(1,3)]
  by (auto simp: with_body_def with_param_def answer_def case_prod_beta split: option.split)

text \<open>
  C15. A worker's own credential reaches only what is its own. Whatever request is made with it, outside the open
  join route, and whatever other callers do meanwhile (as long as they too leave the rest alone): the rows
  of the other workers, the agents not placed on this worker, the credentials of other workers and every
  bootstrap or admin token are afterwards what they were.
\<close>

theorem worker_credential_confined:
  assumes "\<not> ap_allow_no_auth cfg" "bearer_token rq = Some t" "stored_context en t g = (Some c, g1)"
    "ac_worker_id c = Some i" "considerate i en" "fleet_ok g" "normalized_v1_path (hr_path rq) \<noteq> ''/workers/join''"
  shows "confined i g (fst (snd (serve decode cv en cfg rq assertion body (g, cache))))"
proof -
  have k1: "confined i g g1" by (rule stored_context_confined[OF assms(5,3)])
  have ok1: "fleet_ok g1" by (rule confined_ok[OF k1 assms(6)])
  let ?h = "routed decode en cfg rq body" and ?m = "hr_method rq" and ?p = "hr_path rq"
  have free: "confined i g (snd (?h None g))" if "open_route ?m ?p"
  proof (cases "route ?m ?p")
    case (Inr e)
    then have "e = EpHealth \<or> e = EpJoin" using open_route_endpoint that by blast
    moreover have "e \<noteq> EpJoin" using route_path(1)[OF Inr] assms(7) by (auto simp: normalized_v1_path_def strip_prefix_def)
    ultimately show ?thesis by (simp add: routed_def Inr)
  qed (simp add: routed_def)
  have run: "confined i g (snd (?h (Some c) g1))" if a: "authorize_http_endpoint ?m ?p (Some c) = Inr ()"
  proof (cases "route ?m ?p")
    case (Inl status)
    then show ?thesis using k1 by (simp add: routed_def)
  next
    case (Inr e)
    have caps: "ac_capabilities c = [PWorkerRegister, PWorkerDelete]" by (rule worker_context_caps[OF assms(3,4)])
    have "e \<noteq> EpJoin" using route_path(1)[OF Inr] assms(7) by (auto simp: normalized_v1_path_def strip_prefix_def)
    then have "e = EpHealth \<or> endpoint_capability e = Some PWorkerRegister \<or> endpoint_capability e = Some PWorkerDelete"
      using authorized_endpoint[OF Inr a] by (auto simp: caps split: if_splits)
    then have "e = EpRegisterWorker \<or> e = EpHeartbeat \<or> (\<exists>x. e = EpDeregister x) \<or> e = EpHealth" by (cases e) auto
    then show ?thesis using endpoint_confined[OF assms(5) ok1, of "Some c" e] assms(4) confined_trans[OF k1]
      by (simp add: routed_def Inr)
  qed
  have denied: "confined i g (record_capability_denial en 2 1 (Some c) g1)"
  proof -
    let ?op = "record_audit_event (new_event (av_clk en 1) (audit_actor_label (Some c)) ''http.capability_denied'' AuditFailure)"
    have "confined i g1 (snd (access_call en 2 ?op g1))"
      by (rule confined_access_call[OF assms(5)[unfolded considerate_def, rule_format] audit_keeps_tokens surjective_pairing])
    then show ?thesis using k1 confined_trans unfolding record_capability_denial_def by blast
  qed
  have "confined i g (snd (auth_middleware en cfg (rq\<lparr>hr_user := u\<rparr>) ?h g))" for u
  proof (cases "open_route ?m ?p")
    case True
    then show ?thesis using free assms(1) by (simp add: auth_middleware_def)
  next
    case False
    have "auth_middleware en cfg (rq\<lparr>hr_user := u\<rparr>) ?h g = authorized en (rq\<lparr>hr_user := u\<rparr>) c ?h g1"
      using assms(1,2,3) False by (simp add: auth_middleware_def bearer_token_def)
    then show ?thesis using run denied
      by (cases "authorize_http_endpoint ?m ?p (Some c)") (simp_all add: authorized_def)
  qed
  then show ?thesis unfolding serve_def guarded_def
    by (auto simp: case_prod_beta split: sum.split)
qed

lemma worker_credential_confined_witness:
  "confined (WorkerId 7) sample_gateway (fst (snd (sample_serve (sample_request HDelete ''/workers/7'' ''wk''))))"
proof (rule worker_credential_confined)
  show "\<not> ap_allow_no_auth sample_config" by code_simp
  show "bearer_token (sample_request HDelete ''/workers/7'' ''wk'') = Some ''wk''" by code_simp
  show "normalized_v1_path (hr_path (sample_request HDelete ''/workers/7'' ''wk'')) \<noteq> ''/workers/join''" by code_simp
  show "considerate (WorkerId 7) sample_env" by (simp add: considerate_def sample_undisturbed)
  show "fleet_ok sample_gateway"
    by (simp add: fleet_ok_def rows_ok_def sample_gateway_def keyed_def hm_ok_def sample_worker_def new_worker_def)
  show "stored_context sample_env ''wk'' sample_gateway =
    (Some \<lparr> ac_principal_id = ''worker:seven'', ac_method = WorkerOperational, ac_capabilities = [PWorkerRegister, PWorkerDelete],
       ac_worker_id = Some (WorkerId 7) \<rparr>, sample_gateway)"
    by (simp add: stored_context_def store_call_def sample_env_def sample_gateway_def asking_def
        find_active_worker_operational_credential_def hm_get_def worker_context_def show_worker_def credential_active_def)
qed simp

end
