(* ===== verification/Api_Liveness.thy ===== *)
theory Api_Liveness
  imports Api_Claims
begin

text \<open>
  Heartbeats and the health scan together: what a heartbeat writes, a worker that comes back from being
  offline, and the inventory row a heartbeat names.
\<close>

section \<open>A heartbeat nobody disturbs\<close>

abbreviation gw_store :: "gateway \<Rightarrow> mem_store" where
  "gw_store g \<equiv> yd_store (gw_yard g)"

lemma store_call_quiet:
  assumes "av_others en = (\<lambda>_ g. g)"
  shows "store_call en n op g = (fst (op (gw_store g)), g\<lparr>gw_yard := (gw_yard g)\<lparr>yd_store := snd (op (gw_store g))\<rparr>\<rparr>)"
  by (simp add: store_call_def assms case_prod_beta)

lemma access_call_quiet:
  assumes "av_others en = (\<lambda>_ g. g)"
  shows "gw_yard (snd (access_call en n op g)) = gw_yard g"
  by (simp add: access_call_def assms case_prod_beta)

lemma agent_events_quiet:
  assumes "av_others en = (\<lambda>_ g. g)"
  shows "gw_yard (agent_events en n w action agents g) = gw_yard g"
proof -
  have "gw_yard (fold (\<lambda>(k, a) g. snd (access_call en (n + k) (op k a) g)) kas g) = gw_yard g"
    for kas and op :: "nat \<Rightarrow> agent_id \<Rightarrow> access \<Rightarrow> (store_error, unit) result \<times> access"
    by (induction kas arbitrary: g) (auto simp: access_call_quiet[OF assms])
  then show ?thesis unfolding agent_events_def .
qed

lemma reports_keep:
  assumes "av_others en = (\<lambda>_ g. g)"
  shows "ms_workers (gw_store (beat_reports en i rq g)) = ms_workers (gw_store g)"
    "yd_hosts (gw_yard (beat_reports en i rq g)) = yd_hosts (gw_yard g)"
  by (simp_all add: beat_reports_def Let_def agent_events_quiet[OF assms] store_call_quiet[OF assms] ack_agent_commands_def
      apply_agent_observations_def case_prod_beta split: option.split)

lemma inventory_keeps:
  assumes "av_others en = (\<lambda>_ g. g)"
  shows "ms_workers (gw_store (beat_inventory en i w rq g)) = ms_workers (gw_store g)"
    "yd_hosts (gw_yard (beat_inventory en i w rq g)) = put_host (host_of_heartbeat en w i rq) (yd_hosts (gw_yard g))"
  by (simp_all add: beat_inventory_def Let_def store_call_quiet[OF assms] yard_call_def assms upsert_host_def append_event_def)

text \<open>The row after a heartbeat, from the row it read.\<close>

definition beaten :: "datetime \<Rightarrow> heartbeat_request \<Rightarrow> worker \<Rightarrow> worker" where
  "beaten now rq w =
     (if w_status w = WDraining then w\<lparr>w_active_tasks := hq_active_tasks rq, w_last_seen := Some now\<rparr>
      else if beat_overloaded rq then w\<lparr>w_status := WDraining\<rparr>
      else if w_status w = beat_status rq then w\<lparr>w_active_tasks := hq_active_tasks rq, w_last_seen := Some now\<rparr>
      else w\<lparr>w_status := beat_status rq\<rparr>)"

lemma beat_known_quiet:
  assumes "av_others en = (\<lambda>_ g. g)" "hm_get (ms_workers (gw_store g)) i = Some w" "w_id w = i"
    "beat_known en i w rq g = (r, h)"
  shows "(\<exists>p. r = Inr p \<and> hp_ok p \<and>
      hp_desired_state p = (if beat_overloaded rq \<or> w_status w = WDraining then ''drain'' else ''running''))"
    "\<forall>j. hm_get (ms_workers (gw_store h)) j =
       (if j = i then Some (beaten (av_clk en 0) rq w) else hm_get (ms_workers (gw_store g)) j)"
    "keyed w_id (ms_workers (gw_store g)) \<Longrightarrow> keyed w_id (ms_workers (gw_store h))"
    "yd_hosts (gw_yard h) = put_host (host_of_heartbeat en w i rq) (yd_hosts (gw_yard g))"
proof -
  have status: "beat_status rq \<noteq> WDraining" by (simp add: beat_status_def)
  note facts = beat_known_def set_status_of_def store_call_quiet[OF assms(1)] assms(2,3) status
    update_worker_heartbeat_def upsert_worker_def Let_def asking_def reports_keep[OF assms(1)] inventory_keeps[OF assms(1)]
  have split: "P" if "w_status w = WDraining \<Longrightarrow> P" "w_status w \<noteq> WDraining \<Longrightarrow> w_status w = beat_status rq \<Longrightarrow> beat_overloaded rq \<Longrightarrow> P"
    "w_status w \<noteq> WDraining \<Longrightarrow> w_status w = beat_status rq \<Longrightarrow> \<not> beat_overloaded rq \<Longrightarrow> P"
    "w_status w \<noteq> WDraining \<Longrightarrow> w_status w \<noteq> beat_status rq \<Longrightarrow> beat_overloaded rq \<Longrightarrow> P"
    "w_status w \<noteq> WDraining \<Longrightarrow> w_status w \<noteq> beat_status rq \<Longrightarrow> \<not> beat_overloaded rq \<Longrightarrow> P" for P
    using that by blast
  have r: "r = fst (beat_known en i w rq g)" and h: "h = snd (beat_known en i w rq g)" using assms(4) by simp_all
  show "\<exists>p. r = Inr p \<and> hp_ok p \<and>
      hp_desired_state p = (if beat_overloaded rq \<or> w_status w = WDraining then ''drain'' else ''running'')"
    unfolding r by (rule split) (simp_all add: facts)
  show "\<forall>j. hm_get (ms_workers (gw_store h)) j =
       (if j = i then Some (beaten (av_clk en 0) rq w) else hm_get (ms_workers (gw_store g)) j)"
    unfolding h by (rule split) (simp_all add: facts beaten_def heartbeat_of_def)
  show "keyed w_id (ms_workers (gw_store h))" if k: "keyed w_id (ms_workers (gw_store g))"
    unfolding h by (rule split) (simp_all add: facts k keyed_insert keyed_adjust)
  show "yd_hosts (gw_yard h) = put_host (host_of_heartbeat en w i rq) (yd_hosts (gw_yard g))"
    unfolding h by (rule split) (simp_all add: facts)
qed

lemma heartbeat_quiet:
  assumes "av_others en = (\<lambda>_ g. g)" "av_parse_uuid en (hq_worker_id rq) = Some u" "enforce_worker_self_binding ctx (WorkerId u) = Inr ()"
    "hm_get (ms_workers (gw_store g)) (WorkerId u) = Some w"
  shows "heartbeat en ctx rq g = beat_known en (WorkerId u) w rq g"
  using assms by (simp add: heartbeat_def Let_def store_call_quiet asking_def get_worker_def)

section \<open>A worker that comes back\<close>

record round =
  rd_env :: api_env
  rd_beat :: heartbeat_request
  rd_scan :: scan_env

text \<open>Heartbeats of one worker and health scans in turn: the answers to the heartbeats and the state at the end.\<close>

fun rounds ::
    "(duration \<Rightarrow> timedelta option) \<Rightarrow> health_config \<Rightarrow> authorization_context option \<Rightarrow> round list \<Rightarrow> gateway
     \<Rightarrow> (http_error, heartbeat_response) result list \<times> gateway" where
  "rounds conv cfg ctx [] g = ([], g)"
| "rounds conv cfg ctx (x # xs) g =
     (case heartbeat (rd_env x) ctx (rd_beat x) g of (r, g) \<Rightarrow>
        (case scan_once conv (rd_scan x) cfg (gw_yard g) of (_, y) \<Rightarrow>
           apfst ((#) r) (rounds conv cfg ctx xs (g\<lparr>gw_yard := y\<rparr>))))"

lemma keys_of: "set (map fst m) = {k. hm_get m k \<noteq> None}"
  by (auto simp: hm_get_def map_of_eq_None_iff)

lemma keyed_size:
  assumes "keyed key m" "keyed key m'" "\<forall>k. (hm_get m k = None) = (hm_get m' k = None)"
  shows "length m' = length m"
proof -
  have "set (map fst m) = set (map fst m')" unfolding keys_of using assms(3) by simp
  then have "card (set (map fst m)) = card (set (map fst m'))" by (rule arg_cong)
  moreover have "distinct (map fst m)" "distinct (map fst m')" using assms(1,2) by (simp_all add: keyed_def hm_ok_def)
  ultimately show ?thesis by (simp only: distinct_card length_map)
qed

lemma one_round:
  assumes "av_others en = (\<lambda>_ g. g)" "av_parse_uuid en (hq_worker_id rq) = Some u" "enforce_worker_self_binding ctx (WorkerId u) = Inr ()"
    "hm_get (ms_workers (gw_store g)) (WorkerId u) = Some w" "w_status w = WOffline" "w_liveness_mode w = Periodic"
    "w_last_seen w = Some seen" "hq_agent_healthy rq" "\<not> beat_overloaded rq" "sv_others sv = (\<lambda>_ s. s)"
    "sv_now sv - seen > conv_or conv 60 allowed"
    "keyed w_id (ms_workers (gw_store g))" "length (ms_workers (gw_store g)) \<le> 100"
    "heartbeat en ctx rq g = (r, g1)" "scan_once conv sv cfg (gw_yard g1) = (n, y)" "grace_duration cfg = Some allowed"
  shows "hm_get (ms_workers (yd_store y)) (WorkerId u) = Some w" "keyed w_id (ms_workers (yd_store y))"
    "length (ms_workers (yd_store y)) \<le> 100" "\<exists>p. r = Inr p \<and> hp_ok p \<and> hp_desired_state p = ''running''"
proof -
  let ?i = "WorkerId u" and ?m = "ms_workers (gw_store g)" and ?m1 = "ms_workers (gw_store g1)" and ?m2 = "ms_workers (yd_store y)"
  have w: "w_id w = ?i" using keyed_get[OF assms(12,4)] .
  note b = beat_known_quiet[OF assms(1,4) w, of rq r g1]
  have beat: "beat_known en ?i w rq g = (r, g1)" using heartbeat_quiet[OF assms(1-4)] assms(14) by simp
  show "\<exists>p. r = Inr p \<and> hp_ok p \<and> hp_desired_state p = ''running''" using b(1)[OF beat] assms(5,9) by simp
  have m1: "hm_get ?m1 j = (if j = ?i then Some (w\<lparr>w_status := WOnline\<rparr>) else hm_get ?m j)" for j
    using b(2)[OF beat] assms(5,8,9) by (simp add: beaten_def beat_status_def)
  have k1: "keyed w_id ?m1" using b(3)[OF beat assms(12)] .
  have l1: "length ?m1 = length ?m" by (rule keyed_size[OF assms(12) k1]) (auto simp: m1 assms(4))
  have few: "\<forall>st. hm_count (\<lambda>w. w_status w = st) ?m1 \<le> 100"
  proof
    fix st have "hm_count (\<lambda>w. w_status w = st) ?m1 \<le> length ?m1"
      by (simp add: hm_count_def hm_values_def)
    then show "hm_count (\<lambda>w. w_status w = st) ?m1 \<le> 100" using l1 assms(13) by simp
  qed
  note sc = conjunct1[OF scan_rows[OF k1 few assms(10,15,16)], rule_format]
  show "hm_get ?m2 ?i = Some w" using sc[of ?i] m1[of ?i] assms(5,6,7,11)
    by (simp add: watched_def gone_quiet_def)
  show k2: "keyed w_id ?m2" by (rule scan_keyed[OF assms(15) k1 assms(10)])
  have "length ?m2 = length ?m1" by (rule keyed_size[OF k1 k2]) (auto simp: sc split: option.splits)
  then show "length ?m2 \<le> 100" using l1 assms(13) by simp
qed

text \<open>
  C21. A worker that comes back does not stay. Its heartbeat writes back, with the status \<open>online\<close>, the row it
  read before it recorded the heartbeat, and so undoes the time of the heartbeat it has just recorded. When
  heartbeats and health scans alternate, which is what the default intervals of fifteen seconds for both
  give, every scan finds the old time and sets the worker offline again: after any number of rounds, each answered
  with \<open>ok\<close> and \<open>running\<close>, the row is exactly what it was.
\<close>

theorem returning_worker_flaps:
  assumes "keyed w_id (ms_workers (gw_store g))" "length (ms_workers (gw_store g)) \<le> 100"
    "hm_get (ms_workers (gw_store g)) (WorkerId u) = Some w" "w_status w = WOffline" "w_liveness_mode w = Periodic"
    "w_last_seen w = Some seen" "enforce_worker_self_binding ctx (WorkerId u) = Inr ()"
    "\<forall>x \<in> set xs. av_others (rd_env x) = (\<lambda>_ g. g) \<and> av_parse_uuid (rd_env x) (hq_worker_id (rd_beat x)) = Some u \<and>
       hq_agent_healthy (rd_beat x) \<and> \<not> beat_overloaded (rd_beat x) \<and> sv_others (rd_scan x) = (\<lambda>_ s. s) \<and>
       sv_now (rd_scan x) - seen > conv_or conv 60 allowed"
    "rounds conv cfg ctx xs g = (rs, g')" "grace_duration cfg = Some allowed"
  shows "hm_get (ms_workers (gw_store g')) (WorkerId u) = Some w \<and> length rs = length xs \<and>
    (\<forall>r \<in> set rs. \<exists>p. r = Inr p \<and> hp_ok p \<and> hp_desired_state p = ''running'')"
  using assms(1-3,8,9)
proof (induction xs arbitrary: g rs)
  case (Cons x xs)
  obtain r g1 where b: "heartbeat (rd_env x) ctx (rd_beat x) g = (r, g1)" by fastforce
  obtain n y where sc: "scan_once conv (rd_scan x) cfg (gw_yard g1) = (n, y)" by fastforce
  obtain rs' where rs: "rs = r # rs'" "rounds conv cfg ctx xs (g1\<lparr>gw_yard := y\<rparr>) = (rs', g')"
    using Cons.prems(5) b sc by (auto simp: apfst_def map_prod_def split: prod.splits)
  have x: "av_others (rd_env x) = (\<lambda>_ g. g)" "av_parse_uuid (rd_env x) (hq_worker_id (rd_beat x)) = Some u"
    "hq_agent_healthy (rd_beat x)" "\<not> beat_overloaded (rd_beat x)" "sv_others (rd_scan x) = (\<lambda>_ s. s)"
    "sv_now (rd_scan x) - seen > conv_or conv 60 allowed" using Cons.prems(4) by auto
  note step = one_round[OF x(1,2) assms(7) Cons.prems(3) assms(4,5,6) x(3,4,5,6) Cons.prems(1,2) b sc assms(10)]
  show ?case using Cons.IH[of "g1\<lparr>gw_yard := y\<rparr>" rs'] step Cons.prems(4) rs by simp
qed simp

definition sample_beat :: heartbeat_request where
  "sample_beat = \<lparr> hq_worker_id = ''seven'', hq_active_tasks = 0, hq_load_avg = [], hq_mem_available_mb = 0, hq_disk_free_mb = 0,
     hq_cpu_usage = None, hq_ram_usage = None, hq_agent_healthy = True, hq_grok_version = None, hq_fleet_worker_version = None,
     hq_os_info = Some \<lparr> os_type = [], os_distro = [], os_kernel = [], os_arch = [], os_hostname = ''other'' \<rparr>,
     hq_agent_acks = [], hq_agent_observations = None, hq_agent_orphans = [], hq_agent_fenced = [] \<rparr>"

definition sample_round :: round where
  "sample_round = \<lparr> rd_env = sample_env, rd_beat = sample_beat, rd_scan = quiet_scan \<rparr>"

lemma returning_worker_flaps_witness:
  "hm_get (ms_workers (gw_store (snd (rounds (\<lambda>d. Some (int d)) default_health_config None [sample_round, sample_round] sample_gateway))))
     (WorkerId 7) = Some sample_worker"
proof -
  obtain rs g' where run: "rounds (\<lambda>d. Some (int d)) default_health_config None [sample_round, sample_round] sample_gateway = (rs, g')"
    by fastforce
  have g: "keyed w_id (ms_workers (gw_store sample_gateway))" "length (ms_workers (gw_store sample_gateway)) \<le> 100"
    "hm_get (ms_workers (gw_store sample_gateway)) (WorkerId 7) = Some sample_worker"
    by (simp_all add: sample_gateway_def keyed_def hm_ok_def sample_worker_def new_worker_def hm_get_def)
  have w: "w_status sample_worker = WOffline" "w_liveness_mode sample_worker = Periodic" "w_last_seen sample_worker = Some 0"
    by (simp_all add: sample_worker_def new_worker_def)
  have x: "\<forall>x \<in> set [sample_round, sample_round]. av_others (rd_env x) = (\<lambda>_ g. g) \<and>
      av_parse_uuid (rd_env x) (hq_worker_id (rd_beat x)) = Some 7 \<and> hq_agent_healthy (rd_beat x) \<and>
      \<not> beat_overloaded (rd_beat x) \<and> sv_others (rd_scan x) = (\<lambda>_ s. s) \<and>
      sv_now (rd_scan x) - 0 > conv_or (\<lambda>d. Some (int d)) 60 (secs 45)"
    by (simp add: sample_round_def sample_env_def sample_beat_def beat_overloaded_def above_90_def conv_or_def
        secs_def)
  have grace: "grace_duration default_health_config = Some (secs 45)"
    by (simp add: grace_duration_def default_health_config_def secs_def)
  show ?thesis using returning_worker_flaps[OF g w _ x run grace] run by (simp add: enforce_worker_self_binding_def)
qed

section \<open>The inventory row a heartbeat names\<close>

lemma put_host_finds:
  "List.find (\<lambda>x. ho_hostname x = n) (put_host h hs) =
     (if n = ho_hostname h then Some h else List.find (\<lambda>x. ho_hostname x = n) hs)"
  by (induction hs) auto

text \<open>
  A heartbeat writes the inventory row of whatever host it names. The row of that host name, whoever
  registered it, is replaced: attached to the worker that sent the heartbeat, port 22, no user and no host
  to connect to. The rows of all other hosts stay as they are.
\<close>

theorem heartbeat_names_any_host:
  assumes "av_others en = (\<lambda>_ g. g)" "av_parse_uuid en (hq_worker_id rq) = Some u" "enforce_worker_self_binding ctx (WorkerId u) = Inr ()"
    "keyed w_id (ms_workers (gw_store g))" "hm_get (ms_workers (gw_store g)) (WorkerId u) = Some w"
    "hq_os_info rq = Some oi" "os_hostname oi = host" "host \<noteq> []" "heartbeat en ctx rq g = (r, h)"
  shows "\<exists>x. List.find (\<lambda>x. ho_hostname x = host) (yd_hosts (gw_yard h)) = Some x \<and>
      ho_worker_id x = Some (WorkerId u) \<and> ho_ssh_host x = None \<and> ho_ssh_user x = None \<and> ho_ssh_port x = 22 \<and>
      ho_provisioned_at x = None \<and>
      (\<forall>n. n \<noteq> host \<longrightarrow> List.find (\<lambda>x. ho_hostname x = n) (yd_hosts (gw_yard h)) =
         List.find (\<lambda>x. ho_hostname x = n) (yd_hosts (gw_yard g)))"
proof -
  have w: "w_id w = WorkerId u" by (rule keyed_get[OF assms(4,5)])
  have "beat_known en (WorkerId u) w rq g = (r, h)" using heartbeat_quiet[OF assms(1-3,5)] assms(9) by simp
  from beat_known_quiet(4)[OF assms(1,5) w this] show ?thesis
    using assms(6-8) by (simp add: put_host_finds host_of_heartbeat_def)
qed

lemma heartbeat_names_any_host_witness:
  "\<exists>x. List.find (\<lambda>x. ho_hostname x = ''other'') (yd_hosts (gw_yard (snd (heartbeat sample_env None sample_beat sample_gateway)))) = Some x \<and>
     ho_worker_id x = Some (WorkerId 7)"
proof -
  obtain r h where run: "heartbeat sample_env None sample_beat sample_gateway = (r, h)" by fastforce
  have g: "keyed w_id (ms_workers (gw_store sample_gateway))" "hm_get (ms_workers (gw_store sample_gateway)) (WorkerId 7) = Some sample_worker"
    by (simp_all add: sample_gateway_def keyed_def hm_ok_def sample_worker_def new_worker_def hm_get_def)
  have e: "av_parse_uuid sample_env (hq_worker_id sample_beat) = Some 7" by (simp add: sample_env_def)
  show ?thesis using heartbeat_names_any_host[OF sample_undisturbed e _ g _ _ _ run] run
    by (fastforce simp: enforce_worker_self_binding_def sample_beat_def)
qed

end
