(* ===== verification/Api_Trust.thy ===== *)
theory Api_Trust
  imports Api_Liveness
begin

text \<open>
  Tokens and secrets: what is issued is on the audit log, what is not cannot be used; a model credential comes back
  as it was stored; and whose signature a Cloudflare identity needs.
\<close>

section \<open>Issued means audited\<close>

definition unrevoked :: "(string, admin_api_token) hmap \<Rightarrow> admin_api_token set" where
  "unrevoked m = {t \<in> set (hm_values m). aa_revoked_at t = None}"

definition active_tokens :: "gateway \<Rightarrow> admin_api_token set" where
  "active_tokens g = unrevoked (xs_admin_api_tokens (gw_access g))"

text \<open>Exactly one event was added to the audit log, a success about this target.\<close>

definition audited_as :: "string \<Rightarrow> string \<Rightarrow> gateway \<Rightarrow> gateway \<Rightarrow> bool" where
  "audited_as action target g g' \<longleftrightarrow> (\<exists>e. xs_audit_events (gw_access g') = xs_audit_events (gw_access g) @ [e] \<and>
     ae_action e = action \<and> ae_target_id e = Some target \<and> ae_outcome e = AuditSuccess)"

lemma hm_remove_inserted: "hm_get m k = None \<Longrightarrow> hm_remove k (hm_insert k v m) = m"
  by (simp add: hm_remove_def hm_insert_def delete_update_same hm_get_None_keys)

lemma unrevoked_iff: "t \<in> unrevoked m \<longleftrightarrow> aa_revoked_at t = None \<and> (\<exists>k. (k, t) \<in> set m)"
  by (force simp: unrevoked_def hm_values_def)

lemma revoked_is_other:
  assumes "aa_revoked_at t = None"
  shows "t\<lparr>aa_revoked_at := Some now\<rparr> \<noteq> t" "t \<noteq> t\<lparr>aa_revoked_at := Some now\<rparr>"
  by (metis admin_api_token.select_convs(6) admin_api_token.surjective admin_api_token.update_convs(6) assms option.distinct(1))+

lemma in_adjust: "(j, t) \<in> set (hm_adjust k f m) \<longleftrightarrow> (\<exists>t'. (j, t') \<in> set m \<and> t = (if j = k then f t' else t'))"
  by (auto simp: hm_adjust_def image_iff split: prod.splits)

lemma unrevoked_adjust: "unrevoked (hm_adjust k (\<lambda>t. t\<lparr>aa_revoked_at := Some now\<rparr>) m) = unrevoked (filter (\<lambda>(p, _). p \<noteq> k) m)"
  by (rule set_eqI) (auto simp: unrevoked_iff in_adjust revoked_is_other split: if_splits)

lemma filter_absent: "hm_get m k = None \<Longrightarrow> filter (\<lambda>(p, _). p \<noteq> k) m = m"
  by (induction m) (auto simp: hm_get_def split: if_splits)

lemma issued_then_revoked:
  assumes "hm_get m k = None"
  shows "unrevoked (hm_adjust k (\<lambda>t. t\<lparr>aa_revoked_at := Some now\<rparr>) (hm_insert k t m)) = unrevoked m"
  unfolding unrevoked_adjust hm_insert_fresh[OF assms] by (simp add: filter_absent[OF assms])

lemma access_call_known:
  assumes "av_others en = (\<lambda>_ g. g)"
  shows "access_call en n op g = (fst (op (gw_access g)), g\<lparr>gw_access := snd (op (gw_access g))\<rparr>)"
  by (simp add: access_call_def assms case_prod_beta)

lemma audit_cases:
  "(is_failing_access x ''record_audit_event'' \<and> record_audit_event e x = (Inl (Unsupported ''record_audit_event''), x)) \<or>
   (record_audit_event e x = (Inr (), x\<lparr>xs_audit_events := xs_audit_events x @ [e]\<rparr>))"
  by (simp add: record_audit_event_def)

lemma api_event_about:
  "ae_action (api_event now ctx a t i) = a" "ae_target_id (api_event now ctx a t i) = Some i"
  "ae_outcome (api_event now ctx a t i) = AuditSuccess"
  by (simp_all add: api_event_def new_event_def)

lemma bootstrap_issue:
  assumes "av_others en = (\<lambda>_ g. g)" "create_bootstrap_token_api en ctx rq g = (r, h)"
  shows "case r of
      Inr x \<Rightarrow> hm_get (ms_bootstrap_tokens (gw_store h)) (av_digest en (cbp_token x)) = Some (cbp_row x) \<and>
        audited_as ''token.bootstrap.issue'' (public_id (cbp_row x)) g h
    | Inl _ \<Rightarrow> ms_bootstrap_tokens (gw_store h) = ms_bootstrap_tokens (gw_store g)"
proof (cases r)
  case (Inl e)
  then show ?thesis using assms(2)
    by (auto simp: create_bootstrap_token_api_def Let_def store_call_quiet[OF assms(1)] access_call_known[OF assms(1)]
        create_bootstrap_token_def revoke_bootstrap_token_def hm_remove_inserted not_Some_eq
        split: if_splits sum.splits option.splits prod.splits)
next
  case (Inr x)
  then show ?thesis using assms(2)
    by (auto simp: create_bootstrap_token_api_def Let_def store_call_quiet[OF assms(1)] access_call_known[OF assms(1)]
        create_bootstrap_token_def record_audit_event_def audited_as_def api_event_about
        split: if_splits sum.splits option.splits prod.splits)
qed

lemma admin_issue:
  assumes "av_others en = (\<lambda>_ g. g)" "create_admin_token_api en ctx who caps g = (r, h)"
  shows "case r of
      Inr x \<Rightarrow> hm_get (xs_admin_api_tokens (gw_access h)) (trim who) = Some (ia_row x) \<and>
        aa_token_digest (ia_row x) = av_digest en (ia_token x) \<and> audited_as ''admin_token.create'' (trim who) g h
    | Inl _ \<Rightarrow> active_tokens h = active_tokens g"
proof (cases r)
  case (Inl e)
  then show ?thesis using assms(2)
    by (auto simp: create_admin_token_api_def Let_def access_call_known[OF assms(1)] create_admin_token_def
        revoke_admin_token_def record_audit_event_def issued_then_revoked active_tokens_def
        split: if_splits sum.splits option.splits prod.splits)
next
  case (Inr x)
  then show ?thesis using assms(2)
    by (auto simp: create_admin_token_api_def Let_def access_call_known[OF assms(1)] create_admin_token_def
        record_audit_event_def audited_as_def api_event_about
        split: if_splits sum.splits option.splits prod.splits)
qed

lemma admin_rotation:
  assumes "av_others en = (\<lambda>_ g. g)" "rotate_admin_token_api en ctx who g = (r, h)"
  shows "case r of
      Inr x \<Rightarrow> hm_get (xs_admin_api_tokens (gw_access h)) who = Some (ra_row x) \<and>
        aa_token_digest (ra_row x) = av_digest en (ra_token x) \<and> audited_as ''admin_token.rotate'' who g h
    | Inl _ \<Rightarrow> active_tokens h \<subseteq> active_tokens g"
proof (cases r)
  case (Inl e)
  have sub: "unrevoked (hm_adjust k (\<lambda>t. t\<lparr>aa_revoked_at := Some now\<rparr>) (hm_adjust k f m)) \<subseteq> unrevoked m" for now k f m
    by (rule subsetI) (auto simp: unrevoked_iff in_adjust revoked_is_other split: if_splits)
  show ?thesis using assms(2) Inl
    by (auto dest: subsetD[OF sub] simp: rotate_admin_token_api_def access_call_known[OF assms(1)] rotate_admin_token_def rotated_token_def
        revoke_admin_token_def record_audit_event_def active_tokens_def
        split: if_splits sum.splits option.splits prod.splits store_error.splits)
next
  case (Inr x)
  then show ?thesis using assms(2)
    by (auto simp: rotate_admin_token_api_def access_call_known[OF assms(1)] rotate_admin_token_def rotated_token_def
        record_audit_event_def audited_as_def api_event_about
        split: if_splits sum.splits option.splits prod.splits store_error.splits)
qed

text \<open>
  A token is never handed out without a record of it. When nobody else interferes, issuing a bootstrap token,
  creating an admin token and rotating one either succeed, and then the token is stored under the digest of
  the secret in the answer and the audit log has exactly one more event, the success of this action on this
  token; or they fail, and then no bootstrap token and no unrevoked admin token exists that was not there before.
\<close>

theorem issued_means_audited:
  assumes "av_others en = (\<lambda>_ g. g)"
  shows "(case create_bootstrap_token_api en ctx rq g of
      (Inr x, h) \<Rightarrow> hm_get (ms_bootstrap_tokens (gw_store h)) (av_digest en (cbp_token x)) = Some (cbp_row x) \<and>
        audited_as ''token.bootstrap.issue'' (public_id (cbp_row x)) g h
    | (Inl _, h) \<Rightarrow> ms_bootstrap_tokens (gw_store h) = ms_bootstrap_tokens (gw_store g)) \<and>
   (case create_admin_token_api en ctx who caps g of
      (Inr x, h) \<Rightarrow> hm_get (xs_admin_api_tokens (gw_access h)) (trim who) = Some (ia_row x) \<and>
        aa_token_digest (ia_row x) = av_digest en (ia_token x) \<and> audited_as ''admin_token.create'' (trim who) g h
    | (Inl _, h) \<Rightarrow> active_tokens h = active_tokens g) \<and>
   (case rotate_admin_token_api en ctx who g of
      (Inr x, h) \<Rightarrow> hm_get (xs_admin_api_tokens (gw_access h)) who = Some (ra_row x) \<and>
        aa_token_digest (ra_row x) = av_digest en (ra_token x) \<and> audited_as ''admin_token.rotate'' who g h
    | (Inl _, h) \<Rightarrow> active_tokens h \<subseteq> active_tokens g)"
  using bootstrap_issue[OF assms surjective_pairing, of ctx rq g] admin_issue[OF assms surjective_pairing, of ctx who caps g]
    admin_rotation[OF assms surjective_pairing, of ctx who g]
  by (intro conjI) (simp_all add: case_prod_beta)

lemma issued_means_audited_witness:
  "\<exists>x h. create_admin_token_api sample_env None '' new '' [PWorkerList] sample_gateway = (Inr x, h) \<and>
     hm_get (xs_admin_api_tokens (gw_access h)) ''new'' = Some (ia_row x) \<and> audited_as ''admin_token.create'' ''new'' sample_gateway h"
proof -
  have t: "trim '' new '' = ''new''" by code_simp
  obtain r h where run: "create_admin_token_api sample_env None '' new '' [PWorkerList] sample_gateway = (r, h)" by fastforce
  have "is_ok (fst (create_admin_token_api sample_env None '' new '' [PWorkerList] sample_gateway))" by code_simp
  then obtain x where "r = Inr x" using run by (cases r) auto
  then show ?thesis using issued_means_audited[OF sample_undisturbed, where ctx = None and who = "'' new ''" and caps = "[PWorkerList]" and g = sample_gateway] run t by auto
qed

section \<open>A model credential comes back as it was stored\<close>

definition byte_of :: "char \<Rightarrow> 8 word" where "byte_of c = of_nat (of_char c)"

definition char_from :: "8 word \<Rightarrow> char" where "char_from b = char_of (unat b)"

lemma char_from_byte: "char_from (byte_of c) = c"
proof -
  have "of_char c < (256 :: nat)" by simp
  then show ?thesis by (simp add: char_from_def byte_of_def unat_of_nat)
qed

text \<open>The cipher of a master key, from the codec and the cipher it is built on; \<open>nonce\<close> is the random nonce.\<close>

definition cipher_with ::
    "(bytes \<Rightarrow> bytes \<Rightarrow> bytes \<Rightarrow> (string, bytes) result) \<Rightarrow> (bytes \<Rightarrow> bytes \<Rightarrow> bytes \<Rightarrow> (string, bytes) result) \<Rightarrow>
     (bytes \<Rightarrow> string) \<Rightarrow> (string \<Rightarrow> (string, bytes) result) \<Rightarrow> bytes \<Rightarrow> bytes \<Rightarrow> master_cipher" where
  "cipher_with seal unseal enc b64 key nonce = \<lparr>
     mc_encrypt = (\<lambda>p. map_sum credentials_error_text id (encrypt seal enc key nonce (map byte_of p))),
     mc_decrypt = (\<lambda>b. map_sum credentials_error_text (map char_from) (decrypt unseal b64 key b)) \<rparr>"

lemma cipher_inverse:
  assumes "length nonce = nonce_len" "\<And>n p c. seal key n p = Inr c \<Longrightarrow> unseal key n c = Inr p" "\<And>bs. b64 (enc bs) = Inr bs"
    "mc_encrypt (cipher_with seal unseal enc b64 key nonce) p = Inr blob"
  shows "mc_decrypt (cipher_with seal unseal enc b64 key nonce') blob = Inr p"
proof -
  have "encrypt seal enc key nonce (map byte_of p) = Inr blob"
    using assms(4) by (auto simp: cipher_with_def map_sum_def split: sum.splits)
  then have "decrypt unseal b64 key blob = Inr (map byte_of p)" using decrypt_encrypt assms(1-3) by blast
  then show ?thesis by (simp add: cipher_with_def comp_def char_from_byte)
qed

text \<open>The row of a stored credential.\<close>

definition stored_as :: "put_credential_request \<Rightarrow> string \<Rightarrow> datetime \<Rightarrow> stored_credential \<Rightarrow> bool" where
  "stored_as rq blob d c \<longleftrightarrow> sc_encrypted_blob c = blob \<and> sc_base_url c = pr_base_url rq \<and> sc_api_backend c = pr_api_backend rq \<and>
     sc_context_window c = pr_context_window rq \<and> sc_model_name c = pr_model_name rq \<and> sc_rotated_at c = d"

lemma named_worker_quiet:
  assumes "av_others en = (\<lambda>_ g. g)"
  shows "named_worker en name g = (case List.find (\<lambda>w. w_name w = name) (hm_values (ms_workers (gw_store g))) of
      None \<Rightarrow> Inl (HNotFound (Msg ''worker '{name}' not found'' [ArgStr name])) | Some w \<Rightarrow> Inr w, g)"
  by (simp add: named_worker_def store_call_quiet[OF assms] asking_def get_worker_by_name_def split: option.split)

lemma credential_audit_quiet:
  assumes "av_others en = (\<lambda>_ g. g)"
  shows "gw_store (snd (record_credential_audit en n k ctx action w m g)) = gw_store g"
  by (simp add: record_credential_audit_def access_call_known[OF assms])

lemma put_stores:
  assumes "av_others en = (\<lambda>_ g. g)" "put_worker_credential en cfg ctx name rq g = (Inr d, h)"
  obtains w mk blob c where "List.find (\<lambda>w. w_name w = name) (hm_values (ms_workers (gw_store g))) = Some w"
    "ap_master_key cfg = Some mk" "mc_encrypt mk (pr_api_key rq) = Inr blob"
    "ms_workers (gw_store h) = ms_workers (gw_store g)"
    "hm_get (ms_credentials (gw_store h)) (w_name w, pr_model_id rq) = Some c" "stored_as rq blob d c"
proof -
  obtain w where w: "List.find (\<lambda>w. w_name w = name) (hm_values (ms_workers (gw_store g))) = Some w"
    using assms(2) by (cases "List.find (\<lambda>w. w_name w = name) (hm_values (ms_workers (gw_store g)))")
      (simp_all add: put_worker_credential_def named_worker_quiet[OF assms(1)])
  obtain mk where mk: "ap_master_key cfg = Some mk"
    using assms(2) by (cases "ap_master_key cfg") (simp_all add: put_worker_credential_def named_worker_quiet[OF assms(1)] w)
  obtain blob where blob: "mc_encrypt mk (pr_api_key rq) = Inr blob"
    using assms(2) by (cases "mc_encrypt mk (pr_api_key rq)")
      (simp_all add: put_worker_credential_def named_worker_quiet[OF assms(1)] w mk split: if_splits)
  let ?op = "upsert_worker_credential (av_clk en 0) (w_name w) (pr_model_id rq) blob (pr_base_url rq) (pr_api_backend rq)
      (pr_context_window rq) (pr_model_name rq)"
  let ?t = "snd (?op (gw_store g))"
  obtain c where c: "hm_get (ms_credentials ?t) (w_name w, pr_model_id rq) = Some c" "stored_as rq blob (av_clk en 0) c"
    by (simp add: upsert_worker_credential_def Let_def stored_as_def)
  have u: "fst (?op (gw_store g)) = Inr ()" "ms_workers ?t = ms_workers (gw_store g)"
    by (simp_all add: upsert_worker_credential_def Let_def)
  have "d = av_clk en 0 \<and> gw_store h = ?t"
    using assms(2) c u(1)
    by (auto simp: put_worker_credential_def named_worker_quiet[OF assms(1)] w mk blob store_call_quiet[OF assms(1)] asking_def
        get_worker_credential_def credential_audit_quiet[OF assms(1)] stored_as_def split: if_splits)
  then show ?thesis using that[OF w mk blob] u(2) c by simp
qed

lemma section_key:
  "\<exists>before rest after. render_grok_config_section c = before @ ''api_key = '' @ CHR 0x22 # rest \<and>
     read_quoted rest = Some (wc_api_key c, after)"
proof -
  let ?before = "''[model.'' @ wc_model_id c @ '']'' @ line_feed @ ''base_url = '' @ toml_escape (wc_base_url c) @ line_feed"
  let ?after = "line_feed @ (case wc_model c of Some m \<Rightarrow> ''model = '' @ toml_escape m @ line_feed | None \<Rightarrow> [])
     @ ''api_backend = '' @ toml_escape (wc_api_backend c) @ line_feed
     @ ''context_window = '' @ dec (unat (wc_context_window c)) @ line_feed"
  have quote: "toml_escape s @ t = CHR 0x22 # tl (toml_escape s) @ t" for s t by (simp add: toml_escape_def)
  have "render_grok_config_section c = ?before @ ''api_key = '' @ toml_escape (wc_api_key c) @ ?after"
    unfolding render_grok_config_section_def append.assoc ..
  then have "render_grok_config_section c = ?before @ ''api_key = '' @ CHR 0x22 # tl (toml_escape (wc_api_key c)) @ ?after"
    unfolding quote[of "wc_api_key c"] .
  then show ?thesis using read_escaped[of "wc_api_key c" ?after] by blast
qed

text \<open>
  A model's API key comes back as it was stored. After a successful \<open>PUT\<close>, an export with the same master
  key answers with the very key, base URL and time of the \<open>PUT\<close>, puts the key into the configuration
  section in a quoted string that reads back as the key, and adds exactly one event to the audit log; when the
  audit log cannot be written the key is not given out at all.
\<close>

theorem stored_key_comes_back:
  assumes "\<And>n p c. seal key n p = Inr c \<Longrightarrow> unseal key n c = Inr p" "\<And>bs. b64 (enc bs) = Inr bs" "length nonce = nonce_len"
    "ap_master_key cfg = Some (cipher_with seal unseal enc b64 key nonce)"
    "ap_master_key cfg' = Some (cipher_with seal unseal enc b64 key nonce')"
    "av_others en = (\<lambda>_ g. g)" "av_others en' = (\<lambda>_ g. g)" "utf8_valid (pr_api_key rq)" "tables_ok (gw_store g1)"
    "put_worker_credential en cfg ctx name rq g = (Inr d, g1)"
    "export_worker_credential en' cfg' ctx' name (pr_model_id rq) g1 = (r, g2)"
  shows "if is_failing_access (gw_access g1) ''record_audit_event'' then (\<exists>m. r = Inl (HInternal m)) \<and> g2 = g1
    else (\<exists>x before rest after. r = Inr x \<and> ec_api_key x = pr_api_key rq \<and> sc_base_url (ec_row x) = pr_base_url rq \<and>
      sc_rotated_at (ec_row x) = d \<and> ec_grok_config_section x = before @ ''api_key = '' @ CHR 0x22 # rest \<and>
      read_quoted rest = Some (pr_api_key rq, after) \<and>
      audited_as ''worker.llm_credential.export'' (name @ ''/'' @ pr_model_id rq) g1 g2)"
proof -
  obtain w blob c where w: "List.find (\<lambda>w. w_name w = name) (hm_values (ms_workers (gw_store g))) = Some w"
    and blob: "mc_encrypt (cipher_with seal unseal enc b64 key nonce) (pr_api_key rq) = Inr blob"
    and ws: "ms_workers (gw_store g1) = ms_workers (gw_store g)"
    and c: "hm_get (ms_credentials (gw_store g1)) (w_name w, pr_model_id rq) = Some c" "stored_as rq blob d c"
    using put_stores[OF assms(6,10)] assms(4) by (metis option.inject)
  have name: "w_name w = name" using find_Some_mem[OF w] by simp
  have key: "mc_decrypt (cipher_with seal unseal enc b64 key nonce') (sc_encrypted_blob c) = Inr (pr_api_key rq)"
    using cipher_inverse[OF assms(3,1,2) blob] c(2) by (simp add: stored_as_def)
  have ids: "sc_worker_name c = name" "sc_model_id c = pr_model_id rq"
    using keyed_get[OF _ c(1)] assms(9) by (auto simp: tables_ok_def name)
  let ?a = "record_credential_audit en' 2 0 ctx' ''worker.llm_credential.export'' name (pr_model_id rq) g1"
  let ?x = "\<lparr> ec_api_key = pr_api_key rq, ec_row = credential_summary_of c,
          ec_grok_config_section = render_grok_config_section (credentials_of c (pr_api_key rq)) \<rparr>"
  have run: "(r, g2) = (case ?a of
        (Inl _, g) \<Rightarrow> (Inl (HInternal (plain_text ''audit log unavailable; credential export refused'')), g)
      | (Inr _, g) \<Rightarrow> (Inr ?x, g))"
    using assms(11) unfolding export_worker_credential_def named_worker_quiet[OF assms(7)] ws w
    by (simp add: assms(5,8) store_call_quiet[OF assms(7)] asking_def get_worker_credential_def name c(1)[unfolded name] key ids
        del: One_nat_def)
  show ?thesis
  proof (cases "is_failing_access (gw_access g1) ''record_audit_event''")
    case True
    then show ?thesis using run by (simp add: record_credential_audit_def access_call_known[OF assms(7)] record_audit_event_def)
  next
    case False
    then have "r = Inr ?x" "g2 = snd ?a" "audited_as ''worker.llm_credential.export'' (name @ ''/'' @ pr_model_id rq) g1 (snd ?a)"
      using run by (simp_all add: record_credential_audit_def access_call_known[OF assms(7)] record_audit_event_def
          audited_as_def api_event_about)
    then show ?thesis using False section_key[of "credentials_of c (pr_api_key rq)"] c(2)
      by (simp add: credentials_of_def credential_summary_of_def stored_as_def)
  qed
qed

text \<open>A cipher that hides nothing, an encoding that copies: enough to see the round trip run.\<close>

abbreviation sample_cipher :: master_cipher where
  "sample_cipher \<equiv> cipher_with (\<lambda>k n p. Inr p) (\<lambda>k n c. Inr c) (map char_from) (\<lambda>b. Inr (map byte_of b)) [] (replicate 12 0)"

definition sample_put :: put_credential_request where
  "sample_put = \<lparr> pr_model_id = ''m'', pr_base_url = ''u'', pr_api_key = ''key'', pr_api_backend = ''b'', pr_context_window = 1,
     pr_model_name = None \<rparr>"

lemma byte_from_char: "byte_of (char_from b) = b"
proof -
  have "unat b < 256" using unsigned_less[of b] by simp
  then show ?thesis by (simp add: char_from_def byte_of_def)
qed

lemma stored_key_comes_back_witness:
  "\<exists>x. fst (export_worker_credential sample_env (sample_config\<lparr>ap_master_key := Some sample_cipher\<rparr>) None ''w'' ''m''
      (snd (put_worker_credential sample_env (sample_config\<lparr>ap_master_key := Some sample_cipher\<rparr>) None ''w'' sample_put sample_gateway))) = Inr x \<and>
     ec_api_key x = ''key''"
proof -
  let ?cfg = "sample_config\<lparr>ap_master_key := Some sample_cipher\<rparr>"
  obtain d g1 where put: "put_worker_credential sample_env ?cfg None ''w'' sample_put sample_gateway = (d, g1)" by fastforce
  obtain r g2 where get: "export_worker_credential sample_env ?cfg None ''w'' (pr_model_id sample_put) g1 = (r, g2)" by fastforce
  have name: "List.find (\<lambda>w. w_name w = ''w'') (hm_values (ms_workers (gw_store sample_gateway))) = Some sample_worker" "w_name sample_worker = ''w''"
    by (simp_all add: sample_gateway_def hm_values_def sample_worker_def new_worker_def)
  obtain blob where enc: "mc_encrypt sample_cipher ''key'' = Inr blob" by (simp add: cipher_with_def encrypt_def)
  let ?t = "snd (upsert_worker_credential 0 ''w'' ''m'' blob ''u'' ''b'' 1 None (gw_store sample_gateway))"
  have nw: "named_worker sample_env ''w'' sample_gateway = (Inr sample_worker, sample_gateway)"
    by (simp add: named_worker_quiet[OF sample_undisturbed] name)
  have rq: "pr_api_key sample_put = ''key''" "pr_base_url sample_put = ''u''" "pr_model_id sample_put = ''m''" "pr_api_backend sample_put = ''b''"
    "pr_context_window sample_put = 1" "pr_model_name sample_put = None" by (simp_all add: sample_put_def)
  have clk: "av_clk sample_env n = 0" for n by (simp add: sample_env_def)
  have up: "fst (upsert_worker_credential 0 ''w'' ''m'' blob ''u'' ''b'' 1 None s) = Inr ()" for s
    by (simp add: upsert_worker_credential_def Let_def)
  have c: "\<exists>c. hm_get (ms_credentials ?t) (''w'', ''m'') = Some c \<and> sc_rotated_at c = 0"
    by (simp add: upsert_worker_credential_def Let_def)
  have t: "tables_ok ?t"
    by (simp add: upsert_worker_credential_def Let_def sample_gateway_def empty_store_def tables_ok_def keyed_def hm_ok_def
        sample_worker_def new_worker_def hm_insert_def)
  let ?h = "sample_gateway\<lparr>gw_yard := (gw_yard sample_gateway)\<lparr>yd_store := ?t\<rparr>\<rparr>"
  have "(d, g1) = (Inr 0, snd (record_credential_audit sample_env 3 1 None ''worker.llm_credential.put'' ''w'' ''m'' ?h))"
    using put c unfolding put_worker_credential_def nw
    by (auto simp: enc rq name(2) store_call_quiet[OF sample_undisturbed] clk up asking_def get_worker_credential_def
        simp del: One_nat_def)
  moreover have "\<not> is_failing_access (gw_access (snd (record_credential_audit sample_env 3 1 None ''worker.llm_credential.put'' ''w'' ''m'' ?h))) ''record_audit_event''"
    by (simp add: record_credential_audit_def access_call_known[OF sample_undisturbed] record_audit_event_def is_failing_access_def
        sample_gateway_def empty_access_def)
  ultimately have g: "d = Inr 0 \<and> tables_ok (gw_store g1) \<and> \<not> is_failing_access (gw_access g1) ''record_audit_event''"
    using t by (simp add: credential_audit_quiet[OF sample_undisturbed])
  have key: "utf8_valid (pr_api_key sample_put)" by code_simp
  have put': "put_worker_credential sample_env ?cfg None ''w'' sample_put sample_gateway = (Inr 0, g1)" using put g by simp
  have mk: "ap_master_key ?cfg = Some sample_cipher" by simp
  have "\<exists>x before rest after. r = Inr x \<and> ec_api_key x = pr_api_key sample_put \<and> sc_base_url (ec_row x) = pr_base_url sample_put \<and>
      sc_rotated_at (ec_row x) = 0 \<and> ec_grok_config_section x = before @ ''api_key = '' @ CHR 0x22 # rest \<and>
      read_quoted rest = Some (pr_api_key sample_put, after) \<and>
      audited_as ''worker.llm_credential.export'' (''w'' @ ''/'' @ pr_model_id sample_put) g1 g2"
    using stored_key_comes_back[OF _ _ _ mk mk sample_undisturbed sample_undisturbed key _ put' get] g
    by (simp add: byte_from_char comp_def nonce_len_def)
  then have "\<exists>x. r = Inr x \<and> ec_api_key x = ''key''" unfolding rq(1) by blast
  then show ?thesis using put get rq(3) by simp
qed

section \<open>Whose signature an identity needs\<close>

text \<open>An issuer that names a host of its own choice.\<close>

definition named_issuer :: "string \<Rightarrow> string" where
  "named_issuer host = ''https://'' @ host @ ''/.cloudflareaccess.com''"

lemma named_issuer_trusted:
  "fetch_jwk_set cv (named_issuer host) = cv_fetch cv (''https://'' @ host @ ''/.cloudflareaccess.com/cdn-cgi/access/certs'')"
  by (simp add: fetch_jwk_set_def named_issuer_def starts_with_def ends_with_def)

lemma health_is_open: "open_route m ''/v1/health''" "open_route m ''/health''"
  by (simp_all add: open_route_def normalized_v1_path_def strip_prefix_def)

text \<open>
  C37. The signature of a Cloudflare identity is checked with a key that the token itself chooses. Whoever serves
  a key set at any host, and signs with its key a token that names this host before the path
  \<open>/.cloudflareaccess.com\<close> as its issuer, is served with the capabilities of whatever e-mail address the
  token states.
\<close>

theorem token_names_its_keys:
  assumes "ap_cf_audience cfg = Some aud" "trim aud \<noteq> []" "ap_valid_tokens cfg = None" "\<not> ap_allow_no_auth cfg"
    "hr_authorization rq = None" "\<not> open_route (hr_method rq) (hr_path rq)"
    "cv_kid cv jwt = Some (Some kid)" "split_on (CHR ''.'') jwt = [header, payload, sig]" "cv_payload cv payload = Some claims"
    "cc_iss claims = Some (named_issuer host)" "hm_get cache (named_issuer host) = None" "cv_others cv = (\<lambda>c. c)"
    "cv_fetch cv (''https://'' @ host @ ''/.cloudflareaccess.com/cdn-cgi/access/certs'') = Some keys" "jwks_find keys kid = Some k"
    "cv_verify cv k (Some aud) jwt = Some claims" "cc_email claims = Some addr" "trim addr \<noteq> []"
    "c = \<lparr> ac_principal_id = addr, ac_method = CloudflareAccess, ac_capabilities = cf_access_capabilities cfg addr, ac_worker_id = None \<rparr>"
    "authorize_http_endpoint (hr_method rq) (hr_path rq) (Some c) = Inr ()"
  shows "\<exists>cache'. \<forall>g. serve decode cv en cfg rq (Some jwt) body (g, cache) =
    (case routed decode en cfg rq body (Some c) g of (r, g') \<Rightarrow> (r, g', cache'))"
proof -
  let ?u = "\<lparr> vu_email = addr, vu_audience = cc_aud claims, vu_expires_at = cc_exp claims \<rparr>"
  have parse: "parse_jwt_unsafe cv jwt = Some claims" using assms(8,9) by (simp add: parse_jwt_unsafe_def)
  obtain cache' where jwk: "get_jwk cv (named_issuer host) kid cache = (Some k, cache')"
    using assms(11-14) by (simp add: get_jwk_def cached_jwk_def named_issuer_trusted Let_def)
  have path: "hr_path rq \<noteq> ''/v1/health''" "hr_path rq \<noteq> ''/health''" using assms(6) health_is_open by metis+
  have layer: "cloudflare_access_middleware cv cfg rq (Some jwt) cache = (Inr (Some ?u), cache')"
    using assms(1,4,7,10,15,16) path by (simp add: cloudflare_access_middleware_def parse jwk)
  have "configured_context en cfg (rq\<lparr>hr_user := Some ?u\<rparr>) = Some c"
    using assms(1-3,17,18) by (simp add: configured_context_def cf_access_principal_id_def)
  then have "auth_middleware en cfg (rq\<lparr>hr_user := Some ?u\<rparr>) h g = h (Some c) g" for h :: "api_answer handler" and g
    using assms(4-6,19) by (simp add: auth_middleware_def bearer_token_def authorized_def)
  then have "guarded cv en cfg rq (Some jwt) (routed decode en cfg rq body) (g, cache) =
      (case routed decode en cfg rq body (Some c) g of (r, g') \<Rightarrow> (r, g', cache'))" for g
    using assms(1) by (simp add: guarded_def layer)
  then show ?thesis by (cases "route (hr_method rq) (hr_path rq) = Inl 404") (auto simp: serve_def routed_def)
qed

definition forged :: cf_claims where
  "forged = \<lparr> cc_exp = 0, cc_aud = ''aud'', cc_iss = Some (named_issuer ''evil''), cc_email = Some ''root'' \<rparr>"

definition forged_cf :: cf_env where
  "forged_cf = sample_cf\<lparr>cv_payload := (\<lambda>_. Some forged), cv_fetch := (\<lambda>url.
     if url = ''https://evil/.cloudflareaccess.com/cdn-cgi/access/certs'' then Some [(''kid'', ''mine'')] else None),
     cv_verify := (\<lambda>k _ _. if k = ''mine'' then Some forged else None)\<rparr>"

definition forged_config :: api_config where
  "forged_config = with_cf_principal_capabilities [(''root'', [PWorkerList])] (with_cf_audience ''aud'' new_api_config)"

definition forged_request :: http_request where
  "forged_request = \<lparr> hr_method = HGet, hr_path = ''/workers/7'', hr_authorization = None, hr_user = None \<rparr>"

lemma token_names_its_keys_witness:
  "\<exists>g' cache'. serve Some forged_cf sample_env forged_config forged_request (Some ''h.p.s'') sample_body (sample_gateway, []) =
     (Handled (Inr (AnsWorker (worker_to_summary sample_worker))), g', cache')"
proof -
  let ?c = "\<lparr> ac_principal_id = ''root'', ac_method = CloudflareAccess, ac_capabilities = [PWorkerList], ac_worker_id = None \<rparr>"
  have cfg: "ap_cf_audience forged_config = Some ''aud''" "ap_valid_tokens forged_config = None" "\<not> ap_allow_no_auth forged_config"
    by (simp_all add: forged_config_def with_cf_principal_capabilities_def with_cf_audience_def new_api_config_def)
  have t: "trim ''aud'' \<noteq> []" "trim ''root'' \<noteq> []" "split_on (CHR ''.'') ''h.p.s'' = [''h'', ''p'', ''s'']" by code_simp+
  have caps: "cf_access_capabilities forged_config ''root'' = [PWorkerList]" by code_simp
  have rq: "hr_authorization forged_request = None" "\<not> open_route (hr_method forged_request) (hr_path forged_request)" by code_simp+
  have may_list: "authorize_http_endpoint (hr_method forged_request) (hr_path forged_request) (Some ?c) = Inr ()" by code_simp
  have e: "route (hr_method forged_request) (hr_path forged_request) = Inr (EpGetWorker ''7'')" by code_simp
  have cf: "cv_kid forged_cf ''h.p.s'' = Some (Some ''kid'')" "cv_payload forged_cf ''p'' = Some forged" "cv_others forged_cf = (\<lambda>c. c)"
    "cv_fetch forged_cf (''https://'' @ ''evil'' @ ''/.cloudflareaccess.com/cdn-cgi/access/certs'') = Some [(''kid'', ''mine'')]"
    "jwks_find [(''kid'', ''mine'')] ''kid'' = Some ''mine''" "cv_verify forged_cf ''mine'' (Some ''aud'') ''h.p.s'' = Some forged"
    by (simp_all add: forged_cf_def sample_cf_def jwks_find_def)
  have claims: "cc_iss forged = Some (named_issuer ''evil'')" "cc_email forged = Some ''root''" by (simp_all add: forged_def)
  have w: "hm_get (ms_workers (gw_store sample_gateway)) (WorkerId 7) = Some sample_worker" "av_parse_uuid sample_env s = Some 7" for s
    by (simp_all add: sample_gateway_def hm_get_def sample_env_def)
  have "\<exists>cache'. \<forall>g. serve Some forged_cf sample_env forged_config forged_request (Some ''h.p.s'') sample_body (g, []) =
      (case routed Some sample_env forged_config forged_request sample_body (Some ?c) g of (r, g') \<Rightarrow> (r, g', cache'))"
    by (rule token_names_its_keys[OF cfg(1) t(1) cfg(2,3) rq cf(1) t(3) cf(2) claims(1) _ cf(3-6) claims(2) t(2) _ may_list])
      (simp_all add: caps)
  moreover have "fst (routed Some sample_env forged_config forged_request sample_body (Some ?c) sample_gateway) =
      Handled (Inr (AnsWorker (worker_to_summary sample_worker)))"
    by (simp add: routed_def e with_param_def answer_def get_worker_api_def w store_call_quiet[OF sample_undisturbed] asking_def get_worker_def)
  ultimately show ?thesis by (auto simp: case_prod_beta)
qed

end
