(* ===== verification/Worker_Config.thy ===== *)
theory Worker_Config
  imports Server_Key Worker_Model Api_Workers
begin

text \<open>
  The configuration of the worker daemon (\<open>crates/fleet-worker/src/config.rs\<close>, \<open>error.rs\<close>, and the address
  helpers and proxy variables of \<open>grok_process.rs\<close>). TOML parsing and the parser of socket addresses are
  arguments; the latter is known by the port it finds.
\<close>

section \<open>Errors and sections\<close>

datatype worker_error = WeConfig message | WeConfigIo string | WeGrokSubprocess message | WeOrchestratorApi message
  | WeHttp string | WeToml string | WeOther message

record llm_proxy_section =
  lx_gateway_url :: "string option"
  lx_api_key :: "string option"

record mtls_section =
  mt_enabled :: bool
  mt_listen_addr :: string
  mt_server_cert_path :: string
  mt_server_key_path :: string
  mt_client_ca_path :: string
  mt_advertised_host :: "string option"
  mt_advertised_port :: "16 word option"
  mt_cert_reload_interval_secs :: "u64 option"

record worker_section =
  ws_name :: string
  ws_orchestrator_url :: string
  ws_heartbeat_interval_secs :: u32
  ws_agent_fence_after_secs :: u32
  ws_watchdog_stall_after_secs :: u32
  ws_operational_token :: "string option"
  ws_labels :: labels
  ws_existing_worker_id :: "string option"
  ws_liveness_mode :: worker_liveness_mode

record grok_section =
  gk_bin :: string
  gk_bind_addr :: string
  gk_secret :: string
  gk_max_concurrent_tasks :: u32
  gk_restart_delay_secs :: u32
  gk_cwd :: "string option"
  gk_agent_port_range :: string
  gk_agent_workspace_root :: "string option"
  gk_max_agent_processes :: u32

record worker_config =
  wg_worker :: worker_section
  wg_grok :: grok_section
  wg_mtls :: "mtls_section option"
  wg_llm_proxy :: "llm_proxy_section option"

text \<open>The values serde fills in.\<close>

definition default_heartbeat_interval :: u32 where "default_heartbeat_interval = 15"
definition default_bind_addr :: string where "default_bind_addr = ''127.0.0.1:2419''"
definition default_max_concurrent :: u32 where "default_max_concurrent = 4"
definition default_restart_delay :: u32 where "default_restart_delay = 5"
definition default_agent_port_range :: string where "default_agent_port_range = ''2420-2519''"
definition default_agent_fence_after :: u32 where "default_agent_fence_after = 300"
definition default_watchdog_stall_after :: u32 where "default_watchdog_stall_after = 600"
definition default_max_agent_processes :: u32 where "default_max_agent_processes = 4"

section \<open>Reading a configuration\<close>

definition trim_end_slashes :: "string \<Rightarrow> string" where
  "trim_end_slashes s = rev (dropWhile (\<lambda>c. c = CHR ''/'') (rev s))"

definition normalize_config :: "worker_config \<Rightarrow> worker_config" where
  "normalize_config c = c\<lparr>
     wg_worker := (wg_worker c)\<lparr>ws_orchestrator_url := trim_end_slashes (trim (ws_orchestrator_url (wg_worker c))),
       ws_name := trim (ws_name (wg_worker c))\<rparr>,
     wg_grok := (wg_grok c)\<lparr>gk_bin := trim (gk_bin (wg_grok c)), gk_bind_addr := trim (gk_bind_addr (wg_grok c)),
       gk_secret := trim (gk_secret (wg_grok c))\<rparr>\<rparr>"

definition ascii_alphanumeric :: "char \<Rightarrow> bool" where
  "ascii_alphanumeric c = (let n = (of_char c :: nat) in
     (48 \<le> n \<and> n \<le> 57) \<or> (65 \<le> n \<and> n \<le> 90) \<or> (97 \<le> n \<and> n \<le> 122))"

definition http_url :: "string \<Rightarrow> bool" where
  "http_url s = (starts_with ''http://'' s \<or> starts_with ''https://'' s)"

definition validate_mtls :: "(string \<Rightarrow> 16 word option) \<Rightarrow> mtls_section \<Rightarrow> (worker_error, unit) result" where
  "validate_mtls parse_addr m =
     (if \<not> mt_enabled m then Inr ()
      else if trim (mt_listen_addr m) = [] then Inl (WeConfig (plain_text ''mtls.listen_addr must not be empty when mtls.enabled''))
      else if mt_server_cert_path m = [] then Inl (WeConfig (plain_text ''mtls.server_cert_path must not be empty when mtls.enabled''))
      else if mt_server_key_path m = [] then Inl (WeConfig (plain_text ''mtls.server_key_path must not be empty when mtls.enabled''))
      else if mt_client_ca_path m = [] then Inl (WeConfig (plain_text ''mtls.client_ca_path must not be empty when mtls.enabled''))
      else if parse_addr (mt_listen_addr m) = None
      then Inl (WeConfig (Msg ''mtls.listen_addr must be host:port - got: {}'' [ArgStr (mt_listen_addr m)]))
      else Inr ())"

definition validate_llm_proxy :: "llm_proxy_section \<Rightarrow> (worker_error, unit) result" where
  "validate_llm_proxy x =
     (case (lx_gateway_url x, lx_api_key x) of
        (Some _, None) \<Rightarrow> Inl (WeConfig (plain_text ''llm_proxy.gateway_url is set but llm_proxy.api_key is missing''))
      | (None, Some _) \<Rightarrow> Inl (WeConfig (plain_text ''llm_proxy.api_key is set but llm_proxy.gateway_url is missing''))
      | (Some url, Some _) \<Rightarrow>
          if http_url url then Inr ()
          else Inl (WeConfig (Msg ''llm_proxy.gateway_url must start with http:// or https:// - got: {url}'' [ArgStr url]))
      | (None, None) \<Rightarrow> Inr ())"

definition validate_config :: "(string \<Rightarrow> 16 word option) \<Rightarrow> worker_config \<Rightarrow> (worker_error, unit) result" where
  "validate_config parse_addr c =
     (let w = wg_worker c; k = wg_grok c in
      if ws_name w = [] then Inl (WeConfig (plain_text ''worker.name must not be empty''))
      else if \<not> list_all (\<lambda>c. ascii_alphanumeric c \<or> c = CHR ''-'' \<or> c = CHR ''_'' \<or> c = CHR ''.'') (ws_name w)
      then Inl (WeConfig (plain_text ''worker.name must be alphanumeric, dash, underscore or dot only''))
      else if \<not> http_url (ws_orchestrator_url w)
      then Inl (WeConfig (plain_text ''worker.orchestrator_url must start with http:// or https://''))
      else if ws_agent_fence_after_secs w \<le> ws_heartbeat_interval_secs w
      then Inl (WeConfig (plain_text ''worker.agent_fence_after_secs must be greater than worker.heartbeat_interval_secs''))
      else if ws_watchdog_stall_after_secs w \<noteq> 0 \<and> ws_watchdog_stall_after_secs w \<le> ws_heartbeat_interval_secs w
      then Inl (WeConfig (plain_text ''worker.watchdog_stall_after_secs must be 0 or greater than worker.heartbeat_interval_secs''))
      else if gk_bin k = [] then Inl (WeConfig (plain_text ''grok.bin must not be empty''))
      else if gk_secret k = [] then Inl (WeConfig (plain_text ''grok.secret must not be empty''))
      else if gk_max_concurrent_tasks k = 0 then Inl (WeConfig (plain_text ''grok.max_concurrent_tasks must be >= 1''))
      else if gk_restart_delay_secs k > 300 then Inl (WeConfig (plain_text ''grok.restart_delay_secs must be <= 300''))
      else case (case wg_mtls c of None \<Rightarrow> Inr () | Some m \<Rightarrow> validate_mtls parse_addr m) of
        Inl e \<Rightarrow> Inl e
      | Inr _ \<Rightarrow> (case wg_llm_proxy c of None \<Rightarrow> Inr () | Some x \<Rightarrow> validate_llm_proxy x))"

text \<open>\<open>raw\<close> parses the text as TOML and says whether \<open>[worker] bootstrap_token\<close> is there, \<open>typed\<close> reads the sections.\<close>

definition config_from_str ::
    "(string \<Rightarrow> (string, bool) result) \<Rightarrow> (string \<Rightarrow> (string, worker_config) result) \<Rightarrow> (string \<Rightarrow> 16 word option) \<Rightarrow> string
     \<Rightarrow> (worker_error, worker_config) result" where
  "config_from_str raw typed parse_addr contents =
     (case raw contents of
        Inl e \<Rightarrow> Inl (WeToml e)
      | Inr legacy \<Rightarrow>
          if legacy then Inl (WeConfig (plain_text ''worker.toml uses the legacy [worker] bootstrap_token field''))
          else (case typed contents of
            Inl e \<Rightarrow> Inl (WeToml e)
          | Inr c \<Rightarrow>
              let c = normalize_config c
              in (case validate_config parse_addr c of Inl e \<Rightarrow> Inl e | Inr _ \<Rightarrow> Inr c)))"

section \<open>Addresses\<close>

definition host_end :: "char \<Rightarrow> bool" where
  "host_end c = (c = CHR ''/'' \<or> c = CHR ''?'' \<or> c = CHR ''#'')"

definition orchestrator_url_host :: "string \<Rightarrow> string" where
  "orchestrator_url_host url =
     (let after_scheme = (case find_sub ''://'' url of Some i \<Rightarrow> drop (i + 3) url | None \<Rightarrow> url)
      in takeWhile (\<lambda>c. \<not> host_end c) after_scheme)"

definition ws_scheme_for :: "string \<Rightarrow> string" where
  "ws_scheme_for url = (if starts_with ''https://'' url then ''wss'' else ''ws'')"

definition agent_endpoint :: "(string \<Rightarrow> 16 word option) \<Rightarrow> worker_config \<Rightarrow> string" where
  "agent_endpoint parse_addr c =
     (let secret = gk_secret (wg_grok c); url = ws_orchestrator_url (wg_worker c);
          proxied = ws_scheme_for url @ ''://'' @ orchestrator_url_host url @ ''/ws/'' @ ws_name (wg_worker c)
            @ ''?server-key='' @ secret
      in case wg_mtls c of
        Some m \<Rightarrow>
          if mt_enabled m then
            let host = (case mt_advertised_host m of Some h \<Rightarrow> h | None \<Rightarrow> orchestrator_url_host url);
                port = (case mt_advertised_port m of Some p \<Rightarrow> p
                  | None \<Rightarrow> (case parse_addr (mt_listen_addr m) of Some p \<Rightarrow> p | None \<Rightarrow> 2420))
            in ''wss://'' @ host @ '':'' @ dec (unat port) @ ''/ws?server-key='' @ secret
          else proxied
      | None \<Rightarrow> proxied)"

text \<open>The last colon separates host and port.\<close>

definition host_of :: "string \<Rightarrow> string" where
  "host_of s = (if CHR '':'' \<in> set s then rev (tl (dropWhile (\<lambda>c. c \<noteq> CHR '':'') (rev s))) else s)"

definition port_of :: "string \<Rightarrow> string" where
  "port_of s = rev (takeWhile (\<lambda>c. c \<noteq> CHR '':'') (rev s))"

section \<open>Variables of a child process\<close>

definition llm_proxy_envs :: "llm_proxy_section option \<Rightarrow> (string \<times> string) list" where
  "llm_proxy_envs proxy =
     (case proxy of
        None \<Rightarrow> []
      | Some x \<Rightarrow>
          (case lx_gateway_url x of
             None \<Rightarrow> []
           | Some raw \<Rightarrow>
               let url = trim_end_slashes raw in
               [(''OPENAI_BASE_URL'', url @ ''/v1''), (''OPENAI_API_BASE'', url @ ''/v1''), (''GEMINI_BASE_URL'', url),
                (''GEMINI_API_BASE'', url), (''ANTIGRAVITY_BASE_URL'', url), (''ANTHROPIC_BASE_URL'', url),
                (''FLEET_LLM_GATEWAY_URL'', url)])
          @ (case lx_api_key x of
               None \<Rightarrow> []
             | Some key \<Rightarrow> map (\<lambda>v. (v, key))
                 [''OPENAI_API_KEY'', ''GEMINI_API_KEY'', ''ANTIGRAVITY_API_KEY'', ''ANTHROPIC_API_KEY'', ''FLEET_LLM_API_KEY'']))"

section \<open>The endpoint a worker registers\<close>

lemma length_marker: "length server_key_marker = 11"
  by (simp add: server_key_marker_def)

lemma find_sub_skip: "take (length pat) (x # s) \<noteq> pat \<Longrightarrow> find_sub pat (x # s) = map_option Suc (find_sub pat s)"
  by (subst find_sub.simps) simp

lemma find_marker:
  assumes "CHR ''='' \<notin> set pre"
  shows "find_sub server_key_marker (pre @ server_key_marker) = Some (length pre)"
  using assms
proof (induction pre)
  case Nil
  then show ?case by (simp add: find_sub.simps)
next
  case (Cons x pre)
  have "take 11 ((x # pre) @ server_key_marker) \<noteq> server_key_marker"
  proof
    assume t: "take 11 ((x # pre) @ server_key_marker) = server_key_marker"
    then have "((x # pre) @ server_key_marker) ! 10 = CHR ''=''"
      using nth_take[of 10 11 "(x # pre) @ server_key_marker"] by (simp add: server_key_marker_def)
    moreover have "((x # pre) @ server_key_marker) ! 10 \<noteq> CHR ''=''"
    proof (cases "length pre < 10")
      case True
      then have "10 - Suc (length pre) < 10" "((x # pre) @ server_key_marker) ! 10 = server_key_marker ! (10 - Suc (length pre))"
        by (simp_all add: nth_append)
      moreover have "\<forall>j \<in> {0 ..< 10}. server_key_marker ! j \<noteq> CHR ''=''"
        by (simp add: server_key_marker_def atLeastLessThan_nat_numeral)
      ultimately show ?thesis by simp
    next
      case False
      then have "((x # pre) @ server_key_marker) ! 10 = (x # pre) ! 10" by (simp add: nth_append)
      then show ?thesis using Cons.prems False nth_mem[of 10 "x # pre"] by fastforce
    qed
    ultimately show False by simp
  qed
  then have "find_sub server_key_marker ((x # pre) @ server_key_marker) =
      map_option Suc (find_sub server_key_marker (pre @ server_key_marker))"
    using find_sub_skip[of server_key_marker x "pre @ server_key_marker"] length_marker by simp
  then show ?case using Cons by simp
qed

lemma split_appended_key:
  assumes "CHR ''='' \<notin> set pre" "pre \<noteq> []" "secret \<noteq> []" "\<forall>c \<in> set secret. c \<noteq> CHR ''&'' \<and> c \<noteq> CHR ''#''"
  shows "split_server_key (pre @ ''?server-key='' @ secret) = (pre, Some secret)"
proof -
  let ?e = "pre @ ''?server-key='' @ secret"
  have e: "?e = (pre @ ''?'') @ server_key_marker @ secret" by (simp add: server_key_marker_def)
  have i: "find_sub server_key_marker ?e = Some (Suc (length pre))"
    unfolding e find_sub_append using find_marker[of "pre @ ''?''"] assms(1) by simp
  have v: "value_len (secret @ []) = length secret" by (rule value_len_secret) (use assms(4) in \<open>auto simp: ends_value_def\<close>)
  have d: "drop (Suc (length pre) + length server_key_marker) ?e = secret" by (simp add: server_key_marker_def)
  have q: "?e ! length pre = CHR ''?''" by (simp add: nth_append)
  have "length ?e = Suc (length pre) + length server_key_marker + length secret" by (simp add: server_key_marker_def)
  then show ?thesis using i v d q assms(3) by (simp add: split_server_key_def Let_def)
qed

lemma find_sub_absent:
  assumes "CHR ''='' \<notin> set s"
  shows "find_sub server_key_marker s = None"
proof (rule ccontr)
  assume "find_sub server_key_marker s \<noteq> None"
  then obtain i where "find_sub server_key_marker s = Some i" by blast
  then obtain pre post where "s = pre @ server_key_marker @ post" using find_sub_Some by blast
  then show False using assms by (auto simp: server_key_marker_def)
qed

lemma dec_no_equals: "CHR ''='' \<notin> set (dec n)"
proof (induction n rule: dec.induct)
  case (1 n)
  have ne: "m < 10 \<Longrightarrow> CHR ''='' \<noteq> (char_of (48 + m) :: char)" for m :: nat
  proof
    assume m: "m < 10" "CHR ''='' = (char_of (48 + m) :: char)"
    then have "(of_char (CHR ''='') :: nat) = of_char (char_of (48 + m) :: char)" by simp
    then show False using m(1) by (simp only: of_char_of) simp
  qed
  show ?case using 1 ne[of n] ne[of "n mod 10"] by (subst dec.simps) simp
qed

lemma mask_appended_key:
  assumes "CHR ''='' \<notin> set pre" "\<forall>c \<in> set secret. c \<noteq> CHR ''&'' \<and> c \<noteq> CHR ''#''"
  shows "mask_server_key (pre @ ''?server-key='' @ secret) = pre @ ''?server-key=<redacted>''"
proof -
  have f: "find_sub server_key_marker ((pre @ ''?'') @ server_key_marker) = Some (length (pre @ ''?''))"
    by (rule find_marker) (use assms(1) in simp)
  have n: "\<forall>c \<in> set secret. \<not> ends_value c" using assms(2) by (simp add: ends_value_def)
  show ?thesis using mask_at[OF f n, of "[]"] by (simp add: server_key_marker_def)
qed

lemma agent_endpoint_form:
  assumes "CHR ''='' \<notin> set (orchestrator_url_host (ws_orchestrator_url (wg_worker c)))"
    "\<forall>m h. wg_mtls c = Some m \<longrightarrow> mt_advertised_host m = Some h \<longrightarrow> CHR ''='' \<notin> set h"
    "CHR ''='' \<notin> set (ws_name (wg_worker c))"
  shows "\<exists>url. agent_endpoint parse_addr c = url @ ''?server-key='' @ gk_secret (wg_grok c) \<and> CHR ''='' \<notin> set url \<and> url \<noteq> []"
proof (cases "\<exists>m. wg_mtls c = Some m \<and> mt_enabled m")
  case True
  then obtain m where m: "wg_mtls c = Some m" "mt_enabled m" by blast
  define host where "host = (case mt_advertised_host m of Some h \<Rightarrow> h | None \<Rightarrow> orchestrator_url_host (ws_orchestrator_url (wg_worker c)))"
  define port where "port = (case mt_advertised_port m of Some p \<Rightarrow> p
                  | None \<Rightarrow> (case parse_addr (mt_listen_addr m) of Some p \<Rightarrow> p | None \<Rightarrow> 2420))"
  have "CHR ''='' \<notin> set host" using assms m by (auto simp: host_def split: option.splits)
  moreover have "agent_endpoint parse_addr c = (''wss://'' @ host @ '':'' @ dec (unat port) @ ''/ws'') @ ''?server-key='' @ gk_secret (wg_grok c)"
    using m by (simp add: agent_endpoint_def Let_def host_def port_def)
  ultimately show ?thesis using dec_no_equals[of "unat port"] by (intro exI[of _ "''wss://'' @ host @ '':'' @ dec (unat port) @ ''/ws''"]) simp
next
  case False
  let ?u = "ws_scheme_for (ws_orchestrator_url (wg_worker c)) @ ''://'' @ orchestrator_url_host (ws_orchestrator_url (wg_worker c)) @ ''/ws/'' @ ws_name (wg_worker c)"
  have "agent_endpoint parse_addr c = ?u @ ''?server-key='' @ gk_secret (wg_grok c)"
    using False by (auto simp: agent_endpoint_def Let_def split: option.splits)
  then show ?thesis using assms(1,3) by (intro exI[of _ ?u]) (simp add: ws_scheme_for_def)
qed

end
