(* ===== verification/Worker_Agents.thy ===== *)
theory Worker_Agents
  imports Worker_Config
begin

text \<open>
  The agent processes of a worker (\<open>crates/fleet-worker/src/agent_process.rs\<close>). A child process is known by a
  number and by its pid, if it has one. What the operating system answers - whether a child still runs, which ports can be bound, what a
  path resolves to, which file operations succeed - is the argument \<open>worker_os\<close>; what the manager does to the outside
  is appended to the log of its effects.
\<close>

section \<open>What a child leaves on disk\<close>

record spawn_record =
  sr_agent_id :: agent_id
  sr_pid :: u32
  sr_port :: "16 word"
  sr_started_at_unix :: u64

text \<open>The record file in an agent's directory: readable, garbled, or one that cannot be read at all.\<close>

datatype spawn_file = RecordFile spawn_record | GarbledFile | LockedFile

type_synonym spawn_files = "(agent_id, spawn_file) hmap"

definition start_time_slack_secs :: u64 where
  "start_time_slack_secs = 5"

definition is_our_child :: "u64 \<Rightarrow> spawn_record \<Rightarrow> bool" where
  "is_our_child observed r =
     ((if observed < sr_started_at_unix r then sr_started_at_unix r - observed else observed - sr_started_at_unix r)
      \<le> start_time_slack_secs)"

section \<open>The operating system\<close>

datatype io_failure = IoNotFound | IoOutside | IoOther string

type_synonym path = "string list"

text \<open>A point of one reconciliation: before the \<open>n\<close>-th removal, at the \<open>n\<close>-th start.\<close>

datatype moment = Removing nat | Starting nat

record child_process =
  ch_number :: nat
  ch_pid :: "u32 option"

text \<open>A command about to be run: program, arguments, working directory, added variables.\<close>

record launch =
  la_program :: string
  la_args :: "string list"
  la_dir :: path
  la_envs :: "(string \<times> string) list"

record worker_os =
  os_running :: "child_process \<Rightarrow> bool"
  os_bindable :: "nat \<Rightarrow> 16 word \<Rightarrow> bool"
  os_canonical :: "moment \<Rightarrow> path \<Rightarrow> (io_failure, path) result"
  os_create_dirs :: "nat \<Rightarrow> path \<Rightarrow> (io_failure, unit) result"
  os_secret :: "nat \<Rightarrow> string"
  os_exec :: "nat \<Rightarrow> launch \<Rightarrow> (io_failure, child_process) result"
  os_write_record :: "nat \<Rightarrow> bool"
  os_unlink :: "agent_id \<Rightarrow> bool"
  os_remove_dir :: "nat \<Rightarrow> path \<Rightarrow> (io_failure, unit) result"
  os_removed_so_far :: "nat \<Rightarrow> agent_id \<Rightarrow> bool"
  os_now :: u64

datatype worker_effect = Spawned agent_id child_process launch | FoundDead agent_id child_process
  | Terminated agent_id child_process | DirectoryRemoved agent_id path

section \<open>The manager\<close>

record agent_proc =
  px_child :: child_process
  px_port :: "16 word"

record agent_manager =
  mg_config :: worker_config
  mg_host :: string
  mg_port_range :: "16 word \<times> 16 word"
  mg_max_processes :: nat
  mg_workspace_root :: path
  mg_show_agent :: "agent_id \<Rightarrow> string"
  mg_procs :: "(agent_id, agent_proc) hmap"
  mg_files :: spawn_files
  mg_effects :: "worker_effect list"

definition digit_value :: "char \<Rightarrow> nat option" where
  "digit_value c = (let n = (of_char c :: nat) in if 48 \<le> n \<and> n \<le> 57 then Some (n - 48) else None)"

text \<open>\<open>str::parse::<u16>\<close>: digits, with an optional plus sign.\<close>

definition parse_port :: "string \<Rightarrow> 16 word option" where
  "parse_port s =
     (let ds = (case s of c # r \<Rightarrow> if c = CHR ''+'' then r else s | [] \<Rightarrow> s) in
      if ds = [] \<or> \<not> list_all (\<lambda>c. digit_value c \<noteq> None) ds then None
      else let n = foldl (\<lambda>n c. n * 10 + the (digit_value c)) 0 ds in
        if n < 65536 then Some (of_nat n) else None)"

definition parse_port_range :: "string \<Rightarrow> (worker_error, 16 word \<times> 16 word) result" where
  "parse_port_range raw =
     (if CHR ''-'' \<notin> set raw
      then Inl (WeConfig (Msg ''grok.agent_port_range must be start-end, got {raw}'' [ArgStr raw]))
      else
        let a = takeWhile (\<lambda>c. c \<noteq> CHR ''-'') raw; b = tl (dropWhile (\<lambda>c. c \<noteq> CHR ''-'') raw) in
        (case parse_port (trim a) of
           None \<Rightarrow> Inl (WeConfig (Msg ''grok.agent_port_range start is not a port: {a}'' [ArgStr a]))
         | Some lo \<Rightarrow>
        (case parse_port (trim b) of
           None \<Rightarrow> Inl (WeConfig (Msg ''grok.agent_port_range end is not a port: {b}'' [ArgStr b]))
         | Some hi \<Rightarrow>
             if lo = 0 \<or> lo > hi
             then Inl (WeConfig (Msg ''grok.agent_port_range is empty or inverted: {raw}'' [ArgStr raw]))
             else Inr (lo, hi))))"

text \<open>\<open>cwd\<close> is the working directory of the process, if it has one; \<open>path_of\<close> reads a path.\<close>

definition new_agent_manager ::
    "(string \<Rightarrow> path) \<Rightarrow> (string, path) result \<Rightarrow> (agent_id \<Rightarrow> string) \<Rightarrow> worker_config \<Rightarrow> spawn_files
     \<Rightarrow> (worker_error, agent_manager) result" where
  "new_agent_manager path_of cwd show_agent c files =
     (let k = wg_grok c in
      case parse_port_range (gk_agent_port_range k) of
        Inl e \<Rightarrow> Inl e
      | Inr ports \<Rightarrow>
     (case (case gk_agent_workspace_root k of
              Some p \<Rightarrow> Inr (path_of p)
            | None \<Rightarrow> map_sum WeConfigIo (\<lambda>base. base @ [''fleet-agents''])
                (case gk_cwd k of Some d \<Rightarrow> Inr (path_of d) | None \<Rightarrow> cwd)) of
        Inl e \<Rightarrow> Inl e
      | Inr ws_root \<Rightarrow>
          Inr \<lparr> mg_config = c, mg_host = host_of (gk_bind_addr k), mg_port_range = ports,
            mg_max_processes = unat (gk_max_agent_processes k), mg_workspace_root = ws_root,
            mg_show_agent = show_agent, mg_procs = [], mg_files = files, mg_effects = [] \<rparr>))"

definition running_agents :: "agent_manager \<Rightarrow> agent_id list" where
  "running_agents m = map fst (mg_procs m)"

definition agent_path :: "agent_manager \<Rightarrow> agent_id \<Rightarrow> path" where
  "agent_path m a = mg_workspace_root m @ [mg_show_agent m a]"

definition remove_spawn_record :: "worker_os \<Rightarrow> agent_id \<Rightarrow> spawn_files \<Rightarrow> spawn_files" where
  "remove_spawn_record os a files = (if os_unlink os a then hm_remove a files else files)"

section \<open>Sweeping after a crash\<close>

text \<open>The system's table of processes: the start time, and whether a kill succeeds.\<close>

type_synonym process_table = "u32 \<Rightarrow> (u64 \<times> bool) option"

text \<open>\<open>listed\<close> says whether the workspace root can be listed; garbled records are discarded.\<close>

definition readable_records :: "spawn_files \<Rightarrow> spawn_record list" where
  "readable_records files = List.map_filter (\<lambda>(_, f). case f of RecordFile r \<Rightarrow> Some r | _ \<Rightarrow> None) files"

definition read_spawn_records :: "worker_os \<Rightarrow> bool \<Rightarrow> spawn_files \<Rightarrow> spawn_record list \<times> spawn_files" where
  "read_spawn_records os listed files =
     (if \<not> listed then ([], files)
      else (readable_records files, hm_retain (\<lambda>a f. \<not> (f = GarbledFile \<and> os_unlink os a)) files))"

text \<open>The orphans, the pids that were killed, and the files that are left.\<close>

fun sweep_records ::
    "worker_os \<Rightarrow> process_table \<Rightarrow> spawn_record list \<Rightarrow> spawn_files \<Rightarrow> agent_orphan list \<times> u32 list \<times> spawn_files" where
  "sweep_records os table [] files = ([], [], files)"
| "sweep_records os table (r # rs) files =
     (case sweep_records os table rs (remove_spawn_record os (sr_agent_id r) files) of
        (orphans, killed, files) \<Rightarrow>
          (case table (sr_pid r) of
             Some (started, _) \<Rightarrow>
               if is_our_child started r
               then (\<lparr> ao_agent_id = sr_agent_id r, ao_reason = StaleIncarnation \<rparr> # orphans, sr_pid r # killed, files)
               else (orphans, killed, files)
           | None \<Rightarrow> (orphans, killed, files)))"

definition sweep_stale_incarnation ::
    "worker_os \<Rightarrow> bool \<Rightarrow> process_table \<Rightarrow> agent_manager \<Rightarrow> agent_orphan list \<times> u32 list \<times> agent_manager" where
  "sweep_stale_incarnation os listed table m =
     (case read_spawn_records os listed (mg_files m) of
        (rs, files) \<Rightarrow>
          (case sweep_records os table rs files of
             (orphans, killed, files) \<Rightarrow> (orphans, killed, m\<lparr>mg_files := files\<rparr>)))"

record killed_agent =
  ka_agent_id :: agent_id
  ka_pid :: u32
  ka_killed :: bool

text \<open>The same from the watchdog's thread: nothing on disk is changed.\<close>

definition terminate_recorded_agents_blocking :: "bool \<Rightarrow> process_table \<Rightarrow> spawn_files \<Rightarrow> killed_agent list" where
  "terminate_recorded_agents_blocking listed table files =
     List.map_filter (\<lambda>r. case table (sr_pid r) of
         Some (started, killed) \<Rightarrow>
           if is_our_child started r
           then Some \<lparr> ka_agent_id = sr_agent_id r, ka_pid = sr_pid r, ka_killed = killed \<rparr> else None
       | None \<Rightarrow> None)
       (if listed then readable_records files else [])"

section \<open>Workspaces\<close>

text \<open>The canonical root and the canonical path, when the latter lies under the former.\<close>

definition contained :: "worker_os \<Rightarrow> moment \<Rightarrow> path \<Rightarrow> path \<Rightarrow> (io_failure, path \<times> path) result" where
  "contained os mo ws_root p =
     (case os_canonical os mo ws_root of
        Inl e \<Rightarrow> Inl e
      | Inr croot \<Rightarrow>
     (case os_canonical os mo p of
        Inl e \<Rightarrow> Inl e
      | Inr target \<Rightarrow> if take (length croot) target = croot then Inr (croot, target) else Inl IoOutside))"

definition ensure_workspace :: "worker_os \<Rightarrow> nat \<Rightarrow> agent_manager \<Rightarrow> agent_id \<Rightarrow> (io_failure, path) result" where
  "ensure_workspace os n m a =
     (case os_create_dirs os n (mg_workspace_root m) of
        Inl e \<Rightarrow> Inl e
      | Inr _ \<Rightarrow>
     (case os_create_dirs os n (agent_path m a) of
        Inl e \<Rightarrow> Inl e
      | Inr _ \<Rightarrow> map_sum id snd (contained os (Starting n) (mg_workspace_root m) (agent_path m a))))"

text \<open>
  Removing a directory takes the record files below it along; a removal that fails halfway has taken those of
  \<open>os_removed_so_far\<close>.
\<close>

definition below :: "agent_manager \<Rightarrow> path \<Rightarrow> path \<Rightarrow> agent_id \<Rightarrow> bool" where
  "below m croot target b = (take (length target) (croot @ [mg_show_agent m b]) = target)"

definition remove_workspace :: "worker_os \<Rightarrow> nat \<Rightarrow> agent_id \<Rightarrow> agent_manager \<Rightarrow> (io_failure, bool) result \<times> agent_manager" where
  "remove_workspace os n a m =
     (case contained os (Removing n) (mg_workspace_root m) (agent_path m a) of
        Inl IoNotFound \<Rightarrow> (Inr False, m)
      | Inl e \<Rightarrow> (Inl e, m)
      | Inr (croot, target) \<Rightarrow>
          (case os_remove_dir os n target of
             Inl e \<Rightarrow> (Inl e, m\<lparr>
               mg_files := hm_retain (\<lambda>b _. \<not> (below m croot target b \<and> os_removed_so_far os n b)) (mg_files m)\<rparr>)
           | Inr _ \<Rightarrow> (Inr True, m\<lparr>
               mg_files := hm_retain (\<lambda>b _. \<not> below m croot target b) (mg_files m),
               mg_effects := mg_effects m @ [DirectoryRemoved a target]\<rparr>)))"

section \<open>Starting and stopping\<close>

definition free_port :: "worker_os \<Rightarrow> nat \<Rightarrow> agent_manager \<Rightarrow> 16 word option" where
  "free_port os n m =
     (let (lo, hi) = mg_port_range m in
      List.find (\<lambda>p. p \<notin> px_port ` set (hm_values (mg_procs m)) \<and> os_bindable os n p)
        (map of_nat [unat lo ..< Suc (unat hi)]))"

definition write_spawn_record :: "worker_os \<Rightarrow> nat \<Rightarrow> agent_id \<Rightarrow> u32 \<Rightarrow> 16 word \<Rightarrow> spawn_files \<Rightarrow> spawn_files" where
  "write_spawn_record os n a pid port files =
     (if os_write_record os n
      then hm_insert a (RecordFile \<lparr> sr_agent_id = a, sr_pid = pid, sr_port = port, sr_started_at_unix = os_now os \<rparr>) files
      else files)"

text \<open>The secret of an agent's process is drawn afresh. The manager's table is the caller's business.\<close>

definition spawn_agent ::
    "worker_os \<Rightarrow> nat \<Rightarrow> agent_id \<Rightarrow> 16 word \<Rightarrow> agent_manager \<Rightarrow> (io_failure, child_process) result \<times> agent_manager" where
  "spawn_agent os n a port m =
     (case ensure_workspace os n m a of
        Inl e \<Rightarrow> (Inl e, m)
      | Inr workspace \<Rightarrow>
          let cmd = \<lparr> la_program = gk_bin (wg_grok (mg_config m)),
                la_args = [''agent'', ''serve'', ''--bind'', mg_host m @ '':'' @ dec (unat port), ''--secret'', os_secret os n],
                la_dir = workspace, la_envs = llm_proxy_envs (wg_llm_proxy (mg_config m)) \<rparr> in
          (case os_exec os n cmd of
             Inl e \<Rightarrow> (Inl e, m)
           | Inr child \<Rightarrow>
               (Inr child, m\<lparr>
                  mg_files := (case ch_pid child of Some p \<Rightarrow> write_spawn_record os n a p port (mg_files m) | None \<Rightarrow> mg_files m),
                  mg_effects := mg_effects m @ [Spawned a child cmd]\<rparr>)))"

text \<open>The children are waited for and killed, all at once.\<close>

definition terminate_all :: "(agent_id \<times> agent_proc) list \<Rightarrow> agent_manager \<Rightarrow> agent_manager" where
  "terminate_all ps m = m\<lparr>mg_effects := mg_effects m @ map (\<lambda>(a, p). Terminated a (px_child p)) ps\<rparr>"

definition drain_all :: "worker_os \<Rightarrow> agent_manager \<Rightarrow> agent_id list \<times> agent_manager" where
  "drain_all os m =
     (let drained = mg_procs m; ids = map fst drained in
      (ids, terminate_all drained (m\<lparr>mg_procs := [], mg_files := fold (remove_spawn_record os) ids (mg_files m)\<rparr>)))"

definition shutdown_all :: "worker_os \<Rightarrow> agent_manager \<Rightarrow> agent_manager" where
  "shutdown_all os m = snd (drain_all os m)"

definition fence_all :: "worker_os \<Rightarrow> agent_manager \<Rightarrow> agent_id list \<times> agent_manager" where
  "fence_all os m = drain_all os m"

section \<open>Reconciliation\<close>

text \<open>Step 0: children that have ended, or cannot be asked, leave the table.\<close>

definition reap_dead :: "worker_os \<Rightarrow> agent_manager \<Rightarrow> agent_manager" where
  "reap_dead os m =
     (let dead = filter (\<lambda>(_, p). \<not> os_running os (px_child p)) (mg_procs m) in
      m\<lparr>mg_procs := filter (\<lambda>(_, p). os_running os (px_child p)) (mg_procs m),
        mg_files := fold (remove_spawn_record os) (map fst dead) (mg_files m),
        mg_effects := mg_effects m @ map (\<lambda>(a, p). FoundDead a (px_child p)) dead\<rparr>)"

definition wanted :: "agent_command list \<Rightarrow> agent_id list" where
  "wanted cs = map cmd_agent_id (filter (\<lambda>c. cmd_desired_status c = DRunning) cs)"

text \<open>Steps 1 and 2: whatever is not wanted is stopped; what the list does not even mention is reported.\<close>

definition stop_unwanted :: "worker_os \<Rightarrow> agent_command list \<Rightarrow> agent_manager \<Rightarrow> agent_orphan list \<times> agent_manager" where
  "stop_unwanted os cs m =
     (let keep = set (wanted cs); mentioned = set (map cmd_agent_id cs);
          doomed = filter (\<lambda>(a, _). a \<notin> keep) (mg_procs m);
          orphans = map (\<lambda>a. \<lparr> ao_agent_id = a, ao_reason = Unplaced \<rparr>) (filter (\<lambda>a. a \<notin> mentioned) (map fst doomed))
      in (orphans, terminate_all doomed (m\<lparr>
            mg_procs := filter (\<lambda>(a, _). a \<in> keep) (mg_procs m),
            mg_files := fold (remove_spawn_record os) (map fst doomed) (mg_files m)\<rparr>)))"

text \<open>Step 2.5: the directories of agents with an explicit stop are removed, as far as that works.\<close>

fun remove_stopped :: "worker_os \<Rightarrow> nat \<Rightarrow> agent_command list \<Rightarrow> agent_manager \<Rightarrow> agent_manager" where
  "remove_stopped os n [] m = m"
| "remove_stopped os n (c # cs) m =
     (if cmd_desired_status c = DStopped
      then remove_stopped os (Suc n) cs (snd (remove_workspace os n (cmd_agent_id c) m))
      else remove_stopped os (Suc n) cs m)"

text \<open>Step 3: what is wanted and not there is started, and everything wanted is observed.\<close>

definition start_one :: "worker_os \<Rightarrow> nat \<Rightarrow> agent_id \<Rightarrow> agent_manager \<Rightarrow> agent_observation \<times> agent_manager" where
  "start_one os n a m =
     (if hm_contains (mg_procs m) a then (ObservedRun a, m)
      else if length (mg_procs m) \<ge> mg_max_processes m then (ObservedFail a CapReachedReason, m)
      else case free_port os n m of
        None \<Rightarrow> (ObservedFail a NoFreePort, m)
      | Some port \<Rightarrow>
          (case spawn_agent os n a port m of
             (Inr child, m) \<Rightarrow> (ObservedRun a, m\<lparr>mg_procs := hm_insert a \<lparr> px_child = child, px_port = port \<rparr> (mg_procs m)\<rparr>)
           | (Inl _, m) \<Rightarrow> (ObservedFail a SpawnFailed, m)))"

fun start_wanted :: "worker_os \<Rightarrow> nat \<Rightarrow> agent_id list \<Rightarrow> agent_manager \<Rightarrow> agent_observation list \<times> agent_manager" where
  "start_wanted os n [] m = ([], m)"
| "start_wanted os n (a # as) m =
     (case start_one os n a m of (ob, m) \<Rightarrow> apfst ((#) ob) (start_wanted os (Suc n) as m))"

record reconcile_outcome =
  ro_observations :: "agent_observation list"
  ro_orphans :: "agent_orphan list"

definition reconcile_agents ::
    "worker_os \<Rightarrow> agent_command list option \<Rightarrow> agent_manager \<Rightarrow> reconcile_outcome option \<times> agent_manager" where
  "reconcile_agents os commands m =
     (case commands of
        None \<Rightarrow> (None, m)
      | Some cs \<Rightarrow>
          (case stop_unwanted os cs (reap_dead os m) of
             (orphans, m) \<Rightarrow>
               (case start_wanted os 0 (wanted cs) (remove_stopped os 0 cs m) of
                  (obs, m) \<Rightarrow> (Some \<lparr> ro_observations = obs, ro_orphans = orphans \<rparr>, m))))"

end
