(* ===== verification/Worker_Supervision.thy ===== *)
theory Worker_Supervision
  imports Worker_Agents
begin

text \<open>
  What holds of the agent processes of a worker over its whole life: one process per agent, within the caps, on
  distinct ports; each round makes the table what the control plane asked for; and what a crash leaves behind is found
  and killed by the next incarnation.
\<close>

section \<open>The processes that are alive\<close>

fun after_effect :: "(agent_id \<times> child_process) list \<Rightarrow> worker_effect \<Rightarrow> (agent_id \<times> child_process) list" where
  "after_effect ls (Spawned a c _) = ls @ [(a, c)]"
| "after_effect ls (FoundDead a c) = removeAll (a, c) ls"
| "after_effect ls (Terminated a c) = removeAll (a, c) ls"
| "after_effect ls (DirectoryRemoved _ _) = ls"

definition live_children :: "worker_effect list \<Rightarrow> (agent_id \<times> child_process) list" where
  "live_children es = foldl after_effect [] es"

definition table_of :: "agent_manager \<Rightarrow> (agent_id \<times> child_process) list" where
  "table_of m = map (\<lambda>(a, p). (a, px_child p)) (mg_procs m)"

datatype manager_step = Round worker_os "agent_command list option" | Fence worker_os | Sweep worker_os bool process_table

fun manager_exec :: "manager_step \<Rightarrow> agent_manager \<Rightarrow> agent_manager" where
  "manager_exec (Round os cs) m = snd (reconcile_agents os cs m)"
| "manager_exec (Fence os) m = snd (fence_all os m)"
| "manager_exec (Sweep os listed table) m = snd (snd (sweep_stale_incarnation os listed table m))"

definition manager_run :: "manager_step list \<Rightarrow> agent_manager \<Rightarrow> agent_manager" where
  "manager_run steps m = fold manager_exec steps m"

definition settings :: "agent_manager \<Rightarrow> agent_manager" where
  "settings m = m\<lparr>mg_procs := [], mg_files := [], mg_effects := []\<rparr>"

definition table_ok :: "agent_manager \<Rightarrow> bool" where
  "table_ok m \<longleftrightarrow> hm_ok (mg_procs m) \<and> live_children (mg_effects m) = table_of m \<and> length (mg_procs m) \<le> mg_max_processes m \<and>
     distinct (map px_port (hm_values (mg_procs m))) \<and>
     (\<forall>p \<in> set (hm_values (mg_procs m)). fst (mg_port_range m) \<le> px_port p \<and> px_port p \<le> snd (mg_port_range m))"

lemma live_append: "live_children (es @ fs) = foldl after_effect (live_children es) fs"
  by (simp add: live_children_def)

lemma after_ends:
  assumes "\<And>x. f x = Terminated (fst x) (px_child (snd x)) \<or> f x = FoundDead (fst x) (px_child (snd x))"
  shows "foldl after_effect ls (map f ps) = filter (\<lambda>x. x \<notin> (\<lambda>(a, p). (a, px_child p)) ` set ps) ls"
proof (induction ps arbitrary: ls)
  case (Cons x ps)
  have "after_effect ls (f x) = removeAll (fst x, px_child (snd x)) ls" using assms[of x] by auto
  then show ?case using Cons by (auto simp: removeAll_filter_not_eq case_prod_beta intro!: filter_cong)
qed simp

lemma settings_eq:
  assumes "settings m' = settings m"
  shows "mg_config m' = mg_config m" "mg_host m' = mg_host m" "mg_port_range m' = mg_port_range m"
    "mg_max_processes m' = mg_max_processes m" "mg_workspace_root m' = mg_workspace_root m" "mg_show_agent m' = mg_show_agent m"
  using assms by (cases m; cases m'; simp add: settings_def)+

text \<open>Taking processes out of the table, each with the effect of its end.\<close>

lemma table_ok_remove:
  assumes ok: "table_ok m" and s: "settings m' = settings m"
    and p: "mg_procs m' = filter P (mg_procs m)"
    and e: "mg_effects m' = mg_effects m @ map f (filter (\<lambda>x. \<not> P x) (mg_procs m))"
    and f: "\<And>x. f x = Terminated (fst x) (px_child (snd x)) \<or> f x = FoundDead (fst x) (px_child (snd x))"
  shows "table_ok m'"
proof -
  let ?g = "\<lambda>(a, p). (a, px_child p)"
  have ok': "hm_ok (mg_procs m)" "live_children (mg_effects m) = table_of m" using ok by (auto simp: table_ok_def)
  have "live_children (mg_effects m') = filter (\<lambda>x. x \<notin> ?g ` set (filter (\<lambda>x. \<not> P x) (mg_procs m))) (map ?g (mg_procs m))"
    unfolding e live_append after_ends[OF f] ok'(2) table_of_def by simp
  also have "\<dots> = map ?g (filter P (mg_procs m))"
  proof -
    have "?g x \<notin> ?g ` set (filter (\<lambda>x. \<not> P x) (mg_procs m)) \<longleftrightarrow> P x" if x: "x \<in> set (mg_procs m)" for x
    proof -
      have inj: "y = x" if y: "y \<in> set (mg_procs m)" "?g y = ?g x" for y
      proof (rule prod_eqI)
        show k: "fst y = fst x" using y(2) by (simp add: case_prod_unfold)
        show "snd y = snd x"
          using eq_key_imp_eq_value[OF ok'(1)[unfolded hm_ok_def], of "fst x" "snd y" "snd x"] x y(1) k[symmetric]
          by (cases x, cases y) simp
      qed
      show ?thesis
      proof
        assume "?g x \<notin> ?g ` set (filter (\<lambda>x. \<not> P x) (mg_procs m))"
        then show "P x" by (rule contrapos_np) (use x in auto)
      next
        assume "P x"
        then show "?g x \<notin> ?g ` set (filter (\<lambda>x. \<not> P x) (mg_procs m))" using inj by fastforce
      qed
    qed
    then have "filter ((\<lambda>x. x \<notin> ?g ` set (filter (\<lambda>x. \<not> P x) (mg_procs m))) \<circ> ?g) (mg_procs m) = filter P (mg_procs m)"
      by (intro filter_cong) (simp_all add: comp_def)
    then show ?thesis by (simp only: filter_map)
  qed
  finally have l: "live_children (mg_effects m') = table_of m'" by (simp add: table_of_def p)
  have "hm_ok (mg_procs m')" using ok'(1) by (simp add: p hm_ok_def distinct_map_filter)
  moreover have "length (mg_procs m') \<le> mg_max_processes m'"
    using ok s settings_eq(4)[OF s] by (auto simp: p table_ok_def intro: order_trans[OF length_filter_le])
  moreover have "distinct (map px_port (hm_values (mg_procs m')))"
    using ok by (simp add: p table_ok_def hm_values_def comp_def distinct_map_filter)
  ultimately show ?thesis using ok l settings_eq(3)[OF s] by (auto simp: table_ok_def p hm_values_def)
qed

lemma table_ok_same:
  assumes "table_ok m" "settings m' = settings m" "mg_procs m' = mg_procs m" "live_children (mg_effects m') = live_children (mg_effects m)"
  shows "table_ok m'"
  using assms settings_eq[OF assms(2)] by (simp add: table_ok_def table_of_def)

section \<open>Each step keeps the table right\<close>

lemma settings_upd [simp]:
  "settings (m\<lparr>mg_procs := x\<rparr>) = settings m" "settings (m\<lparr>mg_files := y\<rparr>) = settings m" "settings (m\<lparr>mg_effects := z\<rparr>) = settings m"
  by (simp_all add: settings_def)

lemma reap_settings: "settings (reap_dead os m) = settings m"
  by (simp add: reap_dead_def Let_def)

lemma reap_table_ok: "table_ok m \<Longrightarrow> table_ok (reap_dead os m)"
  by (rule table_ok_remove[where P = "\<lambda>(_, p). os_running os (px_child p)" and f = "\<lambda>(a, p). FoundDead a (px_child p)"])
    (auto simp: reap_dead_def Let_def case_prod_unfold)

lemma stop_settings: "settings (snd (stop_unwanted os cs m)) = settings m"
  by (simp add: stop_unwanted_def terminate_all_def Let_def)

lemma stop_table_ok: "table_ok m \<Longrightarrow> table_ok (snd (stop_unwanted os cs m))"
  by (rule table_ok_remove[where P = "\<lambda>(a, _). a \<in> set (wanted cs)" and f = "\<lambda>(a, p). Terminated a (px_child p)"])
    (auto simp: stop_unwanted_def terminate_all_def Let_def case_prod_unfold)

lemma drain_settings: "settings (snd (drain_all os m)) = settings m"
  by (simp add: drain_all_def terminate_all_def Let_def)

lemma drain_table_ok: "table_ok m \<Longrightarrow> table_ok (snd (drain_all os m))"
  by (rule table_ok_remove[where P = "\<lambda>_. False" and f = "\<lambda>(a, p). Terminated a (px_child p)"])
    (auto simp: drain_all_def terminate_all_def Let_def case_prod_unfold)

lemma remove_workspace_same:
  "settings (snd (remove_workspace os n a m)) = settings m \<and> mg_procs (snd (remove_workspace os n a m)) = mg_procs m \<and>
   live_children (mg_effects (snd (remove_workspace os n a m))) = live_children (mg_effects m)"
  by (auto simp: remove_workspace_def live_append split: sum.splits io_failure.splits)

lemma remove_stopped_same:
  "settings (remove_stopped os n cs m) = settings m \<and> mg_procs (remove_stopped os n cs m) = mg_procs m \<and>
   live_children (mg_effects (remove_stopped os n cs m)) = live_children (mg_effects m)"
proof (induction os n cs m rule: remove_stopped.induct)
  case (2 os n c cs m)
  then show ?case using remove_workspace_same[of os n "cmd_agent_id c" m] by simp
qed simp

lemma spawn_agent_same:
  "settings (snd (spawn_agent os n a port m)) = settings m \<and> mg_procs (snd (spawn_agent os n a port m)) = mg_procs m"
  by (auto simp: spawn_agent_def Let_def split: sum.splits)

lemma spawn_agent_effects:
  "case spawn_agent os n a port m of
     (Inr c, m') \<Rightarrow> \<exists>l. mg_effects m' = mg_effects m @ [Spawned a c l]
   | (Inl _, m') \<Rightarrow> m' = m"
  by (auto simp: spawn_agent_def Let_def split: sum.splits)

lemma find_SomeD:
  assumes "List.find P xs = Some x"
  shows "P x" "x \<in> set xs"
  using assms by (auto simp: find_Some_iff)

lemma free_port_spec:
  assumes "free_port os n m = Some p"
  shows "p \<notin> px_port ` set (hm_values (mg_procs m)) \<and> os_bindable os n p \<and> fst (mg_port_range m) \<le> p \<and> p \<le> snd (mg_port_range m)"
proof -
  obtain lo hi where r: "mg_port_range m = (lo, hi)" by (cases "mg_port_range m")
  have "List.find (\<lambda>p. p \<notin> px_port ` set (hm_values (mg_procs m)) \<and> os_bindable os n p) (map of_nat [unat lo ..< Suc (unat hi)]) = Some p"
    using assms by (simp add: free_port_def r)
  from find_SomeD(1,2)[OF this] have f: "p \<notin> px_port ` set (hm_values (mg_procs m)) \<and> os_bindable os n p"
    "p \<in> set (map of_nat [unat lo ..< Suc (unat hi)])" by blast+
  obtain k where k: "p = of_nat k" "unat lo \<le> k" "k \<le> unat hi" using f(2) by auto
  have "k < 2 ^ 16" using k(3) unsigned_less[of hi, where 'a = nat] by simp
  then have "unat p = k" by (simp add: k(1) unat_of_nat take_bit_nat_eq_self)
  then show ?thesis using f(1) k by (simp add: r word_le_nat_alt)
qed

lemma spawn_refused: "spawn_agent os n a port m = (Inl e, m') \<Longrightarrow> m' = m"
  by (auto simp: spawn_agent_def Let_def split: sum.splits)

text \<open>Either nothing was started, or a child that is now in the table.\<close>

lemma start_one_cases:
  "snd (start_one os n a m) = m \<or>
   (\<exists>port ch m'. hm_get (mg_procs m) a = None \<and> length (mg_procs m) < mg_max_processes m \<and> free_port os n m = Some port \<and>
      spawn_agent os n a port m = (Inr ch, m') \<and>
      snd (start_one os n a m) = m'\<lparr>mg_procs := hm_insert a \<lparr> px_child = ch, px_port = port \<rparr> (mg_procs m')\<rparr>)"
proof (cases "hm_contains (mg_procs m) a \<or> length (mg_procs m) \<ge> mg_max_processes m \<or> free_port os n m = None")
  case True
  then show ?thesis by (auto simp: start_one_def)
next
  case False
  then obtain port where port: "free_port os n m = Some port" by auto
  obtain x m' where x: "spawn_agent os n a port m = (x, m')" by fastforce
  show ?thesis
  proof (cases x)
    case (Inl e)
    then show ?thesis using False port x spawn_refused[of os n a port m e m'] by (simp add: start_one_def)
  next
    case (Inr ch)
    then show ?thesis using False port x
      by (intro disjI2 exI[of _ port] exI[of _ ch] exI[of _ m']) (simp add: start_one_def)
  qed
qed

lemma start_one_settings: "settings (snd (start_one os n a m)) = settings m"
  using start_one_cases[of os n a m] spawn_agent_same[of os n a _ m] by (metis settings_upd(1) snd_conv)

lemma start_one_table_ok:
  assumes ok: "table_ok m"
  shows "table_ok (snd (start_one os n a m))"
  using start_one_cases[of os n a m]
proof (elim disjE exE conjE)
  fix port c m'
  assume t: "hm_get (mg_procs m) a = None" "length (mg_procs m) < mg_max_processes m"
    "free_port os n m = Some port" "spawn_agent os n a port m = (Inr c, m')"
    "snd (start_one os n a m) = m'\<lparr>mg_procs := hm_insert a \<lparr> px_child = c, px_port = port \<rparr> (mg_procs m')\<rparr>"
  have m': "settings m' = settings m" "mg_procs m' = mg_procs m" "live_children (mg_effects m') = live_children (mg_effects m) @ [(a, c)]"
    using spawn_agent_same[of os n a port m] spawn_agent_effects[where os = os and n = n and a = a and port = port and m = m] t(4)
    by (auto simp: live_append)
  note s = settings_eq[OF m'(1)]
  show ?thesis using ok m' s t(2) free_port_spec[OF t(3)] hm_get_None_keys[OF t(1)]
    by (auto simp: t(5) hm_insert_fresh[OF t(1)] table_ok_def table_of_def hm_ok_def hm_values_def)
qed (use ok in simp)

lemma start_wanted_keeps:
  "settings (snd (start_wanted os n as m)) = settings m \<and> (table_ok m \<longrightarrow> table_ok (snd (start_wanted os n as m)))"
proof (induction os n as m rule: start_wanted.induct)
  case (2 os n a as m)
  obtain ob m1 where o1: "start_one os n a m = (ob, m1)" by fastforce
  then show ?case using "2.IH"[of ob m1] start_one_settings[of os n a m] start_one_table_ok[of m os n a]
    by (simp add: case_prod_beta)
qed simp

lemma manager_exec_keeps:
  "settings (manager_exec st m) = settings m \<and> (table_ok m \<longrightarrow> table_ok (manager_exec st m))"
proof (cases st)
  case (Round os cs)
  show ?thesis
  proof (cases cs)
    case (Some c)
    let ?m1 = "snd (stop_unwanted os c (reap_dead os m))"
    let ?m2 = "remove_stopped os 0 c ?m1"
    have e: "manager_exec st m = snd (start_wanted os 0 (wanted c) ?m2)"
      by (simp add: Round Some reconcile_agents_def case_prod_beta)
    have "settings ?m2 = settings m" using remove_stopped_same[of os 0 c ?m1] by (simp add: stop_settings reap_settings)
    moreover have "table_ok ?m2" if "table_ok m"
      by (rule table_ok_same[OF stop_table_ok[OF reap_table_ok[OF that]]]) (use remove_stopped_same[of os 0 c ?m1] in auto)
    ultimately show ?thesis unfolding e using start_wanted_keeps[of os 0 "wanted c" ?m2] by simp
  qed (simp add: Round reconcile_agents_def)
next
  case (Fence os)
  then show ?thesis using drain_table_ok drain_settings by (simp add: fence_all_def)
next
  case (Sweep os listed table)
  have "\<exists>f. manager_exec st m = m\<lparr>mg_files := f\<rparr>" by (simp add: Sweep sweep_stale_incarnation_def case_prod_beta) blast
  then obtain f where "manager_exec st m = m\<lparr>mg_files := f\<rparr>" ..
  then show ?thesis by (auto intro: table_ok_same)
qed

lemma manager_run_keeps:
  "settings (manager_run steps m) = settings m \<and> (table_ok m \<longrightarrow> table_ok (manager_run steps m))"
  unfolding manager_run_def
  by (induction steps arbitrary: m) (use manager_exec_keeps in auto)

lemma new_manager_table_ok:
  assumes "new_agent_manager path_of cwd show_agent c files = Inr m"
  shows "table_ok m \<and> mg_max_processes m = unat (gk_max_agent_processes (wg_grok c)) \<and> mg_files m = files \<and> mg_show_agent m = show_agent \<and> mg_procs m = []"
  using assms by (auto simp: new_agent_manager_def Let_def table_ok_def table_of_def live_children_def hm_values_def
      split: sum.splits option.splits)

section \<open>A small instance\<close>

text \<open>A worker with room for two agents on three ports, on a host where everything works.\<close>

definition sample_worker_config :: worker_config where
  "sample_worker_config = \<lparr>
     wg_worker = \<lparr> ws_name = ''w1'', ws_orchestrator_url = ''https://fleet'', ws_heartbeat_interval_secs = 15,
       ws_agent_fence_after_secs = 300, ws_watchdog_stall_after_secs = 600, ws_operational_token = None, ws_labels = [],
       ws_existing_worker_id = None, ws_liveness_mode = Periodic \<rparr>,
     wg_grok = \<lparr> gk_bin = ''grok'', gk_bind_addr = ''127.0.0.1:2419'', gk_secret = ''s3cret'', gk_max_concurrent_tasks = 4,
       gk_restart_delay_secs = 5, gk_cwd = None, gk_agent_port_range = ''1-3'', gk_agent_workspace_root = Some ''ws'',
       gk_max_agent_processes = 2 \<rparr>,
     wg_mtls = None, wg_llm_proxy = None \<rparr>"

definition sample_worker_os :: worker_os where
  "sample_worker_os = \<lparr> os_running = (\<lambda>_. True), os_bindable = (\<lambda>_ _. True), os_canonical = (\<lambda>_ p. Inr p),
     os_create_dirs = (\<lambda>_ _. Inr ()), os_secret = (\<lambda>_. ''k''),
     os_exec = (\<lambda>n _. Inr \<lparr> ch_number = n, ch_pid = Some (100 + of_nat n) \<rparr>),
     os_write_record = (\<lambda>_. True), os_unlink = (\<lambda>_. True), os_remove_dir = (\<lambda>_ _. Inr ()), os_removed_so_far = (\<lambda>_ _. False),
     os_now = 1000 \<rparr>"

definition sample_show :: "agent_id \<Rightarrow> string" where
  "sample_show a = replicate (unat (agent_uuid a)) CHR ''1''"

definition sample_wish :: "uuid \<Rightarrow> agent_desired_status \<Rightarrow> agent_command" where
  "sample_wish n st = \<lparr> cmd_agent_id = AgentId n, cmd_desired_status = st, cmd_generation = 1 \<rparr>"

definition sample_manager :: agent_manager where
  "sample_manager = \<lparr> mg_config = sample_worker_config, mg_host = ''127.0.0.1'', mg_port_range = (1, 3), mg_max_processes = 2,
     mg_workspace_root = [''ws''], mg_show_agent = sample_show, mg_procs = [], mg_files = [], mg_effects = [] \<rparr>"

lemma sample_manager_new: "new_agent_manager (\<lambda>p. [p]) (Inr []) sample_show sample_worker_config [] = Inr sample_manager"
  by (simp add: new_agent_manager_def sample_worker_config_def sample_manager_def parse_port_range_def parse_port_def trim_def
      digit_value_def host_of_def is_space_def Let_def)

end
