(* ===== verification/Worker_Claims.thy ===== *)
theory Worker_Claims
  imports Worker_Supervision
begin

text \<open>
  The properties of the agent processes: one process per agent (\<open>one_process_per_agent\<close>), what a round of
  reconciliation does (\<open>reconcile_exact\<close>, \<open>agents_stay_inside\<close>), and what the next incarnation finds after a
  crash (\<open>crash_leaves_nothing_behind\<close>).
\<close>

section \<open>One process per agent\<close>

text \<open>
  C10. One process per agent: over any history of heartbeats, fences and sweeps of a worker daemon, and whatever
  the operating system answers, the child processes that were started and not ended are exactly those of
  the table, at most one per agent, at most \<open>max_agent_processes\<close> of them, on distinct ports of the configured range.
\<close>

theorem one_process_per_agent:
  assumes "new_agent_manager path_of cwd show_agent c files = Inr m0"
  shows "let m = manager_run steps m0 in
    live_children (mg_effects m) = map (\<lambda>(a, p). (a, px_child p)) (mg_procs m) \<and>
    distinct (map fst (live_children (mg_effects m))) \<and>
    length (live_children (mg_effects m)) \<le> unat (gk_max_agent_processes (wg_grok c)) \<and>
    distinct (map px_port (hm_values (mg_procs m))) \<and>
    (\<forall>p \<in> set (hm_values (mg_procs m)). fst (mg_port_range m0) \<le> px_port p \<and> px_port p \<le> snd (mg_port_range m0))"
proof -
  let ?m = "manager_run steps m0"
  have k: "settings ?m = settings m0" "table_ok ?m"
    using manager_run_keeps[of steps m0] new_manager_table_ok[OF assms] by auto
  have l: "live_children (mg_effects ?m) = table_of ?m" using k(2) by (simp add: table_ok_def)
  have "map fst (table_of ?m) = map fst (mg_procs ?m)" by (simp add: table_of_def case_prod_unfold comp_def)
  moreover have "length (table_of ?m) = length (mg_procs ?m)" by (simp add: table_of_def)
  moreover have "mg_max_processes ?m = unat (gk_max_agent_processes (wg_grok c))"
    using settings_eq(4)[OF k(1)] new_manager_table_ok[OF assms] by simp
  ultimately show ?thesis using k(2) l settings_eq(3)[OF k(1)]
    by (simp add: Let_def table_ok_def hm_ok_def) (simp add: table_of_def)
qed

lemma one_process_per_agent_witness:
  "live_children (mg_effects (manager_run [Round sample_worker_os (Some (map (\<lambda>n. sample_wish n DRunning) [5, 6, 7]))] sample_manager))
   = [(AgentId 5, \<lparr> ch_number = 0, ch_pid = Some 100 \<rparr>), (AgentId 6, \<lparr> ch_number = 1, ch_pid = Some 101 \<rparr>)]"
proof -
  have "map (\<lambda>(a, p). (a, px_child p)) (mg_procs (manager_run [Round sample_worker_os (Some (map (\<lambda>n. sample_wish n DRunning) [5, 6, 7]))] sample_manager))
    = [(AgentId 5, \<lparr> ch_number = 0, ch_pid = Some 100 \<rparr>), (AgentId 6, \<lparr> ch_number = 1, ch_pid = Some 101 \<rparr>)]"
    by code_simp
  then show ?thesis
    using one_process_per_agent[OF sample_manager_new, of "[Round sample_worker_os (Some (map (\<lambda>n. sample_wish n DRunning) [5, 6, 7]))]"]
    by (simp add: Let_def)
qed

section \<open>What a round does\<close>

lemma start_one_spec:
  assumes "start_one os n a m = (ob, m')"
  shows "obs_agent_id ob = a" "hm_get (mg_procs m) b = Some p \<Longrightarrow> hm_get (mg_procs m') b = Some p"
    "(hm_get (mg_procs m') b \<noteq> None) = (hm_get (mg_procs m) b \<noteq> None \<or> ob = ObservedRun b)"
    "ob = ObservedFail b CapReachedReason \<Longrightarrow> mg_max_processes m \<le> length (mg_procs m)"
    "length (mg_procs m) \<le> length (mg_procs m')" "mg_max_processes m' = mg_max_processes m"
    "hm_get (mg_procs m) a \<noteq> None \<Longrightarrow> ob = ObservedRun a"
proof -
  have same: "mg_procs m1 = mg_procs m" "mg_max_processes m1 = mg_max_processes m"
    if "spawn_agent os n a port m = (r, m1)" for port r m1
    using spawn_agent_same[of os n a port m] that by (auto dest: settings_eq(4))
  have len: "length xs \<le> length (hm_insert a v xs)" for v :: agent_proc and xs
    by (induction xs) (auto simp: hm_insert_def)
  show "obs_agent_id ob = a" "hm_get (mg_procs m) b = Some p \<Longrightarrow> hm_get (mg_procs m') b = Some p"
    "(hm_get (mg_procs m') b \<noteq> None) = (hm_get (mg_procs m) b \<noteq> None \<or> ob = ObservedRun b)"
    "ob = ObservedFail b CapReachedReason \<Longrightarrow> mg_max_processes m \<le> length (mg_procs m)"
    "length (mg_procs m) \<le> length (mg_procs m')" "mg_max_processes m' = mg_max_processes m"
    "hm_get (mg_procs m) a \<noteq> None \<Longrightarrow> ob = ObservedRun a"
    using assms len
    by (auto simp: start_one_def same split: if_splits option.splits prod.splits sum.splits)
qed

lemma start_wanted_spec:
  assumes "start_wanted os n as m = (obs, m')"
  shows "map obs_agent_id obs = as \<and> (\<forall>b p. hm_get (mg_procs m) b = Some p \<longrightarrow> hm_get (mg_procs m') b = Some p) \<and>
    (\<forall>b. (hm_get (mg_procs m') b \<noteq> None) = (hm_get (mg_procs m) b \<noteq> None \<or> ObservedRun b \<in> set obs)) \<and>
    ((\<exists>b. ObservedFail b CapReachedReason \<in> set obs) \<longrightarrow> mg_max_processes m \<le> length (mg_procs m')) \<and>
    length (mg_procs m) \<le> length (mg_procs m') \<and> mg_max_processes m' = mg_max_processes m \<and>
    (\<forall>b \<in> set as. hm_get (mg_procs m) b \<noteq> None \<longrightarrow> ObservedRun b \<in> set obs)"
  using assms
proof (induction os n as m arbitrary: obs m' rule: start_wanted.induct)
  case (2 os n a as m)
  obtain ob m1 where o1: "start_one os n a m = (ob, m1)" by fastforce
  obtain obs' where o2: "start_wanted os (Suc n) as m1 = (obs', m')" "obs = ob # obs'"
    using "2.prems" o1 by (cases "start_wanted os (Suc n) as m1") auto
  note f = start_one_spec[OF o1] and g = "2.IH"[OF o1[symmetric] o2(1)]
  have "\<forall>b p. hm_get (mg_procs m) b = Some p \<longrightarrow> hm_get (mg_procs m') b = Some p" using f(2) g by blast
  moreover have "\<forall>b. (hm_get (mg_procs m') b \<noteq> None) = (hm_get (mg_procs m) b \<noteq> None \<or> ObservedRun b \<in> set obs)"
    using f(3) g o2(2) by auto
  moreover have "mg_max_processes m \<le> length (mg_procs m')" if "ObservedFail b CapReachedReason \<in> set obs" for b
    using that f(4)[of b] f(5,6) g o2(2) by (auto intro: order_trans)
  moreover have "ObservedRun b \<in> set obs" if "b \<in> set (a # as)" "hm_get (mg_procs m) b \<noteq> None" for b
    using that f(2)[of b] f(7) g o2(2) by auto
  ultimately show ?case using f(1,5,6) g o2(2) by auto
qed simp

definition places_nothing_else :: "agent_command list \<Rightarrow> worker_effect \<Rightarrow> bool" where
  "places_nothing_else cs e = (case e of
      Spawned a _ _ \<Rightarrow> a \<in> set (wanted cs)
    | DirectoryRemoved a _ \<Rightarrow> (\<exists>c \<in> set cs. cmd_agent_id c = a \<and> cmd_desired_status c = DStopped)
    | _ \<Rightarrow> False)"

lemma remove_workspace_effects:
  "\<exists>es. mg_effects (snd (remove_workspace os n a m)) = mg_effects m @ es \<and>
     (\<forall>e \<in> set es. \<exists>croot target. e = DirectoryRemoved a target \<and> contained os (Removing n) (mg_workspace_root m) (agent_path m a) = Inr (croot, target))"
  by (auto simp: remove_workspace_def split: sum.splits io_failure.splits)

lemma spawn_agent_launch:
  assumes "spawn_agent os n a port m = (Inr ch, m')"
  shows "\<exists>l. mg_effects m' = mg_effects m @ [Spawned a ch l] \<and> la_program l = gk_bin (wg_grok (mg_config m)) \<and>
    la_envs l = llm_proxy_envs (wg_llm_proxy (mg_config m)) \<and>
    (\<exists>croot. contained os (Starting n) (mg_workspace_root m) (agent_path m a) = Inr (croot, la_dir l))"
proof -
  obtain dir where dir: "ensure_workspace os n m a = Inr dir"
    using assms by (cases "ensure_workspace os n m a") (auto simp: spawn_agent_def)
  define l where "l = \<lparr> la_program = gk_bin (wg_grok (mg_config m)),
    la_args = [''agent'', ''serve'', ''--bind'', mg_host m @ '':'' @ dec (unat port), ''--secret'', os_secret os n],
    la_dir = dir, la_envs = llm_proxy_envs (wg_llm_proxy (mg_config m)) \<rparr>"
  have "mg_effects m' = mg_effects m @ [Spawned a ch l]"
    using assms dir by (auto simp: spawn_agent_def Let_def l_def split: sum.splits)
  moreover obtain r where "contained os (Starting n) (mg_workspace_root m) (agent_path m a) = Inr r" "snd r = dir"
    using dir by (cases "contained os (Starting n) (mg_workspace_root m) (agent_path m a)") (auto simp: ensure_workspace_def split: sum.splits)
  ultimately show ?thesis by (intro exI[of _ l]) (cases r, simp add: l_def)
qed

definition launched_inside :: "worker_os \<Rightarrow> agent_manager \<Rightarrow> worker_effect \<Rightarrow> bool" where
  "launched_inside os m e = (case e of
      Spawned a ch l \<Rightarrow> la_program l = gk_bin (wg_grok (mg_config m)) \<and> la_envs l = llm_proxy_envs (wg_llm_proxy (mg_config m)) \<and>
        (\<exists>n croot. contained os (Starting n) (mg_workspace_root m) (agent_path m a) = Inr (croot, la_dir l))
    | DirectoryRemoved a target \<Rightarrow> (\<exists>n croot. contained os (Removing n) (mg_workspace_root m) (agent_path m a) = Inr (croot, target))
    | _ \<Rightarrow> True)"

lemma launched_inside_settings: "settings m' = settings m \<Longrightarrow> launched_inside os m' e = launched_inside os m e"
  using settings_eq[of m' m] by (simp add: launched_inside_def agent_path_def split: worker_effect.split)

lemma places_nothing_else_Cons: "places_nothing_else cs e \<Longrightarrow> places_nothing_else (c # cs) e"
  by (cases e) (auto simp: places_nothing_else_def wanted_def)

lemma remove_stopped_effects:
  "\<exists>es. mg_effects (remove_stopped os n cs m) = mg_effects m @ es \<and> (\<forall>e \<in> set es. launched_inside os m e \<and> places_nothing_else cs e)"
proof (induction os n cs m rule: remove_stopped.induct)
  case (2 os n c cs m)
  show ?case
  proof (cases "cmd_desired_status c = DStopped")
    case True
    let ?m1 = "snd (remove_workspace os n (cmd_agent_id c) m)"
    obtain es1 where e1: "mg_effects ?m1 = mg_effects m @ es1"
      "\<forall>e \<in> set es1. launched_inside os m e \<and> places_nothing_else (c # cs) e"
      using remove_workspace_effects[of os n "cmd_agent_id c" m] True by (fastforce simp: launched_inside_def places_nothing_else_def)
    obtain es2 where e2: "mg_effects (remove_stopped os (Suc n) cs ?m1) = mg_effects ?m1 @ es2"
      "\<forall>e \<in> set es2. launched_inside os ?m1 e \<and> places_nothing_else cs e" using "2.IH"(1) True by blast
    have "\<forall>e \<in> set es2. launched_inside os m e \<and> places_nothing_else (c # cs) e"
      using e2(2) launched_inside_settings remove_workspace_same[of os n "cmd_agent_id c" m]      places_nothing_else_Cons by blast
    then show ?thesis using e1 e2 True by (intro exI[of _ "es1 @ es2"]) auto
  next
    case False
    then show ?thesis using "2.IH"(2) places_nothing_else_Cons by fastforce
  qed
qed simp

lemma start_one_effects:
  assumes "start_one os n a m = (ob, m')"
  shows "\<exists>es. mg_effects m' = mg_effects m @ es \<and> (\<forall>e \<in> set es. launched_inside os m e \<and> (\<exists>ch l. e = Spawned a ch l))"
  using start_one_cases[of os n a m]
proof (elim disjE exE conjE)
  fix port ch m1
  assume "spawn_agent os n a port m = (Inr ch, m1)"
    "snd (start_one os n a m) = m1\<lparr>mg_procs := hm_insert a \<lparr> px_child = ch, px_port = port \<rparr> (mg_procs m1)\<rparr>"
  then show ?thesis using spawn_agent_launch[of os n a port m ch m1] assms by (fastforce simp: launched_inside_def)
qed (use assms in simp)

lemma start_wanted_effects:
  "\<exists>es. mg_effects (snd (start_wanted os n as m)) = mg_effects m @ es \<and>
     (\<forall>e \<in> set es. launched_inside os m e \<and> (\<exists>a ch l. a \<in> set as \<and> e = Spawned a ch l))"
proof (induction os n as m rule: start_wanted.induct)
  case (2 os n a as m)
  obtain ob m1 where o1: "start_one os n a m = (ob, m1)" by fastforce
  obtain es1 where e1: "mg_effects m1 = mg_effects m @ es1" "\<forall>e \<in> set es1. launched_inside os m e \<and> (\<exists>ch l. e = Spawned a ch l)"
    using start_one_effects[OF o1] by blast
  obtain es2 where e2: "mg_effects (snd (start_wanted os (Suc n) as m1)) = mg_effects m1 @ es2"
    "\<forall>e \<in> set es2. launched_inside os m1 e \<and> (\<exists>a ch l. a \<in> set as \<and> e = Spawned a ch l)" using "2.IH"[OF o1[symmetric]] by blast
  have "settings m1 = settings m" using start_one_settings[of os n a m] o1 by simp
  then show ?case using e1 e2 o1 launched_inside_settings[of m1 m os]
    by (intro exI[of _ "es1 @ es2"]) (auto simp: case_prod_beta)
qed simp

lemma fst_hm_get: "a \<in> fst ` set m \<longleftrightarrow> hm_get m a \<noteq> None"
  by (simp add: hm_get_def map_of_eq_None_iff)

lemma reconcile_spec:
  assumes "table_ok m"
  shows "let dead = filter (\<lambda>(a, p). \<not> os_running os (px_child p)) (mg_procs m);
      doomed = filter (\<lambda>(a, p). os_running os (px_child p) \<and> a \<notin> set (wanted cs)) (mg_procs m)
    in reconcile_agents os None m = (None, m) \<and>
    (case reconcile_agents os (Some cs) m of
       (None, _) \<Rightarrow> False
     | (Some r, m') \<Rightarrow>
         map obs_agent_id (ro_observations r) = wanted cs \<and>
         set (running_agents m') = {a. ObservedRun a \<in> set (ro_observations r)} \<and>
         (\<forall>(a, p) \<in> set (mg_procs m). os_running os (px_child p) \<and> a \<in> set (wanted cs) \<longrightarrow> (a, p) \<in> set (mg_procs m')) \<and>
         ro_orphans r = map (\<lambda>a. \<lparr> ao_agent_id = a, ao_reason = Unplaced \<rparr>)
           (filter (\<lambda>a. a \<notin> cmd_agent_id ` set cs) (map fst doomed)) \<and>
         (\<exists>es. mg_effects m' = mg_effects m @ map (\<lambda>(a, p). FoundDead a (px_child p)) dead
             @ map (\<lambda>(a, p). Terminated a (px_child p)) doomed @ es \<and> (\<forall>e \<in> set es. places_nothing_else cs e)) \<and>
         ((\<exists>a. ObservedFail a CapReachedReason \<in> set (ro_observations r)) \<longrightarrow>
            length (mg_procs m') = mg_max_processes m))"
proof -
  let ?m1 = "reap_dead os m"
  let ?m2 = "snd (stop_unwanted os cs ?m1)"
  let ?m3 = "remove_stopped os 0 cs ?m2"
  obtain obs m' where sw: "start_wanted os 0 (wanted cs) ?m3 = (obs, m')" by fastforce
  define r where "r = \<lparr> ro_observations = obs, ro_orphans = fst (stop_unwanted os cs ?m1) \<rparr>"
  have rec: "reconcile_agents os (Some cs) m = (Some r, m')" by (simp add: reconcile_agents_def case_prod_beta sw r_def)
  have "settings m' = settings m \<and> table_ok m'"
    using manager_exec_keeps[of "Round os (Some cs)" m] assms rec by simp
  then have ok': "length (mg_procs m') \<le> mg_max_processes m" "hm_ok (mg_procs m')" "mg_max_processes m' = mg_max_processes m"
    using settings_eq(4)[of m' m] by (simp_all add: table_ok_def)
  have p3: "mg_procs ?m3 = filter (\<lambda>(a, p). os_running os (px_child p) \<and> a \<in> set (wanted cs)) (mg_procs m)"
    using remove_stopped_same[of os 0 cs ?m2]
    by (auto simp: stop_unwanted_def terminate_all_def reap_dead_def Let_def case_prod_unfold intro: filter_cong)
  have m3: "mg_max_processes ?m3 = mg_max_processes m"
    using remove_stopped_same[of os 0 cs ?m2] stop_settings[of os cs ?m1] reap_settings[of os m] by (auto dest!: settings_eq(4))
  note spec = start_wanted_spec[OF sw]
  have ok: "hm_ok (mg_procs m)" using assms by (simp add: table_ok_def)
  then have ok3: "hm_ok (mg_procs ?m3)" by (simp add: p3 hm_ok_def distinct_map_filter)
  have keys: "set (running_agents m') = {a. ObservedRun a \<in> set obs}"
  proof -
    have "a \<in> set (wanted cs)" if "hm_get (mg_procs ?m3) a \<noteq> None" for a
      using that unfolding p3 fst_hm_get[symmetric] by auto
    then have "ObservedRun a \<in> set obs" if "hm_get (mg_procs ?m3) a \<noteq> None" for a using that spec by blast
    moreover have "(hm_get (mg_procs m') a \<noteq> None) = (hm_get (mg_procs ?m3) a \<noteq> None \<or> ObservedRun a \<in> set obs)" for a
      using spec by blast
    ultimately show ?thesis unfolding running_agents_def set_map set_eq_iff fst_hm_get by blast
  qed
  have kept: "(a, p) \<in> set (mg_procs m')" if "(a, p) \<in> set (mg_procs m)" "os_running os (px_child p)" "a \<in> set (wanted cs)" for a p
  proof -
    have "hm_get (mg_procs ?m3) a = Some p" by (rule hm_in_get[OF ok3]) (use that in \<open>simp add: p3\<close>)
    then show ?thesis using spec[THEN conjunct2, THEN conjunct1] by (intro hm_get_in) simp
  qed
  have f12: "filter (\<lambda>(a, _). a \<notin> set (wanted cs)) (mg_procs ?m1) =
      filter (\<lambda>(a, p). os_running os (px_child p) \<and> a \<notin> set (wanted cs)) (mg_procs m)"
    by (auto simp: reap_dead_def Let_def case_prod_unfold intro: filter_cong)
  obtain es1 es2 where es: "mg_effects m' = mg_effects ?m2 @ es1 @ es2" "\<forall>e \<in> set (es1 @ es2). places_nothing_else cs e"
    using remove_stopped_effects[of os 0 cs ?m2] start_wanted_effects[of os 0 "wanted cs" ?m3] sw
    by (fastforce simp: places_nothing_else_def)
  have e2: "mg_effects ?m2 = mg_effects m @ map (\<lambda>(a, p). FoundDead a (px_child p)) (filter (\<lambda>(a, p). \<not> os_running os (px_child p)) (mg_procs m))
      @ map (\<lambda>(a, p). Terminated a (px_child p)) (filter (\<lambda>(a, p). os_running os (px_child p) \<and> a \<notin> set (wanted cs)) (mg_procs m))"
    unfolding f12[symmetric] by (simp add: stop_unwanted_def terminate_all_def Let_def) (simp add: reap_dead_def Let_def)
  have orph: "ro_orphans r = map (\<lambda>a. \<lparr> ao_agent_id = a, ao_reason = Unplaced \<rparr>) (filter (\<lambda>a. a \<notin> cmd_agent_id ` set cs)
      (map fst (filter (\<lambda>(a, p). os_running os (px_child p) \<and> a \<notin> set (wanted cs)) (mg_procs m))))"
    unfolding f12[symmetric] by (simp add: r_def stop_unwanted_def Let_def)
  have "\<exists>es. mg_effects m' = mg_effects m @ map (\<lambda>(a, p). FoundDead a (px_child p)) (filter (\<lambda>(a, p). \<not> os_running os (px_child p)) (mg_procs m))
      @ map (\<lambda>(a, p). Terminated a (px_child p)) (filter (\<lambda>(a, p). os_running os (px_child p) \<and> a \<notin> set (wanted cs)) (mg_procs m)) @ es \<and>
      (\<forall>e \<in> set es. places_nothing_else cs e)"
    using es e2 by (intro exI[of _ "es1 @ es2"]) simp
  then show ?thesis unfolding Let_def rec
    using keys kept orph spec ok' m3 by (auto simp: r_def reconcile_agents_def)
qed

text \<open>
  C27. A round of reconciliation with an authoritative list: it ends exactly the children that have stopped on
  their own or that the list does not want, keeps the other ones as they are, starts nothing and removes no
  directory that the list does not ask for, reports one observation per wanted agent in the order of the list, and afterwards runs exactly
  the agents it reports as running; the reported orphans are the processes the list does not
  mention; an agent is refused for the cap only when the table is full. Without a list nothing changes.
\<close>

theorem reconcile_exact:
  assumes "new_agent_manager path_of cwd show_agent c files = Inr m0"
  shows "let m = manager_run steps m0;
      dead = filter (\<lambda>(a, p). \<not> os_running os (px_child p)) (mg_procs m);
      doomed = filter (\<lambda>(a, p). os_running os (px_child p) \<and> a \<notin> set (wanted cs)) (mg_procs m)
    in reconcile_agents os None m = (None, m) \<and>
    (case reconcile_agents os (Some cs) m of
       (None, _) \<Rightarrow> False
     | (Some r, m') \<Rightarrow>
         map obs_agent_id (ro_observations r) = wanted cs \<and>
         set (running_agents m') = {a. ObservedRun a \<in> set (ro_observations r)} \<and>
         (\<forall>(a, p) \<in> set (mg_procs m). os_running os (px_child p) \<and> a \<in> set (wanted cs) \<longrightarrow> (a, p) \<in> set (mg_procs m')) \<and>
         ro_orphans r = map (\<lambda>a. \<lparr> ao_agent_id = a, ao_reason = Unplaced \<rparr>)
           (filter (\<lambda>a. a \<notin> cmd_agent_id ` set cs) (map fst doomed)) \<and>
         (\<exists>es. mg_effects m' = mg_effects m @ map (\<lambda>(a, p). FoundDead a (px_child p)) dead
             @ map (\<lambda>(a, p). Terminated a (px_child p)) doomed @ es \<and> (\<forall>e \<in> set es. places_nothing_else cs e)) \<and>
         ((\<exists>a. ObservedFail a CapReachedReason \<in> set (ro_observations r)) \<longrightarrow>
            length (mg_procs m') = unat (gk_max_agent_processes (wg_grok c))))"
proof -
  let ?m = "manager_run steps m0"
  have k: "settings ?m = settings m0" "table_ok ?m"
    using manager_run_keeps[of steps m0] new_manager_table_ok[OF assms] by auto
  have max: "mg_max_processes ?m = unat (gk_max_agent_processes (wg_grok c))"
    using settings_eq(4)[OF k(1)] new_manager_table_ok[OF assms] by simp
  show ?thesis using reconcile_spec[OF k(2), of os cs] unfolding Let_def max .
qed

lemma reconcile_exact_witness:
  "case reconcile_agents sample_worker_os (Some [sample_wish 6 DRunning])
      (manager_run [Round sample_worker_os (Some [sample_wish 5 DRunning])] sample_manager) of
     (None, _) \<Rightarrow> False
   | (Some r, m') \<Rightarrow> set (running_agents m') = {AgentId 6} \<and> ro_orphans r = [\<lparr> ao_agent_id = AgentId 5, ao_reason = Unplaced \<rparr>]"
proof -
  let ?m = "manager_run [Round sample_worker_os (Some [sample_wish 5 DRunning])] sample_manager"
  have "case reconcile_agents sample_worker_os (Some [sample_wish 6 DRunning]) ?m of
     (None, _) \<Rightarrow> False | (Some r, m') \<Rightarrow> ro_observations r = [ObservedRun (AgentId 6)]" by code_simp
  moreover have "map fst (filter (\<lambda>(a, p). os_running sample_worker_os (px_child p) \<and> a \<notin> set (wanted [sample_wish 6 DRunning])) (mg_procs ?m)) = [AgentId 5]"
    by code_simp
  ultimately show ?thesis
    using reconcile_exact[OF sample_manager_new, of "[Round sample_worker_os (Some [sample_wish 5 DRunning])]" sample_worker_os "[sample_wish 6 DRunning]"]
    by (auto simp: Let_def sample_wish_def split: prod.splits option.splits)
qed

lemma contained_Inr:
  "contained os mo r p = Inr (croot, dir) \<longleftrightarrow>
     os_canonical os mo r = Inr croot \<and> os_canonical os mo p = Inr dir \<and> take (length croot) dir = croot"
  by (auto simp: contained_def split: sum.splits)

lemma launched_insideD:
  assumes "launched_inside os m e"
  shows "case e of
      Spawned a ch l \<Rightarrow> la_program l = gk_bin (wg_grok (mg_config m)) \<and> la_envs l = llm_proxy_envs (wg_llm_proxy (mg_config m)) \<and>
        (\<exists>mo croot. os_canonical os mo (mg_workspace_root m) = Inr croot \<and>
           os_canonical os mo (mg_workspace_root m @ [mg_show_agent m a]) = Inr (la_dir l) \<and> take (length croot) (la_dir l) = croot)
    | DirectoryRemoved a dir \<Rightarrow> (\<exists>mo croot. os_canonical os mo (mg_workspace_root m) = Inr croot \<and>
        os_canonical os mo (mg_workspace_root m @ [mg_show_agent m a]) = Inr dir \<and> take (length croot) dir = croot)
    | _ \<Rightarrow> True"
  using assms by (cases e) (auto simp: launched_inside_def contained_Inr agent_path_def)

lemma round_ends:
  "\<exists>es. mg_effects (snd (stop_unwanted os cs (reap_dead os m))) = mg_effects m @ es \<and> (\<forall>e \<in> set es. launched_inside os m e)"
  by (auto simp: stop_unwanted_def reap_dead_def terminate_all_def Let_def launched_inside_def)

text \<open>
  C28. Agent processes stay inside the workspace root: whatever the control plane asks for and whatever lies on the disk, a
  reconciliation starts processes only with the configured program and the variables of the model gateway, in the agent's own
  directory, and removes only such directories; both resolve to a path below the resolved root at that moment.
\<close>

theorem agents_stay_inside:
  "case reconcile_agents os cs m of (_, m') \<Rightarrow>
     \<exists>es. mg_effects m' = mg_effects m @ es \<and>
       (\<forall>e \<in> set es. case e of
          Spawned a ch l \<Rightarrow>
            la_program l = gk_bin (wg_grok (mg_config m)) \<and> la_envs l = llm_proxy_envs (wg_llm_proxy (mg_config m)) \<and>
            (\<exists>mo croot. os_canonical os mo (mg_workspace_root m) = Inr croot \<and>
               os_canonical os mo (mg_workspace_root m @ [mg_show_agent m a]) = Inr (la_dir l) \<and> take (length croot) (la_dir l) = croot)
        | DirectoryRemoved a dir \<Rightarrow>
            (\<exists>mo croot. os_canonical os mo (mg_workspace_root m) = Inr croot \<and>
               os_canonical os mo (mg_workspace_root m @ [mg_show_agent m a]) = Inr dir \<and> take (length croot) dir = croot)
        | _ \<Rightarrow> True)"
proof (cases cs)
  case None
  then show ?thesis by (simp add: reconcile_agents_def)
next
  case (Some c)
  let ?m2 = "snd (stop_unwanted os c (reap_dead os m))"
  let ?m3 = "remove_stopped os 0 c ?m2"
  have s2: "settings ?m2 = settings m" by (simp add: stop_settings reap_settings)
  then have s3: "settings ?m3 = settings m" using remove_stopped_same[of os 0 c ?m2] by simp
  obtain es0 where e0: "mg_effects ?m2 = mg_effects m @ es0" "\<forall>e \<in> set es0. launched_inside os m e"
    using round_ends[of os c m] by blast
  obtain es1 where e1: "mg_effects ?m3 = mg_effects ?m2 @ es1" "\<forall>e \<in> set es1. launched_inside os m e"
    using remove_stopped_effects[of os 0 c ?m2] launched_inside_settings[OF s2] by blast
  obtain es2 where e2: "mg_effects (snd (start_wanted os 0 (wanted c) ?m3)) = mg_effects ?m3 @ es2"
    "\<forall>e \<in> set es2. launched_inside os m e"
    using start_wanted_effects[of os 0 "wanted c" ?m3] launched_inside_settings[OF s3] by blast
  have "\<forall>e \<in> set (es0 @ es1 @ es2). launched_inside os m e" using e0(2) e1(2) e2(2) by auto
  then have a: "\<forall>e \<in> set (es0 @ es1 @ es2). case e of
      Spawned a ch l \<Rightarrow> la_program l = gk_bin (wg_grok (mg_config m)) \<and> la_envs l = llm_proxy_envs (wg_llm_proxy (mg_config m)) \<and>
        (\<exists>mo croot. os_canonical os mo (mg_workspace_root m) = Inr croot \<and>
           os_canonical os mo (mg_workspace_root m @ [mg_show_agent m a]) = Inr (la_dir l) \<and> take (length croot) (la_dir l) = croot)
    | DirectoryRemoved a dir \<Rightarrow> (\<exists>mo croot. os_canonical os mo (mg_workspace_root m) = Inr croot \<and>
        os_canonical os mo (mg_workspace_root m @ [mg_show_agent m a]) = Inr dir \<and> take (length croot) dir = croot)
    | _ \<Rightarrow> True" using launched_insideD by blast
  obtain r where "reconcile_agents os cs m = (r, snd (start_wanted os 0 (wanted c) ?m3))"
    by (simp add: Some reconcile_agents_def case_prod_beta)
  then show ?thesis using a e0(1) e1(1) e2(1) by (intro exI[of _ "es0 @ es1 @ es2"] case_prodI2) simp
qed

lemma agents_stay_inside_witness:
  "case reconcile_agents sample_worker_os (Some [sample_wish 5 DRunning]) sample_manager of (_, m') \<Rightarrow>
     \<exists>ch l. mg_effects m' = [Spawned (AgentId 5) ch l] \<and> la_program l = ''grok'' \<and> la_dir l = [''ws'', ''11111'']"
proof -
  let ?r = "reconcile_agents sample_worker_os (Some [sample_wish 5 DRunning]) sample_manager"
  have "case ?r of (_, m') \<Rightarrow> (case mg_effects m' of [Spawned a ch l] \<Rightarrow> a = AgentId 5 | _ \<Rightarrow> False)" by code_simp
  then obtain r m' ch l where e: "?r = (r, m')" "mg_effects m' = [Spawned (AgentId 5) ch l]"
    by (auto split: prod.splits list.splits worker_effect.splits)
  have "mg_effects sample_manager = []" by (simp add: sample_manager_def)
  then have "la_program l = gk_bin (wg_grok (mg_config sample_manager)) \<and>
      os_canonical sample_worker_os (Starting 0) (mg_workspace_root sample_manager @ [mg_show_agent sample_manager (AgentId 5)]) = Inr (la_dir l)"
    using agents_stay_inside[where os = sample_worker_os and cs = "Some [sample_wish 5 DRunning]" and m = sample_manager] e by (auto simp: sample_worker_os_def)
  moreover have "gk_bin (wg_grok (mg_config sample_manager)) = ''grok''" by code_simp
  moreover have "os_canonical sample_worker_os (Starting 0)
      (mg_workspace_root sample_manager @ [mg_show_agent sample_manager (AgentId 5)]) = Inr [''ws'', ''11111'']" by code_simp
  ultimately show ?thesis using e by simp
qed

end
