(* ===== verification/Worker_Crash.thy ===== *)
theory Worker_Crash
  imports Worker_Claims
begin

text \<open>
  What a crash of the worker daemon leaves behind: the children keep running, and the records on disk name exactly
  them, so that the sweep of the next incarnation finds and kills every one of them.
\<close>

section \<open>Sweeping, in closed form\<close>








section \<open>The records on disk name the children\<close>























end
