(* ===== verification/Worker_Watchdog.thy ===== *)
theory Worker_Watchdog
  imports Worker_Supervision
begin

text \<open>
  The watchdog thread of the worker (\<open>crates/fleet-worker/src/watchdog.rs\<close>). A run is the sequence of what the thread
  sees when it wakes up: how long it slept, whether it was disarmed meanwhile, and the beats counted so far.
\<close>

definition exit_watchdog :: int where "exit_watchdog = 70"

record progress_beacon =
  pb_beats :: u64
  pb_disarmed :: bool

definition fresh_beacon :: progress_beacon where
  "fresh_beacon = \<lparr> pb_beats = 0, pb_disarmed = False \<rparr>"

definition count_beat :: "progress_beacon \<Rightarrow> progress_beacon" where
  "count_beat b = b\<lparr>pb_beats := pb_beats b + 1\<rparr>"

definition disarm :: "progress_beacon \<Rightarrow> progress_beacon" where
  "disarm b = b\<lparr>pb_disarmed := True\<rparr>"

datatype verdict = Progressed | Frozen | Waiting | Stalled

definition freeze_overrun_factor :: nat where "freeze_overrun_factor = 2"

definition judge :: "bool \<Rightarrow> duration \<Rightarrow> duration \<Rightarrow> duration \<Rightarrow> duration \<Rightarrow> verdict" where
  "judge advanced slept poll since_baseline stall_after' =
     (if advanced then Progressed
      else if slept > poll * freeze_overrun_factor then Frozen
      else if since_baseline \<ge> stall_after' then Stalled
      else Waiting)"

record wake_up =
  wu_slept :: duration
  wu_beacon :: progress_beacon

datatype watch_end = StillWatching | Disarmed | Fired u64 duration

fun watch_loop :: "duration \<Rightarrow> duration \<Rightarrow> u64 \<Rightarrow> duration \<Rightarrow> wake_up list \<Rightarrow> watch_end" where
  "watch_loop poll stall baseline since [] = StillWatching"
| "watch_loop poll stall baseline since (x # xs) =
     (if pb_disarmed (wu_beacon x) then Disarmed
      else
        let now = pb_beats (wu_beacon x); since = since + wu_slept x in
        case judge (now \<noteq> baseline) (wu_slept x) poll since stall of
          Progressed \<Rightarrow> watch_loop poll stall now 0 xs
        | Frozen \<Rightarrow> watch_loop poll stall now 0 xs
        | Waiting \<Rightarrow> watch_loop poll stall baseline since xs
        | Stalled \<Rightarrow> Fired baseline since)"

definition watch :: "progress_beacon \<Rightarrow> duration \<Rightarrow> duration \<Rightarrow> wake_up list \<Rightarrow> watch_end" where
  "watch b poll stall xs = watch_loop poll stall (pb_beats b) 0 xs"

definition poll_interval :: "duration \<Rightarrow> duration" where
  "poll_interval stall = max (secs 1) (min (secs 30) (stall div 6))"

text \<open>The thread: none without a deadline, or when it cannot be started; what it does when it fires, and the exit code.\<close>

definition watchdog_run ::
    "bool \<Rightarrow> duration \<Rightarrow> progress_beacon \<Rightarrow> wake_up list \<Rightarrow> bool \<Rightarrow> process_table \<Rightarrow> spawn_files \<Rightarrow> (killed_agent list \<times> int) option" where
  "watchdog_run started stall b xs listed table files =
     (if stall = 0 \<or> \<not> started then None
      else case watch b (poll_interval stall) stall xs of
        Fired _ _ \<Rightarrow> Some (terminate_recorded_agents_blocking listed table files, exit_watchdog)
      | _ \<Rightarrow> None)"

section \<open>When it fires\<close>

text \<open>Wake-ups at which nothing had moved and the thread itself had not been frozen.\<close>

definition stuck :: "duration \<Rightarrow> u64 \<Rightarrow> wake_up list \<Rightarrow> bool" where
  "stuck poll n xs \<longleftrightarrow> (\<forall>x \<in> set xs. \<not> pb_disarmed (wu_beacon x) \<and> pb_beats (wu_beacon x) = n \<and> wu_slept x \<le> poll * 2)"

definition time_slept :: "wake_up list \<Rightarrow> duration" where
  "time_slept xs = sum_list (map wu_slept xs)"

lemma watch_step:
  "watch_loop poll stall n since (x # xs) =
     (if pb_disarmed (wu_beacon x) then Disarmed
      else if pb_beats (wu_beacon x) \<noteq> n \<or> wu_slept x > poll * 2 then watch_loop poll stall (pb_beats (wu_beacon x)) 0 xs
      else if since + wu_slept x \<ge> stall then Fired n (since + wu_slept x)
      else watch_loop poll stall n (since + wu_slept x) xs)"
  by (simp add: judge_def freeze_overrun_factor_def Let_def)

declare watch_loop.simps(2) [simp del]

lemma fired_stuck:
  assumes "watch_loop poll stall n since xs = Fired b t"
  shows "\<exists>before ws after. xs = before @ ws @ after \<and> ws \<noteq> [] \<and> stuck poll b ws \<and> t \<ge> stall \<and>
    (if before = [] then n = b \<and> t = since + time_slept ws else t = time_slept ws)"
  using assms
proof (induction xs arbitrary: n since)
  case (Cons x xs)
  let ?now = "pb_beats (wu_beacon x)"
  have live: "\<not> pb_disarmed (wu_beacon x)" using Cons.prems by (auto simp: watch_step)
  consider (moved) "?now \<noteq> n \<or> wu_slept x > poll * 2" | (fire) "?now = n" "wu_slept x \<le> poll * 2" "since + wu_slept x \<ge> stall"
    | (wait) "?now = n" "wu_slept x \<le> poll * 2" "since + wu_slept x < stall" by linarith
  then show ?case
  proof cases
    case moved
    then have "watch_loop poll stall ?now 0 xs = Fired b t" using Cons.prems live by (simp add: watch_step)
    from Cons.IH[OF this] obtain bs ws as' where h: "xs = bs @ ws @ as'" "ws \<noteq> []" "stuck poll b ws" "t \<ge> stall"
      "if bs = [] then ?now = b \<and> t = 0 + time_slept ws else t = time_slept ws" by blast
    then show ?thesis by (intro exI[of _ "x # bs"] exI[of _ ws] exI[of _ as']) (auto split: if_splits)
  next
    case fire
    then have "b = n" "t = since + wu_slept x" using Cons.prems live by (simp_all add: watch_step)
    then show ?thesis using fire live
      by (intro exI[of _ "[]"] exI[of _ "[x]"] exI[of _ xs]) (simp add: stuck_def time_slept_def)
  next
    case wait
    then have "watch_loop poll stall n (since + wu_slept x) xs = Fired b t" using Cons.prems live by (simp add: watch_step)
    from Cons.IH[OF this] obtain bs ws as' where h: "xs = bs @ ws @ as'" "ws \<noteq> []" "stuck poll b ws" "t \<ge> stall"
      "if bs = [] then n = b \<and> t = since + wu_slept x + time_slept ws else t = time_slept ws" by blast
    show ?thesis
    proof (cases "bs = []")
      case True
      then show ?thesis using h wait live
        by (intro exI[of _ "[]"] exI[of _ "x # ws"] exI[of _ as']) (simp add: stuck_def time_slept_def)
    next
      case False
      then show ?thesis using h by (intro exI[of _ "x # bs"] exI[of _ ws] exI[of _ as']) simp
    qed
  qed
qed simp

lemma stuck_fires:
  assumes "stuck poll n ws" "since + time_slept ws \<ge> stall" "ws \<noteq> []"
  shows "\<exists>t. watch_loop poll stall n since (ws @ xs) = Fired n t \<and> t \<le> since + time_slept ws"
  using assms
proof (induction ws arbitrary: since)
  case (Cons x ws)
  have x: "\<not> pb_disarmed (wu_beacon x)" "pb_beats (wu_beacon x) = n" "wu_slept x \<le> poll * 2"
    using Cons.prems(1) by (auto simp: stuck_def)
  show ?case
  proof (cases "since + wu_slept x \<ge> stall")
    case True
    then show ?thesis using x by (simp add: watch_step time_slept_def)
  next
    case False
    then have "ws \<noteq> []" using Cons.prems(2) by (auto simp: time_slept_def)
    moreover have "stuck poll n ws" using Cons.prems(1) by (simp add: stuck_def)
    moreover have "since + wu_slept x + time_slept ws \<ge> stall" using Cons.prems(2) by (simp add: time_slept_def add.assoc)
    ultimately obtain t where "watch_loop poll stall n (since + wu_slept x) (ws @ xs) = Fired n t" "t \<le> since + wu_slept x + time_slept ws"
      using Cons.IH[of "since + wu_slept x"] by blast
    then show ?thesis using x False by (simp add: watch_step time_slept_def add.assoc)
  qed
qed simp

text \<open>A run that has not ended leads to some baseline, from which the loop goes on.\<close>

lemma watch_append:
  assumes "watch_loop poll stall n since xs = StillWatching"
  shows "\<exists>n' since'. \<forall>ys. watch_loop poll stall n since (xs @ ys) = watch_loop poll stall n' since' ys"
  using assms
proof (induction xs arbitrary: n since)
  case (Cons x xs)
  then have "\<exists>n1 s1. watch_loop poll stall n1 s1 xs = StillWatching \<and>
      (\<forall>ys. watch_loop poll stall n since (x # ys) = watch_loop poll stall n1 s1 ys)"
    by (auto simp: watch_step split: if_splits)
  then obtain n1 s1 where n1: "watch_loop poll stall n1 s1 xs = StillWatching"
    "\<And>ys. watch_loop poll stall n since (x # ys) = watch_loop poll stall n1 s1 ys" by blast
  then show ?case using Cons.IH[OF n1(1)] by simp
qed auto

text \<open>After its first wake-up in a stuck period the watchdog counts from there, or from earlier.\<close>

lemma stuck_fires_after:
  assumes "watch_loop poll stall n0 since0 xs = StillWatching" "stuck poll n (x # ws)" "time_slept ws \<ge> stall" "ws \<noteq> []"
  shows "\<exists>t. watch_loop poll stall n0 since0 (xs @ x # ws @ ys) = Fired n t"
proof -
  obtain n' since' where c: "\<And>zs. watch_loop poll stall n0 since0 (xs @ zs) = watch_loop poll stall n' since' zs"
    using watch_append[OF assms(1)] by blast
  have x: "\<not> pb_disarmed (wu_beacon x)" "pb_beats (wu_beacon x) = n" "wu_slept x \<le> poll * 2" "stuck poll n ws"
    using assms(2) by (auto simp: stuck_def)
  have go: "\<exists>t. watch_loop poll stall n s (ws @ ys) = Fired n t" for s
    using stuck_fires[OF x(4), where since = s and stall = stall and xs = ys] assms(3,4) by auto
  show ?thesis unfolding c using x go by (auto simp: watch_step)
qed

section \<open>The two properties\<close>

text \<open>
  C29. The watchdog kills exactly the stuck worker: it fires only after a stretch of wake-ups, none of them overslept, in
  which the heartbeat loop has not come round once for the whole deadline and the watchdog was not disarmed; a progressing worker, a
  suspended one and one that is shutting down are left alone. And whenever the loop stops coming round,
  it does fire once the sleeps after its next wake-up add up to the deadline, kills every recorded child that is still the one it started, and exits with code 70.
\<close>

theorem watchdog_exact:
  "(watchdog_run started stall b xs listed table files \<noteq> None \<longrightarrow>
      stall \<noteq> 0 \<and> (\<exists>before ws after n. xs = before @ ws @ after \<and> ws \<noteq> [] \<and> stuck (poll_interval stall) n ws \<and> time_slept ws \<ge> stall)) \<and>
   (\<forall>before x ws n. started \<longrightarrow> stall \<noteq> 0 \<longrightarrow> xs = before @ x # ws \<longrightarrow> stuck (poll_interval stall) n (x # ws) \<longrightarrow> time_slept ws \<ge> stall \<longrightarrow>
      watch b (poll_interval stall) stall before = StillWatching \<longrightarrow>
      watchdog_run started stall b xs listed table files = Some (terminate_recorded_agents_blocking listed table files, 70))"
proof (intro conjI impI allI)
  assume r: "watchdog_run started stall b xs listed table files \<noteq> None"
  show "stall \<noteq> 0" using r by (auto simp: watchdog_run_def split: if_splits)
  obtain n t where "watch_loop (poll_interval stall) stall (pb_beats b) 0 xs = Fired n t"
    using r by (auto simp: watchdog_run_def watch_def split: if_splits watch_end.splits)
  from fired_stuck[OF this] show "\<exists>before ws after n. xs = before @ ws @ after \<and> ws \<noteq> [] \<and> stuck (poll_interval stall) n ws \<and> time_slept ws \<ge> stall"
    by (metis add_0)
next
  fix before x ws n
  assume a: "started" "stall \<noteq> 0" "xs = before @ x # ws" "stuck (poll_interval stall) n (x # ws)" "time_slept ws \<ge> stall"
    "watch b (poll_interval stall) stall before = StillWatching"
  have "ws \<noteq> []" using a(2,5) by (auto simp: time_slept_def)
  then obtain t where "watch_loop (poll_interval stall) stall (pb_beats b) 0 xs = Fired n t"
    using stuck_fires_after[OF a(6)[unfolded watch_def] a(4,5), of "[]"] a(3) by auto
  then show "watchdog_run started stall b xs listed table files = Some (terminate_recorded_agents_blocking listed table files, 70)"
    using a(1,2) by (simp add: watchdog_run_def watch_def exit_watchdog_def)
qed

definition sample_wake :: "nat \<Rightarrow> u64 \<Rightarrow> wake_up" where
  "sample_wake n beats = \<lparr> wu_slept = secs n, wu_beacon = \<lparr> pb_beats = beats, pb_disarmed = False \<rparr> \<rparr>"

lemma watchdog_exact_witness:
  "watchdog_run True (secs 6) fresh_beacon [sample_wake 1 4, sample_wake 1 5, sample_wake 2 5, sample_wake 2 5, sample_wake 2 5] True (\<lambda>_. None) [] = Some ([], 70)"
proof -
  have "watch fresh_beacon (poll_interval (secs 6)) (secs 6) [sample_wake 1 4] = StillWatching"
    "stuck (poll_interval (secs 6)) 5 (sample_wake 1 5 # replicate 3 (sample_wake 2 5))"
    by (simp_all add: watch_def watch_step sample_wake_def fresh_beacon_def poll_interval_def secs_def stuck_def)
  then show ?thesis
    using watchdog_exact[THEN conjunct2, rule_format, of True "secs 6" _ "[sample_wake 1 4]" "sample_wake 1 5" "replicate 3 (sample_wake 2 5)" 5
        fresh_beacon True "\<lambda>_. None" "[]"]
    by (simp add: numeral_3_eq_3 time_slept_def sample_wake_def secs_def terminate_recorded_agents_blocking_def readable_records_def map_filter_simps)
qed

text \<open>
  The deadline is checked against the worker's own heartbeat interval only, but the loop sleeps for the longer one of its own
  and the control plane's: between two beats of a healthy worker whose control plane asks for more than the deadline, the watchdog fires.
\<close>

theorem long_server_interval_kills:
  assumes "stall = secs (unat (ws_watchdog_stall_after_secs (wg_worker c)))" "stall \<noteq> 0"
    "stall + poll_interval stall \<le> secs (unat (max server_interval (ws_heartbeat_interval_secs (wg_worker c))))"
  shows "\<exists>ws. (\<forall>x \<in> set ws. wu_slept x = poll_interval stall \<and> wu_beacon x = \<lparr> pb_beats = n, pb_disarmed = False \<rparr>) \<and>
    time_slept ws \<le> secs (unat (max server_interval (ws_heartbeat_interval_secs (wg_worker c)))) \<and>
    watchdog_run True stall \<lparr> pb_beats = n, pb_disarmed = False \<rparr> ws listed table files
      = Some (terminate_recorded_agents_blocking listed table files, exit_watchdog)"
proof -
  let ?p = "poll_interval stall"
  define k where "k = Suc ((stall - 1) div ?p)"
  let ?ws = "replicate k \<lparr> wu_slept = ?p, wu_beacon = \<lparr> pb_beats = n, pb_disarmed = False \<rparr> \<rparr>"
  have p: "0 < ?p" by (simp add: poll_interval_def secs_def)
  have t: "time_slept ?ws = k * ?p" by (simp add: time_slept_def sum_list_replicate)
  have m: "stall - 1 = ?p * ((stall - 1) div ?p) + (stall - 1) mod ?p" "(stall - 1) mod ?p < ?p" using p by simp_all
  have kp: "k * ?p = ?p + ?p * ((stall - 1) div ?p)" by (simp add: k_def mult.commute)
  have ge: "time_slept ?ws \<ge> stall" unfolding t kp using m assms(2) by linarith
  have le: "time_slept ?ws \<le> stall + ?p" unfolding t kp using m by linarith
  have "stuck ?p n ?ws" by (simp add: stuck_def)
  then obtain t where "watch_loop ?p stall n 0 (?ws @ []) = Fired n t"
    using stuck_fires[where since = 0 and stall = stall and ws = ?ws and xs = "[]"] ge k_def by fastforce
  then show ?thesis using assms(2,3) le
    by (intro exI[of _ ?ws]) (auto simp: watchdog_run_def watch_def)
qed

lemma long_server_interval_kills_witness:
  "validate_config (\<lambda>_. None) sample_worker_config = Inr () \<and>
   (\<exists>ws. time_slept ws \<le> secs 900 \<and>
      watchdog_run True (secs 600) \<lparr> pb_beats = 1, pb_disarmed = False \<rparr> ws True (\<lambda>_. None) [] \<noteq> None)"
proof -
  have "validate_config (\<lambda>_. None) sample_worker_config = Inr ()" by code_simp
  moreover have "secs 600 = secs (unat (ws_watchdog_stall_after_secs (wg_worker sample_worker_config)))" "secs 600 \<noteq> 0"
    "secs 600 + poll_interval (secs 600) \<le> secs (unat (max 900 (ws_heartbeat_interval_secs (wg_worker sample_worker_config))))"
    by (simp_all add: sample_worker_config_def secs_def poll_interval_def)
  ultimately show ?thesis
    using long_server_interval_kills[of "secs 600" sample_worker_config 900 1 True "\<lambda>_. None" "[]"] by (auto simp: sample_worker_config_def)
qed

end
