(* ===== verification/Worker_Join.thy ===== *)
theory Worker_Join
  imports Worker_Supervision Base64_Url
begin

text \<open>
  Joining the fleet (\<open>crates/fleet-worker/src/join.rs\<close>), the command line of the daemon (\<open>main.rs\<close>) and the
  supervision of its own \<open>grok\<close> process (\<open>GrokRunner\<close> in \<open>grok_process.rs\<close>). The control plane is a function from the
  request to what comes of it; files, random bytes and the parser of configurations are arguments.
\<close>

section \<open>What is sent and received\<close>

datatype 'a http_outcome = Unreachable string | Refused nat string | BadBody string | Answered 'a

record join_args =
  jg_orchestrator_url :: string
  jg_token :: string
  jg_name :: string
  jg_labels :: labels
  jg_agent_endpoint :: "string option"
  jg_grok_secret :: "string option"
  jg_config_out :: string
  jg_start :: bool
  jg_max_concurrent_tasks :: "u32 option"

record join_api_request =
  ja_token :: string
  ja_name :: string
  ja_agent_endpoint :: string
  ja_labels :: labels
  ja_max_concurrent_tasks :: u32
  ja_worker_version :: "string option"

record join_api_response =
  jo_worker_id :: string
  jo_worker_config_toml :: string

section \<open>The bootstrap token\<close>

text \<open>\<open>stdin\<close> is what standard input gives, \<open>read_file\<close> reads a file.\<close>

definition resolve_bootstrap_token ::
    "(string, string) result \<Rightarrow> (string \<Rightarrow> (string, string) result) \<Rightarrow> string option \<Rightarrow> string option \<Rightarrow> (worker_error, string) result" where
  "resolve_bootstrap_token stdin read_file token_arg token_file =
     (if token_arg \<noteq> None \<and> token_file \<noteq> None
      then Inl (WeConfig (plain_text ''specify exactly one of --token or --token-file, not both''))
      else case (case token_file of
          Some path \<Rightarrow> if path = ''-'' then map_sum WeConfigIo id stdin
            else map_sum (\<lambda>_. WeConfig (Msg ''reading --token-file {}'' [ArgStr path])) id (read_file path)
        | None \<Rightarrow> (case token_arg of
              Some token \<Rightarrow> Inr token
            | None \<Rightarrow> Inl (WeConfig (plain_text ''no bootstrap token provided'')))) of
        Inl e \<Rightarrow> Inl e
      | Inr raw \<Rightarrow>
          if trim raw = [] then Inl (WeConfig (plain_text ''bootstrap token must not be empty'')) else Inr (trim raw))"

section \<open>Joining\<close>

definition worker_name_char :: "char \<Rightarrow> bool" where
  "worker_name_char c = (ascii_alphanumeric c \<or> c = CHR ''-'' \<or> c = CHR ''_'' \<or> c = CHR ''.'')"

definition validate_join_name :: "string \<Rightarrow> (message, unit) result" where
  "validate_join_name name =
     (if name = [] then Inl (plain_text ''worker name must not be empty'')
      else if \<not> list_all worker_name_char name
      then Inl (Msg ''worker name must be alphanumeric, dash, underscore or dot only (got {name})'' [ArgStr name])
      else Inr ())"

definition extract_host :: "string \<Rightarrow> string" where
  "extract_host url =
     (let after_scheme = (case find_sub ''://'' url of Some i \<Rightarrow> drop (i + 3) url | None \<Rightarrow> url)
      in takeWhile (\<lambda>c. \<not> host_end c) after_scheme)"

definition derive_agent_endpoint :: "string \<Rightarrow> string \<Rightarrow> string \<Rightarrow> string" where
  "derive_agent_endpoint url name secret =
     ws_scheme_for url @ ''://'' @ extract_host url @ ''/ws/'' @ name @ ''?server-key='' @ secret"

text \<open>\<open>urandom\<close> is what the system's random source gives; a secret has 32 of its bytes.\<close>

definition generate_random_secret :: "(message, 8 word list) result \<Rightarrow> (message, string) result" where
  "generate_random_secret urandom = map_sum id base64url urandom"

definition given :: "string option \<Rightarrow> string option" where
  "given x = (case x of Some s \<Rightarrow> if s = [] then None else Some s | None \<Rightarrow> None)"

text \<open>The answer, the configuration that was written, and whether the daemon was started on it.\<close>

definition run_join ::
    "(message, 8 word list) result \<Rightarrow> string \<Rightarrow> (string \<Rightarrow> join_api_request \<Rightarrow> join_api_response http_outcome)
     \<Rightarrow> (string \<Rightarrow> string \<Rightarrow> (message, unit) result) \<Rightarrow> (string \<Rightarrow> (message, unit) result) \<Rightarrow> join_args
     \<Rightarrow> (message, unit) result \<times> (string \<times> string) option \<times> bool" where
  "run_join urandom version send write_config exec_daemon a =
     (case validate_join_name (jg_name a) of
        Inl e \<Rightarrow> (Inl e, None, False)
      | Inr _ \<Rightarrow>
     (case (case given (jg_grok_secret a) of Some s \<Rightarrow> Inr s | None \<Rightarrow> generate_random_secret urandom) of
        Inl e \<Rightarrow> (Inl e, None, False)
      | Inr secret \<Rightarrow>
          let endpoint = (case given (jg_agent_endpoint a) of
                Some e \<Rightarrow> e | None \<Rightarrow> derive_agent_endpoint (jg_orchestrator_url a) (jg_name a) secret) in
     (case send (trim_end_slashes (jg_orchestrator_url a) @ ''/v1/workers/join'')
          \<lparr> ja_token = jg_token a, ja_name = jg_name a, ja_agent_endpoint = endpoint, ja_labels = jg_labels a,
            ja_max_concurrent_tasks = (case jg_max_concurrent_tasks a of Some n \<Rightarrow> n | None \<Rightarrow> 4),
            ja_worker_version = Some version \<rparr> of
        Unreachable e \<Rightarrow> (Inl (Msg ''join request failed: {e}'' [ArgStr e]), None, False)
      | Refused status txt \<Rightarrow> (Inl (Msg ''join failed: {status} - {text}'' [ArgNum (int status), ArgStr txt]), None, False)
      | BadBody e \<Rightarrow> (Inl (Msg ''parsing join response: {e}'' [ArgStr e]), None, False)
      | Answered r \<Rightarrow>
     (case write_config (jg_config_out a) (jo_worker_config_toml r) of
        Inl e \<Rightarrow> (Inl e, None, False)
      | Inr _ \<Rightarrow>
          if jg_start a then (exec_daemon (jg_config_out a), Some (jg_config_out a, jo_worker_config_toml r), True)
          else (Inr (), Some (jg_config_out a, jo_worker_config_toml r), False)))))"

section \<open>The command line\<close>

fun parse_labels_into :: "string list \<Rightarrow> labels \<Rightarrow> (message, labels) result" where
  "parse_labels_into [] out = Inr out"
| "parse_labels_into (item # items) out =
     (if CHR ''='' \<notin> set item then Inl (Msg ''invalid label {item} - expected key=value'' [ArgStr item])
      else
        let k = takeWhile (\<lambda>c. c \<noteq> CHR ''='') item; v = tl (dropWhile (\<lambda>c. c \<noteq> CHR ''='') item) in
        if k = [] then Inl (Msg ''invalid label {item} - empty key'' [ArgStr item])
        else parse_labels_into items (hm_insert k v out))"

definition parse_labels :: "string list \<Rightarrow> (message, labels) result" where
  "parse_labels raw = parse_labels_into raw []"

section \<open>The daemon's own grok process\<close>

text \<open>\<open>inherited\<close> is the daemon's own working directory.\<close>

definition spawn_grok :: "(string \<Rightarrow> path) \<Rightarrow> path \<Rightarrow> worker_config \<Rightarrow> launch" where
  "spawn_grok path_of inherited c = \<lparr> la_program = gk_bin (wg_grok c),
     la_args = [''agent'', ''serve'', ''--bind'', gk_bind_addr (wg_grok c), ''--secret'', gk_secret (wg_grok c)],
     la_dir = (case gk_cwd (wg_grok c) of Some dir \<Rightarrow> path_of dir | None \<Rightarrow> inherited),
     la_envs = llm_proxy_envs (wg_llm_proxy c) \<rparr>"

text \<open>\<open>connect\<close> opens a connection to an address; \<open>None\<close> means that it did not come about in time.\<close>

definition health_check :: "(string \<Rightarrow> (string, unit) result option) \<Rightarrow> string \<Rightarrow> (worker_error, unit) result" where
  "health_check connect bind_addr =
     (let addr = host_of bind_addr @ '':'' @ port_of bind_addr in
      case connect addr of
        Some (Inr _) \<Rightarrow> Inr ()
      | Some (Inl e) \<Rightarrow> Inl (WeGrokSubprocess (Msg ''health check connect failed to {addr}: {e}'' [ArgStr addr, ArgStr e]))
      | None \<Rightarrow> Inl (WeGrokSubprocess (Msg ''health check timed out connecting to {addr}'' [ArgStr addr])))"

lemma health_check_address:
  assumes "CHR '':'' \<in> set addr"
  shows "health_check connect addr = Inr () \<longleftrightarrow> connect addr = Some (Inr ())"
proof -
  obtain h p where s: "addr = h @ CHR '':'' # p" "CHR '':'' \<notin> set p" using split_list_last[OF assms] by blast
  have p: "\<And>c. c \<in> set (rev p) \<Longrightarrow> c \<noteq> CHR '':''" using s(2) by auto
  have "takeWhile (\<lambda>c. c \<noteq> CHR '':'') (rev p @ CHR '':'' # rev h) = rev p"
    "dropWhile (\<lambda>c. c \<noteq> CHR '':'') (rev p @ CHR '':'' # rev h) = CHR '':'' # rev h"
    using takeWhile_append2[of "rev p" "\<lambda>c. c \<noteq> CHR '':''"] dropWhile_append2[of "rev p" "\<lambda>c. c \<noteq> CHR '':''"] p by simp_all
  then have "host_of addr = h" "port_of addr = p" using s(1) by (simp_all add: host_of_def port_of_def)
  then have "host_of addr @ '':'' @ port_of addr = addr" using s(1) by simp
  then show ?thesis by (auto simp: health_check_def Let_def split: option.splits sum.splits)
qed

text \<open>
  One turn of the loop: whether a shutdown was asked for before it, and how it went. A spawned child ends by itself
  (and a shutdown may have been asked for by then), cannot be waited for, or outlives a change of the shutdown flag, to the given value.
\<close>

datatype grok_turn = SpawnFails string | ChildExits bool | WaitFails | FlagChanges bool

definition max_spawn_attempts :: u32 where
  "max_spawn_attempts = 10"

text \<open>\<open>None\<close>: the runner is still at work when the turns end.\<close>

fun grok_runner :: "u32 \<Rightarrow> (bool \<times> grok_turn) list \<Rightarrow> (worker_error, unit) result option" where
  "grok_runner attempts [] = None"
| "grok_runner attempts ((down, turn) # turns) =
     (if down then Some (Inr ())
      else
        let attempts = attempts + 1 in
        case turn of
          SpawnFails e \<Rightarrow>
            if attempts \<ge> max_spawn_attempts
            then Some (Inl (WeGrokSubprocess (Msg ''spawn failed {attempts} times, giving up: {e}'' [ArgNum (uint attempts), ArgStr e])))
            else grok_runner attempts turns
        | ChildExits down \<Rightarrow> if down then Some (Inr ()) else grok_runner 0 turns
        | WaitFails \<Rightarrow> grok_runner 0 turns
        | FlagChanges down \<Rightarrow> if down then Some (Inr ()) else grok_runner 0 turns)"

section \<open>Properties\<close>

text \<open>
  The endpoint of a join is the one the daemon registers later under the same URL, name and secret, and the
  control plane puts the secret of the endpoint into the configuration it writes.
\<close>

lemma extract_host_same: "extract_host = orchestrator_url_host"
  by (simp add: fun_eq_iff extract_host_def orchestrator_url_host_def)

theorem joined_endpoint_stays:
  assumes "wg_mtls c = None"
  shows "derive_agent_endpoint (ws_orchestrator_url (wg_worker c)) (ws_name (wg_worker c)) (gk_secret (wg_grok c)) = agent_endpoint parse_addr c"
  using assms by (simp add: derive_agent_endpoint_def agent_endpoint_def extract_host_same Let_def)

lemma secret_of_appended:
  assumes "CHR ''='' \<notin> set pre" "\<forall>c \<in> set secret. c \<noteq> CHR ''&'' \<and> c \<noteq> CHR ''#''"
  shows "grok_secret_of (pre @ ''?server-key='' @ secret) = secret"
proof -
  let ?e = "pre @ ''?server-key='' @ secret"
  have e: "?e = (pre @ ''?'') @ server_key_marker @ secret" by (simp add: server_key_marker_def)
  have i: "find_sub server_key_marker ?e = Some (Suc (length pre))"
    unfolding e find_sub_append using find_marker[of "pre @ ''?''"] assms(1) by simp
  have "drop (Suc (length pre) + length server_key_marker) ?e = secret" by (simp add: server_key_marker_def)
  moreover have "takeWhile (\<lambda>c. \<not> ends_value c) secret = secret" using assms(2) by (simp add: takeWhile_eq_all_conv ends_value_def)
  ultimately show ?thesis unfolding grok_secret_of_def i option.case by simp
qed

text \<open>
  The endpoint a worker registers carries its secret: the control plane's splitting of it gives back the
  URL and exactly the secret of the configuration, masking it hides the secret, and the configuration the control plane writes for a
  joining worker with this endpoint has this very secret; provided the secret has no \<open>&\<close> and no \<open>#\<close> and the host no \<open>=\<close>.
\<close>

theorem endpoint_gives_secret_back:
  assumes "validate_config parse_addr c = Inr ()" "\<forall>d \<in> set (gk_secret (wg_grok c)). d \<noteq> CHR ''&'' \<and> d \<noteq> CHR ''#''"
    "CHR ''='' \<notin> set (orchestrator_url_host (ws_orchestrator_url (wg_worker c)))"
    "\<forall>m h. wg_mtls c = Some m \<longrightarrow> mt_advertised_host m = Some h \<longrightarrow> CHR ''='' \<notin> set h"
  shows "\<exists>url. agent_endpoint parse_addr c = url @ ''?server-key='' @ gk_secret (wg_grok c) \<and>
    split_server_key (agent_endpoint parse_addr c) = (url, Some (gk_secret (wg_grok c))) \<and>
    mask_server_key (agent_endpoint parse_addr c) = url @ ''?server-key=<redacted>'' \<and>
    grok_secret_of (agent_endpoint parse_addr c) = gk_secret (wg_grok c)"
proof -
  have v: "gk_secret (wg_grok c) \<noteq> []" "CHR ''='' \<notin> set (ws_name (wg_worker c))"
    using assms(1) by (auto simp: validate_config_def Let_def list_all_iff ascii_alphanumeric_def split: if_splits)
  obtain url where u: "agent_endpoint parse_addr c = url @ ''?server-key='' @ gk_secret (wg_grok c)" "CHR ''='' \<notin> set url" "url \<noteq> []"
    using agent_endpoint_form[OF assms(3,4) v(2)] by blast
  show ?thesis using u split_appended_key[OF u(2,3) v(1) assms(2)] mask_appended_key[OF u(2) assms(2)] secret_of_appended[OF u(2) assms(2)] by (intro exI[of _ url]) simp
qed

lemma endpoint_gives_secret_back_witness:
  "split_server_key (agent_endpoint (\<lambda>_. None) sample_worker_config) = (''wss://fleet/ws/w1'', Some ''s3cret'')"
proof -
  have v: "validate_config (\<lambda>_. None) sample_worker_config = Inr ()" by code_simp
  have e: "agent_endpoint (\<lambda>_. None) sample_worker_config = ''wss://fleet/ws/w1?server-key=s3cret''"
    "orchestrator_url_host (ws_orchestrator_url (wg_worker sample_worker_config)) = ''fleet''" by code_simp+
  have s: "gk_secret (wg_grok sample_worker_config) = ''s3cret''" "wg_mtls sample_worker_config = None" by (simp_all add: sample_worker_config_def)
  obtain url where "''wss://fleet/ws/w1?server-key=s3cret'' = url @ ''?server-key=s3cret''"
    "split_server_key (agent_endpoint (\<lambda>_. None) sample_worker_config) = (url, Some ''s3cret'')"
    using endpoint_gives_secret_back[OF v] e s by auto
  moreover have "''wss://fleet/ws/w1?server-key=s3cret'' = ''wss://fleet/ws/w1'' @ ''?server-key=s3cret''" by simp
  ultimately show ?thesis by (metis append_same_eq)
qed

text \<open>The runner gives up exactly after ten failures in a row.\<close>

definition fails :: "(bool \<times> grok_turn) \<Rightarrow> bool" where
  "fails t = (\<exists>e. t = (False, SpawnFails e))"

lemma grok_runner_gives_up:
  assumes "unat k < 10" "grok_runner k turns = Some (Inl e)"
  shows "\<exists>before ws after. turns = before @ ws @ after \<and> list_all fails ws \<and>
    (if before = [] then unat k + length ws = 10 else length ws = 10)"
  using assms
proof (induction turns arbitrary: k)
  case (Cons t turns)
  obtain down turn where t: "t = (down, turn)" by fastforce
  have down: "\<not> down" using Cons.prems t by auto
  have k1: "unat (k + 1) = Suc (unat k)"
    using Cons.prems(1) by (simp add: unat_plus_simple[THEN iffD1, of k 1] word_le_nat_alt unat_word_ariths)
  have restart: ?case if r: "grok_runner 0 turns = Some (Inl e)"
  proof -
    have "unat (0 :: u32) < 10" by simp
    from Cons.IH[OF this r] obtain bs ws as' where h: "turns = bs @ ws @ as'" "list_all fails ws"
      "if bs = [] then unat (0 :: u32) + length ws = 10 else length ws = 10" by blast
    moreover have "length ws = 10" using h(3) by (simp split: if_splits)
    ultimately show ?thesis by (intro exI[of _ "t # bs"] exI[of _ ws] exI[of _ as']) simp
  qed
  show ?case
  proof (cases turn)
    case (SpawnFails x)
    show ?thesis
    proof (cases "max_spawn_attempts \<le> k + 1")
      case True
      then have "unat k = 9" using Cons.prems(1) k1 by (simp add: max_spawn_attempts_def word_le_nat_alt)
      then show ?thesis using t down SpawnFails
        by (intro exI[of _ "[]"] exI[of _ "[t]"] exI[of _ turns]) (simp add: fails_def)
    next
      case False
      then have "grok_runner (k + 1) turns = Some (Inl e)" "unat (k + 1) < 10"
        using Cons.prems t down SpawnFails k1 by (auto simp: Let_def max_spawn_attempts_def word_le_nat_alt)
      from Cons.IH[OF this(2,1)] obtain bs ws as' where h: "turns = bs @ ws @ as'" "list_all fails ws"
        "if bs = [] then unat (k + 1) + length ws = 10 else length ws = 10" by blast
      show ?thesis
      proof (cases "bs = []")
        case True
        then have "t # turns = [] @ (t # ws) @ as' \<and> list_all fails (t # ws) \<and> unat k + length (t # ws) = 10"
          using h t down SpawnFails k1 by (simp add: fails_def)
        then show ?thesis by (metis (mono_tags))
      next
        case False
        then show ?thesis using h by (intro exI[of _ "t # bs"] exI[of _ ws] exI[of _ as']) simp
      qed
    qed
  next
    case (ChildExits d)
    then have "grok_runner 0 turns = Some (Inl e)" using Cons.prems(2) t down by (cases d) simp_all
    then show ?thesis by (rule restart)
  next
    case WaitFails
    then have "grok_runner 0 turns = Some (Inl e)" using Cons.prems(2) t down by simp
    then show ?thesis by (rule restart)
  next
    case (FlagChanges d)
    then have "grok_runner 0 turns = Some (Inl e)" using Cons.prems(2) t down by (cases d) simp_all
    then show ?thesis by (rule restart)
  qed
qed simp

end
