(* ===== verification/Worker_Client.thy ===== *)
theory Worker_Client
  imports Worker_Watchdog Worker_Join
begin

text \<open>
  Registration and the heartbeat loop of a worker (\<open>crates/fleet-worker/src/registration.rs\<close>). The control plane is the
  function \<open>send\<close> from a request to what comes of it; system metrics, the clock and the version tool's output
  are arguments.
\<close>

section \<open>What is sent and received\<close>

record worker_registration =
  wr_name :: string
  wr_agent_endpoint :: string
  wr_labels :: labels
  wr_max_concurrent_tasks :: u32
  wr_max_agent_processes :: u32
  wr_existing_worker_id :: "string option"
  wr_liveness_mode :: worker_liveness_mode

record registration_answer =
  ra_worker_id :: string
  ra_heartbeat_interval_secs :: u32
  ra_status :: "string option"

record worker_beat =
  wb_worker_id :: string
  wb_active_tasks :: u32
  wb_load_avg :: "u32 list option"
  wb_mem_available_mb :: "u64 option"
  wb_disk_free_mb :: "u64 option"
  wb_cpu_usage :: "u32 option"
  wb_ram_usage :: "u32 option"
  wb_agent_healthy :: bool
  wb_grok_version :: "string option"
  wb_fleet_worker_version :: "string option"
  wb_os_info :: "os_info option"
  wb_agent_acks :: "agent_ack list"
  wb_agent_observations :: "agent_observation list option"
  wb_agent_orphans :: "agent_orphan list"
  wb_agent_fenced :: "agent_fenced list"

record beat_answer =
  ba_ok :: bool
  ba_desired_state :: string
  ba_agents :: "agent_command list option"

section \<open>Cached facts\<close>

datatype disk_cache = DiskInitial | DiskRefreshing | DiskReady u64 instant

definition disk_ttl :: duration where "disk_ttl = secs 60"

definition disk_get :: "instant \<Rightarrow> disk_cache \<Rightarrow> u64 option" where
  "disk_get now d = (case d of DiskReady mb since \<Rightarrow> if since + disk_ttl > now then Some mb else None | _ \<Rightarrow> None)"

definition disk_begin_refresh :: "instant \<Rightarrow> disk_cache \<Rightarrow> bool \<times> disk_cache" where
  "disk_begin_refresh now d =
     (let needs = (case d of DiskInitial \<Rightarrow> True | DiskRefreshing \<Rightarrow> False | DiskReady _ since \<Rightarrow> since + disk_ttl \<le> now)
      in (needs, if needs then DiskRefreshing else d))"

definition disk_set :: "instant \<Rightarrow> u64 \<Rightarrow> disk_cache" where
  "disk_set now mb = DiskReady mb now"

text \<open>The cached value, and whether a background refresh is started.\<close>

definition disk_get_or_schedule_refresh :: "instant \<Rightarrow> instant \<Rightarrow> disk_cache \<Rightarrow> (u64 option \<times> bool) \<times> disk_cache" where
  "disk_get_or_schedule_refresh now now' d =
     (case disk_begin_refresh now' d of (needs, d') \<Rightarrow> ((disk_get now d, needs), d'))"

text \<open>Total and available space of each disk; the sum of the differences.\<close>

definition collect_disk_free_mb :: "(u64 \<times> u64) list \<Rightarrow> u64" where
  "collect_disk_free_mb disks = sum_list (map (\<lambda>(total, available). (total - available) div 1024 div 1024) disks)"

text \<open>The version in the tool's output; the outer \<open>None\<close> is a panic.\<close>

definition version_char :: "char \<Rightarrow> bool" where
  "version_char c = (ascii_alphanumeric c \<or> c = CHR ''.'')"

definition trim_token :: "string \<Rightarrow> string" where
  "trim_token s = rev (dropWhile (\<lambda>c. \<not> version_char c) (rev (dropWhile (\<lambda>c. \<not> version_char c) s)))"

fun whitespace_tokens :: "string \<Rightarrow> string \<Rightarrow> string list" where
  "whitespace_tokens w [] = (if w = [] then [] else [rev w])"
| "whitespace_tokens w (c # s) =
     (if is_space c then (if w = [] then whitespace_tokens [] s else rev w # whitespace_tokens [] s)
      else whitespace_tokens (c # w) s)"

definition grok_version_of :: "string \<Rightarrow> string option option" where
  "grok_version_of output =
     (if output = [] then Some None
      else
        let tokens = whitespace_tokens [] (takeWhile (\<lambda>c. c \<noteq> CHR 0x0A) output) in
        if tokens = [] then None
        else Some (List.find (\<lambda>t. (case t of c # _ \<Rightarrow> digit_value c \<noteq> None | [] \<Rightarrow> False) \<and> CHR ''.'' \<in> set t)
          (map trim_token (tl tokens))))"

section \<open>The client\<close>

record registration_client =
  rc_config :: worker_config
  rc_worker_id :: "string option"
  rc_disk_cache :: disk_cache
  rc_grok_version :: "string option option"
  rc_os_info :: "os_info option option"
  rc_pending_acks :: "agent_ack list"
  rc_pending_observations :: "agent_observation list option"
  rc_pending_orphans :: "agent_orphan list"
  rc_pending_fenced :: "agent_fenced list"
  rc_progress :: progress_beacon

definition new_client :: "worker_config \<Rightarrow> registration_client" where
  "new_client c = \<lparr> rc_config = c, rc_worker_id = None, rc_disk_cache = DiskInitial, rc_grok_version = None, rc_os_info = None,
     rc_pending_acks = [], rc_pending_observations = None, rc_pending_orphans = [], rc_pending_fenced = [],
     rc_progress = fresh_beacon \<rparr>"

text \<open>
  The part of the environment one beat uses. A refresh of the disk figures that ended since the last beat
  comes with the disks it saw; \<open>be_version_output\<close> is what the version command printed, if it did so in time.
\<close>

record beat_env =
  be_shutdown :: bool
  be_healthy :: bool
  be_active_tasks :: u32
  be_load_avg :: "u32 list option"
  be_mem_available_mb :: "u64 option"
  be_cpu_usage :: "u32 option"
  be_ram_usage :: "u32 option"
  be_disk_done :: "((u64 \<times> u64) list \<times> instant) option"
  be_disk_clock :: "instant \<times> instant"
  be_version_output :: "string option"
  be_os_info :: "os_info option"
  be_package_version :: string
  be_send :: "worker_beat \<Rightarrow> beat_answer http_outcome"
  be_clock :: instant
  be_os :: worker_os
  be_woken :: bool

definition register_once ::
    "(string \<Rightarrow> 16 word option) \<Rightarrow> (worker_registration \<Rightarrow> registration_answer http_outcome) \<Rightarrow> registration_client
     \<Rightarrow> (worker_error, registration_answer) result \<times> registration_client" where
  "register_once parse_addr send r =
     (let c = rc_config r; w = wg_worker c in
      case send \<lparr> wr_name = ws_name w, wr_agent_endpoint = agent_endpoint parse_addr c, wr_labels = ws_labels w,
          wr_max_concurrent_tasks = gk_max_concurrent_tasks (wg_grok c), wr_max_agent_processes = gk_max_agent_processes (wg_grok c),
          wr_existing_worker_id = ws_existing_worker_id w, wr_liveness_mode = ws_liveness_mode w \<rparr> of
        Unreachable e \<Rightarrow> (Inl (WeHttp e), r)
      | Refused status txt \<Rightarrow> (Inl (WeOrchestratorApi (Msg ''register returned {status}: {text}'' [ArgNum (int status), ArgStr txt])), r)
      | BadBody e \<Rightarrow> (Inl (WeHttp e), r)
      | Answered a \<Rightarrow> (Inr a, r\<lparr>rc_worker_id := Some (ra_worker_id a)\<rparr>))"

text \<open>Repeated every five seconds until it succeeds; the attempts are the successive answers, \<open>None\<close> means still trying.\<close>

fun register_with_retry ::
    "(string \<Rightarrow> 16 word option) \<Rightarrow> (worker_registration \<Rightarrow> registration_answer http_outcome) list \<Rightarrow> registration_client
     \<Rightarrow> registration_answer option \<times> registration_client" where
  "register_with_retry parse_addr [] r = (None, r)"
| "register_with_retry parse_addr (send # sends) r =
     (case register_once parse_addr send r of
        (Inr a, r) \<Rightarrow> (Some a, r\<lparr>rc_worker_id := Some (ra_worker_id a)\<rparr>)
      | (Inl _, r) \<Rightarrow> register_with_retry parse_addr sends r)"

text \<open>The version is asked for once; \<open>None\<close> is a panic.\<close>

definition version_for :: "beat_env \<Rightarrow> registration_client \<Rightarrow> string option option" where
  "version_for en r =
     (case rc_grok_version r of
        Some v \<Rightarrow> Some v
      | None \<Rightarrow> (case be_version_output en of None \<Rightarrow> Some None | Some out \<Rightarrow> grok_version_of out))"

text \<open>The request of a beat; the buffers are emptied by building it.\<close>

definition build_beat :: "beat_env \<Rightarrow> string \<Rightarrow> registration_client \<Rightarrow> worker_beat option \<times> registration_client" where
  "build_beat en i r =
     (case disk_get_or_schedule_refresh (fst (be_disk_clock en)) (snd (be_disk_clock en)) (rc_disk_cache r) of
        ((disk, _), cache) \<Rightarrow>
          (case version_for en r of
             None \<Rightarrow> (None, r\<lparr>rc_disk_cache := cache\<rparr>)
           | Some version \<Rightarrow>
               let osi = (case rc_os_info r of Some v \<Rightarrow> v | None \<Rightarrow> be_os_info en)
               in (Some \<lparr> wb_worker_id = i, wb_active_tasks = be_active_tasks en, wb_load_avg = be_load_avg en,
                     wb_mem_available_mb = be_mem_available_mb en, wb_disk_free_mb = disk, wb_cpu_usage = be_cpu_usage en,
                     wb_ram_usage = be_ram_usage en, wb_agent_healthy = be_healthy en, wb_grok_version = version,
                     wb_fleet_worker_version = Some (be_package_version en), wb_os_info = osi,
                     wb_agent_acks = rc_pending_acks r, wb_agent_observations = rc_pending_observations r,
                     wb_agent_orphans = rc_pending_orphans r, wb_agent_fenced = rc_pending_fenced r \<rparr>,
                   r\<lparr>rc_disk_cache := cache, rc_grok_version := Some version, rc_os_info := Some osi, rc_pending_acks := [],
                     rc_pending_observations := None, rc_pending_orphans := [], rc_pending_fenced := []\<rparr>)))"

definition acks_of :: "agent_command list \<Rightarrow> agent_ack list" where
  "acks_of cs = map (\<lambda>c. \<lparr> ack_agent_id = cmd_agent_id c, ack_generation = cmd_generation c \<rparr>) cs"

text \<open>The outer \<open>None\<close> is a panic.\<close>

definition heartbeat_once :: "beat_env \<Rightarrow> registration_client \<Rightarrow> (worker_error, beat_answer) result option \<times> registration_client" where
  "heartbeat_once en r =
     (case rc_worker_id r of
        None \<Rightarrow> (Some (Inl (WeOrchestratorApi (plain_text ''not registered yet''))), r)
      | Some i \<Rightarrow>
          (case build_beat en i r of
             (None, r) \<Rightarrow> (None, r)
           | (Some body, r) \<Rightarrow>
               (case be_send en body of
                  Unreachable e \<Rightarrow> (Some (Inl (WeHttp e)), r)
                | Refused status txt \<Rightarrow>
                    (Some (Inl (WeOrchestratorApi (Msg ''heartbeat returned {status}: {text}'' [ArgNum (int status), ArgStr txt]))), r)
                | BadBody e \<Rightarrow> (Some (Inl (WeHttp e)), r)
                | Answered a \<Rightarrow>
                    (Some (Inr a), case ba_agents a of None \<Rightarrow> r | Some cs \<Rightarrow> r\<lparr>rc_pending_acks := acks_of cs\<rparr>))))"

text \<open>Leaving for good: only for an administrator, the daemon itself never does it. What is sent, if anything.\<close>

definition deregister :: "string \<Rightarrow> registration_client \<Rightarrow> (string \<times> string) option" where
  "deregister reason r = map_option (\<lambda>i. (''/v1/workers/'' @ i, reason)) (rc_worker_id r)"

section \<open>The loop\<close>

record worker_state =
  wk_client :: registration_client
  wk_manager :: agent_manager
  wk_last_contact :: instant

definition beat_interval :: "u32 \<Rightarrow> duration" where
  "beat_interval interval_secs = secs (unat (max interval_secs 1))"

definition fence_deadline :: "u32 \<Rightarrow> u32 \<Rightarrow> duration" where
  "fence_deadline interval_secs fence_after_secs =
     max (secs (unat fence_after_secs)) (beat_interval interval_secs + secs 1)"

text \<open>After an answer: reconcile, and keep what was observed for the next beat.\<close>

definition after_answer :: "beat_env \<Rightarrow> beat_answer \<Rightarrow> worker_state \<Rightarrow> worker_state" where
  "after_answer en a s =
     (case reconcile_agents (be_os en) (ba_agents a) (wk_manager s) of
        (outcome, m) \<Rightarrow>
          (case outcome of
             None \<Rightarrow> s\<lparr>wk_manager := m, wk_last_contact := be_clock en\<rparr>
           | Some o' \<Rightarrow> s\<lparr>wk_manager := m, wk_last_contact := be_clock en,
               wk_client := (wk_client s)\<lparr>rc_pending_observations := Some (ro_observations o'),
                 rc_pending_orphans := rc_pending_orphans (wk_client s) @ ro_orphans o'\<rparr>\<rparr>))"

text \<open>After a failure: stop every agent process when the control plane has been out of reach for too long.\<close>

definition after_failure :: "duration \<Rightarrow> beat_env \<Rightarrow> worker_state \<Rightarrow> worker_state" where
  "after_failure fence_after en s =
     (let unreachable = be_clock en - wk_last_contact s in
      if unreachable \<ge> fence_after then
        (case fence_all (be_os en) (wk_manager s) of
           (fenced, m) \<Rightarrow> s\<lparr>wk_manager := m,
             wk_client := (wk_client s)\<lparr>rc_pending_fenced := rc_pending_fenced (wk_client s) @
               map (\<lambda>a. \<lparr> af_agent_id = a, af_unreachable_secs = of_nat (unreachable div secs 1) \<rparr>) fenced\<rparr>\<rparr>)
      else s)"

datatype loop_end = KeepsGoing | LoopReturned | LoopPanicked

definition with_client :: "(registration_client \<Rightarrow> registration_client) \<Rightarrow> worker_state \<Rightarrow> worker_state" where
  "with_client f s = s\<lparr>wk_client := f (wk_client s)\<rparr>"

definition disk_refreshed :: "beat_env \<Rightarrow> registration_client \<Rightarrow> registration_client" where
  "disk_refreshed en r =
     (case be_disk_done en of None \<Rightarrow> r | Some (disks, now) \<Rightarrow> r\<lparr>rc_disk_cache := disk_set now (collect_disk_free_mb disks)\<rparr>)"

definition leave_loop :: "worker_state \<Rightarrow> loop_end \<times> worker_state" where
  "leave_loop s = (LoopReturned, with_client (\<lambda>r. r\<lparr>rc_progress := disarm (rc_progress r)\<rparr>) s)"

text \<open>One turn of the loop.\<close>

definition beat_turn :: "duration \<Rightarrow> beat_env \<Rightarrow> worker_state \<Rightarrow> loop_end \<times> worker_state" where
  "beat_turn fence_after en s =
     (let s = with_client (\<lambda>r. disk_refreshed en (r\<lparr>rc_progress := count_beat (rc_progress r)\<rparr>)) s in
      if be_shutdown en then leave_loop s
      else case heartbeat_once en (wk_client s) of
        (None, r) \<Rightarrow> (LoopPanicked, s\<lparr>wk_client := r\<rparr>)
      | (Some result, r) \<Rightarrow>
          let s = (case result of
                Inr a \<Rightarrow> after_answer en a (s\<lparr>wk_client := r\<rparr>)
              | Inl _ \<Rightarrow> after_failure fence_after en (s\<lparr>wk_client := r\<rparr>))
          in if be_woken en then leave_loop s else (KeepsGoing, s))"

fun beat_turns :: "duration \<Rightarrow> beat_env list \<Rightarrow> worker_state \<Rightarrow> loop_end \<times> worker_state" where
  "beat_turns fence_after [] s = (KeepsGoing, s)"
| "beat_turns fence_after (en # ens) s =
     (case beat_turn fence_after en s of
        (KeepsGoing, s) \<Rightarrow> beat_turns fence_after ens s
      | r \<Rightarrow> r)"

text \<open>The leftovers of an earlier incarnation are swept before the first beat.\<close>

definition run_heartbeat_loop ::
    "u32 \<Rightarrow> u32 \<Rightarrow> worker_os \<Rightarrow> bool \<Rightarrow> process_table \<Rightarrow> instant \<Rightarrow> beat_env list \<Rightarrow> registration_client \<Rightarrow> agent_manager
     \<Rightarrow> u32 list \<times> loop_end \<times> worker_state" where
  "run_heartbeat_loop interval_secs fence_after_secs os listed table now ens r m =
     (case sweep_stale_incarnation os listed table m of
        (orphans, killed, m) \<Rightarrow>
          (killed, beat_turns (fence_deadline interval_secs fence_after_secs) ens
             \<lparr> wk_client = r\<lparr>rc_pending_orphans := rc_pending_orphans r @ orphans\<rparr>, wk_manager = m, wk_last_contact = now \<rparr>))"

section \<open>The daemon\<close>

text \<open>The loop's interval: the longer one of the worker's own and the control plane's.\<close>

definition loop_interval :: "worker_config \<Rightarrow> registration_answer \<Rightarrow> u32" where
  "loop_interval c a = max (ra_heartbeat_interval_secs a) (ws_heartbeat_interval_secs (wg_worker c))"

text \<open>What ends the daemon: a signal, or the loop's end, which is a fault however it comes about.\<close>

datatype stop_cause = StopSignal string | StopLoop loop_end | StopLoopCancelled

definition await_shutdown :: "stop_cause \<Rightarrow> string \<times> worker_error option" where
  "await_shutdown cause =
     (case cause of
        StopSignal reason \<Rightarrow> (reason, None)
      | StopLoop e \<Rightarrow>
          let reason = (if e = LoopPanicked then ''heartbeat loop panicked'' else ''heartbeat loop returned without a shutdown signal'')
          in (reason, Some (WeOther (plain_text reason)))
      | StopLoopCancelled \<Rightarrow> (''heartbeat loop was cancelled'', Some (WeOther (plain_text ''heartbeat loop was cancelled''))))"

text \<open>
  A run of the daemon that was given a manager and has been registered: the loop, unless the worker is only probed on demand,
  then every agent process is stopped; a fault of the loop is the result. A signal lets the loop finish its turn first.
\<close>

definition run_registered ::
    "worker_os \<Rightarrow> bool \<Rightarrow> process_table \<Rightarrow> instant \<Rightarrow> beat_env list \<Rightarrow> string \<Rightarrow> worker_config \<Rightarrow> registration_answer
     \<Rightarrow> registration_client \<Rightarrow> agent_manager \<Rightarrow> (worker_error, unit) result \<times> agent_manager" where
  "run_registered os listed table now ens signal c a r m =
     (if ws_liveness_mode (wg_worker c) = Periodic then
        (case run_heartbeat_loop (loop_interval c a) (ws_agent_fence_after_secs (wg_worker c)) os listed table now ens r m of
           (_, e, s) \<Rightarrow>
             let cause = (if e = LoopPanicked then StopLoop e else StopSignal signal)
             in ((case snd (await_shutdown cause) of None \<Rightarrow> Inr () | Some fault \<Rightarrow> Inl fault), shutdown_all os (wk_manager s)))
      else (Inr (), shutdown_all os m))"

text \<open>
  The whole: a manager or the error of its configuration, then registration, tried until it succeeds (the \<open>sends\<close> are the control plane
  at the successive attempts; \<open>None\<close> is a daemon that is still trying).
\<close>

definition run_worker ::
    "(string \<Rightarrow> 16 word option) \<Rightarrow> (string \<Rightarrow> path) \<Rightarrow> (string, path) result \<Rightarrow> (agent_id \<Rightarrow> string) \<Rightarrow> spawn_files
     \<Rightarrow> (worker_registration \<Rightarrow> registration_answer http_outcome) list \<Rightarrow> worker_os \<Rightarrow> bool \<Rightarrow> process_table \<Rightarrow> instant
     \<Rightarrow> beat_env list \<Rightarrow> string \<Rightarrow> worker_config \<Rightarrow> (worker_error, ((worker_error, unit) result \<times> agent_manager) option) result" where
  "run_worker parse_addr path_of cwd show_agent files sends os listed table now ens signal c =
     (case new_agent_manager path_of cwd show_agent c files of
        Inl e \<Rightarrow> Inl e
      | Inr m \<Rightarrow>
          (case register_with_retry parse_addr sends (new_client c) of
             (None, _) \<Rightarrow> Inr None
           | (Some a, r) \<Rightarrow> Inr (Some (run_registered os listed table now ens signal c a r m))))"

end
