(* ===== verification/Worker_Fleet.thy ===== *)
theory Worker_Fleet
  imports Worker_Client Worker_Claims Api_Liveness
begin

text \<open>
  The two sides of a heartbeat together: the worker's client (\<open>registration.rs\<close>) sends its beat to the handler of the
  control plane (\<open>fleet-api/src/handlers.rs\<close>), which answers with the agents placed on the worker; the next beat reports what
  became of them. Also what happens to the reports of a beat that fails.
\<close>

section \<open>A beat on the wire\<close>

text \<open>Absent figures are left out and read as the defaults.\<close>

definition wire_beat :: "worker_beat \<Rightarrow> heartbeat_request" where
  "wire_beat b = \<lparr> hq_worker_id = wb_worker_id b, hq_active_tasks = wb_active_tasks b,
     hq_load_avg = (case wb_load_avg b of Some l \<Rightarrow> l | None \<Rightarrow> []),
     hq_mem_available_mb = (case wb_mem_available_mb b of Some n \<Rightarrow> n | None \<Rightarrow> 0),
     hq_disk_free_mb = (case wb_disk_free_mb b of Some n \<Rightarrow> n | None \<Rightarrow> 0),
     hq_cpu_usage = wb_cpu_usage b, hq_ram_usage = wb_ram_usage b, hq_agent_healthy = wb_agent_healthy b,
     hq_grok_version = wb_grok_version b, hq_fleet_worker_version = wb_fleet_worker_version b, hq_os_info = wb_os_info b,
     hq_agent_acks = wb_agent_acks b, hq_agent_observations = wb_agent_observations b,
     hq_agent_orphans = wb_agent_orphans b, hq_agent_fenced = wb_agent_fenced b \<rparr>"

definition wire_answer :: "(http_error, heartbeat_response) result \<Rightarrow> beat_answer http_outcome" where
  "wire_answer r =
     (case r of
        Inl e \<Rightarrow> Refused (http_status e) ''''
      | Inr p \<Rightarrow> Answered \<lparr> ba_ok = hp_ok p, ba_desired_state = hp_desired_state p, ba_agents = hp_agents p \<rparr>)"

text \<open>One turn of the worker's loop against the control plane in state \<open>g\<close>; the request is the one the turn builds.\<close>

definition beat_sent :: "beat_env \<Rightarrow> registration_client \<Rightarrow> worker_beat option" where
  "beat_sent en r = (case rc_worker_id r of None \<Rightarrow> None | Some i \<Rightarrow> fst (build_beat en i r))"

definition fleet_beat ::
    "duration \<Rightarrow> api_env \<Rightarrow> authorization_context option \<Rightarrow> beat_env \<Rightarrow> worker_state \<times> gateway \<Rightarrow> worker_state \<times> gateway" where
  "fleet_beat fence_after api ctx en = (\<lambda>(s, g).
     (snd (beat_turn fence_after (en\<lparr>be_send := (\<lambda>b. wire_answer (fst (heartbeat api ctx (wire_beat b) g)))\<rparr>) s),
      if be_shutdown en then g
      else case beat_sent en (disk_refreshed en (wk_client s)) of
        None \<Rightarrow> g
      | Some b \<Rightarrow> snd (heartbeat api ctx (wire_beat b) g)))"

section \<open>What the control plane makes of it\<close>

definition reported_row :: "worker_id \<Rightarrow> datetime \<Rightarrow> agent_ack list \<Rightarrow> agent_observation list option \<Rightarrow> agent \<Rightarrow> agent" where
  "reported_row w now acks obs a =
     (let a = (if ag_worker_id a = Some w \<and> ag_last_acked_generation a < ag_command_generation a \<and>
           (\<exists>k \<in> set acks. ack_agent_id k = ag_id a \<and> ack_generation k = ag_command_generation a)
         then a\<lparr>ag_last_acked_generation := ag_command_generation a\<rparr> else a)
      in case obs of None \<Rightarrow> a | Some obs \<Rightarrow> if ag_worker_id a = Some w then with_observation now (last_about (ag_id a) obs) a else a)"

lemma acked_get:
  "hm_get (ms_agents (snd (ack_agent_commands w acks s))) i =
     map_option (\<lambda>a. if ag_worker_id a = Some w \<and> ag_last_acked_generation a < ag_command_generation a \<and>
         (\<exists>k \<in> set acks. ack_agent_id k = i \<and> ack_generation k = ag_command_generation a)
      then a\<lparr>ag_last_acked_generation := ag_command_generation a\<rparr> else a) (hm_get (ms_agents s) i)"
  by (simp add: ack_agent_commands_def case_prod_beta ack_loop_get ack_fold cong: option.map_cong)

lemma acked_keyed: "keyed ag_id (ms_agents s) \<Longrightarrow> keyed ag_id (ms_agents (snd (ack_agent_commands w acks s)))"
  by (simp add: ack_agent_commands_def case_prod_beta ack_loop_keyed)

lemma reports_agents:
  assumes q: "av_others en = (\<lambda>_ g. g)" and k: "keyed ag_id (ms_agents (gw_store g))"
  shows "hm_get (ms_agents (gw_store (beat_reports en w rq g))) i =
     map_option (reported_row w (av_clk en 5) (hq_agent_acks rq) (hq_agent_observations rq)) (hm_get (ms_agents (gw_store g)) i)"
proof -
  define s1 where "s1 = (if hq_agent_acks rq = [] then gw_store g else snd (ack_agent_commands w (hq_agent_acks rq) (gw_store g)))"
  have e: "gw_store (beat_reports en w rq g) =
      (case hq_agent_observations rq of None \<Rightarrow> s1 | Some obs \<Rightarrow> snd (apply_agent_observations (av_clk en 5) w obs s1))"
    by (simp add: s1_def beat_reports_def Let_def agent_events_quiet[OF q] store_call_quiet[OF q] split: option.split)
  have k1: "keyed ag_id (ms_agents s1)" using k acked_keyed[OF k] by (simp add: s1_def)
  have g1: "hm_get (ms_agents s1) i = map_option (\<lambda>a. if ag_worker_id a = Some w \<and> ag_last_acked_generation a < ag_command_generation a \<and>
         (\<exists>x \<in> set (hq_agent_acks rq). ack_agent_id x = i \<and> ack_generation x = ag_command_generation a)
      then a\<lparr>ag_last_acked_generation := ag_command_generation a\<rparr> else a) (hm_get (ms_agents (gw_store g)) i)"
    by (simp add: s1_def acked_get option.map_ident)
  show ?thesis
  proof (cases "hm_get (ms_agents (gw_store g)) i")
    case None
    then show ?thesis unfolding e using g1 by (simp add: observed_get[OF k1] split: option.split)
  next
    case (Some a)
    then show ?thesis unfolding e using g1 keyed_get[OF k Some]
      by (cases "hq_agent_observations rq") (auto simp: observed_get[OF k1] reported_row_def Let_def)
  qed
qed

lemma reports_keyed:
  assumes q: "av_others en = (\<lambda>_ g. g)" and k: "keyed ag_id (ms_agents (gw_store g))"
  shows "keyed ag_id (ms_agents (gw_store (beat_reports en w rq g)))"
  using acked_keyed[OF k] k
  by (auto simp: beat_reports_def Let_def agent_events_quiet[OF q] store_call_quiet[OF q] apply_agent_observations_def
      case_prod_beta observe_loop_keyed keyed_map_values unobserve_def split: option.split)

lemma beat_known_agents:
  assumes q: "av_others en = (\<lambda>_ g. g)" and w: "hm_get (ms_workers (gw_store g)) i = Some w" "w_id w = i"
    and k: "keyed ag_id (ms_agents (gw_store g))" and b: "beat_known en i w rq g = (r, h)"
  shows "hm_get (ms_agents (gw_store h)) j =
      map_option (reported_row i (av_clk en 5) (hq_agent_acks rq) (hq_agent_observations rq)) (hm_get (ms_agents (gw_store g)) j)"
    "keyed ag_id (ms_agents (gw_store h))"
    "\<exists>p cs. r = Inr p \<and> hp_agents p = Some cs \<and> list_agent_commands i (gw_store h) = Inr cs"
proof -
  have set: "\<exists>g2. set_status_of en n w st g1 = (Inr (), g2) \<and> ms_agents (gw_store g2) = ms_agents (gw_store g1)" for n st g1
    by (simp add: set_status_of_def store_call_quiet[OF q] upsert_worker_def)
  obtain ga where ga: "store_call en 1 (update_worker_heartbeat (av_clk en 0) i (heartbeat_of i rq)) g = (Inr (), ga)"
    "ms_agents (gw_store ga) = ms_agents (gw_store g)"
    using w by (simp add: store_call_quiet[OF q] update_worker_heartbeat_def)
  obtain gb where gb: "(if w_status w \<noteq> WDraining \<and> w_status w \<noteq> beat_status rq then set_status_of en 2 w (beat_status rq) ga
      else (Inr (), ga)) = (Inr (), gb)" "ms_agents (gw_store gb) = ms_agents (gw_store ga)"
    using set[of 2 "beat_status rq" ga] by (cases "w_status w \<noteq> WDraining \<and> w_status w \<noteq> beat_status rq") auto
  define gc where "gc = beat_inventory en i w rq gb"
  have gc: "ms_agents (gw_store gc) = ms_agents (gw_store gb)"
    by (simp add: gc_def beat_inventory_def Let_def store_call_quiet[OF q] yard_call_def q upsert_host_def append_event_def)
  let ?drain = "beat_overloaded rq \<or> w_status w = WDraining"
  obtain g2 where gd: "(if ?drain \<and> w_status w \<noteq> WDraining then set_status_of en 5 w WDraining gc else (Inr (), gc)) = (Inr (), g2)"
    "ms_agents (gw_store g2) = ms_agents (gw_store gc)"
    using set[of 5 WDraining gc] by (cases "?drain \<and> w_status w \<noteq> WDraining") auto
  obtain cs where cs: "list_agent_commands i (gw_store (beat_reports en i rq g2)) = Inr cs" by (simp add: list_agent_commands_def)
  have "store_call en 100 (asking (list_agent_commands i)) (beat_reports en i rq g2) = (Inr cs, beat_reports en i rq g2)"
    by (simp add: store_call_quiet[OF q] asking_def cs)
  then have e: "h = beat_reports en i rq g2" "\<exists>p. r = Inr p \<and> hp_agents p = Some cs"
    using b unfolding beat_known_def ga(1) prod.case sum.case gb(1) Let_def gc_def[symmetric] gd(1) by auto
  have g2: "ms_agents (gw_store g2) = ms_agents (gw_store g)" using ga(2) gb(2) gc gd(2) by simp
  have k2: "keyed ag_id (ms_agents (gw_store g2))" using k g2 by simp
  show "hm_get (ms_agents (gw_store h)) j =
      map_option (reported_row i (av_clk en 5) (hq_agent_acks rq) (hq_agent_observations rq)) (hm_get (ms_agents (gw_store g)) j)"
    unfolding e(1) reports_agents[OF q k2] g2 ..
  show "keyed ag_id (ms_agents (gw_store h))" unfolding e(1) by (rule reports_keyed[OF q k2])
  show "\<exists>p cs. r = Inr p \<and> hp_agents p = Some cs \<and> list_agent_commands i (gw_store h) = Inr cs" using e cs by blast
qed

section \<open>What the worker makes of the answer\<close>

lemma refreshed_same:
  "rc_worker_id (disk_refreshed en r) = rc_worker_id r" "rc_pending_acks (disk_refreshed en r) = rc_pending_acks r"
  "rc_pending_observations (disk_refreshed en r) = rc_pending_observations r" "rc_grok_version (disk_refreshed en r) = rc_grok_version r"
  "version_for en (disk_refreshed en r) = version_for en r"
  by (simp_all add: disk_refreshed_def version_for_def split: option.split prod.split)

lemma build_beat_parts:
  assumes "version_for en r = Some v"
  shows "\<exists>b. fst (build_beat en i r) = Some b \<and> wb_worker_id b = i \<and> wb_agent_acks b = rc_pending_acks r \<and>
    wb_agent_observations b = rc_pending_observations r \<and> wb_agent_orphans b = rc_pending_orphans r \<and> wb_agent_fenced b = rc_pending_fenced r"
    "rc_pending_acks (snd (build_beat en i r)) = []" "rc_pending_observations (snd (build_beat en i r)) = None"
    "rc_pending_orphans (snd (build_beat en i r)) = []" "rc_pending_fenced (snd (build_beat en i r)) = []"
    "rc_worker_id (snd (build_beat en i r)) = rc_worker_id r" "rc_grok_version (snd (build_beat en i r)) = Some v"
  using assms by (auto simp: build_beat_def Let_def case_prod_beta)

lemma build_beat_send: "build_beat (en\<lparr>be_send := f\<rparr>) i r = build_beat en i r"
  by (simp add: build_beat_def version_for_def cong: option.case_cong prod.case_cong)

lemma build_beat_progress:
  "fst (build_beat en i (disk_refreshed en (r\<lparr>rc_progress := x\<rparr>))) = fst (build_beat en i (disk_refreshed en r))"
  by (cases "be_disk_done en") (auto simp: disk_refreshed_def build_beat_def version_for_def Let_def case_prod_beta split: option.split)

lemma fleet_beat_answered:
  assumes "\<not> be_shutdown en" "rc_worker_id (wk_client s) = Some i" "version_for en (wk_client s) = Some v"
  shows "\<exists>b. wb_worker_id b = i \<and> wb_agent_acks b = rc_pending_acks (wk_client s) \<and>
    wb_agent_observations b = rc_pending_observations (wk_client s) \<and>
    snd (fleet_beat fa api ctx en (s, g)) = snd (heartbeat api ctx (wire_beat b) g) \<and>
    (\<forall>p cs out m'. fst (heartbeat api ctx (wire_beat b) g) = Inr p \<longrightarrow> hp_agents p = Some cs \<longrightarrow>
       reconcile_agents (be_os en) (Some cs) (wk_manager s) = (Some out, m') \<longrightarrow>
       (let s' = fst (fleet_beat fa api ctx en (s, g)) in
          wk_manager s' = m' \<and> rc_worker_id (wk_client s') = Some i \<and> rc_grok_version (wk_client s') = Some v \<and>
          rc_pending_acks (wk_client s') = acks_of cs \<and> rc_pending_observations (wk_client s') = Some (ro_observations out)))"
proof -
  let ?r = "disk_refreshed en (wk_client s)"
  let ?c = "disk_refreshed en ((wk_client s)\<lparr>rc_progress := count_beat (rc_progress (wk_client s))\<rparr>)"
  have v: "version_for en ?r = Some v" "version_for en ?c = Some v"
    using assms(3) by (simp_all add: refreshed_same) (simp add: version_for_def)
  obtain b where b: "fst (build_beat en i ?r) = Some b" "wb_worker_id b = i" "wb_agent_acks b = rc_pending_acks (wk_client s)"
    "wb_agent_observations b = rc_pending_observations (wk_client s)"
    using build_beat_parts(1)[OF v(1), of i] by (auto simp: refreshed_same)
  have bc: "fst (build_beat en i ?c) = Some b" using b(1) build_beat_progress by metis
  have id: "rc_worker_id ?c = Some i" "rc_worker_id ?r = Some i" using assms(2) by (simp_all add: refreshed_same)
  let ?f = "\<lambda>b. wire_answer (fst (heartbeat api ctx (wire_beat b) g))"
  have sent: "beat_sent en ?r = Some b" using b(1) id(2) by (simp add: beat_sent_def)
  have g: "snd (fleet_beat fa api ctx en (s, g)) = snd (heartbeat api ctx (wire_beat b) g)"
    using assms(1) sent by (simp add: fleet_beat_def)
  have "let s' = fst (fleet_beat fa api ctx en (s, g)) in
      wk_manager s' = m' \<and> rc_worker_id (wk_client s') = Some i \<and> rc_grok_version (wk_client s') = Some v \<and>
      rc_pending_acks (wk_client s') = acks_of cs \<and> rc_pending_observations (wk_client s') = Some (ro_observations out)"
    if a: "fst (heartbeat api ctx (wire_beat b) g) = Inr p" "hp_agents p = Some cs"
      "reconcile_agents (be_os en) (Some cs) (wk_manager s) = (Some out, m')" for p cs out m'
  proof -
    obtain r1 where r1: "build_beat en i ?c = (Some b, r1)" using bc by (cases "build_beat en i ?c") auto
    have r1f: "rc_worker_id r1 = Some i" "rc_grok_version r1 = Some v" using build_beat_parts(6,7)[OF v(2), of i] r1 id by simp_all
    have c': "disk_refreshed (en\<lparr>be_send := ?f\<rparr>) = disk_refreshed en" by (simp add: disk_refreshed_def fun_eq_iff)
    have "heartbeat_once (en\<lparr>be_send := ?f\<rparr>) ?c = (Some (Inr \<lparr> ba_ok = hp_ok p, ba_desired_state = hp_desired_state p, ba_agents = Some cs \<rparr>),
        r1\<lparr>rc_pending_acks := acks_of cs\<rparr>)"
      using id(1) r1 a(1,2) by (simp add: heartbeat_once_def build_beat_send wire_answer_def)
    then have turn: "snd (beat_turn fa (en\<lparr>be_send := ?f\<rparr>) s) =
        (let s1 = after_answer (en\<lparr>be_send := ?f\<rparr>) \<lparr> ba_ok = hp_ok p, ba_desired_state = hp_desired_state p, ba_agents = Some cs \<rparr>
              (s\<lparr>wk_client := r1\<lparr>rc_pending_acks := acks_of cs\<rparr>\<rparr>)
         in if be_woken en then snd (leave_loop s1) else s1)"
      using assms(1) by (simp add: beat_turn_def with_client_def c' Let_def)
    show ?thesis using a(3) r1f
      by (simp add: fleet_beat_def turn after_answer_def Let_def leave_loop_def with_client_def)
  qed
  then show ?thesis using b g by (intro exI[of _ b]) blast
qed

section \<open>Two beats\<close>

lemma last_about_distinct:
  assumes "distinct (map obs_agent_id obs)" "ob \<in> set obs"
  shows "last_about (obs_agent_id ob) obs = Some ob"
proof -
  obtain ob' where ob': "last_about (obs_agent_id ob) obs = Some ob'"
    using assms(2) last_about_None[of "obs_agent_id ob" obs] by (cases "last_about (obs_agent_id ob) obs") auto
  then have "ob' \<in> set obs" "obs_agent_id ob' = obs_agent_id ob"
    using find_SomeD[of "\<lambda>x. obs_agent_id x = obs_agent_id ob" "rev obs" ob'] by (auto simp: last_about_def)
  then have "ob' = ob" using assms by (auto simp: distinct_map dest: inj_onD)
  then show ?thesis using ob' by simp
qed

lemma listed_commands:
  assumes "keyed ag_id (ms_agents s)" "list_agent_commands w s = Inr cs"
  shows "distinct (map cmd_agent_id cs)"
    "c \<in> set cs \<longleftrightarrow> (\<exists>a. hm_get (ms_agents s) (cmd_agent_id c) = Some a \<and> listed_for w a \<and>
       c = \<lparr> cmd_agent_id = ag_id a, cmd_desired_status = ag_desired_status a, cmd_generation = ag_command_generation a \<rparr>)"
proof -
  let ?vs = "filter (listed_for w) (hm_values (ms_agents s))"
  have cs: "cs = map (\<lambda>a. \<lparr> cmd_agent_id = ag_id a, cmd_desired_status = ag_desired_status a, cmd_generation = ag_command_generation a \<rparr>)
      (sort_key ag_created_at ?vs)" using assms(2) by (simp add: list_agent_commands_def)
  have ids: "map ag_id (hm_values (ms_agents s)) = map fst (ms_agents s)"
    using assms(1) by (auto simp: keyed_def hm_values_def)
  have "distinct (map ag_id ?vs)"
    using assms(1) by (intro distinct_map_filter) (simp add: ids keyed_def hm_ok_def)
  then have "distinct (map ag_id (sort_key ag_created_at ?vs))"
    by (simp add: distinct_map)
  then show "distinct (map cmd_agent_id cs)" by (simp add: cs comp_def)
  show "c \<in> set cs \<longleftrightarrow> (\<exists>a. hm_get (ms_agents s) (cmd_agent_id c) = Some a \<and> listed_for w a \<and>
       c = \<lparr> cmd_agent_id = ag_id a, cmd_desired_status = ag_desired_status a, cmd_generation = ag_command_generation a \<rparr>)"
    using keyed_values_iff[OF assms(1)] by (auto simp: cs)
qed

lemma reconcile_observed:
  assumes "table_ok m"
  shows "\<exists>r m'. reconcile_agents os (Some cs) m = (Some r, m') \<and> map obs_agent_id (ro_observations r) = wanted cs \<and>
    set (running_agents m') = {a. ObservedRun a \<in> set (ro_observations r)}"
  using reconcile_spec[OF assms, of os cs] by (auto simp: Let_def split: prod.splits option.splits)

lemma wanted_distinct: "distinct (map cmd_agent_id cs) \<Longrightarrow> distinct (wanted cs)"
  unfolding wanted_def by (rule distinct_map_filter)

text \<open>What the acknowledgements and observations of one beat do to a row the worker was told of.\<close>

lemma told_row:
  assumes "distinct (map cmd_agent_id cs)" "map obs_agent_id obs = wanted cs"
    "c \<in> set cs" "cmd_agent_id c = ag_id a" "cmd_desired_status c = ag_desired_status a" "cmd_generation c = ag_command_generation a"
    "ag_worker_id a = Some w"
  shows "ag_last_acked_generation (reported_row w now (acks_of cs) (Some obs) a) = max (ag_last_acked_generation a) (ag_command_generation a)"
    "ag_observed_status (reported_row w now (acks_of cs) (Some obs) a) =
       (if ag_desired_status a = DRunning then Some (if ObservedRun (ag_id a) \<in> set obs then ObRunning else ObFailed) else None)"
proof -
  have ack: "\<exists>k \<in> set (acks_of cs). ack_agent_id k = ag_id a \<and> ack_generation k = ag_command_generation a"
    using assms(3,4,6) by (force simp: acks_of_def)
  let ?a = "if ag_last_acked_generation a < ag_command_generation a then a\<lparr>ag_last_acked_generation := ag_command_generation a\<rparr> else a"
  have row: "reported_row w now (acks_of cs) (Some obs) a = with_observation now (last_about (ag_id a) obs) ?a"
    using ack assms(7) by (auto simp: reported_row_def Let_def)
  show "ag_last_acked_generation (reported_row w now (acks_of cs) (Some obs) a) = max (ag_last_acked_generation a) (ag_command_generation a)"
    unfolding row by (auto simp: with_observation_def max_def split: option.split)
  have d: "distinct (map obs_agent_id obs)" unfolding assms(2) by (rule wanted_distinct[OF assms(1)])
  have same: "x = c" if "x \<in> set cs" "cmd_agent_id x = cmd_agent_id c" for x
    using that assms(1,3) by (auto simp: distinct_map dest: inj_onD)
  show "ag_observed_status (reported_row w now (acks_of cs) (Some obs) a) =
       (if ag_desired_status a = DRunning then Some (if ObservedRun (ag_id a) \<in> set obs then ObRunning else ObFailed) else None)"
  proof (cases "ag_desired_status a = DRunning")
    case True
    then have "ag_id a \<in> set (map obs_agent_id obs)" unfolding assms(2) using assms(3-5) by (force simp: wanted_def)
    then obtain ob where ob: "ob \<in> set obs" "obs_agent_id ob = ag_id a" by auto
    have l: "last_about (ag_id a) obs = Some ob" using last_about_distinct[OF d ob(1)] ob(2) by simp
    have "ObservedRun (ag_id a) \<in> set obs \<longleftrightarrow> ob = ObservedRun (ag_id a)"
      using ob d inj_onD[of obs_agent_id "set obs" ob "ObservedRun (ag_id a)"] by (auto simp: distinct_map)
    then show ?thesis unfolding row l using True ob(2) by (cases ob) (auto simp: with_observation_def)
  next
    case False
    then have "ag_id a \<notin> set (map obs_agent_id obs)" unfolding assms(2) using same assms(4,5) by (force simp: wanted_def)
    then have "last_about (ag_id a) obs = None" by (simp add: last_about_None)
    then show ?thesis unfolding row using False by (simp add: with_observation_def)
  qed
qed

text \<open>
  C11. Two undisturbed heartbeats bring the worker and the control plane together, whatever the operating system does meanwhile.
  After the first, the worker runs no process of an agent the control plane does not place on it as running. After the second,
  every agent that was listed for the worker has its command acknowledged, is observed as running exactly when the worker has a
  process for it, as failed when it should run and has none, and is not observed at all when it should not run.
\<close>

theorem worker_converges:
  assumes "table_ok (wk_manager s)" "rc_worker_id (wk_client s) = Some i" "version_for b1 (wk_client s) = Some v"
    "keyed ag_id (ms_agents (gw_store g))" "hm_get (ms_workers (gw_store g)) (WorkerId u) = Some w" "w_id w = WorkerId u"
    "enforce_worker_self_binding ctx (WorkerId u) = Inr ()"
    "av_others api1 = (\<lambda>_ g. g)" "av_parse_uuid api1 i = Some u" "av_others api2 = (\<lambda>_ g. g)" "av_parse_uuid api2 i = Some u"
    "\<not> be_shutdown b1" "\<not> be_shutdown b2"
    "fleet_beat fa api1 ctx b1 (s, g) = (s1, g1)" "fleet_beat fa api2 ctx b2 (s1, g1) = (s2, g2)"
  shows "(\<forall>a \<in> set (running_agents (wk_manager s1)). \<exists>row. hm_get (ms_agents (gw_store g1)) a = Some row \<and>
      listed_for (WorkerId u) row \<and> ag_desired_status row = DRunning) \<and>
    (\<forall>a row. hm_get (ms_agents (gw_store g1)) a = Some row \<and> listed_for (WorkerId u) row \<longrightarrow>
      (\<exists>row'. hm_get (ms_agents (gw_store g2)) a = Some row' \<and>
         ag_last_acked_generation row' = max (ag_last_acked_generation row) (ag_command_generation row) \<and>
         ag_observed_status row' =
           (if ag_desired_status row = DRunning
            then Some (if a \<in> set (running_agents (wk_manager s1)) then ObRunning else ObFailed) else None)))"
proof -
  let ?i = "WorkerId u"
  obtain x1 where x1: "wb_worker_id x1 = i" "g1 = snd (heartbeat api1 ctx (wire_beat x1) g)"
    and after: "\<And>p cs out m'. fst (heartbeat api1 ctx (wire_beat x1) g) = Inr p \<Longrightarrow> hp_agents p = Some cs \<Longrightarrow>
       reconcile_agents (be_os b1) (Some cs) (wk_manager s) = (Some out, m') \<Longrightarrow>
       wk_manager s1 = m' \<and> rc_worker_id (wk_client s1) = Some i \<and> rc_grok_version (wk_client s1) = Some v \<and>
          rc_pending_acks (wk_client s1) = acks_of cs \<and> rc_pending_observations (wk_client s1) = Some (ro_observations out)"
    using fleet_beat_answered[OF assms(12,2,3), of fa api1 ctx g] assms(14) by (auto simp: Let_def)
  have h1: "heartbeat api1 ctx (wire_beat x1) g = beat_known api1 ?i w (wire_beat x1) g"
    by (rule heartbeat_quiet[OF assms(8) _ assms(7,5)]) (simp add: wire_beat_def x1(1) assms(9))
  obtain r1 where k1: "beat_known api1 ?i w (wire_beat x1) g = (r1, g1)"
    using x1(2) h1 by (cases "beat_known api1 ?i w (wire_beat x1) g") auto
  note rows1 = beat_known_agents[OF assms(8,5,6,4) k1]
  obtain p cs where p: "r1 = Inr p" "hp_agents p = Some cs" "list_agent_commands ?i (gw_store g1) = Inr cs" using rows1(3) by blast
  note listed = listed_commands[OF rows1(2) p(3)]
  obtain out m' where rec: "reconcile_agents (be_os b1) (Some cs) (wk_manager s) = (Some out, m')"
    "map obs_agent_id (ro_observations out) = wanted cs" "set (running_agents m') = {a. ObservedRun a \<in> set (ro_observations out)}"
    using reconcile_observed[OF assms(1)] by blast
  have s1: "wk_manager s1 = m'" "rc_worker_id (wk_client s1) = Some i" "rc_grok_version (wk_client s1) = Some v"
    "rc_pending_acks (wk_client s1) = acks_of cs" "rc_pending_observations (wk_client s1) = Some (ro_observations out)"
    using after[OF _ p(2) rec(1)] h1 k1 p(1) by simp_all
  obtain x2 where x2: "wb_worker_id x2 = i" "wb_agent_acks x2 = acks_of cs" "wb_agent_observations x2 = Some (ro_observations out)"
    "g2 = snd (heartbeat api2 ctx (wire_beat x2) g1)"
    using fleet_beat_answered[OF assms(13) s1(2), of v fa api2 ctx g1] s1 assms(15) by (auto simp: version_for_def)
  obtain w1 where w1: "hm_get (ms_workers (gw_store g1)) ?i = Some w1" "w_id w1 = ?i"
    using beat_known_quiet(2)[OF assms(8,5,6) k1] assms(6) by (auto simp: beaten_def)
  have h2: "heartbeat api2 ctx (wire_beat x2) g1 = beat_known api2 ?i w1 (wire_beat x2) g1"
    by (rule heartbeat_quiet[OF assms(10) _ assms(7) w1(1)]) (simp add: wire_beat_def x2(1) assms(11))
  obtain r2 where k2: "beat_known api2 ?i w1 (wire_beat x2) g1 = (r2, g2)"
    using x2(4) h2 by (cases "beat_known api2 ?i w1 (wire_beat x2) g1") auto
  have rows2: "hm_get (ms_agents (gw_store g2)) j =
      map_option (reported_row ?i (av_clk api2 5) (acks_of cs) (Some (ro_observations out))) (hm_get (ms_agents (gw_store g1)) j)" for j
    using beat_known_agents(1)[OF assms(10) w1 rows1(2) k2, of j] by (simp add: wire_beat_def x2(2,3))
  have "\<exists>row. hm_get (ms_agents (gw_store g1)) a = Some row \<and> listed_for ?i row \<and> ag_desired_status row = DRunning"
    if "a \<in> set (running_agents (wk_manager s1))" for a
  proof -
    have "ObservedRun a \<in> set (ro_observations out)" using that rec(3) s1(1) by simp
    then have "obs_agent_id (ObservedRun a) \<in> set (map obs_agent_id (ro_observations out))" by (force simp del: obs_agent_id.simps)
    then have "a \<in> set (wanted cs)" unfolding rec(2) by simp
    then obtain c where "c \<in> set cs" "cmd_agent_id c = a" "cmd_desired_status c = DRunning" by (auto simp: wanted_def)
    then show ?thesis using listed(2)[of c] by auto
  qed
  moreover have "\<exists>row'. hm_get (ms_agents (gw_store g2)) a = Some row' \<and>
         ag_last_acked_generation row' = max (ag_last_acked_generation row) (ag_command_generation row) \<and>
         ag_observed_status row' = (if ag_desired_status row = DRunning
            then Some (if a \<in> set (running_agents (wk_manager s1)) then ObRunning else ObFailed) else None)"
    if row: "hm_get (ms_agents (gw_store g1)) a = Some row" "listed_for ?i row" for a row
  proof -
    have a: "ag_id row = a" by (rule keyed_get[OF rows1(2) row(1)])
    let ?c = "\<lparr> cmd_agent_id = ag_id row, cmd_desired_status = ag_desired_status row, cmd_generation = ag_command_generation row \<rparr>"
    have c: "?c \<in> set cs" using listed(2)[of ?c] row a by simp
    have "ag_worker_id row = Some ?i" using row(2) by (simp add: listed_for_def)
    note t = told_row[OF listed(1) rec(2) c _ _ _ this, of "av_clk api2 5"]
    show ?thesis using rows2[of a] row(1) t rec(3) s1(1) a by simp
  qed
  ultimately show ?thesis by blast
qed

text \<open>A worker, its client and one agent placed on it, which should run.\<close>

definition sample_turn :: beat_env where
  "sample_turn = \<lparr> be_shutdown = False, be_healthy = True, be_active_tasks = 0, be_load_avg = None, be_mem_available_mb = None,
     be_cpu_usage = None, be_ram_usage = None, be_disk_done = None, be_disk_clock = (0, 0), be_version_output = None, be_os_info = None,
     be_package_version = ''1'', be_send = (\<lambda>_. Unreachable ''down''), be_clock = 0, be_os = sample_worker_os, be_woken = False \<rparr>"

definition sample_daemon :: worker_state where
  "sample_daemon = \<lparr> wk_client = (new_client sample_worker_config)\<lparr>rc_worker_id := Some ''seven''\<rparr>, wk_manager = sample_manager,
     wk_last_contact = 0 \<rparr>"

definition placed_agent :: agent where
  "placed_agent = (plain_agent 5 ''a'')\<lparr>ag_worker_id := Some (WorkerId 7), ag_desired_status := DRunning, ag_command_generation := 1\<rparr>"

definition sample_fleet :: gateway where
  "sample_fleet = sample_gateway\<lparr>gw_yard := (gw_yard sample_gateway)\<lparr>yd_store := (gw_store sample_gateway)\<lparr>
     ms_agents := [(AgentId 5, placed_agent)]\<rparr>\<rparr>\<rparr>"

lemma worker_converges_witness:
  "\<exists>row'. hm_get (ms_agents (gw_store (snd (fleet_beat 10 sample_env None sample_turn
      (fleet_beat 10 sample_env None sample_turn (sample_daemon, sample_fleet)))))) (AgentId 5) = Some row' \<and>
     ag_observed_status row' = Some ObRunning \<and> ag_last_acked_generation row' = 1"
proof -
  obtain s1 g1 where b1: "fleet_beat 10 sample_env None sample_turn (sample_daemon, sample_fleet) = (s1, g1)" by fastforce
  obtain s2 g2 where b2: "fleet_beat 10 sample_env None sample_turn (s1, g1) = (s2, g2)" by fastforce
  have "table_ok (wk_manager sample_daemon)" using new_manager_table_ok[OF sample_manager_new] by (simp add: sample_daemon_def)
  moreover have "rc_worker_id (wk_client sample_daemon) = Some ''seven''" "version_for sample_turn (wk_client sample_daemon) = Some None"
    by (simp_all add: sample_daemon_def version_for_def new_client_def sample_turn_def)
  moreover have "keyed ag_id (ms_agents (gw_store sample_fleet))" "hm_get (ms_workers (gw_store sample_fleet)) (WorkerId 7) = Some sample_worker"
    "w_id sample_worker = WorkerId 7"
    by (simp_all add: sample_fleet_def sample_gateway_def keyed_def hm_ok_def placed_agent_def new_agent_def hm_get_def sample_worker_def new_worker_def)
  moreover have "enforce_worker_self_binding None (WorkerId 7) = Inr ()" "av_others sample_env = (\<lambda>_ g. g)"
    "av_parse_uuid sample_env ''seven'' = Some 7" "\<not> be_shutdown sample_turn"
    by (simp_all add: enforce_worker_self_binding_def sample_env_def sample_turn_def)
  ultimately have c: "\<forall>a row. hm_get (ms_agents (gw_store g1)) a = Some row \<and> listed_for (WorkerId 7) row \<longrightarrow>
      (\<exists>row'. hm_get (ms_agents (gw_store g2)) a = Some row' \<and>
         ag_last_acked_generation row' = max (ag_last_acked_generation row) (ag_command_generation row) \<and>
         ag_observed_status row' = (if ag_desired_status row = DRunning
            then Some (if a \<in> set (running_agents (wk_manager s1)) then ObRunning else ObFailed) else None))"
    using worker_converges[OF _ _ _ _ _ _ _ _ _ _ _ _ _ b1 b2] by blast
  have "case fleet_beat 10 sample_env None sample_turn (sample_daemon, sample_fleet) of (s1, g1) \<Rightarrow>
      running_agents (wk_manager s1) = [AgentId 5] \<and> hm_get (ms_agents (gw_store g1)) (AgentId 5) = Some placed_agent \<and>
      listed_for (WorkerId 7) placed_agent" by code_simp
  then show ?thesis using c b1 b2 by (force simp: placed_agent_def new_agent_def)
qed

text \<open>
  The reports of a beat leave the buffers when the request is built: when the request then fails, for whatever
  reason, the orphans and the fenced agents it carried are not reported again.
\<close>

theorem failed_beat_loses_reports:
  assumes "rc_worker_id r = Some i" "version_for en r = Some v" "\<forall>b a. be_send en b \<noteq> Answered a"
  shows "case heartbeat_once en r of (res, r') \<Rightarrow> (\<exists>e. res = Some (Inl e)) \<and>
    rc_pending_orphans r' = [] \<and> rc_pending_fenced r' = [] \<and> rc_pending_acks r' = [] \<and> rc_pending_observations r' = None"
proof -
  obtain b r1 where b: "build_beat en i r = (Some b, r1)" using build_beat_parts(1)[OF assms(2), of i] by (cases "build_beat en i r") auto
  note f = build_beat_parts(2-5)[OF assms(2), of i]
  show ?thesis using assms(1,3) b f by (cases "be_send en b") (auto simp: heartbeat_once_def)
qed

lemma failed_beat_loses_reports_witness:
  "rc_pending_fenced (snd (heartbeat_once sample_turn
      ((wk_client sample_daemon)\<lparr>rc_pending_fenced := [\<lparr> af_agent_id = AgentId 5, af_unreachable_secs = 300 \<rparr>]\<rparr>))) = []"
  using failed_beat_loses_reports[of "(wk_client sample_daemon)\<lparr>rc_pending_fenced := [\<lparr> af_agent_id = AgentId 5, af_unreachable_secs = 300 \<rparr>]\<rparr>"
      "''seven''" sample_turn None]
  by (auto simp: sample_daemon_def version_for_def new_client_def sample_turn_def case_prod_beta)

end
