(* ===== verification/Reconcile_Claims.thy ===== *)
theory Reconcile_Claims
  imports Reconcile
begin

text \<open>
  The guarantees of a reconciliation sweep: it moves tasks only along their lifecycle, fails a
  dispatched task exactly when its execution is gone, dispatches only stale tasks whose dependencies
  have completed, and stops only sessions whose task has ended.
\<close>

section \<open>A sweep keeps what every operation keeps\<close>

lemma fold_proj:
  assumes "\<And>x st. P (proj st) (proj (g x st))" "\<And>a. P a a" "\<And>a b c. P a b \<Longrightarrow> P b c \<Longrightarrow> P a c"
  shows "P (proj st) (proj (fold g xs st))"
proof (induction xs arbitrary: st)
  case (Cons x xs)
  show ?case using assms(3)[OF assms(1)[where x = x and st = st] Cons.IH] by simp
qed (simp add: assms(2))

context fleet_steps
begin

lemma R_redispatch_one: "R (snd st) (snd (redispatch_one sw cfg d t st))"
proof -
  obtain sm f where st: "st = (sm, f)" by fastforce
  let ?en = "sw_tasks sw (t_id t)"
  obtain sel s where sel: "select (en_probe ?en) (en_now ?en AtSelect) (fl_breakers f) t (fl_store f) = (sel, s)"
    by fastforce
  have dead: "R f (snd (mark_failed ?en AtFailure (t_id t) [PhPending] failure ControlDecision (f\<lparr>fl_store := s\<rparr>)))" for failure
    using R_trans[OF R_select[OF sel] R_mark_failed] by simp
  obtain q g where d: "dispatch_existing ?en t False f = (q, g)" by fastforce
  have g: "R f g" using R_dispatch[of f ?en t False] by (simp add: d)
  show ?thesis
    using dead g R_trans[OF g R_retry]
    by (cases q) (simp_all add: redispatch_one_def st Let_def sel d R_refl case_prod_beta)
qed

lemma R_redispatch_stale: "R (snd st) (snd (redispatch_stale conv sw cfg ts st))"
  unfolding redispatch_stale_def by (rule fold_proj[where proj = snd]) (auto intro: R_redispatch_one R_refl R_trans)

lemma R_fail_dispatched: "R (snd st) (snd (fail_dispatched en t failure counted st))"
  using R_mark_failed[of "[PhDispatched]" "snd st" en "AtReap (t_id t)" "t_id t" failure ControlDecision]
  by (simp add: fail_dispatched_def case_prod_beta)

lemma R_reap_one: "R (snd (snd st)) (snd (snd (reap_one en now ca og t st)))"
proof -
  obtain invs sm f where st: "st = (invs, sm, f)" by (metis prod_cases3)
  have fd: "R f (snd (fail_dispatched en t failure counted (sm', f)))" for failure counted sm'
    using R_fail_dispatched[of "(sm', f)"] by simp
  show ?thesis
    by (simp add: reap_one_def st Let_def R_refl fd split: task_status.split sum.split option.split prod.split session_inventory.split)
qed

lemma R_reap_stale: "R (snd st) (snd (snd (reap_stale_dispatched conv sw cfg st)))"
proof -
  have "R (snd (snd st')) (snd (snd (fold (reap_one en now ca og) ts st')))" for st' en now ca og ts
    by (rule fold_proj[where proj = "\<lambda>st. snd (snd st)"]) (auto intro: R_reap_one R_refl R_trans)
  from this[where st' = "([], fst st, snd st)"] show ?thesis
    by (simp add: reap_stale_dispatched_def case_prod_beta R_refl split: sum.split)
qed

lemma R_reap_session: "R (snd st) (snd (reap_session en w session st))"
proof -
  have "R f (audit_decision l a x (f\<lparr>fl_cancels := cs\<rparr>))" for f l a x cs
    using R_trans[OF R_local(3) R_audit(2)] .
  then show ?thesis
    by (simp add: reap_session_def case_prod_beta Let_def R_refl R_audit R_local split: sum.split option.split cancel_delivery.split)
qed

lemma R_reap_sessions: "R (snd st) (snd (fold (reap_session en w) sessions st))"
  by (rule fold_proj[where proj = snd]) (auto intro: R_reap_session R_refl R_trans)

lemma R_reap_worker: "R (snd (snd st)) (snd (snd (reap_worker_sessions en wk st)))"
  using R_reap_sessions[of "snd st"]
  by (simp add: reap_worker_sessions_def case_prod_beta Let_def R_refl split: sum.split session_inventory.split)

lemma R_reap_orphans: "R (snd (snd st)) (snd (reap_orphan_sessions sw cfg st))"
proof -
  have "R (snd (snd st')) (snd (snd (fold (reap_worker_sessions en) ws st')))" for st' en ws
    by (rule fold_proj[where proj = "\<lambda>st. snd (snd st)"]) (auto intro: R_reap_worker R_refl R_trans)
  then show ?thesis by (simp add: reap_orphan_sessions_def case_prod_beta R_refl split: sum.split)
qed

lemma R_report_one: "R (snd (snd st)) (snd (snd (report_one en now threshold a st)))"
  by (simp add: report_one_def case_prod_beta R_refl R_audit split: option.split)

lemma R_report: "R (snd (snd st)) (snd (snd (report_unacked_commands conv sw cfg st)))"
proof -
  have "R (snd (snd st')) (snd (snd (fold (report_one en now threshold) as st')))" for st' en now threshold as
    by (rule fold_proj[where proj = "\<lambda>st. snd (snd st)"]) (auto intro: R_report_one R_refl R_trans)
  then show ?thesis by (simp add: report_unacked_commands_def case_prod_beta R_refl split: sum.split)
qed

lemma R_reconcile: "R (re_fleet rc) (re_fleet (snd (reconcile_once conv sw cfg rc)))"
proof (cases "list_tasks (default_task_filter\<lparr>fi_status := Some FPending, fi_limit := max_pending_scan\<rparr>)
    (fl_store (re_fleet rc))")
  case (Inr ts)
  let ?a = "redispatch_stale conv sw cfg ts (empty_summary, re_fleet rc)"
  let ?b = "reap_stale_dispatched conv sw cfg ?a"
  let ?c = "reap_orphan_sessions sw cfg ?b"
  have "R (re_fleet rc) (snd ?a)" using R_redispatch_stale[of "(empty_summary, re_fleet rc)" conv sw cfg ts] by simp
  then have "R (re_fleet rc) (snd (snd ?b))" using R_reap_stale by (rule R_trans)
  then have "R (re_fleet rc) (snd ?c)" using R_reap_orphans by (rule R_trans)
  then have "R (re_fleet rc) (snd (snd (report_unacked_commands conv sw cfg (re_unacked_reported rc, ?c))))"
    using R_report[of "(re_unacked_reported rc, ?c)" conv sw cfg] by (auto intro: R_trans)
  then show ?thesis using Inr
    by (simp add: reconcile_once_def Let_def R_refl case_prod_beta)
qed (simp add: reconcile_once_def Let_def R_refl)

end

section \<open>Which dispatched tasks are failed\<close>

text \<open>The tables a reaping step reads and leaves alone.\<close>

definition same_frame :: "fleet \<Rightarrow> fleet \<Rightarrow> bool" where
  "same_frame f f' \<longleftrightarrow> ms_workers (fl_store f') = ms_workers (fl_store f) \<and>
     ms_control_leases (fl_store f') = ms_control_leases (fl_store f) \<and> fl_sent f' = fl_sent f"

lemma same_frame_trans: "same_frame f g \<Longrightarrow> same_frame g h \<Longrightarrow> same_frame f h"
  by (simp add: same_frame_def)

text \<open>A task whose execution is gone, as a sweep can tell.\<close>

definition started_before :: "task \<Rightarrow> datetime \<Rightarrow> datetime" where
  "started_before t started_at = (case t_dispatched_at t of Some d \<Rightarrow> d | None \<Rightarrow> started_at)"

definition vanished :: "env \<Rightarrow> worker_id \<Rightarrow> task \<Rightarrow> bool" where
  "vanished en w t = (case (t_acp_session_id t, en_sessions en w) of
      (Some session, Inr (SessionsReported live)) \<Rightarrow> session \<notin> set live
    | _ \<Rightarrow> False)"

definition gone :: "env \<Rightarrow> datetime \<Rightarrow> timedelta \<Rightarrow> timedelta \<Rightarrow> (worker_id, worker) hmap \<Rightarrow> task \<Rightarrow> bool" where
  "gone en now check_after grace ws t = (case t_status t of
      Dispatched w started_at \<Rightarrow> check_after \<le> now - started_at \<and>
        (case hm_get ws w of
           None \<Rightarrow> True
         | Some wk \<Rightarrow> started_before t started_at < w_incarnation_started_at wk \<or>
             (if w_status wk = WOffline
              then (case w_last_seen wk of Some ls \<Rightarrow> grace \<le> now - ls | None \<Rightarrow> True)
              else vanished en w t))
    | _ \<Rightarrow> False)"

definition inventories_ok :: "env \<Rightarrow> (worker_id, session_inventory) hmap \<Rightarrow> bool" where
  "inventories_ok en invs \<longleftrightarrow> (\<forall>w i. hm_get invs w = Some i \<longrightarrow>
     i = (case en_sessions en w of Inr x \<Rightarrow> x | Inl _ \<Rightarrow> Undeclared))"

lemma inventory_of_ok:
  assumes "inventories_ok en invs"
  shows "fst (inventory_of en w invs) = (case en_sessions en w of Inr x \<Rightarrow> x | Inl _ \<Rightarrow> Undeclared)"
    "inventories_ok en (snd (inventory_of en w invs))"
  using assms by (auto simp: inventory_of_def inventories_ok_def Let_def split: option.split)

lemma mark_failed_effect:
  assumes "hm_get (ms_tasks (fl_store f)) i = Some t" "phase (t_status t) = PhDispatched"
  shows "ms_tasks (fl_store (snd (mark_failed en p i [PhDispatched] failure ControlDecision f))) =
      (if control_fence_holds (fl_store f) (fence_at en p)
       then hm_adjust i (apply_transition (en_now en p) (Failed failure) (fence_at en p)) (ms_tasks (fl_store f))
       else ms_tasks (fl_store f)) \<and>
    same_frame f (snd (mark_failed en p i [PhDispatched] failure ControlDecision f))"
proof (cases "control_fence_holds (fl_store f) (fence_at en p)")
  case True
  have "phase (t_status t) \<in> set [PhDispatched]" using assms(2) by simp
  from control_cas_applies[OF True assms(1) this] True show ?thesis
    by (simp add: mark_failed_def with_store_def log_event_def append_event_def same_frame_def Let_def)
next
  case False
  then show ?thesis
    by (simp add: mark_failed_def with_store_def compare_and_set_task_status_def same_frame_def)
qed

definition fails_it :: "env \<Rightarrow> task \<Rightarrow> fleet \<Rightarrow> reconcile_summary \<times> fleet \<Rightarrow> bool" where
  "fails_it en t f r \<longleftrightarrow> (\<exists>failure counted sm0. r = fail_dispatched en t failure counted (sm0, f))"

lemma fails_itI: "fails_it en t f (fail_dispatched en t failure counted (sm0, f))"
  by (auto simp: fails_it_def)

lemma reap_one_shape:
  assumes "t_status t = Dispatched w st" "ca \<le> now - st"
  shows "hm_get (ms_workers (fl_store f)) w = None \<Longrightarrow>
      \<exists>r. reap_one en now ca og t (invs, sm, f) = (invs, r) \<and> fails_it en t f r" (is "_ \<Longrightarrow> ?none")
    and "hm_get (ms_workers (fl_store f)) w = Some wk \<Longrightarrow> started_before t st < w_incarnation_started_at wk \<Longrightarrow>
      \<exists>r. reap_one en now ca og t (invs, sm, f) = (invs, r) \<and> fails_it en t f r" (is "_ \<Longrightarrow> _ \<Longrightarrow> ?none")
    and "hm_get (ms_workers (fl_store f)) w = Some wk \<Longrightarrow> \<not> started_before t st < w_incarnation_started_at wk \<Longrightarrow>
      w_status wk = WOffline \<Longrightarrow> (case w_last_seen wk of Some ls \<Rightarrow> og \<le> now - ls | None \<Rightarrow> True) \<Longrightarrow>
      \<exists>r. reap_one en now ca og t (invs, sm, f) = (invs, r) \<and> fails_it en t f r" (is "_ \<Longrightarrow> _ \<Longrightarrow> _ \<Longrightarrow> _ \<Longrightarrow> ?none")
    and "hm_get (ms_workers (fl_store f)) w = Some wk \<Longrightarrow> \<not> started_before t st < w_incarnation_started_at wk \<Longrightarrow>
      w_status wk = WOffline \<Longrightarrow> \<not> (case w_last_seen wk of Some ls \<Rightarrow> og \<le> now - ls | None \<Rightarrow> True) \<Longrightarrow>
      reap_one en now ca og t (invs, sm, f) = (invs, sm, f)"
    and "hm_get (ms_workers (fl_store f)) w = Some wk \<Longrightarrow> \<not> started_before t st < w_incarnation_started_at wk \<Longrightarrow>
      w_status wk \<noteq> WOffline \<Longrightarrow> t_acp_session_id t = None \<Longrightarrow>
      reap_one en now ca og t (invs, sm, f) = (invs, sm, f)"
    and "hm_get (ms_workers (fl_store f)) w = Some wk \<Longrightarrow> \<not> started_before t st < w_incarnation_started_at wk \<Longrightarrow>
      w_status wk \<noteq> WOffline \<Longrightarrow> t_acp_session_id t = Some ss \<Longrightarrow>
      inventory_of en w invs = (SessionsReported live, invs1) \<Longrightarrow> ss \<notin> set live \<Longrightarrow>
      \<exists>r. reap_one en now ca og t (invs, sm, f) = (invs1, r) \<and> fails_it en t f r"
    and "hm_get (ms_workers (fl_store f)) w = Some wk \<Longrightarrow> \<not> started_before t st < w_incarnation_started_at wk \<Longrightarrow>
      w_status wk \<noteq> WOffline \<Longrightarrow> t_acp_session_id t = Some ss \<Longrightarrow> inventory_of en w invs = (inv1, invs1) \<Longrightarrow>
      (\<And>live. inv1 = SessionsReported live \<Longrightarrow> ss \<in> set live) \<Longrightarrow>
      reap_one en now ca og t (invs, sm, f) = (invs1, sm, f)"
  using assms
  by (simp_all add: reap_one_def get_worker_def started_before_def Let_def fails_itI split: session_inventory.split)

lemma reap_one_early:
  assumes "\<And>w st. t_status t = Dispatched w st \<Longrightarrow> now - st < ca"
  shows "reap_one en now ca og t (invs, sm, f) = (invs, sm, f)" "\<not> gone en now ca og ws t"
  using assms by (cases "t_status t"; simp add: reap_one_def gone_def Let_def)+

lemma reap_one_cases:
  assumes "reap_one en now ca og t (invs, sm, f) = (invs', sm', f')" "inventories_ok en invs"
  obtains (left) "\<not> gone en now ca og (ms_workers (fl_store f)) t" "f' = f" "inventories_ok en invs'"
    | (failed) failure where "gone en now ca og (ms_workers (fl_store f)) t" "inventories_ok en invs'"
      "phase (t_status t) = PhDispatched"
      "f' = snd (mark_failed en (AtReap (t_id t)) (t_id t) [PhDispatched] failure ControlDecision f)"
proof (cases "\<exists>w st. t_status t = Dispatched w st \<and> ca \<le> now - st")
  case False
  then have "now - st < ca" if "t_status t = Dispatched w st" for w st using that by (auto simp: not_le)
  note early = reap_one_early[OF this]
  have "f' = f" "invs' = invs" using assms(1) by (simp_all add: early(1))
  then show thesis using early(2) assms(2) by (intro left) simp_all
next
  case True
  then obtain w st where t: "t_status t = Dispatched w st" "ca \<le> now - st" by blast
  note shape = reap_one_shape[OF t, of f]
  have fin: thesis if "fails_it en t f (sm', f')" "inventories_ok en invs'"
      "gone en now ca og (ms_workers (fl_store f)) t"
    using that t(1) by (auto simp: fails_it_def fail_dispatched_def case_prod_beta intro!: failed)
  show thesis
  proof (cases "hm_get (ms_workers (fl_store f)) w")
    case None
    then show thesis using shape(1)[OF None, of en og invs sm] assms t by (intro fin) (auto simp: gone_def)
  next
    case (Some wk)
    note wk = Some
    show thesis
    proof (cases "started_before t st < w_incarnation_started_at wk")
      case True
      then show thesis using shape(2)[OF wk True, of en og invs sm] assms t wk
        by (intro fin) (auto simp: gone_def)
    next
      case same: False
      show thesis
      proof (cases "w_status wk = WOffline")
        case off: True
        show thesis
        proof (cases "case w_last_seen wk of Some ls \<Rightarrow> og \<le> now - ls | None \<Rightarrow> True")
          case True
          then show thesis using shape(3)[OF wk same off True, of en invs sm] assms t wk off
            by (intro fin) (auto simp: gone_def)
        next
          case False
          then show thesis using shape(4)[OF wk same off False, of en invs sm] assms t wk off same
            by (intro left) (auto simp: gone_def)
        qed
      next
        case on: False
        show thesis
        proof (cases "t_acp_session_id t")
          case None
          then show thesis using shape(5)[OF wk same on None, of en og invs sm] assms t wk on same
            by (intro left) (auto simp: gone_def vanished_def)
        next
          case (Some ss)
          obtain inv1 invs1 where iv: "inventory_of en w invs = (inv1, invs1)" by fastforce
          have inv: "inv1 = (case en_sessions en w of Inr x \<Rightarrow> x | Inl _ \<Rightarrow> Undeclared)" "inventories_ok en invs1"
            using inventory_of_ok[OF assms(2), of w] by (simp_all add: iv)
          show thesis
          proof (cases "vanished en w t")
            case True
            then obtain live where live: "en_sessions en w = Inr (SessionsReported live)" "ss \<notin> set live"
              using Some by (auto simp: vanished_def split: sum.splits session_inventory.splits)
            then have "inventory_of en w invs = (SessionsReported live, invs1)" using iv inv(1) by simp
            from shape(6)[OF wk same on Some this live(2), of og sm] show thesis
              using assms(1) inv(2) t wk on same True by (intro fin) (auto simp: gone_def)
          next
            case False
            then have "ss \<in> set live" if "inv1 = SessionsReported live" for live
              using that inv(1) Some by (auto simp: vanished_def split: sum.splits)
            from shape(7)[OF wk same on Some iv this, of og sm] have "f' = f" "invs' = invs1" using assms(1) by simp_all
            then show thesis using inv(2) t wk on same False by (intro left) (auto simp: gone_def)
          qed
        qed
      qed
    qed
  qed
qed

lemma same_frame_fence: "same_frame f g \<Longrightarrow> control_fence_holds (fl_store g) fe = control_fence_holds (fl_store f) fe"
  by (simp add: same_frame_def control_fence_holds_def lease_epoch_def split: option.split)

text \<open>The tasks a list of visits fails, and what becomes of them.\<close>

definition reaped :: "env \<Rightarrow> datetime \<Rightarrow> timedelta \<Rightarrow> timedelta \<Rightarrow> fleet \<Rightarrow> task list \<Rightarrow> task_id \<Rightarrow> bool" where
  "reaped en now ca og f ts i \<longleftrightarrow> (\<exists>t \<in> set ts. t_id t = i \<and> gone en now ca og (ms_workers (fl_store f)) t) \<and>
     control_fence_holds (fl_store f) (fence_at en (AtReap i))"

lemma reap_fold:
  assumes "fold (reap_one en now ca og) ts (invs, sm, f) = (invs', sm', f')" "inventories_ok en invs"
    "\<forall>t \<in> set ts. hm_get (ms_tasks (fl_store f)) (t_id t) = Some t" "distinct (map t_id ts)"
  shows "same_frame f f' \<and> (\<forall>i. if reaped en now ca og f ts i
      then \<exists>fl. hm_get (ms_tasks (fl_store f')) i = map_option
        (apply_transition (en_now en (AtReap i)) (Failed fl) (fence_at en (AtReap i))) (hm_get (ms_tasks (fl_store f)) i)
      else hm_get (ms_tasks (fl_store f')) i = hm_get (ms_tasks (fl_store f)) i)"
  using assms
proof (induction ts arbitrary: invs sm f)
  case Nil
  then show ?case by (simp add: reaped_def same_frame_def)
next
  case (Cons t ts)
  obtain invs1 sm1 f1 where one: "reap_one en now ca og t (invs, sm, f) = (invs1, sm1, f1)" by (metis prod_cases3)
  let ?fails = "gone en now ca og (ms_workers (fl_store f)) t \<and> control_fence_holds (fl_store f) (fence_at en (AtReap (t_id t)))"
  have step: "inventories_ok en invs1 \<and> same_frame f f1 \<and> (\<exists>fl. ms_tasks (fl_store f1) =
      (if ?fails then hm_adjust (t_id t) (apply_transition (en_now en (AtReap (t_id t))) (Failed fl)
          (fence_at en (AtReap (t_id t)))) (ms_tasks (fl_store f))
       else ms_tasks (fl_store f)))"
    using one Cons.prems(2)
  proof (cases rule: reap_one_cases)
    case left
    then show ?thesis by (simp add: same_frame_def)
  next
    case (failed failure)
    have "hm_get (ms_tasks (fl_store f)) (t_id t) = Some t" using Cons.prems(3) by simp
    from mark_failed_effect[OF this failed(3), of en "AtReap (t_id t)" failure] failed show ?thesis by auto
  qed
  then obtain fl where fl: "ms_tasks (fl_store f1) = (if ?fails
      then hm_adjust (t_id t) (apply_transition (en_now en (AtReap (t_id t))) (Failed fl)
          (fence_at en (AtReap (t_id t)))) (ms_tasks (fl_store f)) else ms_tasks (fl_store f))"
    and fr: "same_frame f f1" "inventories_ok en invs1" by blast
  have other: "hm_get (ms_tasks (fl_store f1)) i = hm_get (ms_tasks (fl_store f)) i" if "i \<noteq> t_id t" for i
    using that by (simp add: fl)
  have "\<forall>u \<in> set ts. hm_get (ms_tasks (fl_store f1)) (t_id u) = Some u"
    using Cons.prems(3,4) other by (metis distinct.simps(2) image_eqI list.set_intros(2) list.set_map list.simps(9))
  then have IH: "same_frame f1 f'" "\<And>i. if reaped en now ca og f1 ts i
      then \<exists>fl. hm_get (ms_tasks (fl_store f')) i = map_option
        (apply_transition (en_now en (AtReap i)) (Failed fl) (fence_at en (AtReap i))) (hm_get (ms_tasks (fl_store f1)) i)
      else hm_get (ms_tasks (fl_store f')) i = hm_get (ms_tasks (fl_store f1)) i"
    using Cons.IH[of invs1 sm1 f1] Cons.prems(1,4) fr(2) one by simp_all
  have r1: "reaped en now ca og f1 ts i = reaped en now ca og f ts i" for i
    using fr(1) same_frame_fence[OF fr(1)] by (simp add: reaped_def same_frame_def)
  have "\<forall>u \<in> set ts. t_id u \<noteq> t_id t" using Cons.prems(4) by (auto simp: image_iff)
  then have notin: "\<not> reaped en now ca og f ts (t_id t)" by (auto simp: reaped_def)
  have head: "reaped en now ca og f (t # ts) i \<longleftrightarrow> (if i = t_id t then ?fails else reaped en now ca og f ts i)" for i
    using notin by (auto simp: reaped_def)
  show ?case
  proof (intro conjI allI)
    show "same_frame f f'" using fr(1) IH(1) by (rule same_frame_trans)
  next
    fix i
    show "if reaped en now ca og f (t # ts) i
      then \<exists>fl. hm_get (ms_tasks (fl_store f')) i = map_option
        (apply_transition (en_now en (AtReap i)) (Failed fl) (fence_at en (AtReap i))) (hm_get (ms_tasks (fl_store f)) i)
      else hm_get (ms_tasks (fl_store f')) i = hm_get (ms_tasks (fl_store f)) i"
    proof (cases "i = t_id t")
      case True
      then have "hm_get (ms_tasks (fl_store f')) i = hm_get (ms_tasks (fl_store f1)) i"
        using IH(2)[of i] r1 notin by simp
      then show ?thesis using True by (auto simp: head fl)
    next
      case False
      then show ?thesis using IH(2)[of i] unfolding r1 head other[OF False] by simp
    qed
  qed
qed

text \<open>
  C6. A sweep fails exactly the running tasks whose execution is gone: with at most 1000 dispatched
  tasks stored, a dispatched task is failed when its dispatch is old enough and its worker is no
  longer registered, or has restarted since the dispatch, or has been offline beyond the grace
  period, or is not offline and reports its sessions without the task's; and the fence holds at the
  write. Every other task is as before, no worker or lease changes and nothing is sent.
\<close>

theorem reap_exactly_gone:
  assumes "tables_ok (fl_store f)" "reap_stale_dispatched conv sw cfg (sm, f) = (invs, sm', f')"
    "hm_count (\<lambda>t. phase (t_status t) = PhDispatched) (ms_tasks (fl_store f)) \<le> 1000"
    "hm_get (ms_tasks (fl_store f)) i = Some t" "\<not> is_failing (fl_store f) ''list_tasks''"
  shows "same_frame f f' \<and>
    (if gone (sw_env sw) (sw_dispatched_now sw) (conv_or conv 30 (rc_dispatched_worker_check_after cfg))
          (conv_or conv 300 (rc_offline_worker_grace cfg)) (ms_workers (fl_store f)) t \<and>
        control_fence_holds (fl_store f) (fence_at (sw_env sw) (AtReap i))
     then \<exists>fl. map_option t_status (hm_get (ms_tasks (fl_store f')) i) = Some (Failed fl)
     else hm_get (ms_tasks (fl_store f')) i = Some t)"
proof -
  let ?fi = "default_task_filter\<lparr>fi_status := Some FDispatched, fi_limit := max_pending_scan\<rparr>"
  let ?ca = "conv_or conv 30 (rc_dispatched_worker_check_after cfg)"
  let ?og = "conv_or conv 300 (rc_offline_worker_grace cfg)"
  obtain ts where ts: "list_tasks ?fi (fl_store f) = Inr ts"
    using assms(5) by (simp add: list_tasks_def)
  have matches: "task_matches ?fi u \<longleftrightarrow> phase (t_status u) = PhDispatched" for u
    by (cases "t_status u") (auto simp: task_matches_def status_matches_def worker_matches_def created_by_matches_def
        default_task_filter_def)
  have "hm_count (task_matches ?fi) (ms_tasks (fl_store f)) \<le> fi_limit ?fi"
    unfolding matches using assms(3) by (simp add: max_pending_scan_def)
  moreover have "fi_offset ?fi = 0" by (simp add: default_task_filter_def)
  ultimately have listed: "\<forall>u \<in> set ts. hm_get (ms_tasks (fl_store f)) (t_id u) = Some u" "distinct (map t_id ts)"
      "\<And>j u. hm_get (ms_tasks (fl_store f)) j = Some u \<Longrightarrow> phase (t_status u) = PhDispatched \<Longrightarrow> u \<in> set ts"
    using list_tasks_spec[OF assms(1) ts] matches by blast+
  have "fold (reap_one (sw_env sw) (sw_dispatched_now sw) ?ca ?og) ts ([], sm, f) = (invs, sm', f')"
    using assms(2) by (simp add: reap_stale_dispatched_def ts)
  note fold = reap_fold[OF this _ listed(1,2)]
  have tid: "t_id t = i" using keyed_get[OF tables_okD(1)[OF assms(1)] assms(4)] .
  have "reaped (sw_env sw) (sw_dispatched_now sw) ?ca ?og f ts i \<longleftrightarrow>
      gone (sw_env sw) (sw_dispatched_now sw) ?ca ?og (ms_workers (fl_store f)) t \<and>
      control_fence_holds (fl_store f) (fence_at (sw_env sw) (AtReap i))"
  proof -
    have "t \<in> set ts" if "gone (sw_env sw) (sw_dispatched_now sw) ?ca ?og (ms_workers (fl_store f)) t"
      using that listed(3)[OF assms(4)] by (auto simp: gone_def split: task_status.splits)
    moreover have "u = t" if "u \<in> set ts" "t_id u = i" for u
      using that listed(1) assms(4) by auto
    ultimately show ?thesis using tid by (auto simp: reaped_def)
  qed
  note reaped_iff = this
  have "inventories_ok (sw_env sw) []" by (simp add: inventories_ok_def)
  note effect = fold[OF this]
  show ?thesis
    using effect[THEN conjunct1] effect[THEN conjunct2, rule_format, of i] assms(4)
    unfolding reaped_iff by (auto split: if_splits)
qed

abbreviation lost_task :: task where
  "lost_task \<equiv> (plain_task 1)\<lparr>t_status := Dispatched (WorkerId 7) 0\<rparr>"

abbreviation calm_sweep :: sweep where
  "calm_sweep \<equiv> \<lparr> sw_env = calm_env, sw_tasks = \<lambda>_. calm_env, sw_pending_now = 10 ^ 12,
     sw_dispatched_now = 10 ^ 12, sw_agents_now = 10 ^ 12 \<rparr>"

lemma reap_exactly_gone_witness:
  "let f = idle_fleet (empty_store\<lparr>ms_tasks := [(TaskId 1, lost_task)]\<rparr>)
   in \<exists>invs sm f' fl. reap_stale_dispatched ns_conv calm_sweep default_reconcile_config (empty_summary, f) = (invs, sm, f') \<and>
      map_option t_status (hm_get (ms_tasks (fl_store f')) (TaskId 1)) = Some (Failed fl)"
proof -
  let ?f = "idle_fleet (empty_store\<lparr>ms_tasks := [(TaskId 1, lost_task)]\<rparr>)"
  have ok: "tables_ok (fl_store ?f)"
    by (simp add: tables_ok_def empty_store_def keyed_def hm_ok_def from_request_def Let_def)
  obtain invs sm f' where r: "reap_stale_dispatched ns_conv calm_sweep default_reconcile_config (empty_summary, ?f) = (invs, sm, f')"
    by (metis prod_cases3)
  have "hm_count (\<lambda>t. phase (t_status t) = PhDispatched) (ms_tasks (fl_store ?f)) \<le> 1000"
    by (simp add: hm_count_def hm_values_def)
  moreover have g: "hm_get (ms_tasks (fl_store ?f)) (TaskId 1) = Some lost_task" by (simp add: hm_get_def)
  moreover have "\<not> is_failing (fl_store ?f) ''list_tasks''" by (simp add: is_failing_def empty_store_def)
  moreover have "gone calm_env (10 ^ 12) (conv_or ns_conv 30 (rc_dispatched_worker_check_after default_reconcile_config))
      (conv_or ns_conv 300 (rc_offline_worker_grace default_reconcile_config)) (ms_workers (fl_store ?f)) lost_task"
    by (simp add: gone_def empty_store_def conv_or_def default_reconcile_config_def secs_def)
  moreover have "control_fence_holds (fl_store ?f) (fence_at calm_env (AtReap (TaskId 1)))"
    by (simp add: control_fence_holds_def fence_at_def control_fence_of_def)
  ultimately obtain fl where "map_option t_status (hm_get (ms_tasks (fl_store f')) (TaskId 1)) = Some (Failed fl)"
    using reap_exactly_gone[OF ok r, of "TaskId 1" lost_task] by auto
  then show ?thesis unfolding Let_def using r by blast
qed

section \<open>Which pending tasks are dispatched\<close>

lemma reap_one_sent: "fl_sent (snd (snd (reap_one en now ca og t st))) = fl_sent (snd (snd st))"
proof -
  obtain invs sm f where st: "st = (invs, sm, f)" by (metis prod_cases3)
  have fd: "fl_sent (snd (fail_dispatched en t failure counted (sm', f))) = fl_sent f" for failure counted sm'
    using tame_mark_failed[of "[PhDispatched]" f en "AtReap (t_id t)" "t_id t" failure ControlDecision]
    by (simp add: fail_dispatched_def case_prod_beta tame_def)
  show ?thesis
    by (simp add: reap_one_def st Let_def fd split: task_status.split sum.split option.split prod.split session_inventory.split)
qed

lemma reap_stale_sent: "fl_sent (snd (snd (reap_stale_dispatched conv sw cfg st))) = fl_sent (snd st)"
proof -
  have "fl_sent (snd (snd (fold (reap_one en now ca og) ts st'))) = fl_sent (snd (snd st'))" for st' en now ca og ts
    by (rule fold_proj[where proj = "\<lambda>st. fl_sent (snd (snd st))" and P = "\<lambda>a b. b = a"]) (simp_all add: reap_one_sent)
  from this[where st' = "([], fst st, snd st)"] show ?thesis
    by (simp add: reap_stale_dispatched_def case_prod_beta split: sum.split)
qed

lemma audit_frame [simp]:
  "fl_store (audit_decision l a t f) = fl_store f" "fl_sent (audit_decision l a t f) = fl_sent f"
  "fl_cancels (audit_decision l a t f) = fl_cancels f"
  by (simp_all add: audit_decision_def record_audit_def)

text \<open>A cancel request a sweep may send: for a session whose task has ended.\<close>

definition orphan_request :: "mem_store \<Rightarrow> cancel_request \<Rightarrow> bool" where
  "orphan_request s q \<longleftrightarrow> (\<exists>session t. cq_known_session q = Some session \<and>
     find_task_by_acp_session session s = Inr (Some t) \<and> is_terminal t \<and> cq_task_id q = t_id t)"

definition only_cancels :: "fleet \<Rightarrow> fleet \<Rightarrow> bool" where
  "only_cancels f f' \<longleftrightarrow> fl_store f' = fl_store f \<and> fl_sent f' = fl_sent f \<and>
     (\<exists>reqs. fl_cancels f' = fl_cancels f @ reqs \<and> (\<forall>q \<in> set reqs. orphan_request (fl_store f) q))"

lemma only_cancels_refl: "only_cancels f f"
  by (simp add: only_cancels_def)

lemma only_cancels_trans: "only_cancels f g \<Longrightarrow> only_cancels g h \<Longrightarrow> only_cancels f h"
  by (fastforce simp: only_cancels_def)

lemma reap_session_only: "only_cancels (snd st) (snd (reap_session en w session st))"
  by (auto simp: reap_session_def case_prod_beta Let_def only_cancels_def orphan_request_def
      split: sum.split option.split cancel_delivery.split)

lemma reap_worker_only: "only_cancels (snd (snd st)) (snd (snd (reap_worker_sessions en wk st)))"
proof -
  have "only_cancels (snd st') (snd (fold (reap_session en w) sessions st'))" for st' w sessions
    by (rule fold_proj[where proj = snd and P = only_cancels])
      (auto intro: reap_session_only only_cancels_refl only_cancels_trans)
  from this[of "snd st"] show ?thesis
    by (simp add: reap_worker_sessions_def case_prod_beta Let_def only_cancels_refl split: sum.split session_inventory.split)
qed

text \<open>
  Stopping orphaned sessions: the sweep over the workers' sessions changes nothing in the store,
  sends no work, and every cancel request it sends is for a session recorded for a task that has
  ended. A session no task claims is left running.
\<close>

theorem only_orphans_cancelled: "only_cancels (snd (snd st)) (snd (reap_orphan_sessions sw cfg st))"
proof -
  have "only_cancels (snd (snd st')) (snd (snd (fold (reap_worker_sessions en) ws st')))" for st' en ws
    by (rule fold_proj[where proj = "\<lambda>st. snd (snd st)" and P = only_cancels])
      (auto intro: reap_worker_only only_cancels_refl only_cancels_trans)
  then show ?thesis by (simp add: reap_orphan_sessions_def case_prod_beta only_cancels_refl split: sum.split)
qed

lemma reap_orphans_sent: "fl_sent (snd (reap_orphan_sessions sw cfg st)) = fl_sent (snd (snd st)) \<and>
  fl_store (snd (reap_orphan_sessions sw cfg st)) = fl_store (snd (snd st))"
proof -
  have "fl_sent (snd (snd (fold (reap_worker_sessions en) ws st'))) = fl_sent (snd (snd st')) \<and>
      fl_store (snd (snd (fold (reap_worker_sessions en) ws st'))) = fl_store (snd (snd st'))" for st' en ws
    by (rule fold_proj[where proj = "\<lambda>st. snd (snd st)" and
        P = "\<lambda>a b. fl_sent b = fl_sent a \<and> fl_store b = fl_store a"])
      (use reap_worker_only in \<open>auto simp: only_cancels_def\<close>)
  then show ?thesis by (simp add: reap_orphan_sessions_def case_prod_beta split: sum.split)
qed

lemma report_frame: "only_cancels (snd (snd st)) (snd (snd (report_unacked_commands conv sw cfg st)))"
proof -
  have "only_cancels (snd (snd st')) (snd (snd (report_one en now threshold a st')))" for st' en now threshold a
    by (simp add: report_one_def case_prod_beta only_cancels_def split: option.split)
  then have "only_cancels (snd (snd st')) (snd (snd (fold (report_one en now threshold) as st')))" for st' en now threshold as
    by (intro fold_proj[where proj = "\<lambda>st. snd (snd st)" and P = only_cancels])
      (auto intro: only_cancels_refl only_cancels_trans)
  then show ?thesis by (simp add: report_unacked_commands_def case_prod_beta only_cancels_refl split: sum.split)
qed

lemma redispatch_one_sends:
  "fl_sent (snd (redispatch_one sw cfg td t (sm, f))) = fl_sent f \<or>
   (\<exists>req. fl_sent (snd (redispatch_one sw cfg td t (sm, f))) = fl_sent f @ [req] \<and> dr_task_id req = t_id t \<and>
      td \<le> sw_pending_now sw - t_created_at t \<and> dependencies_completed (t_dependency_ids t) (fl_store f) \<and>
      \<not> (rc_max_dispatch_retries cfg > 0 \<and> t_retry_count t \<ge> rc_max_dispatch_retries cfg))"
proof -
  let ?en = "sw_tasks sw (t_id t)"
  obtain sel s where sel: "select (en_probe ?en) (en_now ?en AtSelect) (fl_breakers f) t (fl_store f) = (sel, s)"
    by fastforce
  have dead: "fl_sent (snd (mark_failed ?en AtFailure (t_id t) [PhPending] failure ControlDecision (f\<lparr>fl_store := s\<rparr>))) = fl_sent f" for failure
    using tame_mark_failed[of "[PhPending]" "f\<lparr>fl_store := s\<rparr>" ?en AtFailure "t_id t" failure ControlDecision]
    by (simp add: tame_def)
  obtain q g where d: "dispatch_existing ?en t False f = (q, g)" by fastforce
  have "fl_sent g = fl_sent f \<or> (\<exists>req. fl_sent g = fl_sent f @ [req] \<and> dr_task_id req = t_id t)"
    by (cases rule: dispatch_sends[OF d]) auto
  then show ?thesis
    by (cases q) (auto simp: redispatch_one_def Let_def sel d case_prod_beta dead)
qed

lemma redispatch_sends:
  assumes "\<forall>t \<in> set ts. hm_get (ms_tasks (fl_store f0)) (t_id t) = Some t" "advances (fl_store f0) (fl_store f)"
  shows "\<exists>reqs. fl_sent (snd (fold (redispatch_one sw cfg td) ts (sm, f))) = fl_sent f @ reqs \<and>
    (\<forall>r \<in> set reqs. \<exists>t \<in> set ts. dr_task_id r = t_id t \<and> td \<le> sw_pending_now sw - t_created_at t \<and>
       \<not> (rc_max_dispatch_retries cfg > 0 \<and> t_retry_count t \<ge> rc_max_dispatch_retries cfg) \<and>
       (\<forall>d \<in> set (t_dependency_ids t). completed_in (fl_store (snd (fold (redispatch_one sw cfg td) ts (sm, f)))) d))"
  using assms
proof (induction ts arbitrary: sm f)
  case (Cons t ts)
  obtain sm1 g where g: "redispatch_one sw cfg td t (sm, f) = (sm1, g)" by fastforce
  let ?h = "snd (fold (redispatch_one sw cfg td) ts (sm1, g))"
  have adv: "advances (fl_store f) (fl_store g)" using lifecycle.R_redispatch_one[of "(sm, f)" sw cfg td t] by (simp add: g)
  have after: "advances (fl_store g) (fl_store ?h)"
    using lifecycle.R_redispatch_stale[of "(sm1, g)" "\<lambda>_. Some td" sw cfg ts]
    by (simp add: redispatch_stale_def conv_or_def)
  obtain reqs where reqs: "fl_sent ?h = fl_sent g @ reqs"
      "\<forall>r \<in> set reqs. \<exists>t \<in> set ts. dr_task_id r = t_id t \<and> td \<le> sw_pending_now sw - t_created_at t \<and>
       \<not> (rc_max_dispatch_retries cfg > 0 \<and> t_retry_count t \<ge> rc_max_dispatch_retries cfg) \<and>
       (\<forall>d \<in> set (t_dependency_ids t). completed_in (fl_store ?h) d)"
    using Cons.IH[of g sm1] Cons.prems advances_trans[OF Cons.prems(2) adv] by auto
  have e: "snd (fold (redispatch_one sw cfg td) (t # ts) (sm, f)) = ?h" by (simp add: g)
  from redispatch_one_sends[of sw cfg td t sm f] show ?case
  proof
    assume "fl_sent (snd (redispatch_one sw cfg td t (sm, f))) = fl_sent f"
    then show ?thesis using reqs unfolding e by (auto simp: g)
  next
    assume "\<exists>req. fl_sent (snd (redispatch_one sw cfg td t (sm, f))) = fl_sent f @ [req] \<and> dr_task_id req = t_id t \<and>
      td \<le> sw_pending_now sw - t_created_at t \<and> dependencies_completed (t_dependency_ids t) (fl_store f) \<and>
      \<not> (rc_max_dispatch_retries cfg > 0 \<and> t_retry_count t \<ge> rc_max_dispatch_retries cfg)"
    then obtain req where req: "fl_sent g = fl_sent f @ [req]" "dr_task_id req = t_id t"
        "td \<le> sw_pending_now sw - t_created_at t" "dependencies_completed (t_dependency_ids t) (fl_store f)"
        "\<not> (rc_max_dispatch_retries cfg > 0 \<and> t_retry_count t \<ge> rc_max_dispatch_retries cfg)" by (auto simp: g)
    have "\<forall>d \<in> set (t_dependency_ids t). completed_in (fl_store ?h) d"
      using req(4) advances_completed[OF advances_trans[OF adv after]] by (simp add: dependencies_iff)
    then show ?thesis using reqs req unfolding e by (intro exI[of _ "req # reqs"]) auto
  qed
qed simp

text \<open>
  C9. What a sweep sends: without the lease it changes nothing; otherwise every request is for a task
  that was pending when the sweep began, is at least \<open>stale_after\<close> old, has dispatch attempts left
  (when retries are limited), and whose dependencies are all completed, then and at the end.
\<close>

theorem sweep_sound:
  assumes "tables_ok (fl_store (re_fleet rc))" "reconcile_once conv sw cfg rc = (sm, rc')"
  shows "(\<not> allows (sw_env sw) AtEntry \<longrightarrow> rc' = rc) \<and>
    (\<exists>reqs. fl_sent (re_fleet rc') = fl_sent (re_fleet rc) @ reqs \<and>
       (\<forall>r \<in> set reqs. \<exists>t. hm_get (ms_tasks (fl_store (re_fleet rc))) (dr_task_id r) = Some t \<and>
          t_status t = Pending \<and> conv_or conv 60 (rc_stale_after cfg) \<le> sw_pending_now sw - t_created_at t \<and>
          (rc_max_dispatch_retries cfg = 0 \<or> t_retry_count t < rc_max_dispatch_retries cfg) \<and>
          (\<forall>d \<in> set (t_dependency_ids t). completed_in (fl_store (re_fleet rc')) d)))"
proof (cases "\<exists>ts. allows (sw_env sw) AtEntry \<and>
    list_tasks (default_task_filter\<lparr>fi_status := Some FPending, fi_limit := max_pending_scan\<rparr>) (fl_store (re_fleet rc)) = Inr ts")
  case False
  then have "rc' = rc" using assms(2)
    by (auto simp: reconcile_once_def Let_def split: if_splits sum.splits)
  then show ?thesis by simp
next
  case True
  let ?fi = "default_task_filter\<lparr>fi_status := Some FPending, fi_limit := max_pending_scan\<rparr>"
  let ?td = "conv_or conv 60 (rc_stale_after cfg)"
  let ?f = "re_fleet rc"
  from True obtain ts where ts: "allows (sw_env sw) AtEntry" "list_tasks ?fi (fl_store ?f) = Inr ts" by blast
  have listed: "\<forall>t \<in> set ts. hm_get (ms_tasks (fl_store ?f)) (t_id t) = Some t \<and> task_matches ?fi t"
    using list_tasks_spec[OF assms(1) ts(2)] by blast
  let ?a = "fold (redispatch_one sw cfg ?td) ts (empty_summary, ?f)"
  let ?b = "reap_stale_dispatched conv sw cfg ?a"
  let ?c = "reap_orphan_sessions sw cfg ?b"
  have f': "re_fleet rc' = snd (snd (report_unacked_commands conv sw cfg (re_unacked_reported rc, ?c)))"
    using assms(2) ts by (auto simp: reconcile_once_def Let_def redispatch_stale_def split: prod.splits)
  have sent: "fl_sent (re_fleet rc') = fl_sent (snd ?a)"
    using report_frame[of "(re_unacked_reported rc, ?c)" conv sw cfg] reap_orphans_sent[of sw cfg ?b]
      reap_stale_sent[of conv sw cfg ?a] by (simp add: f' only_cancels_def)
  have "fl_store (re_fleet rc') = fl_store (snd (snd ?b))"
    using report_frame[of "(re_unacked_reported rc, ?c)" conv sw cfg] reap_orphans_sent[of sw cfg ?b]
    by (simp add: f' only_cancels_def)
  then have adv: "advances (fl_store (snd ?a)) (fl_store (re_fleet rc'))" using lifecycle.R_reap_stale[of ?a conv sw cfg] by simp
  obtain reqs where reqs: "fl_sent (snd ?a) = fl_sent ?f @ reqs"
      "\<forall>r \<in> set reqs. \<exists>t \<in> set ts. dr_task_id r = t_id t \<and> ?td \<le> sw_pending_now sw - t_created_at t \<and>
       \<not> (rc_max_dispatch_retries cfg > 0 \<and> t_retry_count t \<ge> rc_max_dispatch_retries cfg) \<and>
       (\<forall>d \<in> set (t_dependency_ids t). completed_in (fl_store (snd ?a)) d)"
    using redispatch_sends[of ts ?f ?f sw cfg ?td empty_summary] listed by auto
  have "\<exists>t. hm_get (ms_tasks (fl_store ?f)) (dr_task_id r) = Some t \<and>
          t_status t = Pending \<and> ?td \<le> sw_pending_now sw - t_created_at t \<and>
          (rc_max_dispatch_retries cfg = 0 \<or> t_retry_count t < rc_max_dispatch_retries cfg) \<and>
          (\<forall>d \<in> set (t_dependency_ids t). completed_in (fl_store (re_fleet rc')) d)" if "r \<in> set reqs" for r
  proof -
    from reqs(2) that obtain t where t: "t \<in> set ts" "dr_task_id r = t_id t" "?td \<le> sw_pending_now sw - t_created_at t"
        "\<not> (rc_max_dispatch_retries cfg > 0 \<and> t_retry_count t \<ge> rc_max_dispatch_retries cfg)"
        "\<forall>d \<in> set (t_dependency_ids t). completed_in (fl_store (snd ?a)) d" by blast
    have "t_status t = Pending" using listed t(1)
      by (auto simp: task_matches_def status_matches_def default_task_filter_def split: task_status.splits)
    moreover have "\<forall>d \<in> set (t_dependency_ids t). completed_in (fl_store (re_fleet rc')) d"
      using t(5) advances_completed[OF adv] by blast
    moreover have "rc_max_dispatch_retries cfg = 0 \<or> t_retry_count t < rc_max_dispatch_retries cfg"
      using t(4) by (simp add: not_le word_gt_0)
    ultimately show ?thesis using t listed by (intro exI[of _ t]) auto
  qed
  moreover have "fl_sent (re_fleet rc') = fl_sent ?f @ reqs" using sent reqs(1) by simp
  ultimately show ?thesis using ts(1) by blast
qed

lemma sweep_sound_witness:
  "\<exists>sm rc'. reconcile_once ns_conv calm_sweep default_reconcile_config
      \<lparr> re_fleet = idle_fleet one_task_store, re_unacked_reported = {} \<rparr> = (sm, rc') \<and>
    (\<exists>reqs. fl_sent (re_fleet rc') = reqs \<and> (\<forall>r \<in> set reqs. dr_task_id r = TaskId 1))"
proof -
  let ?rc = "\<lparr> re_fleet = idle_fleet one_task_store, re_unacked_reported = {} \<rparr>"
  have ok: "tables_ok (fl_store (re_fleet ?rc))"
    by (simp add: tables_ok_def empty_store_def keyed_def hm_ok_def new_worker_def from_request_def Let_def)
  obtain sm rc' where r: "reconcile_once ns_conv calm_sweep default_reconcile_config ?rc = (sm, rc')" by fastforce
  from conjunct2[OF sweep_sound[OF ok r]] obtain reqs where reqs: "fl_sent (re_fleet rc') = fl_sent (re_fleet ?rc) @ reqs"
      "\<forall>r \<in> set reqs. \<exists>t. hm_get (ms_tasks (fl_store (re_fleet ?rc))) (dr_task_id r) = Some t \<and>
          t_status t = Pending \<and> conv_or ns_conv 60 (rc_stale_after default_reconcile_config) \<le> sw_pending_now calm_sweep - t_created_at t \<and>
          (rc_max_dispatch_retries default_reconcile_config = 0 \<or> t_retry_count t < rc_max_dispatch_retries default_reconcile_config) \<and>
          (\<forall>d \<in> set (t_dependency_ids t). completed_in (fl_store (re_fleet rc')) d)" by (elim exE conjE)
  have "dr_task_id q = TaskId 1" if "q \<in> set reqs" for q
  proof -
    from reqs(2) that obtain t where "hm_get (ms_tasks (fl_store (re_fleet ?rc))) (dr_task_id q) = Some t" by blast
    then show ?thesis by (simp add: hm_get_def split: if_splits)
  qed
  then have "\<exists>reqs. fl_sent (re_fleet rc') = reqs \<and> (\<forall>r \<in> set reqs. dr_task_id r = TaskId 1)"
    using reqs(1) by simp
  then show ?thesis using r by blast
qed

end
