(* ===== verification/Template_Claims.thy ===== *)
theory Template_Claims
  imports Template_Store "HOL-Library.Multiset"
begin

text \<open>
  What the template tables guarantee over histories of template and agent calls: revisions are
  append-only, every pin names a revision of its template, a template is retired only under its
  current dependents.
\<close>

section \<open>Histories\<close>

datatype template_call =
    TplCreate agent_template
  | TplStatus datetime agent_template_id agent_template_status
  | TplRetire datetime agent_template_id string
  | TplRevise agent_template_revision_id datetime agent_template_id agent_template_body "string option"
  | TplRevoke datetime agent_template_revision_id
  | TplAgent agent_call

fun template_exec ::
    "(duration \<Rightarrow> timedelta option) \<Rightarrow> (string \<Rightarrow> string) \<Rightarrow> (agent_id \<Rightarrow> string) \<Rightarrow> template_call \<Rightarrow> mem_store \<Rightarrow> mem_store" where
  "template_exec conv sha sh (TplCreate t) s = snd (create_agent_template t s)"
| "template_exec conv sha sh (TplStatus now i st) s = snd (update_agent_template_status now i st s)"
| "template_exec conv sha sh (TplRetire now i expected) s = snd (retire_agent_template sha sh now i expected s)"
| "template_exec conv sha sh (TplRevise new_id now i body author) s = snd (create_agent_template_revision sha new_id now i body author s)"
| "template_exec conv sha sh (TplRevoke now i) s = snd (revoke_agent_template_revision now i s)"
| "template_exec conv sha sh (TplAgent k) s = agent_exec conv k s"

abbreviation template_run ::
    "(duration \<Rightarrow> timedelta option) \<Rightarrow> (string \<Rightarrow> string) \<Rightarrow> (agent_id \<Rightarrow> string) \<Rightarrow> template_call list \<Rightarrow> mem_store \<Rightarrow> mem_store" where
  "template_run conv sha sh ks s \<equiv> fold (template_exec conv sha sh) ks s"

text \<open>A revision later: revoking is all that can happen to it, once.\<close>

definition kept_revision :: "agent_template_revision \<Rightarrow> agent_template_revision \<Rightarrow> bool" where
  "kept_revision r r' \<longleftrightarrow> rev_id r' = rev_id r \<and> rev_template_id r' = rev_template_id r \<and>
     rev_content_revision r' = rev_content_revision r \<and> rev_content_hash r' = rev_content_hash r \<and>
     rev_body r' = rev_body r \<and> rev_created_by r' = rev_created_by r \<and> rev_created_at r' = rev_created_at r \<and>
     (rev_revoked_at r \<noteq> None \<longrightarrow> rev_revoked_at r' = rev_revoked_at r)"

lemma kept_revision_refl [simp]: "kept_revision r r"
  by (simp add: kept_revision_def)

lemma kept_revision_trans: "kept_revision a b \<Longrightarrow> kept_revision b c \<Longrightarrow> kept_revision a c"
  by (auto simp: kept_revision_def)

definition revises :: "template_call \<Rightarrow> agent_template_revision_id \<Rightarrow> bool" where
  "revises k i \<longleftrightarrow> (\<exists>now t body author. k = TplRevise i now t body author)"

lemma agent_exec_revisions: "ms_agent_template_revisions (agent_exec conv k s) = ms_agent_template_revisions s"
proof -
  have "ms_agent_template_revisions (snd (mem_lease_call conv l s)) = ms_agent_template_revisions s" for l
    by (cases l) (auto simp: lease_op_defs Let_def split: option.split)
  moreover have "ms_agent_template_revisions (snd (transition_task now i st origin fence s)) = ms_agent_template_revisions s"
    for now i st origin fence
    by (auto simp: transition_task_def compare_and_set_task_status_def Let_def split: option.split)
  ultimately have "ms_agent_template_revisions (task_exec conv t s) = ms_agent_template_revisions s" for t
    by (cases t) (auto simp: insert_task_idempotent_def put_task_def
        increment_task_retry_count_def record_task_acp_session_def record_task_skill_snapshot_def
        update_task_checkpoint_def delete_task_unfold remove_task_def Let_def split: option.split prod.split if_split)
  then show ?thesis
    by (cases k) (auto simp: create_agent_def assign_agent_worker_def set_agent_desired_status_def update_agent_status_def
        ack_agent_commands_def apply_agent_observations_def delete_worker_def Let_def case_prod_beta split: option.split)
qed

lemma template_exec_revision:
  assumes "hm_get (ms_agent_template_revisions s) i = Some r" "\<not> revises k i"
  shows "\<exists>r'. hm_get (ms_agent_template_revisions (template_exec conv sha sh k s)) i = Some r' \<and> kept_revision r r'"
proof (cases k)
  case (TplRevise new_id now t body author)
  then have "new_id \<noteq> i" using assms(2) by (auto simp: revises_def)
  then show ?thesis using TplRevise assms(1)
    by (auto simp: create_agent_template_revision_def Let_def split: option.split)
next
  case (TplRevoke now j)
  then show ?thesis using assms(1)
    by (auto simp: revoke_agent_template_revision_def kept_revision_def split: option.split)
qed (use assms(1) in \<open>auto simp: create_agent_template_def update_agent_template_status_def retire_agent_template_def
    agent_exec_revisions Let_def split: option.split\<close>)

text \<open>
  Revisions are append-only: over any history of template and agent calls in which no new
  revision reuses its id, a stored revision stays, with the same template, number, body and hash; and
  once revoked it stays revoked, with the time of its first revocation.
\<close>

theorem revisions_append_only:
  assumes "hm_get (ms_agent_template_revisions s) i = Some r" "\<forall>k \<in> set ks. \<not> revises k i"
  shows "\<exists>r'. hm_get (ms_agent_template_revisions (template_run conv sha sh ks s)) i = Some r' \<and> kept_revision r r'"
  using assms
proof (induction ks arbitrary: s r)
  case (Cons k ks)
  obtain r1 where r1: "hm_get (ms_agent_template_revisions (template_exec conv sha sh k s)) i = Some r1" "kept_revision r r1"
    using template_exec_revision[OF Cons.prems(1), of k conv sha sh] Cons.prems(2) by auto
  from Cons.IH[OF r1(1)] Cons.prems(2) show ?case using kept_revision_trans[OF r1(2)] by auto
qed simp

abbreviation shell_body :: agent_template_body where
  "shell_body \<equiv> \<lparr> tb_role_prompt = ''p'', tb_tools = [''b'', ''a''], tb_skills = [] \<rparr>"

abbreviation template_store :: mem_store where
  "template_store \<equiv> empty_store\<lparr>ms_agent_templates :=
     [(AgentTemplateId 1, (new_template (AgentTemplateId 1) 0 None ''t'')\<lparr>at_status := TPublished\<rparr>)],
     ms_agent_template_revisions := [(AgentTemplateRevisionId 1,
       \<lparr> rev_id = AgentTemplateRevisionId 1, rev_template_id = AgentTemplateId 1, rev_content_revision = 1,
         rev_content_hash = ''h'', rev_body = shell_body, rev_revoked_at = None, rev_created_by = None,
         rev_created_at = 0 \<rparr>)]\<rparr>"

lemma revisions_append_only_witness:
  "\<exists>r'. hm_get (ms_agent_template_revisions (template_run (\<lambda>_. None) (\<lambda>b. b) (\<lambda>_. ''x'')
      [TplRevise (AgentTemplateRevisionId 2) 5 (AgentTemplateId 1) shell_body None, TplRevoke 6 (AgentTemplateRevisionId 1)]
      template_store)) (AgentTemplateRevisionId 1) = Some r' \<and> rev_content_revision r' = 1 \<and> rev_body r' = shell_body"
proof -
  have "\<exists>r. hm_get (ms_agent_template_revisions template_store) (AgentTemplateRevisionId 1) = Some r \<and>
      rev_content_revision r = 1 \<and> rev_body r = shell_body" by (simp add: hm_get_def)
  then obtain r where r: "hm_get (ms_agent_template_revisions template_store) (AgentTemplateRevisionId 1) = Some r"
      "rev_content_revision r = 1" "rev_body r = shell_body" by blast
  have "\<forall>k \<in> set [TplRevise (AgentTemplateRevisionId 2) 5 (AgentTemplateId 1) shell_body None,
      TplRevoke 6 (AgentTemplateRevisionId 1)]. \<not> revises k (AgentTemplateRevisionId 1)"
    by (simp add: revises_def)
  from revisions_append_only[OF r(1) this, of "\<lambda>_. None" "\<lambda>b. b" "\<lambda>_. ''x''"] r(2,3)
  show ?thesis unfolding kept_revision_def by auto
qed

section \<open>New revisions\<close>

lemma fold_max_bounds: "\<forall>x \<in> set (n # ns). x \<le> fold max ns (n :: int)" "fold max ns n \<in> set (n # ns)"
proof (induction ns arbitrary: n)
  case (Cons m ns)
  { case 1
    have "max m n \<le> fold max ns (max m n)" "\<forall>x \<in> set ns. x \<le> fold max ns (max m n)"
      using Cons.IH(1)[of "max m n"] by simp_all
    then show ?case by auto }
  { case 2
    show ?case using Cons.IH(2)[of "max m n"] by (auto simp: max_def split: if_splits) }
qed simp_all

text \<open>
  A new revision: it is accepted exactly when the template exists and is a draft, published or
  deprecated; it then carries the normalized body, its hash, and a number above every earlier one of
  the same template (while their numbers leave room in 32 bits), and is stored unrevoked under its id.
\<close>

theorem new_revision:
  assumes "create_agent_template_revision sha new_id now i body author s = (res, s')"
    "\<forall>r \<in> set (revisions_of i s). 0 < rev_content_revision r \<and> rev_content_revision r < i32_max"
  shows "(is_ok res \<longleftrightarrow> (\<exists>t. hm_get (ms_agent_templates s) i = Some t \<and> at_status t \<notin> {TRetired, TDiscarded})) \<and>
    (\<not> is_ok res \<longrightarrow> s' = s) \<and>
    (\<forall>r. res = Inr r \<longrightarrow> hm_get (ms_agent_template_revisions s') new_id = Some r \<and> rev_body r = normalized body \<and>
       rev_content_hash r = sha (content_bytes (normalized body)) \<and> \<not> is_revoked r \<and> 0 < rev_content_revision r \<and>
       (\<forall>q \<in> set (revisions_of i s). rev_content_revision q < rev_content_revision r))"
proof -
  have above: "0 < next_revision i s \<and> (\<forall>q \<in> set (revisions_of i s). rev_content_revision q < next_revision i s)"
  proof (cases "map rev_content_revision (revisions_of i s)")
    case Nil
    then show ?thesis by (simp add: next_revision_def i32_succ_def i32_max_def)
  next
    case (Cons n ns)
    have le: "\<forall>q \<in> set (revisions_of i s). rev_content_revision q \<le> fold max ns n"
      using fold_max_bounds(1)[of n ns] by (metis Cons image_eqI list.set_map)
    have "fold max ns n \<in> rev_content_revision ` set (revisions_of i s)"
      using fold_max_bounds(2)[of ns n] by (metis Cons list.set_map)
    then have "0 < fold max ns n" "fold max ns n < i32_max" using assms(2) by auto
    then have "next_revision i s = fold max ns n + 1"
      by (simp add: next_revision_def Cons i32_succ_def)
    then show ?thesis using le \<open>0 < fold max ns n\<close> by force
  qed
  show ?thesis
  proof (cases "\<exists>t. hm_get (ms_agent_templates s) i = Some t \<and> accepts_new_revisions (at_status t)")
    case True
    then obtain t where t: "hm_get (ms_agent_templates s) i = Some t" "accepts_new_revisions (at_status t)" by blast
    then have ok: "at_status t \<notin> {TRetired, TDiscarded}" by (auto simp: accepts_new_revisions_def)
    show ?thesis using assms(1) t above ok
      by (auto simp: create_agent_template_revision_def content_hash_def is_revoked_def Let_def)
  next
    case False
    then have "\<not> (\<exists>t. hm_get (ms_agent_templates s) i = Some t \<and> at_status t \<notin> {TRetired, TDiscarded})"
      by (auto simp: accepts_new_revisions_def) (metis agent_template_status.exhaust)
    then show ?thesis using assms(1) False
      by (auto simp: create_agent_template_revision_def split: option.splits if_splits)
  qed
qed

lemma new_revision_witness:
  "\<exists>r s'. create_agent_template_revision (\<lambda>b. b) (AgentTemplateRevisionId 2) 5 (AgentTemplateId 1) shell_body None template_store = (Inr r, s') \<and>
     1 < rev_content_revision r"
proof -
  obtain res s' where c: "create_agent_template_revision (\<lambda>b. b) (AgentTemplateRevisionId 2) 5 (AgentTemplateId 1) shell_body None template_store = (res, s')"
    by fastforce
  have nums: "\<forall>r \<in> set (revisions_of (AgentTemplateId 1) template_store). 0 < rev_content_revision r \<and> rev_content_revision r < i32_max"
    by (simp add: revisions_of_def hm_values_def i32_max_def)
  have "\<exists>t. hm_get (ms_agent_templates template_store) (AgentTemplateId 1) = Some t \<and> at_status t \<notin> {TRetired, TDiscarded}"
    by (simp add: hm_get_def)
  with new_revision[OF c nums] have "is_ok res" by blast
  then obtain r where r: "res = Inr r" by (cases res) auto
  have "\<exists>q \<in> set (revisions_of (AgentTemplateId 1) template_store). rev_content_revision q = 1"
    by (simp add: revisions_of_def hm_values_def)
  then have "1 < rev_content_revision r" using new_revision[OF c nums] r by auto
  then show ?thesis using c r by blast
qed

section \<open>Retiring a template\<close>

lemma dependents_bytes_inj:
  assumes "dependents_bytes sh xs = dependents_bytes sh ys" "inj sh"
  shows "mset xs = mset ys"
proof -
  have "hash_list ''agents'' (sort (map sh xs)) @ [] = hash_list ''agents'' (sort (map sh ys)) @ []"
    using assms(1) by (simp add: dependents_bytes_def)
  then have "sort (map sh xs) = sort (map sh ys)" using hash_list_inj by blast
  then have "mset (map sh xs) = mset (map sh ys)" by (metis mset_sort)
  then have "image_mset sh (mset xs) = image_mset sh (mset ys)" by simp
  then show ?thesis by (rule injD[OF multiset.inj_map[OF assms(2)]])
qed

text \<open>
  A template is retired only under the dependents the caller was shown: the agents hashed by the
  caller are, up to order, exactly the agents now pinned to the template (unless the hash collides on
  the two lists); otherwise nothing changes.
\<close>

theorem retire_needs_current_dependents:
  assumes "retire_agent_template sha sh now i (dependent_set_hash sha sh shown) s = (r, s')" "inj sh"
    "sha (dependents_bytes sh (dependents i s)) = sha (dependents_bytes sh shown) \<Longrightarrow>
       dependents_bytes sh (dependents i s) = dependents_bytes sh shown"
  shows "(r = Inr True \<longleftrightarrow> hm_contains (ms_agent_templates s) i \<and> mset shown = mset (dependents i s)) \<and>
    (r = Inr True \<longrightarrow> map_option at_status (hm_get (ms_agent_templates s') i) = Some TRetired) \<and>
    (r \<noteq> Inr True \<longrightarrow> s' = s)"
proof -
  have "dependent_set_hash sha sh (dependents i s) = dependent_set_hash sha sh shown \<longleftrightarrow> mset shown = mset (dependents i s)"
  proof
    assume "dependent_set_hash sha sh (dependents i s) = dependent_set_hash sha sh shown"
    then have "dependents_bytes sh (dependents i s) = dependents_bytes sh shown"
      using assms(3) by (simp add: dependent_set_hash_def)
    from dependents_bytes_inj[OF this assms(2)] show "mset shown = mset (dependents i s)" by simp
  next
    assume "mset shown = mset (dependents i s)"
    then have "sort (map sh (dependents i s)) = sort (map sh shown)"
      by (metis mset_map sorted_list_of_multiset_mset)
    then show "dependent_set_hash sha sh (dependents i s) = dependent_set_hash sha sh shown"
      by (simp add: dependent_set_hash_def dependents_bytes_def)
  qed
  then show ?thesis using assms(1)
    by (auto simp: retire_agent_template_def Let_def split: if_splits)
qed

abbreviation show_agent :: "agent_id \<Rightarrow> string" where
  "show_agent i \<equiv> (case i of AgentId u \<Rightarrow> replicate (unat u) CHR ''a'')"

lemma retire_needs_current_dependents_witness:
  "\<exists>s'. retire_agent_template (\<lambda>b. b) show_agent 5 (AgentTemplateId 1) (dependent_set_hash (\<lambda>b. b) show_agent []) template_store
     = (Inr True, s') \<and> map_option at_status (hm_get (ms_agent_templates s') (AgentTemplateId 1)) = Some TRetired"
proof -
  obtain r s' where c: "retire_agent_template (\<lambda>b. b) show_agent 5 (AgentTemplateId 1)
      (dependent_set_hash (\<lambda>b. b) show_agent []) template_store = (r, s')" by fastforce
  have "inj show_agent"
    by (rule injI) (auto simp: word_unat_eq_iff split: agent_id.splits dest: arg_cong[where f = length])
  note claim = retire_needs_current_dependents[OF c this]
  have "dependents (AgentTemplateId 1) template_store = []" by (simp add: dependents_def hm_values_def empty_store_def)
  moreover have "hm_contains (ms_agent_templates template_store) (AgentTemplateId 1)"
    by (simp add: hm_get_def)
  ultimately have "r = Inr True" using claim by simp
  then show ?thesis using claim c by simp
qed

section \<open>Pins\<close>

text \<open>Every pin names a stored revision of the template it names.\<close>

definition pins_of :: "(agent_id, agent) hmap \<Rightarrow> agent_template_pin option set" where
  "pins_of m = (\<lambda>(_, a). ag_template_pin a) ` set m"

definition pins_ok :: "mem_store \<Rightarrow> bool" where
  "pins_ok s \<longleftrightarrow> (\<forall>p. Some p \<in> pins_of (ms_agents s) \<longrightarrow>
     (\<exists>r. hm_get (ms_agent_template_revisions s) (pin_revision_id p) = Some r \<and> rev_template_id r = pin_template_id p))"

lemma pins_adjust: "(\<And>a. ag_template_pin (f a) = ag_template_pin a) \<Longrightarrow> pins_of (hm_adjust k f m) = pins_of m"
  unfolding pins_of_def hm_adjust_def by (induction m) auto

lemma pins_map_values: "(\<And>a. ag_template_pin (f a) = ag_template_pin a) \<Longrightarrow> pins_of (hm_map_values f m) = pins_of m"
  unfolding pins_of_def hm_map_values_def by (induction m) auto

lemma pins_insert: "pins_of (hm_insert k a m) \<subseteq> insert (ag_template_pin a) (pins_of m)"
  unfolding pins_of_def hm_insert_def by (induction m) auto

lemma pins_ack_loop: "pins_of (snd (ack_loop w ks n m)) = pins_of m"
  by (induction ks arbitrary: n m) (auto simp: pins_adjust ack_one_def split: option.split)

lemma pins_observe_loop: "pins_of (snd (observe_loop now w obs n m)) = pins_of m"
  by (induction obs arbitrary: n m) (auto simp: pins_adjust observe_one_def split: option.split)

lemma pins_agent_exec:
  assumes "p \<in> pins_of (ms_agents (agent_exec conv k s))"
  shows "p \<in> pins_of (ms_agents s) \<or>
    (\<exists>a. k = AcCreate a \<and> p = ag_template_pin a \<and> (\<forall>pin. p = Some pin \<longrightarrow> pin_error pin s = None))"
proof (cases k)
  case (AcCreate a)
  have "ag_template_pin (without_placement a) = ag_template_pin a" by (simp add: without_placement_def)
  then show ?thesis using assms AcCreate pins_insert
    by (fastforce simp: create_agent_def Let_def split: if_splits option.splits)
next
  case (AcAssign now now' i w fence)
  have "ag_template_pin (place now now' w fence a) = ag_template_pin a" for a by (simp add: place_def Let_def)
  then show ?thesis using assms AcAssign
    by (auto simp: assign_agent_worker_def pins_adjust Let_def split: if_splits option.splits)
next
  case (AcStop now now' i)
  have "ag_template_pin (set_status now now' st a) = ag_template_pin a" for st a by (simp add: set_status_def Let_def)
  then show ?thesis using assms AcStop by (auto simp: update_agent_status_def pins_adjust split: option.splits)
next
  case (AcDesire now now' i d fence)
  have "ag_template_pin (command now now' d fence a) = ag_template_pin a" for a by (simp add: command_def Let_def)
  then show ?thesis using assms AcDesire
    by (auto simp: set_agent_desired_status_def pins_adjust split: if_splits option.splits)
next
  case (AcAck w acks)
  then show ?thesis using assms by (simp add: ack_agent_commands_def case_prod_beta pins_ack_loop)
next
  case (AcObserve now w obs)
  have "ag_template_pin (unobserve w obs a) = ag_template_pin a" for a by (simp add: unobserve_def)
  then show ?thesis using assms AcObserve
    by (simp add: apply_agent_observations_def case_prod_beta pins_observe_loop pins_map_values Let_def)
next
  case (AcDeleteWorker w)
  have "ag_template_pin (if ag_worker_id a = Some w then clear_placement a else a) = ag_template_pin a" for a
    by (simp add: clear_placement_def)
  then show ?thesis using assms AcDeleteWorker
    by (auto simp: delete_worker_def pins_map_values split: option.splits)
next
  case (AcTask t)
  then show ?thesis using assms by simp
qed

lemma template_exec_agents: "\<forall>c. k \<noteq> TplAgent c \<Longrightarrow> ms_agents (template_exec conv sha sh k s) = ms_agents s"
  by (cases k) (auto simp: create_agent_template_def update_agent_template_status_def retire_agent_template_def
      create_agent_template_revision_def revoke_agent_template_revision_def Let_def split: option.split)

text \<open>
  Pins stay valid: starting from a state where every agent's pin names a stored revision of the
  template it names, every history of template and agent calls in which new revisions take fresh ids
  keeps it so; deleting nothing, revoking or retiring never leaves a dangling pin.
\<close>

theorem pins_stay_valid:
  assumes "pins_ok s" "\<forall>k \<in> set ks. \<forall>i. revises k i \<longrightarrow> hm_get (ms_agent_template_revisions s) i = None"
    "\<forall>i. length (filter (\<lambda>k. revises k i) ks) \<le> 1"
  shows "pins_ok (template_run conv sha sh ks s)"
  using assms
proof (induction ks arbitrary: s)
  case (Cons k ks)
  let ?s' = "template_exec conv sha sh k s"
  have fresh: "hm_get (ms_agent_template_revisions s) i = None" if "revises k i" for i
    using Cons.prems(2) that by simp
  have kept: "\<exists>r'. hm_get (ms_agent_template_revisions ?s') i = Some r' \<and> kept_revision r r'"
    if "hm_get (ms_agent_template_revisions s) i = Some r" for i r
    using template_exec_revision[OF that] fresh[of i] that by fastforce
  have "pins_ok ?s'"
    unfolding pins_ok_def
  proof (intro allI impI)
    fix p assume p: "Some p \<in> pins_of (ms_agents ?s')"
    have "\<exists>r. hm_get (ms_agent_template_revisions s) (pin_revision_id p) = Some r \<and> rev_template_id r = pin_template_id p"
    proof (cases "Some p \<in> pins_of (ms_agents s)")
      case True
      then show ?thesis using Cons.prems(1) by (simp add: pins_ok_def)
    next
      case False
      then have "\<exists>c. k = TplAgent c" using p template_exec_agents[of k conv sha sh s] by (cases "\<exists>c. k = TplAgent c") auto
      then obtain c where c: "k = TplAgent c" by blast
      then have "pin_error p s = None" using pins_agent_exec[of "Some p" conv c s] p False by auto
      then show ?thesis by (auto simp: pin_error_def split: option.splits if_splits)
    qed
    then show "\<exists>r. hm_get (ms_agent_template_revisions ?s') (pin_revision_id p) = Some r \<and> rev_template_id r = pin_template_id p"
      using kept by (fastforce simp: kept_revision_def)
  qed
  moreover have "\<forall>k' \<in> set ks. \<forall>i. revises k' i \<longrightarrow> hm_get (ms_agent_template_revisions ?s') i = None"
  proof (intro ballI allI impI)
    fix k' i assume k': "k' \<in> set ks" "revises k' i"
    then have "filter (\<lambda>k. revises k i) ks \<noteq> []" by (auto simp: filter_empty_conv)
    then have "\<not> revises k i" using Cons.prems(3)[rule_format, of i] by (cases "filter (\<lambda>k. revises k i) ks") auto
    moreover have "hm_get (ms_agent_template_revisions s) i = None" using Cons.prems(2) k' by simp
    ultimately show "hm_get (ms_agent_template_revisions ?s') i = None"
      by (cases k) (auto simp: create_agent_template_def update_agent_template_status_def retire_agent_template_def
          create_agent_template_revision_def revoke_agent_template_revision_def agent_exec_revisions revises_def Let_def
          split: option.split)
  qed
  moreover have "\<forall>i. length (filter (\<lambda>k. revises k i) ks) \<le> 1"
    using Cons.prems(3) by (metis (mono_tags, lifting) filter.simps(2) impossible_Cons le_trans nle_le)
  ultimately show ?case using Cons.IH[of ?s'] by simp
qed simp

lemma pins_stay_valid_witness:
  "pins_ok (template_run (\<lambda>_. None) (\<lambda>b. b) show_agent
     [TplAgent (AcCreate (with_template_pin \<lparr> pin_template_id = AgentTemplateId 1, pin_revision_id = AgentTemplateRevisionId 1 \<rparr> (plain_agent 1 ''a''))),
      TplRevoke 6 (AgentTemplateRevisionId 1)] template_store)"
  by (rule pins_stay_valid) (auto simp: pins_ok_def pins_of_def empty_store_def revises_def)

end
