(* ===== verification/Spec2Isabelle.thy ===== *)
theory Spec2Isabelle
  imports Payload_Hash Workspace_Path Server_Key Task_Queries Store_History Worker_Enrollment Agent_Placement
    Task_Refinement Agent_Sections Issue_Claims Mcp_Server Base64_Url Api_Confinement Api_Trust Worker_Crash Worker_Fleet
    Breaker Selector Reconcile_Claims Template_Claims Placement Project_Rules Dashboard_Claims
begin

text \<open>
  A verification development for the control plane of grok-fleet-orchestrator.

  The program. Instances of the orchestrator accept tasks (\<open>crates/fleet-cli\<close>, the HTTP API, the MCP
  server and the dashboard are its surfaces), keep everything in one store shared by all instances
  (\<open>crates/fleet-store\<close>: an in-memory store and a PostgreSQL one behind the trait \<open>Store\<close>), choose a
  worker for each task and send the task to it (\<open>crates/fleet-scheduler\<close> over the transport
  \<open>crates/fleet-transport\<close>), and take the worker's events back. A control-plane lease in the store
  elects the instance that may write; every write carries the lease's epoch as a fence. A sweep
  repairs what a crash, a lost worker or a lost event left behind.

  How the code is represented. An operation on the store is a function from its arguments and the
  state \<open>mem_store\<close> to a result (an error on the left, a value on the right) and the state after it;
  every early return is a branch. A \<open>HashMap\<close> is an association list (\<open>Prelude\<close>: \<open>hm_get\<close>,
  \<open>hm_insert\<close>, \<open>hm_adjust\<close>); the locale of map laws is interpreted on these functions. Clock
  readings, fresh ids, digests and the answers of workers are arguments. Machine counters whose
  wrap-around can be seen are words or have the wrap written out (\<open>i64_succ\<close>, \<open>i32_succ\<close>).
  Messages of errors are \<open>Msg\<close> terms holding the format string and its arguments.

  The theories, by part of the program:
  \<^item> Domain model: \<open>Core_Types\<close> (ids, tasks and their status machine, events), \<open>Worker_Model\<close>,
    \<open>Agent_Model\<close> (agents, templates, projects); \<open>Payload_Hash\<close> (\<open>TaskRequest::payload_hash\<close>),
    \<open>Workspace_Path\<close> (\<open>validate_workspace_cwd\<close>), \<open>Server_Key\<close> (\<open>mask_server_key\<close>,
    \<open>split_server_key\<close>).
  \<^item> Store (\<open>crates/fleet-store/src/mem.rs\<close> and the SQL statements of \<open>postgres.rs\<close> whose behaviour is
    compared): \<open>Store_State\<close> (the tables), \<open>Lease_Store\<close>, \<open>Task_Store\<close>, \<open>Worker_Store\<close>,
    \<open>Agent_Store\<close>, \<open>Template_Store\<close>, \<open>Issue_Store\<close>, \<open>Host_Store\<close>. \<open>Task_Sections\<close> and \<open>Agent_Sections\<close> split the calls
    that take several locks into their atomic sections. What the tables promise over histories: \<open>Task_Sections\<close>
    (a task follows its status machine, section by section), \<open>Task_Refinement\<close> (the task table refines an abstract board
    of jobs), \<open>Agent_Sections\<close> (process caps), \<open>Task_Lifecycle\<close> and \<open>Task_Queries\<close> (compare-and-set, idempotency, lists,
    outputs), \<open>Worker_Enrollment\<close> (tokens and credentials), \<open>Agent_Placement\<close> (agents under undisturbed calls,
    commands, observations, archiving), \<open>Template_Claims\<close> (revisions and pins), \<open>Store_History\<close> (an
    instance whose epoch was superseded is powerless). \<open>Fencing\<close> is the contract of a fenced write,
    interpreted on each fenced operation.
  \<^item> Scheduler: \<open>Breaker\<close> (\<open>breaker.rs\<close>), \<open>Selector\<close> (\<open>selector.rs\<close>), \<open>Router\<close> (\<open>router.rs\<close>),
    \<open>Skill_Loader\<close> (\<open>skill_loader.rs\<close>), \<open>Lease_Manager\<close> (\<open>lease.rs\<close> and the observer of
    \<open>state.rs\<close>), \<open>Dispatch_State\<close> and \<open>Dispatcher\<close> (\<open>dispatcher.rs\<close> and the transport's messages),
    \<open>Reconcile\<close> (\<open>reconcile.rs\<close>), \<open>Fleet_Health\<close> (the scan of \<open>health.rs\<close> and the breaker
    synchronisation of \<open>sync.rs\<close>).
  \<^item> Guarantees of the scheduler: \<open>Dispatch_Safety\<close> and \<open>Dispatch_Claims\<close> (a task is sent at most
    once by all instances together; what a dispatch has checked), \<open>Dispatch_Steps\<close> (the locale of
    relations that every elementary update keeps, interpreted on the task lifecycle and on open
    circuits), \<open>Dispatch_Flow\<close> (submission, dependencies, cancellation, waiting),
    \<open>Reconcile_Claims\<close> (the sweep).
  \<^item> Projects and placement: \<open>Project_Rules\<close> (\<open>project_rules.rs\<close>: who may still add work to a project,
    and the archiving of a project against concurrent writers), \<open>Placement\<close> (\<open>placement.rs\<close>: the
    worker a new agent is put on).
  \<^item> Identity and access: \<open>Access_Model\<close> (\<open>auth.rs\<close>, \<open>audit.rs\<close> of \<open>fleet-core\<close>), \<open>Access_Store\<close> (the
    users, roles, sessions, tokens, login attempts and audit events of \<open>mem.rs\<close>; the clean-up of
    \<open>cleanup.rs\<close>), \<open>Access_Rbac\<close> (\<open>rbac.rs\<close>), \<open>Access_Claims\<close> (seeding, effective permissions, the
    first administrator).
  \<^item> Dashboard: \<open>Dashboard_Auth\<close> (session middleware, CSRF, rate limits, login, logout),
    \<open>Dashboard_Accounts\<close> (password reset, e-mail verification, user administration, bootstrap),
    \<open>Dashboard_Claims\<close> (the session gate, rotation, logout, guessing, resets).
  \<^item> Issues: \<open>Issue_Model\<close> (\<open>issue.rs\<close>), \<open>Issue_Dashboard\<close> (the issue handlers of the dashboard),
    \<open>Issue_Claims\<close> (well-formed tables, authorised transitions). A handler makes several store calls; what
    other callers do before the \<open>n\<close>-th is the argument \<open>others n\<close>.
  \<^item> MCP server (\<open>crates/fleet-mcp\<close>): \<open>Mcp_Base\<close> (errors, tools, capabilities, and a JSON argument seen
    through the accessors the code uses), the tools in \<open>Mcp_Issues\<close>, \<open>Mcp_Tasks\<close> (with \<open>task_pins.rs\<close>),
    \<open>Mcp_Fleet\<close> (output, workers, hosts, breaker, tokens) and \<open>Mcp_Agents\<close> (projects and agents),
    \<open>Mcp_Server\<close> (\<open>server.rs\<close>: the launcher's capabilities, requests, the gate in front of the tools).

  \<^item> HTTP API (\<open>crates/fleet-api\<close>) and encrypted credentials (\<open>crates/fleet-credentials\<close>):
    \<open>Api_Base\<close> (errors, configuration, capabilities of \<open>error.rs\<close> and \<open>app.rs\<close>), \<open>Api_Gate\<close> (authentication,
    \<open>cloudflare.rs\<close>), \<open>Base64_Url\<close>, \<open>Credential_Crypto\<close>, the handlers in \<open>Api_Workers\<close> and \<open>Api_Tokens\<close>, and
    \<open>Api_Routes\<close> (the router of \<open>build_app\<close>). A handler works on a \<open>gateway\<close>, the store's tables together; what
    other callers do before its \<open>n\<close>-th call is \<open>av_others en n\<close>. \<open>Api_Claims\<close> shows what a request needs,
    \<open>Api_Confinement\<close> what a worker's credential can reach, \<open>Api_Liveness\<close> how heartbeats and health scans play
    together, \<open>Api_Trust\<close> the issue of tokens, the way of a model's key, and whose signature an identity needs.

  \<^item> Worker daemon (\<open>crates/fleet-worker\<close>): \<open>Worker_Config\<close> (\<open>config.rs\<close>, \<open>error.rs\<close>), \<open>Worker_Agents\<close>
    (\<open>agent_process.rs\<close>: the table of child processes, their records on disk, a round of reconciliation),
    \<open>Worker_Supervision\<close> (what holds of the table over any history), \<open>Worker_Watchdog\<close> (\<open>watchdog.rs\<close>), \<open>Worker_Join\<close>
    (\<open>join.rs\<close>, \<open>grok_process.rs\<close>), \<open>Worker_Client\<close> (\<open>registration.rs\<close>, \<open>runner.rs\<close>). The operating system, the network and
    the clock are arguments; what is done to processes and directories is a log of effects. \<open>Worker_Claims\<close> (one process per
    agent, what a round does), \<open>Worker_Crash\<close> (what the next incarnation finds), \<open>Worker_Fleet\<close> (worker and control plane together).

  Interleaving. A definition of a store call or of a request is the call that nothing disturbs. Many calls of the code are not one
  step: the in-memory store reads a fence under the lock of the leases before it locks the table it writes, deletes a task under
  five locks in turn, reads a worker's process cap before it locks the agents, a template's status before the revisions, and
  looks at the tasks and agents of a project before it archives it; a request handler awaits between its store calls. Where a
  property depends on it, the gaps are in the model:
  \<^item> \<open>.._amid others\<close> is a call with \<open>others\<close> acting in its gaps (\<open>compare_and_set_task_status_amid\<close>, \<open>delete_task_amid\<close>,
    \<open>create_agent_amid\<close>, \<open>assign_agent_worker_amid\<close>, \<open>create_agent_template_revision_amid\<close>,
    \<open>archive_project_if_drained_amid\<close>, \<open>cancel_amid\<close>, \<open>login_amid\<close>, \<open>reset_password_amid\<close>); a lemma shows that without others
    it is the undisturbed call. \<open>task_section\<close>, \<open>agent_section\<close> and \<open>login_step\<close> are the atomic sections of such calls, and a
    list of them is any interleaving: \<open>task_lifecycle\<close>, \<open>task_store_refines_board\<close>, \<open>process_caps_hold\<close> and
    \<open>password_guesses_bounded\<close> hold for every one.
  \<^item> The handlers of the MCP server, the HTTP API, the issues and the project rules, the health scan and the sweep take \<open>others n\<close>
    before their \<open>n\<close>-th store call. A dispatch is split into choosing the worker and claiming and sending in
    \<open>Dispatch_Safety\<close>, whose cluster lets every instance's dispatcher operations and arbitrary other writers alternate.
  \<^item> Histories of calls (\<open>store_run\<close>, \<open>task_run\<close>, \<open>agent_run\<close>, \<open>worker_run\<close>, \<open>template_run\<close>) are sequences of undisturbed
    calls of any number of callers. For the SQL store a call is one statement or transaction. A fence of the in-memory store that is
    superseded between its check and the write of the same call is not covered by the properties over such histories
    (\<open>superseded_epoch_is_powerless\<close> is about calls that start after the grant).
  \<^item> Within one operation of a dispatcher the environment record \<open>env\<close> of \<open>Dispatch_State\<close> gives, at each
    named point of the code, the lease status, the clock and the answers of workers.

  Termination and bounds. Loops over collections are structural recursions. The one loop that waits,
  \<open>Dispatcher::wait_for_task\<close>, is a \<open>partial_function\<close> (\<open>wait_from\<close>), and \<open>wait_returns\<close> proves that
  it ends, with the number of pauses it takes; no definition has a fuel argument. The loops of the worker daemon
  (heartbeats, retries, the watchdog) run over the list of what they meet.

  Not modelled. The other surfaces (command line, and the dashboard beyond its accounts and issues)
  apart from the store and scheduler operations they call; the provisioner (SSH); of the worker daemon the mTLS proxy, the
  collection of host metrics and the command line; TLS and WebSocket
  code, the AEAD cipher and the decoding of JSON Web Tokens (arguments of the model); row decoding and the SQL statements whose in-memory counterpart is modelled; tracing and
  metrics apart from the running-tasks gauge.
\<close>

end
